(* ===== verification/Prelude.thy ===== *)
theory Prelude
  imports Complex_Main
begin

text \<open>
  What the component theories share: the JavaScript values the back end passes around
  (identifiers, timestamps, decimal amounts, nullable strings), its exceptions as values, paging and
  ordering of query results, and the generic list lemmas the invariant proofs use.

  Conventions of the whole development:
  \<^item> A service method becomes a function from its arguments and the state it touches to a pair of a
    result and the new state.  The result is a sum: \<open>Inl e\<close> for a rejected promise (the thrown
    exception), \<open>Inr v\<close> for a resolved one.  The state is returned in both cases, because a write
    that happened before the exception stays in the database.
  \<^item> \<open>Date.now()\<close> and \<open>new Date()\<close> are an argument \<open>now\<close> in milliseconds; generated UUIDs are
    arguments too.
  \<^item> A nullable column or an optional DTO field is an \<open>option\<close>; \<open>None\<close> is \<open>null\<close> and
    \<open>undefined\<close> (the code never tells the two apart, except where a definition says so).
  \<^item> Logger calls are not modelled.
\<close>

named_theorems frame_simps \<open>which fields of a state an operation leaves alone\<close>

subsection \<open>Values\<close>

type_synonym id = string
type_synonym time = int

text \<open>A \<open>decimal(p, 7)\<close> column, as the whole number of its units of the seventh decimal place.\<close>

type_synonym decimal7 = int

text \<open>The NestJS HTTP exceptions the services throw, and the two JavaScript errors.\<close>

datatype exn =
    BadRequestException string
  | NotFoundException string
  | ForbiddenException string
  | ConflictException string
  | UnauthorizedException string
  | PayloadTooLargeException string
  | WsException string
  | JsError string
  | JsTypeError string

text \<open>The message of an exception.\<close>

fun message_of :: "exn \<Rightarrow> string" where
  "message_of (BadRequestException m) = m"
| "message_of (NotFoundException m) = m"
| "message_of (ForbiddenException m) = m"
| "message_of (ConflictException m) = m"
| "message_of (UnauthorizedException m) = m"
| "message_of (PayloadTooLargeException m) = m"
| "message_of (WsException m) = m"
| "message_of (JsError m) = m"
| "message_of (JsTypeError m) = m"

type_synonym ('s, 'a) outcome = "(exn + 'a) \<times> 's"

abbreviation result :: "('s, 'a) outcome \<Rightarrow> exn + 'a" where
  "result \<equiv> fst"

abbreviation state_of :: "('s, 'a) outcome \<Rightarrow> 's" where
  "state_of \<equiv> snd"

definition succeeds :: "('s, 'a) outcome \<Rightarrow> bool" where
  "succeeds r = (case result r of Inl _ \<Rightarrow> False | Inr _ \<Rightarrow> True)"

lemma succeeds_simps [simp]:
  "succeeds (Inr v, s) = True"
  "succeeds (Inl e, s) = False"
  by (simp_all add: succeeds_def)

text \<open>Truthiness of a nullable string, and \<open>x || d\<close>.\<close>

definition truthy :: "string option \<Rightarrow> bool" where
  "truthy x = (case x of None \<Rightarrow> False | Some s \<Rightarrow> s \<noteq> [])"

definition or_default :: "string option \<Rightarrow> string \<Rightarrow> string" where
  "or_default x d = (case x of None \<Rightarrow> d | Some s \<Rightarrow> if s = [] then d else s)"

lemma truthy_simps [simp]: "truthy None = False" "truthy (Some s) = (s \<noteq> [])"
  by (simp_all add: truthy_def)

lemma or_default_simps [simp]:
  "or_default None d = d"
  "or_default (Some s) d = (if s = [] then d else s)"
  by (simp_all add: or_default_def)

text \<open>\<open>x ?? d\<close> on a nullable value.\<close>

definition coalesce :: "'a option \<Rightarrow> 'a \<Rightarrow> 'a" where
  "coalesce x d = (case x of None \<Rightarrow> d | Some v \<Rightarrow> v)"

lemma coalesce_simps [simp]: "coalesce None d = d" "coalesce (Some v) d = v"
  by (simp_all add: coalesce_def)

subsection \<open>Numbers as text\<close>

fun show_nat :: "nat \<Rightarrow> string" where
  "show_nat n =
     (if n < 10 then [char_of (48 + n)]
      else show_nat (n div 10) @ [char_of (48 + n mod 10)])"

declare show_nat.simps [simp del]

definition show_int :: "int \<Rightarrow> string" where
  "show_int i = (if i < 0 then CHR ''-'' # show_nat (nat (- i)) else show_nat (nat i))"

subsection \<open>Query results: ordering and paging\<close>

text \<open>\<open>ORDER BY k DESC\<close> and \<open>ASC\<close>; rows with equal keys keep the order of the table.\<close>

definition order_asc :: "('r \<Rightarrow> 'k::linorder) \<Rightarrow> 'r list \<Rightarrow> 'r list" where
  "order_asc k t = sort_key k t"

definition order_desc :: "('r \<Rightarrow> int) \<Rightarrow> 'r list \<Rightarrow> 'r list" where
  "order_desc k t = sort_key (\<lambda>r. - k r) t"

lemma set_order_desc [simp]: "set (order_desc k t) = set t"
  by (simp add: order_desc_def)

lemma length_order_desc [simp]: "length (order_desc k t) = length t"
  by (simp add: order_desc_def)

lemma set_order_asc [simp]: "set (order_asc k t) = set t"
  by (simp add: order_asc_def)

lemma length_order_asc [simp]: "length (order_asc k t) = length t"
  by (simp add: order_asc_def)

text \<open>\<open>skip: (page - 1) * limit, take: limit\<close> for page numbers from 1.\<close>

definition page_of :: "nat \<Rightarrow> nat \<Rightarrow> 'r list \<Rightarrow> 'r list" where
  "page_of page limit t = take limit (drop ((page - 1) * limit) t)"

text \<open>\<open>Math.ceil(total / limit)\<close>.\<close>

definition ceil_div :: "nat \<Rightarrow> nat \<Rightarrow> nat" where
  "ceil_div n d = (n + d - 1) div d"

lemma page_of_subset: "set (page_of page limit t) \<subseteq> set t"
  unfolding page_of_def by (meson set_drop_subset set_take_subset subset_trans)

lemma length_page_of: "length (page_of page limit t) \<le> limit"
  by (simp add: page_of_def)

text \<open>The pages from the first to the \<open>n\<close>-th, one after the other, are a prefix of the rows.\<close>

lemma concat_pages: "concat (map (\<lambda>p. page_of p limit t) [1..<Suc n]) = take (n * limit) t"
proof (induction n)
  case 0
  then show ?case by simp
next
  case (Suc n)
  have "concat (map (\<lambda>p. page_of p limit t) [1..<Suc (Suc n)])
      = take (n * limit) t @ take limit (drop (n * limit) t)"
    using Suc.IH by (simp add: page_of_def)
  also have "\<dots> = take (n * limit + limit) t"
    by (simp add: take_add)
  finally show ?case by (simp add: add.commute)
qed

lemma ceil_div_covers: "0 < d \<Longrightarrow> n \<le> ceil_div n d * d"
proof -
  assume d: "0 < d"
  have "(n + d - 1) div d * d + (n + d - 1) mod d = n + d - 1"
    by (rule div_mult_mod_eq)
  moreover have "(n + d - 1) mod d \<le> d - 1"
    using d by (simp add: less_eq_Suc_le [symmetric] Suc_le_eq)
      (metis Suc_pred d less_Suc_eq_le mod_less_divisor)
  ultimately show ?thesis unfolding ceil_div_def using d by linarith
qed

text \<open>All pages that \<open>totalPages\<close> announces, concatenated, are all the rows.\<close>

lemma all_pages:
  assumes "0 < limit"
  shows "concat (map (\<lambda>p. page_of p limit t) [1..<Suc (ceil_div (length t) limit)]) = t"
  using ceil_div_covers [OF assms, of "length t"] by (simp only: concat_pages take_all)

subsection \<open>Text\<close>

definition starts_with :: "string \<Rightarrow> string \<Rightarrow> bool" where
  "starts_with s p = (take (length p) s = p)"

lemma starts_with_append [simp]: "starts_with (p @ s) p"
  by (simp add: starts_with_def)

lemma starts_with_iff: "starts_with s p \<longleftrightarrow> (\<exists>r. s = p @ r)"
  unfolding starts_with_def by (metis append_take_drop_id append_eq_conv_conj)

text \<open>\<open>s.includes(p)\<close>.\<close>

fun includes_str :: "string \<Rightarrow> string \<Rightarrow> bool" where
  "includes_str [] p = (p = [])"
| "includes_str (c # s) p = (starts_with (c # s) p \<or> includes_str s p)"

lemma includes_str_iff: "includes_str s p \<longleftrightarrow> (\<exists>a b. s = a @ p @ b)"
proof (induction s)
  case Nil
  then show ?case by auto
next
  case (Cons c s)
  show ?case
  proof
    assume "includes_str (c # s) p"
    then consider (here) "starts_with (c # s) p" | (later) "includes_str s p" by auto
    then show "\<exists>a b. c # s = a @ p @ b"
    proof cases
      case here
      then show ?thesis by (auto simp: starts_with_iff intro: exI [of _ "[]"])
    next
      case later
      then obtain a b where "s = a @ p @ b" using Cons.IH by blast
      then have "c # s = (c # a) @ p @ b" by simp
      then show ?thesis by blast
    qed
  next
    assume "\<exists>a b. c # s = a @ p @ b"
    then obtain a b where ab: "c # s = a @ p @ b" by blast
    show "includes_str (c # s) p"
    proof (cases a)
      case Nil
      with ab have "starts_with (c # s) p" by (auto simp: starts_with_iff)
      then show ?thesis by simp
    next
      case (Cons d a')
      with ab have "s = a' @ p @ b" by simp
      then show ?thesis using Cons.IH by auto
    qed
  qed
qed

text \<open>The white space of ASCII text, and \<open>s.trim()\<close>.\<close>

definition is_space :: "char \<Rightarrow> bool" where
  "is_space c = (of_char c \<in> {9, 10, 11, 12, 13, 32 :: nat})"

definition trim :: "string \<Rightarrow> string" where
  "trim s = rev (dropWhile is_space (rev (dropWhile is_space s)))"

lemma trim_no_space:
  assumes "s = [] \<or> (\<not> is_space (hd s) \<and> \<not> is_space (last s))"
  shows "trim s = s"
proof (cases s)
  case (Cons c cs)
  with assms have "dropWhile is_space s = s" and "dropWhile is_space (rev s) = rev s"
    by (simp, cases "rev s") (auto simp: hd_rev [symmetric])
  then show ?thesis by (simp add: trim_def)
qed (simp add: trim_def)

lemma trim_twice: "trim (trim s) = trim s"
proof -
  have "trim s = [] \<or> (\<not> is_space (hd (trim s)) \<and> \<not> is_space (last (trim s)))"
  proof (cases "trim s = []")
    case False
    let ?t = "dropWhile is_space s"
    have t: "?t \<noteq> []"
    proof
      assume "?t = []"
      then have "trim s = []" unfolding trim_def by (simp only: rev.simps dropWhile.simps)
      with False show False ..
    qed
    have "\<not> is_space (last (trim s))"
      using False hd_dropWhile [of is_space "rev ?t"] by (auto simp: trim_def last_rev)
    moreover obtain u where u: "?t = trim s @ u"
      unfolding trim_def by (metis rev_append rev_rev_ident takeWhile_dropWhile_id)
    then have "hd ?t = hd (trim s)" using False by simp
    then have "\<not> is_space (hd (trim s))" using t hd_dropWhile by metis
    ultimately show ?thesis by simp
  qed simp
  then show ?thesis by (rule trim_no_space)
qed

lemma length_trim: "length (trim s) \<le> length s"
  using length_dropWhile_le [of is_space "rev (dropWhile is_space s)"] length_dropWhile_le [of is_space s]
  by (simp add: trim_def)

text \<open>\<open>s.toLowerCase()\<close> on ASCII text.\<close>

definition lower_char :: "char \<Rightarrow> char" where
  "lower_char c =
     (let n = of_char c :: nat in if 65 \<le> n \<and> n \<le> 90 then char_of (n + 32) else c)"

definition lower :: "string \<Rightarrow> string" where
  "lower s = map lower_char s"

lemma lower_Nil_iff [simp]: "lower s = [] \<longleftrightarrow> s = []"
  by (simp add: lower_def)

lemma length_lower [simp]: "length (lower s) = length s"
  by (simp add: lower_def)

subsection \<open>Lists\<close>

lemma length_filter_mono:
  "(\<And>x. x \<in> set xs \<Longrightarrow> P x \<Longrightarrow> Q x) \<Longrightarrow> length (filter P xs) \<le> length (filter Q xs)"
  by (induction xs) auto

lemma sum_list_filter_le:
  fixes f :: "'a \<Rightarrow> int"
  assumes "\<And>x. x \<in> set xs \<Longrightarrow> 0 \<le> f x"
  shows "sum_list (map f (filter P xs)) \<le> sum_list (map f xs)"
  using assms
proof (induction xs)
  case Nil
  then show ?case by simp
next
  case (Cons a xs)
  then have "sum_list (map f (filter P xs)) \<le> sum_list (map f xs)" and "0 \<le> f a" by auto
  then show ?case by simp
qed

lemma find_SomeD: "List.find P xs = Some x \<Longrightarrow> x \<in> set xs \<and> P x"
  by (auto simp: find_Some_iff)

subsection \<open>Letter cases\<close>

text \<open>
  A specification of what folding to lower case is for: \<open>spelled v w\<close> when \<open>v\<close> is the lower-case word
  \<open>w\<close> with any of its letters in upper case.
\<close>

definition letter_of :: "char \<Rightarrow> char \<Rightarrow> bool" where
  "letter_of a b \<longleftrightarrow> a = b \<or> (97 \<le> (of_char b :: nat) \<and> (of_char b :: nat) \<le> 122 \<and> (of_char a :: nat) + 32 = of_char b)"

definition spelled :: "string \<Rightarrow> string \<Rightarrow> bool" where
  "spelled key name = list_all2 letter_of key name"

abbreviation upper_letter :: "char \<Rightarrow> bool" where
  "upper_letter b \<equiv> 65 \<le> (of_char b :: nat) \<and> (of_char b :: nat) \<le> 90"

lemma lower_letter: "\<not> upper_letter b \<Longrightarrow> lower_char a = b \<longleftrightarrow> letter_of a b"
proof (cases "upper_letter a")
  case True
  assume b: "\<not> upper_letter b"
  have "take_bit 8 (of_char a + 32 :: nat) = of_char a + 32"
    using True by (intro take_bit_nat_eq_self) simp
  then have "lower_char a = b \<longleftrightarrow> of_char a + 32 = (of_char b :: nat)"
    using True by (simp add: lower_char_def Let_def char_of_eq_iff)
  with True b show ?thesis by (auto simp: letter_of_def)
next
  case False
  then show ?thesis by (auto simp: lower_char_def letter_of_def Let_def)
qed

lemma lower_char_no_upper: "\<not> upper_letter (lower_char c)"
proof (cases "upper_letter c")
  case True
  then have "take_bit 8 (of_char c + 32 :: nat) = of_char c + 32" by (intro take_bit_nat_eq_self) simp
  with True show ?thesis by (simp add: lower_char_def Let_def)
qed (simp add: lower_char_def Let_def)

lemma lower_no_upper: "c \<in> set (lower key) \<Longrightarrow> \<not> upper_letter c"
  using lower_char_no_upper by (auto simp: lower_def)

lemma lower_spelled: "\<forall>b \<in> set name. \<not> upper_letter b \<Longrightarrow> lower key = name \<longleftrightarrow> spelled key name"
proof (induction key arbitrary: name)
  case (Cons c key)
  then show ?case by (cases name) (auto simp: lower_def spelled_def lower_letter)
qed (auto simp: lower_def spelled_def)

lemma map_has_part: "(\<exists>a b. map f key = a @ p @ b) \<longleftrightarrow> (\<exists>u v w. key = u @ v @ w \<and> map f v = p)"
proof
  assume "\<exists>a b. map f key = a @ p @ b"
  then obtain a b where "map f key = a @ (p @ b)" by blast
  then obtain u r where r: "key = u @ r" "map f r = p @ b" by (metis map_eq_append_conv)
  then obtain v w where "r = v @ w" "map f v = p" by (metis map_eq_append_conv)
  with r show "\<exists>u v w. key = u @ v @ w \<and> map f v = p" by blast
next
  assume "\<exists>u v w. key = u @ v @ w \<and> map f v = p"
  then obtain u v w where "key = u @ v @ w" "map f v = p" by blast
  then have "map f key = map f u @ p @ map f w" by simp
  then show "\<exists>a b. map f key = a @ p @ b" by blast
qed

end
