(* ===== verification/Repository.thy ===== *)
theory Repository
  imports Prelude
begin

text \<open>
  The database as the services see it.  The tables are the program's state: a table is the list of
  its rows, in a storage order the theorems quantify over (so a \<open>findOne\<close> that several rows satisfy
  may return any of them).  The functions below read and write such a state the way the calls of the
  services do: \<open>findOne\<close>, \<open>find\<close>, \<open>count\<close>, \<open>save\<close> of a loaded or of a new entity, a
  conditional \<open>update ... where\<close> with its \<open>affected\<close> count, and \<open>remove\<close>.

  The locale \<open>repository\<close> states what a service relies on when it uses a repository, and derives
  from it, once, the facts the component proofs need; every component interprets it on its own
  tables.  \<open>conditional_repository\<close> extends it with the conditional update.
\<close>

subsection \<open>Tables\<close>

definition find_row :: "('r \<Rightarrow> bool) \<Rightarrow> 'r list \<Rightarrow> 'r option" where
  "find_row P t = List.find P t"

definition count_rows :: "('r \<Rightarrow> bool) \<Rightarrow> 'r list \<Rightarrow> nat" where
  "count_rows P t = length (filter P t)"

text \<open>\<open>save\<close>: the row with the same primary key is replaced; a new entity is appended.\<close>

fun save_row :: "('r \<Rightarrow> 'k) \<Rightarrow> 'r \<Rightarrow> 'r list \<Rightarrow> 'r list" where
  "save_row key r [] = [r]"
| "save_row key r (q # t) = (if key q = key r then r # t else q # save_row key r t)"

text \<open>\<open>UPDATE ... SET f WHERE P\<close>, and the number of rows it touches.\<close>

definition update_where :: "('r \<Rightarrow> bool) \<Rightarrow> ('r \<Rightarrow> 'r) \<Rightarrow> 'r list \<Rightarrow> 'r list" where
  "update_where P f t = map (\<lambda>r. if P r then f r else r) t"

definition affected :: "('r \<Rightarrow> bool) \<Rightarrow> 'r list \<Rightarrow> nat" where
  "affected P t = length (filter P t)"

definition remove_row :: "('r \<Rightarrow> 'k) \<Rightarrow> 'k \<Rightarrow> 'r list \<Rightarrow> 'r list" where
  "remove_row key k t = filter (\<lambda>r. key r \<noteq> k) t"

text \<open>The primary key is unique.\<close>

definition wf_table :: "('r \<Rightarrow> 'k) \<Rightarrow> 'r list \<Rightarrow> bool" where
  "wf_table key t = distinct (map key t)"

subsection \<open>The interface of a repository\<close>

locale repository =
  fixes key :: "'r \<Rightarrow> 'k"
    and rows :: "'t \<Rightarrow> 'r list"
    and find_one :: "('r \<Rightarrow> bool) \<Rightarrow> 't \<Rightarrow> 'r option"
    and save :: "'r \<Rightarrow> 't \<Rightarrow> 't"
    and wf :: "'t \<Rightarrow> bool"
  assumes find_none: "find_one P t = None \<longleftrightarrow> (\<forall>r \<in> set (rows t). \<not> P r)"
    and find_some: "find_one P t = Some r \<Longrightarrow> r \<in> set (rows t) \<and> P r"
    and key_unique: "wf t \<Longrightarrow> q \<in> set (rows t) \<Longrightarrow> r \<in> set (rows t) \<Longrightarrow> key q = key r \<Longrightarrow> q = r"
    and rows_save: "wf t \<Longrightarrow> set (rows (save r t)) = insert r {q \<in> set (rows t). key q \<noteq> key r}"
    and wf_save: "wf t \<Longrightarrow> wf (save r t)"
begin

lemma find_some_in: "find_one P t = Some r \<Longrightarrow> r \<in> set (rows t)"
  by (simp add: find_some)

lemma find_some_sat: "find_one P t = Some r \<Longrightarrow> P r"
  by (simp add: find_some)

lemma find_by_key:
  assumes "wf t" and "q \<in> set (rows t)"
  shows "find_one (\<lambda>r. key r = key q) t = Some q"
proof (cases "find_one (\<lambda>r. key r = key q) t")
  case None
  with assms(2) show ?thesis by (auto simp: find_none)
next
  case (Some r)
  from find_some [OF Some] have "r \<in> set (rows t)" "key r = key q" by auto
  with assms have "r = q" by (blast intro: key_unique)
  with Some show ?thesis by simp
qed

lemma find_saved: "wf t \<Longrightarrow> find_one (\<lambda>q. key q = key r) (save r t) = Some r"
  by (rule find_by_key) (auto simp: wf_save rows_save)

lemma find_other:
  assumes "wf t" and "k \<noteq> key r"
  shows "find_one (\<lambda>q. key q = k) (save r t) = find_one (\<lambda>q. key q = k) t"
proof (cases "find_one (\<lambda>q. key q = k) t")
  case None
  with assms have "find_one (\<lambda>q. key q = k) (save r t) = None"
    by (auto simp: find_none rows_save)
  with None show ?thesis by simp
next
  case (Some q)
  from find_some [OF Some] have q: "q \<in> set (rows t)" "key q = k" by auto
  with assms have "q \<in> set (rows (save r t))" by (auto simp: rows_save)
  from find_by_key [OF wf_save [OF assms(1)] this] q Some show ?thesis by simp
qed

lemma in_save: "wf t \<Longrightarrow> q \<in> set (rows (save r t)) \<Longrightarrow> q = r \<or> q \<in> set (rows t) \<and> key q \<noteq> key r"
  by (auto simp: rows_save)

lemma all_rows_save:
  assumes "wf t" and "\<forall>q \<in> set (rows t). I q" and "I r"
  shows "\<forall>q \<in> set (rows (save r t)). I q"
  using assms by (auto simp: rows_save)

lemma saved_in: "wf t \<Longrightarrow> r \<in> set (rows (save r t))"
  by (auto simp: rows_save)

lemma unsaved_in: "wf t \<Longrightarrow> q \<in> set (rows t) \<Longrightarrow> key q \<noteq> key r \<Longrightarrow> q \<in> set (rows (save r t))"
  by (auto simp: rows_save)

end

text \<open>
  A repository whose services also use the conditional update: it changes exactly the rows its
  condition selects, and reports their number.
\<close>

locale conditional_repository = repository key rows find_one save wf
  for key :: "'r \<Rightarrow> 'k" and rows :: "'t \<Rightarrow> 'r list" and find_one save wf +
  fixes update :: "('r \<Rightarrow> bool) \<Rightarrow> ('r \<Rightarrow> 'r) \<Rightarrow> 't \<Rightarrow> 't"
    and affected_rows :: "('r \<Rightarrow> bool) \<Rightarrow> 't \<Rightarrow> nat"
  assumes rows_update: "rows (update P f t) = map (\<lambda>r. if P r then f r else r) (rows t)"
    and affected_zero: "affected_rows P t = 0 \<longleftrightarrow> (\<forall>r \<in> set (rows t). \<not> P r)"
    and wf_update: "wf t \<Longrightarrow> (\<And>r. key (f r) = key r) \<Longrightarrow> wf (update P f t)"
begin

lemma update_none_affected: "affected_rows P t = 0 \<Longrightarrow> rows (update P f t) = rows t"
  by (auto simp: affected_zero rows_update intro: map_idI)

lemma find_updated:
  assumes "wf t" and keep: "\<And>r. key (f r) = key r"
    and "r \<in> set (rows t)" and "P r"
  shows "find_one (\<lambda>q. key q = key r) (update P f t) = Some (f r)"
proof -
  have "f r \<in> set (rows (update P f t))"
    using assms(3,4) by (force simp: rows_update)
  from find_by_key [OF wf_update [OF assms(1) keep] this] keep show ?thesis by simp
qed

lemma update_twice_none:
  assumes "\<And>r. P r \<Longrightarrow> \<not> P (f r)"
  shows "affected_rows P (update P f t) = 0"
  using assms by (auto simp: affected_zero rows_update)

end

subsection \<open>Tables implement the interface\<close>

lemma find_row_none: "find_row P t = None \<longleftrightarrow> (\<forall>r \<in> set t. \<not> P r)"
  by (auto simp: find_row_def find_None_iff)

lemma find_row_some: "find_row P t = Some r \<Longrightarrow> r \<in> set t \<and> P r"
  by (auto simp: find_row_def find_Some_iff)

lemma wf_table_Cons: "wf_table key (q # t) \<longleftrightarrow> (\<forall>r \<in> set t. key r \<noteq> key q) \<and> wf_table key t"
  by (auto simp: wf_table_def image_iff eq_commute)

lemma keys_save_row: "key ` set (save_row key r t) = insert (key r) (key ` set t)"
  by (induction t) auto

lemma set_save_row:
  "wf_table key t \<Longrightarrow> set (save_row key r t) = insert r {q \<in> set t. key q \<noteq> key r}"
  by (induction t) (auto simp: wf_table_Cons)

lemma wf_save_row: "wf_table key t \<Longrightarrow> wf_table key (save_row key r t)"
proof (induction t)
  case Nil
  then show ?case by (simp add: wf_table_def)
next
  case (Cons q t)
  then have "wf_table key t" and q: "\<forall>s \<in> set t. key s \<noteq> key q" by (auto simp: wf_table_Cons)
  with Cons.IH have IH: "wf_table key (save_row key r t)" by simp
  show ?case
  proof (cases "key q = key r")
    case True
    with \<open>wf_table key t\<close> q show ?thesis by (auto simp: wf_table_Cons)
  next
    case False
    with q have "\<forall>s \<in> set (save_row key r t). key s \<noteq> key q"
      using keys_save_row [of key r t] by (metis (no_types, lifting) image_iff insert_iff)
    with IH False show ?thesis by (simp add: wf_table_Cons)
  qed
qed

lemma wf_table_unique: "wf_table key t \<Longrightarrow> q \<in> set t \<Longrightarrow> r \<in> set t \<Longrightarrow> key q = key r \<Longrightarrow> q = r"
  by (induction t) (auto simp: wf_table_Cons)

lemma set_save_row_subset: "set (save_row key r t) \<subseteq> insert r (set t)"
  by (induction t) auto

lemma length_save_row:
  "length (save_row key r t) = (if \<exists>q \<in> set t. key q = key r then length t else Suc (length t))"
  by (induction t) auto

lemma save_row_twice: "key q = key r \<Longrightarrow> save_row key r (save_row key q t) = save_row key r t"
  by (induction t) auto

lemma map_key_save_row: "key r \<in> key ` set t \<Longrightarrow> map key (save_row key r t) = map key t"
  by (induction t) auto

lemma save_row_new: "\<forall>q \<in> set t. key q \<noteq> key r \<Longrightarrow> save_row key r t = t @ [r]"
  by (induction t) auto

lemma table_repository: "repository key (\<lambda>t. t) find_row (save_row key) (wf_table key)"
  by unfold_locales
    (auto simp: find_row_none set_save_row wf_save_row intro: wf_table_unique dest: find_row_some)

lemma wf_table_update:
  assumes "wf_table key t" and "\<And>r. key (f r) = key r"
  shows "wf_table key (update_where P f t)"
proof -
  have "map key (update_where P f t) = map key t"
    by (simp add: update_where_def assms(2))
  with assms(1) show ?thesis by (simp add: wf_table_def)
qed

lemma table_conditional_repository:
  "conditional_repository key (\<lambda>t. t) find_row (save_row key) (wf_table key) update_where affected"
proof (rule conditional_repository.intro [OF table_repository], unfold_locales)
  show "\<And>P f t. update_where P f t = map (\<lambda>r. if P r then f r else r) t"
    by (simp add: update_where_def)
  show "\<And>P t. (affected P t = 0) = (\<forall>r \<in> set t. \<not> P r)"
    by (simp add: affected_def filter_empty_conv)
  show "\<And>t f P. wf_table key t \<Longrightarrow> (\<And>r. key (f r) = key r) \<Longrightarrow> wf_table key (update_where P f t)"
    by (rule wf_table_update)
qed

lemma remove_row_wf: "wf_table key t \<Longrightarrow> wf_table key (remove_row key k t)"
  by (induction t) (auto simp: remove_row_def wf_table_Cons)

lemma find_removed: "find_row (\<lambda>r. key r = k) (remove_row key k t) = None"
  by (auto simp: find_row_none remove_row_def)

lemma find_not_removed:
  "k \<noteq> j \<Longrightarrow> find_row (\<lambda>r. key r = j) (remove_row key k t) = find_row (\<lambda>r. key r = j) t"
  unfolding remove_row_def find_row_def by (induction t) auto

lemma in_update_where: "r \<in> set t \<Longrightarrow> P r \<Longrightarrow> f r \<in> set (update_where P f t)"
  by (force simp: update_where_def)

lemma map_update_where: "(\<And>r. g (f r) = g r) \<Longrightarrow> map g (update_where P f t) = map g t"
  by (simp add: update_where_def)

lemma image_update_where: "(\<And>r. g (f r) = g r) \<Longrightarrow> g ` set (update_where P f t) = g ` set t"
  by (metis map_update_where set_map)

subsection \<open>Counting rows\<close>

lemma save_row_replace:
  "wf_table key t \<Longrightarrow> g \<in> set t \<Longrightarrow> key r = key g \<Longrightarrow>
     save_row key r t = map (\<lambda>q. if key q = key g then r else q) t"
proof (induction t)
  case Nil
  then show ?case by simp
next
  case (Cons q t)
  then have q: "\<forall>p \<in> set t. key p \<noteq> key q" and wf: "wf_table key t" by (auto simp: wf_table_Cons)
  show ?case
  proof (cases "key q = key g")
    case True
    with q Cons.prems show ?thesis by (auto intro!: map_idI [symmetric])
  next
    case False
    with Cons wf show ?thesis by auto
  qed
qed

lemma map_save_row:
  assumes "wf_table key t" and "g \<in> set t" and "key r = key g" and "f r = f g"
  shows "map f (save_row key r t) = map f t"
proof -
  have "f (if key q = key g then r else q) = f q" if "q \<in> set t" for q
    using wf_table_unique [OF assms(1) that assms(2)] assms(4) by auto
  then show ?thesis by (simp add: save_row_replace [OF assms(1-3)])
qed

lemma count_rows_append [simp]: "count_rows P (t @ u) = count_rows P t + count_rows P u"
  by (simp add: count_rows_def)

lemma count_rows_Cons [simp]: "count_rows P (r # t) = (if P r then 1 else 0) + count_rows P t"
  by (simp add: count_rows_def)

lemma count_rows_Nil [simp]: "count_rows P [] = 0"
  by (simp add: count_rows_def)

lemma count_rows_zero: "count_rows P t = 0 \<longleftrightarrow> (\<forall>r \<in> set t. \<not> P r)"
  by (simp add: count_rows_def filter_empty_conv)

lemma count_rows_mono: "(\<And>r. r \<in> set t \<Longrightarrow> P r \<Longrightarrow> Q r) \<Longrightarrow> count_rows P t \<le> count_rows Q t"
  by (simp add: count_rows_def length_filter_mono)

text \<open>Replacing the row \<open>g\<close> by \<open>r\<close> moves one row from the count of \<open>g\<close> to that of \<open>r\<close>.\<close>

lemma count_save_row:
  "wf_table key t \<Longrightarrow> g \<in> set t \<Longrightarrow> key r = key g \<Longrightarrow>
     count_rows P (save_row key r t) + (if P g then 1 else 0) = count_rows P t + (if P r then 1 else 0)"
proof (induction t)
  case Nil
  then show ?case by simp
next
  case (Cons q t)
  then have q: "\<forall>p \<in> set t. key p \<noteq> key q" and wf: "wf_table key t" by (auto simp: wf_table_Cons)
  show ?case
  proof (cases "key q = key g")
    case True
    with q Cons.prems have "q = g" by auto
    with Cons.prems show ?thesis by simp
  next
    case False
    with Cons wf show ?thesis by auto
  qed
qed

lemma count_rows_distinct_card:
  assumes "distinct (map f (filter P t))"
  shows "count_rows P t = card (f ` {r \<in> set t. P r})"
  using distinct_card [OF assms] by (simp add: count_rows_def)

end
