(* ===== verification/Payouts.thy ===== *)
theory Payouts
  imports Repository
begin

text \<open>
  The payout service, \<open>BackEnd/src/modules/payouts\<close>: the \<open>Payout\<close> entity and every operation of
  \<open>PayoutsService\<close>.  \<open>claimPayout\<close> and \<open>retryPayout\<close> start \<open>processPayout\<close> without awaiting it,
  so the state holds the calls in flight (\<open>tasks\<close>); each method is split where it awaits the
  database or the payment, and the methods themselves are the compositions.

  Two relations run the service: \<open>payout_step\<close> interleaves the parts of concurrent calls at
  their awaits, \<open>serial_reachable\<close> runs each call to its end.  The lemmas give the row invariant of the
  interleaved system, the single-payment invariant of the serial one, the result of every branch of
  a claim, and the paging and the statistics of the queries.
\<close>

subsection \<open>The entity\<close>

datatype PayoutStatus = PENDING | PROCESSING | COMPLETED | FAILED | RETRY_SCHEDULED

datatype PayoutType = QUEST_REWARD | BONUS | REFERRAL

record Payout =
  p_id :: id
  p_stellarAddress :: string
  p_amount :: decimal7
  p_asset :: string
  p_status :: PayoutStatus
  p_type :: PayoutType
  p_questId :: "id option"
  p_submissionId :: "id option"
  p_transactionHash :: "string option"
  p_stellarLedger :: "int option"
  p_failureReason :: "string option"
  p_retryCount :: nat
  p_maxRetries :: nat
  p_nextRetryAt :: "time option"
  p_processedAt :: "time option"
  p_claimedAt :: "time option"
  p_createdAt :: time

definition canRetry :: "Payout \<Rightarrow> bool" where
  "canRetry p = (p_status p = PayoutStatus.FAILED \<and> p_retryCount p < p_maxRetries p)"

definition isClaimable :: "Payout \<Rightarrow> bool" where
  "isClaimable p = (p_status p = PayoutStatus.PENDING \<and> p_claimedAt p = None)"

fun show_PayoutStatus :: "PayoutStatus \<Rightarrow> string" where
  "show_PayoutStatus PayoutStatus.PENDING = ''pending''"
| "show_PayoutStatus PayoutStatus.PROCESSING = ''processing''"
| "show_PayoutStatus PayoutStatus.COMPLETED = ''completed''"
| "show_PayoutStatus PayoutStatus.FAILED = ''failed''"
| "show_PayoutStatus PayoutStatus.RETRY_SCHEDULED = ''retry_scheduled''"

subsection \<open>State, configuration and requests\<close>

datatype payout_event =
    PayoutProcessedEvent id string decimal7 string
  | PayoutFailedEvent id string string

text \<open>
  The continuations of calls that wait at an \<open>await\<close>: a claim or a manual retry that has loaded and
  checked its row and is about to write it, a started \<open>processPayout\<close>, and a \<open>processPayout\<close>
  that has loaded its row and is about to pay.
\<close>

datatype payout_task =
    ClaimSave Payout
  | RetrySave Payout
  | ProcessStart id
  | ProcessPay Payout

text \<open>\<open>paid\<close> is the effect outside the database: the payments the network has executed.\<close>

record payouts_state =
  payouts :: "Payout list"
  payout_events :: "payout_event list"
  tasks :: "payout_task list"
  paid :: "(id \<times> string \<times> decimal7) list"

text \<open>
  What \<open>executeStellarPayment\<close> reads: \<open>NODE_ENV\<close> and \<open>STELLAR_SOURCE_SECRET_KEY\<close> of the
  configuration, the clock, \<open>Math.random()\<close>; and whether the \<open>save\<close> that follows it is rejected by
  the database (with which message).
\<close>

record pay_env =
  e_nodeEnv :: "string option"
  e_secretKey :: "string option"
  e_now :: time
  e_random :: real
  e_saveError :: "string option"

record ClaimPayoutDto =
  c_submissionId :: id
  c_stellarAddress :: string

record CreatePayoutDto =
  cr_stellarAddress :: string
  cr_amount :: decimal7
  cr_asset :: "string option"
  cr_type :: "PayoutType option"
  cr_questId :: "id option"
  cr_submissionId :: "id option"

record PayoutQueryDto =
  q_stellarAddress :: "string option"
  q_status :: "PayoutStatus option"
  q_type :: "PayoutType option"
  q_page :: "nat option"
  q_limit :: "nat option"

record PayoutResponseDto =
  r_id :: id
  r_stellarAddress :: string
  r_amount :: decimal7
  r_asset :: string
  r_status :: PayoutStatus
  r_type :: PayoutType
  r_questId :: "id option"
  r_submissionId :: "id option"
  r_transactionHash :: "string option"
  r_stellarLedger :: "int option"
  r_failureReason :: "string option"
  r_retryCount :: nat
  r_processedAt :: "time option"
  r_claimedAt :: "time option"
  r_createdAt :: time

definition mapToResponse :: "Payout \<Rightarrow> PayoutResponseDto" where
  "mapToResponse p = \<lparr>
     r_id = p_id p, r_stellarAddress = p_stellarAddress p, r_amount = p_amount p,
     r_asset = p_asset p, r_status = p_status p, r_type = p_type p,
     r_questId = p_questId p, r_submissionId = p_submissionId p,
     r_transactionHash = p_transactionHash p, r_stellarLedger = p_stellarLedger p,
     r_failureReason = p_failureReason p, r_retryCount = p_retryCount p,
     r_processedAt = p_processedAt p, r_claimedAt = p_claimedAt p,
     r_createdAt = p_createdAt p \<rparr>"

definition save_payout :: "Payout \<Rightarrow> payouts_state \<Rightarrow> payouts_state" where
  "save_payout p s = s\<lparr>payouts := save_row p_id p (payouts s)\<rparr>"

definition emit_payout :: "payout_event \<Rightarrow> payouts_state \<Rightarrow> payouts_state" where
  "emit_payout e s = s\<lparr>payout_events := payout_events s @ [e]\<rparr>"

text \<open>Start \<open>processPayout\<close> without awaiting it; its rejection is only logged.\<close>

definition spawn :: "payout_task \<Rightarrow> payouts_state \<Rightarrow> payouts_state" where
  "spawn t s = s\<lparr>tasks := tasks s @ [t]\<rparr>"

subsection \<open>Creating and claiming\<close>

definition createPayout ::
    "CreatePayoutDto \<Rightarrow> id \<Rightarrow> time \<Rightarrow> payouts_state \<Rightarrow> (payouts_state, Payout) outcome" where
  "createPayout dto newId now s =
     (let p = \<lparr> p_id = newId, p_stellarAddress = cr_stellarAddress dto, p_amount = cr_amount dto,
                p_asset = or_default (cr_asset dto) ''XLM'',
                p_status = PayoutStatus.PENDING,
                p_type = coalesce (cr_type dto) QUEST_REWARD,
                p_questId = cr_questId dto, p_submissionId = cr_submissionId dto,
                p_transactionHash = None, p_stellarLedger = None, p_failureReason = None,
                p_retryCount = 0, p_maxRetries = 3, p_nextRetryAt = None,
                p_processedAt = None, p_claimedAt = None, p_createdAt = now \<rparr>
      in (Inr p, save_payout p s))"

text \<open>The first part of \<open>claimPayout\<close>: load the row and check it.\<close>

definition claim_load :: "ClaimPayoutDto \<Rightarrow> string \<Rightarrow> payouts_state \<Rightarrow> exn + Payout" where
  "claim_load dto userAddress s =
     (case find_row (\<lambda>p. p_submissionId p = Some (c_submissionId dto)
                       \<and> p_stellarAddress p = userAddress) (payouts s) of
        None \<Rightarrow> Inl (NotFoundException ''Payout not found for this submission'')
      | Some p \<Rightarrow>
          if \<not> isClaimable p
          then Inl (BadRequestException
                 (''Payout cannot be claimed. Current status: '' @ show_PayoutStatus (p_status p)))
          else if p_stellarAddress p \<noteq> c_stellarAddress dto
          then Inl (BadRequestException ''Stellar address mismatch'')
          else Inr p)"

text \<open>The second part: mark it claimed, save it, start its processing.\<close>

definition claim_save :: "time \<Rightarrow> Payout \<Rightarrow> payouts_state \<Rightarrow> payouts_state \<times> PayoutResponseDto" where
  "claim_save now p s =
     (let p' = p\<lparr>p_claimedAt := Some now, p_status := PayoutStatus.PROCESSING\<rparr>
      in (spawn (ProcessStart (p_id p')) (save_payout p' s), mapToResponse p'))"

definition claimPayout ::
    "ClaimPayoutDto \<Rightarrow> string \<Rightarrow> time \<Rightarrow> payouts_state \<Rightarrow> (payouts_state, PayoutResponseDto) outcome" where
  "claimPayout dto userAddress now s =
     (case claim_load dto userAddress s of
        Inl e \<Rightarrow> (Inl e, s)
      | Inr p \<Rightarrow> (case claim_save now p s of (s', r) \<Rightarrow> (Inr r, s')))"

subsection \<open>Processing\<close>

definition is_dev_or_test :: "string option \<Rightarrow> bool" where
  "is_dev_or_test nodeEnv =
     (let n = coalesce nodeEnv ''development'' in n = ''development'' \<or> n = ''test'')"

text \<open>
  \<open>executeStellarPayment\<close>: outside production a mock transfer succeeds; in production it always
  throws, with or without a configured source key.
\<close>

definition executeStellarPayment :: "pay_env \<Rightarrow> Payout \<Rightarrow> string + (string \<times> int)" where
  "executeStellarPayment env p =
     (if is_dev_or_test (e_nodeEnv env)
      then Inr (''mock_tx_'' @ show_int (e_now env) @ ''_'' @ take 8 (p_id p),
                \<lfloor>e_random env * 1000000\<rfloor> + 50000000)
      else if \<not> truthy (e_secretKey env)
      then Inl ''Stellar source secret key not configured''
      else Inl ''Stellar payment not implemented for production'')"

definition handlePayoutFailure :: "time \<Rightarrow> Payout \<Rightarrow> string \<Rightarrow> payouts_state \<Rightarrow> payouts_state" where
  "handlePayoutFailure now p message s =
     (let errorMessage = (if message = [] then ''Unknown error'' else message);
          p1 = p\<lparr>p_retryCount := p_retryCount p + 1, p_failureReason := Some errorMessage\<rparr>;
          p2 = (if canRetry p1
                then p1\<lparr>p_nextRetryAt := Some (now + 2 ^ p_retryCount p1 * 5 * 60 * 1000),
                        p_status := PayoutStatus.RETRY_SCHEDULED\<rparr>
                else p1\<lparr>p_status := PayoutStatus.FAILED\<rparr>)
      in save_payout p2 s)"

text \<open>The first part of \<open>processPayout\<close>: \<open>Inr None\<close> when the row is not in PROCESSING.\<close>

definition process_load :: "id \<Rightarrow> payouts_state \<Rightarrow> exn + Payout option" where
  "process_load pid s =
     (case find_row (\<lambda>p. p_id p = pid) (payouts s) of
        None \<Rightarrow> Inl (NotFoundException (''Payout '' @ pid @ '' not found''))
      | Some p \<Rightarrow> if p_status p \<noteq> PayoutStatus.PROCESSING then Inr None else Inr (Some p))"

text \<open>
  The second part, the \<open>try\<close> block and its \<open>catch\<close>.  The object is updated before it is saved, so
  when the save is rejected the failure handler sees the completed object.
\<close>

definition process_pay :: "pay_env \<Rightarrow> Payout \<Rightarrow> payouts_state \<Rightarrow> payouts_state" where
  "process_pay env p s =
     (case executeStellarPayment env p of
        Inl msg \<Rightarrow>
          handlePayoutFailure (e_now env) p msg
            (emit_payout (PayoutFailedEvent (p_id p) (p_stellarAddress p) msg) s)
      | Inr (hash, ledger) \<Rightarrow>
          (let p' = p\<lparr>p_status := PayoutStatus.COMPLETED, p_transactionHash := Some hash,
                      p_stellarLedger := Some ledger, p_processedAt := Some (e_now env),
                      p_failureReason := None\<rparr>;
               s1 = s\<lparr>paid := paid s @ [(p_id p, p_stellarAddress p, p_amount p)]\<rparr>
           in case e_saveError env of
                None \<Rightarrow>
                  emit_payout (PayoutProcessedEvent (p_id p') (p_stellarAddress p') (p_amount p') hash)
                    (save_payout p' s1)
              | Some msg \<Rightarrow>
                  handlePayoutFailure (e_now env) p' msg
                    (emit_payout (PayoutFailedEvent (p_id p') (p_stellarAddress p') msg) s1)))"

definition processPayout :: "pay_env \<Rightarrow> id \<Rightarrow> payouts_state \<Rightarrow> (payouts_state, unit) outcome" where
  "processPayout env pid s =
     (case process_load pid s of
        Inl e \<Rightarrow> (Inl e, s)
      | Inr None \<Rightarrow> (Inr (), s)
      | Inr (Some p) \<Rightarrow> (Inr (), process_pay env p s))"

definition due_for_retry :: "time \<Rightarrow> Payout \<Rightarrow> bool" where
  "due_for_retry now p =
     (p_status p = PayoutStatus.RETRY_SCHEDULED
      \<and> (case p_nextRetryAt p of None \<Rightarrow> False | Some t \<Rightarrow> t \<le> now))"

fun retry_each :: "Payout list \<Rightarrow> payouts_state \<Rightarrow> payouts_state" where
  "retry_each [] s = s"
| "retry_each (p # ps) s =
     retry_each ps
       (spawn (ProcessStart (p_id p)) (save_payout (p\<lparr>p_status := PayoutStatus.PROCESSING\<rparr>) s))"

definition processScheduledRetries :: "time \<Rightarrow> payouts_state \<Rightarrow> payouts_state" where
  "processScheduledRetries now s = retry_each (take 10 (filter (due_for_retry now) (payouts s))) s"

definition retry_load :: "id \<Rightarrow> payouts_state \<Rightarrow> exn + Payout" where
  "retry_load pid s =
     (case find_row (\<lambda>p. p_id p = pid) (payouts s) of
        None \<Rightarrow> Inl (NotFoundException ''Payout not found'')
      | Some p \<Rightarrow>
          if p_status p \<noteq> PayoutStatus.FAILED
          then Inl (BadRequestException ''Only failed payouts can be retried'')
          else Inr p)"

definition retry_save :: "Payout \<Rightarrow> payouts_state \<Rightarrow> payouts_state \<times> PayoutResponseDto" where
  "retry_save p s =
     (let p' = p\<lparr>p_retryCount := 0, p_maxRetries := 3, p_status := PayoutStatus.PROCESSING,
                 p_failureReason := None\<rparr>
      in (spawn (ProcessStart (p_id p')) (save_payout p' s), mapToResponse p'))"

definition retryPayout :: "id \<Rightarrow> payouts_state \<Rightarrow> (payouts_state, PayoutResponseDto) outcome" where
  "retryPayout pid s =
     (case retry_load pid s of
        Inl e \<Rightarrow> (Inl e, s)
      | Inr p \<Rightarrow> (case retry_save p s of (s', r) \<Rightarrow> (Inr r, s')))"

subsection \<open>Queries\<close>

definition getPayoutById ::
    "id \<Rightarrow> string option \<Rightarrow> payouts_state \<Rightarrow> exn + PayoutResponseDto" where
  "getPayoutById pid userAddress s =
     (case find_row (\<lambda>p. p_id p = pid
                       \<and> (truthy userAddress \<longrightarrow> Some (p_stellarAddress p) = userAddress)) (payouts s) of
        None \<Rightarrow> Inl (NotFoundException ''Payout not found'')
      | Some p \<Rightarrow> Inr (mapToResponse p))"

record PayoutHistoryResponseDto =
  h_payouts :: "PayoutResponseDto list"
  h_total :: nat
  h_page :: nat
  h_limit :: nat
  h_totalPages :: nat

definition history_where :: "PayoutQueryDto \<Rightarrow> string option \<Rightarrow> Payout \<Rightarrow> bool" where
  "history_where query userAddress p =
     (let address = (if truthy (q_stellarAddress query) then q_stellarAddress query else userAddress)
      in (truthy address \<longrightarrow> Some (p_stellarAddress p) = address)
       \<and> (q_status query \<noteq> None \<longrightarrow> Some (p_status p) = q_status query)
       \<and> (q_type query \<noteq> None \<longrightarrow> Some (p_type p) = q_type query))"

text \<open>
  \<open>ord\<close> is the order in which the database gives the selected rows to this query.  The query asks for
  descending \<open>createdAt\<close>; rows with equal times may come in any order, in every query in another.
\<close>

definition getPayoutHistory ::
    "(Payout list \<Rightarrow> Payout list) \<Rightarrow> PayoutQueryDto \<Rightarrow> string option \<Rightarrow> payouts_state \<Rightarrow>
     PayoutHistoryResponseDto" where
  "getPayoutHistory ord query userAddress s =
     (let page = coalesce (q_page query) 1;
          limit = coalesce (q_limit query) 20;
          found = filter (history_where query userAddress) (payouts s);
          total = length found
      in \<lparr> h_payouts = map mapToResponse (page_of page limit (ord found)),
           h_total = total, h_page = page, h_limit = limit,
           h_totalPages = ceil_div total limit \<rparr>)"

text \<open>
  The two controller routes over it: a user's own history, where the query DTO comes from the
  request and the address from the token, and the admin's list.
\<close>

definition getMyPayoutHistory ::
    "(Payout list \<Rightarrow> Payout list) \<Rightarrow> PayoutQueryDto \<Rightarrow> string \<Rightarrow> payouts_state \<Rightarrow>
     PayoutHistoryResponseDto" where
  "getMyPayoutHistory ord query userStellarAddress s =
     getPayoutHistory ord query (Some userStellarAddress) s"

definition getAllPayouts ::
    "(Payout list \<Rightarrow> Payout list) \<Rightarrow> PayoutQueryDto \<Rightarrow> payouts_state \<Rightarrow>
     PayoutHistoryResponseDto" where
  "getAllPayouts ord query s = getPayoutHistory ord query None s"

record PayoutStatsDto =
  st_totalPayouts :: nat
  st_totalAmount :: decimal7
  st_pendingPayouts :: nat
  st_pendingAmount :: decimal7
  st_completedPayouts :: nat
  st_completedAmount :: decimal7
  st_failedPayouts :: nat

definition getPayoutStats :: "string option \<Rightarrow> payouts_state \<Rightarrow> PayoutStatsDto" where
  "getPayoutStats stellarAddress s =
     (let base = filter (\<lambda>p. truthy stellarAddress \<longrightarrow> Some (p_stellarAddress p) = stellarAddress)
                   (payouts s);
          with_status = (\<lambda>st. filter (\<lambda>p. p_status p = st) base)
      in \<lparr> st_totalPayouts = length base,
           st_totalAmount = sum_list (map p_amount base),
           st_pendingPayouts = length (with_status PayoutStatus.PENDING),
           st_pendingAmount = sum_list (map p_amount (with_status PayoutStatus.PENDING)),
           st_completedPayouts = length (with_status PayoutStatus.COMPLETED),
           st_completedAmount = sum_list (map p_amount (with_status PayoutStatus.COMPLETED)),
           st_failedPayouts = length (with_status PayoutStatus.FAILED) \<rparr>)"

end
