(* ===== verification/PayoutsRun.thy ===== *)
theory PayoutsRun
  imports Payouts "HOL-Library.Multiset"
begin

text \<open>
  Runs of the payout service of theory Payouts.  \<open>payout_step\<close> interleaves the parts of
  concurrent calls at their awaits; \<open>serial_reachable\<close> runs every call, and every started
  \<open>processPayout\<close>, to its end before the next one begins, and keeps the set of payouts the save of
  whose payment was rejected.  The row invariant holds in the interleaved system; the single-payment
  invariant only in the serial one and only for payouts outside that set.  Other writers of the
  payout rows (the multi-signature handler, theory MultiSigPayout) take no part in these runs.
\<close>

interpretation payout_repo: repository p_id "\<lambda>t. t" find_row "save_row p_id" "wf_table p_id"
  by (rule table_repository)

subsection \<open>Step relations\<close>

definition finish :: "payout_task \<Rightarrow> payouts_state \<Rightarrow> payouts_state" where
  "finish t s = s\<lparr>tasks := remove1 t (tasks s)\<rparr>"

inductive payout_step :: "payouts_state \<Rightarrow> payouts_state \<Rightarrow> bool" where
  create: "\<forall>p \<in> set (payouts s). p_id p \<noteq> newId \<Longrightarrow>
     payout_step s (state_of (createPayout dto newId now s))"
| claim_begin: "claim_load dto u s = Inr p \<Longrightarrow> payout_step s (spawn (ClaimSave p) s)"
| claim_end: "ClaimSave p \<in> set (tasks s) \<Longrightarrow>
     payout_step s (fst (claim_save now p (finish (ClaimSave p) s)))"
| process_begin: "ProcessStart pid \<in> set (tasks s) \<Longrightarrow> process_load pid s = Inr (Some p) \<Longrightarrow>
     payout_step s (spawn (ProcessPay p) (finish (ProcessStart pid) s))"
| process_skip: "ProcessStart pid \<in> set (tasks s) \<Longrightarrow> \<forall>p. process_load pid s \<noteq> Inr (Some p) \<Longrightarrow>
     payout_step s (finish (ProcessStart pid) s)"
| process_end: "ProcessPay p \<in> set (tasks s) \<Longrightarrow>
     payout_step s (process_pay env p (finish (ProcessPay p) s))"
| retry_begin: "retry_load pid s = Inr p \<Longrightarrow> payout_step s (spawn (RetrySave p) s)"
| retry_end: "RetrySave p \<in> set (tasks s) \<Longrightarrow>
     payout_step s (fst (retry_save p (finish (RetrySave p) s)))"
| cron: "payout_step s (processScheduledRetries now s)"

definition init_payouts :: payouts_state where
  "init_payouts = \<lparr>payouts = [], payout_events = [], tasks = [], paid = []\<rparr>"

text \<open>
  Serial runs.  The first argument collects the payouts for which the save after the payment was
  rejected (\<open>e_saveError\<close>) in some processing; every other call of the database succeeds.
\<close>

inductive serial_reachable :: "id set \<Rightarrow> payouts_state \<Rightarrow> bool" where
  start: "serial_reachable {} init_payouts"
| create: "serial_reachable F s \<Longrightarrow> \<forall>p \<in> set (payouts s). p_id p \<noteq> newId \<Longrightarrow>
     serial_reachable F (state_of (createPayout dto newId now s))"
| claim: "serial_reachable F s \<Longrightarrow> serial_reachable F (state_of (claimPayout dto u now s))"
| process: "serial_reachable F s \<Longrightarrow> ProcessStart pid \<in> set (tasks s) \<Longrightarrow>
     serial_reachable (if e_saveError env = None then F else insert pid F)
       (state_of (processPayout env pid (finish (ProcessStart pid) s)))"
| retry: "serial_reachable F s \<Longrightarrow> serial_reachable F (state_of (retryPayout pid s))"
| cron: "serial_reachable F s \<Longrightarrow> serial_reachable F (processScheduledRetries now s)"

inductive payout_reachable :: "payouts_state \<Rightarrow> bool" where
  start: "payout_reachable init_payouts"
| step: "payout_reachable s \<Longrightarrow> payout_step s t \<Longrightarrow> payout_reachable t"

subsection \<open>How the operations change the state\<close>

lemma save_payout_fields [simp, frame_simps]:
  "payout_events (save_payout p s) = payout_events s"
  "tasks (save_payout p s) = tasks s"
  "paid (save_payout p s) = paid s"
  "payouts (save_payout p s) = save_row p_id p (payouts s)"
  by (simp_all add: save_payout_def)

lemma spawn_fields [simp, frame_simps]:
  "payouts (spawn t s) = payouts s"
  "payout_events (spawn t s) = payout_events s"
  "paid (spawn t s) = paid s"
  "tasks (spawn t s) = tasks s @ [t]"
  by (simp_all add: spawn_def)

lemma emit_payout_fields [simp, frame_simps]:
  "payouts (emit_payout e s) = payouts s"
  "tasks (emit_payout e s) = tasks s"
  "paid (emit_payout e s) = paid s"
  "payout_events (emit_payout e s) = payout_events s @ [e]"
  by (simp_all add: emit_payout_def)

lemma finish_fields [simp, frame_simps]:
  "payouts (finish t s) = payouts s"
  "payout_events (finish t s) = payout_events s"
  "paid (finish t s) = paid s"
  "tasks (finish t s) = remove1 t (tasks s)"
  by (simp_all add: finish_def)

lemma handlePayoutFailure_fields [simp]:
  "payout_events (handlePayoutFailure now p msg s) = payout_events s"
  "tasks (handlePayoutFailure now p msg s) = tasks s"
  "paid (handlePayoutFailure now p msg s) = paid s"
  by (simp_all add: handlePayoutFailure_def Let_def)

lemma claim_loadD:
  "claim_load dto u s = Inr p \<Longrightarrow>
     p \<in> set (payouts s) \<and> p_submissionId p = Some (c_submissionId dto) \<and> p_stellarAddress p = u
     \<and> isClaimable p \<and> u = c_stellarAddress dto"
  by (auto simp: claim_load_def dest: find_row_some split: option.splits if_splits)

lemma process_loadD:
  "process_load pid s = Inr (Some p) \<Longrightarrow>
     p \<in> set (payouts s) \<and> p_id p = pid \<and> p_status p = PayoutStatus.PROCESSING"
  by (auto simp: process_load_def dest: find_row_some split: option.splits if_splits)

lemma retry_loadD:
  "retry_load pid s = Inr p \<Longrightarrow>
     p \<in> set (payouts s) \<and> p_id p = pid \<and> p_status p = PayoutStatus.FAILED"
  by (auto simp: retry_load_def dest: find_row_some split: option.splits if_splits)

text \<open>
  The failure handler is always called on an object that is not FAILED, so it never schedules a
  retry: it marks the row FAILED.
\<close>

lemma handlePayoutFailure_fails:
  assumes "p_status p \<noteq> PayoutStatus.FAILED"
  shows "handlePayoutFailure now p msg s =
    save_payout (p\<lparr>p_retryCount := p_retryCount p + 1,
      p_failureReason := Some (if msg = [] then ''Unknown error'' else msg),
      p_status := PayoutStatus.FAILED\<rparr>) s"
  using assms by (simp add: handlePayoutFailure_def canRetry_def Let_def)

subsection \<open>The row invariant under interleaving\<close>

definition row_ok :: "Payout \<Rightarrow> bool" where
  "row_ok p =
     (p_status p \<noteq> PayoutStatus.RETRY_SCHEDULED
      \<and> (p_status p = PayoutStatus.COMPLETED \<longrightarrow>
           p_transactionHash p \<noteq> None \<and> p_stellarLedger p \<noteq> None
           \<and> p_processedAt p \<noteq> None \<and> p_failureReason p = None)
      \<and> (p_status p = PayoutStatus.FAILED \<longrightarrow> p_failureReason p \<noteq> None \<and> 0 < p_retryCount p))"

fun task_ok :: "payout_task \<Rightarrow> bool" where
  "task_ok (ProcessPay p) = (p_status p = PayoutStatus.PROCESSING)"
| "task_ok _ = True"

definition payouts_inv :: "payouts_state \<Rightarrow> bool" where
  "payouts_inv s = ((\<forall>p \<in> set (payouts s). row_ok p) \<and> (\<forall>t \<in> set (tasks s). task_ok t))"

lemma payouts_inv_save: "payouts_inv s \<Longrightarrow> row_ok q \<Longrightarrow> payouts_inv (save_payout q s)"
  using set_save_row_subset [of p_id q "payouts s"] by (auto simp: payouts_inv_def)

lemma payouts_inv_emit: "payouts_inv s \<Longrightarrow> payouts_inv (emit_payout e s)"
  by (simp add: payouts_inv_def)

lemma payouts_inv_spawn: "payouts_inv s \<Longrightarrow> task_ok t \<Longrightarrow> payouts_inv (spawn t s)"
  by (auto simp: payouts_inv_def)

lemma payouts_inv_finish: "payouts_inv s \<Longrightarrow> payouts_inv (finish t s)"
  by (auto simp: payouts_inv_def dest: notin_set_remove1)

lemma payouts_inv_paid: "payouts_inv s \<Longrightarrow> payouts_inv (s\<lparr>paid := x\<rparr>)"
  by (simp add: payouts_inv_def)

lemmas payouts_inv_intros =
  payouts_inv_save payouts_inv_emit payouts_inv_spawn payouts_inv_finish payouts_inv_paid

lemma no_retry_due:
  "\<forall>p \<in> set (payouts s). row_ok p \<Longrightarrow> processScheduledRetries now s = s"
proof -
  assume "\<forall>p \<in> set (payouts s). row_ok p"
  then have "filter (due_for_retry now) (payouts s) = []"
    by (auto simp: filter_empty_conv due_for_retry_def row_ok_def)
  then show ?thesis by (simp add: processScheduledRetries_def)
qed

lemma process_pay_inv:
  assumes "payouts_inv s" and "p_status p = PayoutStatus.PROCESSING"
  shows "payouts_inv (process_pay env p s)"
  using assms
  by (auto simp: process_pay_def handlePayoutFailure_fails Let_def split: sum.splits option.splits
      intro!: payouts_inv_intros) (simp_all add: row_ok_def)

lemma payout_step_inv: "payout_step s t \<Longrightarrow> payouts_inv s \<Longrightarrow> payouts_inv t"
proof (induction rule: payout_step.induct)
  case (create s newId dto now)
  then show ?case
    by (auto simp: createPayout_def Let_def row_ok_def intro!: payouts_inv_intros)
next
  case (claim_end p s now)
  then show ?case
    by (auto simp: claim_save_def Let_def row_ok_def intro!: payouts_inv_intros)
next
  case (process_end p s env)
  then have "p_status p = PayoutStatus.PROCESSING" by (auto simp: payouts_inv_def)
  with process_end.prems show ?case by (intro process_pay_inv payouts_inv_finish)
next
  case (retry_end p s)
  then show ?case
    by (auto simp: retry_save_def Let_def row_ok_def intro!: payouts_inv_intros)
next
  case (cron s now)
  then show ?case by (simp add: payouts_inv_def no_retry_due)
qed (auto intro!: payouts_inv_intros dest: process_loadD)

lemma payout_reachable_inv: "payout_reachable s \<Longrightarrow> payouts_inv s"
proof (induction rule: payout_reachable.induct)
  case start
  show ?case by (simp add: payouts_inv_def init_payouts_def)
next
  case (step s t)
  then show ?case by (blast intro: payout_step_inv)
qed

subsection \<open>The single-payment invariant of serial runs\<close>

text \<open>
  Per row: a \<open>processPayout\<close> call is in flight exactly while the row is PROCESSING, and there is
  exactly one; unless the save of a payment of the row was rejected (\<open>F\<close>), the network has executed
  exactly one payment, of the row's amount to the row's address, when the row is COMPLETED, and none
  otherwise.
\<close>

definition row_paid_ok :: "id set \<Rightarrow> payout_task list \<Rightarrow> (id \<times> string \<times> decimal7) list \<Rightarrow> Payout \<Rightarrow> bool" where
  "row_paid_ok F tks pd p =
     (count (mset tks) (ProcessStart (p_id p)) = (if p_status p = PayoutStatus.PROCESSING then 1 else 0)
      \<and> (p_id p \<notin> F \<longrightarrow>
           filter (\<lambda>x. fst x = p_id p) pd =
             (if p_status p = PayoutStatus.COMPLETED
              then [(p_id p, p_stellarAddress p, p_amount p)] else [])))"

definition serial_inv :: "id set \<Rightarrow> payouts_state \<Rightarrow> bool" where
  "serial_inv F s =
     (wf_table p_id (payouts s)
      \<and> (\<forall>p \<in> set (payouts s). row_ok p \<and> row_paid_ok F (tasks s) (paid s) p)
      \<and> fst ` set (paid s) \<subseteq> p_id ` set (payouts s)
      \<and> set (tasks s) \<subseteq> ProcessStart ` p_id ` set (payouts s))"

lemma serial_inv_row:
  "serial_inv F s \<Longrightarrow> p \<in> set (payouts s) \<Longrightarrow> row_ok p \<and> row_paid_ok F (tasks s) (paid s) p"
  by (simp add: serial_inv_def)

lemma serial_inv_wf: "serial_inv F s \<Longrightarrow> wf_table p_id (payouts s)"
  by (simp add: serial_inv_def)

text \<open>
  Replacing a row keeps the invariant when the new row is fine with the new tasks and payments, and
  these differ from the old ones only in entries of that row.
\<close>

lemma serial_inv_replace:
  assumes inv: "serial_inv F s" and old: "q \<in> set (payouts s)" and key: "p_id q' = p_id q"
    and t: "payouts t = save_row p_id q' (payouts s)"
    and ok: "row_ok q'" "row_paid_ok F' (tasks t) (paid t) q'"
    and tks: "\<And>i. i \<noteq> p_id q \<Longrightarrow>
       count (mset (tasks t)) (ProcessStart i) = count (mset (tasks s)) (ProcessStart i)"
    and pd: "\<And>i. i \<noteq> p_id q \<Longrightarrow> filter (\<lambda>x. fst x = i) (paid t) = filter (\<lambda>x. fst x = i) (paid s)"
    and F: "F \<subseteq> F'" "F' \<subseteq> insert (p_id q) F"
    and sub: "set (tasks t) \<subseteq> insert (ProcessStart (p_id q)) (set (tasks s))"
             "fst ` set (paid t) \<subseteq> insert (p_id q) (fst ` set (paid s))"
  shows "serial_inv F' t"
proof -
  have wf: "wf_table p_id (payouts s)" using inv by (rule serial_inv_wf)
  have keys: "p_id ` set (payouts t) = p_id ` set (payouts s)"
    using old key by (auto simp: keys_save_row t)
  have "row_ok r \<and> row_paid_ok F' (tasks t) (paid t) r" if "r \<in> set (payouts t)" for r
  proof (cases "r = q'")
    case True
    with ok show ?thesis by simp
  next
    case False
    with payout_repo.in_save [OF wf that [unfolded t]] key
    have r: "r \<in> set (payouts s)" "p_id r \<noteq> p_id q" by auto
    with serial_inv_row [OF inv r(1)] tks pd F(1) show ?thesis by (auto simp: row_paid_ok_def)
  qed
  moreover have "insert (p_id q) (fst ` set (paid s)) \<subseteq> p_id ` set (payouts t)"
    and "insert (ProcessStart (p_id q)) (set (tasks s)) \<subseteq> ProcessStart ` p_id ` set (payouts t)"
    using inv old by (simp_all add: keys serial_inv_def)
  then have "fst ` set (paid t) \<subseteq> p_id ` set (payouts t)"
    and "set (tasks t) \<subseteq> ProcessStart ` p_id ` set (payouts t)"
    by (simp_all only: subset_trans [OF sub(2)] subset_trans [OF sub(1)])
  ultimately show ?thesis
    using wf by (simp add: serial_inv_def wf_save_row t)
qed

lemma serial_inv_create:
  assumes inv: "serial_inv F s" and new: "\<forall>p \<in> set (payouts s). p_id p \<noteq> newId"
  shows "serial_inv F (state_of (createPayout dto newId now s))"
proof -
  obtain p where st: "state_of (createPayout dto newId now s) = save_payout p s"
    and p: "p_id p = newId" "p_status p = PayoutStatus.PENDING"
    by (simp add: createPayout_def Let_def)
  have save: "save_row p_id p (payouts s) = payouts s @ [p]"
    using new p by (intro save_row_new) auto
  have "ProcessStart newId \<notin> set (tasks s)" and "newId \<notin> fst ` set (paid s)"
    using inv new by (fastforce simp: serial_inv_def)+
  then have "row_paid_ok F (tasks s) (paid s) p"
    using p by (auto simp: row_paid_ok_def filter_empty_conv not_in_iff [symmetric] image_iff)
  moreover have "row_ok p" using p by (simp add: row_ok_def)
  moreover have "wf_table p_id (payouts s @ [p])"
    using serial_inv_wf [OF inv] new p by (auto simp: wf_table_def)
  ultimately show ?thesis
    using inv by (auto simp: serial_inv_def st save)
qed

lemma serial_inv_claim:
  assumes inv: "serial_inv F s"
  shows "serial_inv F (state_of (claimPayout dto u now s))"
proof (cases "claim_load dto u s")
  case (Inl e)
  with inv show ?thesis by (simp add: claimPayout_def)
next
  case (Inr p)
  let ?q = "p\<lparr>p_claimedAt := Some now, p_status := PayoutStatus.PROCESSING\<rparr>"
  from claim_loadD [OF Inr] have p: "p \<in> set (payouts s)" "p_status p = PayoutStatus.PENDING"
    by (auto simp: isClaimable_def)
  have ok: "row_paid_ok F (tasks s @ [ProcessStart (p_id p)]) (paid s) ?q" "row_ok ?q"
    using serial_inv_row [OF inv p(1)] p(2) by (auto simp: row_paid_ok_def row_ok_def)
  show ?thesis
    by (rule serial_inv_replace [OF inv p(1), where q' = ?q and F' = F])
      (auto simp: claimPayout_def Inr claim_save_def Let_def ok)
qed

lemma serial_inv_retry:
  assumes inv: "serial_inv F s"
  shows "serial_inv F (state_of (retryPayout pid s))"
proof (cases "retry_load pid s")
  case (Inl e)
  with inv show ?thesis by (simp add: retryPayout_def)
next
  case (Inr p)
  let ?q = "p\<lparr>p_retryCount := 0, p_maxRetries := 3, p_status := PayoutStatus.PROCESSING,
              p_failureReason := None\<rparr>"
  from retry_loadD [OF Inr] have p: "p \<in> set (payouts s)" "p_status p = PayoutStatus.FAILED" by auto
  have ok: "row_paid_ok F (tasks s @ [ProcessStart (p_id p)]) (paid s) ?q" "row_ok ?q"
    using serial_inv_row [OF inv p(1)] p(2) by (auto simp: row_paid_ok_def row_ok_def)
  show ?thesis
    by (rule serial_inv_replace [OF inv p(1), where q' = ?q and F' = F])
      (auto simp: retryPayout_def Inr retry_save_def Let_def ok)
qed

text \<open>The task that is being run belongs to a PROCESSING row, so loading that row succeeds.\<close>

lemma serial_inv_started:
  assumes inv: "serial_inv F s" and "ProcessStart pid \<in> set (tasks s)"
  shows "\<exists>p. process_load pid (finish (ProcessStart pid) s) = Inr (Some p)
           \<and> p \<in> set (payouts s) \<and> p_id p = pid \<and> p_status p = PayoutStatus.PROCESSING"
proof -
  from assms obtain p where p: "p \<in> set (payouts s)" "p_id p = pid"
    by (auto simp: serial_inv_def)
  from serial_inv_row [OF inv p(1)] p(2) assms(2) have "p_status p = PayoutStatus.PROCESSING"
    by (auto simp: row_paid_ok_def split: if_splits)
  with p payout_repo.find_by_key [OF serial_inv_wf [OF inv] p(1)] show ?thesis
    by (auto simp: process_load_def)
qed

lemma serial_inv_process:
  assumes inv: "serial_inv F s" and start: "ProcessStart pid \<in> set (tasks s)"
    and F': "F' = (if e_saveError env = None then F else insert pid F)"
  shows "serial_inv F' (state_of (processPayout env pid (finish (ProcessStart pid) s)))"
proof -
  let ?tks = "remove1 (ProcessStart pid) (tasks s)"
  from serial_inv_started [OF inv start] obtain p
    where load: "process_load pid (finish (ProcessStart pid) s) = Inr (Some p)"
      and p: "p \<in> set (payouts s)" "p_id p = pid" "p_status p = PayoutStatus.PROCESSING" by blast
  have row: "count (mset (tasks s)) (ProcessStart pid) = 1" "pid \<notin> F \<longrightarrow> filter (\<lambda>x. fst x = pid) (paid s) = []"
    using serial_inv_row [OF inv p(1)] p(2,3) by (auto simp: row_paid_ok_def)
  show ?thesis
  proof (cases "executeStellarPayment env p")
    case (Inl msg)
    let ?q = "p\<lparr>p_retryCount := p_retryCount p + 1,
        p_failureReason := Some (if msg = [] then ''Unknown error'' else msg),
        p_status := PayoutStatus.FAILED\<rparr>"
    have ok: "row_ok ?q" "row_paid_ok F' ?tks (paid s) ?q"
      using p row by (auto simp: row_ok_def row_paid_ok_def F')
    show ?thesis
      by (rule serial_inv_replace [OF inv p(1), where q' = ?q and F' = F'])
        (use p ok in \<open>auto simp: processPayout_def process_pay_def handlePayoutFailure_fails load Inl F'
          dest: notin_set_remove1 split: if_splits\<close>)
  next
    case (Inr r)
    obtain hash ledger where r: "r = (hash, ledger)" by (cases r)
    show ?thesis
    proof (cases "e_saveError env")
      case None
      let ?q = "p\<lparr>p_status := PayoutStatus.COMPLETED, p_transactionHash := Some hash,
          p_stellarLedger := Some ledger, p_processedAt := Some (e_now env), p_failureReason := None\<rparr>"
      have ok: "row_ok ?q" "row_paid_ok F' ?tks (paid s @ [(p_id p, p_stellarAddress p, p_amount p)]) ?q"
        using p row by (simp_all add: row_ok_def row_paid_ok_def F' None)
      show ?thesis
        by (rule serial_inv_replace [OF inv p(1), where q' = ?q and F' = F'])
          (use p ok in \<open>auto simp: processPayout_def process_pay_def Let_def load Inr r None F'
            dest: notin_set_remove1\<close>)
    next
      case (Some msg)
      let ?q = "p\<lparr>p_transactionHash := Some hash, p_stellarLedger := Some ledger,
          p_processedAt := Some (e_now env), p_retryCount := p_retryCount p + 1,
          p_failureReason := Some (if msg = [] then ''Unknown error'' else msg),
          p_status := PayoutStatus.FAILED\<rparr>"
      have ok: "row_ok ?q" "row_paid_ok F' ?tks (paid s @ [(p_id p, p_stellarAddress p, p_amount p)]) ?q"
        using p row by (simp_all add: row_ok_def row_paid_ok_def F' Some)
      show ?thesis
        by (rule serial_inv_replace [OF inv p(1), where q' = ?q and F' = F'])
          (use p ok in \<open>auto simp: processPayout_def process_pay_def handlePayoutFailure_fails Let_def
            load Inr r Some F' dest: notin_set_remove1\<close>)
    qed
  qed
qed

lemma serial_reachable_inv: "serial_reachable F s \<Longrightarrow> serial_inv F s"
proof (induction rule: serial_reachable.induct)
  case start
  show ?case by (simp add: serial_inv_def init_payouts_def wf_table_def)
next
  case (cron F s now)
  then show ?case by (simp add: no_retry_due serial_inv_row)
qed (simp_all add: serial_inv_create serial_inv_claim serial_inv_retry serial_inv_process)

subsection \<open>A claimed payout is never claimable again\<close>

text \<open>
  Whatever calls follow, also interleaved: the identities of rows are kept, and no step of the
  service makes a row PENDING that was not.
\<close>

definition claimed_row :: "id \<Rightarrow> payouts_state \<Rightarrow> bool" where
  "claimed_row i s = (i \<in> p_id ` set (payouts s)
     \<and> (\<forall>p \<in> set (payouts s). p_id p = i \<longrightarrow> p_status p \<noteq> PayoutStatus.PENDING))"

lemma claimed_row_save:
  assumes "claimed_row i s" and "p_id q = i \<Longrightarrow> p_status q \<noteq> PayoutStatus.PENDING"
  shows "claimed_row i (save_payout q s)"
  using assms set_save_row_subset [of p_id q "payouts s"]
  by (auto simp: claimed_row_def keys_save_row)

lemma claimed_row_other:
  "claimed_row i (spawn t s) = claimed_row i s"
  "claimed_row i (finish t s) = claimed_row i s"
  "claimed_row i (emit_payout e s) = claimed_row i s"
  "claimed_row i (s\<lparr>paid := x\<rparr>) = claimed_row i s"
  by (simp_all add: claimed_row_def)

lemma claimed_row_retry_each: "claimed_row i s \<Longrightarrow> claimed_row i (retry_each ps s)"
  by (induction ps arbitrary: s) (simp_all add: claimed_row_other claimed_row_save)

lemma handlePayoutFailure_claimed:
  "claimed_row i s \<Longrightarrow> claimed_row i (handlePayoutFailure now p msg s)"
  by (simp add: handlePayoutFailure_def Let_def claimed_row_save)

lemma claimed_row_step: "payout_step s t \<Longrightarrow> claimed_row i s \<Longrightarrow> claimed_row i t"
proof (induction rule: payout_step.induct)
  case (create s newId dto now)
  then show ?case
    by (auto simp: createPayout_def Let_def claimed_row_def keys_save_row save_row_new)
next
  case (process_end p s env)
  then show ?case
    by (auto simp: process_pay_def Let_def claimed_row_other claimed_row_save handlePayoutFailure_claimed
        split: sum.splits option.splits)
qed (simp_all add: claimed_row_other claimed_row_save claim_save_def retry_save_def Let_def
      processScheduledRetries_def claimed_row_retry_each)

lemma claimed_row_steps: "payout_step\<^sup>*\<^sup>* s t \<Longrightarrow> claimed_row i s \<Longrightarrow> claimed_row i t"
  by (induction rule: rtranclp_induct) (auto intro: claimed_row_step)

end
