(* ===== verification/PayoutsProps.thy ===== *)
theory PayoutsProps
  imports PayoutsRun
begin

text \<open>
  The properties of the payout service, over the definitions of Payouts and the runs of
  PayoutsRun, each with a concrete run at which it applies.
\<close>

subsection \<open>A concrete payout and its runs\<close>

definition demo_create :: CreatePayoutDto where
  "demo_create = \<lparr>cr_stellarAddress = ''GA'', cr_amount = 105, cr_asset = None, cr_type = None,
     cr_questId = Some ''q1'', cr_submissionId = Some ''s1''\<rparr>"

definition demo_claim :: ClaimPayoutDto where
  "demo_claim = \<lparr>c_submissionId = ''s1'', c_stellarAddress = ''GA''\<rparr>"

definition demo_env :: pay_env where
  "demo_env = \<lparr>e_nodeEnv = Some ''test'', e_secretKey = None, e_now = 50, e_random = 0,
     e_saveError = None\<rparr>"

definition demo_prod :: pay_env where
  "demo_prod = demo_env\<lparr>e_nodeEnv := Some ''production''\<rparr>"

definition demo_created :: payouts_state where
  "demo_created = state_of (createPayout demo_create ''p1'' 10 init_payouts)"

definition demo_claimed :: payouts_state where
  "demo_claimed = state_of (claimPayout demo_claim ''GA'' 20 demo_created)"

definition demo_run :: "pay_env \<Rightarrow> payouts_state" where
  "demo_run env = state_of (processPayout env ''p1'' (finish (ProcessStart ''p1'') demo_claimed))"

lemmas payout_eval =
  demo_create_def demo_claim_def demo_created_def demo_claimed_def demo_run_def demo_env_def
  demo_prod_def init_payouts_def createPayout_def claimPayout_def claim_load_def claim_save_def
  isClaimable_def processPayout_def process_load_def process_pay_def executeStellarPayment_def
  is_dev_or_test_def handlePayoutFailure_def canRetry_def retryPayout_def retry_load_def
  retry_save_def save_payout_def spawn_def finish_def emit_payout_def find_row_def mapToResponse_def
  Let_def

lemma demo_created_serial: "serial_reachable {} demo_created"
  unfolding demo_created_def
  by (rule serial_reachable.create [OF serial_reachable.start]) (simp add: init_payouts_def)

lemma demo_run_serial:
  "e_saveError env = None \<Longrightarrow> serial_reachable {} (demo_run env)"
proof -
  assume env: "e_saveError env = None"
  have "serial_reachable {} demo_claimed"
    unfolding demo_claimed_def by (rule serial_reachable.claim [OF demo_created_serial])
  moreover have "ProcessStart ''p1'' \<in> set (tasks demo_claimed)"
    by (simp add: payout_eval)
  ultimately show ?thesis
    unfolding demo_run_def using serial_reachable.process [of "{}" demo_claimed "''p1''" env] env by simp
qed

text \<open>A serial run is an interleaved one, step by step; here for the run that fails in production.\<close>

lemma demo_failed_reachable: "payout_reachable (demo_run demo_prod)"
proof -
  let ?s1 = demo_created
  let ?p = "hd (payouts ?s1)"
  let ?s2 = "spawn (ClaimSave ?p) ?s1"
  let ?s3 = "fst (claim_save 20 ?p (finish (ClaimSave ?p) ?s2))"
  let ?q = "hd (payouts ?s3)"
  let ?s4 = "spawn (ProcessPay ?q) (finish (ProcessStart ''p1'') ?s3)"
  have 1: "payout_reachable ?s1"
    unfolding demo_created_def
    by (rule payout_reachable.step [OF payout_reachable.start payout_step.create])
      (simp add: init_payouts_def)
  have 2: "payout_reachable ?s2"
    by (rule payout_reachable.step [OF 1 payout_step.claim_begin [of demo_claim "''GA''"]])
      (simp add: payout_eval)
  have 3: "payout_reachable ?s3"
    by (rule payout_reachable.step [OF 2 payout_step.claim_end]) (simp add: payout_eval)
  have 4: "payout_reachable ?s4"
    by (rule payout_reachable.step [OF 3 payout_step.process_begin]) (simp_all add: payout_eval)
  have "payout_reachable (process_pay demo_prod ?q (finish (ProcessPay ?q) ?s4))"
    by (rule payout_reachable.step [OF 4 payout_step.process_end]) (simp add: payout_eval)
  moreover have "process_pay demo_prod ?q (finish (ProcessPay ?q) ?s4) = demo_run demo_prod"
    by (simp add: payout_eval)
  ultimately show ?thesis by simp
qed

subsection \<open>Payments\<close>

text \<open>
  Claim C1.  Single payment: when calls of the payouts service run one after the other, every started
  processing to its end before the next call, no other writer touches the rows (the handlers of the
  multi-signature service among them) and every call of the database but the saves after a payment
  succeeds, then for every
  payout \<open>p\<close> for which the save after a payment was never rejected, the network has executed exactly
  one payment, of the amount of \<open>p\<close> to the address of \<open>p\<close>, when \<open>p\<close> is COMPLETED, and none when it has
  any other status; payments of other payouts may have lost their saves.
\<close>
theorem serial_single_payment:
  assumes "serial_reachable F s" and "p \<in> set (payouts s)" and "p_id p \<notin> F"
  shows "filter (\<lambda>x. fst x = p_id p) (paid s) =
    (if p_status p = PayoutStatus.COMPLETED then [(p_id p, p_stellarAddress p, p_amount p)] else [])"
  using serial_inv_row [OF serial_reachable_inv [OF assms(1)] assms(2)] assms(3)
  by (simp add: row_paid_ok_def)

theorem serial_single_payment_witness:
  "filter (\<lambda>x. fst x = ''p1'') (paid (demo_run demo_env)) = [(''p1'', ''GA'', 105)]"
proof -
  have "serial_reachable {} (demo_run demo_env)"
    by (rule demo_run_serial) (simp add: demo_env_def)
  moreover have "payouts (demo_run demo_env) \<noteq> []" by (simp add: payout_eval)
  ultimately have "filter (\<lambda>x. fst x = p_id (hd (payouts (demo_run demo_env)))) (paid (demo_run demo_env))
    = (if p_status (hd (payouts (demo_run demo_env))) = PayoutStatus.COMPLETED
       then [(p_id (hd (payouts (demo_run demo_env))),
              p_stellarAddress (hd (payouts (demo_run demo_env))),
              p_amount (hd (payouts (demo_run demo_env))))] else [])"
    by (intro serial_single_payment) auto
  then show ?thesis by (simp add: payout_eval)
qed

text \<open>
  Claim C2.  Double payment: two claims that both load one payout before either of them saves it both
  succeed and both start its processing; when both processings load it before either of them pays,
  outside production and with every save succeeding, both pay it.  The eight parts run in this order:
  load, load, save, save of the two claims, then load, load, pay, pay of the two processings.
\<close>
theorem interleaved_double_payment:
  assumes "wf_table p_id (payouts s)"
    and "claim_load dto1 u1 s = Inr p" and "claim_load dto2 u2 s = Inr p"
    and "is_dev_or_test (e_nodeEnv env1)" and "e_saveError env1 = None"
    and "is_dev_or_test (e_nodeEnv env2)" and "e_saveError env2 = None"
  shows "let s1 = fst (claim_save now1 p s); s2 = fst (claim_save now2 p s1) in
     tasks s2 = tasks s @ [ProcessStart (p_id p), ProcessStart (p_id p)]
   \<and> (\<exists>q. process_load (p_id p) s2 = Inr (Some q)
        \<and> paid (process_pay env2 q (process_pay env1 q s2))
            = paid s @ [(p_id p, p_stellarAddress p, p_amount p), (p_id p, p_stellarAddress p, p_amount p)])"
proof -
  let ?q = "\<lambda>now. p\<lparr>p_claimedAt := Some now, p_status := PayoutStatus.PROCESSING\<rparr>"
  have wf: "wf_table p_id (save_row p_id (?q now1) (payouts s))"
    using assms(1) by (rule wf_save_row)
  have "find_row (\<lambda>r. p_id r = p_id p) (save_row p_id (?q now2) (save_row p_id (?q now1) (payouts s)))
      = Some (?q now2)"
    using payout_repo.find_saved [OF wf, of "?q now2"] by simp
  then show ?thesis
    using assms(4-)
    by (simp add: claim_save_def Let_def process_load_def process_pay_def executeStellarPayment_def)
qed

theorem interleaved_double_payment_witness:
  "let p = hd (payouts demo_created); s2 = fst (claim_save 21 p (fst (claim_save 20 p demo_created)));
       q = hd (payouts s2)
   in paid (process_pay demo_env q (process_pay demo_env q s2)) = [(''p1'', ''GA'', 105), (''p1'', ''GA'', 105)]"
proof -
  let ?p = "hd (payouts demo_created)"
  have load: "claim_load demo_claim ''GA'' demo_created = Inr ?p" and wf: "wf_table p_id (payouts demo_created)"
    by (simp_all add: payout_eval wf_table_def)
  have env: "is_dev_or_test (e_nodeEnv demo_env)" "e_saveError demo_env = None"
    by (simp_all add: payout_eval)
  show ?thesis
    using interleaved_double_payment [OF wf load load env env, of 20 21]
    by (simp add: payout_eval)
qed

text \<open>
  Failed save: when the payment goes through but the save that records it is rejected,
  the payout is left FAILED, and a manual retry pays it a second time.
\<close>
theorem save_failure_then_retry_pays_twice:
  assumes "wf_table p_id (payouts s)" and "p \<in> set (payouts s)"
    and "p_status p = PayoutStatus.PROCESSING"
    and "is_dev_or_test (e_nodeEnv env1)" and "e_saveError env1 = Some msg"
    and "is_dev_or_test (e_nodeEnv env2)" and "e_saveError env2 = None"
  shows "let s1 = state_of (processPayout env1 (p_id p) s);
             s2 = state_of (retryPayout (p_id p) s1);
             s3 = state_of (processPayout env2 (p_id p) s2)
         in map_option p_status (find_row (\<lambda>q. p_id q = p_id p) (payouts s1)) = Some PayoutStatus.FAILED
          \<and> paid s3 = paid s @ [(p_id p, p_stellarAddress p, p_amount p),
                                (p_id p, p_stellarAddress p, p_amount p)]"
proof -
  have wf: "wf_table p_id (save_row p_id q (payouts s))" for q
    using assms(1) by (rule wf_save_row)
  have load: "find_row (\<lambda>q. p_id q = p_id p) (payouts s) = Some p"
    using assms(1,2) by (rule payout_repo.find_by_key)
  have saved: "find_row (\<lambda>r. p_id r = p_id p) (save_row p_id q t) = Some q"
    if "p_id q = p_id p" "wf_table p_id t" for q t
    using payout_repo.find_saved [OF that(2), of q] that(1) by simp
  show ?thesis
    using assms(3-)
    by (simp add: processPayout_def process_load_def load process_pay_def executeStellarPayment_def
        handlePayoutFailure_fails Let_def saved assms(1) wf wf_save_row retryPayout_def
        retry_load_def retry_save_def)
qed

subsection \<open>Retries\<close>

text \<open>
  No automatic retry: in no reachable state, however calls interleave, is a payout
  RETRY_SCHEDULED, so the retry job never finds anything to do (the failure handler tests for FAILED
  before it sets a status).
\<close>
theorem retry_never_scheduled:
  assumes "payout_reachable s"
  shows "(\<forall>p \<in> set (payouts s). p_status p \<noteq> PayoutStatus.RETRY_SCHEDULED)
       \<and> processScheduledRetries now s = s"
  using payout_reachable_inv [OF assms] by (auto simp: payouts_inv_def row_ok_def no_retry_due)

theorem retry_never_scheduled_witness:
  "map p_retryCount (payouts (demo_run demo_prod)) = [1]
   \<and> map p_status (payouts (demo_run demo_prod)) = [PayoutStatus.FAILED]
   \<and> processScheduledRetries 100000000 (demo_run demo_prod) = demo_run demo_prod"
  using retry_never_scheduled [OF demo_failed_reachable, of 100000000] by (simp add: payout_eval)

text \<open>
  Receipts: in every reachable state, however calls interleave, a COMPLETED payout has
  its transaction hash, ledger and processing time and no failure reason, and a FAILED one has a
  failure reason and at least one counted attempt.
\<close>
theorem completed_has_receipt:
  assumes "payout_reachable s" and "p \<in> set (payouts s)"
  shows "(p_status p = PayoutStatus.COMPLETED \<longrightarrow>
            p_transactionHash p \<noteq> None \<and> p_stellarLedger p \<noteq> None \<and> p_processedAt p \<noteq> None
            \<and> p_failureReason p = None)
       \<and> (p_status p = PayoutStatus.FAILED \<longrightarrow> p_failureReason p \<noteq> None \<and> 0 < p_retryCount p)"
  using payout_reachable_inv [OF assms(1)] assms(2) by (auto simp: payouts_inv_def row_ok_def)

theorem completed_has_receipt_witness:
  "p_status (hd (payouts (demo_run demo_prod))) = PayoutStatus.FAILED
   \<and> p_failureReason (hd (payouts (demo_run demo_prod))) \<noteq> None"
proof -
  have "hd (payouts (demo_run demo_prod)) \<in> set (payouts (demo_run demo_prod))"
    by (simp add: payout_eval)
  from completed_has_receipt [OF demo_failed_reachable this]
  show ?thesis by (simp add: payout_eval)
qed

subsection \<open>Claiming\<close>

text \<open>
  Claim C3.  A successful claim is by the address the payout belongs to and the request names; it
  takes one claimable payout to PROCESSING, starts exactly one processing call and changes no other
  row and pays nothing; and in every state that any interleaving of further calls of the payouts service
  leads to, no claim that loads its payout then finds this payout again: it fails or is a claim of
  another payout.
\<close>
theorem claimPayout_exclusive:
  assumes "wf_table p_id (payouts s)" and "claimPayout dto u now s = (Inr r, s')"
  shows "\<exists>p. p \<in> set (payouts s) \<and> isClaimable p \<and> p_stellarAddress p = u \<and> c_stellarAddress dto = u
     \<and> p_submissionId p = Some (c_submissionId dto) \<and> r_id r = p_id p
     \<and> set (payouts s') = insert (p\<lparr>p_claimedAt := Some now, p_status := PayoutStatus.PROCESSING\<rparr>)
                                (set (payouts s) - {p})
     \<and> tasks s' = tasks s @ [ProcessStart (p_id p)] \<and> paid s' = paid s
     \<and> (\<forall>t dto' u' q. payout_step\<^sup>*\<^sup>* s' t \<and> claim_load dto' u' t = Inr q \<longrightarrow> p_id q \<noteq> p_id p)"
proof -
  from assms(2) obtain p where load: "claim_load dto u s = Inr p"
    by (auto simp: claimPayout_def split: sum.splits)
  let ?q = "p\<lparr>p_claimedAt := Some now, p_status := PayoutStatus.PROCESSING\<rparr>"
  from assms(2) load have s': "s' = spawn (ProcessStart (p_id p)) (save_payout ?q s)" and r: "r_id r = p_id p"
    by (auto simp: claimPayout_def claim_save_def Let_def mapToResponse_def)
  note p = claim_loadD [OF load]
  have rows: "set (payouts s') = insert ?q (set (payouts s) - {p})"
    using set_save_row [OF assms(1), of ?q] wf_table_unique [OF assms(1), of _ p] p by (auto simp: s')
  then have "claimed_row (p_id p) s'"
    using wf_table_unique [OF assms(1), of _ p] p by (auto simp: claimed_row_def)
  then have "p_id q \<noteq> p_id p" if "payout_step\<^sup>*\<^sup>* s' t" "claim_load dto' u' t = Inr q" for t dto' u' q
    using claimed_row_steps [OF that(1)] claim_loadD [OF that(2)]
    by (auto simp: claimed_row_def isClaimable_def)
  with p rows r show ?thesis by (intro exI [of _ p]) (auto simp: s')
qed

theorem claimPayout_exclusive_witness:
  "(\<exists>r. claimPayout demo_claim ''GA'' 20 demo_created = (Inr r, demo_claimed))
   \<and> \<not> succeeds (claimPayout demo_claim ''GA'' 30 demo_claimed)"
proof -
  obtain r where r: "claimPayout demo_claim ''GA'' 20 demo_created = (Inr r, demo_claimed)"
    by (simp add: payout_eval)
  have wf: "wf_table p_id (payouts demo_created)" by (simp add: payout_eval wf_table_def)
  have "p_id ` set (payouts demo_created) = {''p1''}" "p_id ` set (payouts demo_claimed) = {''p1''}"
    by (simp_all add: payout_eval)
  then have "p_id q = p_id p" if "claim_load demo_claim ''GA'' demo_claimed = Inr q"
    "p \<in> set (payouts demo_created)" for p q
    using imageI [OF that(2), of p_id] claim_loadD [OF that(1)] by (metis imageI singletonD)
  moreover have "payout_step\<^sup>*\<^sup>* demo_claimed demo_claimed" by simp
  ultimately have "\<forall>q. claim_load demo_claim ''GA'' demo_claimed \<noteq> Inr q"
    using claimPayout_exclusive [OF wf r] by blast
  then have "\<not> succeeds (claimPayout demo_claim ''GA'' 30 demo_claimed)"
    by (cases "claim_load demo_claim ''GA'' demo_claimed") (auto simp: claimPayout_def)
  with r show ?thesis by blast
qed

subsection \<open>Queries\<close>

text \<open>What \<open>ORDER BY createdAt DESC\<close> promises of one query: the same rows, no older row before a newer.\<close>

definition newest_first :: "(Payout list \<Rightarrow> Payout list) \<Rightarrow> bool" where
  "newest_first ord = (\<forall>t. mset (ord t) = mset t \<and> sorted_wrt (\<lambda>p q. p_createdAt q \<le> p_createdAt p) (ord t))"

text \<open>With pairwise different times the promise leaves one order only.\<close>

lemma newest_first_unique:
  assumes "newest_first ord" and "newest_first ord'" and "distinct (map p_createdAt t)"
  shows "ord t = ord' t"
proof -
  have keys: "sorted (map (\<lambda>p. - p_createdAt p) (o' t)) \<and> distinct (map (\<lambda>p. - p_createdAt p) (o' t))
      \<and> set (o' t) = set t" if "newest_first o'" for o'
  proof -
    have "mset (map p_createdAt (o' t)) = mset (map p_createdAt t)"
      using that by (simp add: newest_first_def)
    then have "distinct (map p_createdAt (o' t))"
      using assms(3) mset_eq_imp_distinct_iff by blast
    then have "distinct (map (\<lambda>p. - p_createdAt p) (o' t))"
      by (simp add: distinct_map inj_on_def)
    moreover have "sorted (map (\<lambda>p. - p_createdAt p) (o' t))"
      using that by (simp add: newest_first_def sorted_map)
    moreover have "set (o' t) = set t" using that by (metis newest_first_def mset_eq_setD)
    ultimately show ?thesis by blast
  qed
  have "inj_on (\<lambda>p. - p_createdAt p) (set t)"
    using assms(3) by (auto simp: distinct_map inj_on_def)
  then show ?thesis
    using keys [OF assms(1)] keys [OF assms(2)]
    by (intro map_sorted_distinct_set_unique [of "\<lambda>p. - p_createdAt p"]) auto
qed

text \<open>
  Claim C4.  Paging: on a table that does not change meanwhile, when no two of the payouts the filters
  select were created at the same time, the pages 1 to \<open>totalPages\<close> of a history, each a query of its
  own, one after the other are all the selected payouts, each exactly once, strictly newest first;
  and no page is longer than the limit.  (With equal times the order, hence the union of the pages, is
  left to the database.)
\<close>
theorem history_pages_complete:
  assumes "0 < limit" and "\<And>page. newest_first (ord page)"
    and "distinct (map p_createdAt (filter (history_where query u) (payouts s)))"
  shows "\<exists>rows. mset rows = mset (filter (history_where query u) (payouts s))
     \<and> sorted_wrt (\<lambda>p q. p_createdAt q < p_createdAt p) rows
     \<and> concat (map (\<lambda>page. h_payouts (getPayoutHistory (ord page)
                              (query\<lparr>q_page := Some page, q_limit := Some limit\<rparr>) u s))
         [1..<Suc (h_totalPages (getPayoutHistory (ord 0) (query\<lparr>q_limit := Some limit\<rparr>) u s))])
       = map mapToResponse rows
     \<and> (\<forall>page. length (h_payouts (getPayoutHistory (ord page)
                  (query\<lparr>q_page := Some page, q_limit := Some limit\<rparr>) u s)) \<le> limit)"
proof -
  let ?found = "filter (history_where query u) (payouts s)"
  let ?rows = "ord 0 ?found"
  have flt: "history_where (query\<lparr>q_page := a, q_limit := b\<rparr>) u = history_where query u"
    and flt': "history_where (query\<lparr>q_limit := b\<rparr>) u = history_where query u" for a b
    by (simp_all add: history_where_def fun_eq_iff)
  have one: "ord page ?found = ?rows" for page
    by (rule newest_first_unique [OF assms(2) assms(2) assms(3)])
  have rows: "mset ?rows = mset ?found"
    "sorted_wrt (\<lambda>p q. p_createdAt q \<le> p_createdAt p) ?rows"
    using assms(2) [of 0] by (simp_all add: newest_first_def)
  then have "distinct (map p_createdAt ?rows)"
    using assms(3) by (metis mset_eq_imp_distinct_iff mset_map)
  with rows(2) have strict: "sorted_wrt (\<lambda>p q. p_createdAt q < p_createdAt p) ?rows"
    by (auto simp: sorted_wrt_iff_nth_less distinct_conv_nth order_less_le)
  have len: "length ?rows = length ?found" using rows(1) by (rule mset_eq_length)
  have "concat (map (\<lambda>page. map mapToResponse (page_of page limit ?rows)) ns)
      = map mapToResponse (concat (map (\<lambda>page. page_of page limit ?rows) ns))" for ns
    by (simp add: map_concat comp_def)
  then have "concat (map (\<lambda>page. map mapToResponse (page_of page limit ?rows))
      [1..<Suc (ceil_div (length ?found) limit)]) = map mapToResponse ?rows"
    using all_pages [OF assms(1), of ?rows] by (simp only: len)
  moreover have "h_payouts (getPayoutHistory (ord page) (query\<lparr>q_page := Some page, q_limit := Some limit\<rparr>) u s)
      = map mapToResponse (page_of page limit ?rows)" for page
    using one [of page] by (simp add: getPayoutHistory_def Let_def flt)
  moreover have "h_totalPages (getPayoutHistory (ord 0) (query\<lparr>q_limit := Some limit\<rparr>) u s)
      = ceil_div (length ?found) limit"
    by (simp add: getPayoutHistory_def Let_def flt')
  ultimately show ?thesis
    using rows(1) strict by (intro exI [of _ ?rows]) (simp add: length_page_of)
qed

lemma newest_first_order_desc: "newest_first (order_desc p_createdAt)"
  unfolding newest_first_def order_desc_def
proof (intro allI conjI)
  fix t :: "Payout list"
  have "sorted (map (\<lambda>p. - p_createdAt p) (sort_key (\<lambda>p. - p_createdAt p) t))" by simp
  then show "sorted_wrt (\<lambda>p q. p_createdAt q \<le> p_createdAt p) (sort_key (\<lambda>p. - p_createdAt p) t)"
    by (simp add: sorted_map)
qed simp

theorem history_pages_complete_witness:
  "map r_id (concat (map (\<lambda>page. h_payouts (getPayoutHistory (order_desc p_createdAt)
      (\<lparr>q_stellarAddress = None, q_status = None, q_type = None, q_page = Some page, q_limit = Some 1\<rparr>)
      (Some ''GA'') demo_created)) [1..<2])) = [''p1'']"
proof -
  let ?q = "\<lparr>q_stellarAddress = None, q_status = None, q_type = None, q_page = None, q_limit = None\<rparr>"
  have found: "filter (history_where ?q (Some ''GA'')) (payouts demo_created) = payouts demo_created"
    and "distinct (map p_createdAt (payouts demo_created))"
    and ids: "map p_id (payouts demo_created) = [''p1'']"
    and "length (payouts demo_created) = Suc 0"
    by (simp_all add: payout_eval history_where_def)
  then have dist: "distinct (map p_createdAt (filter (history_where ?q (Some ''GA'')) (payouts demo_created)))"
    by (simp only: found)
  have total: "h_totalPages (getPayoutHistory (order_desc p_createdAt)
      (?q\<lparr>q_limit := Some 1\<rparr>) (Some ''GA'') demo_created) = 1"
    by (simp add: payout_eval getPayoutHistory_def ceil_div_def history_where_def)
  obtain rows where rows: "mset rows = mset (payouts demo_created)"
    "concat (map (\<lambda>page. h_payouts (getPayoutHistory (order_desc p_createdAt)
        (?q\<lparr>q_page := Some page, q_limit := Some 1\<rparr>) (Some ''GA'') demo_created)) [1..<Suc 1])
     = map mapToResponse rows"
    using history_pages_complete [where ord = "\<lambda>_. order_desc p_createdAt",
        OF less_numeral_extra(1) newest_first_order_desc dist]
    unfolding found total by (elim exE conjE)
  have "mset (map p_id rows) = {#''p1''#}"
    using rows(1) ids by (metis mset_map mset_single_iff_right mset_single_iff)
  then have "map p_id rows = [''p1'']" by (simp only: mset_single_iff_right mset_single_iff)
  moreover have "map r_id (map mapToResponse rows) = map p_id rows"
    by (simp add: mapToResponse_def)
  ultimately show ?thesis using rows(2) by (simp add: numeral_2_eq_2)
qed

text \<open>
  The history route of a user is not limited to that user: an address in the query
  replaces the caller's, so every caller who asks for an address gets exactly its payouts.
\<close>
theorem history_of_any_address:
  assumes "q_stellarAddress query = Some a" and "a \<noteq> []" and "newest_first ord"
  shows "getMyPayoutHistory ord query u s = getMyPayoutHistory ord query u' s
       \<and> getMyPayoutHistory ord query u s = getAllPayouts ord query s
       \<and> (\<forall>r \<in> set (h_payouts (getMyPayoutHistory ord query u s)). r_stellarAddress r = a)"
proof -
  have "history_where query (Some v) = history_where query None" for v
    using assms by (simp add: history_where_def fun_eq_iff)
  then have eq: "getMyPayoutHistory ord query v s = getAllPayouts ord query s" for v
    by (simp add: getMyPayoutHistory_def getAllPayouts_def getPayoutHistory_def)
  have "set (ord t) = set t" for t
    using assms(3) by (metis newest_first_def mset_eq_setD)
  then have "r_stellarAddress r = a" if "r \<in> set (h_payouts (getAllPayouts ord query s))" for r
    using that assms
    by (auto simp: getAllPayouts_def getPayoutHistory_def history_where_def Let_def mapToResponse_def
        dest!: subsetD [OF page_of_subset])
  with eq show ?thesis by auto
qed

theorem history_of_any_address_witness:
  "map r_stellarAddress (h_payouts (getMyPayoutHistory (order_desc p_createdAt)
     \<lparr>q_stellarAddress = Some ''GA'', q_status = None, q_type = None, q_page = None, q_limit = None\<rparr>
     ''GB'' demo_created)) = [''GA'']"
  using history_of_any_address [of
     "\<lparr>q_stellarAddress = Some ''GA'', q_status = None, q_type = None, q_page = None, q_limit = None\<rparr>"
     "''GA''" "order_desc p_createdAt" "''GB''" demo_created "''GA''"] newest_first_order_desc
  by (simp add: payout_eval getMyPayoutHistory_def getAllPayouts_def getPayoutHistory_def
      history_where_def order_desc_def page_of_def)

text \<open>
  Statistics: pending, completed and failed payouts are disjoint parts of the total, and
  what is neither is in processing or scheduled; with no negative amount the same holds of the sums.
\<close>
theorem stats_partition:
  assumes "\<forall>p \<in> set (payouts s). 0 \<le> p_amount p"
  shows "let st = getPayoutStats None s in
     st_totalPayouts st = st_pendingPayouts st + st_completedPayouts st + st_failedPayouts st
       + count_rows (\<lambda>p. p_status p = PayoutStatus.PROCESSING \<or> p_status p = PayoutStatus.RETRY_SCHEDULED) (payouts s)
     \<and> 0 \<le> st_pendingAmount st \<and> 0 \<le> st_completedAmount st
     \<and> st_pendingAmount st + st_completedAmount st \<le> st_totalAmount st"
proof -
  let ?P = "\<lambda>p. p_status p = PayoutStatus.PENDING" and ?C = "\<lambda>p. p_status p = PayoutStatus.COMPLETED"
    and ?F = "\<lambda>p. p_status p = PayoutStatus.FAILED"
    and ?O = "\<lambda>p. p_status p = PayoutStatus.PROCESSING \<or> p_status p = PayoutStatus.RETRY_SCHEDULED"
  have count: "length t = length (filter ?P t) + length (filter ?C t) + length (filter ?F t)
      + length (filter ?O t)" for t :: "Payout list"
  proof (induction t)
    case (Cons p t)
    then show ?case by (cases "p_status p") simp_all
  qed simp
  have sums: "0 \<le> sum_list (map p_amount (filter ?P t)) \<and> 0 \<le> sum_list (map p_amount (filter ?C t))
      \<and> sum_list (map p_amount (filter ?P t)) + sum_list (map p_amount (filter ?C t))
        \<le> sum_list (map p_amount t)" if "\<forall>p \<in> set t. 0 \<le> p_amount p" for t
    using that
  proof (induction t)
    case (Cons p t)
    then have IH: "0 \<le> sum_list (map p_amount (filter ?P t))" "0 \<le> sum_list (map p_amount (filter ?C t))"
      "sum_list (map p_amount (filter ?P t)) + sum_list (map p_amount (filter ?C t))
        \<le> sum_list (map p_amount t)" and "0 \<le> p_amount p" by auto
    then show ?case by (cases "p_status p") simp_all
  qed simp
  show ?thesis
    using sums [OF assms] count [of "payouts s"]
    by (simp add: getPayoutStats_def count_rows_def Let_def)
qed

theorem stats_partition_witness:
  "st_totalPayouts (getPayoutStats None demo_created) = 1
   \<and> st_pendingAmount (getPayoutStats None demo_created) \<le> st_totalAmount (getPayoutStats None demo_created)"
  using stats_partition [of demo_created]
  by (simp add: payout_eval getPayoutStats_def)

theorem save_failure_then_retry_pays_twice_witness:
  "paid (state_of (processPayout demo_env ''p1'' (state_of (retryPayout ''p1''
     (state_of (processPayout (demo_env\<lparr>e_saveError := Some ''connection lost''\<rparr>) ''p1'' demo_claimed))))))
   = [(''p1'', ''GA'', 105), (''p1'', ''GA'', 105)]"
proof -
  let ?p = "hd (payouts demo_claimed)"
  have "wf_table p_id (payouts demo_claimed)" "?p \<in> set (payouts demo_claimed)"
    "p_status ?p = PayoutStatus.PROCESSING"
    "is_dev_or_test (e_nodeEnv (demo_env\<lparr>e_saveError := Some ''connection lost''\<rparr>))"
    "e_saveError (demo_env\<lparr>e_saveError := Some ''connection lost''\<rparr>) = Some ''connection lost''"
    "is_dev_or_test (e_nodeEnv demo_env)" "e_saveError demo_env = None"
    by (simp_all add: payout_eval wf_table_def)
  from save_failure_then_retry_pays_twice [OF this] show ?thesis
    by (simp add: Let_def) (simp add: payout_eval)
qed

end
