(* ===== verification/MultiSig.thy ===== *)
theory MultiSig
  imports Repository
begin

text \<open>
  The multi-signature wallets, \<open>BackEnd/src/modules/stellar/multisig\<close>: the four entities and every
  operation of \<open>MultiSigWalletService\<close>.  The state holds the four tables and the events emitted.
  An insert that violates a unique index of an entity is rejected by the database, as the entities'
  \<open>@Index(..., { unique: true })\<close> declare.  The audit columns the database fills in by itself
  (\<open>updatedAt\<close>) are left out, and so are the columns of a transaction the service neither reads nor
  writes (\<open>stellarLedger\<close>, \<open>completedAt\<close>, \<open>cancelledAt\<close>, \<open>cancelledBy\<close>).  \<open>approveTransaction\<close> also sets
  \<open>lastModifiedBy\<close> of the transaction, which is no column of it and is not stored.
\<close>

subsection \<open>Entities\<close>

datatype MultiSigWalletStatus = ACTIVE | INACTIVE | SUSPENDED

datatype SignerStatus = ACTIVE | INACTIVE | REMOVED

datatype SignerRole = OWNER | ADMIN | APPROVER | VIEWER

datatype MultiSigTransactionStatus =
  PENDING | APPROVED | REJECTED | CANCELLED | EXECUTING | COMPLETED | FAILED

datatype MultiSigTransactionType =
  PAYOUT | THRESHOLD_UPDATE | ADD_SIGNER | REMOVE_SIGNER | UPDATE_ROLE | FREEZE_ACCOUNT | CUSTOM

datatype SignatureStatus = PENDING | SIGNED | REJECTED | EXPIRED

fun show_tx_status :: "MultiSigTransactionStatus \<Rightarrow> string" where
  "show_tx_status MultiSigTransactionStatus.PENDING = ''PENDING''"
| "show_tx_status MultiSigTransactionStatus.APPROVED = ''APPROVED''"
| "show_tx_status MultiSigTransactionStatus.REJECTED = ''REJECTED''"
| "show_tx_status MultiSigTransactionStatus.CANCELLED = ''CANCELLED''"
| "show_tx_status MultiSigTransactionStatus.EXECUTING = ''EXECUTING''"
| "show_tx_status MultiSigTransactionStatus.COMPLETED = ''COMPLETED''"
| "show_tx_status MultiSigTransactionStatus.FAILED = ''FAILED''"

fun show_sig_status :: "SignatureStatus \<Rightarrow> string" where
  "show_sig_status SignatureStatus.PENDING = ''PENDING''"
| "show_sig_status SignatureStatus.SIGNED = ''SIGNED''"
| "show_sig_status SignatureStatus.REJECTED = ''REJECTED''"
| "show_sig_status SignatureStatus.EXPIRED = ''EXPIRED''"

record MultiSigWallet =
  w_id :: id
  w_organizationId :: string
  w_walletAddress :: string
  w_name :: "string option"
  w_description :: "string option"
  w_threshold :: int
  w_totalSigners :: int
  w_status :: MultiSigWalletStatus
  w_totalTransactions :: nat
  w_approvedTransactions :: nat
  w_totalAmountApproved :: decimal7
  w_createdBy :: "string option"
  w_createdAt :: time
  w_lastModifiedBy :: "string option"
  w_lastActivityAt :: "time option"

record MultiSigSigner =
  sg_id :: id
  sg_multiSigWalletId :: id
  sg_signerAddress :: string
  sg_signerName :: "string option"
  sg_role :: SignerRole
  sg_status :: SignerStatus
  sg_approvalCount :: nat
  sg_rejectionCount :: nat
  sg_lastApprovalAt :: "time option"
  sg_lastRejectionAt :: "time option"
  sg_addedBy :: "string option"
  sg_addedAt :: time
  sg_removedBy :: "string option"
  sg_removedAt :: "time option"

text \<open>
  The text of a transaction payload, up to what \<open>JSON.parse\<close> makes of it: an object with the fields
  the payout code reads, or a text it rejects.
\<close>

record payload =
  pl_payoutId :: "id option"
  pl_questId :: "id option"
  pl_submissionId :: "id option"
  pl_stellarAddress :: "string option"

datatype payload_text = JsonText payload | OtherText string

record MultiSigTransaction =
  tx_id :: id
  tx_multiSigWalletId :: id
  tx_transactionType :: MultiSigTransactionType
  tx_status :: MultiSigTransactionStatus
  tx_destinationAddress :: string
  tx_amount :: decimal7
  tx_asset :: string
  tx_transactionPayload :: "payload_text option"
  tx_description :: "string option"
  tx_approvalsReceived :: nat
  tx_rejectionsReceived :: nat
  tx_threshold :: int
  tx_initiatedBy :: "string option"
  tx_createdAt :: time
  tx_expiresAt :: "time option"
  tx_stellarTransactionHash :: "string option"
  tx_failureReason :: "string option"

record MultiSigSignature =
  si_id :: id
  si_multiSigTransactionId :: id
  si_signerAddress :: string
  si_signerName :: "string option"
  si_status :: SignatureStatus
  si_comment :: "string option"
  si_signedAt :: "time option"
  si_signatureExpiresAt :: "time option"
  si_createdAt :: time
  si_rejectionReason :: "string option"
  si_rejectedAt :: "time option"

subsection \<open>State and requests\<close>

datatype multisig_event =
    WalletCreated id string int
  | SignerAdded id string "SignerRole option"
  | SignerRemoved id string
  | ThresholdUpdated id int
  | TransactionCreated id id decimal7 int
  | TransactionApproved id string nat int
  | TransactionApprovedComplete id nat
  | TransactionRejected id string string

record multisig_state =
  wallets :: "MultiSigWallet list"
  signers :: "MultiSigSigner list"
  transactions :: "MultiSigTransaction list"
  signatures :: "MultiSigSignature list"
  ms_events :: "multisig_event list"

text \<open>
  What a call takes from its environment: the clock, the UUID of the row it inserts, the UUIDs of the
  signature rows (by position), and what \<open>+= 1\<close> makes of a \<open>bigint\<close> column, which depends on
  whether the database driver hands it over as a number.
\<close>

record ms_env =
  m_now :: time
  m_newId :: id
  m_sigId :: "nat \<Rightarrow> id"
  m_bigintInc :: "nat \<Rightarrow> nat"

record CreateMultiSigWalletDto =
  cw_organizationId :: string
  cw_walletAddress :: string
  cw_name :: "string option"
  cw_description :: "string option"
  cw_threshold :: int
  cw_totalSigners :: int

record AddSignerDto =
  as_multiSigWalletId :: id
  as_signerAddress :: string
  as_signerName :: "string option"
  as_role :: "SignerRole option"

record UpdateThresholdDto =
  ut_multiSigWalletId :: id
  ut_threshold :: int

record CreateMultiSigTransactionDto =
  ct_multiSigWalletId :: id
  ct_destinationAddress :: string
  ct_amount :: decimal7
  ct_asset :: "string option"
  ct_description :: "string option"
  ct_transactionPayload :: "payload_text option"

record ApproveTransactionDto =
  ap_multiSigTransactionId :: id
  ap_signerAddress :: string
  ap_comment :: "string option"

record RejectTransactionDto =
  rj_multiSigTransactionId :: id
  rj_signerAddress :: string
  rj_rejectionReason :: string

definition emit_ms :: "multisig_event \<Rightarrow> multisig_state \<Rightarrow> multisig_state" where
  "emit_ms e s = s\<lparr>ms_events := ms_events s @ [e]\<rparr>"

definition save_wallet :: "MultiSigWallet \<Rightarrow> multisig_state \<Rightarrow> multisig_state" where
  "save_wallet w s = s\<lparr>wallets := save_row w_id w (wallets s)\<rparr>"

definition save_signer :: "MultiSigSigner \<Rightarrow> multisig_state \<Rightarrow> multisig_state" where
  "save_signer g s = s\<lparr>signers := save_row sg_id g (signers s)\<rparr>"

definition save_tx :: "MultiSigTransaction \<Rightarrow> multisig_state \<Rightarrow> multisig_state" where
  "save_tx t s = s\<lparr>transactions := save_row tx_id t (transactions s)\<rparr>"

definition save_sig :: "MultiSigSignature \<Rightarrow> multisig_state \<Rightarrow> multisig_state" where
  "save_sig g s = s\<lparr>signatures := save_row si_id g (signatures s)\<rparr>"

definition find_wallet :: "id \<Rightarrow> multisig_state \<Rightarrow> MultiSigWallet option" where
  "find_wallet wid s = find_row (\<lambda>w. w_id w = wid) (wallets s)"

definition find_signer :: "id \<Rightarrow> string \<Rightarrow> multisig_state \<Rightarrow> MultiSigSigner option" where
  "find_signer wid a s =
     find_row (\<lambda>g. sg_multiSigWalletId g = wid \<and> sg_signerAddress g = a) (signers s)"

definition find_tx :: "id \<Rightarrow> multisig_state \<Rightarrow> MultiSigTransaction option" where
  "find_tx tid s = find_row (\<lambda>t. tx_id t = tid) (transactions s)"

definition find_sig :: "id \<Rightarrow> string \<Rightarrow> multisig_state \<Rightarrow> MultiSigSignature option" where
  "find_sig tid a s =
     find_row (\<lambda>g. si_multiSigTransactionId g = tid \<and> si_signerAddress g = a) (signatures s)"

text \<open>The rejection of an insert that violates a unique index.\<close>

definition duplicate_key :: exn where
  "duplicate_key = JsError ''duplicate key value violates unique constraint''"

subsection \<open>Wallets and signers\<close>

definition createWallet ::
    "CreateMultiSigWalletDto \<Rightarrow> string \<Rightarrow> ms_env \<Rightarrow> multisig_state
     \<Rightarrow> (multisig_state, MultiSigWallet) outcome" where
  "createWallet dto userId env s =
     (if find_row (\<lambda>w. w_organizationId w = cw_organizationId dto
                     \<and> w_walletAddress w = cw_walletAddress dto) (wallets s) \<noteq> None
      then (Inl (BadRequestException
              ''Multi-sig wallet already exists for this organization and address''), s)
      else if cw_threshold dto > cw_totalSigners dto
      then (Inl (BadRequestException ''Threshold cannot exceed total signers''), s)
      else
        (let w = \<lparr> w_id = m_newId env, w_organizationId = cw_organizationId dto,
                   w_walletAddress = cw_walletAddress dto, w_name = cw_name dto,
                   w_description = cw_description dto, w_threshold = cw_threshold dto,
                   w_totalSigners = cw_totalSigners dto,
                   w_status = MultiSigWalletStatus.ACTIVE,
                   w_totalTransactions = 0, w_approvedTransactions = 0, w_totalAmountApproved = 0,
                   w_createdBy = Some userId, w_createdAt = m_now env,
                   w_lastModifiedBy = Some userId, w_lastActivityAt = Some (m_now env) \<rparr>
         in (Inr w, emit_ms (WalletCreated (w_id w) (cw_organizationId dto) (cw_threshold dto))
                      (save_wallet w s))))"

text \<open>The signers have a unique index on wallet and address, whatever their status.\<close>

definition addSigner ::
    "AddSignerDto \<Rightarrow> string \<Rightarrow> ms_env \<Rightarrow> multisig_state \<Rightarrow> (multisig_state, MultiSigSigner) outcome" where
  "addSigner dto userId env s =
     (case find_wallet (as_multiSigWalletId dto) s of
        None \<Rightarrow> (Inl (NotFoundException ''Multi-sig wallet not found''), s)
      | Some w \<Rightarrow>
          (let existing = find_signer (as_multiSigWalletId dto) (as_signerAddress dto) s
           in if (case existing of None \<Rightarrow> False | Some g \<Rightarrow> sg_status g \<noteq> SignerStatus.REMOVED)
              then (Inl (BadRequestException ''Signer already exists for this wallet''), s)
              else if existing \<noteq> None
              then (Inl duplicate_key, s)
              else
                (let g = \<lparr> sg_id = m_newId env, sg_multiSigWalletId = as_multiSigWalletId dto,
                           sg_signerAddress = as_signerAddress dto, sg_signerName = as_signerName dto,
                           sg_role = coalesce (as_role dto) APPROVER,
                           sg_status = SignerStatus.ACTIVE,
                           sg_approvalCount = 0, sg_rejectionCount = 0,
                           sg_lastApprovalAt = None, sg_lastRejectionAt = None,
                           sg_addedBy = Some userId, sg_addedAt = m_now env,
                           sg_removedBy = None, sg_removedAt = None \<rparr>;
                     w' = w\<lparr>w_lastModifiedBy := Some userId, w_lastActivityAt := Some (m_now env)\<rparr>
                 in (Inr g,
                     emit_ms (SignerAdded (as_multiSigWalletId dto) (as_signerAddress dto) (as_role dto))
                       (save_wallet w' (save_signer g s))))))"

text \<open>
  The wallet is loaded after the signer is saved; when it does not exist, setting a field of the
  \<open>null\<close> is a \<open>TypeError\<close>, with the signer already marked.
\<close>

definition removeSigner ::
    "id \<Rightarrow> string \<Rightarrow> string \<Rightarrow> ms_env \<Rightarrow> multisig_state \<Rightarrow> (multisig_state, MultiSigSigner) outcome" where
  "removeSigner wid addr userId env s =
     (case find_signer wid addr s of
        None \<Rightarrow> (Inl (NotFoundException ''Signer not found''), s)
      | Some g \<Rightarrow>
          (let g' = g\<lparr>sg_status := SignerStatus.REMOVED, sg_removedBy := Some userId,
                      sg_removedAt := Some (m_now env)\<rparr>;
               s1 = save_signer g' s
           in case find_wallet wid s1 of
                None \<Rightarrow> (Inl (JsTypeError ''Cannot set properties of null''), s1)
              | Some w \<Rightarrow>
                  (Inr g', emit_ms (SignerRemoved wid addr)
                     (save_wallet (w\<lparr>w_lastModifiedBy := Some userId,
                                     w_lastActivityAt := Some (m_now env)\<rparr>) s1))))"

definition updateThreshold ::
    "UpdateThresholdDto \<Rightarrow> string \<Rightarrow> ms_env \<Rightarrow> multisig_state
     \<Rightarrow> (multisig_state, MultiSigWallet) outcome" where
  "updateThreshold dto userId env s =
     (case find_wallet (ut_multiSigWalletId dto) s of
        None \<Rightarrow> (Inl (NotFoundException ''Multi-sig wallet not found''), s)
      | Some w \<Rightarrow>
          if ut_threshold dto > w_totalSigners w
          then (Inl (BadRequestException ''Threshold cannot exceed total signers''), s)
          else
            (let w' = w\<lparr>w_threshold := ut_threshold dto, w_lastModifiedBy := Some userId,
                        w_lastActivityAt := Some (m_now env)\<rparr>
             in (Inr w', emit_ms (ThresholdUpdated (ut_multiSigWalletId dto) (ut_threshold dto))
                           (save_wallet w' s))))"

subsection \<open>Transactions\<close>

definition seven_days :: int where
  "seven_days = 7 * 24 * 60 * 60 * 1000"

definition active_approver :: "id \<Rightarrow> MultiSigSigner \<Rightarrow> bool" where
  "active_approver wid g =
     (sg_multiSigWalletId g = wid \<and> sg_status g = SignerStatus.ACTIVE \<and> sg_role g = APPROVER)"

text \<open>
  The loop that saves one pending signature per approver; the unique index on transaction and signer
  address rejects a second one for the same address.
\<close>

fun create_signatures ::
    "id \<Rightarrow> MultiSigSigner list \<Rightarrow> nat \<Rightarrow> ms_env \<Rightarrow> multisig_state \<Rightarrow> (multisig_state, unit) outcome" where
  "create_signatures tid [] n env s = (Inr (), s)"
| "create_signatures tid (a # as) n env s =
     (if find_sig tid (sg_signerAddress a) s \<noteq> None then (Inl duplicate_key, s)
      else
        create_signatures tid as (Suc n) env
          (save_sig \<lparr> si_id = m_sigId env n, si_multiSigTransactionId = tid,
                      si_signerAddress = sg_signerAddress a, si_signerName = sg_signerName a,
                      si_status = SignatureStatus.PENDING, si_comment = None, si_signedAt = None,
                      si_signatureExpiresAt = Some (m_now env + seven_days),
                      si_createdAt = m_now env, si_rejectionReason = None,
                      si_rejectedAt = None \<rparr> s))"

definition createTransaction ::
    "CreateMultiSigTransactionDto \<Rightarrow> string \<Rightarrow> ms_env \<Rightarrow> multisig_state
     \<Rightarrow> (multisig_state, MultiSigTransaction) outcome" where
  "createTransaction dto userId env s =
     (case find_wallet (ct_multiSigWalletId dto) s of
        None \<Rightarrow> (Inl (NotFoundException ''Multi-sig wallet not found''), s)
      | Some w \<Rightarrow>
          if w_status w \<noteq> MultiSigWalletStatus.ACTIVE
          then (Inl (BadRequestException ''Multi-sig wallet is not active''), s)
          else
            (let t = \<lparr> tx_id = m_newId env, tx_multiSigWalletId = ct_multiSigWalletId dto,
                       tx_transactionType = PAYOUT,
                       tx_status = MultiSigTransactionStatus.PENDING,
                       tx_destinationAddress = ct_destinationAddress dto, tx_amount = ct_amount dto,
                       tx_asset = or_default (ct_asset dto) ''XLM'',
                       tx_transactionPayload = ct_transactionPayload dto,
                       tx_description = ct_description dto,
                       tx_approvalsReceived = 0, tx_rejectionsReceived = 0,
                       tx_threshold = w_threshold w, tx_initiatedBy = Some userId,
                       tx_createdAt = m_now env, tx_expiresAt = Some (m_now env + seven_days),
                       tx_stellarTransactionHash = None, tx_failureReason = None \<rparr>;
                 s1 = save_tx t s;
                 approvers = filter (active_approver (ct_multiSigWalletId dto)) (signers s1)
             in case create_signatures (tx_id t) approvers 0 env s1 of
                  (Inl e, s2) \<Rightarrow> (Inl e, s2)
                | (Inr _, s2) \<Rightarrow>
                    (let w' = w\<lparr>w_totalTransactions := m_bigintInc env (w_totalTransactions w),
                                w_lastActivityAt := Some (m_now env)\<rparr>
                     in (Inr t, emit_ms (TransactionCreated (tx_id t) (ct_multiSigWalletId dto)
                                           (ct_amount dto) (w_threshold w))
                                  (save_wallet w' s2)))))"

text \<open>The checks \<open>approveTransaction\<close> and \<open>rejectTransaction\<close> share; \<open>verb\<close> is the word of the message.\<close>

definition load_for_signing ::
    "string \<Rightarrow> id \<Rightarrow> string \<Rightarrow> multisig_state \<Rightarrow> exn + (MultiSigTransaction \<times> MultiSigSignature)" where
  "load_for_signing verb tid addr s =
     (case find_tx tid s of
        None \<Rightarrow> Inl (NotFoundException ''Multi-sig transaction not found'')
      | Some t \<Rightarrow>
          if tx_status t \<noteq> MultiSigTransactionStatus.PENDING
          then Inl (BadRequestException
                 (''Cannot '' @ verb @ '' transaction with status: '' @ show_tx_status (tx_status t)))
          else (case find_sig tid addr s of
                  None \<Rightarrow> Inl (NotFoundException ''Signature record not found for this signer'')
                | Some g \<Rightarrow>
                    if si_status g \<noteq> SignatureStatus.PENDING
                    then Inl (BadRequestException
                           (''Signature already has status: '' @ show_sig_status (si_status g)))
                    else Inr (t, g)))"

definition bump_signer ::
    "id \<Rightarrow> string \<Rightarrow> (MultiSigSigner \<Rightarrow> MultiSigSigner) \<Rightarrow> multisig_state \<Rightarrow> multisig_state" where
  "bump_signer wid addr f s =
     (case find_signer wid addr s of None \<Rightarrow> s | Some g \<Rightarrow> save_signer (f g) s)"

definition approveTransaction ::
    "ApproveTransactionDto \<Rightarrow> string \<Rightarrow> ms_env \<Rightarrow> multisig_state
     \<Rightarrow> (multisig_state, MultiSigTransaction \<times> bool) outcome" where
  "approveTransaction dto userId env s =
     (case load_for_signing ''approve'' (ap_multiSigTransactionId dto) (ap_signerAddress dto) s of
        Inl e \<Rightarrow> (Inl e, s)
      | Inr (t, g) \<Rightarrow>
          (let s1 = save_sig (g\<lparr>si_status := SignatureStatus.SIGNED, si_signedAt := Some (m_now env),
                                si_comment := ap_comment dto\<rparr>) s;
               t1 = t\<lparr>tx_approvalsReceived := tx_approvalsReceived t + 1\<rparr>;
               s2 = save_tx t1 s1;
               s3 = bump_signer (tx_multiSigWalletId t1) (ap_signerAddress dto)
                      (\<lambda>g. g\<lparr>sg_approvalCount := sg_approvalCount g + 1,
                             sg_lastApprovalAt := Some (m_now env)\<rparr>) s2;
               s4 = emit_ms (TransactionApproved (ap_multiSigTransactionId dto) (ap_signerAddress dto)
                               (tx_approvalsReceived t1) (tx_threshold t1)) s3;
               approved = (int (tx_approvalsReceived t1) \<ge> tx_threshold t1)
           in if approved
              then (let t2 = t1\<lparr>tx_status := MultiSigTransactionStatus.APPROVED\<rparr>
                    in (Inr (t2, True),
                        emit_ms (TransactionApprovedComplete (ap_multiSigTransactionId dto)
                                   (tx_approvalsReceived t2)) (save_tx t2 s4)))
              else (Inr (t1, False), s4)))"

definition rejectTransaction ::
    "RejectTransactionDto \<Rightarrow> string \<Rightarrow> ms_env \<Rightarrow> multisig_state
     \<Rightarrow> (multisig_state, MultiSigTransaction) outcome" where
  "rejectTransaction dto userId env s =
     (case load_for_signing ''reject'' (rj_multiSigTransactionId dto) (rj_signerAddress dto) s of
        Inl e \<Rightarrow> (Inl e, s)
      | Inr (t, g) \<Rightarrow>
          (let s1 = save_sig (g\<lparr>si_status := SignatureStatus.REJECTED,
                                si_rejectionReason := Some (rj_rejectionReason dto),
                                si_rejectedAt := Some (m_now env)\<rparr>) s;
               t1 = t\<lparr>tx_rejectionsReceived := tx_rejectionsReceived t + 1,
                      tx_status := MultiSigTransactionStatus.REJECTED,
                      tx_failureReason := Some (''Rejected by '' @ rj_signerAddress dto @ '': ''
                                                @ rj_rejectionReason dto)\<rparr>;
               s2 = save_tx t1 s1;
               s3 = bump_signer (tx_multiSigWalletId t1) (rj_signerAddress dto)
                      (\<lambda>g. g\<lparr>sg_rejectionCount := sg_rejectionCount g + 1,
                             sg_lastRejectionAt := Some (m_now env)\<rparr>) s2
           in (Inr t1, emit_ms (TransactionRejected (rj_multiSigTransactionId dto)
                                  (rj_signerAddress dto) (rj_rejectionReason dto)) s3)))"

subsection \<open>Queries\<close>

record wallet_details =
  wd_wallet :: MultiSigWallet
  wd_signers :: "MultiSigSigner list"
  wd_activeSignerCount :: nat

definition getWalletDetails :: "id \<Rightarrow> multisig_state \<Rightarrow> exn + wallet_details" where
  "getWalletDetails wid s =
     (case find_wallet wid s of
        None \<Rightarrow> Inl (NotFoundException ''Multi-sig wallet not found'')
      | Some w \<Rightarrow>
          (let active = filter (\<lambda>g. sg_status g = SignerStatus.ACTIVE)
                 (order_desc sg_addedAt (filter (\<lambda>g. sg_multiSigWalletId g = wid) (signers s)))
           in Inr \<lparr> wd_wallet = w, wd_signers = active, wd_activeSignerCount = length active \<rparr>))"

definition getPendingTransactions :: "id \<Rightarrow> time \<Rightarrow> multisig_state \<Rightarrow> MultiSigTransaction list" where
  "getPendingTransactions wid now s =
     order_desc tx_createdAt
       (filter (\<lambda>t. tx_multiSigWalletId t = wid \<and> tx_status t = MultiSigTransactionStatus.PENDING
                  \<and> (case tx_expiresAt t of None \<Rightarrow> False | Some e \<Rightarrow> now \<le> e)) (transactions s))"

definition getTransactionSignatures :: "id \<Rightarrow> multisig_state \<Rightarrow> MultiSigSignature list" where
  "getTransactionSignatures tid s =
     order_asc si_createdAt (filter (\<lambda>g. si_multiSigTransactionId g = tid) (signatures s))"

record wallet_stats =
  ws_walletAddress :: string
  ws_status :: MultiSigWalletStatus
  ws_threshold :: int
  ws_totalSigners :: int
  ws_totalTransactions :: nat
  ws_completedTransactions :: nat
  ws_pendingTransactions :: nat
  ws_rejectedTransactions :: nat
  ws_totalAmountApproved :: decimal7
  ws_createdAt :: time
  ws_lastActivityAt :: "time option"

definition getWalletStats :: "id \<Rightarrow> multisig_state \<Rightarrow> exn + wallet_stats" where
  "getWalletStats wid s =
     (case find_wallet wid s of
        None \<Rightarrow> Inl (NotFoundException ''Multi-sig wallet not found'')
      | Some w \<Rightarrow>
          (let with_status = (\<lambda>st. count_rows (\<lambda>t. tx_multiSigWalletId t = wid \<and> tx_status t = st)
                                     (transactions s))
           in Inr \<lparr> ws_walletAddress = w_walletAddress w, ws_status = w_status w,
                    ws_threshold = w_threshold w, ws_totalSigners = w_totalSigners w,
                    ws_totalTransactions = w_totalTransactions w,
                    ws_completedTransactions = with_status MultiSigTransactionStatus.COMPLETED,
                    ws_pendingTransactions = with_status MultiSigTransactionStatus.PENDING,
                    ws_rejectedTransactions = with_status MultiSigTransactionStatus.REJECTED,
                    ws_totalAmountApproved = w_totalAmountApproved w,
                    ws_createdAt = w_createdAt w, ws_lastActivityAt = w_lastActivityAt w \<rparr>))"

end
