(* ===== verification/MultiSigRun.thy ===== *)
theory MultiSigRun
  imports MultiSig
begin

text \<open>
  Runs of the multi-signature service of theory MultiSig, one call at a time: the step relation, the
  reachable states, and their invariant.  The invariant ties the counters and the status of a
  transaction to its signature rows, keeps the primary keys and the unique index of the signatures,
  and says that every signature row belongs to an approver of the wallet of its transaction.
\<close>

interpretation tx_repo: repository tx_id "\<lambda>t. t" find_row "save_row tx_id" "wf_table tx_id"
  by (rule table_repository)

interpretation sig_repo: repository si_id "\<lambda>t. t" find_row "save_row si_id" "wf_table si_id"
  by (rule table_repository)

interpretation wallet_repo: repository w_id "\<lambda>t. t" find_row "save_row w_id" "wf_table w_id"
  by (rule table_repository)

interpretation signer_repo: repository sg_id "\<lambda>t. t" find_row "save_row sg_id" "wf_table sg_id"
  by (rule table_repository)

subsection \<open>Steps\<close>

text \<open>
  Generated UUIDs are new and differ from each other.  A step is a whole call with every call of the database
  succeeding.  The service awaits the database several times between the load of a transaction and its save, without a
  database transaction or a lock, so a server that handles two calls at once can interleave them; the runs here are those
  in which it does not.
\<close>

definition fresh_env :: "ms_env \<Rightarrow> multisig_state \<Rightarrow> bool" where
  "fresh_env env s =
     (m_newId env \<notin> w_id ` set (wallets s) \<and> m_newId env \<notin> sg_id ` set (signers s)
      \<and> m_newId env \<notin> tx_id ` set (transactions s)
      \<and> inj (m_sigId env) \<and> (\<forall>n. m_sigId env n \<notin> si_id ` set (signatures s)))"

inductive ms_step :: "multisig_state \<Rightarrow> multisig_state \<Rightarrow> bool" where
  create_wallet: "fresh_env env s \<Longrightarrow> ms_step s (state_of (createWallet dto u env s))"
| add_signer: "fresh_env env s \<Longrightarrow> ms_step s (state_of (addSigner adto u env s))"
| remove_signer: "ms_step s (state_of (removeSigner wid a u env s))"
| update_threshold: "ms_step s (state_of (updateThreshold udto u env s))"
| create_tx: "fresh_env env s \<Longrightarrow> ms_step s (state_of (createTransaction cdto u env s))"
| approve: "ms_step s (state_of (approveTransaction pdto u env s))"
| reject: "ms_step s (state_of (rejectTransaction rdto u env s))"

definition init_ms :: multisig_state where
  "init_ms = \<lparr>wallets = [], signers = [], transactions = [], signatures = [], ms_events = []\<rparr>"

inductive ms_reachable :: "multisig_state \<Rightarrow> bool" where
  start: "ms_reachable init_ms"
| step: "ms_reachable s \<Longrightarrow> ms_step s t \<Longrightarrow> ms_reachable t"

inductive ms_steps :: "multisig_state \<Rightarrow> multisig_state \<Rightarrow> bool" where
  refl: "ms_steps s s"
| more: "ms_steps s t \<Longrightarrow> ms_step t u \<Longrightarrow> ms_steps s u"

subsection \<open>Fields the helpers change\<close>

lemma emit_ms_fields [simp, frame_simps]:
  "wallets (emit_ms e s) = wallets s" "signers (emit_ms e s) = signers s"
  "transactions (emit_ms e s) = transactions s" "signatures (emit_ms e s) = signatures s"
  by (simp_all add: emit_ms_def)

lemma save_wallet_fields [simp, frame_simps]:
  "wallets (save_wallet w s) = save_row w_id w (wallets s)" "signers (save_wallet w s) = signers s"
  "transactions (save_wallet w s) = transactions s" "signatures (save_wallet w s) = signatures s"
  by (simp_all add: save_wallet_def)

lemma save_signer_fields [simp, frame_simps]:
  "wallets (save_signer g s) = wallets s" "signers (save_signer g s) = save_row sg_id g (signers s)"
  "transactions (save_signer g s) = transactions s" "signatures (save_signer g s) = signatures s"
  by (simp_all add: save_signer_def)

lemma save_tx_fields [simp, frame_simps]:
  "wallets (save_tx t s) = wallets s" "signers (save_tx t s) = signers s"
  "transactions (save_tx t s) = save_row tx_id t (transactions s)"
  "signatures (save_tx t s) = signatures s"
  by (simp_all add: save_tx_def)

lemma save_sig_fields [simp, frame_simps]:
  "wallets (save_sig g s) = wallets s" "signers (save_sig g s) = signers s"
  "transactions (save_sig g s) = transactions s"
  "signatures (save_sig g s) = save_row si_id g (signatures s)"
  by (simp_all add: save_sig_def)

lemma bump_signer_fields [simp, frame_simps]:
  "wallets (bump_signer wid a f s) = wallets s"
  "transactions (bump_signer wid a f s) = transactions s"
  "signatures (bump_signer wid a f s) = signatures s"
  by (simp_all add: bump_signer_def split: option.splits)

subsection \<open>The invariant\<close>

definition signed_by :: "id \<Rightarrow> MultiSigSignature \<Rightarrow> bool" where
  "signed_by tid g = (si_multiSigTransactionId g = tid \<and> si_status g = SignatureStatus.SIGNED)"

definition rejected_by :: "id \<Rightarrow> MultiSigSignature \<Rightarrow> bool" where
  "rejected_by tid g = (si_multiSigTransactionId g = tid \<and> si_status g = SignatureStatus.REJECTED)"

definition below_threshold :: "MultiSigTransaction \<Rightarrow> bool" where
  "below_threshold t =
     (tx_approvalsReceived t = 0 \<or> int (tx_approvalsReceived t) < tx_threshold t)"

definition tx_status_ok :: "MultiSigTransaction \<Rightarrow> bool" where
  "tx_status_ok t =
     (case tx_status t of
        MultiSigTransactionStatus.PENDING \<Rightarrow> tx_rejectionsReceived t = 0 \<and> below_threshold t
      | MultiSigTransactionStatus.APPROVED \<Rightarrow>
          tx_rejectionsReceived t = 0 \<and> tx_threshold t \<le> int (tx_approvalsReceived t)
      | MultiSigTransactionStatus.REJECTED \<Rightarrow> tx_rejectionsReceived t = 1 \<and> below_threshold t
      | _ \<Rightarrow> False)"

definition tx_ok :: "MultiSigSignature list \<Rightarrow> MultiSigTransaction \<Rightarrow> bool" where
  "tx_ok sigs t =
     (tx_approvalsReceived t = count_rows (signed_by (tx_id t)) sigs
      \<and> tx_rejectionsReceived t = count_rows (rejected_by (tx_id t)) sigs
      \<and> tx_status_ok t)"

text \<open>A signature row belongs to a transaction and to an approver of its wallet.\<close>

definition sig_owned :: "MultiSigTransaction list \<Rightarrow> MultiSigSigner list \<Rightarrow> MultiSigSignature \<Rightarrow> bool" where
  "sig_owned txs sgs g =
     (\<exists>t \<in> set txs. tx_id t = si_multiSigTransactionId g
        \<and> (\<exists>r \<in> set sgs. sg_multiSigWalletId r = tx_multiSigWalletId t
              \<and> sg_signerAddress r = si_signerAddress g \<and> sg_role r = APPROVER))"

definition sig_key :: "MultiSigSignature \<Rightarrow> id \<times> string" where
  "sig_key g = (si_multiSigTransactionId g, si_signerAddress g)"

definition ms_inv :: "multisig_state \<Rightarrow> bool" where
  "ms_inv s =
     (wf_table w_id (wallets s) \<and> wf_table sg_id (signers s)
      \<and> wf_table tx_id (transactions s) \<and> wf_table si_id (signatures s)
      \<and> distinct (map sig_key (signatures s))
      \<and> (\<forall>w \<in> set (wallets s). w_threshold w \<le> w_totalSigners w)
      \<and> (\<forall>t \<in> set (transactions s). tx_ok (signatures s) t)
      \<and> (\<forall>g \<in> set (signatures s). sig_owned (transactions s) (signers s) g))"

lemma ms_invD:
  assumes "ms_inv s"
  shows "wf_table w_id (wallets s)" "wf_table sg_id (signers s)"
    "wf_table tx_id (transactions s)" "wf_table si_id (signatures s)"
    "distinct (map sig_key (signatures s))"
    "w \<in> set (wallets s) \<Longrightarrow> w_threshold w \<le> w_totalSigners w"
    "t \<in> set (transactions s) \<Longrightarrow> tx_ok (signatures s) t"
    "g \<in> set (signatures s) \<Longrightarrow> sig_owned (transactions s) (signers s) g"
  using assms by (simp_all add: ms_inv_def)

lemma ms_inv_emit [simp]: "ms_inv (emit_ms e s) = ms_inv s"
  by (simp add: ms_inv_def)

lemma ms_inv_save_wallet:
  assumes "ms_inv s" and "w_threshold w \<le> w_totalSigners w"
  shows "ms_inv (save_wallet w s)"
  using assms wallet_repo.all_rows_save [OF ms_invD(1) [OF assms(1)], of "\<lambda>w. w_threshold w \<le> w_totalSigners w" w]
  by (simp add: ms_inv_def wf_save_row)

text \<open>Saving a signer keeps the invariant when the row is new or keeps wallet, address and role.\<close>

lemma ms_inv_save_signer:
  assumes inv: "ms_inv s"
    and same: "\<And>r. r \<in> set (signers s) \<Longrightarrow> sg_id r = sg_id g \<Longrightarrow>
      sg_multiSigWalletId r = sg_multiSigWalletId g \<and> sg_signerAddress r = sg_signerAddress g
      \<and> sg_role r = sg_role g"
  shows "ms_inv (save_signer g s)"
proof -
  have wf: "wf_table sg_id (signers s)" by (rule ms_invD(2) [OF inv])
  have "sig_owned txs (save_row sg_id g (signers s)) h" if "sig_owned txs (signers s) h" for txs h
  proof -
    from that obtain t r where t: "t \<in> set txs" "tx_id t = si_multiSigTransactionId h"
      and r: "r \<in> set (signers s)" "sg_multiSigWalletId r = tx_multiSigWalletId t"
        "sg_signerAddress r = si_signerAddress h" "sg_role r = APPROVER"
      by (auto simp: sig_owned_def)
    show ?thesis
    proof (cases "sg_id r = sg_id g")
      case True
      from same [OF r(1) True] r t signer_repo.saved_in [OF wf, of g] show ?thesis
        unfolding sig_owned_def by metis
    next
      case False
      with r t signer_repo.unsaved_in [OF wf r(1), of g] show ?thesis
        unfolding sig_owned_def by blast
    qed
  qed
  with inv show ?thesis by (simp add: ms_inv_def wf_save_row)
qed

lemma ms_inv_bump_signer:
  assumes inv: "ms_inv s"
    and f: "\<And>g. sg_id (f g) = sg_id g \<and> sg_multiSigWalletId (f g) = sg_multiSigWalletId g
             \<and> sg_signerAddress (f g) = sg_signerAddress g \<and> sg_role (f g) = sg_role g"
  shows "ms_inv (bump_signer wid a f s)"
proof (cases "find_signer wid a s")
  case None
  with inv show ?thesis by (simp add: bump_signer_def)
next
  case (Some g)
  then have g: "g \<in> set (signers s)"
    by (auto simp: find_signer_def dest: find_row_some)
  have "ms_inv (save_signer (f g) s)"
  proof (rule ms_inv_save_signer [OF inv])
    fix r assume "r \<in> set (signers s)" "sg_id r = sg_id (f g)"
    with g f have "r = g" by (metis signer_repo.key_unique ms_invD(2) [OF inv])
    with f show "sg_multiSigWalletId r = sg_multiSigWalletId (f g)
        \<and> sg_signerAddress r = sg_signerAddress (f g) \<and> sg_role r = sg_role (f g)" by simp
  qed
  with Some show ?thesis by (simp add: bump_signer_def)
qed


text \<open>A pending signature row for an approver who has none yet.\<close>

lemma ms_inv_new_sig:
  assumes inv: "ms_inv s"
    and t: "t \<in> set (transactions s)" "tx_id t = si_multiSigTransactionId g"
    and r: "r \<in> set (signers s)" "sg_multiSigWalletId r = tx_multiSigWalletId t"
      "sg_signerAddress r = si_signerAddress g" "sg_role r = APPROVER"
    and g: "si_status g = SignatureStatus.PENDING" "si_id g \<notin> si_id ` set (signatures s)"
      "find_sig (si_multiSigTransactionId g) (si_signerAddress g) s = None"
  shows "ms_inv (save_sig g s)"
proof -
  have eq: "save_row si_id g (signatures s) = signatures s @ [g]"
    using g(2) by (intro save_row_new) (auto simp: image_iff)
  have "sig_key g \<notin> sig_key ` set (signatures s)"
    using g(3) by (auto simp: find_sig_def find_row_none sig_key_def)
  moreover have "sig_owned (transactions s) (signers s) g"
    using t r by (auto simp: sig_owned_def)
  moreover have "tx_ok (signatures s @ [g]) u = tx_ok (signatures s) u" for u
    using g(1) by (simp add: tx_ok_def signed_by_def rejected_by_def)
  moreover have "wf_table si_id (signatures s @ [g])"
    using wf_save_row [OF ms_invD(4) [OF inv], of g] by (simp only: eq)
  ultimately show ?thesis using inv by (simp add: ms_inv_def eq)
qed

lemma create_signatures_fields:
  "wallets (state_of (create_signatures tid as n env s)) = wallets s"
  "transactions (state_of (create_signatures tid as n env s)) = transactions s"
  by (induction tid as n env s rule: create_signatures.induct) auto

lemma ms_inv_create_signatures:
  assumes "ms_inv s" and "inj (m_sigId env)" and "\<forall>k \<ge> n. m_sigId env k \<notin> si_id ` set (signatures s)"
    and "t \<in> set (transactions s)" and "tx_id t = tid"
    and "\<forall>a \<in> set as. a \<in> set (signers s) \<and> sg_multiSigWalletId a = tx_multiSigWalletId t
                        \<and> sg_role a = APPROVER"
  shows "ms_inv (state_of (create_signatures tid as n env s))"
  using assms
proof (induction tid as n env s rule: create_signatures.induct)
  case (1 tid n env s)
  then show ?case by simp
next
  case (2 tid a as n env s)
  show ?case
  proof (cases "find_sig tid (sg_signerAddress a) s = None")
    case False
    with 2 show ?thesis by simp
  next
    case True
    let ?g = "\<lparr> si_id = m_sigId env n, si_multiSigTransactionId = tid,
                si_signerAddress = sg_signerAddress a, si_signerName = sg_signerName a,
                si_status = SignatureStatus.PENDING, si_comment = None, si_signedAt = None,
                si_signatureExpiresAt = Some (m_now env + seven_days),
                si_createdAt = m_now env, si_rejectionReason = None, si_rejectedAt = None \<rparr>"
    have "ms_inv (save_sig ?g s)"
      using 2 True by (intro ms_inv_new_sig [where t = t and r = a]) auto
    moreover have "\<forall>k \<ge> Suc n. m_sigId env k \<notin> si_id ` set (signatures (save_sig ?g s))"
      using 2 by (auto simp: keys_save_row inj_eq simp del: image_iff)
    ultimately show ?thesis using 2 True by simp
  qed
qed

text \<open>A new pending transaction has no signature yet.\<close>

lemma ms_inv_new_tx:
  assumes inv: "ms_inv s" and fresh: "tx_id t \<notin> tx_id ` set (transactions s)"
    and t: "tx_status t = MultiSigTransactionStatus.PENDING" "tx_approvalsReceived t = 0"
      "tx_rejectionsReceived t = 0"
  shows "ms_inv (save_tx t s)"
proof -
  have eq: "save_row tx_id t (transactions s) = transactions s @ [t]"
    using fresh by (intro save_row_new) (auto simp: image_iff)
  have "si_multiSigTransactionId g \<noteq> tx_id t" if "g \<in> set (signatures s)" for g
    using ms_invD(8) [OF inv that] fresh unfolding sig_owned_def by (metis imageI)
  then have "count_rows (signed_by (tx_id t)) (signatures s) = 0"
    and "count_rows (rejected_by (tx_id t)) (signatures s) = 0"
    by (auto simp: count_rows_zero signed_by_def rejected_by_def)
  with t have "tx_ok (signatures s) t"
    by (simp add: tx_ok_def tx_status_ok_def below_threshold_def)
  moreover have "sig_owned (transactions s @ [t]) (signers s) g" if "g \<in> set (signatures s)" for g
    using ms_invD(8) [OF inv that] by (auto simp: sig_owned_def)
  moreover have "wf_table tx_id (transactions s @ [t])"
    using wf_save_row [OF ms_invD(3) [OF inv], of t] by (simp only: eq)
  ultimately show ?thesis using inv by (simp add: ms_inv_def eq)
qed


text \<open>
  One signature row changes from pending to signed or rejected, and the counters and the status of its
  transaction with it.
\<close>

lemma ms_inv_sign:
  assumes inv: "ms_inv s" and t: "t \<in> set (transactions s)" and g: "g \<in> set (signatures s)"
    and own: "si_multiSigTransactionId g = tx_id t" and pend: "si_status g = SignatureStatus.PENDING"
    and g': "si_id g' = si_id g" "sig_key g' = sig_key g"
    and t': "tx_id t' = tx_id t" "tx_multiSigWalletId t' = tx_multiSigWalletId t"
    and appr: "tx_approvalsReceived t'
      = tx_approvalsReceived t + (if si_status g' = SignatureStatus.SIGNED then 1 else 0)"
    and rejs: "tx_rejectionsReceived t'
      = tx_rejectionsReceived t + (if si_status g' = SignatureStatus.REJECTED then 1 else 0)"
    and ok: "tx_status_ok t'"
  shows "ms_inv (save_tx t' (save_sig g' s))"
proof -
  note wfs = ms_invD(4) [OF inv] and wft = ms_invD(3) [OF inv]
  let ?sigs = "save_row si_id g' (signatures s)" and ?txs = "save_row tx_id t' (transactions s)"
  have fields: "si_multiSigTransactionId g' = tx_id t" "si_signerAddress g' = si_signerAddress g"
    using g' own by (simp_all add: sig_key_def)
  have cs: "count_rows (signed_by i) ?sigs = count_rows (signed_by i) (signatures s)
      + (if i = tx_id t \<and> si_status g' = SignatureStatus.SIGNED then 1 else 0)" for i
    using count_save_row [OF wfs g g'(1), of "signed_by i"] fields own pend
    by (auto simp: signed_by_def)
  have cr: "count_rows (rejected_by i) ?sigs = count_rows (rejected_by i) (signatures s)
      + (if i = tx_id t \<and> si_status g' = SignatureStatus.REJECTED then 1 else 0)" for i
    using count_save_row [OF wfs g g'(1), of "rejected_by i"] fields own pend
    by (auto simp: rejected_by_def)
  have "tx_ok ?sigs u" if u: "u \<in> set ?txs" for u
    using tx_repo.in_save [OF wft u] ms_invD(7) [OF inv t] ms_invD(7) [OF inv, of u] t' appr rejs ok
    by (auto simp: tx_ok_def cs cr)
  moreover have owned: "sig_owned ?txs (signers s) h" if h: "sig_owned (transactions s) (signers s) h" for h
  proof -
    from h obtain u where u: "u \<in> set (transactions s)" "tx_id u = si_multiSigTransactionId h"
      "\<exists>r \<in> set (signers s). sg_multiSigWalletId r = tx_multiSigWalletId u
          \<and> sg_signerAddress r = si_signerAddress h \<and> sg_role r = APPROVER"
      by (auto simp: sig_owned_def)
    show ?thesis
    proof (cases "tx_id u = tx_id t")
      case True
      with wft u(1) t have "u = t" by (rule tx_repo.key_unique)
      with u t' tx_repo.saved_in [OF wft, of t'] show ?thesis unfolding sig_owned_def by metis
    next
      case False
      with u t' tx_repo.unsaved_in [OF wft u(1), of t'] show ?thesis unfolding sig_owned_def by metis
    qed
  qed
  moreover have "sig_owned ?txs (signers s) h" if h: "h \<in> set ?sigs" for h
  proof (cases "h = g'")
    case True
    with owned [OF ms_invD(8) [OF inv g]] fields own show ?thesis by (simp add: sig_owned_def)
  next
    case False
    with sig_repo.in_save [OF wfs h] have "h \<in> set (signatures s)" by blast
    then show ?thesis by (rule owned [OF ms_invD(8) [OF inv]])
  qed
  moreover have "map sig_key ?sigs = map sig_key (signatures s)"
    by (rule map_save_row [OF wfs g g'])
  ultimately show ?thesis
    using ms_invD [OF inv] by (simp add: ms_inv_def wf_save_row)
qed

subsection \<open>Every step keeps it\<close>

lemma load_for_signing_Inr:
  "load_for_signing v tid a s = Inr (t, g) \<longleftrightarrow>
     find_tx tid s = Some t \<and> tx_status t = MultiSigTransactionStatus.PENDING
     \<and> find_sig tid a s = Some g \<and> si_status g = SignatureStatus.PENDING"
  by (auto simp: load_for_signing_def split: option.splits if_splits)

lemma find_tx_some: "find_tx tid s = Some t \<Longrightarrow> t \<in> set (transactions s) \<and> tx_id t = tid"
  by (auto simp: find_tx_def dest: find_row_some)

lemma find_sig_some: "find_sig tid a s = Some g \<Longrightarrow>
    g \<in> set (signatures s) \<and> si_multiSigTransactionId g = tid \<and> si_signerAddress g = a"
  by (auto simp: find_sig_def dest: find_row_some)

lemma find_wallet_some: "find_wallet wid s = Some w \<Longrightarrow> w \<in> set (wallets s) \<and> w_id w = wid"
  by (auto simp: find_wallet_def dest: find_row_some)

lemma find_signer_some: "find_signer wid a s = Some g \<Longrightarrow>
    g \<in> set (signers s) \<and> sg_multiSigWalletId g = wid \<and> sg_signerAddress g = a"
  by (auto simp: find_signer_def dest: find_row_some)

lemmas find_ms_some = find_tx_some find_sig_some find_wallet_some find_signer_some

text \<open>The second save of the approving call replaces the first, whatever the signer update between.\<close>

lemma save_tx_after_bump:
  "tx_id t1 = tx_id t2 \<Longrightarrow>
     save_tx t2 (emit_ms e (bump_signer w a f (save_tx t1 s))) = emit_ms e (bump_signer w a f (save_tx t2 s))"
  by (simp add: save_tx_def emit_ms_def bump_signer_def find_signer_def save_signer_def save_row_twice
      split: option.splits)

lemma ms_inv_approve:
  assumes inv: "ms_inv s"
  shows "ms_inv (state_of (approveTransaction dto u env s))"
proof (cases "load_for_signing ''approve'' (ap_multiSigTransactionId dto) (ap_signerAddress dto) s")
  case (Inl e)
  with inv show ?thesis by (simp add: approveTransaction_def)
next
  case (Inr p)
  obtain t g where p: "p = (t, g)" by (cases p)
  have l: "find_tx (ap_multiSigTransactionId dto) s = Some t"
      "tx_status t = MultiSigTransactionStatus.PENDING"
      "find_sig (ap_multiSigTransactionId dto) (ap_signerAddress dto) s = Some g"
      "si_status g = SignatureStatus.PENDING"
    using Inr by (simp_all add: p load_for_signing_Inr)
  have t: "t \<in> set (transactions s)" and g: "g \<in> set (signatures s)"
    and own: "si_multiSigTransactionId g = tx_id t"
    using find_tx_some [OF l(1)] find_sig_some [OF l(3)] by simp_all
  let ?g = "g\<lparr>si_status := SignatureStatus.SIGNED, si_signedAt := Some (m_now env), si_comment := ap_comment dto\<rparr>"
  let ?t = "t\<lparr>tx_approvalsReceived := tx_approvalsReceived t + 1\<rparr>"
  let ?t2 = "?t\<lparr>tx_status := MultiSigTransactionStatus.APPROVED\<rparr>"
  have tok: "tx_status_ok t" using ms_invD(7) [OF inv t] by (simp add: tx_ok_def)
  have unmet: "ms_inv (save_tx ?t (save_sig ?g s))" if "\<not> tx_threshold t \<le> int (tx_approvalsReceived t) + 1"
    by (rule ms_inv_sign [OF inv t g own l(4)])
      (use tok l(2) that in \<open>auto simp: sig_key_def tx_status_ok_def below_threshold_def\<close>)
  have met: "ms_inv (save_tx ?t2 (save_sig ?g s))" if "tx_threshold t \<le> int (tx_approvalsReceived t) + 1"
    by (rule ms_inv_sign [OF inv t g own l(4)])
      (use tok l(2) that in \<open>auto simp: sig_key_def tx_status_ok_def\<close>)
  show ?thesis
    using Inr p unmet met
    by (auto simp: approveTransaction_def Let_def save_tx_after_bump intro!: ms_inv_bump_signer)
qed


lemma ms_inv_reject:
  assumes inv: "ms_inv s"
  shows "ms_inv (state_of (rejectTransaction dto u env s))"
proof (cases "load_for_signing ''reject'' (rj_multiSigTransactionId dto) (rj_signerAddress dto) s")
  case (Inl e)
  with inv show ?thesis by (simp add: rejectTransaction_def)
next
  case (Inr p)
  obtain t g where p: "p = (t, g)" by (cases p)
  have l: "find_tx (rj_multiSigTransactionId dto) s = Some t"
      "tx_status t = MultiSigTransactionStatus.PENDING"
      "find_sig (rj_multiSigTransactionId dto) (rj_signerAddress dto) s = Some g"
      "si_status g = SignatureStatus.PENDING"
    using Inr by (simp_all add: p load_for_signing_Inr)
  have t: "t \<in> set (transactions s)" and g: "g \<in> set (signatures s)"
    and own: "si_multiSigTransactionId g = tx_id t"
    using find_tx_some [OF l(1)] find_sig_some [OF l(3)] by simp_all
  let ?g = "g\<lparr>si_status := SignatureStatus.REJECTED, si_rejectionReason := Some (rj_rejectionReason dto),
              si_rejectedAt := Some (m_now env)\<rparr>"
  let ?t = "t\<lparr>tx_rejectionsReceived := tx_rejectionsReceived t + 1,
              tx_status := MultiSigTransactionStatus.REJECTED,
              tx_failureReason := Some (''Rejected by '' @ rj_signerAddress dto @ '': ''
                                        @ rj_rejectionReason dto)\<rparr>"
  have "tx_status_ok t" using ms_invD(7) [OF inv t] by (simp add: tx_ok_def)
  then have "ms_inv (save_tx ?t (save_sig ?g s))"
    by (intro ms_inv_sign [OF inv t g own l(4)])
      (use l(2) in \<open>auto simp: sig_key_def tx_status_ok_def below_threshold_def\<close>)
  then show ?thesis
    using Inr p by (auto simp: rejectTransaction_def Let_def intro!: ms_inv_bump_signer)
qed

lemma ms_inv_createWallet:
  assumes "ms_inv s" shows "ms_inv (state_of (createWallet dto u env s))"
  using assms by (auto simp: createWallet_def Let_def intro: ms_inv_save_wallet)

lemma ms_inv_addSigner:
  assumes inv: "ms_inv s" and fresh: "fresh_env env s"
  shows "ms_inv (state_of (addSigner dto u env s))"
proof -
  have "ms_inv (save_signer g s)" if "sg_id g = m_newId env" for g
    using fresh that by (intro ms_inv_save_signer [OF inv]) (metis fresh_env_def imageI)
  then show ?thesis
    using inv ms_invD(6) [OF inv] by (auto simp: addSigner_def Let_def split: option.splits
        dest!: find_wallet_some intro!: ms_inv_save_wallet)
qed

lemma ms_inv_removeSigner:
  assumes inv: "ms_inv s" shows "ms_inv (state_of (removeSigner wid a u env s))"
proof (cases "find_signer wid a s")
  case None
  with inv show ?thesis by (simp add: removeSigner_def)
next
  case (Some g)
  let ?g = "g\<lparr>sg_status := SignerStatus.REMOVED, sg_removedBy := Some u, sg_removedAt := Some (m_now env)\<rparr>"
  have g: "g \<in> set (signers s)" using find_signer_some [OF Some] by simp
  have inv1: "ms_inv (save_signer ?g s)"
  proof (rule ms_inv_save_signer [OF inv])
    fix r assume r: "r \<in> set (signers s)" "sg_id r = sg_id ?g"
    then have "r = g" using signer_repo.key_unique [OF ms_invD(2) [OF inv] r(1) g] by simp
    then show "sg_multiSigWalletId r = sg_multiSigWalletId ?g
        \<and> sg_signerAddress r = sg_signerAddress ?g \<and> sg_role r = sg_role ?g" by simp
  qed
  show ?thesis
    using Some inv1 ms_invD(6) [OF inv1] find_wallet_some [of wid "save_signer ?g s"]
    by (auto simp: removeSigner_def Let_def simp del: save_signer_fields
        split: option.splits intro!: ms_inv_save_wallet [OF inv1])
qed

lemma ms_inv_updateThreshold:
  assumes "ms_inv s" shows "ms_inv (state_of (updateThreshold dto u env s))"
  using assms by (auto simp: updateThreshold_def Let_def split: option.splits intro!: ms_inv_save_wallet)

lemma ms_inv_createTransaction:
  assumes inv: "ms_inv s" and fresh: "fresh_env env s"
  shows "ms_inv (state_of (createTransaction dto u env s))"
proof (cases "find_wallet (ct_multiSigWalletId dto) s")
  case None
  with inv show ?thesis by (simp add: createTransaction_def)
next
  case (Some w)
  let ?t = "\<lparr> tx_id = m_newId env, tx_multiSigWalletId = ct_multiSigWalletId dto,
              tx_transactionType = PAYOUT, tx_status = MultiSigTransactionStatus.PENDING,
              tx_destinationAddress = ct_destinationAddress dto, tx_amount = ct_amount dto,
              tx_asset = or_default (ct_asset dto) ''XLM'',
              tx_transactionPayload = ct_transactionPayload dto,
              tx_description = ct_description dto, tx_approvalsReceived = 0,
              tx_rejectionsReceived = 0, tx_threshold = w_threshold w, tx_initiatedBy = Some u,
              tx_createdAt = m_now env, tx_expiresAt = Some (m_now env + seven_days),
              tx_stellarTransactionHash = None, tx_failureReason = None \<rparr>"
  let ?as = "filter (active_approver (ct_multiSigWalletId dto)) (signers s)"
  let ?c = "create_signatures (m_newId env) ?as 0 env (save_tx ?t s)"
  have inv1: "ms_inv (save_tx ?t s)"
    using fresh by (intro ms_inv_new_tx [OF inv]) (auto simp: fresh_env_def)
  have inv2: "ms_inv (state_of ?c)"
    by (rule ms_inv_create_signatures [OF inv1, where t = ?t])
      (use fresh tx_repo.saved_in [OF ms_invD(3) [OF inv], of ?t] in
        \<open>auto simp: fresh_env_def active_approver_def\<close>)
  have "w_threshold w \<le> w_totalSigners w"
    using ms_invD(6) [OF inv] find_wallet_some [OF Some] by simp
  then have "ms_inv (save_wallet (w\<lparr>w_totalTransactions := m_bigintInc env (w_totalTransactions w),
      w_lastActivityAt := Some (m_now env)\<rparr>) (state_of ?c))"
    by (intro ms_inv_save_wallet [OF inv2]) simp
  with inv inv2 Some show ?thesis
    by (cases ?c) (auto simp: createTransaction_def Let_def split: sum.splits)
qed

lemma ms_step_inv: "ms_step s t \<Longrightarrow> ms_inv s \<Longrightarrow> ms_inv t"
  by (induction rule: ms_step.induct)
    (simp_all add: ms_inv_createWallet ms_inv_addSigner ms_inv_removeSigner ms_inv_updateThreshold
      ms_inv_createTransaction ms_inv_approve ms_inv_reject)

lemma ms_reachable_inv: "ms_reachable s \<Longrightarrow> ms_inv s"
proof (induction rule: ms_reachable.induct)
  case start
  show ?case by (simp add: ms_inv_def init_ms_def wf_table_def)
next
  case (step s t)
  then show ?case by (blast intro: ms_step_inv)
qed

end
