(* ===== verification/MultiSigProps.thy ===== *)
theory MultiSigProps
  imports MultiSigRun
begin

text \<open>
  What the multi-signature service guarantees and what it does not: the quorum behind an approved
  transaction, finality of a decision, and the ways a transaction gets stuck or is signed late.
\<close>

subsection \<open>What a call does to the transactions and their signatures\<close>

text \<open>
  A call leaves both tables alone, or decides one pending signature and its pending transaction, or
  appends one transaction with its own signatures.
\<close>

inductive rows_step :: "multisig_state \<Rightarrow> multisig_state \<Rightarrow> bool" where
  same: "transactions s' = transactions s \<Longrightarrow> signatures s' = signatures s \<Longrightarrow> rows_step s s'"
| sign: "t \<in> set (transactions s) \<Longrightarrow> tx_status t = MultiSigTransactionStatus.PENDING \<Longrightarrow>
    g \<in> set (signatures s) \<Longrightarrow> si_status g = SignatureStatus.PENDING \<Longrightarrow>
    tx_id t' = tx_id t \<Longrightarrow> tx_threshold t' = tx_threshold t \<Longrightarrow>
    si_id g' = si_id g \<Longrightarrow> sig_key g' = sig_key g \<Longrightarrow>
    transactions s' = save_row tx_id t' (transactions s) \<Longrightarrow>
    signatures s' = save_row si_id g' (signatures s) \<Longrightarrow> rows_step s s'"
| create: "tx_id t \<notin> tx_id ` set (transactions s) \<Longrightarrow> transactions s' = transactions s @ [t] \<Longrightarrow>
    signatures s' = signatures s @ new \<Longrightarrow>
    (\<And>g. g \<in> set new \<Longrightarrow> si_multiSigTransactionId g = tx_id t) \<Longrightarrow> rows_step s s'"

inductive_cases rows_stepE: "rows_step s s'"

lemma approve_rows: "rows_step s (state_of (approveTransaction dto u env s))"
proof (cases "load_for_signing ''approve'' (ap_multiSigTransactionId dto) (ap_signerAddress dto) s")
  case (Inl e)
  then show ?thesis by (auto simp: approveTransaction_def intro: rows_step.same)
next
  case (Inr p)
  obtain t g where p: "p = (t, g)" by (cases p)
  with Inr have l: "t \<in> set (transactions s)" "tx_status t = MultiSigTransactionStatus.PENDING"
      "g \<in> set (signatures s)" "si_status g = SignatureStatus.PENDING"
    by (auto simp: load_for_signing_Inr dest: find_ms_some)
  show ?thesis
    by (rule rows_step.sign [OF l, where g' = "g\<lparr>si_status := SignatureStatus.SIGNED,
          si_signedAt := Some (m_now env), si_comment := ap_comment dto\<rparr>" and
        t' = "(let t1 = t\<lparr>tx_approvalsReceived := tx_approvalsReceived t + 1\<rparr>
               in if int (tx_approvalsReceived t1) \<ge> tx_threshold t1
                  then t1\<lparr>tx_status := MultiSigTransactionStatus.APPROVED\<rparr> else t1)"])
      (use Inr p in \<open>simp_all add: approveTransaction_def Let_def sig_key_def save_row_twice\<close>)
qed

lemma reject_rows: "rows_step s (state_of (rejectTransaction dto u env s))"
proof (cases "load_for_signing ''reject'' (rj_multiSigTransactionId dto) (rj_signerAddress dto) s")
  case (Inl e)
  then show ?thesis by (auto simp: rejectTransaction_def intro: rows_step.same)
next
  case (Inr p)
  obtain t g where p: "p = (t, g)" by (cases p)
  with Inr have l: "t \<in> set (transactions s)" "tx_status t = MultiSigTransactionStatus.PENDING"
      "g \<in> set (signatures s)" "si_status g = SignatureStatus.PENDING"
    by (auto simp: load_for_signing_Inr dest: find_ms_some)
  show ?thesis
    by (rule rows_step.sign [OF l, where g' = "g\<lparr>si_status := SignatureStatus.REJECTED,
          si_rejectionReason := Some (rj_rejectionReason dto), si_rejectedAt := Some (m_now env)\<rparr>" and
        t' = "t\<lparr>tx_rejectionsReceived := tx_rejectionsReceived t + 1,
                tx_status := MultiSigTransactionStatus.REJECTED,
                tx_failureReason := Some (''Rejected by '' @ rj_signerAddress dto @ '': ''
                                          @ rj_rejectionReason dto)\<rparr>"])
      (use Inr p in \<open>simp_all add: rejectTransaction_def Let_def sig_key_def\<close>)
qed

lemma create_signatures_rows:
  assumes "inj (m_sigId env)" and "\<forall>k \<ge> n. m_sigId env k \<notin> si_id ` set (signatures s)"
  shows "\<exists>new. signatures (state_of (create_signatures tid as n env s)) = signatures s @ new
           \<and> (\<forall>g \<in> set new. si_multiSigTransactionId g = tid \<and> (\<exists>a \<in> set as. si_signerAddress g = sg_signerAddress a))
           \<and> length new \<le> length as"
  using assms
proof (induction tid as n env s rule: create_signatures.induct)
  case (1 tid n env s)
  then show ?case by simp
next
  case (2 tid a as n env s)
  show ?case
  proof (cases "find_sig tid (sg_signerAddress a) s = None")
    case False
    then show ?thesis by simp
  next
    case True
    let ?g = "\<lparr> si_id = m_sigId env n, si_multiSigTransactionId = tid,
                si_signerAddress = sg_signerAddress a, si_signerName = sg_signerName a,
                si_status = SignatureStatus.PENDING, si_comment = None, si_signedAt = None,
                si_signatureExpiresAt = Some (m_now env + seven_days),
                si_createdAt = m_now env, si_rejectionReason = None, si_rejectedAt = None \<rparr>"
    from 2(3) have "m_sigId env n \<notin> si_id ` set (signatures s)" by blast
    then have eq: "save_row si_id ?g (signatures s) = signatures s @ [?g]"
      by (intro save_row_new) (auto simp: image_iff)
    have "\<forall>k \<ge> Suc n. m_sigId env k \<notin> si_id ` set (signatures (save_sig ?g s))"
      using 2 by (auto simp: keys_save_row inj_eq simp del: image_iff)
    from 2(1) [OF _ 2(2) this] True obtain new where
      new: "signatures (state_of (create_signatures tid as (Suc n) env (save_sig ?g s))) = (signatures s @ [?g]) @ new"
        "\<forall>g \<in> set new. si_multiSigTransactionId g = tid \<and> (\<exists>a \<in> set as. si_signerAddress g = sg_signerAddress a)"
        "length new \<le> length as"
      by (auto simp: eq)
    have "signatures (state_of (create_signatures tid (a # as) n env s)) = signatures s @ (?g # new)"
      using new(1) True by simp
    moreover have "\<forall>g \<in> set (?g # new). si_multiSigTransactionId g = tid
        \<and> (\<exists>b \<in> set (a # as). si_signerAddress g = sg_signerAddress b)"
      using new(2) by auto
    moreover have "length (?g # new) \<le> length (a # as)" using new(3) by simp
    ultimately show ?thesis by blast
  qed
qed

text \<open>The rows a call to \<open>createTransaction\<close> adds: one transaction, at most one signature per approver.\<close>

lemma createTransaction_rows:
  assumes fresh: "fresh_env env s" and w: "find_wallet (ct_multiSigWalletId dto) s = Some w"
    and act: "w_status w = MultiSigWalletStatus.ACTIVE"
  shows "\<exists>t new. transactions (state_of (createTransaction dto u env s)) = transactions s @ [t]
     \<and> tx_id t = m_newId env \<and> tx_threshold t = w_threshold w
     \<and> signatures (state_of (createTransaction dto u env s)) = signatures s @ new
     \<and> (\<forall>g \<in> set new. si_multiSigTransactionId g = tx_id t)
     \<and> length new \<le> count_rows (active_approver (ct_multiSigWalletId dto)) (signers s)"
proof -
  let ?t = "\<lparr> tx_id = m_newId env, tx_multiSigWalletId = ct_multiSigWalletId dto,
              tx_transactionType = PAYOUT, tx_status = MultiSigTransactionStatus.PENDING,
              tx_destinationAddress = ct_destinationAddress dto, tx_amount = ct_amount dto,
              tx_asset = or_default (ct_asset dto) ''XLM'',
              tx_transactionPayload = ct_transactionPayload dto,
              tx_description = ct_description dto, tx_approvalsReceived = 0,
              tx_rejectionsReceived = 0, tx_threshold = w_threshold w, tx_initiatedBy = Some u,
              tx_createdAt = m_now env, tx_expiresAt = Some (m_now env + seven_days),
              tx_stellarTransactionHash = None, tx_failureReason = None \<rparr>"
  let ?as = "filter (active_approver (ct_multiSigWalletId dto)) (signers s)"
  let ?c = "create_signatures (m_newId env) ?as 0 env (save_tx ?t s)"
  let ?r = "state_of (createTransaction dto u env s)"
  have eq: "save_row tx_id ?t (transactions s) = transactions s @ [?t]"
    using fresh by (intro save_row_new) (auto simp: fresh_env_def image_iff)
  have "transactions ?r = transactions (state_of ?c) \<and> signatures ?r = signatures (state_of ?c)"
    using w act by (cases ?c) (auto simp: createTransaction_def Let_def split: sum.splits)
  moreover have "transactions (state_of ?c) = transactions s @ [?t]"
    by (simp add: create_signatures_fields eq)
  moreover obtain new where "signatures (state_of ?c) = signatures s @ new"
      "\<forall>g \<in> set new. si_multiSigTransactionId g = m_newId env" "length new \<le> length ?as"
    using create_signatures_rows [of env 0 "save_tx ?t s" "m_newId env" ?as] fresh
    by (auto simp: fresh_env_def)
  ultimately show ?thesis
    by (intro exI [of _ ?t] exI [of _ new]) (simp add: count_rows_def)
qed

lemma createTransaction_rows_step:
  assumes fresh: "fresh_env env s"
  shows "rows_step s (state_of (createTransaction dto u env s))"
proof (cases "\<exists>w. find_wallet (ct_multiSigWalletId dto) s = Some w \<and> w_status w = MultiSigWalletStatus.ACTIVE")
  case True
  then obtain t new where "transactions (state_of (createTransaction dto u env s)) = transactions s @ [t]"
     "tx_id t = m_newId env" "signatures (state_of (createTransaction dto u env s)) = signatures s @ new"
     "\<forall>g \<in> set new. si_multiSigTransactionId g = tx_id t"
    using createTransaction_rows [OF fresh] by blast
  with fresh show ?thesis by (intro rows_step.create) (auto simp: fresh_env_def)
next
  case False
  then have "state_of (createTransaction dto u env s) = s"
    by (auto simp: createTransaction_def split: option.splits)
  then show ?thesis by (simp add: rows_step.same)
qed

lemma ms_step_rows: "ms_step s s' \<Longrightarrow> rows_step s s'"
proof (induction rule: ms_step.induct)
  case (create_wallet env s dto u)
  show ?case by (auto simp: createWallet_def Let_def intro: rows_step.same)
next
  case (add_signer env s adto u)
  show ?case by (auto simp: addSigner_def Let_def intro: rows_step.same split: option.splits)
next
  case (remove_signer s wid a u env)
  show ?case by (auto simp: removeSigner_def Let_def intro: rows_step.same split: option.splits)
next
  case (update_threshold s udto u env)
  show ?case by (auto simp: updateThreshold_def Let_def intro: rows_step.same split: option.splits)
next
  case (create_tx env s cdto u)
  then show ?case by (rule createTransaction_rows_step)
next
  case (approve s pdto u env)
  show ?case by (rule approve_rows)
next
  case (reject s rdto u env)
  show ?case by (rule reject_rows)
qed


subsection \<open>What lasts over a run\<close>

lemma ms_steps_reachable: "ms_steps s s' \<Longrightarrow> ms_reachable s \<Longrightarrow> ms_reachable s'"
  by (induction rule: ms_steps.induct) (auto intro: ms_reachable.step)

text \<open>A property of a state that every step from a reachable state keeps.\<close>

lemma ms_steps_induct_inv [consumes 2, case_names refl step]:
  assumes "ms_steps s s'" and "ms_reachable s" and "P s"
    and "\<And>t u. ms_inv t \<Longrightarrow> ms_step t u \<Longrightarrow> P t \<Longrightarrow> P u"
  shows "P s'"
  using assms(1,2,3)
proof (induction rule: ms_steps.induct)
  case (more s t u)
  then have "ms_inv t" by (blast intro: ms_steps_reachable ms_reachable_inv)
  with more assms(4) show ?case by blast
qed simp

lemma decided_tx_step:
  assumes inv: "ms_inv s" and step: "ms_step s s'"
    and t: "t \<in> set (transactions s)" "tx_status t \<noteq> MultiSigTransactionStatus.PENDING"
  shows "t \<in> set (transactions s')"
  using ms_step_rows [OF step]
proof (cases rule: rows_step.cases)
  case (sign t0 g0 t1 g1)
  have "tx_id t \<noteq> tx_id t1"
    using tx_repo.key_unique [OF ms_invD(3) [OF inv] t(1) sign(1)] sign t by auto
  with sign t show ?thesis by (auto simp: set_save_row ms_invD(3) [OF inv])
qed (use t in auto)

lemma decided_tx_run:
  assumes "ms_steps s s'" and "ms_reachable s"
    and "t \<in> set (transactions s)" and "tx_status t \<noteq> MultiSigTransactionStatus.PENDING"
  shows "t \<in> set (transactions s')"
  using assms(1-3) by (induction rule: ms_steps_induct_inv) (use decided_tx_step assms(4) in blast)+

lemma decided_sig_step:
  assumes inv: "ms_inv s" and step: "ms_step s s'"
    and g: "g \<in> set (signatures s)" "si_status g \<noteq> SignatureStatus.PENDING"
  shows "g \<in> set (signatures s')"
  using ms_step_rows [OF step]
proof (cases rule: rows_step.cases)
  case (sign t0 g0 t1 g1)
  have "si_id g \<noteq> si_id g1"
    using sig_repo.key_unique [OF ms_invD(4) [OF inv] g(1) sign(3)] sign g by auto
  with sign g show ?thesis by (auto simp: set_save_row ms_invD(4) [OF inv])
qed (use g in auto)

lemma decided_sig_run:
  assumes "ms_steps s s'" and "ms_reachable s"
    and "g \<in> set (signatures s)" and "si_status g \<noteq> SignatureStatus.PENDING"
  shows "g \<in> set (signatures s')"
  using assms(1-3) by (induction rule: ms_steps_induct_inv) (use decided_sig_step assms(4) in blast)+

definition of_tx :: "id \<Rightarrow> MultiSigSignature \<Rightarrow> bool" where
  "of_tx tid g = (si_multiSigTransactionId g = tid)"

text \<open>The threshold and the number of signature rows of a transaction never change.\<close>

definition tx_frame :: "id \<Rightarrow> int \<Rightarrow> nat \<Rightarrow> multisig_state \<Rightarrow> bool" where
  "tx_frame tid th n s =
     (tid \<in> tx_id ` set (transactions s)
      \<and> (\<forall>t \<in> set (transactions s). tx_id t = tid \<longrightarrow> tx_threshold t = th)
      \<and> count_rows (of_tx tid) (signatures s) = n)"

lemma tx_frame_step:
  assumes inv: "ms_inv s" and step: "ms_step s s'" and fr: "tx_frame tid th n s"
  shows "tx_frame tid th n s'"
  using ms_step_rows [OF step]
proof (cases rule: rows_step.cases)
  case same
  with fr show ?thesis by (simp add: tx_frame_def)
next
  case (sign t0 g0 t1 g1)
  have "of_tx tid g1 = of_tx tid g0" using sign by (simp add: of_tx_def sig_key_def)
  with sign count_save_row [OF ms_invD(4) [OF inv] sign(3) sign(7), of "of_tx tid"]
  have "count_rows (of_tx tid) (signatures s') = n" using fr by (simp add: tx_frame_def split: if_splits)
  moreover have "\<forall>t \<in> set (transactions s'). tx_id t = tid \<longrightarrow> tx_threshold t = th"
    using sign fr by (auto simp: tx_frame_def set_save_row ms_invD(3) [OF inv])
  moreover have "tid \<in> tx_id ` set (transactions s')"
    using sign fr by (simp add: tx_frame_def keys_save_row)
  ultimately show ?thesis by (simp add: tx_frame_def)
next
  case (create t new)
  from fr have "tid \<in> tx_id ` set (transactions s)" by (simp add: tx_frame_def)
  with create(1) have "tid \<noteq> tx_id t" by blast
  moreover have "count_rows (of_tx tid) new = 0"
    using create calculation by (auto simp: count_rows_zero of_tx_def)
  ultimately show ?thesis using create fr by (auto simp: tx_frame_def)
qed

lemma tx_frame_run: "ms_steps s s' \<Longrightarrow> ms_reachable s \<Longrightarrow> tx_frame tid th n s \<Longrightarrow> tx_frame tid th n s'"
  by (induction rule: ms_steps_induct_inv) (auto intro: tx_frame_step)

text \<open>A signer row, once there, keeps its wallet and address: the address stays taken.\<close>

definition signer_taken :: "id \<Rightarrow> string \<Rightarrow> multisig_state \<Rightarrow> bool" where
  "signer_taken wid a s = (find_signer wid a s \<noteq> None)"

lemma signer_taken_save:
  assumes "wf_table sg_id (signers s)" and "signer_taken wid a s"
    and "\<And>r. r \<in> set (signers s) \<Longrightarrow> sg_id r = sg_id g \<Longrightarrow>
      sg_multiSigWalletId g = sg_multiSigWalletId r \<and> sg_signerAddress g = sg_signerAddress r"
  shows "signer_taken wid a (save_signer g s)"
proof -
  from assms(2) obtain r where r: "r \<in> set (signers s)" "sg_multiSigWalletId r = wid" "sg_signerAddress r = a"
    by (auto simp: signer_taken_def find_signer_def find_row_none)
  have "\<exists>r \<in> set (signers (save_signer g s)). sg_multiSigWalletId r = wid \<and> sg_signerAddress r = a"
    using assms(1) r assms(3) [OF r(1)] by (cases "sg_id r = sg_id g") (auto simp: set_save_row)
  then show ?thesis by (auto simp: signer_taken_def find_signer_def find_row_none)
qed

lemma signer_taken_fields [simp]:
  "signer_taken wid a (emit_ms e s) = signer_taken wid a s"
  "signer_taken wid a (save_wallet w s) = signer_taken wid a s"
  "signer_taken wid a (save_tx t s) = signer_taken wid a s"
  "signer_taken wid a (save_sig g s) = signer_taken wid a s"
  by (simp_all add: signer_taken_def find_signer_def)

lemma signer_taken_replace:
  assumes wf: "wf_table sg_id (signers s)" and taken: "signer_taken wid a s"
    and g: "g \<in> set (signers s)" and f: "sg_id (f g) = sg_id g"
      "sg_multiSigWalletId (f g) = sg_multiSigWalletId g" "sg_signerAddress (f g) = sg_signerAddress g"
  shows "signer_taken wid a (save_signer (f g) s)"
proof (rule signer_taken_save [OF wf taken])
  fix r assume "r \<in> set (signers s)" "sg_id r = sg_id (f g)"
  then have "r = g" using signer_repo.key_unique [OF wf _ g] f by simp
  with f show "sg_multiSigWalletId (f g) = sg_multiSigWalletId r \<and> sg_signerAddress (f g) = sg_signerAddress r"
    by simp
qed

lemma signer_taken_bump:
  assumes "wf_table sg_id (signers s)" and "signer_taken wid a s"
    and "\<And>g. sg_id (f g) = sg_id g \<and> sg_multiSigWalletId (f g) = sg_multiSigWalletId g
            \<and> sg_signerAddress (f g) = sg_signerAddress g"
  shows "signer_taken wid a (bump_signer w b f s)"
proof (cases "find_signer w b s")
  case None
  with assms show ?thesis by (simp add: bump_signer_def)
next
  case (Some g)
  have "signer_taken wid a (save_signer (f g) s)"
    by (rule signer_taken_replace [OF assms(1,2)]) (use assms(3) find_signer_some [OF Some] in auto)
  with Some show ?thesis by (simp add: bump_signer_def)
qed

lemma create_signatures_signers [simp]: "signers (state_of (create_signatures tid as n env s)) = signers s"
  by (induction tid as n env s rule: create_signatures.induct) auto


lemma signer_taken_create_tx: "signer_taken wid a (state_of (createTransaction dto u env s)) = signer_taken wid a s"
proof -
  have "signers (state_of (createTransaction dto u env s)) = signers s"
    by (auto simp: createTransaction_def Let_def split: option.splits prod.splits sum.splits)
      (metis create_signatures_signers save_tx_fields(2) snd_conv)+
  then show ?thesis by (simp add: signer_taken_def find_signer_def)
qed

lemma signer_taken_remove:
  assumes inv: "ms_inv s" and taken: "signer_taken wid a s"
  shows "signer_taken wid a (state_of (removeSigner w b u env s))"
proof (cases "find_signer w b s")
  case None
  with taken show ?thesis by (simp add: removeSigner_def)
next
  case (Some g)
  have "signer_taken wid a (save_signer (g\<lparr>sg_status := SignerStatus.REMOVED, sg_removedBy := Some u,
      sg_removedAt := Some (m_now env)\<rparr>) s)"
    by (rule signer_taken_replace [OF ms_invD(2) [OF inv] taken, where f = "\<lambda>g. g\<lparr>sg_status := SignerStatus.REMOVED,
          sg_removedBy := Some u, sg_removedAt := Some (m_now env)\<rparr>"])
      (use find_signer_some [OF Some] in auto)
  with Some show ?thesis by (auto simp: removeSigner_def Let_def split: option.splits)
qed

lemma signer_taken_add:
  assumes inv: "ms_inv s" and fresh: "fresh_env env s" and taken: "signer_taken wid a s"
  shows "signer_taken wid a (state_of (addSigner dto u env s))"
proof -
  have "signer_taken wid a (save_signer g s)" if "sg_id g = m_newId env" for g
    by (rule signer_taken_save [OF ms_invD(2) [OF inv] taken])
      (use fresh that in \<open>metis fresh_env_def imageI\<close>)
  then show ?thesis using taken by (auto simp: addSigner_def Let_def split: option.splits)
qed

lemma signer_taken_step:
  assumes "ms_inv s" and "ms_step s s'" and "signer_taken wid a s"
  shows "signer_taken wid a s'"
  using assms(2,1,3)
proof (induction rule: ms_step.induct)
  case (approve s pdto u env)
  then show ?case
    by (auto simp: approveTransaction_def Let_def ms_invD(2) split: sum.splits intro!: signer_taken_bump)
next
  case (reject s rdto u env)
  then show ?case
    by (auto simp: rejectTransaction_def Let_def ms_invD(2) split: sum.splits intro!: signer_taken_bump)
qed (auto simp: createWallet_def updateThreshold_def Let_def signer_taken_create_tx signer_taken_remove
    signer_taken_add split: option.splits)

lemma signer_taken_run:
  assumes "ms_steps s s'" and "ms_reachable s" and "signer_taken wid a s"
  shows "signer_taken wid a s'"
  using assms by (induction rule: ms_steps_induct_inv) (auto intro: signer_taken_step)

subsection \<open>A wallet to try the theorems on\<close>

definition demo_env :: "string \<Rightarrow> time \<Rightarrow> ms_env" where
  "demo_env i t = \<lparr> m_now = t, m_newId = i, m_sigId = (\<lambda>k. i @ replicate k CHR ''x''), m_bigintInc = Suc \<rparr>"

text \<open>An organisation with threshold 2 and three signers, and one transaction.\<close>

definition demo_wallet :: multisig_state where
  "demo_wallet = state_of (createWallet \<lparr> cw_organizationId = ''org'', cw_walletAddress = ''GWALLET'',
     cw_name = None, cw_description = None, cw_threshold = 2, cw_totalSigners = 3 \<rparr> ''owner'' (demo_env ''w'' 1) init_ms)"

definition demo_add :: "string \<Rightarrow> string \<Rightarrow> multisig_state \<Rightarrow> multisig_state" where
  "demo_add n a s = state_of (addSigner \<lparr> as_multiSigWalletId = ''w'', as_signerAddress = a,
     as_signerName = None, as_role = None \<rparr> ''owner'' (demo_env n 2) s)"

definition demo_dto :: CreateMultiSigTransactionDto where
  "demo_dto = \<lparr> ct_multiSigWalletId = ''w'', ct_destinationAddress = ''GDEST'', ct_amount = 50000000,
     ct_asset = None, ct_description = None, ct_transactionPayload = None \<rparr>"

definition demo_approve :: "string \<Rightarrow> ApproveTransactionDto" where
  "demo_approve a = \<lparr> ap_multiSigTransactionId = ''t'', ap_signerAddress = a, ap_comment = None \<rparr>"

definition demo_reject :: "string \<Rightarrow> RejectTransactionDto" where
  "demo_reject a = \<lparr> rj_multiSigTransactionId = ''t'', rj_signerAddress = a, rj_rejectionReason = ''no'' \<rparr>"

definition demo_two :: multisig_state where
  "demo_two = demo_add ''b'' ''GB'' (demo_add ''a'' ''GA'' demo_wallet)"

definition demo_open :: multisig_state where
  "demo_open = state_of (createTransaction demo_dto ''owner'' (demo_env ''t'' 5) (demo_add ''c'' ''GC'' demo_two))"

definition demo_approved :: multisig_state where
  "demo_approved = state_of (approveTransaction (demo_approve ''GB'') ''owner'' (demo_env ''y'' 7)
     (state_of (approveTransaction (demo_approve ''GA'') ''owner'' (demo_env ''y'' 6) demo_open)))"


lemma inj_replicate [simp]: "inj (\<lambda>k. i @ replicate k c)" "inj (\<lambda>k. d # replicate k c)"
  by (auto simp: inj_def dest: arg_cong [of _ _ length])

lemmas ms_eval = demo_env_def demo_wallet_def demo_add_def demo_dto_def demo_approve_def demo_reject_def
  demo_two_def demo_open_def demo_approved_def init_ms_def createWallet_def addSigner_def
  removeSigner_def createTransaction_def approveTransaction_def rejectTransaction_def
  load_for_signing_def bump_signer_def find_wallet_def find_signer_def find_tx_def find_sig_def
  emit_ms_def save_wallet_def save_signer_def save_tx_def save_sig_def find_row_def
  active_approver_def Let_def

lemma demo_fresh:
  "fresh_env (demo_env ''w'' t) init_ms"
  "fresh_env (demo_env ''a'' t) demo_wallet"
  "fresh_env (demo_env ''b'' t) (demo_add ''a'' ''GA'' demo_wallet)"
  "fresh_env (demo_env ''c'' t) demo_two"
  "fresh_env (demo_env ''t'' t) demo_two"
  "fresh_env (demo_env ''t'' t) (demo_add ''c'' ''GC'' demo_two)"
  by (simp_all add: fresh_env_def ms_eval)

lemma demo_wallet_reachable: "ms_reachable demo_wallet"
  unfolding demo_wallet_def by (intro ms_reachable.step [OF ms_reachable.start] ms_step.create_wallet demo_fresh)

lemma demo_two_reachable: "ms_reachable demo_two"
  unfolding demo_two_def demo_add_def
  by (intro ms_reachable.step [OF _ ms_step.add_signer] demo_wallet_reachable demo_fresh
      demo_fresh [unfolded demo_add_def])

lemma demo_open_reachable: "ms_reachable demo_open"
  unfolding demo_open_def demo_add_def
  by (intro ms_reachable.step [OF _ ms_step.create_tx] ms_reachable.step [OF _ ms_step.add_signer]
      demo_two_reachable demo_fresh demo_fresh [unfolded demo_add_def])

lemma demo_approved_reachable: "ms_reachable demo_approved"
  unfolding demo_approved_def by (intro ms_reachable.step [OF _ ms_step.approve] demo_open_reachable)


subsection \<open>The quorum\<close>

lemma sig_signers_distinct:
  assumes "distinct (map sig_key sigs)" and "\<And>g. P g \<Longrightarrow> si_multiSigTransactionId g = tid"
  shows "distinct (map si_signerAddress (filter P sigs))"
  using assms by (induction sigs) (auto simp: sig_key_def)

text \<open>
  Claim C5.  As long as the calls of the service run one after the other, each to its end, and every call of
  the database succeeds: an approved transaction has been signed by at least as many different addresses
  as its threshold, each of them the address of an approver of its wallet, and nobody has rejected it.  Nothing in
  the code keeps calls from overlapping between the load of a transaction and its save; runs in which they do are
  not spoken of.
\<close>
theorem approved_quorum:
  assumes "ms_reachable s" and "t \<in> set (transactions s)"
    and "tx_status t = MultiSigTransactionStatus.APPROVED"
  shows "tx_threshold t \<le> int (card (si_signerAddress `
            {g \<in> set (signatures s). si_multiSigTransactionId g = tx_id t \<and> si_status g = SignatureStatus.SIGNED}))
    \<and> (\<forall>g \<in> set (signatures s). si_multiSigTransactionId g = tx_id t \<longrightarrow>
          si_status g \<noteq> SignatureStatus.REJECTED
          \<and> (\<exists>r \<in> set (signers s). sg_multiSigWalletId r = tx_multiSigWalletId t
                \<and> sg_signerAddress r = si_signerAddress g \<and> sg_role r = APPROVER))"
proof
  note inv = ms_reachable_inv [OF assms(1)]
  have ok: "tx_ok (signatures s) t" by (rule ms_invD(7) [OF inv assms(2)])
  have "count_rows (signed_by (tx_id t)) (signatures s)
      = card (si_signerAddress ` {g \<in> set (signatures s). signed_by (tx_id t) g})"
    by (rule count_rows_distinct_card, rule sig_signers_distinct [OF ms_invD(5) [OF inv]])
      (simp add: signed_by_def)
  with ok assms(3) show "tx_threshold t \<le> int (card (si_signerAddress `
      {g \<in> set (signatures s). si_multiSigTransactionId g = tx_id t \<and> si_status g = SignatureStatus.SIGNED}))"
    by (simp add: tx_ok_def tx_status_ok_def signed_by_def)
  have "count_rows (rejected_by (tx_id t)) (signatures s) = 0"
    using ok assms(3) by (simp add: tx_ok_def tx_status_ok_def)
  moreover have "\<exists>r \<in> set (signers s). sg_multiSigWalletId r = tx_multiSigWalletId t
      \<and> sg_signerAddress r = si_signerAddress g \<and> sg_role r = APPROVER"
    if "g \<in> set (signatures s)" "si_multiSigTransactionId g = tx_id t" for g
    using ms_invD(8) [OF inv that(1)] that(2) tx_repo.key_unique [OF ms_invD(3) [OF inv] _ assms(2)]
    unfolding sig_owned_def by metis
  ultimately show "\<forall>g \<in> set (signatures s). si_multiSigTransactionId g = tx_id t \<longrightarrow>
      si_status g \<noteq> SignatureStatus.REJECTED
      \<and> (\<exists>r \<in> set (signers s). sg_multiSigWalletId r = tx_multiSigWalletId t
            \<and> sg_signerAddress r = si_signerAddress g \<and> sg_role r = APPROVER)"
    by (auto simp: count_rows_zero rejected_by_def)
qed

theorem approved_quorum_witness:
  "\<exists>t \<in> set (transactions demo_approved). tx_status t = MultiSigTransactionStatus.APPROVED
     \<and> tx_threshold t \<le> int (card (si_signerAddress `
          {g \<in> set (signatures demo_approved). si_multiSigTransactionId g = tx_id t
             \<and> si_status g = SignatureStatus.SIGNED}))"
proof -
  have "\<exists>t \<in> set (transactions demo_approved). tx_status t = MultiSigTransactionStatus.APPROVED"
    by (simp add: ms_eval)
  then obtain t where t: "t \<in> set (transactions demo_approved)"
    "tx_status t = MultiSigTransactionStatus.APPROVED" by blast
  from approved_quorum [OF demo_approved_reachable this] t show ?thesis by blast
qed

subsection \<open>Finality\<close>

text \<open>
  Claim C6.  A transaction that is no longer pending is final for this service, as long as its calls run one after
  the other: whatever calls follow, its row stays as it is, and approving or rejecting it fails and changes
  nothing.
\<close>
theorem decision_final:
  assumes "ms_reachable s" and "t \<in> set (transactions s)"
    and "tx_status t \<noteq> MultiSigTransactionStatus.PENDING" and "ms_steps s s'"
    and "ap_multiSigTransactionId adto = tx_id t" and "rj_multiSigTransactionId rdto = tx_id t"
  shows "find_tx (tx_id t) s' = Some t
    \<and> \<not> succeeds (approveTransaction adto u env s') \<and> state_of (approveTransaction adto u env s') = s'
    \<and> \<not> succeeds (rejectTransaction rdto u env s') \<and> state_of (rejectTransaction rdto u env s') = s'"
proof -
  have inv: "ms_inv s'" by (rule ms_reachable_inv [OF ms_steps_reachable [OF assms(4,1)]])
  have "find_tx (tx_id t) s' = Some t"
    unfolding find_tx_def
    by (rule tx_repo.find_by_key [OF ms_invD(3) [OF inv] decided_tx_run [OF assms(4,1,2,3)]])
  with assms(3,5,6) show ?thesis
    by (simp add: approveTransaction_def rejectTransaction_def load_for_signing_def)
qed

definition demo_tx :: MultiSigTransaction where
  "demo_tx = hd (transactions demo_approved)"

theorem decision_final_witness:
  "find_tx ''t'' demo_approved = Some demo_tx
    \<and> \<not> succeeds (rejectTransaction (demo_reject ''GC'') ''owner'' (demo_env ''z'' 9) demo_approved)"
  using decision_final [OF demo_approved_reachable, of demo_tx demo_approved "demo_approve ''GC''"
      "demo_reject ''GC''" "''owner''" "demo_env ''z'' 9"] ms_steps.refl [of demo_approved]
  by (simp add: demo_tx_def ms_eval)

text \<open>
  A signer decides a transaction once: after a successful approval, whatever calls follow,
  neither an approval nor a rejection of the same transaction by the same address succeeds.
\<close>
theorem one_vote_per_signer:
  assumes "ms_reachable s" and "succeeds (approveTransaction dto u env s)"
    and "ms_steps (state_of (approveTransaction dto u env s)) s'"
    and "ap_multiSigTransactionId adto = ap_multiSigTransactionId dto" "ap_signerAddress adto = ap_signerAddress dto"
    and "rj_multiSigTransactionId rdto = ap_multiSigTransactionId dto" "rj_signerAddress rdto = ap_signerAddress dto"
  shows "\<not> succeeds (approveTransaction adto v env' s') \<and> \<not> succeeds (rejectTransaction rdto v env' s')"
proof -
  let ?s1 = "state_of (approveTransaction dto u env s)"
  have r1: "ms_reachable ?s1" by (rule ms_reachable.step [OF assms(1) ms_step.approve])
  obtain t g where l: "load_for_signing ''approve'' (ap_multiSigTransactionId dto) (ap_signerAddress dto) s = Inr (t, g)"
    using assms(2) by (cases "load_for_signing ''approve'' (ap_multiSigTransactionId dto) (ap_signerAddress dto) s")
      (auto simp: approveTransaction_def)
  let ?g = "g\<lparr>si_status := SignatureStatus.SIGNED, si_signedAt := Some (m_now env), si_comment := ap_comment dto\<rparr>"
  have g: "si_multiSigTransactionId g = ap_multiSigTransactionId dto" "si_signerAddress g = ap_signerAddress dto"
    using l by (auto simp: load_for_signing_Inr dest: find_ms_some)
  have "signatures ?s1 = save_row si_id ?g (signatures s)"
    using l by (simp add: approveTransaction_def Let_def)
  then have "?g \<in> set (signatures ?s1)"
    using sig_repo.saved_in [OF ms_invD(4) [OF ms_reachable_inv [OF assms(1)]]] by simp
  then have in': "?g \<in> set (signatures s')" by (rule decided_sig_run [OF assms(3) r1]) simp
  have inv: "ms_inv s'" by (rule ms_reachable_inv [OF ms_steps_reachable [OF assms(3) r1]])
  have "find_sig (ap_multiSigTransactionId dto) (ap_signerAddress dto) s' = Some ?g"
  proof (cases "find_sig (ap_multiSigTransactionId dto) (ap_signerAddress dto) s'")
    case None
    with in' g show ?thesis by (auto simp: find_sig_def find_row_none)
  next
    case (Some h)
    then have h: "h \<in> set (signatures s')" "sig_key h = sig_key ?g"
      using g find_sig_some [OF Some] by (simp_all add: sig_key_def)
    with in' ms_invD(5) [OF inv] have "h = ?g" by (auto simp: distinct_map dest: inj_onD)
    with Some show ?thesis by simp
  qed
  then have "\<exists>e. load_for_signing v (ap_multiSigTransactionId dto) (ap_signerAddress dto) s' = Inl e" for v
    by (auto simp: load_for_signing_def split: option.splits)
  then obtain e1 e2 where
      "load_for_signing ''approve'' (ap_multiSigTransactionId dto) (ap_signerAddress dto) s' = Inl e1"
      "load_for_signing ''reject'' (ap_multiSigTransactionId dto) (ap_signerAddress dto) s' = Inl e2"
    by blast
  with assms(4-7) show ?thesis by (simp add: approveTransaction_def rejectTransaction_def)
qed

theorem one_vote_per_signer_witness:
  "\<not> succeeds (approveTransaction (demo_approve ''GA'') ''owner'' (demo_env ''z'' 9)
       (state_of (approveTransaction (demo_approve ''GA'') ''owner'' (demo_env ''y'' 6) demo_open)))"
  using one_vote_per_signer [OF demo_open_reachable, of "demo_approve ''GA''" "''owner''" "demo_env ''y'' 6" _
      "demo_approve ''GA''" "demo_reject ''GA''"] ms_steps.refl
  by (auto simp: ms_eval)


subsection \<open>Transactions that get stuck, and late signatures\<close>

text \<open>
  The service opens a transaction even when the wallet has fewer active approvers than its
  threshold; such a transaction can never be approved, whoever signs or is added later.
\<close>
theorem understaffed_never_approved:
  assumes "ms_reachable s" and "fresh_env env s"
    and "find_wallet (ct_multiSigWalletId dto) s = Some w" and "w_status w = MultiSigWalletStatus.ACTIVE"
    and "int (count_rows (active_approver (ct_multiSigWalletId dto)) (signers s)) < w_threshold w"
    and "ms_steps (state_of (createTransaction dto u env s)) s'"
  shows "\<exists>t. find_tx (m_newId env) s' = Some t \<and> tx_status t \<noteq> MultiSigTransactionStatus.APPROVED"
proof -
  let ?s1 = "state_of (createTransaction dto u env s)"
  have inv: "ms_inv s" by (rule ms_reachable_inv [OF assms(1)])
  have r1: "ms_reachable ?s1" by (rule ms_reachable.step [OF assms(1) ms_step.create_tx [OF assms(2)]])
  obtain t new where c: "transactions ?s1 = transactions s @ [t]" "tx_id t = m_newId env"
      "tx_threshold t = w_threshold w" "signatures ?s1 = signatures s @ new"
      "\<forall>g \<in> set new. si_multiSigTransactionId g = tx_id t"
      "length new \<le> count_rows (active_approver (ct_multiSigWalletId dto)) (signers s)"
    using createTransaction_rows [OF assms(2-4)] by blast
  have new: "m_newId env \<notin> tx_id ` set (transactions s)" using assms(2) by (simp add: fresh_env_def)
  have "\<not> of_tx (m_newId env) g" if "g \<in> set (signatures s)" for g
    using ms_invD(8) [OF inv that] new unfolding sig_owned_def of_tx_def by (metis imageI)
  then have "count_rows (of_tx (m_newId env)) (signatures s) = 0" by (simp add: count_rows_zero)
  moreover have "count_rows (of_tx (m_newId env)) new = length new"
    using c(2,5) by (simp add: count_rows_def of_tx_def)
  moreover have "tx_threshold q = w_threshold w" if "q \<in> set (transactions ?s1)" "tx_id q = m_newId env" for q
    using that c(1-3) new by (auto simp: image_iff)
  ultimately have "tx_frame (m_newId env) (w_threshold w) (length new) ?s1"
    using c by (auto simp: tx_frame_def)
  then have fr: "tx_frame (m_newId env) (w_threshold w) (length new) s'"
    by (rule tx_frame_run [OF assms(6) r1])
  have inv': "ms_inv s'" by (rule ms_reachable_inv [OF ms_steps_reachable [OF assms(6) r1]])
  from fr obtain q where q: "q \<in> set (transactions s')" "tx_id q = m_newId env" "tx_threshold q = w_threshold w"
    by (auto simp: tx_frame_def)
  have found: "find_tx (m_newId env) s' = Some q"
    using tx_repo.find_by_key [OF ms_invD(3) [OF inv'] q(1)] q(2) by (simp add: find_tx_def)
  have "tx_approvalsReceived q \<le> count_rows (of_tx (m_newId env)) (signatures s')"
    using ms_invD(7) [OF inv' q(1)] q(2)
    by (auto simp: tx_ok_def signed_by_def of_tx_def intro!: count_rows_mono)
  with fr c(6) assms(5) q(3) have "int (tx_approvalsReceived q) < tx_threshold q"
    by (simp add: tx_frame_def)
  with ms_invD(7) [OF inv' q(1)] have "tx_status q \<noteq> MultiSigTransactionStatus.APPROVED"
    by (auto simp: tx_ok_def tx_status_ok_def)
  with found show ?thesis by blast
qed

theorem understaffed_never_approved_witness:
  "\<exists>t. find_tx ''t'' (state_of (createTransaction demo_dto ''owner'' (demo_env ''t'' 5) (demo_add ''a'' ''GA'' demo_wallet)))
         = Some t \<and> tx_status t \<noteq> MultiSigTransactionStatus.APPROVED"
proof -
  let ?s = "demo_add ''a'' ''GA'' demo_wallet"
  have r: "ms_reachable ?s"
    unfolding demo_add_def
    by (intro ms_reachable.step [OF demo_wallet_reachable] ms_step.add_signer demo_fresh)
  have f: "fresh_env (demo_env ''t'' 5) ?s" by (simp add: fresh_env_def ms_eval)
  have w: "find_wallet (ct_multiSigWalletId demo_dto) ?s = Some (hd (wallets ?s))"
    and a: "w_status (hd (wallets ?s)) = MultiSigWalletStatus.ACTIVE"
    and n: "int (count_rows (active_approver (ct_multiSigWalletId demo_dto)) (signers ?s)) < w_threshold (hd (wallets ?s))"
    by (simp_all add: ms_eval)
  from understaffed_never_approved [OF r f w a n ms_steps.refl, of "''owner''"]
  show ?thesis by (simp add: demo_env_def)
qed

text \<open>
  The expiry date only hides a transaction: once it has passed, the list of pending
  transactions of the wallet leaves the transaction out, and yet a pending signer still approves it.
\<close>
theorem expired_still_approvable:
  assumes "ms_reachable s" and "find_tx (ap_multiSigTransactionId dto) s = Some t"
    and "tx_status t = MultiSigTransactionStatus.PENDING"
    and "tx_expiresAt t = Some e" and "e < m_now env"
    and "find_sig (ap_multiSigTransactionId dto) (ap_signerAddress dto) s = Some g"
    and "si_status g = SignatureStatus.PENDING"
  shows "t \<notin> set (getPendingTransactions (tx_multiSigWalletId t) (m_now env) s)
    \<and> succeeds (approveTransaction dto u env s)
    \<and> (\<exists>t'. find_tx (ap_multiSigTransactionId dto) (state_of (approveTransaction dto u env s)) = Some t'
          \<and> tx_approvalsReceived t' = tx_approvalsReceived t + 1)"
proof (intro conjI)
  show "t \<notin> set (getPendingTransactions (tx_multiSigWalletId t) (m_now env) s)"
    using assms(4,5) by (simp add: getPendingTransactions_def)
  have l: "load_for_signing ''approve'' (ap_multiSigTransactionId dto) (ap_signerAddress dto) s = Inr (t, g)"
    using assms by (simp add: load_for_signing_Inr)
  then show "succeeds (approveTransaction dto u env s)"
    by (simp add: approveTransaction_def Let_def)
  note wf = ms_invD(3) [OF ms_reachable_inv [OF assms(1)]]
  have id: "tx_id t = ap_multiSigTransactionId dto" using find_tx_some [OF assms(2)] by simp
  have saved: "find_row (\<lambda>q. tx_id q = ap_multiSigTransactionId dto) (save_row tx_id t' (transactions s)) = Some t'"
    if "tx_id t' = tx_id t" for t'
    using tx_repo.find_saved [OF wf, of t'] that id by simp
  show "\<exists>t'. find_tx (ap_multiSigTransactionId dto) (state_of (approveTransaction dto u env s)) = Some t'
          \<and> tx_approvalsReceived t' = tx_approvalsReceived t + 1"
    using l by (simp add: approveTransaction_def Let_def find_tx_def save_row_twice saved)
qed

theorem expired_still_approvable_witness:
  "getPendingTransactions ''w'' (10 ^ 12) demo_open = []
    \<and> succeeds (approveTransaction (demo_approve ''GC'') ''owner'' (demo_env ''z'' (10 ^ 12)) demo_open)"
proof
  show "getPendingTransactions ''w'' (10 ^ 12) demo_open = []"
    by (simp add: getPendingTransactions_def order_desc_def seven_days_def ms_eval)
  let ?t = "hd (transactions demo_open)" and ?g = "signatures demo_open ! 2"
  have "find_tx ''t'' demo_open = Some ?t" "tx_status ?t = MultiSigTransactionStatus.PENDING"
    "tx_expiresAt ?t = Some (5 + seven_days)" "find_sig ''t'' ''GC'' demo_open = Some ?g"
    "si_status ?g = SignatureStatus.PENDING"
    by (simp_all add: ms_eval)
  then show "succeeds (approveTransaction (demo_approve ''GC'') ''owner'' (demo_env ''z'' (10 ^ 12)) demo_open)"
    using expired_still_approvable [OF demo_open_reachable, of "demo_approve ''GC''" ?t "5 + seven_days"
        "demo_env ''z'' (10 ^ 12)" ?g "''owner''"]
    by (simp add: demo_approve_def demo_env_def seven_days_def)
qed


subsection \<open>Removed signers\<close>

text \<open>
  Removing a signer does not revoke the pending signatures of its address: right after a
  successful removal, the removed address still approves every pending transaction it could approve
  before.
\<close>
theorem removed_signer_still_signs:
  assumes "succeeds (removeSigner wid a u env s)"
    and "load_for_signing ''approve'' tid a s = Inr (t, g)"
    and "ap_multiSigTransactionId dto = tid" and "ap_signerAddress dto = a"
  shows "(\<exists>r \<in> set (signers (state_of (removeSigner wid a u env s))).
            sg_multiSigWalletId r = wid \<and> sg_signerAddress r = a \<and> sg_status r = SignerStatus.REMOVED)
    \<and> succeeds (approveTransaction dto v env' (state_of (removeSigner wid a u env s)))"
proof
  let ?s1 = "state_of (removeSigner wid a u env s)"
  obtain r where r: "find_signer wid a s = Some r"
    using assms(1) by (cases "find_signer wid a s") (auto simp: removeSigner_def)
  let ?r = "r\<lparr>sg_status := SignerStatus.REMOVED, sg_removedBy := Some u, sg_removedAt := Some (m_now env)\<rparr>"
  have "signers ?s1 = save_row sg_id ?r (signers s)"
    using r assms(1) by (auto simp: removeSigner_def Let_def split: option.splits)
  moreover have "?r \<in> set (save_row sg_id ?r t)" for t by (induction t) auto
  ultimately show "\<exists>r \<in> set (signers ?s1). sg_multiSigWalletId r = wid \<and> sg_signerAddress r = a
      \<and> sg_status r = SignerStatus.REMOVED"
    using find_signer_some [OF r] by (intro bexI [of _ ?r]) auto
  have "transactions ?s1 = transactions s" and "signatures ?s1 = signatures s"
    by (auto simp: removeSigner_def Let_def split: option.splits)
  then have "find_tx tid ?s1 = find_tx tid s" and "find_sig tid a ?s1 = find_sig tid a s"
    by (simp_all add: find_tx_def find_sig_def)
  with assms(2) have "load_for_signing ''approve'' tid a ?s1 = Inr (t, g)"
    by (simp add: load_for_signing_Inr)
  with assms(3,4) show "succeeds (approveTransaction dto v env' ?s1)"
    by (simp add: approveTransaction_def Let_def)
qed

theorem removed_signer_still_signs_witness:
  "succeeds (approveTransaction (demo_approve ''GA'') ''owner'' (demo_env ''z'' 9)
     (state_of (removeSigner ''w'' ''GA'' ''owner'' (demo_env ''y'' 8) demo_open)))"
proof -
  have "succeeds (removeSigner ''w'' ''GA'' ''owner'' (demo_env ''y'' 8) demo_open)"
    by (simp add: ms_eval)
  moreover have "load_for_signing ''approve'' ''t'' ''GA'' demo_open
      = Inr (hd (transactions demo_open), hd (signatures demo_open))"
    by (simp add: ms_eval)
  ultimately show ?thesis
    using removed_signer_still_signs [of "''w''" "''GA''" "''owner''" "demo_env ''y'' 8" demo_open "''t''" _ _
        "demo_approve ''GA''" "''owner''" "demo_env ''z'' 9"]
    by (simp add: demo_approve_def)
qed

text \<open>
  A signer that has been removed can never come back: \<open>addSigner\<close> accepts an address whose
  old row is \<open>REMOVED\<close>, but the unique index on wallet and address rejects the insert, so every later
  attempt fails and changes nothing.
\<close>
theorem removed_signer_barred:
  assumes "ms_reachable s" and "succeeds (removeSigner wid a u env s)"
    and "ms_steps (state_of (removeSigner wid a u env s)) s'"
    and "as_multiSigWalletId dto = wid" and "as_signerAddress dto = a"
  shows "\<not> succeeds (addSigner dto v env' s') \<and> state_of (addSigner dto v env' s') = s'"
proof -
  let ?s1 = "state_of (removeSigner wid a u env s)"
  have "signer_taken wid a s"
    using assms(2) by (cases "find_signer wid a s") (auto simp: signer_taken_def removeSigner_def)
  then have "signer_taken wid a ?s1"
    by (rule signer_taken_remove [OF ms_reachable_inv [OF assms(1)]])
  then have "signer_taken wid a s'"
    by (rule signer_taken_run [OF assms(3) ms_reachable.step [OF assms(1) ms_step.remove_signer]])
  with assms(4,5) show ?thesis
    by (auto simp: signer_taken_def addSigner_def Let_def split: option.splits)
qed

theorem removed_signer_barred_witness:
  "\<not> succeeds (addSigner \<lparr> as_multiSigWalletId = ''w'', as_signerAddress = ''GA'', as_signerName = None,
       as_role = None \<rparr> ''owner'' (demo_env ''z'' 9)
       (state_of (removeSigner ''w'' ''GA'' ''owner'' (demo_env ''y'' 8) demo_two)))"
proof -
  have "succeeds (removeSigner ''w'' ''GA'' ''owner'' (demo_env ''y'' 8) demo_two)"
    by (simp add: ms_eval)
  from removed_signer_barred [OF demo_two_reachable this ms_steps.refl, of "\<lparr> as_multiSigWalletId = ''w'',
      as_signerAddress = ''GA'', as_signerName = None, as_role = None \<rparr>"]
  show ?thesis by simp
qed

subsection \<open>Statistics\<close>

definition totals_zero :: "multisig_state \<Rightarrow> bool" where
  "totals_zero s = (\<forall>w \<in> set (wallets s). w_approvedTransactions w = 0 \<and> w_totalAmountApproved w = 0)"

lemma totals_zero_save:
  "totals_zero s \<Longrightarrow> w_approvedTransactions w = 0 \<Longrightarrow> w_totalAmountApproved w = 0 \<Longrightarrow> totals_zero (save_wallet w s)"
  using set_save_row_subset [of w_id w "wallets s"] by (auto simp: totals_zero_def)

lemma totals_zero_fields [simp]:
  "totals_zero (emit_ms e s) = totals_zero s" "totals_zero (save_signer g s) = totals_zero s"
  "totals_zero (save_tx t s) = totals_zero s" "totals_zero (save_sig h s) = totals_zero s"
  "totals_zero (bump_signer wid a f s) = totals_zero s"
  "totals_zero (state_of (create_signatures tid as n env s)) = totals_zero s"
  by (simp_all add: totals_zero_def create_signatures_fields)

lemma totals_zero_wallet:
  "totals_zero s \<Longrightarrow> find_wallet wid s = Some w \<Longrightarrow> w_approvedTransactions w = 0 \<and> w_totalAmountApproved w = 0"
  by (auto simp: totals_zero_def dest: find_wallet_some)

lemma totals_zero_create_tx:
  assumes "totals_zero s" shows "totals_zero (state_of (createTransaction dto u env s))"
proof -
  have "totals_zero c" if "create_signatures tid as n env (save_tx t s) = (r, c)" for tid as n t r c
    using totals_zero_fields(6) [of tid as n env "save_tx t s"] that assms by simp
  with assms show ?thesis
    by (auto simp: createTransaction_def Let_def dest: totals_zero_wallet intro!: totals_zero_save
        split: option.splits prod.splits sum.splits)
qed

lemma totals_zero_step: "ms_step s s' \<Longrightarrow> totals_zero s \<Longrightarrow> totals_zero s'"
proof (induction rule: ms_step.induct)
  case (create_tx env s cdto u)
  then show ?case by (simp add: totals_zero_create_tx)
next
  case (remove_signer s wid a u env)
  then show ?case
    by (auto simp: removeSigner_def Let_def split: option.splits intro!: totals_zero_save)
      (use totals_zero_wallet totals_zero_fields(2) in metis)+
qed (auto simp: createWallet_def addSigner_def updateThreshold_def approveTransaction_def
    rejectTransaction_def Let_def split: option.splits sum.splits dest: totals_zero_wallet
    intro!: totals_zero_save)

text \<open>
  The total amount approved that the statistics of a wallet report is zero in every
  reachable state, even when transactions have been approved: no operation ever updates it.  The
  pending, rejected and completed counts are disjoint parts of the transactions of the wallet.
\<close>
theorem approved_total_never_recorded:
  assumes "ms_reachable s" and "getWalletStats wid s = Inr st"
  shows "ws_totalAmountApproved st = 0
    \<and> ws_threshold st \<le> ws_totalSigners st
    \<and> ws_completedTransactions st + ws_pendingTransactions st + ws_rejectedTransactions st
        \<le> count_rows (\<lambda>t. tx_multiSigWalletId t = wid) (transactions s)"
proof -
  have z: "totals_zero s"
    using assms(1) by (induction rule: ms_reachable.induct) (auto simp: totals_zero_def init_ms_def dest: totals_zero_step)
  obtain w where w: "find_wallet wid s = Some w"
    using assms(2) by (cases "find_wallet wid s") (auto simp: getWalletStats_def)
  have "w_threshold w \<le> w_totalSigners w"
    using ms_invD(6) [OF ms_reachable_inv [OF assms(1)]] find_wallet_some [OF w] by simp
  moreover have "count_rows (\<lambda>t. tx_multiSigWalletId t = wid \<and> tx_status t = MultiSigTransactionStatus.COMPLETED) ts
      + count_rows (\<lambda>t. tx_multiSigWalletId t = wid \<and> tx_status t = MultiSigTransactionStatus.PENDING) ts
      + count_rows (\<lambda>t. tx_multiSigWalletId t = wid \<and> tx_status t = MultiSigTransactionStatus.REJECTED) ts
      \<le> count_rows (\<lambda>t. tx_multiSigWalletId t = wid) ts" for ts
    by (induction ts) auto
  ultimately show ?thesis
    using assms(2) w totals_zero_wallet [OF z w] by (auto simp: getWalletStats_def Let_def)
qed

theorem approved_total_never_recorded_witness:
  "\<exists>st t. getWalletStats ''w'' demo_approved = Inr st \<and> ws_totalAmountApproved st = 0
     \<and> t \<in> set (transactions demo_approved) \<and> tx_status t = MultiSigTransactionStatus.APPROVED
     \<and> tx_amount t = 50000000"
proof -
  obtain st where st: "getWalletStats ''w'' demo_approved = Inr st"
    by (simp add: getWalletStats_def ms_eval)
  have "\<exists>t \<in> set (transactions demo_approved). tx_status t = MultiSigTransactionStatus.APPROVED
      \<and> tx_amount t = 50000000"
    by (simp add: ms_eval)
  with approved_total_never_recorded [OF demo_approved_reachable st] st show ?thesis by blast
qed

end
