(* ===== verification/Entities.thy ===== *)
theory Entities
  imports Repository
begin

text \<open>
  The entities several modules share: \<open>User\<close>, \<open>Quest\<close> and \<open>Submission\<close>, with the helper methods
  of \<open>User\<close>.  The JSON columns are kept to the values the services read; the relations that only
  TypeORM fills (\<open>submissions\<close>, \<open>createdQuests\<close>) are left out, except the two of \<open>Submission\<close>,
  which its controller reads: they are \<open>None\<close> unless a query asks for them.
\<close>

subsection \<open>Users\<close>

datatype Role = ADMIN | USER | MODERATOR | VERIFIER

datatype PrivacyLevel = PUBLIC | FRIENDS_ONLY | PRIVATE

record SocialLinks =
  sl_twitter :: "string option"
  sl_github :: "string option"
  sl_discord :: "string option"
  sl_website :: "string option"

record User =
  u_id :: id
  u_stellarAddress :: "string option"
  u_username :: "string option"
  u_email :: "string option"
  u_role :: Role
  u_xp :: int
  u_level :: int
  u_questsCompleted :: int
  u_badges :: "string list"
  u_avatarUrl :: "string option"
  u_bio :: "string option"
  u_socialLinks :: "SocialLinks option"
  u_privacyLevel :: PrivacyLevel
  u_failedQuests :: int
  u_successRate :: rat
  u_totalEarned :: int
  u_lastActiveAt :: "time option"
  u_pushToken :: "string option"
  u_webhookUrl :: "string option"
  u_createdAt :: time

text \<open>The integer square root, by counting up.\<close>

fun isqrt :: "nat \<Rightarrow> nat" where
  "isqrt 0 = 0"
| "isqrt (Suc n) = (let r = isqrt n in if (r + 1) * (r + 1) \<le> Suc n then r + 1 else r)"

lemma isqrt_bounds: "isqrt n * isqrt n \<le> n \<and> n < (isqrt n + 1) * (isqrt n + 1)"
  by (induction n) (auto simp: Let_def)

lemma isqrt_unique:
  assumes "r * r \<le> n" and "n < (r + 1) * (r + 1)"
  shows "isqrt n = r"
proof -
  have "isqrt n * isqrt n < (r + 1) * (r + 1)" and "r * r < (isqrt n + 1) * (isqrt n + 1)"
    using isqrt_bounds [of n] assms by linarith+
  then have "isqrt n < r + 1" and "r < isqrt n + 1"
    by (meson leD le_less_linear mult_le_mono)+
  then show ?thesis by simp
qed

lemma isqrt_mono: "m \<le> n \<Longrightarrow> isqrt m \<le> isqrt n"
  by (induction rule: dec_induct) (auto simp: Let_def)

text \<open>
  \<open>Math.max(1, Math.floor(Math.sqrt(this.xp / 100)))\<close>.  For an \<open>int\<close> column that is not negative the
  floor of the floating-point root is the integer root of the whole hundreds; for a negative one the
  root is \<open>NaN\<close>, and so is the maximum: that is \<open>None\<close>.
\<close>

definition calculateLevel :: "int \<Rightarrow> int option" where
  "calculateLevel xp = (if xp < 0 then None else Some (max 1 (int (isqrt (nat (xp div 100))))))"

definition calculateSuccessRate :: "int \<Rightarrow> int \<Rightarrow> rat" where
  "calculateSuccessRate completed failed =
     (let total = completed + failed
      in if total > 0 then (rat_of_int completed / rat_of_int total) * 100 else 0)"

text \<open>
  \<open>updateStatistics\<close>: storing a \<open>NaN\<close> level leaves an entity no save accepts; \<open>None\<close> then.
\<close>

definition updateStatistics :: "time \<Rightarrow> User \<Rightarrow> User option" where
  "updateStatistics now u =
     (case calculateLevel (u_xp u) of
        None \<Rightarrow> None
      | Some l \<Rightarrow> Some (u\<lparr>u_level := l,
          u_successRate := calculateSuccessRate (u_questsCompleted u) (u_failedQuests u),
          u_lastActiveAt := Some now\<rparr>))"

lemma calculateLevel_some: "0 \<le> xp \<Longrightarrow> \<exists>l. calculateLevel xp = Some l \<and> 1 \<le> l"
  by (simp add: calculateLevel_def)

lemma calculateLevel_mono:
  assumes "0 \<le> x" and "x \<le> y" and "calculateLevel x = Some l" and "calculateLevel y = Some m"
  shows "l \<le> m"
proof -
  have "nat (x div 100) \<le> nat (y div 100)" using assms(2) by (simp add: nat_mono zdiv_mono1)
  from isqrt_mono [OF this] assms show ?thesis
    by (auto simp: calculateLevel_def max_def split: if_splits)
qed

text \<open>Level \<open>l\<close> starts at \<open>100 l\<^sup>2\<close> experience points.\<close>

lemma calculateLevel_iff:
  assumes "1 < l"
  shows "calculateLevel xp = Some l \<longleftrightarrow> 100 * (l * l) \<le> xp \<and> xp < 100 * ((l + 1) * (l + 1))"
proof
  assume "calculateLevel xp = Some l"
  with assms have xp: "0 \<le> xp" and l: "l = int (isqrt (nat (xp div 100)))"
    by (auto simp: calculateLevel_def max_def split: if_splits)
  obtain n where n: "xp div 100 = int n"
    using xp by (metis nonneg_int_cases pos_imp_zdiv_nonneg_iff zero_less_numeral)
  with l have l: "l = int (isqrt n)" by simp
  have "isqrt n * isqrt n \<le> n" and "n < (isqrt n + 1) * (isqrt n + 1)"
    using isqrt_bounds [of n] by blast+
  then have "int (isqrt n * isqrt n) \<le> int n" and "int n < int ((isqrt n + 1) * (isqrt n + 1))"
    by (simp_all only: of_nat_le_iff of_nat_less_iff)
  then have "l * l \<le> xp div 100" and "xp div 100 < (l + 1) * (l + 1)"
    unfolding n l by (simp_all only: of_nat_mult of_nat_add of_nat_1)
  then show "100 * (l * l) \<le> xp \<and> xp < 100 * ((l + 1) * (l + 1))" by linarith
next
  assume a: "100 * (l * l) \<le> xp \<and> xp < 100 * ((l + 1) * (l + 1))"
  have "0 \<le> l * l" by simp
  with a have xp: "0 \<le> xp" by linarith
  have "l * l \<le> xp div 100" and "xp div 100 < (l + 1) * (l + 1)" using a by linarith+
  moreover obtain m where m: "l = int m" using assms by (metis nonneg_int_cases less_imp_le less_trans zero_less_one)
  moreover obtain n where n: "xp div 100 = int n"
    using xp by (metis nonneg_int_cases pos_imp_zdiv_nonneg_iff zero_less_numeral)
  ultimately have "int (m * m) \<le> int n" and "int n < int ((m + 1) * (m + 1))"
    by (simp_all only: of_nat_mult of_nat_add of_nat_1)
  then have "m * m \<le> n" and "n < (m + 1) * (m + 1)" by (simp_all only: of_nat_le_iff of_nat_less_iff)
  then have "isqrt n = m" by (rule isqrt_unique)
  with m n have "isqrt (nat (xp div 100)) = nat l" by simp
  with assms xp show "calculateLevel xp = Some l" by (simp add: calculateLevel_def)
qed

lemma calculateSuccessRate_bounds:
  assumes "0 \<le> c" and "0 \<le> f"
  shows "0 \<le> calculateSuccessRate c f \<and> calculateSuccessRate c f \<le> 100"
proof -
  have b: "0 \<le> r * 100 \<and> r * 100 \<le> 100" if "0 \<le> r" "r \<le> 1" for r :: rat
    using that by simp
  show ?thesis
  proof (cases "0 < c + f")
    case True
    with assms have "rat_of_int c / rat_of_int (c + f) \<le> 1" by (simp add: divide_le_eq)
    moreover have "0 \<le> rat_of_int c / rat_of_int (c + f)" using assms by simp
    ultimately show ?thesis using b True by (simp only: calculateSuccessRate_def Let_def if_True)
  qed (simp add: calculateSuccessRate_def)
qed

subsection \<open>Quests and submissions\<close>

record Quest =
  q_id :: id
  q_title :: string
  q_description :: string
  q_contractTaskId :: string
  q_rewardAsset :: string
  q_rewardAmount :: int
  q_deadline :: "time option"
  q_status :: string
  q_verifierType :: string
  q_createdBy :: id
  q_createdAt :: time
  q_updatedAt :: time
  q_creatorAddress :: "string option"
  q_currentCompletions :: int
  q_maxCompletions :: "int option"
  q_startDate :: "time option"
  q_endDate :: "time option"

record Submission =
  s_id :: id
  s_questId :: id
  s_userId :: id
  s_proof :: string
  s_status :: string
  s_approvedBy :: "id option"
  s_approvedAt :: "time option"
  s_rejectedBy :: "id option"
  s_rejectedAt :: "time option"
  s_rejectionReason :: "string option"
  s_verifierNotes :: "string option"
  s_createdAt :: time
  s_user :: "User option"
  s_quest :: "Quest option"

end
