(* ===== verification/Notifications.thy ===== *)
theory Notifications
  imports Entities
begin

text \<open>
  The notifications module, \<open>BackEnd/src/modules/notifications\<close>: the three entities, the message
  templates, \<open>NotificationsService\<close>, the delivery worker \<open>NotificationsProcessor\<close> with its four
  channels, and the channel success rate of \<open>NotificationAnalyticsService\<close>.  The queue is the list
  of the jobs added to it; which job the worker takes next, and how often, is up to the queue library,
  so the worker is a function of the job.  The HTTP client of the webhook channel is the argument
  \<open>post\<close>.  A property that is \<open>undefined\<close> when an entity is saved leaves its column as it is.
\<close>

subsection \<open>Entities\<close>

datatype NotificationType =
  INFO | SUCCESS | WARNING | ERROR | QUEST_UPDATE | REWARD | SUBMISSION
  | SUBMISSION_APPROVED | SUBMISSION_REJECTED

datatype NotificationPriority = LOW | NORMAL | HIGH | URGENT

datatype ChannelType = EMAIL | PUSH | IN_APP | WEBHOOK | SMS

datatype DeliveryStatus = PENDING | SENT | DELIVERED | FAILED | READ

fun show_NotificationType :: "NotificationType \<Rightarrow> string" where
  "show_NotificationType INFO = ''INFO''"
| "show_NotificationType SUCCESS = ''SUCCESS''"
| "show_NotificationType WARNING = ''WARNING''"
| "show_NotificationType ERROR = ''ERROR''"
| "show_NotificationType QUEST_UPDATE = ''QUEST_UPDATE''"
| "show_NotificationType REWARD = ''REWARD''"
| "show_NotificationType SUBMISSION = ''SUBMISSION''"
| "show_NotificationType SUBMISSION_APPROVED = ''SUBMISSION_APPROVED''"
| "show_NotificationType SUBMISSION_REJECTED = ''SUBMISSION_REJECTED''"

fun show_ChannelType :: "ChannelType \<Rightarrow> string" where
  "show_ChannelType EMAIL = ''EMAIL''"
| "show_ChannelType PUSH = ''PUSH''"
| "show_ChannelType IN_APP = ''IN_APP''"
| "show_ChannelType WEBHOOK = ''WEBHOOK''"
| "show_ChannelType SMS = ''SMS''"

text \<open>The \<open>data\<close> of a notification: the properties the service and the templates read.\<close>

record notif_data =
  nd_title :: "string option"
  nd_message :: "string option"
  nd_questTitle :: "string option"
  nd_rewardAmount :: "int option"
  nd_reason :: "string option"

record Notification =
  nt_id :: id
  nt_userId :: id
  nt_type :: NotificationType
  nt_title :: string
  nt_message :: string
  nt_priority :: NotificationPriority
  nt_metadata :: notif_data
  nt_read :: bool
  nt_readAt :: "time option"
  nt_createdAt :: time

record NotificationPreference =
  np_id :: id
  np_userId :: id
  np_type :: NotificationType
  np_enabledChannels :: "ChannelType list"
  np_enabled :: bool

datatype ProviderResponse = MessageId string | HttpStatus int

record NotificationLog =
  nl_id :: id
  nl_notificationId :: id
  nl_channel :: ChannelType
  nl_status :: DeliveryStatus
  nl_providerResponse :: "ProviderResponse option"
  nl_error :: "string option"
  nl_retryCount :: nat

record DeliverJob =
  dj_notificationId :: id
  dj_channel :: ChannelType
  dj_logId :: id
  dj_priority :: nat
  dj_attempts :: nat

record notif_state =
  notifications :: "Notification list"
  preferences :: "NotificationPreference list"
  notif_logs :: "NotificationLog list"
  notif_queue :: "DeliverJob list"

text \<open>The clock, and the UUIDs of the rows a call inserts (those of the log rows by position).\<close>

record notif_env =
  n_now :: time
  n_newId :: id
  n_logId :: "nat \<Rightarrow> id"

subsection \<open>Templates\<close>

definition undefined_or :: "string option \<Rightarrow> string" where
  "undefined_or x = coalesce x ''undefined''"

definition templates_get :: "string \<Rightarrow> (notif_data \<Rightarrow> string) option" where
  "templates_get k =
     (if k = ''SUBMISSION_APPROVED'' then
        Some (\<lambda>d. ''Congratulations! Your submission for \"'' @ undefined_or (nd_questTitle d)
                @ ''\" has been approved. You'' @ [CHR 0x27] @ ''ve earned ''
                @ undefined_or (map_option show_int (nd_rewardAmount d)) @ '' tokens.'')
      else if k = ''SUBMISSION_REJECTED'' then
        Some (\<lambda>d. ''Your submission for \"'' @ undefined_or (nd_questTitle d)
                @ ''\" was not approved. Reason: '' @ undefined_or (nd_reason d))
      else if k = ''QUEST_UPDATE'' then
        Some (\<lambda>d. ''There is an update on the quest \"'' @ undefined_or (nd_questTitle d)
                @ ''\". Check it out!'')
      else if k = ''SYSTEM'' then Some (\<lambda>d. undefined_or (nd_message d))
      else None)"

definition render :: "string \<Rightarrow> notif_data \<Rightarrow> string" where
  "render k d = (case templates_get k of None \<Rightarrow> or_default (nd_message d) [] | Some f \<Rightarrow> f d)"

subsection \<open>The service\<close>

text \<open>The title of an approval ends with the UTF-8 bytes of a party popper.\<close>

definition getDefaultTitle :: "NotificationType \<Rightarrow> string" where
  "getDefaultTitle ty =
     (case ty of
        SUBMISSION_APPROVED \<Rightarrow> ''Submission Approved! '' @ [CHR 0xF0, CHR 0x9F, CHR 0x8E, CHR 0x89]
      | SUBMISSION_REJECTED \<Rightarrow> ''Submission Update''
      | QUEST_UPDATE \<Rightarrow> ''Quest Update''
      | _ \<Rightarrow> ''Notification'')"

fun getBullPriority :: "NotificationPriority \<Rightarrow> nat" where
  "getBullPriority URGENT = 1"
| "getBullPriority HIGH = 2"
| "getBullPriority NORMAL = 3"
| "getBullPriority LOW = 4"

definition queueDelivery :: "Notification \<Rightarrow> ChannelType \<Rightarrow> id \<Rightarrow> notif_state \<Rightarrow> notif_state" where
  "queueDelivery n ch logId s =
     (let lg = \<lparr> nl_id = logId, nl_notificationId = nt_id n, nl_channel = ch,
                  nl_status = DeliveryStatus.PENDING, nl_providerResponse = None, nl_error = None,
                  nl_retryCount = 0 \<rparr>;
          job = \<lparr> dj_notificationId = nt_id n, dj_channel = ch, dj_logId = logId,
                  dj_priority = getBullPriority (nt_priority n), dj_attempts = 3 \<rparr>
      in s\<lparr>notif_logs := save_row nl_id lg (notif_logs s), notif_queue := notif_queue s @ [job]\<rparr>)"

fun queue_all :: "Notification \<Rightarrow> ChannelType list \<Rightarrow> nat \<Rightarrow> notif_env \<Rightarrow> notif_state \<Rightarrow> notif_state" where
  "queue_all n [] k env s = s"
| "queue_all n (ch # chs) k env s = queue_all n chs (Suc k) env (queueDelivery n ch (n_logId env k) s)"

text \<open>The channels of a preference row that is enabled; without one, the in-app channel.\<close>

definition enabled_channels :: "id \<Rightarrow> NotificationType \<Rightarrow> notif_state \<Rightarrow> ChannelType list" where
  "enabled_channels userId ty s =
     (case find_row (\<lambda>p. np_userId p = userId \<and> np_type p = ty \<and> np_enabled p) (preferences s) of
        None \<Rightarrow> [IN_APP]
      | Some p \<Rightarrow> np_enabledChannels p)"

definition send_notification ::
    "id \<Rightarrow> NotificationType \<Rightarrow> notif_data \<Rightarrow> NotificationPriority \<Rightarrow> notif_env \<Rightarrow> notif_state
     \<Rightarrow> Notification \<times> notif_state" where
  "send_notification userId ty d prio env s =
     (let n = \<lparr> nt_id = n_newId env, nt_userId = userId, nt_type = ty,
                nt_title = or_default (nd_title d) (getDefaultTitle ty),
                nt_message = render (show_NotificationType ty) d, nt_priority = prio,
                nt_metadata = d, nt_read = False, nt_readAt = None, nt_createdAt = n_now env \<rparr>;
          s1 = s\<lparr>notifications := save_row nt_id n (notifications s)\<rparr>
      in (n, queue_all n (enabled_channels userId ty s1) 0 env s1))"

definition sendSubmissionApproved ::
    "id \<Rightarrow> string \<Rightarrow> int \<Rightarrow> notif_env \<Rightarrow> notif_state \<Rightarrow> Notification \<times> notif_state" where
  "sendSubmissionApproved userId questTitle rewardAmount =
     send_notification userId SUBMISSION_APPROVED
       \<lparr> nd_title = None, nd_message = None, nd_questTitle = Some questTitle,
         nd_rewardAmount = Some rewardAmount, nd_reason = None \<rparr> NORMAL"

definition sendSubmissionRejected ::
    "id \<Rightarrow> string \<Rightarrow> string \<Rightarrow> notif_env \<Rightarrow> notif_state \<Rightarrow> Notification \<times> notif_state" where
  "sendSubmissionRejected userId questTitle reason =
     send_notification userId SUBMISSION_REJECTED
       \<lparr> nd_title = None, nd_message = None, nd_questTitle = Some questTitle,
         nd_rewardAmount = None, nd_reason = Some reason \<rparr> NORMAL"

definition getUserNotifications :: "id \<Rightarrow> notif_state \<Rightarrow> Notification list" where
  "getUserNotifications userId s =
     take 50 (order_desc nt_createdAt (filter (\<lambda>n. nt_userId n = userId) (notifications s)))"

definition markAsRead :: "id \<Rightarrow> time \<Rightarrow> notif_state \<Rightarrow> (notif_state, unit) outcome" where
  "markAsRead nid now s =
     (case find_row (\<lambda>n. nt_id n = nid) (notifications s) of
        None \<Rightarrow> (Inl (NotFoundException ''Notification not found''), s)
      | Some _ \<Rightarrow>
          (Inr (), s\<lparr>notifications := update_where (\<lambda>n. nt_id n = nid)
                                       (\<lambda>n. n\<lparr>nt_read := True, nt_readAt := Some now\<rparr>) (notifications s),
                    notif_logs := update_where (\<lambda>l. nl_notificationId l = nid \<and> nl_channel l = IN_APP)
                                       (\<lambda>l. l\<lparr>nl_status := READ\<rparr>) (notif_logs s)\<rparr>))"

fun mark_each :: "Notification list \<Rightarrow> time \<Rightarrow> notif_state \<Rightarrow> (notif_state, unit) outcome" where
  "mark_each [] now s = (Inr (), s)"
| "mark_each (n # ns) now s =
     (case markAsRead (nt_id n) now s of
        (Inl e, s1) \<Rightarrow> (Inl e, s1)
      | (Inr _, s1) \<Rightarrow> mark_each ns now s1)"

definition markAllAsRead :: "id \<Rightarrow> time \<Rightarrow> notif_state \<Rightarrow> (notif_state, unit) outcome" where
  "markAllAsRead userId now s =
     mark_each (filter (\<lambda>n. nt_userId n = userId \<and> \<not> nt_read n) (notifications s)) now s"

definition updatePreference ::
    "id \<Rightarrow> NotificationType \<Rightarrow> ChannelType list \<Rightarrow> bool \<Rightarrow> id \<Rightarrow> notif_state
     \<Rightarrow> NotificationPreference \<times> notif_state" where
  "updatePreference userId ty chs en newId s =
     (let p = (case find_row (\<lambda>p. np_userId p = userId \<and> np_type p = ty) (preferences s) of
                 Some p \<Rightarrow> p\<lparr>np_enabledChannels := chs, np_enabled := en\<rparr>
               | None \<Rightarrow> \<lparr> np_id = newId, np_userId = userId, np_type = ty,
                           np_enabledChannels = chs, np_enabled = en \<rparr>)
      in (p, s\<lparr>preferences := save_row np_id p (preferences s)\<rparr>))"

subsection \<open>Delivery\<close>

record DeliveryResult =
  dr_success :: bool
  dr_channel :: ChannelType
  dr_providerResponse :: "ProviderResponse option"
  dr_error :: "string option"
  dr_retryable :: "bool option"

definition inAppChannel_send :: "Notification \<Rightarrow> DeliveryResult" where
  "inAppChannel_send n = \<lparr> dr_success = True, dr_channel = IN_APP, dr_providerResponse = None,
     dr_error = None, dr_retryable = None \<rparr>"

definition emailChannel_send :: "Notification \<Rightarrow> User \<Rightarrow> DeliveryResult" where
  "emailChannel_send n u = \<lparr> dr_success = True, dr_channel = EMAIL,
     dr_providerResponse = Some (MessageId ''placeholder-email-id''), dr_error = None, dr_retryable = None \<rparr>"

definition pushChannel_send :: "Notification \<Rightarrow> User \<Rightarrow> DeliveryResult" where
  "pushChannel_send n u = \<lparr> dr_success = True, dr_channel = PUSH,
     dr_providerResponse = Some (MessageId ''placeholder-push-id''), dr_error = None, dr_retryable = None \<rparr>"

definition webhookChannel_send ::
    "(string \<Rightarrow> Notification \<Rightarrow> string + int) \<Rightarrow> Notification \<Rightarrow> User \<Rightarrow> DeliveryResult" where
  "webhookChannel_send post n u =
     (if \<not> truthy (u_webhookUrl u)
      then \<lparr> dr_success = False, dr_channel = WEBHOOK, dr_providerResponse = None,
             dr_error = Some ''No webhook URL provided'', dr_retryable = Some False \<rparr>
      else (case post (the (u_webhookUrl u)) n of
              Inr st \<Rightarrow> \<lparr> dr_success = True, dr_channel = WEBHOOK,
                         dr_providerResponse = Some (HttpStatus st), dr_error = None, dr_retryable = None \<rparr>
            | Inl e \<Rightarrow> \<lparr> dr_success = False, dr_channel = WEBHOOK, dr_providerResponse = None,
                        dr_error = Some e, dr_retryable = Some True \<rparr>))"

definition channel_send ::
    "(string \<Rightarrow> Notification \<Rightarrow> string + int) \<Rightarrow> ChannelType \<Rightarrow> Notification \<Rightarrow> User \<Rightarrow> DeliveryResult option" where
  "channel_send post ch n u =
     (case ch of
        IN_APP \<Rightarrow> Some (inAppChannel_send n)
      | EMAIL \<Rightarrow> Some (emailChannel_send n u)
      | PUSH \<Rightarrow> Some (pushChannel_send n u)
      | WEBHOOK \<Rightarrow> Some (webhookChannel_send post n u)
      | SMS \<Rightarrow> None)"

text \<open>
  The worker.  The user is looked up before the check that the notification exists; reading
  \<open>userId\<close> of a missing one is a \<open>TypeError\<close>.  A retryable failure is thrown after the log is saved,
  so that the queue runs the job again.
\<close>

definition process_delivery ::
    "(string \<Rightarrow> Notification \<Rightarrow> string + int) \<Rightarrow> User list \<Rightarrow> DeliverJob \<Rightarrow> nat \<Rightarrow> notif_state
     \<Rightarrow> (notif_state, DeliveryResult option) outcome" where
  "process_delivery post users job attemptsMade s =
     (case find_row (\<lambda>n. nt_id n = dj_notificationId job) (notifications s) of
        None \<Rightarrow> (Inl (JsTypeError ''Cannot read properties of null''), s)
      | Some n \<Rightarrow>
          (case (find_row (\<lambda>u. u_id u = nt_userId n) users,
                 find_row (\<lambda>l. nl_id l = dj_logId job) (notif_logs s)) of
             (Some u, Some lg) \<Rightarrow>
               (case channel_send post (dj_channel job) n u of
                  None \<Rightarrow> (Inr None, s)
                | Some r \<Rightarrow>
                    (let lg' = lg\<lparr>nl_status := (if dr_success r then SENT else FAILED),
                                    nl_providerResponse := (case dr_providerResponse r of
                                        None \<Rightarrow> nl_providerResponse lg | Some v \<Rightarrow> Some v),
                                    nl_error := (case dr_error r of
                                        None \<Rightarrow> nl_error lg | Some e \<Rightarrow> Some e),
                                    nl_retryCount := attemptsMade\<rparr>;
                         s1 = s\<lparr>notif_logs := save_row nl_id lg' (notif_logs s)\<rparr>
                     in if \<not> dr_success r \<and> dr_retryable r = Some True
                        then (Inl (JsError (''Failed to deliver via '' @ show_ChannelType (dj_channel job)
                                @ '': '' @ undefined_or (dr_error r))), s1)
                        else (Inr (Some r), s1)))
           | _ \<Rightarrow> (Inr None, s)))"

definition getChannelSuccessRate :: "ChannelType \<Rightarrow> notif_state \<Rightarrow> rat" where
  "getChannelSuccessRate ch s =
     (let total = count_rows (\<lambda>l. nl_channel l = ch) (notif_logs s);
          success = count_rows (\<lambda>l. nl_channel l = ch \<and> nl_status l = SENT) (notif_logs s)
      in if total > 0 then (rat_of_nat success / rat_of_nat total) * 100 else 0)"

end
