(* ===== verification/Submissions.thy ===== *)
theory Submissions
  imports Notifications
begin

text \<open>
  The review of submissions: \<open>SubmissionsService\<close> and the routes of its controller
  (\<open>BackEnd/src/modules/submissions\<close>), with the listener \<open>UserExperienceListener\<close> that hears its
  approvals.  A decision is cut at the \<open>await\<close> before its conditional update: \<open>approve_load\<close> and
  \<open>reject_load\<close> read and check, \<open>approve_commit\<close> and \<open>reject_commit\<close> write, so that two requests can
  interleave.  The on-chain call of an approval is commented out in the source, and so is its error
  path unreachable.
\<close>

record QuestWithVerifiers =
  qv_id :: id
  qv_verifiers :: "id list"
  qv_createdBy :: id

datatype submission_event =
    SubmissionApprovedEvent id id id
  | QuestCompletedEvent id id int string
  | SubmissionApprovedPlain id id id id time
  | SubmissionRejectedEvent id id string

record submissions_state =
  submissions :: "Submission list"
  sub_quests :: "Quest list"
  sub_users :: "User list"
  sub_notifs :: notif_state
  sub_events :: "submission_event list"

record ApproveSubmissionDto =
  ad_notes :: "string option"

record RejectSubmissionDto =
  rd_reason :: "string option"
  rd_notes :: "string option"

text \<open>\<open>findOne\<close> loads no relation.\<close>

definition find_submission :: "id \<Rightarrow> submissions_state \<Rightarrow> Submission option" where
  "find_submission sid s =
     map_option (\<lambda>r. r\<lparr>s_user := None, s_quest := None\<rparr>) (find_row (\<lambda>r. s_id r = sid) (submissions s))"

definition getQuestById :: "id \<Rightarrow> submissions_state \<Rightarrow> exn + Quest" where
  "getQuestById qid s =
     (case find_row (\<lambda>q. q_id q = qid) (sub_quests s) of
        None \<Rightarrow> Inl (NotFoundException (''Quest with ID '' @ qid @ '' not found''))
      | Some q \<Rightarrow> Inr q)"

definition getUserById :: "id \<Rightarrow> submissions_state \<Rightarrow> exn + User" where
  "getUserById uid s =
     (case find_row (\<lambda>u. u_id u = uid) (sub_users s) of
        None \<Rightarrow> Inl (NotFoundException (''User with ID '' @ uid @ '' not found''))
      | Some u \<Rightarrow> Inr u)"

subsection \<open>Authorisation and the status machine\<close>

definition getQuestWithVerifiers :: "id \<Rightarrow> QuestWithVerifiers" where
  "getQuestWithVerifiers questId = \<lparr> qv_id = questId, qv_verifiers = [], qv_createdBy = [] \<rparr>"

definition checkAdminRole :: "id \<Rightarrow> bool" where
  "checkAdminRole userId = False"

definition validateVerifierAuthorization :: "id \<Rightarrow> id \<Rightarrow> exn + unit" where
  "validateVerifierAuthorization questId verifierId =
     (let quest = getQuestWithVerifiers questId;
          isAuthorized = (List.member (qv_verifiers quest) verifierId
            \<or> qv_createdBy quest = verifierId \<or> checkAdminRole verifierId)
      in if \<not> isAuthorized
         then Inl (ForbiddenException ''You are not authorized to verify submissions for this quest'')
         else Inr ())"

definition validTransitions :: "string \<Rightarrow> string list option" where
  "validTransitions st =
     (if st = ''PENDING'' then Some [''APPROVED'', ''REJECTED'', ''UNDER_REVIEW'']
      else if st = ''UNDER_REVIEW'' then Some [''APPROVED'', ''REJECTED'', ''PENDING'']
      else if st = ''APPROVED'' then Some []
      else if st = ''REJECTED'' then Some [''PENDING'']
      else if st = ''PAID'' then Some []
      else None)"

definition validateStatusTransition :: "string \<Rightarrow> string \<Rightarrow> exn + unit" where
  "validateStatusTransition cur new =
     (case validTransitions cur of
        Some ts \<Rightarrow> if List.member ts new then Inr ()
                  else Inl (BadRequestException (''Invalid status transition from '' @ cur @ '' to '' @ new))
      | None \<Rightarrow> Inl (BadRequestException (''Invalid status transition from '' @ cur @ '' to '' @ new)))"

text \<open>What both decisions read and check before they write.\<close>

definition load_for_decision ::
    "string \<Rightarrow> id \<Rightarrow> id \<Rightarrow> submissions_state \<Rightarrow> exn + (Submission \<times> User)" where
  "load_for_decision new sid verifierId s =
     (case find_submission sid s of
        None \<Rightarrow> Inl (NotFoundException (''Submission with ID '' @ sid @ '' not found''))
      | Some sub \<Rightarrow>
          (case getQuestById (s_questId sub) s of
             Inl e \<Rightarrow> Inl e
           | Inr q \<Rightarrow>
               (case getUserById (s_userId sub) s of
                  Inl e \<Rightarrow> Inl e
                | Inr u \<Rightarrow>
                    (case validateVerifierAuthorization (q_id q) verifierId of
                       Inl e \<Rightarrow> Inl e
                     | Inr _ \<Rightarrow>
                         (case validateStatusTransition (s_status sub) new of
                            Inl e \<Rightarrow> Inl e
                          | Inr _ \<Rightarrow> Inr (sub, u))))))"

text \<open>The conditional update: only while the status is still the one that was checked.\<close>

definition update_if_status ::
    "id \<Rightarrow> string \<Rightarrow> (Submission \<Rightarrow> Submission) \<Rightarrow> submissions_state \<Rightarrow> nat \<times> submissions_state" where
  "update_if_status sid st f s =
     (let P = (\<lambda>r. s_id r = sid \<and> s_status r = st)
      in (affected P (submissions s), s\<lparr>submissions := update_where P f (submissions s)\<rparr>))"

definition status_conflict :: exn where
  "status_conflict = ConflictException ''Submission status has changed. Please refresh and try again.''"

text \<open>The row, its quest and its user, read again after the update.\<close>

definition reload :: "id \<Rightarrow> submissions_state \<Rightarrow> exn + (Submission \<times> Quest)" where
  "reload sid s =
     (case find_submission sid s of
        None \<Rightarrow> Inl (NotFoundException ''Submission not found after update'')
      | Some sub \<Rightarrow>
          (case getQuestById (s_questId sub) s of
             Inl e \<Rightarrow> Inl e
           | Inr q \<Rightarrow>
               (case getUserById (s_userId sub) s of Inl e \<Rightarrow> Inl e | Inr _ \<Rightarrow> Inr (sub, q))))"

subsection \<open>Decisions\<close>

definition approve_row :: "id \<Rightarrow> time \<Rightarrow> string option \<Rightarrow> Submission \<Rightarrow> Submission" where
  "approve_row verifierId now notes r =
     r\<lparr>s_status := ''APPROVED'', s_approvedBy := Some verifierId, s_approvedAt := Some now,
       s_verifierNotes := (case notes of None \<Rightarrow> s_verifierNotes r | Some x \<Rightarrow> Some x)\<rparr>"

definition approve_commit ::
    "id \<Rightarrow> string \<Rightarrow> User \<Rightarrow> ApproveSubmissionDto \<Rightarrow> id \<Rightarrow> notif_env \<Rightarrow> submissions_state
     \<Rightarrow> (submissions_state, Submission) outcome" where
  "approve_commit sid st u dto verifierId env s =
     (let (n, s1) = update_if_status sid st (approve_row verifierId (n_now env) (ad_notes dto)) s
      in if n = 0 then (Inl status_conflict, s1)
         else if \<not> truthy (u_stellarAddress u)
         then (Inl (BadRequestException ''User does not have a Stellar address linked''), s1)
         else
           (case reload sid s1 of
              Inl e \<Rightarrow> (Inl e, s1)
            | Inr (sub, q) \<Rightarrow>
                (Inr sub,
                 s1\<lparr>sub_notifs := snd (sendSubmissionApproved (s_userId sub) (q_title q) (q_rewardAmount q)
                                        env (sub_notifs s1)),
                    sub_events := sub_events s1 @
                      [SubmissionApprovedEvent sid (s_questId sub) verifierId,
                       QuestCompletedEvent (q_id q) (s_userId sub) 100 (show_int (q_rewardAmount q)),
                       SubmissionApprovedPlain sid (s_questId sub) (s_userId sub) verifierId (n_now env)]\<rparr>)))"

definition approveSubmission ::
    "id \<Rightarrow> ApproveSubmissionDto \<Rightarrow> id \<Rightarrow> notif_env \<Rightarrow> submissions_state
     \<Rightarrow> (submissions_state, Submission) outcome" where
  "approveSubmission sid dto verifierId env s =
     (case load_for_decision ''APPROVED'' sid verifierId s of
        Inl e \<Rightarrow> (Inl e, s)
      | Inr (sub, u) \<Rightarrow> approve_commit sid (s_status sub) u dto verifierId env s)"

definition reject_load :: "id \<Rightarrow> RejectSubmissionDto \<Rightarrow> id \<Rightarrow> submissions_state \<Rightarrow> exn + Submission" where
  "reject_load sid dto verifierId s =
     (case load_for_decision ''REJECTED'' sid verifierId s of
        Inl e \<Rightarrow> Inl e
      | Inr (sub, _) \<Rightarrow>
          if \<not> truthy (rd_reason dto) \<or> length (trim (the (rd_reason dto))) = 0
          then Inl (BadRequestException ''Rejection reason is required'')
          else Inr sub)"

definition reject_row :: "id \<Rightarrow> time \<Rightarrow> RejectSubmissionDto \<Rightarrow> Submission \<Rightarrow> Submission" where
  "reject_row verifierId now dto r =
     r\<lparr>s_status := ''REJECTED'', s_rejectedBy := Some verifierId, s_rejectedAt := Some now,
       s_rejectionReason := rd_reason dto,
       s_verifierNotes := (case rd_notes dto of None \<Rightarrow> s_verifierNotes r | Some x \<Rightarrow> Some x)\<rparr>"

definition reject_commit ::
    "id \<Rightarrow> string \<Rightarrow> RejectSubmissionDto \<Rightarrow> id \<Rightarrow> notif_env \<Rightarrow> submissions_state
     \<Rightarrow> (submissions_state, Submission) outcome" where
  "reject_commit sid st dto verifierId env s =
     (let (n, s1) = update_if_status sid st (reject_row verifierId (n_now env) dto) s;
          reason = coalesce (rd_reason dto) []
      in if n = 0 then (Inl status_conflict, s1)
         else
           (case reload sid s1 of
              Inl e \<Rightarrow> (Inl e, s1)
            | Inr (sub, q) \<Rightarrow>
                (Inr sub,
                 s1\<lparr>sub_notifs := snd (sendSubmissionRejected (s_userId sub) (q_title q) reason env (sub_notifs s1)),
                    sub_events := sub_events s1 @ [SubmissionRejectedEvent sid (s_userId sub) reason]\<rparr>)))"

definition rejectSubmission ::
    "id \<Rightarrow> RejectSubmissionDto \<Rightarrow> id \<Rightarrow> notif_env \<Rightarrow> submissions_state
     \<Rightarrow> (submissions_state, Submission) outcome" where
  "rejectSubmission sid dto verifierId env s =
     (case reject_load sid dto verifierId s of
        Inl e \<Rightarrow> (Inl e, s)
      | Inr sub \<Rightarrow> reject_commit sid (s_status sub) dto verifierId env s)"

subsection \<open>Queries and routes\<close>

definition findOneSubmission :: "id \<Rightarrow> submissions_state \<Rightarrow> exn + Submission" where
  "findOneSubmission sid s =
     (case find_submission sid s of
        None \<Rightarrow> Inl (NotFoundException (''Submission with ID '' @ sid @ '' not found''))
      | Some sub \<Rightarrow> Inr sub)"

definition findByQuest :: "id \<Rightarrow> submissions_state \<Rightarrow> Submission list" where
  "findByQuest qid s = order_desc s_createdAt (filter (\<lambda>r. s_questId r = qid) (submissions s))"

text \<open>
  The answers of the two routes: the controller reads the quest and the user of the row the service
  returns; reading a property of a relation that is not loaded is a \<open>TypeError\<close>.
\<close>

definition approve_route ::
    "id \<Rightarrow> id \<Rightarrow> ApproveSubmissionDto \<Rightarrow> id \<Rightarrow> notif_env \<Rightarrow> submissions_state
     \<Rightarrow> (submissions_state, Submission \<times> Quest \<times> User) outcome" where
  "approve_route questId sid dto callerId env s =
     (case approveSubmission sid dto callerId env s of
        (Inl e, s1) \<Rightarrow> (Inl e, s1)
      | (Inr sub, s1) \<Rightarrow>
          (case (s_quest sub, s_user sub) of
             (Some q, Some u) \<Rightarrow> (Inr (sub, q, u), s1)
           | _ \<Rightarrow> (Inl (JsTypeError ''Cannot read properties of undefined''), s1)))"

definition reject_route ::
    "id \<Rightarrow> id \<Rightarrow> RejectSubmissionDto \<Rightarrow> id \<Rightarrow> notif_env \<Rightarrow> submissions_state
     \<Rightarrow> (submissions_state, Submission \<times> Quest \<times> User) outcome" where
  "reject_route questId sid dto callerId env s =
     (case rejectSubmission sid dto callerId env s of
        (Inl e, s1) \<Rightarrow> (Inl e, s1)
      | (Inr sub, s1) \<Rightarrow>
          (case (s_quest sub, s_user sub) of
             (Some q, Some u) \<Rightarrow> (Inr (sub, q, u), s1)
           | _ \<Rightarrow> (Inl (JsTypeError ''Cannot read properties of undefined''), s1)))"

text \<open>The level-up messages the listener sends when it hears the events: user, old and new level.\<close>

definition handleSubmissionApproved :: "submission_event \<Rightarrow> (id option \<times> int \<times> int) list" where
  "handleSubmissionApproved e =
     (case e of
        SubmissionApprovedEvent sid qid vid \<Rightarrow> [(None, 1, 2)]
      | SubmissionApprovedPlain sid qid uid vid t \<Rightarrow> [(Some uid, 1, 2)]
      | _ \<Rightarrow> [])"

end
