(* ===== verification/NotificationsProps.thy ===== *)
theory NotificationsProps
  imports Notifications
begin

text \<open>
  What the notifications module does with preferences, read marks and deliveries.
\<close>

interpretation notif_repo: conditional_repository nt_id "\<lambda>t. t" find_row "save_row nt_id" "wf_table nt_id"
    update_where affected
  by (rule table_conditional_repository)

interpretation log_repo: conditional_repository nl_id "\<lambda>t. t" find_row "save_row nl_id" "wf_table nl_id"
    update_where affected
  by (rule table_conditional_repository)

interpretation pref_repo: repository np_id "\<lambda>t. t" find_row "save_row np_id" "wf_table np_id"
  by (rule table_repository)

subsection \<open>Queueing\<close>

definition job_of :: "Notification \<Rightarrow> notif_env \<Rightarrow> nat \<Rightarrow> ChannelType \<Rightarrow> DeliverJob" where
  "job_of n env k ch = \<lparr> dj_notificationId = nt_id n, dj_channel = ch, dj_logId = n_logId env k,
     dj_priority = getBullPriority (nt_priority n), dj_attempts = 3 \<rparr>"

definition log_of :: "Notification \<Rightarrow> notif_env \<Rightarrow> nat \<Rightarrow> ChannelType \<Rightarrow> NotificationLog" where
  "log_of n env k ch = \<lparr> nl_id = n_logId env k, nl_notificationId = nt_id n, nl_channel = ch,
     nl_status = DeliveryStatus.PENDING, nl_providerResponse = None, nl_error = None, nl_retryCount = 0 \<rparr>"

text \<open>Position by position, from number \<open>k\<close> on.\<close>

fun numbered :: "(nat \<Rightarrow> 'a \<Rightarrow> 'b) \<Rightarrow> nat \<Rightarrow> 'a list \<Rightarrow> 'b list" where
  "numbered f k [] = []"
| "numbered f k (x # xs) = f k x # numbered f (Suc k) xs"

lemma length_numbered [simp]: "length (numbered f k xs) = length xs"
  by (induction xs arbitrary: k) auto

lemma map_numbered: "(\<And>k x. g (f k x) = h x) \<Longrightarrow> map g (numbered f k xs) = map h xs"
  by (induction xs arbitrary: k) auto

lemma queue_all_effect:
  assumes "inj (n_logId env)" and "\<forall>j \<ge> k. n_logId env j \<notin> nl_id ` set (notif_logs s)"
  shows "notif_logs (queue_all n chs k env s) = notif_logs s @ numbered (log_of n env) k chs
    \<and> notif_queue (queue_all n chs k env s) = notif_queue s @ numbered (job_of n env) k chs
    \<and> notifications (queue_all n chs k env s) = notifications s
    \<and> preferences (queue_all n chs k env s) = preferences s"
  using assms
proof (induction n chs k env s rule: queue_all.induct)
  case (1 n k env s)
  then show ?case by simp
next
  case (2 n ch chs k env s)
  from 2(3) have new: "n_logId env k \<notin> nl_id ` set (notif_logs s)" by blast
  have eq: "save_row nl_id (log_of n env k ch) (notif_logs s) = notif_logs s @ [log_of n env k ch]"
    using new by (intro save_row_new) (auto simp: log_of_def image_iff)
  have q: "queueDelivery n ch (n_logId env k) s = s\<lparr>notif_logs := notif_logs s @ [log_of n env k ch],
      notif_queue := notif_queue s @ [job_of n env k ch]\<rparr>"
    unfolding eq [symmetric] by (simp add: queueDelivery_def job_of_def log_of_def)
  have "\<forall>j \<ge> Suc k. n_logId env j \<notin> nl_id ` set (notif_logs (queueDelivery n ch (n_logId env k) s))"
    using 2(2,3) by (auto simp: q log_of_def inj_eq simp del: image_iff)
  from 2(1) [OF 2(2) this] show ?case by (simp add: q)
qed

text \<open>Generated UUIDs are new.\<close>

definition fresh_notif :: "notif_env \<Rightarrow> notif_state \<Rightarrow> bool" where
  "fresh_notif env s =
     (n_newId env \<notin> nt_id ` set (notifications s) \<and> inj (n_logId env)
      \<and> (\<forall>j. n_logId env j \<notin> nl_id ` set (notif_logs s)))"

lemma send_effect:
  assumes "fresh_notif env s" and "send_notification uid ty d prio env s = (n, s')"
  shows "notifications s' = notifications s @ [n]"
    "notif_logs s' = notif_logs s @ numbered (log_of n env) 0 (enabled_channels uid ty s)"
    "notif_queue s' = notif_queue s @ numbered (job_of n env) 0 (enabled_channels uid ty s)"
    "preferences s' = preferences s"
    "nt_id n = n_newId env" "nt_userId n = uid" "\<not> nt_read n"
proof -
  let ?s1 = "s\<lparr>notifications := save_row nt_id n (notifications s)\<rparr>"
  have n: "nt_id n = n_newId env" "nt_userId n = uid" "\<not> nt_read n"
    and s': "s' = queue_all n (enabled_channels uid ty ?s1) 0 env ?s1"
    using assms(2) by (auto simp: send_notification_def Let_def)
  have eq: "save_row nt_id n (notifications s) = notifications s @ [n]"
    using assms(1) n by (intro save_row_new) (auto simp: fresh_notif_def image_iff)
  have "enabled_channels uid ty ?s1 = enabled_channels uid ty s"
    by (simp add: enabled_channels_def)
  with queue_all_effect [of env 0 ?s1 n "enabled_channels uid ty s"] assms(1) n s' eq
  show "notifications s' = notifications s @ [n]"
    "notif_logs s' = notif_logs s @ numbered (log_of n env) 0 (enabled_channels uid ty s)"
    "notif_queue s' = notif_queue s @ numbered (job_of n env) 0 (enabled_channels uid ty s)"
    "preferences s' = preferences s"
    "nt_id n = n_newId env" "nt_userId n = uid" "\<not> nt_read n"
    by (simp_all add: fresh_notif_def)
qed

subsection \<open>Preferences\<close>

definition pref_key :: "NotificationPreference \<Rightarrow> id \<times> NotificationType" where
  "pref_key p = (np_userId p, np_type p)"

definition pref_inv :: "notif_state \<Rightarrow> bool" where
  "pref_inv s = (wf_table np_id (preferences s) \<and> wf_table pref_key (preferences s))"

lemma pref_row:
  assumes inv: "pref_inv s" and fresh: "newId \<notin> np_id ` set (preferences s)"
    and up: "updatePreference uid ty chs en newId s = (p, s')"
  shows "pref_inv s'" "p \<in> set (preferences s')" "pref_key p = (uid, ty)"
    "np_enabledChannels p = chs" "np_enabled p = en"
proof -
  have s': "preferences s' = save_row np_id p (preferences s)"
    using up by (auto simp: updatePreference_def Let_def)
  have wf: "wf_table np_id (preferences s)" and wk: "wf_table pref_key (preferences s)"
    using inv by (simp_all add: pref_inv_def)
  from pref_repo.saved_in [OF wf, of p] show "p \<in> set (preferences s')" by (simp add: s')
  show k: "pref_key p = (uid, ty)" and "np_enabledChannels p = chs" "np_enabled p = en"
    using up by (auto simp: updatePreference_def Let_def pref_key_def split: option.splits dest: find_row_some)
  have "map pref_key (save_row np_id p (preferences s)) = map pref_key (preferences s)
      \<or> save_row np_id p (preferences s) = preferences s @ [p] \<and> (uid, ty) \<notin> pref_key ` set (preferences s)"
  proof (cases "find_row (\<lambda>p. np_userId p = uid \<and> np_type p = ty) (preferences s)")
    case None
    then have "np_id p = newId" using up by (auto simp: updatePreference_def Let_def)
    with fresh have "save_row np_id p (preferences s) = preferences s @ [p]"
      by (intro save_row_new) (auto simp: image_iff)
    with None show ?thesis by (auto simp: find_row_none pref_key_def)
  next
    case (Some q)
    then have "p = q\<lparr>np_enabledChannels := chs, np_enabled := en\<rparr>"
      using up by (auto simp: updatePreference_def Let_def)
    with Some map_save_row [OF wf, of q p pref_key] show ?thesis
      by (auto simp: pref_key_def dest: find_row_some)
  qed
  with wk k have "wf_table pref_key (preferences s')" by (auto simp: s' wf_table_def)
  with wf show "pref_inv s'" by (simp add: pref_inv_def s' wf_save_row)
qed

lemma channels_after_update:
  assumes inv: "pref_inv s" and fresh: "newId \<notin> np_id ` set (preferences s)"
    and up: "updatePreference uid ty chs en newId s = (p, s')"
  shows "enabled_channels uid ty s' = (if en then chs else [IN_APP])"
proof -
  note r = pref_row [OF assms]
  have uniq: "q = p" if "q \<in> set (preferences s')" "np_userId q = uid" "np_type q = ty" for q
    using wf_table_unique [of pref_key "preferences s'" q p] r that by (auto simp: pref_inv_def pref_key_def)
  show ?thesis
  proof (cases "find_row (\<lambda>q. np_userId q = uid \<and> np_type q = ty \<and> np_enabled q) (preferences s')")
    case None
    with r(2,3,5) have "\<not> en" by (auto simp: find_row_none pref_key_def)
    with None show ?thesis by (simp add: enabled_channels_def)
  next
    case (Some q)
    with uniq [of q] r show ?thesis by (auto simp: enabled_channels_def dest!: find_row_some)
  qed
qed

text \<open>
  After a user has set the preference for a type of notification, the next notification of
  the type is queued once per chosen channel, in the chosen order, when the preference is enabled; and
  when the user has disabled it, the notification is not suppressed: it is queued for the in-app
  channel.
\<close>
theorem disabled_preference_still_notifies:
  assumes "pref_inv s" and "newId \<notin> np_id ` set (preferences s)"
    and "updatePreference uid ty chs en newId s = (p, s1)"
    and "fresh_notif env s1" and "send_notification uid ty d prio env s1 = (n, s2)"
  shows "map dj_channel (notif_queue s2) = map dj_channel (notif_queue s1) @ (if en then chs else [IN_APP])
    \<and> notifications s2 = notifications s1 @ [n] \<and> nt_userId n = uid"
proof -
  note e = send_effect [OF assms(4,5)]
  have "map dj_channel (numbered (job_of n env) 0 cs) = cs" for cs
    by (subst map_numbered [where h = "\<lambda>x. x"]) (simp_all add: job_of_def)
  with e channels_after_update [OF assms(1-3)] show ?thesis by simp
qed

definition demo_notif_env :: notif_env where
  "demo_notif_env = \<lparr> n_now = 5, n_newId = ''n1'', n_logId = (\<lambda>k. replicate k CHR ''x'') \<rparr>"

definition no_notifs :: notif_state where
  "no_notifs = \<lparr> notifications = [], preferences = [], notif_logs = [], notif_queue = [] \<rparr>"

definition demo_data :: notif_data where
  "demo_data = \<lparr> nd_title = None, nd_message = None, nd_questTitle = Some ''KYC'', nd_rewardAmount = Some 5,
     nd_reason = None \<rparr>"

lemma inj_logs: "inj (\<lambda>k. replicate k CHR ''x'')"
  by (auto simp: inj_def dest: arg_cong [of _ _ length])

theorem disabled_preference_still_notifies_witness:
  "map dj_channel (notif_queue (snd (send_notification ''u'' SUBMISSION_APPROVED demo_data NORMAL demo_notif_env
      (snd (updatePreference ''u'' SUBMISSION_APPROVED [EMAIL] False ''p1'' no_notifs))))) = [IN_APP]"
proof -
  let ?s1 = "snd (updatePreference ''u'' SUBMISSION_APPROVED [EMAIL] False ''p1'' no_notifs)"
  have "pref_inv no_notifs" by (simp add: pref_inv_def no_notifs_def wf_table_def)
  moreover have "fresh_notif demo_notif_env ?s1"
    by (simp add: fresh_notif_def demo_notif_env_def updatePreference_def no_notifs_def inj_logs
        find_row_def Let_def)
  moreover have "notif_queue ?s1 = []" by (simp add: updatePreference_def no_notifs_def Let_def)
  ultimately show ?thesis
    using disabled_preference_still_notifies [of no_notifs "''p1''" "''u''" SUBMISSION_APPROVED "[EMAIL]" False
        "fst (updatePreference ''u'' SUBMISSION_APPROVED [EMAIL] False ''p1'' no_notifs)" ?s1 demo_notif_env
        demo_data NORMAL "fst (send_notification ''u'' SUBMISSION_APPROVED demo_data NORMAL demo_notif_env ?s1)"
        "snd (send_notification ''u'' SUBMISSION_APPROVED demo_data NORMAL demo_notif_env ?s1)"]
    by (simp add: no_notifs_def)
qed

subsection \<open>Read marks\<close>

lemma markAsRead_ok:
  assumes "n \<in> set (notifications s)"
  shows "result (markAsRead (nt_id n) now s) = Inr ()"
    and "notifications (state_of (markAsRead (nt_id n) now s))
       = update_where (\<lambda>m. nt_id m = nt_id n) (\<lambda>m. m\<lparr>nt_read := True, nt_readAt := Some now\<rparr>) (notifications s)"
proof -
  have "find_row (\<lambda>m. nt_id m = nt_id n) (notifications s) \<noteq> None"
    using assms by (auto simp: find_row_none)
  then show "result (markAsRead (nt_id n) now s) = Inr ()"
    and "notifications (state_of (markAsRead (nt_id n) now s))
       = update_where (\<lambda>m. nt_id m = nt_id n) (\<lambda>m. m\<lparr>nt_read := True, nt_readAt := Some now\<rparr>) (notifications s)"
    by (auto simp: markAsRead_def)
qed

lemma mark_each_effect:
  assumes "nt_id ` set ns \<subseteq> nt_id ` set (notifications s)"
  shows "result (mark_each ns now s) = Inr ()
    \<and> notifications (state_of (mark_each ns now s))
       = update_where (\<lambda>m. nt_id m \<in> nt_id ` set ns) (\<lambda>m. m\<lparr>nt_read := True, nt_readAt := Some now\<rparr>) (notifications s)"
  using assms
proof (induction ns arbitrary: s)
  case Nil
  then show ?case by (simp add: update_where_def)
next
  case (Cons n ns)
  then obtain m where m: "m \<in> set (notifications s)" "nt_id m = nt_id n" by auto
  note ok = markAsRead_ok [OF m(1), of now, unfolded m(2)]
  let ?s1 = "state_of (markAsRead (nt_id n) now s)"
  have ids: "nt_id ` set (notifications ?s1) = nt_id ` set (notifications s)"
    unfolding ok(2) by (rule image_update_where) simp
  then have "nt_id ` set ns \<subseteq> nt_id ` set (notifications ?s1)" using Cons.prems by simp
  from Cons.IH [OF this] ok show ?case
    by (cases "markAsRead (nt_id n) now s") (auto simp: update_where_def comp_def)
qed

text \<open>
  Marking all notifications of a user as read succeeds and does exactly that: afterwards
  the user has no unread notification, no row appears or disappears, and the notifications of every
  other user are as they were.
\<close>
theorem markAllAsRead_exact:
  assumes "wf_table nt_id (notifications s)"
  shows "result (markAllAsRead uid now s) = Inr ()
    \<and> map nt_id (notifications (state_of (markAllAsRead uid now s))) = map nt_id (notifications s)
    \<and> (\<forall>n \<in> set (notifications (state_of (markAllAsRead uid now s))). nt_userId n = uid \<longrightarrow> nt_read n)
    \<and> filter (\<lambda>n. nt_userId n \<noteq> uid) (notifications (state_of (markAllAsRead uid now s)))
       = filter (\<lambda>n. nt_userId n \<noteq> uid) (notifications s)"
proof -
  let ?un = "filter (\<lambda>n. nt_userId n = uid \<and> \<not> nt_read n) (notifications s)"
  let ?f = "\<lambda>m. m\<lparr>nt_read := True, nt_readAt := Some now\<rparr>"
  have un: "nt_id m \<in> nt_id ` set ?un \<longleftrightarrow> nt_userId m = uid \<and> \<not> nt_read m"
    if "m \<in> set (notifications s)" for m
    using wf_table_unique [OF assms that] that by (auto simp: image_iff)
  have e: "result (markAllAsRead uid now s) = Inr ()"
    "notifications (state_of (markAllAsRead uid now s))
       = update_where (\<lambda>m. nt_id m \<in> nt_id ` set ?un) ?f (notifications s)"
    using mark_each_effect [of ?un s now] by (auto simp: markAllAsRead_def)
  let ?W = "\<lambda>xs. map (\<lambda>m. if nt_userId m = uid \<and> \<not> nt_read m then ?f m else m) xs"
  have eq: "notifications (state_of (markAllAsRead uid now s)) = ?W (notifications s)"
    unfolding e(2) update_where_def using un by (intro map_cong) auto
  have flt: "filter (\<lambda>n. nt_userId n \<noteq> uid) (?W xs) = filter (\<lambda>n. nt_userId n \<noteq> uid) xs" for xs
    by (induction xs) auto
  have ids: "map nt_id (?W xs) = map nt_id xs" for xs by (induction xs) simp_all
  have read: "nt_userId n = uid \<longrightarrow> nt_read n" if "n \<in> set (?W xs)" for xs n
  proof -
    from that obtain m where m: "n = (if nt_userId m = uid \<and> \<not> nt_read m then ?f m else m)"
      unfolding set_map by blast
    show ?thesis unfolding m by (cases "nt_userId m = uid \<and> \<not> nt_read m") auto
  qed
  show ?thesis unfolding eq using e(1) ids flt read by blast
qed

definition two_notifs :: notif_state where
  "two_notifs = snd (send_notification ''v'' INFO demo_data LOW (demo_notif_env\<lparr>n_newId := ''n2'',
       n_logId := (\<lambda>k. CHR ''y'' # replicate k CHR ''x'')\<rparr>)
     (snd (send_notification ''u'' SUBMISSION_APPROVED demo_data NORMAL demo_notif_env no_notifs)))"

lemmas notif_eval = two_notifs_def demo_notif_env_def no_notifs_def send_notification_def
  enabled_channels_def queueDelivery_def find_row_def wf_table_def Let_def

theorem markAllAsRead_exact_witness:
  "map nt_read (notifications two_notifs) = [False, False]
   \<and> map nt_id (notifications (state_of (markAllAsRead ''u'' 9 two_notifs))) = map nt_id (notifications two_notifs)
   \<and> result (markAllAsRead ''u'' 9 two_notifs) = Inr ()
   \<and> filter (\<lambda>n. nt_userId n = ''u'' \<and> \<not> nt_read n) (notifications (state_of (markAllAsRead ''u'' 9 two_notifs))) = []"
proof (intro conjI)
  show "map nt_read (notifications two_notifs) = [False, False]" by (simp add: notif_eval)
  have "wf_table nt_id (notifications two_notifs)" by (simp add: notif_eval)
  note e = markAllAsRead_exact [OF this, of "''u''" 9]
  show "map nt_id (notifications (state_of (markAllAsRead ''u'' 9 two_notifs))) = map nt_id (notifications two_notifs)"
    and "result (markAllAsRead ''u'' 9 two_notifs) = Inr ()"
    using e by (blast, blast)
  show "filter (\<lambda>n. nt_userId n = ''u'' \<and> \<not> nt_read n) (notifications (state_of (markAllAsRead ''u'' 9 two_notifs))) = []"
    unfolding filter_empty_conv using e by blast
qed

subsection \<open>Deliveries\<close>

text \<open>
  What one run of the delivery worker leaves in the log of its job, when the notification,
  its user and the log exist: an SMS delivery changes nothing and reports no error, so its log stays
  pending; on every other channel the log is \<open>SENT\<close> or \<open>FAILED\<close> whatever it was before, so a
  delivery that runs after the user has read the notification turns \<open>READ\<close> back into \<open>SENT\<close>; and the
  worker throws, so that the queue retries, exactly when the webhook call itself fails.
\<close>
theorem delivery_log:
  assumes "wf_table nl_id (notif_logs s)"
    and "find_row (\<lambda>n. nt_id n = dj_notificationId job) (notifications s) = Some n"
    and "find_row (\<lambda>u. u_id u = nt_userId n) users = Some u"
    and "find_row (\<lambda>l. nl_id l = dj_logId job) (notif_logs s) = Some l"
    and "process_delivery post users job k s = r"
  shows "if dj_channel job = SMS then r = (Inr None, s)
    else (\<exists>l'. find_row (\<lambda>l. nl_id l = dj_logId job) (notif_logs (state_of r)) = Some l'
         \<and> nl_retryCount l' = k
         \<and> nl_status l' = (if dj_channel job = WEBHOOK
             \<and> (\<not> truthy (u_webhookUrl u) \<or> (\<exists>e. post (the (u_webhookUrl u)) n = Inl e)) then FAILED else SENT))
      \<and> (succeeds r \<longleftrightarrow> \<not> (dj_channel job = WEBHOOK \<and> truthy (u_webhookUrl u)
             \<and> (\<exists>e. post (the (u_webhookUrl u)) n = Inl e)))"
proof -
  have id: "nl_id l = dj_logId job" using assms(4) by (auto dest: find_row_some)
  have found: "find_row (\<lambda>q. nl_id q = dj_logId job) (save_row nl_id l' (notif_logs s)) = Some l'"
    if "nl_id l' = nl_id l" for l'
    using log_repo.find_saved [OF assms(1), of l'] that id by simp
  show ?thesis
    using assms(2-5)
    by (cases "dj_channel job")
      (auto simp: process_delivery_def channel_send_def inAppChannel_send_def emailChannel_send_def
        pushChannel_send_def webhookChannel_send_def Let_def found split: sum.splits)
qed

definition demo_job :: DeliverJob where
  "demo_job = hd (notif_queue two_notifs)"

definition demo_user :: User where
  "demo_user = \<lparr> u_id = ''u'', u_stellarAddress = None, u_username = None, u_email = None, u_role = USER,
     u_xp = 0, u_level = 1, u_questsCompleted = 0, u_badges = [], u_avatarUrl = None, u_bio = None,
     u_socialLinks = None, u_privacyLevel = PUBLIC, u_failedQuests = 0, u_successRate = 0,
     u_totalEarned = 0, u_lastActiveAt = None, u_pushToken = None, u_webhookUrl = None, u_createdAt = 0 \<rparr>"

definition read_notifs :: notif_state where
  "read_notifs = state_of (markAsRead ''n1'' 9 two_notifs)"

theorem delivery_log_witness:
  "map nl_status (filter (\<lambda>l. nl_notificationId l = ''n1'') (notif_logs read_notifs)) = [READ]
   \<and> (\<exists>l. find_row (\<lambda>l. nl_id l = dj_logId demo_job)
            (notif_logs (state_of (process_delivery (\<lambda>_ _. Inr 200) [demo_user] demo_job 0 read_notifs))) = Some l
        \<and> nl_status l = SENT)"
proof
  show "map nl_status (filter (\<lambda>l. nl_notificationId l = ''n1'') (notif_logs read_notifs)) = [READ]"
    by (simp add: read_notifs_def markAsRead_def update_where_def notif_eval)
  have "wf_table nl_id (notif_logs read_notifs)"
    "find_row (\<lambda>n. nt_id n = dj_notificationId demo_job) (notifications read_notifs) = Some (hd (notifications read_notifs))"
    "find_row (\<lambda>u. u_id u = nt_userId (hd (notifications read_notifs))) [demo_user] = Some demo_user"
    "find_row (\<lambda>l. nl_id l = dj_logId demo_job) (notif_logs read_notifs) = Some (hd (notif_logs read_notifs))"
    "dj_channel demo_job = IN_APP"
    by (simp_all add: demo_job_def demo_user_def read_notifs_def markAsRead_def update_where_def notif_eval)
  from delivery_log [OF this(1-4) refl, of "\<lambda>_ _. Inr 200" 0] this(5)
  show "\<exists>l. find_row (\<lambda>l. nl_id l = dj_logId demo_job)
      (notif_logs (state_of (process_delivery (\<lambda>_ _. Inr 200) [demo_user] demo_job 0 read_notifs))) = Some l
      \<and> nl_status l = SENT"
    by auto
qed

end
