(* ===== verification/SubmissionsProps.thy ===== *)
theory SubmissionsProps
  imports Submissions NotificationsProps
begin

text \<open>
  Decisions about submissions: at most one per submission however requests interleave, who may take
  them, and what is left behind when a decision fails half way.
\<close>

interpretation sub_repo: conditional_repository s_id "\<lambda>t. t" find_row "save_row s_id" "wf_table s_id"
    update_where affected
  by (rule table_conditional_repository)

subsection \<open>Transitions\<close>

definition decided :: "string \<Rightarrow> bool" where
  "decided st = (st = ''APPROVED'' \<or> st = ''REJECTED'' \<or> st = ''PAID'')"

lemma transition_ok:
  "validateStatusTransition st new = Inr () \<longleftrightarrow> (\<exists>ts. validTransitions st = Some ts \<and> new \<in> set ts)"
  by (auto simp: validateStatusTransition_def split: option.splits)

lemma open_status:
  assumes "validateStatusTransition st new = Inr ()" and "decided new"
  shows "st = ''PENDING'' \<or> st = ''UNDER_REVIEW''"
  using assms by (auto simp: transition_ok validTransitions_def decided_def split: if_splits)

lemma decided_new [simp]:
  "s_status (approve_row v t notes r) = ''APPROVED''" "s_status (reject_row v t dto r) = ''REJECTED''"
  "s_id (approve_row v t notes r) = s_id r" "s_id (reject_row v t dto r) = s_id r"
  by (simp_all add: approve_row_def reject_row_def)

lemma load_ok:
  assumes "load_for_decision new sid v s = Inr (sub, u)"
  shows "validateStatusTransition (s_status sub) new = Inr ()" "v = []"
    "find_submission sid s = Some sub" "getUserById (s_userId sub) s = Inr u"
    "\<exists>q. getQuestById (s_questId sub) s = Inr q"
  using assms
  by (auto simp: load_for_decision_def validateVerifierAuthorization_def getQuestWithVerifiers_def
      checkAdminRole_def Let_def split: option.splits sum.splits if_splits)

subsection \<open>Interleaved runs\<close>

text \<open>
  The writes of requests that each passed their checks at some earlier time, in any order: \<open>st\<close> is the
  status such a request saw, when the transition from it was valid.
\<close>

inductive sub_step :: "submissions_state \<Rightarrow> submissions_state \<Rightarrow> bool" where
  approve: "validateStatusTransition st ''APPROVED'' = Inr () \<Longrightarrow>
    sub_step s (state_of (approve_commit sid st u dto v env s))"
| reject: "validateStatusTransition st ''REJECTED'' = Inr () \<Longrightarrow>
    sub_step s (state_of (reject_commit sid st rdto v env s))"

inductive sub_steps :: "submissions_state \<Rightarrow> submissions_state \<Rightarrow> bool" where
  refl: "sub_steps s s"
| more: "sub_steps s t \<Longrightarrow> sub_step t u \<Longrightarrow> sub_steps s u"

lemma commit_rows:
  "submissions (state_of (approve_commit sid st u dto v env s))
     = update_where (\<lambda>r. s_id r = sid \<and> s_status r = st) (approve_row v (n_now env) (ad_notes dto)) (submissions s)"
  "submissions (state_of (reject_commit sid st rdto v env s))
     = update_where (\<lambda>r. s_id r = sid \<and> s_status r = st) (reject_row v (n_now env) rdto) (submissions s)"
  by (auto simp: approve_commit_def reject_commit_def update_if_status_def Let_def split: sum.splits)

lemma sub_step_rows:
  assumes "sub_step s s'"
  shows "\<exists>P f. submissions s' = update_where P f (submissions s)
    \<and> (\<forall>r. P r \<longrightarrow> s_status r = ''PENDING'' \<or> s_status r = ''UNDER_REVIEW'')
    \<and> (\<forall>r. s_id (f r) = s_id r) \<and> (\<forall>r. decided (s_status (f r)))"
  using assms
proof (cases rule: sub_step.cases)
  case (approve st sid u dto v env)
  then show ?thesis
    using open_status [OF approve(2)] unfolding approve(1) commit_rows
    by (intro exI [of _ "\<lambda>r. s_id r = sid \<and> s_status r = st"]
        exI [of _ "approve_row v (n_now env) (ad_notes dto)"]) (auto simp: decided_def)
next
  case (reject st sid rdto v env)
  then show ?thesis
    using open_status [OF reject(2)] unfolding reject(1) commit_rows
    by (intro exI [of _ "\<lambda>r. s_id r = sid \<and> s_status r = st"]
        exI [of _ "reject_row v (n_now env) rdto"]) (auto simp: decided_def)
qed

lemma decided_step: "sub_step s s' \<Longrightarrow> r \<in> set (submissions s) \<Longrightarrow> decided (s_status r) \<Longrightarrow> r \<in> set (submissions s')"
  by (drule sub_step_rows) (auto simp: update_where_def decided_def image_iff intro!: bexI [of _ r])

lemma decision_run_keeps:
  assumes "sub_steps s s'" and "r \<in> set (submissions s)" and "decided (s_status r)"
  shows "r \<in> set (submissions s')"
  using assms by (induction rule: sub_steps.induct) (auto intro: decided_step)

lemma decision_run_ids: "sub_steps s s' \<Longrightarrow> map s_id (submissions s') = map s_id (submissions s)"
proof (induction rule: sub_steps.induct)
  case (more s t u)
  from sub_step_rows [OF more(2)] obtain P f where "submissions u = update_where P f (submissions t)"
    "\<And>r. s_id (f r) = s_id r" by blast
  with more.IH show ?case by (simp add: map_update_where)
qed simp

text \<open>
  Claim C7.  A decision about a submission is taken once: however the writes of concurrent requests
  interleave, the row of a submission that is approved, rejected or paid never changes again, no row
  appears or disappears, and a row that did change was open before and is decided afterwards.
\<close>
theorem decision_taken_once:
  assumes "sub_steps s s'"
  shows "map s_id (submissions s') = map s_id (submissions s)
    \<and> (\<forall>r \<in> set (submissions s). decided (s_status r) \<longrightarrow> r \<in> set (submissions s'))
    \<and> (\<forall>r' \<in> set (submissions s'). r' \<in> set (submissions s)
          \<or> decided (s_status r') \<and> (\<exists>r \<in> set (submissions s). s_id r = s_id r'
               \<and> (s_status r = ''PENDING'' \<or> s_status r = ''UNDER_REVIEW'')))"
  using assms
proof (induction rule: sub_steps.induct)
  case (refl s)
  then show ?case by simp
next
  case (more s t u)
  from sub_step_rows [OF more(2)] obtain P f where u: "submissions u = update_where P f (submissions t)"
    and P: "\<And>r. P r \<Longrightarrow> s_status r = ''PENDING'' \<or> s_status r = ''UNDER_REVIEW''"
    and f: "\<And>r. s_id (f r) = s_id r" "\<And>r. decided (s_status (f r))" by blast
  have "map s_id (submissions u) = map s_id (submissions t)"
    unfolding u by (rule map_update_where) (rule f)
  moreover have "\<forall>r \<in> set (submissions s). decided (s_status r) \<longrightarrow> r \<in> set (submissions u)"
    using more.IH decided_step [OF more(2)] by blast
  moreover have "r' \<in> set (submissions s) \<or> decided (s_status r') \<and> (\<exists>r \<in> set (submissions s). s_id r = s_id r'
      \<and> (s_status r = ''PENDING'' \<or> s_status r = ''UNDER_REVIEW''))" if r': "r' \<in> set (submissions u)" for r'
  proof -
    from r' obtain q where q: "q \<in> set (submissions t)" "r' = (if P q then f q else q)"
      by (auto simp: u update_where_def)
    show ?thesis
    proof (cases "P q")
      case True
      with P have o: "s_status q = ''PENDING'' \<or> s_status q = ''UNDER_REVIEW''" by blast
      then have "\<not> decided (s_status q)" by (auto simp: decided_def)
      with more.IH q have "q \<in> set (submissions s)" by blast
      with o True q f show ?thesis by auto
    next
      case False
      with q more.IH show ?thesis by simp
    qed
  qed
  ultimately show ?case using more.IH by simp
qed

subsection \<open>Concrete submissions\<close>

definition demo_quest :: Quest where
  "demo_quest = \<lparr> q_id = ''q'', q_title = ''KYC'', q_description = ''d'', q_contractTaskId = ''t'',
     q_rewardAsset = ''XLM'', q_rewardAmount = 5, q_deadline = None, q_status = ''ACTIVE'',
     q_verifierType = ''manual'', q_createdBy = ''boss'', q_createdAt = 0, q_updatedAt = 0,
     q_creatorAddress = None, q_currentCompletions = 0, q_maxCompletions = None, q_startDate = None,
     q_endDate = None \<rparr>"

definition demo_sub :: "string \<Rightarrow> Submission" where
  "demo_sub st = \<lparr> s_id = ''s'', s_questId = ''q'', s_userId = ''u'', s_proof = [], s_status = st,
     s_approvedBy = None, s_approvedAt = None, s_rejectedBy = None, s_rejectedAt = None,
     s_rejectionReason = None, s_verifierNotes = None, s_createdAt = 0, s_user = None, s_quest = None \<rparr>"

definition demo_subs :: "string option \<Rightarrow> submissions_state" where
  "demo_subs addr = \<lparr> submissions = [demo_sub ''PENDING''], sub_quests = [demo_quest],
     sub_users = [demo_user\<lparr>u_stellarAddress := addr\<rparr>], sub_notifs = no_notifs, sub_events = [] \<rparr>"

definition no_notes :: ApproveSubmissionDto where
  "no_notes = \<lparr>ad_notes = None\<rparr>"

definition bad_proof :: RejectSubmissionDto where
  "bad_proof = \<lparr>rd_reason = Some ''bad proof'', rd_notes = None\<rparr>"

lemmas sub_eval = demo_subs_def demo_sub_def demo_quest_def demo_user_def no_notes_def bad_proof_def
  approveSubmission_def load_for_decision_def find_submission_def find_row_def getQuestById_def
  getUserById_def validateVerifierAuthorization_def getQuestWithVerifiers_def checkAdminRole_def
  validateStatusTransition_def validTransitions_def approve_commit_def update_if_status_def
  update_where_def affected_def approve_row_def reload_def rejectSubmission_def reject_load_def
  reject_commit_def reject_row_def approve_route_def reject_route_def trim_def is_space_def wf_table_def
  Let_def

theorem decision_taken_once_witness:
  "demo_sub ''REJECTED'' \<in> set (submissions (state_of (approve_commit ''s'' ''PENDING'' demo_user no_notes []
      demo_notif_env ((demo_subs None)\<lparr>submissions := [demo_sub ''REJECTED'']\<rparr>))))"
proof -
  let ?s = "(demo_subs None)\<lparr>submissions := [demo_sub ''REJECTED'']\<rparr>"
  have "sub_step ?s (state_of (approve_commit ''s'' ''PENDING'' demo_user no_notes [] demo_notif_env ?s))"
    by (rule sub_step.approve) (simp add: sub_eval)
  from decision_taken_once [OF sub_steps.more [OF sub_steps.refl this]]
  show ?thesis by (simp add: decided_def demo_sub_def)
qed

subsection \<open>Two requests at once\<close>

lemma commit_then_conflict:
  assumes wf: "wf_table s_id (submissions s)" and r: "r \<in> set (submissions s)" "s_id r = sid" "s_status r \<noteq> st"
  shows "approve_commit sid st u dto v env s = (Inl status_conflict, s)"
    and "reject_commit sid st rdto v env s = (Inl status_conflict, s)"
proof -
  have none: "\<not> (s_id q = sid \<and> s_status q = st)" if "q \<in> set (submissions s)" for q
    using wf_table_unique [OF wf that r(1)] r by auto
  then have a: "affected (\<lambda>r. s_id r = sid \<and> s_status r = st) (submissions s) = 0"
    by (simp add: sub_repo.affected_zero)
  moreover have "update_where (\<lambda>r. s_id r = sid \<and> s_status r = st) f (submissions s) = submissions s" for f
    using a by (rule sub_repo.update_none_affected)
  ultimately show "approve_commit sid st u dto v env s = (Inl status_conflict, s)"
    and "reject_commit sid st rdto v env s = (Inl status_conflict, s)"
    by (simp_all add: approve_commit_def reject_commit_def update_if_status_def Let_def)
qed

text \<open>
  A decision of one caller: the part that reads and checks, and the part that writes what the check
  has read.
\<close>

datatype decision = Approval ApproveSubmissionDto id | Rejection RejectSubmissionDto id

fun decision_load :: "id \<Rightarrow> decision \<Rightarrow> submissions_state \<Rightarrow> exn + (Submission \<times> User option)" where
  "decision_load sid (Approval dto v) s =
     (case load_for_decision ''APPROVED'' sid v s of
        Inl e \<Rightarrow> Inl e | Inr (l, u) \<Rightarrow> Inr (l, Some u))"
| "decision_load sid (Rejection dto v) s =
     (case reject_load sid dto v s of Inl e \<Rightarrow> Inl e | Inr l \<Rightarrow> Inr (l, None))"

fun decision_commit ::
    "id \<Rightarrow> decision \<Rightarrow> Submission \<times> User option \<Rightarrow> notif_env \<Rightarrow> submissions_state
     \<Rightarrow> (submissions_state, Submission) outcome" where
  "decision_commit sid (Approval dto v) (l, u) env s = approve_commit sid (s_status l) (the u) dto v env s"
| "decision_commit sid (Rejection dto v) (l, _) env s = reject_commit sid (s_status l) dto v env s"

fun decided_by :: "decision \<Rightarrow> Submission \<Rightarrow> bool" where
  "decided_by (Approval dto v) r = (s_status r = ''APPROVED'' \<and> s_approvedBy r = Some v)"
| "decided_by (Rejection dto v) r = (s_status r = ''REJECTED'' \<and> s_rejectedBy r = Some v)"

lemma decision_parts:
  "approveSubmission sid dto v env s =
     (case decision_load sid (Approval dto v) s of
        Inl e \<Rightarrow> (Inl e, s) | Inr x \<Rightarrow> decision_commit sid (Approval dto v) x env s)"
  "rejectSubmission sid rdto v env s =
     (case decision_load sid (Rejection rdto v) s of
        Inl e \<Rightarrow> (Inl e, s) | Inr x \<Rightarrow> decision_commit sid (Rejection rdto v) x env s)"
  by (auto simp: approveSubmission_def rejectSubmission_def split: sum.splits prod.splits)

lemma decision_load_ok:
  assumes "decision_load sid d s = Inr (l, x)"
  shows "find_submission sid s = Some l \<and> (s_status l = ''PENDING'' \<or> s_status l = ''UNDER_REVIEW'')"
proof -
  obtain new v u where "load_for_decision new sid v s = Inr (l, u)" "new = ''APPROVED'' \<or> new = ''REJECTED''"
    using assms by (cases d) (auto simp: reject_load_def split: sum.splits prod.splits if_splits)
  then show ?thesis
    using load_ok(1,3) [of new sid v s l u] open_status [of "s_status l" new] by (auto simp: decided_def)
qed

text \<open>
  Claim C8.  Of two requests that decide the same submission, each an approval or a rejection, by any
  callers with any contents, that both passed their checks on one state, only the first to write
  writes: its decision and its caller are in the row, and the second fails with a conflict and changes
  nothing.
\<close>
theorem concurrent_decisions_exclusive:
  assumes "wf_table s_id (submissions s)"
    and "decision_load sid d1 s = Inr x1" and "decision_load sid d2 s = Inr x2"
  shows "let s1 = state_of (decision_commit sid d1 x1 env1 s) in
      decision_commit sid d2 x2 env2 s1 = (Inl status_conflict, s1)
    \<and> (\<exists>r \<in> set (submissions s1). s_id r = sid \<and> decided_by d1 r)"
proof -
  obtain l1 y1 l2 y2 where x: "x1 = (l1, y1)" "x2 = (l2, y2)" by (cases x1, cases x2)
  note l = decision_load_ok [OF assms(2) [unfolded x]] decision_load_ok [OF assms(3) [unfolded x]]
  obtain r where r: "find_row (\<lambda>r. s_id r = sid) (submissions s) = Some r" and lr: "s_status l1 = s_status r"
    and eq: "l2 = l1"
    using l by (auto simp: find_submission_def)
  have in_table: "r \<in> set (submissions s)" "s_id r = sid" using r by (auto dest: find_row_some)
  let ?s1 = "state_of (decision_commit sid d1 x1 env1 s)"
  have wf: "wf_table s_id (submissions ?s1)"
    by (cases d1) (simp_all add: x commit_rows wf_table_update [OF assms(1)])
  obtain r' where r': "r' \<in> set (submissions ?s1)" "s_id r' = sid" "decided_by d1 r'"
  proof (cases d1)
    case (Approval dto v)
    have "approve_row v (n_now env1) (ad_notes dto) r \<in> set (submissions ?s1)"
      unfolding Approval x decision_commit.simps commit_rows
      by (rule in_update_where) (use in_table lr in auto)
    then show ?thesis using that in_table by (auto simp: Approval approve_row_def)
  next
    case (Rejection dto v)
    have "reject_row v (n_now env1) dto r \<in> set (submissions ?s1)"
      unfolding Rejection x decision_commit.simps commit_rows
      by (rule in_update_where) (use in_table lr in auto)
    then show ?thesis using that in_table by (auto simp: Rejection reject_row_def)
  qed
  have "s_status r' \<noteq> s_status l2"
    using r'(3) l by (cases d1) (auto simp: eq)
  then have "decision_commit sid d2 x2 env2 ?s1 = (Inl status_conflict, ?s1)"
    using commit_then_conflict [OF wf r'(1,2)] by (cases d2) (simp_all add: x(2))
  with r' show ?thesis by (auto simp: Let_def)
qed

theorem concurrent_decisions_exclusive_witness:
  "reject_commit ''s'' ''PENDING'' bad_proof [] demo_notif_env
     (state_of (approve_commit ''s'' ''PENDING'' demo_user no_notes [] demo_notif_env (demo_subs None)))
   = (Inl status_conflict,
      state_of (approve_commit ''s'' ''PENDING'' demo_user no_notes [] demo_notif_env (demo_subs None)))
  \<and> reject_commit ''s'' ''PENDING'' bad_proof [] demo_notif_env
     (state_of (reject_commit ''s'' ''PENDING'' bad_proof [] demo_notif_env (demo_subs None)))
   = (Inl status_conflict,
      state_of (reject_commit ''s'' ''PENDING'' bad_proof [] demo_notif_env (demo_subs None)))"
proof -
  let ?a = "Approval no_notes []" and ?r = "Rejection bad_proof []"
  have wf: "wf_table s_id (submissions (demo_subs None))"
    and a: "decision_load ''s'' ?a (demo_subs None)
      = Inr (demo_sub ''PENDING'', Some (demo_user\<lparr>u_stellarAddress := None\<rparr>))"
    and r: "decision_load ''s'' ?r (demo_subs None) = Inr (demo_sub ''PENDING'', None)"
    by (simp_all add: sub_eval)
  show ?thesis
    using concurrent_decisions_exclusive [OF wf a r, of demo_notif_env demo_notif_env]
      concurrent_decisions_exclusive [OF wf r r, of demo_notif_env demo_notif_env]
    by (simp add: demo_sub_def demo_user_def Let_def)
qed

subsection \<open>Who may decide\<close>

text \<open>
  No verifier is ever authorised: for every caller with a non-empty identifier - an
  administrator, the creator of the quest, a listed verifier - approving and rejecting fail and change
  nothing, whatever the submission; when submission, quest and user exist the failure is \<open>Forbidden\<close>.
\<close>
theorem no_verifier_authorised:
  assumes "v \<noteq> []"
  shows "\<not> succeeds (approveSubmission sid dto v env s) \<and> state_of (approveSubmission sid dto v env s) = s
    \<and> \<not> succeeds (rejectSubmission sid rdto v env s) \<and> state_of (rejectSubmission sid rdto v env s) = s
    \<and> (\<forall>sub q u. find_submission sid s = Some sub \<and> getQuestById (s_questId sub) s = Inr q
          \<and> getUserById (s_userId sub) s = Inr u \<longrightarrow>
          result (approveSubmission sid dto v env s)
            = Inl (ForbiddenException ''You are not authorized to verify submissions for this quest''))"
proof -
  have no: "load_for_decision new sid v s \<noteq> Inr p" for new p
    using load_ok(2) [of new sid v s "fst p" "snd p"] assms by auto
  obtain e1 e2 where e: "load_for_decision ''APPROVED'' sid v s = Inl e1"
    "load_for_decision ''REJECTED'' sid v s = Inl e2"
    using no by (meson old.sum.exhaust)
  have "result (approveSubmission sid dto v env s)
      = Inl (ForbiddenException ''You are not authorized to verify submissions for this quest'')"
    if "find_submission sid s = Some sub" "getQuestById (s_questId sub) s = Inr q"
      "getUserById (s_userId sub) s = Inr u" for sub q u
    using that assms
    by (simp add: approveSubmission_def load_for_decision_def validateVerifierAuthorization_def
        getQuestWithVerifiers_def checkAdminRole_def Let_def)
  with e show ?thesis by (simp add: approveSubmission_def rejectSubmission_def reject_load_def)
qed

theorem no_verifier_authorised_witness:
  "result (approveSubmission ''s'' no_notes ''boss'' demo_notif_env (demo_subs (Some ''GA'')))
     = Inl (ForbiddenException ''You are not authorized to verify submissions for this quest'')
   \<and> q_createdBy demo_quest = ''boss''"
proof
  have "find_submission ''s'' (demo_subs (Some ''GA'')) = Some (demo_sub ''PENDING'')"
    "getQuestById (s_questId (demo_sub ''PENDING'')) (demo_subs (Some ''GA'')) = Inr demo_quest"
    "getUserById (s_userId (demo_sub ''PENDING'')) (demo_subs (Some ''GA'')) = Inr (demo_user\<lparr>u_stellarAddress := Some ''GA''\<rparr>)"
    by (simp_all add: sub_eval)
  with no_verifier_authorised [of "''boss''" "''s''" no_notes demo_notif_env "demo_subs (Some ''GA'')" bad_proof]
  show "result (approveSubmission ''s'' no_notes ''boss'' demo_notif_env (demo_subs (Some ''GA'')))
     = Inl (ForbiddenException ''You are not authorized to verify submissions for this quest'')"
    by blast
qed (simp add: demo_quest_def)

subsection \<open>Half-way failures\<close>

text \<open>
  An approval that passes all checks for a user without a linked Stellar address reports a
  bad request, and yet it has been stored: the submission is approved, no notification or event has
  been sent, and no later decision about it succeeds.
\<close>
theorem approved_without_address:
  assumes "wf_table s_id (submissions s)"
    and "load_for_decision ''APPROVED'' sid v s = Inr (l, u)" and "\<not> truthy (u_stellarAddress u)"
    and "sub_steps (state_of (approveSubmission sid dto v env s)) s'"
  shows "result (approveSubmission sid dto v env s)
      = Inl (BadRequestException ''User does not have a Stellar address linked'')
    \<and> sub_events (state_of (approveSubmission sid dto v env s)) = sub_events s
    \<and> sub_notifs (state_of (approveSubmission sid dto v env s)) = sub_notifs s
    \<and> (\<exists>r \<in> set (submissions s'). s_id r = sid \<and> s_status r = ''APPROVED'' \<and> s_approvedBy r = Some v)
    \<and> \<not> succeeds (approveSubmission sid dto2 w env2 s') \<and> \<not> succeeds (rejectSubmission sid rdto w env2 s')"
proof -
  note l = load_ok [OF assms(2)]
  obtain r where r: "find_row (\<lambda>r. s_id r = sid) (submissions s) = Some r" and lr: "s_status l = s_status r"
    using l(3) by (auto simp: find_submission_def)
  have in_table: "r \<in> set (submissions s)" "s_id r = sid" using r by (auto dest: find_row_some)
  have "affected (\<lambda>q. s_id q = sid \<and> s_status q = s_status l) (submissions s) \<noteq> 0"
    using in_table lr by (auto simp: sub_repo.affected_zero)
  then have eq: "approveSubmission sid dto v env s
      = (Inl (BadRequestException ''User does not have a Stellar address linked''),
         s\<lparr>submissions := update_where (\<lambda>q. s_id q = sid \<and> s_status q = s_status l)
             (approve_row v (n_now env) (ad_notes dto)) (submissions s)\<rparr>)"
    using assms(2,3) by (simp add: approveSubmission_def approve_commit_def update_if_status_def Let_def)
  let ?s1 = "state_of (approveSubmission sid dto v env s)" and ?r = "approve_row v (n_now env) (ad_notes dto) r"
  have "?r \<in> set (submissions ?s1)"
    unfolding eq by (simp, rule in_update_where) (use in_table lr in auto)
  then have r': "?r \<in> set (submissions s')"
    using decision_run_keeps [OF assms(4)] by (simp add: decided_def)
  have "wf_table s_id (submissions ?s1)" by (simp add: eq wf_table_update [OF assms(1)])
  then have wf': "wf_table s_id (submissions s')"
    using decision_run_ids [OF assms(4)] by (simp add: wf_table_def)
  from sub_repo.find_by_key [OF wf' r'] in_table
  have f: "find_submission sid s' = Some (?r\<lparr>s_user := None, s_quest := None\<rparr>)"
    by (simp add: find_submission_def)
  have no: "load_for_decision new sid w s' \<noteq> Inr p" if "decided new" for new p
  proof
    assume ld: "load_for_decision new sid w s' = Inr p"
    obtain a b where p: "p = (a, b)" by (cases p)
    from load_ok(3) [OF ld [unfolded p]] f have "s_status a = ''APPROVED''" by auto
    with open_status [OF load_ok(1) [OF ld [unfolded p]] that] show False by simp
  qed
  then obtain e1 e2 where "load_for_decision ''APPROVED'' sid w s' = Inl e1"
    "load_for_decision ''REJECTED'' sid w s' = Inl e2"
    by (metis decided_def old.sum.exhaust)
  then have fails: "\<not> succeeds (approveSubmission sid dto2 w env2 s')" "\<not> succeeds (rejectSubmission sid rdto w env2 s')"
    by (simp_all add: approveSubmission_def rejectSubmission_def reject_load_def)
  have "\<exists>r \<in> set (submissions s'). s_id r = sid \<and> s_status r = ''APPROVED'' \<and> s_approvedBy r = Some v"
    using r' in_table by (intro bexI [of _ ?r]) (auto simp: approve_row_def)
  with fails show ?thesis by (simp add: eq)
qed


theorem approved_without_address_witness:
  "result (approveSubmission ''s'' no_notes [] demo_notif_env (demo_subs None))
     = Inl (BadRequestException ''User does not have a Stellar address linked'')
   \<and> (\<exists>r \<in> set (submissions (state_of (approveSubmission ''s'' no_notes [] demo_notif_env (demo_subs None)))).
        s_status r = ''APPROVED'')"
proof -
  have "wf_table s_id (submissions (demo_subs None))"
    "load_for_decision ''APPROVED'' ''s'' [] (demo_subs None) = Inr (demo_sub ''PENDING'', demo_user\<lparr>u_stellarAddress := None\<rparr>)"
    "\<not> truthy (u_stellarAddress (demo_user\<lparr>u_stellarAddress := None\<rparr>))"
    by (simp_all add: sub_eval)
  from approved_without_address [OF this sub_steps.refl, of no_notes demo_notif_env] show ?thesis by blast
qed

text \<open>
  The approve route never answers: a decision that succeeds in the service is answered from
  relations the service has not loaded, so the caller always gets an error - also when the submission
  has been approved, its user notified and its events sent: one notification, one completion worth
  100 experience points, and two approval events, which announce level 2 twice, once for no user.
\<close>
theorem approve_route_never_answers:
  assumes "fresh_notif env (sub_notifs s)"
  shows "\<not> succeeds (approve_route questId sid dto v env s)
    \<and> state_of (approve_route questId sid dto v env s) = state_of (approveSubmission sid dto v env s)
    \<and> (succeeds (approveSubmission sid dto v env s) \<longrightarrow>
        (\<exists>uid qid qid' amount new. sub_events (state_of (approveSubmission sid dto v env s)) = sub_events s @ new
           \<and> new = [SubmissionApprovedEvent sid qid v, QuestCompletedEvent qid' uid 100 amount,
                    SubmissionApprovedPlain sid qid uid v (n_now env)]
           \<and> concat (map handleSubmissionApproved new) = [(None, 1, 2), (Some uid, 1, 2)]
           \<and> length (notifications (sub_notifs (state_of (approveSubmission sid dto v env s))))
               = length (notifications (sub_notifs s)) + 1))"
proof (cases "succeeds (approveSubmission sid dto v env s)")
  case False
  then show ?thesis
    by (auto simp: approve_route_def succeeds_def split: prod.splits sum.splits)
next
  case True
  then obtain l u where ld: "load_for_decision ''APPROVED'' sid v s = Inr (l, u)"
    by (auto simp: approveSubmission_def split: sum.splits)
  let ?up = "update_if_status sid (s_status l) (approve_row v (n_now env) (ad_notes dto)) s"
  have keep: "sub_notifs (snd ?up) = sub_notifs s" "sub_events (snd ?up) = sub_events s"
    by (simp_all add: update_if_status_def Let_def)
  obtain sub q where rl: "reload sid (snd ?up) = Inr (sub, q)"
    using True ld by (auto simp: approveSubmission_def approve_commit_def Let_def split: prod.splits if_splits sum.splits)
  then have none: "s_quest sub = None" "s_user sub = None"
    by (auto simp: reload_def find_submission_def split: option.splits sum.splits)
  have eq: "approveSubmission sid dto v env s = (Inr sub,
      (snd ?up)\<lparr>sub_notifs := snd (sendSubmissionApproved (s_userId sub) (q_title q) (q_rewardAmount q) env (sub_notifs s)),
        sub_events := sub_events s @
          [SubmissionApprovedEvent sid (s_questId sub) v,
           QuestCompletedEvent (q_id q) (s_userId sub) 100 (show_int (q_rewardAmount q)),
           SubmissionApprovedPlain sid (s_questId sub) (s_userId sub) v (n_now env)]\<rparr>)"
    using True ld rl keep by (auto simp: approveSubmission_def approve_commit_def Let_def split: prod.splits if_splits)
  obtain n ns where sent: "sendSubmissionApproved (s_userId sub) (q_title q) (q_rewardAmount q) env (sub_notifs s) = (n, ns)"
    by fastforce
  have "notifications ns = notifications (sub_notifs s) @ [n]"
    using send_effect(1) [OF assms sent [unfolded sendSubmissionApproved_def]] .
  with none sent show ?thesis by (simp add: eq approve_route_def handleSubmissionApproved_def)
qed

theorem approve_route_never_answers_witness:
  "succeeds (approveSubmission ''s'' no_notes [] demo_notif_env (demo_subs (Some ''GA'')))
   \<and> \<not> succeeds (approve_route ''q'' ''s'' no_notes [] demo_notif_env (demo_subs (Some ''GA'')))"
proof
  show "succeeds (approveSubmission ''s'' no_notes [] demo_notif_env (demo_subs (Some ''GA'')))"
    by (simp add: sub_eval)
  have "fresh_notif demo_notif_env (sub_notifs (demo_subs (Some ''GA'')))"
    by (simp add: fresh_notif_def demo_subs_def no_notifs_def demo_notif_env_def inj_logs)
  from approve_route_never_answers [OF this, of "''q''" "''s''" no_notes "[]"]
  show "\<not> succeeds (approve_route ''q'' ''s'' no_notes [] demo_notif_env (demo_subs (Some ''GA'')))" by blast
qed

end
