(* ===== verification/ContentFilters.thy ===== *)
theory ContentFilters
  imports Repository "HOL-Library.AList"
begin

text \<open>
  The content filters of the moderation module, \<open>BackEnd/src/modules/moderation/filters\<close>: the keyword
  blocklist, the pattern classifier, the client of the external scoring service and the image URL
  heuristics.  The patterns are the source's regular expressions written out on ASCII text; scores are
  the decimal numbers the source writes.  Not under \<open>src/\<close> and so parameters: the HTTP answer of the
  external service (\<open>post\<close>) and the platform's URL parser (\<open>parse_url\<close>).  The call of the
  optional image service is left out: its answer is ignored and its failure only logged.
\<close>

subsection \<open>Keywords\<close>

record KeywordFilterResult =
  kw_hits :: "string list"
  kw_blocked :: bool

definition default_keywords :: "string list" where
  "default_keywords = [''child porn'', ''cp '', ''terrorist'', ''kill yourself'', ''kys'']"

text \<open>The set keeps the order of first insertion.\<close>

definition blocklist :: "string list \<Rightarrow> string list" where
  "blocklist fromConfig =
     rev (remdups (rev (filter (\<lambda>w. w \<noteq> []) (map lower (fromConfig @ default_keywords)))))"

definition keyword_scan :: "string list \<Rightarrow> string \<Rightarrow> KeywordFilterResult" where
  "keyword_scan fromConfig text =
     (if trim text = [] then \<lparr> kw_hits = [], kw_blocked = False \<rparr>
      else (let hits = filter (\<lambda>w. w \<noteq> [] \<and> includes_str (lower text) w) (blocklist fromConfig)
            in \<lparr> kw_hits = hits, kw_blocked = (length hits > 0) \<rparr>))"

lemma set_blocklist: "set (blocklist ks) = {w \<in> lower ` set (ks @ default_keywords). w \<noteq> []}"
  by (auto simp: blocklist_def)

lemma kw_blocked_iff: "kw_blocked (keyword_scan ks text) \<longleftrightarrow> kw_hits (keyword_scan ks text) \<noteq> []"
  by (simp add: keyword_scan_def Let_def)

lemma keyword_hit_iff:
  "w \<in> set (kw_hits (keyword_scan ks text)) \<longleftrightarrow>
     trim text \<noteq> [] \<and> w \<in> set (blocklist ks) \<and> includes_str (lower text) w"
  by (auto simp: keyword_scan_def Let_def set_blocklist)

lemma distinct_kw_hits: "distinct (kw_hits (keyword_scan ks text))"
  by (simp add: keyword_scan_def Let_def blocklist_def)

subsection \<open>The classifier\<close>

datatype ContentCategory = SAFE | SPAM | PROFANITY | SUSPICIOUS | PROMOTIONAL

fun show_category :: "ContentCategory \<Rightarrow> string" where
  "show_category SAFE = ''SAFE''"
| "show_category SPAM = ''SPAM''"
| "show_category PROFANITY = ''PROFANITY''"
| "show_category SUSPICIOUS = ''SUSPICIOUS''"
| "show_category PROMOTIONAL = ''PROMOTIONAL''"

definition is_word_char :: "char \<Rightarrow> bool" where
  "is_word_char c =
     (let n = of_char c :: nat
      in (48 \<le> n \<and> n \<le> 57) \<or> (65 \<le> n \<and> n \<le> 90) \<or> (97 \<le> n \<and> n \<le> 122) \<or> n = 95)"

text \<open>\<open>/\b(?:w)\b/i\<close> for a lower-case \<open>w\<close> that begins and ends with word characters.\<close>

fun word_match :: "bool \<Rightarrow> string \<Rightarrow> string \<Rightarrow> bool" where
  "word_match prev [] w = False"
| "word_match prev (c # cs) w =
     ((\<not> prev \<and> starts_with (lower (c # cs)) w
        \<and> (case drop (length w) (c # cs) of [] \<Rightarrow> True | d # _ \<Rightarrow> \<not> is_word_char d))
      \<or> word_match (is_word_char c) cs w)"

definition any_word :: "string list \<Rightarrow> string \<Rightarrow> bool" where
  "any_word ws text = list_ex (word_match False text) ws"

text \<open>\<open>/(?:http[s]?:\/\/){2,}/\<close>: two URL prefixes in a row.\<close>

definition double_scheme :: "string \<Rightarrow> bool" where
  "double_scheme text =
     (includes_str text (''http://'' @ ''http://'') \<or> includes_str text (''http://'' @ ''https://'')
      \<or> includes_str text (''https://'' @ ''http://'') \<or> includes_str text (''https://'' @ ''https://''))"

definition SPAM_PATTERNS :: "(string \<Rightarrow> bool) list" where
  "SPAM_PATTERNS =
     [any_word [''viagra'', ''cialis'', ''casino'', ''lottery'', ''winner''],
      any_word [''click here'', ''limited time'', ''act now''],
      double_scheme]"

definition PROFANITY_PATTERNS :: "(string \<Rightarrow> bool) list" where
  "PROFANITY_PATTERNS = [any_word [''fuck'', ''shit'', ''bitch'', ''asshole'']]"

definition PROMO_PATTERNS :: "(string \<Rightarrow> bool) list" where
  "PROMO_PATTERNS = [any_word [''buy now'', ''discount'', ''promo code'', ''affiliate'']]"

text \<open>The number of matches of \<open>/https?:\/\//g\<close>; two of them never overlap.\<close>

fun count_urls :: "string \<Rightarrow> nat" where
  "count_urls [] = 0"
| "count_urls (c # cs) =
     (if starts_with (c # cs) ''http://'' \<or> starts_with (c # cs) ''https://'' then 1 else 0) + count_urls cs"

definition pattern_score :: "rat \<Rightarrow> (string \<Rightarrow> bool) list \<Rightarrow> string \<Rightarrow> rat" where
  "pattern_score weight ps text = fold (\<lambda>p acc. if p text then acc + weight else acc) ps 0"

type_synonym labels = "(string \<times> rat) list"

record ClassificationResult =
  cls_labels :: labels
  cls_primary :: string
  cls_score :: rat

definition mk_labels :: "rat \<Rightarrow> rat \<Rightarrow> rat \<Rightarrow> rat \<Rightarrow> rat \<Rightarrow> labels" where
  "mk_labels safe spam prof susp promo =
     [(show_category SAFE, safe), (show_category SPAM, spam), (show_category PROFANITY, prof),
      (show_category SUSPICIOUS, susp), (show_category PROMOTIONAL, promo)]"

definition classify :: "string \<Rightarrow> ClassificationResult" where
  "classify text =
     (if trim text = []
      then \<lparr> cls_labels = mk_labels (9/10) 0 0 0 0, cls_primary = show_category SAFE, cls_score = 1/10 \<rparr>
      else
        (let spam = min 1 (pattern_score (25/100) SPAM_PATTERNS text);
             prof = min 1 (pattern_score (35/100) PROFANITY_PATTERNS text);
             promo = min 1 (pattern_score (2/10) PROMO_PATTERNS text);
             susp = (if length text > 8000 \<or> count_urls text > 15 then 4/10 else 0);
             safe = max 0 (1 - max spam (max prof promo) - susp * (5/10));
             labels = mk_labels safe spam prof susp promo
         in \<lparr> cls_labels = labels, cls_primary = fst (hd (sort_key (\<lambda>e. - snd e) labels)),
              cls_score = max spam (max prof (max susp promo)) \<rparr>))"

lemma pattern_score_bounds:
  assumes "0 \<le> w"
  shows "0 \<le> pattern_score w ps text \<and> pattern_score w ps text \<le> w * of_nat (length ps)"
proof -
  have "a \<le> fold (\<lambda>p acc. if p text then acc + w else acc) ps a
      \<and> fold (\<lambda>p acc. if p text then acc + w else acc) ps a \<le> a + w * of_nat (length ps)" for a
  proof (induction ps arbitrary: a)
    case Nil
    then show ?case by simp
  next
    case (Cons p ps)
    from Cons [of a] Cons [of "a + w"] assms show ?case by (auto simp: algebra_simps)
  qed
  from this [of 0] show ?thesis by (simp add: pattern_score_def)
qed

text \<open>No text reaches a score above three quarters, the score of all three spam patterns together.\<close>

lemma classify_score_bounds: "0 \<le> cls_score (classify text) \<and> cls_score (classify text) \<le> 75/100"
proof -
  have "pattern_score (25/100) SPAM_PATTERNS text \<le> 75/100" "0 \<le> pattern_score (25/100) SPAM_PATTERNS text"
    using pattern_score_bounds [of "25/100" SPAM_PATTERNS "text"] by (simp_all add: SPAM_PATTERNS_def)
  moreover have "pattern_score (35/100) PROFANITY_PATTERNS text \<le> 35/100"
    using pattern_score_bounds [of "35/100" PROFANITY_PATTERNS "text"] by (simp add: PROFANITY_PATTERNS_def)
  moreover have "pattern_score (2/10) PROMO_PATTERNS text \<le> 2/10"
    using pattern_score_bounds [of "2/10" PROMO_PATTERNS "text"] by (simp add: PROMO_PATTERNS_def)
  ultimately show ?thesis
    by (auto simp: classify_def Let_def min_def max_def)
qed

subsection \<open>The external service\<close>

record external_data =
  xd_score :: "rat option"
  xd_categories :: "labels option"

record ExternalModerationResult =
  xr_score :: rat
  xr_categories :: "labels option"

text \<open>No URL configured, or a failing call: no result.  A score that is not a number counts as 0.\<close>

definition scoreText ::
    "string option \<Rightarrow> (string \<Rightarrow> string \<Rightarrow> external_data option) \<Rightarrow> string \<Rightarrow> ExternalModerationResult option" where
  "scoreText url post text =
     (case url of
        None \<Rightarrow> None
      | Some u \<Rightarrow>
          if trim u = [] then None
          else (case post u text of
                  None \<Rightarrow> None
                | Some d \<Rightarrow> Some \<lparr> xr_score = coalesce (xd_score d) 0, xr_categories = xd_categories d \<rparr>))"

subsection \<open>Images\<close>

record ImageModerationFlag =
  if_url :: string
  if_reason :: string

record parsed_url =
  pu_protocol :: string
  pu_hostname :: string
  pu_pathname :: string

definition ends_with :: "string \<Rightarrow> string \<Rightarrow> bool" where
  "ends_with s p = starts_with (rev s) (rev p)"

text \<open>\<open>/\.(onion|exe|bat)$/i\<close>\<close>

definition suspicious_extension :: "string \<Rightarrow> bool" where
  "suspicious_extension path =
     (ends_with (lower path) ''.onion'' \<or> ends_with (lower path) ''.exe'' \<or> ends_with (lower path) ''.bat'')"

definition moderate_url :: "string list \<Rightarrow> (string \<Rightarrow> parsed_url option) \<Rightarrow> string \<Rightarrow> ImageModerationFlag list" where
  "moderate_url blockedHosts parse_url raw =
     (let url = trim raw
      in if url = [] then []
         else (case parse_url url of
                 None \<Rightarrow> [\<lparr> if_url = url, if_reason = ''invalid_url'' \<rparr>]
               | Some p \<Rightarrow>
                   if \<not> List.member [''http:'', ''https:''] (pu_protocol p)
                   then [\<lparr> if_url = url, if_reason = ''unsupported_scheme'' \<rparr>]
                   else (if List.member (map lower blockedHosts) (lower (pu_hostname p))
                         then [\<lparr> if_url = url, if_reason = ''blocked_host'' \<rparr>] else [])
                      @ (if suspicious_extension (pu_pathname p)
                         then [\<lparr> if_url = url, if_reason = ''suspicious_extension'' \<rparr>] else [])))"

definition moderateUrls ::
    "string list \<Rightarrow> (string \<Rightarrow> parsed_url option) \<Rightarrow> string list \<Rightarrow> ImageModerationFlag list" where
  "moderateUrls blockedHosts parse_url urls = concat (map (moderate_url blockedHosts parse_url) urls)"

text \<open>JSON values; a number is the text JavaScript prints for it.\<close>

datatype json =
  JNull | JBool bool | JNum string | JStr string | JArr "json list" | JObj "(string \<times> json) list"

text \<open>\<open>/^https?:\/\//i\<close>\<close>

definition is_http_url :: "string \<Rightarrow> bool" where
  "is_http_url s = (starts_with (lower s) ''http://'' \<or> starts_with (lower s) ''https://'')"

fun walk :: "json \<Rightarrow> string list" where
  "walk (JStr s) = (if is_http_url s then [s] else [])"
| "walk (JArr vs) = concat (map walk vs)"
| "walk (JObj kvs) = concat (map (\<lambda>(k, v). walk v) kvs)"
| "walk _ = []"

definition extractUrlsFromProof :: "json \<Rightarrow> string list" where
  "extractUrlsFromProof proof =
     (case proof of
        JArr _ \<Rightarrow> rev (remdups (rev (walk proof)))
      | JObj _ \<Rightarrow> rev (remdups (rev (walk proof)))
      | _ \<Rightarrow> [])"

text \<open>The strings that occur in a JSON value, at any depth.\<close>

inductive string_in :: "string \<Rightarrow> json \<Rightarrow> bool" where
  here: "string_in s (JStr s)"
| elem: "v \<in> set vs \<Longrightarrow> string_in s v \<Longrightarrow> string_in s (JArr vs)"
| field: "(k, v) \<in> set kvs \<Longrightarrow> string_in s v \<Longrightarrow> string_in s (JObj kvs)"

inductive_simps string_in_simps [simp]:
  "string_in s (JStr t)" "string_in s (JArr vs)" "string_in s (JObj kvs)" "string_in s JNull"
  "string_in s (JBool b)" "string_in s (JNum n)"

lemma set_walk: "set (walk v) = {s. string_in s v \<and> is_http_url s}"
proof (induction v rule: walk.induct)
  case (3 kvs)
  then show ?case by fastforce
qed auto

lemma extractUrls_exact:
  "distinct (extractUrlsFromProof proof)"
  "set (extractUrlsFromProof (JArr vs)) = {s. string_in s (JArr vs) \<and> is_http_url s}"
  "set (extractUrlsFromProof (JObj kvs)) = {s. string_in s (JObj kvs) \<and> is_http_url s}"
  by (simp_all add: extractUrlsFromProof_def set_walk del: walk.simps string_in_simps split: json.splits)

text \<open>\<open>JSON.stringify\<close> and \<open>String\<close> of such a value (ASCII).\<close>

definition hex_digit :: "nat \<Rightarrow> char" where
  "hex_digit n = char_of (if n < 10 then 48 + n else 87 + n)"

definition quote_char :: "char \<Rightarrow> string" where
  "quote_char c =
     (let n = of_char c :: nat; bs = CHR 0x5C
      in if c = CHR 0x22 \<or> c = bs then [bs, c]
         else if n = 8 then [bs, CHR ''b''] else if n = 9 then [bs, CHR ''t'']
         else if n = 10 then [bs, CHR ''n''] else if n = 12 then [bs, CHR ''f'']
         else if n = 13 then [bs, CHR ''r'']
         else if n < 32 then bs # ''u00'' @ [hex_digit (n div 16), hex_digit (n mod 16)]
         else [c])"

definition quote_string :: "string \<Rightarrow> string" where
  "quote_string s = CHR 0x22 # concat (map quote_char s) @ [CHR 0x22]"

fun join :: "string \<Rightarrow> string list \<Rightarrow> string" where
  "join sep [] = []"
| "join sep [x] = x"
| "join sep (x # y # xs) = x @ sep @ join sep (y # xs)"

fun json_stringify :: "json \<Rightarrow> string" where
  "json_stringify JNull = ''null''"
| "json_stringify (JBool b) = (if b then ''true'' else ''false'')"
| "json_stringify (JNum n) = n"
| "json_stringify (JStr s) = quote_string s"
| "json_stringify (JArr vs) = ''['' @ join '','' (map json_stringify vs) @ '']''"
| "json_stringify (JObj kvs) =
     ''{'' @ join '','' (map (\<lambda>(k, v). quote_string k @ '':'' @ json_stringify v) kvs) @ ''}''"

definition proof_text :: "json \<Rightarrow> string" where
  "proof_text proof =
     (case proof of
        JArr _ \<Rightarrow> take 50000 (json_stringify proof)
      | JObj _ \<Rightarrow> take 50000 (json_stringify proof)
      | JNull \<Rightarrow> []
      | JStr s \<Rightarrow> s
      | _ \<Rightarrow> json_stringify proof)"

end
