(* ===== verification/Moderation.thy ===== *)
theory Moderation
  imports ContentFilters
begin

text \<open>
  The moderation service, \<open>BackEnd/src/modules/moderation\<close>: entities, the configuration it reads, the
  scan of texts and submissions, moderation items, actions of moderators and appeals.
\<close>

subsection \<open>Entities\<close>

datatype ModerationTargetType = QUEST | SUBMISSION | STANDALONE

datatype ModerationItemStatus =
  PENDING | AUTO_APPROVED | AUTO_FLAGGED | MANUAL_REVIEW | APPROVED | REJECTED

datatype ModerationAction = NONE | APPROVE | REJECT | ESCALATE

datatype AppealStatus = PENDING | APPROVED | REJECTED

record ModerationItem =
  mi_id :: id
  mi_targetType :: ModerationTargetType
  mi_targetId :: id
  mi_userId :: id
  mi_textSnapshot :: string
  mi_imageUrls :: "string list option"
  mi_automatedScore :: rat
  mi_automatedLabels :: labels
  mi_keywordHits :: "string list"
  mi_imageFlags :: "ImageModerationFlag list option"
  mi_status :: ModerationItemStatus
  mi_priority :: int
  mi_reviewedBy :: "id option"
  mi_reviewedAt :: "time option"
  mi_lastAction :: ModerationAction
  mi_notes :: "string option"
  mi_createdAt :: time

record ModerationAppeal =
  ma_id :: id
  ma_moderationItemId :: id
  ma_userId :: id
  ma_message :: string
  ma_status :: AppealStatus
  ma_resolvedBy :: "id option"
  ma_resolvedAt :: "time option"
  ma_resolutionNote :: "string option"
  ma_createdAt :: time

record moderation_state =
  mod_items :: "ModerationItem list"
  mod_appeals :: "ModerationAppeal list"

text \<open>The configuration values the module reads, and the services outside \<open>src/\<close> it calls.\<close>

record mod_config =
  mc_highThreshold :: "rat option"
  mc_mediumThreshold :: "rat option"
  mc_blockOnHighSeverity :: "bool option"
  mc_blockedKeywords :: "string list"
  mc_blockedImageHosts :: "string list"
  mc_externalApiUrl :: "string option"
  mc_post :: "string \<Rightarrow> string \<Rightarrow> external_data option"
  mc_parse_url :: "string \<Rightarrow> parsed_url option"

definition highThreshold :: "mod_config \<Rightarrow> rat" where
  "highThreshold c = coalesce (mc_highThreshold c) (85/100)"

definition mediumThreshold :: "mod_config \<Rightarrow> rat" where
  "mediumThreshold c = coalesce (mc_mediumThreshold c) (5/10)"

definition blockOnHigh :: "mod_config \<Rightarrow> bool" where
  "blockOnHigh c = (mc_blockOnHighSeverity c \<noteq> Some False)"

subsection \<open>Scans\<close>

record ScanResult =
  sr_score :: rat
  sr_keywordHits :: "string list"
  sr_labels :: labels
  sr_imageFlags :: "ImageModerationFlag list"
  sr_shouldBlock :: bool
  sr_shouldManualReview :: bool

text \<open>\<open>{ ...xs, ...ys }\<close>: a later value replaces an earlier one in its place.\<close>

definition spread :: "labels \<Rightarrow> labels \<Rightarrow> labels" where
  "spread xs ys = fold (\<lambda>(k, v) acc. AList.update k v acc) ys xs"

definition scanText :: "mod_config \<Rightarrow> string \<Rightarrow> ScanResult" where
  "scanText c combined =
     (let kw = keyword_scan (mc_blockedKeywords c) combined;
          cls = classify combined;
          ext = scoreText (mc_externalApiUrl c) (mc_post c) combined;
          score0 = max (if kw_blocked kw then 1 else 0)
                     (max (cls_score cls) (coalesce (map_option xr_score ext) 0));
          score = (if kw_hits kw \<noteq> [] then max score0 (95/100) else score0);
          labels = spread (cls_labels cls)
                     (case ext of None \<Rightarrow> [] | Some r \<Rightarrow> coalesce (xr_categories r) []);
          high = highThreshold c; med = mediumThreshold c
      in \<lparr> sr_score = score, sr_keywordHits = kw_hits kw, sr_labels = labels, sr_imageFlags = [],
           sr_shouldBlock = (blockOnHigh c \<and> score \<ge> high),
           sr_shouldManualReview = (score \<ge> med \<and> score < high) \<rparr>)"

definition save_item :: "ModerationItem \<Rightarrow> moderation_state \<Rightarrow> moderation_state" where
  "save_item i s = s\<lparr>mod_items := save_row mi_id i (mod_items s)\<rparr>"

definition save_appeal :: "ModerationAppeal \<Rightarrow> moderation_state \<Rightarrow> moderation_state" where
  "save_appeal a s = s\<lparr>mod_appeals := save_row ma_id a (mod_appeals s)\<rparr>"

definition saveQuestModerationItem ::
    "id \<Rightarrow> id \<Rightarrow> string \<Rightarrow> string \<Rightarrow> ScanResult \<Rightarrow> id \<Rightarrow> time \<Rightarrow> moderation_state
     \<Rightarrow> ModerationItem \<times> moderation_state" where
  "saveQuestModerationItem questId userId title description scan newId now s =
     (let txt = title @ [CHR 0x0A, CHR 0x0A] @ description;
          i = \<lparr> mi_id = newId, mi_targetType = QUEST, mi_targetId = questId, mi_userId = userId,
                mi_textSnapshot = take 32000 txt, mi_imageUrls = None,
                mi_automatedScore = sr_score scan, mi_automatedLabels = sr_labels scan,
                mi_keywordHits = sr_keywordHits scan, mi_imageFlags = Some (sr_imageFlags scan),
                mi_status = (if sr_shouldManualReview scan then MANUAL_REVIEW else AUTO_APPROVED),
                mi_priority = (if sr_shouldManualReview scan then 10 else 0),
                mi_reviewedBy = None, mi_reviewedAt = None, mi_lastAction = NONE, mi_notes = None,
                mi_createdAt = now \<rparr>
      in (i, save_item i s))"

definition scanSubmissionContent ::
    "mod_config \<Rightarrow> id \<Rightarrow> id \<Rightarrow> json \<Rightarrow> id \<Rightarrow> time \<Rightarrow> moderation_state
     \<Rightarrow> (moderation_state, ModerationItem) outcome" where
  "scanSubmissionContent c submissionId userId proof newId now s =
     (let txt = proof_text proof;
          urls = extractUrlsFromProof proof;
          flags = moderateUrls (mc_blockedImageHosts c) (mc_parse_url c) urls;
          scan = scanText c txt;
          combinedScore = max (sr_score scan) (if length flags > 0 then 75/100 else 0)
      in if sr_shouldBlock scan \<or> list_ex (\<lambda>f. if_reason f = ''blocked_host'') flags
         then (Inl (BadRequestException ''Submission content violates platform moderation rules''), s)
         else
           (let needsManual = (sr_shouldManualReview scan \<or> length flags > 0
                  \<or> combinedScore \<ge> mediumThreshold c);
                i = \<lparr> mi_id = newId, mi_targetType = SUBMISSION, mi_targetId = submissionId,
                      mi_userId = userId, mi_textSnapshot = take 32000 txt,
                      mi_imageUrls = (if length urls > 0 then Some urls else None),
                      mi_automatedScore = combinedScore, mi_automatedLabels = sr_labels scan,
                      mi_keywordHits = sr_keywordHits scan,
                      mi_imageFlags = (if length flags > 0 then Some flags else None),
                      mi_status = (if needsManual then MANUAL_REVIEW else AUTO_APPROVED),
                      mi_priority = (if needsManual then 8 else 0),
                      mi_reviewedBy = None, mi_reviewedAt = None, mi_lastAction = NONE,
                      mi_notes = None, mi_createdAt = now \<rparr>
            in (Inr i, save_item i s)))"

subsection \<open>Review\<close>

text \<open>\<open>order: { priority: 'DESC', createdAt: 'ASC' }\<close>\<close>

definition listPending :: "nat \<Rightarrow> nat \<Rightarrow> moderation_state \<Rightarrow> ModerationItem list \<times> nat" where
  "listPending page limit s =
     (let rows = filter (\<lambda>i. mi_status i = MANUAL_REVIEW) (mod_items s)
      in (page_of page limit (order_desc mi_priority (order_asc mi_createdAt rows)), length rows))"

definition getDashboardStats :: "moderation_state \<Rightarrow> nat \<times> nat" where
  "getDashboardStats s =
     (count_rows (\<lambda>i. mi_status i = MANUAL_REVIEW) (mod_items s),
      count_rows (\<lambda>a. ma_status a = AppealStatus.PENDING) (mod_appeals s))"

definition applyAction ::
    "id \<Rightarrow> ModerationAction \<Rightarrow> id \<Rightarrow> string option \<Rightarrow> time \<Rightarrow> moderation_state
     \<Rightarrow> (moderation_state, ModerationItem) outcome" where
  "applyAction itemId action reviewerId notes now s =
     (case find_row (\<lambda>i. mi_id i = itemId) (mod_items s) of
        None \<Rightarrow> (Inl (NotFoundException ''Moderation item not found''), s)
      | Some i \<Rightarrow>
          (let noted = (case notes of None \<Rightarrow> mi_notes i | Some n \<Rightarrow> Some n)
           in if action = ESCALATE
              then (let i1 = i\<lparr>mi_priority := min 100 (mi_priority i + 20), mi_notes := noted,
                               mi_lastAction := action\<rparr>
                    in (Inr i1, save_item i1 s))
              else (let i1 = (if action = APPROVE then i\<lparr>mi_status := ModerationItemStatus.APPROVED\<rparr>
                              else if action = REJECT then i\<lparr>mi_status := ModerationItemStatus.REJECTED\<rparr>
                              else i);
                        i2 = i1\<lparr>mi_reviewedBy := Some reviewerId, mi_reviewedAt := Some now,
                                mi_lastAction := action, mi_notes := noted\<rparr>
                    in (Inr i2, save_item i2 s))))"

definition createAppeal ::
    "id \<Rightarrow> id \<Rightarrow> string \<Rightarrow> id \<Rightarrow> time \<Rightarrow> moderation_state \<Rightarrow> (moderation_state, ModerationAppeal) outcome" where
  "createAppeal userId itemId message newId now s =
     (case find_row (\<lambda>i. mi_id i = itemId) (mod_items s) of
        None \<Rightarrow> (Inl (NotFoundException ''Moderation item not found''), s)
      | Some i \<Rightarrow>
          if mi_userId i \<noteq> userId
          then (Inl (ForbiddenException ''You can only appeal your own moderation cases''), s)
          else (let a = \<lparr> ma_id = newId, ma_moderationItemId = itemId, ma_userId = userId,
                          ma_message = message, ma_status = AppealStatus.PENDING, ma_resolvedBy = None,
                          ma_resolvedAt = None, ma_resolutionNote = None, ma_createdAt = now \<rparr>
                in (Inr a, save_appeal a s)))"

definition listAppealsPending :: "nat \<Rightarrow> nat \<Rightarrow> moderation_state \<Rightarrow> ModerationAppeal list \<times> nat" where
  "listAppealsPending page limit s =
     (let rows = filter (\<lambda>a. ma_status a = AppealStatus.PENDING) (mod_appeals s)
      in (page_of page limit (order_asc ma_createdAt rows), length rows))"

text \<open>\<open>resolution\<close> is \<open>APPROVED\<close> or \<open>REJECTED\<close>: \<open>approve\<close> tells which.\<close>

definition resolveAppeal ::
    "id \<Rightarrow> bool \<Rightarrow> id \<Rightarrow> string option \<Rightarrow> time \<Rightarrow> moderation_state
     \<Rightarrow> (moderation_state, ModerationAppeal) outcome" where
  "resolveAppeal appealId approve resolverId note' now s =
     (case find_row (\<lambda>a. ma_id a = appealId) (mod_appeals s) of
        None \<Rightarrow> (Inl (NotFoundException ''Appeal not found''), s)
      | Some a \<Rightarrow>
          if ma_status a \<noteq> AppealStatus.PENDING
          then (Inl (BadRequestException ''Appeal already resolved''), s)
          else
            (let a1 = a\<lparr>ma_status := (if approve then AppealStatus.APPROVED else AppealStatus.REJECTED),
                        ma_resolvedBy := Some resolverId, ma_resolvedAt := Some now,
                        ma_resolutionNote := note'\<rparr>;
                 s1 = (case find_row (\<lambda>i. mi_id i = ma_moderationItemId a) (mod_items s) of
                         Some i \<Rightarrow>
                           if approve
                           then save_item (i\<lparr>mi_status := ModerationItemStatus.APPROVED,
                                  mi_reviewedBy := Some resolverId, mi_reviewedAt := Some now,
                                  mi_lastAction := APPROVE\<rparr>) s
                           else s
                       | None \<Rightarrow> s)
             in (Inr a1, save_appeal a1 s1)))"

end
