(* ===== verification/ModerationProps.thy ===== *)
theory ModerationProps
  imports Moderation
begin

text \<open>
  What the scan decides, and what the runs of the moderation service keep: appeals belong to the owner
  of their case and are resolved once, priorities stay within 0 and 100.
\<close>

interpretation item_repo: repository mi_id "\<lambda>t. t" find_row "save_row mi_id" "wf_table mi_id"
  by (rule table_repository)

interpretation appeal_repo: repository ma_id "\<lambda>t. t" find_row "save_row ma_id" "wf_table ma_id"
  by (rule table_repository)

subsection \<open>Scan decisions\<close>

lemma scan_score_keyword:
  "sr_keywordHits (scanText c txt) \<noteq> [] \<Longrightarrow> 1 \<le> sr_score (scanText c txt)"
  by (auto simp: scanText_def Let_def kw_blocked_iff)

lemma scan_score_nonneg: "0 \<le> sr_score (scanText c txt)"
  by (simp add: scanText_def Let_def le_max_iff_disj)

lemma scan_fields:
  "sr_shouldBlock (scanText c txt) = (blockOnHigh c \<and> highThreshold c \<le> sr_score (scanText c txt))"
  "sr_shouldManualReview (scanText c txt)
     = (mediumThreshold c \<le> sr_score (scanText c txt) \<and> sr_score (scanText c txt) < highThreshold c)"
  "sr_keywordHits (scanText c txt) = kw_hits (keyword_scan (mc_blockedKeywords c) txt)"
  by (simp_all add: scanText_def Let_def)

text \<open>
  A text with a blocked keyword scores at least 1, so with blocking on and a high threshold
  of at most 1 it is refused.  With blocking switched off - when, so the configuration says, such
  content is flagged - it is not flagged at all: the quest that carries it is saved as auto-approved
  with priority 0, while a text between the two thresholds is put up for review with priority 10.
\<close>
theorem unblocked_keyword_auto_approved:
  assumes "w \<in> set (mc_blockedKeywords c)" and "w \<noteq> []"
    and "includes_str (lower (title @ [CHR 0x0A, CHR 0x0A] @ descr)) (lower w)"
    and "trim (title @ [CHR 0x0A, CHR 0x0A] @ descr) \<noteq> []" and "highThreshold c \<le> 1"
    and "scan = scanText c (title @ [CHR 0x0A, CHR 0x0A] @ descr)"
    and "saveQuestModerationItem qid uid title descr scan newId now s = (i, s')"
  shows "lower w \<in> set (sr_keywordHits scan) \<and> 1 \<le> sr_score scan
    \<and> sr_shouldBlock scan = blockOnHigh c
    \<and> (\<not> blockOnHigh c \<longrightarrow> \<not> sr_shouldManualReview scan \<and> mi_status i = AUTO_APPROVED \<and> mi_priority i = 0)"
proof -
  let ?t = "title @ [CHR 0x0A, CHR 0x0A] @ descr"
  have "lower w \<in> set (blocklist (mc_blockedKeywords c))"
    using assms(1,2) by (auto simp: set_blocklist lower_def)
  with assms(3,4) have hit: "lower w \<in> set (sr_keywordHits scan)"
    by (simp add: assms(6) scan_fields keyword_hit_iff)
  then have score: "1 \<le> sr_score scan"
    unfolding assms(6) by (intro scan_score_keyword) auto
  with assms(5) have "highThreshold c \<le> sr_score scan" by linarith
  with hit score assms(6,7) show ?thesis
    by (auto simp: scan_fields saveQuestModerationItem_def Let_def)
qed

definition demo_mod_config :: "bool option \<Rightarrow> mod_config" where
  "demo_mod_config b = \<lparr> mc_highThreshold = None, mc_mediumThreshold = None, mc_blockOnHighSeverity = b,
     mc_blockedKeywords = [''scam''], mc_blockedImageHosts = [''evil.com''], mc_externalApiUrl = None,
     mc_post = (\<lambda>_ _. None), mc_parse_url = (\<lambda>_. None) \<rparr>"

definition no_mod :: moderation_state where
  "no_mod = \<lparr> mod_items = [], mod_appeals = [] \<rparr>"

lemmas mod_eval = demo_mod_config_def no_mod_def lower_def lower_char_def starts_with_def trim_def
  is_space_def char_of_eq_iff highThreshold_def mediumThreshold_def blockOnHigh_def Let_def

theorem unblocked_keyword_auto_approved_witness:
  "mi_status (fst (saveQuestModerationItem ''q'' ''u'' ''Scam'' ''pay me''
      (scanText (demo_mod_config (Some False)) (''Scam'' @ [CHR 0x0A, CHR 0x0A] @ ''pay me'')) ''m'' 0 no_mod))
    = AUTO_APPROVED"
proof -
  let ?c = "demo_mod_config (Some False)"
  have "''scam'' \<in> set (mc_blockedKeywords ?c)" "highThreshold ?c \<le> 1" "\<not> blockOnHigh ?c"
    "includes_str (lower (''Scam'' @ [CHR 0x0A, CHR 0x0A] @ ''pay me'')) (lower ''scam'')"
    "trim (''Scam'' @ [CHR 0x0A, CHR 0x0A] @ ''pay me'') \<noteq> []"
    by (simp_all add: mod_eval)
  with unblocked_keyword_auto_approved [of "''scam''" ?c "''Scam''" "''pay me''" _ "''q''" "''u''" "''m''" 0 no_mod,
      OF _ _ _ _ _ refl]
  show ?thesis by (metis list.distinct(1) surjective_pairing)
qed

lemma scan_without_keyword:
  assumes "mc_externalApiUrl c = None"
    and "\<forall>w \<in> set (mc_blockedKeywords c @ default_keywords). w \<noteq> [] \<longrightarrow> \<not> includes_str (lower txt) (lower w)"
  shows "sr_score (scanText c txt) = cls_score (classify txt)"
proof -
  have "kw_hits (keyword_scan (mc_blockedKeywords c) txt) = []"
    using assms(2) by (auto simp: keyword_scan_def Let_def filter_empty_conv set_blocklist)
  then have "sr_score (scanText c txt) = max 0 (max (cls_score (classify txt)) 0)"
    using assms(1) by (simp add: scanText_def Let_def kw_blocked_iff scoreText_def)
  with classify_score_bounds [of "txt"] show ?thesis by simp
qed

lemma classifier_scan_free:
  assumes "mc_externalApiUrl c = None" and "mc_highThreshold c = None"
    and "\<forall>w \<in> set (mc_blockedKeywords c @ default_keywords). w \<noteq> [] \<longrightarrow> \<not> includes_str (lower txt) (lower w)"
  shows "\<not> sr_shouldBlock (scanText c txt)"
  using scan_without_keyword [OF assms(1,3)] classify_score_bounds [of "txt"] assms(2)
  by (simp add: scan_fields highThreshold_def)

text \<open>
  Without the external service only keywords block: a text without a blocked keyword scores
  at most 0.75, below the default high threshold, whatever patterns it matches, so it is never refused;
  it is reviewed by hand exactly when it scores 0.5 or more.
\<close>
theorem classifier_never_blocks:
  assumes "mc_externalApiUrl c = None" and "mc_highThreshold c = None" and "mc_mediumThreshold c = None"
    and "\<forall>w \<in> set (mc_blockedKeywords c @ default_keywords). w \<noteq> [] \<longrightarrow> \<not> includes_str (lower txt) (lower w)"
  shows "0 \<le> sr_score (scanText c txt) \<and> sr_score (scanText c txt) \<le> 75/100
    \<and> \<not> sr_shouldBlock (scanText c txt)
    \<and> sr_shouldManualReview (scanText c txt) = (5/10 \<le> cls_score (classify txt))"
  using scan_without_keyword [OF assms(1,4)] classify_score_bounds [of "txt"] assms(2,3)
  by (auto simp: scan_fields highThreshold_def mediumThreshold_def)

theorem classifier_never_blocks_witness:
  "sr_score (scanText (demo_mod_config None) ''winner, act now'') \<le> 75/100
    \<and> sr_shouldManualReview (scanText (demo_mod_config None) ''winner, act now'')"
proof -
  have "cls_score (classify ''winner, act now'') = 1/2"
    by (simp add: classify_def pattern_score_def SPAM_PATTERNS_def PROFANITY_PATTERNS_def PROMO_PATTERNS_def
        any_word_def double_scheme_def is_word_char_def mod_eval)
  moreover have "\<forall>w \<in> set (mc_blockedKeywords (demo_mod_config None) @ default_keywords).
      w \<noteq> [] \<longrightarrow> \<not> includes_str (lower ''winner, act now'') (lower w)"
    by (simp add: default_keywords_def mod_eval)
  ultimately show ?thesis
    using classifier_never_blocks [of "demo_mod_config None" "''winner, act now''"]
    by (simp add: demo_mod_config_def)
qed

text \<open>
  A submission is either refused or recorded: it is refused exactly when its text is blocked
  or one of its image links points to a blocked host; a recorded one is auto-approved only when no link
  was flagged and the score is below both thresholds, and links are exactly the distinct http and https
  strings anywhere in the proof.
\<close>
theorem submission_scan_outcome:
  assumes "scan = scanText c (proof_text pr)"
    and "flags = moderateUrls (mc_blockedImageHosts c) (mc_parse_url c) (extractUrlsFromProof pr)"
    and "r = scanSubmissionContent c sid uid pr newId now s"
  shows "(succeeds r \<longleftrightarrow> \<not> sr_shouldBlock scan \<and> (\<forall>f \<in> set flags. if_reason f \<noteq> ''blocked_host''))
    \<and> (\<not> succeeds r \<longrightarrow> state_of r = s)
    \<and> (\<forall>i. result r = Inr i \<longrightarrow>
         state_of r = save_item i s
         \<and> (mi_status i = AUTO_APPROVED \<longleftrightarrow> flags = [] \<and> sr_score scan < mediumThreshold c
              \<and> \<not> sr_shouldManualReview scan)
         \<and> (mi_status i = AUTO_APPROVED \<or> mi_status i = MANUAL_REVIEW \<and> mi_priority i = 8)
         \<and> mi_imageUrls i = (if extractUrlsFromProof pr = [] then None else Some (extractUrlsFromProof pr)))"
  using scan_score_nonneg [of c "proof_text pr"] unfolding assms
  by (auto simp: scanSubmissionContent_def Let_def list_ex_iff succeeds_def max_def split: if_splits)

definition demo_proof :: json where
  "demo_proof = JObj [(''img'', JArr [JStr ''HTTP://x/a.png'', JStr ''plain'', JStr ''HTTP://x/a.png''])]"

theorem submission_scan_outcome_witness:
  "\<exists>i. result (scanSubmissionContent (demo_mod_config None) ''s'' ''u'' demo_proof ''m'' 0 no_mod) = Inr i
     \<and> mi_status i = MANUAL_REVIEW \<and> mi_imageUrls i = Some [''HTTP://x/a.png'']"
proof -
  let ?c = "demo_mod_config None"
  have urls: "extractUrlsFromProof demo_proof = [''HTTP://x/a.png'']"
    by (simp add: demo_proof_def extractUrlsFromProof_def is_http_url_def mod_eval)
  have flags: "moderateUrls (mc_blockedImageHosts ?c) (mc_parse_url ?c) [''HTTP://x/a.png'']
      = [\<lparr> if_url = ''HTTP://x/a.png'', if_reason = ''invalid_url'' \<rparr>]"
    by (simp add: moderateUrls_def moderate_url_def mod_eval)
  have none: "\<forall>w \<in> set (mc_blockedKeywords ?c @ default_keywords).
      w \<noteq> [] \<longrightarrow> \<not> includes_str (lower (proof_text demo_proof)) (lower w)"
    by (simp add: default_keywords_def demo_proof_def proof_text_def quote_string_def quote_char_def mod_eval)
  have "\<not> sr_shouldBlock (scanText ?c (proof_text demo_proof))"
    using classifier_scan_free [OF _ _ none] by (simp add: demo_mod_config_def)
  with submission_scan_outcome [OF refl refl refl, where c = ?c and pr = demo_proof and sid = "''s''"
      and uid = "''u''" and newId = "''m''" and now = 0 and s = no_mod] urls flags
  show ?thesis by (auto simp: succeeds_def split: sum.splits)
qed


subsection \<open>Runs\<close>

inductive mod_step :: "moderation_state \<Rightarrow> moderation_state \<Rightarrow> bool" where
  quest: "newId \<notin> mi_id ` set (mod_items s) \<Longrightarrow>
    mod_step s (snd (saveQuestModerationItem qid uid title descr scan newId now s))"
| submission: "newId \<notin> mi_id ` set (mod_items s) \<Longrightarrow>
    mod_step s (state_of (scanSubmissionContent c sid uid pr newId now s))"
| action: "mod_step s (state_of (applyAction itemId act rid notes now s))"
| appeal: "newId \<notin> ma_id ` set (mod_appeals s) \<Longrightarrow>
    mod_step s (state_of (createAppeal uid itemId msg newId now s))"
| resolve: "mod_step s (state_of (resolveAppeal aid ok rid n now s))"

inductive mod_steps :: "moderation_state \<Rightarrow> moderation_state \<Rightarrow> bool" where
  refl: "mod_steps s s"
| more: "mod_steps s t \<Longrightarrow> mod_step t u \<Longrightarrow> mod_steps s u"

definition appeal_ok :: "ModerationItem list \<Rightarrow> ModerationAppeal \<Rightarrow> bool" where
  "appeal_ok items a =
     ((ma_status a = AppealStatus.PENDING \<longleftrightarrow> ma_resolvedBy a = None)
      \<and> (\<exists>i \<in> set items. mi_id i = ma_moderationItemId a \<and> mi_userId i = ma_userId a))"

definition mod_inv :: "moderation_state \<Rightarrow> bool" where
  "mod_inv s =
     (wf_table mi_id (mod_items s) \<and> wf_table ma_id (mod_appeals s)
      \<and> (\<forall>i \<in> set (mod_items s). 0 \<le> mi_priority i \<and> mi_priority i \<le> 100)
      \<and> (\<forall>a \<in> set (mod_appeals s). appeal_ok (mod_items s) a))"

lemma mod_invD:
  assumes "mod_inv s"
  shows "wf_table mi_id (mod_items s)" "wf_table ma_id (mod_appeals s)"
    "i \<in> set (mod_items s) \<Longrightarrow> 0 \<le> mi_priority i \<and> mi_priority i \<le> 100"
    "a \<in> set (mod_appeals s) \<Longrightarrow> appeal_ok (mod_items s) a"
  using assms by (simp_all add: mod_inv_def)

lemma save_fields [simp, frame_simps]:
  "mod_items (save_item i s) = save_row mi_id i (mod_items s)" "mod_appeals (save_item i s) = mod_appeals s"
  "mod_items (save_appeal a s) = mod_items s" "mod_appeals (save_appeal a s) = save_row ma_id a (mod_appeals s)"
  by (simp_all add: save_item_def save_appeal_def)

lemma mod_inv_save_item:
  assumes inv: "mod_inv s" and prio: "0 \<le> mi_priority i" "mi_priority i \<le> 100"
    and same: "\<And>j. j \<in> set (mod_items s) \<Longrightarrow> mi_id j = mi_id i \<Longrightarrow> mi_userId j = mi_userId i"
  shows "mod_inv (save_item i s)"
proof -
  note wf = mod_invD(1) [OF inv]
  have "appeal_ok (save_row mi_id i (mod_items s)) a" if a: "appeal_ok (mod_items s) a" for a
  proof -
    from a obtain j where j: "j \<in> set (mod_items s)" "mi_id j = ma_moderationItemId a" "mi_userId j = ma_userId a"
      by (auto simp: appeal_ok_def)
    have "\<exists>k \<in> set (save_row mi_id i (mod_items s)). mi_id k = ma_moderationItemId a \<and> mi_userId k = ma_userId a"
    proof (cases "mi_id j = mi_id i")
      case True
      with same [OF j(1)] j item_repo.saved_in [OF wf, of i] show ?thesis by metis
    next
      case False
      with j item_repo.unsaved_in [OF wf j(1), of i] show ?thesis by blast
    qed
    with a show ?thesis by (simp add: appeal_ok_def)
  qed
  with inv prio item_repo.all_rows_save [OF wf, of "\<lambda>i. 0 \<le> mi_priority i \<and> mi_priority i \<le> 100" i]
  show ?thesis by (simp add: mod_inv_def wf_save_row)
qed

lemma mod_inv_save_appeal:
  assumes "mod_inv s" and "appeal_ok (mod_items s) a"
  shows "mod_inv (save_appeal a s)"
  using assms appeal_repo.all_rows_save [OF mod_invD(2) [OF assms(1)], of "appeal_ok (mod_items s)" a]
  by (simp add: mod_inv_def wf_save_row)

lemma mod_inv_change_item:
  assumes inv: "mod_inv s" and i: "i \<in> set (mod_items s)"
    and f: "mi_id j = mi_id i" "mi_userId j = mi_userId i" "0 \<le> mi_priority j" "mi_priority j \<le> 100"
  shows "mod_inv (save_item j s)"
  using item_repo.key_unique [OF mod_invD(1) [OF inv] _ i] f by (intro mod_inv_save_item [OF inv]) auto

lemma applyAction_inv:
  assumes inv: "mod_inv s"
  shows "mod_inv (state_of (applyAction itemId act rid notes now s))"
proof (cases "find_row (\<lambda>i. mi_id i = itemId) (mod_items s)")
  case None
  with inv show ?thesis by (simp add: applyAction_def)
next
  case (Some i)
  then have i: "i \<in> set (mod_items s)" by (auto dest: find_row_some)
  note p = mod_invD(3) [OF inv i]
  show ?thesis
    using Some p by (auto simp: applyAction_def Let_def intro!: mod_inv_change_item [OF inv i])
qed

lemma resolveAppeal_inv:
  assumes inv: "mod_inv s"
  shows "mod_inv (state_of (resolveAppeal aid ok rid n now s))"
proof (cases "find_row (\<lambda>a. ma_id a = aid) (mod_appeals s)")
  case None
  with inv show ?thesis by (simp add: resolveAppeal_def)
next
  case (Some a)
  then have a: "a \<in> set (mod_appeals s)" by (auto dest: find_row_some)
  have ok: "appeal_ok (mod_items s) a" by (rule mod_invD(4) [OF inv a])
  then obtain i where i: "i \<in> set (mod_items s)" "mi_id i = ma_moderationItemId a"
    by (auto simp: appeal_ok_def)
  have f: "find_row (\<lambda>i. mi_id i = ma_moderationItemId a) (mod_items s) = Some i"
    using item_repo.find_by_key [OF mod_invD(1) [OF inv] i(1)] i(2) by simp
  let ?i = "i\<lparr>mi_status := ModerationItemStatus.APPROVED, mi_reviewedBy := Some rid,
              mi_reviewedAt := Some now, mi_lastAction := APPROVE\<rparr>"
  have inv1: "mod_inv (save_item ?i s)"
    using mod_invD(3) [OF inv i(1)] by (intro mod_inv_change_item [OF inv i(1)]) auto
  have ok1: "appeal_ok (mod_items (save_item ?i s)) a"
    using mod_invD(4) [OF inv1, of a] a by simp
  show ?thesis
    using Some f ok ok1
    by (auto simp: resolveAppeal_def Let_def appeal_ok_def inv simp del: save_fields(1)
        intro!: mod_inv_save_appeal inv1 split: if_splits)
qed

lemma mod_step_inv: "mod_step s s' \<Longrightarrow> mod_inv s \<Longrightarrow> mod_inv s'"
proof (induction rule: mod_step.induct)
  case (quest newId s qid uid title descr scan now)
  then show ?case
    by (auto simp: saveQuestModerationItem_def Let_def intro!: mod_inv_save_item)
next
  case (submission newId s c sid uid pr now)
  then show ?case
    by (auto simp: scanSubmissionContent_def Let_def intro!: mod_inv_save_item)
next
  case (appeal newId s uid itemId msg now)
  then show ?case
    by (auto simp: createAppeal_def Let_def appeal_ok_def split: option.splits
        intro!: mod_inv_save_appeal dest!: find_row_some)
qed (auto intro: applyAction_inv resolveAppeal_inv)

lemma mod_steps_inv: "mod_steps s s' \<Longrightarrow> mod_inv s \<Longrightarrow> mod_inv s'"
  by (induction rule: mod_steps.induct) (auto intro: mod_step_inv)

lemma resolved_step:
  assumes inv: "mod_inv s" and step: "mod_step s s'"
    and a: "a \<in> set (mod_appeals s)" "ma_status a \<noteq> AppealStatus.PENDING"
  shows "a \<in> set (mod_appeals s')"
  using step inv a
proof (induction rule: mod_step.induct)
  case (appeal newId s uid itemId msg now)
  then show ?case
    by (auto simp: createAppeal_def Let_def set_save_row [OF mod_invD(2)] split: option.splits)
next
  case (resolve s aid ok rid n now)
  note wf = mod_invD(2) [OF resolve(1)]
  show ?case
  proof (cases "find_row (\<lambda>a. ma_id a = aid) (mod_appeals s)")
    case None
    with resolve show ?thesis by (simp add: resolveAppeal_def)
  next
    case (Some b)
    then have b: "b \<in> set (mod_appeals s)" "ma_id b = aid" by (auto dest: find_row_some)
    show ?thesis
    proof (cases "ma_status b = AppealStatus.PENDING")
      case False
      with Some resolve show ?thesis by (simp add: resolveAppeal_def)
    next
      case True
      with resolve b have "ma_id a \<noteq> ma_id b" using appeal_repo.key_unique [OF wf resolve(2) b(1)] by auto
      with Some True resolve show ?thesis
        by (auto simp: resolveAppeal_def Let_def set_save_row [OF wf] split: option.splits)
    qed
  qed
qed (auto simp: saveQuestModerationItem_def scanSubmissionContent_def applyAction_def Let_def split: option.splits)

text \<open>
  In every state a run of the service reaches, an appeal belongs to the user its moderation
  item is about, priorities stay between 0 and 100 however often an item is escalated, and an appeal is
  resolved at most once: once it has been resolved its row never changes and resolving it again fails
  and changes nothing.
\<close>
theorem appeals_resolved_once:
  assumes "mod_inv s" and "mod_steps s s'"
  shows "(\<forall>i \<in> set (mod_items s'). 0 \<le> mi_priority i \<and> mi_priority i \<le> 100)
    \<and> (\<forall>a \<in> set (mod_appeals s'). \<exists>i \<in> set (mod_items s'). mi_id i = ma_moderationItemId a \<and> mi_userId i = ma_userId a)
    \<and> (\<forall>a \<in> set (mod_appeals s). ma_status a \<noteq> AppealStatus.PENDING \<longrightarrow> a \<in> set (mod_appeals s')
        \<and> resolveAppeal (ma_id a) ok rid n now s' = (Inl (BadRequestException ''Appeal already resolved''), s'))"
proof (intro conjI ballI impI)
  note inv' = mod_steps_inv [OF assms(2,1)]
  show "0 \<le> mi_priority i" "mi_priority i \<le> 100" if "i \<in> set (mod_items s')" for i
    using mod_invD(3) [OF inv' that] by auto
  show "\<exists>i \<in> set (mod_items s'). mi_id i = ma_moderationItemId a \<and> mi_userId i = ma_userId a"
    if "a \<in> set (mod_appeals s')" for a
    using mod_invD(4) [OF inv' that] by (simp add: appeal_ok_def)
  show kept: "a \<in> set (mod_appeals s')" if "a \<in> set (mod_appeals s)" "ma_status a \<noteq> AppealStatus.PENDING" for a
    using assms(2,1) that by (induction rule: mod_steps.induct) (auto intro: resolved_step mod_steps_inv)
  show "resolveAppeal (ma_id a) ok rid n now s' = (Inl (BadRequestException ''Appeal already resolved''), s')"
    if "a \<in> set (mod_appeals s)" "ma_status a \<noteq> AppealStatus.PENDING" for a
    using appeal_repo.find_by_key [OF mod_invD(2) [OF inv'] kept [OF that]] that(2)
    by (simp add: resolveAppeal_def)
qed

definition resolved_case :: moderation_state where
  "resolved_case =
     state_of (resolveAppeal ''a'' True ''mod'' None 3
       (state_of (createAppeal ''u'' ''m'' ''please'' ''a'' 2
         (snd (saveQuestModerationItem ''q'' ''u'' ''t'' ''d''
            \<lparr> sr_score = 6/10, sr_keywordHits = [], sr_labels = [], sr_imageFlags = [], sr_shouldBlock = False,
              sr_shouldManualReview = True \<rparr> ''m'' 1 no_mod)))))"

theorem appeals_resolved_once_witness:
  "map ma_status (mod_appeals resolved_case) = [AppealStatus.APPROVED]
    \<and> map mi_status (mod_items resolved_case) = [ModerationItemStatus.APPROVED]
    \<and> resolveAppeal ''a'' False ''mod'' None 9 resolved_case
        = (Inl (BadRequestException ''Appeal already resolved''), resolved_case)"
proof -
  have "mod_inv no_mod" by (simp add: mod_inv_def no_mod_def wf_table_def)
  then have "mod_inv resolved_case"
    unfolding resolved_case_def
    by (intro mod_step_inv [OF mod_step.resolve] mod_step_inv [OF mod_step.appeal] mod_step_inv [OF mod_step.quest])
      (simp_all add: no_mod_def saveQuestModerationItem_def Let_def)
  from appeals_resolved_once [OF this mod_steps.refl, of False "''mod''" None 9]
  have r: "ma_status a \<noteq> AppealStatus.PENDING \<Longrightarrow> resolveAppeal (ma_id a) False ''mod'' None 9 resolved_case
      = (Inl (BadRequestException ''Appeal already resolved''), resolved_case)"
    if "a \<in> set (mod_appeals resolved_case)" for a
    using that by blast
  have s: "map ma_status (mod_appeals resolved_case) = [AppealStatus.APPROVED]"
    "map mi_status (mod_items resolved_case) = [ModerationItemStatus.APPROVED]"
    "map ma_id (mod_appeals resolved_case) = [''a'']"
    by (simp_all add: resolved_case_def resolveAppeal_def createAppeal_def saveQuestModerationItem_def
        no_mod_def find_row_def save_item_def save_appeal_def Let_def)
  with r [of "hd (mod_appeals resolved_case)"] show ?thesis
    by (cases "mod_appeals resolved_case") auto
qed

end
