(* ===== verification/Cache.thy ===== *)
theory Cache
  imports Prelude
begin

text \<open>
  The cache module, \<open>BackEnd/src/modules/cache\<close>: \<open>CacheService\<close> with its key registry, local
  fallback store, tags and locks, the analytics counters, and the three strategies.  The cache manager
  (in memory or Redis) is not under \<open>src/\<close>: it is the argument \<open>B\<close>, a record of its three calls, each
  of which may be rejected; the locale \<open>cache_backend\<close> states what its documentation promises.  The
  service keeps its values and, under tag keys, lists of keys in the same store: \<open>cval\<close>.
\<close>

datatype 'v cval = CVal 'v | CKeys "string list"

record ('b, 'v) backend =
  b_get :: "time \<Rightarrow> string \<Rightarrow> 'b \<Rightarrow> exn + 'v cval option"
  b_set :: "time \<Rightarrow> string \<Rightarrow> 'v cval \<Rightarrow> time option \<Rightarrow> 'b \<Rightarrow> exn + 'b"
  b_del :: "string \<Rightarrow> 'b \<Rightarrow> exn + 'b"

record analytics =
  an_hits :: nat
  an_misses :: nat
  an_get :: nat
  an_set :: nat
  an_del :: nat
  an_errors :: nat

record ('b, 'v) cache_state =
  store :: 'b
  keyRegistry :: "string list"
  fallback :: "string \<Rightarrow> ('v cval \<times> time option) option"
  analytics :: analytics

definition zero_analytics :: analytics where
  "zero_analytics = \<lparr> an_hits = 0, an_misses = 0, an_get = 0, an_set = 0, an_del = 0, an_errors = 0 \<rparr>"

definition recordHit :: "analytics \<Rightarrow> analytics" where
  "recordHit a = a\<lparr>an_hits := an_hits a + 1, an_get := an_get a + 1\<rparr>"

definition recordMiss :: "analytics \<Rightarrow> analytics" where
  "recordMiss a = a\<lparr>an_misses := an_misses a + 1, an_get := an_get a + 1\<rparr>"

definition recordSet :: "analytics \<Rightarrow> analytics" where
  "recordSet a = a\<lparr>an_set := an_set a + 1\<rparr>"

definition recordDel :: "analytics \<Rightarrow> analytics" where
  "recordDel a = a\<lparr>an_del := an_del a + 1\<rparr>"

definition recordError :: "analytics \<Rightarrow> analytics" where
  "recordError a = a\<lparr>an_errors := an_errors a + 1\<rparr>"

subsection \<open>Core methods\<close>

text \<open>\<open>Set.add\<close> and \<open>Set.delete\<close> on the registry.\<close>

definition reg_add :: "string \<Rightarrow> string list \<Rightarrow> string list" where
  "reg_add k ks = (if k \<in> set ks then ks else ks @ [k])"

definition reg_del :: "string \<Rightarrow> string list \<Rightarrow> string list" where
  "reg_del k ks = filter (\<lambda>j. j \<noteq> k) ks"

definition cache_get ::
    "('b, 'v) backend \<Rightarrow> time \<Rightarrow> string \<Rightarrow> ('b, 'v) cache_state \<Rightarrow> 'v cval option \<times> ('b, 'v) cache_state" where
  "cache_get B now key s =
     (case b_get B now key (store s) of
        Inl e \<Rightarrow> (None, s\<lparr>analytics := recordError (analytics s)\<rparr>)
      | Inr (Some v) \<Rightarrow> (Some v, s\<lparr>analytics := recordHit (analytics s)\<rparr>)
      | Inr None \<Rightarrow>
          (case fallback s key of
             None \<Rightarrow> (None, s\<lparr>analytics := recordMiss (analytics s)\<rparr>)
           | Some (v, expiresAt) \<Rightarrow>
               if (case expiresAt of None \<Rightarrow> True | Some t \<Rightarrow> t = 0 \<or> now < t)
               then (Some v, s\<lparr>analytics := recordHit (analytics s)\<rparr>)
               else (None, s\<lparr>fallback := (fallback s)(key := None), analytics := recordMiss (analytics s)\<rparr>)))"

text \<open>\<open>ttl ? ttl * 1000 : undefined\<close>, and the expiry it gives.\<close>

definition fallback_expiry :: "time \<Rightarrow> time option \<Rightarrow> time option" where
  "fallback_expiry now ttl =
     (case ttl of None \<Rightarrow> None | Some t \<Rightarrow> if t = 0 then None else Some (now + t * 1000))"

definition tag_key :: "string \<Rightarrow> string" where
  "tag_key tag = ''cache_tag:'' @ tag"

definition keys_of :: "'v cval option \<Rightarrow> string list" where
  "keys_of v = (case v of Some (CKeys ks) \<Rightarrow> ks | _ \<Rightarrow> [])"

text \<open>A rejected write of the tag list rejects the call; the result says whether it went through.\<close>

definition addTagToKey ::
    "('b, 'v) backend \<Rightarrow> time \<Rightarrow> string \<Rightarrow> string \<Rightarrow> ('b, 'v) cache_state \<Rightarrow> bool \<times> ('b, 'v) cache_state" where
  "addTagToKey B now key tag s =
     (let (v, s1) = cache_get B now (tag_key tag) s; mapped = keys_of v
      in if key \<in> set mapped then (True, s1)
         else (case b_set B now (tag_key tag) (CKeys (mapped @ [key])) (Some 0) (store s1) of
                 Inl e \<Rightarrow> (False, s1)
               | Inr b \<Rightarrow> (True, s1\<lparr>store := b\<rparr>)))"

fun add_tags ::
    "('b, 'v) backend \<Rightarrow> time \<Rightarrow> string \<Rightarrow> string list \<Rightarrow> ('b, 'v) cache_state \<Rightarrow> bool \<times> ('b, 'v) cache_state" where
  "add_tags B now key [] s = (True, s)"
| "add_tags B now key (t # ts) s =
     (let (ok, s1) = addTagToKey B now key t s; (ok', s2) = add_tags B now key ts s1 in (ok \<and> ok', s2))"

text \<open>The error path of \<open>set\<close> writes the fallback once more and keeps the key registered.\<close>

definition cache_set ::
    "('b, 'v) backend \<Rightarrow> time \<Rightarrow> string \<Rightarrow> 'v cval \<Rightarrow> time option \<Rightarrow> string list
     \<Rightarrow> ('b, 'v) cache_state \<Rightarrow> ('b, 'v) cache_state" where
  "cache_set B now key v ttl tags s =
     (let failed = (\<lambda>s. s\<lparr>keyRegistry := reg_add key (keyRegistry s),
                          fallback := (fallback s)(key := Some (v, fallback_expiry now ttl)),
                          analytics := recordError (analytics s)\<rparr>)
      in case b_set B now key v ttl (store s) of
           Inl e \<Rightarrow> failed s
         | Inr b \<Rightarrow>
             (let s1 = s\<lparr>store := b, keyRegistry := reg_add key (keyRegistry s),
                         analytics := recordSet (analytics s),
                         fallback := (fallback s)(key := Some (v, fallback_expiry now ttl))\<rparr>;
                  (ok, s2) = add_tags B now key tags s1
              in if ok then s2 else failed s2))"

definition cache_del :: "('b, 'v) backend \<Rightarrow> string \<Rightarrow> ('b, 'v) cache_state \<Rightarrow> ('b, 'v) cache_state" where
  "cache_del B key s =
     (case b_del B key (store s) of
        Inl e \<Rightarrow> s\<lparr>keyRegistry := reg_del key (keyRegistry s), fallback := (fallback s)(key := None),
                  analytics := recordError (analytics s)\<rparr>
      | Inr b \<Rightarrow> s\<lparr>store := b, keyRegistry := reg_del key (keyRegistry s),
                  fallback := (fallback s)(key := None), analytics := recordDel (analytics s)\<rparr>)"

definition deletePattern :: "('b, 'v) backend \<Rightarrow> string \<Rightarrow> ('b, 'v) cache_state \<Rightarrow> ('b, 'v) cache_state" where
  "deletePattern B pattern s =
     fold (cache_del B) (filter (\<lambda>k. starts_with k pattern) (keyRegistry s)) s"

definition invalidatePrefix :: "('b, 'v) backend \<Rightarrow> string \<Rightarrow> ('b, 'v) cache_state \<Rightarrow> ('b, 'v) cache_state" where
  "invalidatePrefix B prefix s = deletePattern B (prefix @ '':'') s"

definition invalidateByTag ::
    "('b, 'v) backend \<Rightarrow> time \<Rightarrow> string \<Rightarrow> ('b, 'v) cache_state \<Rightarrow> ('b, 'v) cache_state" where
  "invalidateByTag B now tag s =
     (let (v, s1) = cache_get B now (tag_key tag) s; keys = keys_of v
      in if length keys > 0 then cache_del B (tag_key tag) (fold (cache_del B) keys s1) else s1)"

text \<open>The manager resets itself when it can; otherwise every registered key is deleted from it.\<close>

definition cache_clear ::
    "('b, 'v) backend \<Rightarrow> ('b \<Rightarrow> 'b) option \<Rightarrow> ('b, 'v) cache_state \<Rightarrow> ('b, 'v) cache_state" where
  "cache_clear B reset s =
     (let b = (case reset of
                 Some f \<Rightarrow> f (store s)
               | None \<Rightarrow> fold (\<lambda>k b. case b_del B k b of Inl e \<Rightarrow> b | Inr b' \<Rightarrow> b') (keyRegistry s) (store s))
      in s\<lparr>store := b, keyRegistry := [], fallback := (\<lambda>_. None)\<rparr>)"

definition trackedKeys :: "string option \<Rightarrow> ('b, 'v) cache_state \<Rightarrow> nat \<times> string list" where
  "trackedKeys prefix s =
     (length (keyRegistry s),
      case prefix of None \<Rightarrow> [] | Some p \<Rightarrow> filter (\<lambda>k. starts_with k p) (keyRegistry s))"

subsection \<open>Locks\<close>

text \<open>
  The lock with a Redis client is the client's; here is the path without one.  The value of a lock is
  its UUID, an argument; the timer that \<open>acquireLock\<close> starts calls \<open>releaseLock\<close> with it.
\<close>

definition lock_key :: "string \<Rightarrow> string" where
  "lock_key key = ''lock:'' @ key"

definition acquireLock ::
    "time \<Rightarrow> string \<Rightarrow> time \<Rightarrow> 'v \<Rightarrow> ('b, 'v) cache_state \<Rightarrow> 'v option \<times> ('b, 'v) cache_state" where
  "acquireLock now key ttlMs lockValue s =
     (let lk = lock_key key
      in if lk \<in> set (keyRegistry s) \<or> fallback s lk \<noteq> None then (None, s)
         else (Some lockValue,
               s\<lparr>keyRegistry := reg_add lk (keyRegistry s),
                 fallback := (fallback s)(lk := Some (CVal lockValue, Some (now + ttlMs)))\<rparr>))"

definition releaseLock :: "string \<Rightarrow> 'v \<Rightarrow> ('b, 'v) cache_state \<Rightarrow> bool \<times> ('b, 'v) cache_state" where
  "releaseLock key lockValue s =
     (let lk = lock_key key
      in case fallback s lk of
           None \<Rightarrow> (False, s)
         | Some (v, _) \<Rightarrow>
             if v = CVal lockValue
             then (True, s\<lparr>keyRegistry := reg_del lk (keyRegistry s), fallback := (fallback s)(lk := None)\<rparr>)
             else (False, s))"

subsection \<open>Strategies\<close>

text \<open>\<open>fn\<close> is the loader: it may fail, and has a state of its own.\<close>

definition cache_wrap ::
    "('b, 'v) backend \<Rightarrow> time \<Rightarrow> string \<Rightarrow> ('w \<Rightarrow> (exn + 'v) \<times> 'w) \<Rightarrow> time option \<Rightarrow> string option \<Rightarrow> string list
     \<Rightarrow> ('b, 'v) cache_state \<Rightarrow> 'w \<Rightarrow> (exn + 'v cval) \<times> ('b, 'v) cache_state \<times> 'w" where
  "cache_wrap B now key fn ttl prefix tags s w =
     (let finalKey = (case prefix of None \<Rightarrow> key | Some p \<Rightarrow> if p = [] then key else p @ '':'' @ key)
      in case cache_get B now finalKey s of
           (Some v, s1) \<Rightarrow> (Inr v, s1, w)
         | (None, s1) \<Rightarrow>
             (case fn w of
                (Inl e, w1) \<Rightarrow> (Inl e, s1, w1)
              | (Inr v, w1) \<Rightarrow> (Inr (CVal v), cache_set B now finalKey (CVal v) ttl tags s1, w1)))"

definition cache_aside ::
    "('b, 'v) backend \<Rightarrow> time \<Rightarrow> string \<Rightarrow> ('w \<Rightarrow> (exn + 'v option) \<times> 'w) \<Rightarrow> time option \<Rightarrow> string list
     \<Rightarrow> ('b, 'v) cache_state \<Rightarrow> 'w \<Rightarrow> (exn + 'v cval option) \<times> ('b, 'v) cache_state \<times> 'w" where
  "cache_aside B now key fetchFn ttl tags s w =
     (case cache_get B now key s of
        (Some v, s1) \<Rightarrow> (Inr (Some v), s1, w)
      | (None, s1) \<Rightarrow>
          (case fetchFn w of
             (Inl e, w1) \<Rightarrow> (Inl e, s1, w1)
           | (Inr None, w1) \<Rightarrow> (Inr None, s1, w1)
           | (Inr (Some v), w1) \<Rightarrow> (Inr (Some (CVal v)), cache_set B now key (CVal v) ttl tags s1, w1)))"

definition write_through ::
    "('b, 'v) backend \<Rightarrow> time \<Rightarrow> string \<Rightarrow> 'v \<Rightarrow> ('v \<Rightarrow> 'w \<Rightarrow> (exn + 'v) \<times> 'w) \<Rightarrow> time option \<Rightarrow> string list
     \<Rightarrow> ('b, 'v) cache_state \<Rightarrow> 'w \<Rightarrow> (exn + 'v) \<times> ('b, 'v) cache_state \<times> 'w" where
  "write_through B now key v saveFn ttl tags s w =
     (case saveFn v w of
        (Inl e, w1) \<Rightarrow> (Inl e, s, w1)
      | (Inr saved, w1) \<Rightarrow> (Inr saved, cache_set B now key (CVal saved) ttl tags s, w1))"

definition warm_key ::
    "('b, 'v) backend \<Rightarrow> time \<Rightarrow> string \<Rightarrow> ('w \<Rightarrow> (exn + 'v option) \<times> 'w) \<Rightarrow> time option \<Rightarrow> string list
     \<Rightarrow> ('b, 'v) cache_state \<Rightarrow> 'w \<Rightarrow> ('b, 'v) cache_state \<times> 'w" where
  "warm_key B now key fetchFn ttl tags s w =
     (case fetchFn w of
        (Inr (Some v), w1) \<Rightarrow> (cache_set B now key (CVal v) ttl tags s, w1)
      | (_, w1) \<Rightarrow> (s, w1))"

end
