(* ===== verification/Quests.thy ===== *)
theory Quests
  imports Entities Moderation Cache "HOL-Library.List_Lexorder" "HOL-Library.Char_ord"
begin

text \<open>
  The quests module, \<open>BackEnd/src/modules/quests\<close>: \<open>QuestsService\<close> on its table, the cache service and
  the moderation service.  An insert that leaves out a column the entity declares without \<open>nullable\<close>
  or a default, or that stores a fraction in its integer column \<open>rewardAmount\<close>, is rejected by the
  database.  Bounds on the reward in a query are whole numbers.  Text is ordered by character code.
\<close>

subsection \<open>Data\<close>

datatype QuestStatus = DRAFT | ACTIVE | COMPLETED | ARCHIVED

fun show_QuestStatus :: "QuestStatus \<Rightarrow> string" where
  "show_QuestStatus DRAFT = ''draft''"
| "show_QuestStatus ACTIVE = ''active''"
| "show_QuestStatus COMPLETED = ''completed''"
| "show_QuestStatus ARCHIVED = ''archived''"

record CreateQuestDto =
  cq_title :: string
  cq_description :: string
  cq_rewardAmount :: rat
  cq_status :: "QuestStatus option"
  cq_maxCompletions :: "int option"
  cq_startDate :: "time option"
  cq_endDate :: "time option"

record UpdateQuestDto =
  uq_title :: "string option"
  uq_description :: "string option"
  uq_rewardAmount :: "rat option"
  uq_status :: "QuestStatus option"
  uq_maxCompletions :: "int option"
  uq_startDate :: "time option"
  uq_endDate :: "time option"

record QueryQuestsDto =
  qq_status :: "QuestStatus option"
  qq_creatorAddress :: "string option"
  qq_minReward :: "int option"
  qq_maxReward :: "int option"
  qq_page :: "nat option"
  qq_limit :: "nat option"
  qq_sortBy :: "string option"
  qq_descending :: "bool option"

record QuestResponseDto =
  qr_id :: id
  qr_title :: string
  qr_description :: string
  qr_rewardAmount :: int
  qr_status :: string
  qr_createdBy :: string
  qr_createdAt :: time
  qr_updatedAt :: time

record PaginatedQuestsResponseDto =
  pq_data :: "QuestResponseDto list"
  pq_total :: nat
  pq_page :: nat
  pq_limit :: nat
  pq_totalPages :: nat

definition fromEntity :: "Quest \<Rightarrow> QuestResponseDto" where
  "fromEntity q = \<lparr> qr_id = q_id q, qr_title = q_title q, qr_description = q_description q,
     qr_rewardAmount = q_rewardAmount q, qr_status = q_status q, qr_createdBy = q_createdBy q,
     qr_createdAt = q_createdAt q, qr_updatedAt = q_updatedAt q \<rparr>"

datatype quest_value = OneQuest QuestResponseDto | QuestPage PaginatedQuestsResponseDto

datatype quest_event =
    QuestCreatedEvent id string string string
  | QuestUpdatedEvent id UpdateQuestDto
  | QuestUpdatedPlain id UpdateQuestDto time
  | QuestDeletedEvent id string

record 'b quests_state =
  quests :: "Quest list"
  q_cache :: "('b, quest_value) cache_state"
  q_moderation :: moderation_state
  q_events :: "quest_event list"

record quest_env =
  qe_now :: time
  qe_newId :: id
  qe_modId :: id

subsection \<open>Keys and storage\<close>

definition QUESTS_KEY :: string where
  "QUESTS_KEY = ''quests''"

definition detail_key :: "id \<Rightarrow> string" where
  "detail_key i = ''quest_detail:'' @ i"

definition TTL_MEDIUM :: int where
  "TTL_MEDIUM = 600"

definition TTL_LONG :: int where
  "TTL_LONG = 3600"

text \<open>\<open>JSON.stringify\<close> of the query object: properties that are \<open>undefined\<close> are left out.\<close>

definition query_key :: "QueryQuestsDto \<Rightarrow> string" where
  "query_key q =
     QUESTS_KEY @ '':'' @ json_stringify (JObj
       ((case qq_status q of None \<Rightarrow> [] | Some st \<Rightarrow> [(''status'', JStr (show_QuestStatus st))])
        @ (case qq_creatorAddress q of None \<Rightarrow> [] | Some a \<Rightarrow> [(''creatorAddress'', JStr a)])
        @ (case qq_minReward q of None \<Rightarrow> [] | Some r \<Rightarrow> [(''minReward'', JNum (show_int r))])
        @ (case qq_maxReward q of None \<Rightarrow> [] | Some r \<Rightarrow> [(''maxReward'', JNum (show_int r))])
        @ [(''page'', JNum (show_nat (coalesce (qq_page q) 1))),
           (''limit'', JNum (show_nat (coalesce (qq_limit q) 10))),
           (''sortBy'', JStr (coalesce (qq_sortBy q) ''createdAt'')),
           (''sortOrder'', JStr (if coalesce (qq_descending q) True then ''DESC'' else ''ASC''))]))"

definition not_null_violation :: exn where
  "not_null_violation = JsError ''null value in column violates not-null constraint''"

text \<open>A number in an integer column.\<close>

definition to_int_column :: "rat \<Rightarrow> exn + int" where
  "to_int_column r =
     (if rat_of_int \<lfloor>r\<rfloor> = r then Inr \<lfloor>r\<rfloor> else Inl (JsError ''invalid input syntax for type integer''))"

text \<open>A new quest as the service hands it to \<open>save\<close>: \<open>None\<close> is a property that is \<open>undefined\<close>.\<close>

record new_quest =
  nq_title :: "string option"
  nq_description :: "string option"
  nq_contractTaskId :: "string option"
  nq_rewardAsset :: "string option"
  nq_rewardAmount :: "rat option"
  nq_status :: "string option"
  nq_verifierType :: "string option"
  nq_createdBy :: "string option"
  nq_maxCompletions :: "int option"
  nq_startDate :: "time option"
  nq_endDate :: "time option"

definition insert_quest :: "new_quest \<Rightarrow> id \<Rightarrow> time \<Rightarrow> exn + Quest" where
  "insert_quest n newId now =
     (case (nq_title n, nq_description n, nq_contractTaskId n, nq_rewardAsset n, nq_rewardAmount n,
            nq_verifierType n, nq_createdBy n) of
        (Some t, Some d, Some c, Some a, Some r, Some v, Some by) \<Rightarrow>
          (case to_int_column r of
             Inl e \<Rightarrow> Inl e
           | Inr amount \<Rightarrow>
               Inr \<lparr> q_id = newId, q_title = t, q_description = d, q_contractTaskId = c,
                     q_rewardAsset = a, q_rewardAmount = amount, q_deadline = None,
                     q_status = coalesce (nq_status n) ''ACTIVE'', q_verifierType = v,
                     q_createdBy = by, q_createdAt = now, q_updatedAt = now,
                     q_creatorAddress = None, q_currentCompletions = 0,
                     q_maxCompletions = nq_maxCompletions n, q_startDate = nq_startDate n,
                     q_endDate = nq_endDate n \<rparr>)
      | _ \<Rightarrow> Inl not_null_violation)"

subsection \<open>Operations\<close>

definition dates_ok :: "time option \<Rightarrow> time option \<Rightarrow> bool" where
  "dates_ok start end' = (case (start, end') of (Some a, Some b) \<Rightarrow> \<not> b \<le> a | _ \<Rightarrow> True)"

definition moderated_text :: "string \<Rightarrow> string \<Rightarrow> string" where
  "moderated_text title description = title @ [CHR 0x0A, CHR 0x0A] @ description"

definition moderation_blocked :: exn where
  "moderation_blocked = BadRequestException ''Content violates platform moderation rules''"

definition record_moderation ::
    "Quest \<Rightarrow> string \<Rightarrow> ScanResult \<Rightarrow> quest_env \<Rightarrow> 'b quests_state \<Rightarrow> 'b quests_state" where
  "record_moderation q user scan env s =
     s\<lparr>q_moderation := snd (saveQuestModerationItem (q_id q) user (q_title q) (q_description q) scan
                              (qe_modId env) (qe_now env) (q_moderation s))\<rparr>"

definition create_quest ::
    "('b, quest_value) backend \<Rightarrow> mod_config \<Rightarrow> CreateQuestDto \<Rightarrow> string \<Rightarrow> quest_env \<Rightarrow> 'b quests_state
     \<Rightarrow> ('b quests_state, QuestResponseDto) outcome" where
  "create_quest B c dto creator env s =
     (if \<not> dates_ok (cq_startDate dto) (cq_endDate dto)
      then (Inl (BadRequestException ''End date must be after start date''), s)
      else
        (let scan = scanText c (moderated_text (cq_title dto) (cq_description dto))
         in if sr_shouldBlock scan then (Inl moderation_blocked, s)
            else
              (case insert_quest \<lparr> nq_title = Some (cq_title dto), nq_description = Some (cq_description dto),
                      nq_contractTaskId = None, nq_rewardAsset = None,
                      nq_rewardAmount = Some (cq_rewardAmount dto),
                      nq_status = map_option show_QuestStatus (cq_status dto), nq_verifierType = None,
                      nq_createdBy = Some creator, nq_maxCompletions = cq_maxCompletions dto,
                      nq_startDate = cq_startDate dto, nq_endDate = cq_endDate dto \<rparr>
                      (qe_newId env) (qe_now env) of
                 Inl e \<Rightarrow> (Inl e, s)
               | Inr q \<Rightarrow>
                   (let s1 = record_moderation q creator scan env (s\<lparr>quests := save_row q_id q (quests s)\<rparr>)
                    in (Inr (fromEntity q),
                        s1\<lparr>q_events := q_events s1 @ [QuestCreatedEvent (q_id q) (q_title q) (q_createdBy q)
                                                         (show_int (q_rewardAmount q))],
                           q_cache := deletePattern B QUESTS_KEY (q_cache s1)\<rparr>)))))"

text \<open>\<open>ORDER BY quest.field\<close>; rows with equal keys keep the order of the table.\<close>

definition order_by :: "bool \<Rightarrow> ('r \<Rightarrow> 'k::linorder) \<Rightarrow> 'r list \<Rightarrow> 'r list" where
  "order_by desc f rows = (if desc then rev (sort_key f (rev rows)) else sort_key f rows)"

definition order_quests :: "string \<Rightarrow> bool \<Rightarrow> Quest list \<Rightarrow> Quest list" where
  "order_quests field desc rows =
     (if field = ''updatedAt'' then order_by desc q_updatedAt rows
      else if field = ''title'' then order_by desc q_title rows
      else if field = ''rewardAmount'' then order_by desc q_rewardAmount rows
      else if field = ''status'' then order_by desc q_status rows
      else order_by desc q_createdAt rows)"

definition allowedSortFields :: "string list" where
  "allowedSortFields = [''createdAt'', ''updatedAt'', ''title'', ''rewardAmount'', ''status'']"

definition quest_where :: "QueryQuestsDto \<Rightarrow> Quest \<Rightarrow> bool" where
  "quest_where d q =
     ((case qq_status d of None \<Rightarrow> True | Some st \<Rightarrow> q_status q = show_QuestStatus st)
      \<and> (if truthy (qq_creatorAddress d) then q_createdBy q = the (qq_creatorAddress d) else True)
      \<and> (case qq_minReward d of None \<Rightarrow> True | Some r \<Rightarrow> r \<le> q_rewardAmount q)
      \<and> (case qq_maxReward d of None \<Rightarrow> True | Some r \<Rightarrow> q_rewardAmount q \<le> r))"

definition query_page :: "QueryQuestsDto \<Rightarrow> Quest list \<Rightarrow> PaginatedQuestsResponseDto" where
  "query_page d t =
     (let page = coalesce (qq_page d) 1; limit = coalesce (qq_limit d) 10;
          sortBy = coalesce (qq_sortBy d) ''createdAt'';
          sortField = (if sortBy \<in> set allowedSortFields then sortBy else ''createdAt'');
          rows = filter (quest_where d) t
      in \<lparr> pq_data = map fromEntity
             (page_of page limit (order_quests sortField (coalesce (qq_descending d) True) rows)),
           pq_total = length rows, pq_page = page, pq_limit = limit,
           pq_totalPages = ceil_div (length rows) limit \<rparr>)"

text \<open>What the cache holds under the key is answered as it is.\<close>

definition findAll ::
    "('b, quest_value) backend \<Rightarrow> time \<Rightarrow> QueryQuestsDto \<Rightarrow> 'b quests_state \<Rightarrow> quest_value cval \<times> 'b quests_state" where
  "findAll B now d s =
     (case cache_get B now (query_key d) (q_cache s) of
        (Some v, c) \<Rightarrow> (v, s\<lparr>q_cache := c\<rparr>)
      | (None, c) \<Rightarrow>
          (let v = CVal (QuestPage (query_page d (quests s)))
           in (v, s\<lparr>q_cache := cache_set B now (query_key d) v (Some (TTL_MEDIUM * 1000)) [] c\<rparr>)))"

definition quest_not_found :: "id \<Rightarrow> exn" where
  "quest_not_found i = NotFoundException (''Quest with ID '' @ i @ '' not found'')"

definition findOneQuest ::
    "('b, quest_value) backend \<Rightarrow> time \<Rightarrow> id \<Rightarrow> 'b quests_state \<Rightarrow> ('b quests_state, quest_value cval) outcome" where
  "findOneQuest B now i s =
     (case cache_get B now (detail_key i) (q_cache s) of
        (Some v, c) \<Rightarrow> (Inr v, s\<lparr>q_cache := c\<rparr>)
      | (None, c) \<Rightarrow>
          (case find_row (\<lambda>q. q_id q = i) (quests s) of
             None \<Rightarrow> (Inl (quest_not_found i), s\<lparr>q_cache := c\<rparr>)
           | Some q \<Rightarrow>
               (let v = CVal (OneQuest (fromEntity q))
                in (Inr v, s\<lparr>q_cache := cache_set B now (detail_key i) v (Some (TTL_LONG * 1000)) [] c\<rparr>))))"

definition quest_transitions :: "string \<Rightarrow> string list option" where
  "quest_transitions st =
     (if st = ''DRAFT'' then Some [''ACTIVE'', ''ARCHIVED'']
      else if st = ''ACTIVE'' then Some [''COMPLETED'', ''ARCHIVED'']
      else if st = ''COMPLETED'' then Some [''ARCHIVED'']
      else if st = ''ARCHIVED'' then Some []
      else None)"

definition validateQuestTransition :: "string \<Rightarrow> string \<Rightarrow> exn + unit" where
  "validateQuestTransition cur new =
     (case quest_transitions cur of
        Some ts \<Rightarrow> if List.member ts new then Inr ()
                  else Inl (BadRequestException (''Cannot transition from '' @ cur @ '' to '' @ new))
      | None \<Rightarrow> Inl (BadRequestException (''Cannot transition from '' @ cur @ '' to '' @ new)))"

text \<open>
  \<open>Object.assign(quest, updateQuestDto)\<close>, the reward already converted for its column; \<open>save\<close> sets
  \<open>updatedAt\<close> when a column has changed.
\<close>

definition assign_update :: "UpdateQuestDto \<Rightarrow> int \<Rightarrow> time \<Rightarrow> Quest \<Rightarrow> Quest" where
  "assign_update dto amount now q =
     (let q1 = q\<lparr>q_title := coalesce (uq_title dto) (q_title q),
                 q_description := coalesce (uq_description dto) (q_description q),
                 q_rewardAmount := amount,
                 q_status := (case uq_status dto of None \<Rightarrow> q_status q | Some st \<Rightarrow> show_QuestStatus st),
                 q_maxCompletions := (case uq_maxCompletions dto of None \<Rightarrow> q_maxCompletions q | Some m \<Rightarrow> Some m),
                 q_startDate := (case uq_startDate dto of None \<Rightarrow> q_startDate q | Some t \<Rightarrow> Some t),
                 q_endDate := (case uq_endDate dto of None \<Rightarrow> q_endDate q | Some t \<Rightarrow> Some t)\<rparr>
      in if q1 = q then q else q1\<lparr>q_updatedAt := now\<rparr>)"

text \<open>The caches a change invalidates: every list page, and the page of the quest.\<close>

definition invalidate_quest :: "('b, quest_value) backend \<Rightarrow> id \<Rightarrow> 'b quests_state \<Rightarrow> 'b quests_state" where
  "invalidate_quest B i s =
     s\<lparr>q_cache := cache_del B (detail_key i) (deletePattern B QUESTS_KEY (q_cache s))\<rparr>"

text \<open>What an update reads and checks before it writes: the quest, the reward to store, the scan.\<close>

definition update_check ::
    "mod_config \<Rightarrow> id \<Rightarrow> UpdateQuestDto \<Rightarrow> string \<Rightarrow> 'b quests_state \<Rightarrow> exn + (Quest \<times> int \<times> ScanResult)" where
  "update_check c i dto user s =
     (case find_row (\<lambda>q. q_id q = i) (quests s) of
        None \<Rightarrow> Inl (quest_not_found i)
      | Some q \<Rightarrow>
          if q_createdBy q \<noteq> user
          then Inl (ForbiddenException ''You can only update quests you created'')
          else
            (case (case uq_status dto of
                     None \<Rightarrow> Inr ()
                   | Some st \<Rightarrow> if show_QuestStatus st \<noteq> q_status q
                              then validateQuestTransition (q_status q) (show_QuestStatus st) else Inr ()) of
               Inl e \<Rightarrow> Inl e
             | Inr _ \<Rightarrow>
                 if \<not> dates_ok (uq_startDate dto) (uq_endDate dto)
                 then Inl (BadRequestException ''End date must be after start date'')
                 else
                   (let scan = scanText c (moderated_text (coalesce (uq_title dto) (q_title q))
                                             (coalesce (uq_description dto) (q_description q)))
                    in if sr_shouldBlock scan then Inl moderation_blocked
                       else
                         (case (case uq_rewardAmount dto of None \<Rightarrow> Inr (q_rewardAmount q)
                                | Some r \<Rightarrow> to_int_column r) of
                            Inl e \<Rightarrow> Inl e
                          | Inr amount \<Rightarrow> Inr (q, amount, scan)))))"

definition update_quest ::
    "('b, quest_value) backend \<Rightarrow> mod_config \<Rightarrow> id \<Rightarrow> UpdateQuestDto \<Rightarrow> string \<Rightarrow> quest_env \<Rightarrow> 'b quests_state
     \<Rightarrow> ('b quests_state, QuestResponseDto) outcome" where
  "update_quest B c i dto user env s =
     (case update_check c i dto user s of
        Inl e \<Rightarrow> (Inl e, s)
      | Inr (q, amount, scan) \<Rightarrow>
          (let q' = assign_update dto amount (qe_now env) q;
               s1 = record_moderation q' user scan env (s\<lparr>quests := save_row q_id q' (quests s)\<rparr>);
               s2 = invalidate_quest B i (s1\<lparr>q_events := q_events s1 @ [QuestUpdatedEvent i dto]\<rparr>)
           in (Inr (fromEntity q'),
               s2\<lparr>q_events := q_events s2 @ [QuestUpdatedPlain i dto (qe_now env)]\<rparr>)))"

definition remove_quest ::
    "('b, quest_value) backend \<Rightarrow> id \<Rightarrow> string \<Rightarrow> 'b quests_state \<Rightarrow> ('b quests_state, unit) outcome" where
  "remove_quest B i user s =
     (case find_row (\<lambda>q. q_id q = i) (quests s) of
        None \<Rightarrow> (Inl (quest_not_found i), s)
      | Some q \<Rightarrow>
          if q_createdBy q \<noteq> user
          then (Inl (ForbiddenException ''You can only delete quests you created''), s)
          else (Inr (), invalidate_quest B i
                  (s\<lparr>quests := remove_row q_id i (quests s),
                     q_events := q_events s @ [QuestDeletedEvent i (q_createdBy q)]\<rparr>)))"

end
