(* ===== verification/CacheProps.thy ===== *)
theory CacheProps
  imports Cache
begin

text \<open>
  The contract of the cache manager, what \<open>CacheService\<close> makes of it, and what its clients may rely on:
  the locale \<open>cache_service\<close> is the interface the quests module uses, and every backend that keeps the
  contract of \<open>cache_backend\<close> gives it.
\<close>

subsection \<open>The interface clients use\<close>

locale cache_service =
  fixes peek :: "time \<Rightarrow> string \<Rightarrow> 's \<Rightarrow> 'v cval option"
    and fetch :: "time \<Rightarrow> string \<Rightarrow> 's \<Rightarrow> 'v cval option \<times> 's"
    and put :: "time \<Rightarrow> string \<Rightarrow> 'v cval \<Rightarrow> time option \<Rightarrow> 's \<Rightarrow> 's"
    and drop_key :: "string \<Rightarrow> 's \<Rightarrow> 's"
    and drop_pattern :: "string \<Rightarrow> 's \<Rightarrow> 's"
    and tracked :: "'s \<Rightarrow> bool"
  assumes fetch_peek: "fst (fetch now k s) = peek now k s"
    and fetch_keeps: "peek t j (snd (fetch now k s)) = Some v \<Longrightarrow> peek t j s = Some v"
    and put_same: "peek t k (put now k v ttl s) = Some w \<Longrightarrow> w = v"
    and put_other: "j \<noteq> k \<Longrightarrow> peek t j (put now k v ttl s) = peek t j s"
    and drop_same: "peek t k (drop_key k s) = None"
    and drop_other: "j \<noteq> k \<Longrightarrow> peek t j (drop_key k s) = peek t j s"
    and pattern_matching: "tracked s \<Longrightarrow> starts_with k p \<Longrightarrow> peek t k (drop_pattern p s) = None"
    and pattern_other: "\<not> starts_with k p \<Longrightarrow> peek t k (drop_pattern p s) = peek t k s"
    and tracked_fetch: "tracked s \<Longrightarrow> tracked (snd (fetch now k s))"
    and tracked_put: "tracked s \<Longrightarrow> tracked (put now k v ttl s)"
    and tracked_drop: "tracked s \<Longrightarrow> tracked (drop_key k s)"
    and tracked_pattern: "tracked s \<Longrightarrow> tracked (drop_pattern p s)"
begin

text \<open>A statement about every cached value holds after each operation.\<close>

definition all_cached :: "(string \<Rightarrow> 'v cval \<Rightarrow> bool) \<Rightarrow> 's \<Rightarrow> bool" where
  "all_cached P s = (\<forall>t k v. peek t k s = Some v \<longrightarrow> P k v)"

lemma all_cachedD: "all_cached P s \<Longrightarrow> peek t k s = Some v \<Longrightarrow> P k v"
  by (auto simp: all_cached_def)

lemma all_cached_fetch: "all_cached P s \<Longrightarrow> all_cached P (snd (fetch now k s))"
  by (auto simp: all_cached_def dest: fetch_keeps)

lemma all_cached_put:
  assumes "all_cached P s" and "P k v"
  shows "all_cached P (put now k v ttl s)"
  unfolding all_cached_def
proof (intro allI impI)
  fix t j w assume p: "peek t j (put now k v ttl s) = Some w"
  show "P j w"
  proof (cases "j = k")
    case True
    with p put_same [of t k now v ttl s w] assms(2) show ?thesis by simp
  next
    case False
    with p put_other [OF False, of t now v ttl s] assms(1) show ?thesis by (simp add: all_cached_def)
  qed
qed

text \<open>After keys have been dropped, the statement may be weakened for them.\<close>

lemma all_cached_drop:
  assumes "all_cached P s" and "\<And>j w. j \<noteq> k \<Longrightarrow> P j w \<Longrightarrow> Q j w"
  shows "all_cached Q (drop_key k s)"
  unfolding all_cached_def
proof (intro allI impI)
  fix t j w assume p: "peek t j (drop_key k s) = Some w"
  then have "j \<noteq> k" using drop_same [of t k s] by auto
  with p drop_other [OF this, of t s] assms show "Q j w" by (auto simp: all_cached_def)
qed

lemma all_cached_pattern:
  assumes "all_cached P s" and "tracked s" and "\<And>j w. \<not> starts_with j p \<Longrightarrow> P j w \<Longrightarrow> Q j w"
  shows "all_cached Q (drop_pattern p s)"
  unfolding all_cached_def
proof (intro allI impI)
  fix t j w assume q: "peek t j (drop_pattern p s) = Some w"
  then have "\<not> starts_with j p" using pattern_matching [OF assms(2), of j p t] by auto
  with q pattern_other [OF this, of t s] assms show "Q j w" by (auto simp: all_cached_def)
qed

end

subsection \<open>The contract of the cache manager\<close>

definition expired_at :: "time \<Rightarrow> time \<Rightarrow> time option \<Rightarrow> bool" where
  "expired_at t now ttl = (case ttl of None \<Rightarrow> False | Some d \<Rightarrow> d \<noteq> 0 \<and> now + d < t)"

locale cache_backend =
  fixes B :: "('b, 'v) backend"
  assumes get_reliable: "\<exists>r. b_get B now k b = Inr r"
    and set_reliable: "\<exists>b'. b_set B now k v ttl b = Inr b'"
    and del_reliable: "\<exists>b'. b_del B k b = Inr b'"
    and get_set: "b_set B now k v ttl b = Inr b' \<Longrightarrow>
      b_get B t k b' = Inr (if expired_at t now ttl then None else Some v)"
    and get_set_other: "b_set B now k v ttl b = Inr b' \<Longrightarrow> j \<noteq> k \<Longrightarrow> b_get B t j b' = b_get B t j b"
    and get_del: "b_del B k b = Inr b' \<Longrightarrow> b_get B t k b' = Inr None"
    and get_del_other: "b_del B k b = Inr b' \<Longrightarrow> j \<noteq> k \<Longrightarrow> b_get B t j b' = b_get B t j b"

text \<open>The manager that keeps its entries in memory.\<close>

definition memory_backend :: "(string \<Rightarrow> ('v cval \<times> time option) option, 'v) backend" where
  "memory_backend =
     \<lparr> b_get = (\<lambda>t k m. Inr (case m k of None \<Rightarrow> None
          | Some (v, e) \<Rightarrow> if (case e of None \<Rightarrow> False | Some x \<Rightarrow> x < t) then None else Some v)),
       b_set = (\<lambda>now k v ttl m. Inr (m(k := Some (v, case ttl of None \<Rightarrow> None
          | Some d \<Rightarrow> if d = 0 then None else Some (now + d))))),
       b_del = (\<lambda>k m. Inr (m(k := None))) \<rparr>"

interpretation memory: cache_backend memory_backend
  by unfold_locales (auto simp: memory_backend_def expired_at_def split: option.splits if_splits)

subsection \<open>The service on a reliable manager\<close>

definition cache_peek :: "('b, 'v) backend \<Rightarrow> time \<Rightarrow> string \<Rightarrow> ('b, 'v) cache_state \<Rightarrow> 'v cval option" where
  "cache_peek B now k s = fst (cache_get B now k s)"

definition live :: "time \<Rightarrow> ('v cval \<times> time option) option \<Rightarrow> 'v cval option" where
  "live now e = (case e of None \<Rightarrow> None | Some (v, x) \<Rightarrow>
     if (case x of None \<Rightarrow> True | Some t \<Rightarrow> t = 0 \<or> now < t) then Some v else None)"

text \<open>Every key the service can answer is in its registry.\<close>

definition registered :: "('b, 'v) backend \<Rightarrow> ('b, 'v) cache_state \<Rightarrow> bool" where
  "registered B s = (\<forall>k t v. cache_peek B t k s = Some v \<longrightarrow> k \<in> set (keyRegistry s))"

context cache_backend
begin

lemma peek_eq:
  "cache_peek B t k s = (case b_get B t k (store s) of Inr (Some v) \<Rightarrow> Some v | _ \<Rightarrow> live t (fallback s k))"
  using get_reliable [of t k "store s"]
  by (auto simp: cache_peek_def cache_get_def live_def split: option.splits)

lemma peek_set:
  "cache_peek B t k (cache_set B now k v ttl [] s)
     = (if expired_at t now ttl then live t (Some (v, fallback_expiry now ttl)) else Some v)"
proof -
  obtain b where b: "b_set B now k v ttl (store s) = Inr b" using set_reliable by blast
  have "cache_set B now k v ttl [] s = s\<lparr>store := b, keyRegistry := reg_add k (keyRegistry s),
      analytics := recordSet (analytics s), fallback := (fallback s)(k := Some (v, fallback_expiry now ttl))\<rparr>"
    using b by (simp add: cache_set_def Let_def)
  with get_set [OF b, of t] show ?thesis by (simp add: peek_eq)
qed

lemma peek_set_other:
  assumes "j \<noteq> k"
  shows "cache_peek B t j (cache_set B now k v ttl [] s) = cache_peek B t j s"
proof -
  obtain b where b: "b_set B now k v ttl (store s) = Inr b" using set_reliable by blast
  with get_set_other [OF b assms, of t] assms show ?thesis
    by (simp add: peek_eq cache_set_def Let_def cong: sum.case_cong option.case_cong)
qed

lemma registry_set: "set (keyRegistry (cache_set B now k v ttl [] s)) = insert k (set (keyRegistry s))"
proof -
  obtain b where "b_set B now k v ttl (store s) = Inr b" using set_reliable by blast
  then show ?thesis by (auto simp: cache_set_def Let_def reg_add_def)
qed

lemma peek_del: "cache_peek B t k (cache_del B k s) = None"
proof -
  obtain b where b: "b_del B k (store s) = Inr b" using del_reliable by blast
  with get_del [OF b, of t] show ?thesis by (simp add: peek_eq cache_del_def live_def)
qed

lemma peek_del_other:
  assumes "j \<noteq> k" shows "cache_peek B t j (cache_del B k s) = cache_peek B t j s"
proof -
  obtain b where b: "b_del B k (store s) = Inr b" using del_reliable by blast
  with get_del_other [OF b assms, of t] assms show ?thesis
    by (simp add: peek_eq cache_del_def cong: sum.case_cong option.case_cong)
qed

lemma registry_del: "set (keyRegistry (cache_del B k s)) = set (keyRegistry s) - {k}"
  by (auto simp: cache_del_def reg_del_def split: sum.splits)

lemma peek_dels:
  "cache_peek B t j (fold (cache_del B) ks s) = (if j \<in> set ks then None else cache_peek B t j s)"
proof (induction ks arbitrary: s)
  case (Cons k ks)
  then show ?case by (cases "j = k") (simp_all add: peek_del peek_del_other)
qed simp

lemma registry_dels: "set (keyRegistry (fold (cache_del B) ks s)) = set (keyRegistry s) - set ks"
  by (induction ks arbitrary: s) (auto simp: registry_del)

lemma peek_get:
  assumes "cache_peek B t j (snd (cache_get B now k s)) = Some v"
  shows "cache_peek B t j s = Some v"
proof -
  obtain r where r: "b_get B now k (store s) = Inr r" using get_reliable by blast
  show ?thesis
    using assms r
    by (cases r; cases "fallback s k")
      (auto simp: peek_eq cache_get_def live_def fun_upd_apply split: option.splits if_splits sum.splits prod.splits)
qed

lemma registry_get [simp]: "keyRegistry (snd (cache_get B now k s)) = keyRegistry s"
  by (auto simp: cache_get_def split: sum.splits option.splits prod.splits)

end

sublocale cache_backend \<subseteq> service: cache_service "cache_peek B" "cache_get B"
    "\<lambda>now k v ttl s. cache_set B now k v ttl [] s" "cache_del B" "deletePattern B" "registered B"
proof
  fix t now :: time and j k p :: string and v w :: "'v cval" and ttl :: "time option" and s :: "('b, 'v) cache_state"
  show "fst (cache_get B now k s) = cache_peek B now k s" by (simp add: cache_peek_def)
  show "cache_peek B t j (snd (cache_get B now k s)) = Some v \<Longrightarrow> cache_peek B t j s = Some v"
    by (rule peek_get)
  show "cache_peek B t k (cache_set B now k v ttl [] s) = Some w \<Longrightarrow> w = v"
    by (auto simp: peek_set live_def split: if_splits option.splits)
  show "j \<noteq> k \<Longrightarrow> cache_peek B t j (cache_set B now k v ttl [] s) = cache_peek B t j s"
    by (rule peek_set_other)
  show "cache_peek B t k (cache_del B k s) = None" by (rule peek_del)
  show "j \<noteq> k \<Longrightarrow> cache_peek B t j (cache_del B k s) = cache_peek B t j s" by (rule peek_del_other)
  show "registered B s \<Longrightarrow> starts_with k p \<Longrightarrow> cache_peek B t k (deletePattern B p s) = None"
    by (cases "cache_peek B t k s") (auto simp: deletePattern_def peek_dels registered_def)
  show "\<not> starts_with k p \<Longrightarrow> cache_peek B t k (deletePattern B p s) = cache_peek B t k s"
    by (simp add: deletePattern_def peek_dels)
  show "registered B s \<Longrightarrow> registered B (snd (cache_get B now k s))"
    by (auto simp: registered_def dest: peek_get)
  show "registered B s \<Longrightarrow> registered B (cache_set B now k v ttl [] s)"
    unfolding registered_def by (metis peek_set_other registry_set insert_iff)
  show "registered B s \<Longrightarrow> registered B (cache_del B k s)"
    unfolding registered_def registry_del by (metis Diff_iff option.distinct(1) peek_del peek_del_other singletonD)
  show "registered B s \<Longrightarrow> registered B (deletePattern B p s)"
    by (auto simp: registered_def deletePattern_def peek_dels registry_dels split: if_splits)
qed

subsection \<open>The service on a manager that may lose entries and reject calls\<close>

text \<open>
  What is left of the contract when the manager evicts entries (the configured \<open>max\<close>), loses them, or
  rejects reads and writes: it answers under a key only what was stored there, and a deletion is
  carried out.
\<close>

locale lossy_backend =
  fixes B :: "('b, 'v) backend"
  assumes only_stored: "b_set B now k v ttl b = Inr b' \<Longrightarrow> b_get B t j b' = Inr (Some w) \<Longrightarrow>
      j = k \<and> w = v \<or> (\<exists>t'. b_get B t' j b = Inr (Some w))"
    and deleted: "b_del B k b = Inr b' \<Longrightarrow> b_get B t j b' = Inr (Some w) \<Longrightarrow>
      j \<noteq> k \<and> (\<exists>t'. b_get B t' j b = Inr (Some w))"
    and del_carried_out: "\<exists>b'. b_del B k b = Inr b'"

text \<open>What the service may answer under a key, at any time: a value of the manager or of the fallback.\<close>

definition held :: "('b, 'v) backend \<Rightarrow> string \<Rightarrow> 'v cval \<Rightarrow> ('b, 'v) cache_state \<Rightarrow> bool" where
  "held B k v s = ((\<exists>t. b_get B t k (store s) = Inr (Some v)) \<or> (\<exists>x. fallback s k = Some (v, x)))"

text \<open>The interface of a client that only relies on answers having been stored.\<close>

locale answering_cache =
  fixes holds :: "string \<Rightarrow> 'v cval \<Rightarrow> 's \<Rightarrow> bool"
    and fetch :: "time \<Rightarrow> string \<Rightarrow> 's \<Rightarrow> 'v cval option \<times> 's"
    and put :: "time \<Rightarrow> string \<Rightarrow> 'v cval \<Rightarrow> time option \<Rightarrow> 's \<Rightarrow> 's"
    and drop_key :: "string \<Rightarrow> 's \<Rightarrow> 's"
    and drop_pattern :: "string \<Rightarrow> 's \<Rightarrow> 's"
  assumes fetch_held: "fst (fetch now k s) = Some v \<Longrightarrow> holds k v s"
    and fetch_keeps: "holds j v (snd (fetch now k s)) \<Longrightarrow> holds j v s"
    and put_held: "holds j w (put now k v ttl s) \<Longrightarrow> j = k \<and> w = v \<or> holds j w s"
    and drop_held: "holds j w (drop_key k s) \<Longrightarrow> j \<noteq> k \<and> holds j w s"
    and pattern_held: "holds j w (drop_pattern p s) \<Longrightarrow> holds j w s"
begin

definition all_held :: "(string \<Rightarrow> 'v cval \<Rightarrow> bool) \<Rightarrow> 's \<Rightarrow> bool" where
  "all_held P s = (\<forall>k v. holds k v s \<longrightarrow> P k v)"

lemma all_held_answer: "all_held P s \<Longrightarrow> fst (fetch now k s) = Some v \<Longrightarrow> P k v"
  by (auto simp: all_held_def dest: fetch_held)

lemma all_held_fetch: "all_held P s \<Longrightarrow> all_held P (snd (fetch now k s))"
  by (auto simp: all_held_def dest: fetch_keeps)

lemma all_held_put: "all_held P s \<Longrightarrow> P k v \<Longrightarrow> all_held P (put now k v ttl s)"
  unfolding all_held_def by (metis put_held)

lemma all_held_invalidate:
  assumes "all_held P s" and "\<And>j w. j \<noteq> k \<Longrightarrow> P j w \<Longrightarrow> Q j w"
  shows "all_held Q (drop_key k (drop_pattern p s))"
  using assms unfolding all_held_def by (metis drop_held pattern_held)

end

context lossy_backend
begin

lemma held_get:
  "held B j v (snd (cache_get B now k s)) \<Longrightarrow> held B j v s"
  by (auto simp: held_def cache_get_def split: sum.splits option.splits prod.splits if_splits)

lemma held_answer: "fst (cache_get B now k s) = Some v \<Longrightarrow> held B k v s"
  by (auto simp: held_def cache_get_def split: sum.splits option.splits prod.splits if_splits)

lemma held_set: "held B j w (cache_set B now k v ttl [] s) \<Longrightarrow> j = k \<and> w = v \<or> held B j w s"
proof (cases "b_set B now k v ttl (store s)")
  case (Inl e)
  moreover assume "held B j w (cache_set B now k v ttl [] s)"
  ultimately show ?thesis by (auto simp: held_def cache_set_def Let_def split: if_splits)
next
  case (Inr b')
  assume "held B j w (cache_set B now k v ttl [] s)"
  with Inr only_stored [OF Inr, of _ j w] show ?thesis
    by (auto simp: held_def cache_set_def Let_def split: if_splits)
qed

lemma held_del: "held B j w (cache_del B k s) \<Longrightarrow> j \<noteq> k \<and> held B j w s"
  using del_carried_out [of k "store s"] deleted [of k "store s"]
  by (auto simp: held_def cache_del_def split: sum.splits if_splits)

lemma held_dels: "held B j w (fold (cache_del B) ks s) \<Longrightarrow> held B j w s"
  by (induction ks arbitrary: s) (auto dest: held_del)

end

sublocale lossy_backend \<subseteq> answering: answering_cache "held B" "cache_get B"
    "\<lambda>now k v ttl s. cache_set B now k v ttl [] s" "cache_del B" "deletePattern B"
  by unfold_locales
    (auto simp: deletePattern_def dest: held_answer held_get held_set held_del held_dels)

text \<open>The reliable contract is a special case.\<close>

sublocale cache_backend \<subseteq> lossy: lossy_backend B
proof
  fix now t :: time and k j :: string and v w :: "'v cval" and ttl :: "time option" and b b' :: 'b
  show "b_set B now k v ttl b = Inr b' \<Longrightarrow> b_get B t j b' = Inr (Some w) \<Longrightarrow>
      j = k \<and> w = v \<or> (\<exists>t'. b_get B t' j b = Inr (Some w))"
    using get_set [of now k v ttl b b' t] get_set_other [of now k v ttl b b' j t]
    by (cases "j = k") (auto split: if_splits)
  show "b_del B k b = Inr b' \<Longrightarrow> b_get B t j b' = Inr (Some w) \<Longrightarrow>
      j \<noteq> k \<and> (\<exists>t'. b_get B t' j b = Inr (Some w))"
    using get_del [of k b b' t] get_del_other [of k b b' j t] by (cases "j = k") auto
  show "\<exists>b'. b_del B k b = Inr b'" by (rule del_reliable)
qed

text \<open>
  A manager that keeps one entry only, rejects reads at odd times and writes of entries that would
  not expire: it keeps the weaker contract and not the stronger.
\<close>

definition small_backend :: "((string \<times> 'v cval) option, 'v) backend" where
  "small_backend =
     \<lparr> b_get = (\<lambda>t k m. if odd t then Inl (JsError ''timeout'')
          else Inr (case m of None \<Rightarrow> None | Some (j, v) \<Rightarrow> if j = k then Some v else None)),
       b_set = (\<lambda>now k v ttl m. if ttl = None then Inl (JsError ''timeout'') else Inr (Some (k, v))),
       b_del = (\<lambda>k m. Inr (case m of None \<Rightarrow> None | Some (j, v) \<Rightarrow> if j = k then None else Some (j, v))) \<rparr>"

lemma small_get: "b_get small_backend t j m = Inr (Some w) \<longleftrightarrow> even t \<and> m = Some (j, w)"
  by (cases m) (auto simp: small_backend_def split: if_splits)

interpretation small: lossy_backend small_backend
proof
  fix now t :: time and k j :: string and v w :: "'v cval" and ttl :: "time option"
    and b b' :: "(string \<times> 'v cval) option"
  assume get: "b_get small_backend t j b' = Inr (Some w)"
  show "j = k \<and> w = v \<or> (\<exists>t'. b_get small_backend t' j b = Inr (Some w))"
    if "b_set small_backend now k v ttl b = Inr b'"
    using that get by (simp add: small_get) (simp add: small_backend_def split: if_splits)
  show "j \<noteq> k \<and> (\<exists>t'. b_get small_backend t' j b = Inr (Some w))" if "b_del small_backend k b = Inr b'"
  proof -
    from that have b': "b' = (case b of None \<Rightarrow> None | Some (i, u) \<Rightarrow> if i = k then None else Some (i, u))"
      by (simp add: small_backend_def)
    with get have "b = Some (j, w) \<and> j \<noteq> k" "even t"
      by (cases b; auto simp: small_get split: if_splits)+
    then show ?thesis by (auto simp: small_get)
  qed
next
  show "\<exists>b'. b_del small_backend k b = Inr b'" for k and b :: "(string \<times> 'v cval) option"
    by (simp add: small_backend_def)
qed

subsection \<open>Properties of the service\<close>

text \<open>
  An entry outlives its time to live a thousandfold: on a manager that keeps its contract, a
  value cached for \<open>d\<close> milliseconds - the unit every caller and the manager use - is answered not only
  until \<open>d\<close> has passed but until \<open>1000 d\<close> has, because the fallback copy takes the same number for
  seconds and is consulted whenever the manager has no value.
\<close>
theorem ttl_outlived:
  assumes "cache_backend B" and "0 < d" and "0 \<le> now" and "now \<le> t"
  shows "cache_peek B t k (cache_set B now k v (Some d) [] s) = (if t < now + 1000 * d then Some v else None)"
  using assms cache_backend.peek_set [OF assms(1), of t k now v "Some d" s]
  by (auto simp: expired_at_def live_def fallback_expiry_def algebra_simps)

definition empty_cache :: "(string \<Rightarrow> ('v cval \<times> time option) option, 'v) cache_state" where
  "empty_cache = \<lparr> store = (\<lambda>_. None), keyRegistry = [], fallback = (\<lambda>_. None), analytics = zero_analytics \<rparr>"

theorem ttl_outlived_witness:
  "cache_peek memory_backend 900000 ''k'' (cache_set memory_backend 0 ''k'' (CVal ''v'') (Some 1000) [] empty_cache)
     = Some (CVal ''v'')"
  using ttl_outlived [OF memory.cache_backend_axioms, of 1000 0 900000 "''k''" "CVal ''v''" empty_cache] by simp

text \<open>Whenever the manager rejects a read, the service answers nothing, whatever the fallback holds.\<close>

lemma fallback_silent_when_down:
  "b_get B now k (store s) = Inl e \<Longrightarrow> cache_get B now k s = (None, s\<lparr>analytics := recordError (analytics s)\<rparr>)"
  by (simp add: cache_get_def)

text \<open>
  The in-memory lock excludes: once it has been acquired, acquiring it again fails and changes
  nothing, and so does releasing it with another value; releasing it with its own value frees it, so that
  it can be acquired again.
\<close>
theorem lock_excludes:
  assumes "acquireLock now k ttl u s = (Some u', s1)"
  shows "u' = u \<and> acquireLock now2 k ttl2 w s1 = (None, s1)
    \<and> (w \<noteq> u \<longrightarrow> releaseLock k w s1 = (False, s1))
    \<and> fst (releaseLock k u s1) \<and> fst (acquireLock now2 k ttl2 w (snd (releaseLock k u s1))) = Some w"
  using assms
  by (auto simp: acquireLock_def releaseLock_def reg_add_def reg_del_def Let_def split: if_splits)

theorem lock_excludes_witness:
  "acquireLock 1 ''job'' 5000 ''b'' (snd (acquireLock 0 ''job'' 5000 ''a'' empty_cache))
     = (None, snd (acquireLock 0 ''job'' 5000 ''a'' empty_cache))"
proof -
  have "acquireLock 0 ''job'' 5000 ''a'' empty_cache = (Some ''a'', snd (acquireLock 0 ''job'' 5000 ''a'' empty_cache))"
    by (simp add: acquireLock_def empty_cache_def Let_def)
  from lock_excludes [OF this, of 1 5000 "''b''"] show ?thesis by blast
qed

end
