(* ===== verification/QuestsProps.thy ===== *)
theory QuestsProps
  imports Quests CacheProps ModerationProps
begin

text \<open>
  The quests module: what creation and status changes really do, and the coherence of its cache, while
  the process runs and after it has been restarted.
\<close>

interpretation quest_repo: repository q_id "\<lambda>t. t" find_row "save_row q_id" "wf_table q_id"
  by (rule table_repository)

subsection \<open>Creation and status changes\<close>

text \<open>
  No quest is ever created: whatever the request and the caller, the creation fails and
  changes nothing - for its dates, for its text, and else because the entity requires columns (the
  contract task, the reward asset, the kind of verifier) that neither the request has nor the service sets.
\<close>
theorem create_never_succeeds:
  "create_quest B c dto creator env s =
    (Inl (if \<not> dates_ok (cq_startDate dto) (cq_endDate dto)
          then BadRequestException ''End date must be after start date''
          else if sr_shouldBlock (scanText c (moderated_text (cq_title dto) (cq_description dto)))
          then moderation_blocked else not_null_violation), s)"
  by (simp add: create_quest_def insert_quest_def Let_def)

lemma lower_not_allowed: "validateQuestTransition cur (show_QuestStatus st) \<noteq> Inr ()"
  by (cases st) (auto simp: validateQuestTransition_def quest_transitions_def)

text \<open>
  The status of a quest cannot be changed: requests carry the status in lower case and the
  table of transitions is in upper case, so a request of the owner with a status other than the stored
  one is always refused - also the moves the table allows, such as from \<open>ACTIVE\<close> to completed - and
  changes nothing.
\<close>
theorem status_change_always_refused:
  assumes "find_row (\<lambda>q. q_id q = i) (quests s) = Some q" and "q_createdBy q = user"
    and "uq_status dto = Some st" and "show_QuestStatus st \<noteq> q_status q"
  shows "update_quest B c i dto user env s
    = (Inl (BadRequestException (''Cannot transition from '' @ q_status q @ '' to '' @ show_QuestStatus st)), s)"
proof -
  have "validateQuestTransition (q_status q) (show_QuestStatus st)
      = Inl (BadRequestException (''Cannot transition from '' @ q_status q @ '' to '' @ show_QuestStatus st))"
    using lower_not_allowed [of "q_status q" st]
    by (auto simp: validateQuestTransition_def split: option.splits if_splits)
  with assms show ?thesis by (simp add: update_quest_def update_check_def)
qed

definition an_update :: UpdateQuestDto where
  "an_update = \<lparr> uq_title = None, uq_description = None, uq_rewardAmount = None, uq_status = None,
     uq_maxCompletions = None, uq_startDate = None, uq_endDate = None \<rparr>"

definition a_quest :: "string \<Rightarrow> Quest" where
  "a_quest st = \<lparr> q_id = ''q'', q_title = ''KYC'', q_description = ''d'', q_contractTaskId = ''t'',
     q_rewardAsset = ''XLM'', q_rewardAmount = 5, q_deadline = None, q_status = st,
     q_verifierType = ''manual'', q_createdBy = ''GOWNER'', q_createdAt = 0, q_updatedAt = 0,
     q_creatorAddress = None, q_currentCompletions = 0, q_maxCompletions = None, q_startDate = None,
     q_endDate = None \<rparr>"

type_synonym memory_store = "string \<Rightarrow> (quest_value cval \<times> time option) option"

definition quests_with :: "string \<Rightarrow> memory_store quests_state" where
  "quests_with st = \<lparr> quests = [a_quest st], q_cache = empty_cache, q_moderation = no_mod, q_events = [] \<rparr>"

definition quest_env0 :: quest_env where
  "quest_env0 = \<lparr> qe_now = 7, qe_newId = ''n'', qe_modId = ''m'' \<rparr>"

theorem status_change_always_refused_witness:
  "validateQuestTransition ''ACTIVE'' ''COMPLETED'' = Inr ()
   \<and> update_quest memory_backend (demo_mod_config None) ''q'' (an_update\<lparr>uq_status := Some COMPLETED\<rparr>) ''GOWNER''
       quest_env0 (quests_with ''ACTIVE'')
     = (Inl (BadRequestException ''Cannot transition from ACTIVE to completed''), quests_with ''ACTIVE'')"
proof
  show "validateQuestTransition ''ACTIVE'' ''COMPLETED'' = Inr ()"
    by (simp add: validateQuestTransition_def quest_transitions_def)
  have "find_row (\<lambda>q. q_id q = ''q'') (quests (quests_with ''ACTIVE'')) = Some (a_quest ''ACTIVE'')"
    "q_createdBy (a_quest ''ACTIVE'') = ''GOWNER''"
    "show_QuestStatus COMPLETED \<noteq> q_status (a_quest ''ACTIVE'')"
    by (simp_all add: quests_with_def a_quest_def find_row_def)
  with status_change_always_refused [of "''q''" "quests_with ''ACTIVE''" "a_quest ''ACTIVE''" "''GOWNER''"
      "an_update\<lparr>uq_status := Some COMPLETED\<rparr>" COMPLETED memory_backend "demo_mod_config None" quest_env0]
  show "update_quest memory_backend (demo_mod_config None) ''q'' (an_update\<lparr>uq_status := Some COMPLETED\<rparr>) ''GOWNER''
       quest_env0 (quests_with ''ACTIVE'')
     = (Inl (BadRequestException ''Cannot transition from ACTIVE to completed''), quests_with ''ACTIVE'')"
    by (simp add: a_quest_def)
qed

subsection \<open>Runs\<close>

text \<open>Calls one after the other; \<open>restart\<close> ends the process, and only the store of the manager survives.\<close>

definition restart :: "'b quests_state \<Rightarrow> 'b quests_state" where
  "restart s = s\<lparr>q_cache := (q_cache s)\<lparr>keyRegistry := [], fallback := (\<lambda>_. None), analytics := zero_analytics\<rparr>\<rparr>"

inductive quest_step :: "('b, quest_value) backend \<Rightarrow> 'b quests_state \<Rightarrow> 'b quests_state \<Rightarrow> bool" for B where
  create: "quest_step B s (state_of (create_quest B c cdto u env s))"
| list: "quest_step B s (snd (findAll B now d s))"
| get: "quest_step B s (state_of (findOneQuest B now i s))"
| update: "quest_step B s (state_of (update_quest B c i udto u env s))"
| remove: "quest_step B s (state_of (remove_quest B i u s))"
| restarted: "quest_step B s (restart s)"

inductive quest_steps :: "('b, quest_value) backend \<Rightarrow> 'b quests_state \<Rightarrow> 'b quests_state \<Rightarrow> bool" for B where
  refl: "quest_steps B s s"
| more: "quest_steps B s t \<Longrightarrow> quest_step B t u \<Longrightarrow> quest_steps B s u"

text \<open>Under the key of a quest, manager and fallback hold nothing but the quest as the table has it.\<close>

definition detail_ok :: "Quest list \<Rightarrow> string \<Rightarrow> quest_value cval \<Rightarrow> bool" where
  "detail_ok t k v =
     (\<forall>i. k = detail_key i \<longrightarrow>
        (\<exists>q. find_row (\<lambda>q. q_id q = i) t = Some q \<and> v = CVal (OneQuest (fromEntity q))))"

definition detail_cached :: "('b, quest_value) backend \<Rightarrow> 'b quests_state \<Rightarrow> bool" where
  "detail_cached B s = (\<forall>k v. held B k v (q_cache s) \<longrightarrow> detail_ok (quests s) k v)"

lemma detail_key_inj [simp]: "detail_key i = detail_key j \<longleftrightarrow> i = j"
  by (simp add: detail_key_def)

lemma keys_apart [simp]: "query_key d \<noteq> detail_key i" "\<not> starts_with (detail_key i) QUESTS_KEY"
  by (simp_all add: query_key_def detail_key_def QUESTS_KEY_def starts_with_def)

lemma moderation_fields [simp, frame_simps]:
  "quests (record_moderation q u scan env s) = quests s" "q_cache (record_moderation q u scan env s) = q_cache s"
  by (simp_all add: record_moderation_def)

text \<open>The quests module on a manager that may lose entries and reject reads and writes.\<close>

locale quest_cache = lossy_backend B for B :: "('b, quest_value) backend"
begin

lemma detail_cached_iff: "detail_cached B s = answering.all_held (detail_ok (quests s)) (q_cache s)"
  by (simp add: detail_cached_def answering.all_held_def)

lemma detail_cached_invalidate:
  assumes "detail_cached B s" and "\<And>j. j \<noteq> i \<Longrightarrow> find_row (\<lambda>q. q_id q = j) t = find_row (\<lambda>q. q_id q = j) (quests s)"
    and "q_cache s' = cache_del B (detail_key i) (deletePattern B QUESTS_KEY (q_cache s))" and "quests s' = t"
  shows "detail_cached B s'"
  unfolding detail_cached_iff assms(3)
proof (rule answering.all_held_invalidate)
  show "answering.all_held (detail_ok (quests s)) (q_cache s)" using assms(1) by (simp add: detail_cached_iff)
  fix k v assume k: "k \<noteq> detail_key i" and ok: "detail_ok (quests s) k v"
  show "detail_ok (quests s') k v"
    unfolding detail_ok_def assms(4)
  proof (intro allI impI)
    fix j assume j: "k = detail_key j"
    with k have "j \<noteq> i" by auto
    with ok j assms(2) [OF this] show "\<exists>q. find_row (\<lambda>q. q_id q = j) t = Some q \<and> v = CVal (OneQuest (fromEntity q))"
      unfolding detail_ok_def by simp
  qed
qed

lemma detail_cached_list:
  assumes "detail_cached B s" shows "detail_cached B (snd (findAll B now d s))"
proof -
  obtain r c where r: "cache_get B now (query_key d) (q_cache s) = (r, c)" by fastforce
  have c: "answering.all_held (detail_ok (quests s)) c"
    using answering.all_held_fetch [of "detail_ok (quests s)" "q_cache s" now "query_key d"] assms r
    by (simp add: detail_cached_iff)
  have "answering.all_held (detail_ok (quests s)) (cache_set B now (query_key d) v ttl [] c)" for v ttl
    by (rule answering.all_held_put [OF c]) (simp add: detail_ok_def)
  with c r show ?thesis by (cases r) (simp_all add: findAll_def detail_cached_iff Let_def)
qed

lemma detail_cached_get:
  assumes "detail_cached B s" shows "detail_cached B (state_of (findOneQuest B now i s))"
proof -
  obtain r c where r: "cache_get B now (detail_key i) (q_cache s) = (r, c)" by fastforce
  have c: "answering.all_held (detail_ok (quests s)) c"
    using answering.all_held_fetch [of "detail_ok (quests s)" "q_cache s" now "detail_key i"] assms r
    by (simp add: detail_cached_iff)
  have "answering.all_held (detail_ok (quests s)) (cache_set B now (detail_key i) (CVal (OneQuest (fromEntity q))) ttl [] c)"
    if "find_row (\<lambda>q. q_id q = i) (quests s) = Some q" for q ttl
    by (rule answering.all_held_put [OF c]) (simp add: detail_ok_def that)
  with c r show ?thesis
    by (cases r; cases "find_row (\<lambda>q. q_id q = i) (quests s)")
      (simp_all add: findOneQuest_def detail_cached_iff Let_def)
qed

lemma detail_cached_update:
  assumes ok: "detail_cached B s" and wf: "wf_table q_id (quests s)"
  shows "detail_cached B (state_of (update_quest B c i dto u env s)) \<and> wf_table q_id (quests (state_of (update_quest B c i dto u env s)))"
proof (cases "update_check c i dto u s")
  case (Inl e)
  with assms show ?thesis by (simp add: update_quest_def)
next
  case (Inr p)
  obtain q amount scan where p: "p = (q, amount, scan)" by (cases p)
  let ?q = "assign_update dto amount (qe_now env) q" and ?r = "state_of (update_quest B c i dto u env s)"
  have "q_id q = i"
    using Inr p find_row_some [of "\<lambda>q. q_id q = i" "quests s" q]
    by (auto simp: update_check_def Let_def split: option.splits if_splits sum.splits)
  then have id: "q_id ?q = i" by (simp add: assign_update_def Let_def)
  have r: "quests ?r = save_row q_id ?q (quests s)"
    "q_cache ?r = cache_del B (detail_key i) (deletePattern B QUESTS_KEY (q_cache s))"
    by (simp_all add: update_quest_def Inr p Let_def invalidate_quest_def)
  have "find_row (\<lambda>q. q_id q = j) (save_row q_id ?q (quests s)) = find_row (\<lambda>q. q_id q = j) (quests s)"
    if "j \<noteq> i" for j
    using quest_repo.find_other [OF wf, of j ?q] id that by simp
  from detail_cached_invalidate [OF ok this r(2,1)] show ?thesis
    by (simp add: r wf_save_row [OF wf])
qed

lemma detail_cached_remove:
  assumes ok: "detail_cached B s" and wf: "wf_table q_id (quests s)"
  shows "detail_cached B (state_of (remove_quest B i u s)) \<and> wf_table q_id (quests (state_of (remove_quest B i u s)))"
proof (cases "succeeds (remove_quest B i u s)")
  case False
  then have "state_of (remove_quest B i u s) = s"
    by (auto simp: remove_quest_def split: option.splits if_splits)
  with assms show ?thesis by simp
next
  case True
  let ?r = "state_of (remove_quest B i u s)"
  have r: "quests ?r = remove_row q_id i (quests s)"
    "q_cache ?r = cache_del B (detail_key i) (deletePattern B QUESTS_KEY (q_cache s))"
    using True by (auto simp: remove_quest_def invalidate_quest_def split: option.splits if_splits)
  have "find_row (\<lambda>q. q_id q = j) (remove_row q_id i (quests s)) = find_row (\<lambda>q. q_id q = j) (quests s)"
    if "j \<noteq> i" for j
    using find_not_removed [of i j q_id "quests s"] that by auto
  from detail_cached_invalidate [OF ok this r(2,1)] show ?thesis
    by (simp add: r remove_row_wf [OF wf])
qed

lemma detail_cached_restart:
  assumes "detail_cached B s" shows "detail_cached B (restart s)"
  using assms by (auto simp: detail_cached_def restart_def held_def)

lemma detail_cached_run:
  assumes "quest_steps B s s'" and "detail_cached B s" and "wf_table q_id (quests s)"
  shows "detail_cached B s' \<and> wf_table q_id (quests s')"
  using assms
proof (induction rule: quest_steps.induct)
  case (more s t u)
  then have t: "detail_cached B t" "wf_table q_id (quests t)" by blast+
  from more(2) show ?case
  proof (cases rule: quest_step.cases)
    case (create c cdto u' env)
    with t create_never_succeeds [of B c cdto u' env t] show ?thesis by simp
  next
    case (list now d)
    have "quests (snd (findAll B now d t)) = quests t"
      by (auto simp: findAll_def Let_def split: prod.splits option.splits)
    with list t detail_cached_list show ?thesis by simp
  next
    case (get now i)
    have "quests (state_of (findOneQuest B now i t)) = quests t"
      by (auto simp: findOneQuest_def Let_def split: prod.splits option.splits)
    with get t detail_cached_get show ?thesis by simp
  next
    case (update c i udto u' env)
    with t detail_cached_update show ?thesis by simp
  next
    case (remove i u')
    with t detail_cached_remove show ?thesis by simp
  next
    case restarted
    with t detail_cached_restart show ?thesis by (simp add: restart_def)
  qed
qed simp

lemma findOne_coherent:
  assumes "detail_cached B s"
  shows "result (findOneQuest B now i s) =
    (case find_row (\<lambda>q. q_id q = i) (quests s) of
       None \<Rightarrow> Inl (quest_not_found i) | Some q \<Rightarrow> Inr (CVal (OneQuest (fromEntity q))))"
proof -
  obtain r c where r: "cache_get B now (detail_key i) (q_cache s) = (r, c)" by fastforce
  show ?thesis
  proof (cases r)
    case None
    with r show ?thesis
      by (cases "find_row (\<lambda>q. q_id q = i) (quests s)") (simp_all add: findOneQuest_def Let_def)
  next
    case (Some v)
    with r have "fst (cache_get B now (detail_key i) (q_cache s)) = Some v" by simp
    with assms have "detail_ok (quests s) (detail_key i) v"
      unfolding detail_cached_iff by (rule answering.all_held_answer)
    then obtain q where "find_row (\<lambda>q. q_id q = i) (quests s) = Some q" "v = CVal (OneQuest (fromEntity q))"
      unfolding detail_ok_def by blast
    with r Some show ?thesis by (simp add: findOneQuest_def)
  qed
qed

end

text \<open>Both managers of theory CacheProps give the module its cache.\<close>

interpretation quest_memory: quest_cache memory_backend
  by unfold_locales

interpretation quest_small: quest_cache small_backend
  by unfold_locales

lemma update_cache:
  assumes "succeeds (update_quest B c i dto u env s)"
  shows "q_cache (state_of (update_quest B c i dto u env s))
    = cache_del B (detail_key i) (deletePattern B QUESTS_KEY (q_cache s))"
  using assms by (auto simp: update_quest_def invalidate_quest_def Let_def split: sum.splits prod.splits)

text \<open>The list pages, on a manager that keeps the whole contract.\<close>

locale reliable_quest_cache = cache_backend B for B :: "('b, quest_value) backend"
begin

lemma pages_dropped:
  assumes "registered B (q_cache s)" and "succeeds (update_quest B c i dto u env s)"
  shows "cache_peek B t (query_key d) (q_cache (state_of (update_quest B c i dto u env s))) = None"
proof -
  have "starts_with (query_key d) QUESTS_KEY" by (simp add: query_key_def)
  then have "cache_peek B t (query_key d) (deletePattern B QUESTS_KEY (q_cache s)) = None"
    by (rule service.pattern_matching [OF assms(1)])
  then show ?thesis by (simp add: update_cache [OF assms(2)] peek_del_other)
qed

lemma page_survives_restart:
  assumes "b_get B t (query_key d) (store (q_cache s)) = Inr (Some v)"
    and "succeeds (update_quest B c i dto u env (restart s))"
  shows "cache_peek B t (query_key d) (q_cache (state_of (update_quest B c i dto u env (restart s)))) = Some v"
proof -
  have "deletePattern B QUESTS_KEY (q_cache (restart s)) = q_cache (restart s)"
    by (simp add: deletePattern_def restart_def)
  moreover have "cache_peek B t (query_key d) (q_cache (restart s)) = Some v"
    using assms(1) by (simp add: peek_eq restart_def)
  ultimately show ?thesis by (simp add: update_cache [OF assms(2)] peek_del_other)
qed

end

interpretation reliable_memory: reliable_quest_cache memory_backend
  by unfold_locales

text \<open>
  Claim C9.  Reading a quest through the cache is reading it from the table: in every state that calls
  of the quests module one after the other and restarts of the process reach from an empty cache,
  \<open>findOne\<close> answers the row as it is now, or that there is none.  The manager of the cache may evict
  entries and may reject reads and writes at any time; assumed are that it answers under a key only
  what was stored there and that it carries deletions out.
\<close>
theorem quest_cache_coherent:
  assumes "lossy_backend B" and "\<forall>k v. \<not> held B k v (q_cache s)"
    and "wf_table q_id (quests s)" and "quest_steps B s s'"
  shows "result (findOneQuest B now i s') =
    (case find_row (\<lambda>q. q_id q = i) (quests s') of
       None \<Rightarrow> Inl (quest_not_found i) | Some q \<Rightarrow> Inr (CVal (OneQuest (fromEntity q))))"
proof -
  have qc: "quest_cache B" using assms(1) by (simp add: quest_cache_def)
  have "detail_cached B s" using assms(2) by (simp add: detail_cached_def)
  with quest_cache.detail_cached_run [OF qc assms(4)] assms(3) have "detail_cached B s'" by blast
  then show ?thesis by (rule quest_cache.findOne_coherent [OF qc])
qed

lemma no_keyword: "kw_hits (keyword_scan [''scam''] (moderated_text ''New'' ''d'')) = []"
  by (simp add: moderated_text_def keyword_scan_def blocklist_def default_keywords_def mod_eval)

lemma update_allowed:
  assumes "find_row (\<lambda>q. q_id q = ''q'') (quests s) = Some (a_quest st)"
  shows "update_check (demo_mod_config None) ''q'' (an_update\<lparr>uq_title := Some ''New''\<rparr>) ''GOWNER'' s
    = Inr (a_quest st, 5, scanText (demo_mod_config None) (moderated_text ''New'' ''d''))"
proof -
  have "sr_score (scanText (demo_mod_config None) (moderated_text ''New'' ''d'')) \<le> 75/100"
    using classify_score_bounds [of "moderated_text ''New'' ''d''"]
    by (simp add: scanText_def Let_def kw_blocked_iff scoreText_def no_keyword demo_mod_config_def)
  then have "\<not> sr_shouldBlock (scanText (demo_mod_config None) (moderated_text ''New'' ''d''))"
    by (simp add: scan_fields highThreshold_def demo_mod_config_def)
  with assms show ?thesis by (simp add: update_check_def a_quest_def an_update_def dates_ok_def Let_def)
qed

definition on_small :: "(string \<times> quest_value cval) option quests_state" where
  "on_small = \<lparr> quests = [a_quest ''ACTIVE''],
     q_cache = \<lparr> store = None, keyRegistry = [], fallback = (\<lambda>_. None), analytics = zero_analytics \<rparr>,
     q_moderation = no_mod, q_events = [] \<rparr>"

definition renamed :: "(string \<times> quest_value cval) option quests_state" where
  "renamed = state_of (update_quest small_backend (demo_mod_config None) ''q'' (an_update\<lparr>uq_title := Some ''New''\<rparr>)
     ''GOWNER'' quest_env0 (state_of (findOneQuest small_backend 2 ''q'' on_small)))"

theorem quest_cache_coherent_witness:
  "result (findOneQuest small_backend 9 ''q'' renamed)
     = Inr (CVal (OneQuest (fromEntity (a_quest ''ACTIVE''\<lparr>q_title := ''New'', q_updatedAt := 7\<rparr>))))"
proof -
  have "\<forall>k v. \<not> held small_backend k v (q_cache on_small)"
    by (simp add: on_small_def held_def small_backend_def)
  moreover have "wf_table q_id (quests on_small)" by (simp add: on_small_def wf_table_def)
  moreover have "quest_steps small_backend on_small renamed"
    unfolding renamed_def
    by (rule quest_steps.more [OF quest_steps.more [OF quest_steps.refl quest_step.get] quest_step.update])
  moreover have "quests (state_of (findOneQuest small_backend 2 ''q'' on_small)) = [a_quest ''ACTIVE'']"
    by (simp add: findOneQuest_def on_small_def find_row_def a_quest_def Let_def split: prod.splits option.splits)
  then have "quests renamed = [a_quest ''ACTIVE''\<lparr>q_title := ''New'', q_updatedAt := 7\<rparr>]"
    using update_allowed [of "state_of (findOneQuest small_backend 2 ''q'' on_small)" "''ACTIVE''"]
    by (simp add: renamed_def update_quest_def Let_def find_row_def assign_update_def invalidate_quest_def
        an_update_def quest_env0_def a_quest_def)
  ultimately show ?thesis
    using quest_cache_coherent [OF small.lossy_backend_axioms, of on_small renamed 9 "''q''"]
    by (simp add: find_row_def a_quest_def)
qed

text \<open>
  A successful update drops every cached list page while the process has run without a
  restart; after a restart it drops none: the registry of keys is in memory, so a page the manager kept
  is answered as it was before the update.
\<close>
theorem stale_pages_after_restart:
  assumes "cache_backend B" and "registered B (q_cache s)"
    and "succeeds (update_quest B c i dto u env s)" and "succeeds (update_quest B c i dto u env (restart s))"
    and "b_get B t (query_key d) (store (q_cache s)) = Inr (Some v)"
  shows "cache_peek B t (query_key d) (q_cache (state_of (update_quest B c i dto u env s))) = None
    \<and> fst (findAll B t d (state_of (update_quest B c i dto u env (restart s)))) = v"
proof
  have qc: "reliable_quest_cache B" using assms(1) by (simp add: reliable_quest_cache_def)
  show "cache_peek B t (query_key d) (q_cache (state_of (update_quest B c i dto u env s))) = None"
    by (rule reliable_quest_cache.pages_dropped [OF qc assms(2,3)])
  from reliable_quest_cache.page_survives_restart [OF qc assms(5,4)]
  show "fst (findAll B t d (state_of (update_quest B c i dto u env (restart s)))) = v"
    by (auto simp: findAll_def cache_peek_def Let_def split: prod.splits option.splits)
qed

definition all_quests :: QueryQuestsDto where
  "all_quests = \<lparr> qq_status = None, qq_creatorAddress = None, qq_minReward = None, qq_maxReward = None,
     qq_page = None, qq_limit = None, qq_sortBy = None, qq_descending = None \<rparr>"

definition listed :: "memory_store quests_state" where
  "listed = snd (findAll memory_backend 1 all_quests (quests_with ''ACTIVE''))"

theorem stale_pages_after_restart_witness:
  "fst (findAll memory_backend 9 all_quests (state_of (update_quest memory_backend (demo_mod_config None) ''q''
      (an_update\<lparr>uq_title := Some ''New''\<rparr>) ''GOWNER'' quest_env0 (restart listed))))
    = CVal (QuestPage (query_page all_quests [a_quest ''ACTIVE'']))"
proof -
  let ?s = "quests_with ''ACTIVE''"
  have none: "cache_peek memory_backend t k (q_cache ?s) = None" for t k
    by (simp add: quests_with_def cache_peek_def cache_get_def memory_backend_def empty_cache_def)
  have l: "quests listed = [a_quest ''ACTIVE'']"
    "b_get memory_backend 9 (query_key all_quests) (store (q_cache listed))
      = Inr (Some (CVal (QuestPage (query_page all_quests [a_quest ''ACTIVE'']))))"
    by (simp_all add: listed_def findAll_def quests_with_def cache_get_def memory_backend_def empty_cache_def
        cache_set_def TTL_MEDIUM_def Let_def)
  have "registered memory_backend (q_cache ?s)" using none by (simp add: registered_def)
  then have reg: "registered memory_backend (snd (cache_get memory_backend 1 (query_key all_quests) (q_cache ?s)))"
    by (rule memory.service.tracked_fetch)
  obtain c where c: "cache_get memory_backend 1 (query_key all_quests) (q_cache ?s) = (None, c)"
    using none [of 1 "query_key all_quests"] by (metis cache_peek_def prod.collapse)
  have "q_cache listed = cache_set memory_backend 1 (query_key all_quests)
      (CVal (QuestPage (query_page all_quests (quests ?s)))) (Some (TTL_MEDIUM * 1000)) [] c"
    by (simp add: listed_def findAll_def c Let_def)
  then have "registered memory_backend (q_cache listed)"
    using memory.service.tracked_put [OF reg] by (simp add: c)
  moreover have "succeeds (update_quest memory_backend (demo_mod_config None) ''q'' (an_update\<lparr>uq_title := Some ''New''\<rparr>)
      ''GOWNER'' quest_env0 s)" if "quests s = [a_quest ''ACTIVE'']" for s :: "memory_store quests_state"
    using update_allowed [of s "''ACTIVE''"] that by (simp add: update_quest_def find_row_def a_quest_def Let_def)
  moreover have "quests (restart listed) = [a_quest ''ACTIVE'']" using l by (simp add: restart_def)
  ultimately show ?thesis
    using stale_pages_after_restart [OF memory.cache_backend_axioms _ _ _ l(2)] l(1) by blast
qed

end
