(* ===== verification/Users.thy ===== *)
theory Users
  imports Entities Cache
begin

text \<open>
  The users module, \<open>UsersService\<close> in \<open>BackEnd/src/modules/users/user.service.ts\<close>: profiles,
  statistics, experience and levels, and the leaderboard.  It talks to the cache manager directly (the
  argument \<open>B\<close>), so a rejected cache call rejects the request, except where the source catches it.
  A property that is no column of the entity (\<open>completedQuests\<close> of a user, \<open>category\<close> of a quest) is
  neither loaded nor stored.  Dates are days since the epoch, the server's clock being UTC.
  \<open>searchUsers\<close> is not modelled.
\<close>

subsection \<open>State\<close>

record UserStats =
  st_totalQuests :: nat
  st_completedQuests :: nat
  st_pendingQuests :: nat
  st_failedQuests :: nat
  st_successRate :: rat
  st_totalEarned :: int
  st_averageCompletionTime :: rat
  st_favoriteQuestCategory :: "string option"
  st_streak :: nat
  st_rank :: nat

record LeaderboardEntry =
  lb_rank :: nat
  lb_userId :: id
  lb_username :: "string option"
  lb_avatarUrl :: "string option"
  lb_stellarAddress :: "string option"
  lb_xp :: int
  lb_level :: int
  lb_totalEarned :: int

datatype user_value = StatsValue UserStats | BoardValue "LeaderboardEntry list" | TextValue string

datatype user_event =
    UserCreatedEvent id "string option" "string option" "string option"
  | UserUpdatedEvent id "string list"
  | ReputationChangedEvent id int int
  | UserLevelUpEvent id int

text \<open>The name each event is emitted under.\<close>

fun event_name :: "user_event \<Rightarrow> string" where
  "event_name (UserCreatedEvent i u e a) = ''user.created''"
| "event_name (UserUpdatedEvent i fs) = ''user.updated''"
| "event_name (ReputationChangedEvent i c r) = ''reputation.changed''"
| "event_name (UserLevelUpEvent i l) = ''user.level_up''"

record 'b users_state =
  us_users :: "User list"
  us_submissions :: "Submission list"
  us_store :: 'b
  us_events :: "user_event list"

record UpdateProfileDto =
  up_bio :: "string option"
  up_avatarUrl :: "string option"
  up_privacyLevel :: "PrivacyLevel option"
  up_socialLinks :: "SocialLinks option"

definition emit_user :: "user_event list \<Rightarrow> 'b users_state \<Rightarrow> 'b users_state" where
  "emit_user es s = s\<lparr>us_events := us_events s @ es\<rparr>"

definition save_user :: "User \<Rightarrow> 'b users_state \<Rightarrow> 'b users_state" where
  "save_user u s = s\<lparr>us_users := save_row u_id u (us_users s)\<rparr>"

definition nan_for_int :: exn where
  "nan_for_int = JsError ''invalid input syntax for type integer: NaN''"

text \<open>
  What the table refuses of a row: a number outside the range of its \<open>int\<close> column, an address or an
  e-mail another row has.
\<close>

definition int4 :: "int \<Rightarrow> bool" where
  "int4 i \<longleftrightarrow> - 2147483648 \<le> i \<and> i \<le> 2147483647"

definition in_range :: "User \<Rightarrow> bool" where
  "in_range u \<longleftrightarrow> int4 (u_xp u) \<and> int4 (u_level u) \<and> int4 (u_questsCompleted u) \<and> int4 (u_failedQuests u)"

definition clashes :: "User \<Rightarrow> User \<Rightarrow> bool" where
  "clashes u r \<longleftrightarrow> u_id r \<noteq> u_id u
     \<and> (u_stellarAddress u \<noteq> None \<and> u_stellarAddress r = u_stellarAddress u \<or> u_email u \<noteq> None \<and> u_email r = u_email u)"

definition store_user :: "User \<Rightarrow> 'b users_state \<Rightarrow> exn + 'b users_state" where
  "store_user u s =
     (if \<not> in_range u then Inl (JsError ''integer out of range'')
      else if \<exists>r \<in> set (us_users s). clashes u r
      then Inl (JsError ''duplicate key value violates unique constraint'')
      else Inr (save_user u s))"

subsection \<open>Lookups\<close>

text \<open>The row is the one the given data and the columns' defaults make.\<close>

definition create_user :: "User \<Rightarrow> 'b users_state \<Rightarrow> ('b users_state, User) outcome" where
  "create_user u s =
     (case store_user u s of
        Inl e \<Rightarrow> (Inl e, s)
      | Inr s1 \<Rightarrow> (Inr u, emit_user [UserCreatedEvent (u_id u) (u_username u) (u_email u) (u_stellarAddress u)] s1))"

definition findByAddress :: "string \<Rightarrow> 'b users_state \<Rightarrow> exn + User" where
  "findByAddress address s =
     (case find_row (\<lambda>u. u_stellarAddress u = Some address) (us_users s) of
        None \<Rightarrow> Inl (NotFoundException (''User with address '' @ address @ '' not found''))
      | Some u \<Rightarrow> Inr u)"

definition findByUsername :: "string \<Rightarrow> 'b users_state \<Rightarrow> exn + User" where
  "findByUsername username s =
     (case find_row (\<lambda>u. u_username u = Some username) (us_users s) of
        None \<Rightarrow> Inl (NotFoundException (''User with username '' @ username @ '' not found''))
      | Some u \<Rightarrow> Inr u)"

definition findById :: "id \<Rightarrow> 'b users_state \<Rightarrow> exn + User" where
  "findById i s =
     (case find_row (\<lambda>u. u_id u = i) (us_users s) of
        None \<Rightarrow> Inl (NotFoundException (''User with ID '' @ i @ '' not found''))
      | Some u \<Rightarrow> Inr u)"

definition getUsersByRole :: "Role \<Rightarrow> 'b users_state \<Rightarrow> User list" where
  "getUsersByRole r s = order_desc u_createdAt (filter (\<lambda>u. u_role u = r) (us_users s))"

subsection \<open>Statistics\<close>

definition day_of :: "time \<Rightarrow> int" where
  "day_of t = t div 86400000"

text \<open>The loop over the earlier dates, latest first: it stops at the first gap.\<close>

fun consecutive :: "int \<Rightarrow> int list \<Rightarrow> nat" where
  "consecutive cur [] = 1"
| "consecutive cur (d # ds) = (if d = cur - 1 then Suc (consecutive d ds) else 1)"

definition streak_of :: "int \<Rightarrow> int list \<Rightarrow> nat" where
  "streak_of today days =
     (let completedDates = sort (remdups days)
      in if completedDates = [] then 0
         else (let lst = last completedDates;
                   run = consecutive lst (tl (rev completedDates))
               in if today - lst \<le> 1 then run else 0))"

definition completion_time :: "Submission \<Rightarrow> int" where
  "completion_time r =
     (case s_approvedAt r of None \<Rightarrow> s_createdAt r | Some t \<Rightarrow> if t = 0 then s_createdAt r else t)
       - s_createdAt r"

definition average :: "int list \<Rightarrow> rat" where
  "average ts = (if length ts > 0 then rat_of_int (sum_list ts) / rat_of_nat (length ts) else 0)"

text \<open>\<open>findIndex\<close> in the users by descending experience, plus 1.\<close>

definition rank_of :: "id \<Rightarrow> User list \<Rightarrow> nat" where
  "rank_of i us = length (takeWhile (\<lambda>u. u_id u \<noteq> i) (order_desc u_xp us)) + 1"

definition compute_stats :: "User \<Rightarrow> time \<Rightarrow> 'b users_state \<Rightarrow> UserStats" where
  "compute_stats u now s =
     (let subs = filter (\<lambda>r. s_userId r = u_id u) (us_submissions s);
          completed = filter (\<lambda>r. s_status r = ''APPROVED'') subs;
          days = map (\<lambda>r. day_of (coalesce (s_approvedAt r) (s_createdAt r))) completed
      in \<lparr> st_totalQuests = length subs, st_completedQuests = length completed,
           st_pendingQuests = count_rows (\<lambda>r. s_status r = ''PENDING'') subs,
           st_failedQuests = count_rows (\<lambda>r. s_status r = ''REJECTED'') subs,
           st_successRate = u_successRate u, st_totalEarned = u_totalEarned u,
           st_averageCompletionTime = average (filter (\<lambda>t. t > 0) (map completion_time completed)),
           st_favoriteQuestCategory = None, st_streak = streak_of (day_of now) days,
           st_rank = rank_of (u_id u) (us_users s) \<rparr>)"

definition stats_key :: "string \<Rightarrow> string" where
  "stats_key address = ''user_stats_'' @ address"

definition getUserStats ::
    "('b, user_value) backend \<Rightarrow> time \<Rightarrow> string \<Rightarrow> 'b users_state \<Rightarrow> ('b users_state, user_value cval) outcome" where
  "getUserStats B now address s =
     (case b_get B now (stats_key address) (us_store s) of
        Inl e \<Rightarrow> (Inl e, s)
      | Inr (Some v) \<Rightarrow> (Inr v, s)
      | Inr None \<Rightarrow>
          (case findByAddress address s of
             Inl e \<Rightarrow> (Inl e, s)
           | Inr u \<Rightarrow>
               (let v = CVal (StatsValue (compute_stats u now s))
                in case b_set B now (stats_key address) v (Some 60000) (us_store s) of
                     Inl e \<Rightarrow> (Inl e, s)
                   | Inr b \<Rightarrow> (Inr v, s\<lparr>us_store := b\<rparr>))))"

definition getUserQuests :: "string \<Rightarrow> nat \<Rightarrow> nat \<Rightarrow> 'b users_state \<Rightarrow> exn + (Submission list \<times> nat \<times> nat)" where
  "getUserQuests address page limit s =
     (case findByAddress address s of
        Inl e \<Rightarrow> Inl e
      | Inr u \<Rightarrow>
          (let rows = filter (\<lambda>r. s_userId r = u_id u) (us_submissions s)
           in Inr (page_of page limit (order_desc s_createdAt rows), length rows, ceil_div (length rows) limit)))"

subsection \<open>Updates\<close>

definition updated_fields :: "UpdateProfileDto \<Rightarrow> string list" where
  "updated_fields d =
     (if up_bio d = None then [] else [''bio'']) @ (if up_avatarUrl d = None then [] else [''avatarUrl''])
     @ (if up_privacyLevel d = None then [] else [''privacyLevel''])
     @ (if up_socialLinks d = None then [] else [''socialLinks''])"

definition apply_profile :: "UpdateProfileDto \<Rightarrow> User \<Rightarrow> User" where
  "apply_profile d u =
     u\<lparr>u_bio := (case up_bio d of None \<Rightarrow> u_bio u | Some x \<Rightarrow> Some x),
       u_avatarUrl := (case up_avatarUrl d of None \<Rightarrow> u_avatarUrl u | Some x \<Rightarrow> Some x),
       u_privacyLevel := coalesce (up_privacyLevel d) (u_privacyLevel u),
       u_socialLinks := (case up_socialLinks d of None \<Rightarrow> u_socialLinks u | Some x \<Rightarrow> Some x)\<rparr>"

definition updateProfile ::
    "('b, user_value) backend \<Rightarrow> time \<Rightarrow> string \<Rightarrow> UpdateProfileDto \<Rightarrow> 'b users_state \<Rightarrow> ('b users_state, User) outcome" where
  "updateProfile B now address d s =
     (case findByAddress address s of
        Inl e \<Rightarrow> (Inl e, s)
      | Inr u \<Rightarrow>
          (case updateStatistics now (apply_profile d u) of
             None \<Rightarrow> (Inl nan_for_int, s)
           | Some u' \<Rightarrow>
               (case store_user u' s of
                  Inl e \<Rightarrow> (Inl e, s)
                | Inr s0 \<Rightarrow>
                    (let s1 = emit_user [UserUpdatedEvent (u_id u') (updated_fields d)] s0
                     in case b_del B (stats_key address) (us_store s1) of
                          Inl e \<Rightarrow> (Inl e, s1)
                        | Inr b \<Rightarrow> (Inr u', s1\<lparr>us_store := b\<rparr>)))))"

text \<open>The version key no other code reads; a rejected write is only logged.\<close>

definition clearLeaderboardCache :: "('b, user_value) backend \<Rightarrow> time \<Rightarrow> 'b users_state \<Rightarrow> 'b users_state" where
  "clearLeaderboardCache B now s =
     (case b_set B now ''leaderboard_version'' (CVal (TextValue (show_int now))) (Some 0) (us_store s) of
        Inl e \<Rightarrow> s
      | Inr b \<Rightarrow> s\<lparr>us_store := b\<rparr>)"

definition level_events :: "int \<Rightarrow> int \<Rightarrow> User \<Rightarrow> user_event list" where
  "level_events oldLevel change u =
     ReputationChangedEvent (u_id u) change (u_xp u)
     # (if u_level u > oldLevel then [UserLevelUpEvent (u_id u) (u_level u)] else [])"

definition updateUserXP ::
    "('b, user_value) backend \<Rightarrow> time \<Rightarrow> string \<Rightarrow> int \<Rightarrow> 'b users_state \<Rightarrow> ('b users_state, User) outcome" where
  "updateUserXP B now address xpToAdd s =
     (case findByAddress address s of
        Inl e \<Rightarrow> (Inl e, s)
      | Inr u \<Rightarrow>
          (case calculateLevel (u_xp u + xpToAdd) of
             None \<Rightarrow> (Inl nan_for_int, s)
           | Some l \<Rightarrow>
               (let u' = u\<lparr>u_xp := u_xp u + xpToAdd, u_level := l\<rparr>
                in case store_user u' s of
                     Inl e \<Rightarrow> (Inl e, s)
                   | Inr s1 \<Rightarrow>
                       (Inr u', clearLeaderboardCache B now (emit_user (level_events (u_level u) xpToAdd u') s1)))))"

text \<open>
  \<open>completedQuests\<close> is no column: adding 1 to it changes nothing that is stored, and the success rate is
  computed from \<open>questsCompleted\<close>.  The amount is not used.
\<close>

definition updateQuestCompletion ::
    "('b, user_value) backend \<Rightarrow> time \<Rightarrow> string \<Rightarrow> bool \<Rightarrow> string option \<Rightarrow> 'b users_state
     \<Rightarrow> ('b users_state, User) outcome" where
  "updateQuestCompletion B now address success amount s =
     (case findByAddress address s of
        Inl e \<Rightarrow> (Inl e, s)
      | Inr u \<Rightarrow>
          (let xpAdded = (if success then 100 else 10);
               u1 = u\<lparr>u_xp := u_xp u + xpAdded,
                      u_failedQuests := (if success then u_failedQuests u else u_failedQuests u + 1)\<rparr>
           in case calculateLevel (u_xp u1) of
                None \<Rightarrow> (Inl nan_for_int, s)
              | Some l \<Rightarrow>
                  (let u' = u1\<lparr>u_successRate := calculateSuccessRate (u_questsCompleted u1) (u_failedQuests u1),
                               u_level := l, u_lastActiveAt := Some now\<rparr>
                   in case store_user u' s of
                        Inl e \<Rightarrow> (Inl e, s)
                      | Inr s0 \<Rightarrow>
                          (let s1 = emit_user (level_events (u_level u) xpAdded u') s0
                           in case b_del B (stats_key address) (us_store s1) of
                                Inl e \<Rightarrow> (Inl e, s1)
                              | Inr b \<Rightarrow> (Inr u', clearLeaderboardCache B now (s1\<lparr>us_store := b\<rparr>))))))"

definition deleteUser ::
    "('b, user_value) backend \<Rightarrow> time \<Rightarrow> string \<Rightarrow> User \<Rightarrow> 'b users_state \<Rightarrow> ('b users_state, unit) outcome" where
  "deleteUser B now address requesting s =
     (case findByAddress address s of
        Inl e \<Rightarrow> (Inl e, s)
      | Inr u \<Rightarrow>
          if u_role requesting \<noteq> ADMIN \<and> u_id requesting \<noteq> u_id u
          then (Inl (BadRequestException ''You can only delete your own account''), s)
          else
            (let s1 = s\<lparr>us_users := remove_row u_id (u_id u) (us_users s)\<rparr>
             in case b_del B (stats_key address) (us_store s1) of
                  Inl e \<Rightarrow> (Inl e, s1)
                | Inr b \<Rightarrow> (Inr (), clearLeaderboardCache B now (s1\<lparr>us_store := b\<rparr>))))"

subsection \<open>The leaderboard\<close>

text \<open>The columns of the entity; selecting any other property is rejected before the query is sent.\<close>

definition user_columns :: "string list" where
  "user_columns = [''id'', ''stellarAddress'', ''username'', ''email'', ''role'', ''xp'', ''level'',
     ''questsCompleted'', ''badges'', ''avatarUrl'', ''bio'', ''socialLinks'', ''privacyLevel'',
     ''failedQuests'', ''successRate'', ''totalEarned'', ''lastActiveAt'', ''pushToken'', ''webhookUrl'',
     ''createdAt'', ''updatedAt'', ''lastSyncedAt'']"

definition select_users :: "string list \<Rightarrow> User list \<Rightarrow> exn + User list" where
  "select_users cols rows =
     (case find (\<lambda>c. c \<notin> set user_columns) cols of
        Some c \<Rightarrow> Inl (JsError (''Property \"'' @ c @ ''\" was not found in \"User\"''))
      | None \<Rightarrow> Inr rows)"

definition leaderboard_select :: "string list" where
  "leaderboard_select = [''id'', ''username'', ''avatarUrl'', ''stellarAddress'', ''xp'', ''level'',
     ''completedQuests'', ''totalEarned'']"

definition leaderboard_key :: "nat \<Rightarrow> nat \<Rightarrow> string" where
  "leaderboard_key page limit = ''leaderboard_page_'' @ show_nat page @ ''_limit_'' @ show_nat limit"

definition board_entry :: "nat \<Rightarrow> User \<Rightarrow> LeaderboardEntry" where
  "board_entry r u = \<lparr> lb_rank = r, lb_userId = u_id u, lb_username = u_username u,
     lb_avatarUrl = u_avatarUrl u, lb_stellarAddress = u_stellarAddress u, lb_xp = u_xp u,
     lb_level = u_level u, lb_totalEarned = u_totalEarned u \<rparr>"

definition getLeaderboard ::
    "('b, user_value) backend \<Rightarrow> time \<Rightarrow> nat \<Rightarrow> nat \<Rightarrow> 'b users_state \<Rightarrow> ('b users_state, user_value cval) outcome" where
  "getLeaderboard B now page limit s =
     (case b_get B now (leaderboard_key page limit) (us_store s) of
        Inl e \<Rightarrow> (Inl e, s)
      | Inr (Some v) \<Rightarrow> (Inr v, s)
      | Inr None \<Rightarrow>
          (case select_users leaderboard_select (page_of page limit (order_desc u_xp (us_users s))) of
             Inl e \<Rightarrow> (Inl e, s)
           | Inr us \<Rightarrow>
               (let v = CVal (BoardValue (map (\<lambda>(i, u). board_entry ((page - 1) * limit + i + 1) u) (enumerate 0 us)))
                in case b_set B now (leaderboard_key page limit) v (Some 30000) (us_store s) of
                     Inl e \<Rightarrow> (Inl e, s)
                   | Inr b \<Rightarrow> (Inr v, s\<lparr>us_store := b\<rparr>))))"

text \<open>The event names \<open>UserEventsHandler\<close> listens to.\<close>

definition user_handler_names :: "string list" where
  "user_handler_names = [''user.level-up'', ''user.reputation-changed'']"

end
