(* ===== verification/UsersProps.thy ===== *)
theory UsersProps
  imports Users CacheProps
begin

text \<open>
  Properties of the users module: experience and levels along every sequence of calls, the events of a
  change of experience, the leaderboard and the streak of the statistics.
\<close>

interpretation user_repo: repository u_id "\<lambda>t. t" find_row "save_row u_id" "wf_table u_id"
  by (rule table_repository)

subsection \<open>Runs\<close>

text \<open>
  Calls one after the other.  A run carries the list of the rows given to \<open>create\<close>, whatever they hold:
  the request may set any column, and the columns it does not set have their defaults.
\<close>

inductive user_step :: "('b, user_value) backend \<Rightarrow> User list \<Rightarrow> 'b users_state \<Rightarrow> 'b users_state \<Rightarrow> bool"
  for B :: "('b, user_value) backend" where
  create: "user_step B [u] s (state_of (create_user u s))"
| profile: "user_step B [] s (state_of (updateProfile B now a d s))"
| xp: "user_step B [] s (state_of (updateUserXP B now a n s))"
| completion: "user_step B [] s (state_of (updateQuestCompletion B now a ok am s))"
| delete: "user_step B [] s (state_of (deleteUser B now a u s))"
| stats: "user_step B [] s (state_of (getUserStats B now a s))"
| board: "user_step B [] s (state_of (getLeaderboard B now p l s))"

inductive user_steps :: "('b, user_value) backend \<Rightarrow> User list \<Rightarrow> 'b users_state \<Rightarrow> 'b users_state \<Rightarrow> bool"
  for B :: "('b, user_value) backend" where
  refl: "user_steps B [] s s"
| more: "user_steps B cs s s' \<Longrightarrow> user_step B c s' s'' \<Longrightarrow> user_steps B (cs @ c) s s''"

lemma find_users:
  assumes "findByAddress a s = Inr u"
  shows "u \<in> set (us_users s)" and "u_stellarAddress u = Some a"
  using assms find_row_some [of _ "us_users s" u] by (auto simp: findByAddress_def split: option.splits)

lemma clear_fields [frame_simps]:
  "us_users (clearLeaderboardCache B now s) = us_users s"
  "us_events (clearLeaderboardCache B now s) = us_events s"
  "us_submissions (clearLeaderboardCache B now s) = us_submissions s"
  by (simp_all add: clearLeaderboardCache_def split: sum.split)

lemma emit_fields [frame_simps]:
  "us_users (emit_user es s) = us_users s" "us_events (emit_user es s) = us_events s @ es"
  "us_store (emit_user es s) = us_store s" "us_submissions (emit_user es s) = us_submissions s"
  by (simp_all add: emit_user_def)

lemma store_userE:
  assumes "store_user u s = Inr s1"
  obtains "in_range u" and "s1 = s\<lparr>us_users := save_row u_id u (us_users s)\<rparr>"
  using assms by (auto simp: store_user_def save_user_def split: if_splits)

text \<open>Each writing call leaves the table as it is or saves one row.\<close>

lemma profile_users:
  "us_users (state_of (updateProfile B now a d s)) = us_users s
   \<or> (\<exists>u u'. findByAddress a s = Inr u \<and> updateStatistics now (apply_profile d u) = Some u' \<and> in_range u'
        \<and> us_users (state_of (updateProfile B now a d s)) = save_row u_id u' (us_users s))"
  by (auto simp: updateProfile_def frame_simps Let_def elim!: store_userE split: sum.split option.split)

lemma xp_users:
  "us_users (state_of (updateUserXP B now a n s)) = us_users s
   \<or> (\<exists>u l. findByAddress a s = Inr u \<and> calculateLevel (u_xp u + n) = Some l
        \<and> in_range (u\<lparr>u_xp := u_xp u + n, u_level := l\<rparr>)
        \<and> us_users (state_of (updateUserXP B now a n s))
            = save_row u_id (u\<lparr>u_xp := u_xp u + n, u_level := l\<rparr>) (us_users s))"
  by (auto simp: updateUserXP_def frame_simps Let_def elim!: store_userE split: sum.split option.split)

definition completion_row :: "bool \<Rightarrow> time \<Rightarrow> int \<Rightarrow> User \<Rightarrow> User" where
  "completion_row ok now l u =
     u\<lparr>u_xp := u_xp u + (if ok then 100 else 10), u_failedQuests := (if ok then u_failedQuests u else u_failedQuests u + 1),
       u_successRate := calculateSuccessRate (u_questsCompleted u) (if ok then u_failedQuests u else u_failedQuests u + 1),
       u_level := l, u_lastActiveAt := Some now\<rparr>"

lemma completion_users:
  "us_users (state_of (updateQuestCompletion B now a ok am s)) = us_users s
   \<or> (\<exists>u l. findByAddress a s = Inr u \<and> calculateLevel (u_xp u + (if ok then 100 else 10)) = Some l
        \<and> in_range (completion_row ok now l u)
        \<and> us_users (state_of (updateQuestCompletion B now a ok am s)) = save_row u_id (completion_row ok now l u) (us_users s))"
  by (auto simp: updateQuestCompletion_def completion_row_def frame_simps Let_def elim!: store_userE split: sum.split option.split)

lemma delete_users:
  "us_users (state_of (deleteUser B now a u s)) = us_users s
   \<or> (\<exists>i. us_users (state_of (deleteUser B now a u s)) = remove_row u_id i (us_users s))"
  by (auto simp: deleteUser_def frame_simps Let_def split: sum.split)

lemma read_users [frame_simps]:
  "us_users (state_of (getUserStats B now a s)) = us_users s"
  "us_users (state_of (getLeaderboard B now p l s)) = us_users s"
  by (simp_all add: getUserStats_def getLeaderboard_def Let_def split: sum.split option.split)


text \<open>A statement about every row holds along a run that holds of the created rows once the other three ways to make a row keep it.\<close>

definition kept :: "(User \<Rightarrow> bool) \<Rightarrow> bool" where
  "kept P \<longleftrightarrow>
     (\<forall>u u' now d. P u \<longrightarrow> updateStatistics now (apply_profile d u) = Some u' \<longrightarrow> in_range u' \<longrightarrow> P u')
     \<and> (\<forall>u n l. P u \<longrightarrow> calculateLevel (u_xp u + n) = Some l \<longrightarrow> in_range (u\<lparr>u_xp := u_xp u + n, u_level := l\<rparr>)
           \<longrightarrow> P (u\<lparr>u_xp := u_xp u + n, u_level := l\<rparr>))
     \<and> (\<forall>u ok now l. P u \<longrightarrow> calculateLevel (u_xp u + (if ok then 100 else 10)) = Some l
           \<longrightarrow> in_range (completion_row ok now l u) \<longrightarrow> P (completion_row ok now l u))"

lemma rows_save: "\<forall>u \<in> set t. P u \<Longrightarrow> P r \<Longrightarrow> \<forall>u \<in> set (save_row u_id r t). P u"
  using set_save_row_subset [of u_id r t] by auto

lemma kept_created:
  assumes "P u" and "\<forall>u \<in> set (us_users s). P u"
  shows "\<forall>v \<in> set (us_users (state_of (create_user u s))). P v"
proof -
  from assms(1) have "\<forall>v \<in> set (save_row u_id u (us_users s)). P v" by (rule rows_save [OF assms(2)])
  with assms(2) show ?thesis by (auto simp: create_user_def frame_simps elim!: store_userE split: sum.split)
qed

lemma kept_profile:
  assumes k: "kept P" and rows: "\<forall>u \<in> set (us_users s). P u"
  shows "\<forall>v \<in> set (us_users (state_of (updateProfile B now a d s))). P v"
  using profile_users [of B now a d s]
proof (elim disjE exE conjE)
  fix u u' assume u: "findByAddress a s = Inr u" "updateStatistics now (apply_profile d u) = Some u'" "in_range u'"
    and t: "us_users (state_of (updateProfile B now a d s)) = save_row u_id u' (us_users s)"
  have "P u" using find_users(1) [OF u(1)] rows by blast
  with k u(2,3) have "P u'" unfolding kept_def by fast
  then show ?thesis unfolding t by (rule rows_save [OF rows])
qed (simp add: rows)

lemma kept_xp:
  assumes k: "kept P" and rows: "\<forall>u \<in> set (us_users s). P u"
  shows "\<forall>v \<in> set (us_users (state_of (updateUserXP B now a n s))). P v"
  using xp_users [of B now a n s]
proof (elim disjE exE conjE)
  fix u l assume u: "findByAddress a s = Inr u" "calculateLevel (u_xp u + n) = Some l"
      "in_range (u\<lparr>u_xp := u_xp u + n, u_level := l\<rparr>)"
    and t: "us_users (state_of (updateUserXP B now a n s)) = save_row u_id (u\<lparr>u_xp := u_xp u + n, u_level := l\<rparr>) (us_users s)"
  have "P u" using find_users(1) [OF u(1)] rows by blast
  with k u(2,3) have "P (u\<lparr>u_xp := u_xp u + n, u_level := l\<rparr>)" unfolding kept_def by fast
  then show ?thesis unfolding t by (rule rows_save [OF rows])
qed (simp add: rows)

lemma kept_completion:
  assumes k: "kept P" and rows: "\<forall>u \<in> set (us_users s). P u"
  shows "\<forall>v \<in> set (us_users (state_of (updateQuestCompletion B now a ok am s))). P v"
  using completion_users [of B now a ok am s]
proof (elim disjE exE conjE)
  fix u l assume u: "findByAddress a s = Inr u" "calculateLevel (u_xp u + (if ok then 100 else 10)) = Some l"
      "in_range (completion_row ok now l u)"
    and t: "us_users (state_of (updateQuestCompletion B now a ok am s)) = save_row u_id (completion_row ok now l u) (us_users s)"
  have "P u" using find_users(1) [OF u(1)] rows by blast
  with k u(2,3) have "P (completion_row ok now l u)" unfolding kept_def by fast
  then show ?thesis unfolding t by (rule rows_save [OF rows])
qed (simp add: rows)

lemma kept_delete:
  "\<forall>u \<in> set (us_users s). P u \<Longrightarrow> \<forall>v \<in> set (us_users (state_of (deleteUser B now a r s))). P v"
  using delete_users [of B now a r s] by (auto simp: remove_row_def)

lemma kept_step:
  assumes "user_step B c s s'" and k: "kept P" and rows: "\<forall>u \<in> set (us_users s). P u"
    and created: "\<forall>u \<in> set c. P u"
  shows "\<forall>u \<in> set (us_users s'). P u"
  using assms(1)
proof cases
  case (create u)
  show ?thesis unfolding create(2) by (rule kept_created [OF _ rows]) (use created create(1) in simp)
next
  case (profile now a d)
  show ?thesis unfolding profile(2) by (rule kept_profile [OF k rows])
next
  case (xp now a n)
  show ?thesis unfolding xp(2) by (rule kept_xp [OF k rows])
next
  case (completion now a ok am)
  show ?thesis unfolding completion(2) by (rule kept_completion [OF k rows])
next
  case (delete now a u)
  show ?thesis unfolding delete(2) by (rule kept_delete [OF rows])
next
  case (stats now a)
  show ?thesis unfolding stats(2) frame_simps by (rule rows)
next
  case (board now p l)
  show ?thesis unfolding board(2) frame_simps by (rule rows)
qed

lemma kept_run:
  "user_steps B cs s s' \<Longrightarrow> kept P \<Longrightarrow> \<forall>u \<in> set (us_users s) \<union> set cs. P u \<Longrightarrow> \<forall>u \<in> set (us_users s'). P u"
proof (induction rule: user_steps.induct)
  case (more cs s s' c s'')
  then have "\<forall>u \<in> set (us_users s'). P u" and "\<forall>u \<in> set c. P u" by auto
  then show ?case by (rule kept_step [OF more(2,4)])
qed simp

subsection \<open>Experience and levels\<close>

definition levelled :: "User \<Rightarrow> bool" where
  "levelled u \<longleftrightarrow> int4 (u_xp u) \<and> calculateLevel (u_xp u) = Some (u_level u)"

lemma calculateLevel_1: "calculateLevel 0 = Some 1"
  by (simp add: calculateLevel_def)

lemma int4_0: "int4 0" by (simp add: int4_def)

lemma kept_levelled: "kept levelled"
  unfolding kept_def levelled_def
proof (intro conjI allI impI; (elim conjE)?)
  fix u u' :: User and now d
  assume "updateStatistics now (apply_profile d u) = Some u'" and "in_range u'"
  then show "int4 (u_xp u')" and "calculateLevel (u_xp u') = Some (u_level u')"
    by (auto simp: updateStatistics_def in_range_def split: option.splits)
qed (simp_all add: calculateLevel_1 int4_0 in_range_def completion_row_def)

lemma level_bounds:
  assumes "levelled u"
  shows "0 \<le> u_xp u \<and> 1 \<le> u_level u \<and> u_level u \<le> 4634"
proof -
  from assms have xp: "0 \<le> u_xp u" and l: "u_level u = max 1 (int (isqrt (nat (u_xp u div 100))))"
    by (auto simp: levelled_def calculateLevel_def split: if_splits)
  let ?r = "isqrt (nat (u_xp u div 100))"
  have "u_xp u \<le> 2147483647" using assms by (simp add: levelled_def int4_def)
  then have "u_xp u div 100 \<le> 21474836" by linarith
  then have "nat (u_xp u div 100) \<le> 21474836" by linarith
  with isqrt_bounds [of "nat (u_xp u div 100)"] have "?r * ?r \<le> 21474836" by linarith
  moreover have "4635 * 4635 \<le> ?r * ?r" if "4635 \<le> ?r" using that by (intro mult_le_mono)
  ultimately have "?r \<le> 4634" by fastforce
  with xp l show ?thesis by simp
qed

text \<open>
  Claim C10.  Levels follow experience: when every row the run starts from and every row given to
  \<open>create\<close> along it has experience within its \<open>int\<close> column and the level \<open>calculateLevel\<close> gives for
  it (as the defaults 0 and 1 have), then whatever calls of the service run, on any cache manager, every
  stored user has experience that is not negative and exactly the level \<open>calculateLevel\<close> gives for
  it, between 1 and 4634, the last level the column can reach.  (\<open>create\<close> itself checks nothing: a row
  created with another level keeps it until the next update of its experience.)
\<close>
theorem level_follows_xp:
  assumes "user_steps B created s s'" and "u \<in> set (us_users s')"
    and "\<forall>c \<in> set (us_users s) \<union> set created. int4 (u_xp c) \<and> calculateLevel (u_xp c) = Some (u_level c)"
  shows "calculateLevel (u_xp u) = Some (u_level u) \<and> 0 \<le> u_xp u \<and> 1 \<le> u_level u \<and> u_level u \<le> 4634"
proof -
  have "\<forall>c \<in> set (us_users s) \<union> set created. levelled c" using assms(3) by (simp add: levelled_def)
  with kept_run [OF assms(1) kept_levelled] assms(2) have "levelled u" by blast
  with level_bounds show ?thesis by (auto simp: levelled_def)
qed

definition new_user :: User where
  "new_user = \<lparr> u_id = ''u'', u_stellarAddress = Some ''GA'', u_username = Some ''alice'', u_email = None, u_role = USER,
     u_xp = 0, u_level = 1, u_questsCompleted = 0, u_badges = [], u_avatarUrl = None, u_bio = None,
     u_socialLinks = None, u_privacyLevel = PUBLIC, u_failedQuests = 0, u_successRate = 0, u_totalEarned = 0,
     u_lastActiveAt = None, u_pushToken = None, u_webhookUrl = None, u_createdAt = 0 \<rparr>"

type_synonym user_memory = "string \<Rightarrow> (user_value cval \<times> time option) option"

definition one_user :: "user_memory users_state" where
  "one_user = \<lparr> us_users = [new_user], us_submissions = [], us_store = (\<lambda>_. None), us_events = [] \<rparr>"

definition after_quest :: "user_memory users_state" where
  "after_quest = state_of (updateUserXP memory_backend 5 ''GA'' 350
     (state_of (updateQuestCompletion memory_backend 4 ''GA'' True (Some ''10'') one_user)))"

lemma levels_100_450: "calculateLevel 100 = Some 1" "calculateLevel 450 = Some 2"
proof -
  show "calculateLevel 450 = Some 2" using calculateLevel_iff [of 2 450] by simp
  have "isqrt 1 = 1" by (rule isqrt_unique) simp_all
  then show "calculateLevel 100 = Some 1" by (simp add: calculateLevel_def)
qed

lemmas users_eval = one_user_def new_user_def findByAddress_def find_row_def store_user_def save_user_def in_range_def
  int4_def clashes_def emit_user_def clearLeaderboardCache_def memory_backend_def Let_def levels_100_450

lemma rate_zero: "calculateSuccessRate 0 f = 0"
  by (simp add: calculateSuccessRate_def)

lemma quest_counted: "us_users (state_of (updateQuestCompletion memory_backend 4 ''GA'' True (Some ''10'') one_user))
    = [new_user\<lparr>u_xp := 100, u_lastActiveAt := Some 4\<rparr>]"
  by (simp add: updateQuestCompletion_def users_eval rate_zero)

lemma after_quest_users: "us_users after_quest = [new_user\<lparr>u_xp := 450, u_level := 2, u_lastActiveAt := Some 4\<rparr>]"
proof -
  have "findByAddress ''GA'' s = Inr (new_user\<lparr>u_xp := 100, u_lastActiveAt := Some 4\<rparr>)"
    if "us_users s = [new_user\<lparr>u_xp := 100, u_lastActiveAt := Some 4\<rparr>]" for s :: "user_memory users_state"
    using that by (simp add: users_eval)
  from this [OF quest_counted] show ?thesis
    by (simp add: after_quest_def updateUserXP_def quest_counted levels_100_450 store_user_def save_user_def
        in_range_def int4_def clashes_def frame_simps Let_def new_user_def)
qed

definition no_users :: "user_memory users_state" where
  "no_users = \<lparr> us_users = [], us_submissions = [], us_store = (\<lambda>_. None), us_events = [] \<rparr>"

lemma create_first:
  "us_users (state_of (create_user new_user no_users)) = [new_user]"
  by (simp add: create_user_def no_users_def users_eval)

lemma after_quest_steps: "user_steps memory_backend [] one_user after_quest"
  unfolding after_quest_def
  using user_steps.more [OF user_steps.more [OF user_steps.refl user_step.completion] user_step.xp]
  by simp

theorem level_follows_xp_witness:
  "(\<exists>u \<in> set (us_users after_quest). u_xp u = 450 \<and> calculateLevel (u_xp u) = Some (u_level u) \<and> u_level u \<le> 4634)
   \<and> calculateLevel (u_xp new_user) = Some (u_level new_user)"
proof
  have ok: "int4 (u_xp new_user) \<and> calculateLevel (u_xp new_user) = Some (u_level new_user)"
    by (simp add: new_user_def int4_def calculateLevel_1)
  then have "\<forall>c \<in> set (us_users one_user) \<union> set []. int4 (u_xp c) \<and> calculateLevel (u_xp c) = Some (u_level c)"
    by (simp add: one_user_def)
  with level_follows_xp [OF after_quest_steps] after_quest_users
  show "\<exists>u \<in> set (us_users after_quest). u_xp u = 450 \<and> calculateLevel (u_xp u) = Some (u_level u) \<and> u_level u \<le> 4634"
    by simp
  have "user_steps memory_backend [new_user] no_users (state_of (create_user new_user no_users))"
    using user_steps.more [OF user_steps.refl user_step.create] by simp
  from level_follows_xp [OF this] ok show "calculateLevel (u_xp new_user) = Some (u_level new_user)"
    by (simp add: create_first)
qed

subsection \<open>Completed quests\<close>

lemma kept_uncounted: "kept (\<lambda>u. u_questsCompleted u = 0 \<and> u_successRate u = 0)"
  by (simp add: kept_def completion_row_def rate_zero)
     (auto simp: updateStatistics_def apply_profile_def rate_zero split: option.splits)

text \<open>
  Successes are not counted: in every state the calls of the service reach from rows, and with created
  rows, that have no completed quests and the success rate 0, whatever number of completed quests \<open>updateQuestCompletion\<close> was told of, every user has
  completed no quest and has the success rate 0: the counter it adds 1 to is not a column, and the rate is
  computed from the column nothing writes.
\<close>
theorem successes_never_counted:
  assumes "user_steps B created s s'"
    and "\<forall>u \<in> set (us_users s) \<union> set created. u_questsCompleted u = 0 \<and> u_successRate u = 0"
    and "u \<in> set (us_users s')"
  shows "u_questsCompleted u = 0 \<and> u_successRate u = 0"
  using kept_run [OF assms(1) kept_uncounted assms(2)] assms(3) by blast

theorem successes_never_counted_witness:
  "\<exists>u. us_users (state_of (updateQuestCompletion memory_backend 4 ''GA'' True (Some ''10'') one_user)) = [u]
     \<and> u_xp u = 100 \<and> u_questsCompleted u = 0 \<and> u_successRate u = 0"
proof -
  have "user_steps memory_backend [] one_user (state_of (updateQuestCompletion memory_backend 4 ''GA'' True (Some ''10'') one_user))"
    using user_steps.more [OF user_steps.refl user_step.completion] by simp
  from successes_never_counted [OF this] quest_counted show ?thesis by (simp add: one_user_def new_user_def)
qed


subsection \<open>A change of experience\<close>

lemma level_in_range: "calculateLevel xp = Some l \<Longrightarrow> int4 xp \<Longrightarrow> int4 l"
  using level_bounds [of "new_user\<lparr>u_xp := xp, u_level := l\<rparr>"] by (simp add: levelled_def int4_def)

lemma clashes_same:
  "u_id u' = u_id u \<Longrightarrow> u_stellarAddress u' = u_stellarAddress u \<Longrightarrow> u_email u' = u_email u \<Longrightarrow> clashes u' r = clashes u r"
  by (simp add: clashes_def)

lemma updateUserXP_eq:
  assumes "findByAddress a s = Inr u" and "in_range u" and "\<forall>r \<in> set (us_users s). \<not> clashes u r"
  shows "updateUserXP B now a n s =
    (case calculateLevel (u_xp u + n) of
       None \<Rightarrow> (Inl nan_for_int, s)
     | Some l \<Rightarrow> if int4 (u_xp u + n)
         then (Inr (u\<lparr>u_xp := u_xp u + n, u_level := l\<rparr>), clearLeaderboardCache B now
                (emit_user (level_events (u_level u) n (u\<lparr>u_xp := u_xp u + n, u_level := l\<rparr>))
                  (save_user (u\<lparr>u_xp := u_xp u + n, u_level := l\<rparr>) s)))
         else (Inl (JsError ''integer out of range''), s))"
proof -
  have "\<forall>r \<in> set (us_users s). \<not> clashes (u\<lparr>u_xp := u_xp u + n, u_level := l\<rparr>) r" for l
    using assms(3) by (simp add: clashes_def)
  with assms(1,2) show ?thesis
    by (auto simp: updateUserXP_def store_user_def in_range_def Let_def level_in_range split: option.splits)
qed

text \<open>
  Adding experience: for a stored user the call succeeds exactly when the sum stays within
  the column - not negative, at most \<open>2\<^sup>3\<^sup>1 - 1\<close> - and changes nothing otherwise.  When it succeeds, on any
  cache manager, the stored row has the sum and its level, and the change is announced, with a level-up
  exactly when the level rose; but neither name is one \<open>UserEventsHandler\<close>, which stores both kinds of
  events, listens to.
\<close>
theorem xp_update_effect:
  assumes "findByAddress a s = Inr u" and "in_range u" and "\<forall>r \<in> set (us_users s). \<not> clashes u r"
    and "wf_table u_id (us_users s)" and "updateUserXP B now a n s = (r, s')"
  shows "if 0 \<le> u_xp u + n \<and> u_xp u + n \<le> 2147483647
    then \<exists>l es. calculateLevel (u_xp u + n) = Some l \<and> r = Inr (u\<lparr>u_xp := u_xp u + n, u_level := l\<rparr>)
      \<and> find_row (\<lambda>v. u_id v = u_id u) (us_users s') = Some (u\<lparr>u_xp := u_xp u + n, u_level := l\<rparr>)
      \<and> us_events s' = us_events s @ es
      \<and> (UserLevelUpEvent (u_id u) l \<in> set es \<longleftrightarrow> u_level u < l)
      \<and> (\<forall>e \<in> set es. event_name e \<notin> set user_handler_names)
    else (\<exists>e. r = Inl e) \<and> s' = s"
proof (cases "0 \<le> u_xp u + n \<and> u_xp u + n \<le> 2147483647")
  case True
  then obtain l where l: "calculateLevel (u_xp u + n) = Some l" using calculateLevel_some by blast
  let ?u = "u\<lparr>u_xp := u_xp u + n, u_level := l\<rparr>" and ?es = "level_events (u_level u) n (u\<lparr>u_xp := u_xp u + n, u_level := l\<rparr>)"
  have i: "int4 (u_xp u + n)" using True by (simp add: int4_def)
  have r: "r = Inr ?u" and t: "us_users s' = save_row u_id ?u (us_users s)" and e: "us_events s' = us_events s @ ?es"
    using assms(5) updateUserXP_eq [OF assms(1-3), of B now n] l i by (auto simp: save_user_def frame_simps)
  have "find_row (\<lambda>v. u_id v = u_id u) (us_users s') = Some ?u"
    using user_repo.find_saved [OF assms(4), of ?u] by (simp add: t eq_commute)
  moreover have "UserLevelUpEvent (u_id u) l \<in> set ?es \<longleftrightarrow> u_level u < l" by (simp add: level_events_def)
  moreover have "\<forall>e \<in> set ?es. event_name e \<notin> set user_handler_names"
    by (simp add: level_events_def user_handler_names_def)
  ultimately show ?thesis using True l r e by simp
next
  case False
  then have "calculateLevel (u_xp u + n) = None \<or> \<not> int4 (u_xp u + n)" by (auto simp: calculateLevel_def int4_def)
  then have "(\<exists>e. r = Inl e) \<and> s' = s"
    using assms(5) updateUserXP_eq [OF assms(1-3), of B now n] by (auto split: option.splits)
  then show ?thesis unfolding if_not_P [OF False] .
qed

theorem xp_update_effect_witness:
  "us_events (state_of (updateUserXP memory_backend 1 ''GA'' 450 one_user))
      = [ReputationChangedEvent ''u'' 450 450, UserLevelUpEvent ''u'' 2]
   \<and> fst (updateUserXP memory_backend 1 ''GA'' 450 one_user) = Inr (new_user\<lparr>u_xp := 450, u_level := 2\<rparr>)
   \<and> state_of (updateUserXP memory_backend 1 ''GA'' (- 1) one_user) = one_user"
proof -
  have a: "findByAddress ''GA'' one_user = Inr new_user" "in_range new_user"
    "\<forall>r \<in> set (us_users one_user). \<not> clashes new_user r" "wf_table u_id (us_users one_user)"
    by (simp_all add: users_eval wf_table_def)
  have x: "u_xp new_user = 0" "u_level new_user = 1" "u_id new_user = ''u''" by (simp_all add: new_user_def)
  have e: "if 0 \<le> n \<and> n \<le> 2147483647
      then \<exists>l. calculateLevel n = Some l \<and> fst (updateUserXP memory_backend 1 ''GA'' n one_user) = Inr (new_user\<lparr>u_xp := n, u_level := l\<rparr>)
      else snd (updateUserXP memory_backend 1 ''GA'' n one_user) = one_user" for n
    using xp_update_effect [OF a prod.collapse [symmetric], where B = memory_backend and now = 1 and n = n] x
    by (auto split: if_splits)
  have "fst (updateUserXP memory_backend 1 ''GA'' 450 one_user) = Inr (new_user\<lparr>u_xp := 450, u_level := 2\<rparr>)"
    using e [of 450] x levels_100_450 by auto
  moreover have "snd (updateUserXP memory_backend 1 ''GA'' (- 1) one_user) = one_user" using e [of "- 1"] x by simp
  moreover have "us_events (state_of (updateUserXP memory_backend 1 ''GA'' 450 one_user))
      = [ReputationChangedEvent ''u'' 450 450, UserLevelUpEvent ''u'' 2]"
    using updateUserXP_eq [OF a(1-3), of memory_backend 1 450] x levels_100_450
    by (simp add: int4_def level_events_def save_user_def one_user_def frame_simps)
  ultimately show ?thesis by simp
qed

subsection \<open>The leaderboard\<close>

definition no_board :: "('b, user_value) backend \<Rightarrow> 'b \<Rightarrow> bool" where
  "no_board B b = (\<forall>t p l. b_get B t (leaderboard_key p l) b = Inr None)"

lemma board_keys [simp]: "leaderboard_key p l \<noteq> stats_key a" "leaderboard_key p l \<noteq> ''leaderboard_version''"
  by (simp_all add: leaderboard_key_def stats_key_def)

lemma board_rejected: "select_users leaderboard_select us = Inl (JsError ''Property \"completedQuests\" was not found in \"User\"'')"
  by (simp add: select_users_def leaderboard_select_def user_columns_def)

locale users_cache = cache_backend B for B :: "('b, user_value) backend"
begin

lemma no_board_set: "b_set B now k v ttl b = Inr b' \<Longrightarrow> \<forall>p l. leaderboard_key p l \<noteq> k \<Longrightarrow> no_board B b \<Longrightarrow> no_board B b'"
  by (simp add: no_board_def get_set_other)

lemma no_board_del: "b_del B k b = Inr b' \<Longrightarrow> \<forall>p l. leaderboard_key p l \<noteq> k \<Longrightarrow> no_board B b \<Longrightarrow> no_board B b'"
  by (simp add: no_board_def get_del_other)

lemma no_board_clear: "no_board B (us_store s) \<Longrightarrow> no_board B (us_store (clearLeaderboardCache B now s))"
  by (auto simp: clearLeaderboardCache_def split: sum.split elim: no_board_set)

lemma store_user_store: "store_user u s = Inr s1 \<Longrightarrow> us_store s1 = us_store s"
  by (auto elim: store_userE)

lemma board_miss:
  assumes "no_board B (us_store s)"
  shows "getLeaderboard B now p l s = (Inl (JsError ''Property \"completedQuests\" was not found in \"User\"''), s)"
  using assms by (simp add: getLeaderboard_def no_board_def board_rejected)

lemma no_board_step:
  assumes "user_step B c s s'" and n: "no_board B (us_store s)"
  shows "no_board B (us_store s')"
  using assms(1)
proof cases
  case (create u)
  show ?thesis unfolding create(2) using n by (auto simp: create_user_def frame_simps store_user_store split: sum.split)
next
  case (profile now a d)
  show ?thesis unfolding profile(2) using n
    by (auto simp: updateProfile_def frame_simps Let_def store_user_store split: sum.split option.split elim!: no_board_del)
next
  case (xp now a m)
  show ?thesis unfolding xp(2) using n
    by (auto simp: updateUserXP_def frame_simps Let_def store_user_store split: sum.split option.split intro!: no_board_clear)
next
  case (completion now a ok am)
  show ?thesis unfolding completion(2) using n
    by (auto simp: updateQuestCompletion_def frame_simps Let_def store_user_store split: sum.split option.split
        intro!: no_board_clear elim!: no_board_del)
next
  case (delete now a u)
  show ?thesis unfolding delete(2) using n
    by (auto simp: deleteUser_def frame_simps Let_def split: sum.split intro!: no_board_clear elim!: no_board_del)
next
  case (stats now a)
  show ?thesis unfolding stats(2) using n
    by (auto simp: getUserStats_def Let_def split: sum.split option.split elim!: no_board_set)
next
  case (board now p l)
  show ?thesis unfolding board(2) board_miss [OF n] by (simp add: n)
qed

lemma no_board_run: "user_steps B cs s s' \<Longrightarrow> no_board B (us_store s) \<Longrightarrow> no_board B (us_store s')"
  by (induction rule: user_steps.induct) (auto dest: no_board_step)

end

interpretation users_memory: users_cache memory_backend
  by unfold_locales

text \<open>
  The leaderboard is never answered: on a cache manager that keeps its contract and holds
  no leaderboard page, in every state the calls of the service reach, every page of the leaderboard is
  refused, because the query selects a property the entity has no column for; so no page is ever cached.
\<close>
theorem leaderboard_never_answers:
  assumes "cache_backend B" and "no_board B (us_store s)" and "user_steps B cs s s'"
  shows "getLeaderboard B now p l s' = (Inl (JsError ''Property \"completedQuests\" was not found in \"User\"''), s')"
proof -
  have uc: "users_cache B" using assms(1) by (simp add: users_cache_def)
  from users_cache.no_board_run [OF uc assms(3,2)] show ?thesis by (rule users_cache.board_miss [OF uc])
qed

theorem leaderboard_never_answers_witness:
  "getLeaderboard memory_backend 9 1 50 after_quest
     = (Inl (JsError ''Property \"completedQuests\" was not found in \"User\"''), after_quest)"
proof -
  have "no_board memory_backend (us_store one_user)" by (simp add: no_board_def one_user_def memory_backend_def)
  from leaderboard_never_answers [OF memory.cache_backend_axioms this after_quest_steps] show ?thesis by blast
qed


subsection \<open>The streak\<close>

lemma consecutive_run:
  assumes "sorted_wrt (>) (cur # ds)"
  shows "1 \<le> consecutive cur ds \<and> {cur - int (consecutive cur ds) + 1..cur} \<subseteq> set (cur # ds)
    \<and> cur - int (consecutive cur ds) \<notin> set (cur # ds)"
  using assms
proof (induction cur ds rule: consecutive.induct)
  case (2 cur d ds)
  show ?case
  proof (cases "d = cur - 1")
    case True
    with 2 have ih: "{d - int (consecutive d ds) + 1..d} \<subseteq> set (d # ds)" "d - int (consecutive d ds) \<notin> set (d # ds)"
      by simp_all
    have "{cur - int (Suc (consecutive d ds)) + 1..cur} \<subseteq> insert cur {d - int (consecutive d ds) + 1..d}"
      using True by auto
    moreover have "cur - int (Suc (consecutive d ds)) = d - int (consecutive d ds)" using True by simp
    moreover have "consecutive cur (d # ds) = Suc (consecutive d ds)" using True by simp
    moreover have "d - int (consecutive d ds) \<noteq> cur" using True by simp
    ultimately show ?thesis using ih by (simp only:) auto
  next
    case False
    with 2(2) have "cur - 1 \<notin> set (d # ds)" by auto
    with False show ?thesis by auto
  qed
qed simp

text \<open>
  The streak of the statistics is the number of days, up to the last day with a completed
  quest, in the longest unbroken run that ends there - every day of the run has a completion and the day
  before it has none - when that last day is today or yesterday (or, by a clock that runs behind, later);
  otherwise, and without completions, it is 0.
\<close>
theorem streak_correct:
  "if days = [] \<or> Max (set days) < today - 1 then streak_of today days = 0
   else 1 \<le> streak_of today days
     \<and> {Max (set days) - int (streak_of today days) + 1..Max (set days)} \<subseteq> set days
     \<and> Max (set days) - int (streak_of today days) \<notin> set days"
proof (cases "days = []")
  case False
  let ?xs = "sort (remdups days)"
  have xs: "set ?xs = set days" "?xs \<noteq> []" using False
    by (simp_all, metis remdups_eq_nil_iff length_0_conv length_sort)
  have "sorted_wrt (<) ?xs" by (simp add: strict_sorted_iff)
  then have s: "sorted_wrt (>) (rev ?xs)" by (simp add: sorted_wrt_rev)
  have c: "last ?xs # tl (rev ?xs) = rev ?xs" using xs(2) by (metis hd_rev hd_Cons_tl rev_is_Nil_conv)
  have m: "last ?xs = Max (set days)"
  proof (rule Max_eqI [symmetric])
    show "last ?xs \<in> set days" using xs last_in_set by metis
    from s have "sorted_wrt (>) (last ?xs # tl (rev ?xs))" unfolding c .
    then have "\<forall>y \<in> set (last ?xs # tl (rev ?xs)). y \<le> last ?xs" by auto
    then have "\<forall>y \<in> set days. y \<le> last ?xs" unfolding c by (simp only: set_rev xs(1))
    then show "y \<le> last ?xs" if "y \<in> set days" for y using that by blast
  qed simp
  have "1 \<le> consecutive (last ?xs) (tl (rev ?xs))
      \<and> {last ?xs - int (consecutive (last ?xs) (tl (rev ?xs))) + 1..last ?xs} \<subseteq> set days
      \<and> last ?xs - int (consecutive (last ?xs) (tl (rev ?xs))) \<notin> set days"
    using consecutive_run [of "last ?xs" "tl (rev ?xs)"] s unfolding c by (simp add: xs)
  moreover have "streak_of today days = (if today - last ?xs \<le> 1 then consecutive (last ?xs) (tl (rev ?xs)) else 0)"
    using xs(2) by (simp add: streak_of_def Let_def)
  moreover have "(Max (set days) < today - 1) = (\<not> today - last ?xs \<le> 1)" unfolding m by linarith
  ultimately show ?thesis unfolding m using False by simp
qed (simp add: streak_of_def)

end
