(* ===== verification/MultiSigPayout.thy ===== *)
theory MultiSigPayout
  imports Payouts MultiSig
begin

text \<open>
  Payouts that wait for signatures: \<open>multisig-payout.service.ts\<close>, over the states of the payout service
  and of the wallets, and \<open>webhooks/multisig-webhook.handler.ts\<close>, which runs it on the wallets' events.
  The constant \<open>PayoutStatus.AWAITING_APPROVAL\<close> the escrow writes is no member of the enumeration, so
  the value is \<open>undefined\<close>, which a save leaves out.  A condition whose value is \<open>undefined\<close> is left out
  of a query.  The column \<open>updatedAt\<close> is an argument of the dashboard.
\<close>

datatype multisig_payout_event =
    EscrowCreated id id decimal7
  | PayoutApproved id id decimal7
  | PayoutRejected id id string

record mp_state =
  mp_payouts :: payouts_state
  mp_multisig :: multisig_state
  mp_events :: "multisig_payout_event list"

record MultiSigPayoutEscrow =
  es_payoutId :: "id option"
  es_multiSigTransactionId :: id
  es_amount :: decimal7
  es_status :: MultiSigTransactionStatus
  es_approvalsReceived :: nat
  es_threshold :: int
  es_initiatedAt :: time
  es_approvers :: "string list"

text \<open>\<open>JSON.parse(tx.transactionPayload || '{}')\<close>.\<close>

definition empty_payload :: payload where
  "empty_payload = \<lparr> pl_payoutId = None, pl_questId = None, pl_submissionId = None, pl_stellarAddress = None \<rparr>"

definition parse_payload :: "MultiSigTransaction \<Rightarrow> exn + payload" where
  "parse_payload t =
     (case tx_transactionPayload t of
        None \<Rightarrow> Inr empty_payload
      | Some (JsonText p) \<Rightarrow> Inr p
      | Some (OtherText s) \<Rightarrow> if s = [] then Inr empty_payload else Inl (JsError ''Unexpected token in JSON''))"

definition find_payout :: "id option \<Rightarrow> payouts_state \<Rightarrow> Payout option" where
  "find_payout i s = find_row (\<lambda>p. i = None \<or> Some (p_id p) = i) (payouts s)"

definition save_mp :: "Payout \<Rightarrow> mp_state \<Rightarrow> mp_state" where
  "save_mp p s = s\<lparr>mp_payouts := save_payout p (mp_payouts s)\<rparr>"

definition emit_mp :: "multisig_payout_event \<Rightarrow> mp_state \<Rightarrow> mp_state" where
  "emit_mp e s = s\<lparr>mp_events := mp_events s @ [e]\<rparr>"

definition null_text :: "string option \<Rightarrow> string" where
  "null_text x = coalesce x ''null''"

definition buildPayoutEscrow :: "MultiSigTransaction \<Rightarrow> exn + MultiSigPayoutEscrow" where
  "buildPayoutEscrow t =
     (case parse_payload t of
        Inl e \<Rightarrow> Inl e
      | Inr p \<Rightarrow> Inr \<lparr> es_payoutId = pl_payoutId p, es_multiSigTransactionId = tx_id t, es_amount = tx_amount t,
                     es_status = tx_status t, es_approvalsReceived = tx_approvalsReceived t, es_threshold = tx_threshold t,
                     es_initiatedAt = tx_createdAt t, es_approvers = [] \<rparr>)"

definition createPayoutEscrow ::
    "id \<Rightarrow> id \<Rightarrow> string \<Rightarrow> decimal7 \<Rightarrow> string \<Rightarrow> ms_env \<Rightarrow> mp_state \<Rightarrow> (mp_state, MultiSigPayoutEscrow) outcome" where
  "createPayoutEscrow payoutId multiSigWalletId destinationAddress amount userId env s =
     (case find_payout (Some payoutId) (mp_payouts s) of
        None \<Rightarrow> (Inl (NotFoundException (''Payout '' @ payoutId @ '' not found'')), s)
      | Some payout \<Rightarrow>
          if p_status payout \<noteq> PayoutStatus.PENDING
          then (Inl (BadRequestException (''Payout status must be PENDING, current: '' @ show_PayoutStatus (p_status payout))), s)
          else
            (let dto = \<lparr> ct_multiSigWalletId = multiSigWalletId, ct_destinationAddress = destinationAddress,
                        ct_amount = amount, ct_asset = Some (or_default (Some (p_asset payout)) ''XLM''),
                        ct_description = Some (''Payout for submission '' @ null_text (p_submissionId payout)
                          @ '' - Quest '' @ null_text (p_questId payout)),
                        ct_transactionPayload = Some (JsonText \<lparr> pl_payoutId = Some payoutId, pl_questId = p_questId payout,
                          pl_submissionId = p_submissionId payout, pl_stellarAddress = Some (p_stellarAddress payout) \<rparr>) \<rparr>
             in case createTransaction dto userId env (mp_multisig s) of
                  (Inl e, m) \<Rightarrow> (Inl e, s\<lparr>mp_multisig := m\<rparr>)
                | (Inr t, m) \<Rightarrow>
                    (let s1 = emit_mp (EscrowCreated payoutId (tx_id t) amount) (save_mp payout (s\<lparr>mp_multisig := m\<rparr>))
                     in (buildPayoutEscrow t, s1))))"

record approval_status =
  as_approved :: bool
  as_approvalsReceived :: nat
  as_threshold :: int
  as_remainingApprovals :: int

definition checkPayoutApprovalStatus :: "id \<Rightarrow> mp_state \<Rightarrow> exn + approval_status" where
  "checkPayoutApprovalStatus payoutId s =
     (case find_payout (Some payoutId) (mp_payouts s) of
        None \<Rightarrow> Inl (NotFoundException (''Payout '' @ payoutId @ '' not found''))
      | Some payout \<Rightarrow>
          (let found = filter (\<lambda>t. tx_multiSigWalletId t = []) (transactions (mp_multisig s))
           in case find_row (\<lambda>t. case parse_payload t of Inl e \<Rightarrow> False | Inr p \<Rightarrow> pl_payoutId p = Some payoutId) found of
                None \<Rightarrow> Inl (NotFoundException ''Multi-sig transaction not found for this payout'')
              | Some t \<Rightarrow> Inr \<lparr> as_approved = (tx_status t = MultiSigTransactionStatus.APPROVED),
                               as_approvalsReceived = tx_approvalsReceived t, as_threshold = tx_threshold t,
                               as_remainingApprovals = max 0 (tx_threshold t - int (tx_approvalsReceived t)) \<rparr>))"

definition processApprovedPayout :: "id \<Rightarrow> mp_state \<Rightarrow> (mp_state, Payout) outcome" where
  "processApprovedPayout multiSigTransactionId s =
     (case find_tx multiSigTransactionId (mp_multisig s) of
        None \<Rightarrow> (Inl (NotFoundException ''Multi-sig transaction not found''), s)
      | Some t \<Rightarrow>
          if tx_status t \<noteq> MultiSigTransactionStatus.APPROVED
          then (Inl (BadRequestException ''Transaction must be approved to process payout''), s)
          else (case parse_payload t of
                  Inl e \<Rightarrow> (Inl e, s)
                | Inr pl \<Rightarrow>
                    (case find_payout (pl_payoutId pl) (mp_payouts s) of
                       None \<Rightarrow> (Inl (NotFoundException ''Payout not found for this transaction''), s)
                     | Some payout \<Rightarrow>
                         (let p = payout\<lparr>p_status := PayoutStatus.PROCESSING,
                                p_transactionHash := (if truthy (tx_stellarTransactionHash t) then tx_stellarTransactionHash t else None)\<rparr>
                          in (Inr p, emit_mp (PayoutApproved (p_id p) multiSigTransactionId (p_amount p)) (save_mp p s))))))"

definition handleRejectedPayout :: "id \<Rightarrow> string \<Rightarrow> mp_state \<Rightarrow> (mp_state, Payout) outcome" where
  "handleRejectedPayout multiSigTransactionId reason s =
     (case find_tx multiSigTransactionId (mp_multisig s) of
        None \<Rightarrow> (Inl (NotFoundException ''Multi-sig transaction not found''), s)
      | Some t \<Rightarrow>
          (case parse_payload t of
             Inl e \<Rightarrow> (Inl e, s)
           | Inr pl \<Rightarrow>
               (case find_payout (pl_payoutId pl) (mp_payouts s) of
                  None \<Rightarrow> (Inl (NotFoundException ''Payout not found for this transaction''), s)
                | Some payout \<Rightarrow>
                    (let p = payout\<lparr>p_status := PayoutStatus.FAILED,
                           p_failureReason := Some (''Multi-sig rejection: '' @ reason)\<rparr>
                     in (Inr p, emit_mp (PayoutRejected (p_id p) multiSigTransactionId reason) (save_mp p s))))))"

subsection \<open>The dashboard\<close>

record pending_payout =
  pp_payoutId :: "id option"
  pp_transactionId :: id
  pp_questId :: "id option"
  pp_submissionId :: "id option"
  pp_destinationAddress :: string
  pp_amount :: decimal7
  pp_asset :: string
  pp_approvalsReceived :: nat
  pp_threshold :: int
  pp_remainingApprovals :: int
  pp_initiatedAt :: time
  pp_expiresAt :: "time option"
  pp_initiatedBy :: "string option"

record approved_payout =
  ap_payoutId :: "id option"
  ap_amount :: decimal7
  ap_approvedAt :: time
  ap_approvalsReceived :: nat

record payout_dashboard =
  pd_walletAddress :: string
  pd_threshold :: int
  pd_totalSigners :: int
  pd_pendingPayouts :: "pending_payout list"
  pd_pendingCount :: nat
  pd_approvedPayouts :: "approved_payout list"
  pd_approvedCount :: nat

definition pending_entry :: "MultiSigTransaction \<Rightarrow> exn + pending_payout" where
  "pending_entry t =
     (case parse_payload t of
        Inl e \<Rightarrow> Inl e
      | Inr p \<Rightarrow> Inr \<lparr> pp_payoutId = pl_payoutId p, pp_transactionId = tx_id t, pp_questId = pl_questId p,
          pp_submissionId = pl_submissionId p, pp_destinationAddress = tx_destinationAddress t, pp_amount = tx_amount t,
          pp_asset = tx_asset t, pp_approvalsReceived = tx_approvalsReceived t, pp_threshold = tx_threshold t,
          pp_remainingApprovals = max 0 (tx_threshold t - int (tx_approvalsReceived t)), pp_initiatedAt = tx_createdAt t,
          pp_expiresAt = tx_expiresAt t, pp_initiatedBy = tx_initiatedBy t \<rparr>)"

definition approved_entry :: "(MultiSigTransaction \<Rightarrow> time) \<Rightarrow> MultiSigTransaction \<Rightarrow> exn + approved_payout" where
  "approved_entry updatedAt t =
     (case parse_payload t of
        Inl e \<Rightarrow> Inl e
      | Inr p \<Rightarrow> Inr \<lparr> ap_payoutId = pl_payoutId p, ap_amount = tx_amount t, ap_approvedAt = updatedAt t,
                     ap_approvalsReceived = tx_approvalsReceived t \<rparr>)"

text \<open>\<open>map\<close> with a function that may throw.\<close>

fun map_exn :: "('a \<Rightarrow> exn + 'b) \<Rightarrow> 'a list \<Rightarrow> exn + 'b list" where
  "map_exn f [] = Inr []"
| "map_exn f (x # xs) =
     (case f x of Inl e \<Rightarrow> Inl e | Inr y \<Rightarrow> (case map_exn f xs of Inl e \<Rightarrow> Inl e | Inr ys \<Rightarrow> Inr (y # ys)))"

definition getPayoutApprovalDashboard :: "(MultiSigTransaction \<Rightarrow> time) \<Rightarrow> id \<Rightarrow> mp_state \<Rightarrow> exn + payout_dashboard" where
  "getPayoutApprovalDashboard updatedAt multiSigWalletId s =
     (case find_wallet multiSigWalletId (mp_multisig s) of
        None \<Rightarrow> Inl (NotFoundException ''Multi-sig wallet not found'')
      | Some w \<Rightarrow>
          (let of_status = (\<lambda>st. filter (\<lambda>t. tx_multiSigWalletId t = multiSigWalletId \<and> tx_status t = st)
                 (transactions (mp_multisig s)))
           in case map_exn pending_entry (order_desc tx_createdAt (of_status MultiSigTransactionStatus.PENDING)) of
                Inl e \<Rightarrow> Inl e
              | Inr pending \<Rightarrow>
                  (case map_exn (approved_entry updatedAt)
                          (take 10 (order_desc updatedAt (of_status MultiSigTransactionStatus.APPROVED))) of
                     Inl e \<Rightarrow> Inl e
                   | Inr approved \<Rightarrow>
                       Inr \<lparr> pd_walletAddress = w_walletAddress w, pd_threshold = w_threshold w, pd_totalSigners = w_totalSigners w,
                             pd_pendingPayouts = pending, pd_pendingCount = length pending,
                             pd_approvedPayouts = approved, pd_approvedCount = length approved \<rparr>)))"

subsection \<open>The handler of the wallets' events\<close>

definition names_payout :: "MultiSigTransaction \<Rightarrow> bool" where
  "names_payout t = (case tx_transactionPayload t of Some (JsonText p) \<Rightarrow> truthy (pl_payoutId p) | _ \<Rightarrow> False)"

definition handleTransactionApproved :: "id \<Rightarrow> mp_state \<Rightarrow> mp_state" where
  "handleTransactionApproved transactionId s =
     (case find_tx transactionId (mp_multisig s) of
        None \<Rightarrow> s
      | Some t \<Rightarrow> if names_payout t then state_of (processApprovedPayout transactionId s) else s)"

definition handleTransactionRejected :: "id \<Rightarrow> string \<Rightarrow> mp_state \<Rightarrow> mp_state" where
  "handleTransactionRejected transactionId reason s =
     (case find_tx transactionId (mp_multisig s) of
        None \<Rightarrow> s
      | Some t \<Rightarrow> if names_payout t then state_of (handleRejectedPayout transactionId reason s) else s)"

text \<open>The events of the wallets that reach the handler's two working methods; the others are only logged.\<close>

fun on_multisig_event :: "multisig_event \<Rightarrow> mp_state \<Rightarrow> mp_state" where
  "on_multisig_event (TransactionApprovedComplete tid n) s = handleTransactionApproved tid s"
| "on_multisig_event (TransactionRejected tid signer reason) s = handleTransactionRejected tid reason s"
| "on_multisig_event _ s = s"

text \<open>A call of the wallet service, followed by the events it emitted.\<close>

definition with_events :: "(multisig_state \<Rightarrow> (multisig_state, 'a) outcome) \<Rightarrow> mp_state \<Rightarrow> (mp_state, 'a) outcome" where
  "with_events f s =
     (case f (mp_multisig s) of
        (r, m) \<Rightarrow> (r, fold on_multisig_event (drop (length (ms_events (mp_multisig s))) (ms_events m)) (s\<lparr>mp_multisig := m\<rparr>)))"

end
