(* ===== verification/MultiSigPayoutProps.thy ===== *)
theory MultiSigPayoutProps
  imports MultiSigPayout PayoutsProps
begin

text \<open>
  Properties of the payouts that wait for signatures: what an escrow, an approval and a rejection do to
  the payout, together with the payout service that works on the same rows.
\<close>

lemma save_row_same: "wf_table key t \<Longrightarrow> r \<in> set t \<Longrightarrow> save_row key r t = t"
proof (induction t)
  case (Cons q t)
  show ?case
  proof (cases "key q = key r")
    case True
    with Cons.prems have "q = r" by (metis list.set_intros(1) wf_table_unique)
    then show ?thesis by simp
  next
    case False
    with Cons.prems have "r \<in> set t" by auto
    with Cons False show ?thesis by (simp add: wf_table_Cons)
  qed
qed simp

lemma find_payout_id:
  "find_payout (Some i) s = find_row (\<lambda>p. p_id p = i) (payouts s)"
  by (simp add: find_payout_def)

lemma find_payout_in:
  "wf_table p_id (payouts s) \<Longrightarrow> p \<in> set (payouts s) \<Longrightarrow> find_payout (Some (p_id p)) s = Some p"
  unfolding find_payout_id by (rule payout_repo.find_by_key)

lemma find_saved_payout:
  "wf_table p_id t \<Longrightarrow> p_id q = i \<Longrightarrow> find_row (\<lambda>r. p_id r = i) (save_row p_id q t) = Some q"
  using payout_repo.find_saved [of t q] by simp

text \<open>What a successful escrow is: the payout was PENDING and is saved as it was.\<close>

lemma createPayoutEscrow_ok:
  assumes "createPayoutEscrow pid w dest amount user env s = (Inr e, s')"
  shows "\<exists>p t. find_payout (Some pid) (mp_payouts s) = Some p \<and> p_status p = PayoutStatus.PENDING
    \<and> mp_payouts s' = save_payout p (mp_payouts s)
    \<and> es_status e = tx_status t \<and> es_approvalsReceived e = tx_approvalsReceived t
    \<and> es_multiSigTransactionId e = tx_id t
    \<and> (\<exists>dto m. createTransaction dto user env (mp_multisig s) = (Inr t, m) \<and> mp_multisig s' = m)"
proof -
  from assms obtain p where p: "find_payout (Some pid) (mp_payouts s) = Some p"
    by (auto simp: createPayoutEscrow_def split: option.splits)
  from assms p have st: "p_status p = PayoutStatus.PENDING"
    by (auto simp: createPayoutEscrow_def split: if_splits)
  from assms p st show ?thesis
    by (fastforce simp: createPayoutEscrow_def Let_def save_mp_def emit_mp_def buildPayoutEscrow_def
        split: sum.splits prod.splits)
qed

lemma created_transaction_open:
  assumes "createTransaction dto user env m = (Inr t, m')"
  shows "tx_status t = MultiSigTransactionStatus.PENDING \<and> tx_approvalsReceived t = 0"
proof -
  from assms obtain w where w: "find_wallet (ct_multiSigWalletId dto) m = Some w"
    by (auto simp: createTransaction_def split: option.splits)
  from assms w have "w_status w = MultiSigWalletStatus.ACTIVE"
    by (auto simp: createTransaction_def split: if_splits)
  with assms w show ?thesis
    by (auto simp: createTransaction_def Let_def split: sum.splits prod.splits)
qed

text \<open>A payout that is claimed and processed outside production is paid.\<close>

lemma claim_and_process_pays:
  assumes "wf_table p_id (payouts s)" and "p \<in> set (payouts s)" and "p_status p = PayoutStatus.PENDING"
    and "find_row (\<lambda>q. p_submissionId q = Some sub \<and> p_stellarAddress q = p_stellarAddress p) (payouts s) = Some p"
    and "p_claimedAt p = None" and "is_dev_or_test (e_nodeEnv env)" and "e_saveError env = None"
  shows "paid (state_of (processPayout env (p_id p) (state_of
      (claimPayout \<lparr>c_submissionId = sub, c_stellarAddress = p_stellarAddress p\<rparr> (p_stellarAddress p) now s))))
    = paid s @ [(p_id p, p_stellarAddress p, p_amount p)]"
proof -
  let ?c = "p\<lparr>p_claimedAt := Some now, p_status := PayoutStatus.PROCESSING\<rparr>"
  have load: "find_row (\<lambda>q. p_id q = p_id p) (save_row p_id ?c (payouts s)) = Some ?c"
    by (rule find_saved_payout [OF assms(1)]) simp
  show ?thesis
    using assms(3-)
    by (simp add: claimPayout_def claim_load_def claim_save_def isClaimable_def Let_def processPayout_def
        process_load_def load process_pay_def executeStellarPayment_def)
qed

text \<open>
  An escrow holds nothing back: after a successful \<open>createPayoutEscrow\<close> the payout table is what
  it was, so the payout can still be claimed, and the claim pays it in full while the wallet's transaction is
  PENDING without one approval.
\<close>
theorem escrow_leaves_payout:
  assumes "createPayoutEscrow (p_id p) w dest amount user menv s = (Inr e, s')"
    and "wf_table p_id (payouts (mp_payouts s))" and "p \<in> set (payouts (mp_payouts s))"
    and "find_row (\<lambda>q. p_submissionId q = Some sub \<and> p_stellarAddress q = p_stellarAddress p)
           (payouts (mp_payouts s)) = Some p"
    and "p_claimedAt p = None" and "is_dev_or_test (e_nodeEnv env)" and "e_saveError env = None"
  shows "mp_payouts s' = mp_payouts s
    \<and> es_status e = MultiSigTransactionStatus.PENDING \<and> es_approvalsReceived e = 0
    \<and> paid (state_of (processPayout env (p_id p) (state_of
        (claimPayout \<lparr>c_submissionId = sub, c_stellarAddress = p_stellarAddress p\<rparr> (p_stellarAddress p) now
          (mp_payouts s')))))
      = paid (mp_payouts s) @ [(p_id p, p_stellarAddress p, p_amount p)]"
proof -
  from createPayoutEscrow_ok [OF assms(1)] find_payout_in [OF assms(2,3)] obtain t dto m where
    st: "p_status p = PayoutStatus.PENDING" and saved: "mp_payouts s' = save_payout p (mp_payouts s)"
    and e: "es_status e = tx_status t" "es_approvalsReceived e = tx_approvalsReceived t"
    and t: "createTransaction dto user menv (mp_multisig s) = (Inr t, m)" by auto
  from saved save_row_same [OF assms(2,3)] have same: "mp_payouts s' = mp_payouts s"
    by (simp add: save_payout_def)
  from created_transaction_open [OF t] e claim_and_process_pays [OF assms(2,3) st assms(4-7)] show ?thesis
    by (simp add: same)
qed

text \<open>
  Approval pays nothing: the event of a complete approval sets the payout PROCESSING and starts no
  processing of it; from there it can be neither claimed nor retried, and the retry job does not see it.
\<close>
theorem approved_payout_stuck:
  assumes "wf_table p_id (payouts (mp_payouts s))" and "p \<in> set (payouts (mp_payouts s))"
    and "find_tx tid (mp_multisig s) = Some t" and "tx_status t = MultiSigTransactionStatus.APPROVED"
    and "tx_transactionPayload t = Some (JsonText pl)" and "pl_payoutId pl = Some (p_id p)" and "p_id p \<noteq> []"
  shows "let ps = mp_payouts (on_multisig_event (TransactionApprovedComplete tid n) s) in
    map_option p_status (find_payout (Some (p_id p)) ps) = Some PayoutStatus.PROCESSING
    \<and> tasks ps = tasks (mp_payouts s) \<and> paid ps = paid (mp_payouts s)
    \<and> (\<forall>q. find_payout (Some (p_id p)) ps = Some q \<longrightarrow> \<not> isClaimable q \<and> \<not> due_for_retry now q)
    \<and> retry_load (p_id p) ps = Inl (BadRequestException ''Only failed payouts can be retried'')"
proof -
  let ?h = "if truthy (tx_stellarTransactionHash t) then tx_stellarTransactionHash t else None"
  let ?q = "p\<lparr>p_status := PayoutStatus.PROCESSING, p_transactionHash := ?h\<rparr>"
  have names: "names_payout t" using assms(5-7) by (simp add: names_payout_def)
  have parse: "parse_payload t = Inr pl" using assms(5) by (simp add: parse_payload_def)
  have load: "find_payout (pl_payoutId pl) (mp_payouts s) = Some p"
    using find_payout_in [OF assms(1,2)] assms(6) by simp
  have after: "mp_payouts (on_multisig_event (TransactionApprovedComplete tid n) s) = save_payout ?q (mp_payouts s)"
    using assms(3,4) by (simp add: handleTransactionApproved_def names processApprovedPayout_def parse load
        Let_def emit_mp_def save_mp_def)
  have found: "find_row (\<lambda>r. p_id r = p_id p) (save_row p_id ?q (payouts (mp_payouts s))) = Some ?q"
    by (rule find_saved_payout [OF assms(1)]) simp
  show ?thesis
    unfolding after Let_def find_payout_id by (simp del: if_image_distrib add: retry_load_def found isClaimable_def due_for_retry_def)
qed

text \<open>
  Claim C20.  A rejection after the payment: the event that a transaction was rejected, when the payload
  of the transaction names a payout of the table, marks this payout FAILED whatever its status is, COMPLETED
  included.  In a development or test environment, when the saves succeed and nothing runs between, a retry
  and the processing it starts then execute one more payment of its amount to its address, so a payout
  that has been paid is paid a second time.
\<close>
theorem rejected_after_payment_pays_again:
  assumes "wf_table p_id (payouts (mp_payouts s))" and "p \<in> set (payouts (mp_payouts s))"
    and "find_tx tid (mp_multisig s) = Some t" and "tx_transactionPayload t = Some (JsonText pl)"
    and "pl_payoutId pl = Some (p_id p)" and "p_id p \<noteq> []"
    and "is_dev_or_test (e_nodeEnv env)" and "e_saveError env = None"
  shows "let s1 = mp_payouts (on_multisig_event (TransactionRejected tid signer reason) s);
             s2 = state_of (retryPayout (p_id p) s1);
             s3 = state_of (processPayout env (p_id p) s2);
             x = (p_id p, p_stellarAddress p, p_amount p)
         in find_payout (Some (p_id p)) s1
              = Some (p\<lparr>p_status := PayoutStatus.FAILED, p_failureReason := Some (''Multi-sig rejection: '' @ reason)\<rparr>)
          \<and> paid s3 = paid (mp_payouts s) @ [x]
          \<and> (x \<in> set (paid (mp_payouts s)) \<longrightarrow> 1 < length (filter (\<lambda>y. y = x) (paid s3)))"
proof -
  obtain why where why: "why = ''Multi-sig rejection: '' @ reason" by simp
  let ?q = "p\<lparr>p_status := PayoutStatus.FAILED, p_failureReason := Some why\<rparr>"
  let ?r = "p\<lparr>p_retryCount := 0, p_maxRetries := 3, p_status := PayoutStatus.PROCESSING, p_failureReason := None\<rparr>"
  let ?x = "(p_id p, p_stellarAddress p, p_amount p)"
  have names: "names_payout t" using assms(4-6) by (simp add: names_payout_def)
  have parse: "parse_payload t = Inr pl" using assms(4) by (simp add: parse_payload_def)
  have load: "find_payout (pl_payoutId pl) (mp_payouts s) = Some p"
    using find_payout_in [OF assms(1,2)] assms(5) by simp
  let ?s1 = "save_payout ?q (mp_payouts s)"
  have after: "mp_payouts (on_multisig_event (TransactionRejected tid signer reason) s) = ?s1"
    using assms(3) by (simp add: handleTransactionRejected_def names handleRejectedPayout_def parse load
        Let_def emit_mp_def save_mp_def why)
  let ?t1 = "save_row p_id ?q (payouts (mp_payouts s))"
  have wf1: "wf_table p_id ?t1" using assms(1) by (rule wf_save_row)
  have f1: "find_row (\<lambda>r. p_id r = p_id p) ?t1 = Some ?q"
    by (rule find_saved_payout [OF assms(1)]) simp
  let ?s2 = "spawn (ProcessStart (p_id p)) (save_payout ?r ?s1)"
  have s2: "state_of (retryPayout (p_id p) ?s1) = ?s2"
    by (simp add: retryPayout_def retry_load_def f1 retry_save_def Let_def)
  have f2: "find_row (\<lambda>r. p_id r = p_id p) (save_row p_id ?r ?t1) = Some ?r"
    by (rule find_saved_payout [OF wf1]) simp
  have s3: "paid (state_of (processPayout env (p_id p) ?s2)) = paid (mp_payouts s) @ [?x]"
    using assms(7,8)
    by (simp add: processPayout_def process_load_def f2 process_pay_def executeStellarPayment_def Let_def)
  have "filter (\<lambda>x. x = ?x) (paid (mp_payouts s)) \<noteq> []" if "?x \<in> set (paid (mp_payouts s))"
    using that by (auto simp: filter_empty_conv)
  moreover have "find_payout (Some (p_id p)) ?s1 = Some ?q" unfolding find_payout_id by (simp add: f1)
  ultimately show ?thesis unfolding Let_def after s2 s3 by (simp add: why)
qed

text \<open>
  The status query looks among the transactions whose wallet id is empty; there is none, so it never finds
  the transaction of a payout.
\<close>

lemma approval_status_never_found:
  assumes "\<forall>t \<in> set (transactions (mp_multisig s)). tx_multiSigWalletId t \<noteq> []"
  shows "\<exists>msg. checkPayoutApprovalStatus pid s = Inl (NotFoundException msg)"
proof -
  from assms have "filter (\<lambda>t. tx_multiSigWalletId t = []) (transactions (mp_multisig s)) = []"
    by (simp add: filter_empty_conv)
  then show ?thesis
    by (cases "find_payout (Some pid) (mp_payouts s)") (simp_all add: checkPayoutApprovalStatus_def find_row_def)
qed

subsection \<open>A concrete run\<close>

text \<open>
  A wallet of two signers and threshold two (ids \<open>a\<close>, \<open>b\<close>), the payout \<open>p1\<close>, and its escrow.
\<close>

definition mp_env :: "string \<Rightarrow> time \<Rightarrow> ms_env" where
  "mp_env i t = \<lparr> m_now = t, m_newId = i, m_sigId = (\<lambda>k. i @ replicate k CHR ''x''), m_bigintInc = Suc \<rparr>"

definition mp_signer :: "string \<Rightarrow> string \<Rightarrow> multisig_state \<Rightarrow> multisig_state" where
  "mp_signer n a m = state_of (addSigner \<lparr> as_multiSigWalletId = ''w'', as_signerAddress = a,
     as_signerName = None, as_role = None \<rparr> ''owner'' (mp_env n 2) m)"

definition mp_start :: mp_state where
  "mp_start = \<lparr> mp_payouts = demo_created,
     mp_multisig = mp_signer ''b'' ''GB'' (mp_signer ''a'' ''GA'' (state_of (createWallet
       \<lparr> cw_organizationId = ''org'', cw_walletAddress = ''GW'', cw_name = None, cw_description = None,
         cw_threshold = 2, cw_totalSigners = 2 \<rparr> ''owner'' (mp_env ''w'' 1)
       \<lparr> wallets = [], signers = [], transactions = [], signatures = [], ms_events = [] \<rparr>))),
     mp_events = [] \<rparr>"

definition mp_escrow :: mp_state where
  "mp_escrow = state_of (createPayoutEscrow ''p1'' ''w'' ''GA'' 105 ''owner'' (mp_env ''t'' 5) mp_start)"

definition mp_paid :: mp_state where
  "mp_paid = mp_escrow\<lparr>mp_payouts := demo_run demo_env\<rparr>"

definition mp_approve :: "string \<Rightarrow> mp_state \<Rightarrow> mp_state" where
  "mp_approve a s = s\<lparr>mp_multisig := state_of (approveTransaction
     \<lparr> ap_multiSigTransactionId = ''t'', ap_signerAddress = a, ap_comment = None \<rparr> ''owner'' (mp_env ''y'' 6) (mp_multisig s))\<rparr>"

lemmas mp_eval = mp_env_def mp_signer_def mp_start_def mp_escrow_def mp_paid_def mp_approve_def createWallet_def addSigner_def
  createPayoutEscrow_def createTransaction_def approveTransaction_def load_for_signing_def bump_signer_def
  buildPayoutEscrow_def parse_payload_def find_payout_def save_mp_def emit_mp_def find_wallet_def find_signer_def
  find_tx_def find_sig_def save_wallet_def save_signer_def save_tx_def save_sig_def emit_ms_def active_approver_def
  seven_days_def coalesce_def or_default_def null_text_def

theorem escrow_leaves_payout_witness:
  "mp_payouts mp_escrow = demo_created
   \<and> paid (state_of (processPayout demo_env ''p1'' (state_of (claimPayout demo_claim ''GA'' 20 (mp_payouts mp_escrow)))))
     = [(''p1'', ''GA'', 105)]"
proof -
  let ?p = "hd (payouts demo_created)"
  obtain e where run: "createPayoutEscrow (p_id ?p) ''w'' ''GA'' 105 ''owner'' (mp_env ''t'' 5) mp_start = (Inr e, mp_escrow)"
    by (simp add: mp_eval payout_eval)
  have "wf_table p_id (payouts (mp_payouts mp_start))" "?p \<in> set (payouts (mp_payouts mp_start))"
    "find_row (\<lambda>q. p_submissionId q = Some ''s1'' \<and> p_stellarAddress q = p_stellarAddress ?p) (payouts (mp_payouts mp_start)) = Some ?p"
    "p_claimedAt ?p = None" "is_dev_or_test (e_nodeEnv demo_env)" "e_saveError demo_env = None"
    by (simp_all add: mp_start_def payout_eval wf_table_def)
  from escrow_leaves_payout [OF run this, of 20] show ?thesis
    by (simp add: mp_start_def) (simp add: payout_eval)
qed

theorem approved_payout_stuck_witness:
  "map_option p_status (find_payout (Some ''p1'') (mp_payouts (on_multisig_event (TransactionApprovedComplete ''t'' 2)
     (mp_approve ''GB'' (mp_approve ''GA'' mp_escrow))))) = Some PayoutStatus.PROCESSING"
proof -
  let ?s = "mp_approve ''GB'' (mp_approve ''GA'' mp_escrow)"
  let ?p = "hd (payouts demo_created)"
  let ?t = "hd (transactions (mp_multisig ?s))"
  let ?pl = "\<lparr> pl_payoutId = Some ''p1'', pl_questId = Some ''q1'', pl_submissionId = Some ''s1'', pl_stellarAddress = Some ''GA'' \<rparr>"
  have "wf_table p_id (payouts (mp_payouts ?s))" "?p \<in> set (payouts (mp_payouts ?s))"
    by (simp_all add: mp_eval payout_eval wf_table_def)
  moreover have "find_tx ''t'' (mp_multisig ?s) = Some ?t" "tx_status ?t = MultiSigTransactionStatus.APPROVED"
    "tx_transactionPayload ?t = Some (JsonText ?pl)" "pl_payoutId ?pl = Some (p_id ?p)" "p_id ?p \<noteq> []"
    by (simp_all add: mp_eval payout_eval)
  ultimately have "let ps = mp_payouts (on_multisig_event (TransactionApprovedComplete ''t'' 2) ?s) in
    map_option p_status (find_payout (Some (p_id ?p)) ps) = Some PayoutStatus.PROCESSING"
    using approved_payout_stuck [of ?s ?p "''t''" ?t ?pl 2 0] by (simp add: Let_def)
  then show ?thesis by (simp add: Let_def payout_eval)
qed

theorem rejected_after_payment_pays_again_witness:
  "paid (mp_payouts mp_paid) = [(''p1'', ''GA'', 105)]
   \<and> 1 < length (filter (\<lambda>x. x = (''p1'', ''GA'', 105)) (paid (state_of (processPayout demo_env ''p1'' (state_of (retryPayout ''p1''
       (mp_payouts (on_multisig_event (TransactionRejected ''t'' ''GB'' ''no'') mp_paid))))))))"
proof -
  let ?p = "hd (payouts (demo_run demo_env))"
  let ?t = "hd (transactions (mp_multisig mp_paid))"
  let ?pl = "\<lparr> pl_payoutId = Some ''p1'', pl_questId = Some ''q1'', pl_submissionId = Some ''s1'', pl_stellarAddress = Some ''GA'' \<rparr>"
  have row: "p_id ?p = ''p1''" "p_stellarAddress ?p = ''GA''" "p_amount ?p = 105" by (simp_all add: payout_eval)
  have paid: "paid (mp_payouts mp_paid) = [(''p1'', ''GA'', 105)]" by (simp add: mp_paid_def payout_eval)
  have "wf_table p_id (payouts (mp_payouts mp_paid))" "?p \<in> set (payouts (mp_payouts mp_paid))"
    "p_status ?p = PayoutStatus.COMPLETED" "(p_id ?p, p_stellarAddress ?p, p_amount ?p) \<in> set (paid (mp_payouts mp_paid))"
    by (simp_all add: mp_paid_def payout_eval wf_table_def)
  moreover have "find_tx ''t'' (mp_multisig mp_paid) = Some ?t" "tx_transactionPayload ?t = Some (JsonText ?pl)"
    by (simp_all add: mp_eval payout_eval)
  moreover have "pl_payoutId ?pl = Some (p_id ?p)" "p_id ?p \<noteq> []" "is_dev_or_test (e_nodeEnv demo_env)" "e_saveError demo_env = None"
    by (simp_all add: payout_eval)
  ultimately show ?thesis
    using rejected_after_payment_pays_again [of mp_paid ?p "''t''" ?t ?pl demo_env "''GB''" "''no''"]
    unfolding row Let_def by (simp add: paid)
qed

end
