(* ===== verification/TextCodec.thy ===== *)
theory TextCodec
  imports Prelude "HOL-Library.Word"
begin

text \<open>
  What the back end uses of the standard library on text: digits and \<open>parseInt\<close>, \<open>Number\<close>,
  \<open>split\<close> at a character and hexadecimal buffers, on ASCII text.
\<close>

subsection \<open>Digits\<close>

definition is_digit :: "char \<Rightarrow> bool" where
  "is_digit c \<longleftrightarrow> 48 \<le> (of_char c :: nat) \<and> (of_char c :: nat) \<le> 57"

definition digit_value :: "char \<Rightarrow> nat" where
  "digit_value c = of_char c - 48"

definition digits_value :: "string \<Rightarrow> nat" where
  "digits_value ds = foldl (\<lambda>n c. 10 * n + digit_value c) 0 ds"

lemma is_digit_char: "d < 10 \<Longrightarrow> is_digit (char_of (48 + d))" "d < 10 \<Longrightarrow> digit_value (char_of (48 + d)) = d"
  by (simp_all add: is_digit_def digit_value_def)

lemma digits_value_snoc: "digits_value (ds @ [c]) = 10 * digits_value ds + digit_value c"
  by (simp add: digits_value_def)

lemma show_nat_small: "n < 10 \<Longrightarrow> show_nat n = [char_of (48 + n)]"
  by (simp add: show_nat.simps [of n])

lemma show_nat_large: "10 \<le> n \<Longrightarrow> show_nat n = show_nat (n div 10) @ [char_of (48 + n mod 10)]"
  by (simp add: show_nat.simps [of n])

lemma show_nat_digits: "show_nat n \<noteq> [] \<and> (\<forall>c \<in> set (show_nat n). is_digit c) \<and> digits_value (show_nat n) = n"
proof (induction n rule: less_induct)
  case (less n)
  show ?case
  proof (cases "n < 10")
    case True
    then show ?thesis by (simp add: show_nat_small is_digit_char digits_value_def)
  next
    case False
    then have "n div 10 < n" by simp
    from less [OF this] False show ?thesis by (simp add: show_nat_large is_digit_char digits_value_snoc)
  qed
qed

text \<open>\<open>parseInt(s, 10)\<close>: white space, a sign, the longest run of digits; \<open>None\<close> is \<open>NaN\<close>.\<close>

definition unsigned_prefix :: "string \<Rightarrow> int option" where
  "unsigned_prefix s = (let ds = takeWhile is_digit s in if ds = [] then None else Some (int (digits_value ds)))"

definition parse_int :: "string \<Rightarrow> int option" where
  "parse_int s =
     (case dropWhile is_space s of
        [] \<Rightarrow> None
      | c # cs \<Rightarrow> if c = CHR ''-'' then map_option uminus (unsigned_prefix cs)
                 else if c = CHR ''+'' then unsigned_prefix cs else unsigned_prefix (c # cs))"

subsection \<open>Numbers from text\<close>

text \<open>
  \<open>Number(s)\<close> for text made of digits, signs, a decimal point and an exponent, and for hexadecimal,
  octal and binary text; every other text is \<open>NaN\<close> (\<open>None\<close>), except \<open>Infinity\<close>, which the callers refuse like it: they
  ask for a finite number or an integer.
\<close>

definition is_hexdigit :: "char \<Rightarrow> bool" where
  "is_hexdigit c \<longleftrightarrow> is_digit c \<or> (let n = of_char c :: nat in (65 \<le> n \<and> n \<le> 70) \<or> (97 \<le> n \<and> n \<le> 102))"

definition hex_value :: "char \<Rightarrow> nat" where
  "hex_value c = (let n = of_char c :: nat in if n \<le> 57 then n - 48 else if n \<le> 70 then n - 55 else n - 87)"

definition exponent :: "string \<Rightarrow> int option" where
  "exponent s =
     (let (neg, ds) = (case s of c # cs \<Rightarrow> if c = CHR ''-'' then (True, cs) else if c = CHR ''+'' then (False, cs) else (False, s)
                                | [] \<Rightarrow> (False, []))
      in if ds \<noteq> [] \<and> list_all is_digit ds
         then Some (if neg then - int (digits_value ds) else int (digits_value ds)) else None)"

definition power10 :: "int \<Rightarrow> rat" where
  "power10 e = (if 0 \<le> e then 10 ^ nat e else 1 / 10 ^ nat (- e))"

definition unsigned_decimal :: "string \<Rightarrow> rat option" where
  "unsigned_decimal s =
     (let ip = takeWhile is_digit s; r1 = dropWhile is_digit s;
          (fp, r2) = (case r1 of c # cs \<Rightarrow> if c = CHR ''.'' then (takeWhile is_digit cs, dropWhile is_digit cs) else ([], r1)
                                | [] \<Rightarrow> ([], []));
          m = rat_of_nat (digits_value (ip @ fp)) / 10 ^ length fp
      in if ip = [] \<and> fp = [] then None
         else (case r2 of
                 [] \<Rightarrow> Some m
               | c # cs \<Rightarrow> if c = CHR ''e'' \<or> c = CHR ''E''
                          then map_option (\<lambda>e. m * power10 e) (exponent cs) else None))"

definition radix :: "char \<Rightarrow> nat option" where
  "radix c = (if c = CHR ''x'' \<or> c = CHR ''X'' then Some 16 else if c = CHR ''o'' \<or> c = CHR ''O'' then Some 8
     else if c = CHR ''b'' \<or> c = CHR ''B'' then Some 2 else None)"

definition js_number :: "string \<Rightarrow> rat option" where
  "js_number s =
     (case trim s of
        [] \<Rightarrow> Some 0
      | c # cs \<Rightarrow>
          if c = CHR ''0'' \<and> cs \<noteq> [] \<and> radix (hd cs) \<noteq> None
          then (if tl cs \<noteq> [] \<and> list_all (\<lambda>d. is_hexdigit d \<and> hex_value d < the (radix (hd cs))) (tl cs)
                then Some (rat_of_nat (foldl (\<lambda>n d. the (radix (hd cs)) * n + hex_value d) 0 (tl cs))) else None)
          else if c = CHR ''-'' then map_option uminus (unsigned_decimal cs)
          else if c = CHR ''+'' then unsigned_decimal cs else unsigned_decimal (c # cs))"

lemma digit_not_space: "is_digit c \<Longrightarrow> \<not> is_space c"
  by (auto simp: is_digit_def is_space_def)

lemma js_number_digits:
  assumes "ds \<noteq> []" and "\<forall>c \<in> set ds. is_digit c"
  shows "js_number ds = Some (rat_of_nat (digits_value ds))"
proof -
  obtain c cs where ds: "ds = c # cs" using assms(1) by (cases ds) auto
  have t: "trim ds = ds"
    by (rule trim_no_space) (use assms digit_not_space in auto)
  have x: "\<not> is_digit CHR ''-''" "\<not> is_digit CHR ''+''" by (simp_all add: is_digit_def)
  have r: "is_digit d \<Longrightarrow> radix d = None" for d by (auto simp: radix_def is_digit_def)
  have "c \<noteq> CHR ''-''" "c \<noteq> CHR ''+''" using assms(2) x ds by auto
  moreover have "cs \<noteq> [] \<longrightarrow> radix (hd cs) = None" using assms(2) r ds by (cases cs) auto
  moreover have tw: "takeWhile is_digit ds = ds" and dw: "dropWhile is_digit ds = []" using assms(2) by simp_all
  have "unsigned_decimal ds = Some (rat_of_nat (digits_value ds))"
    using assms(1) by (simp add: unsigned_decimal_def Let_def tw dw)
  ultimately show ?thesis using t ds by (auto simp: js_number_def)
qed

subsection \<open>Splitting\<close>

fun split_on :: "char \<Rightarrow> string \<Rightarrow> string list" where
  "split_on d [] = [[]]"
| "split_on d (c # cs) =
     (if c = d then [] # split_on d cs
      else (case split_on d cs of [] \<Rightarrow> [[c]] | p # ps \<Rightarrow> (c # p) # ps))"

lemma split_on_ne [simp]: "split_on d s \<noteq> []"
  by (induction s) (auto split: list.split)

lemma split_on_none: "d \<notin> set s \<Longrightarrow> split_on d s = [s]"
  by (induction s) auto

lemma split_on_at: "d \<notin> set s \<Longrightarrow> split_on d (s @ d # t) = s # split_on d t"
  by (induction s) auto

lemma split_on_parts: "p \<in> set (split_on d s) \<Longrightarrow> d \<notin> set p"
proof (induction s arbitrary: p)
  case (Cons c cs)
  then show ?case by (cases "split_on d cs") (auto split: if_splits)
qed simp

text \<open>\<open>parts.join(d)\<close>.\<close>

fun join_with :: "string \<Rightarrow> string list \<Rightarrow> string" where
  "join_with d [] = []"
| "join_with d [p] = p"
| "join_with d (p # q # ps) = p @ d @ join_with d (q # ps)"

subsection \<open>Hexadecimal buffers\<close>

type_synonym byte = "8 word"

definition hex_char :: "nat \<Rightarrow> char" where
  "hex_char n = (if n < 10 then char_of (48 + n) else char_of (87 + n))"

text \<open>\<open>digest('hex')\<close>, and \<open>Buffer.from(s, 'hex')\<close>, which stops at the first pair that is not hexadecimal.\<close>

fun to_hex :: "byte list \<Rightarrow> string" where
  "to_hex [] = []"
| "to_hex (b # bs) = hex_char (unat b div 16) # hex_char (unat b mod 16) # to_hex bs"

fun from_hex :: "string \<Rightarrow> byte list" where
  "from_hex (c # d # cs) =
     (if is_hexdigit c \<and> is_hexdigit d then word_of_nat (16 * hex_value c + hex_value d) # from_hex cs else [])"
| "from_hex _ = []"

lemma hex_char_ok: "n < 16 \<Longrightarrow> is_hexdigit (hex_char n) \<and> hex_value (hex_char n) = n"
  by (auto simp: is_hexdigit_def hex_value_def hex_char_def is_digit_def Let_def)

lemma hex_char_not_dot: "n < 16 \<Longrightarrow> hex_char n \<noteq> CHR ''.''"
proof -
  have "\<not> is_hexdigit CHR ''.''" by (simp add: is_hexdigit_def is_digit_def)
  then show "n < 16 \<Longrightarrow> hex_char n \<noteq> CHR ''.''" using hex_char_ok by metis
qed

lemma unat_byte_nibbles: "unat (b :: byte) div 16 < 16" "unat b mod 16 < 16"
proof -
  have "unat b < 2 ^ LENGTH(8)" by (rule unsigned_less)
  then have "unat b < 256" by simp
  then show "unat b div 16 < 16" by simp
qed simp

lemma from_to_hex: "from_hex (to_hex bs) = bs"
proof (induction bs)
  case (Cons b bs)
  have "16 * (unat b div 16) + unat b mod 16 = unat b" by simp
  with Cons show ?case using hex_char_ok [OF unat_byte_nibbles(1)] hex_char_ok [OF unat_byte_nibbles(2)]
    by simp
qed simp

lemma from_hex_junk: "\<not> is_hexdigit c \<Longrightarrow> from_hex (to_hex bs @ c # t) = bs"
proof (induction bs)
  case Nil
  then show ?case by (cases t) simp_all
next
  case (Cons b bs)
  have "16 * (unat b div 16) + unat b mod 16 = unat b" by simp
  with Cons show ?case using hex_char_ok [OF unat_byte_nibbles(1)] hex_char_ok [OF unat_byte_nibbles(2)]
    by simp
qed

lemma length_to_hex: "length (to_hex bs) = 2 * length bs"
  by (induction bs) auto

lemma to_hex_no_dot: "CHR ''.'' \<notin> set (to_hex bs)"
proof (induction bs)
  case (Cons b bs)
  then show ?case using hex_char_not_dot [OF unat_byte_nibbles(1)] hex_char_not_dot [OF unat_byte_nibbles(2)]
    by (simp; metis)
qed simp

subsection \<open>Upper case and URI encoding\<close>

definition upper_char :: "char \<Rightarrow> char" where
  "upper_char c = (let n = of_char c :: nat in if 97 \<le> n \<and> n \<le> 122 then char_of (n - 32) else c)"

definition upper :: "string \<Rightarrow> string" where
  "upper s = map upper_char s"

text \<open>
  \<open>encodeURIComponent\<close>, and \<open>decodeURIComponent\<close>, which throws (\<open>None\<close>) on a percent sign without two
  hexadecimal digits, on ASCII text.
\<close>

definition uri_plain :: "char \<Rightarrow> bool" where
  "uri_plain c \<longleftrightarrow> is_digit c \<or> (let n = of_char c :: nat in (65 \<le> n \<and> n \<le> 90) \<or> (97 \<le> n \<and> n \<le> 122)
     \<or> n \<in> {45, 95, 46, 33, 126, 42, 39, 40, 41})"

definition upper_hex :: "nat \<Rightarrow> char" where
  "upper_hex n = (if n < 10 then char_of (48 + n) else char_of (55 + n))"

fun uri_encode :: "string \<Rightarrow> string" where
  "uri_encode [] = []"
| "uri_encode (c # cs) =
     (if uri_plain c then c # uri_encode cs
      else CHR ''%'' # upper_hex (of_char c div 16) # upper_hex (of_char c mod 16) # uri_encode cs)"

fun uri_decode :: "string \<Rightarrow> string option" where
  "uri_decode [] = Some []"
| "uri_decode (c # cs) =
     (if c = CHR ''%''
      then (case cs of
              a # b # ds \<Rightarrow>
                if is_hexdigit a \<and> is_hexdigit b
                then map_option ((#) (char_of (16 * hex_value a + hex_value b))) (uri_decode ds) else None
            | _ \<Rightarrow> None)
      else map_option ((#) c) (uri_decode cs))"

lemma upper_hex_ok: "n < 16 \<Longrightarrow> is_hexdigit (upper_hex n) \<and> hex_value (upper_hex n) = n"
  by (auto simp: is_hexdigit_def hex_value_def upper_hex_def is_digit_def Let_def)

lemma char_nibbles: "(of_char c :: nat) div 16 < 16" "char_of (16 * ((of_char c :: nat) div 16) + of_char c mod 16) = c"
proof -
  have "(of_char c :: nat) < 16 * 16" by simp
  then show "(of_char c :: nat) div 16 < 16" by (rule less_mult_imp_div_less)
  show "char_of (16 * ((of_char c :: nat) div 16) + of_char c mod 16) = c" by simp
qed

lemma uri_roundtrip: "uri_decode (uri_encode s) = Some s"
proof (induction s)
  case (Cons c cs)
  have "\<not> uri_plain CHR ''%''" by (simp add: uri_plain_def is_digit_def)
  with Cons show ?case
    using upper_hex_ok [OF char_nibbles(1) [of c]] upper_hex_ok [of "of_char c mod 16"] char_nibbles(2) [of c] by auto
qed simp

lemma uri_encode_chars: "x \<in> set (uri_encode s) \<Longrightarrow> uri_plain x \<or> x = CHR ''%''"
proof (induction s)
  case (Cons c cs)
  have "uri_plain (upper_hex n)" if "n < 16" for n
    using that by (auto simp: uri_plain_def upper_hex_def is_digit_def Let_def)
  with Cons char_nibbles(1) [of c] show ?case by (auto split: if_splits)
qed simp

end
