(* ===== verification/Auth.thy ===== *)
theory Auth
  imports Entities TextCodec
begin

text \<open>
  Authentication, \<open>BackEnd/src/modules/auth\<close>, and the guards that decide from it who may call a route:
  the challenge a wallet signs, login, the rotation of refresh tokens, and the guards for roles,
  verifiers, sockets and throttling.  \<open>refreshTokens\<close> is split where it awaits the database.  Not
  under \<open>src/\<close> and so parameters: the check of a Stellar signature (\<open>V\<close>: \<open>None\<close> when the library
  throws), the signing and verification of a JWT, and the random bytes of a token.
\<close>

subsection \<open>State and configuration\<close>

record RefreshToken =
  rt_id :: id
  rt_token :: string
  rt_stellarAddress :: string
  rt_expiresAt :: time
  rt_isRevoked :: bool
  rt_createdAt :: time

record AuthUser =
  au_id :: id
  au_stellarAddress :: string
  au_role :: Role

record JwtPayload =
  jp_sub :: string
  jp_stellarAddress :: string
  jp_role :: Role

record LoginDto =
  li_stellarAddress :: string
  li_signature :: string
  li_challenge :: string

record UserResponseDto =
  ur_stellarAddress :: string
  ur_role :: Role

record TokenResponseDto =
  tr_accessToken :: string
  tr_refreshToken :: string
  tr_expiresIn :: nat
  tr_user :: UserResponseDto

record ChallengeResponseDto =
  cr_challenge :: string
  cr_expiresAt :: "time option"

record auth_config =
  ac_challengeExpiration :: "string option"
  ac_accessExpiration :: "string option"
  ac_refreshExpiration :: "string option"
  ac_adminAddresses :: "string option"

record auth_env =
  ae_now :: time
  ae_newId :: id
  ae_random :: "byte list"
  ae_sign :: "JwtPayload \<Rightarrow> string \<Rightarrow> exn + string"

record auth_state =
  refreshTokenTable :: "RefreshToken list"

definition save_token :: "RefreshToken \<Rightarrow> auth_state \<Rightarrow> auth_state" where
  "save_token r s = s\<lparr>refreshTokenTable := save_row rt_id r (refreshTokenTable s)\<rparr>"

subsection \<open>Challenges\<close>

definition newline :: string where
  "newline = [CHR 0x0A]"

definition generateChallengeMessage :: "string \<Rightarrow> time \<Rightarrow> string" where
  "generateChallengeMessage stellarAddress timestamp =
     ''StellarEarn Authentication'' @ newline @ newline
     @ ''Sign this message to authenticate with your Stellar wallet.'' @ newline @ newline
     @ ''Address: '' @ stellarAddress @ newline @ ''Timestamp: '' @ show_int timestamp @ newline @ newline
     @ ''This signature will not trigger any blockchain transaction or cost any fees.''"

text \<open>The leftmost match of \<open>/Timestamp: (\d+)/\<close>.\<close>

fun find_timestamp :: "string \<Rightarrow> nat option" where
  "find_timestamp [] = None"
| "find_timestamp (c # cs) =
     (let ds = takeWhile is_digit (drop 11 (c # cs))
      in if starts_with (c # cs) ''Timestamp: '' \<and> ds \<noteq> [] then Some (digits_value ds) else find_timestamp cs)"

definition extractTimestampFromChallenge :: "string \<Rightarrow> exn + time" where
  "extractTimestampFromChallenge challenge =
     (case find_timestamp challenge of
        None \<Rightarrow> Inl (UnauthorizedException ''Invalid challenge format'')
      | Some n \<Rightarrow> Inr (int n))"

text \<open>\<open>None\<close> stands for \<open>NaN\<close> minutes: no number is greater than \<open>NaN\<close>.\<close>

definition isChallengeExpired :: "time \<Rightarrow> time \<Rightarrow> int option \<Rightarrow> bool" where
  "isChallengeExpired now timestamp expirationMinutes =
     (case expirationMinutes of None \<Rightarrow> False | Some m \<Rightarrow> timestamp + m * 60 * 1000 < now)"

definition verifyStellarSignature ::
    "(string \<Rightarrow> string \<Rightarrow> string \<Rightarrow> bool option) \<Rightarrow> string \<Rightarrow> string \<Rightarrow> string \<Rightarrow> exn + bool" where
  "verifyStellarSignature V stellarAddress signature message =
     (case V stellarAddress message signature of
        None \<Rightarrow> Inl (UnauthorizedException ''Signature verification failed'')
      | Some False \<Rightarrow> Inl (UnauthorizedException ''Invalid signature'')
      | Some True \<Rightarrow> Inr True)"

definition challenge_minutes :: "auth_config \<Rightarrow> int option" where
  "challenge_minutes c = parse_int (coalesce (ac_challengeExpiration c) ''5'')"

definition generateChallenge :: "auth_config \<Rightarrow> time \<Rightarrow> string \<Rightarrow> ChallengeResponseDto" where
  "generateChallenge c now stellarAddress =
     \<lparr> cr_challenge = generateChallengeMessage stellarAddress now,
       cr_expiresAt = map_option (\<lambda>m. now + m * 60 * 1000) (challenge_minutes c) \<rparr>"

subsection \<open>Tokens\<close>

definition unit_ms :: "char \<Rightarrow> nat option" where
  "unit_ms u =
     (if u = CHR ''s'' then Some 1000 else if u = CHR ''m'' then Some (60 * 1000)
      else if u = CHR ''h'' then Some (60 * 60 * 1000) else if u = CHR ''d'' then Some (24 * 60 * 60 * 1000)
      else None)"

definition parseExpirationToMs :: "string \<Rightarrow> exn + nat" where
  "parseExpirationToMs expiration =
     (let bad = Inl (JsError ''Invalid expiration format'')
      in if expiration = [] then bad
         else if butlast expiration = [] \<or> \<not> list_all is_digit (butlast expiration) then bad
         else (case unit_ms (last expiration) of
                 None \<Rightarrow> bad
               | Some m \<Rightarrow> Inr (digits_value (butlast expiration) * m)))"

definition getRoleForAddress :: "auth_config \<Rightarrow> string \<Rightarrow> Role" where
  "getRoleForAddress c stellarAddress =
     (let adminAddresses = filter (\<lambda>a. length a > 0)
            (map trim (split_on CHR '','' (coalesce (ac_adminAddresses c) [])))
      in if stellarAddress \<in> set adminAddresses then ADMIN else USER)"

definition generateTokens ::
    "auth_config \<Rightarrow> auth_env \<Rightarrow> string \<Rightarrow> Role \<Rightarrow> auth_state \<Rightarrow> (auth_state, TokenResponseDto) outcome" where
  "generateTokens c env stellarAddress role s =
     (let accessExp = coalesce (ac_accessExpiration c) ''15m''
      in case ae_sign env \<lparr> jp_sub = stellarAddress, jp_stellarAddress = stellarAddress, jp_role = role \<rparr> accessExp of
           Inl e \<Rightarrow> (Inl e, s)
         | Inr accessToken \<Rightarrow>
             (case parseExpirationToMs accessExp of
                Inl e \<Rightarrow> (Inl e, s)
              | Inr expiresIn \<Rightarrow>
                  (case parseExpirationToMs (coalesce (ac_refreshExpiration c) ''7d'') of
                     Inl e \<Rightarrow> (Inl e, s)
                   | Inr ms \<Rightarrow>
                       (let tok = to_hex (ae_random env)
                        in (Inr \<lparr> tr_accessToken = accessToken, tr_refreshToken = tok, tr_expiresIn = expiresIn,
                                  tr_user = \<lparr> ur_stellarAddress = stellarAddress, ur_role = role \<rparr> \<rparr>,
                            save_token \<lparr> rt_id = ae_newId env, rt_token = tok, rt_stellarAddress = stellarAddress,
                                         rt_expiresAt = ae_now env + int ms, rt_isRevoked = False,
                                         rt_createdAt = ae_now env \<rparr> s)))))"

definition verifySignatureAndLogin ::
    "(string \<Rightarrow> string \<Rightarrow> string \<Rightarrow> bool option) \<Rightarrow> auth_config \<Rightarrow> auth_env \<Rightarrow> LoginDto \<Rightarrow> auth_state
     \<Rightarrow> (auth_state, TokenResponseDto) outcome" where
  "verifySignatureAndLogin V c env dto s =
     (case extractTimestampFromChallenge (li_challenge dto) of
        Inl e \<Rightarrow> (Inl e, s)
      | Inr timestamp \<Rightarrow>
          if isChallengeExpired (ae_now env) timestamp (challenge_minutes c)
          then (Inl (UnauthorizedException ''Challenge has expired''), s)
          else (case verifyStellarSignature V (li_stellarAddress dto) (li_signature dto) (li_challenge dto) of
                  Inl e \<Rightarrow> (Inl e, s)
                | Inr _ \<Rightarrow> generateTokens c env (li_stellarAddress dto) (getRoleForAddress c (li_stellarAddress dto)) s))"

text \<open>The two parts of \<open>refreshTokens\<close>: load and check; revoke and issue.\<close>

definition refresh_load :: "time \<Rightarrow> string \<Rightarrow> auth_state \<Rightarrow> exn + RefreshToken" where
  "refresh_load now refreshTokenValue s =
     (case find_row (\<lambda>r. rt_token r = refreshTokenValue) (refreshTokenTable s) of
        None \<Rightarrow> Inl (UnauthorizedException ''Invalid refresh token'')
      | Some r \<Rightarrow>
          if rt_isRevoked r then Inl (UnauthorizedException ''Refresh token has been revoked'')
          else if rt_expiresAt r < now then Inl (UnauthorizedException ''Refresh token has expired'')
          else Inr r)"

definition refresh_save ::
    "auth_config \<Rightarrow> auth_env \<Rightarrow> RefreshToken \<Rightarrow> auth_state \<Rightarrow> (auth_state, TokenResponseDto) outcome" where
  "refresh_save c env r s =
     generateTokens c env (rt_stellarAddress r) (getRoleForAddress c (rt_stellarAddress r))
       (save_token (r\<lparr>rt_isRevoked := True\<rparr>) s)"

definition refreshTokens ::
    "auth_config \<Rightarrow> auth_env \<Rightarrow> string \<Rightarrow> auth_state \<Rightarrow> (auth_state, TokenResponseDto) outcome" where
  "refreshTokens c env refreshTokenValue s =
     (case refresh_load (ae_now env) refreshTokenValue s of
        Inl e \<Rightarrow> (Inl e, s)
      | Inr r \<Rightarrow> refresh_save c env r s)"

definition revokeToken :: "string \<Rightarrow> string option \<Rightarrow> auth_state \<Rightarrow> (auth_state, unit) outcome" where
  "revokeToken stellarAddress tokenId s =
     (if truthy tokenId
      then (case find_row (\<lambda>r. Some (rt_id r) = tokenId \<and> rt_stellarAddress r = stellarAddress) (refreshTokenTable s) of
              None \<Rightarrow> (Inl (NotFoundException ''Token not found''), s)
            | Some r \<Rightarrow> (Inr (), save_token (r\<lparr>rt_isRevoked := True\<rparr>) s))
      else (Inr (), s\<lparr>refreshTokenTable :=
              update_where (\<lambda>r. rt_stellarAddress r = stellarAddress \<and> \<not> rt_isRevoked r)
                (\<lambda>r. r\<lparr>rt_isRevoked := True\<rparr>) (refreshTokenTable s)\<rparr>))"

text \<open>\<open>validateUser\<close>, which is what the JWT strategy makes of a verified payload.\<close>

definition validateUser :: "auth_config \<Rightarrow> string \<Rightarrow> AuthUser" where
  "validateUser c stellarAddress =
     \<lparr> au_id = stellarAddress, au_stellarAddress = stellarAddress, au_role = getRoleForAddress c stellarAddress \<rparr>"

subsection \<open>Guards\<close>

definition roles_guard :: "Role list option \<Rightarrow> AuthUser option \<Rightarrow> exn + bool" where
  "roles_guard requiredRoles user =
     (case requiredRoles of
        None \<Rightarrow> Inr True
      | Some [] \<Rightarrow> Inr False
      | Some rs \<Rightarrow> (case user of None \<Rightarrow> Inl (JsTypeError ''Cannot read properties of undefined'')
                           | Some u \<Rightarrow> Inr (au_role u \<in> set rs)))"

definition verifier_guard :: "AuthUser option \<Rightarrow> string option \<Rightarrow> Quest list \<Rightarrow> exn + bool" where
  "verifier_guard user questId quests =
     (case user of
        None \<Rightarrow> Inl (ForbiddenException ''User not authenticated'')
      | Some u \<Rightarrow>
          if \<not> truthy questId then Inl (BadRequestException ''Quest ID is required'')
          else if au_role u = ADMIN then Inr True
          else (case find_row (\<lambda>q. Some (q_id q) = questId) quests of
                  None \<Rightarrow> Inl (BadRequestException ''Quest not found'')
                | Some q \<Rightarrow>
                    (let isCreator = (q_createdBy q = au_id u);
                         isVerifier = (au_role u = VERIFIER)
                     in if \<not> isVerifier \<and> \<not> isCreator
                        then Inl (ForbiddenException ''You are not authorized to verify submissions for this quest'')
                        else Inr True)))"

definition strip_bearer :: "string \<Rightarrow> string" where
  "strip_bearer h = (if starts_with h ''Bearer '' then drop 7 h else h)"

definition ws_extractToken :: "string option \<Rightarrow> string option \<Rightarrow> string option" where
  "ws_extractToken authToken authorization =
     (let h = (if truthy authToken then authToken else authorization)
      in if truthy h then Some (strip_bearer (the h)) else None)"

text \<open>\<open>validateClient\<close>: the user it puts on the socket; \<open>J\<close> verifies a token.\<close>

definition validateClient :: "(string \<Rightarrow> JwtPayload option) \<Rightarrow> string option \<Rightarrow> string option \<Rightarrow> exn + AuthUser" where
  "validateClient J authToken authorization =
     (let tok = ws_extractToken authToken authorization
      in if \<not> truthy tok then Inl (WsException ''Unauthorized'')
         else (case J (the tok) of
                 None \<Rightarrow> Inl (WsException ''Unauthorized'')
               | Some p \<Rightarrow> Inr \<lparr> au_id = jp_sub p, au_stellarAddress = jp_stellarAddress p, au_role = jp_role p \<rparr>))"

record throttled_request =
  tq_userRole :: "Role option"
  tq_userId :: "string option"
  tq_userAddress :: "string option"
  tq_userSub :: "string option"
  tq_authorization :: "string option"
  tq_forwarded :: "string list option"
  tq_forwardedText :: "string option"
  tq_ips :: "string list option"
  tq_ip :: "string option"

definition bearer_token :: "string option \<Rightarrow> string option" where
  "bearer_token h = (case h of None \<Rightarrow> None | Some t \<Rightarrow> if starts_with t ''Bearer '' then Some (drop 7 t) else None)"

text \<open>
  The throttler's own enumeration of roles has other values than the roles tokens carry; the two are
  compared as text.
\<close>

fun show_Role :: "Role \<Rightarrow> string" where
  "show_Role ADMIN = ''ADMIN''"
| "show_Role USER = ''USER''"
| "show_Role MODERATOR = ''MODERATOR''"
| "show_Role VERIFIER = ''VERIFIER''"

datatype UserRole = UserRole_ADMIN | UserRole_USER | UserRole_VERIFIER

fun show_UserRole :: "UserRole \<Rightarrow> string" where
  "show_UserRole UserRole_ADMIN = ''admin''"
| "show_UserRole UserRole_USER = ''user''"
| "show_UserRole UserRole_VERIFIER = ''verifier''"

definition shouldSkip :: "(string \<Rightarrow> JwtPayload option) \<Rightarrow> throttled_request \<Rightarrow> bool" where
  "shouldSkip J req =
     (if map_option show_Role (tq_userRole req) = Some (show_UserRole UserRole_ADMIN) then True
      else (case bearer_token (tq_authorization req) of
              None \<Rightarrow> False
            | Some t \<Rightarrow> (case J t of None \<Rightarrow> False | Some p \<Rightarrow> show_Role (jp_role p) = show_UserRole UserRole_ADMIN)))"

definition ip_tracker :: "throttled_request \<Rightarrow> string" where
  "ip_tracker req =
     (case tq_forwarded req of
        Some (f # fs) \<Rightarrow> ''ip:'' @ f
      | _ \<Rightarrow>
          if truthy (tq_forwardedText req) then ''ip:'' @ trim (hd (split_on CHR '','' (the (tq_forwardedText req))))
          else (case tq_ips req of
                  Some (i # is) \<Rightarrow> ''ip:'' @ i
                | _ \<Rightarrow> if truthy (tq_ip req) then ''ip:'' @ the (tq_ip req) else ''ip:unknown''))"

definition getTracker :: "(string \<Rightarrow> JwtPayload option) \<Rightarrow> throttled_request \<Rightarrow> string" where
  "getTracker J req =
     (let userId = (case tq_userId req of Some i \<Rightarrow> Some i
                    | None \<Rightarrow> (case tq_userAddress req of Some a \<Rightarrow> Some a | None \<Rightarrow> tq_userSub req))
      in if truthy userId then ''user:'' @ the userId
         else (case bearer_token (tq_authorization req) of
                 None \<Rightarrow> ip_tracker req
               | Some t \<Rightarrow>
                   (case J t of
                      None \<Rightarrow> ip_tracker req
                    | Some p \<Rightarrow> if jp_sub p \<noteq> [] then ''user:'' @ jp_sub p else ip_tracker req)))"

end
