(* ===== verification/AuthProps.thy ===== *)
theory AuthProps
  imports Auth
begin

text \<open>
  Authentication: what a challenge carries, who can log in with it and for how long, the rotation of
  refresh tokens one call after the other and interleaved, and what the guards let pass.
\<close>

interpretation token_repo: conditional_repository rt_id "\<lambda>t. t" find_row "save_row rt_id" "wf_table rt_id"
    update_where affected
  by (rule table_conditional_repository)

subsection \<open>Challenges\<close>

lemma find_timestamp_skip: "CHR ''T'' \<notin> set p \<Longrightarrow> find_timestamp (p @ s) = find_timestamp s"
  by (induction p) (auto simp: starts_with_def)

lemma starts_with_nth: "starts_with s p \<Longrightarrow> k < length p \<Longrightarrow> s ! k = p ! k"
  by (auto simp: starts_with_iff nth_append)

lemma timestamp_inside:
  assumes "starts_with (a @ CHR 0x0A # x) ''Timestamp: ''"
  shows "CHR '':'' \<in> set a"
proof (cases "length a \<le> 9")
  case True
  then have "(a @ CHR 0x0A # x) ! length a = ''Timestamp: '' ! length a"
    by (intro starts_with_nth [OF assms]) simp
  moreover have "''Timestamp: '' ! length a \<in> set ''Timestamp: ''" using True by (intro nth_mem) simp
  ultimately have "CHR 0x0A \<in> set ''Timestamp: ''" by (metis nth_append_length)
  then show ?thesis by simp
next
  case False
  then have "(a @ CHR 0x0A # x) ! 9 = CHR '':''" using starts_with_nth [OF assms, of 9] by simp
  with False show ?thesis by (simp add: nth_append) (metis nth_mem not_le)
qed

lemma find_timestamp_hit:
  "starts_with s ''Timestamp: '' \<Longrightarrow> takeWhile is_digit (drop 11 s) \<noteq> []
    \<Longrightarrow> find_timestamp s = Some (digits_value (takeWhile is_digit (drop 11 s)))"
  by (cases s) (simp_all add: Let_def)

lemma find_timestamp_miss: "\<not> starts_with (c # s) ''Timestamp: '' \<Longrightarrow> find_timestamp (c # s) = find_timestamp s"
  by (simp add: Let_def)

lemma find_timestamp_address:
  "CHR '':'' \<notin> set a \<Longrightarrow> find_timestamp (a @ CHR 0x0A # x) = find_timestamp x"
proof (induction a)
  case Nil
  then show ?case by (simp add: starts_with_def)
next
  case (Cons c a)
  then have "\<not> starts_with (c # a @ CHR 0x0A # x) ''Timestamp: ''" using timestamp_inside [of "c # a" x] by auto
  with Cons show ?case by (simp add: find_timestamp_miss del: find_timestamp.simps)
qed

lemma find_timestamp_here:
  assumes "\<not> is_digit d"
  shows "find_timestamp (''Timestamp: '' @ show_nat n @ d # t) = Some n"
proof -
  let ?s = "''Timestamp: '' @ show_nat n @ d # t"
  have "drop 11 ?s = show_nat n @ d # t" by simp
  then have "takeWhile is_digit (drop 11 ?s) = show_nat n"
    using show_nat_digits [of n] assms by (simp add: takeWhile_append2)
  moreover have "starts_with ?s ''Timestamp: ''" by (rule starts_with_append)
  ultimately show ?thesis using show_nat_digits [of n] find_timestamp_hit [of ?s] by simp
qed

text \<open>
  The login reads from a challenge the time the challenge was made for, whatever the
  address, as long as the address has no colon - and no Stellar address has one.
\<close>
theorem challenge_roundtrip:
  assumes "0 \<le> t" and "CHR '':'' \<notin> set address"
  shows "extractTimestampFromChallenge (generateChallengeMessage address t) = Inr t"
proof -
  let ?p = "''StellarEarn Authentication'' @ newline @ newline
     @ ''Sign this message to authenticate with your Stellar wallet.'' @ newline @ newline @ ''Address: ''"
  let ?r = "[CHR 0x0A] @ newline
     @ ''This signature will not trigger any blockchain transaction or cost any fees.''"
  have "generateChallengeMessage address t = ?p @ (address @ CHR 0x0A # (''Timestamp: '' @ show_nat (nat t) @ ?r))"
    using assms(1) by (simp add: generateChallengeMessage_def newline_def show_int_def)
  moreover have "CHR ''T'' \<notin> set ?p" by (simp add: newline_def)
  ultimately have "find_timestamp (generateChallengeMessage address t)
      = find_timestamp (address @ CHR 0x0A # (''Timestamp: '' @ show_nat (nat t) @ ?r))"
    using find_timestamp_skip [of ?p] by presburger
  also have "\<dots> = find_timestamp (''Timestamp: '' @ show_nat (nat t) @ ?r)"
    by (rule find_timestamp_address [OF assms(2)])
  also have "\<dots> = Some (nat t)" using find_timestamp_here [of "CHR 0x0A" "nat t" "drop 1 ?r"]
    by (simp add: is_digit_def del: find_timestamp.simps)
  finally show ?thesis using assms(1) by (simp add: extractTimestampFromChallenge_def)
qed

theorem challenge_roundtrip_witness:
  "extractTimestampFromChallenge (generateChallengeMessage ''GATTT'' 1700000000000) = Inr 1700000000000"
  by (rule challenge_roundtrip) simp_all


subsection \<open>Login\<close>

text \<open>What issuing tokens asks of the configuration and the library.\<close>

definition issuable :: "auth_config \<Rightarrow> auth_env \<Rightarrow> string \<Rightarrow> bool" where
  "issuable c env a \<longleftrightarrow>
     (\<exists>t. ae_sign env \<lparr> jp_sub = a, jp_stellarAddress = a, jp_role = getRoleForAddress c a \<rparr>
            (coalesce (ac_accessExpiration c) ''15m'') = Inr t)
     \<and> (\<exists>n. parseExpirationToMs (coalesce (ac_accessExpiration c) ''15m'') = Inr n)
     \<and> (\<exists>n. parseExpirationToMs (coalesce (ac_refreshExpiration c) ''7d'') = Inr n)"

definition refresh_ms :: "auth_config \<Rightarrow> nat" where
  "refresh_ms c = (case parseExpirationToMs (coalesce (ac_refreshExpiration c) ''7d'') of Inl _ \<Rightarrow> 0 | Inr n \<Rightarrow> n)"

definition issued_row :: "auth_config \<Rightarrow> auth_env \<Rightarrow> string \<Rightarrow> RefreshToken" where
  "issued_row c env a = \<lparr> rt_id = ae_newId env, rt_token = to_hex (ae_random env), rt_stellarAddress = a,
     rt_expiresAt = ae_now env + int (refresh_ms c), rt_isRevoked = False, rt_createdAt = ae_now env \<rparr>"

lemma generateTokens_ok:
  assumes "issuable c env a"
  shows "state_of (generateTokens c env a (getRoleForAddress c a) s) = save_token (issued_row c env a) s"
    and "\<exists>t. result (generateTokens c env a (getRoleForAddress c a) s) = Inr t \<and> tr_refreshToken t = to_hex (ae_random env)"
  using assms by (auto simp: generateTokens_def issuable_def issued_row_def refresh_ms_def Let_def)

lemma generateTokens_cases:
  "state_of (generateTokens c env a (getRoleForAddress c a) s) = s
   \<or> state_of (generateTokens c env a (getRoleForAddress c a) s) = save_token (issued_row c env a) s"
  by (auto simp: generateTokens_def issued_row_def refresh_ms_def Let_def split: sum.split)

lemma succeeds_generateTokens:
  "succeeds (generateTokens c env a (getRoleForAddress c a) s) \<longleftrightarrow> issuable c env a"
  by (auto simp: generateTokens_def issuable_def Let_def split: sum.split)

text \<open>
  Claim C12.  A login is a function of the signed text alone: a request with a validly signed text
  that contains a time stamp succeeds at every moment up to the configured number of minutes after that
  time stamp - however often the same request has been sent before, whoever made the text, and with no
  lower bound: a time stamp in the future keeps the request valid until that future.
\<close>
theorem login_replayable:
  assumes "V (li_stellarAddress dto) (li_challenge dto) (li_signature dto) = Some True"
    and "find_timestamp (li_challenge dto) = Some T" and "issuable c env (li_stellarAddress dto)"
  shows "succeeds (verifySignatureAndLogin V c env dto s)
    \<longleftrightarrow> (case challenge_minutes c of None \<Rightarrow> True | Some m \<Rightarrow> ae_now env \<le> int T + m * 60000)"
  using assms
  by (auto simp: verifySignatureAndLogin_def extractTimestampFromChallenge_def isChallengeExpired_def
      verifyStellarSignature_def succeeds_generateTokens split: option.splits)

definition plain_config :: auth_config where
  "plain_config = \<lparr> ac_challengeExpiration = None, ac_accessExpiration = None, ac_refreshExpiration = None,
     ac_adminAddresses = Some ''GADMIN, GROOT'' \<rparr>"

definition plain_env :: "time \<Rightarrow> id \<Rightarrow> byte \<Rightarrow> auth_env" where
  "plain_env now i b = \<lparr> ae_now = now, ae_newId = i, ae_random = [b], ae_sign = (\<lambda>p e. Inr (jp_sub p)) \<rparr>"

definition future_login :: LoginDto where
  "future_login = \<lparr> li_stellarAddress = ''GA'', li_signature = ''sig'', li_challenge = ''Timestamp: 4102444800000 '' \<rparr>"

lemma parse_defaults: "parseExpirationToMs ''15m'' = Inr 900000" "parseExpirationToMs ''7d'' = Inr 604800000"
  "parse_int ''5'' = Some 5"
  by (simp_all add: parseExpirationToMs_def unit_ms_def digits_value_def digit_value_def is_digit_def Let_def
      parse_int_def is_space_def unsigned_prefix_def)

lemma plain_issuable: "issuable plain_config (plain_env now i b) a"
  by (simp add: issuable_def plain_config_def plain_env_def parse_defaults)

theorem login_replayable_witness:
  "succeeds (verifySignatureAndLogin (\<lambda>_ _ _. Some True) plain_config (plain_env 1700000000000 ''i'' 1) future_login \<lparr>refreshTokenTable = []\<rparr>)
   \<and> succeeds (verifySignatureAndLogin (\<lambda>_ _ _. Some True) plain_config (plain_env 4102444800000 ''j'' 2) future_login \<lparr>refreshTokenTable = []\<rparr>)"
proof -
  have "find_timestamp (li_challenge future_login) = Some 4102444800000"
    by (simp add: future_login_def starts_with_def is_digit_def digits_value_def digit_value_def Let_def)
  moreover have "challenge_minutes plain_config = Some 5"
    by (simp add: challenge_minutes_def plain_config_def parse_defaults)
  ultimately show ?thesis
    using login_replayable [of "\<lambda>_ _ _. Some True" future_login 4102444800000 plain_config, OF _ _ plain_issuable]
    by (simp add: plain_env_def)
qed


subsection \<open>Rotation of refresh tokens\<close>

text \<open>A call that issues a token draws an id and a value no stored token has.\<close>

definition fresh_token :: "auth_env \<Rightarrow> auth_state \<Rightarrow> bool" where
  "fresh_token env s \<longleftrightarrow>
     ae_newId env \<notin> rt_id ` set (refreshTokenTable s) \<and> to_hex (ae_random env) \<notin> rt_token ` set (refreshTokenTable s)"

inductive auth_step :: "(string \<Rightarrow> string \<Rightarrow> string \<Rightarrow> bool option) \<Rightarrow> auth_config \<Rightarrow> auth_state \<Rightarrow> auth_state \<Rightarrow> bool"
  for V c where
  login: "fresh_token env s \<Longrightarrow> auth_step V c s (state_of (verifySignatureAndLogin V c env dto s))"
| refresh: "fresh_token env s \<Longrightarrow> auth_step V c s (state_of (refreshTokens c env v s))"
| revoke: "auth_step V c s (state_of (revokeToken a i s))"

inductive auth_steps :: "(string \<Rightarrow> string \<Rightarrow> string \<Rightarrow> bool option) \<Rightarrow> auth_config \<Rightarrow> auth_state \<Rightarrow> auth_state \<Rightarrow> bool"
  for V c where
  refl: "auth_steps V c s s"
| more: "auth_steps V c s t \<Longrightarrow> auth_step V c t u \<Longrightarrow> auth_steps V c s u"

definition wf_tokens :: "auth_state \<Rightarrow> bool" where
  "wf_tokens s \<longleftrightarrow> wf_table rt_id (refreshTokenTable s) \<and> wf_table rt_token (refreshTokenTable s)"

text \<open>The row of a value is revoked, and it is the only one.\<close>

definition spent :: "string \<Rightarrow> auth_state \<Rightarrow> bool" where
  "spent v s \<longleftrightarrow> v \<in> rt_token ` set (refreshTokenTable s)
     \<and> (\<forall>r \<in> set (refreshTokenTable s). rt_token r = v \<longrightarrow> rt_isRevoked r)"

lemma save_token_table [frame_simps]: "refreshTokenTable (save_token r s) = save_row rt_id r (refreshTokenTable s)"
  by (simp add: save_token_def)

lemma save_revoked_map:
  assumes "wf_table rt_id t" and "r \<in> set t"
  shows "map rt_token (save_row rt_id (r\<lparr>rt_isRevoked := True\<rparr>) t) = map rt_token t"
  by (rule map_save_row [OF assms]) simp_all

lemma wf_revoked:
  assumes "wf_tokens s" and "r \<in> set (refreshTokenTable s)"
  shows "wf_tokens (save_token (r\<lparr>rt_isRevoked := True\<rparr>) s)"
proof -
  have wf: "wf_table rt_id (refreshTokenTable s)" "wf_table rt_token (refreshTokenTable s)"
    using assms(1) by (simp_all add: wf_tokens_def)
  have "wf_table rt_token (save_row rt_id (r\<lparr>rt_isRevoked := True\<rparr>) (refreshTokenTable s))"
    using wf(2) unfolding wf_table_def save_revoked_map [OF wf(1) assms(2)] .
  then show ?thesis using wf_save_row [OF wf(1)] by (simp add: wf_tokens_def frame_simps)
qed

lemma spent_revoked:
  assumes "wf_tokens s" and "r \<in> set (refreshTokenTable s)" and "spent v s \<or> rt_token r = v"
  shows "spent v (save_token (r\<lparr>rt_isRevoked := True\<rparr>) s)"
proof -
  have wf: "wf_table rt_id (refreshTokenTable s)" "wf_table rt_token (refreshTokenTable s)"
    using assms(1) by (simp_all add: wf_tokens_def)
  have "rt_token ` set (save_row rt_id (r\<lparr>rt_isRevoked := True\<rparr>) (refreshTokenTable s)) = rt_token ` set (refreshTokenTable s)"
    using save_revoked_map [OF wf(1) assms(2)] by (metis set_map)
  moreover have "\<forall>q \<in> set (save_row rt_id (r\<lparr>rt_isRevoked := True\<rparr>) (refreshTokenTable s)). rt_token q = v \<longrightarrow> rt_isRevoked q"
  proof (intro ballI impI)
    fix q assume q: "q \<in> set (save_row rt_id (r\<lparr>rt_isRevoked := True\<rparr>) (refreshTokenTable s))" "rt_token q = v"
    then consider "q = r\<lparr>rt_isRevoked := True\<rparr>" | "q \<in> set (refreshTokenTable s)" "rt_id q \<noteq> rt_id r"
      using set_save_row [OF wf(1), of "r\<lparr>rt_isRevoked := True\<rparr>"] by auto
    then show "rt_isRevoked q"
    proof cases
      case 2
      from assms(3) show ?thesis
      proof
        assume "spent v s"
        with 2(1) q(2) show ?thesis by (simp add: spent_def)
      next
        assume "rt_token r = v"
        with q(2) have "q = r" using wf_table_unique [OF wf(2) 2(1) assms(2)] by simp
        with 2(2) show ?thesis by simp
      qed
    qed simp
  qed
  moreover have "v \<in> rt_token ` set (refreshTokenTable s)" using assms(2,3) by (auto simp: spent_def)
  ultimately show ?thesis by (simp add: spent_def frame_simps)
qed

lemma issued_fields [simp]:
  "rt_id (issued_row c env a) = ae_newId env" "rt_token (issued_row c env a) = to_hex (ae_random env)"
  "rt_isRevoked (issued_row c env a) = False" "rt_stellarAddress (issued_row c env a) = a"
  by (simp_all add: issued_row_def)

lemma issued_append:
  "fresh_token env s \<Longrightarrow> refreshTokenTable (save_token (issued_row c env a) s) = refreshTokenTable s @ [issued_row c env a]"
  unfolding save_token_table by (rule save_row_new) (metis fresh_token_def imageI issued_fields(1))

lemma wf_issued: "wf_tokens s \<Longrightarrow> fresh_token env s \<Longrightarrow> wf_tokens (save_token (issued_row c env a) s)"
  unfolding wf_tokens_def issued_append by (auto simp: wf_table_def fresh_token_def)

lemma spent_issued: "spent v s \<Longrightarrow> fresh_token env s \<Longrightarrow> spent v (save_token (issued_row c env a) s)"
  unfolding spent_def issued_append by (auto simp: fresh_token_def)

lemma fresh_revoked:
  assumes "wf_tokens s" and "r \<in> set (refreshTokenTable s)" and "fresh_token env s"
  shows "fresh_token env (save_token (r\<lparr>rt_isRevoked := True\<rparr>) s)"
proof -
  have "rt_token ` set (save_row rt_id (r\<lparr>rt_isRevoked := True\<rparr>) (refreshTokenTable s)) = rt_token ` set (refreshTokenTable s)"
    using save_revoked_map [of "refreshTokenTable s" r] assms(1,2) unfolding wf_tokens_def by (metis set_map)
  moreover have "rt_id ` set (save_row rt_id (r\<lparr>rt_isRevoked := True\<rparr>) (refreshTokenTable s)) = rt_id ` set (refreshTokenTable s)"
    using assms(2) by (simp add: keys_save_row image_iff insert_absorb)
  ultimately show ?thesis using assms(3) by (simp add: fresh_token_def frame_simps)
qed

lemma refresh_load_some:
  "refresh_load now v s = Inr r \<longleftrightarrow>
     find_row (\<lambda>r. rt_token r = v) (refreshTokenTable s) = Some r \<and> \<not> rt_isRevoked r \<and> now \<le> rt_expiresAt r"
  by (auto simp: refresh_load_def split: option.splits)

lemma refresh_load_in: "refresh_load now v s = Inr r \<Longrightarrow> r \<in> set (refreshTokenTable s) \<and> rt_token r = v"
  using find_row_some [of "\<lambda>r. rt_token r = v" "refreshTokenTable s" r] by (simp add: refresh_load_some)

lemma spent_load:
  assumes "spent v s"
  shows "refresh_load now v s = Inl (UnauthorizedException ''Refresh token has been revoked'')"
proof (cases "find_row (\<lambda>r. rt_token r = v) (refreshTokenTable s)")
  case None
  with assms show ?thesis by (auto simp: spent_def find_row_none)
next
  case (Some r)
  with assms find_row_some [OF Some] show ?thesis by (simp add: refresh_load_def spent_def)
qed

lemma issuing_keeps:
  assumes "wf_tokens s" and "fresh_token env s"
  shows "wf_tokens (state_of (generateTokens c env a (getRoleForAddress c a) s))"
    and "spent v s \<Longrightarrow> spent v (state_of (generateTokens c env a (getRoleForAddress c a) s))"
  using generateTokens_cases [of c env a s] wf_issued [OF assms] spent_issued [OF _ assms(2)] assms(1) by metis+

lemma refresh_keeps:
  assumes "wf_tokens s" and "fresh_token env s"
  shows "wf_tokens (state_of (refreshTokens c env w s)) \<and> (spent v s \<longrightarrow> spent v (state_of (refreshTokens c env w s)))"
proof (cases "refresh_load (ae_now env) w s")
  case (Inl e)
  then show ?thesis using assms(1) by (simp add: refreshTokens_def)
next
  case (Inr r)
  then have r: "r \<in> set (refreshTokenTable s)" by (simp add: refresh_load_in)
  show ?thesis
    using issuing_keeps [OF wf_revoked [OF assms(1) r] fresh_revoked [OF assms(1) r assms(2)]]
      spent_revoked [OF assms(1) r] Inr by (simp add: refreshTokens_def refresh_save_def)
qed

lemma revoke_keeps:
  assumes "wf_tokens s"
  shows "wf_tokens (state_of (revokeToken a i s)) \<and> (spent v s \<longrightarrow> spent v (state_of (revokeToken a i s)))"
proof (cases "truthy i")
  case True
  then show ?thesis
    using assms wf_revoked [OF assms] spent_revoked [OF assms] find_row_some [of _ "refreshTokenTable s"]
    by (auto simp: revokeToken_def split: option.split)
next
  case False
  then show ?thesis
    using assms wf_table_update [of _ "refreshTokenTable s"]
    by (auto simp: revokeToken_def wf_tokens_def spent_def image_update_where) (auto simp: update_where_def)
qed

lemma spent_steps:
  assumes "auth_steps V c s t"
  shows "wf_tokens s \<Longrightarrow> wf_tokens t \<and> (spent v s \<longrightarrow> spent v t)"
  using assms
proof (induction rule: auth_steps.induct)
  case (more s t u)
  from more.hyps(2) more.IH [OF more.prems] show ?case
  proof (cases rule: auth_step.cases)
    case (login env dto)
    with more.IH [OF more.prems] issuing_keeps [of t env] show ?thesis
      by (auto simp: verifySignatureAndLogin_def split: sum.split)
  next
    case (refresh env w)
    with more.IH [OF more.prems] refresh_keeps [of t env c w v] show ?thesis by blast
  next
    case (revoke a i)
    with more.IH [OF more.prems] revoke_keeps [of t a i v] show ?thesis by blast
  qed
qed simp

lemma refresh_spends:
  assumes "wf_tokens s" and "fresh_token env s" and "succeeds (refreshTokens c env v s)"
  shows "spent v (state_of (refreshTokens c env v s))"
proof (cases "refresh_load (ae_now env) v s")
  case (Inl e)
  with assms(3) show ?thesis by (simp add: refreshTokens_def)
next
  case (Inr r)
  then have r: "r \<in> set (refreshTokenTable s)" "rt_token r = v" by (simp_all add: refresh_load_in)
  show ?thesis
    using issuing_keeps(2) [OF wf_revoked [OF assms(1) r(1)] fresh_revoked [OF assms(1) r(1) assms(2)]]
      spent_revoked [OF assms(1) r(1)] r(2) Inr by (simp add: refreshTokens_def refresh_save_def)
qed

text \<open>
  Claim C11.  Rotation: a refresh token that has been exchanged is refused as revoked by every later
  call, in every state that logins, refreshes and revocations lead to, and at every time.
\<close>
theorem refresh_single_use:
  assumes "wf_tokens s" and "fresh_token env s" and "succeeds (refreshTokens c env v s)"
    and "auth_steps V c (state_of (refreshTokens c env v s)) t"
  shows "refreshTokens c env' v t = (Inl (UnauthorizedException ''Refresh token has been revoked''), t)"
  using spent_load spent_steps [OF assms(4)] refresh_spends [OF assms(1-3)] refresh_keeps [OF assms(1,2)]
  by (simp add: refreshTokens_def)

definition live_token :: "string \<Rightarrow> RefreshToken" where
  "live_token v = \<lparr> rt_id = ''r0'', rt_token = v, rt_stellarAddress = ''GA'', rt_expiresAt = 1700000600000,
     rt_isRevoked = False, rt_createdAt = 1700000000000 \<rparr>"

theorem refresh_single_use_witness:
  "refreshTokens plain_config (plain_env 1700000000002 ''r2'' 2) ''tok''
     (state_of (revokeToken ''GA'' None
        (state_of (refreshTokens plain_config (plain_env 1700000000001 ''r1'' 1) ''tok'' \<lparr>refreshTokenTable = [live_token ''tok'']\<rparr>))))
   = (Inl (UnauthorizedException ''Refresh token has been revoked''),
      state_of (revokeToken ''GA'' None
        (state_of (refreshTokens plain_config (plain_env 1700000000001 ''r1'' 1) ''tok'' \<lparr>refreshTokenTable = [live_token ''tok'']\<rparr>))))"
proof (rule refresh_single_use)
  show "wf_tokens \<lparr>refreshTokenTable = [live_token ''tok'']\<rparr>" by (simp add: wf_tokens_def wf_table_def)
  show "fresh_token (plain_env 1700000000001 ''r1'' 1) \<lparr>refreshTokenTable = [live_token ''tok'']\<rparr>"
    by (simp add: fresh_token_def plain_env_def live_token_def hex_char_def)
  show "succeeds (refreshTokens plain_config (plain_env 1700000000001 ''r1'' 1) ''tok'' \<lparr>refreshTokenTable = [live_token ''tok'']\<rparr>)"
    using succeeds_generateTokens [of plain_config] plain_issuable
    by (simp add: refreshTokens_def refresh_load_def live_token_def plain_env_def find_row_def refresh_save_def)
  show "auth_steps (\<lambda>_ _ _. None) plain_config
     (state_of (refreshTokens plain_config (plain_env 1700000000001 ''r1'' 1) ''tok'' \<lparr>refreshTokenTable = [live_token ''tok'']\<rparr>))
     (state_of (revokeToken ''GA'' None
        (state_of (refreshTokens plain_config (plain_env 1700000000001 ''r1'' 1) ''tok'' \<lparr>refreshTokenTable = [live_token ''tok'']\<rparr>))))"
    by (rule auth_steps.more [OF auth_steps.refl auth_step.revoke])
qed

subsection \<open>Two refreshes at once\<close>

lemma refresh_save_state:
  assumes "wf_tokens s" and "r \<in> set (refreshTokenTable s)" and "fresh_token env s"
    and "issuable c env (rt_stellarAddress r)"
  shows "refreshTokenTable (state_of (refresh_save c env r s))
      = save_row rt_id (r\<lparr>rt_isRevoked := True\<rparr>) (refreshTokenTable s) @ [issued_row c env (rt_stellarAddress r)]"
  using generateTokens_ok(1) [OF assms(4)] issued_append [OF fresh_revoked [OF assms(1-3)]]
  by (simp add: refresh_save_def frame_simps)

lemma wf_refresh_save:
  "wf_tokens s \<Longrightarrow> r \<in> set (refreshTokenTable s) \<Longrightarrow> fresh_token env s \<Longrightarrow> wf_tokens (state_of (refresh_save c env r s))"
  unfolding refresh_save_def by (intro issuing_keeps(1) wf_revoked fresh_revoked)

lemma issued_loads:
  assumes "wf_tokens s" and "issued_row c env a \<in> set (refreshTokenTable s)"
  shows "refresh_load (ae_now env) (to_hex (ae_random env)) s = Inr (issued_row c env a)"
proof -
  have "wf_table rt_token (refreshTokenTable s)" using assms(1) by (simp add: wf_tokens_def)
  then have "find_row (\<lambda>q. rt_token q = rt_token (issued_row c env a)) (refreshTokenTable s) = Some (issued_row c env a)"
    by (rule repository.find_by_key [OF table_repository _ assms(2)])
  then show ?thesis by (simp add: refresh_load_some) (simp add: issued_row_def)
qed

text \<open>
  Rotation does not hold between calls that overlap: when a second request loads the token
  before the first has stored it as revoked, both succeed and both new tokens are live at the end -
  a stolen token and its owner's refresh can both go on.
\<close>
theorem concurrent_refresh_both_succeed:
  assumes wf: "wf_tokens s" and load: "refresh_load now v s = Inr r"
    and ok: "issuable c env1 (rt_stellarAddress r)" "issuable c env2 (rt_stellarAddress r)"
    and new: "fresh_token env1 s" "fresh_token env2 (state_of (refresh_save c env1 r s))"
  shows "succeeds (refresh_save c env1 r s) \<and> succeeds (refresh_save c env2 r (state_of (refresh_save c env1 r s)))
    \<and> refresh_load (ae_now env1) (to_hex (ae_random env1)) (state_of (refresh_save c env2 r (state_of (refresh_save c env1 r s))))
        = Inr (issued_row c env1 (rt_stellarAddress r))
    \<and> refresh_load (ae_now env2) (to_hex (ae_random env2)) (state_of (refresh_save c env2 r (state_of (refresh_save c env1 r s))))
        = Inr (issued_row c env2 (rt_stellarAddress r))"
proof -
  let ?s1 = "state_of (refresh_save c env1 r s)" and ?s2 = "state_of (refresh_save c env2 r (state_of (refresh_save c env1 r s)))"
  let ?i = "issued_row c env1 (rt_stellarAddress r)"
  have r: "r \<in> set (refreshTokenTable s)" using refresh_load_in [OF load] by simp
  have t1: "refreshTokenTable ?s1 = save_row rt_id (r\<lparr>rt_isRevoked := True\<rparr>) (refreshTokenTable s) @ [?i]"
    by (rule refresh_save_state [OF wf r new(1) ok(1)])
  have w1: "wf_tokens ?s1" by (rule wf_refresh_save [OF wf r new(1)])
  define q where "q = r\<lparr>rt_isRevoked := True\<rparr>"
  have q: "q \<in> set (refreshTokenTable ?s1)"
    using wf by (simp add: t1 q_def wf_tokens_def set_save_row)
  have eq: "refresh_save c env2 r ?s1 = refresh_save c env2 q ?s1" by (simp add: refresh_save_def q_def)
  have ok2: "issuable c env2 (rt_stellarAddress q)" using ok(2) by (simp add: q_def)
  have w2: "wf_tokens ?s2" unfolding eq by (rule wf_refresh_save [OF w1 q new(2)])
  have t2: "refreshTokenTable ?s2
      = save_row rt_id (q\<lparr>rt_isRevoked := True\<rparr>) (refreshTokenTable ?s1) @ [issued_row c env2 (rt_stellarAddress q)]"
    unfolding eq by (rule refresh_save_state [OF w1 q new(2) ok2])
  have "rt_id ?i \<noteq> rt_id r" using new(1) r by (auto simp: fresh_token_def)
  then have "?i \<in> set (refreshTokenTable ?s2)"
    using w1 by (simp add: t2 set_save_row wf_tokens_def) (simp add: t1 q_def)
  moreover have "issued_row c env2 (rt_stellarAddress r) \<in> set (refreshTokenTable ?s2)" by (simp add: t2 q_def)
  ultimately show ?thesis using ok issued_loads [OF w2] by (simp add: refresh_save_def succeeds_generateTokens)
qed

theorem concurrent_refresh_both_succeed_witness:
  "refresh_load 1700000000002 (to_hex [2])
     (state_of (refresh_save plain_config (plain_env 1700000000002 ''r2'' 2) (live_token ''tok'')
       (state_of (refresh_save plain_config (plain_env 1700000000001 ''r1'' 1) (live_token ''tok'')
         \<lparr>refreshTokenTable = [live_token ''tok'']\<rparr>))))
   = Inr (issued_row plain_config (plain_env 1700000000002 ''r2'' 2) ''GA'')"
proof -
  let ?s = "\<lparr>refreshTokenTable = [live_token ''tok'']\<rparr>"
  let ?e1 = "plain_env 1700000000001 ''r1'' 1" and ?e2 = "plain_env 1700000000002 ''r2'' 2"
  have l: "refresh_load 1700000000001 ''tok'' ?s = Inr (live_token ''tok'')"
    by (simp add: refresh_load_def live_token_def find_row_def)
  have w: "wf_tokens ?s" by (simp add: wf_tokens_def wf_table_def)
  have f: "fresh_token ?e1 ?s" by (simp add: fresh_token_def plain_env_def live_token_def)
  have "refreshTokenTable (state_of (refresh_save plain_config ?e1 (live_token ''tok'') ?s))
      = save_row rt_id ((live_token ''tok'')\<lparr>rt_isRevoked := True\<rparr>) [live_token ''tok'']
        @ [issued_row plain_config ?e1 (rt_stellarAddress (live_token ''tok''))]"
    using refresh_save_state [OF w _ f plain_issuable] by simp
  then have "fresh_token ?e2 (state_of (refresh_save plain_config ?e1 (live_token ''tok'') ?s))"
    by (simp add: fresh_token_def) (simp add: plain_env_def live_token_def hex_char_def char_of_eq_iff)
  from concurrent_refresh_both_succeed [OF w l plain_issuable plain_issuable f this]
  show ?thesis by (simp add: plain_env_def) (simp add: live_token_def)
qed

subsection \<open>What the guards let pass\<close>

lemma role_values: "getRoleForAddress c a = ADMIN \<or> getRoleForAddress c a = USER"
  by (simp add: getRoleForAddress_def Let_def)

text \<open>
  The guard of the review routes on an authenticated caller, on every input: it passes the
  addresses configured as administrators and the creator of the quest, and nobody else.  Its branch for
  verifiers is dead, because no address is ever given that role.
\<close>
theorem verifier_guard_exact:
  "verifier_guard (Some (validateUser c a)) (Some i) qs =
     (if i = [] then Inl (BadRequestException ''Quest ID is required'')
      else if a \<in> set (filter (\<lambda>x. x \<noteq> []) (map trim (split_on CHR '','' (coalesce (ac_adminAddresses c) [])))) then Inr True
      else (case find_row (\<lambda>q. q_id q = i) qs of
              None \<Rightarrow> Inl (BadRequestException ''Quest not found'')
            | Some q \<Rightarrow> if q_createdBy q = a then Inr True
                else Inl (ForbiddenException ''You are not authorized to verify submissions for this quest'')))"
  by (auto simp: verifier_guard_def validateUser_def getRoleForAddress_def Let_def split: option.split)

text \<open>
  The exemption of administrators from throttling never applies: whatever the request and
  whatever its token says, it is counted, because the enumeration the guard compares with spells the role
  in lower case.
\<close>
theorem admin_never_skips: "\<not> shouldSkip J req"
proof -
  have "show_Role r \<noteq> show_UserRole UserRole_ADMIN" for r by (cases r) simp_all
  then show ?thesis
    by (cases "tq_userRole req") (auto simp: shouldSkip_def split: option.split)
qed

lemma admin_is_counted:
  "jp_sub p \<noteq> [] \<Longrightarrow> J (drop 7 t) = Some p \<Longrightarrow> starts_with t ''Bearer ''
    \<Longrightarrow> getTracker J \<lparr> tq_userRole = None, tq_userId = None, tq_userAddress = None, tq_userSub = None,
          tq_authorization = Some t, tq_forwarded = f, tq_forwardedText = x, tq_ips = ips, tq_ip = ip \<rparr> = ''user:'' @ jp_sub p"
  by (simp add: getTracker_def bearer_token_def)

text \<open>Without an id, \<open>revokeToken\<close> ends every session of the address.\<close>

lemma logout_revokes_all:
  assumes "r \<in> set (refreshTokenTable (state_of (revokeToken a None s)))" and "rt_stellarAddress r = a"
  shows "rt_isRevoked r"
proof -
  let ?P = "\<lambda>q. rt_stellarAddress q = a \<and> \<not> rt_isRevoked q"
  have "r \<in> (\<lambda>q. if ?P q then q\<lparr>rt_isRevoked := True\<rparr> else q) ` set (refreshTokenTable s)"
    using assms(1) by (simp add: revokeToken_def update_where_def)
  then obtain q where q: "r = (if ?P q then q\<lparr>rt_isRevoked := True\<rparr> else q)" by (rule imageE)
  show ?thesis
  proof (cases "?P q")
    case False
    with q assms(2) show ?thesis by simp
  qed (use q in simp)
qed

lemma logout_ends_refresh:
  assumes "refresh_load now v (state_of (revokeToken a None s)) = Inr r"
  shows "rt_stellarAddress r \<noteq> a"
  using logout_revokes_all [of r a s] refresh_load_in [OF assms] assms [unfolded refresh_load_some] by blast

end
