(* ===== verification/Json.thy ===== *)
theory Json
  imports TextCodec
begin

text \<open>
  The values \<open>JSON.parse\<close> makes, with the properties of an object in insertion order and numbers as
  rationals.
\<close>

datatype json =
  JNull | JBool bool | JNum rat | JStr string | JArr "json list" | JObj "(string \<times> json) list"

fun json_depth :: "json \<Rightarrow> nat" where
  "json_depth (JArr xs) = Suc (fold (\<lambda>x. max (json_depth x)) xs 0)"
| "json_depth (JObj ps) = Suc (fold (\<lambda>p. max (json_depth (snd p))) ps 0)"
| "json_depth _ = 0"

abbreviation JInt :: "int \<Rightarrow> json" where
  "JInt n \<equiv> JNum (rat_of_int n)"

lemma fold_max_ge: "(n :: nat) \<le> fold (\<lambda>x. max (f x)) xs n"
  by (induction xs arbitrary: n) (auto intro: order_trans [OF max.cobounded2])

lemma fold_max_mem: "x \<in> set xs \<Longrightarrow> (f x :: nat) \<le> fold (\<lambda>x. max (f x)) xs n"
  by (induction xs arbitrary: n) (auto intro: order_trans [OF max.cobounded1 fold_max_ge])

lemma depth_arr: "x \<in> set xs \<Longrightarrow> json_depth x < json_depth (JArr xs)"
  by (simp add: less_Suc_eq_le fold_max_mem)

lemma depth_obj: "p \<in> set ps \<Longrightarrow> json_depth (snd p) < json_depth (JObj ps)"
  using fold_max_mem [of p ps "\<lambda>p. json_depth (snd p)" 0] by simp

end
