(* ===== verification/Websocket.thy ===== *)
theory Websocket
  imports Auth Json "HOL-Library.AList"
begin

text \<open>
  The WebSocket module, \<open>BackEnd/src/modules/websocket\<close>: connections and their users, rooms,
  subscriptions and their restoration, the messages sent and stored, the rate limit, and the gateway's
  handlers; then \<open>WebsocketEventHandler\<close>, which turns events into pushes.  A JavaScript \<open>Map\<close> is an
  association list in insertion order.  The socket library is the list of connected sockets with the
  rooms each has joined, and an emission names the sockets that are in its room at that moment.  The
  DTOs of the handlers arrive validated; page limits are at least 1.
\<close>

subsection \<open>State\<close>

datatype WsChannel =
  QUEST_NEW | QUEST_UPDATED | QUEST_DEADLINE | SUBMISSION_STATUS | PAYOUT_CONFIRMATION | CHAT_SUPPORT
  | ANALYTICS_REALTIME | REPUTATION_CHANGE | BROADCAST

fun show_WsChannel :: "WsChannel \<Rightarrow> string" where
  "show_WsChannel QUEST_NEW = ''quest:new''"
| "show_WsChannel QUEST_UPDATED = ''quest:updated''"
| "show_WsChannel QUEST_DEADLINE = ''quest:deadline''"
| "show_WsChannel SUBMISSION_STATUS = ''submission:status''"
| "show_WsChannel PAYOUT_CONFIRMATION = ''payout:confirmation''"
| "show_WsChannel CHAT_SUPPORT = ''chat:support''"
| "show_WsChannel ANALYTICS_REALTIME = ''analytics:realtime''"
| "show_WsChannel REPUTATION_CHANGE = ''reputation:change''"
| "show_WsChannel BROADCAST = ''broadcast''"

record WsSubscription =
  sb_id :: id
  sb_userId :: id
  sb_channel :: WsChannel
  sb_resourceId :: "string option"
  sb_active :: bool

record WsMessage =
  wm_id :: id
  wm_channel :: WsChannel
  wm_event :: string
  wm_payload :: json
  wm_targetUserId :: "id option"
  wm_isBroadcast :: bool
  wm_createdAt :: time

record ConnectedClient =
  cc_socket :: id
  cc_userId :: id
  cc_stellarAddress :: string
  cc_role :: Role
  cc_subscribedChannels :: "string set"
  cc_connectedAt :: time

record RateLimitEntry =
  rl_count :: nat
  rl_windowStart :: time

record Socket =
  sk_id :: id
  sk_authToken :: "string option"
  sk_authorization :: "string option"
  sk_user :: "AuthUser option"
  sk_rooms :: "string set"

datatype target = ToRoom string | ToSocket id | ToAll

record Emission =
  em_target :: target
  em_event :: string
  em_channel :: "WsChannel option"
  em_data :: json
  em_timestamp :: time
  em_reached :: "id list"

record ws_state =
  ws_clients :: "(id \<times> ConnectedClient) list"
  ws_userSockets :: "(id \<times> id set) list"
  ws_rateLimits :: "(id \<times> RateLimitEntry) list"
  ws_subscriptions :: "WsSubscription list"
  ws_messages :: "WsMessage list"
  ws_sockets :: "Socket list"
  ws_emitted :: "Emission list"

text \<open>The clock, the key of an inserted row, and whether the insertion of a message is carried out.\<close>

record ws_env =
  we_now :: time
  we_newId :: id
  we_stored :: bool

definition RATE_LIMIT_WINDOW_MS :: int where
  "RATE_LIMIT_WINDOW_MS = 60000"

definition RATE_LIMIT_MAX_MESSAGES :: nat where
  "RATE_LIMIT_MAX_MESSAGES = 60"

subsection \<open>Sockets\<close>

definition find_socket :: "id \<Rightarrow> ws_state \<Rightarrow> Socket option" where
  "find_socket sid s = find_row (\<lambda>k. sk_id k = sid) (ws_sockets s)"

definition map_socket :: "id \<Rightarrow> (Socket \<Rightarrow> Socket) \<Rightarrow> ws_state \<Rightarrow> ws_state" where
  "map_socket sid f s = s\<lparr>ws_sockets := update_where (\<lambda>k. sk_id k = sid) f (ws_sockets s)\<rparr>"

definition join_room :: "id \<Rightarrow> string \<Rightarrow> ws_state \<Rightarrow> ws_state" where
  "join_room sid room = map_socket sid (\<lambda>k. k\<lparr>sk_rooms := insert room (sk_rooms k)\<rparr>)"

definition leave_room :: "id \<Rightarrow> string \<Rightarrow> ws_state \<Rightarrow> ws_state" where
  "leave_room sid room = map_socket sid (\<lambda>k. k\<lparr>sk_rooms := sk_rooms k - {room}\<rparr>)"

fun reaches :: "target \<Rightarrow> Socket \<Rightarrow> bool" where
  "reaches (ToRoom r) k = (r \<in> sk_rooms k)"
| "reaches (ToSocket i) k = (sk_id k = i)"
| "reaches ToAll k = True"

definition emit_to :: "target \<Rightarrow> string \<Rightarrow> WsChannel option \<Rightarrow> json \<Rightarrow> time \<Rightarrow> ws_state \<Rightarrow> ws_state" where
  "emit_to target event channel payload now s = s\<lparr>ws_emitted := ws_emitted s @
     [\<lparr> em_target = target, em_event = event, em_channel = channel, em_data = payload, em_timestamp = now,
        em_reached = map sk_id (filter (reaches target) (ws_sockets s)) \<rparr>]\<rparr>"

subsection \<open>Connections\<close>

definition user_room :: "id \<Rightarrow> string" where
  "user_room userId = ''user:'' @ userId"

definition registerClient :: "time \<Rightarrow> id \<Rightarrow> AuthUser option \<Rightarrow> ws_state \<Rightarrow> ws_state" where
  "registerClient now sid user s =
     (case user of
        None \<Rightarrow> s
      | Some u \<Rightarrow>
          join_room sid (user_room (au_id u))
            (s\<lparr>ws_clients := AList.update sid
                 \<lparr> cc_socket = sid, cc_userId = au_id u, cc_stellarAddress = au_stellarAddress u,
                   cc_role = au_role u, cc_subscribedChannels = {}, cc_connectedAt = now \<rparr> (ws_clients s),
               ws_userSockets := AList.update (au_id u)
                 (insert sid (coalesce (map_of (ws_userSockets s) (au_id u)) {})) (ws_userSockets s)\<rparr>))"

definition removeClient :: "id \<Rightarrow> ws_state \<Rightarrow> ws_state" where
  "removeClient socketId s =
     (case map_of (ws_clients s) socketId of
        None \<Rightarrow> s
      | Some client \<Rightarrow>
          s\<lparr>ws_userSockets :=
              (case map_of (ws_userSockets s) (cc_userId client) of
                 None \<Rightarrow> ws_userSockets s
               | Some userSockets \<Rightarrow>
                   (if userSockets - {socketId} = {} then AList.delete (cc_userId client) (ws_userSockets s)
                    else AList.update (cc_userId client) (userSockets - {socketId}) (ws_userSockets s))),
            ws_rateLimits := AList.delete socketId (ws_rateLimits s),
            ws_clients := AList.delete socketId (ws_clients s)\<rparr>)"

definition getClient :: "id \<Rightarrow> ws_state \<Rightarrow> ConnectedClient option" where
  "getClient socketId s = map_of (ws_clients s) socketId"

definition getConnectedUserCount :: "ws_state \<Rightarrow> nat" where
  "getConnectedUserCount s = length (ws_userSockets s)"

definition getConnectionCount :: "ws_state \<Rightarrow> nat" where
  "getConnectionCount s = length (ws_clients s)"

subsection \<open>Subscriptions\<close>

definition buildRoomName :: "WsChannel \<Rightarrow> string option \<Rightarrow> string" where
  "buildRoomName channel resourceId =
     (if truthy resourceId then show_WsChannel channel @ '':'' @ the resourceId else show_WsChannel channel)"

text \<open>\<open>findOne\<close> leaves a property that is \<open>undefined\<close> out of its condition.\<close>

definition find_subscription :: "id \<Rightarrow> WsChannel \<Rightarrow> string option \<Rightarrow> ws_state \<Rightarrow> WsSubscription option" where
  "find_subscription userId channel resourceId s =
     find_row (\<lambda>b. sb_userId b = userId \<and> sb_channel b = channel
        \<and> (resourceId = None \<or> sb_resourceId b = resourceId)) (ws_subscriptions s)"

definition set_channels :: "id \<Rightarrow> (string set \<Rightarrow> string set) \<Rightarrow> ws_state \<Rightarrow> ws_state" where
  "set_channels sid f s = s\<lparr>ws_clients := AList.map_entry sid
     (\<lambda>c. c\<lparr>cc_subscribedChannels := f (cc_subscribedChannels c)\<rparr>) (ws_clients s)\<rparr>"

definition subscribe ::
    "ws_env \<Rightarrow> id \<Rightarrow> WsChannel \<Rightarrow> string option \<Rightarrow> ws_state \<Rightarrow> (bool \<times> string) \<times> ws_state" where
  "subscribe env socketId channel resourceId s =
     (case map_of (ws_clients s) socketId of
        None \<Rightarrow> ((False, ''Client not found''), s)
      | Some client \<Rightarrow>
          (let roomName = buildRoomName channel resourceId;
               s1 = set_channels socketId (insert roomName) (join_room socketId roomName s);
               row = (case find_subscription (cc_userId client) channel resourceId s1 of
                        Some existing \<Rightarrow> existing\<lparr>sb_active := True\<rparr>
                      | None \<Rightarrow> \<lparr> sb_id = we_newId env, sb_userId = cc_userId client, sb_channel = channel,
                                  sb_resourceId = resourceId, sb_active = True \<rparr>)
           in ((True, ''Subscribed to '' @ show_WsChannel channel),
               s1\<lparr>ws_subscriptions := save_row sb_id row (ws_subscriptions s1)\<rparr>)))"

definition unsubscribe ::
    "id \<Rightarrow> WsChannel \<Rightarrow> string option \<Rightarrow> ws_state \<Rightarrow> (bool \<times> string) \<times> ws_state" where
  "unsubscribe socketId channel resourceId s =
     (case map_of (ws_clients s) socketId of
        None \<Rightarrow> ((False, ''Client not found''), s)
      | Some client \<Rightarrow>
          (let roomName = buildRoomName channel resourceId;
               s1 = set_channels socketId (\<lambda>C. C - {roomName}) (leave_room socketId roomName s)
           in ((True, ''Unsubscribed from '' @ show_WsChannel channel),
               (case find_subscription (cc_userId client) channel resourceId s1 of
                  Some existing \<Rightarrow>
                    s1\<lparr>ws_subscriptions := save_row sb_id (existing\<lparr>sb_active := False\<rparr>) (ws_subscriptions s1)\<rparr>
                | None \<Rightarrow> s1))))"

definition restore_one :: "id \<Rightarrow> WsSubscription \<Rightarrow> ws_state \<Rightarrow> ws_state" where
  "restore_one sid b s =
     (let roomName = buildRoomName (sb_channel b) (sb_resourceId b)
      in set_channels sid (insert roomName) (join_room sid roomName s))"

definition restoreSubscriptions :: "id \<Rightarrow> AuthUser option \<Rightarrow> ws_state \<Rightarrow> ws_state" where
  "restoreSubscriptions sid user s =
     (case user of
        None \<Rightarrow> s
      | Some u \<Rightarrow> fold (restore_one sid)
          (filter (\<lambda>b. sb_userId b = au_id u \<and> sb_active b) (ws_subscriptions s)) s)"

subsection \<open>Messages\<close>

definition persistMessage ::
    "ws_env \<Rightarrow> WsChannel \<Rightarrow> string \<Rightarrow> json \<Rightarrow> id option \<Rightarrow> bool \<Rightarrow> ws_state \<Rightarrow> ws_state" where
  "persistMessage env channel event payload targetUserId isBroadcast s =
     (if we_stored env
      then s\<lparr>ws_messages := save_row wm_id
             \<lparr> wm_id = we_newId env, wm_channel = channel, wm_event = event, wm_payload = payload,
               wm_targetUserId = targetUserId, wm_isBroadcast = isBroadcast, wm_createdAt = we_now env \<rparr> (ws_messages s)\<rparr>
      else s)"

definition sendToUser :: "ws_env \<Rightarrow> id \<Rightarrow> string \<Rightarrow> json \<Rightarrow> WsChannel option \<Rightarrow> ws_state \<Rightarrow> ws_state" where
  "sendToUser env userId event payload channel s =
     emit_to (ToRoom (user_room userId)) event channel payload (we_now env)
       (case channel of None \<Rightarrow> s | Some c \<Rightarrow> persistMessage env c event payload (Some userId) False s)"

definition sendToChannel :: "ws_env \<Rightarrow> WsChannel \<Rightarrow> string \<Rightarrow> json \<Rightarrow> string option \<Rightarrow> ws_state \<Rightarrow> ws_state" where
  "sendToChannel env channel event payload resourceId s =
     emit_to (ToRoom (buildRoomName channel resourceId)) event (Some channel) payload (we_now env)
       (persistMessage env channel event payload None False s)"

definition broadcast :: "ws_env \<Rightarrow> string \<Rightarrow> json \<Rightarrow> ws_state \<Rightarrow> ws_state" where
  "broadcast env event payload s =
     emit_to ToAll event (Some BROADCAST) payload (we_now env) (persistMessage env BROADCAST event payload None True s)"

definition broadcastToRole :: "time \<Rightarrow> Role \<Rightarrow> string \<Rightarrow> json \<Rightarrow> ws_state \<Rightarrow> ws_state" where
  "broadcastToRole now role event payload s =
     fold (\<lambda>(_, client). emit_to (ToSocket (cc_socket client)) event (Some BROADCAST) payload now)
       (filter (\<lambda>(_, client). cc_role client = role) (ws_clients s)) s"

definition getMessageHistory :: "WsChannel \<Rightarrow> id \<Rightarrow> time option \<Rightarrow> nat option \<Rightarrow> ws_state \<Rightarrow> WsMessage list" where
  "getMessageHistory channel userId since limit s =
     take (min (coalesce limit 50) 200)
       (order_desc wm_createdAt
          (filter (\<lambda>m. wm_channel m = channel
              \<and> (wm_targetUserId m = Some userId \<or> wm_targetUserId m = None \<or> wm_isBroadcast m)
              \<and> (case since of None \<Rightarrow> True | Some t \<Rightarrow> t < wm_createdAt m)) (ws_messages s)))"

subsection \<open>The rate limit\<close>

definition checkRateLimit :: "time \<Rightarrow> id \<Rightarrow> ws_state \<Rightarrow> bool \<times> ws_state" where
  "checkRateLimit now socketId s =
     (let fresh = (True, s\<lparr>ws_rateLimits := AList.update socketId \<lparr> rl_count = 1, rl_windowStart = now \<rparr> (ws_rateLimits s)\<rparr>)
      in case map_of (ws_rateLimits s) socketId of
           None \<Rightarrow> fresh
         | Some entry \<Rightarrow>
             if now - rl_windowStart entry > RATE_LIMIT_WINDOW_MS then fresh
             else (Suc (rl_count entry) \<le> RATE_LIMIT_MAX_MESSAGES,
                   s\<lparr>ws_rateLimits := AList.update socketId (entry\<lparr>rl_count := Suc (rl_count entry)\<rparr>) (ws_rateLimits s)\<rparr>))"

record ws_stats =
  wst_totalConnections :: nat
  wst_uniqueUsers :: nat
  wst_timestamp :: time

definition getStats :: "time \<Rightarrow> ws_state \<Rightarrow> ws_stats" where
  "getStats now s = \<lparr> wst_totalConnections = length (ws_clients s), wst_uniqueUsers = length (ws_userSockets s),
     wst_timestamp = now \<rparr>"

end
