(* ===== verification/WebsocketGateway.thy ===== *)
theory WebsocketGateway
  imports Websocket
begin

text \<open>
  \<open>websocket.gateway.ts\<close>, every handler, and \<open>events/handlers/websocket-event.handler.ts\<close>.  \<open>J now\<close>
  verifies a token at the time \<open>now\<close>.  A connection is handled in three parts, split where the gateway
  awaits: the token, the registration, the restored subscriptions.  \<open>WsAuthGuard\<close> runs before a handler
  and puts the user of the socket's token on the socket anew.
\<close>

subsection \<open>Guarded calls\<close>

definition set_user :: "id \<Rightarrow> AuthUser \<Rightarrow> ws_state \<Rightarrow> ws_state" where
  "set_user sid u = map_socket sid (\<lambda>k. k\<lparr>sk_user := Some u\<rparr>)"

definition ws_guard ::
    "(time \<Rightarrow> string \<Rightarrow> JwtPayload option) \<Rightarrow> time \<Rightarrow> Socket \<Rightarrow> (AuthUser \<Rightarrow> ws_state \<Rightarrow> (ws_state, 'a) outcome)
     \<Rightarrow> ws_state \<Rightarrow> (ws_state, 'a) outcome" where
  "ws_guard J now client handler s =
     (case validateClient (J now) (sk_authToken client) (sk_authorization client) of
        Inl e \<Rightarrow> (Inl e, s)
      | Inr u \<Rightarrow> handler u (set_user (sk_id client) u s))"

definition rate_limited ::
    "time \<Rightarrow> id \<Rightarrow> (ws_state \<Rightarrow> (ws_state, 'a) outcome) \<Rightarrow> ws_state \<Rightarrow> (ws_state, 'a) outcome" where
  "rate_limited now sid body s =
     (case checkRateLimit now sid s of (ok, s1) \<Rightarrow>
        if ok then body s1 else (Inl (WsException ''Rate limit exceeded''), s1))"

subsection \<open>Connecting and disconnecting\<close>

definition accept_socket :: "id \<Rightarrow> string option \<Rightarrow> string option \<Rightarrow> ws_state \<Rightarrow> ws_state" where
  "accept_socket sid authToken authorization s = s\<lparr>ws_sockets := ws_sockets s @
     [\<lparr> sk_id = sid, sk_authToken = authToken, sk_authorization = authorization, sk_user = None, sk_rooms = {} \<rparr>]\<rparr>"

text \<open>The library drops the socket from its rooms and calls \<open>handleDisconnect\<close>.\<close>

definition handleDisconnect :: "id \<Rightarrow> ws_state \<Rightarrow> ws_state" where
  "handleDisconnect sid s = removeClient sid s"

definition drop_socket :: "id \<Rightarrow> ws_state \<Rightarrow> ws_state" where
  "drop_socket sid s = handleDisconnect sid (s\<lparr>ws_sockets := remove_row sk_id sid (ws_sockets s)\<rparr>)"

definition json_role :: "Role \<Rightarrow> json" where
  "json_role r = JStr (show_Role r)"

definition json_user :: "AuthUser \<Rightarrow> json" where
  "json_user u = JObj [(''id'', JStr (au_id u)), (''stellarAddress'', JStr (au_stellarAddress u)), (''role'', json_role (au_role u))]"

definition connect_validate ::
    "(time \<Rightarrow> string \<Rightarrow> JwtPayload option) \<Rightarrow> time \<Rightarrow> Socket \<Rightarrow> ws_state \<Rightarrow> (ws_state, AuthUser) outcome" where
  "connect_validate J now client s =
     (case validateClient (J now) (sk_authToken client) (sk_authorization client) of
        Inl e \<Rightarrow> (Inl e, drop_socket (sk_id client)
                    (emit_to (ToSocket (sk_id client)) ''error'' None
                       (JObj [(''message'', JStr ''Authentication failed'')]) now s))
      | Inr u \<Rightarrow> (Inr u, set_user (sk_id client) u s))"

definition connect_restore :: "time \<Rightarrow> id \<Rightarrow> AuthUser \<Rightarrow> ws_state \<Rightarrow> ws_state" where
  "connect_restore now sid u s =
     emit_to (ToSocket sid) ''connected'' None
       (JObj [(''message'', JStr ''Connected to StellarEarn WebSocket''), (''socketId'', JStr sid), (''user'', json_user u)])
       now (restoreSubscriptions sid (Some u) s)"

definition handleConnection ::
    "(time \<Rightarrow> string \<Rightarrow> JwtPayload option) \<Rightarrow> time \<Rightarrow> Socket \<Rightarrow> ws_state \<Rightarrow> ws_state" where
  "handleConnection J now client s =
     (case connect_validate J now client s of
        (Inl e, s1) \<Rightarrow> s1
      | (Inr u, s1) \<Rightarrow> connect_restore now (sk_id client) u (registerClient now (sk_id client) (Some u) s1))"

subsection \<open>Handlers\<close>

datatype ws_reply =
    Subscribed bool string | Unsubscribed bool string | ChatSent string | ChatJoined string | ChatLeft string
  | History WsChannel "WsMessage list" | Pong time | Stats ws_stats

definition handleSubscribe ::
    "(time \<Rightarrow> string \<Rightarrow> JwtPayload option) \<Rightarrow> ws_env \<Rightarrow> Socket \<Rightarrow> WsChannel \<Rightarrow> string option
     \<Rightarrow> ws_state \<Rightarrow> (ws_state, ws_reply) outcome" where
  "handleSubscribe J env client channel resourceId =
     ws_guard J (we_now env) client (\<lambda>_. rate_limited (we_now env) (sk_id client)
       (\<lambda>s. case subscribe env (sk_id client) channel resourceId s of
              ((ok, msg), s1) \<Rightarrow> (Inr (Subscribed ok msg), s1)))"

definition handleUnsubscribe ::
    "(time \<Rightarrow> string \<Rightarrow> JwtPayload option) \<Rightarrow> ws_env \<Rightarrow> Socket \<Rightarrow> WsChannel \<Rightarrow> string option
     \<Rightarrow> ws_state \<Rightarrow> (ws_state, ws_reply) outcome" where
  "handleUnsubscribe J env client channel resourceId =
     ws_guard J (we_now env) client (\<lambda>_. rate_limited (we_now env) (sk_id client)
       (\<lambda>s. case unsubscribe (sk_id client) channel resourceId s of
              ((ok, msg), s1) \<Rightarrow> (Inr (Unsubscribed ok msg), s1)))"

definition chat_room :: "string \<Rightarrow> string" where
  "chat_room roomId = ''chat:'' @ roomId"

definition json_sender :: "AuthUser \<Rightarrow> json" where
  "json_sender u = JObj [(''id'', JStr (au_id u)), (''stellarAddress'', JStr (au_stellarAddress u))]"

definition handleChatMessage ::
    "(time \<Rightarrow> string \<Rightarrow> JwtPayload option) \<Rightarrow> ws_env \<Rightarrow> Socket \<Rightarrow> string \<Rightarrow> string
     \<Rightarrow> ws_state \<Rightarrow> (ws_state, ws_reply) outcome" where
  "handleChatMessage J env client roomId message =
     ws_guard J (we_now env) client (\<lambda>u. rate_limited (we_now env) (sk_id client)
       (\<lambda>s. (Inr (ChatSent roomId),
             emit_to (ToRoom (chat_room roomId)) ''chat:message'' None
               (JObj [(''roomId'', JStr roomId), (''message'', JStr message), (''sender'', json_sender u)]) (we_now env) s)))"

definition handleChatJoin ::
    "(time \<Rightarrow> string \<Rightarrow> JwtPayload option) \<Rightarrow> ws_env \<Rightarrow> Socket \<Rightarrow> string option
     \<Rightarrow> ws_state \<Rightarrow> (ws_state, ws_reply) outcome" where
  "handleChatJoin J env client roomId =
     ws_guard J (we_now env) client
       (\<lambda>u s. if \<not> truthy roomId then (Inl (WsException ''roomId is required''), s)
              else (Inr (ChatJoined (the roomId)),
                    emit_to (ToRoom (chat_room (the roomId))) ''chat:user-joined'' None
                      (JObj [(''roomId'', JStr (the roomId)), (''user'', json_sender u)]) (we_now env)
                      (join_room (sk_id client) (chat_room (the roomId)) s)))"

definition handleChatLeave ::
    "(time \<Rightarrow> string \<Rightarrow> JwtPayload option) \<Rightarrow> ws_env \<Rightarrow> Socket \<Rightarrow> string option
     \<Rightarrow> ws_state \<Rightarrow> (ws_state, ws_reply) outcome" where
  "handleChatLeave J env client roomId =
     ws_guard J (we_now env) client
       (\<lambda>u s. if \<not> truthy roomId then (Inl (WsException ''roomId is required''), s)
              else (Inr (ChatLeft (the roomId)),
                    emit_to (ToRoom (chat_room (the roomId))) ''chat:user-left'' None
                      (JObj [(''roomId'', JStr (the roomId)), (''user'', json_sender u)]) (we_now env)
                      (leave_room (sk_id client) (chat_room (the roomId)) s)))"

definition handleFetchHistory ::
    "(time \<Rightarrow> string \<Rightarrow> JwtPayload option) \<Rightarrow> ws_env \<Rightarrow> Socket \<Rightarrow> WsChannel \<Rightarrow> time option \<Rightarrow> nat option
     \<Rightarrow> ws_state \<Rightarrow> (ws_state, ws_reply) outcome" where
  "handleFetchHistory J env client channel since limit =
     ws_guard J (we_now env) client (\<lambda>u. rate_limited (we_now env) (sk_id client)
       (\<lambda>s. (Inr (History channel (getMessageHistory channel (au_id u) since limit s)), s)))"

definition handlePing :: "time \<Rightarrow> ws_reply" where
  "handlePing now = Pong now"

definition handleStats ::
    "(time \<Rightarrow> string \<Rightarrow> JwtPayload option) \<Rightarrow> ws_env \<Rightarrow> Socket
     \<Rightarrow> ws_state \<Rightarrow> (ws_state, ws_reply) outcome" where
  "handleStats J env client =
     ws_guard J (we_now env) client
       (\<lambda>u s. if au_role u \<noteq> ADMIN then (Inl (WsException ''Forbidden: admin only''), s)
              else (Inr (Stats (getStats (we_now env) s)), s))"

subsection \<open>Pushes\<close>

text \<open>The events the handler listens to, with the properties it reads.\<close>

datatype pushed_event =
    QuestCreated id string string string
  | QuestUpdated id
  | QuestCompleted id id
  | QuestDeleted id
  | SubmissionReceived id id id
  | SubmissionApproved id id id
  | SubmissionRejected id id string
  | PayoutProcessed id string string string
  | PayoutFailed id string string
  | ReputationChanged id int int

fun push :: "ws_env \<Rightarrow> pushed_event \<Rightarrow> ws_state \<Rightarrow> ws_state" where
  "push env (QuestCreated questId title creatorAddress rewardAmount) =
     sendToChannel env QUEST_NEW ''quest:created''
       (JObj [(''questId'', JStr questId), (''title'', JStr title), (''creatorAddress'', JStr creatorAddress),
              (''rewardAmount'', JStr rewardAmount)]) None"
| "push env (QuestUpdated questId) =
     sendToChannel env QUEST_UPDATED ''quest:updated'' (JObj [(''questId'', JStr questId)]) (Some questId)"
| "push env (QuestCompleted questId userId) =
     sendToUser env userId ''quest:completed'' (JObj [(''questId'', JStr questId), (''userId'', JStr userId)])
       (Some QUEST_NEW)"
| "push env (QuestDeleted questId) =
     sendToChannel env QUEST_UPDATED ''quest:deleted'' (JObj [(''questId'', JStr questId)]) (Some questId)"
| "push env (SubmissionReceived submissionId questId userId) =
     sendToChannel env SUBMISSION_STATUS ''submission:received''
       (JObj [(''submissionId'', JStr submissionId), (''questId'', JStr questId), (''userId'', JStr userId)])
       (Some questId)"
| "push env (SubmissionApproved submissionId questId verifierId) =
     sendToChannel env SUBMISSION_STATUS ''submission:approved''
       (JObj [(''submissionId'', JStr submissionId), (''questId'', JStr questId), (''verifierId'', JStr verifierId)])
       (Some questId)"
| "push env (SubmissionRejected submissionId userId reason) =
     sendToUser env userId ''submission:rejected''
       (JObj [(''submissionId'', JStr submissionId), (''reason'', JStr reason)]) (Some SUBMISSION_STATUS)"
| "push env (PayoutProcessed payoutId stellarAddress amount transactionHash) =
     sendToUser env stellarAddress ''payout:processed''
       (JObj [(''payoutId'', JStr payoutId), (''amount'', JStr amount), (''transactionHash'', JStr transactionHash)])
       (Some PAYOUT_CONFIRMATION)"
| "push env (PayoutFailed payoutId stellarAddress reason) =
     sendToUser env stellarAddress ''payout:failed''
       (JObj [(''payoutId'', JStr payoutId), (''reason'', JStr reason)]) (Some PAYOUT_CONFIRMATION)"
| "push env (ReputationChanged userId change newReputation) =
     sendToUser env userId ''reputation:changed''
       (JObj [(''change'', JInt change), (''newReputation'', JInt newReputation)]) (Some REPUTATION_CHANGE)"

end
