(* ===== verification/WebsocketProps.thy ===== *)
theory WebsocketProps
  imports WebsocketGateway
begin

text \<open>
  The registry of connections refines the relation between sockets and users; the rooms of users are
  exactly their connections; the bounds of the rate limit; what pushes reach, and what a restored
  connection and a history show.
\<close>

subsection \<open>The registry refines a relation\<close>

text \<open>
  What the gateway relies on: two operations that add and remove a connection of the relation, and the
  two counts the administrators see.
\<close>

locale connection_registry =
  fixes conns :: "'s \<Rightarrow> ('c \<times> 'u) set" and good :: "'s \<Rightarrow> bool"
    and owner :: "'a \<Rightarrow> 'u" and add :: "'c \<Rightarrow> 'a \<Rightarrow> 's \<Rightarrow> 's" and remove :: "'c \<Rightarrow> 's \<Rightarrow> 's"
    and conn_count :: "'s \<Rightarrow> nat" and user_count :: "'s \<Rightarrow> nat"
  assumes single: "good s \<Longrightarrow> (c, u) \<in> conns s \<Longrightarrow> (c, v) \<in> conns s \<Longrightarrow> u = v"
    and add_conns: "good s \<Longrightarrow> c \<notin> Domain (conns s) \<Longrightarrow> conns (add c a s) = insert (c, owner a) (conns s)"
    and add_good: "good s \<Longrightarrow> c \<notin> Domain (conns s) \<Longrightarrow> good (add c a s)"
    and remove_conns: "good s \<Longrightarrow> conns (remove c s) = conns s - {c} \<times> UNIV"
    and remove_good: "good s \<Longrightarrow> good (remove c s)"
    and counts: "good s \<Longrightarrow> finite (conns s) \<and> conn_count s = card (conns s) \<and> user_count s = card (Range (conns s))"
begin

lemma add_remove:
  "good s \<Longrightarrow> c \<notin> Domain (conns s) \<Longrightarrow> conns (remove c (add c a s)) = conns s"
  by (auto simp: remove_conns add_good add_conns)

lemma remove_twice: "good s \<Longrightarrow> conns (remove c (remove c s)) = conns (remove c s)"
  by (auto simp: remove_conns remove_good)

lemma count_after_add: "good s \<Longrightarrow> c \<notin> Domain (conns s) \<Longrightarrow> conn_count (add c a s) = Suc (conn_count s)"
  using counts [of s] counts [of "add c a s"] by (auto simp: add_conns add_good Domain_iff)

lemma users_le_connections: "good s \<Longrightarrow> user_count s \<le> conn_count s"
  using counts [of s] card_image_le [of "conns s" snd] by (simp add: Range_snd)

end

definition connections :: "ws_state \<Rightarrow> (id \<times> id) set" where
  "connections s = {(sid, u). \<exists>c. map_of (ws_clients s) sid = Some c \<and> cc_userId c = u}"

definition sockets_of :: "ws_state \<Rightarrow> id \<Rightarrow> id set" where
  "sockets_of s u = coalesce (map_of (ws_userSockets s) u) {}"

definition wf_registry :: "ws_state \<Rightarrow> bool" where
  "wf_registry s \<longleftrightarrow> distinct (map fst (ws_clients s)) \<and> distinct (map fst (ws_userSockets s))
     \<and> (\<forall>u. sockets_of s u = {sid. (sid, u) \<in> connections s}) \<and> (\<forall>p \<in> set (ws_userSockets s). snd p \<noteq> {})"

lemma in_connections: "(sid, u) \<in> connections s \<longleftrightarrow> (\<exists>c. map_of (ws_clients s) sid = Some c \<and> cc_userId c = u)"
  by (simp add: connections_def)

lemma connections_cong: "ws_clients t = ws_clients s \<Longrightarrow> connections t = connections s"
  by (simp add: connections_def)

lemma wf_registry_cong:
  "ws_clients t = ws_clients s \<Longrightarrow> ws_userSockets t = ws_userSockets s \<Longrightarrow> wf_registry t = wf_registry s"
  by (simp add: wf_registry_def sockets_of_def connections_def)

lemma map_socket_fields [simp]:
  "ws_clients (map_socket i f s) = ws_clients s" "ws_userSockets (map_socket i f s) = ws_userSockets s"
  "ws_rateLimits (map_socket i f s) = ws_rateLimits s" "ws_subscriptions (map_socket i f s) = ws_subscriptions s"
  "ws_messages (map_socket i f s) = ws_messages s" "ws_emitted (map_socket i f s) = ws_emitted s"
  by (simp_all add: map_socket_def)

lemma join_leave_fields [simp]:
  "ws_clients (join_room i r s) = ws_clients s" "ws_userSockets (join_room i r s) = ws_userSockets s"
  "ws_clients (leave_room i r s) = ws_clients s" "ws_userSockets (leave_room i r s) = ws_userSockets s"
  "ws_subscriptions (join_room i r s) = ws_subscriptions s" "ws_subscriptions (leave_room i r s) = ws_subscriptions s"
  by (simp_all add: join_room_def leave_room_def)

lemma register_connections:
  "connections (registerClient now sid (Some u) s) = insert (sid, au_id u) (connections s - {sid} \<times> UNIV)"
  by (auto simp: registerClient_def connections_def update_conv' split: if_splits)

lemma register_sockets_of:
  "sockets_of (registerClient now sid (Some u) s) v
     = (if v = au_id u then insert sid (sockets_of s v) else sockets_of s v)"
  by (simp add: registerClient_def sockets_of_def update_conv')

lemma set_update_subset: "p \<in> set (AList.update k v al) \<Longrightarrow> p = (k, v) \<or> p \<in> set al"
  by (induction al) (auto split: if_splits)

lemma register_good:
  assumes "wf_registry s" and "sid \<notin> Domain (connections s)"
  shows "wf_registry (registerClient now sid (Some u) s)"
proof -
  let ?t = "registerClient now sid (Some u) s"
  have "distinct (map fst (ws_clients ?t))" "distinct (map fst (ws_userSockets ?t))"
    using assms(1) by (simp_all add: registerClient_def wf_registry_def distinct_update)
  moreover have "\<forall>v. sockets_of ?t v = {i. (i, v) \<in> connections ?t}"
    using assms by (auto simp: register_sockets_of register_connections wf_registry_def Domain_iff)
  moreover have "\<forall>p \<in> set (ws_userSockets ?t). snd p \<noteq> {}"
    using assms(1) by (auto simp: registerClient_def wf_registry_def dest!: set_update_subset)
  ultimately show ?thesis by (simp add: wf_registry_def)
qed

lemma remove_connections: "connections (removeClient sid s) = connections s - {sid} \<times> UNIV"
  by (auto simp: removeClient_def connections_def delete_conv' split: option.splits if_splits)

lemma remove_sockets_of:
  "wf_registry s \<Longrightarrow> sockets_of (removeClient sid s) v = sockets_of s v - {sid}"
proof (cases "map_of (ws_clients s) sid")
  case None
  assume "wf_registry s"
  with None show ?thesis by (auto simp: removeClient_def wf_registry_def in_connections)
next
  case (Some c)
  assume wf: "wf_registry s"
  have "sockets_of s v = {i. (i, v) \<in> connections s}" using wf by (simp add: wf_registry_def)
  then have "sid \<notin> sockets_of s v" if "v \<noteq> cc_userId c"
    using Some that by (simp add: in_connections)
  moreover have "sockets_of s (cc_userId c) = {i. (i, cc_userId c) \<in> connections s}"
    using wf by (simp add: wf_registry_def)
  with Some have "sid \<in> sockets_of s (cc_userId c)" by (simp add: in_connections)
  then obtain S where "map_of (ws_userSockets s) (cc_userId c) = Some S" by (auto simp: sockets_of_def coalesce_def split: option.splits)
  ultimately show ?thesis using Some
    by (auto simp: removeClient_def sockets_of_def update_conv' delete_conv')
qed

lemma remove_good:
  assumes "wf_registry s"
  shows "wf_registry (removeClient sid s)"
proof -
  let ?t = "removeClient sid s"
  have "distinct (map fst (ws_clients ?t))" "distinct (map fst (ws_userSockets ?t))"
    using assms by (auto simp: removeClient_def wf_registry_def distinct_update distinct_delete split: option.split)
  moreover have "\<forall>v. sockets_of ?t v = {i. (i, v) \<in> connections ?t}"
    using assms by (auto simp: remove_sockets_of remove_connections wf_registry_def)
  moreover have "\<forall>p \<in> set (ws_userSockets ?t). snd p \<noteq> {}"
    using assms by (auto simp: removeClient_def wf_registry_def AList.delete_eq dest!: set_update_subset split: option.splits if_splits)
  ultimately show ?thesis by (simp add: wf_registry_def)
qed

lemma registry_counts:
  assumes "wf_registry s"
  shows "finite (connections s)" "getConnectionCount s = card (connections s)"
    "getConnectedUserCount s = card (Range (connections s))"
proof -
  have d: "distinct (map fst (ws_clients s))" "distinct (map fst (ws_userSockets s))"
    using assms by (simp_all add: wf_registry_def)
  have eq: "connections s = (\<lambda>p. (fst p, cc_userId (snd p))) ` set (ws_clients s)"
    using d(1) by (force simp: connections_def)
  then show "finite (connections s)" by simp
  have "inj_on (\<lambda>p. (fst p, cc_userId (snd p))) (set (ws_clients s))"
    using d(1) by (auto simp: inj_on_def distinct_map)
  then show "getConnectionCount s = card (connections s)"
    using distinct_card [of "ws_clients s"] d(1) by (simp add: getConnectionCount_def eq card_image distinct_map)
  have "u \<in> Range (connections s) \<longleftrightarrow> u \<in> fst ` set (ws_userSockets s)" for u
  proof -
    have "u \<in> Range (connections s) \<longleftrightarrow> sockets_of s u \<noteq> {}" using assms by (auto simp: wf_registry_def)
    also have "\<dots> \<longleftrightarrow> u \<in> fst ` set (ws_userSockets s)"
    proof (cases "map_of (ws_userSockets s) u")
      case None
      then have "sockets_of s u = {}" by (simp add: sockets_of_def)
      moreover have "u \<notin> fst ` set (ws_userSockets s)" using None by (simp add: map_of_eq_None_iff)
      ultimately show ?thesis by simp
    next
      case (Some S)
      then have "(u, S) \<in> set (ws_userSockets s)" by (rule map_of_SomeD)
      with assms Some show ?thesis by (force simp: sockets_of_def wf_registry_def)
    qed
    finally show ?thesis .
  qed
  then have "Range (connections s) = fst ` set (ws_userSockets s)" by blast
  then show "getConnectedUserCount s = card (Range (connections s))"
    using distinct_card [OF d(2)] by (simp add: getConnectedUserCount_def)
qed

lemma connections_single: "(c, u) \<in> connections s \<Longrightarrow> (c, v) \<in> connections s \<Longrightarrow> u = v"
  by (auto simp: connections_def)

interpretation registry: connection_registry connections wf_registry au_id "\<lambda>c a. registerClient now c (Some a)"
    removeClient getConnectionCount getConnectedUserCount for now
  by unfold_locales
    (auto simp: register_connections register_good remove_connections remove_good registry_counts dest: connections_single)

text \<open>
  Claim C13.  The two maps of the service implement one relation between sockets and users: registering
  a new socket adds a pair, a disconnect removes exactly the pairs of its socket, and the two counts the
  service reports are the number of pairs and the number of different users in them.
\<close>
theorem registry_refines:
  assumes "wf_registry s" and "sid \<notin> Domain (connections s)"
  shows "connections (registerClient now sid (Some u) s) = insert (sid, au_id u) (connections s)
    \<and> wf_registry (registerClient now sid (Some u) s)
    \<and> connections (removeClient i s) = connections s - {i} \<times> UNIV \<and> wf_registry (removeClient i s)
    \<and> getConnectionCount s = card (connections s) \<and> getConnectedUserCount s = card (Range (connections s))"
  using registry.add_conns [OF assms] registry.add_good [OF assms] registry.remove_conns [OF assms(1)]
    registry.remove_good [OF assms(1)] registry.counts [OF assms(1)] by blast

definition no_ws :: ws_state where
  "no_ws = \<lparr> ws_clients = [], ws_userSockets = [], ws_rateLimits = [], ws_subscriptions = [], ws_messages = [],
     ws_sockets = [], ws_emitted = [] \<rparr>"

lemma no_ws_good: "wf_registry no_ws" "connections no_ws = {}"
  by (simp_all add: wf_registry_def no_ws_def sockets_of_def connections_def)

definition user_of :: "id \<Rightarrow> AuthUser" where
  "user_of a = \<lparr> au_id = a, au_stellarAddress = a, au_role = USER \<rparr>"

theorem registry_refines_witness:
  "getConnectionCount (registerClient 1 ''s2'' (Some (user_of ''GA'')) (registerClient 0 ''s1'' (Some (user_of ''GA'')) no_ws)) = 2
   \<and> getConnectedUserCount (registerClient 1 ''s2'' (Some (user_of ''GA'')) (registerClient 0 ''s1'' (Some (user_of ''GA'')) no_ws)) = 1"
proof -
  let ?s1 = "registerClient 0 ''s1'' (Some (user_of ''GA'')) no_ws"
  let ?s2 = "registerClient 1 ''s2'' (Some (user_of ''GA'')) ?s1"
  have 1: "connections ?s1 = {(''s1'', ''GA'')}" "wf_registry ?s1"
    using registry_refines [OF no_ws_good(1), of "''s1''" 0 "user_of ''GA''"] by (simp_all add: no_ws_good user_of_def)
  then have 2: "connections ?s2 = {(''s2'', ''GA''), (''s1'', ''GA'')}" "wf_registry ?s2"
    using registry_refines [OF 1(2), of "''s2''" 1 "user_of ''GA''"] by (simp_all add: user_of_def)
  show ?thesis using registry_counts [OF 2(2)] by (simp add: 2(1))
qed

subsection \<open>The rooms of users\<close>

lemma user_room_inj [simp]: "user_room u = user_room v \<longleftrightarrow> u = v"
  by (simp add: user_room_def)

definition resource_room :: "string \<Rightarrow> bool" where
  "resource_room r \<longleftrightarrow> r \<noteq> [] \<and> hd r \<noteq> CHR ''u''"

lemma resource_rooms [simp]: "resource_room (buildRoomName ch r)" "resource_room (chat_room x)" "\<not> resource_room (user_room u)"
proof -
  show "resource_room (buildRoomName ch r)" by (cases ch) (simp_all add: buildRoomName_def resource_room_def)
qed (simp_all add: chat_room_def user_room_def resource_room_def)

lemma user_room_ne: "resource_room r \<Longrightarrow> user_room u \<noteq> r"
  by auto

definition identities :: "ws_state \<Rightarrow> (id \<times> string) set" where
  "identities s = (\<lambda>p. (cc_userId (snd p), cc_stellarAddress (snd p))) ` set (ws_clients s)"

lemma identities_cong: "ws_clients t = ws_clients s \<Longrightarrow> identities t = identities s"
  by (simp add: identities_def)

lemma set_map_entry:
  "(\<And>c. g (k, f c) = g (k, c)) \<Longrightarrow> g ` set (AList.map_entry k f al) = g ` set al"
  by (induction al) auto

text \<open>An operation that leaves the connections and the rooms of users as they are.\<close>

definition kept_ws :: "ws_state \<Rightarrow> ws_state \<Rightarrow> bool" where
  "kept_ws s t \<longleftrightarrow> connections t = connections s \<and> identities t = identities s \<and> (wf_registry s \<longrightarrow> wf_registry t)
     \<and> (\<forall>k' \<in> set (ws_sockets t). \<exists>k \<in> set (ws_sockets s). sk_id k' = sk_id k
           \<and> (\<forall>u. user_room u \<in> sk_rooms k' \<longleftrightarrow> user_room u \<in> sk_rooms k))"

lemma kept_refl: "kept_ws s s"
  by (auto simp: kept_ws_def)

lemma kept_trans: "kept_ws s t \<Longrightarrow> kept_ws t u \<Longrightarrow> kept_ws s u"
  unfolding kept_ws_def by metis

lemma kept_same:
  "ws_clients t = ws_clients s \<Longrightarrow> ws_userSockets t = ws_userSockets s \<Longrightarrow> ws_sockets t = ws_sockets s \<Longrightarrow> kept_ws s t"
  unfolding kept_ws_def using connections_cong [of t s] identities_cong [of t s] wf_registry_cong [of t s] by auto

lemma kept_map_socket:
  assumes "\<And>k. sk_id (f k) = sk_id k" and "\<And>k u. user_room u \<in> sk_rooms (f k) \<longleftrightarrow> user_room u \<in> sk_rooms k"
  shows "kept_ws s (map_socket i f s)"
proof -
  have "\<exists>k \<in> set (ws_sockets s). sk_id k' = sk_id k \<and> (\<forall>u. user_room u \<in> sk_rooms k' \<longleftrightarrow> user_room u \<in> sk_rooms k)"
    if "k' \<in> set (ws_sockets (map_socket i f s))" for k'
  proof -
    from that have "k' \<in> (\<lambda>k. if sk_id k = i then f k else k) ` set (ws_sockets s)"
      by (simp add: map_socket_def update_where_def)
    then obtain k where "k \<in> set (ws_sockets s)" "k' = (if sk_id k = i then f k else k)" by (rule imageE)
    with assms show ?thesis by (intro bexI [of _ k]) auto
  qed
  then show ?thesis
    using connections_cong [of "map_socket i f s" s] identities_cong [of "map_socket i f s" s] wf_registry_cong [of "map_socket i f s" s]
    by (simp add: kept_ws_def)
qed

lemma kept_join: "resource_room r \<Longrightarrow> kept_ws s (join_room i r s)"
  unfolding join_room_def by (rule kept_map_socket) (auto dest: user_room_ne)

lemma kept_leave: "resource_room r \<Longrightarrow> kept_ws s (leave_room i r s)"
  unfolding leave_room_def by (rule kept_map_socket) (auto dest: user_room_ne)

lemma kept_set_user: "kept_ws s (set_user i u s)"
  unfolding set_user_def by (rule kept_map_socket) auto

lemma kept_set_channels: "kept_ws s (set_channels i f s)"
proof -
  have "connections (set_channels i f s) = connections s"
    by (auto simp: connections_def set_channels_def map_of_map_entry split: option.splits if_splits)
  moreover have "identities (set_channels i f s) = identities s"
    unfolding identities_def set_channels_def by (simp add: set_map_entry)
  ultimately show ?thesis
    by (auto simp: kept_ws_def wf_registry_def sockets_of_def) (auto simp: set_channels_def distinct_map_entry)
qed

lemma kept_emit: "kept_ws s (emit_to tg e ch p now s)"
  by (rule kept_same) (simp_all add: emit_to_def)

lemma kept_persist: "kept_ws s (persistMessage env c e p u b s)"
  by (rule kept_same) (simp_all add: persistMessage_def)

lemma kept_rate: "kept_ws s (snd (checkRateLimit now i s))"
  by (rule kept_same) (auto simp: checkRateLimit_def Let_def split: option.split)

lemma kept_table: "kept_ws s t \<Longrightarrow> kept_ws s (t\<lparr>ws_subscriptions := b\<rparr>)"
  by (erule kept_trans) (rule kept_same; simp)

lemma kept_fold: "(\<And>x t. kept_ws t (f x t)) \<Longrightarrow> kept_ws s (fold f xs s)"
  by (induction xs arbitrary: s) (auto intro: kept_refl kept_trans)

lemmas kept_intros = kept_refl kept_join kept_leave kept_set_user kept_set_channels kept_emit kept_persist kept_rate
  kept_table

lemma kept_subscribe: "kept_ws s (snd (subscribe env i ch r s))"
proof -
  have "kept_ws s (set_channels i (insert (buildRoomName ch r)) (join_room i (buildRoomName ch r) s))"
    by (rule kept_trans [OF kept_join kept_set_channels]) simp
  then show ?thesis by (auto simp: subscribe_def Let_def intro: kept_refl kept_table split: option.split)
qed

lemma kept_unsubscribe: "kept_ws s (snd (unsubscribe i ch r s))"
proof -
  have "kept_ws s (set_channels i (\<lambda>C. C - {buildRoomName ch r}) (leave_room i (buildRoomName ch r) s))"
    by (rule kept_trans [OF kept_leave kept_set_channels]) simp
  then show ?thesis by (auto simp: unsubscribe_def Let_def intro: kept_refl kept_table split: option.split)
qed

lemma kept_restore: "kept_ws s (restoreSubscriptions i u s)"
  by (auto simp: restoreSubscriptions_def restore_one_def Let_def
      intro!: kept_fold kept_trans [OF kept_join kept_set_channels] kept_refl split: option.split)

text \<open>Steps of the gateway.  Socket ids are new when a socket connects.\<close>

inductive ws_step :: "(time \<Rightarrow> string \<Rightarrow> JwtPayload option) \<Rightarrow> ws_state \<Rightarrow> ws_state \<Rightarrow> bool" for J where
  accept: "sid \<notin> Domain (connections s) \<Longrightarrow> ws_step J s (accept_socket sid tok auth s)"
| validate: "ws_step J s (state_of (connect_validate J now client s))"
| register: "validateClient (J now) (sk_authToken (client :: Socket)) (sk_authorization client) = Inr u
     \<Longrightarrow> sk_id client \<notin> Domain (connections s) \<Longrightarrow> ws_step J s (registerClient now' (sk_id client) (Some u) s)"
| restore: "ws_step J s (connect_restore now sid u s)"
| disconnect: "ws_step J s (drop_socket sid s)"
| subscribe: "ws_step J s (state_of (handleSubscribe J env client ch r s))"
| unsubscribe: "ws_step J s (state_of (handleUnsubscribe J env client ch r s))"
| chat: "ws_step J s (state_of (handleChatMessage J env client room msg s))"
| join: "ws_step J s (state_of (handleChatJoin J env client room' s))"
| leave: "ws_step J s (state_of (handleChatLeave J env client room' s))"
| history: "ws_step J s (state_of (handleFetchHistory J env client ch since n s))"
| stats: "ws_step J s (state_of (handleStats J env client s))"
| event: "ws_step J s (push env e s)"
| all: "ws_step J s (broadcast env ev p s)"
| role: "ws_step J s (broadcastToRole now r ev p s)"

inductive ws_reachable :: "(time \<Rightarrow> string \<Rightarrow> JwtPayload option) \<Rightarrow> ws_state \<Rightarrow> bool" for J where
  start: "ws_reachable J no_ws"
| step: "ws_reachable J s \<Longrightarrow> ws_step J s t \<Longrightarrow> ws_reachable J t"

lemma kept_guard:
  "(\<And>u t. kept_ws t (state_of (h u t))) \<Longrightarrow> kept_ws s (state_of (ws_guard J now client h s))"
  by (auto simp: ws_guard_def intro: kept_refl kept_trans [OF kept_set_user] split: sum.split)

lemma kept_limited:
  "(\<And>t. kept_ws t (state_of (b t))) \<Longrightarrow> kept_ws s (state_of (rate_limited now i b s))"
  using kept_rate [of s now i] by (auto simp: rate_limited_def intro: kept_trans split: prod.split)

lemma kept_push: "kept_ws s (push env e s)"
  by (cases e) (auto simp: sendToChannel_def sendToUser_def intro: kept_trans [OF kept_persist kept_emit])

lemma kept_handlers:
  "kept_ws s (state_of (handleSubscribe J env client ch r s))"
  "kept_ws s (state_of (handleUnsubscribe J env client ch r s))"
  "kept_ws s (state_of (handleChatMessage J env client room msg s))"
  "kept_ws s (state_of (handleChatJoin J env client room' s))"
  "kept_ws s (state_of (handleChatLeave J env client room' s))"
  "kept_ws s (state_of (handleFetchHistory J env client ch since n s))"
  "kept_ws s (state_of (handleStats J env client s))"
proof -
  have sub: "kept_ws t (state_of (case subscribe env i ch r t of ((ok, msg), s1) \<Rightarrow> (Inr (Subscribed ok msg), s1)))" for t i
    using kept_subscribe [of t env i ch r] by (auto split: prod.splits)
  have uns: "kept_ws t (state_of (case unsubscribe i ch r t of ((ok, msg), s1) \<Rightarrow> (Inr (Unsubscribed ok msg), s1)))" for t i
    using kept_unsubscribe [of t i ch r] by (auto split: prod.splits)
  show "kept_ws s (state_of (handleSubscribe J env client ch r s))"
    unfolding handleSubscribe_def by (intro kept_guard kept_limited sub)
  show "kept_ws s (state_of (handleUnsubscribe J env client ch r s))"
    unfolding handleUnsubscribe_def by (intro kept_guard kept_limited uns)
  show "kept_ws s (state_of (handleChatMessage J env client room msg s))"
    unfolding handleChatMessage_def by (intro kept_guard kept_limited) (simp add: kept_emit)
  show "kept_ws s (state_of (handleChatJoin J env client room' s))"
    unfolding handleChatJoin_def by (intro kept_guard) (simp add: kept_refl kept_trans [OF kept_join kept_emit])
  show "kept_ws s (state_of (handleChatLeave J env client room' s))"
    unfolding handleChatLeave_def by (intro kept_guard) (simp add: kept_refl kept_trans [OF kept_leave kept_emit])
  show "kept_ws s (state_of (handleFetchHistory J env client ch since n s))"
    unfolding handleFetchHistory_def by (intro kept_guard kept_limited) (simp add: kept_refl)
  show "kept_ws s (state_of (handleStats J env client s))"
    unfolding handleStats_def by (intro kept_guard) (simp add: kept_refl)
qed

lemma kept_sends:
  "kept_ws s (push env e s)" "kept_ws s (broadcast env ev p s)" "kept_ws s (broadcastToRole now rl ev p s)"
  by (auto simp: kept_push broadcast_def broadcastToRole_def intro: kept_trans [OF kept_persist kept_emit] kept_fold kept_emit)

text \<open>The rooms of users are the relation the registry implements.\<close>

definition rooms_exact :: "ws_state \<Rightarrow> bool" where
  "rooms_exact s \<longleftrightarrow> wf_registry s
     \<and> (\<forall>k \<in> set (ws_sockets s). \<forall>u. user_room u \<in> sk_rooms k \<longleftrightarrow> (sk_id k, u) \<in> connections s)"

lemma rooms_kept: "kept_ws s t \<Longrightarrow> rooms_exact s \<Longrightarrow> rooms_exact t"
  unfolding kept_ws_def rooms_exact_def by metis

lemma rooms_drop: "rooms_exact s \<Longrightarrow> rooms_exact (drop_socket sid s)"
proof -
  assume r: "rooms_exact s"
  let ?t = "s\<lparr>ws_sockets := remove_row sk_id sid (ws_sockets s)\<rparr>"
  have "connections ?t = connections s" by (simp add: connections_def)
  moreover have "wf_registry ?t" using r wf_registry_cong [of ?t s] by (simp add: rooms_exact_def)
  moreover have "ws_sockets (removeClient sid ?t) = ws_sockets ?t" by (simp add: removeClient_def split: option.split)
  ultimately show ?thesis
    using r by (simp add: rooms_exact_def drop_socket_def handleDisconnect_def remove_connections remove_good)
      (simp add: remove_row_def)
qed

lemma rooms_register:
  assumes "rooms_exact s" and "sid \<notin> Domain (connections s)"
  shows "rooms_exact (registerClient now sid (Some u) s)"
proof -
  have "user_room v \<in> sk_rooms k' \<longleftrightarrow> (sk_id k', v) \<in> connections (registerClient now sid (Some u) s)"
    if "k' \<in> set (ws_sockets (registerClient now sid (Some u) s))" for k' v
  proof -
    from that have "k' \<in> (\<lambda>k. if sk_id k = sid then k\<lparr>sk_rooms := insert (user_room (au_id u)) (sk_rooms k)\<rparr> else k) ` set (ws_sockets s)"
      by (simp add: registerClient_def join_room_def map_socket_def update_where_def)
    then obtain k where k: "k \<in> set (ws_sockets s)"
      "k' = (if sk_id k = sid then k\<lparr>sk_rooms := insert (user_room (au_id u)) (sk_rooms k)\<rparr> else k)" by (rule imageE)
    have old: "user_room v \<in> sk_rooms k \<longleftrightarrow> (sk_id k, v) \<in> connections s" using assms(1) k(1) by (simp add: rooms_exact_def)
    show ?thesis
    proof (cases "sk_id k = sid")
      case True
      with assms(2) have "(sk_id k, v) \<notin> connections s" by blast
      with old True k(2) show ?thesis by (auto simp: register_connections)
    qed (use old k(2) in \<open>auto simp: register_connections\<close>)
  qed
  then show ?thesis using assms register_good [of s sid] by (simp add: rooms_exact_def)
qed

lemma rooms_reachable: "ws_reachable J s \<Longrightarrow> rooms_exact s"
proof (induction rule: ws_reachable.induct)
  case start
  then show ?case using no_ws_good by (simp add: rooms_exact_def no_ws_def)
next
  case (step s t)
  from step(2,3) show ?case
  proof (cases rule: ws_step.cases)
    case (accept sid tok auth)
    have "connections t = connections s" unfolding accept by (simp add: connections_def accept_socket_def)
    with step.IH accept wf_registry_cong [of t s] show ?thesis by (auto simp: rooms_exact_def accept_socket_def)
  next
    case (validate now client)
    have "rooms_exact (drop_socket i (emit_to tg e ch p now s))" for i tg e ch p
      by (rule rooms_drop [OF rooms_kept [OF kept_emit step.IH]])
    moreover have "rooms_exact (set_user i u s)" for i u by (rule rooms_kept [OF kept_set_user step.IH])
    ultimately show ?thesis using validate by (simp add: connect_validate_def split: sum.split)
  next
    case (register now client u now')
    with rooms_register step.IH show ?thesis by simp
  next
    case (restore now sid u)
    show ?thesis unfolding restore connect_restore_def
      by (rule rooms_kept [OF kept_trans [OF kept_restore kept_emit] step.IH])
  next
    case (disconnect sid)
    with rooms_drop step.IH show ?thesis by simp
  qed (simp_all add: rooms_kept [OF _ step.IH] kept_handlers kept_sends)
qed

text \<open>
  Claim C14.  Private pushes, in every reachable state: a message sent to a user reaches exactly the
  connected sockets that are registered for this user - all of the user's own sockets and, whatever rooms
  clients join and leave, nobody else's.
\<close>
theorem push_reaches_exactly:
  assumes "ws_reachable J s"
  shows "em_reached (last (ws_emitted (sendToUser env u ev p ch s)))
     = map sk_id (filter (\<lambda>k. (sk_id k, u) \<in> connections s) (ws_sockets s))"
proof -
  have "filter (reaches (ToRoom (user_room u))) (ws_sockets s) = filter (\<lambda>k. (sk_id k, u) \<in> connections s) (ws_sockets s)"
    using rooms_reachable [OF assms] by (intro filter_cong) (simp_all add: rooms_exact_def)
  then show ?thesis by (simp add: sendToUser_def emit_to_def persistMessage_def split: option.split)
qed

text \<open>Two sockets, of two users, both in the chat room named like the first user's room.\<close>

definition all_tokens :: "time \<Rightarrow> string \<Rightarrow> JwtPayload option" where
  "all_tokens now tok = Some \<lparr> jp_sub = tok, jp_stellarAddress = tok, jp_role = USER \<rparr>"

definition bare_socket :: "id \<Rightarrow> string \<Rightarrow> Socket" where
  "bare_socket i tok = \<lparr> sk_id = i, sk_authToken = Some tok, sk_authorization = None, sk_user = None, sk_rooms = {} \<rparr>"

lemma bare_validates: "tok \<noteq> [] \<Longrightarrow> \<not> starts_with tok ''Bearer '' \<Longrightarrow>
    validateClient (all_tokens now) (sk_authToken (bare_socket i tok)) (sk_authorization (bare_socket i tok)) = Inr (user_of tok)"
  by (simp add: validateClient_def ws_extractToken_def strip_bearer_def bare_socket_def all_tokens_def user_of_def)

definition two_sockets :: ws_state where
  "two_sockets = registerClient 2 ''s2'' (Some (user_of ''GB'')) (accept_socket ''s2'' (Some ''GB'') None
     (registerClient 1 ''s1'' (Some (user_of ''GA'')) (accept_socket ''s1'' (Some ''GA'') None no_ws)))"

lemma connections_accept: "connections (accept_socket i t a s) = connections s"
  by (simp add: connections_def accept_socket_def)

lemma two_sockets_connections: "connections two_sockets = {(''s1'', ''GA''), (''s2'', ''GB'')}"
  by (auto simp: two_sockets_def register_connections connections_accept no_ws_good user_of_def)

lemma two_sockets_sockets: "map sk_id (ws_sockets two_sockets) = [''s1'', ''s2'']"
  by (simp add: two_sockets_def registerClient_def accept_socket_def join_room_def map_socket_def update_where_def no_ws_def
      user_of_def)

lemma connect_reachable:
  assumes "ws_reachable all_tokens s" and "i \<notin> Domain (connections s)" and "tok \<noteq> []"
    and "\<not> starts_with tok ''Bearer ''"
  shows "ws_reachable all_tokens (registerClient n i (Some (user_of tok)) (accept_socket i (Some tok) None s))"
proof -
  have "ws_reachable all_tokens (accept_socket i (Some tok) None s)"
    by (rule ws_reachable.step [OF assms(1) ws_step.accept [OF assms(2)]])
  moreover have "ws_step all_tokens (accept_socket i (Some tok) None s)
      (registerClient n (sk_id (bare_socket i tok)) (Some (user_of tok)) (accept_socket i (Some tok) None s))"
    by (rule ws_step.register [OF bare_validates [OF assms(3,4)]])
      (use assms(2) in \<open>simp add: connections_accept bare_socket_def\<close>)
  ultimately show ?thesis by (simp add: ws_reachable.step bare_socket_def)
qed

lemma two_sockets_reachable: "ws_reachable all_tokens two_sockets"
  unfolding two_sockets_def
  by (intro connect_reachable ws_reachable.start)
    (auto simp: register_connections connections_accept no_ws_good starts_with_def)

theorem push_reaches_exactly_witness:
  "em_reached (last (ws_emitted (sendToUser \<lparr> we_now = 3, we_newId = ''m'', we_stored = True \<rparr> ''GB'' ''e'' JNull None two_sockets)))
     = [''s2'']"
proof -
  have "map sk_id (filter (\<lambda>k. (sk_id k, ''GB'') \<in> connections two_sockets) (ws_sockets two_sockets))
      = filter (\<lambda>i. (i, ''GB'') \<in> connections two_sockets) (map sk_id (ws_sockets two_sockets))"
    by (simp add: filter_map comp_def)
  also have "\<dots> = [''s2'']" by (simp add: two_sockets_connections two_sockets_sockets)
  finally show ?thesis using push_reaches_exactly [OF two_sockets_reachable] by simp
qed

text \<open>Tokens of the login carry the address as subject, so a connection's user is an address.\<close>

lemma validated_payload:
  "validateClient J t a = Inr u \<Longrightarrow> \<exists>tok p. J tok = Some p \<and> au_id u = jp_sub p \<and> au_stellarAddress u = jp_stellarAddress p"
  by (auto simp: validateClient_def Let_def split: if_splits option.splits) blast

lemma identities_remove: "identities (removeClient i s) \<subseteq> identities s"
  by (auto simp: identities_def removeClient_def AList.delete_eq split: option.split)

lemma users_are_addresses:
  assumes "\<forall>now tok p. J now tok = Some p \<longrightarrow> jp_sub p = jp_stellarAddress p" and "ws_reachable J s"
  shows "\<forall>x \<in> identities s. fst x = snd x"
  using assms(2)
proof (induction rule: ws_reachable.induct)
  case start
  then show ?case by (simp add: identities_def no_ws_def)
next
  case (step s t)
  have same: ?case if "identities t \<subseteq> identities s" using step.IH that by blast
  have kept: ?case if "kept_ws s t" using same that by (simp add: kept_ws_def)
  from step(2,3) show ?case
  proof (cases rule: ws_step.cases)
    case (accept sid tok auth)
    show ?thesis by (rule same) (simp add: accept identities_def accept_socket_def)
  next
    case (validate now client)
    show ?thesis
    proof (cases "validateClient (J now) (sk_authToken client) (sk_authorization client)")
      case (Inl e)
      have "identities (drop_socket i (emit_to tg ev ch p now s)) \<subseteq> identities s" for i tg ev ch p
        unfolding drop_socket_def handleDisconnect_def
        by (rule order_trans [OF identities_remove]) (simp add: identities_def emit_to_def)
      with Inl show ?thesis by (intro same) (simp add: validate connect_validate_def)
    next
      case (Inr u)
      then show ?thesis by (intro kept) (simp add: validate connect_validate_def kept_set_user)
    qed
  next
    case (register now client u now')
    then have "au_id u = au_stellarAddress u" using assms(1) validated_payload by metis
    then show ?thesis using step.IH register
      by (auto simp: identities_def registerClient_def dest!: set_update_subset)
  next
    case (restore now sid u)
    show ?thesis unfolding restore connect_restore_def
      by (rule kept [unfolded restore connect_restore_def, OF kept_trans [OF kept_restore kept_emit]])
  next
    case (disconnect sid)
    have "identities (drop_socket sid s) \<subseteq> identities s"
      unfolding drop_socket_def handleDisconnect_def
      by (rule order_trans [OF identities_remove]) (simp add: identities_def)
    with disconnect same show ?thesis by simp
  qed (simp_all add: kept kept_handlers kept_sends)
qed

text \<open>
  Sockets are registered under the address their token names, but the submission, quest and
  reputation events name the user by the key of the database row: with tokens as the login makes them, a
  push to a key that is no address of a connected client reaches no socket at all.
\<close>
theorem user_key_push_lost:
  assumes "\<forall>now tok p. J now tok = Some p \<longrightarrow> jp_sub p = jp_stellarAddress p" and "ws_reachable J s"
    and "userId \<notin> snd ` identities s"
    and "e \<in> {SubmissionRejected sid userId reason, QuestCompleted qid userId, ReputationChanged userId c r}"
  shows "em_reached (last (ws_emitted (push env e s))) = []"
proof -
  have "(i, userId) \<notin> connections s" for i
  proof
    assume "(i, userId) \<in> connections s"
    then obtain c where "map_of (ws_clients s) i = Some c" "cc_userId c = userId" by (auto simp: connections_def)
    then have "(userId, cc_stellarAddress c) \<in> identities s" by (force simp: identities_def dest: map_of_SomeD)
    with users_are_addresses [OF assms(1,2)] assms(3) show False by force
  qed
  then have "em_reached (last (ws_emitted (sendToUser env userId ev p ch s))) = []" for ev p ch
    using rooms_reachable [OF assms(2)]
    by (auto simp: sendToUser_def emit_to_def persistMessage_def rooms_exact_def filter_empty_conv split: option.split)
  with assms(4) show ?thesis by auto
qed

theorem user_key_push_lost_witness:
  "em_reached (last (ws_emitted (push \<lparr> we_now = 3, we_newId = ''m'', we_stored = True \<rparr>
      (SubmissionRejected ''sub'' ''uuid'' ''no'') two_sockets))) = []"
proof (rule user_key_push_lost [OF _ two_sockets_reachable])
  show "\<forall>now tok p. all_tokens now tok = Some p \<longrightarrow> jp_sub p = jp_stellarAddress p" by (simp add: all_tokens_def)
  show "''uuid'' \<notin> snd ` identities two_sockets"
    by (simp add: identities_def two_sockets_def registerClient_def accept_socket_def join_room_def map_socket_def no_ws_def
        user_of_def)
qed simp

subsection \<open>The rate limit\<close>

text \<open>How many of the calls at the times \<open>ts\<close> of one socket pass between \<open>a\<close> and \<open>b\<close>.\<close>

fun accepted :: "id \<Rightarrow> time \<Rightarrow> time \<Rightarrow> time list \<Rightarrow> ws_state \<Rightarrow> nat" where
  "accepted i a b [] s = 0"
| "accepted i a b (t # ts) s =
     (if fst (checkRateLimit t i s) \<and> a \<le> t \<and> t \<le> b then 1 else 0) + accepted i a b ts (snd (checkRateLimit t i s))"

definition rate_entry :: "id \<Rightarrow> ws_state \<Rightarrow> RateLimitEntry option" where
  "rate_entry i s = map_of (ws_rateLimits s) i"

lemma check_fresh:
  assumes "rate_entry i s = None \<or> (\<exists>e. rate_entry i s = Some e \<and> t - rl_windowStart e > RATE_LIMIT_WINDOW_MS)"
  shows "fst (checkRateLimit t i s)" "rate_entry i (snd (checkRateLimit t i s)) = Some \<lparr> rl_count = 1, rl_windowStart = t \<rparr>"
  using assms by (auto simp: checkRateLimit_def rate_entry_def update_conv' Let_def)

lemma check_counted:
  assumes "rate_entry i s = Some e" and "\<not> t - rl_windowStart e > RATE_LIMIT_WINDOW_MS"
  shows "fst (checkRateLimit t i s) \<longleftrightarrow> Suc (rl_count e) \<le> 60"
    "rate_entry i (snd (checkRateLimit t i s)) = Some (e\<lparr>rl_count := Suc (rl_count e)\<rparr>)"
  using assms by (auto simp: checkRateLimit_def rate_entry_def update_conv' Let_def RATE_LIMIT_MAX_MESSAGES_def)

lemma accepted_late: "\<forall>t \<in> set ts. b < t \<Longrightarrow> accepted i a b ts s = 0"
  by (induction ts arbitrary: s) auto

text \<open>What is left of the current window.\<close>

lemma accepted_in_window:
  assumes "sorted ts" and "rate_entry i s = Some e" and "b \<le> rl_windowStart e + 60000"
  shows "accepted i a b ts s \<le> 60 - rl_count e"
  using assms
proof (induction ts arbitrary: s e)
  case (Cons t ts)
  show ?case
  proof (cases "t \<le> b")
    case False
    with Cons.prems(1) have "accepted i a b (t # ts) s = 0" by (intro accepted_late) auto
    then show ?thesis by simp
  next
    case True
    then have w: "\<not> t - rl_windowStart e > RATE_LIMIT_WINDOW_MS" using Cons.prems(3) by (simp add: RATE_LIMIT_WINDOW_MS_def)
    note c = check_counted [OF Cons.prems(2) w]
    have "accepted i a b ts (snd (checkRateLimit t i s)) \<le> 60 - Suc (rl_count e)"
      using Cons.IH [OF _ c(2)] Cons.prems by simp
    then show ?thesis using c(1) by (simp, arith)
  qed
qed simp

lemma accepted_after:
  assumes "sorted ts" and "\<forall>t \<in> set ts. a \<le> t" and "rate_entry i s = Some e" and "b \<le> a + 60000"
  shows "accepted i a b ts s \<le> (60 - rl_count e) + 60"
  using assms
proof (induction ts arbitrary: s e)
  case (Cons t ts)
  show ?case
  proof (cases "t - rl_windowStart e > RATE_LIMIT_WINDOW_MS")
    case True
    have "accepted i a b ts (snd (checkRateLimit t i s)) \<le> 60 - 1"
      using accepted_in_window [OF _ check_fresh(2), of ts] Cons.prems True by fastforce
    then show ?thesis by simp
  next
    case False
    note c = check_counted [OF Cons.prems(3) False]
    have "accepted i a b ts (snd (checkRateLimit t i s)) \<le> (60 - Suc (rl_count e)) + 60"
      using Cons.IH [OF _ _ c(2)] Cons.prems by simp
    then show ?thesis using c(1) by (simp, arith)
  qed
qed simp

lemma accepted_bound:
  assumes "sorted ts" and "\<forall>e. rate_entry i s = Some e \<longrightarrow> 1 \<le> rl_count e"
  shows "accepted i a (a + 60000) ts s \<le> 119"
  using assms
proof (induction ts arbitrary: s)
  case (Cons t ts)
  let ?s = "snd (checkRateLimit t i s)"
  have pos: "\<forall>e. rate_entry i ?s = Some e \<longrightarrow> 1 \<le> rl_count e"
  proof (cases "rate_entry i s = None \<or> (\<exists>e. rate_entry i s = Some e \<and> t - rl_windowStart e > RATE_LIMIT_WINDOW_MS)")
    case True
    then show ?thesis by (simp add: check_fresh(2))
  next
    case False
    then obtain e where "rate_entry i s = Some e" "\<not> t - rl_windowStart e > RATE_LIMIT_WINDOW_MS" by (cases "rate_entry i s") auto
    then show ?thesis by (simp add: check_counted(2))
  qed
  show ?case
  proof (cases "a \<le> t")
    case False
    then show ?thesis using Cons.IH [OF _ pos] Cons.prems(1) by simp
  next
    case True
    then have all: "\<forall>x \<in> set (t # ts). a \<le> x" using Cons.prems(1) by auto
    show ?thesis
    proof (cases "rate_entry i s")
      case None
      then have "accepted i a (a + 60000) ts ?s \<le> 60 - 1"
        using accepted_in_window [OF _ check_fresh(2), of ts i s t "a + 60000" a] Cons.prems(1) True by simp
      then show ?thesis by simp
    next
      case (Some e)
      then show ?thesis using accepted_after [OF Cons.prems(1) all Some, of "a + 60000"] Cons.prems(2) by fastforce
    qed
  qed
qed simp

lemma accepted_burst:
  assumes "a \<le> t" and "t \<le> b"
  shows "rate_entry i s = Some e \<Longrightarrow> rl_count e + n \<le> 60 \<Longrightarrow> t \<le> rl_windowStart e + 60000 \<Longrightarrow>
    \<exists>s'. accepted i a b (replicate n t @ ts) s = n + accepted i a b ts s'
      \<and> rate_entry i s' = Some \<lparr> rl_count = rl_count e + n, rl_windowStart = rl_windowStart e \<rparr>"
proof (induction n arbitrary: s e)
  case 0
  then show ?case by (intro exI [of _ s]) simp
next
  case (Suc n)
  then have w: "\<not> t - rl_windowStart e > RATE_LIMIT_WINDOW_MS" by (simp add: RATE_LIMIT_WINDOW_MS_def)
  note c = check_counted [OF Suc.prems(1) w]
  obtain s' where "accepted i a b (replicate n t @ ts) (snd (checkRateLimit t i s)) = n + accepted i a b ts s'"
    "rate_entry i s' = Some \<lparr> rl_count = Suc (rl_count e) + n, rl_windowStart = rl_windowStart e \<rparr>"
    using Suc.IH [OF c(2)] Suc.prems by auto
  then show ?case using c(1) Suc.prems(2) assms by (intro exI [of _ s']) simp
qed

text \<open>One call opens a window, 59 more fill it just before it ends, and 60 come with the next window.\<close>

lemma accepted_attained:
  assumes none: "rate_entry i s = None"
  shows "accepted i a (a + 60000) ((a - 1) # replicate 59 (a + 59999) @ (a + 60000) # replicate 59 (a + 60000) @ []) s = 119"
proof -
  let ?b = "a + 60000"
  let ?s1 = "snd (checkRateLimit (a - 1) i s)"
  obtain s2 where s2: "accepted i a ?b (replicate 59 (a + 59999) @ ?b # replicate 59 ?b @ []) ?s1
      = 59 + accepted i a ?b (?b # replicate 59 ?b @ []) s2"
    "rate_entry i s2 = Some \<lparr> rl_count = 60, rl_windowStart = a - 1 \<rparr>"
    using accepted_burst [of a "a + 59999" ?b i ?s1 _ 59] check_fresh(2) [of i s "a - 1"] none by fastforce
  let ?s3 = "snd (checkRateLimit ?b i s2)"
  have f: "fst (checkRateLimit ?b i s2)" "rate_entry i ?s3 = Some \<lparr> rl_count = 1, rl_windowStart = ?b \<rparr>"
    using check_fresh [of i s2 ?b] s2(2) by (simp_all add: RATE_LIMIT_WINDOW_MS_def)
  have "accepted i a ?b (replicate 59 ?b @ []) ?s3 = 59"
    using accepted_burst [of a ?b ?b i ?s3 _ 59 "[]"] f(2) by fastforce
  then show ?thesis using s2(1) f(1) by simp
qed

text \<open>
  Claim C15.  The rate limit is exact: of the calls a socket makes of the limited messages (subscribe,
  unsubscribe, chat message, history; joining and leaving a chat, ping and the statistics are not
  limited) at times that do not decrease, from its first on, at most 119 pass within any span of
  60000 ms, both ends included, and for every such span there are calls of which exactly 119 pass:
  a window that began earlier and its successor both let 60 calls pass.
\<close>
theorem rate_limit_bound:
  assumes "rate_entry i s = None"
  shows "(\<forall>ts. sorted ts \<longrightarrow> accepted i a (a + 60000) ts s \<le> 119)
       \<and> (\<exists>ts. sorted ts \<and> accepted i a (a + 60000) ts s = 119)"
proof
  show "\<forall>ts. sorted ts \<longrightarrow> accepted i a (a + 60000) ts s \<le> 119"
    using accepted_bound [of _ i s a] assms by simp
  have "sorted ((a - 1) # replicate 59 (a + 59999) @ (a + 60000) # replicate 59 (a + 60000) @ [])"
    by (auto simp: sorted_append)
  with accepted_attained [OF assms]
  show "\<exists>ts. sorted ts \<and> accepted i a (a + 60000) ts s = 119" by blast
qed

theorem rate_limit_bound_witness:
  "accepted ''s'' 1 60001 (0 # replicate 200 60000) no_ws \<le> 119
   \<and> (\<exists>ts. sorted ts \<and> accepted ''s'' 1 60001 ts no_ws = 119)"
proof -
  have "rate_entry ''s'' no_ws = None" by (simp add: rate_entry_def no_ws_def)
  note r = rate_limit_bound [OF this, of 1, simplified]
  have "sorted (0 # replicate 200 (60000 :: int))" by auto
  with r show ?thesis by blast
qed

subsection \<open>Subscriptions\<close>

definition in_room :: "id \<Rightarrow> string \<Rightarrow> ws_state \<Rightarrow> bool" where
  "in_room i r s \<longleftrightarrow> (\<exists>k \<in> set (ws_sockets s). sk_id k = i \<and> r \<in> sk_rooms k)"

lemma in_room_join: "in_room i q (join_room j r s) \<longleftrightarrow> in_room i q s \<or> (i = j \<and> q = r \<and> i \<in> sk_id ` set (ws_sockets s))"
proof -
  let ?f = "\<lambda>k. if sk_id k = j then k\<lparr>sk_rooms := insert r (sk_rooms k)\<rparr> else k"
  have "in_room i q (join_room j r s) \<longleftrightarrow> (\<exists>k \<in> set (ws_sockets s). sk_id (?f k) = i \<and> q \<in> sk_rooms (?f k))"
    by (simp add: in_room_def join_room_def map_socket_def update_where_def del: if_image_distrib)
  also have "\<dots> \<longleftrightarrow> in_room i q s \<or> (i = j \<and> q = r \<and> i \<in> sk_id ` set (ws_sockets s))"
    by (auto simp: in_room_def split: if_splits)
  finally show ?thesis .
qed

lemma ids_map_socket: "(\<And>k. sk_id (f k) = sk_id k) \<Longrightarrow> sk_id ` set (ws_sockets (map_socket i f s)) = sk_id ` set (ws_sockets s)"
  by (simp add: map_socket_def image_update_where)

lemma set_channels_sockets [simp]: "ws_sockets (set_channels i f s) = ws_sockets s"
  "ws_subscriptions (set_channels i f s) = ws_subscriptions s"
  by (simp_all add: set_channels_def)

lemma in_room_restore_one:
  "in_room i q (restore_one j b s)
     \<longleftrightarrow> in_room i q s \<or> (i = j \<and> q = buildRoomName (sb_channel b) (sb_resourceId b) \<and> i \<in> sk_id ` set (ws_sockets s))"
  by (simp add: restore_one_def Let_def in_room_join [unfolded in_room_def] in_room_def)

lemma ids_restore_one: "sk_id ` set (ws_sockets (restore_one j b s)) = sk_id ` set (ws_sockets s)"
  by (simp add: restore_one_def Let_def join_room_def ids_map_socket)

lemma in_room_restores:
  "in_room i q (fold (restore_one j) bs s) \<longleftrightarrow> in_room i q s
     \<or> (i = j \<and> i \<in> sk_id ` set (ws_sockets s) \<and> (\<exists>b \<in> set bs. q = buildRoomName (sb_channel b) (sb_resourceId b)))"
  by (induction bs arbitrary: s) (auto simp: in_room_restore_one ids_restore_one)

lemma in_room_restore:
  "in_room i q (connect_restore now i u s) \<longleftrightarrow> in_room i q s
     \<or> (i \<in> sk_id ` set (ws_sockets s) \<and> (\<exists>b \<in> set (ws_subscriptions s). sb_userId b = au_id u \<and> sb_active b
          \<and> q = buildRoomName (sb_channel b) (sb_resourceId b)))"
proof -
  have "in_room i q (connect_restore now i u s) \<longleftrightarrow> in_room i q (restoreSubscriptions i (Some u) s)"
    by (simp add: connect_restore_def emit_to_def in_room_def)
  then show ?thesis by (auto simp: restoreSubscriptions_def in_room_restores)
qed

lemma in_save_row: "r \<in> set (save_row key r t)"
  by (induction t) auto

lemma subscribed_row:
  assumes "map_of (ws_clients s) i = Some c" and "truthy (Some r)"
  shows "\<exists>b \<in> set (ws_subscriptions (snd (subscribe env i ch (Some r) s))). sb_userId b = cc_userId c \<and> sb_active b
    \<and> sb_channel b = ch \<and> sb_resourceId b = Some r"
proof -
  let ?s1 = "set_channels i (insert (buildRoomName ch (Some r))) (join_room i (buildRoomName ch (Some r)) s)"
  show ?thesis
  proof (cases "find_subscription (cc_userId c) ch (Some r) ?s1")
    case None
    let ?b = "\<lparr> sb_id = we_newId env, sb_userId = cc_userId c, sb_channel = ch, sb_resourceId = Some r, sb_active = True \<rparr>"
    from None assms in_save_row [of ?b] show ?thesis
      by (intro bexI [of _ ?b]) (simp_all add: subscribe_def Let_def)
  next
    case (Some b)
    then have "sb_userId b = cc_userId c" "sb_channel b = ch" "sb_resourceId b = Some r"
      unfolding find_subscription_def by (auto dest!: find_row_some)
    with Some assms in_save_row [of "b\<lparr>sb_active := True\<rparr>"] show ?thesis
      by (intro bexI [of _ "b\<lparr>sb_active := True\<rparr>"]) (simp_all add: subscribe_def Let_def)
  qed
qed

lemma subscribe_sockets: "sk_id ` set (ws_sockets (snd (subscribe env i ch r s))) = sk_id ` set (ws_sockets s)"
  by (auto simp: subscribe_def Let_def join_room_def ids_map_socket split: option.split)

text \<open>
  Subscriptions to a resource survive the connection: whatever else is in the table, after
  a client has subscribed to a channel with a resource, every further socket of the same user is in that
  room once its subscriptions are restored.
\<close>
theorem subscription_restored:
  assumes "map_of (ws_clients s) i = Some c" and "r \<noteq> []" and "j \<in> sk_id ` set (ws_sockets s)" and "au_id u = cc_userId c"
  shows "in_room j (buildRoomName ch (Some r)) (connect_restore now j u (snd (subscribe env i ch (Some r) s)))"
  using subscribed_row [OF assms(1), of r env ch] assms(2-4)
  by (auto simp: in_room_restore subscribe_sockets)

theorem subscription_restored_witness:
  "in_room ''s2'' ''quest:updated:q1''
     (connect_restore 9 ''s2'' (user_of ''GA'') (snd (subscribe \<lparr> we_now = 5, we_newId = ''b'', we_stored = True \<rparr> ''s1''
        QUEST_UPDATED (Some ''q1'') two_sockets)))"
proof -
  obtain c where "map_of (ws_clients two_sockets) ''s1'' = Some c" "cc_userId c = ''GA''"
    by (simp add: two_sockets_def registerClient_def accept_socket_def join_room_def map_socket_def no_ws_def user_of_def)
  moreover have "''s2'' \<in> sk_id ` set (ws_sockets two_sockets)"
    unfolding set_map [symmetric] two_sockets_sockets by simp
  ultimately have "in_room ''s2'' (buildRoomName QUEST_UPDATED (Some ''q1''))
     (connect_restore 9 ''s2'' (user_of ''GA'') (snd (subscribe \<lparr> we_now = 5, we_newId = ''b'', we_stored = True \<rparr> ''s1''
        QUEST_UPDATED (Some ''q1'') two_sockets)))"
    by (intro subscription_restored) (auto simp: user_of_def)
  then show ?thesis by (simp add: buildRoomName_def)
qed

lemma room_of_channel: "buildRoomName c r = show_WsChannel ch \<Longrightarrow> c = ch \<and> \<not> truthy r"
  by (cases c; cases ch) (auto simp: buildRoomName_def split: if_splits)

text \<open>
  A subscription to a whole channel does not survive when the user has one to a resource of
  that channel: the query leaves the missing resource out of its condition, finds the other row and marks
  it, and after a reconnection the socket is in no room of the channel itself.
\<close>
theorem channel_subscription_lost:
  assumes "map_of (ws_clients s) i = Some c" and "wf_table sb_id (ws_subscriptions s)"
    and "\<exists>b \<in> set (ws_subscriptions s). sb_userId b = cc_userId c \<and> sb_channel b = ch"
    and "\<forall>b \<in> set (ws_subscriptions s). sb_userId b = cc_userId c \<and> sb_channel b = ch \<longrightarrow> truthy (sb_resourceId b)"
    and "\<not> in_room j (show_WsChannel ch) s" and "i \<noteq> j" and "au_id u = cc_userId c"
  shows "\<not> in_room j (show_WsChannel ch) (connect_restore now j u (snd (subscribe env i ch None s)))"
proof -
  let ?s1 = "set_channels i (insert (buildRoomName ch None)) (join_room i (buildRoomName ch None) s)"
  obtain b where b: "find_subscription (cc_userId c) ch None ?s1 = Some b"
    using assms(3) by (cases "find_subscription (cc_userId c) ch None ?s1") (auto simp: find_subscription_def find_row_none)
  then have "b \<in> set (ws_subscriptions s) \<and> sb_userId b = cc_userId c \<and> sb_channel b = ch"
    using find_row_some [of _ "ws_subscriptions s" b] by (fastforce simp: find_subscription_def)
  then have new: "\<forall>q \<in> set (ws_subscriptions (snd (subscribe env i ch None s))).
      sb_userId q = cc_userId c \<and> sb_channel q = ch \<longrightarrow> truthy (sb_resourceId q)"
    using assms(1,2,4) b by (auto simp: subscribe_def Let_def set_save_row)
  have "\<not> in_room j (show_WsChannel ch) (snd (subscribe env i ch None s))"
    using assms(1,5,6) by (auto simp: subscribe_def Let_def in_room_join [unfolded in_room_def] in_room_def)
  moreover have "\<not> (\<exists>b \<in> set (ws_subscriptions (snd (subscribe env i ch None s))). sb_userId b = au_id u \<and> sb_active b
      \<and> show_WsChannel ch = buildRoomName (sb_channel b) (sb_resourceId b))"
    using new room_of_channel assms(7) by metis
  ultimately show ?thesis by (simp add: in_room_restore)
qed

definition one_resource :: ws_state where
  "one_resource = two_sockets\<lparr>ws_subscriptions :=
     [\<lparr> sb_id = ''b1'', sb_userId = ''GA'', sb_channel = QUEST_UPDATED, sb_resourceId = Some ''q1'', sb_active = True \<rparr>]\<rparr>"

theorem channel_subscription_lost_witness:
  "\<not> in_room ''s2'' ''quest:updated'' (connect_restore 9 ''s2'' (user_of ''GA'')
      (snd (subscribe \<lparr> we_now = 5, we_newId = ''b2'', we_stored = True \<rparr> ''s1'' QUEST_UPDATED None one_resource)))"
proof -
  obtain c where c: "map_of (ws_clients one_resource) ''s1'' = Some c" "cc_userId c = ''GA''"
    by (simp add: one_resource_def two_sockets_def registerClient_def accept_socket_def join_room_def map_socket_def no_ws_def
        user_of_def)
  have "\<not> in_room ''s2'' (show_WsChannel QUEST_UPDATED) one_resource"
    by (simp add: in_room_def one_resource_def two_sockets_def registerClient_def accept_socket_def join_room_def map_socket_def
        no_ws_def user_of_def update_where_def user_room_def)
  then have "\<not> in_room ''s2'' (show_WsChannel QUEST_UPDATED) (connect_restore 9 ''s2'' (user_of ''GA'')
      (snd (subscribe \<lparr> we_now = 5, we_newId = ''b2'', we_stored = True \<rparr> ''s1'' QUEST_UPDATED None one_resource)))"
    using c by (intro channel_subscription_lost [OF c(1)]) (auto simp: one_resource_def wf_table_def user_of_def)
  then show ?thesis by simp
qed

subsection \<open>Histories\<close>

text \<open>Only broadcasts carry no target and reach everybody; a message to a user is in this user's history alone.\<close>

lemma history_mine:
  "m \<in> set (getMessageHistory ch u since n s) \<Longrightarrow>
     m \<in> set (ws_messages s) \<and> wm_channel m = ch \<and> (wm_targetUserId m = Some u \<or> wm_targetUserId m = None \<or> wm_isBroadcast m)"
  unfolding getMessageHistory_def by (drule set_take_subset [THEN subsetD]) simp

lemma history_bounded: "length (getMessageHistory ch u since n s) \<le> 200"
  by (simp add: getMessageHistory_def)

text \<open>A message about one resource is stored without a target: every user's history shows it.\<close>

lemma resource_message_public:
  assumes "we_stored env"
  shows "\<exists>m \<in> set (ws_messages (sendToChannel env ch ev p (Some r) s)). wm_payload m = p \<and> wm_targetUserId m = None
     \<and> wm_channel m = ch"
proof -
  let ?m = "\<lparr> wm_id = we_newId env, wm_channel = ch, wm_event = ev, wm_payload = p, wm_targetUserId = None,
     wm_isBroadcast = False, wm_createdAt = we_now env \<rparr>"
  show ?thesis using assms in_save_row [of ?m wm_id]
    by (intro bexI [of _ ?m]) (simp_all add: sendToChannel_def emit_to_def persistMessage_def)
qed

text \<open>A client that disconnects while its token is being verified is registered afterwards and stays.\<close>

lemma late_registration_stays:
  "(sid, au_id u) \<in> connections (registerClient now sid (Some u) (drop_socket sid s))"
  by (simp add: register_connections)

end
