(* ===== verification/Webhooks.thy ===== *)
theory Webhooks
  imports Json
begin

text \<open>
  The webhooks module, \<open>BackEnd/src/modules/webhooks\<close>: the signatures of \<open>utils/signature.ts\<close>, the
  two handlers, \<open>WebhooksService\<close> and the three routes of the controller.  The argument \<open>H secret text\<close>
  is the HMAC-SHA256 of the crypto library, \<open>str\<close> is \<open>JSON.stringify\<close> and \<open>parse\<close> is \<open>JSON.parse\<close>
  (\<open>None\<close> when it throws).  A value that may be \<open>undefined\<close> is an option.
\<close>

subsection \<open>Signatures\<close>

definition payload_string :: "(json \<Rightarrow> string) \<Rightarrow> json \<Rightarrow> string" where
  "payload_string str payload = (case payload of JStr s \<Rightarrow> s | _ \<Rightarrow> str payload)"

text \<open>\<open>timingSafeEqual\<close> throws on buffers of different length, which the callers turn into \<open>false\<close>.\<close>

definition verifyGithubSignature :: "(string \<Rightarrow> string \<Rightarrow> byte list) \<Rightarrow> string \<Rightarrow> string \<Rightarrow> string \<Rightarrow> bool" where
  "verifyGithubSignature H payload signature secret =
     (if \<not> starts_with signature ''sha256='' then False
      else (let expectedSignature = drop 7 signature; calculatedSignature = to_hex (H secret payload)
            in from_hex calculatedSignature = from_hex expectedSignature))"

definition verifyApiSignature :: "(string \<Rightarrow> string \<Rightarrow> byte list) \<Rightarrow> string \<Rightarrow> string \<Rightarrow> string \<Rightarrow> bool" where
  "verifyApiSignature H payload signature secret =
     (if \<not> starts_with signature ''hmac-sha256='' then False
      else (let expectedSignature = drop 12 signature; calculatedSignature = to_hex (H secret payload)
            in from_hex calculatedSignature = from_hex expectedSignature))"

definition verifyWebhookSignature ::
    "(string \<Rightarrow> string \<Rightarrow> byte list) \<Rightarrow> (json \<Rightarrow> string) \<Rightarrow> json \<Rightarrow> string \<Rightarrow> string \<Rightarrow> string \<Rightarrow> bool" where
  "verifyWebhookSignature H str payload signature secret provider =
     (if lower provider = ''github'' then verifyGithubSignature H (payload_string str payload) signature secret
      else if lower provider = ''api'' then verifyApiSignature H (payload_string str payload) signature secret
      else False)"

definition generateWebhookSignature ::
    "(string \<Rightarrow> string \<Rightarrow> byte list) \<Rightarrow> (json \<Rightarrow> string) \<Rightarrow> json \<Rightarrow> string \<Rightarrow> string \<Rightarrow> exn + string" where
  "generateWebhookSignature H str payload secret provider =
     (if lower provider = ''github'' then Inr (''sha256='' @ to_hex (H secret (payload_string str payload)))
      else if lower provider = ''api'' then Inr (''hmac-sha256='' @ to_hex (H secret (payload_string str payload)))
      else Inl (JsError (''Unsupported provider: '' @ provider)))"

definition validateWebhookSecret :: "json \<Rightarrow> bool" where
  "validateWebhookSecret secret = (case secret of JStr s \<Rightarrow> 16 \<le> length s | _ \<Rightarrow> False)"

subsection \<open>Values of a payload\<close>

text \<open>\<open>v.name\<close>: a property of \<open>null\<close> or \<open>undefined\<close> throws; \<open>v?.name\<close> does not.\<close>

definition own_prop :: "json \<Rightarrow> string \<Rightarrow> json option" where
  "own_prop v name =
     (case v of
        JObj ps \<Rightarrow> map_of ps name
      | JArr xs \<Rightarrow> if name = ''length'' then Some (JInt (int (length xs))) else None
      | JStr s \<Rightarrow> if name = ''length'' then Some (JInt (int (length s))) else None
      | _ \<Rightarrow> None)"

definition get_prop :: "json option \<Rightarrow> string \<Rightarrow> exn + json option" where
  "get_prop v name =
     (case v of
        None \<Rightarrow> Inl (JsTypeError ''Cannot read properties of undefined'')
      | Some JNull \<Rightarrow> Inl (JsTypeError ''Cannot read properties of null'')
      | Some w \<Rightarrow> Inr (own_prop w name))"

definition opt_prop :: "json option \<Rightarrow> string \<Rightarrow> json option" where
  "opt_prop v name = (case v of None \<Rightarrow> None | Some w \<Rightarrow> own_prop w name)"

definition js_truthy :: "json option \<Rightarrow> bool" where
  "js_truthy v =
     (case v of
        None \<Rightarrow> False
      | Some JNull \<Rightarrow> False
      | Some (JBool b) \<Rightarrow> b
      | Some (JNum n) \<Rightarrow> n \<noteq> 0
      | Some (JStr s) \<Rightarrow> s \<noteq> []
      | _ \<Rightarrow> True)"

definition or_else :: "json option \<Rightarrow> json \<Rightarrow> json" where
  "or_else v d = (if js_truthy v then the v else d)"

text \<open>\<open>v > 0\<close>.\<close>

fun js_positive :: "json \<Rightarrow> bool" where
  "js_positive (JNum n) = (0 < n)"
| "js_positive (JBool b) = b"
| "js_positive (JStr s) =
     (trim s = ''Infinity'' \<or> trim s = ''+Infinity'' \<or> (case js_number s of None \<Rightarrow> False | Some n \<Rightarrow> 0 < n))"
| "js_positive (JArr [x]) = (case x of JBool _ \<Rightarrow> False | JNull \<Rightarrow> False | JObj _ \<Rightarrow> False | _ \<Rightarrow> js_positive x)"
| "js_positive _ = False"

text \<open>\<open>replace\<close> with a text pattern changes its first occurrence.\<close>

fun replace_first :: "string \<Rightarrow> string \<Rightarrow> string \<Rightarrow> string" where
  "replace_first p r [] = (if p = [] then r else [])"
| "replace_first p r (c # cs) = (if starts_with (c # cs) p then r @ drop (length p) (c # cs) else c # replace_first p r cs)"

subsection \<open>Handlers\<close>

record WebhookEvent =
  wh_id :: string
  wh_type :: string
  wh_payload :: json
  wh_timestamp :: time
  wh_source :: string
  wh_signature :: "string option"
  wh_secret :: "string option"

type_synonym handled = "(string \<times> json option) list"

definition parsed_payload :: "(string \<Rightarrow> json option) \<Rightarrow> json \<Rightarrow> exn + json" where
  "parsed_payload parse v =
     (case v of
        JStr s \<Rightarrow> (case parse s of None \<Rightarrow> Inl (JsError ''Unexpected token in JSON'') | Some w \<Rightarrow> Inr w)
      | _ \<Rightarrow> Inr v)"

abbreviation jtext :: "string \<Rightarrow> json option" where
  "jtext s \<equiv> Some (JStr s)"

definition handlePushEvent :: "json \<Rightarrow> exn + handled" where
  "handlePushEvent payload =
     (case get_prop (Some payload) ''repository'' of
        Inl e \<Rightarrow> Inl e
      | Inr repository \<Rightarrow>
          (let ref = opt_prop (Some payload) ''ref'';
               done = (\<lambda>branch. Inr [(''status'', jtext ''processed''), (''eventType'', jtext ''push''),
                    (''repository'', opt_prop repository ''full_name''), (''branch'', branch),
                    (''commitCount'', opt_prop (Some (or_else (opt_prop (Some payload) ''commits'') (JArr []))) ''length''),
                    (''sender'', opt_prop (opt_prop (Some payload) ''sender'') ''login''),
                    (''approved'', Some (JBool True))])
           in case ref of
                None \<Rightarrow> done None
              | Some JNull \<Rightarrow> done None
              | Some (JStr s) \<Rightarrow> done (jtext (replace_first ''refs/heads/'' [] s))
              | Some _ \<Rightarrow> Inl (JsTypeError ''payload.ref?.replace is not a function'')))"

definition handlePullRequestEvent :: "json \<Rightarrow> exn + handled" where
  "handlePullRequestEvent payload =
     (case get_prop (Some payload) ''action'' of
        Inl e \<Rightarrow> Inl e
      | Inr action \<Rightarrow>
          (let pr = opt_prop (Some payload) ''pull_request'';
               prNumber = opt_prop pr ''number'';
               repoName = opt_prop (opt_prop (Some payload) ''repository'') ''full_name'';
               author = opt_prop (opt_prop pr ''user'') ''login''
           in if action = jtext ''opened'' \<or> action = jtext ''reopened''
              then Inr [(''status'', jtext ''processed''), (''eventType'', jtext ''pull_request_opened''), (''prNumber'', prNumber),
                        (''repository'', repoName), (''author'', author), (''action'', action), (''approved'', Some (JBool False))]
              else if action = jtext ''closed''
              then Inr [(''status'', jtext ''processed''), (''eventType'', jtext ''pull_request_closed''), (''prNumber'', prNumber),
                        (''repository'', repoName), (''author'', author), (''merged'', opt_prop pr ''merged''),
                        (''approved'', opt_prop pr ''merged'')]
              else Inr [(''status'', jtext ''ignored''), (''eventType'', jtext ''pull_request''), (''action'', action)]))"

definition handleIssuesEvent :: "json \<Rightarrow> exn + handled" where
  "handleIssuesEvent payload =
     (case get_prop (Some payload) ''action'' of
        Inl e \<Rightarrow> Inl e
      | Inr action \<Rightarrow>
          (let issue = opt_prop (Some payload) ''issue''
           in Inr [(''status'', jtext ''processed''), (''eventType'', jtext ''issues''), (''issueNumber'', opt_prop issue ''number''),
                   (''repository'', opt_prop (opt_prop (Some payload) ''repository'') ''full_name''),
                   (''author'', opt_prop (opt_prop issue ''user'') ''login''), (''action'', action),
                   (''approved'', Some (JBool (action = jtext ''closed'')))]))"

definition ignored :: "WebhookEvent \<Rightarrow> handled" where
  "ignored event = [(''status'', jtext ''ignored''), (''eventType'', jtext (wh_type event))]"

definition github_handleEvent :: "(string \<Rightarrow> json option) \<Rightarrow> WebhookEvent \<Rightarrow> exn + handled" where
  "github_handleEvent parse event =
     (case parsed_payload parse (wh_payload event) of
        Inl e \<Rightarrow> Inl e
      | Inr payload \<Rightarrow>
          if lower (wh_type event) = ''push'' then handlePushEvent payload
          else if lower (wh_type event) = ''pull_request'' then handlePullRequestEvent payload
          else if lower (wh_type event) = ''issues'' then handleIssuesEvent payload
          else Inr (ignored event))"

definition handleSubmissionVerify :: "json \<Rightarrow> exn + handled" where
  "handleSubmissionVerify payload =
     (case get_prop (Some payload) ''submissionId'' of
        Inl e \<Rightarrow> Inl e
      | Inr submissionId \<Rightarrow>
          Inr [(''status'', jtext ''processed''), (''eventType'', jtext ''submission_verify''), (''submissionId'', submissionId),
               (''userId'', opt_prop (Some payload) ''userId''), (''verificationType'', opt_prop (Some payload) ''verificationType''),
               (''externalId'', opt_prop (Some payload) ''externalId''), (''verified'', Some (JBool True)),
               (''approved'', Some (JBool True))])"

definition handleAutoApprove :: "json \<Rightarrow> exn + handled" where
  "handleAutoApprove payload =
     (case get_prop (Some payload) ''entityId'' of
        Inl e \<Rightarrow> Inl e
      | Inr entityId \<Rightarrow>
          (let criteriaMet = or_else (opt_prop (Some payload) ''criteriaMet'') (JArr [])
           in Inr [(''status'', jtext ''processed''), (''eventType'', jtext ''auto_approve''), (''entityId'', entityId),
                   (''entityType'', opt_prop (Some payload) ''entityType''), (''criteriaMet'', Some criteriaMet),
                   (''approved'', Some (JBool (case own_prop criteriaMet ''length'' of None \<Rightarrow> False | Some n \<Rightarrow> js_positive n)))]))"

definition handleExternalValidation :: "json \<Rightarrow> exn + handled" where
  "handleExternalValidation payload =
     (case get_prop (Some payload) ''serviceName'' of
        Inl e \<Rightarrow> Inl e
      | Inr serviceName \<Rightarrow>
          (let validationResult = opt_prop (Some payload) ''result'';
               isValid = (validationResult = jtext ''success'' \<or> validationResult = Some (JBool True))
           in Inr [(''status'', jtext ''processed''), (''eventType'', jtext ''external_validation''), (''serviceName'', serviceName),
                   (''validationId'', opt_prop (Some payload) ''validationId''), (''result'', validationResult),
                   (''isValid'', Some (JBool isValid)), (''approved'', Some (JBool isValid)),
                   (''metadata'', Some (or_else (opt_prop (Some payload) ''metadata'') (JObj [])))]))"

definition api_handleEvent :: "(string \<Rightarrow> json option) \<Rightarrow> WebhookEvent \<Rightarrow> exn + handled" where
  "api_handleEvent parse event =
     (case parsed_payload parse (wh_payload event) of
        Inl e \<Rightarrow> Inl e
      | Inr payload \<Rightarrow>
          if lower (wh_type event) = ''submission_verify'' then handleSubmissionVerify payload
          else if lower (wh_type event) = ''auto_approve'' then handleAutoApprove payload
          else if lower (wh_type event) = ''external_validation'' then handleExternalValidation payload
          else Inr (ignored event))"

subsection \<open>The service\<close>

record WebhookResponse =
  wr_success :: bool
  wr_eventId :: string
  wr_message :: string
  wr_processedAt :: time
  wr_data :: "handled option"

definition refused :: "time \<Rightarrow> WebhookEvent \<Rightarrow> string \<Rightarrow> WebhookResponse" where
  "refused now event message =
     \<lparr> wr_success = False, wr_eventId = wh_id event, wr_message = message, wr_processedAt = now, wr_data = None \<rparr>"

fun exn_message :: "exn \<Rightarrow> string" where
  "exn_message (BadRequestException m) = m"
| "exn_message (NotFoundException m) = m"
| "exn_message (ForbiddenException m) = m"
| "exn_message (ConflictException m) = m"
| "exn_message (UnauthorizedException m) = m"
| "exn_message (PayloadTooLargeException m) = m"
| "exn_message (WsException m) = m"
| "exn_message (JsError m) = m"
| "exn_message (JsTypeError m) = m"

definition processWebhook ::
    "(string \<Rightarrow> string \<Rightarrow> byte list) \<Rightarrow> (json \<Rightarrow> string) \<Rightarrow> (string \<Rightarrow> json option) \<Rightarrow> time \<Rightarrow> WebhookEvent \<Rightarrow> WebhookResponse" where
  "processWebhook H str parse now event =
     (if truthy (wh_signature event) \<and> truthy (wh_secret event)
         \<and> \<not> verifyWebhookSignature H str (wh_payload event) (the (wh_signature event)) (the (wh_secret event)) (wh_source event)
      then refused now event ''Invalid webhook signature''
      else
        (let handled = (\<lambda>r. case r of
               Inl e \<Rightarrow> refused now event (''Failed to process webhook: '' @ exn_message e)
             | Inr v \<Rightarrow> \<lparr> wr_success = True, wr_eventId = wh_id event, wr_message = ''Webhook processed successfully'',
                          wr_processedAt = now, wr_data = Some v \<rparr>)
         in if lower (wh_source event) = ''github'' then handled (github_handleEvent parse event)
            else if lower (wh_source event) = ''api'' then handled (api_handleEvent parse event)
            else refused now event (''Unsupported webhook source: '' @ wh_source event)))"

definition retryFailedWebhook :: "string \<Rightarrow> nat \<Rightarrow> bool" where
  "retryFailedWebhook eventId maxRetries = True"

definition getSupportedSources :: "string list" where
  "getSupportedSources = [''github'', ''api'']"

subsection \<open>Routes\<close>

text \<open>A header is \<open>None\<close> when absent; \<open>getenv\<close> reads the environment.\<close>

definition answer :: "WebhookResponse \<Rightarrow> exn + WebhookResponse" where
  "answer response = (if wr_success response then Inr response else Inl (UnauthorizedException (wr_message response)))"

definition handleGithubWebhook where
  "handleGithubWebhook H str parse (getenv :: string \<Rightarrow> string option) (now :: time) payload eventType deliveryId signature =
     (if \<not> truthy eventType then Inl (BadRequestException ''Missing X-GitHub-Event header'')
      else if \<not> truthy deliveryId then Inl (BadRequestException ''Missing X-GitHub-Delivery header'')
      else answer (processWebhook H str parse now
             \<lparr> wh_id = the deliveryId, wh_type = the eventType, wh_payload = payload, wh_timestamp = now, wh_source = ''github'',
               wh_signature = signature, wh_secret = getenv ''GITHUB_WEBHOOK_SECRET'' \<rparr>))"

definition handleApiVerificationWebhook where
  "handleApiVerificationWebhook H str parse (getenv :: string \<Rightarrow> string option) (now :: time) payload eventType webhookId authHeader =
     (if \<not> truthy eventType then Inl (BadRequestException ''Missing X-Event-Type header'')
      else if \<not> truthy webhookId then Inl (BadRequestException ''Missing X-Webhook-ID header'')
      else answer (processWebhook H str parse now
             \<lparr> wh_id = the webhookId, wh_type = the eventType, wh_payload = payload, wh_timestamp = now, wh_source = ''api'',
               wh_signature = (if truthy authHeader \<and> starts_with (the authHeader) ''Bearer '' then Some (drop 7 (the authHeader)) else None),
               wh_secret = getenv ''API_WEBHOOK_SECRET'' \<rparr>))"

definition handleGenericWebhook where
  "handleGenericWebhook H str parse (getenv :: string \<Rightarrow> string option) (now :: time) (eventId :: string) payload signature eventType service =
     answer (processWebhook H str parse now
       \<lparr> wh_id = eventId, wh_type = or_default eventType ''unknown'', wh_payload = payload, wh_timestamp = now,
         wh_source = service, wh_signature = signature, wh_secret = getenv (upper service @ ''_WEBHOOK_SECRET'') \<rparr>)"

end
