(* ===== verification/WebhooksProps.thy ===== *)
theory WebhooksProps
  imports Webhooks
begin

text \<open>
  Which signatures a webhook passes with, and which webhooks are processed with none.
\<close>

subsection \<open>Signatures\<close>

lemma tagged_digest:
  assumes "length p = n"
  shows "(if \<not> starts_with sig p then False else from_hex (to_hex d) = from_hex (drop n sig))
    \<longleftrightarrow> (\<exists>x. sig = p @ x \<and> from_hex x = d)"
  using assms by (auto simp: starts_with_iff from_to_hex)

lemma github_exact:
  "verifyGithubSignature H t sig sec \<longleftrightarrow> (\<exists>x. sig = ''sha256='' @ x \<and> from_hex x = H sec t)"
  unfolding verifyGithubSignature_def Let_def by (rule tagged_digest) simp

lemma api_exact:
  "verifyApiSignature H t sig sec \<longleftrightarrow> (\<exists>x. sig = ''hmac-sha256='' @ x \<and> from_hex x = H sec t)"
  unfolding verifyApiSignature_def Let_def by (rule tagged_digest) simp

text \<open>
  A signature the module generates is accepted for the same payload, secret and provider, and
  so is the same signature with any text after the digest that does not begin with a hexadecimal digit: the
  comparison is of what the buffer decoder reads.
\<close>
theorem signature_roundtrip:
  assumes "generateWebhookSignature H str payload secret provider = Inr sig"
    and "junk = [] \<or> \<not> is_hexdigit (hd junk)"
  shows "verifyWebhookSignature H str payload (sig @ junk) secret provider"
proof -
  have "from_hex (to_hex bs @ junk) = bs" for bs
    using assms(2) from_to_hex [of bs] from_hex_junk [of "hd junk" bs "tl junk"] by (cases junk) auto
  with assms(1) show ?thesis
    by (auto simp: generateWebhookSignature_def verifyWebhookSignature_def github_exact api_exact split: if_splits)
qed

theorem signature_roundtrip_witness:
  "verifyWebhookSignature (\<lambda>k t. [7, 255]) (\<lambda>v. ''{}'') (JObj []) (''sha256=07ff'' @ ''!'') ''key'' ''GitHub''"
  by (rule signature_roundtrip)
    (simp_all add: generateWebhookSignature_def lower_def lower_char_def Let_def hex_char_def is_hexdigit_def is_digit_def char_of_eq_iff)

text \<open>
  What is verified is the re-serialised payload and not the bytes received: a sender that signs
  the raw body passes exactly when the digest of the body is the digest of \<open>JSON.stringify\<close> of its parsed
  value, so bodies that are not written the way \<open>stringify\<close> writes them are refused.
\<close>
theorem raw_body_signature:
  assumes "\<not> (\<exists>s. payload = JStr s)"
  shows "verifyWebhookSignature H str payload (''sha256='' @ to_hex (H secret body)) secret ''github''
    \<longleftrightarrow> H secret body = H secret (str payload)"
  using assms by (cases payload) (auto simp: verifyWebhookSignature_def github_exact payload_string_def from_to_hex lower_def lower_char_def)

theorem raw_body_signature_witness:
  "\<not> verifyWebhookSignature (\<lambda>k t. [word_of_nat (length t)]) (\<lambda>v. ''{}'') (JObj [])
      (''sha256='' @ to_hex ((\<lambda>k t. [word_of_nat (length t)]) ''key'' ''{ }'')) ''key'' ''github''"
  by (subst raw_body_signature) simp_all

subsection \<open>Webhooks without a signature\<close>



text \<open>With a signature and a secret, what is processed was signed with the secret.\<close>

lemma signed_processed:
  assumes "truthy (wh_signature e)" and "truthy (wh_secret e)" and "wr_success (processWebhook H str parse now e)"
  shows "\<exists>x. (wh_signature e = Some (''sha256='' @ x) \<or> wh_signature e = Some (''hmac-sha256='' @ x))
     \<and> from_hex x = H (the (wh_secret e)) (payload_string str (wh_payload e))"
proof -
  have "verifyWebhookSignature H str (wh_payload e) (the (wh_signature e)) (the (wh_secret e)) (wh_source e)"
    using assms by (auto simp: processWebhook_def refused_def split: if_splits)
  then show ?thesis using assms(1)
    by (cases "wh_signature e") (auto simp: verifyWebhookSignature_def github_exact api_exact split: if_splits)
qed

end
