(* ===== verification/Regex.thy ===== *)
theory Regex
  imports TextCodec
begin

text \<open>
  The part of JavaScript's regular expressions the security utilities use: matching with
  backtracking, in the order of the language's semantics, so that the first match is the one the engine
  reports.  A position is the character before it and the text after it.  An iteration of a repetition
  that consumes nothing is given up, as the language does.
\<close>

datatype re =
    Cls "char \<Rightarrow> bool" | Eps | Seq re re | Alt re re | Star re | Lazy re | WordB | Eos | NotAhead re

definition word_char :: "char \<Rightarrow> bool" where
  "word_char c \<longleftrightarrow> (let n = of_char c :: nat in (48 \<le> n \<and> n \<le> 57) \<or> (65 \<le> n \<and> n \<le> 90) \<or> n = 95 \<or> (97 \<le> n \<and> n \<le> 122))"

definition word_at :: "char option \<Rightarrow> bool" where
  "word_at p = (case p of None \<Rightarrow> False | Some c \<Rightarrow> word_char c)"

definition first_char :: "string \<Rightarrow> char option" where
  "first_char s = (case s of [] \<Rightarrow> None | c # cs \<Rightarrow> Some c)"

function matches :: "re \<Rightarrow> char option \<Rightarrow> string \<Rightarrow> (char option \<times> string) list" where
  "matches (Cls f) p [] = []"
| "matches (Cls f) p (c # cs) = (if f c then [(Some c, cs)] else [])"
| "matches Eps p s = [(p, s)]"
| "matches (Seq a b) p s = concat (map (\<lambda>(q, t). if length t \<le> length s then matches b q t else []) (matches a p s))"
| "matches (Alt a b) p s = matches a p s @ matches b p s"
| "matches (Star a) p [] = [(p, [])]"
| "matches (Star a) p (c # cs) =
     concat (map (\<lambda>(q, t). if length t \<le> length cs then matches (Star a) q t else []) (matches a p (c # cs))) @ [(p, c # cs)]"
| "matches (Lazy a) p [] = [(p, [])]"
| "matches (Lazy a) p (c # cs) =
     (p, c # cs) # concat (map (\<lambda>(q, t). if length t \<le> length cs then matches (Lazy a) q t else []) (matches a p (c # cs)))"
| "matches WordB p s = (if word_at p \<noteq> word_at (first_char s) then [(p, s)] else [])"
| "matches Eos p s = (if s = [] then [(p, s)] else [])"
| "matches (NotAhead a) p s = (if matches a p s = [] then [(p, s)] else [])"
  by pat_completeness auto
termination
  by (relation "measures [\<lambda>(r, p, s). length s, \<lambda>(r, p, s). size r]") auto

lemma in_steps:
  "(q, t) \<in> set (concat (map (\<lambda>(q', t'). if length t' \<le> n then f q' t' else []) xs))
     \<longleftrightarrow> (\<exists>q' t'. (q', t') \<in> set xs \<and> length t' \<le> n \<and> (q, t) \<in> set (f q' t'))"
  by (induction xs) (auto split: if_splits prod.splits)

lemma matches_Seq: "(q, t) \<in> set (matches (Seq a b) p s) \<longleftrightarrow>
    (\<exists>q' t'. (q', t') \<in> set (matches a p s) \<and> length t' \<le> length s \<and> (q, t) \<in> set (matches b q' t'))"
  by (simp only: matches.simps in_steps)

lemma matches_Star: "(q, t) \<in> set (matches (Star a) p (c # cs)) \<longleftrightarrow> (q, t) = (p, c # cs)
    \<or> (\<exists>q' t'. (q', t') \<in> set (matches a p (c # cs)) \<and> length t' \<le> length cs \<and> (q, t) \<in> set (matches (Star a) q' t'))"
  by (simp only: matches.simps set_append Un_iff in_steps set_simps singleton_iff) (rule disj_commute)

lemma matches_Lazy: "(q, t) \<in> set (matches (Lazy a) p (c # cs)) \<longleftrightarrow> (q, t) = (p, c # cs)
    \<or> (\<exists>q' t'. (q', t') \<in> set (matches a p (c # cs)) \<and> length t' \<le> length cs \<and> (q, t) \<in> set (matches (Lazy a) q' t'))"
  by (simp only: matches.simps in_steps set_simps insert_iff)

text \<open>Every match ends in a rest of the text.\<close>

lemma matches_suffix: "(q, t) \<in> set (matches r p s) \<Longrightarrow> \<exists>u. s = u @ t"
proof (induction r p s arbitrary: q t rule: matches.induct)
  case (4 a b p s)
  then obtain q' t' where "(q', t') \<in> set (matches a p s)" "length t' \<le> length s" "(q, t) \<in> set (matches b q' t')"
    by (auto simp only: matches_Seq)
  with 4(1) [of q' t'] 4(2) [of "(q', t')" q' t'] show ?case by fastforce
next
  case (7 a p c cs)
  then consider "t = c # cs" | q' t' where "(q', t') \<in> set (matches a p (c # cs))" "length t' \<le> length cs"
    "(q, t) \<in> set (matches (Star a) q' t')"
    by (auto simp only: matches_Star)
  then show ?case
  proof cases
    case 2
    with 7(1) [of q' t'] 7(2) [of "(q', t')" q' t'] show ?thesis by fastforce
  qed simp
next
  case (9 a p c cs)
  then consider "t = c # cs" | q' t' where "(q', t') \<in> set (matches a p (c # cs))" "length t' \<le> length cs"
    "(q, t) \<in> set (matches (Lazy a) q' t')"
    by (auto simp only: matches_Lazy)
  then show ?case
  proof cases
    case 2
    with 9(1) [of q' t'] 9(2) [of "(q', t')" q' t'] show ?thesis by fastforce
  qed simp
qed (auto split: if_splits)

lemma matches_shorter: "(q, t) \<in> set (matches r p s) \<Longrightarrow> length t \<le> length s"
  by (drule matches_suffix) auto

subsection \<open>Searching and replacing\<close>

text \<open>\<open>pattern.test(s)\<close>, and \<open>s.replace(pattern, r)\<close> with the global flag.\<close>

fun search :: "re \<Rightarrow> char option \<Rightarrow> string \<Rightarrow> bool" where
  "search r p [] = (matches r p [] \<noteq> [])"
| "search r p (c # cs) = (matches r p (c # cs) \<noteq> [] \<or> search r (Some c) cs)"

definition re_test :: "re \<Rightarrow> string \<Rightarrow> bool" where
  "re_test r s = search r None s"

function replace_from :: "re \<Rightarrow> string \<Rightarrow> char option \<Rightarrow> string \<Rightarrow> string" where
  "replace_from r x p [] = (if matches r p [] = [] then [] else x)"
| "replace_from r x p (c # cs) =
     (case matches r p (c # cs) of
        [] \<Rightarrow> c # replace_from r x (Some c) cs
      | (q, t) # _ \<Rightarrow> if length t \<le> length cs then x @ replace_from r x q t
                    else x @ c # replace_from r x (Some c) cs)"
  by pat_completeness auto
termination
  by (relation "measure (\<lambda>(r, x, p, s). length s)") auto

definition replace_all :: "re \<Rightarrow> string \<Rightarrow> string \<Rightarrow> string" where
  "replace_all r x s = replace_from r x None s"

lemma search_found: "(q, t) \<in> set (matches r (case u of [] \<Rightarrow> p | _ \<Rightarrow> Some (last u)) s) \<Longrightarrow> search r p (u @ s)"
proof (induction u arbitrary: p)
  case Nil
  then show ?case by (cases s) auto
next
  case (Cons c u)
  then show ?case by (cases u) auto
qed

subsection \<open>Building blocks\<close>

definition lit :: "string \<Rightarrow> re" where
  "lit s = foldr (\<lambda>c. Seq (Cls (\<lambda>d. d = c))) s Eps"

text \<open>With the flag \<open>i\<close>.\<close>

definition liti :: "string \<Rightarrow> re" where
  "liti s = foldr (\<lambda>c. Seq (Cls (\<lambda>d. lower_char d = c))) s Eps"

definition seqs :: "re list \<Rightarrow> re" where
  "seqs rs = foldr Seq rs Eps"

fun alts :: "re list \<Rightarrow> re" where
  "alts [] = Cls (\<lambda>_. False)"
| "alts [r] = r"
| "alts (r # rs) = Alt r (alts rs)"

definition some_of :: "re \<Rightarrow> re" where
  "some_of r = Seq r (Star r)"

definition maybe :: "re \<Rightarrow> re" where
  "maybe r = Alt r Eps"

definition re_space :: re where
  "re_space = Cls is_space"

definition re_word :: re where
  "re_word = Cls word_char"

definition re_digit :: re where
  "re_digit = Cls is_digit"

definition re_dot :: re where
  "re_dot = Cls (\<lambda>c. c \<noteq> CHR 0x0A \<and> c \<noteq> CHR 0x0D)"

definition re_any :: re where
  "re_any = Cls (\<lambda>_. True)"

definition re_not :: "char \<Rightarrow> re" where
  "re_not d = Cls (\<lambda>c. c \<noteq> d)"

lemma matches_lit: "matches (lit s) p (s @ t) = [(case s of [] \<Rightarrow> p | _ \<Rightarrow> Some (last s), t)]"
  by (induction s arbitrary: p) (auto simp: lit_def split: list.split)

lemma matches_lit_iff: "(q, t) \<in> set (matches (lit s) p u) \<longleftrightarrow> u = s @ t \<and> q = (case s of [] \<Rightarrow> p | _ \<Rightarrow> Some (last s))"
proof (induction s arbitrary: p u)
  case (Cons c s)
  then show ?case by (cases u) (auto simp: lit_def split: list.split)
qed (auto simp: lit_def)

text \<open>Replacing one character looks at each character once.\<close>

lemma matches_char: "matches (lit [c]) p s = (case s of [] \<Rightarrow> [] | d # t \<Rightarrow> if d = c then [(Some d, t)] else [])"
  by (cases s) (simp_all add: lit_def)

lemma replace_from_char: "replace_from (lit [c]) x p s = concat (map (\<lambda>d. if d = c then x else [d]) s)"
proof (induction s arbitrary: p)
  case Nil
  then show ?case by (simp add: matches_char)
next
  case (Cons d s)
  then show ?case by (simp add: matches_char)
qed

lemma replace_char: "replace_all (lit [c]) x s = concat (map (\<lambda>d. if d = c then x else [d]) s)"
  by (simp add: replace_all_def replace_from_char)

end
