(* ===== verification/Security.thy ===== *)
theory Security
  imports Json Regex "HOL-Library.AList"
begin

text \<open>
  \<open>BackEnd/src/common/utils/security.utils.ts\<close> and \<open>config/security.config.ts\<close>: client addresses and
  address rules, cookies, sanitisation, detection, CSRF tokens, signed requests and the record of
  suspicious activity, with its two module-level maps as state.  Arguments stand for the crypto library
  (\<open>H\<close> the HMAC, \<open>S\<close> the digest), \<open>JSON.stringify\<close> (\<open>str\<close>) and the text of a number that is no
  integer (\<open>num\<close>).  A configured number comes from the environment as text, because nothing converts
  it; only the default is a number.
\<close>

unbundle bit_operations_syntax

subsection \<open>Numbers that may be text\<close>

datatype cfg = Num rat | Txt string

fun num_of :: "cfg \<Rightarrow> rat option" where
  "num_of (Num n) = Some n"
| "num_of (Txt s) = js_number s"

definition show_number :: "(rat \<Rightarrow> string) \<Rightarrow> rat \<Rightarrow> string" where
  "show_number num r = (if of_int (floor r) = r \<and> \<bar>r\<bar> < 10 ^ 21 then show_int (floor r) else num r)"

fun cfg_text :: "(rat \<Rightarrow> string) \<Rightarrow> cfg \<Rightarrow> string" where
  "cfg_text num (Num r) = show_number num r"
| "cfg_text num (Txt s) = s"

text \<open>\<open>v + w\<close>: a sum of numbers, but a concatenation as soon as one of them is text.\<close>

fun js_plus :: "(rat \<Rightarrow> string) \<Rightarrow> cfg \<Rightarrow> cfg \<Rightarrow> cfg" where
  "js_plus num (Num a) (Num b) = Num (a + b)"
| "js_plus num v w = Txt (cfg_text num v @ cfg_text num w)"

fun cfg_truthy :: "cfg \<Rightarrow> bool" where
  "cfg_truthy (Num r) = (r \<noteq> 0)"
| "cfg_truthy (Txt s) = (s \<noteq> [])"

definition cfg_gt :: "cfg \<Rightarrow> rat \<Rightarrow> bool" where
  "cfg_gt v r = (case num_of v of None \<Rightarrow> False | Some n \<Rightarrow> n > r)"

definition cfg_lt :: "cfg \<Rightarrow> rat \<Rightarrow> bool" where
  "cfg_lt v r = (case num_of v of None \<Rightarrow> False | Some n \<Rightarrow> n < r)"

definition cfg_le :: "cfg \<Rightarrow> rat \<Rightarrow> bool" where
  "cfg_le v r = (case num_of v of None \<Rightarrow> False | Some n \<Rightarrow> n \<le> r)"

text \<open>Two texts are compared as texts, everything else as numbers.\<close>

fun text_le :: "string \<Rightarrow> string \<Rightarrow> bool" where
  "text_le [] t = True"
| "text_le (c # s) [] = False"
| "text_le (c # s) (d # t) = ((of_char c :: nat) < of_char d \<or> c = d \<and> text_le s t)"

definition cfg_ge :: "cfg \<Rightarrow> cfg \<Rightarrow> bool" where
  "cfg_ge v w =
     (case (v, w) of
        (Txt s, Txt t) \<Rightarrow> text_le t s
      | _ \<Rightarrow> (case (num_of v, num_of w) of (Some a, Some b) \<Rightarrow> a \<ge> b | _ \<Rightarrow> False))"

subsection \<open>Configuration\<close>

record sec_config =
  sc_environment :: string
  sc_csrfSecret :: string
  sc_requestSecret :: string
  sc_allowedOrigins :: "string list"
  sc_csrfCookieName :: string
  sc_csrfHeaderName :: string
  sc_signatureHeaderName :: string
  sc_timestampHeaderName :: string
  sc_nonceHeaderName :: string
  sc_auditHeaderName :: string
  sc_jsonBodyLimit :: string
  sc_urlencodedBodyLimit :: string
  sc_maxContentLengthBytes :: nat
  sc_maxHeaderCount :: cfg
  sc_maxUrlLength :: cfg
  sc_maxParameterDepth :: cfg
  sc_blockSuspiciousRequests :: bool
  sc_scoreThreshold :: cfg
  sc_windowMs :: cfg
  sc_blockDurationMs :: cfg
  sc_csrfTtlMs :: cfg
  sc_signatureToleranceMs :: cfg
  sc_maxAuditBodyLength :: cfg
  sc_blockedIps :: "string list"
  sc_trustedIps :: "string list"
  sc_csrfExcluded :: "string list"

definition toList :: "string option \<Rightarrow> string list" where
  "toList value = filter (\<lambda>e. e \<noteq> []) (map trim (split_on CHR '','' (or_default value [])))"

definition toBytes :: "string \<Rightarrow> nat \<Rightarrow> nat" where
  "toBytes value fallback =
     (let ds = takeWhile is_digit (trim value); unit = lower (dropWhile is_digit (trim value))
      in if ds = [] then fallback
         else if unit = ''mb'' then digits_value ds * 1024 * 1024
         else if unit = ''kb'' then digits_value ds * 1024
         else if unit = ''b'' \<or> unit = [] then digits_value ds
         else fallback)"

definition strip_slash :: "string \<Rightarrow> string" where
  "strip_slash s = (if s \<noteq> [] \<and> last s = CHR ''/'' then butlast s else s)"

definition cfg_number :: "(string \<Rightarrow> string option) \<Rightarrow> string \<Rightarrow> nat \<Rightarrow> cfg" where
  "cfg_number get key d = (case get key of None \<Rightarrow> Num (rat_of_nat d) | Some s \<Rightarrow> Txt s)"

fun first_truthy :: "string option list \<Rightarrow> string \<Rightarrow> string" where
  "first_truthy [] d = d"
| "first_truthy (v # vs) d = (if truthy v then the v else first_truthy vs d)"

definition getApplicationSecurityConfig :: "(string \<Rightarrow> string option) \<Rightarrow> sec_config" where
  "getApplicationSecurityConfig get =
     \<lparr> sc_environment = coalesce (get ''NODE_ENV'') ''development'',
       sc_csrfSecret = first_truthy [get ''CSRF_SECRET'', get ''JWT_SECRET''] ''local-dev-csrf-secret'',
       sc_requestSecret = first_truthy [get ''REQUEST_SIGNATURE_SECRET'', get ''WEBHOOK_SECRET'', get ''JWT_SECRET'']
         ''local-dev-request-signature-secret'',
       sc_allowedOrigins = map strip_slash (toList (get ''CORS_ORIGIN'')),
       sc_csrfCookieName = coalesce (get ''CSRF_COOKIE_NAME'') ''__Host-csrf-token'',
       sc_csrfHeaderName = coalesce (get ''CSRF_HEADER_NAME'') ''x-csrf-token'',
       sc_signatureHeaderName = coalesce (get ''REQUEST_SIGNATURE_HEADER'') ''x-request-signature'',
       sc_timestampHeaderName = coalesce (get ''REQUEST_SIGNATURE_TIMESTAMP_HEADER'') ''x-signature-timestamp'',
       sc_nonceHeaderName = coalesce (get ''REQUEST_SIGNATURE_NONCE_HEADER'') ''x-signature-nonce'',
       sc_auditHeaderName = coalesce (get ''SECURITY_AUDIT_HEADER'') ''x-security-audit-id'',
       sc_jsonBodyLimit = coalesce (get ''SECURITY_JSON_BODY_LIMIT'') ''1mb'',
       sc_urlencodedBodyLimit = coalesce (get ''SECURITY_URLENCODED_BODY_LIMIT'') ''256kb'',
       sc_maxContentLengthBytes = toBytes (coalesce (get ''SECURITY_MAX_CONTENT_LENGTH'')
         (coalesce (get ''SECURITY_JSON_BODY_LIMIT'') ''1mb'')) (1024 * 1024),
       sc_maxHeaderCount = cfg_number get ''SECURITY_MAX_HEADERS'' 80,
       sc_maxUrlLength = cfg_number get ''SECURITY_MAX_URL_LENGTH'' 2048,
       sc_maxParameterDepth = cfg_number get ''SECURITY_MAX_PARAM_DEPTH'' 8,
       sc_blockSuspiciousRequests = (case get ''SECURITY_BLOCK_SUSPICIOUS'' of None \<Rightarrow> True | Some s \<Rightarrow> s \<noteq> []),
       sc_scoreThreshold = cfg_number get ''SECURITY_SUSPICIOUS_SCORE_THRESHOLD'' 5,
       sc_windowMs = cfg_number get ''SECURITY_SUSPICIOUS_WINDOW_MS'' (15 * 60 * 1000),
       sc_blockDurationMs = cfg_number get ''SECURITY_SUSPICIOUS_BLOCK_DURATION_MS'' (30 * 60 * 1000),
       sc_csrfTtlMs = cfg_number get ''CSRF_TTL_MS'' (2 * 60 * 60 * 1000),
       sc_signatureToleranceMs = cfg_number get ''REQUEST_SIGNATURE_TOLERANCE_MS'' (5 * 60 * 1000),
       sc_maxAuditBodyLength = cfg_number get ''SECURITY_AUDIT_BODY_MAX_LENGTH'' 1024,
       sc_blockedIps = toList (get ''SECURITY_BLOCKED_IPS''),
       sc_trustedIps = toList (get ''SECURITY_TRUSTED_IPS''),
       sc_csrfExcluded = [''/api/v1/webhooks'', ''/api/webhooks'', ''/api/docs''] \<rparr>"

subsection \<open>Requests\<close>

text \<open>Header names are in lower case, as Node delivers them.\<close>

record Request =
  rq_method :: string
  rq_originalUrl :: string
  rq_headers :: "(string \<times> string) list"
  rq_query :: json
  rq_body :: "json option"
  rq_ip :: "string option"
  rq_remoteAddress :: "string option"

definition header :: "string \<Rightarrow> Request \<Rightarrow> string option" where
  "header name req = map_of (rq_headers req) name"

text \<open>\<open>req.get(name)\<close>.\<close>

definition req_get :: "string \<Rightarrow> Request \<Rightarrow> string option" where
  "req_get name req =
     (if lower name = ''referer'' \<or> lower name = ''referrer''
      then (if truthy (header ''referrer'' req) then header ''referrer'' req else header ''referer'' req)
      else header (lower name) req)"

definition isSafeMethod :: "string \<Rightarrow> bool" where
  "isSafeMethod m \<longleftrightarrow> upper m \<in> {''GET'', ''HEAD'', ''OPTIONS''}"

definition getClientIp :: "Request \<Rightarrow> string" where
  "getClientIp req =
     (case header ''x-forwarded-for'' req of
        Some f \<Rightarrow> if trim f \<noteq> [] then trim (hd (split_on CHR '','' f))
                  else (case header ''x-real-ip'' req of
                          Some r \<Rightarrow> if trim r \<noteq> [] then trim r else first_truthy [rq_ip req, rq_remoteAddress req] ''unknown''
                        | None \<Rightarrow> first_truthy [rq_ip req, rq_remoteAddress req] ''unknown'')
      | None \<Rightarrow> (case header ''x-real-ip'' req of
                   Some r \<Rightarrow> if trim r \<noteq> [] then trim r else first_truthy [rq_ip req, rq_remoteAddress req] ''unknown''
                 | None \<Rightarrow> first_truthy [rq_ip req, rq_remoteAddress req] ''unknown''))"

subsection \<open>Cookies\<close>

definition cookie_part :: "string \<Rightarrow> (string \<times> string) option" where
  "cookie_part part =
     (let k = takeWhile (\<lambda>c. c \<noteq> CHR ''='') part
      in if k = part \<or> k = [] then None
         else (case (uri_decode (trim k), uri_decode (trim (drop (Suc (length k)) part))) of
                 (Some key, Some value) \<Rightarrow> Some (key, value)
               | _ \<Rightarrow> None))"

text \<open>Setting the property \<open>__proto__\<close> to a text leaves an object as it is.\<close>

definition add_cookie :: "string \<Rightarrow> (string \<times> string) list \<Rightarrow> (string \<times> string) list" where
  "add_cookie part acc =
     (case cookie_part part of
        None \<Rightarrow> acc
      | Some (key, value) \<Rightarrow> if key = ''__proto__'' then acc else AList.update key value acc)"

definition parseCookies :: "string option \<Rightarrow> (string \<times> string) list" where
  "parseCookies cookieHeader =
     (if \<not> truthy cookieHeader then [] else fold add_cookie (split_on CHR '';'' (the cookieHeader)) [])"

record cookie_options =
  co_maxAgeMs :: "cfg option"
  co_sameSite :: "string option"
  co_secure :: "bool option"
  co_path :: "string option"
  co_httpOnly :: bool

definition serializeCookie :: "(rat \<Rightarrow> string) \<Rightarrow> string \<Rightarrow> string \<Rightarrow> cookie_options \<Rightarrow> string" where
  "serializeCookie num name value options =
     join_with ''; ''
       ([uri_encode name @ ''='' @ uri_encode value,
         ''Path='' @ or_default (co_path options) ''/'',
         ''SameSite='' @ or_default (co_sameSite options) ''Strict'']
        @ (case co_maxAgeMs options of
             None \<Rightarrow> []
           | Some v \<Rightarrow> if cfg_truthy v
               then [''Max-Age='' @ (case num_of v of None \<Rightarrow> ''NaN''
                                    | Some n \<Rightarrow> show_number num (rat_of_int (max 1 (floor (n / 1000)))))]
               else [])
        @ (if co_secure options \<noteq> Some False then [''Secure''] else [])
        @ (if co_httpOnly options then [''HttpOnly''] else []))"

subsection \<open>Sanitisation\<close>

definition safeStringify :: "(json \<Rightarrow> string) \<Rightarrow> json option \<Rightarrow> string" where
  "safeStringify str v = str (case v of None \<Rightarrow> JObj [] | Some JNull \<Rightarrow> JObj [] | Some w \<Rightarrow> w)"

definition buildBodyHash :: "(string \<Rightarrow> byte list) \<Rightarrow> (json \<Rightarrow> string) \<Rightarrow> json option \<Rightarrow> string" where
  "buildBodyHash S str payload = to_hex (S (safeStringify str payload))"

definition control_char :: "char \<Rightarrow> bool" where
  "control_char c \<longleftrightarrow> (let n = of_char c :: nat in n \<le> 8 \<or> n = 11 \<or> n = 12 \<or> (14 \<le> n \<and> n \<le> 31) \<or> n = 127)"

definition re_script_open :: re where
  "re_script_open = seqs [liti ''<script'', WordB, Star (re_not CHR ''>''), lit ''>'']"

definition re_tag :: re where
  "re_tag = seqs [lit ''<'', some_of (re_not CHR ''>''), lit ''>'']"

definition re_handler :: re where
  "re_handler = seqs [liti ''on'', some_of re_word, Star re_space, lit ''='', Star re_space,
     Alt (seqs [lit [CHR 0x27], Lazy re_dot, lit [CHR 0x27]]) (seqs [lit [CHR 0x22], Lazy re_dot, lit [CHR 0x22]])]"

definition re_data :: re where
  "re_data = seqs [liti ''data:'', NotAhead (liti ''image/'')]"

definition sanitizePrimitiveString :: "string \<Rightarrow> string" where
  "sanitizePrimitiveString value =
     trim (replace_all re_handler []
       (replace_all re_data ''blocked-data:''
         (replace_all (liti ''vbscript:'') ''blocked-protocol:''
           (replace_all (liti ''javascript:'') ''blocked-protocol:''
             (replace_all re_tag []
               (replace_all (liti ''</script>'') []
                 (replace_all re_script_open []
                   (filter (\<lambda>c. \<not> control_char c) (filter (\<lambda>c. (of_char c :: nat) \<noteq> 0) value)))))))))"

definition dangerousKeys :: "string list" where
  "dangerousKeys = [''__proto__'', ''prototype'', ''constructor'', ''__defineGetter__'', ''__defineSetter__'',
     ''__lookupGetter__'', ''__lookupSetter__'']"

definition isDangerousKey :: "string \<Rightarrow> bool" where
  "isDangerousKey key \<longleftrightarrow> lower key \<in> set dangerousKeys \<or> includes_str (lower key) ''__proto__''"

fun sanitizeObjectDeep :: "cfg \<Rightarrow> nat \<Rightarrow> json \<Rightarrow> json" where
  "sanitizeObjectDeep maxDepth depth (JStr s) =
     (if cfg_lt maxDepth (rat_of_nat depth) then JStr s else JStr (sanitizePrimitiveString s))"
| "sanitizeObjectDeep maxDepth depth (JArr xs) =
     (if cfg_lt maxDepth (rat_of_nat depth) then JArr xs else JArr (map (sanitizeObjectDeep maxDepth (Suc depth)) xs))"
| "sanitizeObjectDeep maxDepth depth (JObj ps) =
     (if cfg_lt maxDepth (rat_of_nat depth) then JObj ps
      else JObj (map (\<lambda>(key, entry). (key, sanitizeObjectDeep maxDepth (Suc depth) entry))
                   (filter (\<lambda>(key, _). \<not> isDangerousKey key) ps)))"
| "sanitizeObjectDeep maxDepth depth v = v"

subsection \<open>Detection\<close>

datatype issue_category =
  csrf | signature | sqli | xss | path_traversal | template_injection | prototype_pollution | anomaly | ip_reputation

record SecurityIssue =
  si_category :: issue_category
  si_reason :: string
  si_score :: cfg

definition quote_re :: re where
  "quote_re = Alt (lit [CHR 0x27]) (liti ''%27'')"

definition sqlInjectionPatterns :: "re list" where
  "sqlInjectionPatterns =
     [seqs [WordB,
        alts [seqs [liti ''union'', maybe (seqs [some_of re_space, liti ''all'']), some_of re_space, liti ''select''],
              seqs [liti ''select'', some_of re_space, some_of re_dot, some_of re_space, liti ''from''],
              seqs [liti ''insert'', some_of re_space, liti ''into''],
              seqs [liti ''update'', some_of re_space, some_of re_word, some_of re_space, liti ''set''],
              seqs [liti ''delete'', some_of re_space, liti ''from''],
              seqs [liti ''drop'', some_of re_space, liti ''table''],
              seqs [liti ''alter'', some_of re_space, liti ''table''],
              seqs [liti ''sleep'', Star re_space, lit ''(''],
              seqs [liti ''benchmark'', Star re_space, lit ''(''],
              seqs [liti ''pg_sleep'', Star re_space, lit ''(''],
              liti ''xp_cmdshell''],
        WordB],
      seqs [quote_re, Star re_space, Alt (liti ''or'') (liti ''and''), Star re_space, maybe quote_re, some_of re_digit,
        maybe quote_re, Star re_space, lit ''='', Star re_space, maybe quote_re, some_of re_digit],
      seqs [alts [lit ''--'', lit ''#'', lit ''/*''], Star re_space, Eos]]"

definition re_on_handler :: re where
  "re_on_handler = seqs [liti ''on'', some_of re_word, Star re_space, lit ''='']"

definition xssPatterns :: "re list" where
  "xssPatterns =
     [re_script_open, liti ''</script>'', re_on_handler, liti ''javascript:'', seqs [liti ''<iframe'', WordB],
      seqs [liti ''<img'', WordB, Star (re_not CHR ''>''), liti ''onerror''],
      seqs [liti ''<svg'', WordB, Star (re_not CHR ''>''), liti ''onload'']]"

definition traversalPatterns :: "re list" where
  "traversalPatterns =
     [seqs [lit ''..'', Cls (\<lambda>c. c = CHR ''/'' \<or> c = CHR 0x5C)], liti ''%2e%2e%2f'', liti ''/etc/passwd'',
      liti (CHR 0x5C # ''windows'' @ [CHR 0x5C] @ ''system32'')]"

definition templateInjectionPatterns :: "re list" where
  "templateInjectionPatterns =
     [seqs [lit ''${'', some_of re_dot, lit ''}''], seqs [lit ''{{'', some_of re_dot, lit ''}}''],
      seqs [lit ''<%'', maybe (lit ''=''), some_of re_any, lit ''%>'']]"

definition issue :: "issue_category \<Rightarrow> string \<Rightarrow> nat \<Rightarrow> SecurityIssue" where
  "issue category reason score = \<lparr> si_category = category, si_reason = reason, si_score = Num (rat_of_nat score) \<rparr>"

definition detectSecurityIssues :: "(json \<Rightarrow> string) \<Rightarrow> json option \<Rightarrow> SecurityIssue list" where
  "detectSecurityIssues str value =
     (let candidate = (case value of Some (JStr s) \<Rightarrow> s | _ \<Rightarrow> safeStringify str value)
      in (if list_ex (\<lambda>p. re_test p candidate) sqlInjectionPatterns
          then [issue sqli ''SQL injection indicators detected in request payload'' 3] else [])
       @ (if list_ex (\<lambda>p. re_test p candidate) xssPatterns
          then [issue xss ''Cross-site scripting indicators detected in request payload'' 3] else [])
       @ (if list_ex (\<lambda>p. re_test p candidate) traversalPatterns
          then [issue path_traversal ''Path traversal indicators detected in request payload'' 2] else [])
       @ (if list_ex (\<lambda>p. re_test p candidate) templateInjectionPatterns
          then [issue template_injection ''Template injection indicators detected in request payload'' 2] else [])
       @ (if (case value of Some (JObj ps) \<Rightarrow> list_ex (\<lambda>p. isDangerousKey (fst p)) ps | _ \<Rightarrow> False)
          then [issue prototype_pollution ''Prototype pollution indicators detected in request payload'' 4] else []))"

subsection \<open>CSRF tokens\<close>

definition safeCompare :: "string \<Rightarrow> string \<Rightarrow> bool" where
  "safeCompare a b = (a = b)"

definition generateCsrfToken ::
    "(string \<Rightarrow> string \<Rightarrow> byte list) \<Rightarrow> (rat \<Rightarrow> string) \<Rightarrow> time \<Rightarrow> byte list \<Rightarrow> string \<Rightarrow> cfg \<Rightarrow> string" where
  "generateCsrfToken H num now random secret ttlMs =
     (let payload = show_int now @ ''.'' @ to_hex random
      in payload @ ''.'' @ to_hex (H secret payload) @ ''.'' @ cfg_text num ttlMs)"

definition nth_part :: "string list \<Rightarrow> nat \<Rightarrow> string option" where
  "nth_part xs i = (if i < length xs then Some (xs ! i) else None)"

definition verifyCsrfToken ::
    "(string \<Rightarrow> string \<Rightarrow> byte list) \<Rightarrow> (rat \<Rightarrow> string) \<Rightarrow> time \<Rightarrow> string \<Rightarrow> string \<Rightarrow> cfg \<Rightarrow> bool" where
  "verifyCsrfToken H num now tok secret ttlMs =
     (let parts = split_on CHR ''.'' tok;
          issuedAtRaw = nth_part parts 0; nonce = nth_part parts 1; signature = nth_part parts 2; tokenTtlRaw = nth_part parts 3
      in if \<not> truthy issuedAtRaw \<or> \<not> truthy nonce \<or> \<not> truthy signature then False
         else (case (js_number (the issuedAtRaw), (if truthy tokenTtlRaw then js_number (the tokenTtlRaw) else num_of ttlMs)) of
                 (Some issuedAt, Some tokenTtl) \<Rightarrow>
                   if rat_of_int now - issuedAt > tokenTtl then False
                   else (let payload = show_number num issuedAt @ ''.'' @ the nonce
                         in safeCompare (the signature) (to_hex (H secret payload)))
               | _ \<Rightarrow> False))"

subsection \<open>State\<close>

record SuspiciousEntry =
  se_score :: cfg
  se_expiresAt :: cfg
  se_blockedUntil :: "cfg option"
  se_lastReasons :: "string list"

record sec_state =
  suspiciousActivityStore :: "(string \<times> SuspiciousEntry) list"
  requestNonceStore :: "(string \<times> time) list"

subsection \<open>Signed requests\<close>

record signed_options =
  so_secret :: string
  so_signature :: string
  so_timestamp :: string
  so_nonce :: string
  so_method :: string
  so_path :: string
  so_body :: "json option"
  so_toleranceMs :: cfg

record RequestSignatureVerificationResult =
  sv_valid :: bool
  sv_reason :: "string option"
  sv_fingerprint :: "string option"

definition cleanupNonceStore :: "time \<Rightarrow> cfg \<Rightarrow> sec_state \<Rightarrow> sec_state" where
  "cleanupNonceStore now toleranceMs s =
     s\<lparr>requestNonceStore := filter (\<lambda>(_, createdAt). \<not> cfg_lt toleranceMs (rat_of_int (now - createdAt))) (requestNonceStore s)\<rparr>"

definition so_fingerprint :: "signed_options \<Rightarrow> string" where
  "so_fingerprint options = so_timestamp options @ '':'' @ so_nonce options"

definition verifyRequestSignature ::
    "(string \<Rightarrow> string \<Rightarrow> byte list) \<Rightarrow> (string \<Rightarrow> byte list) \<Rightarrow> (json \<Rightarrow> string) \<Rightarrow> time \<Rightarrow> signed_options \<Rightarrow> sec_state
     \<Rightarrow> RequestSignatureVerificationResult \<times> sec_state" where
  "verifyRequestSignature H S str now options s =
     (case js_number (so_timestamp options) of
        None \<Rightarrow> (\<lparr> sv_valid = False, sv_reason = Some ''Invalid signature timestamp'', sv_fingerprint = None \<rparr>, s)
      | Some requestTimestamp \<Rightarrow>
          if cfg_lt (so_toleranceMs options) \<bar>rat_of_int now - requestTimestamp\<bar>
          then (\<lparr> sv_valid = False, sv_reason = Some ''Expired signature timestamp'', sv_fingerprint = None \<rparr>, s)
          else
            (let fingerprint = so_fingerprint options
             in if (case map_of (requestNonceStore s) fingerprint of
                      None \<Rightarrow> False
                    | Some seen \<Rightarrow> seen \<noteq> 0 \<and> cfg_gt (so_toleranceMs options) (rat_of_int (now - seen)))
                then (\<lparr> sv_valid = False, sv_reason = Some ''Replayed request signature'', sv_fingerprint = Some fingerprint \<rparr>, s)
                else
                  (let rawSignature = (if lower (take 7 (so_signature options)) = ''sha256='' then drop 7 (so_signature options)
                                       else so_signature options);
                       payload = join_with ''.'' [so_timestamp options, so_nonce options, upper (so_method options),
                         so_path options, buildBodyHash S str (so_body options)]
                   in if \<not> safeCompare rawSignature (to_hex (H (so_secret options) payload))
                      then (\<lparr> sv_valid = False, sv_reason = Some ''Invalid request signature'', sv_fingerprint = Some fingerprint \<rparr>, s)
                      else (\<lparr> sv_valid = True, sv_reason = None, sv_fingerprint = Some fingerprint \<rparr>,
                            cleanupNonceStore now (so_toleranceMs options)
                              (s\<lparr>requestNonceStore := AList.update fingerprint now (requestNonceStore s)\<rparr>)))))"

subsection \<open>Suspicious activity\<close>

definition cleanupSuspiciousStore :: "time \<Rightarrow> sec_state \<Rightarrow> sec_state" where
  "cleanupSuspiciousStore now s =
     s\<lparr>suspiciousActivityStore := filter (\<lambda>(_, e). \<not> (cfg_le (se_expiresAt e) (rat_of_int now)
         \<and> (case se_blockedUntil e of None \<Rightarrow> True | Some b \<Rightarrow> \<not> cfg_truthy b \<or> cfg_le b (rat_of_int now))))
       (suspiciousActivityStore s)\<rparr>"

definition entry_blocks :: "time \<Rightarrow> SuspiciousEntry \<Rightarrow> bool" where
  "entry_blocks now e = (case se_blockedUntil e of None \<Rightarrow> False | Some b \<Rightarrow> cfg_truthy b \<and> cfg_gt b (rat_of_int now))"

record activity_options =
  ao_key :: string
  ao_issues :: "SecurityIssue list"
  ao_threshold :: cfg
  ao_windowMs :: cfg
  ao_blockDurationMs :: cfg

definition recordSuspiciousActivity ::
    "(rat \<Rightarrow> string) \<Rightarrow> time \<Rightarrow> activity_options \<Rightarrow> sec_state \<Rightarrow> (cfg \<times> bool \<times> cfg option) \<times> sec_state" where
  "recordSuspiciousActivity num now options s =
     (let currentTime = Num (rat_of_int now);
          fresh = \<lparr> se_score = Num 0, se_expiresAt = js_plus num currentTime (ao_windowMs options), se_blockedUntil = None,
                    se_lastReasons = [] \<rparr>;
          entry0 = (case map_of (suspiciousActivityStore s) (ao_key options) of
                      Some existing \<Rightarrow> if cfg_gt (se_expiresAt existing) (rat_of_int now) then existing else fresh
                    | None \<Rightarrow> fresh);
          totalIssueScore = foldl (\<lambda>sum i. js_plus num sum (si_score i)) (Num 0) (ao_issues options);
          score = js_plus num (se_score entry0) totalIssueScore;
          reasons = map si_reason (ao_issues options);
          entry = entry0\<lparr>se_score := score, se_expiresAt := js_plus num currentTime (ao_windowMs options),
                    se_lastReasons := drop (length reasons - 5) reasons,
                    se_blockedUntil := (if cfg_ge score (ao_threshold options)
                                        then Some (js_plus num currentTime (ao_blockDurationMs options))
                                        else se_blockedUntil entry0)\<rparr>
      in ((se_score entry, entry_blocks now entry, se_blockedUntil entry),
          cleanupSuspiciousStore now
            (s\<lparr>suspiciousActivityStore := AList.update (ao_key options) entry (suspiciousActivityStore s)\<rparr>)))"

definition isIpBlockedByActivity :: "time \<Rightarrow> string \<Rightarrow> sec_state \<Rightarrow> bool" where
  "isIpBlockedByActivity now key s =
     (case map_of (suspiciousActivityStore s) key of None \<Rightarrow> False | Some e \<Rightarrow> entry_blocks now e)"

subsection \<open>Addresses\<close>

definition ipv4ToNumber :: "string \<Rightarrow> 32 word option" where
  "ipv4ToNumber ip =
     (let parts = map js_number (split_on CHR ''.'' ip)
      in if length parts \<noteq> 4
            \<or> list_ex (\<lambda>p. case p of None \<Rightarrow> True | Some n \<Rightarrow> of_int (floor n) \<noteq> n \<or> n < 0 \<or> n > 255) parts
         then None
         else (let part = (\<lambda>i. word_of_int (floor (the (parts ! i)))) :: nat \<Rightarrow> 32 word
               in Some (push_bit 24 (part 0) + push_bit 16 (part 1) + push_bit 8 (part 2) + part 3)))"

text \<open>The operator \<open><<\<close>: the count is cut to an integer and only its last five bits are used.\<close>

definition js_shl :: "32 word \<Rightarrow> rat \<Rightarrow> 32 word" where
  "js_shl w n = push_bit (nat (floor n mod 32)) w"

definition ipMatchesRule :: "string \<Rightarrow> string \<Rightarrow> bool" where
  "ipMatchesRule ip rule =
     (if CHR ''/'' \<notin> set rule then ip = rule
      else (let parts = split_on CHR ''/'' rule; baseIp = parts ! 0
            in case js_number (parts ! 1) of
                 None \<Rightarrow> False
               | Some prefix \<Rightarrow>
                   if prefix < 0 \<or> prefix > 32 then False
                   else (case (ipv4ToNumber ip, ipv4ToNumber baseIp) of
                           (Some ipBinary, Some baseBinary) \<Rightarrow>
                             (let mask = (if prefix = 0 then 0 else js_shl (NOT 0) (32 - prefix))
                              in ipBinary AND mask = baseBinary AND mask)
                         | _ \<Rightarrow> False)))"

definition isIpBlockedByReputation :: "string \<Rightarrow> string list \<Rightarrow> string list \<Rightarrow> bool" where
  "isIpBlockedByReputation ip blockedIps trustedIps =
     (if ip = [] \<or> ip \<in> set trustedIps then False else list_ex (ipMatchesRule ip) blockedIps)"

definition extractAuditPayload :: "(json \<Rightarrow> string) \<Rightarrow> json option \<Rightarrow> nat \<Rightarrow> string option" where
  "extractAuditPayload str body maxLength =
     (let serialized = safeStringify str body
      in if serialized = [] \<or> serialized = ''{}'' then None
         else Some (if length serialized > maxLength then take maxLength serialized @ ''...[truncated]'' else serialized))"

end
