(* ===== verification/SecurityMiddleware.thy ===== *)
theory SecurityMiddleware
  imports Security
begin

text \<open>
  \<open>BackEnd/src/common/middleware/security.middleware.ts\<close>, \<open>guards/csrf.guard.ts\<close> and
  \<open>pipes/sanitization.pipe.ts\<close>.  A response is its headers, its cookies and the security context;
  a header set twice keeps its last value.  The log lines are not modelled.
\<close>

record security_context =
  cx_auditId :: string
  cx_ipAddress :: string
  cx_signatureVerified :: bool
  cx_signatureFingerprint :: "string option"

record Response =
  rs_headers :: "(string \<times> string) list"
  rs_cookies :: "string list"
  rs_context :: "security_context option"

record sec_env =
  sn_now :: time
  sn_auditId :: string
  sn_random :: "byte list"
  sn_hmac :: "string \<Rightarrow> string \<Rightarrow> byte list"
  sn_sha :: "string \<Rightarrow> byte list"
  sn_stringify :: "json \<Rightarrow> string"
  sn_number :: "rat \<Rightarrow> string"

definition setHeader :: "string \<Rightarrow> string \<Rightarrow> Response \<Rightarrow> Response" where
  "setHeader name value res = res\<lparr>rs_headers := AList.update (lower name) value (rs_headers res)\<rparr>"

definition setAdditionalSecurityHeaders :: "Response \<Rightarrow> Response" where
  "setAdditionalSecurityHeaders res =
     (let r1 = setHeader ''Permissions-Policy'' ''camera=(), geolocation=(), microphone=()''
            (setHeader ''Referrer-Policy'' ''strict-origin-when-cross-origin''
              (setHeader ''X-XSS-Protection'' ''1; mode=block''
                (setHeader ''X-Frame-Options'' ''DENY''
                  (setHeader ''X-Content-Type-Options'' ''nosniff'' res))));
          r2 = r1\<lparr>rs_headers := AList.delete ''x-powered-by'' (rs_headers r1)\<rparr>
      in if truthy (map_of (rs_headers r2) ''strict-transport-security'') then r2
         else setHeader ''Strict-Transport-Security'' ''max-age=31536000; includeSubDomains; preload'' r2)"

definition enforceRequestConstraints :: "Request \<Rightarrow> nat \<Rightarrow> cfg \<Rightarrow> cfg \<Rightarrow> exn + unit" where
  "enforceRequestConstraints req maxContentLengthBytes maxHeaderCount maxUrlLength =
     (let contentLength = (case header ''content-length'' req of None \<Rightarrow> None | Some t \<Rightarrow> js_number t);
          contentType = req_get ''content-type'' req
      in if contentLength \<noteq> None \<and> the contentLength > rat_of_nat maxContentLengthBytes
         then Inl (PayloadTooLargeException ''Request payload exceeds configured size limit'')
         else if cfg_lt maxHeaderCount (rat_of_nat (length (rq_headers req)))
         then Inl (BadRequestException ''Request contains too many headers'')
         else if cfg_lt maxUrlLength (rat_of_nat (length (rq_originalUrl req)))
         then Inl (BadRequestException ''Request URL exceeds allowed length'')
         else if \<not> isSafeMethod (rq_method req) \<and> truthy contentType
              \<and> \<not> includes_str (the contentType) ''application/json''
              \<and> \<not> includes_str (the contentType) ''application/x-www-form-urlencoded''
              \<and> \<not> includes_str (the contentType) ''multipart/form-data''
         then Inl (BadRequestException ''Unsupported content type'')
         else Inr ())"

definition enforceIpReputation :: "string \<Rightarrow> string list \<Rightarrow> string list \<Rightarrow> exn + unit" where
  "enforceIpReputation ipAddress blockedIps trustedIps =
     (if isIpBlockedByReputation ipAddress blockedIps trustedIps
      then Inl (ForbiddenException ''Request blocked by IP reputation policy'') else Inr ())"

definition sanitizeQueryParams :: "Request \<Rightarrow> cfg \<Rightarrow> Request" where
  "sanitizeQueryParams req maxDepth = req\<lparr>rq_query := sanitizeObjectDeep maxDepth 0 (rq_query req)\<rparr>"

definition collectIssues :: "sec_env \<Rightarrow> sec_config \<Rightarrow> Request \<Rightarrow> string \<Rightarrow> sec_state \<Rightarrow> SecurityIssue list" where
  "collectIssues env config req ipAddress s =
     (let userAgent = or_default (req_get ''user-agent'' req) []
      in detectSecurityIssues (sn_stringify env) (Some (JStr (rq_originalUrl req)))
         @ detectSecurityIssues (sn_stringify env) (Some (rq_query req))
         @ detectSecurityIssues (sn_stringify env) (rq_body req)
         @ detectSecurityIssues (sn_stringify env) (Some (JStr (or_default (header ''user-agent'' req) [])))
         @ (if length userAgent < 6 then [issue anomaly ''Missing or suspiciously short user-agent header'' 1] else [])
         @ (if isIpBlockedByActivity (sn_now env) ipAddress s
            then [\<lparr> si_category = anomaly, si_reason = ''IP is temporarily blocked after repeated suspicious requests'',
                   si_score = sc_scoreThreshold config \<rparr>] else []))"

definition verifyOptionalRequestSignature ::
    "sec_env \<Rightarrow> sec_config \<Rightarrow> Request \<Rightarrow> sec_state \<Rightarrow> (sec_state, bool \<times> string option) outcome" where
  "verifyOptionalRequestSignature env config req s =
     (let signature = req_get (sc_signatureHeaderName config) req;
          timestamp = req_get (sc_timestampHeaderName config) req;
          nonce = req_get (sc_nonceHeaderName config) req
      in if \<not> truthy signature \<and> \<not> truthy timestamp \<and> \<not> truthy nonce then (Inr (False, None), s)
         else if \<not> truthy signature \<or> \<not> truthy timestamp \<or> \<not> truthy nonce
         then (Inl (UnauthorizedException ''Invalid request signature''), s)
         else (case verifyRequestSignature (sn_hmac env) (sn_sha env) (sn_stringify env) (sn_now env)
                      \<lparr> so_secret = sc_requestSecret config, so_signature = the signature, so_timestamp = the timestamp,
                        so_nonce = the nonce, so_method = rq_method req, so_path = rq_originalUrl req,
                        so_body = rq_body req, so_toleranceMs = sc_signatureToleranceMs config \<rparr> s of
                 (verification, s1) \<Rightarrow>
                   if \<not> sv_valid verification then (Inl (UnauthorizedException ''Invalid request signature''), s1)
                   else (Inr (True, sv_fingerprint verification), s1)))"

definition issueCsrfTokenIfNeeded :: "sec_env \<Rightarrow> sec_config \<Rightarrow> Request \<Rightarrow> Response \<Rightarrow> Response" where
  "issueCsrfTokenIfNeeded env config req res =
     (if \<not> isSafeMethod (rq_method req) then res
      else (let existingToken = map_of (parseCookies (header ''cookie'' req)) (sc_csrfCookieName config);
                tok = (if truthy existingToken then the existingToken
                       else generateCsrfToken (sn_hmac env) (sn_number env) (sn_now env) (sn_random env)
                              (sc_csrfSecret config) (sc_csrfTtlMs config));
                r1 = setHeader (sc_csrfHeaderName config) tok res
            in if truthy existingToken then r1
               else r1\<lparr>rs_cookies := rs_cookies r1 @
                 [serializeCookie (sn_number env) (sc_csrfCookieName config) tok
                    \<lparr> co_maxAgeMs = Some (sc_csrfTtlMs config), co_sameSite = Some ''Strict'',
                      co_secure = Some (sc_environment config = ''production''), co_path = Some ''/'', co_httpOnly = False \<rparr>]\<rparr>))"

text \<open>\<open>use\<close>: the request the next handler gets and the response so far, or the exception.\<close>

definition use_middleware ::
    "sec_env \<Rightarrow> sec_config \<Rightarrow> Request \<Rightarrow> Response \<Rightarrow> sec_state \<Rightarrow> (sec_state, Request \<times> Response) outcome" where
  "use_middleware env config req res s =
     (let ipAddress = getClientIp req;
          r1 = setAdditionalSecurityHeaders (setHeader (sc_auditHeaderName config) (sn_auditId env) res)
      in case enforceRequestConstraints req (sc_maxContentLengthBytes config) (sc_maxHeaderCount config) (sc_maxUrlLength config) of
           Inl e \<Rightarrow> (Inl e, s)
         | Inr _ \<Rightarrow>
      (case enforceIpReputation ipAddress (sc_blockedIps config) (sc_trustedIps config) of
           Inl e \<Rightarrow> (Inl e, s)
         | Inr _ \<Rightarrow>
      (let req1 = sanitizeQueryParams req (sc_maxParameterDepth config);
           issues = collectIssues env config req1 ipAddress s;
           (activity, s1) = (if issues \<noteq> []
             then recordSuspiciousActivity (sn_number env) (sn_now env)
                    \<lparr> ao_key = ipAddress, ao_issues = issues, ao_threshold = sc_scoreThreshold config,
                      ao_windowMs = sc_windowMs config, ao_blockDurationMs = sc_blockDurationMs config \<rparr> s
             else ((Num 0, False, None), s))
       in if isIpBlockedByActivity (sn_now env) ipAddress s1 \<or> fst (snd activity)
          then (Inl (ForbiddenException ''Suspicious activity threshold exceeded''), s1)
          else (case verifyOptionalRequestSignature env config req1 s1 of
                  (Inl e, s2) \<Rightarrow> (Inl e, s2)
                | (Inr (verified, fingerprint), s2) \<Rightarrow>
                    (let r2 = issueCsrfTokenIfNeeded env config req1
                           (r1\<lparr>rs_context := Some \<lparr> cx_auditId = sn_auditId env, cx_ipAddress = ipAddress,
                                cx_signatureVerified = verified, cx_signatureFingerprint = fingerprint \<rparr>\<rparr>)
                     in if issues \<noteq> [] \<and> sc_blockSuspiciousRequests config
                            \<and> list_ex (\<lambda>i. cfg_ge (si_score i) (Num 3)) issues
                        then (Inl (BadRequestException ''Suspicious request blocked by security policy''), s2)
                        else (Inr (req1, r2), s2))))))"

subsection \<open>The CSRF guard\<close>

definition requiresCsrfValidation :: "Request \<Rightarrow> bool" where
  "requiresCsrfValidation req \<longleftrightarrow>
     truthy (header ''cookie'' req) \<or> truthy (req_get ''origin'' req) \<or> truthy (req_get ''referer'' req)
     \<or> (truthy (req_get ''sec-fetch-site'' req) \<and> req_get ''sec-fetch-site'' req \<noteq> Some ''same-origin''
        \<and> req_get ''sec-fetch-site'' req \<noteq> Some ''same-site'')"

definition isAllowedOrigin :: "string \<Rightarrow> string list \<Rightarrow> bool" where
  "isAllowedOrigin origin allowedOrigins = (if allowedOrigins = [] then True else strip_slash origin \<in> set allowedOrigins)"

definition csrf_guard :: "sec_env \<Rightarrow> sec_config \<Rightarrow> security_context option \<Rightarrow> Request \<Rightarrow> exn + bool" where
  "csrf_guard env config context req =
     (if isSafeMethod (rq_method req) then Inr True
      else if list_ex (starts_with (rq_originalUrl req)) (sc_csrfExcluded config) then Inr True
      else if (case context of None \<Rightarrow> False | Some c \<Rightarrow> cx_signatureVerified c) then Inr True
      else if \<not> requiresCsrfValidation req then Inr True
      else (let cookieToken = map_of (parseCookies (header ''cookie'' req)) (sc_csrfCookieName config);
                headerToken = req_get (sc_csrfHeaderName config) req;
                origin = req_get ''origin'' req
            in if \<not> truthy cookieToken \<or> \<not> truthy headerToken \<or> cookieToken \<noteq> headerToken
               then Inl (ForbiddenException ''Invalid CSRF token'')
               else if \<not> verifyCsrfToken (sn_hmac env) (sn_number env) (sn_now env) (the headerToken) (sc_csrfSecret config)
                        (sc_csrfTtlMs config)
               then Inl (ForbiddenException ''Invalid CSRF token'')
               else if truthy origin \<and> \<not> isAllowedOrigin (the origin) (sc_allowedOrigins config)
               then Inl (ForbiddenException ''Untrusted request origin'')
               else Inr True))"

subsection \<open>The sanitization pipe\<close>

definition pipe_transform :: "json option \<Rightarrow> json option" where
  "pipe_transform value =
     (case value of
        None \<Rightarrow> None
      | Some JNull \<Rightarrow> value
      | Some (JBool False) \<Rightarrow> value
      | Some (JStr []) \<Rightarrow> value
      | Some v \<Rightarrow> Some (sanitizeObjectDeep (Num 10) 0 v))"

end
