(* ===== verification/SecurityProps.thy ===== *)
theory SecurityProps
  imports SecurityMiddleware
begin

text \<open>
  Address rules are prefixes of addresses; what a CSRF token and a signed request are good for, and for how
  long; what sanitising leaves of a payload; who decides the address a request is judged by.
\<close>

unbundle bit_operations_syntax

subsection \<open>Address rules\<close>

definition dotted :: "nat \<Rightarrow> nat \<Rightarrow> nat \<Rightarrow> nat \<Rightarrow> string" where
  "dotted a b c d = show_nat a @ CHR ''.'' # show_nat b @ CHR ''.'' # show_nat c @ CHR ''.'' # show_nat d"

definition quad :: "nat \<Rightarrow> nat \<Rightarrow> nat \<Rightarrow> nat \<Rightarrow> nat" where
  "quad a b c d = a * 2 ^ 24 + b * 2 ^ 16 + c * 2 ^ 8 + d"

lemma show_nat_no: "\<not> is_digit x \<Longrightarrow> x \<notin> set (show_nat n)"
  using show_nat_digits [of n] by blast

lemma js_number_show: "js_number (show_nat n) = Some (rat_of_nat n)"
  using show_nat_digits [of n] by (simp add: js_number_digits)

lemma dot_slash_digit: "\<not> is_digit CHR ''.''" "\<not> is_digit CHR ''/''"
  by (simp_all add: is_digit_def)

lemma split_dotted: "split_on CHR ''.'' (dotted a b c d) = [show_nat a, show_nat b, show_nat c, show_nat d]"
  unfolding dotted_def by (simp add: split_on_at split_on_none show_nat_no dot_slash_digit)

lemma word_quad:
  "push_bit 24 (word_of_nat a) + push_bit 16 (word_of_nat b) + push_bit 8 (word_of_nat c) + word_of_nat d
     = (word_of_nat (quad a b c d) :: 32 word)"
  by (simp add: quad_def push_bit_eq_mult)

lemma ipv4_dotted:
  assumes "a < 256" "b < 256" "c < 256" "d < 256"
  shows "ipv4ToNumber (dotted a b c d) = Some (word_of_nat (quad a b c d))"
proof -
  have "\<exists>m. rat_of_nat n = rat_of_int m" for n by (intro exI [of _ "int n"]) simp
  then show ?thesis
    using assms by (simp add: ipv4ToNumber_def split_dotted js_number_show Let_def word_quad [symmetric])
qed

lemma unat_quad:
  assumes "a < 256" "b < 256" "c < 256" "d < 256"
  shows "unat (word_of_nat (quad a b c d) :: 32 word) = quad a b c d"
proof -
  have "quad a b c d < 2 ^ LENGTH(32)" using assms by (simp add: quad_def)
  then show ?thesis by (simp add: unsigned_of_nat take_bit_nat_eq_self)
qed

lemma masked_eq:
  assumes "k < 32"
  shows "(x :: 32 word) AND push_bit k (NOT 0) = y AND push_bit k (NOT 0) \<longleftrightarrow> unat x div 2 ^ k = unat y div 2 ^ k"
proof -
  have "x AND push_bit k (NOT 0) = y AND push_bit k (NOT 0) \<longleftrightarrow> drop_bit k x = drop_bit k y"
  proof
    assume eq: "x AND push_bit k (NOT 0) = y AND push_bit k (NOT 0)"
    show "drop_bit k x = drop_bit k y"
    proof (rule bit_word_eqI)
      fix n assume "n < LENGTH(32)"
      have "bit (x AND push_bit k (NOT 0)) (k + n) = bit (y AND push_bit k (NOT 0)) (k + n)"
        by (rule arg_cong [OF eq])
      then show "bit (drop_bit k x) n = bit (drop_bit k y) n"
        by (auto simp: bit_simps dest: bit_imp_le_length)
    qed
  next
    assume eq: "drop_bit k x = drop_bit k y"
    show "x AND push_bit k (NOT 0) = y AND push_bit k (NOT 0)"
    proof (rule bit_word_eqI)
      fix n assume "n < LENGTH(32)"
      have "bit (drop_bit k x) (n - k) = bit (drop_bit k y) (n - k)" by (rule arg_cong [OF eq])
      then show "bit (x AND push_bit k (NOT 0)) n = bit (y AND push_bit k (NOT 0)) n"
        by (auto simp: bit_simps)
    qed
  qed
  also have "\<dots> \<longleftrightarrow> unat x div 2 ^ k = unat y div 2 ^ k"
    by (simp only: word_unat_eq_iff unat_drop_bit_eq) (simp only: drop_bit_eq_div)
  finally show ?thesis .
qed

lemma js_shl_32: "p \<le> 32 \<Longrightarrow> 0 < p \<Longrightarrow> js_shl w (32 - rat_of_nat p) = push_bit (32 - p) w"
proof -
  assume p: "p \<le> 32" "0 < p"
  have "floor (32 - rat_of_nat p) = int (32 - p)" using p by (simp add: of_nat_diff floor_eq_iff)
  moreover have "int (32 - p) mod 32 = int (32 - p)" using p by (intro mod_pos_pos_trivial) auto
  ultimately have "nat (floor (32 - rat_of_nat p) mod 32) = 32 - p" by (simp only: nat_int)
  then show ?thesis by (simp only: js_shl_def)
qed

text \<open>
  Claim C17.  The bitwise test of an address against a rule \<open>base/p\<close> is arithmetic on the addresses as
  numbers: it holds exactly when they agree after division by two to the power \<open>32 - p\<close>, for every prefix
  length from 0 to 32 - the length 0, for which the operator would shift by none, included.
\<close>
theorem ip_rule_exact:
  assumes "a < 256" "b < 256" "c < 256" "d < 256" and "e < 256" "f < 256" "g < 256" "h < 256" and "p \<le> 32"
  shows "ipMatchesRule (dotted a b c d) (dotted e f g h @ CHR ''/'' # show_nat p)
    \<longleftrightarrow> quad a b c d div 2 ^ (32 - p) = quad e f g h div 2 ^ (32 - p)"
proof -
  have "CHR ''/'' \<notin> set (dotted e f g h)" by (simp add: dotted_def show_nat_no dot_slash_digit)
  then have split: "split_on CHR ''/'' (dotted e f g h @ CHR ''/'' # show_nat p) = [dotted e f g h, show_nat p]"
    by (simp add: split_on_at split_on_none show_nat_no dot_slash_digit)
  show ?thesis
  proof (cases "p = 0")
    case True
    have "quad a b c d < 2 ^ 32" "quad e f g h < 2 ^ 32" using assms by (simp_all add: quad_def)
    with True show ?thesis
      using assms by (simp add: ipMatchesRule_def split [unfolded True] js_number_show Let_def ipv4_dotted del: show_nat.simps)
  next
    case False
    with assms(9) have "js_shl (NOT 0) (32 - rat_of_nat p) = push_bit (32 - p) (NOT 0)" by (simp add: js_shl_32)
    then show ?thesis
      using False assms masked_eq [of "32 - p" "word_of_nat (quad a b c d)" "word_of_nat (quad e f g h)"]
      by (simp add: ipMatchesRule_def split js_number_show Let_def ipv4_dotted unat_quad del: show_nat.simps of_nat_diff)
  qed
qed

theorem ip_rule_exact_witness:
  "ipMatchesRule (dotted 10 1 2 3) (dotted 10 1 0 0 @ CHR ''/'' # show_nat 16) \<and> \<not> ipMatchesRule (dotted 10 2 2 3) (dotted 10 1 0 0 @ CHR ''/'' # show_nat 16)"
  by (simp add: ip_rule_exact del: show_nat.simps) (simp add: quad_def)

text \<open>A rule that ends after its slash blocks every address that can be read.\<close>

lemma empty_prefix_blocks_all:
  assumes "a < 256" "b < 256" "c < 256" "d < 256"
  shows "ipMatchesRule (dotted a b c d) (dotted a' b' c' d' @ ''/'') \<longleftrightarrow> ipv4ToNumber (dotted a' b' c' d') \<noteq> None"
proof -
  have "CHR ''/'' \<notin> set (dotted a' b' c' d')" by (simp add: dotted_def show_nat_no dot_slash_digit)
  then have "split_on CHR ''/'' (dotted a' b' c' d' @ ''/'') = [dotted a' b' c' d', []]"
    using split_on_at [of "CHR ''/''" "dotted a' b' c' d'" "[]"] by simp
  then show ?thesis
    using assms by (auto simp: ipMatchesRule_def Let_def ipv4_dotted js_number_def trim_def split: option.splits)
qed

subsection \<open>CSRF tokens\<close>

lemma show_number_nat: "n < 10 ^ 21 \<Longrightarrow> show_number num (rat_of_nat n) = show_nat n"
proof -
  assume "n < 10 ^ 21"
  then have "rat_of_nat n < rat_of_nat (10 ^ 21)" by (simp only: of_nat_less_iff)
  then show ?thesis by (simp add: show_number_def show_int_def del: show_nat.simps)
qed

lemma truthy_digits: "truthy (Some (show_nat n))"
  using show_nat_digits [of n] by simp

lemma to_hex_ne: "bs \<noteq> [] \<Longrightarrow> to_hex bs \<noteq> []"
  by (cases bs) auto

text \<open>
  The lifetime of a CSRF token is whatever its fourth part says: the signature covers only
  the first three, so a client can replace the time the server wrote by any other, and the token is then
  accepted for exactly that long after it was issued, whatever lifetime the server is configured with.
\<close>
theorem csrf_lifetime_from_token:
  assumes "0 \<le> t" and "t < 10 ^ 21" and "random \<noteq> []" and "\<forall>k m. H k m \<noteq> []"
  shows "generateCsrfToken H num t random secret (Txt x) = generateCsrfToken H num t random secret (Txt []) @ x
    \<and> (verifyCsrfToken H num now (generateCsrfToken H num t random secret (Txt []) @ show_nat T) secret ttlMs
      \<longleftrightarrow> now - t \<le> int T)"
proof -
  have app: "generateCsrfToken H num t random secret (Txt x) = generateCsrfToken H num t random secret (Txt []) @ x" for x
    by (simp add: generateCsrfToken_def Let_def)
  let ?i = "show_nat (nat t)" and ?r = "to_hex random"
  let ?h = "to_hex (H secret (?i @ ''.'' @ ?r))"
  have tok: "generateCsrfToken H num t random secret (Txt []) @ show_nat T
      = ?i @ CHR ''.'' # ?r @ CHR ''.'' # ?h @ CHR ''.'' # show_nat T"
    using assms(1) by (simp add: generateCsrfToken_def Let_def show_int_def del: show_nat.simps)
  have parts: "split_on CHR ''.'' (?i @ CHR ''.'' # ?r @ CHR ''.'' # ?h @ CHR ''.'' # show_nat T) = [?i, ?r, ?h, show_nat T]"
    by (simp add: split_on_at split_on_none show_nat_no dot_slash_digit to_hex_no_dot del: show_nat.simps)
  have "nat t < 10 ^ 21" using assms(1,2) by simp
  then have num: "show_number num (rat_of_nat (nat t)) = ?i" by (rule show_number_nat)
  have "rat_of_int now - rat_of_nat (nat t) \<le> rat_of_nat T \<longleftrightarrow> now - t \<le> int T"
  proof -
    have "rat_of_int now - rat_of_nat (nat t) = rat_of_int (now - t)" using assms(1) by (simp add: of_nat_nat)
    then show ?thesis by (metis of_int_le_iff of_int_of_nat_eq)
  qed
  then have "verifyCsrfToken H num now (generateCsrfToken H num t random secret (Txt []) @ show_nat T) secret ttlMs
      \<longleftrightarrow> now - t \<le> int T"
    unfolding tok verifyCsrfToken_def Let_def parts
    using assms(3,4) truthy_digits num by (simp add: nth_part_def js_number_show to_hex_ne safeCompare_def del: show_nat.simps)
      (metis not_le)
  with app show ?thesis by blast
qed

theorem csrf_lifetime_from_token_witness:
  "verifyCsrfToken (\<lambda>k m. [1]) (\<lambda>r. []) 4000000000000
     (generateCsrfToken (\<lambda>k m. [1]) (\<lambda>r. []) 1700000000000 [7] ''key'' (Txt []) @ show_nat 9999999999999) ''key'' (Num 7200000)"
  by (subst csrf_lifetime_from_token [THEN conjunct2]) simp_all

subsection \<open>Replays of signed requests\<close>

type_synonym verifier = "time \<Rightarrow> signed_options \<Rightarrow> sec_state \<Rightarrow> RequestSignatureVerificationResult \<times> sec_state"

definition nonce_of :: "signed_options \<Rightarrow> sec_state \<Rightarrow> time option" where
  "nonce_of o' s = map_of (requestNonceStore s) (so_fingerprint o')"

definition signed_ok ::
    "(string \<Rightarrow> string \<Rightarrow> byte list) \<Rightarrow> (string \<Rightarrow> byte list) \<Rightarrow> (json \<Rightarrow> string) \<Rightarrow> signed_options \<Rightarrow> bool" where
  "signed_ok H S str options =
     safeCompare (if lower (take 7 (so_signature options)) = ''sha256='' then drop 7 (so_signature options) else so_signature options)
       (to_hex (H (so_secret options) (join_with ''.'' [so_timestamp options, so_nonce options, upper (so_method options),
          so_path options, buildBodyHash S str (so_body options)])))"

text \<open>A verification in one equation.\<close>

lemma verify_valid:
  assumes "num_of (so_toleranceMs o') = Some w" and "js_number (so_timestamp o') = Some T"
  shows "sv_valid (fst (verifyRequestSignature H S str now o' s)) \<longleftrightarrow>
    \<bar>rat_of_int now - T\<bar> \<le> w \<and> signed_ok H S str o'
    \<and> (case nonce_of o' s of None \<Rightarrow> True | Some t0 \<Rightarrow> t0 = 0 \<or> w \<le> rat_of_int (now - t0))"
  using assms
  by (auto simp: verifyRequestSignature_def Let_def cfg_lt_def cfg_gt_def nonce_of_def signed_ok_def split: option.splits)

lemma verify_state:
  assumes "sv_valid (fst (verifyRequestSignature H S str now o' s))"
  shows "snd (verifyRequestSignature H S str now o' s) = cleanupNonceStore now (so_toleranceMs o')
    (s\<lparr>requestNonceStore := AList.update (so_fingerprint o') now (requestNonceStore s)\<rparr>)"
  using assms by (auto simp: verifyRequestSignature_def Let_def split: option.splits if_splits)

lemma verify_unchanged:
  "\<not> sv_valid (fst (verifyRequestSignature H S str now o' s)) \<Longrightarrow> snd (verifyRequestSignature H S str now o' s) = s"
  by (auto simp: verifyRequestSignature_def Let_def split: option.splits if_splits)

lemma map_of_filter_kept: "map_of xs k = Some v \<Longrightarrow> P (k, v) \<Longrightarrow> map_of (filter P xs) k = Some v"
  by (induction xs) (auto split: if_splits)

lemma nonce_cleanup:
  assumes "nonce_of o' s = Some t0" and "num_of tol = Some w" and "rat_of_int (now - t0) \<le> w"
  shows "nonce_of o' (cleanupNonceStore now tol s) = Some t0"
  using assms unfolding nonce_of_def cleanupNonceStore_def
  by (simp add: map_of_filter_kept cfg_lt_def)

lemma nonce_kept:
  assumes "nonce_of o' s = Some t0" and "t0 \<noteq> 0" and "num_of tol = Some w" and "rat_of_int (now - t0) < w"
    and "so_toleranceMs o'' = tol"
  shows "nonce_of o' (snd (verifyRequestSignature H S str now o'' s)) = Some t0"
proof (cases "sv_valid (fst (verifyRequestSignature H S str now o'' s))")
  case False
  with assms(1) show ?thesis by (simp add: verify_unchanged)
next
  case True
  have "so_fingerprint o'' \<noteq> so_fingerprint o'"
  proof
    assume eq: "so_fingerprint o'' = so_fingerprint o'"
    obtain T where "js_number (so_timestamp o'') = Some T"
      using True by (cases "js_number (so_timestamp o'')") (simp_all add: verifyRequestSignature_def)
    with True eq assms show False using verify_valid [of o'' w T] by (simp add: nonce_of_def)
  qed
  then have "nonce_of o' (s\<lparr>requestNonceStore := AList.update (so_fingerprint o'') now (requestNonceStore s)\<rparr>) = Some t0"
    using assms(1) by (simp add: nonce_of_def update_conv')
  with nonce_cleanup assms(3-5) True show ?thesis by (simp add: verify_state)
qed

text \<open>
  Claim C18.  A signed request accepted at \<open>t0\<close> is refused as long as less than the tolerance has
  passed, whatever requests come in between; from then on the very same request is accepted again
  exactly while its own time stamp is in tolerance - so one whose time stamp lay after \<open>t0\<close> can be replayed.
\<close>
theorem replay_window:
  assumes "num_of tol = Some w" and "so_toleranceMs req = tol" and "js_number (so_timestamp req) = Some T" and "t0 \<noteq> 0"
    and "sv_valid (fst (verifyRequestSignature H S str t0 req s))"
    and "\<forall>(t, o') \<in> set others. rat_of_int (t - t0) < w \<and> so_toleranceMs o' = tol"
  shows "sv_valid (fst (verifyRequestSignature H S str now req
      (fold (\<lambda>(t, o') u. snd (verifyRequestSignature H S str t o' u)) others (snd (verifyRequestSignature H S str t0 req s)))))
    \<longleftrightarrow> w \<le> rat_of_int (now - t0) \<and> \<bar>rat_of_int now - T\<bar> \<le> w"
proof -
  have w: "\<bar>rat_of_int t0 - T\<bar> \<le> w" "signed_ok H S str req"
    using assms(1-3,5) verify_valid [of req w T] by auto
  then have "0 \<le> w" using abs_ge_zero order_trans by blast
  then have "nonce_of req (snd (verifyRequestSignature H S str t0 req s)) = Some t0"
    using assms(1,2,5) by (auto simp: verify_state intro!: nonce_cleanup) (simp add: nonce_of_def update_conv')
  then have "nonce_of req (fold (\<lambda>(t, o') u. snd (verifyRequestSignature H S str t o' u)) others
      (snd (verifyRequestSignature H S str t0 req s))) = Some t0"
    using assms(6)
  proof (induction others arbitrary: s rule: rev_induct)
    case (snoc x xs)
    then show ?case using nonce_kept [OF _ assms(4,1)] by (cases x) auto
  qed simp
  then show ?thesis using assms(1-4) w(2) verify_valid [of req w T] by auto
qed

definition ahead :: signed_options where
  "ahead = \<lparr> so_secret = ''key'', so_signature = ''SHA256=01'', so_timestamp = ''1000200'', so_nonce = ''n'', so_method = ''post'',
     so_path = ''/x'', so_body = None, so_toleranceMs = Num 300 \<rparr>"

theorem replay_window_witness:
  "sv_valid (fst (verifyRequestSignature (\<lambda>k m. [1]) (\<lambda>t. []) (\<lambda>v. ''{}'') 1000300 ahead
      (fold (\<lambda>(t, o') u. snd (verifyRequestSignature (\<lambda>k m. [1]) (\<lambda>t. []) (\<lambda>v. ''{}'') t o' u)) [(1000100, ahead)]
        (snd (verifyRequestSignature (\<lambda>k m. [1]) (\<lambda>t. []) (\<lambda>v. ''{}'') 1000000 ahead
          \<lparr> suspiciousActivityStore = [], requestNonceStore = [] \<rparr>)))))"
proof -
  have t: "js_number ''1000200'' = Some 1000200"
    by (simp add: js_number_def unsigned_decimal_def is_digit_def digits_value_def digit_value_def trim_def is_space_def radix_def Let_def)
  have c: "char_of (48 :: nat) = CHR ''0''" "char_of (49 :: nat) = CHR ''1''" by (simp_all add: char_of_eq_iff)
  have "sv_valid (fst (verifyRequestSignature (\<lambda>k m. [1]) (\<lambda>t. []) (\<lambda>v. ''{}'') 1000000 ahead
      \<lparr> suspiciousActivityStore = [], requestNonceStore = [] \<rparr>))"
    by (subst verify_valid [of _ 300 1000200])
      (simp_all add: ahead_def t nonce_of_def signed_ok_def safeCompare_def lower_def lower_char_def hex_char_def Let_def char_of_eq_iff c)
  then show ?thesis
    by (subst replay_window [of "Num 300" 300 ahead 1000200]) (simp_all add: ahead_def t)
qed

subsection \<open>Sanitised text has no tags\<close>

text \<open>Behind every opening bracket there is no closing one, or it follows at once.\<close>

fun tag_free :: "string \<Rightarrow> bool" where
  "tag_free [] = True"
| "tag_free (c # cs) \<longleftrightarrow> (c = CHR ''<'' \<longrightarrow> CHR ''>'' \<notin> set cs \<or> hd cs = CHR ''>'') \<and> tag_free cs"

lemma tag_free_suffix: "tag_free (u @ t) \<Longrightarrow> tag_free t"
  by (induction u) auto

lemma tag_free_no_open: "CHR ''<'' \<notin> set u \<Longrightarrow> tag_free (u @ t) \<longleftrightarrow> tag_free t"
  by (induction u) auto

lemma star_class: "\<forall>c \<in> set w. f c \<Longrightarrow> \<exists>q. (q, t) \<in> set (matches (Star (Cls f)) p (w @ t))"
proof (induction w arbitrary: p)
  case Nil
  then show ?case by (cases t) auto
next
  case (Cons c w)
  then obtain q where "(q, t) \<in> set (matches (Star (Cls f)) (Some c) (w @ t))" by fastforce
  with Cons.prems show ?case by (auto simp: matches_Star)
qed

lemma seqs_Cons [simp]: "seqs (r # rs) = Seq r (seqs rs)" "seqs [] = Eps"
  by (simp_all add: seqs_def)

lemma Seq_intro: "(q', t') \<in> set (matches a p s) \<Longrightarrow> (q, t) \<in> set (matches b q' t') \<Longrightarrow> (q, t) \<in> set (matches (Seq a b) p s)"
  unfolding matches_Seq using matches_shorter by blast

lemma lit_intro: "(case s of [] \<Rightarrow> p | _ \<Rightarrow> Some (last s), t) \<in> set (matches (lit s) p (s @ t))"
  by (simp add: matches_lit)

lemma tag_matched:
  assumes "d \<noteq> CHR ''>''" and "CHR ''>'' \<in> set u"
  shows "matches re_tag p (CHR ''<'' # d # u) \<noteq> []"
proof -
  obtain w t where u: "u = w @ CHR ''>'' # t" "CHR ''>'' \<notin> set w" using split_list_first [OF assms(2)] by blast
  then obtain q where q: "(q, CHR ''>'' # t) \<in> set (matches (Star (re_not CHR ''>'')) (Some d) u)"
    using star_class [of w "\<lambda>c. c \<noteq> CHR ''>''" "CHR ''>'' # t" "Some d"] unfolding re_not_def by auto
  have "(q, CHR ''>'' # t) \<in> set (matches (some_of (re_not CHR ''>'')) (Some CHR ''<'') (d # u))"
    unfolding some_of_def by (rule Seq_intro [OF _ q]) (simp add: re_not_def assms(1))
  moreover have "(Some CHR ''>'', t) \<in> set (matches (Seq (lit ''>'') Eps) q (CHR ''>'' # t))"
    by (rule Seq_intro [OF lit_intro [where s = "''>''" and p = q and t = t, simplified]]) simp
  ultimately have "(Some CHR ''>'', t) \<in> set (matches re_tag p (CHR ''<'' # d # u))"
    unfolding re_tag_def seqs_Cons by (intro Seq_intro [OF lit_intro [where s = "''<''" and p = p and t = "d # u", simplified]] Seq_intro) auto
  then show ?thesis by auto
qed

text \<open>A pattern whose matches begin neither with an opening nor with a closing bracket.\<close>

definition plain_start :: "re \<Rightarrow> bool" where
  "plain_start r \<longleftrightarrow> (\<forall>p c cs. matches r p (c # cs) \<noteq> [] \<longrightarrow> c \<noteq> CHR ''<'' \<and> c \<noteq> CHR ''>'')"

lemma replace_from_chars:
  "y \<notin> set x \<Longrightarrow> y \<notin> set s \<Longrightarrow> y \<notin> set (replace_from r x p s)"
proof (induction r x p s rule: replace_from.induct)
  case (2 r x p c cs)
  show ?case
  proof (cases "matches r p (c # cs)")
    case Nil
    with 2 show ?thesis by simp
  next
    case (Cons m ms)
    obtain q t where m: "m = (q, t)" by (cases m)
    obtain u where "c # cs = u @ t" using matches_suffix [of q t r p "c # cs"] Cons m by auto
    then have "y \<notin> set t" using 2(5) by (metis Un_iff set_append)
    with 2 Cons m show ?thesis by auto
  qed
qed auto

lemma replace_from_tag_free:
  assumes "plain_start r" and "CHR ''<'' \<notin> set x" "CHR ''>'' \<notin> set x"
  shows "tag_free s \<Longrightarrow> tag_free (replace_from r x p s)"
proof (induction s arbitrary: p rule: length_induct)
  case (1 s)
  show ?case
  proof (cases s)
    case Nil
    then show ?thesis using tag_free_no_open [OF assms(2), of "[]"] by simp
  next
    case s: (Cons c cs)
    have cs: "tag_free (replace_from r x p' cs)" for p' using 1 s by simp
    show ?thesis
    proof (cases "matches r p (c # cs)")
      case Nil
      have "CHR ''>'' \<notin> set (replace_from r x (Some c) cs) \<or> hd (replace_from r x (Some c) cs) = CHR ''>''" if "c = CHR ''<''"
      proof (cases "CHR ''>'' \<in> set cs")
        case False
        then show ?thesis using replace_from_chars [OF assms(3)] by blast
      next
        case True
        with 1(2) s that obtain ds where ds: "cs = CHR ''>'' # ds" by (cases cs) auto
        then have "matches r (Some c) cs = []" using assms(1) by (auto simp: plain_start_def)
        with ds show ?thesis by simp
      qed
      with Nil cs s show ?thesis by simp
    next
      case (Cons m ms)
      obtain q t where m: "m = (q, t)" by (cases m)
      show ?thesis
      proof (cases "length t \<le> length cs")
        case True
        obtain u where "s = u @ t" using matches_suffix [of q t r p "c # cs"] Cons m s by auto
        then have "tag_free t" using 1(2) tag_free_suffix by blast
        moreover have "length t < length s" using True s by simp
        ultimately show ?thesis using 1(1) True Cons m s tag_free_no_open [OF assms(2)] by simp
      next
        case False
        have "matches r p (c # cs) \<noteq> []" using Cons by simp
        then have "c \<noteq> CHR ''<''" using assms(1) unfolding plain_start_def by blast
        with False Cons m s cs show ?thesis using tag_free_no_open [OF assms(2)] by simp
      qed
    qed
  qed
qed

lemma matches_literal: "matches (liti (d # ds)) p (c # cs) \<noteq> [] \<Longrightarrow> lower_char c = d"
  by (auto simp: liti_def split: if_splits)

lemma plain_liti: "d \<noteq> CHR ''<'' \<Longrightarrow> d \<noteq> CHR ''>'' \<Longrightarrow> plain_start (liti (d # ds))"
proof -
  have "lower_char CHR ''<'' = CHR ''<''" "lower_char CHR ''>'' = CHR ''>''" by (simp_all add: lower_char_def)
  then show "d \<noteq> CHR ''<'' \<Longrightarrow> d \<noteq> CHR ''>'' \<Longrightarrow> plain_start (liti (d # ds))"
    unfolding plain_start_def using matches_literal by metis
qed

lemma plain_Seq: "plain_start a \<Longrightarrow> plain_start (Seq a b)"
proof -
  have "matches (Seq a b) p s \<noteq> [] \<Longrightarrow> matches a p s \<noteq> []" for p s by auto
  then show "plain_start a \<Longrightarrow> plain_start (Seq a b)" unfolding plain_start_def by blast
qed

lemma tag_consumes: "(q, t) \<in> set (matches re_tag p s) \<Longrightarrow> length t < length s"
proof -
  assume "(q, t) \<in> set (matches re_tag p s)"
  then obtain q' t' where "(q', t') \<in> set (matches (lit ''<'') p s)"
    "(q, t) \<in> set (matches (seqs [some_of (re_not CHR ''>''), lit ''>'']) q' t')"
    unfolding re_tag_def seqs_Cons(1) [of "lit ''<''"] matches_Seq by blast
  then show "length t < length s" using matches_shorter [of q t _ q' t'] by (simp add: matches_lit_iff)
qed

lemma tag_removed: "tag_free (replace_from re_tag [] p s)"
proof (induction s arbitrary: p rule: length_induct)
  case (1 s)
  show ?case
  proof (cases s)
    case Nil
    then show ?thesis by simp
  next
    case s: (Cons c cs)
    show ?thesis
    proof (cases "matches re_tag p (c # cs)")
      case Nil
      have "CHR ''>'' \<notin> set (replace_from re_tag [] (Some c) cs) \<or> hd (replace_from re_tag [] (Some c) cs) = CHR ''>''"
        if "c = CHR ''<''"
      proof (cases "CHR ''>'' \<in> set cs")
        case False
        then show ?thesis using replace_from_chars [of "CHR ''>''" "[]" cs] by simp
      next
        case True
        then obtain d ds where cs: "cs = d # ds" by (cases cs) auto
        with True Nil that have "d = CHR ''>''" using tag_matched [of d ds p] by (cases "d = CHR ''>''") auto
        moreover have "matches re_tag (Some c) (CHR ''>'' # ds) = []" by (simp add: re_tag_def lit_def)
        ultimately show ?thesis using cs by simp
      qed
      with Nil 1 s show ?thesis by simp
    next
      case (Cons m ms)
      obtain q t where m: "m = (q, t)" by (cases m)
      then have "length t \<le> length cs" using tag_consumes [of q t p "c # cs"] Cons by simp
      with 1 s Cons m show ?thesis by simp
    qed
  qed
qed

lemma tag_free_prefix: "tag_free (u @ v) \<Longrightarrow> \<forall>c \<in> set v. is_space c \<Longrightarrow> tag_free u"
proof (induction u)
  case (Cons c u)
  have "\<not> is_space CHR ''>''" by (simp add: is_space_def)
  with Cons show ?case by (cases u) (auto simp: hd_append)
qed simp

lemma tag_free_trim: "tag_free s \<Longrightarrow> tag_free (trim s)"
proof -
  assume t: "tag_free s"
  let ?d = "dropWhile is_space s"
  have "tag_free ?d" using t tag_free_suffix [of "takeWhile is_space s" ?d] by simp
  moreover have "?d = trim s @ rev (takeWhile is_space (rev ?d))"
    by (metis rev_append rev_rev_ident takeWhile_dropWhile_id trim_def)
  moreover have "\<forall>c \<in> set (rev (takeWhile is_space (rev ?d))). is_space c" using set_takeWhileD by fastforce
  ultimately show ?thesis using tag_free_prefix by metis
qed

lemma sanitized_tag_free: "tag_free (sanitizePrimitiveString s)"
proof -
  have "plain_start (liti ''javascript:'')" "plain_start (liti ''vbscript:'')" "plain_start re_data" "plain_start re_handler"
    unfolding re_data_def re_handler_def seqs_Cons by (intro plain_Seq plain_liti; simp)+
  then show ?thesis unfolding sanitizePrimitiveString_def replace_all_def
    by (intro tag_free_trim replace_from_tag_free tag_removed) simp_all
qed

text \<open>
  The names the sanitiser removes, spelled out: \<open>prototype\<close> and \<open>constructor\<close> in any mix of letter
  cases, and every name with \<open>__proto__\<close> in any mix of letter cases somewhere in it.
\<close>

definition removed_name :: "string \<Rightarrow> bool" where
  "removed_name key \<longleftrightarrow> spelled key ''prototype'' \<or> spelled key ''constructor''
     \<or> (\<exists>u v w. key = u @ v @ w \<and> spelled v ''__proto__'')"

lemma lower_accessor: "CHR ''G'' \<in> set name \<or> CHR ''S'' \<in> set name \<Longrightarrow> lower key \<noteq> name"
  using lower_no_upper [of "CHR ''G''" key] lower_no_upper [of "CHR ''S''" key] by auto

lemma dangerous_iff: "isDangerousKey key \<longleftrightarrow> removed_name key"
proof -
  have acc: "lower key \<noteq> ''__defineGetter__''" "lower key \<noteq> ''__defineSetter__''"
    "lower key \<noteq> ''__lookupGetter__''" "lower key \<noteq> ''__lookupSetter__''"
    by (rule lower_accessor; simp)+
  have names: "lower k = ''prototype'' \<longleftrightarrow> spelled k ''prototype''" "lower k = ''constructor'' \<longleftrightarrow> spelled k ''constructor''"
    "lower k = ''__proto__'' \<longleftrightarrow> spelled k ''__proto__''" for k
    by (rule lower_spelled; simp)+
  have "includes_str (lower key) ''__proto__'' \<longleftrightarrow> (\<exists>u v w. key = u @ v @ w \<and> lower v = ''__proto__'')"
    unfolding includes_str_iff lower_def by (rule map_has_part)
  moreover have "\<exists>u v w. key = u @ v @ w \<and> lower v = ''__proto__''" if "lower key = ''__proto__''"
    using that by (intro exI [of _ "[]"] exI [of _ key]) simp
  ultimately show ?thesis
    unfolding isDangerousKey_def dangerousKeys_def removed_name_def names [symmetric] using acc by auto
qed

text \<open>Down to \<open>n\<close> levels: no text has a tag and no key is to be removed.\<close>

fun clean_to :: "nat \<Rightarrow> json \<Rightarrow> bool" where
  "clean_to n (JStr s) = tag_free s"
| "clean_to n (JArr xs) = (case n of 0 \<Rightarrow> True | Suc k \<Rightarrow> \<forall>x \<in> set xs. clean_to k x)"
| "clean_to n (JObj ps) = (\<forall>p \<in> set ps. \<not> removed_name (fst p) \<and> (case n of 0 \<Rightarrow> True | Suc k \<Rightarrow> clean_to k (snd p)))"
| "clean_to n v = True"

lemma sanitize_keys:
  assumes "sanitizeObjectDeep (Num (rat_of_nat m)) 0 (JObj ps) = w"
  shows "\<exists>qs. w = JObj qs \<and> map fst qs = filter (\<lambda>k. \<not> removed_name k) (map fst ps)"
  using assms by (auto simp: cfg_lt_def dangerous_iff filter_map comp_def split_def)

lemma sanitize_clean: "d \<le> m \<Longrightarrow> clean_to (m - d) (sanitizeObjectDeep (Num (rat_of_nat m)) d v)"
proof (induction v arbitrary: d)
  case (JArr xs)
  show ?case
  proof (cases "m - d")
    case (Suc k)
    then have "Suc d \<le> m" "m - Suc d = k" by simp_all
    with JArr.IH Suc JArr.prems show ?thesis by (fastforce simp: cfg_lt_def)
  qed (use JArr.prems in \<open>simp add: cfg_lt_def\<close>)
next
  case (JObj ps)
  show ?case
  proof (cases "m - d")
    case (Suc k)
    then have "Suc d \<le> m" "m - Suc d = k" by simp_all
    then have "clean_to k (sanitizeObjectDeep (Num (rat_of_nat m)) (Suc d) e)" if "(x, e) \<in> set ps" for x e
      using JObj.IH [of "(x, e)" e "Suc d"] that by simp
    with Suc JObj.prems show ?thesis by (auto simp: cfg_lt_def dangerous_iff)
  qed (use JObj.prems in \<open>auto simp: cfg_lt_def dangerous_iff\<close>)
qed (simp_all add: sanitized_tag_free cfg_lt_def)

text \<open>
  Claim C19.  Sanitising a value with depth \<open>m\<close> leaves, down to depth \<open>m\<close>, no property named
  \<open>prototype\<close> or \<open>constructor\<close> or with \<open>__proto__\<close> in its name, in whatever letter case, and no
  text with a markup tag: no opening bracket has a closing one behind it except directly, although the
  replacements that run after the removal of the tags delete and insert text themselves.  Of an object
  it keeps all other properties in their order, the four accessor names of the list of dangerous keys
  among them, since the list spells them in mixed case and is asked for the folded name.
\<close>
theorem sanitised_is_clean:
  "clean_to m (sanitizeObjectDeep (Num (rat_of_nat m)) 0 v)
   \<and> (\<forall>ps. v = JObj ps \<longrightarrow> (\<exists>qs. sanitizeObjectDeep (Num (rat_of_nat m)) 0 v = JObj qs
        \<and> map fst qs = filter (\<lambda>k. \<not> removed_name k) (map fst ps)))
   \<and> filter (\<lambda>k. \<not> removed_name k) dangerousKeys
       = [''__defineGetter__'', ''__defineSetter__'', ''__lookupGetter__'', ''__lookupSetter__'']"
proof (intro conjI allI impI)
  show "clean_to m (sanitizeObjectDeep (Num (rat_of_nat m)) 0 v)" using sanitize_clean [of 0 m v] by simp
  show "filter (\<lambda>k. \<not> removed_name k) dangerousKeys
       = [''__defineGetter__'', ''__defineSetter__'', ''__lookupGetter__'', ''__lookupSetter__'']"
    unfolding dangerous_iff [symmetric] by code_simp
qed (rule sanitize_keys, simp)

theorem sanitised_is_clean_witness:
  "\<exists>qs. sanitizeObjectDeep (Num 8) 0 (JObj [(''ProtoType'', JNull), (''a'', JStr ''<b>x''), (''my__PROTO__'', JNull)]) = JObj qs
     \<and> map fst qs = [''a'']"
proof -
  have "filter (\<lambda>k. \<not> removed_name k) [''ProtoType'', ''a'', ''my__PROTO__''] = [''a'']"
    unfolding dangerous_iff [symmetric] by code_simp
  then show ?thesis
    using sanitised_is_clean [of 8 "JObj [(''ProtoType'', JNull), (''a'', JStr ''<b>x''), (''my__PROTO__'', JNull)]"]
    by (simp del: sanitizeObjectDeep.simps)
qed

text \<open>Below the depth nothing is touched, and a tag that is not closed stays.\<close>

lemma deep_untouched: "m < d \<Longrightarrow> sanitizeObjectDeep (Num (rat_of_nat m)) d v = v"
  by (cases v) (simp_all add: cfg_lt_def)

lemma open_tag_stays: "sanitizePrimitiveString ''<img src=x onerror=f()'' = ''<img src=x onerror=f()''"
  by code_simp

text \<open>Four of the names the list holds are never recognised: the key is folded to lower case, they are not.\<close>

lemma mixed_case_never_dangerous: "\<not> isDangerousKey ''__defineGetter__''"
  by (simp add: isDangerousKey_def dangerousKeys_def lower_def lower_char_def starts_with_def char_of_eq_iff)

subsection \<open>The middleware\<close>

text \<open>What passes has no issue of score three or more, when such issues are to be refused.\<close>

lemma passed_issues:
  assumes "succeeds (use_middleware env config req res s)" and "sc_blockSuspiciousRequests config"
  shows "\<not> list_ex (\<lambda>i. cfg_ge (si_score i) (Num 3))
    (collectIssues env config (sanitizeQueryParams req (sc_maxParameterDepth config)) (getClientIp req) s)"
proof
  assume bad: "list_ex (\<lambda>i. cfg_ge (si_score i) (Num 3))
    (collectIssues env config (sanitizeQueryParams req (sc_maxParameterDepth config)) (getClientIp req) s)"
  then have "collectIssues env config (sanitizeQueryParams req (sc_maxParameterDepth config)) (getClientIp req) s \<noteq> []"
    by auto
  with assms bad show False
    unfolding use_middleware_def Let_def succeeds_def
    by (auto split: sum.splits prod.splits if_splits)
qed

lemma on_handler_found:
  assumes "w \<noteq> []" and "\<forall>c \<in> set w. word_char c"
  shows "re_test re_on_handler (a @ ''on'' @ w @ ''='' @ b)"
proof -
  let ?p = "case a of [] \<Rightarrow> None | _ \<Rightarrow> Some (last a)"
  obtain c v where w: "w = c # v" using assms(1) by (cases w) auto
  have on: "(Some CHR ''n'', w @ ''='' @ b) \<in> set (matches (liti ''on'') ?p (''on'' @ w @ ''='' @ b))"
    by (simp add: liti_def lower_char_def)
  obtain q where q: "(q, ''='' @ b) \<in> set (matches (Star re_word) (Some c) (v @ ''='' @ b))"
    using star_class [of v word_char "''='' @ b" "Some c"] assms(2) unfolding w re_word_def by auto
  have word: "(q, ''='' @ b) \<in> set (matches (some_of re_word) (Some CHR ''n'') (w @ ''='' @ b))"
    unfolding some_of_def w by (rule Seq_intro [OF _ q]) (use assms(2) w in \<open>simp add: re_word_def\<close>)
  have "(q, ''='' @ b) \<in> set (matches (Star re_space) q (''='' @ b))" by simp
  moreover have "(Some CHR ''='', b) \<in> set (matches (Seq (lit ''='') Eps) q (''='' @ b))"
    by (simp add: lit_def)
  ultimately have "(Some CHR ''='', b) \<in> set (matches re_on_handler ?p (''on'' @ w @ ''='' @ b))"
    unfolding re_on_handler_def seqs_Cons by (rule Seq_intro [OF on Seq_intro [OF word Seq_intro]])
  then show ?thesis unfolding re_test_def by (rule search_found)
qed

text \<open>
  Under the default configuration every request whose address has a parameter with a name that
  contains \<open>on\<close> and ends in at least one more word character - such as \<open>month=\<close> - is refused: the pattern
  for event handlers is not anchored.
\<close>
theorem honest_parameter_refused:
  assumes "rq_originalUrl req = a @ ''on'' @ w @ ''='' @ b" and "w \<noteq> []" and "\<forall>c \<in> set w. word_char c"
    and "get ''SECURITY_BLOCK_SUSPICIOUS'' = None"
  shows "\<not> succeeds (use_middleware env (getApplicationSecurityConfig get) req res s)"
proof
  let ?config = "getApplicationSecurityConfig get"
  assume ok: "succeeds (use_middleware env ?config req res s)"
  have "list_ex (\<lambda>p. re_test p (rq_originalUrl req)) xssPatterns"
    using on_handler_found [OF assms(2,3)] assms(1) by (simp add: xssPatterns_def)
  then have "issue xss ''Cross-site scripting indicators detected in request payload'' 3
      \<in> set (collectIssues env ?config (sanitizeQueryParams req (sc_maxParameterDepth ?config)) (getClientIp req) s)"
    by (simp add: collectIssues_def Let_def detectSecurityIssues_def sanitizeQueryParams_def)
  moreover have "sc_blockSuspiciousRequests ?config" using assms(4) by (simp add: getApplicationSecurityConfig_def)
  ultimately show False using passed_issues [OF ok]
    by (auto simp: list_ex_iff issue_def cfg_ge_def)
qed

definition month_request :: Request where
  "month_request = \<lparr> rq_method = ''GET'', rq_originalUrl = ''/api/payouts?month=5'',
     rq_headers = [(''user-agent'', ''Mozilla/5.0'')], rq_query = JObj [(''month'', JStr ''5'')], rq_body = None,
     rq_ip = Some ''10.0.0.1'', rq_remoteAddress = None \<rparr>"

definition plain_sec_env :: sec_env where
  "plain_sec_env = \<lparr> sn_now = 1700000000000, sn_auditId = ''a1'', sn_random = [1, 2], sn_hmac = (\<lambda>k m. [3]), sn_sha = (\<lambda>t. [4]),
     sn_stringify = (\<lambda>v. ''{}''), sn_number = (\<lambda>r. []) \<rparr>"

theorem honest_parameter_refused_witness:
  "\<not> succeeds (use_middleware plain_sec_env (getApplicationSecurityConfig (\<lambda>k. None)) month_request
      \<lparr> rs_headers = [], rs_cookies = [], rs_context = None \<rparr> \<lparr> suspiciousActivityStore = [], requestNonceStore = [] \<rparr>)"
  by (rule honest_parameter_refused [of _ "''/api/payouts?m''" "''th''" "''5''"]) (simp_all add: month_request_def word_char_def)

text \<open>The address a request is judged by is the caller's choice.\<close>

lemma forwarded_address:
  assumes "header ''x-forwarded-for'' req = Some f" and "trim f \<noteq> []"
  shows "getClientIp req = trim (hd (split_on CHR '','' f))"
  using assms by (simp add: getClientIp_def)

lemma forwarded_ignores_connection:
  "header ''x-forwarded-for'' req = Some f \<Longrightarrow> trim f \<noteq> []
    \<Longrightarrow> getClientIp (req\<lparr>rq_ip := i, rq_remoteAddress := r\<rparr>) = getClientIp req"
  by (simp add: getClientIp_def header_def)

lemma foldl_scores:
  assumes "\<forall>i \<in> set is. \<exists>n. si_score i = Num n"
  shows "foldl (\<lambda>sum i. js_plus num sum (si_score i)) (Num m) is
    = Num (m + sum_list (map (\<lambda>i. case si_score i of Num n \<Rightarrow> n | Txt t \<Rightarrow> 0) is))"
  using assms by (induction "is" arbitrary: m) (auto simp: add.assoc)

abbreviation score_sum :: "SecurityIssue list \<Rightarrow> rat" where
  "score_sum is \<equiv> sum_list (map (\<lambda>i. case si_score i of Num n \<Rightarrow> n | Txt t \<Rightarrow> 0) is)"

definition counted :: "string \<Rightarrow> sec_state \<Rightarrow> bool" where
  "counted key s \<longleftrightarrow> (\<forall>e. map_of (suspiciousActivityStore s) key = Some e \<longrightarrow> (\<exists>n \<ge> 0. se_score e = Num n))"

lemma record_blocks:
  assumes "counted (ao_key a) s" and "\<forall>i \<in> set (ao_issues a). \<exists>n. si_score i = Num n" and "5 \<le> score_sum (ao_issues a)"
    and "ao_threshold a = Num 5" and "ao_windowMs a = Num 900000" and "ao_blockDurationMs a = Num 1800000"
    and "0 \<le> now"
  shows "counted (ao_key a) (snd (recordSuspiciousActivity num now a s))"
    and "now' < now + 1800000 \<Longrightarrow> isIpBlockedByActivity now' (ao_key a) (snd (recordSuspiciousActivity num now a s))"
proof -
  define m where "m = (case map_of (suspiciousActivityStore s) (ao_key a) of
      Some e \<Rightarrow> if cfg_gt (se_expiresAt e) (rat_of_int now) then (case se_score e of Num n \<Rightarrow> n | Txt t \<Rightarrow> 0) else 0 | None \<Rightarrow> 0)"
  have m: "0 \<le> m" using assms(1) by (auto simp: m_def counted_def split: option.split)
  let ?e = "\<lparr> se_score = Num (m + score_sum (ao_issues a)),
     se_expiresAt = Num (rat_of_int now + 900000), se_blockedUntil = Some (Num (rat_of_int now + 1800000)),
     se_lastReasons = drop (length (ao_issues a) - 5) (map si_reason (ao_issues a)) \<rparr>"
  have "snd (recordSuspiciousActivity num now a s) = cleanupSuspiciousStore now
      (s\<lparr>suspiciousActivityStore := AList.update (ao_key a) ?e (suspiciousActivityStore s)\<rparr>)"
  proof (cases "map_of (suspiciousActivityStore s) (ao_key a)")
    case None
    with assms(3-6) m show ?thesis
      by (simp add: recordSuspiciousActivity_def Let_def foldl_scores [OF assms(2)] cfg_ge_def m_def)
  next
    case (Some e)
    with assms(1) obtain n where "se_score e = Num n" by (auto simp: counted_def)
    with Some assms(3-6) m show ?thesis
      by (cases e) (auto simp: recordSuspiciousActivity_def Let_def foldl_scores [OF assms(2)] cfg_ge_def m_def)
  qed
  moreover have "map_of (suspiciousActivityStore (cleanupSuspiciousStore now
      (s\<lparr>suspiciousActivityStore := AList.update (ao_key a) ?e (suspiciousActivityStore s)\<rparr>))) (ao_key a) = Some ?e"
    unfolding cleanupSuspiciousStore_def
    by (simp add: map_of_filter_kept update_conv' cfg_le_def)
  ultimately have e: "map_of (suspiciousActivityStore (snd (recordSuspiciousActivity num now a s))) (ao_key a) = Some ?e"
    by simp
  then show "counted (ao_key a) (snd (recordSuspiciousActivity num now a s))"
    using m assms(3) by (auto simp: counted_def)
  assume "now' < now + 1800000"
  then have "rat_of_int now' < rat_of_int now + 1800000" by (metis of_int_add of_int_less_iff of_int_numeral)
  moreover have "rat_of_int now + 1800000 \<noteq> 0" using assms(7) by (simp add: add_nonneg_eq_0_iff)
  ultimately show "isIpBlockedByActivity now' (ao_key a) (snd (recordSuspiciousActivity num now a s))"
    using e by (simp add: isIpBlockedByActivity_def entry_blocks_def cfg_gt_def)
qed

abbreviation default_config :: sec_config where
  "default_config \<equiv> getApplicationSecurityConfig (\<lambda>k. None)"

lemma default_limits:
  "sc_scoreThreshold default_config = Num 5" "sc_windowMs default_config = Num 900000"
  "sc_blockDurationMs default_config = Num 1800000" "sc_blockedIps default_config = []"
  by (simp_all add: getApplicationSecurityConfig_def cfg_number_def toList_def trim_def)

lemma collected_scores:
  "\<forall>i \<in> set (collectIssues env default_config req v s). \<exists>n \<ge> 0. si_score i = Num n"
  by (auto simp: collectIssues_def Let_def detectSecurityIssues_def issue_def default_limits split: if_splits)

lemma blocked_score:
  assumes "isIpBlockedByActivity (sn_now env) v s"
  shows "5 \<le> score_sum (collectIssues env default_config req v s)"
proof -
  let ?is = "collectIssues env default_config req v s"
  have "\<exists>i \<in> set ?is. si_score i = Num 5"
    using assms by (auto simp: collectIssues_def Let_def default_limits)
  then obtain i where i: "i \<in> set ?is" "si_score i = Num 5" by blast
  have "(case si_score i of Num n \<Rightarrow> n | Txt t \<Rightarrow> 0) \<le> score_sum ?is"
  proof (rule member_le_sum_list)
    show "(case si_score i of Num n \<Rightarrow> n | Txt t \<Rightarrow> 0) \<in> set (map (\<lambda>i. case si_score i of Num n \<Rightarrow> n | Txt t \<Rightarrow> 0) ?is)"
      using i(1) by auto
  qed (use collected_scores [of env req v s] in fastforce)
  with i(2) show ?thesis by simp
qed

text \<open>One pass: with a score of five or more the address is blocked for half an hour.\<close>

lemma use_blocks:
  assumes "enforceRequestConstraints req (sc_maxContentLengthBytes default_config) (sc_maxHeaderCount default_config)
      (sc_maxUrlLength default_config) = Inr ()"
    and "counted (getClientIp req) s" and "0 \<le> sn_now env"
    and "5 \<le> score_sum (collectIssues env default_config (sanitizeQueryParams req (sc_maxParameterDepth default_config)) (getClientIp req) s)"
  shows "\<not> succeeds (use_middleware env default_config req res s)"
    and "counted (getClientIp req) (state_of (use_middleware env default_config req res s))"
    and "now' < sn_now env + 1800000 \<Longrightarrow>
      isIpBlockedByActivity now' (getClientIp req) (state_of (use_middleware env default_config req res s))"
proof -
  let ?is = "collectIssues env default_config (sanitizeQueryParams req (sc_maxParameterDepth default_config)) (getClientIp req) s"
  let ?a = "\<lparr> ao_key = getClientIp req, ao_issues = ?is, ao_threshold = sc_scoreThreshold default_config,
     ao_windowMs = sc_windowMs default_config, ao_blockDurationMs = sc_blockDurationMs default_config \<rparr>"
  let ?r = "recordSuspiciousActivity (sn_number env) (sn_now env) ?a s"
  have ne: "?is \<noteq> []" using assms(4) by auto
  have n: "\<forall>i \<in> set ?is. \<exists>n. si_score i = Num n" using collected_scores by meson
  have blocked: "counted (getClientIp req) (snd ?r)"
    "t < sn_now env + 1800000 \<Longrightarrow> isIpBlockedByActivity t (getClientIp req) (snd ?r)" for t
    using record_blocks [where a = ?a and s = s and now = "sn_now env" and num = "sn_number env"] assms(2-4) n
    by (simp_all add: default_limits)
  have "use_middleware env default_config req res s = (Inl (ForbiddenException ''Suspicious activity threshold exceeded''), snd ?r)"
  proof -
    obtain x t where r: "?r = (x, t)" by (cases ?r)
    then have "isIpBlockedByActivity (sn_now env) (getClientIp req) t" using blocked(2) [of "sn_now env"] by simp
    with r assms(1) ne show ?thesis
      by (simp add: use_middleware_def Let_def enforceIpReputation_def isIpBlockedByReputation_def default_limits(4))
  qed
  with blocked show "\<not> succeeds (use_middleware env default_config req res s)"
    "counted (getClientIp req) (state_of (use_middleware env default_config req res s))"
    "now' < sn_now env + 1800000 \<Longrightarrow>
      isIpBlockedByActivity now' (getClientIp req) (state_of (use_middleware env default_config req res s))"
    by simp_all
qed

text \<open>
  The activity block is keyed by an address the caller chooses: one request with issues worth
  five points and a forwarded-for header that names \<open>v\<close> makes every later request judged by the address
  \<open>v\<close> fail for half an hour, whoever sends it and whatever it contains.
\<close>
theorem one_request_blocks_address:
  assumes "header ''x-forwarded-for'' req = Some v" and "trim v = v" and "v \<noteq> []" and "CHR '','' \<notin> set v"
    and "enforceRequestConstraints req (sc_maxContentLengthBytes default_config) (sc_maxHeaderCount default_config)
      (sc_maxUrlLength default_config) = Inr ()"
    and "map_of (suspiciousActivityStore s) v = None" and "0 \<le> sn_now env"
    and "5 \<le> score_sum (collectIssues env default_config (sanitizeQueryParams req (sc_maxParameterDepth default_config)) v s)"
    and "getClientIp req' = v" and "0 \<le> sn_now env'" and "sn_now env' < sn_now env + 1800000"
  shows "\<not> succeeds (use_middleware env' default_config req' res' (state_of (use_middleware env default_config req res s)))"
proof -
  have v: "getClientIp req = v" using assms(1-4) by (simp add: getClientIp_def split_on_none)
  let ?t = "state_of (use_middleware env default_config req res s)"
  have "counted v s" using assms(6) by (simp add: counted_def)
  then have t: "counted v ?t" "isIpBlockedByActivity (sn_now env') v ?t"
    using use_blocks(2,3) [where req = req and s = s and env = env and res = res] assms v by simp_all
  show ?thesis
  proof (cases "enforceRequestConstraints req' (sc_maxContentLengthBytes default_config) (sc_maxHeaderCount default_config)
      (sc_maxUrlLength default_config)")
    case (Inl e)
    then show ?thesis by (simp add: use_middleware_def Let_def)
  next
    case (Inr u)
    with t assms(9,10) show ?thesis by (intro use_blocks(1) blocked_score) simp_all
  qed
qed

lemma detected_scores:
  "0 \<le> score_sum (detectSecurityIssues str v)"
  "list_ex (\<lambda>p. isDangerousKey (fst p)) ps \<Longrightarrow> 4 \<le> score_sum (detectSecurityIssues str (Some (JObj ps)))"
  by (auto simp: detectSecurityIssues_def Let_def issue_def)

definition proto_request :: "string \<Rightarrow> Request" where
  "proto_request v = \<lparr> rq_method = ''POST'', rq_originalUrl = ''/'', rq_headers = [(''x-forwarded-for'', v)], rq_query = JObj [],
     rq_body = Some (JObj [(''__proto__'', JNull)]), rq_ip = Some ''6.6.6.6'', rq_remoteAddress = None \<rparr>"

definition victim_request :: "string \<Rightarrow> Request" where
  "victim_request v = \<lparr> rq_method = ''GET'', rq_originalUrl = ''/'', rq_headers = [(''user-agent'', ''Mozilla/5.0'')],
     rq_query = JObj [], rq_body = None, rq_ip = Some v, rq_remoteAddress = None \<rparr>"

theorem one_request_blocks_address_witness:
  "\<not> succeeds (use_middleware (plain_sec_env\<lparr>sn_now := 1700000900000\<rparr>) default_config (victim_request ''9.9.9.9'')
      \<lparr> rs_headers = [], rs_cookies = [], rs_context = None \<rparr>
      (state_of (use_middleware plain_sec_env default_config (proto_request ''9.9.9.9'')
         \<lparr> rs_headers = [], rs_cookies = [], rs_context = None \<rparr> \<lparr> suspiciousActivityStore = [], requestNonceStore = [] \<rparr>)))"
proof (rule one_request_blocks_address [where v = "''9.9.9.9''"])
  have limits: "sc_maxHeaderCount default_config = Num 80" "sc_maxUrlLength default_config = Num 2048"
    by (simp_all add: getApplicationSecurityConfig_def cfg_number_def)
  show "enforceRequestConstraints (proto_request ''9.9.9.9'') (sc_maxContentLengthBytes default_config)
      (sc_maxHeaderCount default_config) (sc_maxUrlLength default_config) = Inr ()"
    by (simp add: enforceRequestConstraints_def limits proto_request_def header_def req_get_def cfg_lt_def Let_def lower_def
        lower_char_def)
  have key: "isDangerousKey ''__proto__''" by (simp add: isDangerousKey_def dangerousKeys_def lower_def lower_char_def)
  have "0 \<le> score_sum (detectSecurityIssues (sn_stringify plain_sec_env) (Some (JStr ''/'')))"
    "0 \<le> score_sum (detectSecurityIssues (sn_stringify plain_sec_env) (Some (sanitizeObjectDeep (sc_maxParameterDepth default_config) 0 (JObj []))))"
    "0 \<le> score_sum (detectSecurityIssues (sn_stringify plain_sec_env) (Some (JStr [])))"
    "4 \<le> score_sum (detectSecurityIssues (sn_stringify plain_sec_env) (Some (JObj [(''__proto__'', JNull)])))"
    using detected_scores key by simp_all
  then show "5 \<le> score_sum (collectIssues plain_sec_env default_config
      (sanitizeQueryParams (proto_request ''9.9.9.9'') (sc_maxParameterDepth default_config)) ''9.9.9.9''
      \<lparr> suspiciousActivityStore = [], requestNonceStore = [] \<rparr>)"
    unfolding collectIssues_def Let_def
    by (simp add: proto_request_def sanitizeQueryParams_def req_get_def header_def lower_def lower_char_def
        isIpBlockedByActivity_def issue_def)
qed (simp_all add: proto_request_def victim_request_def header_def getClientIp_def trim_def is_space_def plain_sec_env_def)

text \<open>A configured duration is text and is appended to the clock: the block ends after as many years as the
  clock has milliseconds, times a power of ten.\<close>

lemma configured_block_duration:
  "recordSuspiciousActivity num now a s = (r, t) \<Longrightarrow> ao_blockDurationMs a = Txt d \<Longrightarrow>
     snd (snd r) = Some v \<Longrightarrow> cfg_ge (fst r) (ao_threshold a)
     \<Longrightarrow> v = Txt (show_number num (rat_of_int now) @ d)"
  by (auto simp: recordSuspiciousActivity_def Let_def split: option.splits if_splits)

end
