(* ===== verification/JobLog.thy ===== *)
theory JobLog
  imports Repository Json
begin

text \<open>
  Background jobs, \<open>BackEnd/src/modules/jobs\<close>: the types, the entities and \<open>JobLogService\<close>, the audit
  trail of the jobs.  A \<open>Partial<JobLog>\<close> is a change of a row; its status is a text, because callers
  pass texts past the type checker, and a text that is no value of the enumeration is rejected by the
  database, whose column is an enumeration.  A value \<open>undefined\<close> is left out of an \<open>update\<close>.  Columns the
  module never writes (\<open>traceId\<close>, \<open>parentJobId\<close>, \<open>dependentJobIds\<close>, \<open>processedAtTimestamp\<close>, \<open>nextRetryAt\<close>,
  \<open>expiresAt\<close>) are left out.
\<close>

subsection \<open>Types\<close>

datatype JobType =
    PAYOUT_PROCESS | PAYOUT_SETTLE | EMAIL_SEND | EMAIL_DIGEST | DATA_EXPORT | REPORT_GENERATE
  | CLEANUP_EXPIRED_SESSIONS | CLEANUP_OLD_LOGS | DATABASE_MAINTENANCE | WEBHOOK_DELIVER | WEBHOOK_RETRY
  | ANALYTICS_AGGREGATE | METRICS_COLLECT | QUEST_DEADLINE_CHECK | QUEST_COMPLETION_VERIFY

fun show_JobType :: "JobType \<Rightarrow> string" where
  "show_JobType PAYOUT_PROCESS = ''payout:process''"
| "show_JobType PAYOUT_SETTLE = ''payout:settle''"
| "show_JobType EMAIL_SEND = ''email:send''"
| "show_JobType EMAIL_DIGEST = ''email:digest''"
| "show_JobType DATA_EXPORT = ''data:export''"
| "show_JobType REPORT_GENERATE = ''report:generate''"
| "show_JobType CLEANUP_EXPIRED_SESSIONS = ''cleanup:expired-sessions''"
| "show_JobType CLEANUP_OLD_LOGS = ''cleanup:old-logs''"
| "show_JobType DATABASE_MAINTENANCE = ''maintenance:database''"
| "show_JobType WEBHOOK_DELIVER = ''webhook:deliver''"
| "show_JobType WEBHOOK_RETRY = ''webhook:retry''"
| "show_JobType ANALYTICS_AGGREGATE = ''analytics:aggregate''"
| "show_JobType METRICS_COLLECT = ''metrics:collect''"
| "show_JobType QUEST_DEADLINE_CHECK = ''quest:deadline-check''"
| "show_JobType QUEST_COMPLETION_VERIFY = ''quest:completion-verify''"

datatype JobStatus = PENDING | PROCESSING | COMPLETED | FAILED | CANCELLED | DEFERRED | RETRY

fun show_JobStatus :: "JobStatus \<Rightarrow> string" where
  "show_JobStatus JobStatus.PENDING = ''pending''"
| "show_JobStatus JobStatus.PROCESSING = ''processing''"
| "show_JobStatus JobStatus.COMPLETED = ''completed''"
| "show_JobStatus JobStatus.FAILED = ''failed''"
| "show_JobStatus JobStatus.CANCELLED = ''cancelled''"
| "show_JobStatus JobStatus.DEFERRED = ''deferred''"
| "show_JobStatus JobStatus.RETRY = ''retry''"

definition all_statuses :: "JobStatus list" where
  "all_statuses = [JobStatus.PENDING, JobStatus.PROCESSING, JobStatus.COMPLETED, JobStatus.FAILED,
     JobStatus.CANCELLED, JobStatus.DEFERRED, JobStatus.RETRY]"

text \<open>The enumeration of the column: its values, and their order.\<close>

definition parse_JobStatus :: "string \<Rightarrow> JobStatus option" where
  "parse_JobStatus t = List.find (\<lambda>s. show_JobStatus s = t) all_statuses"

fun status_rank :: "JobStatus \<Rightarrow> int" where
  "status_rank JobStatus.PENDING = 0"
| "status_rank JobStatus.PROCESSING = 1"
| "status_rank JobStatus.COMPLETED = 2"
| "status_rank JobStatus.FAILED = 3"
| "status_rank JobStatus.CANCELLED = 4"
| "status_rank JobStatus.DEFERRED = 5"
| "status_rank JobStatus.RETRY = 6"

record JobResult =
  re_success :: bool
  re_data :: "json option"
  re_duration :: "int option"

record JsErrorObject =
  er_message :: string
  er_stack :: "string option"

subsection \<open>Entities\<close>

record JobLog =
  jl_id :: id
  jl_jobType :: JobType
  jl_externalJobId :: "string option"
  jl_status :: JobStatus
  jl_queueName :: "string option"
  jl_attempt :: int
  jl_maxAttempts :: int
  jl_payload :: "json option"
  jl_result :: "json option"
  jl_errorMessage :: "string option"
  jl_errorStack :: "string option"
  jl_durationMs :: "int option"
  jl_correlationId :: "string option"
  jl_organizationId :: "string option"
  jl_userId :: "string option"
  jl_tags :: "string list option"
  jl_isRetryable :: bool
  jl_progress :: int
  jl_progressMessage :: "string option"
  jl_scheduledAt :: "time option"
  jl_startedAt :: "time option"
  jl_completedAt :: "time option"
  jl_createdAt :: time
  jl_updatedAt :: time

record JobLogRetry =
  jr_id :: id
  jr_jobLogId :: id
  jr_attemptNumber :: int
  jr_status :: JobStatus
  jr_errorMessage :: "string option"
  jr_nextRetryAt :: "time option"
  jr_createdAt :: time

record JobDependency =
  jd_id :: id
  jd_parentJobId :: id
  jd_childJobId :: id
  jd_status :: JobStatus
  jd_blockOnFailure :: bool
  jd_updatedAt :: time

definition getSuccessRate :: "JobLog \<Rightarrow> rat" where
  "getSuccessRate j =
     (if jl_maxAttempts j = 0 then 0 else of_int (jl_maxAttempts j - jl_attempt j) / of_int (jl_maxAttempts j) * 100)"

record joblog_state =
  jobLogTable :: "JobLog list"
  jobRetryTable :: "JobLogRetry list"
  jobDependencyTable :: "JobDependency list"

record joblog_env =
  jv_now :: time
  jv_newId :: id

definition find_job :: "id \<Rightarrow> joblog_state \<Rightarrow> JobLog option" where
  "find_job i s = find_row (\<lambda>j. jl_id j = i) (jobLogTable s)"

definition save_job :: "joblog_env \<Rightarrow> JobLog \<Rightarrow> joblog_state \<Rightarrow> joblog_state" where
  "save_job env j s = s\<lparr>jobLogTable := save_row jl_id (j\<lparr>jl_updatedAt := jv_now env\<rparr>) (jobLogTable s)\<rparr>"

definition update_job :: "joblog_env \<Rightarrow> id \<Rightarrow> (JobLog \<Rightarrow> JobLog) \<Rightarrow> joblog_state \<Rightarrow> joblog_state" where
  "update_job env i f s = s\<lparr>jobLogTable :=
     update_where (\<lambda>j. jl_id j = i) (\<lambda>j. (f j)\<lparr>jl_updatedAt := jv_now env\<rparr>) (jobLogTable s)\<rparr>"

subsection \<open>Writing the log\<close>

record NewJob =
  nj_jobType :: JobType
  nj_payload :: "json option"
  nj_organizationId :: "string option"
  nj_userId :: "string option"
  nj_correlationId :: "string option"
  nj_tags :: "string list option"

definition createJobLog :: "NewJob \<Rightarrow> joblog_env \<Rightarrow> joblog_state \<Rightarrow> JobLog \<times> joblog_state" where
  "createJobLog d env s =
     (let j = \<lparr> jl_id = jv_newId env, jl_jobType = nj_jobType d, jl_externalJobId = None, jl_status = JobStatus.PENDING,
                jl_queueName = None, jl_attempt = 0, jl_maxAttempts = 0, jl_payload = nj_payload d, jl_result = None,
                jl_errorMessage = None, jl_errorStack = None, jl_durationMs = None, jl_correlationId = nj_correlationId d,
                jl_organizationId = nj_organizationId d, jl_userId = nj_userId d, jl_tags = nj_tags d, jl_isRetryable = True,
                jl_progress = 0, jl_progressMessage = None, jl_scheduledAt = None, jl_startedAt = None, jl_completedAt = None,
                jl_createdAt = jv_now env, jl_updatedAt = jv_now env \<rparr>
      in (j, save_job env j s))"

record JobUpdates =
  ju_status :: "string option"
  ju_change :: "JobLog \<Rightarrow> JobLog"

definition invalid_enum :: "string \<Rightarrow> exn" where
  "invalid_enum t = JsError (''invalid input value for enum job_logs_status_enum: '' @ CHR 0x22 # t @ [CHR 0x22])"

definition updateJobLog :: "id \<Rightarrow> JobUpdates \<Rightarrow> joblog_env \<Rightarrow> joblog_state \<Rightarrow> (joblog_state, JobLog option) outcome" where
  "updateJobLog jobId updates env s =
     (case find_job jobId s of
        None \<Rightarrow> (Inr None, s)
      | Some jobLog \<Rightarrow>
          (let j = ju_change updates jobLog
           in case ju_status updates of
                None \<Rightarrow> (Inr (Some j), save_job env j s)
              | Some t \<Rightarrow>
                  (case parse_JobStatus t of
                     None \<Rightarrow> (Inl (invalid_enum t), s)
                   | Some st \<Rightarrow>
                       (let j1 = j\<lparr>jl_status := st\<rparr>;
                            j2 = (case jl_startedAt j1 of
                                    Some t0 \<Rightarrow> if st = JobStatus.COMPLETED then j1\<lparr>jl_durationMs := Some (jv_now env - t0)\<rparr> else j1
                                  | None \<Rightarrow> j1)
                        in (Inr (Some j2), save_job env j2 s)))))"

definition set_if :: "'a option \<Rightarrow> 'a option \<Rightarrow> 'a option" where
  "set_if new old = (case new of None \<Rightarrow> old | Some v \<Rightarrow> Some v)"

definition updateJobProgress :: "id \<Rightarrow> int \<Rightarrow> string option \<Rightarrow> joblog_env \<Rightarrow> joblog_state \<Rightarrow> joblog_state" where
  "updateJobProgress jobId progress message env =
     update_job env jobId (\<lambda>j. j\<lparr>jl_progress := min progress 100,
       jl_progressMessage := set_if message (jl_progressMessage j)\<rparr>)"

definition recordJobStart :: "id \<Rightarrow> string \<Rightarrow> joblog_env \<Rightarrow> joblog_state \<Rightarrow> joblog_state" where
  "recordJobStart jobId queueName env =
     update_job env jobId (\<lambda>j. j\<lparr>jl_status := JobStatus.PROCESSING, jl_startedAt := Some (jv_now env),
       jl_queueName := Some queueName\<rparr>)"

definition recordJobCompletion :: "id \<Rightarrow> JobResult \<Rightarrow> joblog_env \<Rightarrow> joblog_state \<Rightarrow> joblog_state" where
  "recordJobCompletion jobId r env =
     update_job env jobId (\<lambda>j. j\<lparr>jl_status := JobStatus.COMPLETED, jl_completedAt := Some (jv_now env),
       jl_result := set_if (re_data r) (jl_result j), jl_durationMs := set_if (re_duration r) (jl_durationMs j)\<rparr>)"

definition recordJobFailure :: "id \<Rightarrow> JsErrorObject \<Rightarrow> int \<Rightarrow> int \<Rightarrow> joblog_env \<Rightarrow> joblog_state \<Rightarrow> joblog_state" where
  "recordJobFailure jobId error attempt maxAttempts env =
     (let isRetryable = (attempt < maxAttempts)
      in update_job env jobId (\<lambda>j. j\<lparr>jl_status := (if isRetryable then JobStatus.RETRY else JobStatus.FAILED),
           jl_errorMessage := Some (er_message error), jl_errorStack := set_if (er_stack error) (jl_errorStack j),
           jl_attempt := attempt, jl_maxAttempts := maxAttempts, jl_isRetryable := isRetryable,
           jl_completedAt := (if isRetryable then None else Some (jv_now env))\<rparr>))"

definition recordRetryAttempt ::
    "id \<Rightarrow> int \<Rightarrow> string \<Rightarrow> time option \<Rightarrow> joblog_env \<Rightarrow> joblog_state \<Rightarrow> (joblog_state, JobLogRetry) outcome" where
  "recordRetryAttempt jobId attemptNumber message nextRetryAt env s =
     (case find_job jobId s of
        None \<Rightarrow> (Inl (JsError (''Job log not found: '' @ jobId)), s)
      | Some _ \<Rightarrow>
          (let r = \<lparr> jr_id = jv_newId env, jr_jobLogId = jobId, jr_attemptNumber = attemptNumber, jr_status = JobStatus.RETRY,
                     jr_errorMessage = Some message, jr_nextRetryAt = nextRetryAt, jr_createdAt = jv_now env \<rparr>
           in (Inr r, s\<lparr>jobRetryTable := save_row jr_id r (jobRetryTable s)\<rparr>)))"

text \<open>Deleting a log deletes its retries, as the relation declares; \<open>cutoff\<close> is the date the code computes.\<close>

definition deleteOldJobLogs :: "time \<Rightarrow> joblog_state \<Rightarrow> nat \<times> joblog_state" where
  "deleteOldJobLogs cutoff s =
     (let old = (\<lambda>j. 0 \<le> jl_createdAt j \<and> jl_createdAt j \<le> cutoff);
          gone = map jl_id (filter old (jobLogTable s))
      in (length gone, s\<lparr>jobLogTable := filter (\<lambda>j. \<not> old j) (jobLogTable s),
                        jobRetryTable := filter (\<lambda>r. jr_jobLogId r \<notin> set gone) (jobRetryTable s)\<rparr>))"

subsection \<open>Dependencies\<close>

definition createJobDependency :: "id \<Rightarrow> id \<Rightarrow> bool \<Rightarrow> joblog_env \<Rightarrow> joblog_state \<Rightarrow> JobDependency \<times> joblog_state" where
  "createJobDependency parentJobId childJobId blockOnFailure env s =
     (let d = \<lparr> jd_id = jv_newId env, jd_parentJobId = parentJobId, jd_childJobId = childJobId,
                jd_status = JobStatus.PENDING, jd_blockOnFailure = blockOnFailure, jd_updatedAt = jv_now env \<rparr>
      in (d, s\<lparr>jobDependencyTable := save_row jd_id d (jobDependencyTable s)\<rparr>))"

definition resolveJobDependency :: "id \<Rightarrow> joblog_env \<Rightarrow> joblog_state \<Rightarrow> joblog_state" where
  "resolveJobDependency dependencyId env s = s\<lparr>jobDependencyTable :=
     update_where (\<lambda>d. jd_id d = dependencyId) (\<lambda>d. d\<lparr>jd_status := JobStatus.COMPLETED, jd_updatedAt := jv_now env\<rparr>)
       (jobDependencyTable s)\<rparr>"

definition getPendingDependencies :: "id \<Rightarrow> joblog_state \<Rightarrow> JobDependency list" where
  "getPendingDependencies childJobId s =
     filter (\<lambda>d. jd_childJobId d = childJobId \<and> jd_status d = JobStatus.PENDING) (jobDependencyTable s)"

definition areDependenciesMet :: "id \<Rightarrow> joblog_state \<Rightarrow> bool" where
  "areDependenciesMet childJobId s = (length (getPendingDependencies childJobId s) = 0)"

subsection \<open>Queries\<close>

datatype sort_column = ByCreatedAt | ByUpdatedAt | ByStatus
datatype sort_order = ASC | DESC

record JobFilters =
  jf_jobType :: "JobType option"
  jf_status :: "JobStatus option"
  jf_organizationId :: "string option"
  jf_userId :: "string option"
  jf_correlationId :: "string option"
  jf_startDate :: "time option"
  jf_endDate :: "time option"
  jf_limit :: "nat option"
  jf_offset :: "nat option"
  jf_sortBy :: "sort_column option"
  jf_sortOrder :: "sort_order option"

definition job_where :: "JobFilters \<Rightarrow> JobLog \<Rightarrow> bool" where
  "job_where f j =
     ((jf_jobType f \<noteq> None \<longrightarrow> Some (jl_jobType j) = jf_jobType f)
      \<and> (jf_status f \<noteq> None \<longrightarrow> Some (jl_status j) = jf_status f)
      \<and> (truthy (jf_organizationId f) \<longrightarrow> jl_organizationId j = jf_organizationId f)
      \<and> (truthy (jf_userId f) \<longrightarrow> jl_userId j = jf_userId f)
      \<and> (truthy (jf_correlationId f) \<longrightarrow> jl_correlationId j = jf_correlationId f)
      \<and> (case (jf_startDate f, jf_endDate f) of (Some a, Some b) \<Rightarrow> a \<le> jl_createdAt j \<and> jl_createdAt j \<le> b | _ \<Rightarrow> True))"

fun sort_value :: "sort_column \<Rightarrow> JobLog \<Rightarrow> int" where
  "sort_value ByCreatedAt j = jl_createdAt j"
| "sort_value ByUpdatedAt j = jl_updatedAt j"
| "sort_value ByStatus j = status_rank (jl_status j)"

definition sorted_jobs :: "sort_column \<Rightarrow> sort_order \<Rightarrow> JobLog list \<Rightarrow> JobLog list" where
  "sorted_jobs c ord t = (if ord = ASC then order_asc (sort_value c) t else order_desc (sort_value c) t)"

text \<open>\<open>limit || 50\<close>: a limit of 0 is 50.\<close>

definition query_limit :: "nat option \<Rightarrow> nat" where
  "query_limit l = min (case l of None \<Rightarrow> 50 | Some n \<Rightarrow> if n = 0 then 50 else n) 1000"

definition queryJobLogs :: "JobFilters \<Rightarrow> joblog_state \<Rightarrow> JobLog list \<times> nat" where
  "queryJobLogs f s =
     (let found = filter (job_where f) (jobLogTable s)
      in (take (query_limit (jf_limit f)) (drop (coalesce (jf_offset f) 0)
            (sorted_jobs (coalesce (jf_sortBy f) ByCreatedAt) (coalesce (jf_sortOrder f) DESC) found)),
          length found))"

definition getJobByExternalId :: "string \<Rightarrow> joblog_state \<Rightarrow> JobLog option" where
  "getJobByExternalId externalJobId s = find_row (\<lambda>j. jl_externalJobId j = Some externalJobId) (jobLogTable s)"

definition getRelatedJobs :: "string \<Rightarrow> joblog_state \<Rightarrow> JobLog list" where
  "getRelatedJobs correlationId s =
     order_asc jl_createdAt (filter (\<lambda>j. jl_correlationId j = Some correlationId) (jobLogTable s))"

definition getRetryHistory :: "id \<Rightarrow> joblog_state \<Rightarrow> JobLogRetry list" where
  "getRetryHistory jobId s = order_asc jr_createdAt (filter (\<lambda>r. jr_jobLogId r = jobId) (jobRetryTable s))"

definition getRecentlyFailedJobs :: "nat \<Rightarrow> joblog_state \<Rightarrow> JobLog list" where
  "getRecentlyFailedJobs limit s =
     take limit (order_desc jl_updatedAt (filter (\<lambda>j. jl_status j \<in> {JobStatus.FAILED, JobStatus.RETRY}) (jobLogTable s)))"

definition getSlowJobs :: "int \<Rightarrow> nat \<Rightarrow> joblog_state \<Rightarrow> JobLog list" where
  "getSlowJobs threshold limit s =
     take limit (order_desc (\<lambda>j. the (jl_durationMs j))
       (filter (\<lambda>j. (case jl_durationMs j of None \<Rightarrow> False | Some d \<Rightarrow> d > threshold) \<and> jl_status j = JobStatus.COMPLETED)
         (jobLogTable s)))"

subsection \<open>Statistics\<close>

definition in_organization :: "string option \<Rightarrow> JobLog \<Rightarrow> bool" where
  "in_organization org j = (truthy org \<longrightarrow> jl_organizationId j = org)"

text \<open>SQL aggregates skip \<open>null\<close>; \<open>Math.round\<close> rounds halves up.\<close>

definition durations :: "JobLog list \<Rightarrow> int list" where
  "durations js = List.map_filter jl_durationMs js"

definition average_of :: "int list \<Rightarrow> rat option" where
  "average_of xs = (if xs = [] then None else Some (of_int (sum_list xs) / of_nat (length xs)))"

definition js_round :: "rat \<Rightarrow> int" where
  "js_round x = \<lfloor>x + 1 / 2\<rfloor>"

record JobTypeStats =
  ts_total :: nat
  ts_completed :: nat
  ts_failed :: nat
  ts_avgDurationMs :: int
  ts_successRate :: rat

definition getStatisticsByJobType :: "string option \<Rightarrow> joblog_state \<Rightarrow> (JobType \<times> JobTypeStats) list" where
  "getStatisticsByJobType org s =
     (let rows = filter (in_organization org) (jobLogTable s)
      in map (\<lambda>ty.
           (let js = filter (\<lambda>j. jl_jobType j = ty) rows;
                completed = count_rows (\<lambda>j. jl_status j = JobStatus.COMPLETED) js
            in (ty, \<lparr> ts_total = length js, ts_completed = completed,
                      ts_failed = count_rows (\<lambda>j. jl_status j = JobStatus.FAILED) js,
                      ts_avgDurationMs = js_round (coalesce (average_of (durations js)) 0),
                      ts_successRate = of_nat completed / of_nat (length js) * 100 \<rparr>)))
         (remdups (map jl_jobType rows)))"

definition getStatisticsByStatus :: "string option \<Rightarrow> joblog_state \<Rightarrow> JobStatus \<Rightarrow> nat" where
  "getStatisticsByStatus org s st = count_rows (\<lambda>j. in_organization org j \<and> jl_status j = st) (jobLogTable s)"

text \<open>\<open>PERCENTILE_CONT(0.95)\<close> interpolates between the neighbours of the position.\<close>

definition percentile95 :: "int list \<Rightarrow> rat" where
  "percentile95 xs =
     (let ys = sort xs; pos = 95 / 100 * (of_nat (length ys - 1) :: rat); lo = nat \<lfloor>pos\<rfloor>; hi = nat \<lceil>pos\<rceil>
      in of_int (ys ! lo) + (pos - of_nat lo) * of_int (ys ! hi - ys ! lo))"

record PerformanceMetrics =
  pm_avgDurationMs :: "rat option"
  pm_minDurationMs :: "int option"
  pm_maxDurationMs :: "int option"
  pm_p95DurationMs :: "rat option"

definition getPerformanceMetrics :: "string option \<Rightarrow> joblog_state \<Rightarrow> PerformanceMetrics" where
  "getPerformanceMetrics org s =
     (let ds = durations (filter (\<lambda>j. jl_status j = JobStatus.COMPLETED \<and> in_organization org j) (jobLogTable s))
      in if ds = [] then \<lparr> pm_avgDurationMs = None, pm_minDurationMs = None, pm_maxDurationMs = None, pm_p95DurationMs = None \<rparr>
         else \<lparr> pm_avgDurationMs = average_of ds, pm_minDurationMs = Some (Min (set ds)), pm_maxDurationMs = Some (Max (set ds)),
                pm_p95DurationMs = Some (percentile95 ds) \<rparr>)"

subsection \<open>Export\<close>

text \<open>The parameters write a list of rows as JSON, and a date as text.\<close>

definition quote_cell :: "string \<Rightarrow> string" where
  "quote_cell c = CHR 0x22 # c @ [CHR 0x22]"

definition csv_row :: "(time \<Rightarrow> string) \<Rightarrow> JobLog \<Rightarrow> string" where
  "csv_row show_date j =
     join_with '','' (map quote_cell [jl_id j, show_JobType (jl_jobType j), show_JobStatus (jl_status j), show_int (jl_attempt j),
       (case jl_durationMs j of None \<Rightarrow> ''N/A'' | Some d \<Rightarrow> if d = 0 then ''N/A'' else show_int d),
       or_default (jl_errorMessage j) ''N/A'', show_date (jl_createdAt j)])"

definition exportJobLogs ::
    "(JobLog list \<Rightarrow> string) \<Rightarrow> (time \<Rightarrow> string) \<Rightarrow> JobFilters \<Rightarrow> bool \<Rightarrow> joblog_state \<Rightarrow> string" where
  "exportJobLogs stringify show_date filters json_format s =
     (let found = fst (queryJobLogs (filters\<lparr>jf_limit := Some 10000\<rparr>) s)
      in if json_format then stringify found
         else join_with [CHR 0x0A]
                (''ID,Job Type,Status,Attempt,Duration (ms),Error,Created At'' # map (csv_row show_date) found))"

end
