(* ===== verification/JobScheduler.thy ===== *)
theory JobScheduler
  imports JobLog "HOL-Library.AList"
begin

text \<open>
  \<open>JobsService\<close>, which owns the queues, and \<open>JobSchedulerService\<close>, which runs schedules.  Third-party code
  is an argument: whether a queue accepts a job and the id it gives it (\<open>jq_accept\<close>), which cron
  expressions parse, and the next date of one.  A cron job is the schedule object its callback closes
  over; the callback changes that object and saves it, so the object can be older than the row.
\<close>

subsection \<open>Queues\<close>

definition QUEUES :: "string list" where
  "QUEUES = [''notifications'', ''analytics'', ''cleanup'', ''scheduled'', ''dead_letter'', ''email'', ''payouts'',
     ''exports'', ''reports'', ''maintenance'', ''webhooks'', ''quests'']"

record JobOptions =
  jo_attempts :: nat
  jo_priority :: "nat option"
  jo_delay :: "int option"
  jo_jobId :: "string option"

text \<open>\<open>DEFAULT_JOB_OPTIONS\<close>; its exponential backoff is carried out by the queue.\<close>

definition DEFAULT_JOB_OPTIONS :: JobOptions where
  "DEFAULT_JOB_OPTIONS = \<lparr> jo_attempts = 5, jo_priority = None, jo_delay = None, jo_jobId = None \<rparr>"

record QueuedJob =
  qj_id :: string
  qj_name :: string
  qj_data :: json
  qj_opts :: JobOptions

record JobSchedule =
  sh_id :: id
  sh_jobType :: JobType
  sh_cronExpression :: string
  sh_timezone :: "string option"
  sh_jobPayload :: json
  sh_organizationId :: "string option"
  sh_isActive :: bool
  sh_successCount :: int
  sh_failureCount :: int
  sh_lastRunAt :: "time option"
  sh_nextRunAt :: "time option"
  sh_lastErrorMessage :: "string option"
  sh_createdAt :: time
  sh_disabledAt :: "time option"
  sh_description :: "string option"

record jobs_state =
  jobLogs :: joblog_state
  jobQueues :: "(string \<times> QueuedJob list) list"
  scheduleTable :: "JobSchedule list"
  cronJobs :: "(id \<times> JobSchedule) list"

record jobs_env =
  jq_log :: joblog_env
  jq_accept :: "string \<Rightarrow> string option \<Rightarrow> exn + string"
  jq_validCron :: "string \<Rightarrow> bool"
  jq_startsCron :: "string \<Rightarrow> string \<Rightarrow> bool"
  jq_nextDate :: "string \<Rightarrow> string \<Rightarrow> time option"

abbreviation jq_now :: "jobs_env \<Rightarrow> time" where
  "jq_now env \<equiv> jv_now (jq_log env)"

definition jobs_onModuleInit :: "jobs_state \<Rightarrow> jobs_state" where
  "jobs_onModuleInit s = s\<lparr>jobQueues := map (\<lambda>q. (q, []))
     [''notifications'', ''analytics'', ''cleanup'', ''scheduled'', ''dead_letter'', ''email'']\<rparr>"

definition getQueue :: "string \<Rightarrow> jobs_state \<Rightarrow> QueuedJob list option" where
  "getQueue name s = map_of (jobQueues s) name"

definition push_job :: "string \<Rightarrow> QueuedJob \<Rightarrow> jobs_state \<Rightarrow> jobs_state" where
  "push_job name j s = s\<lparr>jobQueues := AList.update name (coalesce (getQueue name s) [] @ [j]) (jobQueues s)\<rparr>"

text \<open>The options of the caller replace the defaults; \<open>None\<close> as a name is \<open>undefined\<close>.\<close>

definition addJob :: "string option \<Rightarrow> json \<Rightarrow> JobOptions \<Rightarrow> jobs_env \<Rightarrow> jobs_state \<Rightarrow> (jobs_state, QueuedJob) outcome" where
  "addJob name data opts env s =
     (let n = coalesce name ''null''
      in case getQueue n s of
           None \<Rightarrow> (Inl (JsError (''Queue '' @ n @ '' not found'')), s)
         | Some _ \<Rightarrow>
             (case jq_accept env n (jo_jobId opts) of
                Inl e \<Rightarrow> (Inl e, s)
              | Inr i \<Rightarrow> (let j = \<lparr> qj_id = i, qj_name = n @ ''-job'', qj_data = data, qj_opts = opts \<rparr>
                         in (Inr j, push_job n j s))))"

text \<open>The listener of a worker's \<open>failed\<close> events.\<close>

definition max_attempts :: "QueuedJob \<Rightarrow> nat" where
  "max_attempts j = (if jo_attempts (qj_opts j) = 0 then jo_attempts DEFAULT_JOB_OPTIONS else jo_attempts (qj_opts j))"

definition dead_letter :: "string \<Rightarrow> QueuedJob \<Rightarrow> string \<Rightarrow> string \<Rightarrow> QueuedJob" where
  "dead_letter name job reason newId =
     \<lparr> qj_id = newId, qj_name = name @ ''-dlq'',
       qj_data = JObj [(''failedJob'', JObj [(''id'', JStr (qj_id job)), (''name'', JStr (qj_name job)),
                   (''data'', qj_data job), (''failedReason'', JStr reason)])],
       qj_opts = \<lparr> jo_attempts = 0, jo_priority = None, jo_delay = None, jo_jobId = None \<rparr> \<rparr>"

definition on_failed :: "string \<Rightarrow> QueuedJob \<Rightarrow> nat \<Rightarrow> string \<Rightarrow> string \<Rightarrow> jobs_state \<Rightarrow> jobs_state" where
  "on_failed name job attemptsMade reason newId s =
     (if attemptsMade \<ge> max_attempts job then push_job ''dead_letter'' (dead_letter name job reason newId) s else s)"

subsection \<open>Schedules\<close>

fun mapJobTypeToQueue :: "JobType \<Rightarrow> string" where
  "mapJobTypeToQueue PAYOUT_PROCESS = ''payouts''"
| "mapJobTypeToQueue PAYOUT_SETTLE = ''payouts''"
| "mapJobTypeToQueue EMAIL_SEND = ''email''"
| "mapJobTypeToQueue EMAIL_DIGEST = ''email''"
| "mapJobTypeToQueue DATA_EXPORT = ''exports''"
| "mapJobTypeToQueue REPORT_GENERATE = ''reports''"
| "mapJobTypeToQueue CLEANUP_EXPIRED_SESSIONS = ''cleanup''"
| "mapJobTypeToQueue CLEANUP_OLD_LOGS = ''cleanup''"
| "mapJobTypeToQueue DATABASE_MAINTENANCE = ''maintenance''"
| "mapJobTypeToQueue WEBHOOK_DELIVER = ''webhooks''"
| "mapJobTypeToQueue WEBHOOK_RETRY = ''webhooks''"
| "mapJobTypeToQueue ANALYTICS_AGGREGATE = ''analytics''"
| "mapJobTypeToQueue METRICS_COLLECT = ''analytics''"
| "mapJobTypeToQueue QUEST_DEADLINE_CHECK = ''quests''"
| "mapJobTypeToQueue QUEST_COMPLETION_VERIFY = ''quests''"

definition getNextRunTime :: "jobs_env \<Rightarrow> string \<Rightarrow> string option \<Rightarrow> time option" where
  "getNextRunTime env cronExpression timezone = jq_nextDate env cronExpression (or_default timezone ''UTC'')"

definition find_schedule :: "id \<Rightarrow> jobs_state \<Rightarrow> JobSchedule option" where
  "find_schedule i s = find_row (\<lambda>h. sh_id h = i) (scheduleTable s)"

definition save_schedule :: "JobSchedule \<Rightarrow> jobs_state \<Rightarrow> jobs_state" where
  "save_schedule h s = s\<lparr>scheduleTable := save_row sh_id h (scheduleTable s)\<rparr>"

definition startSchedule :: "jobs_env \<Rightarrow> JobSchedule \<Rightarrow> jobs_state \<Rightarrow> jobs_state" where
  "startSchedule env h s =
     (if map_of (cronJobs s) (sh_id h) \<noteq> None then s
      else if jq_startsCron env (sh_cronExpression h) (or_default (sh_timezone h) ''UTC'')
      then s\<lparr>cronJobs := (sh_id h, h) # cronJobs s\<rparr>
      else s)"

definition stopSchedule :: "id \<Rightarrow> jobs_state \<Rightarrow> jobs_state" where
  "stopSchedule i s = s\<lparr>cronJobs := AList.delete i (cronJobs s)\<rparr>"

definition stopAllSchedules :: "jobs_state \<Rightarrow> jobs_state" where
  "stopAllSchedules s = s\<lparr>cronJobs := []\<rparr>"

text \<open>A firing: the callback of the cron job of a schedule.\<close>

definition fire :: "id \<Rightarrow> jobs_env \<Rightarrow> jobs_state \<Rightarrow> jobs_state" where
  "fire i env s =
     (case map_of (cronJobs s) i of
        None \<Rightarrow> s
      | Some h \<Rightarrow>
          (let h1 = h\<lparr>sh_lastRunAt := Some (jq_now env)\<rparr>;
               (r, s1) = addJob (Some (mapJobTypeToQueue (sh_jobType h1))) (sh_jobPayload h1)
                 (DEFAULT_JOB_OPTIONS\<lparr>jo_priority := Some 5, jo_jobId := Some (sh_id h1 @ '':'' @ show_int (jq_now env))\<rparr>) env s;
               h2 = (case r of
                       Inr _ \<Rightarrow> h1\<lparr>sh_successCount := sh_successCount h1 + 1, sh_lastErrorMessage := None\<rparr>
                     | Inl e \<Rightarrow> h1\<lparr>sh_failureCount := sh_failureCount h1 + 1,
                         sh_lastErrorMessage := Some (case e of JsError m \<Rightarrow> m | _ \<Rightarrow> [])\<rparr>);
               h3 = h2\<lparr>sh_nextRunAt := getNextRunTime env (sh_cronExpression h2) (sh_timezone h2)\<rparr>
           in save_schedule h3 (s1\<lparr>cronJobs := AList.update i h3 (cronJobs s1)\<rparr>)))"

definition active_schedules :: "jobs_state \<Rightarrow> JobSchedule list" where
  "active_schedules s = filter sh_isActive (scheduleTable s)"

definition loadScheduledJobs :: "jobs_env \<Rightarrow> jobs_state \<Rightarrow> jobs_state" where
  "loadScheduledJobs env s = fold (startSchedule env) (active_schedules s) s"

definition syncScheduledJobs :: "jobs_env \<Rightarrow> jobs_state \<Rightarrow> jobs_state" where
  "syncScheduledJobs env s =
     (let dbSchedules = active_schedules s;
          dbScheduleIds = map sh_id dbSchedules;
          activeScheduleIds = map fst (cronJobs s);
          s1 = fold stopSchedule (filter (\<lambda>i. i \<notin> set dbScheduleIds) activeScheduleIds) s
      in fold (startSchedule env) (filter (\<lambda>h. sh_id h \<notin> set activeScheduleIds) dbSchedules) s1)"

definition createSchedule ::
    "JobType \<Rightarrow> string \<Rightarrow> json \<Rightarrow> string option \<Rightarrow> string option \<Rightarrow> string option \<Rightarrow> jobs_env \<Rightarrow> jobs_state
     \<Rightarrow> (jobs_state, JobSchedule) outcome" where
  "createSchedule jobType cronExpression jobPayload timezone organizationId description env s =
     (if \<not> jq_validCron env cronExpression
      then (Inl (JsError (''Invalid cron expression: '' @ cronExpression)), s)
      else
        (let h = \<lparr> sh_id = jv_newId (jq_log env), sh_jobType = jobType, sh_cronExpression = cronExpression,
                   sh_timezone = Some (or_default timezone ''UTC''), sh_jobPayload = jobPayload,
                   sh_organizationId = organizationId, sh_isActive = True, sh_successCount = 0, sh_failureCount = 0,
                   sh_lastRunAt = None, sh_nextRunAt = getNextRunTime env cronExpression timezone,
                   sh_lastErrorMessage = None, sh_createdAt = jq_now env, sh_disabledAt = None,
                   sh_description = description \<rparr>
         in (Inr h, startSchedule env h (save_schedule h s))))"

text \<open>\<open>Partial<JobSchedule>\<close>: the new cron expression, if one is given, and the other changes.\<close>

record ScheduleUpdates =
  su_cronExpression :: "string option"
  su_change :: "JobSchedule \<Rightarrow> JobSchedule"

definition not_found_schedule :: "id \<Rightarrow> exn" where
  "not_found_schedule i = JsError (''Schedule not found: '' @ i)"

definition updateSchedule :: "id \<Rightarrow> ScheduleUpdates \<Rightarrow> jobs_env \<Rightarrow> jobs_state \<Rightarrow> (jobs_state, JobSchedule) outcome" where
  "updateSchedule i updates env s =
     (case find_schedule i s of
        None \<Rightarrow> (Inl (not_found_schedule i), s)
      | Some h \<Rightarrow>
          (let new = su_cronExpression updates;
               s1 = (if truthy new \<and> new \<noteq> Some (sh_cronExpression h) then stopSchedule i s else s);
               h1 = su_change updates (h\<lparr>sh_cronExpression := coalesce new (sh_cronExpression h)\<rparr>);
               h2 = h1\<lparr>sh_nextRunAt := getNextRunTime env (sh_cronExpression h1) (sh_timezone h1)\<rparr>;
               s2 = save_schedule h2 s1
           in (Inr h2, if sh_isActive h2 then startSchedule env h2 s2 else s2)))"

definition disableSchedule :: "id \<Rightarrow> jobs_env \<Rightarrow> jobs_state \<Rightarrow> (jobs_state, unit) outcome" where
  "disableSchedule i env s =
     (case find_schedule i s of
        None \<Rightarrow> (Inl (not_found_schedule i), s)
      | Some h \<Rightarrow>
          (Inr (), stopSchedule i (save_schedule (h\<lparr>sh_isActive := False, sh_disabledAt := Some (jq_now env)\<rparr>) s)))"

definition enableSchedule :: "id \<Rightarrow> jobs_env \<Rightarrow> jobs_state \<Rightarrow> (jobs_state, unit) outcome" where
  "enableSchedule i env s =
     (case find_schedule i s of
        None \<Rightarrow> (Inl (not_found_schedule i), s)
      | Some h \<Rightarrow>
          (let h1 = h\<lparr>sh_isActive := True, sh_disabledAt := None,
                      sh_nextRunAt := getNextRunTime env (sh_cronExpression h) (sh_timezone h)\<rparr>
           in (Inr (), startSchedule env h1 (save_schedule h1 s))))"

text \<open>\<open>ORDER BY nextRunAt ASC\<close> puts \<open>null\<close> last.\<close>

definition getActiveSchedules :: "jobs_state \<Rightarrow> JobSchedule list" where
  "getActiveSchedules s =
     (let t = active_schedules s
      in order_asc (\<lambda>h. the (sh_nextRunAt h)) (filter (\<lambda>h. sh_nextRunAt h \<noteq> None) t) @ filter (\<lambda>h. sh_nextRunAt h = None) t)"

definition getSchedulesByType :: "JobType \<Rightarrow> jobs_state \<Rightarrow> JobSchedule list" where
  "getSchedulesByType jobType s = order_desc sh_createdAt (filter (\<lambda>h. sh_jobType h = jobType) (scheduleTable s))"

definition scheduler_deleteSchedule :: "id \<Rightarrow> jobs_state \<Rightarrow> jobs_state" where
  "scheduler_deleteSchedule i s =
     (let s1 = stopSchedule i s in s1\<lparr>scheduleTable := remove_row sh_id i (scheduleTable s1)\<rparr>)"

definition triggerScheduleNow :: "id \<Rightarrow> jobs_env \<Rightarrow> jobs_state \<Rightarrow> (jobs_state, string) outcome" where
  "triggerScheduleNow i env s =
     (case find_schedule i s of
        None \<Rightarrow> (Inl (not_found_schedule i), s)
      | Some h \<Rightarrow>
          (case addJob (Some (mapJobTypeToQueue (sh_jobType h))) (sh_jobPayload h)
                  (DEFAULT_JOB_OPTIONS\<lparr>jo_priority := Some 1,
                     jo_jobId := Some (i @ '':manual-trigger:'' @ show_int (jq_now env))\<rparr>) env s of
             (Inl e, s1) \<Rightarrow> (Inl e, s1)
           | (Inr j, s1) \<Rightarrow> (Inr (qj_id j), s1)))"

record ScheduleStats =
  ss_totalSchedules :: nat
  ss_activeSchedules :: nat
  ss_disabledSchedules :: nat
  ss_totalSuccessfulRuns :: int
  ss_totalFailedRuns :: int
  ss_successRate :: rat
  ss_nextScheduledJobs :: "JobSchedule list"

definition getScheduleStats :: "jobs_state \<Rightarrow> ScheduleStats" where
  "getScheduleStats s =
     (let hs = scheduleTable s; ok = sum_list (map sh_successCount hs); bad = sum_list (map sh_failureCount hs)
      in \<lparr> ss_totalSchedules = length hs, ss_activeSchedules = length (filter sh_isActive hs),
           ss_disabledSchedules = length (filter (\<lambda>h. \<not> sh_isActive h) hs),
           ss_totalSuccessfulRuns = ok, ss_totalFailedRuns = bad,
           ss_successRate = (if hs = [] then 0 else of_int ok / of_int (if ok + bad = 0 then 1 else ok + bad) * 100),
           ss_nextScheduledJobs = take 10 (order_asc (\<lambda>h. the (sh_nextRunAt h))
             (filter (\<lambda>h. sh_isActive h \<and> sh_nextRunAt h \<noteq> None) hs)) \<rparr>)"

end
