(* ===== verification/JobsController.thy ===== *)
theory JobsController
  imports JobScheduler
begin

text \<open>
  \<open>jobs.controller.ts\<close>: the routes over the queues, the log and the schedules.  Every route turns an
  \<open>Error\<close> it catches into a \<open>BadRequestException\<close> with its message.  The table \<open>post_routes\<close> lists the
  routes of one method in the order of their declarations, which is the order the framework matches
  them in.
\<close>

record CreateJobDto =
  cj_jobType :: JobType
  cj_payload :: json
  cj_priority :: "nat option"
  cj_maxAttempts :: nat
  cj_correlationId :: "string option"
  cj_organizationId :: "string option"
  cj_userId :: "string option"
  cj_tags :: "string list option"
  cj_delayMs :: "int option"

record JobResponseDto =
  jp_id :: id
  jp_jobType :: JobType
  jp_status :: JobStatus
  jp_queueName :: "string option"
  jp_attempt :: int
  jp_maxAttempts :: int
  jp_progress :: int
  jp_errorMessage :: "string option"
  jp_result :: "json option"
  jp_durationMs :: "int option"
  jp_createdAt :: time
  jp_updatedAt :: time
  jp_startedAt :: "time option"
  jp_completedAt :: "time option"
  jp_correlationId :: "string option"
  jp_organizationId :: "string option"
  jp_userId :: "string option"

definition toJobResponseDto :: "JobLog \<Rightarrow> JobResponseDto" where
  "toJobResponseDto j =
     \<lparr> jp_id = jl_id j, jp_jobType = jl_jobType j, jp_status = jl_status j, jp_queueName = jl_queueName j,
       jp_attempt = jl_attempt j, jp_maxAttempts = jl_maxAttempts j, jp_progress = jl_progress j,
       jp_errorMessage = jl_errorMessage j, jp_result = jl_result j, jp_durationMs = jl_durationMs j,
       jp_createdAt = jl_createdAt j, jp_updatedAt = jl_updatedAt j, jp_startedAt = jl_startedAt j,
       jp_completedAt = jl_completedAt j, jp_correlationId = jl_correlationId j,
       jp_organizationId = jl_organizationId j, jp_userId = jl_userId j \<rparr>"

record ScheduledJobResponseDto =
  sr_id :: id
  sr_jobType :: JobType
  sr_cronExpression :: string
  sr_timezone :: "string option"
  sr_isActive :: bool
  sr_lastRunAt :: "time option"
  sr_nextRunAt :: "time option"
  sr_successCount :: int
  sr_failureCount :: int
  sr_description :: "string option"

definition toScheduleResponseDto :: "JobSchedule \<Rightarrow> ScheduledJobResponseDto" where
  "toScheduleResponseDto h =
     \<lparr> sr_id = sh_id h, sr_jobType = sh_jobType h, sr_cronExpression = sh_cronExpression h, sr_timezone = sh_timezone h,
       sr_isActive = sh_isActive h, sr_lastRunAt = sh_lastRunAt h, sr_nextRunAt = sh_nextRunAt h,
       sr_successCount = sh_successCount h, sr_failureCount = sh_failureCount h, sr_description = sh_description h \<rparr>"

definition on_log :: "(joblog_state \<Rightarrow> 'a \<times> joblog_state) \<Rightarrow> jobs_state \<Rightarrow> 'a \<times> jobs_state" where
  "on_log f s = (case f (jobLogs s) of (r, l) \<Rightarrow> (r, s\<lparr>jobLogs := l\<rparr>))"

subsection \<open>Creating jobs\<close>

datatype add_reply = UnknownQueue | Added string string

definition add_route :: "string \<Rightarrow> json \<Rightarrow> jobs_env \<Rightarrow> jobs_state \<Rightarrow> (jobs_state, add_reply) outcome" where
  "add_route queue body env s =
     (if queue \<notin> set QUEUES then (Inr UnknownQueue, s)
      else (case addJob (Some queue) body DEFAULT_JOB_OPTIONS env s of
              (Inl e, s1) \<Rightarrow> (Inl e, s1)
            | (Inr j, s1) \<Rightarrow> (Inr (Added (qj_id j) (qj_name j)), s1)))"

text \<open>The body of the two routes that create a job: the log row, the queue, the row again.\<close>

definition create_tracked :: "CreateJobDto \<Rightarrow> int option \<Rightarrow> jobs_env \<Rightarrow> jobs_state \<Rightarrow> (jobs_state, JobResponseDto) outcome" where
  "create_tracked dto delay env s =
     (let (jobLog, s1) = on_log (createJobLog \<lparr> nj_jobType = cj_jobType dto, nj_payload = Some (cj_payload dto),
              nj_organizationId = cj_organizationId dto, nj_userId = cj_userId dto,
              nj_correlationId = cj_correlationId dto, nj_tags = cj_tags dto \<rparr> (jq_log env)) s;
          queueName = mapJobTypeToQueue (cj_jobType dto)
      in case addJob (Some queueName) (cj_payload dto)
                \<lparr> jo_attempts = cj_maxAttempts dto, jo_priority = cj_priority dto, jo_delay = delay, jo_jobId = None \<rparr> env s1 of
           (Inl e, s2) \<Rightarrow> (Inl e, s2)
         | (Inr job, s2) \<Rightarrow>
             (case on_log (updateJobLog (jl_id jobLog) \<lparr> ju_status = None,
                     ju_change = (\<lambda>j. j\<lparr>jl_externalJobId := Some (qj_id job), jl_queueName := Some queueName\<rparr>) \<rparr> (jq_log env)) s2 of
                (Inl e, s3) \<Rightarrow> (Inl e, s3)
              | (Inr _, s3) \<Rightarrow> (Inr (toJobResponseDto jobLog), s3)))"

definition as_bad_request :: "(jobs_state, 'a) outcome \<Rightarrow> (jobs_state, 'a) outcome" where
  "as_bad_request r = (case r of (Inl e, s) \<Rightarrow> (Inl (BadRequestException (message_of e)), s) | (Inr v, s) \<Rightarrow> (Inr v, s))"

definition createJob :: "CreateJobDto \<Rightarrow> jobs_env \<Rightarrow> jobs_state \<Rightarrow> (jobs_state, JobResponseDto) outcome" where
  "createJob dto env s = as_bad_request (create_tracked dto (cj_delayMs dto) env s)"

record BatchJobResponseDto =
  bj_successCount :: nat
  bj_failureCount :: nat
  bj_totalCount :: nat
  bj_createdJobs :: "JobResponseDto list"
  bj_failedJobs :: "(nat \<times> string) list"

text \<open>The loop over the jobs of a request; each has an environment of its own.\<close>

fun bulk_loop ::
    "(CreateJobDto \<times> jobs_env) list \<Rightarrow> nat \<Rightarrow> BatchJobResponseDto \<Rightarrow> jobs_state \<Rightarrow> BatchJobResponseDto \<times> jobs_state" where
  "bulk_loop [] i r s = (r, s)"
| "bulk_loop ((dto, env) # rest) i r s =
     (case create_tracked dto None env s of
        (Inr d, s1) \<Rightarrow> bulk_loop rest (Suc i)
          (r\<lparr>bj_createdJobs := bj_createdJobs r @ [d], bj_successCount := Suc (bj_successCount r)\<rparr>) s1
      | (Inl e, s1) \<Rightarrow> bulk_loop rest (Suc i)
          (r\<lparr>bj_failedJobs := bj_failedJobs r @ [(i, message_of e)], bj_failureCount := Suc (bj_failureCount r)\<rparr>) s1)"

definition createJobsBulk :: "(CreateJobDto \<times> jobs_env) list \<Rightarrow> jobs_state \<Rightarrow> BatchJobResponseDto \<times> jobs_state" where
  "createJobsBulk jobs s = bulk_loop jobs 0
     \<lparr> bj_successCount = 0, bj_failureCount = 0, bj_totalCount = length jobs, bj_createdJobs = [], bj_failedJobs = [] \<rparr> s"

subsection \<open>One job\<close>

definition not_found_job :: "id \<Rightarrow> exn" where
  "not_found_job i = NotFoundException (''Job not found: '' @ i)"

definition getJob :: "id \<Rightarrow> jobs_state \<Rightarrow> exn + JobResponseDto" where
  "getJob i s = (case find_job i (jobLogs s) of None \<Rightarrow> Inl (not_found_job i) | Some j \<Rightarrow> Inr (toJobResponseDto j))"

definition queryJobs :: "JobFilters \<Rightarrow> jobs_state \<Rightarrow> JobResponseDto list \<times> nat" where
  "queryJobs f s =
     (case queryJobLogs (f\<lparr>jf_startDate := None, jf_endDate := None\<rparr>) (jobLogs s) of
        (rows, n) \<Rightarrow> (map toJobResponseDto rows, n))"

text \<open>The updates of the two routes below write \<open>'DEFERRED'\<close>, and that of the third \<open>'CANCELLED'\<close>.\<close>

definition reload_job :: "id \<Rightarrow> jobs_state \<Rightarrow> (jobs_state, JobResponseDto) outcome" where
  "reload_job i s =
     (case find_job i (jobLogs s) of
        None \<Rightarrow> (Inl (JsTypeError ''Cannot read properties of null''), s)
      | Some j \<Rightarrow> (Inr (toJobResponseDto j), s))"

definition retryJob :: "id \<Rightarrow> json option \<Rightarrow> int option \<Rightarrow> jobs_env \<Rightarrow> jobs_state \<Rightarrow> (jobs_state, JobResponseDto) outcome" where
  "retryJob i updatedPayload delayMs env s =
     (case find_job i (jobLogs s) of
        None \<Rightarrow> (Inl (not_found_job i), s)
      | Some jobLog \<Rightarrow>
          if \<not> jl_isRetryable jobLog then (Inl (BadRequestException ''Job cannot be retried''), s)
          else as_bad_request
            (case addJob (jl_queueName jobLog) (case updatedPayload of Some p \<Rightarrow> p | None \<Rightarrow> coalesce (jl_payload jobLog) JNull)
                    (DEFAULT_JOB_OPTIONS\<lparr>jo_delay := delayMs\<rparr>) env s of
               (Inl e, s1) \<Rightarrow> (Inl e, s1)
             | (Inr job, s1) \<Rightarrow>
                 (case on_log (recordRetryAttempt i (jl_attempt jobLog + 1) ''Manual retry'' None (jq_log env)) s1 of
                    (Inl e, s2) \<Rightarrow> (Inl e, s2)
                  | (Inr _, s2) \<Rightarrow>
                      (case on_log (updateJobLog i \<lparr> ju_status = Some ''DEFERRED'',
                              ju_change = (\<lambda>j. j\<lparr>jl_externalJobId := Some (qj_id job)\<rparr>) \<rparr> (jq_log env)) s2 of
                         (Inl e, s3) \<Rightarrow> (Inl e, s3)
                       | (Inr _, s3) \<Rightarrow> reload_job i s3))))"

definition cancelJob :: "id \<Rightarrow> string option \<Rightarrow> jobs_env \<Rightarrow> jobs_state \<Rightarrow> (jobs_state, string) outcome" where
  "cancelJob i reason env s =
     (case find_job i (jobLogs s) of
        None \<Rightarrow> (Inl (not_found_job i), s)
      | Some _ \<Rightarrow>
          as_bad_request
            (case on_log (updateJobLog i \<lparr> ju_status = Some ''CANCELLED'',
                    ju_change = (\<lambda>j. j\<lparr>jl_errorMessage := Some (or_default reason ''Cancelled by user'')\<rparr>) \<rparr> (jq_log env)) s of
               (Inl e, s1) \<Rightarrow> (Inl e, s1)
             | (Inr _, s1) \<Rightarrow> (Inr (''Job '' @ i @ '' cancelled successfully''), s1)))"

definition rescheduleJob :: "id \<Rightarrow> json option \<Rightarrow> int \<Rightarrow> jobs_env \<Rightarrow> jobs_state \<Rightarrow> (jobs_state, JobResponseDto) outcome" where
  "rescheduleJob i updatedPayload delayMs env s =
     (case find_job i (jobLogs s) of
        None \<Rightarrow> (Inl (not_found_job i), s)
      | Some jobLog \<Rightarrow>
          as_bad_request
            (case addJob (jl_queueName jobLog) (case updatedPayload of Some p \<Rightarrow> p | None \<Rightarrow> coalesce (jl_payload jobLog) JNull)
                    (DEFAULT_JOB_OPTIONS\<lparr>jo_delay := Some delayMs\<rparr>) env s of
               (Inl e, s1) \<Rightarrow> (Inl e, s1)
             | (Inr job, s1) \<Rightarrow>
                 (case on_log (updateJobLog i \<lparr> ju_status = Some ''DEFERRED'',
                         ju_change = (\<lambda>j. j\<lparr>jl_externalJobId := Some (qj_id job),
                           jl_scheduledAt := Some (jq_now env + delayMs)\<rparr>) \<rparr> (jq_log env)) s1 of
                    (Inl e, s2) \<Rightarrow> (Inl e, s2)
                  | (Inr _, s2) \<Rightarrow> reload_job i s2)))"

subsection \<open>Monitoring\<close>

text \<open>
  The statistics of the queues ask each value of \<open>QUEUES\<close> for its counts; the values are texts, which
  have no such method, and the error is logged.
\<close>

definition job_counts :: "string \<Rightarrow> exn + (string \<times> nat)" where
  "job_counts queue = Inl (JsTypeError ''queue.getJobCounts is not a function'')"

definition getQueueStats :: "(string \<times> nat) list" where
  "getQueueStats = List.map_filter (\<lambda>q. case job_counts q of Inl _ \<Rightarrow> None | Inr c \<Rightarrow> Some c) QUEUES"

record JobMonitoringDto =
  mo_totalJobs :: nat
  mo_pendingJobs :: nat
  mo_processingJobs :: nat
  mo_completedJobs :: nat
  mo_failedJobs :: nat
  mo_cancelledJobs :: nat
  mo_averageDurationMs :: int
  mo_successRate :: rat
  mo_failureRate :: rat
  mo_jobsByType :: "(JobType \<times> nat) list"
  mo_recentFailures :: "JobResponseDto list"
  mo_topFailedJobs :: "(JobType \<times> nat) list"

definition getMonitoringDashboard :: "jobs_state \<Rightarrow> JobMonitoringDto" where
  "getMonitoringDashboard s =
     (let stats = getStatisticsByStatus None (jobLogs s);
          statsByType = getStatisticsByJobType None (jobLogs s);
          finished = stats JobStatus.COMPLETED + stats JobStatus.FAILED;
          successRate = (if finished > 0 then of_nat (stats JobStatus.COMPLETED) / of_nat finished * 100 else 0)
      in \<lparr> mo_totalJobs = stats JobStatus.PENDING + stats JobStatus.PROCESSING + stats JobStatus.COMPLETED
             + stats JobStatus.FAILED + stats JobStatus.CANCELLED,
           mo_pendingJobs = stats JobStatus.PENDING, mo_processingJobs = stats JobStatus.PROCESSING,
           mo_completedJobs = stats JobStatus.COMPLETED, mo_failedJobs = stats JobStatus.FAILED,
           mo_cancelledJobs = stats JobStatus.CANCELLED,
           mo_averageDurationMs = js_round (coalesce (pm_avgDurationMs (getPerformanceMetrics None (jobLogs s))) 0),
           mo_successRate = successRate, mo_failureRate = 100 - successRate,
           mo_jobsByType = map (\<lambda>(ty, d). (ty, ts_total d)) statsByType,
           mo_recentFailures = map toJobResponseDto (getRecentlyFailedJobs 5 (jobLogs s)),
           mo_topFailedJobs = take 5 (order_desc (\<lambda>(ty, n). int n) (map (\<lambda>(ty, d). (ty, ts_failed d)) statsByType)) \<rparr>)"

definition getRelated :: "string \<Rightarrow> jobs_state \<Rightarrow> JobResponseDto list" where
  "getRelated correlationId s = map toJobResponseDto (getRelatedJobs correlationId (jobLogs s))"

subsection \<open>Schedules\<close>

record CreateScheduleDto =
  cs_jobType :: JobType
  cs_cronExpression :: string
  cs_jobPayload :: json
  cs_timezone :: "string option"
  cs_organizationId :: "string option"
  cs_description :: "string option"

definition createSchedule_route :: "CreateScheduleDto \<Rightarrow> jobs_env \<Rightarrow> jobs_state \<Rightarrow> (jobs_state, ScheduledJobResponseDto) outcome" where
  "createSchedule_route dto env s =
     as_bad_request
       (case createSchedule (cs_jobType dto) (cs_cronExpression dto) (cs_jobPayload dto) (cs_timezone dto)
               (cs_organizationId dto) (cs_description dto) env s of
          (Inl e, s1) \<Rightarrow> (Inl e, s1)
        | (Inr h, s1) \<Rightarrow> (Inr (toScheduleResponseDto h), s1))"

definition getSchedules :: "jobs_state \<Rightarrow> ScheduledJobResponseDto list" where
  "getSchedules s = map toScheduleResponseDto (getActiveSchedules s)"

definition getSchedule :: "id \<Rightarrow> jobs_state \<Rightarrow> exn + ScheduledJobResponseDto" where
  "getSchedule i s =
     (case find_schedule i s of
        None \<Rightarrow> Inl (NotFoundException (''Schedule not found: '' @ i))
      | Some h \<Rightarrow> Inr (toScheduleResponseDto h))"

definition triggerSchedule :: "id \<Rightarrow> jobs_env \<Rightarrow> jobs_state \<Rightarrow> (jobs_state, string) outcome" where
  "triggerSchedule i env s = as_bad_request (triggerScheduleNow i env s)"

definition deleteSchedule :: "id \<Rightarrow> jobs_state \<Rightarrow> (jobs_state, string) outcome" where
  "deleteSchedule i s = (Inr (''Schedule '' @ i @ '' deleted successfully''), scheduler_deleteSchedule i s)"

subsection \<open>Routing\<close>

datatype segment = Lit string | Param

datatype post_handler = AddRoute | CreateJobRoute | BulkRoute | RetryRoute | CreateScheduleRoute | TriggerRoute

definition post_routes :: "(segment list \<times> post_handler) list" where
  "post_routes =
     [([Param], AddRoute), ([], CreateJobRoute), ([Lit ''bulk''], BulkRoute), ([Param, Lit ''retry''], RetryRoute),
      ([Lit ''schedules''], CreateScheduleRoute), ([Lit ''schedules'', Param, Lit ''trigger''], TriggerRoute)]"

fun route_matches :: "segment list \<Rightarrow> string list \<Rightarrow> bool" where
  "route_matches [] [] = True"
| "route_matches (Lit l # ps) (x # xs) = (l = x \<and> route_matches ps xs)"
| "route_matches (Param # ps) (x # xs) = (x \<noteq> [] \<and> route_matches ps xs)"
| "route_matches _ _ = False"

definition dispatch_post :: "string list \<Rightarrow> post_handler option" where
  "dispatch_post path = map_option snd (List.find (\<lambda>(p, _). route_matches p path) post_routes)"

end
