(* ===== verification/JobsProps.thy ===== *)
theory JobsProps
  imports JobsController
begin

text \<open>
  Properties of the jobs: what the routes and the scheduler make of the log, the queues and the schedules.
\<close>

interpretation schedule_repo: repository sh_id "\<lambda>t. t" find_row "save_row sh_id" "wf_table sh_id"
  by (rule table_repository)

interpretation job_repo: conditional_repository jl_id "\<lambda>t. t" find_row "save_row jl_id" "wf_table jl_id"
    update_where affected
  by (rule table_conditional_repository)

subsection \<open>Frames\<close>

lemma addJob_frame [frame_simps]:
  "jobLogs (state_of (addJob n d opts env s)) = jobLogs s"
  "scheduleTable (state_of (addJob n d opts env s)) = scheduleTable s"
  "cronJobs (state_of (addJob n d opts env s)) = cronJobs s"
  by (auto simp: addJob_def push_job_def Let_def split: option.split sum.split)

lemma addJob_cases:
  obtains (refused) e where "addJob n d opts env s = (Inl e, s)"
  | (queued) j where "addJob n d opts env s = (Inr j, push_job (coalesce n ''null'') j s)"
    "getQueue (coalesce n ''null'') s \<noteq> None" "qj_data j = d" "qj_opts j = opts"
proof (cases "getQueue (coalesce n ''null'') s")
  case None
  then show ?thesis using refused by (simp add: addJob_def)
next
  case (Some q)
  show ?thesis
  proof (cases "jq_accept env (coalesce n ''null'') (jo_jobId opts)")
    case (Inl e)
    with Some show ?thesis using refused by (simp add: addJob_def)
  next
    case (Inr i)
    with Some show ?thesis using queued by (simp add: addJob_def Let_def)
  qed
qed

lemma push_job_frame [frame_simps]:
  "jobLogs (push_job n j s) = jobLogs s" "scheduleTable (push_job n j s) = scheduleTable s"
  "cronJobs (push_job n j s) = cronJobs s"
  by (simp_all add: push_job_def)

lemma scheduler_frame [frame_simps]:
  "jobLogs (startSchedule env h s) = jobLogs s" "scheduleTable (startSchedule env h s) = scheduleTable s"
  "jobQueues (startSchedule env h s) = jobQueues s"
  "jobLogs (stopSchedule i s) = jobLogs s" "scheduleTable (stopSchedule i s) = scheduleTable s"
  "jobQueues (stopSchedule i s) = jobQueues s"
  "jobLogs (save_schedule h s) = jobLogs s" "cronJobs (save_schedule h s) = cronJobs s"
  "scheduleTable (save_schedule h s) = save_row sh_id h (scheduleTable s)"
  by (simp_all add: startSchedule_def stopSchedule_def save_schedule_def)

lemma fold_scheduler_frame [frame_simps]:
  "jobLogs (fold (startSchedule env) hs s) = jobLogs s"
  "scheduleTable (fold (startSchedule env) hs s) = scheduleTable s"
  by (induction hs arbitrary: s) (simp_all add: frame_simps)

lemma fold_stop_frame [frame_simps]:
  "jobLogs (fold stopSchedule ids s) = jobLogs s"
  "scheduleTable (fold stopSchedule ids s) = scheduleTable s"
  by (induction ids arbitrary: s) (simp_all add: frame_simps)

lemma on_log_state [frame_simps]:
  "jobLogs (snd (on_log f s)) = snd (f (jobLogs s))" "jobQueues (snd (on_log f s)) = jobQueues s"
  "scheduleTable (snd (on_log f s)) = scheduleTable s" "cronJobs (snd (on_log f s)) = cronJobs s"
  "fst (on_log f s) = fst (f (jobLogs s))"
  by (simp_all add: on_log_def split: prod.split)

lemma as_bad_request_state [simp]: "state_of (as_bad_request r) = state_of r"
  by (cases r) (auto simp: as_bad_request_def split: sum.split)

subsection \<open>What the routes do to the log\<close>

text \<open>The texts the routes pass as a status are not among the values of the enumeration.\<close>

lemma upper_case_statuses: "parse_JobStatus ''DEFERRED'' = None" "parse_JobStatus ''CANCELLED'' = None"
  by (simp_all add: parse_JobStatus_def all_statuses_def)

lemma updateJobLog_refused:
  "parse_JobStatus t = None \<Longrightarrow> state_of (updateJobLog i \<lparr> ju_status = Some t, ju_change = f \<rparr> env l) = l"
  by (simp add: updateJobLog_def Let_def split: option.split)

lemma updateJobLog_invalid:
  "parse_JobStatus t = None \<Longrightarrow> find_job i l = Some j \<Longrightarrow>
   updateJobLog i \<lparr> ju_status = Some t, ju_change = f \<rparr> env l = (Inl (invalid_enum t), l)"
  by (simp add: updateJobLog_def)

definition untouched_row :: "JobLog \<Rightarrow> bool" where
  "untouched_row j \<longleftrightarrow> jl_status j = JobStatus.PENDING \<and> jl_attempt j = 0 \<and> jl_progress j = 0 \<and> jl_isRetryable j
     \<and> jl_durationMs j = None \<and> jl_startedAt j = None"

definition untouched_log :: "joblog_state \<Rightarrow> bool" where
  "untouched_log l \<longleftrightarrow> (\<forall>j \<in> set (jobLogTable l). untouched_row j)"

lemma untouched_save: "untouched_log l \<Longrightarrow> untouched_row j \<Longrightarrow> untouched_log (save_job env j l)"
  using set_save_row_subset [of jl_id "j\<lparr>jl_updatedAt := jv_now env\<rparr>" "jobLogTable l"]
  by (auto simp: untouched_log_def save_job_def untouched_row_def)

lemma untouched_create: "untouched_log l \<Longrightarrow> untouched_log (snd (createJobLog d env l))"
  unfolding createJobLog_def Let_def snd_conv
  by (rule untouched_save) (simp_all add: untouched_row_def)

lemma untouched_update:
  assumes "untouched_log l" and "\<And>j. untouched_row j \<Longrightarrow> untouched_row (f j)"
  shows "untouched_log (snd (updateJobLog i \<lparr> ju_status = None, ju_change = f \<rparr> env l))"
proof (cases "find_job i l")
  case None
  with assms(1) show ?thesis by (simp add: updateJobLog_def)
next
  case (Some j)
  then have "untouched_row (f j)"
    using assms by (auto simp: untouched_log_def find_job_def dest: find_row_some)
  with Some assms(1) show ?thesis by (simp add: updateJobLog_def Let_def untouched_save)
qed

lemma untouched_retry: "untouched_log l \<Longrightarrow> untouched_log (snd (recordRetryAttempt i n m t env l))"
  by (simp add: recordRetryAttempt_def Let_def untouched_log_def split: option.split)

subsection \<open>Runs\<close>

inductive jobs_step :: "jobs_state \<Rightarrow> jobs_state \<Rightarrow> bool" where
  add: "jobs_step s (state_of (add_route q body env s))"
| create: "jobs_step s (state_of (createJob dto env s))"
| bulk: "jobs_step s (snd (createJobsBulk dtos s))"
| retry: "jobs_step s (state_of (retryJob i p d env s))"
| cancel: "jobs_step s (state_of (cancelJob i why env s))"
| reschedule: "jobs_step s (state_of (rescheduleJob i p n env s))"
| create_schedule: "jobs_step s (state_of (createSchedule_route sdto env s))"
| trigger: "jobs_step s (state_of (triggerSchedule i env s))"
| delete_schedule: "jobs_step s (state_of (deleteSchedule i s))"
| update_schedule: "jobs_step s (state_of (updateSchedule i su env s))"
| disable: "jobs_step s (state_of (disableSchedule i env s))"
| enable: "jobs_step s (state_of (enableSchedule i env s))"
| fires: "jobs_step s (fire i env s)"
| load: "jobs_step s (loadScheduledJobs env s)"
| sync: "jobs_step s (syncScheduledJobs env s)"
| failed: "jobs_step s (on_failed q j n why newId s)"

definition no_jobs :: jobs_state where
  "no_jobs = jobs_onModuleInit \<lparr> jobLogs = \<lparr> jobLogTable = [], jobRetryTable = [], jobDependencyTable = [] \<rparr>,
     jobQueues = [], scheduleTable = [], cronJobs = [] \<rparr>"

inductive jobs_reachable :: "jobs_state \<Rightarrow> bool" where
  start: "jobs_reachable no_jobs"
| step: "jobs_reachable s \<Longrightarrow> jobs_step s t \<Longrightarrow> jobs_reachable t"

lemma untouched_tracked:
  assumes "untouched_log (jobLogs s)"
  shows "untouched_log (jobLogs (state_of (create_tracked dto d env s)))"
proof -
  let ?new = "\<lparr> nj_jobType = cj_jobType dto, nj_payload = Some (cj_payload dto),
              nj_organizationId = cj_organizationId dto, nj_userId = cj_userId dto,
              nj_correlationId = cj_correlationId dto, nj_tags = cj_tags dto \<rparr>"
  obtain j s1 where c: "on_log (createJobLog ?new (jq_log env)) s = (j, s1)" by (rule prod.exhaust)
  then have "s1 = snd (on_log (createJobLog ?new (jq_log env)) s)" by simp
  then have u1: "untouched_log (jobLogs s1)" using untouched_create [OF assms] by (simp add: frame_simps)
  show ?thesis
  proof (cases rule: addJob_cases [of "Some (mapJobTypeToQueue (cj_jobType dto))" "cj_payload dto"
        "\<lparr> jo_attempts = cj_maxAttempts dto, jo_priority = cj_priority dto, jo_delay = d, jo_jobId = None \<rparr>" env s1])
    case (refused e)
    with u1 show ?thesis by (simp add: create_tracked_def c)
  next
    case (queued q)
    let ?s2 = "push_job (mapJobTypeToQueue (cj_jobType dto)) q s1"
    let ?u = "on_log (updateJobLog (jl_id j) \<lparr> ju_status = None, ju_change = (\<lambda>j. j\<lparr>jl_externalJobId := Some (qj_id q),
        jl_queueName := Some (mapJobTypeToQueue (cj_jobType dto))\<rparr>) \<rparr> (jq_log env)) ?s2"
    have "untouched_log (jobLogs (snd ?u))"
      using u1 by (auto simp: frame_simps untouched_row_def intro!: untouched_update)
    moreover have "state_of (create_tracked dto d env s) = snd ?u"
      using queued by (simp add: create_tracked_def c Let_def split: prod.split sum.split)
    ultimately show ?thesis by simp
  qed
qed

lemma untouched_bulk:
  "untouched_log (jobLogs s) \<Longrightarrow> untouched_log (jobLogs (snd (bulk_loop dtos i r s)))"
proof (induction dtos i r s rule: bulk_loop.induct)
  case (2 dto env rest i r s)
  from untouched_tracked [OF 2(3), of dto None env] 2(1,2) show ?case
    by (cases "create_tracked dto None env s") (auto split: sum.split)
qed simp

lemma reload_state [simp]: "state_of (reload_job i s) = s"
  by (simp add: reload_job_def split: option.split)

lemma untouched_retryJob:
  assumes "untouched_log (jobLogs s)"
  shows "untouched_log (jobLogs (state_of (retryJob i p d env s)))"
proof -
  have "untouched_log (jobLogs (state_of (case on_log (recordRetryAttempt i n ''Manual retry'' None (jq_log env)) t of
      (Inl e, s2) \<Rightarrow> (Inl e, s2)
    | (Inr _, s2) \<Rightarrow>
        (case on_log (updateJobLog i \<lparr> ju_status = Some ''DEFERRED'', ju_change = f \<rparr> (jq_log env)) s2 of
           (Inl e, s3) \<Rightarrow> (Inl e, s3) | (Inr _, s3) \<Rightarrow> reload_job i s3))))"
    if "untouched_log (jobLogs t)" for n f t
  proof -
    obtain r s2 where a: "on_log (recordRetryAttempt i n ''Manual retry'' None (jq_log env)) t = (r, s2)" by (rule prod.exhaust)
    then have "s2 = snd (on_log (recordRetryAttempt i n ''Manual retry'' None (jq_log env)) t)" by simp
    then have u2: "untouched_log (jobLogs s2)" using untouched_retry [OF that] by (simp add: frame_simps)
    have "jobLogs (snd (on_log (updateJobLog i \<lparr> ju_status = Some ''DEFERRED'', ju_change = f \<rparr> (jq_log env)) s2)) = jobLogs s2"
      using updateJobLog_refused [OF upper_case_statuses(1)] by (simp add: frame_simps)
    with a u2 show ?thesis
      by (cases "on_log (updateJobLog i \<lparr> ju_status = Some ''DEFERRED'', ju_change = f \<rparr> (jq_log env)) s2")
        (auto split: sum.split)
  qed
  note * = this
  show ?thesis
  proof (cases "find_job i (jobLogs s)")
    case None
    with assms show ?thesis by (simp add: retryJob_def)
  next
    case (Some j)
    show ?thesis
    proof (cases rule: addJob_cases [of "jl_queueName j" "case p of Some p \<Rightarrow> p | None \<Rightarrow> coalesce (jl_payload j) JNull"
          "DEFAULT_JOB_OPTIONS\<lparr>jo_delay := d\<rparr>" env s])
      case (refused e)
      with Some assms show ?thesis by (simp add: retryJob_def)
    next
      case (queued q)
      have "untouched_log (jobLogs (push_job (coalesce (jl_queueName j) ''null'') q s))" using assms by (simp add: frame_simps)
      with Some queued assms * show ?thesis by (simp add: retryJob_def)
    qed
  qed
qed

lemma untouched_refused:
  assumes "untouched_log (jobLogs s)" and "parse_JobStatus t = None"
  shows "untouched_log (jobLogs (state_of (case on_log (updateJobLog i \<lparr> ju_status = Some t, ju_change = f \<rparr> e) s of
      (Inl x, s1) \<Rightarrow> (Inl x, s1) | (Inr y, s1) \<Rightarrow> (Inr (k y), s1))))"
    "untouched_log (jobLogs (state_of (case on_log (updateJobLog i \<lparr> ju_status = Some t, ju_change = f \<rparr> e) s of
      (Inl x, s1) \<Rightarrow> (Inl x, s1) | (Inr y, s1) \<Rightarrow> reload_job i s1)))"
proof -
  have *: "jobLogs (snd (on_log (updateJobLog i \<lparr> ju_status = Some t, ju_change = f \<rparr> e) s)) = jobLogs s"
    using updateJobLog_refused [OF assms(2)] by (simp add: frame_simps)
  obtain r s1 where r: "on_log (updateJobLog i \<lparr> ju_status = Some t, ju_change = f \<rparr> e) s = (r, s1)" by (rule prod.exhaust)
  with * assms(1) have "untouched_log (jobLogs s1)" by simp
  then show "untouched_log (jobLogs (state_of (case on_log (updateJobLog i \<lparr> ju_status = Some t, ju_change = f \<rparr> e) s of
      (Inl x, s1) \<Rightarrow> (Inl x, s1) | (Inr y, s1) \<Rightarrow> (Inr (k y), s1))))"
    "untouched_log (jobLogs (state_of (case on_log (updateJobLog i \<lparr> ju_status = Some t, ju_change = f \<rparr> e) s of
      (Inl x, s1) \<Rightarrow> (Inl x, s1) | (Inr y, s1) \<Rightarrow> reload_job i s1)))"
    by (simp_all add: r split: sum.split)
qed

lemma untouched_reschedule:
  assumes "untouched_log (jobLogs s)"
  shows "untouched_log (jobLogs (state_of (rescheduleJob i p n env s)))"
proof (cases "find_job i (jobLogs s)")
  case None
  with assms show ?thesis by (simp add: rescheduleJob_def)
next
  case (Some j)
  show ?thesis
  proof (cases rule: addJob_cases [of "jl_queueName j" "case p of Some p \<Rightarrow> p | None \<Rightarrow> coalesce (jl_payload j) JNull"
        "DEFAULT_JOB_OPTIONS\<lparr>jo_delay := Some n\<rparr>" env s])
    case (refused e)
    with Some assms show ?thesis by (simp add: rescheduleJob_def)
  next
    case (queued q)
    have "untouched_log (jobLogs (push_job (coalesce (jl_queueName j) ''null'') q s))" using assms by (simp add: frame_simps)
    from untouched_refused(2) [OF this upper_case_statuses(1)] Some queued show ?thesis by (simp add: rescheduleJob_def)
  qed
qed

lemma fire_frame [frame_simps]: "jobLogs (fire i env s) = jobLogs s"
proof (cases "map_of (cronJobs s) i")
  case (Some h)
  obtain r s1 where "addJob (Some (mapJobTypeToQueue (sh_jobType h))) (sh_jobPayload h)
      (DEFAULT_JOB_OPTIONS\<lparr>jo_priority := Some 5, jo_jobId := Some (sh_id h @ '':'' @ show_int (jq_now env))\<rparr>) env s = (r, s1)"
    by (rule prod.exhaust)
  moreover from this have "jobLogs s1 = jobLogs s" using addJob_frame(1) by (metis snd_conv)
  ultimately show ?thesis using Some by (simp add: fire_def Let_def frame_simps)
qed (simp add: fire_def)

lemma trigger_frame [frame_simps]: "jobLogs (state_of (triggerScheduleNow i env s)) = jobLogs s"
proof (cases "find_schedule i s")
  case (Some h)
  show ?thesis
  proof (cases rule: addJob_cases [of "Some (mapJobTypeToQueue (sh_jobType h))" "sh_jobPayload h"
        "DEFAULT_JOB_OPTIONS\<lparr>jo_priority := Some 1, jo_jobId := Some (i @ '':manual-trigger:'' @ show_int (jq_now env))\<rparr>" env s])
    case (refused e)
    with Some show ?thesis by (simp add: triggerScheduleNow_def)
  next
    case (queued j)
    with Some show ?thesis by (simp add: triggerScheduleNow_def frame_simps)
  qed
qed (simp add: triggerScheduleNow_def)

lemma untouched_step:
  assumes "jobs_step s t" and u: "untouched_log (jobLogs s)"
  shows "untouched_log (jobLogs t)"
  using assms(1)
proof (cases rule: jobs_step.cases)
  case (add q body env)
  have "jobLogs (state_of (add_route q body env s)) = jobLogs s"
    using addJob_frame(1) [of "Some q" body DEFAULT_JOB_OPTIONS env s]
    by (cases "addJob (Some q) body DEFAULT_JOB_OPTIONS env s") (auto simp: add_route_def split: sum.split)
  with add u show ?thesis by simp
next
  case (create dto env)
  with untouched_tracked [OF u] show ?thesis by (simp add: createJob_def)
next
  case (bulk dtos)
  with untouched_bulk [OF u] show ?thesis by (simp add: createJobsBulk_def)
next
  case (retry i p d env)
  with untouched_retryJob [OF u] show ?thesis by simp
next
  case (cancel i why env)
  have "untouched_log (jobLogs (state_of (cancelJob i why env s)))"
  proof (cases "find_job i (jobLogs s)")
    case None
    with u show ?thesis by (simp add: cancelJob_def)
  next
    case (Some j)
    with untouched_refused(1) [OF u upper_case_statuses(2)] show ?thesis by (simp add: cancelJob_def)
  qed
  with cancel show ?thesis by simp
next
  case (reschedule i p n env)
  with untouched_reschedule [OF u] show ?thesis by simp
next
  case (create_schedule sdto env)
  with u show ?thesis by (simp add: createSchedule_route_def createSchedule_def Let_def frame_simps)
next
  case (trigger i env)
  with u show ?thesis by (simp add: triggerSchedule_def frame_simps)
next
  case (delete_schedule i)
  with u show ?thesis by (simp add: deleteSchedule_def scheduler_deleteSchedule_def Let_def frame_simps)
next
  case (update_schedule i su env)
  with u show ?thesis by (simp add: updateSchedule_def Let_def frame_simps split: option.split)
next
  case (disable i env)
  with u show ?thesis by (simp add: disableSchedule_def frame_simps split: option.split)
next
  case (enable i env)
  with u show ?thesis by (simp add: enableSchedule_def Let_def frame_simps split: option.split)
next
  case (fires i env)
  with u show ?thesis by (simp add: frame_simps)
next
  case (load env)
  with u show ?thesis by (simp add: loadScheduledJobs_def frame_simps)
next
  case (sync env)
  with u show ?thesis by (simp add: syncScheduledJobs_def Let_def frame_simps)
next
  case (failed q j n why newId)
  with u show ?thesis by (simp add: on_failed_def frame_simps)
qed

lemma untouched_reachable: "jobs_reachable s \<Longrightarrow> untouched_log (jobLogs s)"
  by (induction rule: jobs_reachable.induct)
    (simp_all add: no_jobs_def jobs_onModuleInit_def untouched_log_def [of "\<lparr> jobLogTable = [], jobRetryTable = [], jobDependencyTable = [] \<rparr>"]
      untouched_step)

subsection \<open>The queues that exist\<close>

definition queue_keys :: "jobs_state \<Rightarrow> string set" where
  "queue_keys s = dom (map_of (jobQueues s))"

lemma queue_keys_push: "queue_keys (push_job n j s) = insert n (queue_keys s)"
  by (simp add: queue_keys_def push_job_def update_conv')

lemma queue_keys_add [frame_simps]: "queue_keys (state_of (addJob n d opts env s)) = queue_keys s"
proof (cases rule: addJob_cases [of n d opts env s])
  case (queued j)
  then show ?thesis by (auto simp: queue_keys_push) (auto simp: queue_keys_def getQueue_def)
qed simp

lemma queue_keys_same: "jobQueues t = jobQueues s \<Longrightarrow> queue_keys t = queue_keys s"
  by (simp add: queue_keys_def)

lemma queue_keys_frame [frame_simps]:
  "queue_keys (snd (on_log f s)) = queue_keys s" "queue_keys (startSchedule env h s) = queue_keys s"
  "queue_keys (stopSchedule i s) = queue_keys s" "queue_keys (save_schedule h s) = queue_keys s"
  "queue_keys (s\<lparr>cronJobs := c\<rparr>) = queue_keys s" "queue_keys (s\<lparr>scheduleTable := t\<rparr>) = queue_keys s"
  by (simp_all add: queue_keys_def frame_simps save_schedule_def)

lemma fold_queue_keys [frame_simps]:
  "queue_keys (fold (startSchedule env) hs s) = queue_keys s" "queue_keys (fold stopSchedule ids s) = queue_keys s"
  by (induction hs arbitrary: s, simp_all add: frame_simps) (induction ids arbitrary: s, simp_all add: frame_simps)

lemma keys_case_add:
  assumes "queue_keys s = K" and "\<And>j t. queue_keys t = K \<Longrightarrow> queue_keys (state_of (k j t)) = K"
  shows "queue_keys (state_of (case addJob n d opts env s of (Inl e, t) \<Rightarrow> (Inl e, t) | (Inr j, t) \<Rightarrow> k j t)) = K"
  using assms queue_keys_add [of n d opts env s]
  by (cases "addJob n d opts env s") (auto split: sum.split)

lemma keys_case_log:
  assumes "queue_keys s = K" and "\<And>j t. queue_keys t = K \<Longrightarrow> queue_keys (state_of (k j t)) = K"
  shows "queue_keys (state_of (case on_log f s of (Inl e, t) \<Rightarrow> (Inl e, t) | (Inr j, t) \<Rightarrow> k j t)) = K"
  using assms queue_keys_frame(1) [of f s] by (cases "on_log f s") (auto split: sum.split)

lemma queue_keys_tracked [frame_simps]: "queue_keys (state_of (create_tracked dto d env s)) = queue_keys s"
proof -
  obtain j t where c: "on_log (createJobLog \<lparr> nj_jobType = cj_jobType dto, nj_payload = Some (cj_payload dto),
              nj_organizationId = cj_organizationId dto, nj_userId = cj_userId dto,
              nj_correlationId = cj_correlationId dto, nj_tags = cj_tags dto \<rparr> (jq_log env)) s = (j, t)" by (rule prod.exhaust)
  then have "queue_keys t = queue_keys s" using queue_keys_frame(1) by (metis snd_conv)
  then show ?thesis
    unfolding create_tracked_def c Let_def prod.case
    by (intro keys_case_add keys_case_log) simp_all
qed

lemma queue_keys_bulk [frame_simps]: "queue_keys (snd (bulk_loop dtos i r s)) = queue_keys s"
proof (induction dtos i r s rule: bulk_loop.induct)
  case (2 dto env rest i r s)
  from queue_keys_tracked [of dto None env s] 2(1,2) show ?case
    by (cases "create_tracked dto None env s") (auto split: sum.split)
qed simp

lemma queue_keys_retry [frame_simps]: "queue_keys (state_of (retryJob i p d env s)) = queue_keys s"
proof (cases "find_job i (jobLogs s)")
  case (Some j)
  show ?thesis
    unfolding retryJob_def Some option.case
    by (cases "jl_isRetryable j") (simp_all, intro keys_case_add keys_case_log, simp_all)
qed (simp add: retryJob_def)

lemma queue_keys_cancel [frame_simps]: "queue_keys (state_of (cancelJob i why env s)) = queue_keys s"
proof (cases "find_job i (jobLogs s)")
  case (Some j)
  show ?thesis unfolding cancelJob_def Some option.case as_bad_request_state by (intro keys_case_log) simp_all
qed (simp add: cancelJob_def)

lemma queue_keys_reschedule [frame_simps]: "queue_keys (state_of (rescheduleJob i p n env s)) = queue_keys s"
proof (cases "find_job i (jobLogs s)")
  case (Some j)
  show ?thesis unfolding rescheduleJob_def Some option.case as_bad_request_state
    by (intro keys_case_add keys_case_log) simp_all
qed (simp add: rescheduleJob_def)

lemma queue_keys_trigger [frame_simps]: "queue_keys (state_of (triggerScheduleNow i env s)) = queue_keys s"
proof (cases "find_schedule i s")
  case (Some h)
  show ?thesis unfolding triggerScheduleNow_def Some option.case by (intro keys_case_add) simp_all
qed (simp add: triggerScheduleNow_def)

lemma queue_keys_add_route [frame_simps]: "queue_keys (state_of (add_route q body env s)) = queue_keys s"
proof (cases "q \<in> set QUEUES")
  case True
  have "queue_keys (state_of (case addJob (Some q) body DEFAULT_JOB_OPTIONS env s of (Inl e, s1) \<Rightarrow> (Inl e, s1)
      | (Inr j, s1) \<Rightarrow> (Inr (Added (qj_id j) (qj_name j)), s1))) = queue_keys s"
    by (intro keys_case_add) simp_all
  with True show ?thesis by (simp add: add_route_def)
qed (simp add: add_route_def)

lemma queue_keys_fire [frame_simps]: "queue_keys (fire i env s) = queue_keys s"
proof (cases "map_of (cronJobs s) i")
  case (Some h)
  obtain r s1 where "addJob (Some (mapJobTypeToQueue (sh_jobType h))) (sh_jobPayload h)
      (DEFAULT_JOB_OPTIONS\<lparr>jo_priority := Some 5, jo_jobId := Some (sh_id h @ '':'' @ show_int (jq_now env))\<rparr>) env s = (r, s1)"
    by (rule prod.exhaust)
  moreover from this have "queue_keys s1 = queue_keys s" using queue_keys_add by (metis snd_conv)
  ultimately show ?thesis using Some by (simp add: fire_def Let_def frame_simps)
qed (simp add: fire_def)

lemma queue_keys_step: "jobs_step s t \<Longrightarrow> ''dead_letter'' \<in> queue_keys s \<Longrightarrow> queue_keys t = queue_keys s"
  by (erule jobs_step.cases)
    (auto simp: frame_simps createJob_def createJobsBulk_def createSchedule_route_def createSchedule_def Let_def
      triggerSchedule_def deleteSchedule_def scheduler_deleteSchedule_def updateSchedule_def disableSchedule_def
      enableSchedule_def loadScheduledJobs_def syncScheduledJobs_def on_failed_def queue_keys_push split: option.split)

lemma queue_keys_reachable:
  "jobs_reachable s \<Longrightarrow> queue_keys s = {''notifications'', ''analytics'', ''cleanup'', ''scheduled'', ''dead_letter'', ''email''}"
proof (induction rule: jobs_reachable.induct)
  case start
  show ?case by (auto simp: no_jobs_def jobs_onModuleInit_def queue_keys_def split: if_splits)
next
  case (step s t)
  then show ?case using queue_keys_step by auto
qed

subsection \<open>The log never moves\<close>

text \<open>
  The audit trail records nothing: in every state that the routes, the scheduler and the workers
  lead to, every job is PENDING in its first attempt, so the dashboard reports no completed and no failed job,
  a success rate of 0 and a failure rate of 100 percent.
\<close>
theorem jobs_never_finish:
  assumes "jobs_reachable s"
  shows "(\<forall>j \<in> set (jobLogTable (jobLogs s)). jl_status j = JobStatus.PENDING \<and> jl_attempt j = 0 \<and> jl_startedAt j = None)
    \<and> mo_pendingJobs (getMonitoringDashboard s) = length (jobLogTable (jobLogs s))
    \<and> mo_completedJobs (getMonitoringDashboard s) = 0 \<and> mo_failedJobs (getMonitoringDashboard s) = 0
    \<and> mo_successRate (getMonitoringDashboard s) = 0 \<and> mo_failureRate (getMonitoringDashboard s) = 100"
proof -
  have u: "\<forall>j \<in> set (jobLogTable (jobLogs s)). untouched_row j"
    using untouched_reachable [OF assms] by (simp add: untouched_log_def)
  then have pending: "\<forall>j \<in> set (jobLogTable (jobLogs s)). jl_status j = JobStatus.PENDING" by (simp add: untouched_row_def)
  have zero: "getStatisticsByStatus None (jobLogs s) st = 0" if "st \<noteq> JobStatus.PENDING" for st
    using pending that by (auto simp: getStatisticsByStatus_def count_rows_zero)
  have "filter (\<lambda>j. jl_status j = JobStatus.PENDING) (jobLogTable (jobLogs s)) = jobLogTable (jobLogs s)"
    using pending by (simp add: filter_id_conv)
  then have "getStatisticsByStatus None (jobLogs s) JobStatus.PENDING = length (jobLogTable (jobLogs s))"
    by (simp add: getStatisticsByStatus_def count_rows_def in_organization_def)
  with u zero show ?thesis by (simp add: getMonitoringDashboard_def Let_def untouched_row_def)
qed

definition job_env :: "time \<Rightarrow> id \<Rightarrow> jobs_env" where
  "job_env now i = \<lparr> jq_log = \<lparr> jv_now = now, jv_newId = i \<rparr>, jq_accept = (\<lambda>q j. Inr (coalesce j (''1''))),
     jq_validCron = (\<lambda>_. True), jq_startsCron = (\<lambda>_ _. True), jq_nextDate = (\<lambda>_ _. Some (now + 60000)) \<rparr>"

definition cleanup_job :: "JobType \<Rightarrow> CreateJobDto" where
  "cleanup_job ty = \<lparr> cj_jobType = ty, cj_payload = JObj [(''olderThanDays'', JInt 30)], cj_priority = Some 5,
     cj_maxAttempts = 5, cj_correlationId = None, cj_organizationId = None, cj_userId = None, cj_tags = None, cj_delayMs = None \<rparr>"

definition one_job :: jobs_state where
  "one_job = state_of (createJob (cleanup_job CLEANUP_OLD_LOGS) (job_env 1 ''j'') no_jobs)"

lemma one_job_reachable: "jobs_reachable one_job"
  unfolding one_job_def by (rule jobs_reachable.step [OF jobs_reachable.start jobs_step.create])

lemmas jobs_eval = one_job_def cleanup_job_def job_env_def no_jobs_def jobs_onModuleInit_def createJob_def create_tracked_def
  on_log_def createJobLog_def save_job_def addJob_def getQueue_def push_job_def updateJobLog_def find_job_def find_row_def
  as_bad_request_def DEFAULT_JOB_OPTIONS_def

theorem jobs_never_finish_witness:
  "map jl_status (jobLogTable (jobLogs one_job)) = [JobStatus.PENDING] \<and> mo_pendingJobs (getMonitoringDashboard one_job) = 1
   \<and> mo_failureRate (getMonitoringDashboard one_job) = 100"
proof -
  have "map jl_status (jobLogTable (jobLogs one_job)) = [JobStatus.PENDING]" "length (jobLogTable (jobLogs one_job)) = 1"
    by (simp_all add: jobs_eval Let_def)
  with jobs_never_finish [OF one_job_reachable] show ?thesis by simp
qed

subsection \<open>Retrying by hand\<close>

text \<open>One press of the button.\<close>

lemma retry_once:
  assumes "find_job i (jobLogs s) = Some j" and "jl_isRetryable j" and "jl_queueName j = Some q"
    and "getQueue q s = Some js" and "jq_accept env q None = Inr k"
  shows "(\<exists>m. result (retryJob i p d env s) = Inl (BadRequestException m))
    \<and> jobLogTable (jobLogs (state_of (retryJob i p d env s))) = jobLogTable (jobLogs s)
    \<and> (\<exists>x. getQueue q (state_of (retryJob i p d env s)) = Some (js @ [x])
          \<and> qj_data x = (case p of Some v \<Rightarrow> v | None \<Rightarrow> coalesce (jl_payload j) JNull))"
proof -
  let ?opts = "DEFAULT_JOB_OPTIONS\<lparr>jo_delay := d\<rparr>" and ?data = "case p of Some v \<Rightarrow> v | None \<Rightarrow> coalesce (jl_payload j) JNull"
  let ?x = "\<lparr> qj_id = k, qj_name = q @ ''-job'', qj_data = ?data, qj_opts = ?opts \<rparr>"
  let ?s1 = "push_job q ?x s"
  have add: "addJob (Some q) ?data ?opts env s = (Inr ?x, ?s1)"
    using assms(4,5) by (simp add: addJob_def DEFAULT_JOB_OPTIONS_def Let_def)
  obtain r s2 where rec: "on_log (recordRetryAttempt i (jl_attempt j + 1) ''Manual retry'' None (jq_log env)) ?s1 = (Inr r, s2)"
    and s2: "jobLogTable (jobLogs s2) = jobLogTable (jobLogs s)" "jobQueues s2 = jobQueues ?s1"
    using assms(1) by (simp add: on_log_def recordRetryAttempt_def Let_def frame_simps)
  have "find_job i (jobLogs s2) = Some j" using assms(1) s2(1) by (simp add: find_job_def)
  then have upd: "on_log (updateJobLog i \<lparr> ju_status = Some ''DEFERRED'', ju_change = f \<rparr> (jq_log env)) s2
      = (Inl (invalid_enum ''DEFERRED''), s2)" for f
    by (simp add: on_log_def updateJobLog_invalid [OF upper_case_statuses(1)])
  have run: "retryJob i p d env s = (Inl (BadRequestException (message_of (invalid_enum ''DEFERRED''))), s2)"
    using assms(1-3) by (simp add: retryJob_def add rec upd as_bad_request_def)
  have "getQueue q s2 = Some (js @ [?x])"
    using assms(4) by (simp add: getQueue_def s2(2) push_job_def update_conv')
  with run s2(1) show ?thesis by auto
qed

text \<open>
  A retry by hand runs the job and reports a failure: the job is put into its queue again before
  the log is updated to a status the column does not have, so every one of the calls is answered with an error,
  leaves the log as it was and has queued the job once more - pressing the button \<open>n\<close> times runs it \<open>n\<close> times.
\<close>
theorem retry_runs_but_fails:
  assumes "find_job i (jobLogs s) = Some j" and "jl_isRetryable j" and "jl_queueName j = Some q"
    and "getQueue q s = Some js" and "\<forall>env \<in> set envs. \<exists>k. jq_accept env q None = Inr k"
  shows "let s' = fold (\<lambda>env t. state_of (retryJob i None None env t)) envs s in
    jobLogTable (jobLogs s') = jobLogTable (jobLogs s)
    \<and> (\<exists>xs. getQueue q s' = Some (js @ xs) \<and> length xs = length envs)
    \<and> (\<forall>env k. jq_accept env q None = Inr k \<longrightarrow> \<not> succeeds (retryJob i None None env s'))"
  using assms(1,4,5)
proof (induction envs arbitrary: s js)
  case Nil
  have "\<not> succeeds (retryJob i None None env s)" if "jq_accept env q None = Inr k" for env k
  proof -
    from retry_once [OF Nil(1) assms(2,3) Nil(2) that, of None None] obtain m where
      "result (retryJob i None None env s) = Inl (BadRequestException m)" by blast
    then show ?thesis by (simp add: succeeds_def)
  qed
  with Nil show ?case by auto
next
  case (Cons e envs)
  let ?t = "state_of (retryJob i None None e s)"
  from Cons.prems(3) obtain k where k: "jq_accept e q None = Inr k" by auto
  from retry_once [OF Cons.prems(1) assms(2,3) Cons.prems(2) k] obtain x where
    t: "jobLogTable (jobLogs ?t) = jobLogTable (jobLogs s)" "getQueue q ?t = Some (js @ [x])" by blast
  have "find_job i (jobLogs ?t) = Some j" using Cons.prems(1) t(1) by (simp add: find_job_def)
  from Cons.IH [OF this t(2)] Cons.prems(3) t(1) show ?case by (auto simp: Let_def)
qed

theorem retry_runs_but_fails_witness:
  "\<exists>xs. getQueue ''cleanup'' (fold (\<lambda>env t. state_of (retryJob ''j'' None None env t)) [job_env 2 ''r'', job_env 3 ''r2''] one_job)
     = Some ([\<lparr> qj_id = ''1'', qj_name = ''cleanup-job'', qj_data = JObj [(''olderThanDays'', JInt 30)],
               qj_opts = \<lparr> jo_attempts = 5, jo_priority = Some 5, jo_delay = None, jo_jobId = None \<rparr> \<rparr>] @ xs) \<and> length xs = 2"
proof -
  let ?j = "hd (jobLogTable (jobLogs one_job))"
  have "find_job ''j'' (jobLogs one_job) = Some ?j" "jl_isRetryable ?j" "jl_queueName ?j = Some ''cleanup''"
    "getQueue ''cleanup'' one_job = Some [\<lparr> qj_id = ''1'', qj_name = ''cleanup-job'', qj_data = JObj [(''olderThanDays'', JInt 30)],
               qj_opts = \<lparr> jo_attempts = 5, jo_priority = Some 5, jo_delay = None, jo_jobId = None \<rparr> \<rparr>]"
    by (simp_all add: jobs_eval Let_def)
  moreover have "\<forall>env \<in> set [job_env 2 ''r'', job_env 3 ''r2'']. \<exists>k. jq_accept env ''cleanup'' None = Inr k"
    by (simp add: job_env_def)
  ultimately show ?thesis
    using retry_runs_but_fails [of "''j''" one_job ?j "''cleanup''" _ "[job_env 2 ''r'', job_env 3 ''r2'']"]
    unfolding Let_def by fastforce
qed

subsection \<open>Types without a queue\<close>

lemma find_row_last: "find_row P t = None \<Longrightarrow> find_row P (t @ [r]) = (if P r then Some r else None)"
  by (induction t) (simp_all add: find_row_def split: if_splits)

lemma tracked_without_queue:
  assumes "getQueue (mapJobTypeToQueue (cj_jobType dto)) s = None"
  shows "createJob dto env s =
    (Inl (BadRequestException (''Queue '' @ mapJobTypeToQueue (cj_jobType dto) @ '' not found'')),
     s\<lparr>jobLogs := snd (createJobLog \<lparr> nj_jobType = cj_jobType dto, nj_payload = Some (cj_payload dto),
        nj_organizationId = cj_organizationId dto, nj_userId = cj_userId dto,
        nj_correlationId = cj_correlationId dto, nj_tags = cj_tags dto \<rparr> (jq_log env) (jobLogs s))\<rparr>)"
  using assms by (simp add: createJob_def create_tracked_def on_log_def as_bad_request_def addJob_def getQueue_def
      split: prod.split)

text \<open>
  Nine of the fifteen types of job have no queue: creating a payout, export, report, maintenance,
  webhook or quest job is refused in every reachable state, and leaves in the log a PENDING row that no later
  retry can run.
\<close>
theorem unqueued_types_orphaned:
  assumes "jobs_reachable s" and "cj_jobType dto \<notin> {EMAIL_SEND, EMAIL_DIGEST, CLEANUP_EXPIRED_SESSIONS, CLEANUP_OLD_LOGS,
      ANALYTICS_AGGREGATE, METRICS_COLLECT}"
    and "\<forall>j \<in> set (jobLogTable (jobLogs s)). jl_id j \<noteq> jv_newId (jq_log env)"
  shows "let s' = state_of (createJob dto env s); i = jv_newId (jq_log env) in
    \<not> succeeds (createJob dto env s)
    \<and> (\<exists>j. jobLogTable (jobLogs s') = jobLogTable (jobLogs s) @ [j] \<and> jl_id j = i \<and> jl_status j = JobStatus.PENDING
          \<and> jl_queueName j = None)
    \<and> \<not> succeeds (retryJob i p d env' s') \<and> state_of (retryJob i p d env' s') = s'"
proof -
  let ?q = "mapJobTypeToQueue (cj_jobType dto)" and ?i = "jv_newId (jq_log env)"
  have "?q \<notin> queue_keys s" and null: "''null'' \<notin> queue_keys s"
    using queue_keys_reachable [OF assms(1)] assms(2) by (cases "cj_jobType dto"; simp)+
  then have "getQueue ?q s = None" by (simp add: queue_keys_def getQueue_def domIff)
  note run = tracked_without_queue [OF this, of env]
  let ?s' = "state_of (createJob dto env s)"
  obtain j where j: "jobLogTable (jobLogs ?s') = jobLogTable (jobLogs s) @ [j]" "jl_id j = ?i"
    "jl_status j = JobStatus.PENDING" "jl_queueName j = None" "jl_isRetryable j"
    using assms(3) by (simp add: run createJobLog_def save_job_def Let_def save_row_new)
  have found: "find_job ?i (jobLogs ?s') = Some j"
  proof -
    have "find_row (\<lambda>x. jl_id x = ?i) (jobLogTable (jobLogs s)) = None" using assms(3) by (simp add: find_row_none)
    then show ?thesis using j(1,2) by (simp add: find_job_def find_row_last)
  qed
  have noqueue: "getQueue ''null'' ?s' = None" using null by (simp add: run getQueue_def queue_keys_def domIff)
  have "retryJob ?i p d env' ?s' = (Inl (BadRequestException ''Queue null not found''), ?s')"
    using found j(4,5) noqueue by (simp add: retryJob_def addJob_def as_bad_request_def)
  with j(1-4) show ?thesis by (simp add: Let_def run)
qed

theorem unqueued_types_orphaned_witness:
  "\<not> succeeds (createJob (cleanup_job PAYOUT_PROCESS) (job_env 2 ''k'') one_job)
   \<and> \<not> succeeds (retryJob ''k'' None None (job_env 3 ''r'') (state_of (createJob (cleanup_job PAYOUT_PROCESS) (job_env 2 ''k'') one_job)))"
proof -
  have "cj_jobType (cleanup_job PAYOUT_PROCESS) \<notin> {EMAIL_SEND, EMAIL_DIGEST, CLEANUP_EXPIRED_SESSIONS, CLEANUP_OLD_LOGS,
      ANALYTICS_AGGREGATE, METRICS_COLLECT}" by (simp add: cleanup_job_def)
  moreover have "\<forall>j \<in> set (jobLogTable (jobLogs one_job)). jl_id j \<noteq> jv_newId (jq_log (job_env 2 ''k''))"
    by (simp add: jobs_eval Let_def)
  moreover have "jv_newId (jq_log (job_env 2 ''k'')) = ''k''" by (simp add: job_env_def)
  ultimately show ?thesis
    using unqueued_types_orphaned [OF one_job_reachable, of "cleanup_job PAYOUT_PROCESS" "job_env 2 ''k''" None None "job_env 3 ''r''"]
    unfolding Let_def by simp
qed

subsection \<open>Schedules\<close>

lemma started: "map_of (cronJobs (startSchedule env h s)) =
    (if map_of (cronJobs s) (sh_id h) \<noteq> None \<or> \<not> jq_startsCron env (sh_cronExpression h) (or_default (sh_timezone h) ''UTC'')
     then map_of (cronJobs s) else (map_of (cronJobs s))(sh_id h \<mapsto> h))"
  by (simp add: startSchedule_def)

lemma dom_started_all:
  "dom (map_of (cronJobs (fold (startSchedule env) hs s))) = dom (map_of (cronJobs s))
     \<union> {sh_id h | h. h \<in> set hs \<and> jq_startsCron env (sh_cronExpression h) (or_default (sh_timezone h) ''UTC'')}"
proof (induction hs arbitrary: s)
  case (Cons h hs)
  have "dom (map_of (cronJobs (startSchedule env h s))) = dom (map_of (cronJobs s))
     \<union> (if jq_startsCron env (sh_cronExpression h) (or_default (sh_timezone h) ''UTC'') then {sh_id h} else {})"
    by (auto simp: started split: if_splits)
  with Cons.IH [of "startSchedule env h s"] show ?case by auto
qed simp

lemma stopped: "map_of (cronJobs (stopSchedule i s)) = (map_of (cronJobs s))(i := None)"
  by (simp add: stopSchedule_def delete_conv')

lemma stopped_all: "map_of (cronJobs (fold stopSchedule ids s)) = map_of (cronJobs s) |` (- set ids)"
proof (induction ids arbitrary: s)
  case (Cons i ids)
  then show ?case by (auto simp: stopped restrict_map_def fun_eq_iff)
qed (simp add: restrict_map_def)

text \<open>
  Synchronisation: after a sync the cron jobs that run are exactly those of the active schedules that
  ran before or that the cron library can start; those of disabled and of deleted schedules are stopped.
\<close>
theorem sync_exact:
  "dom (map_of (cronJobs (syncScheduledJobs env s))) =
     {sh_id h | h. h \<in> set (scheduleTable s) \<and> sh_isActive h \<and> (sh_id h \<in> dom (map_of (cronJobs s))
        \<or> jq_startsCron env (sh_cronExpression h) (or_default (sh_timezone h) ''UTC''))}"
proof -
  let ?ids = "filter (\<lambda>i. i \<notin> set (map sh_id (active_schedules s))) (map fst (cronJobs s))"
  have keys: "set (map fst (cronJobs s)) = dom (map_of (cronJobs s))" by (simp add: dom_map_of_conv_image_fst)
  have kept: "dom (map_of (cronJobs (fold stopSchedule ?ids s))) = dom (map_of (cronJobs s)) \<inter> sh_id ` set (active_schedules s)"
    using keys by (auto simp: stopped_all restrict_map_def split: if_splits)
  show ?thesis
    unfolding syncScheduledJobs_def Let_def dom_started_all kept
    using keys by (auto simp: active_schedules_def)
qed

text \<open>
  A schedule is older than its row: an update that leaves the cron expression alone changes the row
  and not the object the running cron job holds, and the next firing saves that object.  So the update is
  undone - the payload, the description, the time zone, and also the flag that should have disabled it, with
  which every later sync keeps the schedule running.
\<close>
theorem schedule_update_reverted:
  assumes "wf_table sh_id (scheduleTable s)" and "map_of (cronJobs s) i = Some h" and "sh_id h = i"
    and "find_schedule i s = Some g" and "su_cronExpression su = None" and "\<And>x. sh_id (su_change su x) = sh_id x"
  shows "let s1 = state_of (updateSchedule i su env s); s2 = fire i env' s1 in
    (\<exists>n m t e r. find_schedule i s2 = Some (h\<lparr>sh_successCount := n, sh_failureCount := m, sh_lastRunAt := t,
        sh_lastErrorMessage := e, sh_nextRunAt := r\<rparr>))
    \<and> (sh_isActive h \<longrightarrow> i \<in> dom (map_of (cronJobs (syncScheduledJobs env'' s2))))"
proof -
  let ?s1 = "state_of (updateSchedule i su env s)" and ?s2 = "fire i env' (state_of (updateSchedule i su env s))"
  let ?g = "(su_change su g)\<lparr>sh_nextRunAt := getNextRunTime env (sh_cronExpression (su_change su g)) (sh_timezone (su_change su g))\<rparr>"
  have s1: "?s1 = (if sh_isActive (su_change su g) then startSchedule env ?g (save_schedule ?g s) else save_schedule ?g s)"
    using assms(4,5) by (simp add: updateSchedule_def Let_def)
  have id: "sh_id ?g = i" using assms(4,6) by (auto simp: find_schedule_def dest: find_row_some)
  have run1: "map_of (cronJobs ?s1) i = Some h"
    using assms(2) id by (simp add: s1 started frame_simps)
  have wf1: "wf_table sh_id (scheduleTable ?s1)"
    using assms(1) by (simp add: s1 frame_simps wf_save_row)
  let ?h1 = "h\<lparr>sh_lastRunAt := Some (jq_now env')\<rparr>"
  obtain r t where add: "addJob (Some (mapJobTypeToQueue (sh_jobType h))) (sh_jobPayload h)
      (DEFAULT_JOB_OPTIONS\<lparr>jo_priority := Some 5, jo_jobId := Some (sh_id h @ '':'' @ show_int (jq_now env'))\<rparr>) env' ?s1 = (r, t)"
    by (rule prod.exhaust)
  then have t: "scheduleTable t = scheduleTable ?s1" using addJob_frame(2) by (metis snd_conv)
  have tc: "cronJobs t = cronJobs ?s1" using add addJob_frame(3) by (metis snd_conv)
  obtain h3 where s2: "?s2 = save_schedule h3 (t\<lparr>cronJobs := AList.update i h3 (cronJobs t)\<rparr>)"
    and h3: "\<exists>n m t e r. h3 = h\<lparr>sh_successCount := n, sh_failureCount := m, sh_lastRunAt := t,
        sh_lastErrorMessage := e, sh_nextRunAt := r\<rparr>"
  proof (cases r)
    case (Inl e)
    let ?h3 = "?h1\<lparr>sh_failureCount := sh_failureCount h + 1,
      sh_lastErrorMessage := Some (case e of JsError m \<Rightarrow> m | _ \<Rightarrow> []),
      sh_nextRunAt := getNextRunTime env' (sh_cronExpression h) (sh_timezone h)\<rparr>"
    have "?s2 = save_schedule ?h3 (t\<lparr>cronJobs := AList.update i ?h3 (cronJobs t)\<rparr>)"
      by (simp add: fire_def run1 add [simplified] Let_def Inl)
    moreover have "?h3 = h\<lparr>sh_successCount := sh_successCount h, sh_failureCount := sh_failureCount ?h3,
      sh_lastRunAt := sh_lastRunAt ?h3, sh_lastErrorMessage := sh_lastErrorMessage ?h3, sh_nextRunAt := sh_nextRunAt ?h3\<rparr>"
      by simp
    ultimately show ?thesis by (intro that exI)
  next
    case (Inr v)
    let ?h3 = "?h1\<lparr>sh_successCount := sh_successCount h + 1, sh_lastErrorMessage := None,
      sh_nextRunAt := getNextRunTime env' (sh_cronExpression h) (sh_timezone h)\<rparr>"
    have "?s2 = save_schedule ?h3 (t\<lparr>cronJobs := AList.update i ?h3 (cronJobs t)\<rparr>)"
      by (simp add: fire_def run1 add [simplified] Let_def Inr)
    moreover have "?h3 = h\<lparr>sh_successCount := sh_successCount ?h3, sh_failureCount := sh_failureCount h,
      sh_lastRunAt := sh_lastRunAt ?h3, sh_lastErrorMessage := sh_lastErrorMessage ?h3, sh_nextRunAt := sh_nextRunAt ?h3\<rparr>"
      by simp
    ultimately show ?thesis by (intro that exI)
  qed
  have "sh_id h3 = i" "sh_isActive h3 = sh_isActive h" using h3 assms(3) by auto
  then have found: "find_schedule i ?s2 = Some h3"
    using schedule_repo.find_saved [OF wf1, of h3] by (simp add: find_schedule_def s2 frame_simps t)
  have running: "i \<in> dom (map_of (cronJobs ?s2))" by (auto simp: s2 frame_simps update_conv')
  have "i \<in> dom (map_of (cronJobs (syncScheduledJobs env'' ?s2)))" if "sh_isActive h"
  proof -
    have "h3 \<in> set (scheduleTable ?s2)" using found by (auto simp: find_schedule_def dest: find_row_some)
    with running \<open>sh_id h3 = i\<close> \<open>sh_isActive h3 = sh_isActive h\<close> that show ?thesis unfolding sync_exact by blast
  qed
  with found h3 show ?thesis by (auto simp: Let_def)
qed

definition nightly :: jobs_state where
  "nightly = state_of (createSchedule CLEANUP_OLD_LOGS ''0 0 * * *'' (JObj [(''olderThanDays'', JInt 30)]) None None None
     (job_env 5 ''h'') no_jobs)"

definition switch_off :: ScheduleUpdates where
  "switch_off = \<lparr> su_cronExpression = None, su_change = (\<lambda>h. h\<lparr>sh_isActive := False\<rparr>) \<rparr>"

theorem schedule_update_reverted_witness:
  "sh_isActive (hd (scheduleTable (state_of (updateSchedule ''h'' switch_off (job_env 6 ''x'') nightly)))) = False
   \<and> map_option sh_isActive (find_schedule ''h'' (fire ''h'' (job_env 7 ''y'')
       (state_of (updateSchedule ''h'' switch_off (job_env 6 ''x'') nightly)))) = Some True
   \<and> ''h'' \<in> dom (map_of (cronJobs (syncScheduledJobs (job_env 8 ''z'') (fire ''h'' (job_env 7 ''y'')
       (state_of (updateSchedule ''h'' switch_off (job_env 6 ''x'') nightly))))))"
proof -
  let ?h = "hd (scheduleTable nightly)"
  have "wf_table sh_id (scheduleTable nightly)" "map_of (cronJobs nightly) ''h'' = Some ?h" "sh_id ?h = ''h''"
    "find_schedule ''h'' nightly = Some ?h" "su_cronExpression switch_off = None" "sh_id (su_change switch_off x) = sh_id x" for x
    by (simp_all add: nightly_def switch_off_def job_env_def no_jobs_def jobs_onModuleInit_def createSchedule_def Let_def
        startSchedule_def save_schedule_def wf_table_def find_schedule_def find_row_def)
  note * = schedule_update_reverted [OF this, of "job_env 6 ''x''" "job_env 7 ''y''" "job_env 8 ''z''", unfolded Let_def]
  have "sh_isActive ?h"
    by (simp add: nightly_def job_env_def no_jobs_def jobs_onModuleInit_def createSchedule_def Let_def
        startSchedule_def save_schedule_def)
  with * have "map_option sh_isActive (find_schedule ''h'' (fire ''h'' (job_env 7 ''y'')
       (state_of (updateSchedule ''h'' switch_off (job_env 6 ''x'') nightly)))) = Some True"
    "''h'' \<in> dom (map_of (cronJobs (syncScheduledJobs (job_env 8 ''z'') (fire ''h'' (job_env 7 ''y'')
       (state_of (updateSchedule ''h'' switch_off (job_env 6 ''x'') nightly))))))" by auto
  moreover have "sh_isActive (hd (scheduleTable (state_of (updateSchedule ''h'' switch_off (job_env 6 ''x'') nightly)))) = False"
    by (simp add: nightly_def switch_off_def job_env_def no_jobs_def jobs_onModuleInit_def createSchedule_def Let_def
        startSchedule_def save_schedule_def updateSchedule_def find_schedule_def find_row_def)
  ultimately show ?thesis by blast
qed

subsection \<open>Routes\<close>

text \<open>
  Two routes are never reached: a POST to \<open>jobs/bulk\<close> or \<open>jobs/schedules\<close> is taken by the route for
  a single queue declared before them, which answers that there is no such queue; no path at all is dispatched
  to the creation of several jobs or of a schedule.
\<close>
theorem post_routes_shadowed:
  "dispatch_post path \<notin> {Some BulkRoute, Some CreateScheduleRoute}
   \<and> dispatch_post [''bulk''] = Some AddRoute \<and> dispatch_post [''schedules''] = Some AddRoute
   \<and> add_route ''bulk'' body env s = (Inr UnknownQueue, s) \<and> add_route ''schedules'' body env s = (Inr UnknownQueue, s)"
proof -
  have "dispatch_post path \<notin> {Some BulkRoute, Some CreateScheduleRoute}"
  proof (cases path)
    case Nil
    then show ?thesis by (simp add: dispatch_post_def post_routes_def)
  next
    case (Cons x xs)
    show ?thesis
    proof (cases xs)
      case Nil
      with Cons show ?thesis by (simp add: dispatch_post_def post_routes_def)
    next
      case (Cons y ys)
      with \<open>path = x # xs\<close> show ?thesis
        by (cases ys; cases "tl ys") (auto simp: dispatch_post_def post_routes_def)
    qed
  qed
  moreover have "dispatch_post [''bulk''] = Some AddRoute" "dispatch_post [''schedules''] = Some AddRoute"
    by (simp_all add: dispatch_post_def post_routes_def)
  moreover have "add_route ''bulk'' body env s = (Inr UnknownQueue, s)" "add_route ''schedules'' body env s = (Inr UnknownQueue, s)"
    by (simp_all add: add_route_def QUEUES_def)
  ultimately show ?thesis by simp
qed

text \<open>The statistics of the queues are always empty, and an export never has more than a thousand rows.\<close>

lemma queue_stats_empty: "getQueueStats = []"
  by (simp add: getQueueStats_def job_counts_def QUEUES_def List.map_filter_def)

lemma export_truncated: "length (fst (queryJobLogs (f\<lparr>jf_limit := Some 10000\<rparr>) l)) \<le> 1000"
  by (simp add: queryJobLogs_def query_limit_def Let_def)

end
