(* ===== verification/EmailTemplates.thy ===== *)
theory EmailTemplates
  imports Webhooks Regex
begin

text \<open>
  The e-mail templates, \<open>modules/email/templates/template.engine.ts\<close>.  The data of a template is whatever
  object the caller sends, so a field is a JSON value or \<open>undefined\<close> (\<open>None\<close>): in a template literal every
  value turns into text, while \<open>escape\<close> calls a method only texts have and throws for everything else.  The
  text of a number that is no integer is the parameter \<open>te_number\<close>, the year of the footer \<open>te_year\<close>;
  objects with a property \<open>toString\<close> of their own are left out.
\<close>

subsection \<open>Values in a template literal\<close>

fun js_text :: "(rat \<Rightarrow> string) \<Rightarrow> json \<Rightarrow> string" where
  "js_text num JNull = ''null''"
| "js_text num (JBool b) = (if b then ''true'' else ''false'')"
| "js_text num (JNum r) = (if of_int (floor r) = r \<and> \<bar>r\<bar> < 10 ^ 21 then show_int (floor r) else num r)"
| "js_text num (JStr s) = s"
| "js_text num (JArr xs) = join_with '','' (map (\<lambda>x. if x = JNull then [] else js_text num x) xs)"
| "js_text num (JObj ps) = ''[object Object]''"

definition opt_text :: "(rat \<Rightarrow> string) \<Rightarrow> json option \<Rightarrow> string" where
  "opt_text num v = (case v of None \<Rightarrow> ''undefined'' | Some w \<Rightarrow> js_text num w)"

definition escape_char :: "char \<Rightarrow> string" where
  "escape_char c =
     (if c = CHR ''&'' then ''&amp;'' else if c = CHR ''<'' then ''&lt;'' else if c = CHR ''>'' then ''&gt;''
      else if c = CHR 0x22 then ''&quot;'' else if c = CHR 0x27 then ''&#039;'' else [c])"

text \<open>One global replacement after the other, as the code has them.\<close>

definition escape_text :: "string \<Rightarrow> string" where
  "escape_text s =
     replace_all (lit [CHR 0x27]) ''&#039;'' (replace_all (lit [CHR 0x22]) ''&quot;''
       (replace_all (lit ''>'') ''&gt;'' (replace_all (lit ''<'') ''&lt;'' (replace_all (lit ''&'') ''&amp;'' s))))"

definition escape :: "json option \<Rightarrow> exn + string" where
  "escape v =
     (case v of
        Some (JStr s) \<Rightarrow> Inr (escape_text s)
      | Some JNull \<Rightarrow> Inl (JsTypeError ''Cannot read properties of null (reading 'replace')'')
      | None \<Rightarrow> Inl (JsTypeError ''Cannot read properties of undefined (reading 'replace')'')
      | _ \<Rightarrow> Inl (JsTypeError ''value.replace is not a function''))"

text \<open>The parts of a template literal, evaluated from left to right.\<close>

fun cat :: "(exn + string) list \<Rightarrow> exn + string" where
  "cat [] = Inr []"
| "cat (Inl e # ps) = Inl e"
| "cat (Inr s # ps) = map_sum id (\<lambda>t. s @ t) (cat ps)"

abbreviation raw :: "string \<Rightarrow> exn + string" where
  "raw s \<equiv> Inr s"

definition ln :: "nat \<Rightarrow> string" where
  "ln n = CHR 0x0A # replicate n CHR 0x20"

definition blank :: string where
  "blank = [CHR 0x0A, CHR 0x0A]"

subsection \<open>The engine\<close>

datatype EmailTemplate =
  WELCOME | PASSWORD_RESET | QUEST_COMPLETED | SUBMISSION_APPROVED | SUBMISSION_REJECTED | PAYOUT_PROCESSED
  | PAYOUT_FAILED | ACCOUNT_UPDATE | GENERAL_NOTIFICATION

fun show_EmailTemplate :: "EmailTemplate \<Rightarrow> string" where
  "show_EmailTemplate WELCOME = ''welcome''"
| "show_EmailTemplate PASSWORD_RESET = ''password_reset''"
| "show_EmailTemplate QUEST_COMPLETED = ''quest_completed''"
| "show_EmailTemplate SUBMISSION_APPROVED = ''submission_approved''"
| "show_EmailTemplate SUBMISSION_REJECTED = ''submission_rejected''"
| "show_EmailTemplate PAYOUT_PROCESSED = ''payout_processed''"
| "show_EmailTemplate PAYOUT_FAILED = ''payout_failed''"
| "show_EmailTemplate ACCOUNT_UPDATE = ''account_update''"
| "show_EmailTemplate GENERAL_NOTIFICATION = ''general_notification''"

record engine =
  te_appUrl :: string
  te_appName :: string
  te_year :: int
  te_number :: "rat \<Rightarrow> string"

record TemplateResult =
  tr_subject :: string
  tr_html :: string
  tr_text :: string

abbreviation field :: "json \<Rightarrow> string \<Rightarrow> json option" where
  "field d k \<equiv> own_prop d k"

text \<open>\<open>escape(v || d)\<close> and \<open>${v || d}\<close>.\<close>

definition esc_or :: "json \<Rightarrow> string \<Rightarrow> string \<Rightarrow> exn + string" where
  "esc_or d k v = escape (Some (or_else (field d k) (JStr v)))"

definition txt_or :: "engine \<Rightarrow> json \<Rightarrow> string \<Rightarrow> string \<Rightarrow> string" where
  "txt_or te d k v = js_text (te_number te) (or_else (field d k) (JStr v))"

definition txt_field :: "engine \<Rightarrow> json \<Rightarrow> string \<Rightarrow> string" where
  "txt_field te d k = opt_text (te_number te) (field d k)"

definition buttonStyle :: string where
  "buttonStyle = ''display: inline-block; padding: 14px 32px; background: linear-gradient(135deg, #667eea 0%, #764ba2 100%); color: #ffffff; text-decoration: none; border-radius: 8px; font-weight: 600; font-size: 16px;''"

text \<open>A quoted attribute value.\<close>

definition qt :: "string \<Rightarrow> string" where
  "qt s = CHR 0x22 # s @ [CHR 0x22]"

text \<open>The block with a button: a centred paragraph with a link; its target is evaluated in place.\<close>

definition button :: "nat \<Rightarrow> exn + string \<Rightarrow> exn + string \<Rightarrow> (exn + string) list" where
  "button n href label =
     [raw (ln n @ ''<div style='' @ qt ''text-align: center; margin: 30px 0;'' @ ''>''),
      raw (ln (n + 2) @ ''<a href='' @ [CHR 0x22]), href,
      raw ([CHR 0x22] @ '' style='' @ qt buttonStyle @ ''>''), label, raw (''</a>'' @ ln n @ ''</div>'')]"

definition greeting :: "json \<Rightarrow> (exn + string) list" where
  "greeting d = [raw (ln 8 @ ''<p>Hi ''), esc_or d ''username'' ''there'', raw '',</p>'']"

definition hi :: "engine \<Rightarrow> json \<Rightarrow> string" where
  "hi te d = ''Hi '' @ txt_or te d ''username'' ''there'' @ '','' @ blank"

definition if_given :: "json \<Rightarrow> string \<Rightarrow> (exn + string) list \<Rightarrow> (exn + string) list" where
  "if_given d k ps = (if js_truthy (field d k) then ps else [])"

definition unsubscribe_link :: "engine \<Rightarrow> json \<Rightarrow> string" where
  "unsubscribe_link te d =
     (if js_truthy (field d ''unsubscribeToken'')
      then te_appUrl te @ ''/api/v1/email/unsubscribe?token='' @ txt_field te d ''unsubscribeToken'' else [])"

definition page_head :: "engine \<Rightarrow> string" where
  "page_head te =
     ''<!DOCTYPE html>'' @ ln 0 @ ''<html lang='' @ qt ''en'' @ ''>'' @ ln 0 @ ''<head>'' @ ln 2 @ ''<meta charset='' @ qt ''UTF-8'' @ ''>''
     @ ln 2 @ ''<meta name='' @ qt ''viewport'' @ '' content='' @ qt ''width=device-width, initial-scale=1.0'' @ ''>''
     @ ln 2 @ ''<title>'' @ te_appName te @ ''</title>'' @ ln 0 @ ''</head>''
     @ ln 0 @ ''<body style='' @ qt ''margin: 0; padding: 0; background-color: #f4f4f7; font-family: -apple-system, BlinkMacSystemFont, 'Segoe UI', Roboto, Helvetica, Arial, sans-serif;'' @ ''>''
     @ ln 2 @ ''<table role='' @ qt ''presentation'' @ '' width='' @ qt ''100%'' @ '' cellspacing='' @ qt ''0'' @ '' cellpadding='' @ qt ''0'' @ '' style='' @ qt ''background-color: #f4f4f7;'' @ ''>''
     @ ln 4 @ ''<tr>'' @ ln 6 @ ''<td align='' @ qt ''center'' @ '' style='' @ qt ''padding: 40px 0;'' @ ''>''
     @ ln 8 @ ''<table role='' @ qt ''presentation'' @ '' width='' @ qt ''600'' @ '' cellspacing='' @ qt ''0'' @ '' cellpadding='' @ qt ''0'' @ '' style='' @ qt ''background-color: #ffffff; border-radius: 12px; overflow: hidden; box-shadow: 0 2px 8px rgba(0,0,0,0.08);'' @ ''>''
     @ ln 10 @ ''<!-- Header -->'' @ ln 10 @ ''<tr>'' @ ln 12 @ ''<td style='' @ qt ''background: linear-gradient(135deg, #1a1a2e 0%, #16213e 100%); padding: 30px 40px; text-align: center;'' @ ''>''
     @ ln 14 @ ''<h2 style='' @ qt ''color: #ffffff; margin: 0; font-size: 24px; font-weight: 600;'' @ ''>'' @ te_appName te @ ''</h2>''
     @ ln 12 @ ''</td>'' @ ln 10 @ ''</tr>'' @ ln 10 @ ''<!-- Body -->'' @ ln 10 @ ''<tr>''
     @ ln 12 @ ''<td style='' @ qt ''padding: 40px;'' @ ''>'' @ ln 14"

definition page_foot :: "engine \<Rightarrow> string \<Rightarrow> string" where
  "page_foot te unsubscribeUrl =
     ln 12 @ ''</td>'' @ ln 10 @ ''</tr>'' @ ln 10 @ ''<!-- Footer -->'' @ ln 10 @ ''<tr>''
     @ ln 12 @ ''<td style='' @ qt ''background-color: #f8f9fa; padding: 20px 40px; text-align: center; border-top: 1px solid #eee;'' @ ''>''
     @ ln 14 @ ''<p style='' @ qt ''color: #999; font-size: 12px; margin: 0 0 10px 0;'' @ ''>&copy; '' @ show_int (te_year te) @ '' '' @ te_appName te @ ''. All rights reserved.</p>''
     @ ln 14 @ (if unsubscribeUrl \<noteq> []
         then ''<p style='' @ qt ''margin: 0;'' @ ''><a href='' @ qt unsubscribeUrl @ '' style='' @ qt ''color: #999; font-size: 12px; text-decoration: underline;'' @ ''>Unsubscribe</a></p>''
         else [])
     @ ln 12 @ ''</td>'' @ ln 10 @ ''</tr>'' @ ln 8 @ ''</table>'' @ ln 6 @ ''</td>'' @ ln 4 @ ''</tr>'' @ ln 2 @ ''</table>'' @ ln 0 @ ''</body>'' @ ln 0 @ ''</html>''"

definition wrapHtml :: "engine \<Rightarrow> string \<Rightarrow> json \<Rightarrow> string" where
  "wrapHtml te body d = page_head te @ body @ page_foot te (unsubscribe_link te d)"

definition mail :: "engine \<Rightarrow> json \<Rightarrow> string \<Rightarrow> (exn + string) list \<Rightarrow> string \<Rightarrow> exn + TemplateResult" where
  "mail te d subject body content =
     map_sum id (\<lambda>b. \<lparr> tr_subject = subject, tr_html = wrapHtml te b d, tr_text = content \<rparr>) (cat body)"

subsection \<open>The templates\<close>

definition renderWelcome :: "engine \<Rightarrow> json \<Rightarrow> exn + TemplateResult" where
  "renderWelcome te d =
     mail te d (''Welcome to '' @ te_appName te @ ''!'')
       ([raw (ln 8 @ ''<h1>Welcome to '' @ te_appName te @ ''!</h1>'')] @ greeting d
        @ [raw (ln 8 @ ''<p>We're excited to have you on board. Start exploring quests, completing challenges, and earning rewards on the Stellar network.</p>'')]
        @ button 8 (raw (te_appUrl te @ ''/quests'')) (raw ''Explore Quests'')
        @ [raw (ln 8 @ ''<p>If you have any questions, feel free to reach out to our support team.</p>'' @ ln 6)])
       (''Welcome to '' @ te_appName te @ ''!'' @ blank @ hi te d
        @ ''We're excited to have you on board. Start exploring quests, completing challenges, and earning rewards on the Stellar network.''
        @ blank @ ''Explore Quests: '' @ te_appUrl te @ ''/quests'')"

definition renderPasswordReset :: "engine \<Rightarrow> json \<Rightarrow> exn + TemplateResult" where
  "renderPasswordReset te d =
     mail te d (te_appName te @ '' - Password Reset Request'')
       ([raw (ln 8 @ ''<h1>Password Reset</h1>'')] @ greeting d
        @ [raw (ln 8 @ ''<p>We received a request to reset your password. Click the button below to set a new password:</p>'')]
        @ button 8 (escape (field d ''resetLink'')) (raw ''Reset Password'')
        @ [raw (ln 8 @ ''<p style='' @ qt ''color: #666; font-size: 14px;'' @ ''>This link will expire in '' @ txt_or te d ''expiresIn'' ''1 hour''
             @ ''. If you didn't request this reset, you can safely ignore this email.</p>'' @ ln 6)])
       (''Password Reset'' @ blank @ hi te d
        @ ''We received a request to reset your password. Visit the link below:'' @ blank @ txt_field te d ''resetLink'' @ blank
        @ ''This link expires in '' @ txt_or te d ''expiresIn'' ''1 hour'' @ ''.'')"

definition renderQuestCompleted :: "engine \<Rightarrow> json \<Rightarrow> exn + TemplateResult" where
  "renderQuestCompleted te d =
     mail te d (''Quest Completed: '' @ txt_field te d ''questTitle'')
       ([raw (ln 8 @ ''<h1>Quest Completed!</h1>'')] @ greeting d
        @ [raw (ln 8 @ ''<p>Congratulations! You've completed the quest <strong>'' @ [CHR 0x22]), escape (field d ''questTitle''),
           raw ([CHR 0x22] @ ''</strong>.</p>'' @ ln 8)]
        @ if_given d ''xpEarned'' [raw (''<p>You earned <strong>'' @ txt_field te d ''xpEarned'' @ '' XP</strong> for this quest.</p>'')]
        @ button 8 (raw (te_appUrl te @ ''/quests'')) (raw ''Find More Quests'') @ [raw (ln 6)])
       (''Quest Completed!'' @ blank @ hi te d @ ''Congratulations! You've completed '' @ qt (txt_field te d ''questTitle'') @ ''.''
        @ (if js_truthy (field d ''xpEarned'') then '' You earned '' @ txt_field te d ''xpEarned'' @ '' XP.'' else [])
        @ blank @ ''Find more quests: '' @ te_appUrl te @ ''/quests'')"

definition renderSubmissionApproved :: "engine \<Rightarrow> json \<Rightarrow> exn + TemplateResult" where
  "renderSubmissionApproved te d =
     mail te d (''Submission Approved: '' @ txt_field te d ''questTitle'')
       ([raw (ln 8 @ ''<h1>Submission Approved!</h1>'')] @ greeting d
        @ [raw (ln 8 @ ''<p>Your submission for <strong>'' @ [CHR 0x22]), escape (field d ''questTitle''),
           raw ([CHR 0x22] @ ''</strong> has been approved.</p>'' @ ln 8)]
        @ if_given d ''rewardAmount'' [raw (''<p>You will receive <strong>'' @ txt_field te d ''rewardAmount'' @ '' tokens</strong> as a reward.</p>'')]
        @ button 8 (raw (te_appUrl te @ ''/dashboard'')) (raw ''View Dashboard'') @ [raw (ln 6)])
       (''Submission Approved!'' @ blank @ hi te d @ ''Your submission for '' @ qt (txt_field te d ''questTitle'') @ '' has been approved.''
        @ (if js_truthy (field d ''rewardAmount'') then '' You will receive '' @ txt_field te d ''rewardAmount'' @ '' tokens.'' else [])
        @ blank @ ''View dashboard: '' @ te_appUrl te @ ''/dashboard'')"

definition renderSubmissionRejected :: "engine \<Rightarrow> json \<Rightarrow> exn + TemplateResult" where
  "renderSubmissionRejected te d =
     mail te d (''Submission Update: '' @ txt_field te d ''questTitle'')
       ([raw (ln 8 @ ''<h1>Submission Update</h1>'')] @ greeting d
        @ [raw (ln 8 @ ''<p>Your submission for <strong>'' @ [CHR 0x22]), escape (field d ''questTitle''),
           raw ([CHR 0x22] @ ''</strong> was not approved.</p>'' @ ln 8)]
        @ if_given d ''reason'' [raw ''<p><strong>Reason:</strong> '', escape (field d ''reason''), raw ''</p>'']
        @ [raw (ln 8 @ ''<p>Don't worry! You can review the feedback and submit again.</p>'')]
        @ button 8 (raw (te_appUrl te @ ''/quests'')) (raw ''Try Again'') @ [raw (ln 6)])
       (''Submission Update'' @ blank @ hi te d @ ''Your submission for '' @ qt (txt_field te d ''questTitle'') @ '' was not approved.''
        @ (if js_truthy (field d ''reason'') then '' Reason: '' @ txt_field te d ''reason'' else [])
        @ blank @ ''You can review the feedback and submit again at '' @ te_appUrl te @ ''/quests'')"

definition renderPayoutProcessed :: "engine \<Rightarrow> json \<Rightarrow> exn + TemplateResult" where
  "renderPayoutProcessed te d =
     mail te d (''Payout Processed: '' @ txt_field te d ''amount'' @ '' tokens'')
       ([raw (ln 8 @ ''<h1>Payout Processed</h1>'')] @ greeting d
        @ [raw (ln 8 @ ''<p>Your payout of <strong>'' @ txt_field te d ''amount'' @ '' tokens</strong> has been sent to your Stellar address.</p>''
             @ ln 8 @ ''<div style='' @ qt ''background: #f5f5f5; padding: 15px; border-radius: 8px; margin: 20px 0; word-break: break-all;'' @ ''>''
             @ ln 10 @ ''<p style='' @ qt ''margin: 5px 0;'' @ ''><strong>Address:</strong> ''), esc_or d ''stellarAddress'' [],
           raw (''</p>'' @ ln 10 @ ''<p style='' @ qt ''margin: 5px 0;'' @ ''><strong>Transaction:</strong> ''), esc_or d ''transactionHash'' [],
           raw (''</p>'' @ ln 8 @ ''</div>'')]
        @ button 8 (raw (te_appUrl te @ ''/dashboard'')) (raw ''View Dashboard'') @ [raw (ln 6)])
       (''Payout Processed'' @ blank @ hi te d @ ''Your payout of '' @ txt_field te d ''amount'' @ '' tokens has been sent.'' @ blank
        @ ''Address: '' @ txt_or te d ''stellarAddress'' [] @ ln 0 @ ''Transaction: '' @ txt_or te d ''transactionHash'' []
        @ blank @ ''View dashboard: '' @ te_appUrl te @ ''/dashboard'')"

definition renderPayoutFailed :: "engine \<Rightarrow> json \<Rightarrow> exn + TemplateResult" where
  "renderPayoutFailed te d =
     mail te d ''Payout Issue: Action Required''
       ([raw (ln 8 @ ''<h1>Payout Issue</h1>'')] @ greeting d
        @ [raw (ln 8 @ ''<p>We encountered an issue processing your payout of <strong>'' @ txt_field te d ''amount'' @ '' tokens</strong>.</p>'' @ ln 8)]
        @ if_given d ''reason'' [raw ''<p><strong>Details:</strong> '', escape (field d ''reason''), raw ''</p>'']
        @ [raw (ln 8 @ ''<p>Our team is looking into this. If the issue persists, please contact support.</p>'')]
        @ button 8 (raw (te_appUrl te @ ''/support'')) (raw ''Contact Support'') @ [raw (ln 6)])
       (''Payout Issue'' @ blank @ hi te d @ ''We encountered an issue processing your payout of '' @ txt_field te d ''amount'' @ '' tokens.''
        @ (if js_truthy (field d ''reason'') then '' Details: '' @ txt_field te d ''reason'' else [])
        @ blank @ ''Contact support: '' @ te_appUrl te @ ''/support'')"

definition renderAccountUpdate :: "engine \<Rightarrow> json \<Rightarrow> exn + TemplateResult" where
  "renderAccountUpdate te d =
     mail te d (''Account Update: '' @ txt_or te d ''updateType'' ''Important Notice'')
       ([raw (ln 8 @ ''<h1>Account Update</h1>'')] @ greeting d
        @ [raw (ln 8 @ ''<p>''), esc_or d ''details'' ''There has been an update to your account.'', raw ''</p>'']
        @ button 8 (raw (te_appUrl te @ ''/settings'')) (raw ''View Settings'')
        @ [raw (ln 8 @ ''<p style='' @ qt ''color: #666; font-size: 14px;'' @ ''>If you didn't make this change, please contact support immediately.</p>'' @ ln 6)])
       (''Account Update'' @ blank @ hi te d @ txt_or te d ''details'' ''There has been an update to your account.'' @ blank
        @ ''View settings: '' @ te_appUrl te @ ''/settings'')"

definition renderGeneralNotification :: "engine \<Rightarrow> json \<Rightarrow> exn + TemplateResult" where
  "renderGeneralNotification te d =
     mail te d (txt_or te d ''title'' (te_appName te @ '' Notification''))
       ([raw (ln 8 @ ''<h1>''), esc_or d ''title'' ''Notification'', raw ''</h1>''] @ greeting d
        @ [raw (ln 8 @ ''<p>''), esc_or d ''message'' [], raw (''</p>'' @ ln 8)]
        @ if_given d ''ctaUrl'' (button 8 (escape (field d ''ctaUrl'')) (esc_or d ''ctaText'' ''Learn More'')) @ [raw (ln 6)])
       (txt_or te d ''title'' ''Notification'' @ blank @ hi te d @ txt_or te d ''message'' []
        @ (if js_truthy (field d ''ctaUrl'') then blank @ txt_or te d ''ctaText'' ''Learn More'' @ '': '' @ txt_field te d ''ctaUrl'' else []))"

text \<open>\<open>render_template\<close>: a template the map does not have falls back to the general notification.\<close>

fun renderer :: "EmailTemplate \<Rightarrow> engine \<Rightarrow> json \<Rightarrow> exn + TemplateResult" where
  "renderer WELCOME = renderWelcome"
| "renderer PASSWORD_RESET = renderPasswordReset"
| "renderer QUEST_COMPLETED = renderQuestCompleted"
| "renderer SUBMISSION_APPROVED = renderSubmissionApproved"
| "renderer SUBMISSION_REJECTED = renderSubmissionRejected"
| "renderer PAYOUT_PROCESSED = renderPayoutProcessed"
| "renderer PAYOUT_FAILED = renderPayoutFailed"
| "renderer ACCOUNT_UPDATE = renderAccountUpdate"
| "renderer GENERAL_NOTIFICATION = renderGeneralNotification"

definition all_templates :: "EmailTemplate list" where
  "all_templates = [WELCOME, PASSWORD_RESET, QUEST_COMPLETED, SUBMISSION_APPROVED, SUBMISSION_REJECTED, PAYOUT_PROCESSED,
     PAYOUT_FAILED, ACCOUNT_UPDATE, GENERAL_NOTIFICATION]"

definition render_template :: "engine \<Rightarrow> string \<Rightarrow> json \<Rightarrow> exn + TemplateResult" where
  "render_template te template d =
     (case List.find (\<lambda>t. show_EmailTemplate t = template) all_templates of
        None \<Rightarrow> renderGeneralNotification te d
      | Some t \<Rightarrow> renderer t te d)"

end
