(* ===== verification/Email.thy ===== *)
theory Email
  imports EmailTemplates JobScheduler
begin

text \<open>
  \<open>modules/email\<close>: \<open>EmailService\<close> with its two maps in memory, the queue it puts its messages on
  (\<open>JobsService\<close>, theory \<open>JobScheduler\<close>), the worker of that queue, and the routes of \<open>EmailController\<close>.
  Arguments stand for the crypto library (\<open>mc_hmac\<close>), \<open>JSON.stringify\<close> (\<open>mc_stringify\<close>) and the answer of
  the provider to one message (\<open>me_send\<close>); the messages handed to the provider are recorded in \<open>em_outbox\<close>.
  Outside the model: event types that are the name of a property every object inherits (\<open>constructor\<close>), and
  jobs on the e-mail queue that \<open>queueEmail\<close> did not put there.
\<close>

subsection \<open>Data\<close>

datatype EmailPriority = LOW | NORMAL | HIGH

datatype EmailStatus =
  QUEUED | SENDING | SENT | DELIVERED | BOUNCED | FAILED | DROPPED | DEFERRED | OPENED | CLICKED | SPAM_REPORT | UNSUBSCRIBED

fun show_EmailPriority :: "EmailPriority \<Rightarrow> string" where
  "show_EmailPriority EmailPriority.LOW = ''low''"
| "show_EmailPriority EmailPriority.NORMAL = ''normal''"
| "show_EmailPriority EmailPriority.HIGH = ''high''"

definition parse_EmailPriority :: "string \<Rightarrow> EmailPriority option" where
  "parse_EmailPriority t = List.find (\<lambda>p. show_EmailPriority p = t) [EmailPriority.LOW, EmailPriority.NORMAL, EmailPriority.HIGH]"

record EmailRecipientDto =
  er_email :: string
  er_name :: "string option"

record SendEmailDto =
  se_to :: "EmailRecipientDto list"
  se_subject :: string
  se_template :: "string option"
  se_templateData :: "json option"
  se_text :: "string option"
  se_html :: "string option"
  se_priority :: "EmailPriority option"

record DeliveryRecord =
  dr_messageId :: string
  dr_to :: string
  dr_subject :: string
  dr_status :: EmailStatus
  dr_timestamp :: time
  dr_attempts :: nat
  dr_lastError :: "json option"
  dr_template :: "string option"

record UnsubscribeRecord =
  ur_email :: string
  ur_token :: string
  ur_unsubscribedAt :: time

record Mail =
  ml_messageId :: string
  ml_to :: "EmailRecipientDto list"
  ml_subject :: string
  ml_text :: string
  ml_html :: string

record mail_config =
  mc_engine :: engine
  mc_apiKey :: string
  mc_sdk :: bool
  mc_webhookVerificationKey :: string
  mc_jwtSecret :: "string option"
  mc_hmac :: "string \<Rightarrow> string \<Rightarrow> byte list"
  mc_stringify :: "json \<Rightarrow> string"

record email_state =
  deliveryLog :: "(string \<times> DeliveryRecord) list"
  unsubscribeList :: "(string \<times> UnsubscribeRecord) list"
  em_processor :: bool
  em_jobs :: jobs_state
  em_outbox :: "Mail list"

record mail_env =
  me_now :: time
  me_random :: "byte list"
  me_jobs :: jobs_env
  me_send :: "(json option \<times> string) + unit"

definition sgMail :: "mail_config \<Rightarrow> bool" where
  "sgMail cfg \<longleftrightarrow> mc_apiKey cfg \<noteq> [] \<and> mc_sdk cfg"

definition email_onModuleInit :: "email_state \<Rightarrow> email_state" where
  "email_onModuleInit s = s\<lparr>em_processor := True\<rparr>"

subsection \<open>The unsubscribe list\<close>

definition normalize :: "string \<Rightarrow> string" where
  "normalize email = trim (lower email)"

definition isUnsubscribed :: "string \<Rightarrow> email_state \<Rightarrow> bool" where
  "isUnsubscribed email s \<longleftrightarrow> map_of (unsubscribeList s) (normalize email) \<noteq> None"

definition generateUnsubscribeToken :: "mail_config \<Rightarrow> string \<Rightarrow> string" where
  "generateUnsubscribeToken cfg email = to_hex (mc_hmac cfg (coalesce (mc_jwtSecret cfg) ''fallback-secret'') (normalize email))"

definition addToUnsubscribeList :: "mail_config \<Rightarrow> mail_env \<Rightarrow> string \<Rightarrow> email_state \<Rightarrow> email_state" where
  "addToUnsubscribeList cfg env email s =
     (let normalizedEmail = normalize email
      in if map_of (unsubscribeList s) normalizedEmail \<noteq> None then s
         else s\<lparr>unsubscribeList := AList.update normalizedEmail
                 \<lparr> ur_email = normalizedEmail, ur_token = generateUnsubscribeToken cfg normalizedEmail, ur_unsubscribedAt = me_now env \<rparr>
                 (unsubscribeList s)\<rparr>)"

definition removeFromUnsubscribeList :: "string \<Rightarrow> email_state \<Rightarrow> bool \<times> email_state" where
  "removeFromUnsubscribeList email s =
     (isUnsubscribed email s, s\<lparr>unsubscribeList := AList.delete (normalize email) (unsubscribeList s)\<rparr>)"

definition filterUnsubscribed :: "EmailRecipientDto list \<Rightarrow> email_state \<Rightarrow> EmailRecipientDto list" where
  "filterUnsubscribed recipients s = filter (\<lambda>r. \<not> isUnsubscribed (er_email r) s) recipients"

text \<open>\<open>text.split(sep)\<close>.\<close>

fun split_text :: "string \<Rightarrow> string \<Rightarrow> string list" where
  "split_text sep [] = [[]]"
| "split_text sep (c # cs) =
     (if starts_with (c # cs) sep then [] # split_text sep (drop (length sep - 1) cs)
      else (case split_text sep cs of [] \<Rightarrow> [[c]] | p # ps \<Rightarrow> (c # p) # ps))"

definition decodeUnsubscribeToken :: "mail_config \<Rightarrow> string \<Rightarrow> email_state \<Rightarrow> string option" where
  "decodeUnsubscribeToken cfg token s =
     List.find (\<lambda>email. generateUnsubscribeToken cfg email = token)
       (concat (map (\<lambda>(_, r). split_text '', '' (dr_to r)) (deliveryLog s)))"

definition processUnsubscribeToken :: "mail_config \<Rightarrow> mail_env \<Rightarrow> string \<Rightarrow> email_state \<Rightarrow> string option \<times> email_state" where
  "processUnsubscribeToken cfg env token s =
     (case List.find (\<lambda>(_, r). ur_token r = token) (unsubscribeList s) of
        Some (email, _) \<Rightarrow> (Some email, s)
      | None \<Rightarrow>
          (case decodeUnsubscribeToken cfg token s of
             None \<Rightarrow> (None, s)
           | Some email \<Rightarrow> if email = [] then (None, s) else (Some email, addToUnsubscribeList cfg env email s)))"

subsection \<open>Sending\<close>

definition generateMessageId :: "mail_env \<Rightarrow> string" where
  "generateMessageId env = ''se_'' @ show_int (me_now env) @ ''_'' @ to_hex (me_random env)"

definition updateDeliveryStatus :: "string \<Rightarrow> EmailStatus \<Rightarrow> json option \<Rightarrow> time \<Rightarrow> email_state \<Rightarrow> email_state" where
  "updateDeliveryStatus messageId status reason now s =
     (case map_of (deliveryLog s) messageId of
        None \<Rightarrow> s
      | Some r \<Rightarrow> s\<lparr>deliveryLog := AList.update messageId
          (r\<lparr>dr_status := status, dr_timestamp := now, dr_lastError := (if js_truthy reason then reason else dr_lastError r)\<rparr>)
          (deliveryLog s)\<rparr>)"

definition sendEmail :: "SendEmailDto \<Rightarrow> mail_env \<Rightarrow> email_state \<Rightarrow> (string \<times> EmailStatus) \<times> email_state" where
  "sendEmail dto env s =
     (let filteredRecipients = filterUnsubscribed (se_to dto) s
      in if filteredRecipients = [] then (([], EmailStatus.DROPPED), s)
         else (let messageId = generateMessageId env
               in ((messageId, EmailStatus.QUEUED),
                   s\<lparr>deliveryLog := AList.update messageId
                     \<lparr> dr_messageId = messageId, dr_to = join_with '', '' (map er_email filteredRecipients),
                       dr_subject = se_subject dto, dr_status = EmailStatus.QUEUED, dr_timestamp = me_now env,
                       dr_attempts = 0, dr_lastError = None, dr_template = se_template dto \<rparr> (deliveryLog s)\<rparr>)))"

fun mapPriorityToJobPriority :: "EmailPriority \<Rightarrow> nat" where
  "mapPriorityToJobPriority EmailPriority.HIGH = 1"
| "mapPriorityToJobPriority EmailPriority.NORMAL = 5"
| "mapPriorityToJobPriority EmailPriority.LOW = 10"

text \<open>The data of a job: the message id and the DTO as JSON, where a property that is \<open>undefined\<close> is left out.\<close>

definition opt_field :: "string \<Rightarrow> json option \<Rightarrow> (string \<times> json) list" where
  "opt_field k v = (case v of None \<Rightarrow> [] | Some w \<Rightarrow> [(k, w)])"

definition recipient_json :: "EmailRecipientDto \<Rightarrow> json" where
  "recipient_json r = JObj ([(''email'', JStr (er_email r))] @ opt_field ''name'' (map_option JStr (er_name r)))"

definition dto_json :: "SendEmailDto \<Rightarrow> json" where
  "dto_json dto = JObj ([(''to'', JArr (map recipient_json (se_to dto))), (''subject'', JStr (se_subject dto))]
     @ opt_field ''template'' (map_option JStr (se_template dto)) @ opt_field ''templateData'' (se_templateData dto)
     @ opt_field ''text'' (map_option JStr (se_text dto)) @ opt_field ''html'' (map_option JStr (se_html dto))
     @ opt_field ''priority'' (map_option (JStr \<circ> show_EmailPriority) (se_priority dto)))"

definition email_job :: "string \<Rightarrow> SendEmailDto \<Rightarrow> json" where
  "email_job messageId dto = JObj [(''messageId'', JStr messageId), (''dto'', dto_json dto)]"

definition queueEmail :: "SendEmailDto \<Rightarrow> mail_env \<Rightarrow> email_state \<Rightarrow> (string \<times> EmailStatus) \<times> email_state" where
  "queueEmail dto env s =
     (case sendEmail dto env s of
        ((messageId, status), s1) \<Rightarrow>
          if status = EmailStatus.DROPPED then ((messageId, status), s1)
          else (let jobPriority = mapPriorityToJobPriority (coalesce (se_priority dto) EmailPriority.NORMAL)
                in case addJob (Some ''email'') (email_job messageId (dto\<lparr>se_to := filterUnsubscribed (se_to dto) s1\<rparr>))
                          (DEFAULT_JOB_OPTIONS\<lparr>jo_priority := Some jobPriority\<rparr>) (me_jobs env) (em_jobs s1) of
                     (Inr _, js) \<Rightarrow> ((messageId, status), s1\<lparr>em_jobs := js\<rparr>)
                   | (Inl e, js) \<Rightarrow>
                       ((messageId, EmailStatus.FAILED),
                        updateDeliveryStatus messageId EmailStatus.FAILED
                          (Some (JStr (case e of JsError m \<Rightarrow> m | _ \<Rightarrow> []))) (me_now env) (s1\<lparr>em_jobs := js\<rparr>))))"

definition sendTemplateEmail ::
    "mail_config \<Rightarrow> EmailTemplate \<Rightarrow> EmailRecipientDto list \<Rightarrow> json \<Rightarrow> EmailPriority option \<Rightarrow> mail_env \<Rightarrow> email_state
     \<Rightarrow> (email_state, string \<times> EmailStatus) outcome" where
  "sendTemplateEmail cfg template recipients templateData priority env s =
     (case render_template (mc_engine cfg) (show_EmailTemplate template) templateData of
        Inl e \<Rightarrow> (Inl e, s)
      | Inr rendered \<Rightarrow>
          (case queueEmail \<lparr> se_to = recipients, se_subject = tr_subject rendered, se_template = Some (show_EmailTemplate template),
               se_templateData = Some templateData, se_text = None, se_html = None,
               se_priority = Some (coalesce priority EmailPriority.NORMAL) \<rparr> env s of
             (r, s') \<Rightarrow> (Inr r, s')))"

text \<open>The six messages of the platform; a field that is not given is left out of the data.\<close>

definition token_field :: "mail_config \<Rightarrow> string \<Rightarrow> (string \<times> json) list" where
  "token_field cfg email = [(''unsubscribeToken'', JStr (generateUnsubscribeToken cfg email))]"

abbreviation only :: "string \<Rightarrow> EmailRecipientDto list" where
  "only email \<equiv> [\<lparr> er_email = email, er_name = None \<rparr>]"

definition sendWelcomeEmail where
  "sendWelcomeEmail cfg email username =
     sendTemplateEmail cfg WELCOME (only email) (JObj ([(''username'', JStr username)] @ token_field cfg email)) None"

definition sendPasswordResetEmail where
  "sendPasswordResetEmail cfg email username resetLink =
     sendTemplateEmail cfg PASSWORD_RESET (only email)
       (JObj [(''username'', JStr username), (''resetLink'', JStr resetLink), (''expiresIn'', JStr ''1 hour'')]) (Some EmailPriority.HIGH)"

definition sendSubmissionApprovedEmail where
  "sendSubmissionApprovedEmail cfg email username questTitle rewardAmount =
     sendTemplateEmail cfg SUBMISSION_APPROVED (only email)
       (JObj ([(''username'', JStr username), (''questTitle'', JStr questTitle)]
         @ opt_field ''rewardAmount'' (map_option JNum rewardAmount) @ token_field cfg email)) None"

definition sendSubmissionRejectedEmail where
  "sendSubmissionRejectedEmail cfg email username questTitle reason =
     sendTemplateEmail cfg SUBMISSION_REJECTED (only email)
       (JObj ([(''username'', JStr username), (''questTitle'', JStr questTitle)]
         @ opt_field ''reason'' (map_option JStr reason) @ token_field cfg email)) None"

definition sendPayoutProcessedEmail where
  "sendPayoutProcessedEmail cfg email username amount transactionHash stellarAddress =
     sendTemplateEmail cfg PAYOUT_PROCESSED (only email)
       (JObj ([(''username'', JStr username), (''amount'', JStr amount), (''transactionHash'', JStr transactionHash),
         (''stellarAddress'', JStr stellarAddress)] @ token_field cfg email)) None"

definition sendPayoutFailedEmail where
  "sendPayoutFailedEmail cfg email username amount reason =
     sendTemplateEmail cfg PAYOUT_FAILED (only email)
       (JObj ([(''username'', JStr username), (''amount'', JStr amount)]
         @ opt_field ''reason'' (map_option JStr reason) @ token_field cfg email)) (Some EmailPriority.HIGH)"

subsection \<open>The worker\<close>

definition text_prop :: "json \<Rightarrow> string \<Rightarrow> string option" where
  "text_prop v k = (case own_prop v k of Some (JStr s) \<Rightarrow> Some s | _ \<Rightarrow> None)"

definition read_recipient :: "json \<Rightarrow> EmailRecipientDto" where
  "read_recipient v = \<lparr> er_email = coalesce (text_prop v ''email'') [], er_name = text_prop v ''name'' \<rparr>"

definition read_dto :: "json \<Rightarrow> SendEmailDto" where
  "read_dto v = \<lparr> se_to = (case own_prop v ''to'' of Some (JArr rs) \<Rightarrow> map read_recipient rs | _ \<Rightarrow> []),
     se_subject = coalesce (text_prop v ''subject'') [], se_template = text_prop v ''template'',
     se_templateData = own_prop v ''templateData'', se_text = text_prop v ''text'', se_html = text_prop v ''html'',
     se_priority = Option.bind (text_prop v ''priority'') parse_EmailPriority \<rparr>"

definition count_attempt :: "string \<Rightarrow> email_state \<Rightarrow> email_state" where
  "count_attempt messageId s =
     (case map_of (deliveryLog s) messageId of
        None \<Rightarrow> s
      | Some r \<Rightarrow> s\<lparr>deliveryLog := AList.update messageId (r\<lparr>dr_attempts := dr_attempts r + 1\<rparr>) (deliveryLog s)\<rparr>)"

text \<open>The three contents of a message: subject, HTML and text.\<close>

definition message_content :: "mail_config \<Rightarrow> SendEmailDto \<Rightarrow> exn + TemplateResult" where
  "message_content cfg dto =
     (if truthy (se_template dto)
      then render_template (mc_engine cfg) (the (se_template dto)) (or_else (se_templateData dto) (JObj []))
      else Inr \<lparr> tr_subject = se_subject dto, tr_html = or_default (se_html dto) [], tr_text = or_default (se_text dto) [] \<rparr>)"

definition processEmailJob :: "mail_config \<Rightarrow> string \<Rightarrow> SendEmailDto \<Rightarrow> mail_env \<Rightarrow> email_state \<Rightarrow> (email_state, unit) outcome" where
  "processEmailJob cfg messageId dto env s =
     (let s1 = updateDeliveryStatus messageId EmailStatus.SENDING None (me_now env) s
      in case message_content cfg dto of
           Inl e \<Rightarrow> (Inl e, s1)
         | Inr c \<Rightarrow>
             if \<not> sgMail cfg
             then (Inr (), updateDeliveryStatus messageId EmailStatus.DROPPED (Some (JStr ''SendGrid not configured'')) (me_now env) s1)
             else (let msg = \<lparr> ml_messageId = messageId, ml_to = se_to dto, ml_subject = tr_subject c,
                               ml_text = tr_text c, ml_html = tr_html c \<rparr>;
                       s2 = count_attempt messageId s1;
                       s3 = s2\<lparr>em_outbox := em_outbox s2 @ [msg]\<rparr>
                   in case me_send env of
                        Inr _ \<Rightarrow> (Inr (), updateDeliveryStatus messageId EmailStatus.SENT None (me_now env) s3)
                      | Inl (api, m) \<Rightarrow>
                          (Inl (JsError m), updateDeliveryStatus messageId EmailStatus.FAILED (Some (or_else api (JStr m))) (me_now env) s3)))"

text \<open>\<open>handleEmail\<close> of \<open>JobsService\<close>; without a registered processor the job counts as done.\<close>

definition handleEmail :: "mail_config \<Rightarrow> QueuedJob \<Rightarrow> mail_env \<Rightarrow> email_state \<Rightarrow> (email_state, unit) outcome" where
  "handleEmail cfg job env s =
     (if em_processor s
      then processEmailJob cfg (coalesce (text_prop (qj_data job) ''messageId'') [])
             (read_dto (coalesce (own_prop (qj_data job) ''dto'') JNull)) env s
      else (Inr (), s))"

subsection \<open>Events of the provider\<close>

definition mapWebhookEventToStatus :: "string \<Rightarrow> EmailStatus option" where
  "mapWebhookEventToStatus eventType =
     map_of [(''processed'', EmailStatus.SENT), (''delivered'', EmailStatus.DELIVERED), (''bounce'', EmailStatus.BOUNCED),
       (''dropped'', EmailStatus.DROPPED), (''deferred'', EmailStatus.DEFERRED), (''open'', EmailStatus.OPENED),
       (''click'', EmailStatus.CLICKED), (''spamreport'', EmailStatus.SPAM_REPORT), (''unsubscribe'', EmailStatus.UNSUBSCRIBED)] eventType"

text \<open>Calling a method of a text on a value that is none.\<close>

definition as_text :: "json option \<Rightarrow> exn + string" where
  "as_text v =
     (case v of
        Some (JStr s) \<Rightarrow> Inr s
      | None \<Rightarrow> Inl (JsTypeError ''Cannot read properties of undefined (reading 'toLowerCase')'')
      | Some JNull \<Rightarrow> Inl (JsTypeError ''Cannot read properties of null (reading 'toLowerCase')'')
      | _ \<Rightarrow> Inl (JsTypeError ''toLowerCase is not a function''))"

definition unsubscribe_value :: "mail_config \<Rightarrow> mail_env \<Rightarrow> json option \<Rightarrow> email_state \<Rightarrow> (email_state, unit) outcome" where
  "unsubscribe_value cfg env email s =
     (case as_text email of Inl e \<Rightarrow> (Inl e, s) | Inr t \<Rightarrow> (Inr (), addToUnsubscribeList cfg env t s))"

definition handleBounce :: "mail_config \<Rightarrow> mail_env \<Rightarrow> json option \<Rightarrow> json \<Rightarrow> email_state \<Rightarrow> (email_state, unit) outcome" where
  "handleBounce cfg env email classification s =
     (case as_text (Some classification) of
        Inl e \<Rightarrow> (Inl e, s)
      | Inr c \<Rightarrow> if list_ex (includes_str (lower c)) [''hard'', ''permanent'', ''invalid'']
                 then unsubscribe_value cfg env email s else (Inr (), s))"

definition status_event :: "json option \<Rightarrow> EmailStatus \<Rightarrow> json option \<Rightarrow> time \<Rightarrow> email_state \<Rightarrow> email_state" where
  "status_event sg_message_id status reason now s =
     (case sg_message_id of Some (JStr i) \<Rightarrow> (if i = [] then s else updateDeliveryStatus i status reason now s) | _ \<Rightarrow> s)"

definition handle_one_event :: "mail_config \<Rightarrow> mail_env \<Rightarrow> json \<Rightarrow> email_state \<Rightarrow> (email_state, unit) outcome" where
  "handle_one_event cfg env event s =
     (if event = JNull then (Inl (JsTypeError ''Cannot destructure property 'event' of 'event' as it is null.''), s)
      else
        (case mapWebhookEventToStatus (opt_text (te_number (mc_engine cfg)) (own_prop event ''event'')) of
           None \<Rightarrow> (Inr (), s)
         | Some status \<Rightarrow>
             (let email = own_prop event ''email'';
                  s1 = status_event (own_prop event ''sg_message_id'') status (own_prop event ''reason'') (me_now env) s
              in if status = EmailStatus.BOUNCED
                 then handleBounce cfg env email (or_else (own_prop event ''bounce_classification'') (JStr [])) s1
                 else if status = EmailStatus.SPAM_REPORT \<or> status = EmailStatus.UNSUBSCRIBED
                 then unsubscribe_value cfg env email s1
                 else (Inr (), s1))))"

fun handle_events :: "mail_config \<Rightarrow> mail_env \<Rightarrow> json list \<Rightarrow> email_state \<Rightarrow> (email_state, unit) outcome" where
  "handle_events cfg env [] s = (Inr (), s)"
| "handle_events cfg env (e # es) s =
     (case handle_one_event cfg env e s of
        (Inl x, s') \<Rightarrow> (Inl x, s')
      | (Inr _, s') \<Rightarrow> handle_events cfg env es s')"

text \<open>A text is iterated character by character; every other value that is no array cannot be iterated.\<close>

definition handleWebhookEvent :: "mail_config \<Rightarrow> mail_env \<Rightarrow> json \<Rightarrow> email_state \<Rightarrow> (email_state, unit) outcome" where
  "handleWebhookEvent cfg env events s =
     (case events of
        JArr es \<Rightarrow> handle_events cfg env es s
      | JStr t \<Rightarrow> handle_events cfg env (map (\<lambda>c. JStr [c]) t) s
      | _ \<Rightarrow> (Inl (JsTypeError ''events is not iterable''), s))"

text \<open>\<open>digest('base64')\<close>.\<close>

definition base64_char :: "nat \<Rightarrow> char" where
  "base64_char n = (if n < 26 then char_of (65 + n) else if n < 52 then char_of (71 + n) else if n < 62 then char_of (n - 4)
     else if n = 62 then CHR ''+'' else CHR ''/'')"

fun to_base64 :: "byte list \<Rightarrow> string" where
  "to_base64 [] = []"
| "to_base64 [a] = (let n = unat a * 16 in [base64_char (n div 64), base64_char (n mod 64), CHR ''='', CHR ''=''])"
| "to_base64 [a, b] = (let n = (unat a * 256 + unat b) * 4
     in [base64_char (n div 4096), base64_char (n div 64 mod 64), base64_char (n mod 64), CHR ''=''])"
| "to_base64 (a # b # c # bs) = (let n = (unat a * 256 + unat b) * 256 + unat c
     in [base64_char (n div 262144), base64_char (n div 4096 mod 64), base64_char (n div 64 mod 64), base64_char (n mod 64)] @ to_base64 bs)"

definition sendgrid_signature_ok :: "mail_config \<Rightarrow> string \<Rightarrow> string \<Rightarrow> string \<Rightarrow> bool" where
  "sendgrid_signature_ok cfg payload signature timestamp =
     (if mc_webhookVerificationKey cfg = [] then True
      else signature = to_base64 (mc_hmac cfg (mc_webhookVerificationKey cfg) (timestamp @ payload)))"

subsection \<open>Reading the log\<close>

definition getDeliveryStatus :: "string \<Rightarrow> email_state \<Rightarrow> DeliveryRecord option" where
  "getDeliveryStatus messageId s = map_of (deliveryLog s) messageId"

text \<open>\<open>slice(0, n)\<close>; \<open>None\<close> is \<open>NaN\<close>.\<close>

definition slice_to :: "int option \<Rightarrow> 'a list \<Rightarrow> 'a list" where
  "slice_to n xs = (case n of None \<Rightarrow> [] | Some i \<Rightarrow> take (nat (if i < 0 then int (length xs) + i else i)) xs)"

definition getAllDeliveryStatuses :: "int option \<Rightarrow> email_state \<Rightarrow> DeliveryRecord list" where
  "getAllDeliveryStatuses limit s = slice_to limit (order_desc dr_timestamp (map snd (deliveryLog s)))"

record DeliveryStats =
  ds_total :: nat
  ds_byStatus :: "EmailStatus \<Rightarrow> nat"
  ds_bounceRate :: rat
  ds_deliveryRate :: rat

definition count_status :: "EmailStatus \<Rightarrow> email_state \<Rightarrow> nat" where
  "count_status st s = length (filter (\<lambda>r. dr_status r = st) (map snd (deliveryLog s)))"

definition getDeliveryStats :: "email_state \<Rightarrow> DeliveryStats" where
  "getDeliveryStats s =
     (let n = length (deliveryLog s); byStatus = (\<lambda>st. count_status st s);
          sent = int n - int (byStatus EmailStatus.QUEUED) - int (byStatus EmailStatus.DROPPED)
      in \<lparr> ds_total = n, ds_byStatus = byStatus,
           ds_bounceRate = (if 0 < sent then rat_of_nat (byStatus EmailStatus.BOUNCED) / rat_of_int sent * 100 else 0),
           ds_deliveryRate = (if 0 < sent then rat_of_nat (byStatus EmailStatus.DELIVERED) / rat_of_int sent * 100 else 0) \<rparr>)"

subsection \<open>Routes\<close>

definition sendEmail_route :: "SendEmailDto \<Rightarrow> mail_env \<Rightarrow> email_state \<Rightarrow> (string \<times> EmailStatus) \<times> email_state" where
  "sendEmail_route = queueEmail"

definition getDeliveryStatus_route :: "string \<Rightarrow> email_state \<Rightarrow> exn + DeliveryRecord" where
  "getDeliveryStatus_route messageId s =
     (case getDeliveryStatus messageId s of
        None \<Rightarrow> Inl (BadRequestException (''Message '' @ messageId @ '' not found''))
      | Some r \<Rightarrow> Inr r)"

definition getDeliveryHistory :: "string option \<Rightarrow> email_state \<Rightarrow> DeliveryRecord list" where
  "getDeliveryHistory limit s = getAllDeliveryStatuses (if truthy limit then parse_int (the limit) else Some 100) s"

definition handleSendGridWebhook ::
    "mail_config \<Rightarrow> mail_env \<Rightarrow> json \<Rightarrow> string option \<Rightarrow> string option \<Rightarrow> email_state \<Rightarrow> (email_state, unit) outcome" where
  "handleSendGridWebhook cfg env events signature timestamp s =
     (if truthy signature \<and> truthy timestamp
         \<and> \<not> sendgrid_signature_ok cfg (mc_stringify cfg events) (the signature) (the timestamp)
      then (Inl (UnauthorizedException ''Invalid webhook signature''), s)
      else handleWebhookEvent cfg env events s)"

definition processUnsubscribe :: "mail_config \<Rightarrow> mail_env \<Rightarrow> string option \<Rightarrow> email_state \<Rightarrow> (email_state, string) outcome" where
  "processUnsubscribe cfg env token s =
     (if \<not> truthy token then (Inl (BadRequestException ''Unsubscribe token is required''), s)
      else (case processUnsubscribeToken cfg env (the token) s of
              (None, s') \<Rightarrow> (Inl (BadRequestException ''Invalid or expired unsubscribe token''), s')
            | (Some _, s') \<Rightarrow> (Inr ''You have been successfully unsubscribed from email notifications.'', s')))"

definition unsubscribe_route :: "mail_config \<Rightarrow> mail_env \<Rightarrow> string \<Rightarrow> email_state \<Rightarrow> (email_state, string) outcome" where
  "unsubscribe_route cfg env token s =
     (case processUnsubscribeToken cfg env token s of
        (None, s') \<Rightarrow> (Inl (BadRequestException ''Invalid unsubscribe token''), s')
      | (Some _, s') \<Rightarrow> (Inr ''You have been successfully unsubscribed.'', s'))"

definition resubscribe :: "string option \<Rightarrow> email_state \<Rightarrow> (email_state, bool \<times> string) outcome" where
  "resubscribe email s =
     (if \<not> truthy email then (Inl (BadRequestException ''Email is required''), s)
      else (case removeFromUnsubscribeList (the email) s of
              (removed, s') \<Rightarrow> (Inr (removed, if removed then ''You have been resubscribed to email notifications.''
                                              else ''This email was not on the unsubscribe list.''), s')))"

end
