(* ===== verification/EmailProps.thy ===== *)
theory EmailProps
  imports Email
begin

text \<open>
  Properties of the e-mails: what the escaping of the templates achieves and what it leaves out, the
  unsubscribe list over the life of the service, and what the delivery log can say.
\<close>

subsection \<open>Escaping\<close>

lemma concat_map_twice: "concat (map g (concat (map f s))) = concat (map (\<lambda>c. concat (map g (f c))) s)"
  by (induction s) simp_all

text \<open>The five replacements, one after the other, act like one that looks at each character once.\<close>

lemma escape_text_chars: "escape_text s = concat (map escape_char s)"
  unfolding escape_text_def replace_char concat_map_twice
  by (rule arg_cong [of _ _ concat], rule map_cong) (simp_all add: escape_char_def)

definition is_markup :: "char \<Rightarrow> bool" where
  "is_markup c \<longleftrightarrow> c = CHR ''<'' \<or> c = CHR ''>'' \<or> c = CHR 0x22 \<or> c = CHR 0x27"

definition markup :: "string \<Rightarrow> string" where
  "markup s = filter is_markup s"

lemma markup_append [simp]: "markup (a @ b) = markup a @ markup b"
  by (simp add: markup_def)

lemma markup_escape_char: "markup (escape_char c) = []"
  by (simp add: markup_def escape_char_def is_markup_def)

lemma markup_escape [simp]: "markup (escape_text s) = []"
proof (induction s)
  case (Cons c s)
  then show ?case by (simp add: escape_text_chars markup_escape_char)
qed (simp add: escape_text_chars markup_def)

text \<open>What a browser makes of the five references.\<close>

fun unescape :: "string \<Rightarrow> string" where
  "unescape [] = []"
| "unescape (c # cs) =
     (if starts_with (c # cs) ''&amp;'' then CHR ''&'' # unescape (drop 4 cs)
      else if starts_with (c # cs) ''&lt;'' then CHR ''<'' # unescape (drop 3 cs)
      else if starts_with (c # cs) ''&gt;'' then CHR ''>'' # unescape (drop 3 cs)
      else if starts_with (c # cs) ''&quot;'' then CHR 0x22 # unescape (drop 5 cs)
      else if starts_with (c # cs) ''&#039;'' then CHR 0x27 # unescape (drop 5 cs)
      else c # unescape cs)"

lemma unescape_char: "unescape (escape_char c @ s) = c # unescape s"
  by (simp add: escape_char_def starts_with_def)

text \<open>
  Claim C21.  Escaping is faithful and safe: what a browser shows of an escaped text is the text, and the
  escaped text has no angle bracket and no quotation mark, whatever it was.
\<close>
theorem escape_roundtrip: "unescape (escape_text s) = s \<and> markup (escape_text s) = []"
proof -
  have "unescape (concat (map escape_char s)) = s"
    by (induction s) (simp_all del: unescape.simps(2) add: unescape_char)
  then have "unescape (escape_text s) = s" by (simp add: escape_text_chars)
  then show ?thesis by simp
qed

subsection \<open>The markup of a message\<close>

definition escaped_fields :: "string list" where
  "escaped_fields = [''username'', ''resetLink'', ''questTitle'', ''reason'', ''stellarAddress'', ''transactionHash'', ''details'',
     ''title'', ''message'', ''ctaText'', ''ctaUrl'']"

definition raw_fields :: "string list" where
  "raw_fields = [''expiresIn'', ''xpEarned'', ''rewardAmount'', ''amount'', ''unsubscribeToken'']"

definition given_text :: "json option \<Rightarrow> bool" where
  "given_text v = (case v of Some (JStr s) \<Rightarrow> s \<noteq> [] | _ \<Rightarrow> False)"

lemma given_text_iff: "given_text v \<longleftrightarrow> (\<exists>a. a \<noteq> [] \<and> v = Some (JStr a))"
  by (simp add: given_text_def split: option.split json.split)

definition same_but_texts :: "json \<Rightarrow> json \<Rightarrow> bool" where
  "same_but_texts d d' \<longleftrightarrow>
     list_all (\<lambda>k. field d k = field d' k) raw_fields
     \<and> list_all (\<lambda>k. field d k = field d' k \<or> (given_text (field d k) \<and> given_text (field d' k))) escaped_fields"

lemma same_raw: "same_but_texts d d' \<Longrightarrow> k \<in> set raw_fields \<Longrightarrow> field d k = field d' k"
  by (simp add: same_but_texts_def list_all_iff)

lemma same_escaped:
  "same_but_texts d d' \<Longrightarrow> k \<in> set escaped_fields
   \<Longrightarrow> field d k = field d' k \<or> (\<exists>a b. a \<noteq> [] \<and> b \<noteq> [] \<and> field d k = Some (JStr a) \<and> field d' k = Some (JStr b))"
  unfolding same_but_texts_def list_all_iff given_text_iff by blast

text \<open>Two evaluated parts of a literal that differ in no markup character.\<close>

definition sim :: "exn + string \<Rightarrow> exn + string \<Rightarrow> bool" where
  "sim p q = (case (p, q) of (Inl _, Inl _) \<Rightarrow> True | (Inr a, Inr b) \<Rightarrow> markup a = markup b | _ \<Rightarrow> False)"

named_theorems sim_intros \<open>parts with the same markup\<close>

lemma sim_refl [sim_intros]: "sim p p"
  by (cases p) (simp_all add: sim_def)

lemma sim_escape [sim_intros]:
  assumes "same_but_texts d d'" and "k \<in> set escaped_fields"
  shows "sim (escape (field d k)) (escape (field d' k))" "sim (esc_or d k v) (esc_or d' k v)"
proof -
  consider (same) "field d k = field d' k" | (given) a b where "a \<noteq> []" "b \<noteq> []" "field d k = Some (JStr a)" "field d' k = Some (JStr b)"
    using same_escaped [OF assms] by blast
  then have "sim (escape (field d k)) (escape (field d' k)) \<and> sim (esc_or d k v) (esc_or d' k v)"
  proof cases
    case same
    then show ?thesis by (simp only: esc_or_def sim_refl simp_thms)
  next
    case given
    then show ?thesis by (simp add: esc_or_def or_else_def js_truthy_def sim_def escape_def)
  qed
  then show "sim (escape (field d k)) (escape (field d' k))" "sim (esc_or d k v) (esc_or d' k v)" by simp_all
qed

lemma sim_raw [sim_intros]: "markup a = markup b \<Longrightarrow> sim (raw a) (raw b)"
  by (simp add: sim_def)

lemma cat_sim: "list_all2 sim ps qs \<Longrightarrow> sim (cat ps) (cat qs)"
proof (induction rule: list_all2_induct)
  case Nil
  then show ?case by (simp add: sim_def)
next
  case (Cons p ps q qs)
  then show ?case by (cases p; cases q; cases "cat ps"; cases "cat qs") (simp_all add: sim_def)
qed

lemmas sim_lists [sim_intros] = list_all2_appendI list_all2_Nil [THEN iffD2] list.rel_intros

lemma truthy_same: "same_but_texts d d' \<Longrightarrow> k \<in> set escaped_fields \<union> set raw_fields \<Longrightarrow> js_truthy (field d k) = js_truthy (field d' k)"
  using same_escaped [of d d' k] same_raw [of d d' k] by (auto simp: js_truthy_def)

lemma sim_given [sim_intros]:
  assumes "same_but_texts d d'" and "k \<in> set escaped_fields \<union> set raw_fields" and "list_all2 sim ps qs"
  shows "list_all2 sim (if_given d k ps) (if_given d' k qs)"
  using truthy_same [OF assms(1,2)] assms(3) by (simp add: if_given_def)

lemma sim_button [sim_intros]:
  "sim href href' \<Longrightarrow> sim label label' \<Longrightarrow> list_all2 sim (button n href label) (button n href' label')"
  unfolding button_def by (intro sim_intros refl)

lemma sim_greeting [sim_intros]: "same_but_texts d d' \<Longrightarrow> list_all2 sim (greeting d) (greeting d')"
  unfolding greeting_def by (intro sim_intros refl) (simp_all add: escaped_fields_def)

lemma raw_text_same:
  assumes "same_but_texts d d'" and "k \<in> set raw_fields"
  shows "txt_field te d k = txt_field te d' k" "txt_or te d k v = txt_or te d' k v"
  using same_raw [OF assms] by (simp_all add: txt_field_def txt_or_def)

definition sim_mail :: "exn + TemplateResult \<Rightarrow> exn + TemplateResult \<Rightarrow> bool" where
  "sim_mail m m' = (case (m, m') of (Inl _, Inl _) \<Rightarrow> True | (Inr r, Inr r') \<Rightarrow> markup (tr_html r) = markup (tr_html r') | _ \<Rightarrow> False)"

lemma mail_sim:
  assumes "same_but_texts d d'" and "list_all2 sim ps qs"
  shows "sim_mail (mail te d t ps c) (mail te d' t' qs c')"
proof -
  have "unsubscribe_link te d = unsubscribe_link te d'"
    using truthy_same [OF assms(1), of "''unsubscribeToken''"] raw_text_same(1) [OF assms(1), of "''unsubscribeToken''"]
    by (simp add: unsubscribe_link_def raw_fields_def)
  then show ?thesis using cat_sim [OF assms(2)]
    by (cases "cat ps"; cases "cat qs") (simp_all add: mail_def sim_mail_def sim_def wrapHtml_def)
qed

named_theorems in_fields \<open>the names of the fields, one by one\<close>

lemma escaped_names [in_fields]:
  "''username'' \<in> set escaped_fields" "''resetLink'' \<in> set escaped_fields" "''questTitle'' \<in> set escaped_fields"
  "''reason'' \<in> set escaped_fields" "''stellarAddress'' \<in> set escaped_fields" "''transactionHash'' \<in> set escaped_fields"
  "''details'' \<in> set escaped_fields" "''title'' \<in> set escaped_fields" "''message'' \<in> set escaped_fields"
  "''ctaText'' \<in> set escaped_fields" "''ctaUrl'' \<in> set escaped_fields"
  by (simp_all add: escaped_fields_def)

lemma raw_names [in_fields]:
  "''expiresIn'' \<in> set raw_fields" "''xpEarned'' \<in> set raw_fields" "''rewardAmount'' \<in> set raw_fields" "''amount'' \<in> set raw_fields"
  by (simp_all add: raw_fields_def)

lemma renderer_sim:
  assumes same: "same_but_texts d d'"
  shows "sim_mail (renderer t te d) (renderer t te d')"
proof (cases t)
  case WELCOME
  show ?thesis unfolding WELCOME renderer.simps renderWelcome_def
    by (intro mail_sim sim_intros same in_fields)
next
  case PASSWORD_RESET
  show ?thesis unfolding PASSWORD_RESET renderer.simps renderPasswordReset_def
      raw_text_same [OF same raw_names(1)]
    by (intro mail_sim sim_intros same in_fields refl)
next
  case QUEST_COMPLETED
  show ?thesis unfolding QUEST_COMPLETED renderer.simps renderQuestCompleted_def raw_text_same(1) [OF same raw_names(2)]
    by (intro mail_sim sim_intros same in_fields refl UnI1 UnI2)
next
  case SUBMISSION_APPROVED
  show ?thesis unfolding SUBMISSION_APPROVED renderer.simps renderSubmissionApproved_def raw_text_same(1) [OF same raw_names(3)]
    by (intro mail_sim sim_intros same in_fields refl UnI2)
next
  case SUBMISSION_REJECTED
  show ?thesis unfolding SUBMISSION_REJECTED renderer.simps renderSubmissionRejected_def
    by (intro mail_sim sim_intros same in_fields refl UnI1)
next
  case PAYOUT_PROCESSED
  show ?thesis unfolding PAYOUT_PROCESSED renderer.simps renderPayoutProcessed_def raw_text_same(1) [OF same raw_names(4)]
    by (intro mail_sim sim_intros same in_fields refl)
next
  case PAYOUT_FAILED
  show ?thesis unfolding PAYOUT_FAILED renderer.simps renderPayoutFailed_def raw_text_same(1) [OF same raw_names(4)]
    by (intro mail_sim sim_intros same in_fields refl UnI1)
next
  case ACCOUNT_UPDATE
  show ?thesis unfolding ACCOUNT_UPDATE renderer.simps renderAccountUpdate_def
    by (intro mail_sim sim_intros same in_fields refl)
next
  case GENERAL_NOTIFICATION
  show ?thesis unfolding GENERAL_NOTIFICATION renderer.simps renderGeneralNotification_def
    by (intro mail_sim sim_intros same in_fields refl UnI1)
qed

text \<open>
  No text a user chooses - a name, a title, a reason, an address, a link - changes the markup of a
  message: two sets of data that differ only in such fields make messages with the same sequence of angle
  brackets and quotation marks, and one renders exactly if the other does.
\<close>
theorem html_markup_fixed:
  assumes "same_but_texts d d'"
  shows "case (render_template te t d, render_template te t d') of
      (Inr r, Inr r') \<Rightarrow> filter is_markup (tr_html r) = filter is_markup (tr_html r')
    | (Inl _, Inl _) \<Rightarrow> True
    | _ \<Rightarrow> False"
proof -
  have "sim_mail (render_template te t d) (render_template te t d')"
  proof (cases "List.find (\<lambda>x. show_EmailTemplate x = t) all_templates")
    case None
    then show ?thesis using renderer_sim [OF assms, of GENERAL_NOTIFICATION te] by (simp add: render_template_def)
  next
    case (Some x)
    then show ?thesis using renderer_sim [OF assms, of x te] by (simp add: render_template_def)
  qed
  then show ?thesis unfolding sim_mail_def markup_def .
qed

definition plain_engine :: engine where
  "plain_engine = \<lparr> te_appUrl = ''u'', te_appName = ''n'', te_year = 2026, te_number = (\<lambda>_. []) \<rparr>"

theorem html_markup_fixed_witness:
  "case (render_template plain_engine ''general_notification'' (JObj [(''message'', JStr ''hello'')]),
         render_template plain_engine ''general_notification'' (JObj [(''message'', JStr ''<script>'')])) of
      (Inr r, Inr r') \<Rightarrow> filter is_markup (tr_html r) = filter is_markup (tr_html r')
    | (Inl _, Inl _) \<Rightarrow> True
    | _ \<Rightarrow> False"
  by (rule html_markup_fixed)
    (simp add: same_but_texts_def raw_fields_def escaped_fields_def own_prop_def given_text_def)

text \<open>The amount of a payout, the experience and the reward are not escaped: what they say is in the page.\<close>

lemma cat_infix: "cat ps = Inr b \<Longrightarrow> Inr a \<in> set ps \<Longrightarrow> \<exists>u v. b = u @ a @ v"
proof (induction ps arbitrary: b)
  case (Cons p ps)
  then obtain x y where p: "p = Inr x" "cat ps = Inr y" "b = x @ y"
    by (cases p; cases "cat ps") auto
  from Cons.prems(2) p(1) consider "a = x" | "Inr a \<in> set ps" by auto
  then show ?case
  proof cases
    case 1
    then show ?thesis using p(3) by (metis append_Nil)
  next
    case 2
    then obtain u v where "y = u @ a @ v" using Cons.IH [OF p(2)] by blast
    then show ?thesis using p(3) by (metis append.assoc)
  qed
qed simp

lemma mail_infix:
  assumes "mail te d t ps c = Inr r" and "raw a \<in> set ps"
  shows "\<exists>u v. tr_html r = u @ a @ v"
proof -
  obtain b where b: "cat ps = Inr b" "tr_html r = page_head te @ b @ page_foot te (unsubscribe_link te d)"
    using assms(1) by (cases "cat ps") (auto simp: mail_def wrapHtml_def)
  with cat_infix [OF b(1) assms(2)] show ?thesis by (metis append.assoc)
qed

lemma amount_not_escaped:
  assumes "renderPayoutFailed te d = Inr r" and "field d ''amount'' = Some (JStr a)"
  shows "\<exists>u v. tr_html r = u @ a @ v"
proof -
  have "\<exists>u v. tr_html r = u @ (ln 8 @ ''<p>We encountered an issue processing your payout of <strong>'' @ txt_field te d ''amount''
      @ '' tokens</strong>.</p>'' @ ln 8) @ v"
    by (rule mail_infix [OF assms(1) [unfolded renderPayoutFailed_def]]) (simp only: set_append list.set Un_iff insert_iff simp_thms)
  moreover have "txt_field te d ''amount'' = a" using assms(2) by (simp add: txt_field_def opt_text_def)
  ultimately show ?thesis by (metis append.assoc)
qed

subsection \<open>Runs of the service\<close>

text \<open>
  What can happen to the service; a restart empties its two maps, the queue is kept by the queue server.
  \<open>Posted\<close> is a call of \<open>addJob\<close> by others: the routes of the jobs module, among them
  \<open>POST jobs/:queue\<close>, which takes any body for any queue, the scheduler and the dead letter listener.
\<close>

datatype mail_event =
  Queue SendEmailDto
| Template EmailTemplate "EmailRecipientDto list" json "EmailPriority option"
| Work QueuedJob
| Hook json "string option" "string option"
| Link string
| Resubscribe string
| Posted "string option" json JobOptions
| Restart

fun mail_do :: "mail_config \<Rightarrow> mail_event \<Rightarrow> mail_env \<Rightarrow> email_state \<Rightarrow> email_state" where
  "mail_do cfg (Queue dto) env s = snd (sendEmail_route dto env s)"
| "mail_do cfg (Template t rs d p) env s = state_of (sendTemplateEmail cfg t rs d p env s)"
| "mail_do cfg (Work j) env s = state_of (handleEmail cfg j env s)"
| "mail_do cfg (Hook es sig ts) env s = state_of (handleSendGridWebhook cfg env es sig ts s)"
| "mail_do cfg (Link t) env s = state_of (processUnsubscribe cfg env (Some t) s)"
| "mail_do cfg (Resubscribe e) env s = state_of (resubscribe (Some e) s)"
| "mail_do cfg (Posted n d opts) env s = s\<lparr>em_jobs := state_of (addJob n d opts (me_jobs env) (em_jobs s))\<rparr>"
| "mail_do cfg Restart env s = email_onModuleInit (s\<lparr>deliveryLog := [], unsubscribeList := []\<rparr>)"

definition mail_run :: "mail_config \<Rightarrow> (mail_event \<times> mail_env) list \<Rightarrow> email_state \<Rightarrow> email_state" where
  "mail_run cfg evs s = fold (\<lambda>(e, env). mail_do cfg e env) evs s"

lemma mail_run_simps [simp]:
  "mail_run cfg [] s = s"
  "mail_run cfg ((e, env) # evs) s = mail_run cfg evs (mail_do cfg e env s)"
  by (simp_all add: mail_run_def)

text \<open>A property every operation keeps holds along every run.\<close>

lemma mail_run_induct:
  assumes "P s" and "\<And>e env s. P s \<Longrightarrow> (e, env) \<in> set evs \<Longrightarrow> P (mail_do cfg e env s)"
  shows "P (mail_run cfg evs s)"
  using assms by (induction evs arbitrary: s) auto

subsection \<open>What the operations leave alone\<close>

lemma update_status_frame [frame_simps]:
  "unsubscribeList (updateDeliveryStatus i st v now s) = unsubscribeList s"
  "em_jobs (updateDeliveryStatus i st v now s) = em_jobs s"
  "em_outbox (updateDeliveryStatus i st v now s) = em_outbox s"
  "em_processor (updateDeliveryStatus i st v now s) = em_processor s"
  by (simp_all add: updateDeliveryStatus_def split: option.split)

lemma count_attempt_frame [frame_simps]:
  "unsubscribeList (count_attempt i s) = unsubscribeList s" "em_jobs (count_attempt i s) = em_jobs s"
  "em_outbox (count_attempt i s) = em_outbox s" "em_processor (count_attempt i s) = em_processor s"
  by (simp_all add: count_attempt_def split: option.split)

lemma add_unsubscribe_frame [frame_simps]:
  "deliveryLog (addToUnsubscribeList cfg env e s) = deliveryLog s" "em_jobs (addToUnsubscribeList cfg env e s) = em_jobs s"
  "em_outbox (addToUnsubscribeList cfg env e s) = em_outbox s"
  by (simp_all add: addToUnsubscribeList_def Let_def)

lemma status_event_frame [frame_simps]:
  "unsubscribeList (status_event i st v now s) = unsubscribeList s" "em_jobs (status_event i st v now s) = em_jobs s"
  by (simp_all add: status_event_def frame_simps split: option.split json.split)

lemma sendEmail_frame [frame_simps]:
  "unsubscribeList (snd (sendEmail dto env s)) = unsubscribeList s" "em_jobs (snd (sendEmail dto env s)) = em_jobs s"
  by (simp_all add: sendEmail_def Let_def)

lemma queueEmail_list [frame_simps]: "unsubscribeList (snd (queueEmail dto env s)) = unsubscribeList s"
proof -
  obtain i st s1 where send: "sendEmail dto env s = ((i, st), s1)" by (metis prod.collapse)
  then have "unsubscribeList s1 = unsubscribeList s" using sendEmail_frame(1) by (metis snd_conv)
  then show ?thesis by (simp add: queueEmail_def send Let_def frame_simps split: prod.split sum.split)
qed

lemma processEmailJob_frame [frame_simps]:
  "unsubscribeList (state_of (processEmailJob cfg i dto env s)) = unsubscribeList s"
  "em_jobs (state_of (processEmailJob cfg i dto env s)) = em_jobs s"
  by (simp_all add: processEmailJob_def Let_def frame_simps split: sum.split prod.split)

lemma handleEmail_frame [frame_simps]:
  "unsubscribeList (state_of (handleEmail cfg j env s)) = unsubscribeList s"
  "em_jobs (state_of (handleEmail cfg j env s)) = em_jobs s"
  by (simp_all add: handleEmail_def frame_simps)

lemma template_state: 
  "state_of (sendTemplateEmail cfg t rs d p env s) = s
   \<or> (\<exists>dto. state_of (sendTemplateEmail cfg t rs d p env s) = snd (queueEmail dto env s))"
  by (cases "render_template (mc_engine cfg) (show_EmailTemplate t) d") (auto simp: sendTemplateEmail_def case_prod_beta)

subsection \<open>The unsubscribe list\<close>

lemma lower_char_twice: "lower_char (lower_char c) = lower_char c"
  by (simp add: lower_char_def Let_def of_char_of)

lemma space_lower: "is_space (lower_char c) = is_space c"
  by (auto simp: is_space_def lower_char_def Let_def of_char_of)

lemma trim_lower: "trim (lower s) = lower (trim s)"
  by (simp add: trim_def lower_def dropWhile_map space_lower comp_def rev_map)

lemma normalize_twice [simp]: "normalize (normalize e) = normalize e"
  by (simp add: normalize_def trim_lower [symmetric] trim_twice)
    (simp add: trim_lower lower_def lower_char_twice comp_def)

lemma unsubscribed_added: "isUnsubscribed e (addToUnsubscribeList cfg env t s) \<longleftrightarrow> isUnsubscribed e s \<or> normalize e = normalize t"
  by (auto simp: isUnsubscribed_def addToUnsubscribeList_def Let_def update_conv')

lemma unsubscribed_cong: "unsubscribeList s' = unsubscribeList s \<Longrightarrow> isUnsubscribed e s' = isUnsubscribed e s"
  by (simp add: isUnsubscribed_def)

text \<open>Every entry of the list is under the address it holds the token of.\<close>

definition tokens_ok :: "mail_config \<Rightarrow> email_state \<Rightarrow> bool" where
  "tokens_ok cfg s \<longleftrightarrow> (\<forall>(k, r) \<in> set (unsubscribeList s). normalize k = k \<and> ur_token r = generateUnsubscribeToken cfg k)"

lemma tokens_cong: "unsubscribeList s' = unsubscribeList s \<Longrightarrow> tokens_ok cfg s' = tokens_ok cfg s"
  by (simp add: tokens_ok_def)

lemma set_AList_update: "set (AList.update k v xs) \<subseteq> insert (k, v) (set xs)"
  by (induction xs) auto

lemma tokens_add: "tokens_ok cfg s \<Longrightarrow> tokens_ok cfg (addToUnsubscribeList cfg env e s)"
  using set_AList_update by (fastforce simp: tokens_ok_def addToUnsubscribeList_def Let_def)

lemma tokens_remove: "tokens_ok cfg s \<Longrightarrow> tokens_ok cfg (snd (removeFromUnsubscribeList e s))"
  by (auto simp: tokens_ok_def removeFromUnsubscribeList_def AList.delete_eq)

lemma unsubscribe_value_state:
  "state_of (unsubscribe_value cfg env v s) = s \<or> (\<exists>t. state_of (unsubscribe_value cfg env v s) = addToUnsubscribeList cfg env t s)"
  by (auto simp: unsubscribe_value_def split: sum.split)

lemma one_event_state:
  obtains s1 where "unsubscribeList s1 = unsubscribeList s" "em_jobs s1 = em_jobs s"
    "state_of (handle_one_event cfg env e s) = s1 \<or> (\<exists>t. state_of (handle_one_event cfg env e s) = addToUnsubscribeList cfg env t s1)"
proof (cases "e = JNull \<or> mapWebhookEventToStatus (opt_text (te_number (mc_engine cfg)) (own_prop e ''event'')) = None")
  case True
  then have "state_of (handle_one_event cfg env e s) = s" by (auto simp: handle_one_event_def)
  then show ?thesis using that by blast
next
  case False
  then obtain st where st: "mapWebhookEventToStatus (opt_text (te_number (mc_engine cfg)) (own_prop e ''event'')) = Some st" by auto
  let ?s1 = "status_event (own_prop e ''sg_message_id'') st (own_prop e ''reason'') (me_now env) s"
  have "state_of (handle_one_event cfg env e s) = ?s1 \<or> (\<exists>t. state_of (handle_one_event cfg env e s) = addToUnsubscribeList cfg env t ?s1)"
    using unsubscribe_value_state [of cfg env "own_prop e ''email''" ?s1] False
    by (auto simp: handle_one_event_def st Let_def handleBounce_def split: sum.split)
  then show ?thesis using that [of ?s1] by (simp add: frame_simps)
qed

text \<open>A property of the unsubscribe list and the queues that additions keep is kept by every request of the provider.\<close>

lemma hook_keeps:
  assumes "P s" and "\<And>s s'. P s \<Longrightarrow> unsubscribeList s' = unsubscribeList s \<Longrightarrow> em_jobs s' = em_jobs s \<Longrightarrow> P s'"
    and "\<And>s t. P s \<Longrightarrow> P (addToUnsubscribeList cfg env t s)"
  shows "P (state_of (handleSendGridWebhook cfg env es sig ts s))"
proof -
  have one: "P (state_of (handle_one_event cfg env e s))" if "P s" for e s
    by (rule one_event_state [of s cfg env e]) (use that assms(2,3) in metis)
  have "P (state_of (handle_events cfg env xs s))" if "P s" for xs s
    using that
  proof (induction xs arbitrary: s)
    case (Cons x xs)
    obtain r s' where h: "handle_one_event cfg env x s = (r, s')" by (rule prod.exhaust)
    with one [OF Cons.prems, of x] have "P s'" by simp
    with Cons.IH show ?case by (cases r) (simp_all add: h)
  qed simp
  with assms(1) show ?thesis
    by (simp add: handleSendGridWebhook_def handleWebhookEvent_def split: json.split)
qed

lemma link_state:
  "state_of (processUnsubscribe cfg env t s) = s \<or> (\<exists>e. state_of (processUnsubscribe cfg env t s) = addToUnsubscribeList cfg env e s)"
  by (auto simp: processUnsubscribe_def processUnsubscribeToken_def split: option.split)

lemma tokens_do: "tokens_ok cfg s \<Longrightarrow> tokens_ok cfg (mail_do cfg e env s)"
proof (cases e)
  case (Queue dto)
  assume "tokens_ok cfg s"
  with Queue show ?thesis by (simp add: tokens_cong [OF queueEmail_list] sendEmail_route_def)
next
  case (Template t rs d p)
  assume "tokens_ok cfg s"
  with Template template_state [of cfg t rs d p env s] show ?thesis using tokens_cong [OF queueEmail_list] by auto
next
  case (Hook es sig ts)
  assume "tokens_ok cfg s"
  with Hook show ?thesis using hook_keeps [of "tokens_ok cfg", OF _ tokens_cong [THEN iffD2] tokens_add] by simp
next
  case (Link t)
  assume "tokens_ok cfg s"
  with Link link_state [of cfg env "Some t" s] show ?thesis using tokens_add by auto
next
  case (Resubscribe t)
  assume "tokens_ok cfg s"
  with Resubscribe tokens_remove [of cfg s t] show ?thesis by (simp add: resubscribe_def case_prod_beta)
next
  case (Work j)
  assume "tokens_ok cfg s"
  with Work show ?thesis by (simp add: tokens_cong [OF handleEmail_frame(1)])
next
  case (Posted n d opts)
  assume "tokens_ok cfg s"
  with Posted show ?thesis by (simp add: tokens_ok_def)
next
  case Restart
  then show ?thesis by (simp add: tokens_ok_def email_onModuleInit_def)
qed

definition no_mail :: email_state where
  "no_mail = \<lparr> deliveryLog = [], unsubscribeList = [], em_processor = True,
     em_jobs = jobs_onModuleInit \<lparr> jobLogs = \<lparr> jobLogTable = [], jobRetryTable = [], jobDependencyTable = [] \<rparr>, jobQueues = [],
       scheduleTable = [], cronJobs = [] \<rparr>, em_outbox = [] \<rparr>"

lemma tokens_reachable: "tokens_ok cfg (mail_run cfg evs no_mail)"
  by (rule mail_run_induct [of "tokens_ok cfg"]) (simp_all add: tokens_do, simp add: tokens_ok_def no_mail_def)

definition collision_free :: "mail_config \<Rightarrow> bool" where
  "collision_free cfg \<longleftrightarrow> (\<forall>x y. mc_hmac cfg (coalesce (mc_jwtSecret cfg) ''fallback-secret'') x
      = mc_hmac cfg (coalesce (mc_jwtSecret cfg) ''fallback-secret'') y \<longrightarrow> x = y)"

lemma to_hex_inj: "to_hex x = to_hex y \<Longrightarrow> x = y"
  by (metis from_to_hex)

lemma token_inj: "collision_free cfg \<Longrightarrow> generateUnsubscribeToken cfg x = generateUnsubscribeToken cfg y \<longleftrightarrow> normalize x = normalize y"
  unfolding generateUnsubscribeToken_def collision_free_def by (metis to_hex_inj)

lemma link_accepted:
  assumes free: "collision_free cfg" and toks: "tokens_ok cfg s" and "(i, r) \<in> set (deliveryLog s)"
    and "e \<in> set (split_text '', '' (dr_to r))" and "normalize e \<noteq> []"
  obtains k where "fst (processUnsubscribeToken cfg env (generateUnsubscribeToken cfg e) s) = Some k"
    and "normalize k = normalize e"
    and "isUnsubscribed e (snd (processUnsubscribeToken cfg env (generateUnsubscribeToken cfg e) s))"
proof (cases "List.find (\<lambda>(_, r). ur_token r = generateUnsubscribeToken cfg e) (unsubscribeList s)")
  case (Some kr)
  obtain k u where kr: "kr = (k, u)" by (rule prod.exhaust)
  with find_SomeD [OF Some] have mem: "(k, u) \<in> set (unsubscribeList s)" "ur_token u = generateUnsubscribeToken cfg e" by auto
  with toks have k: "normalize k = k" "generateUnsubscribeToken cfg k = generateUnsubscribeToken cfg e" by (auto simp: tokens_ok_def)
  then have "k = normalize e" using token_inj [OF free] by metis
  with mem(1) have "isUnsubscribed e s" by (auto simp: isUnsubscribed_def weak_map_of_SomeI)
  moreover have "processUnsubscribeToken cfg env (generateUnsubscribeToken cfg e) s = (Some k, s)"
    by (simp add: processUnsubscribeToken_def Some kr)
  ultimately show ?thesis using that [of k] \<open>k = normalize e\<close> by simp
next
  case None
  let ?emails = "concat (map (\<lambda>(_, r). split_text '', '' (dr_to r)) (deliveryLog s))"
  have "e \<in> set ?emails" using assms(3,4) by force
  then have "List.find (\<lambda>x. generateUnsubscribeToken cfg x = generateUnsubscribeToken cfg e) ?emails \<noteq> None"
    by (auto simp: find_None_iff)
  then obtain k where k: "List.find (\<lambda>x. generateUnsubscribeToken cfg x = generateUnsubscribeToken cfg e) ?emails = Some k" by auto
  with find_SomeD [OF k] have n: "normalize k = normalize e" using token_inj [OF free] by auto
  have "normalize [] = []" by (simp add: normalize_def trim_def lower_def)
  with n assms(5) have "k \<noteq> []" by metis
  with k have "processUnsubscribeToken cfg env (generateUnsubscribeToken cfg e) s = (Some k, addToUnsubscribeList cfg env k s)"
    by (simp add: processUnsubscribeToken_def None decodeUnsubscribeToken_def)
  then show ?thesis using that [of k] n by (simp add: unsubscribed_added)
qed

lemma unsubscribed_dropped:
  "list_all (\<lambda>r. isUnsubscribed (er_email r) s) (se_to dto) \<Longrightarrow> queueEmail dto env s = (([], EmailStatus.DROPPED), s)"
  by (simp add: queueEmail_def sendEmail_def filterUnsubscribed_def filter_empty_conv list_all_iff)

text \<open>
  The unsubscribe link works as long as the process lives, and no longer: for every address in the
  delivery log the link of its messages is accepted and mail to it is dropped from then on; after a restart,
  which empties both maps, the same link is refused, and the address gets mail again.
\<close>
theorem unsubscribe_link_lifetime:
  fixes cfg evs
  defines "s \<equiv> mail_run cfg evs no_mail"
  assumes "collision_free cfg" and "\<And>x. mc_hmac cfg (coalesce (mc_jwtSecret cfg) ''fallback-secret'') x \<noteq> []"
    and "(i, r) \<in> set (deliveryLog s)" and "e \<in> set (split_text '', '' (dr_to r))" and "normalize e \<noteq> []"
    and "map er_email (se_to dto) = [e]"
  shows "let link = processUnsubscribe cfg env (Some (generateUnsubscribeToken cfg e)); s1 = state_of (link s);
      s2 = mail_do cfg Restart env s1 in
    succeeds (link s) \<and> queueEmail dto env s1 = (([], EmailStatus.DROPPED), s1)
    \<and> \<not> succeeds (link s2) \<and> snd (fst (sendEmail dto env s2)) = EmailStatus.QUEUED"
proof -
  let ?t = "generateUnsubscribeToken cfg e" and ?s1 = "state_of (processUnsubscribe cfg env (Some (generateUnsubscribeToken cfg e)) s)"
  let ?s2 = "mail_do cfg Restart env ?s1"
  have ne: "?t \<noteq> []" using assms(3) by (simp add: generateUnsubscribeToken_def) (metis to_hex.simps(1) to_hex_inj)
  have toks: "tokens_ok cfg s" unfolding s_def by (rule tokens_reachable)
  obtain k where k: "fst (processUnsubscribeToken cfg env ?t s) = Some k"
      "isUnsubscribed e (snd (processUnsubscribeToken cfg env ?t s))"
    by (rule link_accepted [OF assms(2) toks assms(4-6), of env])
  then have s1: "processUnsubscribe cfg env (Some ?t) s
      = (Inr ''You have been successfully unsubscribed from email notifications.'', snd (processUnsubscribeToken cfg env ?t s))"
    using ne by (cases "processUnsubscribeToken cfg env ?t s") (simp add: processUnsubscribe_def)
  have to: "list_all (\<lambda>r. isUnsubscribed (er_email r) ?s1) (se_to dto)"
    using assms(7) k(2) by (auto simp: s1)
  have empty: "deliveryLog ?s2 = []" "unsubscribeList ?s2 = []" by (simp_all add: email_onModuleInit_def)
  then have refused: "\<not> succeeds (processUnsubscribe cfg env (Some ?t) ?s2)"
    using ne by (simp add: processUnsubscribe_def processUnsubscribeToken_def decodeUnsubscribeToken_def)
  have queued: "snd (fst (sendEmail dto env ?s2)) = EmailStatus.QUEUED"
    using assms(7) by (auto simp: sendEmail_def filterUnsubscribed_def isUnsubscribed_def empty Let_def simp del: mail_do.simps)
  show ?thesis
    unfolding Let_def using s1 unsubscribed_dropped [OF to] refused queued by simp
qed

definition code_bytes :: "string \<Rightarrow> byte list" where
  "code_bytes t = 0 # map (\<lambda>c. word_of_nat (of_char c)) t"

lemma code_bytes_inj: "code_bytes x = code_bytes y \<Longrightarrow> x = y"
proof -
  have "inj (\<lambda>c :: char. word_of_nat (of_char c) :: byte)"
  proof (rule injI)
    fix c d :: char
    assume "(word_of_nat (of_char c) :: byte) = word_of_nat (of_char d)"
    then have "unat (word_of_nat (of_char c) :: byte) = unat (word_of_nat (of_char d) :: byte)" by simp
    then show "c = d" by (simp add: unat_of_nat of_char_mod_256)
  qed
  then show "code_bytes x = code_bytes y \<Longrightarrow> x = y" by (auto simp: code_bytes_def dest: map_injective)
qed

definition plain_mail :: mail_config where
  "plain_mail = \<lparr> mc_engine = plain_engine, mc_apiKey = ''key'', mc_sdk = True, mc_webhookVerificationKey = ''hook'',
     mc_jwtSecret = None, mc_hmac = (\<lambda>_. code_bytes), mc_stringify = (\<lambda>_. ''events'') \<rparr>"

definition mail_env_at :: "time \<Rightarrow> mail_env" where
  "mail_env_at t = \<lparr> me_now = t, me_random = [7],
     me_jobs = \<lparr> jq_log = \<lparr> jv_now = t, jv_newId = ''l'' \<rparr>, jq_accept = (\<lambda>_ _. Inr ''q1''), jq_validCron = (\<lambda>_. True),
       jq_startsCron = (\<lambda>_ _. True), jq_nextDate = (\<lambda>_ _. None) \<rparr>,
     me_send = Inr () \<rparr>"

definition note_to :: "string \<Rightarrow> SendEmailDto" where
  "note_to e = \<lparr> se_to = [\<lparr> er_email = e, er_name = None \<rparr>], se_subject = ''s'', se_template = None, se_templateData = None,
     se_text = Some ''t'', se_html = None, se_priority = None \<rparr>"

lemmas mail_eval = no_mail_def plain_mail_def mail_env_at_def note_to_def sendEmail_route_def queueEmail_def sendEmail_def
  filterUnsubscribed_def isUnsubscribed_def addJob_def getQueue_def push_job_def jobs_onModuleInit_def Let_def

lemma collision_free_plain: "collision_free plain_mail"
  by (auto simp: collision_free_def plain_mail_def code_bytes_inj)

lemma log_of_note:
  "\<exists>i r. (i, r) \<in> set (deliveryLog (mail_run plain_mail [(Queue (note_to ''A@b.co''), mail_env_at 5)] no_mail)) \<and> dr_to r = ''A@b.co''"
  by (simp add: mail_eval)

theorem unsubscribe_link_lifetime_witness:
  "let s = mail_run plain_mail [(Queue (note_to ''A@b.co''), mail_env_at 5)] no_mail;
      link = processUnsubscribe plain_mail (mail_env_at 6) (Some (generateUnsubscribeToken plain_mail ''A@b.co'')); s1 = state_of (link s);
      s2 = mail_do plain_mail Restart (mail_env_at 6) s1 in
    succeeds (link s) \<and> queueEmail (note_to ''A@b.co'') (mail_env_at 6) s1 = (([], EmailStatus.DROPPED), s1)
    \<and> \<not> succeeds (link s2) \<and> snd (fst (sendEmail (note_to ''A@b.co'') (mail_env_at 6) s2)) = EmailStatus.QUEUED"
proof -
  obtain i r where ir: "(i, r) \<in> set (deliveryLog (mail_run plain_mail [(Queue (note_to ''A@b.co''), mail_env_at 5)] no_mail))"
    and to: "dr_to r = ''A@b.co''" using log_of_note by blast
  show ?thesis
    unfolding Let_def
  proof (rule unsubscribe_link_lifetime [OF collision_free_plain _ ir, unfolded Let_def])
    show "mc_hmac plain_mail (coalesce (mc_jwtSecret plain_mail) ''fallback-secret'') x \<noteq> []" for x
      by (simp add: plain_mail_def code_bytes_def)
    show "''A@b.co'' \<in> set (split_text '', '' (dr_to r))" by (simp add: to starts_with_def)
    show "normalize ''A@b.co'' \<noteq> []" by code_simp
    show "map er_email (se_to (note_to ''A@b.co'')) = [''A@b.co'']" by (simp add: note_to_def)
  qed
qed

end
