(* ===== verification/EmailRun.thy ===== *)
theory EmailRun
  imports EmailProps
begin

text \<open>
  What holds along the runs of the e-mail service: whom it still writes to, who can change the unsubscribe
  list, and what the delivery log and its statistics can say.
\<close>

subsection \<open>Who is written to\<close>

definition email_jobs :: "email_state \<Rightarrow> QueuedJob list" where
  "email_jobs s = coalesce (getQueue ''email'' (em_jobs s)) []"

definition job_recipients :: "QueuedJob \<Rightarrow> EmailRecipientDto list" where
  "job_recipients j = se_to (read_dto (coalesce (own_prop (qj_data j) ''dto'') JNull))"

lemma read_recipient_json: "read_recipient (recipient_json r) = r"
  by (cases "er_name r") (simp_all add: read_recipient_def recipient_json_def text_prop_def own_prop_def opt_field_def)

lemma recipients_of_job: "qj_data j = email_job i dto \<Longrightarrow> job_recipients j = se_to dto"
  by (simp add: job_recipients_def email_job_def own_prop_def dto_json_def read_dto_def map_idI read_recipient_json)

lemma addJob_email:
  "addJob (Some ''email'') d opts env js = (Inr j, js') \<Longrightarrow>
     qj_data j = d \<and> coalesce (getQueue ''email'' js') [] = coalesce (getQueue ''email'' js) [] @ [j]"
  "addJob (Some ''email'') d opts env js = (Inl e, js') \<Longrightarrow> js' = js"
  by (auto simp: addJob_def Let_def push_job_def getQueue_def update_conv' split: option.splits sum.splits)

lemma addJob_any:
  "\<exists>ys. coalesce (getQueue ''email'' (state_of (addJob n d opts env js))) [] = coalesce (getQueue ''email'' js) [] @ ys
     \<and> (\<forall>j \<in> set ys. qj_data j = d)"
  by (auto simp: addJob_def Let_def push_job_def getQueue_def update_conv' fun_upd_apply split: option.splits sum.splits)

lemma queue_effect:
  "\<exists>xs. email_jobs (snd (queueEmail dto env s)) = email_jobs s @ xs
     \<and> (\<forall>j \<in> set xs. job_recipients j = filterUnsubscribed (se_to dto) s)"
proof -
  obtain i st s1 where send: "sendEmail dto env s = ((i, st), s1)" by (metis prod.collapse)
  have s1: "em_jobs s1 = em_jobs s" "unsubscribeList s1 = unsubscribeList s"
    using sendEmail_frame [of dto env s] by (simp_all add: send)
  then have filt: "filterUnsubscribed (se_to dto) s1 = filterUnsubscribed (se_to dto) s"
    by (simp add: filterUnsubscribed_def isUnsubscribed_def)
  let ?data = "email_job i (dto\<lparr>se_to := filterUnsubscribed (se_to dto) s1\<rparr>)"
  let ?opts = "DEFAULT_JOB_OPTIONS\<lparr>jo_priority := Some (mapPriorityToJobPriority (coalesce (se_priority dto) EmailPriority.NORMAL))\<rparr>"
  obtain r js where add: "addJob (Some ''email'') ?data ?opts (me_jobs env) (em_jobs s1) = (r, js)" by (rule prod.exhaust)
  show ?thesis
  proof (cases "st = EmailStatus.DROPPED")
    case True
    then show ?thesis by (intro exI [of _ "[]"]) (simp add: queueEmail_def send email_jobs_def s1)
  next
    case False
    show ?thesis
    proof (cases r)
      case (Inl e)
      with False have "email_jobs (snd (queueEmail dto env s)) = coalesce (getQueue ''email'' js) []"
        by (simp add: queueEmail_def send Let_def add email_jobs_def frame_simps)
      moreover have "js = em_jobs s" using addJob_email(2) add Inl s1(1) by metis
      ultimately show ?thesis by (intro exI [of _ "[]"]) (simp add: email_jobs_def)
    next
      case (Inr j)
      with addJob_email(1) add have j: "qj_data j = ?data"
        "coalesce (getQueue ''email'' js) [] = coalesce (getQueue ''email'' (em_jobs s1)) [] @ [j]" by blast+
      from False Inr have "email_jobs (snd (queueEmail dto env s)) = coalesce (getQueue ''email'' js) []"
        by (simp add: queueEmail_def send Let_def add email_jobs_def)
      moreover have "job_recipients j = filterUnsubscribed (se_to dto) s" using recipients_of_job [OF j(1)] filt by simp
      ultimately show ?thesis using j(2) by (intro exI [of _ "[j]"]) (simp add: email_jobs_def s1)
    qed
  qed
qed

fun keeps_unsubscribed :: "string \<Rightarrow> mail_event \<Rightarrow> bool" where
  "keeps_unsubscribed e Restart = False"
| "keeps_unsubscribed e (Resubscribe t) = (normalize t \<noteq> normalize e)"
| "keeps_unsubscribed e _ = True"

text \<open>What the events of a run give to \<open>addJob\<close> past the service.\<close>

definition posted :: "(mail_event \<times> mail_env) list \<Rightarrow> json set" where
  "posted evs = {d. \<exists>n opts env. (Posted n d opts, env) \<in> set evs}"

definition not_for :: "string \<Rightarrow> QueuedJob \<Rightarrow> bool" where
  "not_for e j \<longleftrightarrow> (\<forall>r \<in> set (job_recipients j). normalize (er_email r) \<noteq> normalize e)"

definition spared :: "string \<Rightarrow> json set \<Rightarrow> QueuedJob list \<Rightarrow> email_state \<Rightarrow> bool" where
  "spared e D js s \<longleftrightarrow> isUnsubscribed e s
     \<and> (\<exists>xs. email_jobs s = js @ xs \<and> (\<forall>j \<in> set xs. qj_data j \<in> D \<or> not_for e j))"

lemma spared_cong: "unsubscribeList s' = unsubscribeList s \<Longrightarrow> em_jobs s' = em_jobs s \<Longrightarrow> spared e D js s' = spared e D js s"
  by (simp add: spared_def isUnsubscribed_def email_jobs_def)

lemma spared_more:
  assumes "spared e D js s" and "email_jobs s' = email_jobs s @ ys" and "unsubscribeList s' = unsubscribeList s"
    and "\<forall>j \<in> set ys. qj_data j \<in> D \<or> not_for e j"
  shows "spared e D js s'"
proof -
  obtain xs where "email_jobs s = js @ xs" "\<forall>j \<in> set xs. qj_data j \<in> D \<or> not_for e j"
    using assms(1) by (auto simp: spared_def)
  with assms(2,4) have "email_jobs s' = js @ (xs @ ys) \<and> (\<forall>j \<in> set (xs @ ys). qj_data j \<in> D \<or> not_for e j)" by auto
  moreover have "isUnsubscribed e s'" using assms(1,3) by (simp add: spared_def isUnsubscribed_def)
  ultimately show ?thesis unfolding spared_def by blast
qed

lemma spared_queue:
  assumes "spared e D js s"
  shows "spared e D js (snd (queueEmail dto env s))"
proof -
  obtain ys where ys: "email_jobs (snd (queueEmail dto env s)) = email_jobs s @ ys"
      "\<forall>j \<in> set ys. job_recipients j = filterUnsubscribed (se_to dto) s"
    using queue_effect by blast
  have "\<forall>r \<in> set (filterUnsubscribed (se_to dto) s). normalize (er_email r) \<noteq> normalize e"
    using assms by (auto simp: spared_def filterUnsubscribed_def isUnsubscribed_def)
  with ys(2) have "\<forall>j \<in> set ys. qj_data j \<in> D \<or> not_for e j" by (simp add: not_for_def)
  then show ?thesis by (rule spared_more [OF assms ys(1) queueEmail_list])
qed

lemma spared_posted:
  assumes "spared e D js s" and "d \<in> D"
  shows "spared e D js (s\<lparr>em_jobs := state_of (addJob n d opts env (em_jobs s))\<rparr>)"
proof -
  obtain ys where ys: "coalesce (getQueue ''email'' (state_of (addJob n d opts env (em_jobs s)))) [] = email_jobs s @ ys"
    "\<forall>j \<in> set ys. qj_data j = d"
    using addJob_any [of n d opts env "em_jobs s"] unfolding email_jobs_def by blast
  show ?thesis
    by (rule spared_more [OF assms(1), of _ ys]) (use ys assms(2) in \<open>simp_all add: email_jobs_def\<close>)
qed

lemma spared_add: "spared e D js s \<Longrightarrow> spared e D js (addToUnsubscribeList cfg env t s)"
  by (auto simp: spared_def unsubscribed_added email_jobs_def frame_simps)

lemma spared_do:
  assumes "spared e D js s" and "keeps_unsubscribed e ev" and "\<And>n d opts. ev = Posted n d opts \<Longrightarrow> d \<in> D"
  shows "spared e D js (mail_do cfg ev env s)"
proof (cases ev)
  case (Queue dto)
  then show ?thesis using spared_queue [OF assms(1)] by (simp add: sendEmail_route_def)
next
  case (Template t rs d p)
  then show ?thesis using template_state [of cfg t rs d p env s] spared_queue [OF assms(1)] assms(1) by auto
next
  case (Work j)
  then show ?thesis using assms(1) by (simp add: spared_cong [OF handleEmail_frame])
next
  case (Hook es sig ts)
  then show ?thesis
    using hook_keeps [of "spared e D js", OF assms(1) spared_cong [THEN iffD2] spared_add] by simp
next
  case (Link t)
  then show ?thesis using link_state [of cfg env "Some t" s] spared_add assms(1) by auto
next
  case (Resubscribe t)
  then have "isUnsubscribed e (snd (removeFromUnsubscribeList t s)) = isUnsubscribed e s"
    using assms(2) by (simp add: isUnsubscribed_def removeFromUnsubscribeList_def delete_conv')
  with Resubscribe assms(1) show ?thesis
    by (simp add: resubscribe_def case_prod_beta spared_def) (simp add: removeFromUnsubscribeList_def email_jobs_def)
next
  case (Posted n d opts)
  then show ?thesis using spared_posted [OF assms(1) assms(3)] by simp
next
  case Restart
  with assms(2) show ?thesis by simp
qed

text \<open>
  Claim C22.  The service queues nothing for who is unsubscribed: along every run without a restart and
  without a resubscription of the address, every job that is added to the e-mail queue after the address
  is on the list either has no recipient with that address, in whatever case or surrounding white space it
  is written, or was given as it is to \<open>addJob\<close> past the service (by \<open>POST jobs/:queue\<close>, which asks the
  list for nobody).  Jobs queued before are not removed.
\<close>
theorem unsubscribed_never_queued:
  assumes "isUnsubscribed e s" and "\<forall>(ev, env) \<in> set evs. keeps_unsubscribed e ev"
  shows "\<exists>xs. email_jobs (mail_run cfg evs s) = email_jobs s @ xs
    \<and> (\<forall>j \<in> set xs. (\<exists>n opts env. (Posted n (qj_data j) opts, env) \<in> set evs)
         \<or> (\<forall>r \<in> set (job_recipients j). trim (lower (er_email r)) \<noteq> trim (lower e)))"
proof -
  have "spared e (posted evs) (email_jobs s) (mail_run cfg evs s)"
  proof (rule mail_run_induct [of "spared e (posted evs) (email_jobs s)"])
    show "spared e (posted evs) (email_jobs s) s" using assms(1) by (simp add: spared_def)
  next
    fix ev env s' assume "spared e (posted evs) (email_jobs s) s'" "(ev, env) \<in> set evs"
    with assms(2) show "spared e (posted evs) (email_jobs s) (mail_do cfg ev env s')"
      by (intro spared_do) (auto simp: posted_def)
  qed
  then show ?thesis unfolding spared_def normalize_def not_for_def posted_def by blast
qed

definition after_hook :: email_state where
  "after_hook = addToUnsubscribeList plain_mail (mail_env_at 1) ''a@b.co'' no_mail"

theorem unsubscribed_never_queued_witness:
  "\<exists>xs. email_jobs (mail_run plain_mail [(Queue (note_to '' A@B.co''), mail_env_at 2), (Queue (note_to ''c@d.co''), mail_env_at 3)] after_hook)
     = email_jobs after_hook @ xs \<and> list_all (\<lambda>j. list_all (\<lambda>r. trim (lower (er_email r)) \<noteq> trim (lower ''a@b.co'')) (job_recipients j)) xs"
proof -
  let ?evs = "[(Queue (note_to '' A@B.co''), mail_env_at 2), (Queue (note_to ''c@d.co''), mail_env_at 3)]"
  have "isUnsubscribed ''a@b.co'' after_hook" "\<forall>(ev, env) \<in> set ?evs. keeps_unsubscribed ''a@b.co'' ev"
    by (simp_all add: after_hook_def unsubscribed_added)
  from unsubscribed_never_queued [OF this, of plain_mail] show ?thesis by (simp add: list_all_iff)
qed

text \<open>
  A message already queued is still sent: the worker asks the list for nobody, so an address that
  unsubscribes between the queueing and the sending gets the message, on every attempt.
\<close>
theorem late_unsubscribe_still_mailed:
  assumes "r \<in> set (job_recipients j)" and "em_processor s" and "sgMail cfg"
    and "message_content cfg (read_dto (coalesce (own_prop (qj_data j) ''dto'') JNull)) = Inr c"
    and "isUnsubscribed (er_email r) s"
  shows "\<exists>m. em_outbox (state_of (handleEmail cfg j env s)) = em_outbox s @ [m] \<and> r \<in> set (ml_to m) \<and> ml_html m = tr_html c"
proof -
  let ?dto = "read_dto (coalesce (own_prop (qj_data j) ''dto'') JNull)" and ?i = "coalesce (text_prop (qj_data j) ''messageId'') []"
  let ?m = "\<lparr> ml_messageId = ?i, ml_to = se_to ?dto, ml_subject = tr_subject c, ml_text = tr_text c, ml_html = tr_html c \<rparr>"
  have "em_outbox (state_of (handleEmail cfg j env s)) = em_outbox s @ [?m]"
    using assms(2-4) by (simp add: handleEmail_def processEmailJob_def Let_def frame_simps split: sum.split)
  moreover have "r \<in> set (ml_to ?m)" using assms(1) by (simp add: job_recipients_def)
  ultimately show ?thesis by (metis Mail.select_convs(5))
qed

definition queued_note :: QueuedJob where
  "queued_note = \<lparr> qj_id = ''q1'', qj_name = ''email-job'', qj_data = email_job ''se_5_07'' (note_to ''a@b.co''),
     qj_opts = DEFAULT_JOB_OPTIONS\<lparr>jo_priority := Some 5\<rparr> \<rparr>"

theorem late_unsubscribe_still_mailed_witness:
  "\<exists>m. em_outbox (state_of (handleEmail plain_mail queued_note (mail_env_at 2) after_hook)) = em_outbox after_hook @ [m]
     \<and> \<lparr> er_email = ''a@b.co'', er_name = None \<rparr> \<in> set (ml_to m) \<and> ml_html m = []"
proof -
  let ?r = "\<lparr> er_email = ''a@b.co'', er_name = None \<rparr>" and ?c = "\<lparr> tr_subject = ''s'', tr_html = [], tr_text = ''t'' \<rparr>"
  have "?r \<in> set (job_recipients queued_note)"
    using recipients_of_job [of queued_note "''se_5_07''" "note_to ''a@b.co''"] by (simp add: queued_note_def note_to_def)
  moreover have "isUnsubscribed (er_email ?r) after_hook" by (simp add: after_hook_def unsubscribed_added)
  moreover have "em_processor after_hook" "sgMail plain_mail"
    by (simp_all add: after_hook_def addToUnsubscribeList_def Let_def no_mail_def sgMail_def plain_mail_def)
  moreover have "message_content plain_mail (read_dto (coalesce (own_prop (qj_data queued_note) ''dto'') JNull)) = Inr ?c"
    by (simp add: queued_note_def email_job_def own_prop_def note_to_def dto_json_def opt_field_def read_dto_def
        text_prop_def message_content_def)
  ultimately show ?thesis using late_unsubscribe_still_mailed [of ?r queued_note after_hook plain_mail ?c "mail_env_at 2"] by simp
qed

subsection \<open>Who changes the list\<close>

text \<open>
  Anybody can unsubscribe any address: a request to the route of the provider without the signature
  header is believed, whatever key is configured, and puts the address of its event on the list.
\<close>
theorem unsigned_event_unsubscribes:
  "let r = handleSendGridWebhook cfg env (JArr [JObj [(''event'', JStr ''unsubscribe''), (''email'', JStr e)]]) None timestamp s in
    succeeds r \<and> isUnsubscribed e (state_of r)
    \<and> snd (fst (queueEmail (note_to e) env' (state_of r))) = EmailStatus.DROPPED"
proof -
  let ?ev = "JObj [(''event'', JStr ''unsubscribe''), (''email'', JStr e)]"
  have "handle_one_event cfg env ?ev s = (Inr (), addToUnsubscribeList cfg env e s)"
    by (simp add: handle_one_event_def own_prop_def opt_text_def mapWebhookEventToStatus_def status_event_def
        unsubscribe_value_def as_text_def Let_def)
  then have h: "handleSendGridWebhook cfg env (JArr [?ev]) None timestamp s = (Inr (), addToUnsubscribeList cfg env e s)"
    by (simp add: handleSendGridWebhook_def handleWebhookEvent_def)
  have "isUnsubscribed e (addToUnsubscribeList cfg env e s)" by (simp add: unsubscribed_added)
  moreover from this have "queueEmail (note_to e) env' (addToUnsubscribeList cfg env e s)
      = (([], EmailStatus.DROPPED), addToUnsubscribeList cfg env e s)"
    by (intro unsubscribed_dropped) (simp add: note_to_def)
  ultimately show ?thesis by (simp add: h Let_def)
qed

text \<open>And anybody can put it back: the route to resubscribe asks for no token.\<close>

lemma resubscribe_by_anybody: "e \<noteq> [] \<Longrightarrow> \<not> isUnsubscribed e (state_of (resubscribe (Some e) s))"
  by (simp add: resubscribe_def removeFromUnsubscribeList_def isUnsubscribed_def delete_conv')

subsection \<open>The delivery log\<close>

definition unconfirmed :: "email_state \<Rightarrow> bool" where
  "unconfirmed s \<longleftrightarrow> (\<forall>(i, r) \<in> set (deliveryLog s). starts_with i ''se_''
     \<and> dr_status r \<in> {EmailStatus.QUEUED, EmailStatus.SENDING, EmailStatus.SENT, EmailStatus.FAILED, EmailStatus.DROPPED})"

text \<open>The provider names its messages itself; its documented ids do not start like the ids of the service.\<close>

definition foreign_event :: "json \<Rightarrow> bool" where
  "foreign_event e = (case own_prop e ''sg_message_id'' of Some (JStr i) \<Rightarrow> \<not> starts_with i ''se_'' | _ \<Rightarrow> True)"

fun foreign_hook :: "mail_event \<Rightarrow> bool" where
  "foreign_hook (Hook (JArr es) _ _) = list_all foreign_event es"
| "foreign_hook _ = True"

lemma unconfirmed_cong: "deliveryLog s' = deliveryLog s \<Longrightarrow> unconfirmed s' = unconfirmed s"
  by (simp add: unconfirmed_def)

lemma unconfirmed_update:
  assumes "unconfirmed s"
    and "st \<in> {EmailStatus.QUEUED, EmailStatus.SENDING, EmailStatus.SENT, EmailStatus.FAILED, EmailStatus.DROPPED}"
  shows "unconfirmed (updateDeliveryStatus i st v now s)"
proof (cases "map_of (deliveryLog s) i")
  case None
  with assms(1) show ?thesis by (simp add: updateDeliveryStatus_def)
next
  case (Some r)
  then have "starts_with i ''se_''" using assms(1) by (auto simp: unconfirmed_def dest: map_of_SomeD)
  with assms show ?thesis using set_AList_update [of i _ "deliveryLog s"]
    by (fastforce simp: updateDeliveryStatus_def Some unconfirmed_def)
qed

lemma unconfirmed_attempt:
  assumes "unconfirmed s"
  shows "unconfirmed (count_attempt i s)"
proof (cases "map_of (deliveryLog s) i")
  case (Some r)
  then have "(i, r) \<in> set (deliveryLog s)" by (rule map_of_SomeD)
  with assms show ?thesis using set_AList_update [of i _ "deliveryLog s"]
    by (fastforce simp: count_attempt_def Some unconfirmed_def)
qed (simp add: count_attempt_def assms)

lemma unconfirmed_send: "unconfirmed s \<Longrightarrow> unconfirmed (snd (sendEmail dto env s))"
  using set_AList_update [of "generateMessageId env" _ "deliveryLog s"]
  by (fastforce simp: sendEmail_def Let_def unconfirmed_def generateMessageId_def starts_with_def)

lemma unconfirmed_queue: "unconfirmed s \<Longrightarrow> unconfirmed (snd (queueEmail dto env s))"
proof -
  assume "unconfirmed s"
  obtain i st s1 where send: "sendEmail dto env s = ((i, st), s1)" by (metis prod.collapse)
  with unconfirmed_send [OF \<open>unconfirmed s\<close>, of dto env] have s1: "unconfirmed s1" by simp
  then have "unconfirmed (s1\<lparr>em_jobs := js\<rparr>)" for js by (simp add: unconfirmed_def)
  with s1 show ?thesis by (auto simp: queueEmail_def send Let_def unconfirmed_update split: prod.split sum.split)
qed

lemma unconfirmed_work: "unconfirmed s \<Longrightarrow> unconfirmed (state_of (handleEmail cfg j env s))"
proof -
  assume "unconfirmed s"
  have "unconfirmed (s1\<lparr>em_outbox := x\<rparr>)" if "unconfirmed s1" for s1 x using that by (simp add: unconfirmed_def)
  with \<open>unconfirmed s\<close> show ?thesis
    by (simp add: handleEmail_def processEmailJob_def Let_def unconfirmed_update unconfirmed_attempt split: sum.split prod.split)
qed

lemma unconfirmed_event:
  assumes "unconfirmed s" and "foreign_event e"
  shows "unconfirmed (state_of (handle_one_event cfg env e s))"
proof (cases "e = JNull \<or> mapWebhookEventToStatus (opt_text (te_number (mc_engine cfg)) (own_prop e ''event'')) = None")
  case False
  then obtain st where st: "mapWebhookEventToStatus (opt_text (te_number (mc_engine cfg)) (own_prop e ''event'')) = Some st" by auto
  have same: "status_event (own_prop e ''sg_message_id'') st (own_prop e ''reason'') (me_now env) s = s"
  proof (cases "own_prop e ''sg_message_id''")
    case (Some v)
    show ?thesis
    proof (cases v)
      case (JStr i)
      with Some assms(2) have "\<not> starts_with i ''se_''" by (simp add: foreign_event_def)
      with assms(1) have "map_of (deliveryLog s) i = None" by (auto simp: unconfirmed_def map_of_eq_None_iff)
      then show ?thesis by (simp add: Some JStr status_event_def updateDeliveryStatus_def)
    qed (simp_all add: Some status_event_def)
  qed (simp add: status_event_def)
  have list: "unconfirmed (state_of (unsubscribe_value cfg env v s))" for v
    using unsubscribe_value_state [of cfg env v s] assms(1) unconfirmed_cong [OF add_unsubscribe_frame(1)] by auto
  then show ?thesis using False assms(1)
    by (simp add: handle_one_event_def st Let_def same handleBounce_def split: sum.split)
qed (use assms(1) in \<open>auto simp: handle_one_event_def\<close>)

lemma unconfirmed_events: "unconfirmed s \<Longrightarrow> list_all foreign_event es \<Longrightarrow> unconfirmed (state_of (handle_events cfg env es s))"
proof (induction es arbitrary: s)
  case (Cons e es)
  obtain r s' where h: "handle_one_event cfg env e s = (r, s')" by (rule prod.exhaust)
  with unconfirmed_event [OF Cons.prems(1), of e cfg env] Cons.prems(2) have "unconfirmed s'" by simp
  with Cons show ?case by (cases r) (simp_all add: h)
qed simp

lemma unconfirmed_do:
  assumes "unconfirmed s" and "foreign_hook ev"
  shows "unconfirmed (mail_do cfg ev env s)"
proof (cases ev)
  case (Queue dto)
  then show ?thesis using assms(1) by (simp add: sendEmail_route_def unconfirmed_queue)
next
  case (Template t rs d p)
  then show ?thesis using template_state [of cfg t rs d p env s] assms(1) unconfirmed_queue by auto
next
  case (Work j)
  then show ?thesis using assms(1) by (simp add: unconfirmed_work)
next
  case (Hook es sig ts)
  have "list_all foreign_event (map (\<lambda>c. JStr [c]) t)" for t by (simp add: list_all_iff foreign_event_def own_prop_def)
  with Hook assms unconfirmed_events show ?thesis
    by (auto simp: handleSendGridWebhook_def handleWebhookEvent_def split: json.split)
next
  case (Link t)
  then show ?thesis using link_state [of cfg env "Some t" s] assms(1) unconfirmed_cong [OF add_unsubscribe_frame(1)] by auto
next
  case (Resubscribe t)
  then show ?thesis using assms(1)
    by (simp add: resubscribe_def case_prod_beta removeFromUnsubscribeList_def unconfirmed_def)
next
  case (Posted n d opts)
  then show ?thesis using assms(1) by (simp add: unconfirmed_def)
next
  case Restart
  then show ?thesis by (simp add: unconfirmed_def email_onModuleInit_def)
qed

text \<open>
  No delivery is ever confirmed: the events of the provider are looked up by the provider's own
  message id, under which the log has no entry, so along every run with such events no message is ever
  delivered, bounced, opened or deferred, and both rates of the statistics are zero.
\<close>
theorem delivery_never_confirmed:
  assumes "\<forall>(ev, env) \<in> set evs. foreign_hook ev"
  shows "let stats = getDeliveryStats (mail_run cfg evs no_mail) in
    ds_deliveryRate stats = 0 \<and> ds_bounceRate stats = 0
    \<and> (\<forall>st. ds_byStatus stats st = 0 \<or> st \<in> {EmailStatus.QUEUED, EmailStatus.SENDING, EmailStatus.SENT, EmailStatus.FAILED, EmailStatus.DROPPED})"
proof -
  have inv: "unconfirmed (mail_run cfg evs no_mail)"
  proof (rule mail_run_induct [of unconfirmed])
    show "unconfirmed no_mail" by (simp add: unconfirmed_def no_mail_def)
  qed (use assms unconfirmed_do in fastforce)
  have none: "count_status st (mail_run cfg evs no_mail) = 0"
    if "st \<notin> {EmailStatus.QUEUED, EmailStatus.SENDING, EmailStatus.SENT, EmailStatus.FAILED, EmailStatus.DROPPED}" for st
    using inv that by (fastforce simp: count_status_def unconfirmed_def filter_empty_conv)
  have "count_status EmailStatus.DELIVERED (mail_run cfg evs no_mail) = 0" "count_status EmailStatus.BOUNCED (mail_run cfg evs no_mail) = 0"
    by (rule none, simp)+
  moreover have "count_status st (mail_run cfg evs no_mail) = 0
      \<or> st \<in> {EmailStatus.QUEUED, EmailStatus.SENDING, EmailStatus.SENT, EmailStatus.FAILED, EmailStatus.DROPPED}" for st
    using none by blast
  ultimately show ?thesis by (simp add: getDeliveryStats_def Let_def)
qed

theorem delivery_never_confirmed_witness:
  "ds_deliveryRate (getDeliveryStats (mail_run plain_mail [(Queue (note_to ''a@b.co''), mail_env_at 5), (Work queued_note, mail_env_at 6),
     (Hook (JArr [JObj [(''event'', JStr ''delivered''), (''sg_message_id'', JStr ''14c5d.filter0001'')]]) None None, mail_env_at 7)] no_mail)) = 0"
proof -
  let ?evs = "[(Queue (note_to ''a@b.co''), mail_env_at 5), (Work queued_note, mail_env_at 6),
     (Hook (JArr [JObj [(''event'', JStr ''delivered''), (''sg_message_id'', JStr ''14c5d.filter0001'')]]) None None, mail_env_at 7)]"
  have "\<forall>(ev, env) \<in> set ?evs. foreign_hook ev" by (simp add: foreign_event_def own_prop_def starts_with_def)
  from delivery_never_confirmed [OF this, of plain_mail] show ?thesis unfolding Let_def by blast
qed

subsection \<open>The statistics\<close>

definition all_email_statuses :: "EmailStatus list" where
  "all_email_statuses = [EmailStatus.QUEUED, EmailStatus.SENDING, EmailStatus.SENT, EmailStatus.DELIVERED, EmailStatus.BOUNCED,
     EmailStatus.FAILED, EmailStatus.DROPPED, EmailStatus.DEFERRED, EmailStatus.OPENED, EmailStatus.CLICKED, EmailStatus.SPAM_REPORT,
     EmailStatus.UNSUBSCRIBED]"

lemma count_partition:
  "sum_list (map (\<lambda>st. length (filter (\<lambda>r. dr_status r = st) xs)) all_email_statuses) = length xs"
proof (induction xs)
  case (Cons r xs)
  then show ?case by (cases "dr_status r") (simp_all add: all_email_statuses_def)
qed (simp add: all_email_statuses_def)

lemma per_cent: "x + y \<le> 1 \<Longrightarrow> x * 100 + y * 100 \<le> (100 :: rat)"
  by linarith

text \<open>
  The statistics add up: the counts of the twelve statuses sum to the number of messages, and the two
  rates are shares of what was sent, never negative and together at most a hundred per cent.
\<close>
theorem delivery_stats_bounds:
  "sum_list (map (ds_byStatus (getDeliveryStats s)) all_email_statuses) = ds_total (getDeliveryStats s)
   \<and> 0 \<le> ds_bounceRate (getDeliveryStats s) \<and> 0 \<le> ds_deliveryRate (getDeliveryStats s)
   \<and> ds_bounceRate (getDeliveryStats s) + ds_deliveryRate (getDeliveryStats s) \<le> 100"
proof -
  define c where "c st = count_status st s" for st
  have total: "sum_list (map c all_email_statuses) = length (deliveryLog s)"
    using count_partition [of "map snd (deliveryLog s)"] by (simp only: c_def [abs_def] count_status_def length_map)
  define sent where "sent = int (length (deliveryLog s)) - int (c EmailStatus.QUEUED) - int (c EmailStatus.DROPPED)"
  have le: "int (c EmailStatus.BOUNCED) + int (c EmailStatus.DELIVERED) \<le> sent"
    unfolding sent_def total [symmetric] by (simp add: all_email_statuses_def)
  have stats: "getDeliveryStats s = \<lparr> ds_total = length (deliveryLog s), ds_byStatus = c,
      ds_bounceRate = (if 0 < sent then rat_of_nat (c EmailStatus.BOUNCED) / rat_of_int sent * 100 else 0),
      ds_deliveryRate = (if 0 < sent then rat_of_nat (c EmailStatus.DELIVERED) / rat_of_int sent * 100 else 0) \<rparr>"
    by (simp add: getDeliveryStats_def Let_def sent_def c_def [abs_def])
  show ?thesis
  proof (cases "0 < sent")
    case True
    have "rat_of_nat (c EmailStatus.BOUNCED) + rat_of_nat (c EmailStatus.DELIVERED) \<le> rat_of_int sent"
      using le by (metis of_int_add of_int_le_iff of_int_of_nat_eq)
    with True have "(rat_of_nat (c EmailStatus.BOUNCED) + rat_of_nat (c EmailStatus.DELIVERED)) / rat_of_int sent \<le> 1" by simp
    then have "rat_of_nat (c EmailStatus.BOUNCED) / rat_of_int sent * 100 + rat_of_nat (c EmailStatus.DELIVERED) / rat_of_int sent * 100 \<le> 100"
      unfolding add_divide_distrib by (rule per_cent)
    with True total show ?thesis by (simp add: stats)
  next
    case False
    with total show ?thesis by (simp add: stats)
  qed
qed

end
