(* ===== verification/Observability.thy ===== *)
theory Observability
  imports Security "HOL-Library.List_Lexorder" "HOL-Library.Char_ord"
begin

text \<open>
  \<open>MetricsService\<close> (\<open>common/services/metrics.service.ts\<close>), \<open>AlertService\<close>
  (\<open>common/services/alert.service.ts\<close>) and what \<open>LoggingInterceptor\<close> reports to both of them for each
  request.  A metric is a counter, a gauge or a histogram with one entry per set of labels; numbers are
  rationals, and the text of a number that is no integer is the parameter \<open>num\<close>.  Names of labels are compared
  character by character, which is what \<open>localeCompare\<close> does on the lower-case names in use.
\<close>

subsection \<open>The registry\<close>

record HistogramEntry =
  he_bucketCounts :: "nat list"
  he_sum :: rat
  he_count :: nat

datatype Metric =
  CounterMetric string "(string \<times> rat) list"
| GaugeMetric string "(string \<times> rat) list"
| HistogramMetric string "rat list" "(string \<times> HistogramEntry) list"

type_synonym registry = "(string \<times> Metric) list"
type_synonym labels = "(string \<times> string) list"

definition DEFAULT_BUCKETS :: "rat list" where
  "DEFAULT_BUCKETS = [5, 10, 25, 50, 100, 250, 500, 1000, 2500, 5000]"

definition register_metric :: "string \<Rightarrow> Metric \<Rightarrow> registry \<Rightarrow> registry" where
  "register_metric name m reg = (if map_of reg name = None then AList.update name m reg else reg)"

definition registerCounter :: "string \<Rightarrow> string \<Rightarrow> registry \<Rightarrow> registry" where
  "registerCounter name help = register_metric name (CounterMetric help [])"

definition registerGauge :: "string \<Rightarrow> string \<Rightarrow> registry \<Rightarrow> registry" where
  "registerGauge name help = register_metric name (GaugeMetric help [])"

definition registerHistogram :: "string \<Rightarrow> string \<Rightarrow> rat list \<Rightarrow> registry \<Rightarrow> registry" where
  "registerHistogram name help buckets = register_metric name (HistogramMetric help buckets [])"

definition label_text :: "string \<times> string \<Rightarrow> string" where
  "label_text = (\<lambda>(k, v). k @ ''='' @ [CHR 0x22] @ v @ [CHR 0x22])"

definition labelKey :: "labels \<Rightarrow> string" where
  "labelKey ls = join_with '','' (map label_text (sort_key fst ls))"

definition incrementCounter :: "string \<Rightarrow> labels \<Rightarrow> rat \<Rightarrow> registry \<Rightarrow> registry" where
  "incrementCounter name ls by reg =
     (case map_of reg name of
        Some (CounterMetric help vs) \<Rightarrow>
          AList.update name (CounterMetric help (AList.update (labelKey ls) (coalesce (map_of vs (labelKey ls)) 0 + by) vs)) reg
      | _ \<Rightarrow> reg)"

definition setGauge :: "string \<Rightarrow> rat \<Rightarrow> labels \<Rightarrow> registry \<Rightarrow> registry" where
  "setGauge name v ls reg =
     (case map_of reg name of
        Some (GaugeMetric help vs) \<Rightarrow> AList.update name (GaugeMetric help (AList.update (labelKey ls) v vs)) reg
      | _ \<Rightarrow> reg)"

definition new_entry :: "rat list \<Rightarrow> HistogramEntry" where
  "new_entry buckets = \<lparr> he_bucketCounts = replicate (length buckets) 0, he_sum = 0, he_count = 0 \<rparr>"

definition observe :: "rat list \<Rightarrow> rat \<Rightarrow> HistogramEntry \<Rightarrow> HistogramEntry" where
  "observe buckets v e =
     e\<lparr>he_sum := he_sum e + v, he_count := he_count e + 1,
       he_bucketCounts := map2 (\<lambda>b n. if v \<le> b then n + 1 else n) buckets (he_bucketCounts e)\<rparr>"

definition observeHistogram :: "string \<Rightarrow> rat \<Rightarrow> labels \<Rightarrow> registry \<Rightarrow> registry" where
  "observeHistogram name v ls reg =
     (case map_of reg name of
        Some (HistogramMetric help buckets ds) \<Rightarrow>
          AList.update name (HistogramMetric help buckets
            (AList.update (labelKey ls) (observe buckets v (coalesce (map_of ds (labelKey ls)) (new_entry buckets))) ds)) reg
      | _ \<Rightarrow> reg)"

definition registerBuiltins :: "registry \<Rightarrow> registry" where
  "registerBuiltins =
     registerCounter ''auth_failures_total'' ''Total failed authentication attempts''
     \<circ> registerCounter ''auth_attempts_total'' ''Total authentication attempts''
     \<circ> registerGauge ''process_uptime_seconds'' ''Application uptime in seconds''
     \<circ> registerGauge ''nodejs_heap_used_bytes'' ''Node.js heap used in bytes''
     \<circ> registerGauge ''process_memory_rss_bytes'' ''Process RSS memory in bytes''
     \<circ> registerHistogram ''http_request_duration_ms'' ''HTTP request latency in milliseconds'' DEFAULT_BUCKETS
     \<circ> registerCounter ''http_errors_total'' ''Total HTTP responses with 4xx/5xx status''
     \<circ> registerCounter ''http_requests_total'' ''Total HTTP requests received''"

record memory =
  mu_rss :: nat
  mu_heapUsed :: nat
  mu_heapTotal :: nat
  mu_external :: nat

definition collect :: "memory \<Rightarrow> rat \<Rightarrow> registry \<Rightarrow> registry" where
  "collect mem uptime =
     setGauge ''process_uptime_seconds'' (of_int (floor uptime)) []
     \<circ> setGauge ''nodejs_heap_used_bytes'' (of_nat (mu_heapUsed mem)) []
     \<circ> setGauge ''process_memory_rss_bytes'' (of_nat (mu_rss mem)) []"

subsection \<open>Export\<close>

fun cumulative :: "nat \<Rightarrow> nat list \<Rightarrow> nat list" where
  "cumulative c [] = []"
| "cumulative c (n # ns) = (c + n) # cumulative (c + n) ns"

definition braces :: "string \<Rightarrow> string" where
  "braces ls = (if ls = [] then [] else ''{'' @ ls @ ''}'')"

definition bucket_line :: "string \<Rightarrow> string \<Rightarrow> string \<Rightarrow> nat \<Rightarrow> string" where
  "bucket_line name ls le n =
     name @ ''_bucket{le='' @ [CHR 0x22] @ le @ [CHR 0x22] @ (if ls = [] then [] else '','' @ ls) @ ''} '' @ show_nat n"

definition histogram_lines :: "(rat \<Rightarrow> string) \<Rightarrow> string \<Rightarrow> rat list \<Rightarrow> string \<times> HistogramEntry \<Rightarrow> string list" where
  "histogram_lines num name buckets = (\<lambda>(ls, e).
     map2 (\<lambda>b n. bucket_line name ls (show_number num b) n) buckets (cumulative 0 (he_bucketCounts e))
     @ [bucket_line name ls ''+Inf'' (he_count e),
        name @ ''_sum'' @ braces ls @ '' '' @ show_number num (he_sum e),
        name @ ''_count'' @ braces ls @ '' '' @ show_nat (he_count e)])"

fun metric_type :: "Metric \<Rightarrow> string" where
  "metric_type (CounterMetric _ _) = ''counter''"
| "metric_type (GaugeMetric _ _) = ''gauge''"
| "metric_type (HistogramMetric _ _ _) = ''histogram''"

fun metric_help :: "Metric \<Rightarrow> string" where
  "metric_help (CounterMetric h _) = h"
| "metric_help (GaugeMetric h _) = h"
| "metric_help (HistogramMetric h _ _) = h"

definition value_line :: "(rat \<Rightarrow> string) \<Rightarrow> string \<Rightarrow> string \<times> rat \<Rightarrow> string" where
  "value_line num name = (\<lambda>(ls, v). name @ braces ls @ '' '' @ show_number num v)"

fun value_lines :: "(rat \<Rightarrow> string) \<Rightarrow> string \<Rightarrow> Metric \<Rightarrow> string list" where
  "value_lines num name (CounterMetric _ vs) = map (value_line num name) vs"
| "value_lines num name (GaugeMetric _ vs) = map (value_line num name) vs"
| "value_lines num name (HistogramMetric _ buckets ds) = concat (map (histogram_lines num name buckets) ds)"

definition getPrometheusOutput :: "(rat \<Rightarrow> string) \<Rightarrow> registry \<Rightarrow> string" where
  "getPrometheusOutput num reg =
     join_with [CHR 0x0A] (concat (map (\<lambda>(name, m).
       (''# HELP '' @ name @ '' '' @ metric_help m) # (''# TYPE '' @ name @ '' '' @ metric_type m) # value_lines num name m) reg))
     @ [CHR 0x0A]"

text \<open>\<open>Math.round(x * 100) / 100\<close>.\<close>

definition round2 :: "rat \<Rightarrow> rat" where
  "round2 x = of_int (floor (x * 100 + 1 / 2)) / 100"

datatype metric_view =
  Values "(string \<times> rat) list"
| Histograms "(string \<times> (nat \<times> rat \<times> rat)) list"

fun view_metric :: "Metric \<Rightarrow> metric_view" where
  "view_metric (CounterMetric _ vs) = Values vs"
| "view_metric (GaugeMetric _ vs) = Values vs"
| "view_metric (HistogramMetric _ _ ds) =
     Histograms (map (\<lambda>(ls, e). (if ls = [] then ''_total'' else ls,
       he_count e, he_sum e, if 0 < he_count e then round2 (he_sum e / of_nat (he_count e)) else 0)) ds)"

record snapshot =
  sp_uptime_seconds :: int
  sp_memory :: memory
  sp_process_uptime :: int
  sp_metrics :: "(string \<times> metric_view) list"

definition getSnapshot :: "time \<Rightarrow> time \<Rightarrow> memory \<Rightarrow> rat \<Rightarrow> registry \<Rightarrow> snapshot" where
  "getSnapshot startTime now mem uptime reg =
     \<lparr> sp_uptime_seconds = (now - startTime) div 1000, sp_memory = mem, sp_process_uptime = floor uptime,
       sp_metrics = map (\<lambda>(name, m). (name, view_metric m)) reg \<rparr>"

subsection \<open>Alerts\<close>

datatype severity = Critical | Warning | Info

text \<open>What a rule may look at; a rule may throw.\<close>

record alert_view =
  av_windowRequests :: nat
  av_windowErrors :: nat
  av_emaLatencyMs :: rat
  av_heapUsed :: nat

record AlertRule =
  ar_name :: string
  ar_description :: string
  ar_evaluate :: "alert_view \<Rightarrow> exn + bool"
  ar_severity :: severity
  ar_cooldownMs :: "int option"

record AlertState =
  as_lastFiredAt :: "time option"
  as_firingCount :: nat
  as_active :: bool

record alerts =
  al_rules :: "AlertRule list"
  al_state :: "(string \<times> AlertState) list"
  al_windowRequests :: nat
  al_windowErrors :: nat
  al_emaLatencyMs :: rat
  al_fired :: "(string \<times> time) list"

definition registerRule :: "AlertRule \<Rightarrow> alerts \<Rightarrow> alerts" where
  "registerRule rule a = a\<lparr>al_rules := al_rules a @ [rule],
     al_state := AList.update (ar_name rule) \<lparr> as_lastFiredAt = None, as_firingCount = 0, as_active = False \<rparr> (al_state a)\<rparr>"

definition high_error_rate :: "alert_view \<Rightarrow> exn + bool" where
  "high_error_rate v = Inr (if av_windowRequests v < 10 then False
     else rat_of_nat (av_windowErrors v) / rat_of_nat (av_windowRequests v) > 1 / 10)"

definition high_p95_latency :: "alert_view \<Rightarrow> exn + bool" where
  "high_p95_latency v = Inr (av_windowRequests v > 5 \<and> av_emaLatencyMs v > 2000)"

definition high_heap_usage :: "alert_view \<Rightarrow> exn + bool" where
  "high_heap_usage v = Inr (av_heapUsed v > 900 * 1024 * 1024)"

definition registerDefaultRules :: "alerts \<Rightarrow> alerts" where
  "registerDefaultRules a =
     registerRule \<lparr> ar_name = ''high_heap_usage'', ar_description = ''Node.js heap used exceeds 900 MB'',
       ar_evaluate = high_heap_usage, ar_severity = Warning, ar_cooldownMs = Some 300000 \<rparr>
     (registerRule \<lparr> ar_name = ''high_p95_latency'', ar_description = ''Estimated p95 request latency exceeds 2 000 ms'',
       ar_evaluate = high_p95_latency, ar_severity = Warning, ar_cooldownMs = Some 60000 \<rparr>
     (registerRule \<lparr> ar_name = ''high_error_rate'', ar_description = ''HTTP error rate exceeds 10 % over the last 60-second window'',
       ar_evaluate = high_error_rate, ar_severity = Critical, ar_cooldownMs = Some 120000 \<rparr> a))"

text \<open>A firing writes a line to the log; \<open>al_fired\<close> records it.\<close>

definition fire_alert :: "AlertRule \<Rightarrow> time \<Rightarrow> alerts \<Rightarrow> alerts" where
  "fire_alert rule now a =
     (case map_of (al_state a) (ar_name rule) of
        None \<Rightarrow> a
      | Some s \<Rightarrow>
          (let cooldown = coalesce (ar_cooldownMs rule) 60000
           in if (case as_lastFiredAt s of None \<Rightarrow> False | Some t \<Rightarrow> now - t < cooldown) then a
              else a\<lparr>al_state := AList.update (ar_name rule)
                       (s\<lparr>as_lastFiredAt := Some now, as_firingCount := as_firingCount s + 1, as_active := True\<rparr>) (al_state a),
                     al_fired := al_fired a @ [(ar_name rule, now)]\<rparr>))"

definition resolve_alert :: "AlertRule \<Rightarrow> alerts \<Rightarrow> alerts" where
  "resolve_alert rule a =
     (case map_of (al_state a) (ar_name rule) of
        None \<Rightarrow> a
      | Some s \<Rightarrow> if \<not> as_active s then a
                  else a\<lparr>al_state := AList.update (ar_name rule) (s\<lparr>as_active := False, as_firingCount := 0\<rparr>) (al_state a)\<rparr>)"

definition view_of :: "nat \<Rightarrow> alerts \<Rightarrow> alert_view" where
  "view_of heap a = \<lparr> av_windowRequests = al_windowRequests a, av_windowErrors = al_windowErrors a,
     av_emaLatencyMs = al_emaLatencyMs a, av_heapUsed = heap \<rparr>"

definition evaluate_rule :: "nat \<Rightarrow> time \<Rightarrow> AlertRule \<Rightarrow> alerts \<Rightarrow> alerts" where
  "evaluate_rule heap now rule a =
     (case ar_evaluate rule (view_of heap a) of
        Inl _ \<Rightarrow> a
      | Inr firing \<Rightarrow> if firing then fire_alert rule now a else resolve_alert rule a)"

definition evaluateAll :: "nat \<Rightarrow> time \<Rightarrow> alerts \<Rightarrow> alerts" where
  "evaluateAll heap now a = fold (evaluate_rule heap now) (al_rules a) a"

text \<open>The timer, once a minute.\<close>

definition alert_tick :: "nat \<Rightarrow> time \<Rightarrow> alerts \<Rightarrow> alerts" where
  "alert_tick heap now a = (evaluateAll heap now a)\<lparr>al_windowRequests := 0, al_windowErrors := 0\<rparr>"

definition recordRequest :: "rat \<Rightarrow> bool \<Rightarrow> registry \<times> alerts \<Rightarrow> registry \<times> alerts" where
  "recordRequest durationMs isError = (\<lambda>(reg, a).
     (let a1 = a\<lparr>al_windowRequests := al_windowRequests a + 1,
                 al_windowErrors := (if isError then al_windowErrors a + 1 else al_windowErrors a),
                 al_emaLatencyMs := al_emaLatencyMs a * (9 / 10) + durationMs * (1 / 10)\<rparr>;
          r1 = incrementCounter ''http_requests_total'' [] 1 reg;
          r2 = (if isError then incrementCounter ''http_errors_total'' [] 1 r1 else r1)
      in (observeHistogram ''http_request_duration_ms'' durationMs [] r2, a1)))"

subsection \<open>What the interceptor reports\<close>

definition report_success :: "string \<Rightarrow> nat \<Rightarrow> rat \<Rightarrow> registry \<times> alerts \<Rightarrow> registry \<times> alerts" where
  "report_success meth status durationMs = (\<lambda>(reg, a).
     (let roundedMs = round2 durationMs;
          r1 = observeHistogram ''http_request_duration_ms'' roundedMs [(''method'', meth), (''status'', show_nat status)] reg;
          r2 = incrementCounter ''http_requests_total'' [(''method'', meth)] 1 r1
      in recordRequest roundedMs False (r2, a)))"

definition report_error :: "string \<Rightarrow> nat option \<Rightarrow> rat \<Rightarrow> registry \<times> alerts \<Rightarrow> registry \<times> alerts" where
  "report_error meth httpStatus durationMs = (\<lambda>(reg, a).
     (let statusCode = coalesce httpStatus 500; roundedMs = round2 durationMs;
          r1 = observeHistogram ''http_request_duration_ms'' roundedMs [(''method'', meth), (''status'', show_nat statusCode)] reg;
          r2 = incrementCounter ''http_requests_total'' [(''method'', meth)] 1 r1;
          r3 = incrementCounter ''http_errors_total'' [(''method'', meth), (''status'', show_nat statusCode)] 1 r2
      in recordRequest roundedMs True (r3, a)))"

end
