(* ===== verification/ObservabilityProps.thy ===== *)
theory ObservabilityProps
  imports Observability
begin

text \<open>
  Properties of the metrics and the alerts: what the exposed histogram counts, how often a request is
  counted, the cool-down of the alerts and what the latency estimate can be.
\<close>

subsection \<open>Histograms\<close>

abbreviation observed :: "rat list \<Rightarrow> rat list \<Rightarrow> HistogramEntry" where
  "observed buckets vs \<equiv> fold (observe buckets) vs (new_entry buckets)"

abbreviation at_most :: "rat list \<Rightarrow> rat \<Rightarrow> nat" where
  "at_most vs b \<equiv> length (filter (\<lambda>v. v \<le> b) vs)"

lemma observed_snoc: "observed bs (vs @ [v]) = observe bs v (observed bs vs)"
  by simp

text \<open>The stored counts are cumulative already: every bucket counts all values up to its bound.\<close>

lemma observed_counts:
  "he_bucketCounts (observed bs vs) = map (at_most vs) bs \<and> he_count (observed bs vs) = length vs \<and> he_sum (observed bs vs) = sum_list vs"
proof (induction vs rule: rev_induct)
  case Nil
  show ?case by (simp add: new_entry_def map_replicate_const)
next
  case (snoc v vs)
  have "map2 (\<lambda>b n. if v \<le> b then n + 1 else n) bs (map (at_most vs) bs) = map (at_most (vs @ [v])) bs"
    by (induction bs) simp_all
  with snoc show ?case unfolding observed_snoc by (simp add: observe_def [of bs v "observed bs vs"])
qed

lemma cumulative_nth: "i < length ns \<Longrightarrow> cumulative c ns ! i = c + sum_list (take (Suc i) ns)"
proof (induction ns arbitrary: c i)
  case (Cons n ns)
  then show ?case by (cases i) simp_all
qed simp

lemma length_cumulative [simp]: "length (cumulative c ns) = length ns"
  by (induction ns arbitrary: c) simp_all

lemma sum_take_map: "i < length bs \<Longrightarrow> sum_list (take (Suc i) (map f bs)) = (\<Sum>j\<le>i. f (bs ! j))"
proof (induction i)
  case 0
  then show ?case by (cases bs) simp_all
next
  case (Suc i)
  then show ?case by (simp add: take_Suc_conv_app_nth [of "Suc i"])
qed

text \<open>
  The exposed histogram is wrong in every bucket but the first: the counts, which are cumulative as
  they are stored, are summed again on the way out, so the line for a bound adds up what all smaller bounds
  counted, and exceeds the number of values it stands for as soon as a smaller bucket is not empty, while the
  line for infinity is right and so can be smaller than the lines before it.
\<close>
theorem histogram_overcounts:
  fixes vs :: "rat list"
  assumes "i < length bs"
  defines "shown \<equiv> (\<Sum>j\<le>i. at_most vs (bs ! j))"
  shows "histogram_lines num name bs (ls, observed bs vs) ! i = bucket_line name ls (show_number num (bs ! i)) shown
    \<and> histogram_lines num name bs (ls, observed bs vs) ! length bs = bucket_line name ls ''+Inf'' (length vs)
    \<and> (\<forall>j < i. 0 < at_most vs (bs ! j) \<longrightarrow> shown > at_most vs (bs ! i))"
proof -
  have "cumulative 0 (map (at_most vs) bs) ! i = shown"
    using assms(1) by (simp add: cumulative_nth sum_take_map shown_def)
  then have "histogram_lines num name bs (ls, observed bs vs) ! i = bucket_line name ls (show_number num (bs ! i)) shown"
    using assms(1) by (simp add: histogram_lines_def observed_counts nth_append)
  moreover have "histogram_lines num name bs (ls, observed bs vs) ! length bs = bucket_line name ls ''+Inf'' (length vs)"
    by (simp add: histogram_lines_def observed_counts nth_append)
  moreover have "shown > at_most vs (bs ! i)" if "j < i" "0 < at_most vs (bs ! j)" for j
  proof -
    have "at_most vs (bs ! j) + at_most vs (bs ! i) = (\<Sum>k\<in>{j, i}. at_most vs (bs ! k))" using that(1) by simp
    also have "\<dots> \<le> shown" unfolding shown_def using that(1) by (intro sum_mono2) auto
    finally show ?thesis using that(2) by linarith
  qed
  ultimately show ?thesis by blast
qed

theorem histogram_overcounts_witness:
  "histogram_lines (\<lambda>_. []) ''d'' DEFAULT_BUCKETS ([], observed DEFAULT_BUCKETS [3, 4]) ! 9 = bucket_line ''d'' [] (show_number (\<lambda>_. []) 5000) 20
   \<and> histogram_lines (\<lambda>_. []) ''d'' DEFAULT_BUCKETS ([], observed DEFAULT_BUCKETS [3, 4]) ! 10 = bucket_line ''d'' [] ''+Inf'' 2"
proof -
  have "DEFAULT_BUCKETS ! 9 = 5000" "length DEFAULT_BUCKETS = 10" by (simp_all add: DEFAULT_BUCKETS_def numeral_eq_Suc)
  moreover have "(\<Sum>j\<le>9. at_most [3, 4] (DEFAULT_BUCKETS ! j)) = (20 :: nat)"
    by (simp add: DEFAULT_BUCKETS_def numeral_eq_Suc atMost_Suc)
  ultimately show ?thesis using histogram_overcounts [of 9 DEFAULT_BUCKETS "\<lambda>_. []" "''d''" "[]" "[3, 4]"]
    by (simp add: numeral_2_eq_2 del: filter.simps)
qed

subsection \<open>Counters\<close>

definition counter_total :: "string \<Rightarrow> registry \<Rightarrow> rat" where
  "counter_total name reg = (case map_of reg name of Some (CounterMetric _ vs) \<Rightarrow> sum_list (map snd vs) | _ \<Rightarrow> 0)"

definition is_counter :: "string \<Rightarrow> registry \<Rightarrow> bool" where
  "is_counter name reg \<longleftrightarrow> (\<exists>help vs. map_of reg name = Some (CounterMetric help vs))"

lemma sum_bump: "sum_list (map snd (AList.update k (coalesce (map_of vs k) 0 + by) vs)) = sum_list (map snd vs) + (by :: rat)"
  by (induction vs) auto

lemma increment_total:
  "is_counter n reg \<Longrightarrow> counter_total n (incrementCounter m ls by reg) = counter_total n reg + (if m = n then by else 0)"
  "is_counter n reg \<Longrightarrow> is_counter n (incrementCounter m ls by reg)"
  by (auto simp: counter_total_def is_counter_def incrementCounter_def update_conv' sum_bump split: option.split Metric.split)

lemma observe_total:
  "is_counter n reg \<Longrightarrow> counter_total n (observeHistogram m v ls reg) = counter_total n reg"
  "is_counter n reg \<Longrightarrow> is_counter n (observeHistogram m v ls reg)"
  by (auto simp: counter_total_def is_counter_def observeHistogram_def update_conv' split: option.split Metric.split)

lemma builtin_counters:
  "is_counter ''http_requests_total'' (registerBuiltins [])" "is_counter ''http_errors_total'' (registerBuiltins [])"
  "counter_total ''http_requests_total'' (registerBuiltins []) = 0" "counter_total ''http_errors_total'' (registerBuiltins []) = 0"
  by (simp_all add: is_counter_def counter_total_def registerBuiltins_def registerCounter_def registerGauge_def
      registerHistogram_def register_metric_def)

text \<open>A finished request: its method, the status of the answer or of the exception, its duration.\<close>

datatype request_end = Succeeded string nat rat | Failed string "nat option" rat

fun report :: "request_end \<Rightarrow> registry \<times> alerts \<Rightarrow> registry \<times> alerts" where
  "report (Succeeded meth st d) = report_success meth st d"
| "report (Failed meth st d) = report_error meth st d"

fun is_failure :: "request_end \<Rightarrow> bool" where
  "is_failure (Failed _ _ _) = True"
| "is_failure (Succeeded _ _ _) = False"

lemma report_totals:
  assumes "is_counter ''http_requests_total'' reg" and "is_counter ''http_errors_total'' reg"
  shows "is_counter ''http_requests_total'' (fst (report r (reg, a))) \<and> is_counter ''http_errors_total'' (fst (report r (reg, a)))
    \<and> counter_total ''http_requests_total'' (fst (report r (reg, a))) = counter_total ''http_requests_total'' reg + 2
    \<and> counter_total ''http_errors_total'' (fst (report r (reg, a))) = counter_total ''http_errors_total'' reg + (if is_failure r then 2 else 0)"
  using assms
  by (cases r) (simp_all add: report_success_def report_error_def recordRequest_def Let_def increment_total observe_total)

text \<open>
  Every request is counted twice: once by the interceptor under its method and once by the alert
  service without a label, so the sum over the labels of the request counter is twice the number of requests,
  and the same holds for the errors.
\<close>
theorem requests_counted_twice:
  "counter_total ''http_requests_total'' (fst (fold report rs (registerBuiltins [], a))) = 2 * of_nat (length rs)
   \<and> counter_total ''http_errors_total'' (fst (fold report rs (registerBuiltins [], a))) = 2 * of_nat (length (filter is_failure rs))"
proof -
  have "counter_total ''http_requests_total'' (fst (fold report rs (reg, a))) = counter_total ''http_requests_total'' reg + 2 * of_nat (length rs)
    \<and> counter_total ''http_errors_total'' (fst (fold report rs (reg, a)))
        = counter_total ''http_errors_total'' reg + 2 * of_nat (length (filter is_failure rs))"
    if "is_counter ''http_requests_total'' reg" "is_counter ''http_errors_total'' reg" for reg
    using that
  proof (induction rs arbitrary: reg a)
    case (Cons r rs)
    obtain reg' a' where step: "report r (reg, a) = (reg', a')" by (rule prod.exhaust)
    with report_totals [OF Cons.prems, of r a] have "is_counter ''http_requests_total'' reg'" "is_counter ''http_errors_total'' reg'"
      and totals: "counter_total ''http_requests_total'' reg' = counter_total ''http_requests_total'' reg + 2"
        "counter_total ''http_errors_total'' reg' = counter_total ''http_errors_total'' reg + (if is_failure r then 2 else 0)" by simp_all
    with Cons.IH [of reg' a'] show ?case by (simp add: step)
  qed simp
  from this [OF builtin_counters(1,2)] show ?thesis by (simp add: builtin_counters)
qed

subsection \<open>Alerts\<close>

definition firings :: "string \<Rightarrow> alerts \<Rightarrow> time list" where
  "firings n a = map snd (filter (\<lambda>(m, _). m = n) (al_fired a))"

datatype alert_event = Tick nat time | Request rat bool

fun alert_do :: "alert_event \<Rightarrow> alerts \<Rightarrow> alerts" where
  "alert_do (Tick heap now) a = alert_tick heap now a"
| "alert_do (Request d e) a = snd (recordRequest d e ([], a))"

definition no_alerts :: alerts where
  "no_alerts = \<lparr> al_rules = [], al_state = [], al_windowRequests = 0, al_windowErrors = 0, al_emaLatencyMs = 0, al_fired = [] \<rparr>"

definition alert_run :: "AlertRule list \<Rightarrow> alert_event list \<Rightarrow> alerts" where
  "alert_run rules evs = fold alert_do evs (fold registerRule rules no_alerts)"

definition cooldown :: "AlertRule \<Rightarrow> int" where
  "cooldown r = coalesce (ar_cooldownMs r) 60000"

text \<open>The state of a rule knows its last firing, and successive firings are a cool-down apart.\<close>

definition spaced :: "AlertRule \<Rightarrow> alerts \<Rightarrow> bool" where
  "spaced r a \<longleftrightarrow>
     (\<exists>s. map_of (al_state a) (ar_name r) = Some s
        \<and> as_lastFiredAt s = (if firings (ar_name r) a = [] then None else Some (last (firings (ar_name r) a))))
     \<and> successively (\<lambda>x y. cooldown r \<le> y - x) (firings (ar_name r) a)"

lemma spaced_window: "spaced r (a\<lparr>al_windowRequests := m, al_windowErrors := n\<rparr>) = spaced r a"
  by (simp add: spaced_def firings_def)

lemma spaced_request: "spaced r (a\<lparr>al_windowRequests := m, al_windowErrors := n, al_emaLatencyMs := x\<rparr>) = spaced r a"
  by (simp add: spaced_def firings_def)

lemma spaced_fire:
  assumes "spaced r a" and "r' = r \<or> ar_name r' \<noteq> ar_name r"
  shows "spaced r (fire_alert r' now a)"
proof (cases "map_of (al_state a) (ar_name r')")
  case None
  with assms(1) show ?thesis by (simp add: fire_alert_def)
next
  case (Some s')
  show ?thesis
  proof (cases "r' = r")
    case False
    with assms have "ar_name r' \<noteq> ar_name r" by simp
    with assms(1) show ?thesis by (auto simp: fire_alert_def Some Let_def spaced_def firings_def update_conv')
  next
    case True
    from assms(1) Some True have last: "as_lastFiredAt s' = (if firings (ar_name r) a = [] then None else Some (last (firings (ar_name r) a)))"
      and succ: "successively (\<lambda>x y. cooldown r \<le> y - x) (firings (ar_name r) a)" by (auto simp: spaced_def)
    show ?thesis
    proof (cases "case as_lastFiredAt s' of None \<Rightarrow> False | Some t \<Rightarrow> now - t < cooldown r")
      case True
      with \<open>r' = r\<close> Some assms(1) show ?thesis by (simp add: fire_alert_def Let_def flip: cooldown_def)
    next
      case False
      let ?a' = "fire_alert r now a"
      have a': "map_of (al_state ?a') (ar_name r) = Some (s'\<lparr>as_lastFiredAt := Some now, as_firingCount := as_firingCount s' + 1, as_active := True\<rparr>)"
        "firings (ar_name r) ?a' = firings (ar_name r) a @ [now]"
        using False Some True by (simp_all add: fire_alert_def Let_def firings_def update_conv' flip: cooldown_def)
      have "firings (ar_name r) a \<noteq> [] \<longrightarrow> cooldown r \<le> now - last (firings (ar_name r) a)" using False last by (auto split: if_splits)
      with succ have "successively (\<lambda>x y. cooldown r \<le> y - x) (firings (ar_name r) a @ [now])"
        by (auto simp: successively_append_iff)
      then show ?thesis using a' True by (simp add: spaced_def)
    qed
  qed
qed

lemma spaced_resolve: "spaced r a \<Longrightarrow> spaced r (resolve_alert r' a)"
  by (auto simp: spaced_def resolve_alert_def firings_def update_conv' split: option.split)

lemma spaced_evaluate: "spaced r a \<Longrightarrow> r' = r \<or> ar_name r' \<noteq> ar_name r \<Longrightarrow> spaced r (evaluate_rule heap now r' a)"
  by (simp add: evaluate_rule_def spaced_fire spaced_resolve split: sum.split)

lemma rules_evaluate: "al_rules (evaluate_rule heap now r a) = al_rules a"
  by (simp add: evaluate_rule_def fire_alert_def resolve_alert_def Let_def split: sum.split option.split)

lemma rules_fold: "al_rules (fold (evaluate_rule heap now) rs a) = al_rules a"
  by (induction rs arbitrary: a) (simp_all add: rules_evaluate)

lemma spaced_rules:
  assumes "distinct (map ar_name R)" and "r \<in> set R" and "set rs \<subseteq> set R" and "spaced r a"
  shows "spaced r (fold (evaluate_rule heap now) rs a)"
  using assms(3,4)
proof (induction rs arbitrary: a)
  case (Cons r' rs)
  then have "r' = r \<or> ar_name r' \<noteq> ar_name r" using assms(1,2) by (auto simp: distinct_map inj_on_def)
  with Cons show ?case by (simp add: spaced_evaluate)
qed simp

lemma spaced_do:
  assumes "spaced r a" and "r \<in> set (al_rules a)" and "distinct (map ar_name (al_rules a))"
  shows "spaced r (alert_do ev a) \<and> al_rules (alert_do ev a) = al_rules a"
proof (cases ev)
  case (Tick heap now)
  with spaced_rules [OF assms(3,2) subset_refl assms(1), of heap now] show ?thesis
    by (simp add: alert_tick_def evaluateAll_def rules_fold spaced_window)
next
  case (Request d e)
  with assms(1) show ?thesis by (simp add: recordRequest_def Let_def spaced_request)
qed

lemma registered:
  assumes "distinct (map ar_name (al_rules a @ rules))"
    and "\<forall>r \<in> set (al_rules a). map_of (al_state a) (ar_name r) = Some \<lparr> as_lastFiredAt = None, as_firingCount = 0, as_active = False \<rparr>"
  shows "al_rules (fold registerRule rules a) = al_rules a @ rules \<and> al_fired (fold registerRule rules a) = al_fired a
    \<and> (\<forall>r \<in> set (al_rules a @ rules). map_of (al_state (fold registerRule rules a)) (ar_name r)
         = Some \<lparr> as_lastFiredAt = None, as_firingCount = 0, as_active = False \<rparr>)"
  using assms
proof (induction rules arbitrary: a)
  case (Cons r rs)
  have "al_rules (registerRule r a) = al_rules a @ [r]" "al_fired (registerRule r a) = al_fired a"
    by (simp_all add: registerRule_def)
  moreover have "\<forall>q \<in> set (al_rules (registerRule r a)). map_of (al_state (registerRule r a)) (ar_name q)
      = Some \<lparr> as_lastFiredAt = None, as_firingCount = 0, as_active = False \<rparr>"
    using Cons.prems by (auto simp: registerRule_def update_conv')
  ultimately show ?case using Cons.IH [of "registerRule r a"] Cons.prems(1) by simp
qed simp

text \<open>
  An alert respects its cool-down: along every run of the service with rules of different names,
  whatever the clock does and whatever the requests were, two successive firings of a rule are at least its
  cool-down apart.
\<close>
theorem alert_cooldown:
  assumes "distinct (map ar_name rules)" and "r \<in> set rules"
  shows "successively (\<lambda>x y. coalesce (ar_cooldownMs r) 60000 \<le> y - x)
    (map snd (filter (\<lambda>(m, _). m = ar_name r) (al_fired (alert_run rules evs))))"
proof -
  let ?a = "fold registerRule rules no_alerts"
  have start: "al_rules ?a = rules" "al_fired ?a = []"
      "map_of (al_state ?a) (ar_name r) = Some \<lparr> as_lastFiredAt = None, as_firingCount = 0, as_active = False \<rparr>"
    using registered [of no_alerts rules] assms by (simp_all add: no_alerts_def)
  have "spaced r (fold alert_do evs a)" if "spaced r a" "al_rules a = rules" for a
    using that
  proof (induction evs arbitrary: a)
    case (Cons ev evs)
    from spaced_do [OF Cons.prems(1), of ev] assms Cons.prems(2) Cons.IH [of "alert_do ev a"] show ?case by simp
  qed simp
  from this [of ?a] start have "spaced r (alert_run rules evs)"
    by (simp add: alert_run_def spaced_def firings_def)
  then show ?thesis by (simp add: spaced_def firings_def cooldown_def)
qed

definition error_rule :: AlertRule where
  "error_rule = \<lparr> ar_name = ''e'', ar_description = [], ar_evaluate = high_error_rate, ar_severity = Critical, ar_cooldownMs = Some 120000 \<rparr>"

definition bad_minutes :: "alert_event list" where
  "bad_minutes = replicate 10 (Request 5 True) @ [Tick 0 60000] @ replicate 10 (Request 5 True) @ [Tick 0 120000]
     @ replicate 10 (Request 5 True) @ [Tick 0 180000]"

theorem alert_cooldown_witness:
  "successively (\<lambda>x y. 120000 \<le> y - x) (map snd (filter (\<lambda>(m, _). m = ''e'') (al_fired (alert_run [error_rule] bad_minutes))))
   \<and> al_fired (alert_run [error_rule] bad_minutes) = [(''e'', 60000), (''e'', 180000)]"
proof
  show "successively (\<lambda>x y. 120000 \<le> y - x) (map snd (filter (\<lambda>(m, _). m = ''e'') (al_fired (alert_run [error_rule] bad_minutes))))"
    using alert_cooldown [of "[error_rule]" error_rule bad_minutes] by (simp add: error_rule_def)
  show "al_fired (alert_run [error_rule] bad_minutes) = [(''e'', 60000), (''e'', 180000)]" by code_simp
qed

text \<open>The estimate of the latency stays between nothing and the longest request.\<close>

lemma ema_within:
  assumes "0 \<le> al_emaLatencyMs a" and "al_emaLatencyMs a \<le> M" and "0 \<le> d" and "d \<le> M"
  shows "0 \<le> al_emaLatencyMs (alert_do (Request d e) a) \<and> al_emaLatencyMs (alert_do (Request d e) a) \<le> M"
  using assms by (simp add: recordRequest_def Let_def)

text \<open>It is no percentile: with every tenth request at fifteen seconds the alert for two seconds stays silent.\<close>

lemma slow_tail_unnoticed:
  "high_p95_latency (view_of 0 (alert_run [] (concat (replicate 2 (Request 15000 False # replicate 9 (Request 10 False)))))) = Inr False"
  by code_simp

end
