(* ===== verification/EventLog.thy ===== *)
theory EventLog
  imports JobScheduler "HOL-Library.Multiset"
begin

text \<open>
  The events of the platform (\<open>BackEnd/src/events\<close>): the event store, the listener that persists whatever is
  emitted, the replay, the listener of the dead letter queue, and the decorator
  \<open>Retry\<close> (\<open>common/decorators/retry.decorator.ts\<close>) of the other listeners.  The time stamp a payload
  carries is a field of its own, because the JSON column keeps it; it is \<open>None\<close> for a payload without one.
\<close>

subsection \<open>The store\<close>

record Payload =
  py_timestamp :: "time option"
  py_value :: json
  py_type :: string

record EventStore =
  es_id :: id
  es_eventName :: string
  es_payload :: Payload
  es_source :: string
  es_type :: string
  es_timestamp :: time

record IEvent =
  ie_eventName :: string
  ie_payload :: Payload
  ie_source :: string
  ie_type :: string
  ie_timestamp :: "time option"

record event_env =
  ev_now :: time
  ev_newId :: id

definition storeEvent :: "IEvent \<Rightarrow> event_env \<Rightarrow> EventStore list \<Rightarrow> EventStore list" where
  "storeEvent e env store = store @ [\<lparr> es_id = ev_newId env, es_eventName = ie_eventName e, es_payload = ie_payload e,
     es_source = ie_source e, es_type = ie_type e, es_timestamp = coalesce (ie_timestamp e) (ev_now env) \<rparr>]"

text \<open>The filter of \<open>getEvents\<close>: an end without a start is ignored.\<close>

definition event_where :: "time option \<Rightarrow> time option \<Rightarrow> string option \<Rightarrow> time \<Rightarrow> EventStore \<Rightarrow> bool" where
  "event_where since till name now e \<longleftrightarrow>
     (case (since, till) of
        (Some a, Some b) \<Rightarrow> a \<le> es_timestamp e \<and> es_timestamp e \<le> b
      | (Some a, None) \<Rightarrow> a \<le> es_timestamp e \<and> es_timestamp e \<le> now
      | _ \<Rightarrow> True)
     \<and> (truthy name \<longrightarrow> es_eventName e = the name)"

definition getEvents :: "time option \<Rightarrow> time option \<Rightarrow> string option \<Rightarrow> time \<Rightarrow> EventStore list \<Rightarrow> EventStore list" where
  "getEvents since till name now store = order_asc es_timestamp (filter (event_where since till name now) store)"

text \<open>The listener of every event.\<close>

definition persist :: "string \<Rightarrow> Payload \<Rightarrow> event_env \<Rightarrow> EventStore list \<Rightarrow> EventStore list" where
  "persist name payload env store =
     (if name = ''event.persisted'' then store
      else storeEvent \<lparr> ie_eventName = name, ie_payload = payload, ie_source = ''EventEmitter2.onAny'', ie_type = py_type payload,
             ie_timestamp = Some (coalesce (py_timestamp payload) (ev_now env)) \<rparr> env store)"

text \<open>An event is emitted again, and so persisted again, with the clock and the id of its turn.\<close>

definition replayEvents :: "time \<Rightarrow> time option \<Rightarrow> time \<Rightarrow> (nat \<Rightarrow> event_env) \<Rightarrow> EventStore list \<Rightarrow> nat \<times> EventStore list" where
  "replayEvents since till now env store =
     (let events = getEvents (Some since) till None now store
      in (length events, fold (\<lambda>(i, e). persist (es_eventName e) (es_payload e) (env i)) (enumerate 0 events) store))"

subsection \<open>The dead letter queue\<close>

definition handleEventFailed :: "string \<Rightarrow> json \<Rightarrow> string \<Rightarrow> json \<Rightarrow> jobs_env \<Rightarrow> jobs_state \<Rightarrow> jobs_state" where
  "handleEventFailed name payload err failedAt env s =
     state_of (addJob (Some ''dead_letter'')
       (JObj [(''type'', JStr ''FAILED_EVENT''), (''eventName'', JStr name), (''eventPayload'', payload), (''error'', JStr err),
         (''failedAt'', failedAt)]) DEFAULT_JOB_OPTIONS env s)"

text \<open>\<open>DeadLetterHandler\<close> calls methods the event store does not have.\<close>

definition handleFailedEvent :: "EventStore list \<Rightarrow> (EventStore list, unit) outcome" where
  "handleFailedEvent store = (Inl (JsTypeError ''this.eventStoreService.markAsFailed is not a function''), store)"

definition retryFailedEvents :: "EventStore list \<Rightarrow> (EventStore list, unit) outcome" where
  "retryFailedEvents store = (Inl (JsTypeError ''this.eventStoreService.getFailedEvents is not a function''), store)"

subsection \<open>Retrying a method\<close>

text \<open>
  The loop of the decorator around a method given by its result in each attempt; next to the result come the
  state, the number of calls and the milliseconds waited.
\<close>

function retry_from :: "int \<Rightarrow> int \<Rightarrow> int \<Rightarrow> (int \<Rightarrow> 's \<Rightarrow> ('s, 'a) outcome) \<Rightarrow> exn \<Rightarrow> 's \<Rightarrow> (exn + 'a) \<times> 's \<times> nat \<times> int" where
  "retry_from attempt maxAttempts delayMs meth lastError s =
     (if attempt > maxAttempts then (Inl lastError, s, 0, 0)
      else (case meth attempt s of
              (Inr v, s') \<Rightarrow> (Inr v, s', 1, 0)
            | (Inl e, s') \<Rightarrow>
                (case retry_from (attempt + 1) maxAttempts delayMs meth e s' of
                   (r, t, calls, waited) \<Rightarrow> (r, t, calls + 1, waited + (if attempt < maxAttempts then delayMs else 0)))))"
  by pat_completeness auto
termination
  by (relation "measure (\<lambda>(attempt, maxAttempts, _). nat (maxAttempts + 1 - attempt))") auto

declare retry_from.simps [simp del]

definition Retry :: "int \<Rightarrow> int \<Rightarrow> (int \<Rightarrow> 's \<Rightarrow> ('s, 'a) outcome) \<Rightarrow> 's \<Rightarrow> (exn + 'a) \<times> 's \<times> nat \<times> int" where
  "Retry maxAttempts delayMs meth s = retry_from 1 maxAttempts delayMs meth (JsError ''Unknown error during retry'') s"

end
