(* ===== verification/EventLogProps.thy ===== *)
theory EventLogProps
  imports EventLog
begin

text \<open>
  Properties of the events: what a replay does to the store it reads from, and how often the retry decorator
  calls a method, how long it waits and what it answers.
\<close>

subsection \<open>Replaying\<close>

text \<open>What identifies an event to its listeners, besides its id.\<close>

definition content :: "EventStore \<Rightarrow> string \<times> Payload \<times> time" where
  "content e = (es_eventName e, es_payload e, es_timestamp e)"

text \<open>Every stored event carries its time stamp in its payload, as the events of the platform do.\<close>

definition stamped :: "EventStore list \<Rightarrow> bool" where
  "stamped store \<longleftrightarrow> (\<forall>e \<in> set store. py_timestamp (es_payload e) = Some (es_timestamp e) \<and> es_eventName e \<noteq> ''event.persisted'')"

lemma persist_stamped:
  assumes "py_timestamp (es_payload e) = Some (es_timestamp e)" and "es_eventName e \<noteq> ''event.persisted''"
  obtains x where "persist (es_eventName e) (es_payload e) env store = store @ [x]" "content x = content e"
  using assms by (simp add: persist_def storeEvent_def content_def)

lemma where_content: "content x = content e \<Longrightarrow> event_where a b n now x = event_where a b n now e"
  by (simp add: content_def event_where_def split: option.split)

text \<open>Emitting a list of stamped events again appends events with the same contents.\<close>

lemma emitted_again:
  assumes "stamped es"
  obtains xs where "fold (\<lambda>(i, e). persist (es_eventName e) (es_payload e) (env i)) (enumerate k es) store = store @ xs"
    and "map content xs = map content es"
  using assms
proof (induction es arbitrary: k store thesis)
  case Nil
  then show ?case by simp
next
  case (Cons e es)
  from Cons.prems(2) have e: "py_timestamp (es_payload e) = Some (es_timestamp e)" "es_eventName e \<noteq> ''event.persisted''" and "stamped es"
    by (simp_all add: stamped_def)
  obtain x where x: "persist (es_eventName e) (es_payload e) (env k) store = store @ [x]" "content x = content e"
    by (rule persist_stamped [OF e])
  obtain xs where xs: "fold (\<lambda>(i, e). persist (es_eventName e) (es_payload e) (env i)) (enumerate (Suc k) es) (store @ [x]) = (store @ [x]) @ xs"
      "map content xs = map content es"
    by (rule Cons.IH [OF _ \<open>stamped es\<close>])
  show ?case by (rule Cons.prems(1) [of "x # xs"]) (simp_all add: x xs)
qed

lemma stamped_append: "stamped store \<Longrightarrow> map content xs = map content es \<Longrightarrow> set es \<subseteq> set store \<Longrightarrow> stamped (store @ xs)"
proof -
  assume a: "stamped store" "map content xs = map content es" "set es \<subseteq> set store"
  have "py_timestamp (es_payload x) = Some (es_timestamp x) \<and> es_eventName x \<noteq> ''event.persisted''" if "x \<in> set xs" for x
  proof -
    from that have "content x \<in> set (map content xs)" by simp
    with a(2) obtain e where "e \<in> set es" "content x = content e" by auto
    with a(1,3) show ?thesis by (auto simp: stamped_def content_def)
  qed
  with a(1) show ?thesis by (auto simp: stamped_def)
qed

lemma filter_content:
  assumes "map content xs = map content es"
  shows "mset (map content (filter (event_where a b n now) xs)) = mset (map content (filter (event_where a b n now) es))"
  using assms
proof (induction xs arbitrary: es)
  case (Cons x xs)
  then obtain e es' where es: "es = e # es'" "content x = content e" "map content xs = map content es'" by auto
  with Cons.IH [OF es(3)] where_content [OF es(2)] show ?case by (simp add: es(1))
qed simp

definition in_range :: "time \<Rightarrow> time option \<Rightarrow> time \<Rightarrow> EventStore list \<Rightarrow> (string \<times> Payload \<times> time) multiset" where
  "in_range since till now store = mset (map content (getEvents (Some since) till None now store))"

lemma replay_once:
  assumes "stamped store"
  shows "in_range since till now (snd (replayEvents since till now env store)) = in_range since till now store + in_range since till now store
    \<and> stamped (snd (replayEvents since till now env store))"
proof -
  let ?P = "event_where (Some since) till None now" and ?es = "getEvents (Some since) till None now store"
  have sub: "set ?es \<subseteq> set store" by (auto simp: getEvents_def)
  then have "stamped ?es" using assms by (auto simp: stamped_def)
  then obtain xs where xs: "snd (replayEvents since till now env store) = store @ xs" "map content xs = map content ?es"
    by (rule emitted_again [of ?es env 0 store]) (simp add: replayEvents_def Let_def)
  have mset: "in_range since till now t = mset (map content (filter ?P t))" for t
    by (simp add: in_range_def getEvents_def order_asc_def)
  have "mset (map content (filter ?P xs)) = mset (map content (filter ?P ?es))" by (rule filter_content [OF xs(2)])
  also have "filter ?P ?es = ?es" by (rule filter_True) (auto simp: getEvents_def)
  finally have "mset (map content (filter ?P xs)) = in_range since till now store" by (simp add: in_range_def)
  then show ?thesis using stamped_append [OF assms xs(2) sub] by (simp add: xs(1) mset)
qed

text \<open>
  A replay doubles the history: the listener persists every replayed event again, under the time stamp
  of its payload and so within the replayed range, and after \<open>n\<close> replays of a range the store holds every
  event of that range, and the next replay emits it, \<open>2 ^ n\<close> times.
\<close>
theorem replay_doubles:
  assumes "stamped store"
  shows "in_range since till now (fold (\<lambda>env s. snd (replayEvents since till now env s)) envs store)
    = repeat_mset (2 ^ length envs) (in_range since till now store)"
  using assms
proof (induction envs arbitrary: store)
  case (Cons env envs)
  let ?s = "snd (replayEvents since till now env store)"
  from replay_once [OF Cons.prems, of since till now env]
  have s: "in_range since till now ?s = repeat_mset 2 (in_range since till now store)" "stamped ?s"
    by (simp_all add: numeral_2_eq_2)
  from Cons.IH [OF s(2)] show ?case by (simp add: s(1) mult.commute)
qed simp

definition one_event :: "EventStore list" where
  "one_event = persist ''quest.created'' \<lparr> py_timestamp = Some 50, py_value = JObj [], py_type = ''QuestCreatedEvent'' \<rparr>
     \<lparr> ev_now = 60, ev_newId = ''e1'' \<rparr> []"

theorem replay_doubles_witness:
  "size (in_range 0 None 100 (fold (\<lambda>env s. snd (replayEvents 0 None 100 env s))
     [\<lambda>_. \<lparr> ev_now = 70, ev_newId = ''e2'' \<rparr>, \<lambda>_. \<lparr> ev_now = 80, ev_newId = ''e3'' \<rparr>] one_event)) = 4"
proof -
  have "stamped one_event" by (simp add: stamped_def one_event_def persist_def storeEvent_def)
  moreover have "size (in_range 0 None 100 one_event) = 1"
    by (simp add: in_range_def getEvents_def order_asc_def one_event_def persist_def storeEvent_def event_where_def)
  ultimately show ?thesis using replay_doubles [of one_event 0 None 100
      "[\<lambda>_. \<lparr> ev_now = 70, ev_newId = ''e2'' \<rparr>, \<lambda>_. \<lparr> ev_now = 80, ev_newId = ''e3'' \<rparr>]"] by simp
qed

subsection \<open>Retrying\<close>

text \<open>The state before the \<open>k\<close>-th attempt.\<close>

fun before_attempt :: "(int \<Rightarrow> 's \<Rightarrow> ('s, 'a) outcome) \<Rightarrow> 's \<Rightarrow> nat \<Rightarrow> 's" where
  "before_attempt meth s 0 = s"
| "before_attempt meth s (Suc k) = state_of (meth (int k + 1) (before_attempt meth s k))"

definition attempt :: "(int \<Rightarrow> 's \<Rightarrow> ('s, 'a) outcome) \<Rightarrow> 's \<Rightarrow> nat \<Rightarrow> ('s, 'a) outcome" where
  "attempt meth s i = meth (int i + 1) (before_attempt meth s i)"

lemma retry_from_exact:
  assumes "k \<le> n"
  shows "retry_from (int k + 1) (int n) d meth e (before_attempt meth s k) =
    (case List.find (\<lambda>i. succeeds (attempt meth s i)) [k..<n] of
       Some i \<Rightarrow> (result (attempt meth s i), before_attempt meth s (Suc i), Suc i - k, int (i - k) * d)
     | None \<Rightarrow> if k = n then (Inl e, before_attempt meth s k, 0, 0)
               else (result (attempt meth s (n - 1)), before_attempt meth s n, n - k, int (n - k - 1) * d))"
  using assms
proof (induction arbitrary: e rule: inc_induct)
  case base
  show ?case by (simp add: retry_from.simps)
next
  case (step k)
  obtain q s' where m: "meth (int k + 1) (before_attempt meth s k) = (q, s')" by (rule prod.exhaust)
  have upt: "[k..<n] = k # [Suc k..<n]" using step.hyps by (simp add: upt_conv_Cons)
  show ?case
  proof (cases q)
    case (Inr v)
    then show ?thesis using step.hyps by (simp add: upt retry_from.simps [of "int k + 1"] m attempt_def)
  next
    case (Inl x)
    have run: "retry_from (int k + 1) (int n) d meth e (before_attempt meth s k) =
        (case retry_from (int (Suc k) + 1) (int n) d meth x (before_attempt meth s (Suc k)) of
           (r, t, calls, waited) \<Rightarrow> (r, t, calls + 1, waited + (if int k + 1 < int n then d else 0)))"
      using step.hyps by (simp add: retry_from.simps [of "int k + 1"] m Inl)
    have not_first: "\<not> succeeds (attempt meth s k)" by (simp add: attempt_def m Inl)
    show ?thesis
    proof (cases "List.find (\<lambda>i. succeeds (attempt meth s i)) [Suc k..<n]")
      case (Some i)
      then have "Suc k \<le> i" "i < n" by (auto dest: find_SomeD)
      then show ?thesis unfolding run step.IH upt using not_first by (simp add: Some Suc_diff_le of_nat_diff algebra_simps)
    next
      case None
      show ?thesis
      proof (cases "Suc k = n")
        case True
        then have "n - 1 = k" "n - k = 1" by auto
        moreover have "result (attempt meth s k) = Inl x" by (simp add: attempt_def m Inl)
        ultimately show ?thesis unfolding run step.IH upt using not_first None True by simp
      next
        case False
        then show ?thesis unfolding run step.IH upt using not_first None step.hyps by (simp add: of_nat_diff algebra_simps)
      qed
    qed
  qed
qed

text \<open>
  Claim C23.  The retry loop ends, and this is what it does: for every method and every number of attempts, it
  calls the method until the first success, which it answers, or as often as allowed, and then answers the
  error of the last attempt; it waits between two attempts and not after the last one.  With no attempt
  allowed it answers an error without having called the method.
\<close>
theorem retry_exact:
  "Retry (int n) d meth s =
    (case List.find (\<lambda>i. succeeds (attempt meth s i)) [0..<n] of
       Some i \<Rightarrow> (result (attempt meth s i), before_attempt meth s (Suc i), Suc i, int i * d)
     | None \<Rightarrow> if n = 0 then (Inl (JsError ''Unknown error during retry''), s, 0, 0)
               else (result (attempt meth s (n - 1)), before_attempt meth s n, n, int (n - 1) * d))"
  using retry_from_exact [of 0 n d meth "JsError ''Unknown error during retry''" s] by (simp add: Retry_def cong: option.case_cong)

lemma retry_nonpositive: "m \<le> 0 \<Longrightarrow> Retry m d meth s = (Inl (JsError ''Unknown error during retry''), s, 0, 0)"
  by (simp add: Retry_def retry_from.simps)

end
