(* ===== verification/LogSanitizer.thy ===== *)
theory LogSanitizer
  imports Regex TextCodec
begin

text \<open>
  \<open>BackEnd/src/common/logger/sanitize.util.ts\<close>: what the log keeps of a value.  JavaScript values are a
  store of objects with addresses, so that sharing and cycles are values of the model; \<open>seen\<close> is the set of the
  addresses already visited, which the recursion carries along.  Properties are listed in the order of their
  assignment; JavaScript lists names that are array indices first, which only changes the order.  \<open>sanitizeUrl\<close> works on the URL class of the
  platform and is left out.
\<close>

subsection \<open>Values\<close>

type_synonym addr = nat

datatype jsval =
  VUndefined | VNull | VBool bool | VNum rat | VBigInt int | VStr string | VFunction | VSymbol string | VRef addr

text \<open>A date has its ISO text, or none when it is invalid; an invalid date throws when the text is asked for.\<close>

datatype jsobj =
  ODate "string option"
| OError string string string
| OArray "jsval list"
| OMap "(string \<times> jsval) list"
| OSet "jsval list"
| OPlain "(string \<times> jsval) list"

type_synonym heap = "addr \<Rightarrow> jsobj option"

text \<open>What comes out: a tree.\<close>

datatype logged =
  LUndefined | LNull | LBool bool | LNum rat | LStr string | LArr "logged list" | LObj "(string \<times> logged) list"

subsection \<open>What is sensitive\<close>

definition SENSITIVE_KEY_PATTERNS :: "string list" where
  "SENSITIVE_KEY_PATTERNS = [''password'', ''passwd'', ''pwd'', ''token'', ''secret'', ''authorization'', ''auth'', ''apikey'', ''api_key'',
     ''api-key'', ''accesstoken'', ''access_token'', ''access-token'', ''refreshtoken'', ''refresh_token'', ''refresh-token'', ''bearer'',
     ''credential'', ''private'', ''privatekey'', ''private_key'', ''ssn'', ''social_security'', ''credit_card'', ''creditcard'',
     ''card_number'', ''cardnumber'', ''cvv'', ''cvc'', ''pin'', ''otp'', ''session'', ''cookie'', ''jwt'', ''x-api-key'', ''x-auth-token'']"

definition no_dashes :: "string \<Rightarrow> string" where
  "no_dashes s = filter (\<lambda>c. c \<noteq> CHR ''-'' \<and> c \<noteq> CHR ''_'') s"

definition isSensitiveKey :: "string \<Rightarrow> bool" where
  "isSensitiveKey key = list_ex (\<lambda>pattern. includes_str (no_dashes (lower key)) (no_dashes pattern)) SENSITIVE_KEY_PATTERNS"

text \<open>
  The five patterns, anchored at both ends: a scheme and its credentials on one line, the two kinds of
  numbers, and a run of at least twenty characters of base 64.
\<close>

definition scheme_value :: "string \<Rightarrow> string \<Rightarrow> bool" where
  "scheme_value scheme v \<longleftrightarrow>
     (let n = length scheme; rest = drop n v
      in lower (take n v) = scheme \<and> n \<le> length v
         \<and> (\<exists>i < length rest. 0 < i \<and> list_all is_space (take i rest)
              \<and> list_all (\<lambda>c. c \<noteq> CHR 0x0A \<and> c \<noteq> CHR 0x0D) (drop i rest)))"

definition ssn_value :: "string \<Rightarrow> bool" where
  "ssn_value v \<longleftrightarrow> length v = 11 \<and> list_all is_digit (take 3 v) \<and> v ! 3 = CHR ''-'' \<and> list_all is_digit (take 2 (drop 4 v))
     \<and> v ! 6 = CHR ''-'' \<and> list_all is_digit (drop 7 v)"

fun card_groups :: "nat \<Rightarrow> string \<Rightarrow> bool" where
  "card_groups 0 v = (v = [])"
| "card_groups (Suc n) v =
     (length v \<ge> 4 \<and> list_all is_digit (take 4 v)
      \<and> (let r = drop 4 v in card_groups n r
           \<or> (n \<noteq> 0 \<and> (case r of c # cs \<Rightarrow> (is_space c \<or> c = CHR ''-'') \<and> card_groups n cs | [] \<Rightarrow> False))))"

definition is_base64 :: "char \<Rightarrow> bool" where
  "is_base64 c \<longleftrightarrow> is_digit c \<or> c = CHR ''+'' \<or> c = CHR ''/'' \<or> (let n = of_char (lower_char c) :: nat in 97 \<le> n \<and> n \<le> 122)"

definition base64_value :: "string \<Rightarrow> bool" where
  "base64_value v \<longleftrightarrow> (let body = takeWhile is_base64 v; padding = dropWhile is_base64 v
     in 20 \<le> length body \<and> padding \<in> {[], ''='', ''==''})"

definition isSensitiveValue :: "string \<Rightarrow> bool" where
  "isSensitiveValue v \<longleftrightarrow> scheme_value ''bearer'' v \<or> scheme_value ''basic'' v \<or> ssn_value v \<or> card_groups 4 v \<or> base64_value v"

definition MASK :: string where
  "MASK = ''[REDACTED]''"

definition MAX_DEPTH :: nat where
  "MAX_DEPTH = 10"

definition MAX_STRING_LENGTH :: nat where
  "MAX_STRING_LENGTH = 10000"

definition truncateString :: "string \<Rightarrow> string" where
  "truncateString v = (if length v > MAX_STRING_LENGTH then take MAX_STRING_LENGTH v @ ''... [truncated]'' else v)"

definition sanitize_text :: "string \<Rightarrow> logged" where
  "sanitize_text v = (if isSensitiveValue v then LStr MASK else LStr (truncateString v))"

subsection \<open>The recursion\<close>

text \<open>
  Elements from left to right, the set of visited objects passed on; what throws in one of them ends the whole.
\<close>

fun walk_list :: "('a \<Rightarrow> addr set \<Rightarrow> exn + 'b \<times> addr set) \<Rightarrow> 'a list \<Rightarrow> addr set \<Rightarrow> exn + 'b list \<times> addr set" where
  "walk_list f [] seen = Inr ([], seen)"
| "walk_list f (x # xs) seen =
     (case f x seen of
        Inl e \<Rightarrow> Inl e
      | Inr (y, seen1) \<Rightarrow>
          (case walk_list f xs seen1 of Inl e \<Rightarrow> Inl e | Inr (ys, seen2) \<Rightarrow> Inr (y # ys, seen2)))"

definition masked_entry ::
    "(jsval \<Rightarrow> addr set \<Rightarrow> exn + logged \<times> addr set) \<Rightarrow> string \<times> jsval \<Rightarrow> addr set \<Rightarrow> exn + (string \<times> logged) \<times> addr set" where
  "masked_entry f = (\<lambda>(k, v) seen.
     if isSensitiveKey k then Inr ((k, LStr MASK), seen)
     else (case f v seen of Inl e \<Rightarrow> Inl e | Inr (w, seen') \<Rightarrow> Inr ((k, w), seen')))"

definition invalid_time :: exn where
  "invalid_time = JsError ''Invalid time value''"

definition done_with :: "('a \<Rightarrow> logged) \<Rightarrow> exn + 'a \<times> addr set \<Rightarrow> exn + logged \<times> addr set" where
  "done_with g r = (case r of Inl e \<Rightarrow> Inl e | Inr (x, seen) \<Rightarrow> Inr (g x, seen))"

text \<open>
  The properties assigned to a fresh object: a later value of the same name replaces the earlier one in its place.
\<close>

definition as_object :: "(string \<times> logged) list \<Rightarrow> (string \<times> logged) list" where
  "as_object ps = fold (\<lambda>(k, v) acc. if map_of acc k = None then acc @ [(k, v)]
     else map (\<lambda>(k', w). (k', if k' = k then v else w)) acc) ps []"

text \<open>The depth is counted down from the maximum: \<open>fuel\<close> levels remain below this one.\<close>

fun sanitize_at :: "heap \<Rightarrow> nat \<Rightarrow> jsval \<Rightarrow> addr set \<Rightarrow> exn + logged \<times> addr set" where
  "sanitize_at h 0 v seen = Inr (LStr ''[Max depth exceeded]'', seen)"
| "sanitize_at h (Suc fuel) v seen =
     (case v of
        VUndefined \<Rightarrow> Inr (LUndefined, seen)
      | VNull \<Rightarrow> Inr (LNull, seen)
      | VStr t \<Rightarrow> Inr (sanitize_text t, seen)
      | VNum n \<Rightarrow> Inr (LNum n, seen)
      | VBool b \<Rightarrow> Inr (LBool b, seen)
      | VBigInt i \<Rightarrow> Inr (LStr (show_int i), seen)
      | VFunction \<Rightarrow> Inr (LStr ''[Function]'', seen)
      | VSymbol t \<Rightarrow> Inr (LStr (''Symbol('' @ t @ '')''), seen)
      | VRef a \<Rightarrow>
          (case h a of
             None \<Rightarrow> Inr (LUndefined, seen)
           | Some (ODate None) \<Rightarrow> Inl invalid_time
           | Some (ODate (Some day)) \<Rightarrow> Inr (LStr day, seen)
           | Some (OError name message stack) \<Rightarrow>
               (case sanitize_at h fuel (VStr message) seen of
                  Inl e \<Rightarrow> Inl e
                | Inr (m, seen1) \<Rightarrow> Inr (LObj [(''name'', LStr name), (''message'', m), (''stack'', LStr stack)], seen1))
           | Some obj \<Rightarrow>
               if a \<in> seen then Inr (LStr ''[Circular Reference]'', seen)
               else (let seen1 = insert a seen; rec = sanitize_at h fuel
                     in case obj of
                          OArray xs \<Rightarrow> done_with LArr (walk_list rec xs seen1)
                        | OSet xs \<Rightarrow> done_with LArr (walk_list rec xs seen1)
                        | OMap ps \<Rightarrow> done_with (LObj \<circ> as_object) (walk_list (masked_entry rec) ps seen1)
                        | OPlain ps \<Rightarrow> done_with (LObj \<circ> as_object) (walk_list (masked_entry rec) ps seen1)
                        | _ \<Rightarrow> Inr (LUndefined, seen1))))"

definition sanitizeLogObject :: "heap \<Rightarrow> jsval \<Rightarrow> exn + logged" where
  "sanitizeLogObject h v =
     (case sanitize_at h (MAX_DEPTH + 1) v {} of Inl e \<Rightarrow> Inl e | Inr (w, _) \<Rightarrow> Inr w)"

definition sanitizeBody :: "heap \<Rightarrow> jsval \<Rightarrow> exn + logged" where
  "sanitizeBody = sanitizeLogObject"

definition sensitiveHeaders :: "string list" where
  "sensitiveHeaders = [''authorization'', ''cookie'', ''set-cookie'', ''x-api-key'', ''x-auth-token'', ''x-access-token'', ''x-refresh-token'',
     ''proxy-authorization'']"

definition sanitizeHeaders :: "(string \<times> jsval) list \<Rightarrow> (string \<times> jsval) list" where
  "sanitizeHeaders = map (\<lambda>(k, v). (k, if lower k \<in> set sensitiveHeaders then VStr MASK else v))"

end
