(* ===== verification/LogSanitizerProps.thy ===== *)
theory LogSanitizerProps
  imports LogSanitizer
begin

text \<open>
  Properties of the log sanitiser: what never reaches the log, for every store, also with cycles, and where
  it hides too much or too little.
\<close>

subsection \<open>Keys\<close>

text \<open>
  The names whose values are secret, without the code's normalisation: those that contain one of these
  words when dashes and underscores are left out, with any letters in upper case.
\<close>

definition secret_words :: "string list" where
  "secret_words = [''password'', ''passwd'', ''pwd'', ''token'', ''secret'', ''auth'', ''apikey'', ''bearer'', ''credential'',
     ''private'', ''ssn'', ''socialsecurity'', ''creditcard'', ''cardnumber'', ''cvv'', ''cvc'', ''pin'', ''otp'', ''session'',
     ''cookie'', ''jwt'']"

definition secret_name :: "string \<Rightarrow> bool" where
  "secret_name k \<longleftrightarrow> (\<exists>w \<in> set secret_words. \<exists>u v x.
     filter (\<lambda>c. c \<noteq> CHR ''-'' \<and> c \<noteq> CHR ''_'') k = u @ v @ x \<and> spelled v w)"

lemma lower_char_dash: "(lower_char c = CHR ''-'') = (c = CHR ''-'')" "(lower_char c = CHR ''_'') = (c = CHR ''_'')"
  by (simp_all add: lower_letter letter_of_def)

lemma no_dashes_lower: "no_dashes (lower k) = lower (no_dashes k)"
  by (induction k) (simp_all add: no_dashes_def lower_def lower_char_dash)

lemma secret_sensitive:
  assumes "secret_name k" shows "isSensitiveKey k"
proof -
  obtain w u v x where w: "w \<in> set secret_words" "no_dashes k = u @ v @ x" "spelled v w"
    using assms unfolding secret_name_def no_dashes_def by blast
  have words: "list_all (\<lambda>w. list_ex (\<lambda>p. no_dashes p = w) SENSITIVE_KEY_PATTERNS
      \<and> list_all (\<lambda>c. lower_char c = c) w) secret_words" by code_simp
  with w(1) obtain p where p: "p \<in> set SENSITIVE_KEY_PATTERNS" "no_dashes p = w" and low: "\<forall>c \<in> set w. lower_char c = c"
    unfolding list_all_iff list_ex_iff by blast
  have "\<forall>c \<in> set w. \<not> upper_letter c" using low lower_char_no_upper by metis
  then have "lower v = w" using w(3) by (simp add: lower_spelled)
  then have "no_dashes (lower k) = lower u @ w @ lower x" unfolding no_dashes_lower w(2) by (simp add: lower_def)
  then have "includes_str (no_dashes (lower k)) (no_dashes p)" unfolding includes_str_iff p(2) by blast
  with p(1) show ?thesis unfolding isSensitiveKey_def list_ex_iff by blast
qed

text \<open>Every value under a secret name is the mask, at every depth.\<close>

fun masked :: "logged \<Rightarrow> bool" where
  "masked (LArr xs) = list_all masked xs"
| "masked (LObj ps) = list_all (\<lambda>(k, w). (secret_name k \<longrightarrow> w = LStr ''[REDACTED]'') \<and> masked w) ps"
| "masked _ = True"

text \<open>A result is fine, or an invalid date of the store has thrown.\<close>

definition outcome_ok :: "heap \<Rightarrow> ('a \<Rightarrow> bool) \<Rightarrow> exn + 'a \<times> addr set \<Rightarrow> bool" where
  "outcome_ok h P r \<longleftrightarrow> (case r of
     Inl e \<Rightarrow> e = invalid_time \<and> (\<exists>a. h a = Some (ODate None)) | Inr (x, _) \<Rightarrow> P x)"

lemma outcome_ok_simps [simp]:
  "outcome_ok h P (Inr (x, s)) = P x"
  "outcome_ok h P (Inl e) = (e = invalid_time \<and> (\<exists>a. h a = Some (ODate None)))"
  by (simp_all add: outcome_ok_def)

lemma walk_list_all:
  assumes "\<And>x s. x \<in> set xs \<Longrightarrow> outcome_ok h P (f x s)"
  shows "outcome_ok h (list_all P) (walk_list f xs seen)"
  using assms
proof (induction xs arbitrary: seen)
  case (Cons x xs)
  from Cons.prems [of x seen] have one: "outcome_ok h P (f x seen)" by simp
  have rest: "outcome_ok h (list_all P) (walk_list f xs s)" for s using Cons by simp
  show ?case
  proof (cases "f x seen")
    case (Inr p)
    obtain y s1 where p: "p = (y, s1)" by (rule prod.exhaust)
    with one rest [of s1] Inr show ?thesis by (cases "walk_list f xs s1") auto
  qed (use one in simp)
qed simp

abbreviation entry_ok :: "string \<times> logged \<Rightarrow> bool" where
  "entry_ok \<equiv> \<lambda>(k, w). (secret_name k \<longrightarrow> w = LStr ''[REDACTED]'') \<and> masked w"

lemma as_object_ok: "list_all entry_ok ps \<Longrightarrow> list_all entry_ok (as_object ps)"
proof -
  have "list_all entry_ok acc \<Longrightarrow> list_all entry_ok ps \<Longrightarrow>
    list_all entry_ok (fold (\<lambda>(k, v) acc. if map_of acc k = None then acc @ [(k, v)]
      else map (\<lambda>(k', w). (k', if k' = k then v else w)) acc) ps acc)" for acc
  proof (induction ps arbitrary: acc)
    case (Cons p ps)
    obtain k v where p: "p = (k, v)" by (rule prod.exhaust)
    have "list_all entry_ok (map (\<lambda>(k', w). (k', if k' = k then v else w)) acc)"
      using Cons.prems by (auto simp: list_all_iff p)
    with Cons show ?case by (simp add: p)
  qed simp
  then show "list_all entry_ok ps \<Longrightarrow> list_all entry_ok (as_object ps)" by (simp add: as_object_def)
qed

lemma masked_entry_ok:
  assumes "\<And>v s. outcome_ok h masked (f v s)"
  shows "outcome_ok h entry_ok (masked_entry f p s)"
proof (cases p)
  case (Pair k v)
  show ?thesis
  proof (cases "isSensitiveKey k")
    case True
    then show ?thesis by (simp add: Pair masked_entry_def MASK_def)
  next
    case False
    with assms [of v s] secret_sensitive [of k] show ?thesis
      by (auto simp: Pair masked_entry_def outcome_ok_def split: sum.splits prod.splits)
  qed
qed

lemma done_with_ok: "outcome_ok h P r \<Longrightarrow> (\<And>x. P x \<Longrightarrow> masked (g x)) \<Longrightarrow> outcome_ok h masked (done_with g r)"
  by (auto simp: done_with_def outcome_ok_def split: sum.splits)

lemma plain_names: "\<not> secret_name ''name''" "\<not> secret_name ''message''" "\<not> secret_name ''stack''"
proof -
  have "\<not> isSensitiveKey ''name''" "\<not> isSensitiveKey ''message''" "\<not> isSensitiveKey ''stack''" by code_simp+
  then show "\<not> secret_name ''name''" "\<not> secret_name ''message''" "\<not> secret_name ''stack''"
    using secret_sensitive by blast+
qed

lemma masked_text [simp]: "masked (sanitize_text t)"
  by (simp add: sanitize_text_def)

lemma masked_at: "outcome_ok h masked (sanitize_at h fuel v seen)"
proof (induction fuel arbitrary: v seen)
  case (Suc fuel)
  have lists: "outcome_ok h (list_all masked) (walk_list (sanitize_at h fuel) xs s)" for xs s
    by (rule walk_list_all) (rule Suc.IH)
  have objects: "outcome_ok h (list_all entry_ok) (walk_list (masked_entry (sanitize_at h fuel)) ps s)" for ps s
    by (intro walk_list_all masked_entry_ok Suc.IH)
  have arr: "outcome_ok h masked (done_with LArr (walk_list (sanitize_at h fuel) xs s))" for xs s
    by (rule done_with_ok [OF lists]) simp
  have obj: "outcome_ok h masked (done_with (LObj \<circ> as_object) (walk_list (masked_entry (sanitize_at h fuel)) ps s))" for ps s
    by (rule done_with_ok [OF objects]) (simp only: comp_apply masked.simps as_object_ok)
  show ?case
  proof (cases v)
    case (VRef a)
    show ?thesis
    proof (cases "h a")
      case (Some ob)
      show ?thesis
      proof (cases ob)
        case (ODate d)
        then show ?thesis using Some VRef by (cases d) auto
      next
        case (OError n m st)
        with Suc.IH [of "VStr m" seen] show ?thesis
          by (auto simp: Some VRef plain_names outcome_ok_def split: sum.splits prod.splits)
      qed (use arr obj in \<open>simp_all add: Some VRef Let_def\<close>)
    qed (simp add: VRef)
  qed simp_all
qed simp

text \<open>
  Claim C24.  No secret that is stored under its name reaches the log: for every value in every store, with
  shared and with cyclic objects, the sanitiser ends; it gives a result in which every property whose name
  contains one of the secret words, however its letters are cased and with dashes and underscores anywhere
  in it, at every depth, is the mask; or it throws, which it only does when the store has an invalid date.
\<close>
theorem secrets_masked:
  "(\<exists>w. sanitizeLogObject h v = Inr w \<and> masked w)
   \<or> (sanitizeLogObject h v = Inl (JsError ''Invalid time value'') \<and> (\<exists>a. h a = Some (ODate None)))"
  using masked_at [of h "MAX_DEPTH + 1" v "{}"]
  by (auto simp: sanitizeLogObject_def outcome_ok_def invalid_time_def split: sum.splits)

theorem secrets_masked_witness:
  "(\<exists>w. sanitizeLogObject ((\<lambda>_. None)(0 \<mapsto> OPlain [(''Pass-Word'', VStr ''x''), (''self'', VRef 0)])) (VRef 0) = Inr w \<and> masked w)"
  using secrets_masked [of "(\<lambda>_. None)(0 \<mapsto> OPlain [(''Pass-Word'', VStr ''x''), (''self'', VRef 0)])" "VRef 0"]
  by (auto split: if_splits)

subsection \<open>Too little and too much\<close>

text \<open>The stack of an exception is kept as it is; it repeats the message that was masked.\<close>

lemma stack_leaks:
  assumes "h a = Some (OError n (''Bearer '' @ t) s)" and "t \<noteq> []" and "list_all (\<lambda>c. c \<noteq> CHR 0x0A \<and> c \<noteq> CHR 0x0D) t"
  shows "sanitizeLogObject h (VRef a) = Inr (LObj [(''name'', LStr n), (''message'', LStr MASK), (''stack'', LStr s)])"
proof -
  have scheme: "lower ''Bearer'' = ''bearer'' \<and> is_space (CHR '' '')" by code_simp
  have "scheme_value ''bearer'' (''Bearer'' @ CHR '' '' # t)"
    unfolding scheme_value_def Let_def
    using assms(2,3) scheme by (auto intro!: exI [of _ 1])
  then have "isSensitiveValue (''Bearer '' @ t)" by (simp add: isSensitiveValue_def)
  then have "sanitize_text (''Bearer '' @ t) = LStr MASK" by (simp only: sanitize_text_def if_True)
  then show ?thesis using assms(1)
    by (simp add: sanitizeLogObject_def MAX_DEPTH_def numeral_eq_Suc del: append_Cons)
qed

text \<open>An object used twice without any cycle is reported as circular the second time.\<close>

lemma shared_is_not_circular:
  "sanitizeLogObject ((\<lambda>_. None)(0 \<mapsto> OArray [VRef 1, VRef 1], 1 \<mapsto> OPlain [(''x'', VNum 1)])) (VRef 0)
   = Inr (LArr [LObj [(''x'', LNum 1)], LStr ''[Circular Reference]''])"
  by (simp add: sanitizeLogObject_def MAX_DEPTH_def numeral_eq_Suc as_object_def masked_entry_def done_with_def isSensitiveKey_def
      SENSITIVE_KEY_PATTERNS_def no_dashes_def lower_def lower_char_def starts_with_def)

text \<open>Harmless names that contain a pattern are hidden.\<close>

lemma overmasked: "isSensitiveKey ''shippingAddress'' \<and> isSensitiveKey ''authorId'' \<and> isSensitiveKey ''mapping''"
  by code_simp

end
