(* ===== verification/Calendar.thy ===== *)
theory Calendar
  imports TextCodec
begin

text \<open>
  The proleptic Gregorian calendar of JavaScript's \<open>Date\<close>: \<open>MakeDay\<close> and its inverse, the setters the
  back end uses, and the texts of \<open>toISOString\<close>.  A date is its number of milliseconds since 1970.  The server
  runs in UTC, so the local setters are those of UTC.
\<close>

definition MS_DAY :: int where
  "MS_DAY = 86400000"

definition utc_day :: "time \<Rightarrow> int" where
  "utc_day t = t div MS_DAY"

definition ms_of_day :: "time \<Rightarrow> int" where
  "ms_of_day t = t mod MS_DAY"

lemma day_ms: "utc_day t * MS_DAY + ms_of_day t = t"
  by (simp add: utc_day_def ms_of_day_def)

lemma ms_of_day_bounds: "0 \<le> ms_of_day t" "ms_of_day t < MS_DAY"
  by (simp_all add: ms_of_day_def MS_DAY_def)

subsection \<open>Years\<close>

definition is_leap :: "int \<Rightarrow> bool" where
  "is_leap y \<longleftrightarrow> y mod 4 = 0 \<and> (y mod 100 \<noteq> 0 \<or> y mod 400 = 0)"

text \<open>The first day of a year.\<close>

definition year_day :: "int \<Rightarrow> int" where
  "year_day y = 365 * (y - 1970) + (y - 1969) div 4 - (y - 1901) div 100 + (y - 1601) div 400"

text \<open>The year of a day: the average length of a year gives it up to one.\<close>

definition year_of :: "int \<Rightarrow> int" where
  "year_of d =
     (let y = 1970 + 400 * d div 146097
      in if d < year_day y then y - 1 else if year_day (y + 1) \<le> d then y + 1 else y)"

lemma div_bounds: "0 < k \<Longrightarrow> k * (a div k) \<le> a \<and> a < k * (a div k) + k" for a k :: int
  using pos_mod_sign [of k a] pos_mod_bound [of k a] by (simp add: minus_mod_eq_mult_div [symmetric])

lemma div_next: "0 < k \<Longrightarrow> (a + 1) div k = a div k + (if (a + 1) mod k = 0 then 1 else 0)" for a k :: int
proof -
  assume k: "0 < k"
  let ?q = "a div k" and ?r = "a mod k"
  have a: "a + 1 = ?q * k + (?r + 1)" by simp
  show ?thesis
  proof (cases "?r + 1 = k")
    case True
    with a have "a + 1 = (?q + 1) * k" by (simp add: distrib_right)
    then show ?thesis using k by simp
  next
    case False
    with k pos_mod_bound [of k a] pos_mod_sign [of k a] have r: "0 \<le> ?r + 1" "?r + 1 < k" "?r + 1 \<noteq> 0" by linarith+
    have "(?q * k + (?r + 1)) div k = ?q + (?r + 1) div k" using k by (intro div_mult_self3) simp
    then have "(a + 1) div k = ?q + (?r + 1) div k" by (simp only: a [symmetric])
    moreover have "(?q * k + (?r + 1)) mod k = (?r + 1) mod k" by (rule mod_mult_self3)
    then have "(a + 1) mod k = (?r + 1) mod k" by (simp only: a [symmetric])
    ultimately show ?thesis using r by (simp only: div_pos_pos_trivial mod_pos_pos_trivial if_False)
  qed
qed

lemma year_day_bounds:
  "146097 * (y - 1970) - 506 \<le> 400 * year_day y" "400 * year_day y \<le> 146097 * (y - 1970) + 589"
proof -
  have bounds: "146097 * (y - 1970) - 506 \<le> 400 * (365 * (y - 1970) + a - b + c)
      \<and> 400 * (365 * (y - 1970) + a - b + c) \<le> 146097 * (y - 1970) + 589"
    if "4 * a \<le> y - 1969 \<and> y - 1969 < 4 * a + 4" "100 * b \<le> y - 1901 \<and> y - 1901 < 100 * b + 100"
      "400 * c \<le> y - 1601 \<and> y - 1601 < 400 * c + 400" for a b c :: int
  proof -
    from that have "4 * a \<le> y - 1969" "y - 1969 < 4 * a + 4" "100 * b \<le> y - 1901" "y - 1901 < 100 * b + 100"
      "400 * c \<le> y - 1601" "y - 1601 < 400 * c + 400" by blast+
    then show ?thesis by (simp add: algebra_simps)
  qed
  have "146097 * (y - 1970) - 506 \<le> 400 * year_day y \<and> 400 * year_day y \<le> 146097 * (y - 1970) + 589"
    unfolding year_day_def by (intro bounds div_bounds zero_less_numeral)
  then show "146097 * (y - 1970) - 506 \<le> 400 * year_day y" "400 * year_day y \<le> 146097 * (y - 1970) + 589" by (rule conjunct1, rule conjunct2)
qed

lemma div_year: "(y + 1 - c) div k = (y - c) div k + (if y mod k = 0 then 1 else 0)"
  if "0 < k" and "c = k * n + 1" for k n c :: int
proof -
  have "y - c + 1 = y + 1 - c" "y - c + 1 = y + k * (- n)" using that(2) by simp_all
  then have "(y - c + 1) mod k = y mod k" "(y - c + 1) div k = (y + 1 - c) div k"
    using mod_mult_self2 [of y k "- n"] by presburger+
  with div_next [OF that(1), of "y - c"] show ?thesis by (simp only:)
qed

lemma year_length: "year_day (y + 1) = year_day y + (if is_leap y then 366 else 365)"
proof -
  have quotients: "(y + 1 - 1969) div 4 = (y - 1969) div 4 + (if y mod 4 = 0 then 1 else 0)"
    "(y + 1 - 1901) div 100 = (y - 1901) div 100 + (if y mod 100 = 0 then 1 else 0)"
    "(y + 1 - 1601) div 400 = (y - 1601) div 400 + (if y mod 400 = 0 then 1 else 0)"
    by (rule div_year [where n = 492], simp, simp) (rule div_year [where n = 19], simp, simp, rule div_year [where n = 4], simp, simp)
  have "y mod 100 = 0 \<Longrightarrow> y mod 4 = 0" using mod_mod_cancel [of 4 100 y] by simp
  moreover have "y mod 400 = 0 \<Longrightarrow> y mod 100 = 0" using mod_mod_cancel [of 100 400 y] by simp
  ultimately show ?thesis unfolding year_day_def is_leap_def quotients
    by (cases "y mod 4 = 0"; cases "y mod 100 = 0"; cases "y mod 400 = 0") simp_all
qed

lemma year_of_correct: "year_day (year_of d) \<le> d \<and> d < year_day (year_of d + 1)"
proof -
  define q where "q = 400 * d div 146097"
  have q: "146097 * q \<le> 400 * d" "400 * d < 146097 * q + 146097"
    using div_bounds [OF zero_less_numeral, of _ "400 * d"] by (simp_all only: q_def)
  from year_day_bounds(2) [of "1970 + q - 1"] q(1) have "year_day (1970 + q - 1) \<le> d" by simp
  moreover from year_day_bounds(1) [of "1970 + q + 2"] q(2) have "d < year_day (1970 + q + 2)" by simp
  ultimately show ?thesis by (auto simp: year_of_def Let_def simp flip: q_def)
qed

lemma year_day_mono: "x \<le> y \<Longrightarrow> year_day x \<le> year_day y"
proof (induction "nat (y - x)" arbitrary: y)
  case (Suc n)
  then have "n = nat ((y - 1) - x)" "x \<le> y - 1" by simp_all
  from Suc.hyps(1) [OF this] year_length [of "y - 1"] show ?case by (simp split: if_splits)
qed simp

lemma year_of_unique:
  assumes "year_day y \<le> d" and "d < year_day (y + 1)"
  shows "year_of d = y"
proof -
  have "year_of d < y \<Longrightarrow> False" using year_day_mono [of "year_of d + 1" y] year_of_correct [of d] assms by linarith
  moreover have "y < year_of d \<Longrightarrow> False" using year_day_mono [of "y + 1" "year_of d"] year_of_correct [of d] assms by linarith
  ultimately show ?thesis by force
qed

subsection \<open>Months\<close>

text \<open>The first days of the months within a year, and of the next year.\<close>

definition month_starts :: "bool \<Rightarrow> int list" where
  "month_starts leap =
     (if leap then [0, 31, 60, 91, 121, 152, 182, 213, 244, 274, 305, 335, 366]
      else [0, 31, 59, 90, 120, 151, 181, 212, 243, 273, 304, 334, 365])"

definition month_day :: "bool \<Rightarrow> nat \<Rightarrow> int" where
  "month_day leap m = month_starts leap ! m"

text \<open>\<open>MakeDay(year, month, date)\<close>, months counted from zero and out of range carried over.\<close>

definition make_day :: "int \<Rightarrow> int \<Rightarrow> int \<Rightarrow> int" where
  "make_day y m date =
     (let ym = y + m div 12 in year_day ym + month_day (is_leap ym) (nat (m mod 12)) + date - 1)"

definition month_of :: "int \<Rightarrow> nat" where
  "month_of d =
     (let y = year_of d; k = d - year_day y in length (filter (\<lambda>s. s \<le> k) (month_starts (is_leap y))) - 1)"

definition date_of :: "int \<Rightarrow> int" where
  "date_of d = (let y = year_of d in d - year_day y - month_day (is_leap y) (month_of d) + 1)"

lemma month_cases: "m < 12 \<Longrightarrow> m = 0 \<or> m = 1 \<or> m = 2 \<or> m = 3 \<or> m = 4 \<or> m = 5 \<or> m = 6 \<or> m = 7 \<or> m = 8 \<or> m = 9 \<or> m = 10 \<or> m = (11 :: nat)"
  by arith

lemma month_length: "m < 12 \<Longrightarrow> month_day leap m + 28 \<le> month_day leap (Suc m) \<and> month_day leap (Suc m) \<le> month_day leap m + 31"
  by (drule month_cases) (auto simp: month_day_def month_starts_def)

lemma month_of_bounds:
  "month_of d < 12 \<and> month_day (is_leap (year_of d)) (month_of d) \<le> d - year_day (year_of d)
     \<and> d - year_day (year_of d) < month_day (is_leap (year_of d)) (Suc (month_of d))"
proof -
  let ?l = "is_leap (year_of d)" and ?k = "d - year_day (year_of d)"
  have "0 \<le> ?k" "?k < (if ?l then 366 else 365)" using year_of_correct [of d] year_length [of "year_of d"] by (auto split: if_splits)
  then show ?thesis
    by (cases ?l) (auto simp: month_of_def Let_def month_day_def month_starts_def)
qed

lemma date_of_bounds: "1 \<le> date_of d" "date_of d \<le> 31"
  using month_of_bounds [of d] month_length [of "month_of d" "is_leap (year_of d)"] by (simp_all add: date_of_def Let_def)

text \<open>\<open>MakeDay\<close> reads back what the getters give.\<close>

lemma make_day_of: "make_day (year_of d) (int (month_of d)) (date_of d + n) = d + n"
  using month_of_bounds [of d] by (simp add: make_day_def date_of_def Let_def)

text \<open>A month later is later, and at most as many days as the longest month has.\<close>

lemma next_month: "make_day y (int m + 1) date \<ge> make_day y (int m) date + 28 \<and> make_day y (int m + 1) date \<le> make_day y (int m) date + 31"
  if "m < 12"
proof (cases "m = 11")
  case True
  then show ?thesis using year_length [of y] by (auto simp: make_day_def month_day_def month_starts_def)
next
  case False
  with that have "(int m + 1) mod 12 = int (Suc m)" "(int m + 1) div 12 = 0" "int m mod 12 = int m" "int m div 12 = 0" by simp_all
  with month_length [OF that, of "is_leap y"] show ?thesis by (simp only: make_day_def Let_def nat_int) simp
qed

subsection \<open>Setters\<close>

definition add_days :: "int \<Rightarrow> time \<Rightarrow> time" where
  "add_days n t = make_day (year_of (utc_day t)) (int (month_of (utc_day t))) (date_of (utc_day t) + n) * MS_DAY + ms_of_day t"

definition add_months :: "int \<Rightarrow> time \<Rightarrow> time" where
  "add_months n t = make_day (year_of (utc_day t)) (int (month_of (utc_day t)) + n) (date_of (utc_day t)) * MS_DAY + ms_of_day t"

definition add_hours :: "int \<Rightarrow> time \<Rightarrow> time" where
  "add_hours n t = t + n * 3600000"

definition start_of_day :: "time \<Rightarrow> time" where
  "start_of_day t = utc_day t * MS_DAY"

definition end_of_day :: "time \<Rightarrow> time" where
  "end_of_day t = utc_day t * MS_DAY + (MS_DAY - 1)"

lemma add_days_eq: "add_days n t = t + n * MS_DAY"
  using day_ms [of t] by (simp add: add_days_def make_day_of distrib_right)

lemma add_months_later: "t + 28 * MS_DAY \<le> add_months 1 t" "add_months 1 t \<le> t + 31 * MS_DAY"
proof -
  let ?d = "utc_day t"
  have "make_day (year_of ?d) (int (month_of ?d)) (date_of ?d) = ?d" using make_day_of [of ?d 0] by simp
  with next_month [of "month_of ?d" "year_of ?d" "date_of ?d"] month_of_bounds [of ?d]
  have "?d + 28 \<le> make_day (year_of ?d) (int (month_of ?d) + 1) (date_of ?d)"
    "make_day (year_of ?d) (int (month_of ?d) + 1) (date_of ?d) \<le> ?d + 31" by simp_all
  then show "t + 28 * MS_DAY \<le> add_months 1 t" "add_months 1 t \<le> t + 31 * MS_DAY"
    using day_ms [of t] by (simp_all add: add_months_def MS_DAY_def)
qed

subsection \<open>Texts\<close>

definition pad :: "nat \<Rightarrow> string \<Rightarrow> string" where
  "pad n s = replicate (n - length s) CHR ''0'' @ s"

text \<open>\<open>toISOString().split('T')[0]\<close>; years outside of four digits get a sign and six digits.\<close>

definition year_text :: "int \<Rightarrow> string" where
  "year_text y =
     (if 0 \<le> y \<and> y \<le> 9999 then pad 4 (show_nat (nat y))
      else (if y < 0 then ''-'' else ''+'') @ pad 6 (show_nat (nat \<bar>y\<bar>)))"

definition day_text :: "int \<Rightarrow> string" where
  "day_text d = year_text (year_of d) @ ''-'' @ pad 2 (show_nat (month_of d + 1)) @ ''-'' @ pad 2 (show_nat (nat (date_of d)))"

definition formatDate :: "time \<Rightarrow> string" where
  "formatDate t = day_text (utc_day t)"

definition toISOString :: "time \<Rightarrow> string" where
  "toISOString t =
     (let ms = nat (ms_of_day t)
      in formatDate t @ ''T'' @ pad 2 (show_nat (ms div 3600000)) @ '':'' @ pad 2 (show_nat (ms div 60000 mod 60)) @ '':''
         @ pad 2 (show_nat (ms div 1000 mod 60)) @ ''.'' @ pad 3 (show_nat (ms mod 1000)) @ ''Z'')"

text \<open>Different days have different texts.\<close>

lemma digits_pad: "digits_value (pad n s) = digits_value s"
proof -
  have "digits_value (replicate k CHR ''0'' @ s) = digits_value s" for k
    by (induction k) (simp_all add: digits_value_def digit_value_def)
  then show ?thesis by (simp add: pad_def)
qed

end
