(* ===== verification/AnalyticsTools.thy ===== *)
theory AnalyticsTools
  imports Calendar EmailTemplates "HOL-Library.AList"
begin

text \<open>
  What the analytics module computes without its database: \<open>ConversionUtil\<close>, \<open>DateRangeUtil\<close>,
  \<open>TimeSeriesUtil\<close> (\<open>modules/analytics/utils\<close>), the loops over dates of \<open>BaseAnalyticsAggregator\<close>, and the
  exporter (\<open>exporters/base-exporter.ts\<close>).  Numbers are rationals; a \<open>bigint\<close> column comes back as the
  decimal text of its value, which is kept as that value.  A loop that does not end has the value \<open>None\<close>.
\<close>

subsection \<open>ConversionUtil\<close>

definition math_round :: "rat \<Rightarrow> int" where
  "math_round x = floor (x + 1 / 2)"

definition percent_of :: "rat \<Rightarrow> rat \<Rightarrow> rat" where
  "percent_of part whole = (if whole = 0 then 0 else of_int (math_round (part / whole * 100 * 100)) / 100)"

definition calculateApprovalRate :: "rat \<Rightarrow> rat \<Rightarrow> rat" where
  "calculateApprovalRate approved whole = percent_of approved whole"

definition calculateRetentionRate :: "rat \<Rightarrow> rat \<Rightarrow> rat" where
  "calculateRetentionRate totalUsers activeUsers = percent_of activeUsers totalUsers"

definition calculateConversionRate :: "rat \<Rightarrow> rat \<Rightarrow> rat" where
  "calculateConversionRate conversions whole = percent_of conversions whole"

text \<open>The two fields of each row; a row with one of them missing is left out.\<close>

definition calculateAverageTime :: "(time option \<times> time option) list \<Rightarrow> rat" where
  "calculateAverageTime rows =
     (let valid = [b - a. (Some a, Some b) \<leftarrow> rows]
      in if valid = [] then 0
         else of_int (math_round (sum_list (map (\<lambda>d. rat_of_int d / 3600000) valid) / of_nat (length valid) * 100)) / 100)"

definition calculateAverage :: "rat list \<Rightarrow> rat" where
  "calculateAverage vs = (if vs = [] then 0 else of_int (math_round (sum_list vs / of_nat (length vs) * 100)) / 100)"

definition sumBigIntStrings :: "int option list \<Rightarrow> string" where
  "sumBigIntStrings vs = show_int (sum_list (map (\<lambda>v. coalesce v 0) vs))"

definition round_to :: "rat \<Rightarrow> nat \<Rightarrow> rat" where
  "round_to v decimals = of_int (math_round (v * 10 ^ decimals)) / 10 ^ decimals"

subsection \<open>DateRangeUtil\<close>

text \<open>\<open>new Date(text)\<close> is an argument: the formats besides ISO 8601 are the platform's.\<close>

definition default_range :: "time \<Rightarrow> time \<times> time" where
  "default_range now = (start_of_day (add_days (- 30) now), end_of_day now)"

definition parseDateRange :: "(string \<Rightarrow> time option) \<Rightarrow> string option \<Rightarrow> string option \<Rightarrow> time \<Rightarrow> exn + time \<times> time" where
  "parseDateRange parse startDate endDate now =
     (if \<not> truthy startDate \<or> \<not> truthy endDate then Inr (default_range now)
      else (case parse (the startDate) of
              None \<Rightarrow> Inl (JsError (''Invalid start date format: '' @ the startDate))
            | Some start \<Rightarrow>
                (case parse (the endDate) of
                   None \<Rightarrow> Inl (JsError (''Invalid end date format: '' @ the endDate))
                 | Some stop \<Rightarrow>
                     if start > stop then Inl (JsError ''Start date must be before or equal to end date'')
                     else Inr (start, stop))))"

definition getDaysDifference :: "time \<Rightarrow> time \<Rightarrow> int" where
  "getDaysDifference a b = (\<bar>b - a\<bar> + (MS_DAY - 1)) div MS_DAY"

definition validateMaxRange :: "time \<Rightarrow> time \<Rightarrow> int \<Rightarrow> exn + unit" where
  "validateMaxRange startDate endDate maxDays =
     (if getDaysDifference startDate endDate > maxDays
      then Inl (JsError (''Date range cannot exceed '' @ show_int maxDays @ '' days. Requested range: ''
                         @ show_int (getDaysDifference startDate endDate) @ '' days''))
      else Inr ())"

definition getStartOfDay :: "time \<Rightarrow> time" where
  "getStartOfDay = start_of_day"

definition getEndOfDay :: "time \<Rightarrow> time" where
  "getEndOfDay = end_of_day"

definition isDateInRange :: "time \<Rightarrow> time \<Rightarrow> time \<Rightarrow> bool" where
  "isDateInRange date a b \<longleftrightarrow> a \<le> date \<and> date \<le> b"

subsection \<open>Loops over dates\<close>

text \<open>\<open>while (current <= end) { ...; step }\<close>: the dates the body sees.\<close>

partial_function (option) walk_dates :: "(time \<Rightarrow> bool) \<Rightarrow> (time \<Rightarrow> time) \<Rightarrow> time \<Rightarrow> time list option" where
  "walk_dates inside step cur =
     (if inside cur then Option.bind (walk_dates inside step (step cur)) (\<lambda>ds. Some (cur # ds)) else Some [])"

declare walk_dates.simps [code]

text \<open>The switch over the granularity: a value none of the cases names changes nothing.\<close>

definition aggregation_step :: "string option \<Rightarrow> time \<Rightarrow> time" where
  "aggregation_step granularity =
     (if granularity = Some ''hourly'' then add_hours 1
      else if granularity = Some ''daily'' then add_days 1
      else if granularity = Some ''weekly'' then add_days 7
      else if granularity = Some ''monthly'' then add_months 1
      else id)"

text \<open>
  The bounds arrive as dates or, from a route that does not convert them, as texts: the start is made a date,
  the end is compared as it is, and a text that is no number is never reached.
\<close>

datatype date_arg = DateArg time | TextArg string | InvalidDate

definition as_date :: "(string \<Rightarrow> time option) \<Rightarrow> date_arg \<Rightarrow> time option" where
  "as_date parse d = (case d of DateArg t \<Rightarrow> Some t | TextArg s \<Rightarrow> parse s | InvalidDate \<Rightarrow> None)"

definition not_after :: "date_arg \<Rightarrow> time \<Rightarrow> bool" where
  "not_after d t =
     (case d of
        DateArg e \<Rightarrow> t \<le> e
      | TextArg s \<Rightarrow> (case js_number s of None \<Rightarrow> False | Some r \<Rightarrow> of_int t \<le> r)
      | InvalidDate \<Rightarrow> False)"

text \<open>\<open>new Date(text)\<close>.\<close>

definition new_date :: "(string \<Rightarrow> time option) \<Rightarrow> string \<Rightarrow> date_arg" where
  "new_date parse s = (case parse s of Some t \<Rightarrow> DateArg t | None \<Rightarrow> InvalidDate)"

definition generateDateRanges :: "(string \<Rightarrow> time option) \<Rightarrow> date_arg \<Rightarrow> date_arg \<Rightarrow> string option \<Rightarrow> time list option" where
  "generateDateRanges parse startDate endDate granularity =
     (case as_date parse startDate of
        None \<Rightarrow> Some []
      | Some t \<Rightarrow> walk_dates (not_after endDate) (aggregation_step granularity) t)"

definition getDateRange :: "time \<Rightarrow> string option \<Rightarrow> time \<times> time" where
  "getDateRange date granularity = (date, aggregation_step granularity date)"

subsection \<open>TimeSeriesUtil\<close>

definition series_step :: "string \<Rightarrow> time \<Rightarrow> time" where
  "series_step granularity =
     (if granularity = ''day'' then add_days 1
      else if granularity = ''week'' then add_days 7
      else if granularity = ''month'' then add_months 1
      else id)"

text \<open>A point of the data has a date and a count; the rest of it is spread into the result.\<close>

record 'a data_point =
  dp_date :: time
  dp_count :: nat
  dp_rest :: 'a

datatype 'a filled = Zero string | Given "'a data_point"

definition fill_one :: "'a data_point list \<Rightarrow> time \<Rightarrow> 'a filled" where
  "fill_one data t =
     (case List.find (\<lambda>d. formatDate (dp_date d) = formatDate t) data of
        None \<Rightarrow> Zero (formatDate t)
      | Some d \<Rightarrow> Given d)"

definition fillMissingDates :: "'a data_point list \<Rightarrow> time \<Rightarrow> time \<Rightarrow> string \<Rightarrow> 'a filled list option" where
  "fillMissingDates data startDate endDate granularity =
     map_option (map (fill_one data)) (walk_dates (\<lambda>t. t \<le> endDate) (series_step granularity) startDate)"

definition parseDate :: "(string \<Rightarrow> time option) \<Rightarrow> string \<Rightarrow> exn + time" where
  "parseDate parse dateStr =
     (case parse dateStr of None \<Rightarrow> Inl (JsError (''Invalid date format: '' @ dateStr)) | Some t \<Rightarrow> Inr t)"

definition series_default_range :: "time \<Rightarrow> time \<times> time" where
  "series_default_range now = (add_days (- 30) now, now)"

definition validateDateRange :: "time \<Rightarrow> time \<Rightarrow> int \<Rightarrow> exn + unit" where
  "validateDateRange startDate endDate maxDays =
     (if startDate > endDate then Inl (JsError ''Start date must be before end date'')
      else if getDaysDifference startDate endDate > maxDays
      then Inl (JsError (''Date range cannot exceed '' @ show_int maxDays @ '' days''))
      else Inr ())"

subsection \<open>The exporter\<close>

datatype ReportFormat = JSON | CSV | PDF | EXCEL

record ExportOptions =
  eo_format :: ReportFormat
  eo_includeHeaders :: "bool option"
  eo_delimiter :: "string option"

record ExportResult =
  ex_data :: string
  ex_mimeType :: string
  ex_fileName :: string
  ex_size :: nat

text \<open>
  The platform: the clock and its local text, the text of a number that is no integer, and
  \<open>JSON.stringify(data, null, 2)\<close>.
\<close>

record export_env =
  xe_now :: time
  xe_localeNow :: string
  xe_num :: "rat \<Rightarrow> string"
  xe_stringify :: "json \<Rightarrow> string"

text \<open>\<open>value || ''\<close> keeps neither zero nor \<open>false\<close>.\<close>

definition falsy :: "json \<Rightarrow> bool" where
  "falsy v \<longleftrightarrow> v = JNull \<or> v = JBool False \<or> v = JNum 0 \<or> v = JStr []"

definition cell_text :: "(rat \<Rightarrow> string) \<Rightarrow> json \<Rightarrow> string" where
  "cell_text num v = (if falsy v then [] else js_text num v)"

definition quoted :: "string \<Rightarrow> string" where
  "quoted s = [CHR 0x22] @ replace_all (lit [CHR 0x22]) [CHR 0x22, CHR 0x22] s @ [CHR 0x22]"

definition escapeCsvValue :: "(rat \<Rightarrow> string) \<Rightarrow> string \<Rightarrow> json \<Rightarrow> string" where
  "escapeCsvValue num delimiter v =
     (let s = cell_text num v
      in if includes_str s delimiter \<or> includes_str s [CHR 0x22] \<or> includes_str s [CHR 0x0A] then quoted s else s)"

text \<open>\<open>Object.entries\<close>.\<close>

definition entries :: "json \<Rightarrow> exn + (string \<times> json) list" where
  "entries v =
     (case v of
        JObj ps \<Rightarrow> Inr ps
      | JArr xs \<Rightarrow> Inr (map (\<lambda>(i, x). (show_nat i, x)) (enumerate 0 xs))
      | JStr s \<Rightarrow> Inr (map (\<lambda>(i, c). (show_nat i, JStr [c])) (enumerate 0 s))
      | JNull \<Rightarrow> Inl (JsTypeError ''Cannot convert undefined or null to object'')
      | _ \<Rightarrow> Inr [])"

text \<open>A property set again keeps its place.\<close>

definition set_property :: "string \<Rightarrow> json \<Rightarrow> (string \<times> json) list \<Rightarrow> (string \<times> json) list" where
  "set_property k v ps = AList.update k v ps"

fun flattenObject :: "json \<Rightarrow> string \<Rightarrow> (string \<times> json) list" where
  "flattenObject (JObj ps) prefix =
     fold (\<lambda>(k, v) acc.
       (let newKey = (if prefix = [] then k else prefix @ ''.'' @ k)
        in case v of
             JObj _ \<Rightarrow> fold (\<lambda>(k', w). set_property k' w) (flattenObject v newKey) acc
           | _ \<Rightarrow> set_property newKey v acc)) ps []"
| "flattenObject _ prefix = []"

definition csv_line :: "string \<Rightarrow> string list \<Rightarrow> string" where
  "csv_line delimiter cells = join_with delimiter cells @ [CHR 0x0A]"

text \<open>The rows of an array, up to one that is null.\<close>

fun csv_rows :: "(rat \<Rightarrow> string) \<Rightarrow> string \<Rightarrow> json list \<Rightarrow> exn + string" where
  "csv_rows num delimiter [] = Inr []"
| "csv_rows num delimiter (x # xs) =
     (case entries x of
        Inl e \<Rightarrow> Inl e
      | Inr ps \<Rightarrow> map_sum id ((@) (csv_line delimiter (map (escapeCsvValue num delimiter \<circ> snd) ps))) (csv_rows num delimiter xs))"

definition csv_content :: "(rat \<Rightarrow> string) \<Rightarrow> json \<Rightarrow> ExportOptions \<Rightarrow> exn + string" where
  "csv_content num data opts =
     (let delimiter = or_default (eo_delimiter opts) '',''; includeHeaders = (eo_includeHeaders opts \<noteq> Some False)
      in case data of
           JArr [] \<Rightarrow> Inr []
         | JArr (x # xs) \<Rightarrow>
             (case entries x of
                Inl e \<Rightarrow> Inl e
              | Inr ps \<Rightarrow> map_sum id ((@) (if includeHeaders then csv_line delimiter (map fst ps) else []))
                            (csv_rows num delimiter (x # xs)))
         | JObj ps \<Rightarrow>
             (let flattened = flattenObject data []
              in Inr ((if includeHeaders then csv_line delimiter (map fst flattened) else [])
                      @ csv_line delimiter (map (escapeCsvValue num delimiter \<circ> snd) flattened)))
         | JNull \<Rightarrow> Inl (JsTypeError ''Cannot convert undefined or null to object'')
         | _ \<Rightarrow> Inr [])"

text \<open>The length of the buffer: characters from 128 on take two bytes.\<close>

definition utf8_size :: "string \<Rightarrow> nat" where
  "utf8_size s = sum_list (map (\<lambda>c. if (of_char c :: nat) < 128 then 1 else 2) s)"

definition export_file :: "export_env \<Rightarrow> string \<Rightarrow> string \<Rightarrow> string \<Rightarrow> ExportResult" where
  "export_file env content mimeType extension =
     \<lparr> ex_data = content, ex_mimeType = mimeType, ex_fileName = ''analytics-report-'' @ show_int (xe_now env) @ extension,
       ex_size = utf8_size content \<rparr>"

definition exportToJson :: "export_env \<Rightarrow> json \<Rightarrow> ExportResult" where
  "exportToJson env data = export_file env (xe_stringify env data) ''application/json'' ''.json''"

definition exportToCsv :: "export_env \<Rightarrow> json \<Rightarrow> ExportOptions \<Rightarrow> exn + ExportResult" where
  "exportToCsv env data opts = map_sum id (\<lambda>c. export_file env c ''text/csv'' ''.csv'') (csv_content (xe_num env) data opts)"

definition exportToExcel :: "export_env \<Rightarrow> json \<Rightarrow> ExportOptions \<Rightarrow> exn + ExportResult" where
  "exportToExcel env data opts =
     map_sum id (\<lambda>r. r\<lparr>ex_mimeType := ''application/vnd.openxmlformats-officedocument.spreadsheetml.sheet'',
                      ex_fileName := ''analytics-report-'' @ show_int (xe_now env) @ ''.xlsx''\<rparr>) (exportToCsv env data opts)"

text \<open>The page: nothing in it is escaped.\<close>

definition html_cells :: "string \<Rightarrow> string list \<Rightarrow> string" where
  "html_cells tag cells = concat (map (\<lambda>c. ''<'' @ tag @ ''>'' @ c @ ''</'' @ tag @ ''>'') cells)"

fun html_rows :: "(rat \<Rightarrow> string) \<Rightarrow> json list \<Rightarrow> exn + string" where
  "html_rows num [] = Inr []"
| "html_rows num (x # xs) =
     (case entries x of
        Inl e \<Rightarrow> Inl e
      | Inr ps \<Rightarrow> map_sum id ((@) (''<tr>'' @ html_cells ''td'' (map (js_text num \<circ> snd) ps) @ ''</tr>'')) (html_rows num xs))"

definition nl :: "nat \<Rightarrow> string" where
  "nl n = CHR 0x0A # replicate n CHR '' ''"

definition html_head :: "string \<Rightarrow> string" where
  "html_head localeNow =
     nl 6 @ ''<!DOCTYPE html>'' @ nl 6 @ ''<html>'' @ nl 6 @ ''<head>'' @ nl 8 @ ''<title>Analytics Report</title>'' @ nl 8 @ ''<style>''
     @ nl 10 @ ''body { font-family: Arial, sans-serif; margin: 20px; }'' @ nl 10 @ ''h1 { color: #333; }''
     @ nl 10 @ ''table { border-collapse: collapse; width: 100%; margin: 20px 0; }''
     @ nl 10 @ ''th, td { border: 1px solid #ddd; padding: 8px; text-align: left; }''
     @ nl 10 @ ''th { background-color: #f2f2f2; }'' @ nl 10 @ ''tr:nth-child(even) { background-color: #f9f9f9; }''
     @ nl 8 @ ''</style>'' @ nl 6 @ ''</head>'' @ nl 6 @ ''<body>'' @ nl 8 @ ''<h1>Analytics Report</h1>''
     @ nl 8 @ ''<p>Generated on: '' @ localeNow @ ''</p>'' @ nl 4"

definition generateHtmlReport :: "export_env \<Rightarrow> json \<Rightarrow> exn + string" where
  "generateHtmlReport env data =
     (let num = xe_num env; wrap = (\<lambda>body. html_head (xe_localeNow env) @ body @ ''</body></html>'')
      in case data of
           JArr [] \<Rightarrow> Inr (wrap (''<table>'' @ ''</table>''))
         | JArr (x # xs) \<Rightarrow>
             (case entries x of
                Inl e \<Rightarrow> Inl e
              | Inr ps \<Rightarrow> map_sum id (\<lambda>rows. wrap (''<table><tr>'' @ html_cells ''th'' (map fst ps) @ ''</tr>'' @ rows @ ''</table>''))
                            (html_rows num (x # xs)))
         | JObj ps \<Rightarrow>
             Inr (wrap (''<table>'' @ concat (map (\<lambda>(k, v). ''<tr><th>'' @ k @ ''</th><td>'' @ js_text num v @ ''</td></tr>'') ps)
                        @ ''</table>''))
         | JNull \<Rightarrow> Inl (JsTypeError ''Cannot convert undefined or null to object'')
         | _ \<Rightarrow> Inr (wrap []))"

definition exportToPdf :: "export_env \<Rightarrow> json \<Rightarrow> exn + ExportResult" where
  "exportToPdf env data = map_sum id (\<lambda>c. export_file env c ''application/pdf'' ''.pdf'') (generateHtmlReport env data)"

definition export :: "export_env \<Rightarrow> json \<Rightarrow> ExportOptions \<Rightarrow> exn + ExportResult" where
  "export env data opts =
     (case eo_format opts of
        JSON \<Rightarrow> Inr (exportToJson env data)
      | CSV \<Rightarrow> exportToCsv env data opts
      | EXCEL \<Rightarrow> exportToExcel env data opts
      | PDF \<Rightarrow> exportToPdf env data)"

end
