(* ===== verification/Aggregation.thy ===== *)
theory Aggregation
  imports AnalyticsTools Repository
begin

text \<open>
  The aggregation of the analytics module: its entities (\<open>modules/analytics/entities\<close>), the aggregators
  (\<open>aggregators\<close>), \<open>AnalyticsAggregationService\<close> and the routes of \<open>AnalyticsController\<close> that start an
  aggregation.  A column of type \<open>date\<close> keeps the day.  An aggregator reads \<open>this.snapshotRepository\<close>, which
  its constructor has set to \<open>undefined\<close>; whether it is defined is an argument of the two methods that use it and of the
  loop that calls them.  The methods of the aggregators all pass \<open>False\<close>, as their constructors do: the value \<open>True\<close>
  is for the base class alone, whose constructor takes a repository, and does not occur in the program.
  What the library answers to a query with a property or a column that the entity does not have (\<open>organizationId\<close>,
  \<open>questId\<close>, \<open>userId\<close>, \<open>xp\<close>, \<open>payout.status\<close>) is not in this repository and is part of the environment.
\<close>

subsection \<open>Entities\<close>

datatype AnalyticsQuestStatus = ACTIVE | PAUSED | COMPLETED | EXPIRED

fun show_AnalyticsQuestStatus :: "AnalyticsQuestStatus \<Rightarrow> string" where
  "show_AnalyticsQuestStatus ACTIVE = ''Active''"
| "show_AnalyticsQuestStatus PAUSED = ''Paused''"
| "show_AnalyticsQuestStatus COMPLETED = ''Completed''"
| "show_AnalyticsQuestStatus EXPIRED = ''Expired''"

datatype SubmissionStatus = PENDING | APPROVED | REJECTED | PAID

fun show_SubmissionStatus :: "SubmissionStatus \<Rightarrow> string" where
  "show_SubmissionStatus PENDING = ''Pending''"
| "show_SubmissionStatus APPROVED = ''Approved''"
| "show_SubmissionStatus REJECTED = ''Rejected''"
| "show_SubmissionStatus PAID = ''Paid''"

record AnalyticsUser =
  us_id :: id
  us_stellarAddress :: "string option"
  us_username :: "string option"
  us_totalXp :: int
  us_level :: int
  us_questsCompleted :: int
  us_badges :: "string list"
  us_createdAt :: time

record AnalyticsQuest =
  aq_id :: id
  aq_title :: string
  aq_status :: AnalyticsQuestStatus
  aq_rewardAmount :: int
  aq_createdAt :: time

record AnalyticsSubmission =
  sb_quest :: "id option"
  sb_user :: "id option"
  sb_status :: SubmissionStatus
  sb_submittedAt :: time
  sb_reviewedAt :: "time option"
  sb_createdAt :: time

record AnalyticsPayout =
  po_quest :: "id option"
  po_recipient :: "id option"
  po_amount :: int
  po_paidAt :: time
  po_createdAt :: time

datatype SnapshotType = PLATFORM | QUEST | USER

fun show_SnapshotType :: "SnapshotType \<Rightarrow> string" where
  "show_SnapshotType PLATFORM = ''platform''"
| "show_SnapshotType QUEST = ''quest''"
| "show_SnapshotType USER = ''user''"

definition parse_SnapshotType :: "string \<Rightarrow> SnapshotType option" where
  "parse_SnapshotType t = List.find (\<lambda>s. show_SnapshotType s = t) [PLATFORM, QUEST, USER]"

record AnalyticsSnapshot =
  sn_id :: id
  sn_date :: int
  sn_type :: SnapshotType
  sn_referenceId :: "id option"
  sn_metrics :: "(string \<times> json) list"
  sn_createdAt :: time

subsection \<open>BaseAnalyticsAggregator\<close>

record AggregationOptions =
  ao_startDate :: date_arg
  ao_endDate :: date_arg
  ao_granularity :: "string option"
  ao_organizationId :: "string option"

record AggregationResult =
  ag_date :: time
  ag_metrics :: "(string \<times> json) list"
  ag_type :: SnapshotType
  ag_referenceId :: "id option"

record aggregation_env =
  gv_parse :: "string \<Rightarrow> time option"
  gv_now :: time
  gv_newId :: "time \<Rightarrow> id"
  gv_num :: "rat \<Rightarrow> string"
  gv_count :: "string \<Rightarrow> (string \<times> string) list \<Rightarrow> nat \<Rightarrow> exn + nat"
  gv_find :: "(string \<times> string) list \<Rightarrow> int list \<Rightarrow> exn + int list"
  gv_xp :: "(string \<times> string) list \<Rightarrow> time \<times> time \<Rightarrow> exn + int list"
  gv_completed :: "id option \<Rightarrow> time \<times> time \<Rightarrow> exn + string option"

definition undefined_property :: "string \<Rightarrow> exn" where
  "undefined_property p = JsTypeError (''Cannot read properties of undefined (reading '' @ [CHR 0x27] @ p @ [CHR 0x27] @ '')'')"

definition saveSnapshot ::
    "bool \<Rightarrow> aggregation_env \<Rightarrow> AggregationResult \<Rightarrow> AnalyticsSnapshot list \<Rightarrow> (AnalyticsSnapshot list, unit) outcome" where
  "saveSnapshot defined env r snaps =
     (if \<not> defined then (Inl (undefined_property ''create''), snaps)
      else (Inr (), snaps @ [\<lparr> sn_id = gv_newId env (ag_date r), sn_date = utc_day (ag_date r), sn_type = ag_type r,
              sn_referenceId = ag_referenceId r, sn_metrics = ag_metrics r, sn_createdAt = gv_now env \<rparr>]))"

definition same_snapshot :: "time \<Rightarrow> SnapshotType \<Rightarrow> id option \<Rightarrow> AnalyticsSnapshot \<Rightarrow> bool" where
  "same_snapshot date t ref sn \<longleftrightarrow>
     sn_date sn = utc_day date \<and> sn_type sn = t \<and> (truthy ref \<longrightarrow> sn_referenceId sn = ref)"

definition snapshotExists :: "bool \<Rightarrow> time \<Rightarrow> SnapshotType \<Rightarrow> id option \<Rightarrow> AnalyticsSnapshot list \<Rightarrow> exn + bool" where
  "snapshotExists defined date t ref snaps =
     (if \<not> defined then Inl (undefined_property ''createQueryBuilder'')
      else Inr (0 < count_rows (same_snapshot date t ref) snaps))"

text \<open>The conditions besides the range of creation; a count or a search with such a condition is the library's to answer.\<close>

definition getCommonConditions :: "string option \<Rightarrow> (string \<times> string) list" where
  "getCommonConditions organizationId = (if truthy organizationId then [(''organizationId'', the organizationId)] else [])"

definition counted_rows :: "aggregation_env \<Rightarrow> string \<Rightarrow> (string \<times> string) list \<Rightarrow> ('r \<Rightarrow> bool) \<Rightarrow> 'r list \<Rightarrow> exn + nat" where
  "counted_rows env entity conditions P rows =
     (if conditions = [] then Inr (count_rows P rows) else gv_count env entity conditions (count_rows P rows))"

text \<open>\<open>Promise.all\<close> over counts: all their results, or the first failure.\<close>

fun all_counts :: "(exn + nat) list \<Rightarrow> exn + nat list" where
  "all_counts [] = Inr []"
| "all_counts (Inl e # rs) = Inl e"
| "all_counts (Inr n # rs) = map_sum id ((#) n) (all_counts rs)"

text \<open>The loop of the aggregators over the periods.\<close>

fun aggregate_dates ::
    "bool \<Rightarrow> aggregation_env \<Rightarrow> (time \<times> time \<Rightarrow> exn + (string \<times> json) list) \<Rightarrow> SnapshotType \<Rightarrow> id option \<Rightarrow> string option
     \<Rightarrow> time list \<Rightarrow> AggregationResult list \<Rightarrow> AnalyticsSnapshot list \<Rightarrow> (AnalyticsSnapshot list, AggregationResult list) outcome" where
  "aggregate_dates defined env metrics t ref granularity [] results snaps = (Inr results, snaps)"
| "aggregate_dates defined env metrics t ref granularity (date # dates) results snaps =
     (case snapshotExists defined date t ref snaps of
        Inl e \<Rightarrow> (Inl e, snaps)
      | Inr True \<Rightarrow> aggregate_dates defined env metrics t ref granularity dates results snaps
      | Inr False \<Rightarrow>
          (case metrics (getDateRange date granularity) of
             Inl e \<Rightarrow> (Inl e, snaps)
           | Inr m \<Rightarrow>
               (let r = \<lparr> ag_date = date, ag_metrics = m, ag_type = t, ag_referenceId = ref \<rparr>
                in case saveSnapshot defined env r snaps of
                     (Inl e, snaps') \<Rightarrow> (Inl e, snaps')
                   | (Inr _, snaps') \<Rightarrow> aggregate_dates defined env metrics t ref granularity dates (results @ [r]) snaps')))"

definition aggregate ::
    "bool \<Rightarrow> aggregation_env \<Rightarrow> (time \<times> time \<Rightarrow> exn + (string \<times> json) list) \<Rightarrow> SnapshotType \<Rightarrow> id option
     \<Rightarrow> AggregationOptions \<Rightarrow> AnalyticsSnapshot list \<Rightarrow> (AnalyticsSnapshot list, AggregationResult list) outcome option" where
  "aggregate defined env metrics t ref opts snaps =
     map_option (\<lambda>dates. aggregate_dates defined env metrics t ref (ao_granularity opts) dates [] snaps)
       (generateDateRanges (gv_parse env) (ao_startDate opts) (ao_endDate opts) (ao_granularity opts))"

subsection \<open>QuestAnalyticsAggregator\<close>

text \<open>Percentages here are not rounded.\<close>

definition ratio :: "nat \<Rightarrow> nat \<Rightarrow> rat" where
  "ratio part whole = (if 0 < whole then of_nat part / of_nat whole * 100 else 0)"

definition between :: "time \<times> time \<Rightarrow> time \<Rightarrow> bool" where
  "between p t \<longleftrightarrow> fst p \<le> t \<and> t \<le> snd p"

definition completion_times :: "(AnalyticsSubmission \<Rightarrow> bool) \<Rightarrow> time \<times> time \<Rightarrow> AnalyticsSubmission list \<Rightarrow> int list" where
  "completion_times P p subs =
     [b - sb_submittedAt s. s \<leftarrow> subs, P s, sb_status s = APPROVED, between p (sb_submittedAt s), b \<leftarrow> (case sb_reviewedAt s of None \<Rightarrow> [] | Some b \<Rightarrow> [b])]"

definition average_hours :: "int list \<Rightarrow> rat" where
  "average_hours ds = (if ds = [] then 0 else rat_of_int (sum_list ds) / of_nat (length ds) / 3600000)"

definition calculateAverageCompletionTime :: "time \<times> time \<Rightarrow> AnalyticsSubmission list \<Rightarrow> rat" where
  "calculateAverageCompletionTime p subs = average_hours (completion_times (\<lambda>_. True) p subs)"

definition calculateAverageCompletionTimeByQuest :: "id \<Rightarrow> time \<times> time \<Rightarrow> AnalyticsSubmission list \<Rightarrow> rat" where
  "calculateAverageCompletionTimeByQuest questId p subs = average_hours (completion_times (\<lambda>s. sb_quest s = Some questId) p subs)"

definition calculateRewardMetrics ::
    "aggregation_env \<Rightarrow> string option \<Rightarrow> time \<times> time \<Rightarrow> AnalyticsQuest list \<Rightarrow> exn + (string \<times> json) list" where
  "calculateRewardMetrics env organizationId p qs =
     (let conditions = getCommonConditions organizationId;
          found = map aq_rewardAmount (filter (\<lambda>q. between p (aq_createdAt q)) qs)
      in case (if conditions = [] then Inr found else gv_find env conditions found) of
           Inl e \<Rightarrow> Inl e
         | Inr amounts \<Rightarrow>
             (let rewards = map rat_of_int amounts
              in Inr (if rewards = [] then [(''totalRewardPool'', JStr ''0''), (''averageRewardPerQuest'', JStr ''0'')]
                      else [(''totalRewardPool'', JStr (js_text (gv_num env) (JNum (sum_list rewards)))),
                            (''averageRewardPerQuest'', JStr (js_text (gv_num env) (JNum (sum_list rewards / of_nat (length rewards)))))])))"

definition calculateQuestMetrics ::
    "aggregation_env \<Rightarrow> string option \<Rightarrow> AnalyticsQuest list \<Rightarrow> AnalyticsSubmission list \<Rightarrow> time \<times> time
     \<Rightarrow> exn + (string \<times> json) list" where
  "calculateQuestMetrics env organizationId qs subs p =
     (let conditions = getCommonConditions organizationId;
          quests = (\<lambda>P. counted_rows env ''Quest'' conditions (\<lambda>q. between p (aq_createdAt q) \<and> P q) qs);
          submissions = (\<lambda>P. counted_rows env ''Submission'' conditions (\<lambda>s. between p (sb_createdAt s) \<and> P s) subs)
      in case all_counts [quests (\<lambda>_. True), quests (\<lambda>q. aq_status q = ACTIVE), quests (\<lambda>q. aq_status q = COMPLETED)] of
           Inr [totalQuests, activeQuests, completedQuests] \<Rightarrow>
             (case all_counts [submissions (\<lambda>_. True), submissions (\<lambda>s. sb_status s = APPROVED), submissions (\<lambda>s. sb_status s = REJECTED)] of
                Inr [totalSubmissions, approvedSubmissions, rejectedSubmissions] \<Rightarrow>
                  map_sum id (\<lambda>rewardMetrics.
                      [(''totalQuests'', JNum (of_nat totalQuests)), (''activeQuests'', JNum (of_nat activeQuests)),
                       (''completedQuests'', JNum (of_nat completedQuests)), (''totalSubmissions'', JNum (of_nat totalSubmissions)),
                       (''approvedSubmissions'', JNum (of_nat approvedSubmissions)),
                       (''rejectedSubmissions'', JNum (of_nat rejectedSubmissions)),
                       (''completionRate'', JNum (ratio completedQuests totalQuests)),
                       (''approvalRate'', JNum (ratio approvedSubmissions totalSubmissions)),
                       (''averageCompletionTime'', JNum (calculateAverageCompletionTime p subs))] @ rewardMetrics)
                    (calculateRewardMetrics env organizationId p qs)
              | r \<Rightarrow> map_sum id (\<lambda>_. []) r)
         | r \<Rightarrow> map_sum id (\<lambda>_. []) r)"

definition calculateQuestMetricsById ::
    "aggregation_env \<Rightarrow> id \<Rightarrow> string option \<Rightarrow> AnalyticsQuest list \<Rightarrow> AnalyticsSubmission list \<Rightarrow> time \<times> time
     \<Rightarrow> exn + (string \<times> json) list" where
  "calculateQuestMetricsById env questId organizationId qs subs p =
     (case find_row (\<lambda>q. aq_id q = questId) qs of
        None \<Rightarrow> Inl (JsError (''Quest with ID '' @ questId @ '' not found''))
      | Some quest \<Rightarrow>
          (let submissions = (\<lambda>P. counted_rows env ''Submission'' (getCommonConditions organizationId @ [(''questId'', questId)])
                 (\<lambda>s. between p (sb_createdAt s) \<and> sb_quest s = Some questId \<and> P s) subs);
               one = (\<lambda>b. JNum (if b then 1 else 0)); amount = JStr (show_int (aq_rewardAmount quest))
           in case all_counts [submissions (\<lambda>_. True), submissions (\<lambda>s. sb_status s = APPROVED), submissions (\<lambda>s. sb_status s = REJECTED)] of
                Inr [totalSubmissions, approvedSubmissions, rejectedSubmissions] \<Rightarrow>
                  Inr [(''totalQuests'', JNum 1), (''activeQuests'', one (aq_status quest = ACTIVE)),
                       (''completedQuests'', one (aq_status quest = COMPLETED)), (''totalSubmissions'', JNum (of_nat totalSubmissions)),
                       (''approvedSubmissions'', JNum (of_nat approvedSubmissions)),
                       (''rejectedSubmissions'', JNum (of_nat rejectedSubmissions)),
                       (''completionRate'', JNum (if aq_status quest = COMPLETED then 100 else 0)),
                       (''approvalRate'', JNum (ratio approvedSubmissions totalSubmissions)),
                       (''averageCompletionTime'', JNum (calculateAverageCompletionTimeByQuest questId p subs)),
                       (''totalRewardPool'', amount), (''averageRewardPerQuest'', amount)]
              | r \<Rightarrow> map_sum id (\<lambda>_. []) r))"

definition aggregateQuestMetrics ::
    "bool \<Rightarrow> aggregation_env \<Rightarrow> AnalyticsQuest list \<Rightarrow> AnalyticsSubmission list \<Rightarrow> AggregationOptions \<Rightarrow> AnalyticsSnapshot list
     \<Rightarrow> (AnalyticsSnapshot list, AggregationResult list) outcome option" where
  "aggregateQuestMetrics defined env qs subs opts snaps =
     aggregate defined env (calculateQuestMetrics env (ao_organizationId opts) qs subs) QUEST None opts snaps"

definition aggregateQuestMetricsById ::
    "bool \<Rightarrow> aggregation_env \<Rightarrow> AnalyticsQuest list \<Rightarrow> AnalyticsSubmission list \<Rightarrow> id \<Rightarrow> AggregationOptions \<Rightarrow> AnalyticsSnapshot list
     \<Rightarrow> (AnalyticsSnapshot list, AggregationResult list) outcome option" where
  "aggregateQuestMetricsById defined env qs subs questId opts snaps =
     aggregate defined env (calculateQuestMetricsById env questId (ao_organizationId opts) qs subs) QUEST (Some questId) opts snaps"

subsection \<open>UserAnalyticsAggregator and PlatformAnalyticsAggregator\<close>

definition getActiveUsersCount :: "time \<times> time \<Rightarrow> AnalyticsSubmission list \<Rightarrow> nat" where
  "getActiveUsersCount p subs =
     card (set [u. s \<leftarrow> subs, between p (sb_createdAt s), u \<leftarrow> (case sb_user s of None \<Rightarrow> [] | Some u \<Rightarrow> [u])])"

definition getTotalEarned :: "aggregation_env \<Rightarrow> time \<times> time \<Rightarrow> exn + string" where
  "getTotalEarned env p = map_sum id (\<lambda>v. or_default v ''0'') (gv_completed env None p)"

definition getTotalEarnedByUser :: "aggregation_env \<Rightarrow> id \<Rightarrow> time \<times> time \<Rightarrow> exn + string" where
  "getTotalEarnedByUser env userId p = map_sum id (\<lambda>v. or_default v ''0'') (gv_completed env (Some userId) p)"

text \<open>\<open>setDate\<close> with a fraction of days drops the fraction of the resulting day.\<close>

definition toward_zero :: "rat \<Rightarrow> int" where
  "toward_zero x = (if x < 0 then - \<lfloor>- x\<rfloor> else \<lfloor>x\<rfloor>)"

definition days_back :: "rat \<Rightarrow> time \<Rightarrow> time" where
  "days_back d t = add_days (toward_zero (of_int (date_of (utc_day t)) - d) - date_of (utc_day t)) t"

definition retention_rate :: "time \<times> time \<Rightarrow> AnalyticsSubmission list \<Rightarrow> rat" where
  "retention_rate p subs =
     (let previousPeriodEnd = fst p;
          previousPeriodStart = days_back (of_int (snd p - fst p) / of_int MS_DAY) previousPeriodEnd;
          previousActiveUsers = getActiveUsersCount (previousPeriodStart, previousPeriodEnd) subs
      in if previousActiveUsers = 0 then 100 else of_nat (getActiveUsersCount p subs) / of_nat previousActiveUsers * 100)"

definition calculateAverageXpEarned :: "aggregation_env \<Rightarrow> string option \<Rightarrow> time \<times> time \<Rightarrow> exn + rat" where
  "calculateAverageXpEarned env organizationId p =
     map_sum id (\<lambda>xs. if xs = [] then 0 else of_int (sum_list xs) / of_nat (length xs)) (gv_xp env (getCommonConditions organizationId) p)"

definition calculateUserMetrics ::
    "aggregation_env \<Rightarrow> string option \<Rightarrow> AnalyticsUser list \<Rightarrow> AnalyticsSubmission list \<Rightarrow> AnalyticsPayout list \<Rightarrow> time \<times> time
     \<Rightarrow> exn + (string \<times> json) list" where
  "calculateUserMetrics env organizationId us subs pays p =
     (let conditions = getCommonConditions organizationId; totalUsers = length us; activeUsers = getActiveUsersCount p subs;
          submissions = (\<lambda>P. counted_rows env ''Submission'' conditions (\<lambda>s. between p (sb_createdAt s) \<and> P s) subs)
      in case counted_rows env ''User'' conditions (\<lambda>u. between p (us_createdAt u)) us of Inl e \<Rightarrow> Inl e | Inr newUsers \<Rightarrow>
         case submissions (\<lambda>_. True) of Inl e \<Rightarrow> Inl e | Inr totalSubmissions \<Rightarrow>
         case submissions (\<lambda>s. sb_status s = APPROVED) of Inl e \<Rightarrow> Inl e | Inr approvedSubmissions \<Rightarrow>
         case counted_rows env ''Payout'' conditions (\<lambda>r. between p (po_createdAt r)) pays of Inl e \<Rightarrow> Inl e | Inr totalPayouts \<Rightarrow>
         case getTotalEarned env p of Inl e \<Rightarrow> Inl e | Inr totalEarned \<Rightarrow>
         map_sum id (\<lambda>averageXpEarned.
             [(''totalUsers'', JNum (of_nat totalUsers)), (''newUsers'', JNum (of_nat newUsers)), (''activeUsers'', JNum (of_nat activeUsers)),
              (''totalSubmissions'', JNum (of_nat totalSubmissions)), (''approvedSubmissions'', JNum (of_nat approvedSubmissions)),
              (''totalPayouts'', JNum (of_nat totalPayouts)), (''totalEarned'', JStr totalEarned),
              (''averageSubmissionsPerUser'', JNum (if 0 < activeUsers then of_nat totalSubmissions / of_nat activeUsers else 0)),
              (''approvalRate'', JNum (ratio approvedSubmissions totalSubmissions)),
              (''retentionRate'', JNum (retention_rate p subs)), (''averageXpEarned'', JNum averageXpEarned)])
           (calculateAverageXpEarned env organizationId p))"

text \<open>The loaded user has no \<open>xp\<close>, and its average is \<open>0\<close>.\<close>

definition calculateUserMetricsById ::
    "aggregation_env \<Rightarrow> id \<Rightarrow> string option \<Rightarrow> AnalyticsUser list \<Rightarrow> AnalyticsSubmission list \<Rightarrow> AnalyticsPayout list \<Rightarrow> time \<times> time
     \<Rightarrow> exn + (string \<times> json) list" where
  "calculateUserMetricsById env userId organizationId us subs pays p =
     (case find_row (\<lambda>u. us_id u = userId) us of
        None \<Rightarrow> Inl (JsError (''User with ID '' @ userId @ '' not found''))
      | Some _ \<Rightarrow>
          (let conditions = getCommonConditions organizationId @ [(''userId'', userId)];
               submissions = (\<lambda>P. counted_rows env ''Submission'' conditions
                 (\<lambda>s. between p (sb_createdAt s) \<and> sb_user s = Some userId \<and> P s) subs)
           in case submissions (\<lambda>_. True) of Inl e \<Rightarrow> Inl e | Inr totalSubmissions \<Rightarrow>
              case submissions (\<lambda>s. sb_status s = APPROVED) of Inl e \<Rightarrow> Inl e | Inr approvedSubmissions \<Rightarrow>
              case counted_rows env ''Payout'' conditions (\<lambda>r. between p (po_createdAt r) \<and> po_recipient r = Some userId) pays of
                Inl e \<Rightarrow> Inl e
              | Inr totalPayouts \<Rightarrow>
                  map_sum id (\<lambda>totalEarned.
                      [(''totalUsers'', JNum 1), (''newUsers'', JNum 0), (''activeUsers'', JNum (if 0 < totalSubmissions then 1 else 0)),
                       (''totalSubmissions'', JNum (of_nat totalSubmissions)), (''approvedSubmissions'', JNum (of_nat approvedSubmissions)),
                       (''totalPayouts'', JNum (of_nat totalPayouts)), (''totalEarned'', JStr totalEarned),
                       (''averageSubmissionsPerUser'', JNum (of_nat totalSubmissions)),
                       (''approvalRate'', JNum (ratio approvedSubmissions totalSubmissions)),
                       (''retentionRate'', JNum 100), (''averageXpEarned'', JNum 0)])
                    (getTotalEarnedByUser env userId p)))"

definition aggregateUserMetrics ::
    "bool \<Rightarrow> aggregation_env \<Rightarrow> AnalyticsUser list \<Rightarrow> AnalyticsSubmission list \<Rightarrow> AnalyticsPayout list \<Rightarrow> AggregationOptions
     \<Rightarrow> AnalyticsSnapshot list \<Rightarrow> (AnalyticsSnapshot list, AggregationResult list) outcome option" where
  "aggregateUserMetrics defined env us subs pays opts snaps =
     aggregate defined env (calculateUserMetrics env (ao_organizationId opts) us subs pays) USER None opts snaps"

definition aggregateUserMetricsById ::
    "bool \<Rightarrow> aggregation_env \<Rightarrow> AnalyticsUser list \<Rightarrow> AnalyticsSubmission list \<Rightarrow> AnalyticsPayout list \<Rightarrow> id \<Rightarrow> AggregationOptions
     \<Rightarrow> AnalyticsSnapshot list \<Rightarrow> (AnalyticsSnapshot list, AggregationResult list) outcome option" where
  "aggregateUserMetricsById defined env us subs pays userId opts snaps =
     aggregate defined env (calculateUserMetricsById env userId (ao_organizationId opts) us subs pays) USER (Some userId) opts snaps"

text \<open>
  This aggregator has no repository at all: the first count, of the users, reads a property of \<open>undefined\<close>.
\<close>

definition calculatePlatformMetrics :: "time \<times> time \<Rightarrow> exn + (string \<times> json) list" where
  "calculatePlatformMetrics p = Inl (undefined_property ''count'')"

definition aggregatePlatformMetrics ::
    "bool \<Rightarrow> aggregation_env \<Rightarrow> AggregationOptions \<Rightarrow> AnalyticsSnapshot list
     \<Rightarrow> (AnalyticsSnapshot list, AggregationResult list) outcome option" where
  "aggregatePlatformMetrics defined env opts snaps = aggregate defined env calculatePlatformMetrics PLATFORM None opts snaps"

subsection \<open>AnalyticsAggregationService\<close>

record aggregation_state =
  gs_snapshots :: "AnalyticsSnapshot list"
  gs_quests :: "AnalyticsQuest list"
  gs_submissions :: "AnalyticsSubmission list"
  gs_users :: "AnalyticsUser list"
  gs_payouts :: "AnalyticsPayout list"

definition keep_snapshots ::
    "aggregation_state \<Rightarrow> (AnalyticsSnapshot list, AggregationResult list) outcome option \<Rightarrow> (aggregation_state, nat) outcome option" where
  "keep_snapshots s r = map_option (\<lambda>(res, snaps). (map_sum id length res, s\<lparr>gs_snapshots := snaps\<rparr>)) r"

text \<open>The aggregators are called as their constructors leave them.\<close>

definition aggregateByType :: "aggregation_env \<Rightarrow> string \<Rightarrow> AggregationOptions \<Rightarrow> aggregation_state \<Rightarrow> (aggregation_state, nat) outcome option" where
  "aggregateByType env t opts s =
     (case parse_SnapshotType t of
        Some PLATFORM \<Rightarrow> keep_snapshots s (aggregatePlatformMetrics False env opts (gs_snapshots s))
      | Some QUEST \<Rightarrow> keep_snapshots s (aggregateQuestMetrics False env (gs_quests s) (gs_submissions s) opts (gs_snapshots s))
      | Some USER \<Rightarrow> keep_snapshots s (aggregateUserMetrics False env (gs_users s) (gs_submissions s) (gs_payouts s) opts (gs_snapshots s))
      | None \<Rightarrow> Some (Inl (JsError (''Unsupported aggregation type: '' @ t)), s))"

text \<open>The counts of a batch; its duration is left out.\<close>

record batch_result =
  br_processed :: nat
  br_skipped :: nat
  br_errors :: nat

fun run_types :: "aggregation_env \<Rightarrow> AggregationOptions \<Rightarrow> string list \<Rightarrow> batch_result \<Rightarrow> aggregation_state \<Rightarrow> (batch_result \<times> aggregation_state) option" where
  "run_types env opts [] acc s = Some (acc, s)"
| "run_types env opts (t # ts) acc s =
     (case aggregateByType env t opts s of
        None \<Rightarrow> None
      | Some (Inr n, s') \<Rightarrow> run_types env opts ts (acc\<lparr>br_processed := br_processed acc + n\<rparr>) s'
      | Some (Inl _, s') \<Rightarrow> run_types env opts ts (acc\<lparr>br_errors := br_errors acc + 1\<rparr>) s')"

definition runBatchAggregation ::
    "aggregation_env \<Rightarrow> string list option \<Rightarrow> AggregationOptions \<Rightarrow> aggregation_state \<Rightarrow> (batch_result \<times> aggregation_state) option" where
  "runBatchAggregation env types opts s =
     run_types env opts (coalesce types [''platform'', ''quest'', ''user'']) \<lparr> br_processed = 0, br_skipped = 0, br_errors = 0 \<rparr> s"

definition aggregateQuestData :: "aggregation_env \<Rightarrow> id \<Rightarrow> AggregationOptions \<Rightarrow> aggregation_state \<Rightarrow> (aggregation_state, nat) outcome option" where
  "aggregateQuestData env questId opts s =
     keep_snapshots s (aggregateQuestMetricsById False env (gs_quests s) (gs_submissions s) questId opts (gs_snapshots s))"

definition aggregateUserData :: "aggregation_env \<Rightarrow> id \<Rightarrow> AggregationOptions \<Rightarrow> aggregation_state \<Rightarrow> (aggregation_state, nat) outcome option" where
  "aggregateUserData env userId opts s =
     keep_snapshots s (aggregateUserMetricsById False env (gs_users s) (gs_submissions s) (gs_payouts s) userId opts (gs_snapshots s))"

definition getAggregatedData :: "SnapshotType \<Rightarrow> time \<Rightarrow> time \<Rightarrow> id option \<Rightarrow> aggregation_state \<Rightarrow> AnalyticsSnapshot list" where
  "getAggregatedData t a b ref s =
     order_asc sn_date (filter (\<lambda>sn. sn_type sn = t \<and> utc_day a \<le> sn_date sn \<and> sn_date sn \<le> utc_day b
       \<and> (truthy ref \<longrightarrow> sn_referenceId sn = ref)) (gs_snapshots s))"

definition getLatestSnapshot :: "SnapshotType \<Rightarrow> id option \<Rightarrow> aggregation_state \<Rightarrow> AnalyticsSnapshot option" where
  "getLatestSnapshot t ref s =
     (case order_desc sn_date (filter (\<lambda>sn. sn_type sn = t \<and> (truthy ref \<longrightarrow> sn_referenceId sn = ref)) (gs_snapshots s)) of
        [] \<Rightarrow> None
      | sn # _ \<Rightarrow> Some sn)"

definition cleanupOldSnapshots :: "int \<Rightarrow> time \<Rightarrow> aggregation_state \<Rightarrow> nat \<times> aggregation_state" where
  "cleanupOldSnapshots olderThanDays now s =
     (let cutoffDate = add_days (- olderThanDays) now; old = (\<lambda>sn. sn_createdAt sn < cutoffDate)
      in (affected old (gs_snapshots s), s\<lparr>gs_snapshots := filter (\<lambda>sn. \<not> old sn) (gs_snapshots s)\<rparr>))"

definition getSnapshotsByType :: "aggregation_state \<Rightarrow> (SnapshotType \<times> nat) list" where
  "getSnapshotsByType s =
     map (\<lambda>t. (t, count_rows (\<lambda>sn. sn_type sn = t) (gs_snapshots s))) (remdups (map sn_type (gs_snapshots s)))"

record aggregation_stats =
  st_totalSnapshots :: nat
  st_snapshotsByType :: "(SnapshotType \<times> nat) list"
  st_oldestSnapshot :: "int option"
  st_newestSnapshot :: "int option"

definition extremum :: "(int \<Rightarrow> int \<Rightarrow> int) \<Rightarrow> int list \<Rightarrow> int option" where
  "extremum f ds = (case ds of [] \<Rightarrow> None | d # ds' \<Rightarrow> Some (fold f ds' d))"

definition getAggregationStats :: "aggregation_state \<Rightarrow> aggregation_stats" where
  "getAggregationStats s =
     \<lparr> st_totalSnapshots = length (gs_snapshots s), st_snapshotsByType = getSnapshotsByType s,
       st_oldestSnapshot = extremum min (map sn_date (gs_snapshots s)),
       st_newestSnapshot = extremum max (map sn_date (gs_snapshots s)) \<rparr>"

subsection \<open>Routes\<close>

record AggregationOptionsDto =
  ad_startDate :: string
  ad_endDate :: string
  ad_granularity :: "string option"
  ad_organizationId :: "string option"

text \<open>The batch route hands its body on as it is, with the dates as texts.\<close>

definition runBatchAggregation_route ::
    "aggregation_env \<Rightarrow> string list option \<Rightarrow> AggregationOptionsDto \<Rightarrow> aggregation_state \<Rightarrow> ((batch_result \<times> string) \<times> aggregation_state) option" where
  "runBatchAggregation_route env types dto s =
     map_option (\<lambda>(r, s'). ((r, ''Processed '' @ show_nat (br_processed r) @ '' snapshots, skipped '' @ show_nat (br_skipped r)
         @ '', '' @ show_nat (br_errors r) @ '' errors''), s'))
       (runBatchAggregation env types \<lparr> ao_startDate = TextArg (ad_startDate dto), ao_endDate = TextArg (ad_endDate dto),
          ao_granularity = ad_granularity dto, ao_organizationId = ad_organizationId dto \<rparr> s)"

definition with_dates :: "aggregation_env \<Rightarrow> AggregationOptionsDto \<Rightarrow> AggregationOptions" where
  "with_dates env dto =
     \<lparr> ao_startDate = new_date (gv_parse env) (ad_startDate dto), ao_endDate = new_date (gv_parse env) (ad_endDate dto),
       ao_granularity = ad_granularity dto, ao_organizationId = ad_organizationId dto \<rparr>"

definition aggregateQuestData_route :: "aggregation_env \<Rightarrow> id \<Rightarrow> AggregationOptionsDto \<Rightarrow> aggregation_state \<Rightarrow> (aggregation_state, nat) outcome option" where
  "aggregateQuestData_route env questId dto s = aggregateQuestData env questId (with_dates env dto) s"

definition aggregateUserData_route :: "aggregation_env \<Rightarrow> id \<Rightarrow> AggregationOptionsDto \<Rightarrow> aggregation_state \<Rightarrow> (aggregation_state, nat) outcome option" where
  "aggregateUserData_route env userId dto s = aggregateUserData env userId (with_dates env dto) s"

end
