(* ===== verification/AnalyticsToolsProps.thy ===== *)
theory AnalyticsToolsProps
  imports AnalyticsTools
begin

text \<open>
  Properties of the analytics tools: which loops over dates end and with what, the rates, and what a reader
  of an exported table gets back.
\<close>

subsection \<open>Loops over dates\<close>

text \<open>A step of at least \<open>w\<close> reaches any bound.\<close>

lemma walk_ends:
  assumes "0 < w" and "\<And>t. t + w \<le> step t"
  shows "\<exists>ds. walk_dates (\<lambda>t. t \<le> e) step s = Some ds"
proof (induction "nat (e - s + 1)" arbitrary: s rule: less_induct)
  case less
  show ?case
  proof (cases "s \<le> e")
    case True
    with assms(1) assms(2) [of s] have "nat (e - step s + 1) < nat (e - s + 1)" by simp
    from less [OF this] True show ?thesis by (subst walk_dates.simps) auto
  next
    case False
    then show ?thesis by (subst walk_dates.simps) simp
  qed
qed

text \<open>A loop that ended has left its condition after finitely many steps.\<close>

lemma walk_Nil: "walk_dates inside step s = Some [] \<longleftrightarrow> \<not> inside s"
  by (subst walk_dates.simps) (auto simp: Option.bind_eq_Some_conv)

lemma walk_Cons: "walk_dates inside step s = Some (d # ds) \<longleftrightarrow> inside s \<and> d = s \<and> walk_dates inside step (step s) = Some ds"
  by (subst walk_dates.simps) (auto simp: Option.bind_eq_Some_conv)

lemma walk_left: "walk_dates inside step s = Some ds \<Longrightarrow> \<not> inside ((step ^^ length ds) s)"
  by (induction ds arbitrary: s) (simp_all add: walk_Nil walk_Cons funpow_swap1)

lemma walk_stuck: "inside s \<Longrightarrow> walk_dates inside id s = None"
  using walk_left [of inside id s] by (cases "walk_dates inside id s") simp_all

lemma walk_fixed:
  assumes "0 < w"
  shows "walk_dates (\<lambda>t. t \<le> e) (\<lambda>t. t + w) s = Some (map (\<lambda>i. s + int i * w) [0..<nat ((e - s) div w + 1)])"
proof (induction "nat (e - s + 1)" arbitrary: s rule: less_induct)
  case less
  show ?case
  proof (cases "s \<le> e")
    case True
    with assms have "nat (e - (s + w) + 1) < nat (e - s + 1)" by simp
    note ih = less [OF this]
    have "(e - s) div w = (e - (s + w)) div w + 1"
      using assms div_add_self2 [of w "e - (s + w)"] by (simp add: algebra_simps)
    moreover have "0 \<le> (e - s) div w" using True assms by (simp add: pos_imp_zdiv_nonneg_iff)
    ultimately have n: "nat ((e - s) div w + 1) = Suc (nat ((e - (s + w)) div w + 1))" by simp
    have "map (\<lambda>i. s + int i * w) [0..<Suc k] = s # map (\<lambda>i. (s + w) + int i * w) [0..<k]" for k
      by (simp add: upt_conv_Cons map_Suc_upt [symmetric] distrib_right del: upt_Suc)
    with True ih show ?thesis by (simp only: walk_Cons n)
  next
    case False
    then have "(e - s) div w < 0" using assms by (intro div_neg_pos_less0) simp_all
    with False show ?thesis by (subst walk_dates.simps) simp
  qed
qed

text \<open>The dates of a walk are what the loop sees: from the start on, each one step after the one before.\<close>

lemma walk_steps:
  "walk_dates inside step s = Some ds \<Longrightarrow> (\<forall>d \<in> set ds. inside d) \<and> successively (\<lambda>x y. y = step x) ds \<and> (ds \<noteq> [] \<longrightarrow> hd ds = s)"
proof (induction ds arbitrary: s)
  case (Cons d ds)
  then show ?case by (cases ds) (auto simp: walk_Cons)
qed simp

definition known_granularity :: "string option \<Rightarrow> bool" where
  "known_granularity g \<longleftrightarrow> g \<in> {Some ''hourly'', Some ''daily'', Some ''weekly'', Some ''monthly''}"

lemma step_advances: "known_granularity g \<Longrightarrow> t + 3600000 \<le> aggregation_step g t"
  using add_months_later [of t]
  by (auto simp: known_granularity_def aggregation_step_def add_hours_def add_days_eq MS_DAY_def)

text \<open>
  Claim C25.  The loop over the periods of an aggregation ends exactly if it has a step to make or nothing to
  do: with one of the four granularities it ends for every pair of dates, with any other value - also with the
  field left out, which the request may do - it never returns unless the end lies before the start.  When it
  ends with the granularity of a day, its dates are the days from the start up to the end.
\<close>
theorem date_ranges_terminate:
  "(\<exists>ds. generateDateRanges parse (DateArg s) (DateArg e) g = Some ds) = (known_granularity g \<or> e < s)
   \<and> generateDateRanges parse (DateArg s) (DateArg e) (Some ''daily'')
       = Some (map (\<lambda>i. s + int i * MS_DAY) [0..<nat ((e - s) div MS_DAY + 1)])"
proof -
  let ?walk = "walk_dates (\<lambda>t. t \<le> e) (aggregation_step g) s"
  have start: "generateDateRanges parse (DateArg s) (DateArg e) g' = walk_dates (\<lambda>t. t \<le> e) (aggregation_step g') s" for g'
    by (simp add: generateDateRanges_def as_date_def not_after_def [abs_def])
  have "(\<exists>ds. ?walk = Some ds) = (known_granularity g \<or> e < s)"
  proof (cases "known_granularity g")
    case True
    then show ?thesis using walk_ends [of 3600000 "aggregation_step g" e s] step_advances by simp
  next
    case False
    then have "aggregation_step g = id" by (auto simp: known_granularity_def aggregation_step_def)
    then show ?thesis using False walk_stuck [of "\<lambda>t. t \<le> e" s] walk_Nil [of "\<lambda>t. t \<le> e" id s]
      by (cases "s \<le> e") auto
  qed
  moreover have "aggregation_step (Some ''daily'') = (\<lambda>t. t + MS_DAY)"
    by (simp add: aggregation_step_def add_days_eq fun_eq_iff)
  ultimately show ?thesis using walk_fixed [of MS_DAY e s] by (simp add: start MS_DAY_def)
qed

text \<open>A walk by months never stays behind: every step is between 28 and 31 days.\<close>

lemma monthly_steps:
  assumes "generateDateRanges parse (DateArg s) (DateArg e) (Some ''monthly'') = Some ds"
  shows "successively (\<lambda>x y. x + 28 * MS_DAY \<le> y \<and> y \<le> x + 31 * MS_DAY) ds"
proof -
  from assms have "successively (\<lambda>x y. y = add_months 1 x) ds"
    using walk_steps by (fastforce simp: generateDateRanges_def as_date_def aggregation_step_def)
  then show ?thesis by (rule successively_mono) (simp add: add_months_later)
qed

subsection \<open>Rates\<close>

lemma percent_bounds:
  assumes "0 \<le> part" and "part \<le> whole"
  shows "0 \<le> percent_of part whole" "percent_of part whole \<le> 100"
proof -
  have "0 \<le> part / whole" "part / whole \<le> 1" if "whole \<noteq> 0" using assms that by simp_all
  then show "0 \<le> percent_of part whole" "percent_of part whole \<le> 100"
    by (auto simp: percent_of_def math_round_def le_floor_iff floor_le_iff divide_simps)
qed

subsection \<open>Exported tables\<close>

text \<open>
  A reader of comma separated values as RFC 4180 has them: a row ends with a line feed, alone or after a
  carriage return; a cell in quotation marks runs up to the next single one, and a double one stands for
  one of its characters.
\<close>

fun csv_read :: "bool \<Rightarrow> string \<Rightarrow> string list \<Rightarrow> string \<Rightarrow> string list list" where
  "csv_read q cell row [] = (if cell = [] \<and> row = [] then [] else [row @ [cell]])"
| "csv_read q cell row (c # s) =
     (if q then
        (if c = CHR 0x22
         then (case s of
                 d # t \<Rightarrow> if d = CHR 0x22 then csv_read True (cell @ [c]) row t else csv_read False cell row s
               | [] \<Rightarrow> csv_read False cell row s)
         else csv_read True (cell @ [c]) row s)
      else if c = CHR '','' then csv_read False [] (row @ [cell]) s
      else if c = CHR 0x0A then (row @ [cell]) # csv_read False [] [] s
      else if c = CHR 0x0D
      then (case s of
              d # t \<Rightarrow> if d = CHR 0x0A then (row @ [cell]) # csv_read False [] [] t else csv_read False (cell @ [c]) row s
            | [] \<Rightarrow> csv_read False (cell @ [c]) row s)
      else if c = CHR 0x22 \<and> cell = [] then csv_read True [] row s
      else csv_read False (cell @ [c]) row s)"

definition read_csv :: "string \<Rightarrow> string list list" where
  "read_csv s = csv_read False [] [] s"

definition plain :: "string \<Rightarrow> bool" where
  "plain s \<longleftrightarrow> (\<forall>c \<in> set s. c \<noteq> CHR '','' \<and> c \<noteq> CHR 0x22 \<and> c \<noteq> CHR 0x0A \<and> c \<noteq> CHR 0x0D)"

text \<open>A text with a carriage return that the exporter would put in quotation marks, or without one.\<close>

definition return_safe :: "string \<Rightarrow> bool" where
  "return_safe s \<longleftrightarrow> CHR 0x0D \<notin> set s \<or> CHR '','' \<in> set s \<or> CHR 0x22 \<in> set s \<or> CHR 0x0A \<in> set s"

abbreviation ends_cell :: "string \<Rightarrow> bool" where
  "ends_cell s \<equiv> s \<noteq> [] \<and> hd s \<in> {CHR '','', CHR 0x0A}"

lemma includes_char: "includes_str s [c] \<longleftrightarrow> c \<in> set s"
  by (induction s) (auto simp: starts_with_def)

lemma read_plain: "plain u \<Longrightarrow> csv_read False acc row (u @ s) = csv_read False (acc @ u) row s"
  by (induction u arbitrary: acc) (simp_all add: plain_def)

lemma read_quoted:
  assumes "ends_cell s"
  shows "csv_read True acc row (concat (map (\<lambda>d. if d = CHR 0x22 then [CHR 0x22, CHR 0x22] else [d]) u) @ CHR 0x22 # s)
    = csv_read False (acc @ u) row s"
proof (induction u arbitrary: acc)
  case Nil
  with assms show ?case by (cases s) auto
qed simp

lemma read_cell:
  assumes "ends_cell s" and "return_safe (cell_text num v)"
  shows "csv_read False [] row (escapeCsvValue num '','' v @ s) = csv_read False (cell_text num v) row s"
proof (cases "plain (cell_text num v)")
  case True
  then have "escapeCsvValue num '','' v = cell_text num v" by (auto simp: escapeCsvValue_def includes_char plain_def Let_def)
  then show ?thesis using read_plain [OF True, of "[]" row s] by simp
next
  case False
  with assms(2) have "escapeCsvValue num '','' v = quoted (cell_text num v)"
    by (auto simp: escapeCsvValue_def includes_char plain_def return_safe_def Let_def)
  then show ?thesis using read_quoted [OF assms(1), of "[]" row "cell_text num v"] by (simp add: quoted_def replace_char)
qed

text \<open>A line of cells, each read back by \<open>value\<close>.\<close>

lemma read_line:
  assumes "\<And>row s x. x \<in> set xs \<Longrightarrow> ends_cell s \<Longrightarrow> csv_read False [] row (f x @ s) = csv_read False (value x) row s"
    and "xs \<noteq> []"
  shows "csv_read False [] row (csv_line '','' (map f xs) @ s) = (row @ map value xs) # csv_read False [] [] s"
  using assms
proof (induction xs arbitrary: row)
  case (Cons x xs)
  show ?case
  proof (cases xs)
    case Nil
    then show ?thesis using Cons.prems(1) [of x "CHR 0x0A # s"] by (simp add: csv_line_def)
  next
    case (Cons y ys)
    have "csv_line '','' (map f (x # xs)) = f x @ CHR '','' # csv_line '','' (map f xs)" by (simp add: csv_line_def Cons)
    then show ?thesis using Cons.prems(1) [of x "CHR '','' # csv_line '','' (map f xs) @ s"] Cons.IH [of "row @ [value x]"] Cons.prems
      by (simp add: Cons)
  qed
qed simp

lemma read_rows:
  assumes "\<forall>ps \<in> set tab. ps \<noteq> [] \<and> (\<forall>p \<in> set ps. return_safe (cell_text num (snd p)))"
  shows "\<exists>t. csv_rows num '','' (map JObj tab) = Inr t \<and> csv_read False [] [] t = map (map (cell_text num \<circ> snd)) tab"
  using assms
proof (induction tab)
  case (Cons ps tab)
  then obtain t where t: "csv_rows num '','' (map JObj tab) = Inr t" "csv_read False [] [] t = map (map (cell_text num \<circ> snd)) tab"
    by auto
  have "csv_read False [] [] (csv_line '','' (map (escapeCsvValue num '','' \<circ> snd) ps) @ t)
      = ([] @ map (cell_text num \<circ> snd) ps) # csv_read False [] [] t"
    using Cons.prems by (intro read_line) (auto simp: read_cell)
  with t show ?case by (simp add: entries_def)
qed simp

text \<open>
  Claim C26.  What a reader of an exported table gets back.  Exported is a non-empty array of non-empty
  objects, with the default delimiter and with headers; the names of the columns of the first object have
  no comma, quotation mark or line end in them, because they are written as they are; and no value is a
  text with a carriage return and none of comma, quotation mark and line feed, because such a text is not
  quoted.  Then a reader of the format finds the names of the columns and, row by row, the texts of all
  values, whatever quotation marks, commas and line ends they contain, except that null, \<open>false\<close> and the
  number zero come back as empty texts.
\<close>
theorem csv_roundtrip:
  assumes "tab \<noteq> []" and "\<forall>ps \<in> set tab. ps \<noteq> []" and "\<forall>p \<in> set (hd tab). plain (fst p)"
    and "\<forall>ps \<in> set tab. \<forall>p \<in> set ps. return_safe (js_text (xe_num env) (snd p))"
  shows "map_sum id (read_csv \<circ> ex_data)
      (exportToCsv env (JArr (map JObj tab)) \<lparr> eo_format = CSV, eo_includeHeaders = Some True, eo_delimiter = None \<rparr>)
    = Inr (map fst (hd tab)
           # map (map (\<lambda>p. if snd p \<in> {JNull, JBool False, JNum 0} then [] else js_text (xe_num env) (snd p))) tab)"
proof -
  from assms(1) obtain ps rest where tab: "tab = ps # rest" by (cases tab) auto
  have cell: "cell_text (xe_num env) v = (if v \<in> {JNull, JBool False, JNum 0} then [] else js_text (xe_num env) v)" for v
    by (auto simp: cell_text_def falsy_def)
  have "return_safe []" by (simp add: return_safe_def)
  with assms(2,4) have "\<forall>ps \<in> set tab. ps \<noteq> [] \<and> (\<forall>p \<in> set ps. return_safe (cell_text (xe_num env) (snd p)))"
    by (simp add: cell)
  from read_rows [OF this] obtain t where t: "csv_rows (xe_num env) '','' (map JObj tab) = Inr t"
    "csv_read False [] [] t = map (map (cell_text (xe_num env) \<circ> snd)) tab" by blast
  have "csv_read False [] [] (csv_line '','' (map fst ps) @ t) = ([] @ map fst ps) # csv_read False [] [] t"
    using assms tab by (intro read_line) (simp_all add: read_plain [where acc = "[]", simplified])
  moreover have "csv_content (xe_num env) (JArr (map JObj tab)) \<lparr> eo_format = CSV, eo_includeHeaders = Some True, eo_delimiter = None \<rparr>
      = Inr (csv_line '','' (map fst ps) @ t)"
    using t(1) by (simp add: csv_content_def tab entries_def Let_def)
  ultimately show ?thesis
    using t(2) by (simp add: exportToCsv_def export_file_def read_csv_def tab cell [abs_def] comp_def)
qed

definition rewards_table :: "(string \<times> json) list list" where
  "rewards_table =
     [[(''user'', JStr ''a, b''), (''paid'', JNum 0)], [(''user'', JStr (''say '' @ [CHR 0x22] @ ''hi'' @ [CHR 0x22])), (''paid'', JNum 7)]]"

theorem csv_roundtrip_witness:
  "map_sum id (read_csv \<circ> ex_data)
      (exportToCsv \<lparr> xe_now = 0, xe_localeNow = [], xe_num = \<lambda>_. [], xe_stringify = \<lambda>_. [] \<rparr> (JArr (map JObj rewards_table))
        \<lparr> eo_format = CSV, eo_includeHeaders = Some True, eo_delimiter = None \<rparr>)
    = Inr [[''user'', ''paid''], [''a, b'', []], [''say '' @ [CHR 0x22] @ ''hi'' @ [CHR 0x22], js_text (\<lambda>_. []) (JNum 7)]]"
proof -
  have "show_int 0 = ''0''" "show_int 7 = ''7''" by code_simp+
  then show ?thesis
    using csv_roundtrip [of rewards_table "\<lparr> xe_now = 0, xe_localeNow = [], xe_num = \<lambda>_. [], xe_stringify = \<lambda>_. [] \<rparr>"]
    by (simp add: rewards_table_def plain_def return_safe_def)
qed

text \<open>A carriage return at the end of a row is written without quotation marks and lost.\<close>

lemma final_return_lost:
  "map_sum id read_csv (csv_content (\<lambda>_. []) (JArr [JObj [(''a'', JStr [CHR ''x'', CHR 0x0D])]])
      \<lparr> eo_format = CSV, eo_includeHeaders = None, eo_delimiter = None \<rparr>) = Inr [[''a''], [''x'']]"
  by (simp add: csv_content_def entries_def csv_line_def read_csv_def escapeCsvValue_def cell_text_def falsy_def starts_with_def)

text \<open>A name of a column that contains the delimiter shifts the columns.\<close>

lemma header_not_escaped:
  "map_sum id read_csv (csv_content (\<lambda>_. []) (JArr [JObj [(''a,b'', JStr ''x'')]])
      \<lparr> eo_format = CSV, eo_includeHeaders = None, eo_delimiter = None \<rparr>) = Inr [[''a'', ''b''], [''x'']]"
  by (simp add: csv_content_def entries_def csv_line_def read_csv_def escapeCsvValue_def cell_text_def falsy_def starts_with_def)

end
