(* ===== verification/AggregationProps.thy ===== *)
theory AggregationProps
  imports Aggregation AnalyticsToolsProps
begin

text \<open>
  What an aggregation does: nothing, as the aggregators are constructed, and what the base class would do with the
  repository its constructor takes, which no aggregator of the program passes on.
\<close>

subsection \<open>As it is\<close>

lemma idle_dates:
  "aggregate_dates False env metrics t ref g dates rs snaps
     = (if dates = [] then Inr rs else Inl (undefined_property ''createQueryBuilder''), snaps)"
  by (cases dates) (simp_all add: snapshotExists_def)

lemmas idle = aggregate_def keep_snapshots_def idle_dates

text \<open>An aggregation for one period or one object: its only outcomes.\<close>

definition idle_outcomes :: "'s \<Rightarrow> ('s, nat) outcome option set" where
  "idle_outcomes s = {None, Some (Inr 0, s), Some (Inl (undefined_property ''createQueryBuilder''), s)}"

lemma idle_keep: "keep_snapshots s (aggregate False env metrics t ref opts (gs_snapshots s)) \<in> idle_outcomes s"
  by (cases "generateDateRanges (gv_parse env) (ao_startDate opts) (ao_endDate opts) (ao_granularity opts)")
    (simp_all add: idle idle_outcomes_def)

lemma by_type_idle:
  "aggregateByType env t opts s \<in> insert (Some (Inl (JsError (''Unsupported aggregation type: '' @ t)), s)) (idle_outcomes s)"
  using idle_keep [of s env _ _ _ opts]
  by (auto simp: aggregateByType_def aggregatePlatformMetrics_def aggregateQuestMetrics_def aggregateUserMetrics_def
      split: option.split SnapshotType.split)

lemma run_types_idle: "run_types env opts ts acc s = Some (r, s') \<Longrightarrow> s' = s \<and> br_processed r = br_processed acc"
proof (induction ts arbitrary: acc)
  case (Cons t ts)
  from by_type_idle [of env t opts s] consider (never) "aggregateByType env t opts s = None"
    | (zero) "aggregateByType env t opts s = Some (Inr 0, s)" | (error) e where "aggregateByType env t opts s = Some (Inl e, s)"
    by (auto simp: idle_outcomes_def)
  then show ?case
  proof cases
    case zero
    with Cons.prems Cons.IH [of "acc\<lparr>br_processed := br_processed acc + 0\<rparr>"] show ?thesis by simp
  next
    case (error e)
    with Cons.prems Cons.IH [of "acc\<lparr>br_errors := br_errors acc + 1\<rparr>"] show ?thesis by simp
  qed (use Cons.prems in simp)
qed simp

text \<open>
  No aggregation ever stores a snapshot: whatever the types, the dates, the granularity and the
  contents of the tables are, a batch that returns has processed nothing and left the tables as they were, and
  an aggregation for a quest or a user either never returns, or processes nothing, or fails on the repository
  its constructor has left undefined.
\<close>
theorem no_snapshot_ever:
  "(case runBatchAggregation env types opts s of None \<Rightarrow> True | Some (r, s') \<Rightarrow> s' = s \<and> br_processed r = 0)
   \<and> aggregateQuestData env i opts s \<in> {None, Some (Inr 0, s), Some (Inl (undefined_property ''createQueryBuilder''), s)}
   \<and> aggregateUserData env i opts s \<in> {None, Some (Inr 0, s), Some (Inl (undefined_property ''createQueryBuilder''), s)}"
  using idle_keep [of s env _ _ _ opts, unfolded idle_outcomes_def]
  by (auto simp: runBatchAggregation_def aggregateQuestData_def aggregateUserData_def aggregateQuestMetricsById_def
      aggregateUserMetricsById_def dest: run_types_idle split: option.split)

lemma empty_range: "js_number t = None \<Longrightarrow> generateDateRanges parse d (TextArg t) g = Some []"
  by (cases "as_date parse d") (simp_all add: generateDateRanges_def walk_Nil not_after_def)

lemma run_types_empty:
  assumes "generateDateRanges (gv_parse env) (ao_startDate opts) (ao_endDate opts) (ao_granularity opts) = Some []"
  shows "run_types env opts ts acc s
    = Some (acc\<lparr>br_errors := br_errors acc + length (filter (\<lambda>t. parse_SnapshotType t = None) ts)\<rparr>, s)"
proof (induction ts arbitrary: acc)
  case (Cons t ts)
  have "keep_snapshots s (aggregate False env metrics t' ref opts (gs_snapshots s)) = Some (Inr 0, s)" for metrics t' ref
    using assms by (simp add: idle)
  then have "aggregateByType env t opts s
      = (if parse_SnapshotType t = None then Some (Inl (JsError (''Unsupported aggregation type: '' @ t)), s) else Some (Inr 0, s))"
    by (auto simp: aggregateByType_def aggregatePlatformMetrics_def aggregateQuestMetrics_def aggregateUserMetrics_def
        split: option.split SnapshotType.split)
  then show ?case by (simp add: Cons.IH)
qed simp

text \<open>A date written with hyphens is no number.\<close>

lemma trim_dashed:
  assumes "ds \<noteq> []" and "\<forall>c \<in> set ds. is_digit c"
  shows "\<exists>r. trim (ds @ CHR ''-'' # rest) = ds @ CHR ''-'' # r"
proof -
  from assms obtain d ds' where ds: "ds = d # ds'" "is_digit d" by (cases ds) auto
  have "\<not> is_space CHR ''-''" by code_simp
  then have "dropWhile is_space (rev (ds @ CHR ''-'' # rest)) = dropWhile is_space (rev rest) @ CHR ''-'' # rev ds"
    by (simp add: dropWhile_append split: if_splits)
  moreover have "dropWhile is_space (ds @ CHR ''-'' # rest) = ds @ CHR ''-'' # rest" using ds by (simp add: digit_not_space)
  ultimately show ?thesis by (simp add: trim_def)
qed

lemma dashed_no_number:
  assumes "ds \<noteq> []" and "\<forall>c \<in> set ds. is_digit c"
  shows "js_number (ds @ CHR ''-'' # rest) = None"
proof -
  have dash: "\<not> is_digit CHR ''-''" "\<not> is_digit CHR ''+''" "radix CHR ''-'' = None" by code_simp+
  have "\<forall>c \<in> set ''xXoObB''. \<not> is_digit c" by code_simp
  then have digit: "is_digit d \<Longrightarrow> radix d = None" for d by (auto simp: radix_def)
  from assms obtain d ds' where ds: "ds = d # ds'" "is_digit d" by (cases ds) auto
  from trim_dashed [OF assms] obtain r where r: "trim (ds @ CHR ''-'' # rest) = ds @ CHR ''-'' # r" by blast
  have "takeWhile is_digit (ds @ CHR ''-'' # r) = ds" "dropWhile is_digit (ds @ CHR ''-'' # r) = CHR ''-'' # r"
    using assms(2) dash by (simp_all add: takeWhile_append dropWhile_append)
  then have "unsigned_decimal (ds @ CHR ''-'' # r) = None" by (simp add: unsigned_decimal_def Let_def)
  moreover have "radix (hd (ds' @ CHR ''-'' # r)) = None" using assms(2) ds dash digit by (cases ds') auto
  ultimately show ?thesis unfolding js_number_def r using ds dash by auto
qed

text \<open>
  Claim C27.  The route for a batch of aggregations reports success without having looked at anything.  It hands the
  end of the range on as a text, and no date is before a text that is no number; so for every end that is
  written as digits followed by a hyphen, such as an ISO date, whatever the types, the start, the granularity and the
  tables, the route returns, the answer is that nothing was processed or skipped, its errors are one for each
  type asked for that does not exist, and the tables are left as they were.
\<close>
theorem batch_reports_nothing:
  assumes "ad_endDate dto = ds @ CHR ''-'' # rest" and "ds \<noteq> []" and "\<forall>c \<in> set ds. is_digit c"
  shows "runBatchAggregation_route env types dto s
    = (let n = length (filter (\<lambda>t. parse_SnapshotType t = None) (coalesce types [''platform'', ''quest'', ''user'']))
       in Some ((\<lparr> br_processed = 0, br_skipped = 0, br_errors = n \<rparr>,
                 ''Processed '' @ show_nat 0 @ '' snapshots, skipped '' @ show_nat 0 @ '', '' @ show_nat n @ '' errors''), s))"
  using empty_range [OF dashed_no_number [OF assms(2,3)], of _ _ rest]
  by (simp add: runBatchAggregation_route_def runBatchAggregation_def run_types_empty assms(1) Let_def)

theorem batch_reports_nothing_witness:
  "runBatchAggregation_route \<lparr> gv_parse = \<lambda>_. Some 0, gv_now = 0, gv_newId = \<lambda>_. [], gv_num = \<lambda>_. [],
       gv_count = \<lambda>_ _. Inr, gv_find = \<lambda>_. Inr, gv_xp = \<lambda>_ _. Inr [], gv_completed = \<lambda>_ _. Inr None \<rparr> None
     \<lparr> ad_startDate = ''2024-01-01'', ad_endDate = ''2024-12-31'', ad_granularity = None, ad_organizationId = None \<rparr>
     \<lparr> gs_snapshots = [], gs_quests = [], gs_submissions = [], gs_users = [], gs_payouts = [] \<rparr>
   = Some ((\<lparr> br_processed = 0, br_skipped = 0, br_errors = 0 \<rparr>,
            ''Processed '' @ show_nat 0 @ '' snapshots, skipped '' @ show_nat 0 @ '', '' @ show_nat 0 @ '' errors''),
       \<lparr> gs_snapshots = [], gs_quests = [], gs_submissions = [], gs_users = [], gs_payouts = [] \<rparr>)"
  by (subst batch_reports_nothing [where ds = "''2024''" and rest = "''12-31''"])
    (simp_all add: is_digit_def parse_SnapshotType_def)

subsection \<open>As it is meant\<close>

definition snapshot_row :: "aggregation_env \<Rightarrow> AggregationResult \<Rightarrow> AnalyticsSnapshot" where
  "snapshot_row env r = \<lparr> sn_id = gv_newId env (ag_date r), sn_date = utc_day (ag_date r), sn_type = ag_type r,
     sn_referenceId = ag_referenceId r, sn_metrics = ag_metrics r, sn_createdAt = gv_now env \<rparr>"

abbreviation taken :: "SnapshotType \<Rightarrow> id option \<Rightarrow> AnalyticsSnapshot list \<Rightarrow> time \<Rightarrow> bool" where
  "taken t ref snaps d \<equiv> \<exists>sn \<in> set snaps. same_snapshot d t ref sn"

lemma exists_iff: "snapshotExists True d t ref snaps = Inr (taken t ref snaps d)"
  by (auto simp: snapshotExists_def count_rows_def filter_empty_conv length_greater_0_conv [symmetric] simp del: length_greater_0_conv)

lemma all_taken:
  "\<forall>d \<in> set dates. taken t ref snaps d \<Longrightarrow> aggregate_dates True env metrics t ref g dates rs snaps = (Inr rs, snaps)"
  by (induction dates) (simp_all add: exists_iff)

lemma own_row: "ag_type r = t \<Longrightarrow> ag_referenceId r = ref \<Longrightarrow> same_snapshot d t ref (snapshot_row env r) \<longleftrightarrow> utc_day (ag_date r) = utc_day d"
  by (auto simp: same_snapshot_def snapshot_row_def)

lemma aggregate_dates_stores:
  assumes "\<And>p. \<exists>m. metrics p = Inr m"
  shows "\<exists>rs. aggregate_dates True env metrics t ref g dates results snaps = (Inr (results @ rs), snaps @ map (snapshot_row env) rs)
    \<and> (\<forall>r \<in> set rs. ag_type r = t \<and> ag_referenceId r = ref \<and> \<not> taken t ref snaps (ag_date r))
    \<and> distinct (map (\<lambda>r. utc_day (ag_date r)) rs)
    \<and> (\<forall>d \<in> set dates. taken t ref (snaps @ map (snapshot_row env) rs) d)"
proof (induction dates arbitrary: results snaps)
  case (Cons d dates)
  show ?case
  proof (cases "taken t ref snaps d")
    case True
    from Cons [of results snaps] obtain rs where rs:
      "aggregate_dates True env metrics t ref g dates results snaps = (Inr (results @ rs), snaps @ map (snapshot_row env) rs)"
      "\<forall>r \<in> set rs. ag_type r = t \<and> ag_referenceId r = ref \<and> \<not> taken t ref snaps (ag_date r)"
      "distinct (map (\<lambda>r. utc_day (ag_date r)) rs)" "\<forall>d \<in> set dates. taken t ref (snaps @ map (snapshot_row env) rs) d" by blast
    with True show ?thesis by (intro exI [of _ rs]) (auto simp: exists_iff)
  next
    case False
    from assms obtain m where m: "metrics (getDateRange d g) = Inr m" by blast
    define r where "r = \<lparr> ag_date = d, ag_metrics = m, ag_type = t, ag_referenceId = ref \<rparr>"
    have r: "ag_date r = d" "ag_type r = t" "ag_referenceId r = ref" by (simp_all add: r_def)
    have step: "aggregate_dates True env metrics t ref g (d # dates) results snaps
        = aggregate_dates True env metrics t ref g dates (results @ [r]) (snaps @ [snapshot_row env r])"
      using False by (simp add: exists_iff m saveSnapshot_def snapshot_row_def r_def)
    from Cons [of "results @ [r]" "snaps @ [snapshot_row env r]"] obtain rs where rs:
      "aggregate_dates True env metrics t ref g dates (results @ [r]) (snaps @ [snapshot_row env r])
         = (Inr ((results @ [r]) @ rs), (snaps @ [snapshot_row env r]) @ map (snapshot_row env) rs)"
      "\<forall>q \<in> set rs. ag_type q = t \<and> ag_referenceId q = ref \<and> \<not> taken t ref (snaps @ [snapshot_row env r]) (ag_date q)"
      "distinct (map (\<lambda>r. utc_day (ag_date r)) rs)"
      "\<forall>d \<in> set dates. taken t ref ((snaps @ [snapshot_row env r]) @ map (snapshot_row env) rs) d" by blast
    show ?thesis
    proof (intro exI [of _ "r # rs"] conjI)
      show "aggregate_dates True env metrics t ref g (d # dates) results snaps
          = (Inr (results @ r # rs), snaps @ map (snapshot_row env) (r # rs))" using step rs(1) by simp
      show "\<forall>q \<in> set (r # rs). ag_type q = t \<and> ag_referenceId q = ref \<and> \<not> taken t ref snaps (ag_date q)"
        using rs(2) False r by auto
      show "distinct (map (\<lambda>r. utc_day (ag_date r)) (r # rs))" using rs(2,3) own_row [of r t ref] r by auto
      show "\<forall>x \<in> set (d # dates). taken t ref (snaps @ map (snapshot_row env) (r # rs)) x"
        using rs(4) own_row [of r t ref d env] r by auto
    qed
  qed
qed simp

text \<open>
  With the repository its base class takes, an aggregation would be idempotent and store at most one
  snapshot a day: when the figures of every period can be computed, it stores exactly what it reports, the
  reported periods lie on different days that had no snapshot of the kind before, and the same aggregation
  again stores and reports nothing - so that of the periods of an hourly aggregation only the first of each day
  is kept.
\<close>
theorem aggregation_idempotent:
  assumes "\<And>p. \<exists>m. metrics p = Inr m"
    and "aggregate True env metrics t ref opts snaps = Some (res, snaps')"
  shows "(\<exists>rs. res = Inr rs \<and> map (\<lambda>sn. (sn_date sn, sn_metrics sn)) snaps'
        = map (\<lambda>sn. (sn_date sn, sn_metrics sn)) snaps @ map (\<lambda>r. (utc_day (ag_date r), ag_metrics r)) rs
      \<and> distinct (map (\<lambda>r. utc_day (ag_date r)) rs) \<and> (\<forall>r \<in> set rs. \<forall>sn \<in> set snaps. \<not> same_snapshot (ag_date r) t ref sn))
    \<and> aggregate True env metrics t ref opts snaps' = Some (Inr [], snaps')"
proof -
  from assms(2) obtain dates where dates: "generateDateRanges (gv_parse env) (ao_startDate opts) (ao_endDate opts) (ao_granularity opts) = Some dates"
    and run: "aggregate_dates True env metrics t ref (ao_granularity opts) dates [] snaps = (res, snaps')" by (auto simp: aggregate_def)
  from aggregate_dates_stores [of metrics env t ref "ao_granularity opts" dates "[]" snaps, OF assms(1)] run
  obtain rs where rs: "res = Inr rs" "snaps' = snaps @ map (snapshot_row env) rs" "distinct (map (\<lambda>r. utc_day (ag_date r)) rs)"
    "\<forall>r \<in> set rs. \<not> taken t ref snaps (ag_date r)" "\<forall>d \<in> set dates. taken t ref snaps' d" by auto
  from all_taken [OF rs(5)] dates have "aggregate True env metrics t ref opts snaps' = Some (Inr [], snaps')"
    by (simp add: aggregate_def)
  moreover have "map (\<lambda>sn. (sn_date sn, sn_metrics sn)) snaps'
      = map (\<lambda>sn. (sn_date sn, sn_metrics sn)) snaps @ map (\<lambda>r. (utc_day (ag_date r), ag_metrics r)) rs"
    by (simp add: rs(2) snapshot_row_def)
  ultimately show ?thesis using rs(1,3,4) by blast
qed

definition two_hours :: AggregationOptions where
  "two_hours = \<lparr> ao_startDate = DateArg 0, ao_endDate = DateArg 7200000, ao_granularity = Some ''hourly'', ao_organizationId = None \<rparr>"

definition plain_env :: aggregation_env where
  "plain_env = \<lparr> gv_parse = \<lambda>_. None, gv_now = 0, gv_newId = \<lambda>_. ''s'', gv_num = \<lambda>_. [],
       gv_count = \<lambda>_ _. Inr, gv_find = \<lambda>_. Inr, gv_xp = \<lambda>_ _. Inr [], gv_completed = \<lambda>_ _. Inr None \<rparr>"

definition no_quests :: "time \<times> time \<Rightarrow> exn + (string \<times> json) list" where
  "no_quests p = calculateQuestMetrics plain_env None [] [] p"

lemma no_quests: "\<exists>m. no_quests p = Inr m"
  by (simp add: no_quests_def calculateQuestMetrics_def calculateRewardMetrics_def counted_rows_def getCommonConditions_def truthy_def Let_def)

theorem aggregation_idempotent_witness:
  "\<exists>snaps. map sn_date snaps = [0] \<and> aggregate True plain_env no_quests QUEST None two_hours [] = Some (Inr [\<lparr> ag_date = 0, ag_metrics = sn_metrics (hd snaps),
       ag_type = QUEST, ag_referenceId = None \<rparr>], snaps)
     \<and> aggregate True plain_env no_quests QUEST None two_hours snaps = Some (Inr [], snaps)"
proof -
  obtain m where m: "no_quests (0, 3600000) = Inr m" using no_quests by blast
  let ?row = "\<lparr> sn_id = ''s'', sn_date = 0, sn_type = QUEST, sn_referenceId = None, sn_metrics = m, sn_createdAt = 0 \<rparr>"
  let ?r = "\<lparr> ag_date = 0, ag_metrics = m, ag_type = QUEST, ag_referenceId = None \<rparr>"
  have "generateDateRanges (gv_parse plain_env) (ao_startDate two_hours) (ao_endDate two_hours) (ao_granularity two_hours)
      = Some [0, 3600000, 7200000]"
    by (simp add: two_hours_def generateDateRanges_def as_date_def not_after_def aggregation_step_def walk_Cons walk_Nil add_hours_def)
  then have "aggregate True plain_env no_quests QUEST None two_hours [] = Some (Inr [?r], [?row])"
    by (simp add: aggregate_def snapshotExists_def count_rows_def same_snapshot_def saveSnapshot_def getDateRange_def
        two_hours_def plain_env_def aggregation_step_def add_hours_def m utc_day_def MS_DAY_def)
  with aggregation_idempotent [OF no_quests this] show ?thesis by (intro exI [of _ "[?row]"]) simp
qed

end
