(* ===== verification/AnalyticsServices.thy ===== *)
theory AnalyticsServices
  imports Aggregation Cache "HOL-Library.List_Lexorder" "HOL-Library.Char_ord"
begin

text \<open>
  The services of the analytics module that answer queries: \<open>CacheService\<close> of that module,
  \<open>QuestAnalyticsService\<close>, \<open>PlatformAnalyticsService\<close> and \<open>UserAnalyticsService\<close>
  (\<open>modules/analytics/services\<close>).  The tables are lists of the entities; a query in SQL has its meaning over
  them, with a join column named after its relation (\<open>submission.userId\<close>).  What the library and the database
  make of a condition that is a plain object, such as \<open>createdAt: { $gte: a, $lte: b } as any\<close>, and of a column
  the entity does not have, is not in this repository: the answers to those queries are parameters.
\<close>

subsection \<open>CacheService\<close>

record 'b acache =
  ac_store :: 'b
  ac_hits :: nat
  ac_misses :: nat
  ac_keys :: "string list"

definition acache_get ::
    "('b, 'v) backend \<Rightarrow> time \<Rightarrow> string \<Rightarrow> 'b acache \<Rightarrow> ('b acache, 'v cval option) outcome" where
  "acache_get B now key c =
     (case b_get B now key (ac_store c) of
        Inl e \<Rightarrow> (Inl e, c)
      | Inr (Some v) \<Rightarrow> (Inr (Some v), c\<lparr>ac_hits := ac_hits c + 1\<rparr>)
      | Inr None \<Rightarrow> (Inr None, c\<lparr>ac_misses := ac_misses c + 1\<rparr>))"

definition acache_set ::
    "('b, 'v) backend \<Rightarrow> time \<Rightarrow> string \<Rightarrow> 'v cval \<Rightarrow> time option \<Rightarrow> 'b acache \<Rightarrow> ('b acache, unit) outcome" where
  "acache_set B now key v ttl c =
     (case b_set B now key v ttl (ac_store c) of
        Inl e \<Rightarrow> (Inl e, c)
      | Inr b \<Rightarrow> (Inr (), c\<lparr>ac_store := b, ac_keys := reg_add key (ac_keys c)\<rparr>))"

definition acache_del :: "('b, 'v) backend \<Rightarrow> string \<Rightarrow> 'b acache \<Rightarrow> ('b acache, unit) outcome" where
  "acache_del B key c =
     (case b_del B key (ac_store c) of
        Inl e \<Rightarrow> (Inl e, c)
      | Inr b \<Rightarrow> (Inr (), c\<lparr>ac_store := b, ac_keys := reg_del key (ac_keys c)\<rparr>))"

text \<open>\<open>Promise.all\<close>: every call is started, and the first failure is the result.\<close>

fun del_all :: "('b, 'v) backend \<Rightarrow> string list \<Rightarrow> 'b acache \<Rightarrow> ('b acache, unit) outcome" where
  "del_all B [] c = (Inr (), c)"
| "del_all B (k # ks) c =
     (case acache_del B k c of
        (Inr _, c1) \<Rightarrow> del_all B ks c1
      | (Inl e, c1) \<Rightarrow> (Inl e, state_of (del_all B ks c1)))"

definition acache_deletePattern :: "('b, 'v) backend \<Rightarrow> string \<Rightarrow> 'b acache \<Rightarrow> ('b acache, unit) outcome" where
  "acache_deletePattern B pattern c = del_all B (filter (\<lambda>k. starts_with k pattern) (ac_keys c)) c"

text \<open>The manager in use offers no \<open>reset\<close>: every registered key is deleted, then the registry emptied.\<close>

fun store_del_all :: "('b, 'v) backend \<Rightarrow> string list \<Rightarrow> 'b \<Rightarrow> ('b, unit) outcome" where
  "store_del_all B [] b = (Inr (), b)"
| "store_del_all B (k # ks) b =
     (case b_del B k b of
        Inr b1 \<Rightarrow> store_del_all B ks b1
      | Inl e \<Rightarrow> (Inl e, state_of (store_del_all B ks b)))"

definition acache_clear :: "('b, 'v) backend \<Rightarrow> 'b acache \<Rightarrow> ('b acache, unit) outcome" where
  "acache_clear B c =
     (case store_del_all B (ac_keys c) (ac_store c) of
        (Inl e, b) \<Rightarrow> (Inl e, c\<lparr>ac_store := b\<rparr>)
      | (Inr _, b) \<Rightarrow> (Inr (), c\<lparr>ac_store := b, ac_keys := []\<rparr>))"

record acache_stats =
  as_hits :: nat
  as_misses :: nat
  as_trackedKeys :: nat
  as_keys :: "string list option"

definition acache_getStats :: "string option \<Rightarrow> 'b acache \<Rightarrow> acache_stats" where
  "acache_getStats keyPrefix c =
     \<lparr> as_hits = ac_hits c, as_misses = ac_misses c, as_trackedKeys = length (ac_keys c),
       as_keys = (if truthy keyPrefix then Some (filter (\<lambda>k. starts_with k (the keyPrefix)) (ac_keys c)) else None) \<rparr>"

definition acache_resetStats :: "'b acache \<Rightarrow> 'b acache" where
  "acache_resetStats c = c\<lparr>ac_hits := 0, ac_misses := 0\<rparr>"

definition generateKey :: "string \<Rightarrow> (string \<times> string) list \<Rightarrow> string" where
  "generateKey prefix params =
     prefix @ '':'' @ join_with ''|'' (map (\<lambda>(k, v). k @ '':'' @ v) (sort_key fst params))"

definition acache_wrap ::
    "('b, 'v) backend \<Rightarrow> time \<Rightarrow> string \<Rightarrow> exn + 'v \<Rightarrow> time option \<Rightarrow> 'b acache \<Rightarrow> ('b acache, 'v cval) outcome" where
  "acache_wrap B now key computed ttl c =
     (case acache_get B now key c of
        (Inl e, c1) \<Rightarrow> (Inl e, c1)
      | (Inr (Some v), c1) \<Rightarrow> (Inr v, c1)
      | (Inr None, c1) \<Rightarrow>
          (case computed of
             Inl e \<Rightarrow> (Inl e, c1)
           | Inr v \<Rightarrow> (case acache_set B now key (CVal v) ttl c1 of (Inl e, c2) \<Rightarrow> (Inl e, c2) | (Inr _, c2) \<Rightarrow> (Inr (CVal v), c2))))"

subsection \<open>The tables, and what the queries say about them\<close>

record analytics_db =
  ad_users :: "AnalyticsUser list"
  ad_quests :: "AnalyticsQuest list"
  ad_submissions :: "AnalyticsSubmission list"
  ad_payouts :: "AnalyticsPayout list"

text \<open>The answers to the queries with a plain object as a condition, and to the average of \<open>user.successRate\<close>.\<close>

record library_answers =
  la_users :: "analytics_db \<Rightarrow> time \<times> time \<Rightarrow> exn + nat"
  la_quests :: "analytics_db \<Rightarrow> time \<times> time \<Rightarrow> exn + nat"
  la_submissions :: "analytics_db \<Rightarrow> time \<times> time \<Rightarrow> SubmissionStatus option \<Rightarrow> exn + AnalyticsSubmission list"
  la_payouts :: "analytics_db \<Rightarrow> time \<times> time \<Rightarrow> exn + nat"
  la_successRate :: "analytics_db \<Rightarrow> time \<times> time \<Rightarrow> exn + rat option"

text \<open>\<open>DATE_TRUNC(unit, column)\<close> for the units of the query DTO, as a day; weeks begin on Monday.\<close>

definition date_trunc :: "string \<Rightarrow> (time \<Rightarrow> int) option" where
  "date_trunc u =
     (if u = ''day'' then Some utc_day
      else if u = ''week'' then Some (\<lambda>t. utc_day t - (utc_day t + 3) mod 7)
      else if u = ''month'' then Some (\<lambda>t. make_day (year_of (utc_day t)) (int (month_of (utc_day t))) 1)
      else None)"

definition bad_unit :: "string \<Rightarrow> exn" where
  "bad_unit u = JsError (''unit '' @ [CHR 0x22] @ u @ [CHR 0x22] @ '' not recognized for type timestamp without time zone'')"

text \<open>\<open>SELECT trunc(col), f(rows) GROUP BY trunc(col) ORDER BY date\<close>.\<close>

definition group_series :: "('r \<Rightarrow> int) \<Rightarrow> ('r list \<Rightarrow> 'v) \<Rightarrow> 'r list \<Rightarrow> (int \<times> 'v) list" where
  "group_series d f rows = map (\<lambda>k. (k, f (filter (\<lambda>r. d r = k) rows))) (sorted_list_of_set (set (map d rows)))"

definition date_key :: "int \<Rightarrow> string" where
  "date_key d = formatDate (d * MS_DAY)"

subsection \<open>QuestAnalyticsService\<close>

record TimeSeriesDataPoint =
  td_date :: string
  td_newUsers :: nat
  td_newQuests :: nat
  td_newSubmissions :: nat
  td_approvedSubmissions :: nat
  td_totalPayouts :: nat
  td_rewardAmount :: string

definition empty_point :: "string \<Rightarrow> TimeSeriesDataPoint" where
  "empty_point date = \<lparr> td_date = date, td_newUsers = 0, td_newQuests = 0, td_newSubmissions = 0, td_approvedSubmissions = 0,
     td_totalPayouts = 0, td_rewardAmount = ''0'' \<rparr>"

record QuestMetrics =
  qm_questId :: id
  qm_title :: string
  qm_status :: AnalyticsQuestStatus
  qm_createdAt :: time
  qm_totalSubmissions :: nat
  qm_approvedSubmissions :: nat
  qm_rejectedSubmissions :: nat
  qm_pendingSubmissions :: nat
  qm_approvalRate :: rat
  qm_avgSubmissionToApprovalTime :: rat
  qm_totalRewardsPaid :: int
  qm_uniqueParticipants :: nat
  qm_conversionRate :: rat
  qm_submissionTimeSeries :: "TimeSeriesDataPoint list"

definition approved_count :: "AnalyticsSubmission list \<Rightarrow> nat" where
  "approved_count ss = count_rows (\<lambda>s. sb_status s = APPROVED) ss"

definition getSubmissionTimeSeries :: "id \<Rightarrow> AnalyticsSubmission list \<Rightarrow> TimeSeriesDataPoint list" where
  "getSubmissionTimeSeries questId subs =
     map (\<lambda>(d, (n, a)). (empty_point (date_key d))\<lparr>td_newSubmissions := n, td_approvedSubmissions := a\<rparr>)
       (group_series (utc_day \<circ> sb_submittedAt) (\<lambda>rs. (length rs, approved_count rs))
          (filter (\<lambda>s. sb_quest s = Some questId) subs))"

text \<open>The texts of whole numbers are kept as the numbers (\<open>totalRewardsPaid\<close>).\<close>

definition getQuestMetrics :: "analytics_db \<Rightarrow> AnalyticsQuest \<Rightarrow> QuestMetrics" where
  "getQuestMetrics db quest =
     (let submissions = filter (\<lambda>s. sb_quest s = Some (aq_id quest)) (ad_submissions db);
          having = (\<lambda>st. filter (\<lambda>s. sb_status s = st) submissions);
          approved = having APPROVED
      in \<lparr> qm_questId = aq_id quest, qm_title = aq_title quest, qm_status = aq_status quest, qm_createdAt = aq_createdAt quest,
           qm_totalSubmissions = length submissions, qm_approvedSubmissions = length approved,
           qm_rejectedSubmissions = length (having REJECTED), qm_pendingSubmissions = length (having PENDING),
           qm_approvalRate = calculateApprovalRate (of_nat (length approved)) (of_nat (length submissions)),
           qm_avgSubmissionToApprovalTime = calculateAverageTime (map (\<lambda>s. (Some (sb_submittedAt s), sb_reviewedAt s)) approved),
           qm_totalRewardsPaid = sum_list (map po_amount (filter (\<lambda>p. po_quest p = Some (aq_id quest)) (ad_payouts db))),
           qm_uniqueParticipants = card (set [u. s \<leftarrow> submissions, u \<leftarrow> (case sb_user s of None \<Rightarrow> [] | Some u \<Rightarrow> [u]), u \<noteq> []]),
           qm_conversionRate = calculateConversionRate (of_nat (length approved)) (of_nat (length submissions)),
           qm_submissionTimeSeries = getSubmissionTimeSeries (aq_id quest) (ad_submissions db) \<rparr>)"

definition sort_desc :: "('r \<Rightarrow> rat) \<Rightarrow> 'r list \<Rightarrow> 'r list" where
  "sort_desc k rs = sort_key (\<lambda>r. - k r) rs"

definition sortQuestMetrics :: "string \<Rightarrow> QuestMetrics list \<Rightarrow> QuestMetrics list" where
  "sortQuestMetrics sortBy ms =
     (if sortBy = ''submissions'' then sort_desc (rat_of_nat \<circ> qm_totalSubmissions) ms
      else if sortBy = ''approval_rate'' then sort_desc qm_approvalRate ms
      else if sortBy = ''completion_time'' then sort_key qm_avgSubmissionToApprovalTime ms
      else if sortBy = ''unique_participants'' then sort_desc (rat_of_nat \<circ> qm_uniqueParticipants) ms
      else sort_desc (rat_of_int \<circ> qm_createdAt) ms)"

record QuestSummary =
  qs_totalQuests :: nat
  qs_avgSubmissionsPerQuest :: rat
  qs_avgApprovalRate :: rat
  qs_avgCompletionTime :: rat
  qs_totalUniqueParticipants :: nat
  qs_totalRewardsPaid :: int

definition quest_summary :: "QuestMetrics list \<Rightarrow> QuestSummary" where
  "quest_summary ms =
     (if ms = [] then \<lparr> qs_totalQuests = 0, qs_avgSubmissionsPerQuest = 0, qs_avgApprovalRate = 0, qs_avgCompletionTime = 0,
                        qs_totalUniqueParticipants = 0, qs_totalRewardsPaid = 0 \<rparr>
      else (let n = rat_of_nat (length ms); completionTimes = filter (\<lambda>t. t > 0) (map qm_avgSubmissionToApprovalTime ms)
            in \<lparr> qs_totalQuests = length ms,
                 qs_avgSubmissionsPerQuest = round_to (of_nat (sum_list (map qm_totalSubmissions ms)) / n) 2,
                 qs_avgApprovalRate = round_to (sum_list (map qm_approvalRate ms) / n) 2,
                 qs_avgCompletionTime = (if completionTimes \<noteq> [] then calculateAverage completionTimes else 0),
                 qs_totalUniqueParticipants = sum_list (map qm_uniqueParticipants ms),
                 qs_totalRewardsPaid = sum_list (map qm_totalRewardsPaid ms) \<rparr>))"

record QuestAnalyticsDto =
  qa_quests :: "QuestMetrics list"
  qa_summary :: QuestSummary

record QuestAnalyticsQueryDto =
  qq_startDate :: "string option"
  qq_endDate :: "string option"
  qq_status :: "string option"
  qq_questId :: "string option"
  qq_limit :: "nat option"
  qq_sortBy :: "string option"

text \<open>A value in a template: \<open>undefined\<close> has a text too.\<close>

definition template_text :: "string option \<Rightarrow> string" where
  "template_text v = (case v of None \<Rightarrow> ''undefined'' | Some t \<Rightarrow> t)"

definition limit_or_20 :: "nat option \<Rightarrow> nat" where
  "limit_or_20 n = (case n of None \<Rightarrow> 20 | Some k \<Rightarrow> if k = 0 then 20 else k)"

definition quest_rows :: "QuestAnalyticsQueryDto \<Rightarrow> time \<times> time \<Rightarrow> analytics_db \<Rightarrow> AnalyticsQuest list" where
  "quest_rows q p db =
     take (limit_or_20 (qq_limit q))
       (filter (\<lambda>r. between p (aq_createdAt r) \<and> (truthy (qq_status q) \<longrightarrow> show_AnalyticsQuestStatus (aq_status r) = the (qq_status q))
         \<and> (truthy (qq_questId q) \<longrightarrow> aq_id r = the (qq_questId q))) (ad_quests db))"

definition quest_key :: "QuestAnalyticsQueryDto \<Rightarrow> time \<times> time \<Rightarrow> string" where
  "quest_key q p =
     generateKey ''quests'' [(''start'', toISOString (fst p)), (''end'', toISOString (snd p)), (''status'', or_default (qq_status q) ''all''),
       (''questId'', or_default (qq_questId q) ''all''), (''limit'', template_text (map_option show_nat (qq_limit q))),
       (''sortBy'', template_text (qq_sortBy q))]"

text \<open>A status that is no value of the column's type is refused by the database; identifiers are taken to be well formed.\<close>

definition known_status :: "string option \<Rightarrow> bool" where
  "known_status v \<longleftrightarrow> (truthy v \<longrightarrow> the v \<in> set (map show_AnalyticsQuestStatus [ACTIVE, PAUSED, COMPLETED, EXPIRED]))"

definition bad_status :: "string option \<Rightarrow> exn" where
  "bad_status v = JsError (''invalid input value for enum quests_status_enum: '' @ [CHR 0x22] @ coalesce v [] @ [CHR 0x22])"

definition quest_result :: "QuestAnalyticsQueryDto \<Rightarrow> time \<times> time \<Rightarrow> analytics_db \<Rightarrow> exn + QuestAnalyticsDto" where
  "quest_result q p db =
     (if \<not> known_status (qq_status q) then Inl (bad_status (qq_status q))
      else (let questMetrics = sortQuestMetrics (or_default (qq_sortBy q) ''created_at'') (map (getQuestMetrics db) (quest_rows q p db))
            in Inr \<lparr> qa_quests = questMetrics, qa_summary = quest_summary questMetrics \<rparr>))"

text \<open>The range of a query, checked.\<close>

definition query_range :: "(string \<Rightarrow> time option) \<Rightarrow> string option \<Rightarrow> string option \<Rightarrow> time \<Rightarrow> exn + time \<times> time" where
  "query_range parse startDate endDate now =
     (case parseDateRange parse startDate endDate now of
        Inl e \<Rightarrow> Inl e
      | Inr p \<Rightarrow> (case validateMaxRange (fst p) (snd p) 365 of Inl e \<Rightarrow> Inl e | Inr _ \<Rightarrow> Inr p))"

definition getQuestAnalytics ::
    "('b, QuestAnalyticsDto) backend \<Rightarrow> (string \<Rightarrow> time option) \<Rightarrow> time \<Rightarrow> QuestAnalyticsQueryDto \<Rightarrow> analytics_db \<Rightarrow> 'b acache
     \<Rightarrow> ('b acache, QuestAnalyticsDto cval) outcome" where
  "getQuestAnalytics B parse now q db c =
     (case query_range parse (qq_startDate q) (qq_endDate q) now of
        Inl e \<Rightarrow> (Inl e, c)
      | Inr p \<Rightarrow> acache_wrap B now (quest_key q p) (quest_result q p db) (Some 300) c)"

subsection \<open>PlatformAnalyticsService\<close>

definition getTotalUsers :: "library_answers \<Rightarrow> analytics_db \<Rightarrow> time \<times> time \<Rightarrow> exn + nat" where
  "getTotalUsers L db p = la_users L db p"

definition getTotalQuests :: "library_answers \<Rightarrow> analytics_db \<Rightarrow> time \<times> time \<Rightarrow> exn + nat" where
  "getTotalQuests L db p = la_quests L db p"

definition getTotalSubmissions :: "library_answers \<Rightarrow> analytics_db \<Rightarrow> time \<times> time \<Rightarrow> exn + nat" where
  "getTotalSubmissions L db p = map_sum id length (la_submissions L db p None)"

definition getApprovedSubmissions :: "library_answers \<Rightarrow> analytics_db \<Rightarrow> time \<times> time \<Rightarrow> exn + nat" where
  "getApprovedSubmissions L db p = map_sum id length (la_submissions L db p (Some APPROVED))"

definition getTotalPayouts :: "library_answers \<Rightarrow> analytics_db \<Rightarrow> time \<times> time \<Rightarrow> exn + nat" where
  "getTotalPayouts L db p = la_payouts L db p"

definition getAllSubmissions :: "library_answers \<Rightarrow> analytics_db \<Rightarrow> time \<times> time \<Rightarrow> exn + AnalyticsSubmission list" where
  "getAllSubmissions L db p = la_submissions L db p None"

definition getTotalRewardsDistributed :: "time \<times> time \<Rightarrow> analytics_db \<Rightarrow> int" where
  "getTotalRewardsDistributed p db = sum_list (map po_amount (filter (\<lambda>r. between p (po_paidAt r)) (ad_payouts db)))"

definition getActiveUsers :: "time \<times> time \<Rightarrow> analytics_db \<Rightarrow> nat" where
  "getActiveUsers p db =
     card (set [u. s \<leftarrow> ad_submissions db, between p (sb_submittedAt s), u \<leftarrow> (case sb_user s of None \<Rightarrow> [] | Some u \<Rightarrow> [u])])"

definition getQuestsByStatus :: "time \<times> time \<Rightarrow> analytics_db \<Rightarrow> (string \<times> nat) list" where
  "getQuestsByStatus p db =
     map (\<lambda>st. (show_AnalyticsQuestStatus st, count_rows (\<lambda>q. between p (aq_createdAt q) \<and> aq_status q = st) (ad_quests db)))
       [ACTIVE, PAUSED, COMPLETED, EXPIRED]"

definition getSubmissionsByStatus :: "time \<times> time \<Rightarrow> analytics_db \<Rightarrow> (string \<times> nat) list" where
  "getSubmissionsByStatus p db =
     map (\<lambda>st. (show_SubmissionStatus st, count_rows (\<lambda>s. between p (sb_submittedAt s) \<and> sb_status s = st) (ad_submissions db)))
       [PENDING, APPROVED, REJECTED, PAID]"

text \<open>One series after the other is entered into the map of points; a point that is not there yet starts empty.\<close>

definition enter_series ::
    "('v \<Rightarrow> TimeSeriesDataPoint \<Rightarrow> TimeSeriesDataPoint) \<Rightarrow> (int \<times> 'v) list \<Rightarrow> (string \<times> TimeSeriesDataPoint) list
     \<Rightarrow> (string \<times> TimeSeriesDataPoint) list" where
  "enter_series f series m =
     fold (\<lambda>(d, v) m. AList.update (date_key d) (f v (coalesce (map_of m (date_key d)) (empty_point (date_key d)))) m) series m"

definition getTimeSeries :: "string \<Rightarrow> time \<times> time \<Rightarrow> analytics_db \<Rightarrow> exn + TimeSeriesDataPoint list" where
  "getTimeSeries granularity p db =
     (case date_trunc granularity of
        None \<Rightarrow> Inl (bad_unit granularity)
      | Some d \<Rightarrow>
          (let userSeries = group_series (d \<circ> us_createdAt) length (filter (\<lambda>u. between p (us_createdAt u)) (ad_users db));
               questSeries = group_series (d \<circ> aq_createdAt) length (filter (\<lambda>q. between p (aq_createdAt q)) (ad_quests db));
               submissionSeries = group_series (d \<circ> sb_submittedAt) (\<lambda>rs. (length rs, approved_count rs))
                 (filter (\<lambda>s. between p (sb_submittedAt s)) (ad_submissions db));
               payoutSeries = group_series (d \<circ> po_paidAt) (\<lambda>rs. (length rs, sum_list (map po_amount rs)))
                 (filter (\<lambda>r. between p (po_paidAt r)) (ad_payouts db));
               m1 = enter_series (\<lambda>n x. (empty_point (td_date x))\<lparr>td_newUsers := n\<rparr>) userSeries [];
               m2 = enter_series (\<lambda>n x. x\<lparr>td_newQuests := n\<rparr>) questSeries m1;
               m3 = enter_series (\<lambda>(n, a) x. x\<lparr>td_newSubmissions := n, td_approvedSubmissions := a\<rparr>) submissionSeries m2;
               m4 = enter_series (\<lambda>(n, r) x. x\<lparr>td_totalPayouts := n, td_rewardAmount := show_int r\<rparr>) payoutSeries m3
           in Inr (sort_key td_date (map snd m4))))"

text \<open>The eleven queries run together; of several failures the first in the list is taken.\<close>

record PlatformStatsDto =
  ps_totalUsers :: nat
  ps_totalQuests :: nat
  ps_totalSubmissions :: nat
  ps_approvedSubmissions :: nat
  ps_totalPayouts :: nat
  ps_totalRewardsDistributed :: int
  ps_approvalRate :: rat
  ps_avgApprovalTime :: rat
  ps_activeUsers :: nat
  ps_timeSeries :: "TimeSeriesDataPoint list"
  ps_questsByStatus :: "(string \<times> nat) list"
  ps_submissionsByStatus :: "(string \<times> nat) list"

definition platform_result :: "library_answers \<Rightarrow> string option \<Rightarrow> time \<times> time \<Rightarrow> analytics_db \<Rightarrow> exn + PlatformStatsDto" where
  "platform_result L granularity p db =
     (case getTotalUsers L db p of Inl e \<Rightarrow> Inl e | Inr totalUsers \<Rightarrow>
      case getTotalQuests L db p of Inl e \<Rightarrow> Inl e | Inr totalQuests \<Rightarrow>
      case getTotalSubmissions L db p of Inl e \<Rightarrow> Inl e | Inr totalSubmissions \<Rightarrow>
      case getApprovedSubmissions L db p of Inl e \<Rightarrow> Inl e | Inr approvedSubmissions \<Rightarrow>
      case getTotalPayouts L db p of Inl e \<Rightarrow> Inl e | Inr totalPayouts \<Rightarrow>
      case getAllSubmissions L db p of Inl e \<Rightarrow> Inl e | Inr allSubmissions \<Rightarrow>
      case getTimeSeries (or_default granularity ''day'') p db of Inl e \<Rightarrow> Inl e | Inr timeSeries \<Rightarrow>
        Inr \<lparr> ps_totalUsers = totalUsers, ps_totalQuests = totalQuests, ps_totalSubmissions = totalSubmissions,
              ps_approvedSubmissions = approvedSubmissions, ps_totalPayouts = totalPayouts,
              ps_totalRewardsDistributed = getTotalRewardsDistributed p db,
              ps_approvalRate = calculateApprovalRate (of_nat approvedSubmissions) (of_nat totalSubmissions),
              ps_avgApprovalTime = calculateAverageTime (map (\<lambda>s. (Some (sb_submittedAt s), sb_reviewedAt s))
                (filter (\<lambda>s. sb_status s = APPROVED) allSubmissions)),
              ps_activeUsers = getActiveUsers p db, ps_timeSeries = timeSeries, ps_questsByStatus = getQuestsByStatus p db,
              ps_submissionsByStatus = getSubmissionsByStatus p db \<rparr>)"

record AnalyticsQueryDto =
  aqd_startDate :: "string option"
  aqd_endDate :: "string option"
  aqd_granularity :: "string option"

definition platform_key :: "AnalyticsQueryDto \<Rightarrow> time \<times> time \<Rightarrow> string" where
  "platform_key q p =
     generateKey ''platform'' [(''start'', toISOString (fst p)), (''end'', toISOString (snd p)),
       (''granularity'', template_text (aqd_granularity q))]"

definition getPlatformStats ::
    "library_answers \<Rightarrow> ('b, PlatformStatsDto) backend \<Rightarrow> (string \<Rightarrow> time option) \<Rightarrow> time \<Rightarrow> AnalyticsQueryDto \<Rightarrow> analytics_db \<Rightarrow> 'b acache
     \<Rightarrow> ('b acache, PlatformStatsDto cval) outcome" where
  "getPlatformStats L B parse now q db c =
     (case query_range parse (aqd_startDate q) (aqd_endDate q) now of
        Inl e \<Rightarrow> (Inl e, c)
      | Inr p \<Rightarrow> acache_wrap B now (platform_key q p) (platform_result L (aqd_granularity q) p db) (Some 300) c)"

end
