(* ===== verification/UserAnalytics.thy ===== *)
theory UserAnalytics
  imports AnalyticsServices
begin

text \<open>
  \<open>UserAnalyticsService\<close> (\<open>modules/analytics/services/user-analytics.service.ts\<close>): the figures of a user, the
  summary and the cohorts, the leaderboard and the activity of a user.
\<close>

record ActivityDataPoint =
  ap_date :: string
  ap_submissions :: nat
  ap_questsCompleted :: nat
  ap_xpGained :: nat

definition counts_as_approved :: "AnalyticsSubmission \<Rightarrow> bool" where
  "counts_as_approved s \<longleftrightarrow> sb_status s = APPROVED \<or> sb_status s = PAID"

definition getUserActivityHistory :: "id \<Rightarrow> analytics_db \<Rightarrow> ActivityDataPoint list" where
  "getUserActivityHistory userId db =
     map (\<lambda>(d, (n, q)). \<lparr> ap_date = date_key d, ap_submissions = n, ap_questsCompleted = q, ap_xpGained = q * 100 \<rparr>)
       (group_series (utc_day \<circ> sb_submittedAt) (\<lambda>rs. (length rs, count_rows counts_as_approved rs))
          (filter (\<lambda>s. sb_user s = Some userId) (ad_submissions db)))"

text \<open>The fields the entity of the module does not have are constants and left out.\<close>

record UserMetrics =
  um_stellarAddress :: string
  um_username :: string
  um_totalXp :: int
  um_level :: int
  um_questsCompleted :: int
  um_totalSubmissions :: nat
  um_approvedSubmissions :: nat
  um_approvalRate :: rat
  um_totalRewardsEarned :: int
  um_avgCompletionTime :: rat
  um_lastActiveAt :: time
  um_createdAt :: time
  um_badges :: "string list"
  um_activityHistory :: "ActivityDataPoint list"

definition latest_of :: "time \<Rightarrow> AnalyticsSubmission list \<Rightarrow> time" where
  "latest_of created ss =
     (case ss of [] \<Rightarrow> created
      | s0 # _ \<Rightarrow> fold (\<lambda>s latest. if sb_submittedAt s > latest then sb_submittedAt s else latest) ss (sb_submittedAt s0))"

definition getUserMetrics :: "analytics_db \<Rightarrow> AnalyticsUser \<Rightarrow> UserMetrics" where
  "getUserMetrics db user =
     (let submissions = filter (\<lambda>s. sb_user s = Some (us_id user)) (ad_submissions db);
          approved = filter counts_as_approved submissions
      in \<lparr> um_stellarAddress = or_default (us_stellarAddress user) [], um_username = or_default (us_username user) [],
           um_totalXp = us_totalXp user, um_level = us_level user, um_questsCompleted = us_questsCompleted user,
           um_totalSubmissions = length submissions, um_approvedSubmissions = length approved,
           um_approvalRate = calculateApprovalRate (of_nat (length approved)) (of_nat (length submissions)),
           um_totalRewardsEarned = sum_list (map po_amount (filter (\<lambda>p. po_recipient p = Some (us_id user)) (ad_payouts db))),
           um_avgCompletionTime = calculateAverageTime (map (\<lambda>s. (Some (sb_submittedAt s), sb_reviewedAt s)) approved),
           um_lastActiveAt = latest_of (us_createdAt user) submissions, um_createdAt = us_createdAt user,
           um_badges = us_badges user, um_activityHistory = getUserActivityHistory (us_id user) db \<rparr>)"

record UserSummary =
  su_totalUsers :: nat
  su_activeUsers :: nat
  su_avgQuestsPerUser :: rat
  su_avgXpPerUser :: rat
  su_retentionRate :: rat
  su_avgSuccessRate :: rat

record CohortAnalysis =
  co_newUsersThisPeriod :: nat
  co_returningUsers :: nat
  co_churnedUsers :: nat

definition distinct_users :: "(AnalyticsSubmission \<Rightarrow> bool) \<Rightarrow> analytics_db \<Rightarrow> nat" where
  "distinct_users P db = card (set [u. s \<leftarrow> ad_submissions db, P s, u \<leftarrow> (case sb_user s of None \<Rightarrow> [] | Some u \<Rightarrow> [u])])"

text \<open>\<open>AVG\<close> of an integer column, which is absent when there is no row.\<close>

definition avg_or_0 :: "rat option \<Rightarrow> rat" where
  "avg_or_0 v = round_to (coalesce v 0) 2"

definition sql_avg :: "int list \<Rightarrow> rat option" where
  "sql_avg xs = (if xs = [] then None else Some (rat_of_int (sum_list xs) / of_nat (length xs)))"

definition calculateSummary :: "library_answers \<Rightarrow> analytics_db \<Rightarrow> time \<times> time \<Rightarrow> exn + UserSummary" where
  "calculateSummary L db p =
     (case la_users L db p of
        Inl e \<Rightarrow> Inl e
      | Inr totalUsers \<Rightarrow>
          (let activeUsers = distinct_users (\<lambda>s. between p (sb_submittedAt s)) db;
               users = filter (\<lambda>u. between p (us_createdAt u)) (ad_users db)
           in case la_successRate L db p of
                Inl e \<Rightarrow> Inl e
              | Inr avgSuccess \<Rightarrow>
                  Inr \<lparr> su_totalUsers = totalUsers, su_activeUsers = activeUsers,
                        su_avgQuestsPerUser = avg_or_0 (sql_avg (map us_questsCompleted users)),
                        su_avgXpPerUser = avg_or_0 (sql_avg (map us_totalXp users)),
                        su_retentionRate = calculateRetentionRate (of_nat totalUsers) (of_nat activeUsers),
                        su_avgSuccessRate = avg_or_0 avgSuccess \<rparr>))"

text \<open>The users who were there before the period are found by the row of the user a submission belongs to.\<close>

definition joined_before :: "analytics_db \<Rightarrow> time \<Rightarrow> AnalyticsSubmission \<Rightarrow> bool" where
  "joined_before db t s \<longleftrightarrow> (\<exists>u \<in> set (ad_users db). sb_user s = Some (us_id u) \<and> us_createdAt u < t)"

definition calculateCohortAnalysis :: "library_answers \<Rightarrow> analytics_db \<Rightarrow> time \<times> time \<Rightarrow> exn + CohortAnalysis" where
  "calculateCohortAnalysis L db p =
     (case la_users L db p of
        Inl e \<Rightarrow> Inl e
      | Inr newUsersThisPeriod \<Rightarrow>
          (let returningUsers = distinct_users (\<lambda>s. between p (sb_submittedAt s) \<and> joined_before db (fst p) s) db;
               previousPeriodStart = add_days (- getDaysDifference (fst p) (snd p)) (fst p);
               previouslyActive = distinct_users (\<lambda>s. previousPeriodStart \<le> sb_submittedAt s \<and> sb_submittedAt s < fst p) db;
               currentActive = distinct_users (\<lambda>s. between p (sb_submittedAt s)) db
           in Inr \<lparr> co_newUsersThisPeriod = newUsersThisPeriod, co_returningUsers = returningUsers,
                    co_churnedUsers = previouslyActive - currentActive \<rparr>))"

definition getUserGrowth :: "time \<times> time \<Rightarrow> analytics_db \<Rightarrow> ActivityDataPoint list" where
  "getUserGrowth p db =
     map (\<lambda>(d, n). \<lparr> ap_date = date_key d, ap_submissions = 0, ap_questsCompleted = n, ap_xpGained = n * 100 \<rparr>)
       (group_series (utc_day \<circ> us_createdAt) length (filter (\<lambda>u. between p (us_createdAt u)) (ad_users db)))"

record UserAnalyticsDto =
  ua_users :: "UserMetrics list"
  ua_summary :: UserSummary
  ua_cohortAnalysis :: CohortAnalysis
  ua_userGrowth :: "ActivityDataPoint list"

record UserAnalyticsQueryDto =
  uq_startDate :: "string option"
  uq_endDate :: "string option"
  uq_stellarAddress :: "string option"
  uq_limit :: "nat option"
  uq_sortBy :: "string option"

definition user_rows :: "UserAnalyticsQueryDto \<Rightarrow> time \<times> time \<Rightarrow> analytics_db \<Rightarrow> AnalyticsUser list" where
  "user_rows q p db =
     take (limit_or_20 (uq_limit q))
       (filter (\<lambda>u. between p (us_createdAt u)
         \<and> (truthy (uq_stellarAddress q) \<longrightarrow> us_stellarAddress u = uq_stellarAddress q)) (ad_users db))"

text \<open>
  Success rates are all zero.  The comparison of rewards contradicts itself on equal ones, whose order the
  language leaves open; they are left as they are.
\<close>

definition sortUserMetrics :: "string \<Rightarrow> UserMetrics list \<Rightarrow> UserMetrics list" where
  "sortUserMetrics sortBy ms =
     (if sortBy = ''xp'' then order_desc um_totalXp ms
      else if sortBy = ''quests_completed'' then order_desc um_questsCompleted ms
      else if sortBy = ''total_rewards'' then order_desc um_totalRewardsEarned ms
      else if sortBy = ''success_rate'' then ms
      else order_desc um_createdAt ms)"

definition user_result :: "library_answers \<Rightarrow> UserAnalyticsQueryDto \<Rightarrow> time \<times> time \<Rightarrow> analytics_db \<Rightarrow> exn + UserAnalyticsDto" where
  "user_result L q p db =
     (let userMetrics = sortUserMetrics (or_default (uq_sortBy q) ''xp'') (map (getUserMetrics db) (user_rows q p db))
      in case calculateSummary L db p of Inl e \<Rightarrow> Inl e | Inr summary \<Rightarrow>
         case calculateCohortAnalysis L db p of Inl e \<Rightarrow> Inl e | Inr cohortAnalysis \<Rightarrow>
           Inr \<lparr> ua_users = userMetrics, ua_summary = summary, ua_cohortAnalysis = cohortAnalysis, ua_userGrowth = getUserGrowth p db \<rparr>)"

definition user_key :: "UserAnalyticsQueryDto \<Rightarrow> time \<times> time \<Rightarrow> string" where
  "user_key q p =
     generateKey ''users'' [(''start'', toISOString (fst p)), (''end'', toISOString (snd p)),
       (''stellarAddress'', or_default (uq_stellarAddress q) ''all''), (''limit'', template_text (map_option show_nat (uq_limit q))),
       (''sortBy'', template_text (uq_sortBy q))]"

definition getUserAnalytics ::
    "library_answers \<Rightarrow> ('b, UserAnalyticsDto) backend \<Rightarrow> (string \<Rightarrow> time option) \<Rightarrow> time \<Rightarrow> UserAnalyticsQueryDto \<Rightarrow> analytics_db \<Rightarrow> 'b acache
     \<Rightarrow> ('b acache, UserAnalyticsDto cval) outcome" where
  "getUserAnalytics L B parse now q db c =
     (case query_range parse (uq_startDate q) (uq_endDate q) now of
        Inl e \<Rightarrow> (Inl e, c)
      | Inr p \<Rightarrow> acache_wrap B now (user_key q p) (user_result L q p db) (Some 600) c)"

text \<open>The leaderboard: users with an address and a name, by experience or by completed quests.\<close>

record leader =
  ld_rank :: nat
  ld_id :: id
  ld_username :: string
  ld_stellarAddress :: string
  ld_totalXp :: int
  ld_level :: int
  ld_questsCompleted :: int

record leaderboard_page =
  lp_data :: "leader list"
  lp_page :: nat
  lp_limit :: nat
  lp_total :: nat
  lp_totalPages :: nat

definition ranked_users :: "string \<Rightarrow> analytics_db \<Rightarrow> AnalyticsUser list" where
  "ranked_users sortBy db =
     order_desc (if sortBy = ''quests_completed'' \<or> sortBy = ''success_rate'' then us_questsCompleted else us_totalXp)
       (filter (\<lambda>u. us_stellarAddress u \<noteq> None \<and> us_username u \<noteq> None) (ad_users db))"

definition getLeaderboardAnalytics :: "nat \<Rightarrow> nat \<Rightarrow> string \<Rightarrow> analytics_db \<Rightarrow> leaderboard_page" where
  "getLeaderboardAnalytics page limit sortBy db =
     (let offset = (page - 1) * limit; ranked = ranked_users sortBy db
      in \<lparr> lp_data = map (\<lambda>(i, u). \<lparr> ld_rank = offset + i + 1, ld_id = us_id u, ld_username = coalesce (us_username u) [],
                    ld_stellarAddress = coalesce (us_stellarAddress u) [], ld_totalXp = us_totalXp u, ld_level = us_level u,
                    ld_questsCompleted = us_questsCompleted u \<rparr>) (enumerate 0 (page_of page limit ranked)),
           lp_page = page, lp_limit = limit, lp_total = length ranked, lp_totalPages = ceil_div (length ranked) limit \<rparr>)"

definition getUserActivityHeatmap :: "id \<Rightarrow> time \<Rightarrow> analytics_db \<Rightarrow> (string \<times> nat) list" where
  "getUserActivityHeatmap userId now db =
     map (\<lambda>(d, n). (date_key d, n))
       (group_series (utc_day \<circ> sb_submittedAt) length
          (filter (\<lambda>s. sb_user s = Some userId \<and> now - 30 * 24 * 60 * 60 * 1000 \<le> sb_submittedAt s) (ad_submissions db)))"

end
