(* ===== verification/AnalyticsProps.thy ===== *)
theory AnalyticsProps
  imports UserAnalytics AnalyticsToolsProps CacheProps
begin

text \<open>
  Properties of the analytics services: what the series and the figures account for, how long an answer is
  kept, and which answers are never given.
\<close>

subsection \<open>Texts of days\<close>

lemma show_nat_length: "n < 10 ^ k \<Longrightarrow> 0 < k \<Longrightarrow> length (show_nat n) \<le> k"
proof (induction k arbitrary: n)
  case (Suc k)
  show ?case
  proof (cases "n < 10")
    case True
    then show ?thesis by (simp add: show_nat_small)
  next
    case False
    with Suc.prems have "n div 10 < 10 ^ k" "0 < k" by (auto simp: div_less_iff_less_mult intro: gr0I)
    from Suc.IH [OF this] False show ?thesis by (simp add: show_nat_large)
  qed
qed simp

lemma pad_length: "n < 10 ^ k \<Longrightarrow> 0 < k \<Longrightarrow> length (pad k (show_nat n)) = k"
  using show_nat_length by (fastforce simp: pad_def)

lemma pad_value: "digits_value (pad k (show_nat n)) = n"
  using show_nat_digits [of n] by (simp add: digits_pad)

lemma pad_digits: "\<forall>c \<in> set (pad k (show_nat n)). is_digit c"
proof -
  have "is_digit CHR ''0''" by code_simp
  then show ?thesis using show_nat_digits [of n] by (auto simp: pad_def)
qed

definition year_value :: "string \<Rightarrow> int" where
  "year_value s = (if hd s = CHR ''-'' then - int (digits_value (tl s))
     else if hd s = CHR ''+'' then int (digits_value (tl s)) else int (digits_value s))"

lemma year_value: "year_value (year_text y) = y"
proof -
  have signs: "\<not> is_digit CHR ''-''" "\<not> is_digit CHR ''+''" by code_simp+
  have "pad 4 (show_nat n) \<noteq> []" for n using show_nat_digits [of n] by (simp add: pad_def)
  then have "hd (pad 4 (show_nat n)) \<in> set (pad 4 (show_nat n))" for n by simp
  with pad_digits [of 4] signs have "hd (pad 4 (show_nat n)) \<noteq> CHR ''-''" "hd (pad 4 (show_nat n)) \<noteq> CHR ''+''" for n by metis+
  then show ?thesis by (auto simp: year_value_def year_text_def pad_value)
qed

lemma day_text_inj: "day_text d = day_text d' \<Longrightarrow> d = d'"
proof -
  assume same: "day_text d = day_text d'"
  have len: "length (pad 2 (show_nat (month_of x + 1))) = 2" "length (pad 2 (show_nat (nat (date_of x)))) = 2" for x
    using month_of_bounds [of x] date_of_bounds [of x] by (auto intro: pad_length)
  from same len have parts: "year_text (year_of d) = year_text (year_of d')"
      "pad 2 (show_nat (month_of d + 1)) = pad 2 (show_nat (month_of d' + 1))"
      "pad 2 (show_nat (nat (date_of d))) = pad 2 (show_nat (nat (date_of d')))"
    by (simp_all add: day_text_def append_eq_append_conv)
  from parts(1) have "year_of d = year_of d'" by (metis year_value)
  moreover from parts(2) have "month_of d = month_of d'" by (metis add_right_cancel pad_value)
  moreover from parts(3) have "nat (date_of d) = nat (date_of d')" by (metis pad_value)
  then have "date_of d = date_of d'" using date_of_bounds [of d] date_of_bounds [of d'] by simp
  ultimately show "d = d'" using make_day_of [of d 0] make_day_of [of d' 0] by simp
qed

lemma date_key_inj: "date_key d = date_key d' \<longleftrightarrow> d = d'"
  using day_text_inj by (auto simp: date_key_def formatDate_def utc_day_def MS_DAY_def)

subsection \<open>Series\<close>

definition field_sum :: "('x \<Rightarrow> nat) \<Rightarrow> ('k \<times> 'x) list \<Rightarrow> nat" where
  "field_sum F m = sum_list (map (F \<circ> snd) m)"

lemma field_sum_simps [simp]: "field_sum F [] = 0" "field_sum F ((k, x) # m) = F x + field_sum F m"
  by (simp_all add: field_sum_def)

lemma sum_groups:
  assumes "finite K" and "d ` set rows \<subseteq> K"
  shows "(\<Sum>k\<in>K. length (filter (\<lambda>r. d r = k \<and> P r) rows)) = length (filter P rows)"
  using assms(2)
proof (induction rows)
  case (Cons r rows)
  have "length (filter (\<lambda>x. d x = k \<and> P x) (r # rows)) = (if k = d r then if P r then 1 else 0 else 0) + length (filter (\<lambda>x. d x = k \<and> P x) rows)" for k
    by auto
  with Cons assms(1) show ?case by (simp add: sum.distrib)
qed simp

lemma group_sum:
  assumes "\<And>rs. g (f rs) = length (filter P rs)"
  shows "(field_sum g (group_series d f rows)) = length (filter P rows)"
proof -
  have "(field_sum g (group_series d f rows))
      = sum_list (map (\<lambda>k. length (filter (\<lambda>r. d r = k \<and> P r) rows)) (sorted_list_of_set (set (map d rows))))"
    by (simp add: field_sum_def group_series_def comp_def assms conj_commute cong: filter_cong)
  also have "\<dots> = (\<Sum>k\<in>set (map d rows). length (filter (\<lambda>r. d r = k \<and> P r) rows))"
    by (subst sum_list_distinct_conv_sum_set) simp_all
  also have "\<dots> = length (filter P rows)" by (rule sum_groups) simp_all
  finally show ?thesis .
qed

lemma group_keys: "distinct (map fst (group_series d f rows))"
  by (simp add: group_series_def comp_def)

text \<open>What entering a series does to the sum of a field.\<close>

lemma update_sum:
  fixes F :: "'x \<Rightarrow> nat"
  assumes "F e = 0"
  shows "(field_sum F (AList.update k v m)) + F (coalesce (map_of m k) e) = (field_sum F m) + F v"
  using assms by (induction m) (auto simp: field_sum_def)

lemma enter_step:
  "enter_series f ((d, v) # s) m = enter_series f s (AList.update (date_key d) (f v (coalesce (map_of m (date_key d)) (empty_point (date_key d)))) m)"
  by (simp add: enter_series_def)

lemma enter_Nil: "enter_series f [] m = m"
  by (simp add: enter_series_def)

lemma enter_keeps:
  fixes F :: "TimeSeriesDataPoint \<Rightarrow> nat"
  assumes "\<And>v x. F (f v x) = F x" and "\<And>k. F (empty_point k) = 0"
  shows "(field_sum F (enter_series f s m)) = (field_sum F m)"
proof (induction s arbitrary: m)
  case (Cons p s)
  obtain d v where p: "p = (d, v)" by (rule prod.exhaust)
  show ?case
    using update_sum [of F "empty_point (date_key d)" "date_key d" "f v (coalesce (map_of m (date_key d)) (empty_point (date_key d)))" m] assms
    by (simp add: p enter_step Cons)
qed (simp add: enter_Nil)

lemma enter_adds:
  fixes F :: "TimeSeriesDataPoint \<Rightarrow> nat"
  assumes "\<And>v x. F (f v x) = g v" and "\<And>k. F (empty_point k) = 0"
    and "distinct (map fst s)" and "\<forall>d \<in> set (map fst s). F (coalesce (map_of m (date_key d)) (empty_point (date_key d))) = 0"
  shows "(field_sum F (enter_series f s m)) = (field_sum F m) + (field_sum g s)"
  using assms(3,4)
proof (induction s arbitrary: m)
  case (Cons p s)
  obtain d v where p: "p = (d, v)" by (rule prod.exhaust)
  let ?m = "AList.update (date_key d) (f v (coalesce (map_of m (date_key d)) (empty_point (date_key d)))) m"
  have "\<forall>d' \<in> set (map fst s). F (coalesce (map_of ?m (date_key d')) (empty_point (date_key d'))) = 0"
    using Cons.prems by (auto simp: p update_conv' date_key_inj)
  with Cons have "(field_sum F (enter_series f s ?m)) = (field_sum F ?m) + (field_sum g s)" by (simp add: p)
  then show ?case
    using update_sum [of F "empty_point (date_key d)" "date_key d" "f v (coalesce (map_of m (date_key d)) (empty_point (date_key d)))" m]
      Cons.prems(2) assms(1,2) by (simp add: p enter_step)
qed (simp add: enter_Nil)

lemma in_update: "(j, y) \<in> set (AList.update k v m) \<Longrightarrow> (j, y) = (k, v) \<or> (j, y) \<in> set m"
  by (induction m) (auto split: if_splits)

definition keyed :: "(string \<times> TimeSeriesDataPoint) list \<Rightarrow> bool" where
  "keyed m \<longleftrightarrow> distinct (map fst m) \<and> (\<forall>(k, x) \<in> set m. td_date x = k)"

lemma keyed_enter:
  assumes "\<And>v x. td_date (f v x) = td_date x"
  shows "keyed m \<Longrightarrow> keyed (enter_series f s m)"
proof (induction s arbitrary: m)
  case (Cons p s)
  obtain d v where p: "p = (d, v)" by (rule prod.exhaust)
  let ?x = "coalesce (map_of m (date_key d)) (empty_point (date_key d))"
  have "td_date ?x = date_key d"
    using Cons.prems by (cases "map_of m (date_key d)") (auto simp: keyed_def empty_point_def dest: map_of_SomeD)
  then have "keyed (AList.update (date_key d) (f v ?x) m)"
    using Cons.prems assms by (auto simp: keyed_def distinct_update dest!: in_update)
  with Cons.IH show ?case by (simp add: p enter_step)
qed (simp add: enter_Nil)

lemma keyed_dates: "keyed m \<Longrightarrow> distinct (map td_date (map snd m))"
proof -
  assume m: "keyed m"
  have "map td_date (map snd m) = map fst m"
    unfolding map_map by (rule map_cong [OF refl]) (use m in \<open>auto simp: keyed_def\<close>)
  with m show ?thesis by (simp only: keyed_def)
qed

lemma insort_sum: "sum_list (map F (insort_key k x xs)) = (F x + sum_list (map F xs) :: nat)"
  by (induction xs) auto

lemma sort_sum: "sum_list (map F (sort_key k xs)) = (sum_list (map F xs) :: nat)"
  by (induction xs) (simp_all add: insort_sum)

lemma sort_distinct: "distinct (map f (sort_key k xs)) \<longleftrightarrow> distinct (map f xs)"
  by (simp add: distinct_map)

lemma empty_point_fields [simp]:
  "td_date (empty_point k) = k" "td_newUsers (empty_point k) = 0" "td_newQuests (empty_point k) = 0" "td_newSubmissions (empty_point k) = 0"
  "td_approvedSubmissions (empty_point k) = 0" "td_totalPayouts (empty_point k) = 0"
  by (simp_all add: empty_point_def)

lemma no_field:
  assumes "field_sum F m = 0" and "F (empty_point k) = 0"
  shows "F (coalesce (map_of m k) (empty_point k)) = 0"
proof (cases "map_of m k")
  case (Some x)
  then have "(k, x) \<in> set m" by (rule map_of_SomeD)
  with assms(1) have "F x = 0" by (auto simp: field_sum_def)
  with Some show ?thesis by simp
qed (simp add: assms)

lemma series_totals:
  assumes "getTimeSeries g p db = Inr points"
  shows "distinct (map td_date points)
    \<and> sum_list (map td_newUsers points) = count_rows (\<lambda>u. between p (us_createdAt u)) (ad_users db)
    \<and> sum_list (map td_newQuests points) = count_rows (\<lambda>q. between p (aq_createdAt q)) (ad_quests db)
    \<and> sum_list (map td_newSubmissions points) = count_rows (\<lambda>s. between p (sb_submittedAt s)) (ad_submissions db)
    \<and> sum_list (map td_approvedSubmissions points)
        = count_rows (\<lambda>s. sb_status s = APPROVED \<and> between p (sb_submittedAt s)) (ad_submissions db)
    \<and> sum_list (map td_totalPayouts points) = count_rows (\<lambda>r. between p (po_paidAt r)) (ad_payouts db)"
proof -
  from assms obtain d where d: "date_trunc g = Some d" by (auto simp: getTimeSeries_def split: option.splits)
  define us where "us = group_series (d \<circ> us_createdAt) length (filter (\<lambda>u. between p (us_createdAt u)) (ad_users db))"
  define qs where "qs = group_series (d \<circ> aq_createdAt) length (filter (\<lambda>q. between p (aq_createdAt q)) (ad_quests db))"
  define ss where "ss = group_series (d \<circ> sb_submittedAt) (\<lambda>rs. (length rs, approved_count rs)) (filter (\<lambda>s. between p (sb_submittedAt s)) (ad_submissions db))"
  define ps where "ps = group_series (d \<circ> po_paidAt) (\<lambda>rs. (length rs, sum_list (map po_amount rs))) (filter (\<lambda>r. between p (po_paidAt r)) (ad_payouts db))"
  define m1 where "m1 = enter_series (\<lambda>n x. (empty_point (td_date x))\<lparr>td_newUsers := n\<rparr>) us []"
  define m2 where "m2 = enter_series (\<lambda>n x. x\<lparr>td_newQuests := n\<rparr>) qs m1"
  define m3 where "m3 = enter_series (\<lambda>(n, a) x. x\<lparr>td_newSubmissions := n, td_approvedSubmissions := a\<rparr>) ss m2"
  define m4 where "m4 = enter_series (\<lambda>(n, r) x. x\<lparr>td_totalPayouts := n, td_rewardAmount := show_int r\<rparr>) ps m3"
  have points: "points = sort_key td_date (map snd m4)"
    using assms d by (simp add: getTimeSeries_def Let_def m4_def m3_def m2_def m1_def us_def qs_def ss_def ps_def)
  have keys: "distinct (map fst us)" "distinct (map fst qs)" "distinct (map fst ss)" "distinct (map fst ps)"
    by (simp_all only: us_def qs_def ss_def ps_def group_keys)
  have "keyed m4" unfolding m4_def m3_def m2_def m1_def
    by (intro keyed_enter) (auto simp: keyed_def split: prod.split)
  then have "distinct (map td_date points)" 
    using keyed_dates [of m4] by (simp only: points sort_distinct)
  moreover have fields: "sum_list (map F points) = field_sum F m4" for F :: "TimeSeriesDataPoint \<Rightarrow> nat"
    by (simp add: points sort_sum field_sum_def)
  have users: "field_sum td_newUsers m1 = field_sum (\<lambda>n. n) us"
    unfolding m1_def by (subst enter_adds [where g = "\<lambda>n. n"]) (simp_all add: keys)
  have none: "field_sum td_newQuests m1 = 0" "field_sum td_newSubmissions m1 = 0" "field_sum td_approvedSubmissions m1 = 0" "field_sum td_totalPayouts m1 = 0"
    unfolding m1_def by (subst enter_adds [where g = "\<lambda>n. 0"]; simp add: keys field_sum_def)+
  have m2: "field_sum td_newUsers m2 = field_sum td_newUsers m1" "field_sum td_newSubmissions m2 = 0" "field_sum td_approvedSubmissions m2 = 0"
      "field_sum td_totalPayouts m2 = 0"
    unfolding m2_def by (subst enter_keeps; simp add: none)+
  have q2: "field_sum td_newQuests m2 = field_sum (\<lambda>n. n) qs"
    unfolding m2_def by (subst enter_adds [where g = "\<lambda>n. n"]) (simp_all add: keys none no_field)
  have m3: "field_sum td_newUsers m3 = field_sum td_newUsers m2" "field_sum td_newQuests m3 = field_sum td_newQuests m2" "field_sum td_totalPayouts m3 = 0"
    unfolding m3_def by (subst enter_keeps; auto simp: m2)+
  have s3: "field_sum td_newSubmissions m3 = field_sum fst ss" "field_sum td_approvedSubmissions m3 = field_sum snd ss"
    unfolding m3_def by (subst enter_adds [where g = fst]; auto simp: keys m2 no_field) (subst enter_adds [where g = snd]; auto simp: keys m2 no_field)
  have m4: "field_sum td_newUsers m4 = field_sum td_newUsers m3" "field_sum td_newQuests m4 = field_sum td_newQuests m3"
      "field_sum td_newSubmissions m4 = field_sum td_newSubmissions m3" "field_sum td_approvedSubmissions m4 = field_sum td_approvedSubmissions m3"
    unfolding m4_def by (subst enter_keeps; auto)+
  have p4: "field_sum td_totalPayouts m4 = field_sum fst ps"
    unfolding m4_def by (subst enter_adds [where g = fst]) (auto simp: keys m3 no_field)
  have sums: "field_sum (\<lambda>n. n) us = count_rows (\<lambda>u. between p (us_createdAt u)) (ad_users db)"
      "field_sum (\<lambda>n. n) qs = count_rows (\<lambda>q. between p (aq_createdAt q)) (ad_quests db)"
      "field_sum fst ss = count_rows (\<lambda>s. between p (sb_submittedAt s)) (ad_submissions db)"
      "field_sum fst ps = count_rows (\<lambda>r. between p (po_paidAt r)) (ad_payouts db)"
    unfolding us_def qs_def ss_def ps_def by (subst group_sum [where P = "\<lambda>_. True"]; simp add: count_rows_def)+
  have "field_sum snd ss = count_rows (\<lambda>s. sb_status s = APPROVED \<and> between p (sb_submittedAt s)) (ad_submissions db)"
    unfolding ss_def by (subst group_sum [where P = "\<lambda>s. sb_status s = APPROVED"]) (simp_all add: count_rows_def approved_count_def conj_commute)
  ultimately show ?thesis by (simp add: fields users m2 q2 m3 s3 m4 p4 sums)
qed

text \<open>
  The time series of the platform accounts for everything once, for each of the three granularities:
  its dates are different from each other, and the numbers of new users, quests, submissions, approved
  submissions and payouts add up to the numbers of rows of the range, whichever days the four series have in
  common and however they are merged.
\<close>
theorem time_series_complete:
  assumes "getTimeSeries g p db = Inr points"
  shows "distinct (map td_date points)
    \<and> sum_list (map td_newUsers points) = count_rows (\<lambda>u. between p (us_createdAt u)) (ad_users db)
    \<and> sum_list (map td_newQuests points) = count_rows (\<lambda>q. between p (aq_createdAt q)) (ad_quests db)
    \<and> sum_list (map td_newSubmissions points) = count_rows (\<lambda>s. between p (sb_submittedAt s)) (ad_submissions db)
    \<and> sum_list (map td_approvedSubmissions points)
        = count_rows (\<lambda>s. sb_status s = APPROVED \<and> between p (sb_submittedAt s)) (ad_submissions db)
    \<and> sum_list (map td_totalPayouts points) = count_rows (\<lambda>r. between p (po_paidAt r)) (ad_payouts db)"
  using assms by (rule series_totals)

definition small_db :: analytics_db where
  "small_db = \<lparr> ad_users = [\<lparr> us_id = ''u'', us_stellarAddress = None, us_username = None, us_totalXp = 0, us_level = 1,
       us_questsCompleted = 0, us_badges = [], us_createdAt = 7 \<rparr>],
     ad_quests = [], ad_submissions =
       [\<lparr> sb_quest = Some ''q'', sb_user = Some ''u'', sb_status = APPROVED, sb_submittedAt = 5, sb_reviewedAt = None, sb_createdAt = 5 \<rparr>,
        \<lparr> sb_quest = Some ''q'', sb_user = Some ''u'', sb_status = PAID, sb_submittedAt = 100000000, sb_reviewedAt = None, sb_createdAt = 5 \<rparr>],
     ad_payouts = [] \<rparr>"

theorem time_series_complete_witness:
  "\<exists>points. getTimeSeries ''day'' (0, 200000000) small_db = Inr points \<and> sum_list (map td_newUsers points) = 1
     \<and> sum_list (map td_newSubmissions points) = 2 \<and> sum_list (map td_approvedSubmissions points) = 1"
proof -
  obtain points where points: "getTimeSeries ''day'' (0, 200000000) small_db = Inr points"
    by (auto simp: getTimeSeries_def date_trunc_def Let_def)
  with time_series_complete [OF points] show ?thesis
    by (simp add: small_db_def count_rows_def between_def)
qed

subsection \<open>The figures of a quest\<close>

lemma count_filters: "length (filter P xs) + length (filter (\<lambda>x. \<not> P x) xs) = length xs"
  by (rule sum_length_filter_compl)

lemma status_counts:
  "count_rows (\<lambda>s. P s \<and> sb_status s = APPROVED) ss + count_rows (\<lambda>s. P s \<and> sb_status s = REJECTED) ss
     + count_rows (\<lambda>s. P s \<and> sb_status s = PENDING) ss + count_rows (\<lambda>s. P s \<and> sb_status s = PAID) ss = count_rows P ss"
  by (induction ss) (auto simp: count_rows_def split: SubmissionStatus.splits intro: SubmissionStatus.exhaust)

lemma quest_status_counts:
  "count_rows (\<lambda>q. P q \<and> aq_status q = ACTIVE) qs + count_rows (\<lambda>q. P q \<and> aq_status q = PAUSED) qs
     + count_rows (\<lambda>q. P q \<and> aq_status q = COMPLETED) qs + count_rows (\<lambda>q. P q \<and> aq_status q = EXPIRED) qs = count_rows P qs"
  by (induction qs) (auto simp: count_rows_def split: AnalyticsQuestStatus.splits intro: AnalyticsQuestStatus.exhaust)

lemma rate_bounds: "0 \<le> calculateApprovalRate (of_nat (length (filter P xs))) (of_nat (length xs))"
    "calculateApprovalRate (of_nat (length (filter P xs))) (of_nat (length xs)) \<le> 100"
  unfolding calculateApprovalRate_def by (rule percent_bounds; simp)+

lemma participants: "card (set [u. s \<leftarrow> ss, u \<leftarrow> (case f s of None \<Rightarrow> [] | Some u \<Rightarrow> [u]), Q u]) \<le> length ss"
proof -
  have "length [u. s \<leftarrow> ss, u \<leftarrow> (case f s of None \<Rightarrow> [] | Some u \<Rightarrow> [u]), Q u] \<le> length ss"
    by (induction ss) (auto split: option.splits)
  then show ?thesis using card_length order_trans by blast
qed

text \<open>
  The figures of a quest add up: its approved, rejected, pending and paid submissions are all its
  submissions, the approval rate is a percentage, there are no more participants than submissions, and the
  days of its series account for every submission and every approved one.
\<close>
theorem quest_metrics_consistent:
  "let m = getQuestMetrics db quest; subs = filter (\<lambda>s. sb_quest s = Some (aq_id quest)) (ad_submissions db)
   in qm_approvedSubmissions m + qm_rejectedSubmissions m + qm_pendingSubmissions m + count_rows (\<lambda>s. sb_status s = PAID) subs
        = qm_totalSubmissions m
      \<and> 0 \<le> qm_approvalRate m \<and> qm_approvalRate m \<le> 100
      \<and> qm_uniqueParticipants m \<le> qm_totalSubmissions m
      \<and> sum_list (map td_newSubmissions (qm_submissionTimeSeries m)) = qm_totalSubmissions m
      \<and> sum_list (map td_approvedSubmissions (qm_submissionTimeSeries m)) = qm_approvedSubmissions m"
proof -
  let ?subs = "filter (\<lambda>s. sb_quest s = Some (aq_id quest)) (ad_submissions db)"
  let ?g = "group_series (utc_day \<circ> sb_submittedAt) (\<lambda>rs. (length rs, approved_count rs)) ?subs"
  have series: "sum_list (map td_newSubmissions (getSubmissionTimeSeries (aq_id quest) (ad_submissions db))) = field_sum fst ?g"
      "sum_list (map td_approvedSubmissions (getSubmissionTimeSeries (aq_id quest) (ad_submissions db))) = field_sum snd ?g"
    by (simp_all add: getSubmissionTimeSeries_def field_sum_def comp_def split_beta)
  have sums: "field_sum fst ?g = length ?subs" "field_sum snd ?g = length (filter (\<lambda>s. sb_status s = APPROVED) ?subs)"
    by (subst group_sum [where P = "\<lambda>_. True"]; simp)
      (subst group_sum [where P = "\<lambda>s. sb_status s = APPROVED"]; simp add: approved_count_def count_rows_def)
  have parts: "length (filter (\<lambda>s. sb_status s = APPROVED) ?subs) + length (filter (\<lambda>s. sb_status s = REJECTED) ?subs)
      + length (filter (\<lambda>s. sb_status s = PENDING) ?subs) + count_rows (\<lambda>s. sb_status s = PAID) ?subs = length ?subs"
    using status_counts [of "\<lambda>_. True" ?subs] by (simp add: count_rows_def)
  show ?thesis
    unfolding Let_def getQuestMetrics_def QuestMetrics.simps series sums
    by (intro conjI parts rate_bounds participants refl)
qed

text \<open>A quest whose rewards have all been paid has the approval rate zero.\<close>

lemma paid_lowers_rate:
  assumes "\<forall>s \<in> set (ad_submissions db). sb_quest s = Some (aq_id quest) \<longrightarrow> sb_status s = PAID"
  shows "qm_approvalRate (getQuestMetrics db quest) = 0"
proof -
  have none: "filter (\<lambda>s. sb_status s = APPROVED) (filter (\<lambda>s. sb_quest s = Some (aq_id quest)) (ad_submissions db)) = []"
    using assms by (auto simp: filter_empty_conv)
  show ?thesis
    unfolding getQuestMetrics_def Let_def QuestMetrics.simps none
    by (simp add: calculateApprovalRate_def percent_of_def math_round_def floor_eq_iff)
qed

subsection \<open>The figures of the platform\<close>

text \<open>What the platform statistics rely on: a condition with a plain object selects the rows of the range.\<close>

definition reads_ranges :: "library_answers \<Rightarrow> bool" where
  "reads_ranges L \<longleftrightarrow> (\<forall>db p.
     la_users L db p = Inr (count_rows (\<lambda>u. between p (us_createdAt u)) (ad_users db))
     \<and> la_quests L db p = Inr (count_rows (\<lambda>q. between p (aq_createdAt q)) (ad_quests db))
     \<and> (\<forall>st. la_submissions L db p st
          = Inr (filter (\<lambda>s. between p (sb_submittedAt s) \<and> (case st of None \<Rightarrow> True | Some x \<Rightarrow> sb_status s = x)) (ad_submissions db)))
     \<and> la_payouts L db p = Inr (count_rows (\<lambda>r. between p (po_paidAt r)) (ad_payouts db)))"

text \<open>
  The figures of the platform agree with each other, as far as the library reads the plain conditions
  as ranges: the counts by status are the totals, the approval rate is a percentage, there are no more active
  users than submissions, and the series adds up to the totals of users, quests, submissions, approved
  submissions and payouts.
\<close>
lemma platform_stats_consistent:
  assumes "reads_ranges L" and "platform_result L g p db = Inr r"
  shows "sum_list (map snd (ps_questsByStatus r)) = ps_totalQuests r
    \<and> sum_list (map snd (ps_submissionsByStatus r)) = ps_totalSubmissions r
    \<and> 0 \<le> ps_approvalRate r \<and> ps_approvalRate r \<le> 100 \<and> ps_activeUsers r \<le> ps_totalSubmissions r
    \<and> sum_list (map td_newUsers (ps_timeSeries r)) = ps_totalUsers r
    \<and> sum_list (map td_newQuests (ps_timeSeries r)) = ps_totalQuests r
    \<and> sum_list (map td_newSubmissions (ps_timeSeries r)) = ps_totalSubmissions r
    \<and> sum_list (map td_approvedSubmissions (ps_timeSeries r)) = ps_approvedSubmissions r
    \<and> sum_list (map td_totalPayouts (ps_timeSeries r)) = ps_totalPayouts r"
proof -
  let ?subs = "filter (\<lambda>s. between p (sb_submittedAt s)) (ad_submissions db)"
  have L: "getTotalUsers L db p = Inr (count_rows (\<lambda>u. between p (us_createdAt u)) (ad_users db))"
      "getTotalQuests L db p = Inr (count_rows (\<lambda>q. between p (aq_createdAt q)) (ad_quests db))"
      "getTotalSubmissions L db p = Inr (length ?subs)"
      "getApprovedSubmissions L db p = Inr (count_rows (\<lambda>s. sb_status s = APPROVED \<and> between p (sb_submittedAt s)) (ad_submissions db))"
      "getTotalPayouts L db p = Inr (count_rows (\<lambda>r. between p (po_paidAt r)) (ad_payouts db))"
      "getAllSubmissions L db p = Inr ?subs"
    using assms(1) [unfolded reads_ranges_def, THEN spec, THEN spec, of db p]
    by (simp_all add: getTotalUsers_def getTotalQuests_def getTotalSubmissions_def getApprovedSubmissions_def
        getTotalPayouts_def getAllSubmissions_def count_rows_def conj_commute)
  from assms(2) obtain points where points: "getTimeSeries (or_default g ''day'') p db = Inr points"
    by (auto simp: platform_result_def L split: sum.splits)
  have subs: "count_rows (\<lambda>s. between p (sb_submittedAt s)) (ad_submissions db) = length ?subs"
    "count_rows (\<lambda>s. sb_status s = APPROVED \<and> between p (sb_submittedAt s)) (ad_submissions db) = length (filter (\<lambda>s. sb_status s = APPROVED) ?subs)"
    by (simp_all add: count_rows_def conj_commute)
  have active: "getActiveUsers p db \<le> length ?subs"
    using participants [where ss = ?subs and f = sb_user and Q = "\<lambda>_. True"] by (simp add: getActiveUsers_def Int_def)
  have r: "r = \<lparr> ps_totalUsers = count_rows (\<lambda>u. between p (us_createdAt u)) (ad_users db),
      ps_totalQuests = count_rows (\<lambda>q. between p (aq_createdAt q)) (ad_quests db), ps_totalSubmissions = length ?subs,
      ps_approvedSubmissions = length (filter (\<lambda>s. sb_status s = APPROVED) ?subs),
      ps_totalPayouts = count_rows (\<lambda>r. between p (po_paidAt r)) (ad_payouts db),
      ps_totalRewardsDistributed = getTotalRewardsDistributed p db,
      ps_approvalRate = calculateApprovalRate (of_nat (length (filter (\<lambda>s. sb_status s = APPROVED) ?subs))) (of_nat (length ?subs)),
      ps_avgApprovalTime = calculateAverageTime (map (\<lambda>s. (Some (sb_submittedAt s), sb_reviewedAt s)) (filter (\<lambda>s. sb_status s = APPROVED) ?subs)),
      ps_activeUsers = getActiveUsers p db, ps_timeSeries = points, ps_questsByStatus = getQuestsByStatus p db,
      ps_submissionsByStatus = getSubmissionsByStatus p db \<rparr>"
    using assms(2) by (simp only: platform_result_def L points subs sum.case) simp
  have "sum_list (map snd (getQuestsByStatus p db)) = count_rows (\<lambda>q. between p (aq_createdAt q)) (ad_quests db)"
    using quest_status_counts [of "\<lambda>q. between p (aq_createdAt q)" "ad_quests db"] by (simp add: getQuestsByStatus_def)
  moreover have "sum_list (map snd (getSubmissionsByStatus p db)) = length ?subs"
    using status_counts [of "\<lambda>s. between p (sb_submittedAt s)" "ad_submissions db"] by (simp add: getSubmissionsByStatus_def subs)
  ultimately show ?thesis
    using series_totals [OF points] active rate_bounds [of "\<lambda>s. sb_status s = APPROVED" ?subs]
    unfolding r by (simp add: subs)
qed

subsection \<open>How long an answer is kept\<close>

context cache_backend
begin

lemma wrap_hit:
  assumes "acache_get B now key c = (Inr (Some v), c1)"
  shows "acache_wrap B now key computed ttl c = (Inr v, c1)"
  using assms by (simp add: acache_wrap_def)

lemma wrap_twice:
  assumes "acache_get B now key c = (Inr None, c1)"
  shows "fst (acache_wrap B t key again ttl (snd (acache_wrap B now key (Inr v) ttl c)))
    = (if expired_at t now ttl then map_sum id CVal again else Inr (CVal v))"
proof -
  obtain b where b: "b_set B now key (CVal v) ttl (ac_store c1) = Inr b" using set_reliable by blast
  let ?c2 = "c1\<lparr>ac_store := b, ac_keys := reg_add key (ac_keys c1)\<rparr>"
  have first: "acache_wrap B now key (Inr v) ttl c = (Inr (CVal v), ?c2)"
    using assms by (simp add: acache_wrap_def acache_set_def b)
  have get: "b_get B t key b = Inr (if expired_at t now ttl then None else Some (CVal v))" by (rule get_set [OF b])
  have "b_set B t key (CVal w) ttl b \<noteq> Inl e" for w e using set_reliable [of t key "CVal w" ttl b] by auto
  then show ?thesis unfolding first
    by (cases again) (auto simp: acache_wrap_def acache_get_def acache_set_def get split: sum.splits)
qed

end

text \<open>
  An answer about quests is kept for 300 milliseconds, not the five minutes the code comments on: a
  second question for the same range that comes at most 300 milliseconds after the first gets the first answer,
  whatever has happened to the tables since, and one that comes later is answered from the tables.
\<close>
theorem quest_answer_kept:
  assumes "cache_backend B"
    and "query_range parse (qq_startDate q) (qq_endDate q) now = Inr p"
    and "query_range parse (qq_startDate q) (qq_endDate q) t = Inr p"
    and "acache_get B now (quest_key q p) c = (Inr None, c1)" and "quest_result q p db = Inr v"
  shows "fst (getQuestAnalytics B parse t q db' (snd (getQuestAnalytics B parse now q db c)))
    = (if t \<le> now + 300 then Inr (CVal v) else map_sum id CVal (quest_result q p db'))"
  using cache_backend.wrap_twice [OF assms(1,4), of t "quest_result q p db'" "Some 300" v]
  by (simp add: getQuestAnalytics_def assms expired_at_def)

definition any_quests :: QuestAnalyticsQueryDto where
  "any_quests = \<lparr> qq_startDate = Some ''a'', qq_endDate = Some ''b'', qq_status = None, qq_questId = None, qq_limit = None, qq_sortBy = None \<rparr>"

theorem quest_answer_kept_witness:
  "\<exists>v. fst (getQuestAnalytics memory_backend (\<lambda>s. Some (if s = ''a'' then 0 else 1000)) 5300 any_quests \<lparr> ad_users = [], ad_quests = [], ad_submissions = [], ad_payouts = [] \<rparr>
     (snd (getQuestAnalytics memory_backend (\<lambda>s. Some (if s = ''a'' then 0 else 1000)) 5000 any_quests small_db
        \<lparr> ac_store = (\<lambda>_. None), ac_hits = 0, ac_misses = 0, ac_keys = [] \<rparr>))) = Inr (CVal v)"
proof -
  let ?parse = "\<lambda>s. Some (if s = ''a'' then 0 else 1000 :: int)"
  have range: "query_range ?parse (qq_startDate any_quests) (qq_endDate any_quests) n = Inr (0, 1000)" for n
    by (simp add: query_range_def parseDateRange_def any_quests_def truthy_def validateMaxRange_def getDaysDifference_def MS_DAY_def)
  obtain v where v: "quest_result any_quests (0, 1000) small_db = Inr v"
    by (simp add: quest_result_def known_status_def any_quests_def truthy_def Let_def)
  show ?thesis
    by (rule exI [of _ v], subst quest_answer_kept [OF memory.cache_backend_axioms range range _ v])
      (simp_all add: acache_get_def memory_backend_def)
qed

end
