(* ===== verification/Reports.thy ===== *)
theory Reports
  imports AnalyticsTools Repository
begin

text \<open>
  The reports of the analytics module: the entity (\<open>modules/analytics/entities/analytics-report.entity.ts\<close>),
  \<open>AnalyticsReportService\<close> (\<open>services/report.service.ts\<close>) and the routes of \<open>AnalyticsController\<close>.  The
  figures of a report, as the three services answer them, are arguments, and so is the clock.  A report is saved
  at once and its data is computed after the answer to the request: \<open>generateReport\<close> returns the saved entity,
  and \<open>finish_report\<close> is what happens to it later.
\<close>

subsection \<open>The entity\<close>

datatype ReportType =
    QUEST_PERFORMANCE | USER_ENGAGEMENT | PAYOUT_ANALYTICS | REVENUE_TRACKING | RETENTION_ANALYSIS
  | GEOGRAPHIC_DISTRIBUTION | TIME_TO_COMPLETION | PLATFORM_OVERVIEW | CUSTOM

datatype ReportStatus = PENDING | GENERATING | COMPLETED | FAILED

fun show_ReportStatus :: "ReportStatus \<Rightarrow> string" where
  "show_ReportStatus PENDING = ''pending''"
| "show_ReportStatus GENERATING = ''generating''"
| "show_ReportStatus COMPLETED = ''completed''"
| "show_ReportStatus FAILED = ''failed''"

fun show_ReportFormat :: "ReportFormat \<Rightarrow> string" where
  "show_ReportFormat JSON = ''json''"
| "show_ReportFormat CSV = ''csv''"
| "show_ReportFormat PDF = ''pdf''"
| "show_ReportFormat EXCEL = ''excel''"

record AnalyticsReport =
  rp_id :: id
  rp_name :: string
  rp_description :: string
  rp_type :: ReportType
  rp_format :: ReportFormat
  rp_status :: ReportStatus
  rp_parameters :: json
  rp_filters :: "json option"
  rp_startDate :: time
  rp_endDate :: time
  rp_data :: "json option"
  rp_fileUrl :: "string option"
  rp_fileSize :: "nat option"
  rp_generationTimeMs :: int
  rp_errorMessage :: "string option"
  rp_generatedById :: id
  rp_createdAt :: time
  rp_completedAt :: "time option"

subsection \<open>Generation\<close>

record ReportGenerationOptions =
  rg_type :: ReportType
  rg_format :: ReportFormat
  rg_parameters :: "json option"
  rg_filters :: "json option"
  rg_startDate :: time
  rg_endDate :: time
  rg_generatedBy :: id

fun type_name :: "ReportType \<Rightarrow> string" where
  "type_name PLATFORM_OVERVIEW = ''Platform Overview''"
| "type_name QUEST_PERFORMANCE = ''Quest Performance''"
| "type_name USER_ENGAGEMENT = ''User Engagement''"
| "type_name PAYOUT_ANALYTICS = ''Payout Analytics''"
| "type_name REVENUE_TRACKING = ''Revenue Tracking''"
| "type_name RETENTION_ANALYSIS = ''Retention Analysis''"
| "type_name GEOGRAPHIC_DISTRIBUTION = ''Geographic Distribution''"
| "type_name TIME_TO_COMPLETION = ''Time to Completion''"
| "type_name CUSTOM = ''Custom Report''"

definition generateReportName :: "ReportType \<Rightarrow> time \<Rightarrow> string" where
  "generateReportName t now = type_name t @ '' - '' @ take 10 (toISOString now)"

definition generateReportDescription :: "ReportGenerationOptions \<Rightarrow> time \<Rightarrow> string" where
  "generateReportDescription opts now =
     ''Analytics report generated on '' @ toISOString now @ '' for date range: ''
       @ formatDate (rg_startDate opts) @ '' to '' @ formatDate (rg_endDate opts)"

text \<open>The parameters are a column that must not be null.\<close>

definition generateReport ::
    "ReportGenerationOptions \<Rightarrow> id \<Rightarrow> time \<Rightarrow> AnalyticsReport list \<Rightarrow> (AnalyticsReport list, AnalyticsReport) outcome" where
  "generateReport opts newId now rows =
     (case rg_parameters opts of
        None \<Rightarrow> (Inl (JsError (''null value in column '' @ [CHR 0x22] @ ''parameters'' @ [CHR 0x22] @ '' violates not-null constraint'')), rows)
      | Some ps \<Rightarrow>
          (let r = \<lparr> rp_id = newId, rp_name = generateReportName (rg_type opts) now, rp_description = generateReportDescription opts now,
                 rp_type = rg_type opts, rp_format = rg_format opts, rp_status = GENERATING, rp_parameters = ps,
                 rp_filters = rg_filters opts, rp_startDate = rg_startDate opts, rp_endDate = rg_endDate opts, rp_data = None,
                 rp_fileUrl = None, rp_fileSize = None, rp_generationTimeMs = 0, rp_errorMessage = None,
                 rp_generatedById = rg_generatedBy opts, rp_createdAt = now, rp_completedAt = None \<rparr>
           in (Inr r, save_row rp_id r rows)))"

text \<open>The query of a report: its days, and a granularity in the words of the aggregators.\<close>

record report_query =
  rq_startDate :: string
  rq_endDate :: string
  rq_granularity :: string

record report_env =
  rv_platform :: "report_query \<Rightarrow> exn + json"
  rv_quest :: "report_query \<Rightarrow> json option \<Rightarrow> exn + json"
  rv_user :: "report_query \<Rightarrow> json option \<Rightarrow> exn + json"
  rv_export :: export_env
  rv_now :: time
  rv_took :: int

definition daily_query :: "AnalyticsReport \<Rightarrow> report_query" where
  "daily_query r = \<lparr> rq_startDate = formatDate (rp_startDate r), rq_endDate = formatDate (rp_endDate r), rq_granularity = ''daily'' \<rparr>"

definition parameter :: "string \<Rightarrow> AnalyticsReport \<Rightarrow> json option" where
  "parameter k r = (case rp_parameters r of JObj ps \<Rightarrow> map_of ps k | _ \<Rightarrow> None)"

definition placeholder :: "string \<Rightarrow> json" where
  "placeholder what = JObj [(''message'', JStr (what @ '' report - placeholder implementation''))]"

fun report_data :: "report_env \<Rightarrow> AnalyticsReport \<Rightarrow> ReportType \<Rightarrow> exn + json" where
  "report_data env r PLATFORM_OVERVIEW = rv_platform env (daily_query r)"
| "report_data env r QUEST_PERFORMANCE = rv_quest env (daily_query r) (parameter ''questId'' r)"
| "report_data env r USER_ENGAGEMENT = rv_user env (daily_query r) (parameter ''userId'' r)"
| "report_data env r PAYOUT_ANALYTICS = Inr (placeholder ''Payout analytics'')"
| "report_data env r REVENUE_TRACKING = Inr (placeholder ''Revenue tracking'')"
| "report_data env r RETENTION_ANALYSIS = Inr (placeholder ''Retention analysis'')"
| "report_data env r GEOGRAPHIC_DISTRIBUTION = Inr (placeholder ''Geographic distribution'')"
| "report_data env r TIME_TO_COMPLETION = Inr (placeholder ''Time to completion'')"
| "report_data env r CUSTOM = Inr (placeholder ''Custom'')"

definition updateReportStatus :: "id \<Rightarrow> ReportStatus \<Rightarrow> string option \<Rightarrow> time \<Rightarrow> AnalyticsReport list \<Rightarrow> AnalyticsReport list" where
  "updateReportStatus i st errorMessage now =
     update_where (\<lambda>r. rp_id r = i)
       (\<lambda>r. r\<lparr>rp_status := st, rp_errorMessage := errorMessage,
              rp_completedAt := (if st = COMPLETED then Some now else rp_completedAt r)\<rparr>)"

text \<open>A failure is written to the row and thrown again.\<close>

definition generateReportData :: "report_env \<Rightarrow> AnalyticsReport \<Rightarrow> AnalyticsReport list \<Rightarrow> (AnalyticsReport list, unit) outcome" where
  "generateReportData env r rows =
     (let computed = (case report_data env r (rp_type r) of
            Inl e \<Rightarrow> Inl e
          | Inr data \<Rightarrow> map_sum id (\<lambda>x. (data, x))
              (export (rv_export env) data \<lparr> eo_format = rp_format r, eo_includeHeaders = Some True, eo_delimiter = None \<rparr>))
      in case computed of
           Inr (data, x) \<Rightarrow>
             (Inr (), update_where (\<lambda>q. rp_id q = rp_id r)
                (\<lambda>q. q\<lparr>rp_status := COMPLETED, rp_data := Some data,
                       rp_fileUrl := Some (''reports/'' @ rp_id r @ ''.'' @ show_ReportFormat (rp_format r)),
                       rp_fileSize := Some (ex_size x), rp_generationTimeMs := rv_took env, rp_completedAt := Some (rv_now env)\<rparr>) rows)
         | Inl e \<Rightarrow>
             (Inl e, update_where (\<lambda>q. rp_id q = rp_id r)
                (\<lambda>q. q\<lparr>rp_status := FAILED, rp_errorMessage := Some (message_of e), rp_generationTimeMs := rv_took env\<rparr>) rows))"

text \<open>What happens to a saved report later, with the handler of its failure.\<close>

definition finish_report :: "report_env \<Rightarrow> AnalyticsReport \<Rightarrow> AnalyticsReport list \<Rightarrow> AnalyticsReport list" where
  "finish_report env r rows =
     (case generateReportData env r rows of
        (Inr _, rows') \<Rightarrow> rows'
      | (Inl e, rows') \<Rightarrow> updateReportStatus (rp_id r) FAILED (Some (message_of e)) (rv_now env) rows')"

subsection \<open>Retrieval\<close>

definition getReportById :: "id \<Rightarrow> AnalyticsReport list \<Rightarrow> exn + AnalyticsReport" where
  "getReportById i rows =
     (case find_row (\<lambda>r. rp_id r = i) rows of
        None \<Rightarrow> Inl (JsError (''Report with ID '' @ i @ '' not found''))
      | Some r \<Rightarrow> Inr r)"

record ReportQueryOptions =
  ro_type :: "ReportType option"
  ro_status :: "ReportStatus option"
  ro_generatedBy :: "id option"
  ro_startDate :: "time option"
  ro_endDate :: "time option"
  ro_limit :: nat
  ro_offset :: nat

definition report_selected :: "ReportQueryOptions \<Rightarrow> AnalyticsReport \<Rightarrow> bool" where
  "report_selected opts r \<longleftrightarrow>
     (case ro_type opts of None \<Rightarrow> True | Some t \<Rightarrow> rp_type r = t)
     \<and> (case ro_status opts of None \<Rightarrow> True | Some st \<Rightarrow> rp_status r = st)
     \<and> (truthy (ro_generatedBy opts) \<longrightarrow> rp_generatedById r = the (ro_generatedBy opts))
     \<and> (case ro_startDate opts of None \<Rightarrow> True | Some t \<Rightarrow> t \<le> rp_createdAt r)
     \<and> (case ro_endDate opts of None \<Rightarrow> True | Some t \<Rightarrow> rp_createdAt r \<le> t)"

text \<open>A limit of zero is no limit; the total counts the rows of all pages.\<close>

definition queryReports :: "ReportQueryOptions \<Rightarrow> AnalyticsReport list \<Rightarrow> AnalyticsReport list \<times> nat" where
  "queryReports opts rows =
     (let found = order_desc rp_createdAt (filter (report_selected opts) rows);
          rest = drop (ro_offset opts) found
      in (if ro_limit opts = 0 then rest else take (ro_limit opts) rest, length found))"

definition deleteReport :: "id \<Rightarrow> AnalyticsReport list \<Rightarrow> (AnalyticsReport list, unit) outcome" where
  "deleteReport i rows =
     (case getReportById i rows of
        Inl e \<Rightarrow> (Inl e, rows)
      | Inr r \<Rightarrow> (Inr (), remove_row rp_id (rp_id r) rows))"

definition exportReport :: "export_env \<Rightarrow> id \<Rightarrow> ReportFormat \<Rightarrow> AnalyticsReport list \<Rightarrow> exn + ExportResult" where
  "exportReport env i format rows =
     (case getReportById i rows of
        Inl e \<Rightarrow> Inl e
      | Inr r \<Rightarrow>
          if rp_status r \<noteq> COMPLETED
          then Inl (JsError (''Report '' @ i @ '' is not ready for export. Status: '' @ show_ReportStatus (rp_status r)))
          else (case rp_data r of
                  None \<Rightarrow> Inl (JsError (''Report '' @ i @ '' has no data to export''))
                | Some data \<Rightarrow>
                    if falsy data then Inl (JsError (''Report '' @ i @ '' has no data to export''))
                    else export env data \<lparr> eo_format = format, eo_includeHeaders = Some True, eo_delimiter = None \<rparr>))"

subsection \<open>Routes\<close>

text \<open>The route exports as JSON, whatever the format of the report.\<close>

definition exportReport_route :: "export_env \<Rightarrow> id \<Rightarrow> AnalyticsReport list \<Rightarrow> exn + ExportResult" where
  "exportReport_route env i rows = exportReport env i JSON rows"

record report_answer =
  ra_id :: id
  ra_status :: ReportStatus
  ra_message :: string

definition generateReport_route ::
    "ReportGenerationOptions \<Rightarrow> id \<Rightarrow> time \<Rightarrow> AnalyticsReport list \<Rightarrow> (AnalyticsReport list, report_answer) outcome" where
  "generateReport_route opts newId now rows =
     map_prod (map_sum id (\<lambda>r. \<lparr> ra_id = rp_id r, ra_status = rp_status r,
         ra_message = ''Report generation started. Check status with GET /analytics/reports/:id'' \<rparr>)) id
       (generateReport opts newId now rows)"

end
