(* ===== verification/ReportsProps.thy ===== *)
theory ReportsProps
  imports Reports
begin

text \<open>
  The life of a report: a machine whose events are a request, the end of a computation, a deletion and a restart
  of the server, in any order; its invariant, and what it means for the reader of a report.
\<close>

subsection \<open>The machine\<close>

record report_state =
  rs_rows :: "AnalyticsReport list"
  rs_running :: "AnalyticsReport list"

datatype report_event =
    Generate ReportGenerationOptions id time
  | Finish id report_env
  | Delete id
  | Restart

text \<open>Identifiers are random and taken to be new; a computation ends with the entity it was started with.\<close>

fun report_step :: "report_event \<Rightarrow> report_state \<Rightarrow> report_state" where
  "report_step (Generate opts i now) s =
     (if i \<in> rp_id ` set (rs_rows s @ rs_running s) then s
      else case generateReport opts i now (rs_rows s) of
             (Inl _, rows) \<Rightarrow> s\<lparr>rs_rows := rows\<rparr>
           | (Inr r, rows) \<Rightarrow> s\<lparr>rs_rows := rows, rs_running := rs_running s @ [r]\<rparr>)"
| "report_step (Finish i env) s =
     (case find_row (\<lambda>r. rp_id r = i) (rs_running s) of
        None \<Rightarrow> s
      | Some r \<Rightarrow> s\<lparr>rs_rows := finish_report env r (rs_rows s), rs_running := remove_row rp_id i (rs_running s)\<rparr>)"
| "report_step (Delete i) s = s\<lparr>rs_rows := state_of (deleteReport i (rs_rows s))\<rparr>"
| "report_step Restart s = s\<lparr>rs_running := []\<rparr>"

definition no_reports :: report_state where
  "no_reports = \<lparr> rs_rows = [], rs_running = [] \<rparr>"

definition report_run :: "report_event list \<Rightarrow> report_state" where
  "report_run es = fold report_step es no_reports"

subsection \<open>The invariant\<close>

definition consistent_report :: "AnalyticsReport \<Rightarrow> bool" where
  "consistent_report r \<longleftrightarrow>
     (case rp_status r of
        PENDING \<Rightarrow> False
      | GENERATING \<Rightarrow> rp_data r = None \<and> rp_fileUrl r = None \<and> rp_errorMessage r = None \<and> rp_completedAt r = None
      | COMPLETED \<Rightarrow> rp_data r \<noteq> None \<and> rp_fileUrl r = Some (''reports/'' @ rp_id r @ ''.'' @ show_ReportFormat (rp_format r))
          \<and> rp_fileSize r \<noteq> None \<and> rp_errorMessage r = None \<and> rp_completedAt r \<noteq> None
      | FAILED \<Rightarrow> rp_data r = None \<and> rp_fileUrl r = None \<and> rp_errorMessage r \<noteq> None \<and> rp_completedAt r = None)"

definition report_inv :: "report_state \<Rightarrow> bool" where
  "report_inv s \<longleftrightarrow> distinct (map rp_id (rs_rows s)) \<and> (\<forall>r \<in> set (rs_rows s). consistent_report r)
     \<and> (\<forall>q \<in> set (rs_running s). \<forall>r \<in> set (rs_rows s). rp_id r = rp_id q \<longrightarrow> rp_status r = GENERATING \<and> rp_format r = rp_format q)
     \<and> distinct (map rp_id (rs_running s))"

text \<open>The end of a computation changes at most the row of the report, and to one of two results.\<close>

definition finished :: "report_env \<Rightarrow> AnalyticsReport \<Rightarrow> AnalyticsReport \<Rightarrow> AnalyticsReport" where
  "finished env r q =
     (case report_data env r (rp_type r) of
        Inl e \<Rightarrow> q\<lparr>rp_status := FAILED, rp_errorMessage := Some (message_of e), rp_generationTimeMs := rv_took env\<rparr>
      | Inr data \<Rightarrow>
          (case export (rv_export env) data \<lparr> eo_format = rp_format r, eo_includeHeaders = Some True, eo_delimiter = None \<rparr> of
             Inl e \<Rightarrow> q\<lparr>rp_status := FAILED, rp_errorMessage := Some (message_of e), rp_generationTimeMs := rv_took env\<rparr>
           | Inr x \<Rightarrow> q\<lparr>rp_status := COMPLETED, rp_data := Some data,
               rp_fileUrl := Some (''reports/'' @ rp_id r @ ''.'' @ show_ReportFormat (rp_format r)),
               rp_fileSize := Some (ex_size x), rp_generationTimeMs := rv_took env, rp_completedAt := Some (rv_now env)\<rparr>))"

lemma finish_report_rows: "finish_report env r rows = map (\<lambda>q. if rp_id q = rp_id r then finished env r q else q) rows"
  by (auto simp: finish_report_def generateReportData_def finished_def updateReportStatus_def update_where_def Let_def
      split: sum.splits)

lemma finished_id [simp]: "rp_id (finished env r q) = rp_id q"
  by (simp add: finished_def split: sum.split)

lemma finish_report_ids [simp]: "map rp_id (finish_report env r rows) = map rp_id rows"
  by (simp add: finish_report_rows)

lemma in_finish_report:
  "q \<in> set (finish_report env r rows) \<longleftrightarrow> (\<exists>p \<in> set rows. q = (if rp_id p = rp_id r then finished env r p else p))"
  by (auto simp: finish_report_rows)

lemma found_row: "find_row P t = Some r \<Longrightarrow> r \<in> set t \<and> P r"
  by (auto simp: find_row_def find_Some_iff)

lemma finished_consistent:
  "consistent_report q \<Longrightarrow> rp_status q = GENERATING \<Longrightarrow> rp_id q = rp_id r \<Longrightarrow> rp_format q = rp_format r \<Longrightarrow> consistent_report (finished env r q)"
  by (auto simp: finished_def consistent_report_def split: sum.split)

lemma save_new: "key r \<notin> key ` set rows \<Longrightarrow> save_row key r rows = rows @ [r]"
  by (induction rows) auto

lemma generate_new:
  assumes "i \<notin> rp_id ` set rows" and "generateReport opts i now rows = (Inr r, rows')"
  shows "rows' = rows @ [r] \<and> rp_id r = i \<and> rp_status r = GENERATING \<and> consistent_report r"
  using assms by (auto simp: generateReport_def consistent_report_def save_new Let_def split: option.splits)

lemma generate_fails: "generateReport opts i now rows = (Inl e, rows') \<Longrightarrow> rows' = rows"
  by (auto simp: generateReport_def Let_def split: option.splits)

lemma generate_keeps: "set (rs_rows s) \<subseteq> set (rs_rows (report_step (Generate opts i now) s))"
proof (cases "i \<in> rp_id ` set (rs_rows s @ rs_running s)")
  case False
  then have new: "i \<notin> rp_id ` set (rs_rows s)" by auto
  obtain res rows where res: "generateReport opts i now (rs_rows s) = (res, rows)" by (rule prod.exhaust)
  then have "rows = rs_rows s \<or> (\<exists>r. rows = rs_rows s @ [r])"
    using generate_new [OF new] generate_fails by (cases res) blast+
  with res False show ?thesis by (auto split: sum.split)
qed simp

lemma delete_rows: "state_of (deleteReport i rows) = filter (\<lambda>r. rp_id r \<noteq> i) rows"
proof (cases "find_row (\<lambda>r. rp_id r = i) rows")
  case None
  then have "filter (\<lambda>r. rp_id r \<noteq> i) rows = rows" by (auto simp: find_row_def find_None_iff filter_id_conv)
  with None show ?thesis by (simp add: deleteReport_def getReportById_def)
next
  case (Some r)
  then have "rp_id r = i" by (auto simp: find_row_def find_Some_iff)
  with Some show ?thesis by (simp add: deleteReport_def getReportById_def remove_row_def)
qed

lemma report_inv_step:
  assumes inv: "report_inv s"
  shows "report_inv (report_step e s)"
proof (cases e)
  case (Generate opts i now)
  show ?thesis
  proof (cases "i \<in> rp_id ` set (rs_rows s @ rs_running s)")
    case False
    obtain res rows where res: "generateReport opts i now (rs_rows s) = (res, rows)" by (rule prod.exhaust)
    show ?thesis
    proof (cases res)
      case (Inl x)
      with res inv False Generate show ?thesis by (auto simp: report_inv_def dest: generate_fails)
    next
      case (Inr r)
      with res generate_new [of i "rs_rows s" opts now r rows] False
      have new: "rows = rs_rows s @ [r]" "rp_id r = i" "rp_status r = GENERATING" "consistent_report r" by auto
      have other: "\<forall>q \<in> set (rs_rows s). rp_id q \<noteq> rp_id r \<and> rp_id r \<noteq> rp_id q"
          "\<forall>q \<in> set (rs_running s). rp_id q \<noteq> rp_id r \<and> rp_id r \<noteq> rp_id q"
        using False new(2) by (auto; metis UnI1 UnI2 imageI)+
      have "report_step e s = s\<lparr>rs_rows := rs_rows s @ [r], rs_running := rs_running s @ [r]\<rparr>"
        using res Inr False Generate new(1) by simp
      then show ?thesis using inv new(3,4) other by (auto simp: report_inv_def)
    qed
  qed (use inv Generate in simp)
next
  case (Finish i env)
  show ?thesis
  proof (cases "find_row (\<lambda>r. rp_id r = i) (rs_running s)")
    case (Some r)
    from found_row [OF Some] have r: "r \<in> set (rs_running s)" "rp_id r = i" by simp_all
    from inv r(1) have row: "rp_status q = GENERATING \<and> rp_format q = rp_format r" if "q \<in> set (rs_rows s)" "rp_id q = rp_id r" for q
      using that by (auto simp: report_inv_def)
    have "consistent_report q" if "q \<in> set (finish_report env r (rs_rows s))" for q
      using that inv row by (auto simp: in_finish_report report_inv_def intro: finished_consistent split: if_splits)
    moreover have "rp_status p = GENERATING \<and> rp_format p = rp_format q"
      if "q \<in> set (rs_running s)" "rp_id q \<noteq> i" "p \<in> set (finish_report env r (rs_rows s))" "rp_id p = rp_id q" for p q
      using that inv r(2) by (auto simp: in_finish_report report_inv_def split: if_splits)
    ultimately show ?thesis
      using inv by (auto simp add: Finish Some report_inv_def remove_row_def distinct_map_filter simp del: map_map)
  qed (use inv Finish in simp)
next
  case (Delete i)
  with inv show ?thesis by (auto simp: report_inv_def delete_rows distinct_map_filter)
next
  case Restart
  with inv show ?thesis by (simp add: report_inv_def)
qed

lemma report_inv_run: "report_inv s \<Longrightarrow> report_inv (fold report_step es s)"
  by (induction es arbitrary: s) (simp_all add: report_inv_step)

lemma report_inv_reached: "report_inv (report_run es)"
  unfolding report_run_def by (rule report_inv_run) (simp add: no_reports_def report_inv_def)

subsection \<open>Properties\<close>

text \<open>
  Claim C28.  A report is always in one of three states, and its row agrees with its state, whatever requests,
  computations, deletions and restarts there have been: while it is generated it has neither data nor file nor
  error, when it is completed it has data, a file named after it and a time, and when it has failed it has a
  message and no data.
\<close>
theorem report_lifecycle:
  "\<forall>r \<in> set (rs_rows (report_run es)). consistent_report r"
  using report_inv_reached [of es] by (simp add: report_inv_def)

definition one_request :: ReportGenerationOptions where
  "one_request = \<lparr> rg_type = CUSTOM, rg_format = CSV, rg_parameters = Some (JObj []), rg_filters = None,
     rg_startDate = 0, rg_endDate = 0, rg_generatedBy = ''u'' \<rparr>"

definition quiet_env :: report_env where
  "quiet_env = \<lparr> rv_platform = \<lambda>_. Inr JNull, rv_quest = \<lambda>_ _. Inr JNull, rv_user = \<lambda>_ _. Inr JNull,
     rv_export = \<lparr> xe_now = 0, xe_localeNow = [], xe_num = \<lambda>_. [], xe_stringify = \<lambda>_. [] \<rparr>, rv_now = 5, rv_took = 1 \<rparr>"

lemma one_request_runs:
  "\<exists>r. report_step (Generate one_request ''r'' 0) no_reports = \<lparr> rs_rows = [r], rs_running = [r] \<rparr> \<and> rp_id r = ''r''"
proof -
  have "\<exists>r rows. generateReport opts i now [] = (Inr r, rows)" if "rg_parameters opts = Some ps" for opts i now ps
    by (simp add: generateReport_def Let_def that)
  then obtain r rows where "generateReport one_request ''r'' 0 [] = (Inr r, rows)" by (force simp: one_request_def)
  with generate_new [OF _ this] show ?thesis by (auto simp: no_reports_def)
qed

lemma one_request_ends:
  "\<exists>r. rs_rows (report_run [Generate one_request ''r'' 0, Finish ''r'' quiet_env]) = [r] \<and> rp_id r = ''r''
     \<and> (rp_status r = COMPLETED \<or> rp_status r = FAILED)"
proof -
  obtain r where r: "report_step (Generate one_request ''r'' 0) no_reports = \<lparr> rs_rows = [r], rs_running = [r] \<rparr>" "rp_id r = ''r''"
    using one_request_runs by blast
  have "report_run [Generate one_request ''r'' 0, Finish ''r'' quiet_env]
      = \<lparr> rs_rows = [finished quiet_env r r], rs_running = [] \<rparr>"
    using r(2) by (simp add: report_run_def r(1) finish_report_rows find_row_def remove_row_def del: report_step.simps(1))
  then show ?thesis using r(2) by (simp add: finished_def split: sum.split)
qed

theorem report_lifecycle_witness:
  "\<exists>r. rs_rows (report_run [Generate one_request ''r'' 0, Finish ''r'' quiet_env]) = [r] \<and> consistent_report r \<and> rp_id r = ''r''"
  using one_request_ends report_lifecycle [of "[Generate one_request ''r'' 0, Finish ''r'' quiet_env]"] by auto

text \<open>
  A report that has been completed or has failed stays exactly as it is until it is deleted, whatever
  happens to it or to other reports.
\<close>
theorem settled_report_kept:
  assumes "r \<in> set (rs_rows (report_run es))" and "rp_status r = COMPLETED \<or> rp_status r = FAILED" and "Delete (rp_id r) \<notin> set later"
  shows "r \<in> set (rs_rows (report_run (es @ later)))"
proof -
  have step: "r \<in> set (rs_rows (report_step e s))"
    if inv: "report_inv s" and r: "r \<in> set (rs_rows s)" and e: "e \<noteq> Delete (rp_id r)" for e s
  proof (cases e)
    case (Generate opts i now)
    then show ?thesis using r generate_keeps by blast
  next
    case (Finish i env)
    have other: "rp_id r \<noteq> rp_id q" if "q \<in> set (rs_running s)" for q
      using inv r that assms(2) by (auto simp: report_inv_def)
    show ?thesis
    proof (cases "find_row (\<lambda>r. rp_id r = i) (rs_running s)")
      case (Some q)
      with other found_row [OF Some] Finish r show ?thesis by (auto simp: in_finish_report intro!: bexI [of _ r])
    qed (use Finish r in simp)
  next
    case (Delete i)
    then show ?thesis using r e by (auto simp: delete_rows)
  qed (use r in simp)
  have "report_inv s \<Longrightarrow> r \<in> set (rs_rows s) \<Longrightarrow> Delete (rp_id r) \<notin> set later \<Longrightarrow> r \<in> set (rs_rows (fold report_step later s))" for s
  proof (induction later arbitrary: s)
    case (Cons e later)
    then show ?case using step [of s e] report_inv_step [of s e] by auto
  qed simp
  then show ?thesis using assms report_inv_reached [of es] by (simp add: report_run_def)
qed

theorem settled_report_kept_witness:
  "\<exists>r. rp_id r = ''r'' \<and> r \<in> set (rs_rows (report_run ([Generate one_request ''r'' 0, Finish ''r'' quiet_env] @ [Finish ''r'' quiet_env, Restart, Delete ''q''])))"
proof -
  obtain r where r: "r \<in> set (rs_rows (report_run [Generate one_request ''r'' 0, Finish ''r'' quiet_env]))" "rp_id r = ''r''"
      "rp_status r = COMPLETED \<or> rp_status r = FAILED"
    using one_request_ends by auto
  from settled_report_kept [OF r(1,3), of "[Finish ''r'' quiet_env, Restart, Delete ''q'']"] r(2) show ?thesis by auto
qed

text \<open>
  Exactly the completed reports can be exported, if their data is not an empty value; the export of the route
  is JSON whatever the format of the report is.
\<close>

lemma export_iff_completed:
  "(\<exists>x. exportReport_route env i (rs_rows (report_run es)) = Inr x)
   \<longleftrightarrow> (\<exists>r. find_row (\<lambda>r. rp_id r = i) (rs_rows (report_run es)) = Some r \<and> rp_status r = COMPLETED \<and> \<not> falsy (the (rp_data r)))"
proof (cases "find_row (\<lambda>r. rp_id r = i) (rs_rows (report_run es))")
  case (Some r)
  then have "r \<in> set (rs_rows (report_run es))" by (auto simp: find_row_def find_Some_iff)
  then have "consistent_report r" using report_inv_reached [of es] by (simp add: report_inv_def)
  with Some show ?thesis by (auto simp: exportReport_route_def exportReport_def getReportById_def consistent_report_def export_def)
qed (simp add: exportReport_route_def exportReport_def getReportById_def)

text \<open>A report that is being generated when the server stops is generated for ever.\<close>

lemma orphaned_report:
  "i \<notin> rp_id ` set (rs_running s) \<Longrightarrow> report_step (Finish i env) s = s"
  by (cases "find_row (\<lambda>r. rp_id r = i) (rs_running s)") (auto simp: find_row_def find_Some_iff image_iff)

text \<open>A request without parameters, which the route admits, is refused by the table.\<close>

lemma parameters_needed: "rg_parameters opts = None \<Longrightarrow> \<exists>m. generateReport opts i now rows = (Inl (JsError m), rows)"
  by (simp add: generateReport_def)

text \<open>Six of the nine kinds of reports are placeholders whose data is the same for every range.\<close>

lemma placeholders_ignore_range:
  "t \<notin> {PLATFORM_OVERVIEW, QUEST_PERFORMANCE, USER_ENGAGEMENT} \<Longrightarrow> report_data env r t = report_data env' r' t"
  by (cases t) simp_all

end
