(* ===== verification/Validation.thy ===== *)
theory Validation
  imports AnalyticsTools
begin

text \<open>
  Validation in the back end: \<open>ValidationUtils\<close> (\<open>common/utils/validation.utils.ts\<close>), the constraints of the
  decorators for arrays and for conditional fields (\<open>common/decorators\<close>), \<open>CustomValidationPipe\<close>
  (\<open>common/pipes\<close>), and the filters that answer a request that has failed (\<open>common/filters\<close>).  An error of
  the validator is a tree; values of requests are JSON values, absent ones \<open>None\<close>, and \<open>===\<close> on them is meant for
  primitive values.  Names of properties are not array indices, which an object of JavaScript lists first.
  \<open>JSON.stringify\<close> is an argument.
\<close>

subsection \<open>Errors of the validator\<close>

datatype verror = VError (ve_property: string) (ve_constraints: "(string \<times> string) list option") (ve_children: "verror list option")

definition child_path :: "string \<Rightarrow> string \<Rightarrow> string" where
  "child_path parent p = (if parent = [] then p else parent @ ''.'' @ p)"

text \<open>The messages are entered under their path; a path entered again keeps its place.\<close>

fun flattenErrors :: "string \<Rightarrow> verror \<Rightarrow> (string \<times> string list) list \<Rightarrow> (string \<times> string list) list" where
  "flattenErrors parent (VError p c ch) acc =
     (let currentPath = child_path parent p;
          acc1 = (case c of None \<Rightarrow> acc | Some cs \<Rightarrow> AList.update currentPath (map snd cs) acc)
      in case ch of None \<Rightarrow> acc1 | Some errs \<Rightarrow> fold (flattenErrors currentPath) errs acc1)"

definition formatValidationErrors :: "verror list \<Rightarrow> (string \<times> string list) list" where
  "formatValidationErrors errors = fold (flattenErrors []) errors []"

text \<open>The copy of the filter, where the path of the outermost errors is undefined.\<close>

fun flatten_in_filter :: "string option \<Rightarrow> verror \<Rightarrow> (string \<times> string list) list \<Rightarrow> (string \<times> string list) list" where
  "flatten_in_filter parent (VError p c ch) acc =
     (let propertyPath = (if truthy parent then the parent @ ''.'' @ p else p);
          acc1 = (case c of None \<Rightarrow> acc | Some cs \<Rightarrow> AList.update propertyPath (map snd cs) acc)
      in case ch of None \<Rightarrow> acc1 | Some errs \<Rightarrow> fold (flatten_in_filter (Some propertyPath)) errs acc1)"

text \<open>The copy of the pipe keeps the tree; the children of an error take the place of its own messages.\<close>

datatype formatted = Messages "string list" | Nested "(string \<times> formatted) list"

fun formatErrors :: "verror \<Rightarrow> (string \<times> formatted) list \<Rightarrow> (string \<times> formatted) list" where
  "formatErrors (VError p c ch) acc =
     (let acc1 = (case c of None \<Rightarrow> acc | Some cs \<Rightarrow> AList.update p (Messages (map snd cs)) acc)
      in case ch of
           None \<Rightarrow> acc1
         | Some errs \<Rightarrow> if errs = [] then acc1 else AList.update p (Nested (fold formatErrors errs [])) acc1)"

text \<open>The library's conversion and validation are arguments; the five built-in types are not validated.\<close>

definition validation_transform ::
    "('v \<Rightarrow> 'o) \<Rightarrow> ('o \<Rightarrow> verror list) \<Rightarrow> string option \<Rightarrow> 'v \<Rightarrow> (string \<times> formatted) list + ('v + 'o)" where
  "validation_transform plainToInstance validate metatype v =
     (if metatype = None \<or> the metatype \<in> set [''String'', ''Boolean'', ''Number'', ''Array'', ''Object''] then Inr (Inl v)
      else (let object = plainToInstance v; errors = validate object
            in if errors \<noteq> [] then Inl (fold formatErrors errors []) else Inr (Inr object)))"

subsection \<open>ValidationUtils\<close>

definition char_in :: "string \<Rightarrow> char \<Rightarrow> bool" where
  "char_in cs c \<longleftrightarrow> c \<in> set cs"

definition isValidStellarAddress :: "string \<Rightarrow> bool" where
  "isValidStellarAddress address \<longleftrightarrow>
     length address = 56 \<and> starts_with address ''G''
     \<and> list_all (char_in ''GABCEHIJLMNOPQRSTUVXYZ123456789'') address"

definition is_alnum :: "char \<Rightarrow> bool" where
  "is_alnum c \<longleftrightarrow> is_digit c \<or> (let n = of_char c :: nat in (65 \<le> n \<and> n \<le> 90) \<or> (97 \<le> n \<and> n \<le> 122))"

definition is_hex :: "char \<Rightarrow> bool" where
  "is_hex c \<longleftrightarrow> is_digit c \<or> (let n = of_char c :: nat in (65 \<le> n \<and> n \<le> 70) \<or> (97 \<le> n \<and> n \<le> 102))"

definition is_base58 :: "char \<Rightarrow> bool" where
  "is_base58 c \<longleftrightarrow> is_alnum c \<and> \<not> char_in ''0OIl'' c"

definition isValidProofHash :: "string \<Rightarrow> bool" where
  "isValidProofHash h \<longleftrightarrow>
     (length h = 64 \<and> list_all is_hex h)
     \<or> (starts_with h ''Qm'' \<and> 46 \<le> length h \<and> list_all is_base58 (drop 2 h))
     \<or> (length h = 43 \<and> list_all (\<lambda>c. is_alnum c \<or> char_in ''_-'' c) h)"

definition control :: "char \<Rightarrow> bool" where
  "control c \<longleftrightarrow> (let n = of_char c :: nat in n \<le> 8 \<or> n = 11 \<or> n = 12 \<or> (14 \<le> n \<and> n \<le> 31) \<or> n = 127)"

definition html_tag :: re where
  "html_tag = seqs [lit ''<'', Star (re_not CHR ''>''), lit ''>'']"

definition decode_entities :: "string \<Rightarrow> string" where
  "decode_entities s =
     replace_all (lit ''&#x27;'') [CHR 0x27]
       (replace_all (lit ''&quot;'') [CHR 0x22]
         (replace_all (lit ''&amp;'') ''&''
           (replace_all (lit ''&gt;'') ''>''
             (replace_all (lit ''&lt;'') ''<'' s))))"

definition sanitizeString :: "string \<Rightarrow> string" where
  "sanitizeString input =
     trim (decode_entities (replace_all html_tag [] (filter (\<lambda>c. \<not> control c) (filter (\<lambda>c. (of_char c :: nat) \<noteq> 0) input))))"

record validation =
  va_isValid :: bool
  va_errors :: "string list"

definition verdict :: "string list \<Rightarrow> validation" where
  "verdict errors = \<lparr> va_isValid = (errors = []), va_errors = errors \<rparr>"

definition validateArraySize :: "'a list option \<Rightarrow> nat option \<Rightarrow> nat option \<Rightarrow> validation" where
  "validateArraySize xs minSize maxSize =
     (case xs of
        None \<Rightarrow> \<lparr> va_isValid = False, va_errors = [''Must be an array''] \<rparr>
      | Some ys \<Rightarrow> verdict
          ((case minSize of Some n \<Rightarrow> if length ys < n then [''Array must have at least '' @ show_nat n @ '' elements''] else [] | None \<Rightarrow> [])
           @ (case maxSize of Some n \<Rightarrow> if n < length ys then [''Array must have at most '' @ show_nat n @ '' elements''] else [] | None \<Rightarrow> [])))"

definition is_object :: "json \<Rightarrow> bool" where
  "is_object v = (case v of JNull \<Rightarrow> True | JArr _ \<Rightarrow> True | JObj _ \<Rightarrow> True | _ \<Rightarrow> False)"

text \<open>The loop over the elements, with the set of the texts seen.\<close>

fun all_new :: "string list \<Rightarrow> string list \<Rightarrow> bool" where
  "all_new seen [] = True"
| "all_new seen (t # ts) = (if t \<in> set seen then False else all_new (t # seen) ts)"

definition isArrayUnique :: "(json \<Rightarrow> string) \<Rightarrow> json \<Rightarrow> bool" where
  "isArrayUnique stringify v =
     (case v of
        JArr xs \<Rightarrow> if list_all (\<lambda>x. \<not> is_object x) xs then length (remdups xs) = length xs else all_new [] (map stringify xs)
      | _ \<Rightarrow> False)"

definition validateArrayElements :: "'a list option \<Rightarrow> ('a \<Rightarrow> bool) \<Rightarrow> string \<Rightarrow> validation" where
  "validateArrayElements xs predicate errorMessage =
     (case xs of
        None \<Rightarrow> \<lparr> va_isValid = False, va_errors = [''Must be an array''] \<rparr>
      | Some ys \<Rightarrow> verdict [errorMessage @ '' at index '' @ show_nat i. (i, y) \<leftarrow> enumerate 0 ys, \<not> predicate y])"

record check =
  ck_isValid :: bool
  ck_error :: "string option"

definition missing :: "json option \<Rightarrow> bool" where
  "missing v \<longleftrightarrow> v = None \<or> v = Some JNull \<or> v = Some (JStr [])"

definition requiredIf :: "json option \<Rightarrow> bool \<Rightarrow> string \<Rightarrow> check" where
  "requiredIf v condition fieldName =
     (if condition \<and> missing v then \<lparr> ck_isValid = False, ck_error = Some (fieldName @ '' is required'') \<rparr>
      else \<lparr> ck_isValid = True, ck_error = None \<rparr>)"

definition fieldsMatch :: "json option \<Rightarrow> json option \<Rightarrow> string \<Rightarrow> string \<Rightarrow> check" where
  "fieldsMatch v w fieldName1 fieldName2 =
     (if v \<noteq> w then \<lparr> ck_isValid = False, ck_error = Some (fieldName1 @ '' must match '' @ fieldName2) \<rparr>
      else \<lparr> ck_isValid = True, ck_error = None \<rparr>)"

definition createValidationResult :: "check list \<Rightarrow> validation" where
  "createValidationResult vs = verdict [the (ck_error v). v \<leftarrow> vs, \<not> ck_isValid v \<and> truthy (ck_error v)]"

subsection \<open>Constraints of the decorators\<close>

definition ArrayMinSize_validate :: "json \<Rightarrow> nat \<Rightarrow> bool" where
  "ArrayMinSize_validate v minSize = (case v of JArr xs \<Rightarrow> minSize \<le> length xs | _ \<Rightarrow> False)"

definition ArrayMaxSize_validate :: "json \<Rightarrow> nat \<Rightarrow> bool" where
  "ArrayMaxSize_validate v maxSize = (case v of JArr xs \<Rightarrow> length xs \<le> maxSize | _ \<Rightarrow> False)"

definition ArrayUnique_validate :: "(json \<Rightarrow> string) \<Rightarrow> json \<Rightarrow> bool" where
  "ArrayUnique_validate stringify v =
     (case v of
        JArr xs \<Rightarrow> if list_all (\<lambda>x. \<not> is_object x) xs then length (remdups xs) = length xs else all_new [] (map stringify xs)
      | _ \<Rightarrow> False)"

definition ArrayElements_validate :: "json \<Rightarrow> (json \<Rightarrow> bool) \<Rightarrow> bool" where
  "ArrayElements_validate v elementValidator = (case v of JArr xs \<Rightarrow> list_all elementValidator xs | _ \<Rightarrow> False)"

text \<open>The object a field belongs to is the list of its properties.\<close>

definition RequiredIf_validate :: "json option \<Rightarrow> string \<Rightarrow> json option \<Rightarrow> (string \<times> json) list \<Rightarrow> bool" where
  "RequiredIf_validate v relatedPropertyName relatedValue object =
     (if map_of object relatedPropertyName = relatedValue then \<not> missing v else True)"

definition RequiredIfPropertyExists_validate :: "json option \<Rightarrow> string \<Rightarrow> (string \<times> json) list \<Rightarrow> bool" where
  "RequiredIfPropertyExists_validate v relatedPropertyName object =
     (case map_of object relatedPropertyName of
        None \<Rightarrow> True
      | Some w \<Rightarrow> if \<not> falsy w then \<not> missing v else True)"

definition MatchProperty_validate :: "json option \<Rightarrow> string \<Rightarrow> (string \<times> json) list \<Rightarrow> bool" where
  "MatchProperty_validate v relatedPropertyName object \<longleftrightarrow> v = map_of object relatedPropertyName"

subsection \<open>SecurityExceptionFilter\<close>

text \<open>An HTTP exception carries a status and a text or an object with a message and a detail.\<close>

datatype thrown =
    HttpText nat string
  | HttpObject nat json json
  | Unexpected string string
  | NoError

record error_response =
  er_statusCode :: nat
  er_timestamp :: string
  er_path :: string
  er_message :: string
  er_error :: "json + thrown option"
  er_headers :: "(string \<times> string) list"

definition no_space :: re where
  "no_space = Cls (\<lambda>c. \<not> is_space c)"

definition redact :: "string \<Rightarrow> string \<Rightarrow> string" where
  "redact w s = replace_all (Seq (liti w) (Star no_space)) ''[REDACTED]'' s"

definition re_drive :: re where
  "re_drive = seqs [Cls (\<lambda>c. is_alnum c \<and> \<not> is_digit c), lit '':'', lit [CHR 0x5C], Star (re_not CHR '':'')]"

definition re_file :: re where
  "re_file = seqs [lit ''/'', Star (re_not CHR '':''), some_of (Seq (lit ''.'') (some_of (Cls is_alnum)))]"

definition basicSanitization :: "json \<Rightarrow> string" where
  "basicSanitization message =
     (case message of
        JStr s \<Rightarrow> take 200
          (replace_all re_file ''[FILE_REDACTED]''
            (replace_all re_drive ''[PATH_REDACTED]''
              (redact ''secret'' (redact ''key'' (redact ''token'' (redact ''password'' s))))))
      | _ \<Rightarrow> ''An error occurred'')"

text \<open>A message that is not found is not looked at; three statuses have a message of their own.\<close>

definition sanitizeErrorMessage :: "(json \<Rightarrow> string) \<Rightarrow> json \<Rightarrow> nat \<Rightarrow> string" where
  "sanitizeErrorMessage text message status =
     (if status = 404 then text message
      else if status = 403 then ''Access forbidden''
      else if status = 401 then ''Unauthorized access''
      else if status = 429 then ''Too many requests''
      else basicSanitization message)"

definition or_json :: "json \<Rightarrow> json \<Rightarrow> json" where
  "or_json v d = (if falsy v then d else v)"

fun thrown_parts :: "thrown \<Rightarrow> nat \<times> json \<times> json" where
  "thrown_parts (HttpText status m) = (status, JStr m, JNull)"
| "thrown_parts (HttpObject status m e) = (status, or_json m (JStr ''Internal server error''), or_json e JNull)"
| "thrown_parts (Unexpected m stack) = (500, JStr ''An unexpected error occurred'', JNull)"
| "thrown_parts NoError = (500, JStr ''Internal server error'', JNull)"

text \<open>
  The filter alone.  \<open>main.ts\<close> registers it before \<open>ValidationExceptionFilter\<close> below, and both catch every
  exception.  Which of the two is asked is the framework's choice; its documentation has later filters tried
  first, and then this one answers nothing and the other one everything.
\<close>

definition catch_security ::
    "bool \<Rightarrow> (json \<Rightarrow> string) \<Rightarrow> time \<Rightarrow> string \<Rightarrow> thrown \<Rightarrow> error_response" where
  "catch_security development text now url exception =
     (case thrown_parts exception of (status, message, errorDetails) \<Rightarrow>
        \<lparr> er_statusCode = status, er_timestamp = toISOString now, er_path = url,
          er_message = sanitizeErrorMessage text message status,
          er_error = (if development \<and> status \<noteq> 403 \<and> status \<noteq> 401
                      then (if falsy errorDetails then Inr (Some exception) else Inl errorDetails) else Inr None),
          er_headers = [(''X-Content-Type-Options'', ''nosniff''), (''X-Frame-Options'', ''DENY''), (''X-XSS-Protection'', ''1; mode=block'')] \<rparr>)"

definition error_client_ip :: "string option \<Rightarrow> string option \<Rightarrow> string option \<Rightarrow> string option \<Rightarrow> string" where
  "error_client_ip forwardedFor realIp connection socket =
     or_default (map_option (\<lambda>f. hd (split_on CHR '','' f)) forwardedFor)
       (or_default realIp (or_default connection (or_default socket ''Unknown'')))"

subsection \<open>ValidationExceptionFilter\<close>

text \<open>An exception as this filter sees it: a bad request with its response, errors of the validator, or another one.\<close>

datatype refusal = BadRequest json | RawErrors "verror list" | OtherError

datatype error_body = AsGiven json | Formatted "(string \<times> string list) list"

definition json_field :: "string \<Rightarrow> json \<Rightarrow> json" where
  "json_field k v = (case v of JObj ps \<Rightarrow> (case map_of ps k of Some w \<Rightarrow> w | None \<Rightarrow> JNull) | _ \<Rightarrow> JNull)"

definition catch_validation :: "refusal \<Rightarrow> nat \<times> json \<times> error_body" where
  "catch_validation exception =
     (case exception of
        BadRequest r \<Rightarrow>
          if (case r of JObj _ \<Rightarrow> True | JArr _ \<Rightarrow> True | _ \<Rightarrow> False)
          then (400, or_json (json_field ''message'' r) (JStr ''Validation failed''), AsGiven (or_json (json_field ''errors'' r) (JObj [])))
          else (500, JStr ''Internal server error'', AsGiven (JObj []))
      | RawErrors es \<Rightarrow>
          if es = [] then (500, JStr ''Internal server error'', AsGiven (JObj []))
          else (400, JStr ''Validation failed'', Formatted (fold (flatten_in_filter None) es []))
      | OtherError \<Rightarrow> (500, JStr ''Internal server error'', AsGiven (JObj [])))"

end
