(* ===== verification/ValidationProps.thy ===== *)
theory ValidationProps
  imports Validation
begin

text \<open>
  Properties of the validators: what becomes of a tree of errors, what the sanitiser of texts lets through, and what
  the answers to failed requests disclose.
\<close>

subsection \<open>Trees of errors\<close>

text \<open>
  The specification: an error lies under the names of the properties from the outermost to its own, and
  its path is these names with dots between them, empty names at the front left out.
\<close>

definition dotted_path :: "string list \<Rightarrow> string" where
  "dotted_path names = join_with ''.'' (dropWhile (\<lambda>n. n = []) names)"

text \<open>The errors of a tree that carry messages, in order, with the names they lie under.\<close>

fun named_errors :: "string list \<Rightarrow> verror \<Rightarrow> (string list \<times> string list) list" where
  "named_errors outer (VError p c ch) =
     (case c of None \<Rightarrow> [] | Some cs \<Rightarrow> [(outer @ [p], map snd cs)])
     @ (case ch of None \<Rightarrow> [] | Some errs \<Rightarrow> concat (map (named_errors (outer @ [p])) errs))"

definition tree_errors :: "verror list \<Rightarrow> (string \<times> string list) list" where
  "tree_errors errors = map (\<lambda>(names, ms). (dotted_path names, ms)) (concat (map (named_errors []) errors))"

text \<open>The same with the paths the code computes on the way down.\<close>

fun error_entries :: "string \<Rightarrow> verror \<Rightarrow> (string \<times> string list) list" where
  "error_entries parent (VError p c ch) =
     (case c of None \<Rightarrow> [] | Some cs \<Rightarrow> [(child_path parent p, map snd cs)])
     @ (case ch of None \<Rightarrow> [] | Some errs \<Rightarrow> concat (map (error_entries (child_path parent p)) errs))"

lemma join_with_snoc: "xs \<noteq> [] \<Longrightarrow> join_with d (xs @ [x]) = join_with d xs @ d @ x"
  by (induction d xs rule: join_with.induct) auto

lemma join_with_Nil_iff: "hd xs \<noteq> [] \<Longrightarrow> xs \<noteq> [] \<Longrightarrow> join_with d xs \<noteq> []"
  by (induction d xs rule: join_with.induct) auto

lemma child_of_path: "child_path (dotted_path names) p = dotted_path (names @ [p])"
proof (cases "\<forall>n \<in> set names. n = []")
  case True
  then have "dropWhile (\<lambda>n. n = []) names = []" by simp
  moreover from True have "dropWhile (\<lambda>n. n = []) (names @ [p]) = dropWhile (\<lambda>n. n = []) [p]"
    by (intro dropWhile_append2) blast
  ultimately show ?thesis by (cases "p = []") (simp_all add: dotted_path_def child_path_def del: dropWhile_eq_Nil_conv)
next
  case False
  then obtain n where n: "n \<in> set names" "n \<noteq> []" by blast
  let ?d = "dropWhile (\<lambda>n. n = []) names"
  have d: "?d \<noteq> []" "hd ?d \<noteq> []" using n hd_dropWhile [of "\<lambda>n. n = []" names] by auto
  have "dropWhile (\<lambda>n. n = []) (names @ [p]) = ?d @ [p]"
    by (rule dropWhile_append1 [OF n(1)]) (use n(2) in simp)
  with d show ?thesis by (simp add: dotted_path_def child_path_def join_with_snoc join_with_Nil_iff)
qed

lemma entries_named:
  "error_entries (dotted_path outer) e = map (\<lambda>(names, ms). (dotted_path names, ms)) (named_errors outer e)"
proof (induction outer e rule: named_errors.induct)
  case (1 outer p c ch)
  have "concat (map (error_entries (child_path (dotted_path outer) p)) errs)
      = map (\<lambda>(names, ms). (dotted_path names, ms)) (concat (map (named_errors (outer @ [p])) errs))" if "ch = Some errs" for errs
    using 1 that by (simp add: child_of_path map_concat comp_def cong: map_cong)
  then show ?case by (cases c; cases ch) (simp_all add: child_of_path)
qed

lemma tree_errors_entries: "concat (map (error_entries []) errors) = tree_errors errors"
  using entries_named [of "[]"]
  by (simp add: tree_errors_def dotted_path_def map_concat comp_def cong: map_cong)

definition enter :: "(string \<times> 'a) list \<Rightarrow> (string \<times> 'a) list \<Rightarrow> (string \<times> 'a) list" where
  "enter es acc = fold (\<lambda>(k, v). AList.update k v) es acc"

lemma enter_simps [simp]: "enter [] acc = acc" "enter ((k, v) # es) acc = enter es (AList.update k v acc)"
  "enter (es @ fs) acc = enter fs (enter es acc)"
  by (simp_all add: enter_def)

lemma fold_enter: "(\<And>e acc. e \<in> set es \<Longrightarrow> f e acc = enter (g e) acc) \<Longrightarrow> fold f es acc = enter (concat (map g es)) acc"
  by (induction es arbitrary: acc) auto

lemma flattenErrors_entries: "flattenErrors parent e acc = enter (error_entries parent e) acc"
proof (induction parent e acc rule: flattenErrors.induct)
  case (1 parent p c ch acc)
  then show ?case by (cases c; cases ch) (auto simp: Let_def intro!: fold_enter)
qed

lemma formatValidationErrors_entries: "formatValidationErrors errors = enter (concat (map (error_entries []) errors)) []"
  unfolding formatValidationErrors_def by (rule fold_enter) (simp add: flattenErrors_entries)

lemma enter_map: "map_of (enter es acc) = map_of acc ++ map_of (rev es)"
  by (induction es arbitrary: acc) (auto simp: update_conv' map_add_def fun_eq_iff split: option.splits)

lemma enter_distinct: "distinct (map fst acc) \<Longrightarrow> distinct (map fst (enter es acc))"
  by (induction es arbitrary: acc) (auto simp: distinct_update)

lemma update_new: "k \<notin> fst ` set acc \<Longrightarrow> AList.update k v acc = acc @ [(k, v)]"
  by (induction acc) auto

lemma enter_new: "distinct (map fst acc @ map fst es) \<Longrightarrow> enter es acc = acc @ es"
proof (induction es arbitrary: acc)
  case (Cons e es)
  obtain k v where e: "e = (k, v)" by (cases e)
  have "k \<notin> fst ` set acc" using Cons.prems e by auto
  then have "enter (e # es) acc = enter es (acc @ [(k, v)])" by (simp add: e update_new)
  also have "\<dots> = acc @ e # es" using Cons.IH [of "acc @ [(k, v)]"] Cons.prems e by simp
  finally show ?case .
qed simp

text \<open>
  Claim C29.  The map of errors answered to a client has, for each path of the tree under which some error
  carries messages - the names of the properties from the outermost to its own, joined with dots, without
  empty names at the front - exactly one entry, and no other entries; the entry holds the messages of the
  last error of the tree with that path; and when the paths are pairwise different the map is the list of
  all errors with messages, in the order of the tree.
\<close>
theorem errors_flattened:
  "distinct (map fst (formatValidationErrors errors))
   \<and> map_of (formatValidationErrors errors) = map_of (rev (tree_errors errors))
   \<and> (distinct (map fst (tree_errors errors)) \<longrightarrow> formatValidationErrors errors = tree_errors errors)"
  by (simp add: formatValidationErrors_entries tree_errors_entries enter_distinct enter_map enter_new)

definition nested_errors :: "verror list" where
  "nested_errors =
     [VError ''title'' (Some [(''isString'', ''title must be a string'')]) None,
      VError ''reward'' None (Some [VError ''amount'' (Some [(''min'', ''too small''), (''isInt'', ''not whole'')]) None])]"

theorem errors_flattened_witness:
  "formatValidationErrors nested_errors
     = [(''title'', [''title must be a string'']), (''reward.amount'', [''too small'', ''not whole''])]"
proof -
  have "tree_errors nested_errors
      = [(''title'', [''title must be a string'']), (''reward.amount'', [''too small'', ''not whole''])]" by code_simp
  then show ?thesis using errors_flattened [of nested_errors] by simp
qed

text \<open>The copy of the filter gives the same map.\<close>

lemma filter_flattens_alike:
  "flatten_in_filter parent e acc = flattenErrors (case parent of None \<Rightarrow> [] | Some q \<Rightarrow> q) e acc"
proof (induction parent e acc rule: flatten_in_filter.induct)
  case (1 parent p c ch acc)
  have path: "(if truthy parent then the parent @ ''.'' @ p else p) = child_path (case parent of None \<Rightarrow> [] | Some q \<Rightarrow> q) p"
    by (cases parent) (simp_all add: child_path_def)
  from 1 show ?case unfolding flatten_in_filter.simps flattenErrors.simps path Let_def
    by (cases ch) (auto intro!: fold_cong simp: path)
qed

theorem filter_answers_flattened:
  "errors \<noteq> [] \<Longrightarrow> catch_validation (RawErrors errors) = (400, JStr ''Validation failed'', Formatted (formatValidationErrors errors))"
  by (simp add: catch_validation_def formatValidationErrors_def filter_flattens_alike [abs_def])

text \<open>The pipe keeps the tree, but of an error that has both only the children are kept.\<close>

lemma pipe_drops_own_messages:
  "errs \<noteq> [] \<Longrightarrow> map_of (formatErrors (VError p c (Some errs)) acc) p = Some (Nested (fold formatErrors errs []))"
  by (simp add: update_conv')

subsection \<open>The sanitiser of texts\<close>

text \<open>Brackets written as entities.\<close>

definition as_entities :: "string \<Rightarrow> string" where
  "as_entities s = concat (map (\<lambda>d. if d = CHR ''<'' then ''&lt;'' else if d = CHR ''>'' then ''&gt;'' else [d]) s)"

definition open_decoded :: "string \<Rightarrow> string" where
  "open_decoded s = concat (map (\<lambda>d. if d = CHR ''>'' then ''&gt;'' else [d]) s)"

lemma replace_skips: "CHR ''&'' \<notin> set s \<Longrightarrow> replace_from (lit (CHR ''&'' # w)) x p s = s"
  by (induction s arbitrary: p) (auto simp: lit_def)

lemma decode_open: "CHR ''&'' \<notin> set s \<Longrightarrow> replace_from (lit ''&lt;'') ''<'' p (as_entities s) = open_decoded s"
  by (induction s arbitrary: p) (auto simp: lit_def as_entities_def open_decoded_def)

lemma decode_close: "CHR ''&'' \<notin> set s \<Longrightarrow> replace_from (lit ''&gt;'') ''>'' p (open_decoded s) = s"
  by (induction s arbitrary: p) (auto simp: lit_def open_decoded_def)

lemma no_tag_no_change: "CHR ''<'' \<notin> set s \<Longrightarrow> replace_from html_tag x p s = s"
  by (induction s arbitrary: p) (auto simp: html_tag_def seqs_def lit_def)

lemma entities_no_open: "CHR ''<'' \<notin> set (as_entities s)"
  by (auto simp: as_entities_def split: if_splits)

lemma entities_printable: "\<forall>c \<in> set s. P c \<Longrightarrow> \<forall>c \<in> set ''&ltg;''. P c \<Longrightarrow> \<forall>c \<in> set (as_entities s). P c"
  by (auto simp: as_entities_def split: if_splits)

lemma sanitise_entities:
  assumes "CHR ''&'' \<notin> set t" and "\<forall>c \<in> set t. \<not> control c"
  shows "sanitizeString (as_entities t) = trim t"
proof -
  have nul: "control c" if "(of_char c :: nat) = 0" for c using that by (simp add: control_def)
  have "\<forall>c \<in> set (as_entities t). \<not> control c"
    by (rule entities_printable [OF assms(2)]) code_simp
  then have "filter (\<lambda>c. \<not> control c) (filter (\<lambda>c. (of_char c :: nat) \<noteq> 0) (as_entities t)) = as_entities t"
    using nul by (auto simp: filter_id_conv)
  then show ?thesis unfolding sanitizeString_def decode_entities_def replace_all_def
    by (simp add: no_tag_no_change entities_no_open decode_open decode_close replace_skips assms)
qed

text \<open>
  Claim C30.  The sanitiser of texts removes the tags first and decodes the entities afterwards, so it can
  be made to put out markup: every text without an ampersand and without control characters, whatever tags
  it has, is, but for the white space at its ends, what the sanitiser makes of that text with its brackets
  written as \<open>&lt;\<close> and \<open>&gt;\<close>.
\<close>
theorem sanitiser_restores_markup:
  assumes "CHR ''&'' \<notin> set t" and "\<forall>c \<in> set t. \<not> control c"
  shows "sanitizeString (as_entities t) = trim t"
  by (rule sanitise_entities [OF assms])

theorem sanitiser_restores_markup_witness:
  "sanitizeString ''&lt;script&gt;f()&lt;/script&gt;'' = ''<script>f()</script>''"
proof -
  have e: "as_entities ''<script>f()</script>'' = ''&lt;script&gt;f()&lt;/script&gt;''" by code_simp
  have "trim ''<script>f()</script>'' = ''<script>f()</script>''" by code_simp
  moreover have "\<forall>c \<in> set ''<script>f()</script>''. \<not> control c" by code_simp
  ultimately show ?thesis using sanitiser_restores_markup [of "''<script>f()</script>''"] unfolding e by simp
qed

text \<open>An address with one of the letters D, F, K and W, or a zero, is refused though the alphabet of addresses has the letters.\<close>

lemma letters_refused: "list_ex (char_in ''DFKW0'') address \<Longrightarrow> \<not> isValidStellarAddress address"
proof -
  have "\<forall>c \<in> set ''DFKW0''. \<not> char_in ''GABCEHIJLMNOPQRSTUVXYZ123456789'' c" by code_simp
  then show "list_ex (char_in ''DFKW0'') address \<Longrightarrow> \<not> isValidStellarAddress address"
    unfolding isValidStellarAddress_def list_ex_iff list_all_iff by (metis char_in_def)
qed

lemma all_new_distinct: "all_new seen ts \<longleftrightarrow> distinct ts \<and> set ts \<inter> set seen = {}"
  by (induction ts arbitrary: seen) auto

text \<open>The loop over the texts of objects is a check for repeated texts; so are both copies of it.\<close>

lemma isArrayUnique_distinct:
  "isArrayUnique stringify (JArr xs) \<longleftrightarrow> (if list_all (\<lambda>x. \<not> is_object x) xs then distinct xs else distinct (map stringify xs))"
  by (simp add: isArrayUnique_def all_new_distinct length_remdups_card_conv distinct_card card_distinct)
     (metis card_distinct distinct_card)

lemma unique_copies_agree: "ArrayUnique_validate stringify v = isArrayUnique stringify v"
  by (simp add: ArrayUnique_validate_def isArrayUnique_def)

text \<open>A failed check without a message does not count.\<close>

lemma silent_failure_valid: "\<forall>v \<in> set vs. ck_error v = None \<or> ck_error v = Some [] \<Longrightarrow> va_isValid (createValidationResult vs)"
  by (auto simp: createValidationResult_def verdict_def)

subsection \<open>What failed requests disclose\<close>

text \<open>
  Claim C31.  Outside development an answer to an error that is no HTTP exception depends neither on its message
  nor on its stack; and whatever the environment, neither the message of an answer with status 401, 403 or 429
  nor, for the first two, anything else in it depends on what the exception carried.
\<close>
theorem internal_error_not_disclosed:
  "catch_security False text now url (Unexpected m stack) = catch_security False text now url (Unexpected m' stack')
   \<and> (status = 401 \<or> status = 403
        \<longrightarrow> catch_security development text now url (HttpObject status m1 e1) = catch_security development text now url (HttpText status m2))
   \<and> er_message (catch_security development text now url (HttpObject 429 m1 e1))
       = er_message (catch_security development text now url (HttpText 429 m2))"
  by (auto simp: catch_security_def sanitizeErrorMessage_def)

theorem internal_error_not_disclosed_witness:
  "catch_security True (\<lambda>v. []) 0 ''/x'' (HttpObject 403 (JStr ''no role admin'') JNull) = catch_security True (\<lambda>v. []) 0 ''/x'' (HttpText 403 ''Forbidden'')"
  using internal_error_not_disclosed [of "\<lambda>v. []" 0 "''/x''" _ _ _ _ "403" True "JStr ''no role admin''" JNull "''Forbidden''"] by simp

text \<open>The messages of a validation are a list, for which the filter has only a general message.\<close>

lemma validation_messages_lost:
  "er_message (catch_security d text now url (HttpObject 400 (JArr ms) e)) = ''An error occurred''"
  by (simp add: catch_security_def sanitizeErrorMessage_def basicSanitization_def or_json_def falsy_def)

text \<open>A message of a status 404 is passed on as it is.\<close>

lemma not_found_unsanitised: "er_message (catch_security d text now url (HttpText 404 m)) = text (JStr m)"
  by (simp add: catch_security_def sanitizeErrorMessage_def)

end
