(* ===== verification/ApiClient.thy ===== *)
theory ApiClient
  imports ContentFilters
begin

text \<open>
  The client side of the interface between the web application and the back end (\<open>src/FrontEnd/my-app/lib\<close>): the
  application's errors (\<open>utils/error-handler.ts\<close>), the HTTP client with its tokens, its queue of requests that wait
  for a new access token and its repetitions (\<open>api/client.ts\<close>), and the cache of pending requests
  (\<open>utils/cache.ts\<close>).  A request is known by a number; what the library axios does is a step of the machine
  below: it sends a request, and hands an answer or an error to the interceptors.
\<close>

subsection \<open>Errors of the application\<close>

record AppError =
  ae_message :: string
  ae_code :: "string option"
  ae_statusCode :: "int option"
  ae_isOperational :: bool
  ae_details :: "(string \<times> string) list option"

definition ERROR_CODES :: "string list" where
  "ERROR_CODES =
     [''NETWORK_ERROR'', ''TIMEOUT_ERROR'', ''CONNECTION_FAILED'', ''UNAUTHORIZED'', ''FORBIDDEN'', ''TOKEN_EXPIRED'',
      ''VALIDATION_ERROR'', ''INVALID_INPUT'', ''NOT_FOUND'', ''ALREADY_EXISTS'', ''SERVER_ERROR'', ''SERVICE_UNAVAILABLE'',
      ''WALLET_NOT_CONNECTED'', ''WALLET_ERROR'', ''TRANSACTION_FAILED'']"

datatype ErrorCategory = Network | Authentication | Invalid | Resource | Server | Wallet | Unknown

definition createAppError :: "string \<Rightarrow> string \<Rightarrow> int \<Rightarrow> (string \<times> string) list option \<Rightarrow> AppError" where
  "createAppError message code statusCode details =
     \<lparr> ae_message = message, ae_code = Some code, ae_statusCode = Some statusCode, ae_isOperational = True, ae_details = details \<rparr>"

definition category_of_code :: "string \<Rightarrow> ErrorCategory option" where
  "category_of_code code =
     (if code \<in> set ERROR_CODES
      then if code \<in> set [''NETWORK_ERROR'', ''TIMEOUT_ERROR'', ''CONNECTION_FAILED''] then Some Network
           else if code \<in> set [''UNAUTHORIZED'', ''FORBIDDEN'', ''TOKEN_EXPIRED''] then Some Authentication
           else if code \<in> set [''VALIDATION_ERROR'', ''INVALID_INPUT''] then Some Invalid
           else if code \<in> set [''NOT_FOUND'', ''ALREADY_EXISTS''] then Some Resource
           else if code \<in> set [''SERVER_ERROR'', ''SERVICE_UNAVAILABLE''] then Some Server
           else if code \<in> set [''WALLET_NOT_CONNECTED'', ''WALLET_ERROR'', ''TRANSACTION_FAILED''] then Some Wallet
           else None
      else None)"

definition category_of_status :: "int option \<Rightarrow> ErrorCategory" where
  "category_of_status status =
     (case status of
        None \<Rightarrow> Unknown
      | Some n \<Rightarrow> if 400 \<le> n \<and> n < 500 then Invalid else if 500 \<le> n then Server else Unknown)"

definition categorizeError :: "AppError \<Rightarrow> ErrorCategory" where
  "categorizeError e =
     (case (if truthy (ae_code e) then category_of_code (the (ae_code e)) else None) of
        Some c \<Rightarrow> c
      | None \<Rightarrow> category_of_status (ae_statusCode e))"

definition field_of :: "AppError \<Rightarrow> string option" where
  "field_of e = (case ae_details e of None \<Rightarrow> None | Some d \<Rightarrow> map_of d ''field'')"

definition getFriendlyErrorMessage :: "AppError \<Rightarrow> string" where
  "getFriendlyErrorMessage e =
     (case categorizeError e of
        Network \<Rightarrow> ''Network connection failed. Please check your internet connection and try again.''
      | Authentication \<Rightarrow> ''Authentication failed. Please log in again.''
      | Invalid \<Rightarrow>
          if truthy (field_of e) then ''Invalid '' @ the (field_of e) @ ''. Please check your input and try again.''
          else ''Please check your input and try again.''
      | Resource \<Rightarrow>
          if ae_code e = Some ''NOT_FOUND'' then ''The requested resource was not found.'' else ''The resource already exists.''
      | Server \<Rightarrow> ''Something went wrong on our end. Please try again later.''
      | Wallet \<Rightarrow>
          if ae_code e = Some ''WALLET_NOT_CONNECTED'' then ''Please connect your wallet to continue.''
          else ''Wallet operation failed. Please try again.''
      | Unknown \<Rightarrow> ''An unexpected error occurred. Please try again.'')"

definition isRecoverableError :: "AppError \<Rightarrow> bool" where
  "isRecoverableError e =
     (if categorizeError e = Network \<or> categorizeError e = Server then True
      else if ae_code e = Some ''TOKEN_EXPIRED'' then True
      else False)"

record display =
  di_title :: string
  di_message :: string
  di_isRecoverable :: bool
  di_action :: "string option"

definition title_action :: "AppError \<Rightarrow> string \<times> string" where
  "title_action e =
     (case categorizeError e of
        Network \<Rightarrow> (''Connection Error'', ''Retry Connection'')
      | Authentication \<Rightarrow> (''Authentication Error'', ''Log In'')
      | Invalid \<Rightarrow> (''Invalid Input'', ''Check Input'')
      | Resource \<Rightarrow> (''Resource Error'', if ae_code e = Some ''NOT_FOUND'' then ''Go Back'' else ''Try Again'')
      | Server \<Rightarrow> (''Server Error'', ''Retry'')
      | Wallet \<Rightarrow> (''Wallet Error'', if ae_code e = Some ''WALLET_NOT_CONNECTED'' then ''Connect Wallet'' else ''Try Again'')
      | Unknown \<Rightarrow> (''Unexpected Error'', ''Try Again''))"

definition formatErrorForDisplay :: "AppError \<Rightarrow> display" where
  "formatErrorForDisplay e =
     \<lparr> di_title = fst (title_action e), di_message = getFriendlyErrorMessage e, di_isRecoverable = isRecoverableError e,
       di_action = (if isRecoverableError e then Some (snd (title_action e)) else None) \<rparr>"

text \<open>What is thrown is an error of the application or some other value.\<close>

definition withErrorHandling :: "AppError option + 'a \<Rightarrow> 'a option \<times> AppError option" where
  "withErrorHandling outcome =
     (case outcome of
        Inr v \<Rightarrow> (Some v, None)
      | Inl (Some e) \<Rightarrow> (None, Some e)
      | Inl None \<Rightarrow> (None, Some (createAppError ''Unknown error occurred'' ''SERVER_ERROR'' 500 None)))"

subsection \<open>Tokens\<close>

type_synonym storage = "string \<rightharpoonup> string"

record AuthTokens =
  tk_access :: string
  tk_refresh :: string
  tk_expiresIn :: int

datatype server_message = NoMessage | OneMessage string | Messages "string list"

record axios_error =
  ax_response :: "(nat \<times> server_message) option"
  ax_code :: "string option"
  ax_message :: string

datatype caught = App AppError | Raw axios_error

record api_request =
  ar_authorization :: "string option"
  ar_retry :: bool

datatype phase = Sent | Waiting | Refreshing | Answered | Failed caught

record client =
  cl_window :: bool
  cl_local :: storage
  cl_session :: storage
  isRefreshing :: bool
  failedQueue :: "nat list"
  requests :: "nat \<rightharpoonup> api_request \<times> phase"
  cl_refreshes :: "nat list"

definition or_option :: "string option \<Rightarrow> string option \<Rightarrow> string option" where
  "or_option x y = (if truthy x then x else y)"

definition stored :: "string \<Rightarrow> client \<Rightarrow> string option" where
  "stored key s = (if \<not> cl_window s then None else or_option (cl_local s key) (cl_session s key))"

definition getAccessToken :: "client \<Rightarrow> string option" where
  "getAccessToken s = stored ''authToken'' s"

definition getRefreshToken :: "client \<Rightarrow> string option" where
  "getRefreshToken s = stored ''refreshToken'' s"

definition setTokens :: "AuthTokens \<Rightarrow> client \<Rightarrow> client" where
  "setTokens t s =
     (if \<not> cl_window s then s
      else s\<lparr>cl_local := (cl_local s)(''authToken'' \<mapsto> tk_access t, ''refreshToken'' \<mapsto> tk_refresh t, ''tokenExpiresIn'' \<mapsto> show_int (tk_expiresIn t))\<rparr>)"

definition token_keys :: "string set" where
  "token_keys = {''authToken'', ''refreshToken'', ''tokenExpiresIn''}"

definition clearTokens :: "client \<Rightarrow> client" where
  "clearTokens s =
     (if \<not> cl_window s then s
      else s\<lparr>cl_local := cl_local s |` (- token_keys), cl_session := cl_session s |` (- token_keys)\<rparr>)"

subsection \<open>Errors of the client\<close>

definition server_text :: "server_message \<Rightarrow> string \<Rightarrow> string" where
  "server_text m d = (case m of NoMessage \<Rightarrow> d | OneMessage t \<Rightarrow> t | Messages ts \<Rightarrow> join ''; '' ts)"

definition transformAxiosError :: "axios_error \<Rightarrow> AppError" where
  "transformAxiosError e =
     (let status = (case ax_response e of None \<Rightarrow> 0 | Some (n, _) \<Rightarrow> n);
          message = server_text (case ax_response e of None \<Rightarrow> NoMessage | Some (_, m) \<Rightarrow> m) (ax_message e)
      in if status = 0
         then createAppError ''Network connection failed. Please check your internet connection.''
                (if ax_code e = Some ''ECONNABORTED'' then ''TIMEOUT_ERROR'' else ''NETWORK_ERROR'') 0 None
         else if status = 400 then createAppError message ''VALIDATION_ERROR'' 400 None
         else if status = 401 then createAppError message ''UNAUTHORIZED'' 401 None
         else if status = 403 then createAppError message ''FORBIDDEN'' 403 None
         else if status = 404 then createAppError message ''NOT_FOUND'' 404 None
         else if status = 429 then createAppError ''Too many requests. Please slow down.'' ''SERVER_ERROR'' 429 None
         else if 500 \<le> status
         then createAppError (if message = [] then ''Something went wrong on our end.'' else message) ''SERVER_ERROR'' (int status) None
         else createAppError message ''SERVER_ERROR'' (int status) None)"

subsection \<open>The interceptors\<close>

definition bearer :: "string \<Rightarrow> string" where
  "bearer token = ''Bearer '' @ token"

definition with_token :: "client \<Rightarrow> api_request \<Rightarrow> api_request" where
  "with_token s r =
     (let token = getAccessToken s in if truthy token then r\<lparr>ar_authorization := Some (bearer (the token))\<rparr> else r)"

definition settle :: "nat \<Rightarrow> api_request \<Rightarrow> phase \<Rightarrow> client \<Rightarrow> client" where
  "settle i r p s = s\<lparr>requests := (requests s)(i \<mapsto> (r, p))\<rparr>"

text \<open>A request that is handed to the client goes through the request interceptor.\<close>

definition send :: "nat \<Rightarrow> api_request \<Rightarrow> client \<Rightarrow> client" where
  "send i r s = settle i (with_token s r) Sent s"

definition request_of :: "client \<Rightarrow> nat \<Rightarrow> api_request" where
  "request_of s i = (case requests s i of Some (r, p) \<Rightarrow> r | None \<Rightarrow> \<lparr> ar_authorization = None, ar_retry = False \<rparr>)"

definition release :: "caught + string \<Rightarrow> nat \<Rightarrow> client \<Rightarrow> client" where
  "release outcome i s =
     (case outcome of
        Inl err \<Rightarrow> settle i (request_of s i) (Failed err) s
      | Inr token \<Rightarrow> send i ((request_of s i)\<lparr>ar_authorization := Some (bearer token)\<rparr>) s)"

definition processQueue :: "caught + string \<Rightarrow> client \<Rightarrow> client" where
  "processQueue outcome s = (fold (release outcome) (failedQueue s) s)\<lparr>failedQueue := []\<rparr>"

definition unauthorized :: "axios_error \<Rightarrow> bool" where
  "unauthorized e \<longleftrightarrow> (case ax_response e of None \<Rightarrow> False | Some (n, _) \<Rightarrow> n = 401)"

text \<open>The response interceptor, up to the request for a new token, and what follows the answer to that.\<close>

definition on_error :: "nat \<Rightarrow> axios_error \<Rightarrow> client \<Rightarrow> client" where
  "on_error i e s =
     (let r = request_of s i
      in if unauthorized e \<and> \<not> ar_retry r
         then if isRefreshing s then settle i r Waiting (s\<lparr>failedQueue := failedQueue s @ [i]\<rparr>)
              else (let r1 = r\<lparr>ar_retry := True\<rparr>; s1 = s\<lparr>isRefreshing := True\<rparr>
                    in if truthy (getRefreshToken s1)
                       then settle i r1 Refreshing (s1\<lparr>cl_refreshes := cl_refreshes s1 @ [i]\<rparr>)
                       else settle i r1 (Failed (App (transformAxiosError e)))
                              ((processQueue (Inl (Raw e)) (clearTokens s1))\<lparr>isRefreshing := False\<rparr>))
         else settle i r (Failed (App (transformAxiosError e))) s)"

definition on_refreshed :: "nat \<Rightarrow> AuthTokens \<Rightarrow> client \<Rightarrow> client" where
  "on_refreshed i t s =
     (let s1 = processQueue (Inr (tk_access t)) (setTokens t s)
      in (send i ((request_of s1 i)\<lparr>ar_authorization := Some (bearer (tk_access t))\<rparr>) s1)\<lparr>isRefreshing := False\<rparr>)"

definition on_refresh_failed :: "nat \<Rightarrow> caught \<Rightarrow> client \<Rightarrow> client" where
  "on_refresh_failed i err s =
     (let s1 = processQueue (Inl err) (clearTokens s)
      in (settle i (request_of s1 i) (Failed err) s1)\<lparr>isRefreshing := False\<rparr>)"

definition phase_of :: "client \<Rightarrow> nat \<Rightarrow> phase option" where
  "phase_of s i = map_option snd (requests s i)"

text \<open>
  The steps: the application makes a call, the server answers a request or refuses it or cannot be reached, and
  the request for a new token is answered or fails.
\<close>

inductive api_step :: "client \<Rightarrow> client \<Rightarrow> bool" where
  Call: "requests s i = None \<Longrightarrow> api_step s (send i \<lparr> ar_authorization = None, ar_retry = False \<rparr> s)"
| Succeed: "phase_of s i = Some Sent \<Longrightarrow> api_step s (settle i (request_of s i) Answered s)"
| Refuse: "phase_of s i = Some Sent \<Longrightarrow> api_step s (on_error i e s)"
| Refreshed: "phase_of s i = Some Refreshing \<Longrightarrow> api_step s (on_refreshed i t s)"
| RefreshFailed: "phase_of s i = Some Refreshing \<Longrightarrow> api_step s (on_refresh_failed i err s)"

definition fresh_client :: "bool \<Rightarrow> storage \<Rightarrow> storage \<Rightarrow> client" where
  "fresh_client w l s =
     \<lparr> cl_window = w, cl_local = l, cl_session = s, isRefreshing = False, failedQueue = [], requests = Map.empty, cl_refreshes = [] \<rparr>"

inductive api_reachable :: "client \<Rightarrow> bool" where
  Start: "api_reachable (fresh_client w l s)"
| Step: "api_reachable s \<Longrightarrow> api_step s s' \<Longrightarrow> api_reachable s'"

subsection \<open>Repetition\<close>

definition isRetryableError :: "caught \<Rightarrow> bool" where
  "isRetryableError err =
     (case (case err of App _ \<Rightarrow> None | Raw e \<Rightarrow> ax_response e) of
        None \<Rightarrow> True
      | Some (status, _) \<Rightarrow> 500 \<le> status \<and> status \<noteq> 501)"

record 'a retried =
  re_outcome :: "caught option + 'a"
  re_calls :: nat
  re_delays :: "int list"

text \<open>The loop; \<open>fn n\<close> is the outcome of attempt \<open>n\<close>, and an outcome without an error is \<open>throw undefined\<close>.\<close>

function retry_loop :: "(nat \<Rightarrow> caught + 'a) \<Rightarrow> int \<Rightarrow> int \<Rightarrow> nat \<Rightarrow> caught option \<Rightarrow> int list \<Rightarrow> 'a retried" where
  "retry_loop fn retries delayMs attempt lastError delays =
     (if int attempt \<le> retries
      then case fn attempt of
             Inr v \<Rightarrow> \<lparr> re_outcome = Inr v, re_calls = Suc attempt, re_delays = delays \<rparr>
           | Inl err \<Rightarrow>
               if retries \<le> int attempt \<or> \<not> isRetryableError err
               then \<lparr> re_outcome = Inl (Some err), re_calls = Suc attempt, re_delays = delays \<rparr>
               else retry_loop fn retries delayMs (Suc attempt) (Some err) (delays @ [delayMs * 2 ^ attempt])
      else \<lparr> re_outcome = Inl lastError, re_calls = attempt, re_delays = delays \<rparr>)"
  by pat_completeness auto
termination
  by (relation "measure (\<lambda>(fn, retries, d, attempt, l, ds). nat (retries - int attempt))") auto

definition withRetry :: "(nat \<Rightarrow> caught + 'a) \<Rightarrow> int \<Rightarrow> int \<Rightarrow> 'a retried" where
  "withRetry fn retries delayMs = retry_loop fn retries delayMs 0 None []"

subsection \<open>The cache of the application\<close>

record 'a cache_entry =
  ce_data :: 'a
  ce_timestamp :: int
  ce_expiresAt :: int

text \<open>A pending request is known by its key; it remembers the time and the lifetime it was made with.\<close>

record 'a manager =
  cm_cache :: "string \<rightharpoonup> 'a cache_entry"
  cm_pending :: "string \<rightharpoonup> int \<times> int"
  cm_fetched :: "string list"

datatype 'a lookup = Cached 'a | Joined | Started

text \<open>A lifetime of zero counts as none given.\<close>

definition manager_get :: "int \<Rightarrow> string \<Rightarrow> int option \<Rightarrow> 'a manager \<Rightarrow> 'a lookup \<times> 'a manager" where
  "manager_get now key ttl m =
     (case (case cm_cache m key of Some entry \<Rightarrow> if now < ce_expiresAt entry then Some (ce_data entry) else None | None \<Rightarrow> None) of
        Some d \<Rightarrow> (Cached d, m)
      | None \<Rightarrow>
          if cm_pending m key \<noteq> None then (Joined, m)
          else (Started, m\<lparr>cm_pending := (cm_pending m)(key \<mapsto> (now, case ttl of Some t \<Rightarrow> if t = 0 then 300000 else t | None \<Rightarrow> 300000)),
                            cm_fetched := cm_fetched m @ [key]\<rparr>))"

text \<open>The fetcher's answer, or its failure.\<close>

definition manager_settled :: "string \<Rightarrow> 'a option \<Rightarrow> 'a manager \<Rightarrow> 'a manager" where
  "manager_settled key outcome m =
     (case cm_pending m key of
        None \<Rightarrow> m
      | Some (now, ttl) \<Rightarrow>
          (case outcome of
             Some d \<Rightarrow> m\<lparr>cm_cache := (cm_cache m)(key \<mapsto> \<lparr> ce_data = d, ce_timestamp = now, ce_expiresAt = now + ttl \<rparr>),
                        cm_pending := (cm_pending m)(key := None)\<rparr>
           | None \<Rightarrow> m\<lparr>cm_pending := (cm_pending m)(key := None)\<rparr>))"

definition manager_invalidate :: "string \<Rightarrow> 'a manager \<Rightarrow> 'a manager" where
  "manager_invalidate key m = m\<lparr>cm_cache := (cm_cache m)(key := None)\<rparr>"

definition manager_clear :: "'a manager \<Rightarrow> 'a manager" where
  "manager_clear m = m\<lparr>cm_cache := Map.empty\<rparr>"

end
