(* ===== verification/ApiClientProps.thy ===== *)
theory ApiClientProps
  imports ApiClient
begin

text \<open>
  Properties of the client of the web application: what holds of its requests whatever order calls, answers and
  refreshes of the token come in, how often it repeats a call, and what it shows of an error.
\<close>

subsection \<open>Effects of the operations\<close>

named_theorems client_simps

lemma settle_simps [client_simps]:
  "phase_of (settle i r p s) j = (if j = i then Some p else phase_of s j)"
  "request_of (settle i r p s) j = (if j = i then r else request_of s j)"
  "isRefreshing (settle i r p s) = isRefreshing s" "failedQueue (settle i r p s) = failedQueue s"
  "cl_refreshes (settle i r p s) = cl_refreshes s" "cl_local (settle i r p s) = cl_local s"
  "cl_session (settle i r p s) = cl_session s" "cl_window (settle i r p s) = cl_window s"
  by (simp_all add: settle_def phase_of_def request_of_def)

lemma with_token_retry [client_simps]: "ar_retry (with_token s r) = ar_retry r"
  by (simp add: with_token_def Let_def)

lemma send_simps [client_simps]:
  "phase_of (send i r s) j = (if j = i then Some Sent else phase_of s j)"
  "request_of (send i r s) j = (if j = i then with_token s r else request_of s j)"
  "isRefreshing (send i r s) = isRefreshing s" "failedQueue (send i r s) = failedQueue s"
  "cl_refreshes (send i r s) = cl_refreshes s" "cl_local (send i r s) = cl_local s"
  "cl_session (send i r s) = cl_session s" "cl_window (send i r s) = cl_window s"
  by (simp_all add: send_def client_simps)

lemma tokens_simps [client_simps]:
  "phase_of (setTokens t s) j = phase_of s j" "phase_of (clearTokens s) j = phase_of s j"
  "request_of (setTokens t s) j = request_of s j" "request_of (clearTokens s) j = request_of s j"
  "isRefreshing (setTokens t s) = isRefreshing s" "isRefreshing (clearTokens s) = isRefreshing s"
  "failedQueue (setTokens t s) = failedQueue s" "failedQueue (clearTokens s) = failedQueue s"
  "cl_refreshes (setTokens t s) = cl_refreshes s" "cl_refreshes (clearTokens s) = cl_refreshes s"
  "cl_window (setTokens t s) = cl_window s" "cl_window (clearTokens s) = cl_window s"
  by (simp_all add: setTokens_def clearTokens_def phase_of_def request_of_def)

lemma flag_simps [client_simps]:
  "phase_of (s\<lparr>isRefreshing := b\<rparr>) j = phase_of s j" "phase_of (s\<lparr>failedQueue := q\<rparr>) j = phase_of s j"
  "phase_of (s\<lparr>cl_refreshes := n\<rparr>) j = phase_of s j"
  "request_of (s\<lparr>isRefreshing := b\<rparr>) j = request_of s j" "request_of (s\<lparr>failedQueue := q\<rparr>) j = request_of s j"
  "request_of (s\<lparr>cl_refreshes := n\<rparr>) j = request_of s j"
  "getRefreshToken (s\<lparr>isRefreshing := b\<rparr>) = getRefreshToken s"
  "getAccessToken (s\<lparr>isRefreshing := b\<rparr>) = getAccessToken s" "getAccessToken (s\<lparr>failedQueue := q\<rparr>) = getAccessToken s"
  by (simp_all add: phase_of_def request_of_def getRefreshToken_def getAccessToken_def stored_def)

definition released :: "caught + string \<Rightarrow> phase" where
  "released outcome = (case outcome of Inl err \<Rightarrow> Failed err | Inr token \<Rightarrow> Sent)"

lemma release_simps [client_simps]:
  "phase_of (release outcome i s) j = (if j = i then Some (released outcome) else phase_of s j)"
  "ar_retry (request_of (release outcome i s) j) = ar_retry (request_of s j)"
  "isRefreshing (release outcome i s) = isRefreshing s" "cl_refreshes (release outcome i s) = cl_refreshes s"
  "cl_local (release outcome i s) = cl_local s" "cl_session (release outcome i s) = cl_session s"
  "cl_window (release outcome i s) = cl_window s"
  by (auto simp: release_def released_def client_simps split: sum.splits)

lemma release_all [client_simps]:
  "phase_of (fold (release outcome) q s) j = (if j \<in> set q then Some (released outcome) else phase_of s j)"
  "ar_retry (request_of (fold (release outcome) q s) j) = ar_retry (request_of s j)"
  "isRefreshing (fold (release outcome) q s) = isRefreshing s" "cl_refreshes (fold (release outcome) q s) = cl_refreshes s"
  "cl_local (fold (release outcome) q s) = cl_local s" "cl_session (fold (release outcome) q s) = cl_session s"
  "cl_window (fold (release outcome) q s) = cl_window s"
  by (induction q arbitrary: s) (simp_all add: client_simps)

lemma processQueue_simps [client_simps]:
  "phase_of (processQueue outcome s) j = (if j \<in> set (failedQueue s) then Some (released outcome) else phase_of s j)"
  "ar_retry (request_of (processQueue outcome s) j) = ar_retry (request_of s j)"
  "isRefreshing (processQueue outcome s) = isRefreshing s" "cl_refreshes (processQueue outcome s) = cl_refreshes s"
  "failedQueue (processQueue outcome s) = []"
  "cl_local (processQueue outcome s) = cl_local s" "cl_session (processQueue outcome s) = cl_session s"
  "cl_window (processQueue outcome s) = cl_window s"
  by (simp_all add: processQueue_def client_simps)

subsection \<open>The invariant\<close>

definition client_ok :: "client \<Rightarrow> bool" where
  "client_ok s \<longleftrightarrow>
     (\<forall>i. i \<in> set (failedQueue s) \<longleftrightarrow> phase_of s i = Some Waiting)
     \<and> distinct (failedQueue s)
     \<and> (\<forall>i j. phase_of s i = Some Refreshing \<and> phase_of s j = Some Refreshing \<longrightarrow> i = j)
     \<and> (isRefreshing s \<longleftrightarrow> (\<exists>i. phase_of s i = Some Refreshing))
     \<and> (failedQueue s \<noteq> [] \<longrightarrow> isRefreshing s)
     \<and> distinct (cl_refreshes s)
     \<and> (\<forall>i \<in> set (cl_refreshes s). phase_of s i \<noteq> None \<and> ar_retry (request_of s i))"

lemma ok_start: "client_ok (fresh_client w l s)"
  by (simp add: client_ok_def fresh_client_def phase_of_def)

text \<open>A request in another phase is not the one that refreshes, so a change of it leaves that one.\<close>

lemma refresher_kept:
  assumes "phase_of s i \<noteq> Some Refreshing" and "p \<noteq> Refreshing"
  shows "(\<exists>j. phase_of (settle i r p s) j = Some Refreshing) \<longleftrightarrow> (\<exists>j. phase_of s j = Some Refreshing)"
proof -
  have "phase_of (settle i r p s) j = Some Refreshing \<longleftrightarrow> phase_of s j = Some Refreshing" for j
    using assms by (simp add: settle_simps)
  then show ?thesis by simp
qed

lemma ok_settle:
  assumes "client_ok s" and "phase_of s i = Some Sent \<or> phase_of s i = None" and "p \<noteq> Waiting" "p \<noteq> Refreshing"
    and "phase_of s i = None \<or> ar_retry r = ar_retry (request_of s i)"
  shows "client_ok (settle i r p s)"
proof -
  have "phase_of s i \<noteq> Some Refreshing" using assms(2) by auto
  note kept = refresher_kept [OF this assms(4), of r]
  show ?thesis using assms unfolding client_ok_def kept by (auto simp: client_simps)
qed

lemma ok_call: "client_ok s \<Longrightarrow> requests s i = None \<Longrightarrow> client_ok (send i r s)"
  unfolding send_def by (rule ok_settle) (simp_all add: phase_of_def)

lemma ok_wait:
  assumes "client_ok s" and "phase_of s i = Some Sent" and "isRefreshing s"
  shows "client_ok (settle i (request_of s i) Waiting (s\<lparr>failedQueue := failedQueue s @ [i]\<rparr>))"
proof -
  have "i \<notin> set (failedQueue s)" using assms by (auto simp: client_ok_def)
  moreover have "phase_of (s\<lparr>failedQueue := failedQueue s @ [i]\<rparr>) i \<noteq> Some Refreshing" using assms by (simp add: client_simps)
  note kept = refresher_kept [OF this, of Waiting "request_of s i", simplified]
  ultimately show ?thesis using assms unfolding client_ok_def kept by (auto simp: client_simps)
qed

lemma ok_refresh:
  assumes "client_ok s" and "phase_of s i = Some Sent" and "\<not> isRefreshing s" and "\<not> ar_retry (request_of s i)"
  shows "client_ok (settle i ((request_of s i)\<lparr>ar_retry := True\<rparr>) Refreshing (s\<lparr>isRefreshing := True, cl_refreshes := cl_refreshes s @ [i]\<rparr>))"
proof -
  have "i \<notin> set (cl_refreshes s)" using assms by (auto simp: client_ok_def)
  with assms show ?thesis unfolding client_ok_def by (auto simp: client_simps)
qed

lemma ok_no_token:
  assumes "client_ok s" and "phase_of s i = Some Sent" and "\<not> isRefreshing s"
  shows "client_ok (settle i ((request_of s i)\<lparr>ar_retry := True\<rparr>) (Failed f)
    ((processQueue outcome (clearTokens (s\<lparr>isRefreshing := True\<rparr>)))\<lparr>isRefreshing := False\<rparr>))"
  using assms unfolding client_ok_def by (auto simp: client_simps)

lemma ok_refusal: "client_ok s \<Longrightarrow> phase_of s i = Some Sent \<Longrightarrow> client_ok (on_error i e s)"
  unfolding on_error_def Let_def
  by (auto simp: client_simps intro!: ok_settle ok_wait ok_refresh ok_no_token)

lemma ok_refreshed: "client_ok s \<Longrightarrow> phase_of s i = Some Refreshing \<Longrightarrow> client_ok (on_refreshed i t s)"
  unfolding client_ok_def on_refreshed_def Let_def by (auto simp: client_simps released_def)

lemma ok_refresh_failed: "client_ok s \<Longrightarrow> phase_of s i = Some Refreshing \<Longrightarrow> client_ok (on_refresh_failed i err s)"
  unfolding client_ok_def on_refresh_failed_def Let_def by (auto simp: client_simps released_def)

lemma ok_step: "api_step s s' \<Longrightarrow> client_ok s \<Longrightarrow> client_ok s'"
  by (induction rule: api_step.induct)
     (simp_all add: ok_call ok_settle ok_refusal ok_refreshed ok_refresh_failed)

lemma reachable_ok: "api_reachable s \<Longrightarrow> client_ok s"
  by (induction rule: api_reachable.induct) (auto simp: ok_start intro: ok_step)

text \<open>
  Claim C32.  Whatever order calls, answers, refusals and refreshes come in: at most one request for a new token is
  in flight, the flag says whether one is, and no request is lost - the requests that wait are exactly those in
  the queue, each of them once, and none waits unless a refresh is in flight.
\<close>
theorem no_request_stuck:
  assumes "api_reachable s"
  shows "(\<forall>i j. phase_of s i = Some Refreshing \<and> phase_of s j = Some Refreshing \<longrightarrow> i = j)
    \<and> (isRefreshing s \<longleftrightarrow> (\<exists>i. phase_of s i = Some Refreshing))
    \<and> distinct (failedQueue s) \<and> (\<forall>i. i \<in> set (failedQueue s) \<longleftrightarrow> phase_of s i = Some Waiting)
    \<and> (\<not> isRefreshing s \<longrightarrow> (\<forall>i. phase_of s i \<noteq> Some Waiting))"
proof -
  have ok: "client_ok s" by (rule reachable_ok [OF assms])
  then have "\<forall>i. phase_of s i \<noteq> Some Waiting" if "\<not> isRefreshing s"
    using that unfolding client_ok_def by fastforce
  with ok show ?thesis unfolding client_ok_def by blast
qed

definition refused_401 :: axios_error where
  "refused_401 = \<lparr> ax_response = Some (401, OneMessage ''Unauthorized''), ax_code = None, ax_message = ''401'' \<rparr>"

text \<open>Two calls are made and refused; the second waits for the refresh of the first.\<close>

definition two_sent :: client where
  "two_sent = send 2 \<lparr> ar_authorization = None, ar_retry = False \<rparr>
     (send 0 \<lparr> ar_authorization = None, ar_retry = False \<rparr> (fresh_client True [''refreshToken'' \<mapsto> ''r''] Map.empty))"

definition two_refused :: client where
  "two_refused = on_error 2 refused_401 (on_error 0 refused_401 two_sent)"

lemma first_refused:
  "unauthorized e \<Longrightarrow> \<not> ar_retry (request_of s i) \<Longrightarrow> \<not> isRefreshing s \<Longrightarrow> truthy (getRefreshToken s) \<Longrightarrow>
    on_error i e s = settle i ((request_of s i)\<lparr>ar_retry := True\<rparr>) Refreshing (s\<lparr>isRefreshing := True, cl_refreshes := cl_refreshes s @ [i]\<rparr>)"
  by (simp add: on_error_def Let_def client_simps)

lemma later_refused:
  "unauthorized e \<Longrightarrow> \<not> ar_retry (request_of s i) \<Longrightarrow> isRefreshing s \<Longrightarrow>
    on_error i e s = settle i (request_of s i) Waiting (s\<lparr>failedQueue := failedQueue s @ [i]\<rparr>)"
  by (simp add: on_error_def Let_def)

lemma two_sent_state:
  "phase_of two_sent 0 = Some Sent" "phase_of two_sent 2 = Some Sent" "\<not> isRefreshing two_sent" "failedQueue two_sent = []"
  "\<not> ar_retry (request_of two_sent i)" "getRefreshToken two_sent = Some ''r''"
  by (simp_all add: two_sent_def client_simps fresh_client_def getRefreshToken_def stored_def or_option_def)
     (simp add: request_of_def)

lemma two_sent_reachable: "api_reachable two_sent"
proof -
  let ?r = "\<lparr> ar_authorization = None, ar_retry = False \<rparr>" and ?s = "fresh_client True [''refreshToken'' \<mapsto> ''r''] Map.empty"
  have "api_step ?s (send 0 ?r ?s)" by (rule api_step.Call) (simp add: fresh_client_def)
  then have one: "api_reachable (send 0 ?r ?s)" by (rule api_reachable.Step [OF api_reachable.Start])
  have "requests (send 0 ?r ?s) 2 = None" by (simp add: send_def settle_def fresh_client_def)
  then have "api_step (send 0 ?r ?s) two_sent" unfolding two_sent_def by (rule api_step.Call)
  with one show ?thesis by (rule api_reachable.Step)
qed

lemma refused_is_401: "unauthorized refused_401"
  by (simp add: unauthorized_def refused_401_def)

lemma two_refused_phases:
  "phase_of two_refused 0 = Some Refreshing" "phase_of two_refused 2 = Some Waiting"
proof -
  have "two_refused = on_error 2 refused_401 (settle 0 ((request_of two_sent 0)\<lparr>ar_retry := True\<rparr>) Refreshing
      (two_sent\<lparr>isRefreshing := True, cl_refreshes := cl_refreshes two_sent @ [0]\<rparr>))"
    unfolding two_refused_def by (simp add: first_refused refused_is_401 two_sent_state)
  then show "phase_of two_refused 0 = Some Refreshing" "phase_of two_refused 2 = Some Waiting"
    by (simp_all add: later_refused refused_is_401 client_simps two_sent_state two_refused_def)
qed

lemma two_refused_reachable: "api_reachable two_refused"
proof -
  have one: "api_reachable (on_error 0 refused_401 two_sent)"
    by (rule api_reachable.Step [OF two_sent_reachable api_step.Refuse [OF two_sent_state(1)]])
  have "phase_of (on_error 0 refused_401 two_sent) 2 = Some Sent"
    by (simp add: first_refused refused_is_401 two_sent_state client_simps)
  then have "api_step (on_error 0 refused_401 two_sent) two_refused" unfolding two_refused_def by (rule api_step.Refuse)
  with one show ?thesis by (rule api_reachable.Step)
qed

theorem no_request_stuck_witness: "isRefreshing two_refused \<and> distinct (failedQueue two_refused)"
  using no_request_stuck [OF two_refused_reachable] two_refused_phases(1) by blast

text \<open>
  Claim C33.  Whatever the outcome of the request for a new token, nothing is left waiting: after a new token every
  request of the queue is sent again, and after a failure each of them fails with the error of the refresh; the
  request that had asked shares their fate and the flag is reset.
\<close>
theorem refresh_settles_queue:
  assumes "api_reachable s" and "phase_of s i = Some Refreshing"
  shows "\<not> isRefreshing (on_refreshed i t s) \<and> \<not> isRefreshing (on_refresh_failed i err s)
    \<and> (\<forall>j. phase_of (on_refreshed i t s) j = (if j = i \<or> phase_of s j = Some Waiting then Some Sent else phase_of s j))
    \<and> (\<forall>j. phase_of (on_refresh_failed i err s) j = (if j = i \<or> phase_of s j = Some Waiting then Some (Failed err) else phase_of s j))"
proof -
  have "\<forall>j. j \<in> set (failedQueue s) \<longleftrightarrow> phase_of s j = Some Waiting"
    using reachable_ok [OF assms(1)] by (simp add: client_ok_def)
  then show ?thesis by (simp add: on_refreshed_def on_refresh_failed_def Let_def client_simps released_def)
qed

theorem refresh_settles_queue_witness:
  "phase_of (on_refreshed 0 \<lparr> tk_access = ''a'', tk_refresh = ''r2'', tk_expiresIn = 900 \<rparr> two_refused) 2 = Some Sent"
  using refresh_settles_queue [OF two_refused_reachable two_refused_phases(1)] two_refused_phases(2) by simp

text \<open>
  A request asks for a new token at most once in its life, however often it is sent again, so there are
  never more refreshes than requests.
\<close>
theorem one_refresh_per_request: "api_reachable s \<Longrightarrow> distinct (cl_refreshes s) \<and> set (cl_refreshes s) \<subseteq> dom (requests s)"
  using reachable_ok [of s] by (auto simp: client_ok_def phase_of_def)

theorem one_refresh_per_request_witness: "distinct (cl_refreshes two_refused)"
  using one_refresh_per_request [OF two_refused_reachable] by simp

text \<open>Refusal after a second time: the flag of the request keeps it from asking again.\<close>

lemma second_refusal_final:
  "ar_retry (request_of s i) \<Longrightarrow> phase_of (on_error i e s) i = Some (Failed (App (transformAxiosError e)))"
  by (simp add: on_error_def Let_def client_simps)

text \<open>The request that asked for the token and those that waited fail with the error as it came, not with an error of the application.\<close>

lemma refresh_failure_raw: "phase_of (on_refresh_failed i (Raw e) s) i = Some (Failed (Raw e))"
  by (simp add: on_refresh_failed_def Let_def client_simps)

text \<open>After a failed refresh, or without a token to refresh with, no token is left.\<close>

lemma tokens_cleared:
  "cl_window s \<Longrightarrow> getAccessToken (on_refresh_failed i err s) = None \<and> getRefreshToken (on_refresh_failed i err s) = None"
  by (simp add: on_refresh_failed_def Let_def getAccessToken_def getRefreshToken_def stored_def client_simps
      clearTokens_def token_keys_def or_option_def)

subsection \<open>Repetition\<close>

declare retry_loop.simps [simp del]

lemma retry_loop_final:
  assumes "\<And>n. fn n = Inl (err n)" and "\<And>n. isRetryableError (err n)" and "int k \<le> retries"
  shows "retry_loop fn retries d k l ds =
    \<lparr> re_outcome = Inl (Some (err (nat retries))), re_calls = Suc (nat retries), re_delays = ds @ map (\<lambda>n. d * 2 ^ n) [k..<nat retries] \<rparr>"
  using assms(3)
proof (induction "nat retries - k" arbitrary: k l ds)
  case 0
  then have "retries = int k" by simp
  with assms(1) show ?case by (subst retry_loop.simps) simp
next
  case (Suc n)
  then have "int (Suc k) \<le> retries" "n = nat retries - Suc k" by simp_all
  with Suc.hyps(1) [of "Suc k" "Some (err k)" "ds @ [d * 2 ^ k]"] Suc.prems assms(1,2)
  have "retry_loop fn retries d k l ds =
    \<lparr> re_outcome = Inl (Some (err (nat retries))), re_calls = Suc (nat retries), re_delays = (ds @ [d * 2 ^ k]) @ map (\<lambda>n. d * 2 ^ n) [Suc k..<nat retries] \<rparr>"
    by (subst retry_loop.simps) simp
  moreover have "[k..<nat retries] = k # [Suc k..<nat retries]" using \<open>int (Suc k) \<le> retries\<close> by (simp add: upt_conv_Cons)
  ultimately show ?case by simp
qed

text \<open>What a call has come to for the application once the client has settled it; \<open>v\<close> is the value of an answer.\<close>

definition outcome_of :: "'a \<Rightarrow> client \<Rightarrow> nat \<Rightarrow> (caught + 'a) option" where
  "outcome_of v s i =
     (case phase_of s i of
        Some Answered \<Rightarrow> Some (Inr v)
      | Some (Failed err) \<Rightarrow> Some (Inl err)
      | _ \<Rightarrow> None)"

text \<open>A refusal of 401 that the client answers by waiting for a new token.\<close>

definition waits_for_token :: "client \<Rightarrow> nat \<Rightarrow> axios_error \<Rightarrow> bool" where
  "waits_for_token s i e \<longleftrightarrow>
     (\<exists>m. ax_response e = Some (401, m)) \<and> \<not> ar_retry (request_of s i) \<and> (isRefreshing s \<or> truthy (getRefreshToken s))"

lemma settled_refusal: "\<not> waits_for_token s i e \<Longrightarrow> phase_of (on_error i e s) i = Some (Failed (App (transformAxiosError e)))"
  by (auto simp: waits_for_token_def on_error_def unauthorized_def client_simps Let_def split: option.splits)

lemma retry_of_final:
  assumes "\<And>n. fn n = Inl (err n)" and "\<And>n. isRetryableError (err n)"
  shows "withRetry fn 3 1000 = \<lparr> re_outcome = Inl (Some (err 3)), re_calls = 4, re_delays = [1000, 2000, 4000] \<rparr>"
  using retry_loop_final [of fn err, OF assms, of 0 3 1000 None "[]"] by (simp add: withRetry_def upt_rec numeral_eq_Suc)

text \<open>
  Claim C34.  Every error the response interceptor turns into one of the application is repeated, whatever the
  server said.  Let each attempt of a call with three repetitions be refused in some way, by any answer - 400, 403, 404
  or 501 as well as 500 - or by none, whatever the state of the client; only a first 401 that waits for a new
  token is left out.  Then the interceptor settles each attempt with an error that has no response, which is
  taken for an error of the network, and the call is made four times, after waits of one, two and four seconds, and
  ends with the error of the last attempt.  The attempt left out is another
  matter: when the server refuses the new token its error is handed on as it is, and with a status below 500, or 501,
  a call whose first attempt ends so is not repeated.
\<close>
theorem refused_calls_repeated:
  assumes "\<And>n. \<not> waits_for_token (s n) (i n) (e n)"
  shows "(\<exists>fn. (\<forall>n. outcome_of v (on_error (i n) (e n) (s n)) (i n) = Some (fn n))
      \<and> withRetry fn 3 1000
          = \<lparr> re_outcome = Inl (Some (App (transformAxiosError (e 3)))), re_calls = 4, re_delays = [1000, 2000, 4000] \<rparr>)
    \<and> (\<forall>r status m f. ax_response r = Some (status, m) \<and> (status < 500 \<or> status = 501)
         \<and> outcome_of v (on_refresh_failed j (Raw r) c) j = Some (f 0)
         \<longrightarrow> withRetry f 3 1000 = \<lparr> re_outcome = Inl (Some (Raw r)), re_calls = 1, re_delays = [] \<rparr>)"
proof -
  let ?fn = "\<lambda>n. Inl (App (transformAxiosError (e n))) :: caught + 'a"
  have "outcome_of v (on_error (i n) (e n) (s n)) (i n) = Some (?fn n)" for n
    by (simp add: outcome_of_def settled_refusal [OF assms])
  moreover have "withRetry ?fn 3 1000
      = \<lparr> re_outcome = Inl (Some (App (transformAxiosError (e 3)))), re_calls = 4, re_delays = [1000, 2000, 4000] \<rparr>"
    by (rule retry_of_final) (simp_all add: isRetryableError_def)
  moreover have "withRetry f 3 1000 = \<lparr> re_outcome = Inl (Some (Raw r)), re_calls = 1, re_delays = [] \<rparr>"
    if r: "ax_response r = Some (status, m)" "status < 500 \<or> status = 501"
      and f: "outcome_of v (on_refresh_failed j (Raw r) c) j = Some (f 0)" for r status m f
  proof -
    have "f 0 = Inl (Raw r)" using f by (simp add: outcome_of_def refresh_failure_raw)
    moreover have "\<not> isRetryableError (Raw r)" using r by (auto simp: isRetryableError_def)
    ultimately show ?thesis unfolding withRetry_def by (subst retry_loop.simps) simp
  qed
  ultimately show ?thesis by (intro conjI exI [of _ ?fn]) blast+
qed

text \<open>A call for something that is not there, made four times.\<close>

definition not_found :: axios_error where
  "not_found = \<lparr> ax_response = Some (404, OneMessage ''Quest not found''), ax_code = None, ax_message = ''404'' \<rparr>"

theorem refused_calls_repeated_witness:
  "\<exists>fn. outcome_of True (on_error 2 not_found two_sent) 2 = Some (fn (0 :: nat)) \<and> re_calls (withRetry fn 3 1000) = 4"
proof -
  have "\<And>n :: nat. \<not> waits_for_token two_sent 2 not_found" by (simp add: waits_for_token_def not_found_def)
  from refused_calls_repeated [of "\<lambda>n. two_sent" "\<lambda>n. 2" "\<lambda>n. not_found" True, OF this, THEN conjunct1]
  obtain fn where fn: "\<forall>n :: nat. outcome_of True (on_error 2 not_found two_sent) 2 = Some (fn n)"
    and "withRetry fn 3 1000
      = \<lparr> re_outcome = Inl (Some (App (transformAxiosError not_found))), re_calls = 4, re_delays = [1000, 2000, 4000] \<rparr>" by blast
  then have "re_calls (withRetry fn 3 1000) = 4" by simp
  with fn show ?thesis by blast
qed

text \<open>
  A call is made at least once and at most one more time than the repetitions allowed, and the outcome is
  the outcome of the last call made.
\<close>
theorem retry_bounded:
  assumes "0 \<le> retries"
  shows "1 \<le> re_calls (withRetry fn retries d) \<and> int (re_calls (withRetry fn retries d)) \<le> retries + 1
    \<and> re_outcome (withRetry fn retries d) = map_sum Some (\<lambda>v. v) (fn (re_calls (withRetry fn retries d) - 1))
    \<and> length (re_delays (withRetry fn retries d)) = re_calls (withRetry fn retries d) - 1"
proof -
  have "int k \<le> retries \<Longrightarrow> k < re_calls (retry_loop fn retries d k l ds) \<and> int (re_calls (retry_loop fn retries d k l ds)) \<le> retries + 1
    \<and> re_outcome (retry_loop fn retries d k l ds) = map_sum Some (\<lambda>v. v) (fn (re_calls (retry_loop fn retries d k l ds) - 1))
    \<and> length (re_delays (retry_loop fn retries d k l ds)) + k = length ds + (re_calls (retry_loop fn retries d k l ds) - 1)" for k l ds
  proof (induction fn retries d k l ds rule: retry_loop.induct)
    case (1 fn retries d k l ds)
    show ?case
    proof (cases "(\<exists>v. fn k = Inr v) \<or> retries \<le> int k \<or> (\<exists>err. fn k = Inl err \<and> \<not> isRetryableError err)")
      case True
      then have "retry_loop fn retries d k l ds = \<lparr> re_outcome = map_sum Some (\<lambda>v. v) (fn k), re_calls = Suc k, re_delays = ds \<rparr>"
        using 1(2) by (subst retry_loop.simps) (auto split: sum.splits)
      with 1(2) show ?thesis by simp
    next
      case False
      then obtain err where err: "fn k = Inl err" and go: "\<not> (retries \<le> int k \<or> \<not> isRetryableError err)" by (cases "fn k") auto
      then have "int (Suc k) \<le> retries" by simp
      note 1(1) [OF 1(2) err go this]
      moreover have "retry_loop fn retries d k l ds = retry_loop fn retries d (Suc k) (Some err) (ds @ [d * 2 ^ k])"
        using 1(2) err go by (subst retry_loop.simps) simp
      ultimately show ?thesis by auto
    qed
  qed
  from this [of 0 None "[]"] assms show ?thesis by (simp add: withRetry_def Suc_le_eq)
qed

theorem retry_bounded_witness:
  "int (re_calls (withRetry (\<lambda>n. if n = 2 then Inr True else Inl (App (createAppError [] [] 0 None))) 3 1000)) \<le> 4"
  using retry_bounded [of 3 "\<lambda>n. if n = 2 then Inr True else Inl (App (createAppError [] [] 0 None))" 1000] by simp

text \<open>With a negative number of repetitions the call is not made at all, and nothing is what is thrown.\<close>

lemma no_call_at_all: "retries < 0 \<Longrightarrow> withRetry fn retries d = \<lparr> re_outcome = Inl None, re_calls = 0, re_delays = [] \<rparr>"
  unfolding withRetry_def by (subst retry_loop.simps) simp

subsection \<open>Errors shown\<close>

text \<open>The check that a code is one of the known codes changes nothing: each of the known codes has a category, and no other.\<close>

lemma known_codes: "category_of_code c = None \<longleftrightarrow> c \<notin> set ERROR_CODES"
  by (simp add: category_of_code_def ERROR_CODES_def)

text \<open>
  An action is shown for recoverable errors only, so of the seven actions the function knows just three can
  appear: an error of the network offers to reconnect, one of the server to retry, and an expired token to log in;
  the actions for wrong input, for what is not found and for a wallet that is not connected are never shown.
\<close>
theorem actions_shown:
  "di_action (formatErrorForDisplay e) =
    (case categorizeError e of
       Network \<Rightarrow> Some ''Retry Connection''
     | Server \<Rightarrow> Some ''Retry''
     | Authentication \<Rightarrow> if ae_code e = Some ''TOKEN_EXPIRED'' then Some ''Log In'' else None
     | _ \<Rightarrow> None)"
proof -
  have "categorizeError e = Authentication" if "ae_code e = Some ''TOKEN_EXPIRED''"
    using that by (simp add: categorizeError_def category_of_code_def ERROR_CODES_def)
  then show ?thesis
    by (cases "categorizeError e") (auto simp: formatErrorForDisplay_def isRecoverableError_def title_action_def)
qed

text \<open>A refusal for too many requests, or any other refusal without a code of its own, is taken for an error of the server.\<close>

lemma too_many_requests_server: "ax_response e = Some (n, m) \<Longrightarrow> n \<notin> {0, 400, 401, 403, 404} \<Longrightarrow> categorizeError (transformAxiosError e) = Server"
  by (simp add: transformAxiosError_def categorizeError_def createAppError_def category_of_code_def ERROR_CODES_def Let_def)

subsection \<open>The cache\<close>

text \<open>
  While a request for a key is pending no second one is made, and a lifetime counts from the time of the call,
  not from that of the answer: an answer that takes longer than its lifetime is never used.
\<close>

lemma one_pending: "cm_pending m key \<noteq> None \<Longrightarrow> cm_fetched (snd (manager_get now key ttl m)) = cm_fetched m"
  by (auto simp: manager_get_def split: option.splits)

lemma slow_answer_unused:
  assumes "cm_cache m key = None" "cm_pending m key = None" "0 < ttl" "now + ttl \<le> later"
  shows "fst (manager_get later key ttl' (manager_settled key (Some d) (snd (manager_get now key (Some ttl) m)))) = Started"
  using assms by (simp add: manager_get_def manager_settled_def)

text \<open>An answer that arrives after its key has been invalidated is stored all the same.\<close>

lemma invalidated_comes_back:
  "cm_pending m key = Some (now, ttl) \<Longrightarrow>
    map_option ce_data (cm_cache (manager_settled key (Some d) (manager_invalidate key m)) key) = Some d"
  by (simp add: manager_settled_def manager_invalidate_def)

end
