(* ===== verification/ApiHooks.thy ===== *)
theory ApiHooks
  imports ApiClient
begin

text \<open>
  The hooks through which the components of the web application call the back end
  (\<open>src/FrontEnd/my-app/lib/hooks/useApi.ts\<close> and \<open>useErrorHandler.ts\<close>).  A hook is its state and the operations it
  returns; the setters of React are updates of the record, and an operation sees the state of the last rendering.
  What the fetcher promises is settled by a step of its own, so answers come in any order.
\<close>

subsection \<open>useApi\<close>

text \<open>Each run of the effect has a number, and a flag \<open>cancelled\<close> of its own; an error is a message.\<close>

record 'a fetching =
  fe_data :: "'a option"
  fe_isLoading :: bool
  fe_error :: "string option"
  fe_runs :: "nat \<rightharpoonup> bool"
  fe_next :: nat

datatype failure = Aborted | Failure string

definition mount_api :: "'a fetching" where
  "mount_api = \<lparr> fe_data = None, fe_isLoading = True, fe_error = None, fe_runs = [0 \<mapsto> False], fe_next = 1 \<rparr>"

definition cancel_runs :: "'a fetching \<Rightarrow> 'a fetching" where
  "cancel_runs s = s\<lparr>fe_runs := map_option (\<lambda>cancelled. True) \<circ> fe_runs s\<rparr>"

text \<open>The effect runs again when a dependency has changed or a new fetch is asked for.\<close>

definition rerun_api :: "'a fetching \<Rightarrow> 'a fetching" where
  "rerun_api s =
     (let s1 = cancel_runs s
      in s1\<lparr>fe_runs := (fe_runs s1)(fe_next s1 \<mapsto> False), fe_next := Suc (fe_next s1), fe_isLoading := True, fe_error := None\<rparr>)"

definition settle_api :: "nat \<Rightarrow> failure + 'a \<Rightarrow> 'a fetching \<Rightarrow> 'a fetching" where
  "settle_api i outcome s =
     (case fe_runs s i of
        Some False \<Rightarrow>
          (case outcome of
             Inr v \<Rightarrow> s\<lparr>fe_data := Some v, fe_error := None, fe_isLoading := False\<rparr>
           | Inl (Failure m) \<Rightarrow> s\<lparr>fe_error := Some m, fe_data := None, fe_isLoading := False\<rparr>
           | Inl Aborted \<Rightarrow> s\<lparr>fe_isLoading := False\<rparr>)
      | _ \<Rightarrow> s)"

subsection \<open>useMutation\<close>

datatype MutationStatus = Idle | Loading | Success | Error

record 'a mutation =
  mu_status :: MutationStatus
  mu_data :: "'a option"
  mu_error :: "string option"

definition mount_mutation :: "'a mutation" where
  "mount_mutation = \<lparr> mu_status = Idle, mu_data = None, mu_error = None \<rparr>"

definition mutate_start :: "'a mutation \<Rightarrow> 'a mutation" where
  "mutate_start s = s\<lparr>mu_status := Loading, mu_error := None\<rparr>"

text \<open>What follows the function's answer; the handler of success may throw and stands in the same block.\<close>

definition mutate_settled :: "('a \<Rightarrow> string option) \<Rightarrow> string + 'a \<Rightarrow> 'a mutation \<Rightarrow> 'a option \<times> 'a mutation" where
  "mutate_settled onSuccess outcome s =
     (case outcome of
        Inl m \<Rightarrow> (None, s\<lparr>mu_error := Some m, mu_status := Error\<rparr>)
      | Inr v \<Rightarrow>
          (let s1 = s\<lparr>mu_data := Some v, mu_status := Success\<rparr>
           in case onSuccess v of
                None \<Rightarrow> (Some v, s1)
              | Some m \<Rightarrow> (None, s1\<lparr>mu_error := Some m, mu_status := Error\<rparr>)))"

definition mutation_reset :: "'a mutation \<Rightarrow> 'a mutation" where
  "mutation_reset s = s\<lparr>mu_status := Idle, mu_data := None, mu_error := None\<rparr>"

subsection \<open>usePaginatedApi\<close>

record 'a page_answer =
  pa_data :: "'a list option"
  pa_items :: "'a list option"
  pa_pagination :: "(bool option \<times> nat option) option"
  pa_total :: "nat option"
  pa_hasMore :: "bool option"

record load_call =
  lc_page :: nat
  lc_append :: bool
  lc_aborted :: bool

record 'a paged =
  pg_items :: "'a list"
  pg_page :: nat
  pg_hasMore :: bool
  pg_total :: nat
  pg_isLoading :: bool
  pg_isFetchingMore :: bool
  pg_error :: "string option"
  pg_enabled :: bool
  pg_cancelRef :: "nat option"
  pg_loads :: "nat \<rightharpoonup> load_call"
  pg_next :: nat

definition cancel_load :: "'a paged \<Rightarrow> 'a paged" where
  "cancel_load s =
     (case pg_cancelRef s of
        None \<Rightarrow> s
      | Some i \<Rightarrow> s\<lparr>pg_loads := (pg_loads s)(i := map_option (\<lambda>c. c\<lparr>lc_aborted := True\<rparr>) (pg_loads s i))\<rparr>)"

definition load :: "nat \<Rightarrow> bool \<Rightarrow> 'a paged \<Rightarrow> 'a paged" where
  "load targetPage appending s =
     (let s1 = cancel_load s;
          s2 = s1\<lparr>pg_cancelRef := Some (pg_next s1), pg_next := Suc (pg_next s1),
                  pg_loads := (pg_loads s1)(pg_next s1 \<mapsto> \<lparr> lc_page = targetPage, lc_append = appending, lc_aborted = False \<rparr>)\<rparr>;
          s3 = (if appending then s2\<lparr>pg_isFetchingMore := True\<rparr> else s2\<lparr>pg_isLoading := True\<rparr>)
      in s3\<lparr>pg_error := None\<rparr>)"

definition new_items :: "'a page_answer \<Rightarrow> 'a list" where
  "new_items a = (case pa_data a of Some xs \<Rightarrow> xs | None \<Rightarrow> (case pa_items a of Some xs \<Rightarrow> xs | None \<Rightarrow> []))"

definition new_hasMore :: "'a page_answer \<Rightarrow> bool" where
  "new_hasMore a =
     (case (case pa_pagination a of Some (h, t) \<Rightarrow> h | None \<Rightarrow> None) of
        Some b \<Rightarrow> b
      | None \<Rightarrow> (case pa_hasMore a of Some b \<Rightarrow> b | None \<Rightarrow> False))"

definition new_total :: "'a page_answer \<Rightarrow> nat" where
  "new_total a =
     (case (case pa_pagination a of Some (h, t) \<Rightarrow> t | None \<Rightarrow> None) of
        Some n \<Rightarrow> n
      | None \<Rightarrow> (case pa_total a of Some n \<Rightarrow> n | None \<Rightarrow> 0))"

definition forget_load :: "nat \<Rightarrow> 'a paged \<Rightarrow> 'a paged" where
  "forget_load i s = s\<lparr>pg_loads := (pg_loads s)(i := None)\<rparr>"

definition load_done :: "nat \<Rightarrow> 'a page_answer \<Rightarrow> 'a paged \<Rightarrow> 'a paged" where
  "load_done i a s =
     (case pg_loads s i of
        None \<Rightarrow> s
      | Some c \<Rightarrow>
          (let s1 = forget_load i s
           in if lc_aborted c then s1
              else s1\<lparr>pg_items := (if lc_append c then pg_items s1 @ new_items a else new_items a),
                     pg_hasMore := new_hasMore a, pg_total := new_total a, pg_page := lc_page c,
                     pg_isLoading := False, pg_isFetchingMore := False\<rparr>))"

definition load_failed :: "nat \<Rightarrow> failure \<Rightarrow> 'a paged \<Rightarrow> 'a paged" where
  "load_failed i f s =
     (case pg_loads s i of
        None \<Rightarrow> s
      | Some c \<Rightarrow>
          (let s1 = forget_load i s
           in if lc_aborted c then s1
              else (case f of Aborted \<Rightarrow> s1 | Failure m \<Rightarrow> s1\<lparr>pg_error := Some m\<rparr>)
                     \<lparr>pg_isLoading := False, pg_isFetchingMore := False\<rparr>))"

definition loadMore :: "'a paged \<Rightarrow> 'a paged" where
  "loadMore s = (if \<not> pg_hasMore s \<or> pg_isLoading s \<or> pg_isFetchingMore s then s else load (pg_page s + 1) True s)"

text \<open>The effect, after a change of the trigger or of the option \<open>enabled\<close>: first what the former run left to clean up.\<close>

definition page_effect :: "bool \<Rightarrow> 'a paged \<Rightarrow> 'a paged" where
  "page_effect enabled s =
     (let s1 = (if pg_enabled s then cancel_load s else s); s2 = s1\<lparr>pg_enabled := enabled\<rparr>
      in if enabled then load 1 False s2 else s2)"

text \<open>
  A fetch anew empties the list and changes the trigger; the effect the change brings about is part of the same
  step, as where React runs it at the end of the event that called \<open>refetch\<close>.  An answer that arrives between the two, which
  is possible where \<open>refetch\<close> is called outside of an event, is left out.
\<close>

definition refetch_pages :: "'a paged \<Rightarrow> 'a paged" where
  "refetch_pages s = page_effect (pg_enabled s) (s\<lparr>pg_items := [], pg_page := 1\<rparr>)"

definition unmounted_pages :: "'a paged" where
  "unmounted_pages =
     \<lparr> pg_items = [], pg_page = 1, pg_hasMore = False, pg_total = 0, pg_isLoading = False, pg_isFetchingMore = False,
       pg_error = None, pg_enabled = False, pg_cancelRef = None, pg_loads = Map.empty, pg_next = 0 \<rparr>"

text \<open>
  The steps of an enabled list over a server whose page \<open>n\<close> is \<open>server n\<close>; the flag says whether requests that
  have not been cancelled may fail.
\<close>

inductive page_step :: "(nat \<Rightarrow> 'a list) \<Rightarrow> bool \<Rightarrow> 'a paged \<Rightarrow> 'a paged \<Rightarrow> bool" for server fallible where
  More: "page_step server fallible s (loadMore s)"
| Again: "page_step server fallible s (refetch_pages s)"
| Answer: "pg_loads s i = Some c \<Longrightarrow> new_items a = server (lc_page c) \<Longrightarrow> page_step server fallible s (load_done i a s)"
| Drop: "pg_loads s i = Some c \<Longrightarrow> lc_aborted c \<Longrightarrow> page_step server fallible s (load_failed i f s)"
| Fail: "pg_loads s i = Some c \<Longrightarrow> fallible \<Longrightarrow> page_step server fallible s (load_failed i f s)"

inductive page_reachable :: "(nat \<Rightarrow> 'a list) \<Rightarrow> bool \<Rightarrow> 'a paged \<Rightarrow> bool" for server fallible where
  Mount: "page_reachable server fallible (page_effect True unmounted_pages)"
| Then: "page_reachable server fallible s \<Longrightarrow> page_step server fallible s s' \<Longrightarrow> page_reachable server fallible s'"

subsection \<open>useErrorHandler\<close>

record 'a operation =
  op_isLoading :: bool
  op_data :: "'a option"
  op_error :: "AppError option"

definition errorMessage :: "'a operation \<Rightarrow> string" where
  "errorMessage s = (case op_error s of None \<Rightarrow> [] | Some e \<Rightarrow> getFriendlyErrorMessage e)"

definition isRecoverable :: "'a operation \<Rightarrow> bool" where
  "isRecoverable s = (case op_error s of None \<Rightarrow> False | Some e \<Rightarrow> isRecoverableError e)"

definition execute_start :: "'a operation \<Rightarrow> 'a operation" where
  "execute_start s = s\<lparr>op_isLoading := True, op_error := None\<rparr>"

definition execute_settled :: "AppError option + 'a \<Rightarrow> 'a operation \<Rightarrow> ('a option \<times> AppError option) \<times> 'a operation" where
  "execute_settled outcome s =
     (case withErrorHandling outcome of
        (v, Some e) \<Rightarrow> ((None, Some e), s\<lparr>op_error := Some e, op_data := None, op_isLoading := False\<rparr>)
      | (v, None) \<Rightarrow> ((v, None), s\<lparr>op_data := v, op_isLoading := False\<rparr>))"

definition operation_reset :: "'a operation \<Rightarrow> 'a operation" where
  "operation_reset s = s\<lparr>op_data := None, op_isLoading := False, op_error := None\<rparr>"

definition handleSubmit_settled :: "AppError option + 'a \<Rightarrow> 'b operation \<Rightarrow> bool \<times> 'b operation" where
  "handleSubmit_settled outcome s =
     (case withErrorHandling outcome of
        (v, Some e) \<Rightarrow> (False, s\<lparr>op_error := Some e, op_isLoading := False\<rparr>)
      | (v, None) \<Rightarrow> (True, s\<lparr>op_isLoading := False\<rparr>))"

end
