(* ===== verification/ApiHooksProps.thy ===== *)
theory ApiHooksProps
  imports ApiHooks
begin

text \<open>
  Properties of the hooks: which answers they show, in whatever order answers come, and what they make of failures.
\<close>

subsection \<open>useApi\<close>

text \<open>An answer to a cancelled run changes nothing, and after a new run only that one is heard.\<close>

lemma cancelled_ignored: "fe_runs s i = Some True \<Longrightarrow> settle_api i outcome s = s"
  by (simp add: settle_api_def)

lemma former_runs_ignored: "i < fe_next s \<Longrightarrow> settle_api i outcome (rerun_api s) = rerun_api s"
  by (auto simp: settle_api_def rerun_api_def cancel_runs_def Let_def split: option.splits)

lemma aborted_stops_loading: "fe_runs s i = Some False \<Longrightarrow> fe_error (settle_api i (Inl Aborted) s) = fe_error s"
  by (simp add: settle_api_def)

subsection \<open>useMutation\<close>

text \<open>A handler of success that throws turns a mutation that has been made into a failed one, with its data kept.\<close>

lemma handler_fails_mutation:
  assumes "onSuccess v = Some m"
  shows "fst (mutate_settled onSuccess (Inr v) s) = None"
    "mu_status (snd (mutate_settled onSuccess (Inr v) s)) = Error" "mu_data (snd (mutate_settled onSuccess (Inr v) s)) = Some v"
  using assms by (simp_all add: mutate_settled_def Let_def)

text \<open>Two mutations that overlap share the state: the end of one shows success while the other is under way.\<close>

lemma overlapping_mutations:
  "onSuccess v = None \<Longrightarrow> mu_status (snd (mutate_settled onSuccess (Inr v) (mutate_start (mutate_start s)))) = Success"
  by (simp add: mutate_settled_def Let_def)

subsection \<open>usePaginatedApi\<close>

definition heard :: "'a paged \<Rightarrow> nat \<Rightarrow> load_call \<Rightarrow> bool" where
  "heard s i c \<longleftrightarrow> pg_loads s i = Some c \<and> \<not> lc_aborted c"

text \<open>
  The one request that is heard is the one the reference points to; it asks for the page after the last one shown, to
  append it, or for the first page, to replace what is shown.
\<close>

definition shown :: "(nat \<Rightarrow> 'a list) \<Rightarrow> nat \<Rightarrow> 'a list" where
  "shown server p = concat (map server [1..<Suc p])"

lemma shown_steps: "shown server (Suc 0) = server 1" "shown server (Suc (Suc p)) = shown server (Suc p) @ server (Suc (Suc p))"
  by (simp_all add: shown_def)

definition pages_ok :: "(nat \<Rightarrow> 'a list) \<Rightarrow> 'a paged \<Rightarrow> bool" where
  "pages_ok server s \<longleftrightarrow>
     pg_enabled s
     \<and> (\<forall>i. pg_next s \<le> i \<longrightarrow> pg_loads s i = None)
     \<and> (\<forall>i c. heard s i c \<longrightarrow> pg_cancelRef s = Some i
           \<and> (if lc_append c then lc_page c = pg_page s + 1 \<and> pg_isFetchingMore s else lc_page c = 1 \<and> pg_isLoading s))
     \<and> ((pg_isLoading s \<or> pg_isFetchingMore s) \<longrightarrow> (\<exists>i c. heard s i c))
     \<and> 1 \<le> pg_page s
     \<and> (pg_items s = shown server (pg_page s)
        \<or> pg_items s = [] \<and> pg_page s = 1 \<and> (\<exists>i c. heard s i c \<and> \<not> lc_append c))"

lemma forget_simps [simp]:
  "pg_items (forget_load i s) = pg_items s" "pg_page (forget_load i s) = pg_page s" "pg_next (forget_load i s) = pg_next s"
  "pg_isLoading (forget_load i s) = pg_isLoading s" "pg_isFetchingMore (forget_load i s) = pg_isFetchingMore s"
  "pg_enabled (forget_load i s) = pg_enabled s" "pg_cancelRef (forget_load i s) = pg_cancelRef s"
  "pg_loads (forget_load i s) = (pg_loads s)(i := None)"
  by (simp_all add: forget_load_def)

lemma load_done_simps:
  assumes "pg_loads s i = Some c" and "\<not> lc_aborted c"
  shows "pg_items (load_done i a s) = (if lc_append c then pg_items s @ new_items a else new_items a)"
    "pg_page (load_done i a s) = lc_page c" "pg_next (load_done i a s) = pg_next s"
    "\<not> pg_isLoading (load_done i a s)" "\<not> pg_isFetchingMore (load_done i a s)"
    "pg_enabled (load_done i a s) = pg_enabled s" "pg_loads (load_done i a s) = (pg_loads s)(i := None)"
  using assms by (simp_all add: load_done_def Let_def)

lemma cancel_load_simps [simp]:
  "pg_items (cancel_load s) = pg_items s" "pg_page (cancel_load s) = pg_page s" "pg_next (cancel_load s) = pg_next s"
  "pg_isLoading (cancel_load s) = pg_isLoading s" "pg_isFetchingMore (cancel_load s) = pg_isFetchingMore s"
  "pg_hasMore (cancel_load s) = pg_hasMore s" "pg_enabled (cancel_load s) = pg_enabled s"
  "pg_cancelRef (cancel_load s) = pg_cancelRef s" "pg_error (cancel_load s) = pg_error s" "pg_total (cancel_load s) = pg_total s"
  by (simp_all add: cancel_load_def split: option.splits)

lemma cancel_load_kills: "\<forall>i c. heard s i c \<longrightarrow> pg_cancelRef s = Some i \<Longrightarrow> \<not> heard (cancel_load s) i c"
  by (auto simp: heard_def cancel_load_def split: option.splits if_splits)

lemma cancel_load_new: "\<forall>i. n \<le> i \<longrightarrow> pg_loads s i = None \<Longrightarrow> \<forall>i. n \<le> i \<longrightarrow> pg_loads (cancel_load s) i = None"
  by (auto simp: cancel_load_def split: option.splits)

lemma cancel_load_idem: "\<forall>i c. heard s i c \<longrightarrow> pg_cancelRef s = Some i \<Longrightarrow> \<forall>i c. heard (cancel_load s) i c \<longrightarrow> pg_cancelRef (cancel_load s) = Some i"
  using cancel_load_kills by blast

lemma load_simps [simp]:
  "pg_items (load p a s) = pg_items s" "pg_page (load p a s) = pg_page s" "pg_next (load p a s) = Suc (pg_next s)"
  "pg_isLoading (load p a s) = (if a then pg_isLoading s else True)"
  "pg_isFetchingMore (load p a s) = (if a then True else pg_isFetchingMore s)"
  "pg_hasMore (load p a s) = pg_hasMore s" "pg_enabled (load p a s) = pg_enabled s"
  "pg_cancelRef (load p a s) = Some (pg_next s)"
  by (simp_all add: load_def Let_def)

lemma load_live:
  assumes "\<forall>i c. heard s i c \<longrightarrow> pg_cancelRef s = Some i"
  shows "heard (load p a s) i c \<longleftrightarrow> i = pg_next s \<and> c = \<lparr> lc_page = p, lc_append = a, lc_aborted = False \<rparr>"
proof -
  have "heard (load p a s) i c \<longleftrightarrow> (if i = pg_next s then c = \<lparr> lc_page = p, lc_append = a, lc_aborted = False \<rparr> else heard (cancel_load s) i c)"
    by (auto simp: heard_def load_def Let_def)
  with cancel_load_kills [OF assms] show ?thesis by auto
qed

lemma load_new: "\<forall>i. pg_next s \<le> i \<longrightarrow> pg_loads s i = None \<Longrightarrow> \<forall>i. Suc (pg_next s) \<le> i \<longrightarrow> pg_loads (load p a s) i = None"
  using cancel_load_new [of "pg_next s" s] by (auto simp: load_def Let_def)

lemma ok_current: "pages_ok server s \<Longrightarrow> \<forall>i c. heard s i c \<longrightarrow> pg_cancelRef s = Some i"
  by (auto simp: pages_ok_def)

lemma ok_more: "pages_ok server s \<Longrightarrow> pages_ok server (loadMore s)"
proof -
  assume ok: "pages_ok server s"
  show ?thesis
  proof (cases "\<not> pg_hasMore s \<or> pg_isLoading s \<or> pg_isFetchingMore s")
    case True
    with ok show ?thesis by (simp add: loadMore_def)
  next
    case False
    then have idle: "\<not> heard s i c" for i c using ok by (auto simp: pages_ok_def split: if_splits)
    from ok load_new [of s "pg_page s + 1" True] have "pages_ok server (load (pg_page s + 1) True s)"
      unfolding pages_ok_def load_live [OF ok_current [OF ok]] by (auto simp: idle)
    with False show ?thesis by (simp add: loadMore_def)
  qed
qed

lemma already_enabled: "pg_enabled t \<Longrightarrow> t\<lparr>pg_enabled := True\<rparr> = t"
  by (cases t) simp

lemma refetch_is: "pg_enabled s \<Longrightarrow> refetch_pages s = load 1 False (cancel_load (s\<lparr>pg_items := [], pg_page := 1\<rparr>))"
  by (simp add: refetch_pages_def page_effect_def Let_def already_enabled)

lemma ok_again:
  assumes ok: "pages_ok server s"
  shows "pages_ok server (refetch_pages s)"
proof -
  let ?r = "s\<lparr>pg_items := [], pg_page := 1\<rparr>"
  have e: "pg_enabled s" using ok by (simp add: pages_ok_def)
  have "\<forall>i c. heard ?r i c \<longrightarrow> pg_cancelRef ?r = Some i"
    using ok_current [OF ok] by (simp add: heard_def)
  note cur = cancel_load_idem [OF this]
  have "\<forall>i. pg_next (cancel_load ?r) \<le> i \<longrightarrow> pg_loads (cancel_load ?r) i = None"
    using cancel_load_new [of "pg_next s" ?r] ok by (simp add: pages_ok_def)
  from load_new [OF this, of 1 False] e show ?thesis
    unfolding refetch_is [OF e] pages_ok_def load_live [OF cur] by simp
qed

lemma live_forget: "heard (forget_load i s) j c \<longleftrightarrow> j \<noteq> i \<and> heard s j c"
  by (auto simp: heard_def)

lemma ok_dropped: "pages_ok server s \<Longrightarrow> pg_loads s i = Some c \<Longrightarrow> lc_aborted c \<Longrightarrow> pages_ok server (forget_load i s)"
proof -
  assume ok: "pages_ok server s" and i: "pg_loads s i = Some c" "lc_aborted c"
  then have "heard (forget_load i s) = heard s" by (auto simp: fun_eq_iff heard_def)
  with ok show ?thesis unfolding pages_ok_def by simp
qed

lemma ok_answer:
  assumes ok: "pages_ok server s" and i: "pg_loads s i = Some c" and a: "new_items a = server (lc_page c)"
  shows "pages_ok server (load_done i a s)"
proof (cases "lc_aborted c")
  case True
  with ok_dropped [OF ok i] i show ?thesis by (simp add: load_done_def)
next
  case False
  note step = load_done_simps [OF i False, of a]
  have l: "heard s i c" using i False by (simp add: heard_def)
  then have cur: "pg_cancelRef s = Some i" using ok_current [OF ok] by blast
  have none: "\<not> heard (load_done i a s) j d" for j d
  proof
    assume "heard (load_done i a s) j d"
    then have "j \<noteq> i" "heard s j d" by (auto simp: heard_def step split: if_splits)
    with ok_current [OF ok] cur show False by auto
  qed
  have page: "if lc_append c then lc_page c = pg_page s + 1 else lc_page c = 1" using ok l by (auto simp: pages_ok_def)
  have items: "pg_items (load_done i a s) = shown server (lc_page c)"
  proof (cases "lc_append c")
    case False
    with page a show ?thesis by (simp add: step shown_steps)
  next
    case True
    have "\<not> (\<exists>j d. heard s j d \<and> \<not> lc_append d)" using ok_current [OF ok] cur l True by (auto simp: heard_def)
    then have "pg_items s = shown server (pg_page s)" using ok unfolding pages_ok_def by blast
    moreover obtain p where "pg_page s = Suc p" using ok unfolding pages_ok_def by (cases "pg_page s") auto
    ultimately show ?thesis using page True a by (simp add: step shown_steps)
  qed
  have "pg_enabled s" "\<forall>j. pg_next s \<le> j \<longrightarrow> pg_loads s j = None" using ok by (simp_all add: pages_ok_def)
  with items page none show ?thesis unfolding pages_ok_def by (simp add: step split: if_splits)
qed

lemma unmounted_idle [simp]: "\<not> heard unmounted_pages i c" "cancel_load unmounted_pages = unmounted_pages"
  by (simp_all add: heard_def unmounted_pages_def cancel_load_def)

lemma ok_mount: "pages_ok server (page_effect True unmounted_pages)"
proof -
  let ?s = "unmounted_pages\<lparr>pg_enabled := True\<rparr>"
  have e: "page_effect True unmounted_pages = load 1 False ?s" by (simp add: page_effect_def Let_def)
  have cur: "\<forall>i c. heard ?s i c \<longrightarrow> pg_cancelRef ?s = Some i" by (simp add: heard_def unmounted_pages_def)
  have "\<forall>i. pg_next ?s \<le> i \<longrightarrow> pg_loads ?s i = None" by (simp add: unmounted_pages_def)
  from load_new [OF this, of 1 False] show ?thesis
    unfolding e pages_ok_def load_live [OF cur] by (simp add: unmounted_pages_def)
qed

lemma reachable_pages_ok: "page_reachable server False s \<Longrightarrow> pages_ok server s"
proof (induction rule: page_reachable.induct)
  case (Then s s')
  from Then(2,3) show ?case
  proof cases
    case (Drop i c f)
    with ok_dropped [OF Then(3)] show ?thesis by (simp add: load_failed_def)
  qed (simp_all add: ok_more ok_again ok_answer)
qed (rule ok_mount)

text \<open>
  Claim C35.  As long as no request that is still heard fails, a list with pages shows what the server has: whatever
  the order in which more pages and new fetches are asked for and answers come in - those to cancelled requests too -
  the items are the pages one to the current one, each once and in order, or there are none because the first page is
  being fetched anew; and the flags say exactly whether something is being fetched.  A fetch anew and the effect it brings
  about are one step.
\<close>
theorem pages_in_order:
  assumes "page_reachable server False s"
  shows "(pg_items s = concat (map server [1..<Suc (pg_page s)])
          \<or> pg_items s = [] \<and> pg_page s = 1 \<and> (\<exists>i c. heard s i c \<and> \<not> lc_append c \<and> lc_page c = 1))
    \<and> (pg_isLoading s \<or> pg_isFetchingMore s \<longleftrightarrow> (\<exists>i c. heard s i c))
    \<and> (\<forall>i c j d. heard s i c \<and> heard s j d \<longrightarrow> i = j)"
proof -
  have ok: "pages_ok server s" by (rule reachable_pages_ok [OF assms])
  then have one: "\<forall>i c j d. heard s i c \<and> heard s j d \<longrightarrow> i = j" using ok_current [OF ok] by (metis option.inject)
  have flags: "pg_isLoading s \<or> pg_isFetchingMore s \<longleftrightarrow> (\<exists>i c. heard s i c)"
    using ok unfolding pages_ok_def by (metis (full_types))
  have "\<forall>i c. heard s i c \<and> \<not> lc_append c \<longrightarrow> lc_page c = 1" using ok by (auto simp: pages_ok_def)
  with ok one flags show ?thesis unfolding pages_ok_def shown_def by blast
qed

definition answer_of :: "'a list \<Rightarrow> bool \<Rightarrow> 'a page_answer" where
  "answer_of xs m = \<lparr> pa_data = Some xs, pa_items = None, pa_pagination = Some (Some m, None), pa_total = None, pa_hasMore = None \<rparr>"

lemma answer_of_simps [simp]: "new_items (answer_of xs m) = xs" "new_hasMore (answer_of xs m) = m"
  by (simp_all add: answer_of_def new_items_def new_hasMore_def)

text \<open>The first page is there, and there is more.\<close>

definition first_page :: "(nat \<Rightarrow> 'a list) \<Rightarrow> 'a paged" where
  "first_page server = load_done 0 (answer_of (server 1) True) (page_effect True unmounted_pages)"

lemma mounted_load: "pg_loads (page_effect True unmounted_pages) 0 = Some \<lparr> lc_page = 1, lc_append = False, lc_aborted = False \<rparr>"
  by (simp add: page_effect_def load_def Let_def unmounted_pages_def cancel_load_def)

lemma first_page_reachable: "page_reachable server fallible (first_page server)"
  unfolding first_page_def
  by (rule page_reachable.Then [OF page_reachable.Mount page_step.Answer [OF mounted_load]]) simp

lemma first_page_simps:
  "pg_items (first_page server) = server 1" "pg_page (first_page server) = 1" "pg_hasMore (first_page server)"
  "\<not> pg_isLoading (first_page server)" "\<not> pg_isFetchingMore (first_page server)" "pg_enabled (first_page server)"
  "pg_next (first_page server) = 1" "pg_cancelRef (first_page server) = Some 0" "pg_loads (first_page server) = Map.empty"
  by (simp_all add: first_page_def load_done_def page_effect_def load_def Let_def unmounted_pages_def cancel_load_def forget_load_def)

theorem pages_in_order_witness: "pg_items (first_page (\<lambda>n. [n, n])) = [1, 1]"
  using pages_in_order [OF first_page_reachable, of "\<lambda>n. [n, n]"] first_page_simps [of "\<lambda>n. [n, n]"] by auto

text \<open>
  After a fetch anew that fails, the next request for more shows the second page without the first: the
  page is reset to one although no page is there, and the flag that there is more stays from before.
\<close>
theorem failed_refetch_skips_page:
  fixes server :: "nat \<Rightarrow> 'a list"
  shows "\<exists>s :: 'a paged. page_reachable server True s \<and> pg_items s = server 2 \<and> pg_page s = 2 \<and> pg_error s = None"
proof -
  let ?a = "refetch_pages (first_page server)"
  have l: "pg_loads ?a 1 = Some \<lparr> lc_page = 1, lc_append = False, lc_aborted = False \<rparr>" and n: "pg_next ?a = 2"
    and k: "pg_hasMore ?a" "pg_items ?a = []" "pg_page ?a = 1"
    by (simp_all add: refetch_is first_page_simps) (simp add: load_def Let_def first_page_simps)
  let ?b = "load_failed 1 (Failure ''network'') ?a"
  have b: "pg_hasMore ?b" "\<not> pg_isLoading ?b" "\<not> pg_isFetchingMore ?b" "pg_items ?b = []" "pg_page ?b = 1" "pg_next ?b = 2"
    using l n k by (simp_all add: load_failed_def Let_def forget_load_def)
  let ?c = "loadMore ?b"
  have c: "pg_loads ?c 2 = Some \<lparr> lc_page = 2, lc_append = True, lc_aborted = False \<rparr>" "pg_items ?c = []" "pg_error ?c = None"
    using b by (simp_all add: loadMore_def load_def Let_def)
  let ?d = "load_done 2 (answer_of (server 2) False) ?c"
  have d: "pg_items ?d = server 2" "pg_page ?d = 2" "pg_error ?d = None"
    using c by (simp_all add: load_done_def Let_def forget_load_def)
  have "page_reachable server True ?a" by (rule page_reachable.Then [OF first_page_reachable page_step.Again])
  then have "page_reachable server True ?b" by (rule page_reachable.Then) (rule page_step.Fail [OF l], simp)
  then have "page_reachable server True ?c" by (rule page_reachable.Then [OF _ page_step.More])
  then have "page_reachable server True ?d" by (rule page_reachable.Then) (rule page_step.Answer [OF c(1)], simp)
  with d show ?thesis by blast
qed

text \<open>A list that is switched off while it fetches stays loading for ever: the request is cancelled, the flag is not reset.\<close>

lemma disabled_stays_loading: "pg_isLoading (page_effect False s) = pg_isLoading s" "pg_isFetchingMore (page_effect False s) = pg_isFetchingMore s"
  by (simp_all add: page_effect_def Let_def)

lemma cancelled_leaves_flags:
  "pg_loads s i = Some c \<Longrightarrow> lc_aborted c \<Longrightarrow> pg_isLoading (load_done i a s) = pg_isLoading s \<and> pg_isLoading (load_failed i f s) = pg_isLoading s"
  by (simp add: load_done_def load_failed_def Let_def forget_load_def)

subsection \<open>useErrorHandler\<close>

lemma settled_not_loading:
  "\<not> op_isLoading (snd (execute_settled outcome s))" "\<not> op_isLoading (snd (handleSubmit_settled outcome s))"
  by (simp_all add: execute_settled_def handleSubmit_settled_def split: prod.splits option.splits)

text \<open>Either there is a result or an error, and the state says the same.\<close>

lemma execute_answer:
  "fst (execute_settled outcome (execute_start s)) = (op_data (snd (execute_settled outcome (execute_start s))), op_error (snd (execute_settled outcome (execute_start s))))"
  by (simp add: execute_settled_def execute_start_def withErrorHandling_def split: prod.splits option.splits sum.splits)

end
