(* ===== verification/SubmissionForm.thy ===== *)
theory SubmissionForm
  imports ApiClient Regex
begin

text \<open>
  The form with which a user submits a proof (\<open>src/FrontEnd/my-app/lib\<close>): its validation
  (\<open>validation/submission.ts\<close>), the request it becomes (\<open>api/submissions.ts\<close>), and the wizard that leads through
  it (\<open>hooks/useSubmission.ts\<close>).  A file is its name, size, type and content in base 64; the request and the upload
  are settled by steps of their own.
\<close>

subsection \<open>Validation\<close>

record proof_file =
  fi_name :: string
  fi_size :: nat
  fi_type :: string
  fi_content :: string

record SubmissionFormData =
  fd_questId :: "string option"
  fd_proofType :: "string option"
  fd_link :: "string option"
  fd_text :: "string option"
  fd_file :: "proof_file option"
  fd_additionalNotes :: "string option"

type_synonym form_error = "string \<times> string"

record form_result =
  fr_isValid :: bool
  fr_errors :: "form_error list"

definition MAX_FILE_SIZE :: nat where
  "MAX_FILE_SIZE = 10 * 1024 * 1024"

definition ALLOWED_FILE_TYPES :: "string list" where
  "ALLOWED_FILE_TYPES =
     [''image/jpeg'', ''image/png'', ''image/gif'', ''image/webp'', ''application/pdf'', ''text/plain'', ''application/json'',
      ''video/mp4'', ''video/webm'']"

definition ALLOWED_FILE_EXTENSIONS :: "string list" where
  "ALLOWED_FILE_EXTENSIONS =
     [''.jpg'', ''.jpeg'', ''.png'', ''.gif'', ''.webp'', ''.pdf'', ''.txt'', ''.json'', ''.mp4'', ''.webm'']"

definition URL_PATTERN :: re where
  "URL_PATTERN = seqs [liti ''http'', maybe (liti ''s''), lit ''://'', some_of re_dot, lit ''.'', some_of re_dot]"

text \<open>A pattern that begins with \<open>^\<close> is matched at the beginning only.\<close>

definition is_url :: "string \<Rightarrow> bool" where
  "is_url s \<longleftrightarrow> matches URL_PATTERN None s \<noteq> []"

definition blank_field :: "string option \<Rightarrow> bool" where
  "blank_field x \<longleftrightarrow> \<not> truthy x \<or> trim (the x) = []"

text \<open>\<open>(size / 2 ^ 20).toFixed(2)\<close>: the quotient is exact, and of two nearest texts the larger is taken.\<close>

definition megabytes :: "nat \<Rightarrow> string" where
  "megabytes n =
     (let h = (200 * n + 1048576) div 2097152 in show_nat (h div 100) @ ''.'' @ show_nat (h div 10 mod 10) @ show_nat (h mod 10))"

definition extension_of :: "string \<Rightarrow> string" where
  "extension_of name = ''.'' @ lower (last (split_on CHR ''.'' name))"

definition validateFile :: "proof_file \<Rightarrow> form_error list" where
  "validateFile f =
     (if MAX_FILE_SIZE < fi_size f
      then [(''file'', ''File is too large ('' @ megabytes (fi_size f) @ ''MB). Maximum size is 10MB'')] else [])
     @ (if fi_type f \<in> set ALLOWED_FILE_TYPES \<or> extension_of (fi_name f) \<in> set ALLOWED_FILE_EXTENSIONS then []
        else [(''file'', ''File type not allowed. Supported types: '' @ join '', '' ALLOWED_FILE_EXTENSIONS)])"

definition link_errors :: "string option \<Rightarrow> form_error list" where
  "link_errors link =
     (if blank_field link then [(''link'', ''Link is required'')]
      else if \<not> is_url (trim (the link)) then [(''link'', ''Please enter a valid URL (starting with http:// or https://)'')]
      else if 2000 < length (the link) then [(''link'', ''Link is too long (max 2000 characters)'')]
      else [])"

definition text_errors :: "string option \<Rightarrow> form_error list" where
  "text_errors t =
     (if blank_field t then [(''text'', ''Proof text is required'')]
      else if length (trim (the t)) < 10 then [(''text'', ''Proof text must be at least 10 characters'')]
      else if 5000 < length (the t) then [(''text'', ''Proof text is too long (max 5000 characters)'')]
      else [])"

definition validateSubmissionForm :: "SubmissionFormData \<Rightarrow> form_result" where
  "validateSubmissionForm d =
     (let errors =
        (if blank_field (fd_questId d) then [(''questId'', ''Quest ID is required'')] else [])
        @ (if \<not> truthy (fd_proofType d) then [(''proofType'', ''Please select a proof type'')]
           else if the (fd_proofType d) \<notin> set [''link'', ''file'', ''text''] then [(''proofType'', ''Invalid proof type selected'')]
           else [])
        @ (if fd_proofType d = Some ''link'' then link_errors (fd_link d) else [])
        @ (if fd_proofType d = Some ''text'' then text_errors (fd_text d) else [])
        @ (if fd_proofType d = Some ''file''
           then (case fd_file d of None \<Rightarrow> [(''file'', ''Please upload a file'')] | Some f \<Rightarrow> validateFile f) else [])
        @ (if truthy (fd_additionalNotes d) \<and> 1000 < length (the (fd_additionalNotes d))
           then [(''additionalNotes'', ''Additional notes are too long (max 1000 characters)'')] else [])
      in \<lparr> fr_isValid = (errors = []), fr_errors = errors \<rparr>)"

definition validateLink :: "string \<Rightarrow> form_error list" where
  "validateLink url =
     (if url = [] \<or> trim url = [] then [(''link'', ''Link is required'')]
      else if \<not> is_url (trim url) then [(''link'', ''Please enter a valid URL'')]
      else [])"

definition getFieldError :: "form_error list \<Rightarrow> string \<Rightarrow> string option" where
  "getFieldError errors field = map_option snd (find (\<lambda>e. fst e = field) errors)"

definition sanitizeSubmissionData :: "SubmissionFormData \<Rightarrow> SubmissionFormData" where
  "sanitizeSubmissionData d =
     d\<lparr>fd_link := map_option trim (fd_link d), fd_text := map_option trim (fd_text d),
       fd_additionalNotes := map_option trim (fd_additionalNotes d)\<rparr>"

definition isImageFile :: "proof_file \<Rightarrow> bool" where
  "isImageFile f = starts_with (fi_type f) ''image/''"

definition isVideoFile :: "proof_file \<Rightarrow> bool" where
  "isVideoFile f = starts_with (fi_type f) ''video/''"

definition isPdfFile :: "proof_file \<Rightarrow> bool" where
  "isPdfFile f = (fi_type f = ''application/pdf'')"

subsection \<open>The request\<close>

record ProofPayload =
  pp_type :: "string option"
  pp_link :: "string option"
  pp_text :: "string option"
  pp_fileName :: "string option"
  pp_fileSize :: "nat option"
  pp_fileType :: "string option"
  pp_fileContent :: "string option"

record CreateSubmissionRequest =
  cr_questId :: "string option"
  cr_proof :: ProofPayload
  cr_additionalNotes :: "string option"

record CreateSubmissionData =
  cs_questId :: "string option"
  cs_proofType :: "string option"
  cs_link :: "string option"
  cs_text :: "string option"
  cs_additionalNotes :: "string option"

definition small_file :: nat where
  "small_file = 5 * 1024 * 1024"

definition proof_of :: "CreateSubmissionData \<Rightarrow> proof_file option \<Rightarrow> ProofPayload" where
  "proof_of d f =
     (let p0 = \<lparr> pp_type = cs_proofType d, pp_link = None, pp_text = None, pp_fileName = None, pp_fileSize = None,
                 pp_fileType = None, pp_fileContent = None \<rparr>;
          p1 = (if cs_proofType d = Some ''link'' \<and> truthy (cs_link d) then p0\<lparr>pp_link := cs_link d\<rparr> else p0);
          p2 = (if cs_proofType d = Some ''text'' \<and> truthy (cs_text d) then p1\<lparr>pp_text := cs_text d\<rparr> else p1)
      in case f of
           Some g \<Rightarrow>
             if cs_proofType d = Some ''file''
             then (let p3 = p2\<lparr>pp_fileName := Some (fi_name g), pp_fileSize := Some (fi_size g), pp_fileType := Some (fi_type g)\<rparr>
                   in if fi_size g \<le> small_file then p3\<lparr>pp_fileContent := Some (fi_content g)\<rparr> else p3)
             else p2
         | None \<Rightarrow> p2)"

definition createSubmission :: "CreateSubmissionData \<Rightarrow> proof_file option \<Rightarrow> CreateSubmissionRequest" where
  "createSubmission d f =
     \<lparr> cr_questId = cs_questId d, cr_proof = proof_of d f, cr_additionalNotes = cs_additionalNotes d \<rparr>"

text \<open>
  The answer to an upload: the status of the server with its body, of which the parser makes the URL of the file, or a
  message (\<open>None\<close> where the body cannot be parsed).
\<close>

datatype uploaded = Loaded nat "string option" "string option option" | NetworkError | UploadAborted

definition uploadProofFile :: "string option \<Rightarrow> uploaded \<Rightarrow> string + string" where
  "uploadProofFile token answer =
     (if \<not> truthy token then Inl ''Authentication required. Please connect your wallet.''
      else (case answer of
              Loaded status url err \<Rightarrow>
                if 200 \<le> status \<and> status < 300
                then (case url of Some u \<Rightarrow> Inr u | None \<Rightarrow> Inl ''Invalid response from server'')
                else (case err of
                        Some m \<Rightarrow> Inl (or_default m ''Upload failed'')
                      | None \<Rightarrow> Inl (''Upload failed with status '' @ show_nat status))
            | NetworkError \<Rightarrow> Inl ''Network error during upload''
            | UploadAborted \<Rightarrow> Inl ''Upload cancelled''))"

subsection \<open>The wizard\<close>

datatype SubmissionStep = TypeStep | ProofStep | PreviewStep | SubmittingStep | SuccessStep | ErrorStep

definition stepOrder :: "SubmissionStep list" where
  "stepOrder = [TypeStep, ProofStep, PreviewStep, SubmittingStep, SuccessStep]"

fun step_index :: "SubmissionStep \<Rightarrow> int" where
  "step_index TypeStep = 0"
| "step_index ProofStep = 1"
| "step_index PreviewStep = 2"
| "step_index SubmittingStep = 3"
| "step_index SuccessStep = 4"
| "step_index ErrorStep = - 1"

datatype stage = Uploading | Creating

record 'r wizard =
  wz_questId :: string
  wz_formData :: SubmissionFormData
  wz_currentStep :: SubmissionStep
  wz_errors :: "form_error list"
  wz_isSubmitting :: bool
  wz_progress :: rat
  wz_response :: "'r option"
  wz_error :: "string option"
  wz_jobs :: "nat \<rightharpoonup> stage \<times> SubmissionFormData"
  wz_next :: nat
  wz_sent :: "CreateSubmissionRequest list"

definition initialFormData :: "string \<Rightarrow> SubmissionFormData" where
  "initialFormData questId =
     \<lparr> fd_questId = Some questId, fd_proofType = Some ''link'', fd_link = Some [], fd_text = Some [], fd_file = None,
       fd_additionalNotes = Some [] \<rparr>"

definition useSubmission :: "string \<Rightarrow> 'r wizard" where
  "useSubmission questId =
     \<lparr> wz_questId = questId, wz_formData = initialFormData questId, wz_currentStep = TypeStep, wz_errors = [],
       wz_isSubmitting = False, wz_progress = 0, wz_response = None, wz_error = None, wz_jobs = Map.empty, wz_next = 0, wz_sent = [] \<rparr>"

text \<open>A field is updated by a function on the form; the name is the one errors are filed under.\<close>

definition updateField :: "string \<Rightarrow> (SubmissionFormData \<Rightarrow> SubmissionFormData) \<Rightarrow> 'r wizard \<Rightarrow> 'r wizard" where
  "updateField field f w =
     w\<lparr>wz_formData := f (wz_formData w), wz_errors := filter (\<lambda>e. fst e \<noteq> field) (wz_errors w)\<rparr>"

definition validateCurrentStep :: "'r wizard \<Rightarrow> bool \<times> 'r wizard" where
  "validateCurrentStep w =
     (if wz_currentStep w = TypeStep
      then (if \<not> truthy (fd_proofType (wz_formData w))
            then (False, w\<lparr>wz_errors := [(''proofType'', ''Please select a proof type'')]\<rparr>)
            else (True, w\<lparr>wz_errors := []\<rparr>))
      else if wz_currentStep w = ProofStep \<or> wz_currentStep w = PreviewStep
      then (let r = validateSubmissionForm (wz_formData w) in (fr_isValid r, w\<lparr>wz_errors := fr_errors r\<rparr>))
      else (True, w))"

definition canGoNext :: "'r wizard \<Rightarrow> bool" where
  "canGoNext w =
     (let i = step_index (wz_currentStep w); d = wz_formData w
      in if i = - 1 \<or> step_index PreviewStep \<le> i then False
         else if wz_currentStep w = TypeStep then truthy (fd_proofType d)
         else if wz_currentStep w = ProofStep \<and> fd_proofType d = Some ''link'' then truthy (fd_link d)
         else if wz_currentStep w = ProofStep \<and> fd_proofType d = Some ''text'' then truthy (fd_text d)
         else if wz_currentStep w = ProofStep \<and> fd_proofType d = Some ''file'' then fd_file d \<noteq> None
         else True)"

definition canGoBack :: "'r wizard \<Rightarrow> bool" where
  "canGoBack w \<longleftrightarrow> 0 < step_index (wz_currentStep w) \<and> wz_currentStep w \<noteq> SubmittingStep \<and> wz_currentStep w \<noteq> SuccessStep"

definition goToNextStep :: "'r wizard \<Rightarrow> 'r wizard" where
  "goToNextStep w =
     (case validateCurrentStep w of (ok, w1) \<Rightarrow>
        if \<not> ok then w1
        else (let i = step_index (wz_currentStep w)
              in if i < step_index PreviewStep then w1\<lparr>wz_currentStep := stepOrder ! nat (i + 1)\<rparr> else w1))"

definition goToPreviousStep :: "'r wizard \<Rightarrow> 'r wizard" where
  "goToPreviousStep w =
     (let i = step_index (wz_currentStep w) in if 0 < i then w\<lparr>wz_currentStep := stepOrder ! nat (i - 1)\<rparr> else w)"

definition submission_data :: "SubmissionFormData \<Rightarrow> CreateSubmissionData" where
  "submission_data d =
     \<lparr> cs_questId = fd_questId d, cs_proofType = fd_proofType d, cs_link = fd_link d, cs_text = fd_text d,
       cs_additionalNotes = fd_additionalNotes d \<rparr>"

definition is_file_proof :: "SubmissionFormData \<Rightarrow> bool" where
  "is_file_proof d \<longleftrightarrow> fd_proofType d = Some ''file'' \<and> fd_file d \<noteq> None"

definition needs_upload :: "SubmissionFormData \<Rightarrow> bool" where
  "needs_upload d \<longleftrightarrow> is_file_proof d \<and> small_file < fi_size (the (fd_file d))"

text \<open>The request is made; \<open>d\<close> is the data after the trimming, \<open>data\<close> what has been built of it.\<close>

definition create_now :: "nat \<Rightarrow> CreateSubmissionData \<Rightarrow> SubmissionFormData \<Rightarrow> 'r wizard \<Rightarrow> 'r wizard" where
  "create_now i data d w =
     w\<lparr>wz_progress := 90, wz_jobs := (wz_jobs w)(i \<mapsto> (Creating, d)), wz_sent := wz_sent w @ [createSubmission data (fd_file d)]\<rparr>"

definition submit :: "bool \<Rightarrow> 'r wizard \<Rightarrow> 'r wizard" where
  "submit isWalletConnected w =
     (case validateCurrentStep w of (ok, w1) \<Rightarrow>
        if \<not> ok then w1
        else if \<not> isWalletConnected
        then w1\<lparr>wz_error := Some ''Please connect your wallet to submit'', wz_currentStep := ErrorStep\<rparr>
        else (let d = sanitizeSubmissionData (wz_formData w1); i = wz_next w1;
                  w2 = w1\<lparr>wz_isSubmitting := True, wz_progress := 30, wz_currentStep := SubmittingStep, wz_error := None, wz_next := Suc i\<rparr>
              in if needs_upload d then w2\<lparr>wz_jobs := (wz_jobs w2)(i \<mapsto> (Uploading, d))\<rparr>
                 else create_now i (submission_data d) d w2))"

definition upload_progress :: "nat \<Rightarrow> 'r wizard \<Rightarrow> 'r wizard" where
  "upload_progress pct w = w\<lparr>wz_progress := 30 + rat_of_nat pct / 2\<rparr>"

definition submit_failed :: "nat \<Rightarrow> string option \<Rightarrow> 'r wizard \<Rightarrow> 'r wizard" where
  "submit_failed i err w =
     w\<lparr>wz_error := Some (case err of Some m \<Rightarrow> m | None \<Rightarrow> ''Submission failed''), wz_currentStep := ErrorStep,
       wz_isSubmitting := False, wz_jobs := (wz_jobs w)(i := None)\<rparr>"

definition upload_settled :: "nat \<Rightarrow> string + string \<Rightarrow> 'r wizard \<Rightarrow> 'r wizard" where
  "upload_settled i outcome w =
     (case wz_jobs w i of
        Some (Uploading, d) \<Rightarrow>
          (case outcome of
             Inl m \<Rightarrow> submit_failed i (Some m) w
           | Inr url \<Rightarrow> create_now i ((submission_data d)\<lparr>cs_link := Some url\<rparr>) d w)
      | _ \<Rightarrow> w)"

text \<open>The page's handler of success may throw, with the message it then gives; it stands in the same block.\<close>

definition create_settled :: "('r \<Rightarrow> string option option) \<Rightarrow> nat \<Rightarrow> string option + 'r \<Rightarrow> 'r wizard \<Rightarrow> 'r wizard" where
  "create_settled onSuccess i outcome w =
     (case wz_jobs w i of
        Some (Creating, d) \<Rightarrow>
          (case outcome of
             Inl m \<Rightarrow> submit_failed i m w
           | Inr r \<Rightarrow>
               (let w1 = w\<lparr>wz_progress := 100, wz_response := Some r, wz_currentStep := SuccessStep\<rparr>
                in case onSuccess r of
                     Some m \<Rightarrow> submit_failed i m w1
                   | None \<Rightarrow> w1\<lparr>wz_isSubmitting := False, wz_jobs := (wz_jobs w)(i := None)\<rparr>))
      | _ \<Rightarrow> w)"

definition reset_wizard :: "'r wizard \<Rightarrow> 'r wizard" where
  "reset_wizard w =
     w\<lparr>wz_formData := initialFormData (wz_questId w), wz_currentStep := TypeStep, wz_errors := [], wz_isSubmitting := False,
       wz_progress := 0, wz_response := None, wz_error := None\<rparr>"

end
