(* ===== verification/SubmissionFormProps.thy ===== *)
theory SubmissionFormProps
  imports SubmissionForm
begin

text \<open>
  Properties of the submission form: what validation guarantees and that trimming keeps it, what becomes of large
  files, and what the wizard keeps of its promise to send valid forms, one at a time.
\<close>

subsection \<open>Trimming\<close>

lemma blank_field_trim [simp]: "blank_field (map_option trim x) = blank_field x"
  by (cases x) (auto simp: blank_field_def trim_twice trim_def [of "[]"])

lemma sanitise_idem: "sanitizeSubmissionData (sanitizeSubmissionData d) = sanitizeSubmissionData d"
  by (simp add: sanitizeSubmissionData_def option.map_comp comp_def trim_twice)

subsection \<open>Validation\<close>

text \<open>What a valid form is, without messages.\<close>

definition proof_ok :: "SubmissionFormData \<Rightarrow> bool" where
  "proof_ok d \<longleftrightarrow>
     (case fd_proofType d of
        None \<Rightarrow> False
      | Some t \<Rightarrow>
          t = ''link'' \<and> \<not> blank_field (fd_link d) \<and> is_url (trim (the (fd_link d))) \<and> length (the (fd_link d)) \<le> 2000
          \<or> t = ''text'' \<and> \<not> blank_field (fd_text d) \<and> 10 \<le> length (trim (the (fd_text d))) \<and> length (the (fd_text d)) \<le> 5000
          \<or> t = ''file'' \<and> fd_file d \<noteq> None \<and> validateFile (the (fd_file d)) = [])"

definition notes_ok :: "SubmissionFormData \<Rightarrow> bool" where
  "notes_ok d \<longleftrightarrow> (case fd_additionalNotes d of None \<Rightarrow> True | Some n \<Rightarrow> length n \<le> 1000)"

lemma valid_iff: "fr_isValid (validateSubmissionForm d) \<longleftrightarrow> \<not> blank_field (fd_questId d) \<and> proof_ok d \<and> notes_ok d"
proof -
  have links: "link_errors x = [] \<longleftrightarrow> \<not> blank_field x \<and> is_url (trim (the x)) \<and> length (the x) \<le> 2000" for x
    by (auto simp: link_errors_def)
  have texts: "text_errors x = [] \<longleftrightarrow> \<not> blank_field x \<and> 10 \<le> length (trim (the x)) \<and> length (the x) \<le> 5000" for x
    by (auto simp: text_errors_def)
  have remarks: "(truthy (fd_additionalNotes d) \<and> 1000 < length (the (fd_additionalNotes d))) \<longleftrightarrow> \<not> notes_ok d"
    by (cases "fd_additionalNotes d") (auto simp: notes_ok_def)
  show ?thesis unfolding validateSubmissionForm_def Let_def remarks
    by (cases "fd_proofType d") (auto simp: proof_ok_def links texts split: option.splits)
qed

text \<open>
  The validation accepts a form exactly if it names a quest, its proof is of one of the three kinds and is
  what that kind asks for - a URL of at most 2000 characters, a text of at least ten characters without the white
  space around it and at most 5000 with it, or a file of at most ten megabytes of an allowed type or extension -
  and its notes have at most 1000 characters; and the list of errors is empty in exactly these cases.
\<close>
theorem submission_valid_iff:
  "(fr_isValid (validateSubmissionForm d) \<longleftrightarrow> \<not> blank_field (fd_questId d) \<and> proof_ok d \<and> notes_ok d)
   \<and> (fr_errors (validateSubmissionForm d) = [] \<longleftrightarrow> fr_isValid (validateSubmissionForm d))"
  by (simp add: valid_iff) (simp add: valid_iff [symmetric] validateSubmissionForm_def Let_def)

lemma file_valid_iff:
  "validateFile f = [] \<longleftrightarrow> fi_size f \<le> 10485760 \<and> (fi_type f \<in> set ALLOWED_FILE_TYPES \<or> extension_of (fi_name f) \<in> set ALLOWED_FILE_EXTENSIONS)"
  by (auto simp: validateFile_def MAX_FILE_SIZE_def)

lemma sanitised_valid: "fr_isValid (validateSubmissionForm d) \<Longrightarrow> fr_isValid (validateSubmissionForm (sanitizeSubmissionData d))"
proof -
  have le: "length s \<le> n \<Longrightarrow> length (trim s) \<le> n" for s n using length_trim [of s] by simp
  assume "fr_isValid (validateSubmissionForm d)"
  then have d: "\<not> blank_field (fd_questId d)" "proof_ok d" "notes_ok d" by (simp_all add: valid_iff)
  have "proof_ok (sanitizeSubmissionData d)" using d(2)
    by (cases "fd_link d"; cases "fd_text d") (auto simp: proof_ok_def sanitizeSubmissionData_def le blank_field_def trim_twice split: option.splits)
  moreover have "notes_ok (sanitizeSubmissionData d)" using d(3)
    by (auto simp: notes_ok_def sanitizeSubmissionData_def le split: option.splits)
  ultimately show ?thesis using d(1) by (simp add: valid_iff sanitizeSubmissionData_def)
qed

text \<open>
  What is sent is the form after trimming, although the form before it has been validated: trimming keeps a
  valid form valid, and a second trimming changes nothing.
\<close>
theorem trimming_keeps_valid:
  "fr_isValid (validateSubmissionForm d) \<Longrightarrow>
    fr_isValid (validateSubmissionForm (sanitizeSubmissionData d)) \<and> sanitizeSubmissionData (sanitizeSubmissionData d) = sanitizeSubmissionData d"
  by (simp add: sanitised_valid sanitise_idem)

definition text_proof :: SubmissionFormData where
  "text_proof = \<lparr> fd_questId = Some ''q1'', fd_proofType = Some ''text'', fd_link = None, fd_text = Some '' I have done it '',
     fd_file = None, fd_additionalNotes = None \<rparr>"

lemma text_proof_valid: "fr_isValid (validateSubmissionForm text_proof)"
  by code_simp

theorem trimming_keeps_valid_witness: "fr_isValid (validateSubmissionForm (sanitizeSubmissionData text_proof))"
  using trimming_keeps_valid [OF text_proof_valid] by simp

text \<open>The shorter check of links has no upper bound, and a message of its own.\<close>

lemma validateLink_iff: "validateLink u = [] \<longleftrightarrow> \<not> blank_field (Some u) \<and> is_url (trim u)"
  by (simp add: validateLink_def blank_field_def)

lemma field_error_cleared: "getFieldError (wz_errors (updateField field f w)) field = None"
  by (simp add: getFieldError_def updateField_def find_None_iff)

subsection \<open>Large files\<close>

text \<open>
  Claim C36.  The proof of a submission with a file of more than five megabytes, which validation admits, never reaches
  the server: the content of the file is left out because it is uploaded separately, and the URL of the upload, entered
  as the link of the proof, is left out because the kind of the proof is not link.  The request is the same
  whatever the URL.
\<close>
theorem large_file_lost:
  assumes "wz_jobs w i = Some (Uploading, d)" and "needs_upload d"
  shows "\<exists>r. (\<forall>url. wz_sent (upload_settled i (Inr url) w) = wz_sent w @ [r])
    \<and> pp_link (cr_proof r) = None \<and> pp_fileContent (cr_proof r) = None \<and> pp_text (cr_proof r) = None
    \<and> pp_fileName (cr_proof r) = Some (fi_name (the (fd_file d)))"
proof -
  obtain f where f: "fd_file d = Some f" "fd_proofType d = Some ''file''" "small_file < fi_size f"
    using assms(2) by (auto simp: needs_upload_def is_file_proof_def)
  let ?r = "createSubmission (submission_data d) (fd_file d)"
  have same: "createSubmission ((submission_data d)\<lparr>cs_link := Some url\<rparr>) (fd_file d) = ?r" for url
    using f(1,2) by (simp add: createSubmission_def proof_of_def submission_data_def)
  have "wz_sent (upload_settled i (Inr url) w) = wz_sent w @ [?r]" for url
    using assms(1) by (simp add: upload_settled_def create_now_def same)
  moreover have "pp_link (cr_proof ?r) = None" "pp_fileContent (cr_proof ?r) = None" "pp_text (cr_proof ?r) = None"
      "pp_fileName (cr_proof ?r) = Some (fi_name f)"
    using f by (simp_all add: createSubmission_def proof_of_def submission_data_def Let_def)
  ultimately show ?thesis using f(1) by auto
qed

definition film :: proof_file where
  "film = \<lparr> fi_name = ''film.mp4'', fi_size = 6000000, fi_type = ''video/mp4'', fi_content = ''AAAA'' \<rparr>"

definition film_proof :: SubmissionFormData where
  "film_proof = \<lparr> fd_questId = Some ''q1'', fd_proofType = Some ''file'', fd_link = Some [], fd_text = Some [], fd_file = Some film,
     fd_additionalNotes = Some [] \<rparr>"

definition uploading_film :: "nat wizard" where
  "uploading_film = (useSubmission ''q1'')\<lparr>wz_formData := film_proof, wz_currentStep := SubmittingStep, wz_isSubmitting := True,
     wz_jobs := [0 \<mapsto> (Uploading, film_proof)], wz_next := 1\<rparr>"

lemma film_valid: "fr_isValid (validateSubmissionForm film_proof)"
  by (simp add: valid_iff proof_ok_def notes_ok_def film_proof_def film_def file_valid_iff ALLOWED_FILE_TYPES_def blank_field_def)
     (simp add: trim_def is_space_def)

theorem large_file_lost_witness: "\<exists>r. \<forall>url. wz_sent (upload_settled 0 (Inr url) uploading_film) = [r]"
proof -
  have "wz_jobs uploading_film 0 = Some (Uploading, film_proof)" by (simp add: uploading_film_def)
  moreover have "needs_upload film_proof" by (simp add: needs_upload_def is_file_proof_def film_proof_def film_def small_file_def)
  ultimately have "\<exists>r. \<forall>url. wz_sent (upload_settled 0 (Inr url) uploading_film) = wz_sent uploading_film @ [r]"
    using large_file_lost [of uploading_film 0 film_proof] by blast
  then show ?thesis by (simp add: uploading_film_def useSubmission_def)
qed

subsection \<open>The wizard\<close>

text \<open>
  The steps.  The flag says whether the page keeps to what the hook tells it: it goes back only if \<open>canGoBack\<close>, submits
  from the preview, and starts afresh only when nothing is being submitted.
\<close>

inductive wizard_step :: "bool \<Rightarrow> 'r wizard \<Rightarrow> 'r wizard \<Rightarrow> bool" for careful where
  Update: "wizard_step careful w (updateField field f w)"
| Next: "wizard_step careful w (goToNextStep w)"
| Back: "careful \<longrightarrow> canGoBack w \<Longrightarrow> wizard_step careful w (goToPreviousStep w)"
| Submit: "careful \<longrightarrow> wz_currentStep w = PreviewStep \<Longrightarrow> wizard_step careful w (submit online w)"
| Reset: "careful \<longrightarrow> \<not> wz_isSubmitting w \<Longrightarrow> wizard_step careful w (reset_wizard w)"
| Progress: "wizard_step careful w (upload_progress pct w)"
| Upload: "wizard_step careful w (upload_settled i outcome w)"
| Create: "wizard_step careful w (create_settled onSuccess i answer w)"

inductive wizard_reachable :: "bool \<Rightarrow> 'r wizard \<Rightarrow> bool" for careful where
  Open: "wizard_reachable careful (useSubmission questId)"
| Go: "wizard_reachable careful w \<Longrightarrow> wizard_step careful w w' \<Longrightarrow> wizard_reachable careful w'"

text \<open>
  What a request is: it names a quest, and the proof of the submission is there - except that a file of more than five
  megabytes comes with its name, size and type alone, with neither its content nor a link.
\<close>

definition request_ok :: "CreateSubmissionRequest \<Rightarrow> bool" where
  "request_ok r \<longleftrightarrow>
     \<not> blank_field (cr_questId r)
     \<and> (let p = cr_proof r
        in pp_type p = Some ''link'' \<and> (\<exists>l. pp_link p = Some l \<and> is_url l \<and> length l \<le> 2000)
         \<or> pp_type p = Some ''text'' \<and> (\<exists>t. pp_text p = Some t \<and> 10 \<le> length t \<and> length t \<le> 5000)
         \<or> pp_type p = Some ''file'' \<and> (pp_fileName p \<noteq> None \<and> pp_fileType p \<noteq> None) \<and> (\<exists>n. pp_fileSize p = Some n \<and> n \<le> 10485760
           \<and> (if n \<le> small_file then pp_fileContent p \<noteq> None else pp_fileContent p = None \<and> pp_link p = None)))"

lemma created_ok:
  assumes "fr_isValid (validateSubmissionForm d)" and "sanitizeSubmissionData d = d" and "link = cs_link (submission_data d) \<or> needs_upload d"
  shows "request_ok (createSubmission ((submission_data d)\<lparr>cs_link := link\<rparr>) (fd_file d))"
proof -
  have d: "\<not> blank_field (fd_questId d)" "proof_ok d" using assms(1) by (simp_all add: valid_iff)
  have tr: "fd_link d = Some l \<Longrightarrow> trim l = l" "fd_text d = Some t \<Longrightarrow> trim t = t" for l t
    using arg_cong [OF assms(2), of fd_link] arg_cong [OF assms(2), of fd_text] by (auto simp: sanitizeSubmissionData_def)
  consider (l) "fd_proofType d = Some ''link''" | (t) "fd_proofType d = Some ''text''" | (f) "fd_proofType d = Some ''file''"
    using d(2) by (auto simp: proof_ok_def split: option.splits)
  then show ?thesis
  proof cases
    case l
    then obtain x where x: "fd_link d = Some x" "x \<noteq> []" using d(2) by (cases "fd_link d") (auto simp: proof_ok_def blank_field_def)
    have "link = Some x" using assms(3) l x by (auto simp: needs_upload_def is_file_proof_def submission_data_def)
    with l x d tr show ?thesis
      by (simp add: request_ok_def createSubmission_def proof_of_def submission_data_def proof_ok_def Let_def split: option.split)
  next
    case t
    then obtain x where x: "fd_text d = Some x" "x \<noteq> []" using d(2) by (cases "fd_text d") (auto simp: proof_ok_def blank_field_def)
    with t d tr show ?thesis
      by (simp add: request_ok_def createSubmission_def proof_of_def submission_data_def proof_ok_def Let_def split: option.split)
  next
    case f
    then obtain g where "fd_file d = Some g" using d(2) by (auto simp: proof_ok_def)
    with f d show ?thesis
      by (simp add: request_ok_def createSubmission_def proof_of_def submission_data_def proof_ok_def Let_def file_valid_iff)
  qed
qed

definition wizard_ok :: "'r wizard \<Rightarrow> bool" where
  "wizard_ok w \<longleftrightarrow>
     (\<forall>i. wz_next w \<le> i \<longrightarrow> wz_jobs w i = None)
     \<and> (\<forall>i j. wz_jobs w i \<noteq> None \<and> wz_jobs w j \<noteq> None \<longrightarrow> i = j)
     \<and> ((\<exists>i. wz_jobs w i \<noteq> None) \<longleftrightarrow> wz_currentStep w = SubmittingStep)
     \<and> (wz_isSubmitting w \<longleftrightarrow> wz_currentStep w = SubmittingStep)
     \<and> (\<forall>i st d. wz_jobs w i = Some (st, d) \<longrightarrow>
           fr_isValid (validateSubmissionForm d) \<and> sanitizeSubmissionData d = d \<and> (st = Uploading \<longrightarrow> needs_upload d))
     \<and> (\<forall>r \<in> set (wz_sent w). request_ok r)"

text \<open>The operations that leave the jobs alone, and do not enter or leave the step of submitting.\<close>

lemma wizard_ok_frame:
  assumes "wizard_ok w" and "wz_jobs w' = wz_jobs w" "wz_next w' = wz_next w" "wz_isSubmitting w' = wz_isSubmitting w" "wz_sent w' = wz_sent w"
    and "wz_currentStep w' = SubmittingStep \<longleftrightarrow> wz_currentStep w = SubmittingStep"
  shows "wizard_ok w'"
  using assms unfolding wizard_ok_def by simp

lemma validateCurrentStep_frame:
  "wz_jobs (snd (validateCurrentStep w)) = wz_jobs w" "wz_next (snd (validateCurrentStep w)) = wz_next w"
  "wz_isSubmitting (snd (validateCurrentStep w)) = wz_isSubmitting w" "wz_sent (snd (validateCurrentStep w)) = wz_sent w"
  "wz_currentStep (snd (validateCurrentStep w)) = wz_currentStep w" "wz_formData (snd (validateCurrentStep w)) = wz_formData w"
  by (simp_all add: validateCurrentStep_def Let_def)

lemma goToNextStep_frame:
  "wz_jobs (goToNextStep w) = wz_jobs w" "wz_next (goToNextStep w) = wz_next w" "wz_isSubmitting (goToNextStep w) = wz_isSubmitting w"
  "wz_sent (goToNextStep w) = wz_sent w" "wz_currentStep (goToNextStep w) = SubmittingStep \<longleftrightarrow> wz_currentStep w = SubmittingStep"
  using validateCurrentStep_frame [of w]
  by (cases "wz_currentStep w"; cases "validateCurrentStep w"; simp add: goToNextStep_def stepOrder_def Let_def)+

lemma ok_back: "wizard_ok w \<Longrightarrow> canGoBack w \<Longrightarrow> wizard_ok (goToPreviousStep w)"
  by (rule wizard_ok_frame, assumption) (cases "wz_currentStep w"; simp add: goToPreviousStep_def canGoBack_def stepOrder_def Let_def)+

lemma ok_idle:
  "wizard_ok w \<Longrightarrow> wz_currentStep w \<noteq> SubmittingStep \<Longrightarrow> wz_jobs w = Map.empty \<and> \<not> wz_isSubmitting w"
  unfolding wizard_ok_def by blast

lemma wizard_ok_start: "wizard_ok (useSubmission questId)"
  by (simp add: wizard_ok_def useSubmission_def)

lemma ok_submit: "wizard_ok w \<Longrightarrow> wz_currentStep w = PreviewStep \<Longrightarrow> wizard_ok (submit online w)"
proof -
  assume ok: "wizard_ok w" and st: "wz_currentStep w = PreviewStep"
  obtain b w1 where v: "validateCurrentStep w = (b, w1)" by fastforce
  have b: "b = fr_isValid (validateSubmissionForm (wz_formData w))" using v st by (simp add: validateCurrentStep_def Let_def)
  note f = validateCurrentStep_frame [of w, unfolded v, simplified]
  have idle: "wz_jobs w = Map.empty" "\<not> wz_isSubmitting w" using ok_idle [OF ok] st by simp_all
  have w1: "wizard_ok w1" by (rule wizard_ok_frame [OF ok]) (simp_all add: f)
  let ?d = "sanitizeSubmissionData (wz_formData w)"
  consider "\<not> b" | "b" "\<not> online" | "b" "online" by blast
  then show ?thesis
  proof cases
    case 1
    with w1 v show ?thesis by (simp add: submit_def)
  next
    case 2
    have "wizard_ok (w1\<lparr>wz_error := Some ''Please connect your wallet to submit'', wz_currentStep := ErrorStep\<rparr>)"
      by (rule wizard_ok_frame [OF w1]) (simp_all add: f st)
    with 2 v show ?thesis by (simp add: submit_def)
  next
    case 3
    have d: "fr_isValid (validateSubmissionForm ?d)" "sanitizeSubmissionData ?d = ?d" using 3 b sanitised_valid sanitise_idem by auto
    have req: "request_ok (createSubmission (submission_data ?d) (fd_file ?d))"
      using created_ok [OF d, of "cs_link (submission_data ?d)"] by simp
    have sent: "\<forall>r \<in> set (wz_sent w). request_ok r" using ok by (simp add: wizard_ok_def)
    from 3 v d req sent idle show ?thesis
      by (auto simp: submit_def wizard_ok_def create_now_def Let_def f)
  qed
qed

lemma job_here: "wizard_ok w \<Longrightarrow> wz_jobs w i = Some x \<Longrightarrow> (wz_jobs w)(i := None) = Map.empty"
proof (rule ext)
  fix j
  assume "wizard_ok w" and i: "wz_jobs w i = Some x"
  then have "wz_jobs w i \<noteq> None \<and> wz_jobs w j \<noteq> None \<longrightarrow> i = j" unfolding wizard_ok_def by blast
  with i show "((wz_jobs w)(i := None)) j = None" by (cases "wz_jobs w j") auto
qed

text \<open>The end of a job, with whatever step follows that of submitting.\<close>

lemma ok_ended:
  assumes "wizard_ok w" and "wz_jobs w i = Some x"
    and "wz_jobs w' = (wz_jobs w)(i := None)" "wz_sent w' = wz_sent w" "\<not> wz_isSubmitting w'" "wz_currentStep w' \<noteq> SubmittingStep"
  shows "wizard_ok w'"
proof -
  have "wz_jobs w' = Map.empty" using job_here [OF assms(1,2)] assms(3) by simp
  with assms(1,4,5,6) show ?thesis unfolding wizard_ok_def by simp
qed

lemma ok_failed: "wizard_ok w \<Longrightarrow> wz_jobs w i = Some x \<Longrightarrow> wizard_ok (submit_failed i m w)"
  by (rule ok_ended [of w i x]) (simp_all add: submit_failed_def)

lemma ok_upload: "wizard_ok w \<Longrightarrow> wizard_ok (upload_settled i outcome w)"
proof (cases "\<exists>d. wz_jobs w i = Some (Uploading, d)")
  case True
  assume ok: "wizard_ok w"
  from True obtain d where d: "wz_jobs w i = Some (Uploading, d)" by blast
  show ?thesis
  proof (cases outcome)
    case (Inl m)
    with d ok_failed [OF ok d] show ?thesis by (simp add: upload_settled_def)
  next
    case (Inr url)
    have "request_ok (createSubmission ((submission_data d)\<lparr>cs_link := Some url\<rparr>) (fd_file d))"
      by (rule created_ok) (use ok d in \<open>auto simp: wizard_ok_def\<close>)
    moreover have "i < wz_next w" using ok d unfolding wizard_ok_def by (metis not_le option.distinct(1))
    ultimately show ?thesis using ok d Inr by (auto simp: upload_settled_def create_now_def wizard_ok_def)
  qed
next
  case False
  assume ok: "wizard_ok w"
  have "upload_settled i outcome w = w" using False by (auto simp: upload_settled_def split: option.splits stage.splits)
  with ok show ?thesis by simp
qed

lemma ok_create: "wizard_ok w \<Longrightarrow> wizard_ok (create_settled onSuccess i answer w)"
proof (cases "\<exists>d. wz_jobs w i = Some (Creating, d)")
  case True
  assume ok: "wizard_ok w"
  from True obtain d where d: "wz_jobs w i = Some (Creating, d)" by blast
  show ?thesis
  proof (cases answer)
    case (Inl m)
    with d ok_failed [OF ok d] show ?thesis by (simp add: create_settled_def)
  next
    case (Inr r)
    show ?thesis by (rule ok_ended [OF ok d]) (simp_all add: create_settled_def submit_failed_def Let_def d Inr split: option.split)
  qed
next
  case False
  assume ok: "wizard_ok w"
  have "create_settled onSuccess i answer w = w" using False by (auto simp: create_settled_def split: option.splits stage.splits)
  with ok show ?thesis by simp
qed

lemma ok_reset: "wizard_ok w \<Longrightarrow> \<not> wz_isSubmitting w \<Longrightarrow> wizard_ok (reset_wizard w)"
  by (simp add: wizard_ok_def reset_wizard_def)

lemma wizard_reachable_ok: "wizard_reachable True w \<Longrightarrow> wizard_ok w"
proof (induction rule: wizard_reachable.induct)
  case (Go w w')
  from Go(2,3) show ?case
  proof cases
    case (Update field f)
    with Go(3) show ?thesis by (auto intro: wizard_ok_frame simp: updateField_def)
  next
    case Next
    with Go(3) show ?thesis by (auto intro: wizard_ok_frame simp: goToNextStep_frame)
  next
    case (Progress pct)
    with Go(3) show ?thesis by (auto intro: wizard_ok_frame simp: upload_progress_def)
  qed (simp_all add: ok_back ok_submit ok_reset ok_upload ok_create)
qed (rule wizard_ok_start)

text \<open>
  Claim C37.  A page that keeps to what the hook tells it - back only where \<open>canGoBack\<close> says so, submission from the
  preview, no fresh start while something is submitted - has at most one submission under way, and the flag and the
  step say so.  Every request it has ever sent names a quest, whatever was entered and changed in between, and carries
  one of these: a link that is a URL of at most 2000 characters; a text of 10 to 5000 characters; the content of a file of
  at most five megabytes; or, for a file of more than five and at most ten megabytes, no proof: only the name, the size
  and the type of the file, with neither its content nor the link of its upload.
\<close>
theorem careful_page_sends_valid:
  assumes "wizard_reachable True w"
  shows "(\<forall>i j. wz_jobs w i \<noteq> None \<and> wz_jobs w j \<noteq> None \<longrightarrow> i = j)
    \<and> (wz_isSubmitting w \<longleftrightarrow> (\<exists>i. wz_jobs w i \<noteq> None)) \<and> (wz_isSubmitting w \<longleftrightarrow> wz_currentStep w = SubmittingStep)
    \<and> (\<forall>r \<in> set (wz_sent w). request_ok r)"
  using wizard_reachable_ok [OF assms] unfolding wizard_ok_def by blast

definition previewed :: "nat wizard" where
  "previewed = goToNextStep (goToNextStep (updateField ''text'' (\<lambda>d. text_proof) (useSubmission ''q1'')))"

lemma previewed_is: "wz_currentStep previewed = PreviewStep" "wz_formData previewed = text_proof"
  using text_proof_valid
  by (simp_all add: previewed_def goToNextStep_def updateField_def useSubmission_def validateCurrentStep_def Let_def stepOrder_def)
     (simp add: text_proof_def)+

lemma previewed_reachable: "wizard_reachable careful previewed"
  unfolding previewed_def by (intro wizard_reachable.Go [OF _ wizard_step.Next] wizard_reachable.Go [OF _ wizard_step.Update] wizard_reachable.Open)

theorem careful_page_sends_valid_witness: "\<exists>r. wz_sent (submit True previewed) = [r] \<and> request_ok r"
proof -
  have "wizard_step True previewed (submit True previewed)" by (rule wizard_step.Submit) (simp add: previewed_is)
  then have "wizard_reachable True (submit True previewed)" by (rule wizard_reachable.Go [OF previewed_reachable])
  from careful_page_sends_valid [OF this] have all: "\<forall>r \<in> set (wz_sent (submit True previewed)). request_ok r" by simp
  have "\<not> needs_upload (sanitizeSubmissionData text_proof)"
    by (simp add: needs_upload_def is_file_proof_def sanitizeSubmissionData_def text_proof_def)
  moreover have "wz_sent previewed = []"
    by (simp add: previewed_def goToNextStep_frame updateField_def useSubmission_def)
  ultimately have "\<exists>r. wz_sent (submit True previewed) = [r]"
    using text_proof_valid by (simp add: submit_def validateCurrentStep_def previewed_is create_now_def Let_def)
  with all show ?thesis by auto
qed

text \<open>
  The operations of the hook do not enforce this themselves: the first call to submit, made from the
  first step, sends a request with an empty proof, because only the step's own check is made; and a second call made while
  the first is under way sends a second request.
\<close>
theorem submit_unguarded:
  "\<exists>w :: 'r wizard. wizard_reachable False w \<and> wz_jobs w 0 \<noteq> None \<and> wz_jobs w 1 \<noteq> None
    \<and> length (wz_sent w) = 2 \<and> (\<forall>r \<in> set (wz_sent w). \<not> request_ok r)"
proof -
  let ?a = "submit True (useSubmission ''q1'' :: 'r wizard)"
  let ?r = "createSubmission (submission_data (sanitizeSubmissionData (initialFormData ''q1''))) None"
  have t: "trim [] = []" by (simp add: trim_def)
  have n: "\<not> needs_upload (sanitizeSubmissionData (initialFormData ''q1''))"
    by (simp add: needs_upload_def is_file_proof_def sanitizeSubmissionData_def initialFormData_def)
  have a: "wz_sent ?a = [?r]" "wz_jobs ?a 0 \<noteq> None" "wz_next ?a = 1" "wz_currentStep ?a = SubmittingStep" "wz_formData ?a = initialFormData ''q1''"
    using n by (simp_all add: submit_def useSubmission_def validateCurrentStep_def create_now_def Let_def initialFormData_def)
      (simp_all add: sanitizeSubmissionData_def)
  have b: "wz_sent (submit True ?a) = [?r, ?r]" "wz_jobs (submit True ?a) 0 \<noteq> None" "wz_jobs (submit True ?a) 1 \<noteq> None"
    using n a by (simp_all add: submit_def [of True ?a] validateCurrentStep_def create_now_def Let_def)
      (simp_all add: sanitizeSubmissionData_def initialFormData_def)
  have bad: "\<not> request_ok ?r"
    by (simp add: request_ok_def createSubmission_def proof_of_def submission_data_def sanitizeSubmissionData_def initialFormData_def Let_def t)
  have "wizard_reachable False ?a" by (rule wizard_reachable.Go [OF wizard_reachable.Open wizard_step.Submit]) simp
  then have "wizard_reachable False (submit True ?a)" by (rule wizard_reachable.Go) (rule wizard_step.Submit, simp)
  with b bad show ?thesis by (intro exI [of _ "submit True ?a"]) simp
qed

text \<open>From the step of errors the wizard leads to the first step, by the index of a step that is not in the list.\<close>

lemma error_leads_to_start: "wz_currentStep w = ErrorStep \<Longrightarrow> wz_currentStep (goToNextStep w) = TypeStep \<and> \<not> canGoNext w"
  by (simp add: goToNextStep_def validateCurrentStep_def stepOrder_def canGoNext_def Let_def)

text \<open>What is under way when the wizard is reset still ends in its success step.\<close>

lemma reset_overtaken:
  "wz_jobs w i = Some (Creating, d) \<Longrightarrow> onSuccess r = None \<Longrightarrow>
    wz_currentStep (create_settled onSuccess i (Inr r) (reset_wizard w)) = SuccessStep"
  by (simp add: create_settled_def reset_wizard_def Let_def)

text \<open>A handler of success that throws shows an error for a submission that has been made.\<close>

lemma handler_hides_success:
  "wz_jobs w i = Some (Creating, d) \<Longrightarrow> onSuccess r = Some m \<Longrightarrow>
    wz_currentStep (create_settled onSuccess i (Inr r) w) = ErrorStep \<and> wz_response (create_settled onSuccess i (Inr r) w) = Some r"
  by (simp add: create_settled_def submit_failed_def Let_def)

end
