(* ===== verification/QuestAdmin.thy ===== *)
theory QuestAdmin
  imports SubmissionForm
begin

text \<open>
  The administration of quests in the web application (\<open>src/FrontEnd/my-app\<close>): the validation of the form
  (\<open>lib/validation/quest.ts\<close>), the form (\<open>components/admin/CreateQuestForm.tsx\<close>), the store of quests the pages work
  on (\<open>lib/api/admin.ts\<close>) and the hooks of the list and of a single quest (\<open>lib/hooks/useAdmin.ts\<close>).  The parser
  of dates is an argument, and so is the time as a text; quests are values, since no claim depends on the objects the
  list shares with the store.  Infinite numbers are left out, and a field is absent rather than set to \<open>undefined\<close>.
\<close>

subsection \<open>Quests\<close>

datatype amount = NaN | Amount rat

definition below :: "amount \<Rightarrow> rat \<Rightarrow> bool" where
  "below a r = (case a of NaN \<Rightarrow> False | Amount q \<Rightarrow> q < r)"

definition above :: "amount \<Rightarrow> rat \<Rightarrow> bool" where
  "above a r = (case a of NaN \<Rightarrow> False | Amount q \<Rightarrow> r < q)"

datatype admin_status = SDraft | SActive | SPaused | SCompleted | SCancelled

record QuestFormData =
  qf_title :: string
  qf_description :: string
  qf_shortDescription :: string
  qf_category :: string
  qf_difficulty :: string
  qf_reward :: amount
  qf_xpReward :: amount
  qf_deadline :: string
  qf_maxParticipants :: amount
  qf_requirements :: "string list"
  qf_tags :: "string list"

record AdminQuest = QuestFormData +
  qu_id :: string
  qu_status :: admin_status
  qu_currentParticipants :: nat
  qu_createdAt :: string
  qu_updatedAt :: string
  qu_createdBy :: string

text \<open>\<open>Partial<QuestFormData>\<close>.\<close>

record quest_patch =
  pt_title :: "string option"
  pt_description :: "string option"
  pt_shortDescription :: "string option"
  pt_category :: "string option"
  pt_difficulty :: "string option"
  pt_reward :: "amount option"
  pt_xpReward :: "amount option"
  pt_deadline :: "string option"
  pt_maxParticipants :: "amount option"
  pt_requirements :: "string list option"
  pt_tags :: "string list option"

definition whole :: "'a QuestFormData_scheme \<Rightarrow> quest_patch" where
  "whole d =
     \<lparr> pt_title = Some (qf_title d), pt_description = Some (qf_description d), pt_shortDescription = Some (qf_shortDescription d),
       pt_category = Some (qf_category d), pt_difficulty = Some (qf_difficulty d), pt_reward = Some (qf_reward d),
       pt_xpReward = Some (qf_xpReward d), pt_deadline = Some (qf_deadline d), pt_maxParticipants = Some (qf_maxParticipants d),
       pt_requirements = Some (qf_requirements d), pt_tags = Some (qf_tags d) \<rparr>"

subsection \<open>Validation\<close>

definition VALID_CATEGORIES :: "string list" where
  "VALID_CATEGORIES = [''Development'', ''Blockchain'', ''Documentation'', ''Design'', ''Testing'', ''Community'']"

definition VALID_DIFFICULTIES :: "string list" where
  "VALID_DIFFICULTIES = [''beginner'', ''intermediate'', ''advanced'', ''expert'']"

definition title_errors :: "string option \<Rightarrow> form_error list" where
  "title_errors t =
     (if blank_field t then [(''title'', ''Title is required'')]
      else if length (the t) < 5 then [(''title'', ''Title must be at least 5 characters'')]
      else if 100 < length (the t) then [(''title'', ''Title must be less than 100 characters'')]
      else [])"

definition short_errors :: "string option \<Rightarrow> form_error list" where
  "short_errors t =
     (if blank_field t then [(''shortDescription'', ''Short description is required'')]
      else if 200 < length (the t) then [(''shortDescription'', ''Short description must be less than 200 characters'')]
      else [])"

definition description_errors :: "string option \<Rightarrow> form_error list" where
  "description_errors t =
     (if blank_field t then [(''description'', ''Description is required'')]
      else if length (the t) < 20 then [(''description'', ''Description must be at least 20 characters'')]
      else [])"

definition choice_errors :: "string \<Rightarrow> string \<Rightarrow> string \<Rightarrow> string list \<Rightarrow> string option \<Rightarrow> form_error list" where
  "choice_errors field missing_text invalid_text choices c =
     (if \<not> truthy c then [(field, missing_text)] else if the c \<notin> set choices then [(field, invalid_text)] else [])"

definition range_errors :: "string \<Rightarrow> string \<Rightarrow> string \<Rightarrow> string \<Rightarrow> rat \<Rightarrow> rat \<Rightarrow> amount option \<Rightarrow> form_error list" where
  "range_errors field missing_text low_text high_text low high a =
     (case a of
        None \<Rightarrow> [(field, missing_text)]
      | Some x \<Rightarrow> if below x low then [(field, low_text)] else if above x high then [(field, high_text)] else [])"

definition deadline_errors :: "(string \<Rightarrow> int option) \<Rightarrow> int \<Rightarrow> string option \<Rightarrow> form_error list" where
  "deadline_errors parse now t =
     (if \<not> truthy t then [(''deadline'', ''Deadline is required'')]
      else (case parse (the t) of
              None \<Rightarrow> [(''deadline'', ''Invalid deadline date'')]
            | Some time \<Rightarrow> if time \<le> now then [(''deadline'', ''Deadline must be in the future'')] else []))"

definition requirement_errors :: "string list option \<Rightarrow> form_error list" where
  "requirement_errors rs =
     (case rs of
        None \<Rightarrow> []
      | Some xs \<Rightarrow> if filter (\<lambda>r. r = [] \<or> trim r = []) xs \<noteq> [] then [(''requirements'', ''Requirements cannot be empty'')] else [])"

definition validateQuestForm :: "(string \<Rightarrow> int option) \<Rightarrow> int \<Rightarrow> quest_patch \<Rightarrow> form_result" where
  "validateQuestForm parse now d =
     (let errors =
        title_errors (pt_title d) @ short_errors (pt_shortDescription d) @ description_errors (pt_description d)
        @ choice_errors ''category'' ''Category is required'' ''Invalid category selected'' VALID_CATEGORIES (pt_category d)
        @ choice_errors ''difficulty'' ''Difficulty is required'' ''Invalid difficulty selected'' VALID_DIFFICULTIES (pt_difficulty d)
        @ range_errors ''reward'' ''Reward is required'' ''Reward cannot be negative'' ''Reward cannot exceed 10,000 XLM'' 0 10000 (pt_reward d)
        @ range_errors ''xpReward'' ''XP reward is required'' ''XP reward cannot be negative'' ''XP reward cannot exceed 5,000'' 0 5000 (pt_xpReward d)
        @ deadline_errors parse now (pt_deadline d)
        @ range_errors ''maxParticipants'' ''Max participants is required'' ''Must allow at least 1 participant'' ''Cannot exceed 10,000 participants''
            1 10000 (pt_maxParticipants d)
        @ requirement_errors (pt_requirements d)
      in \<lparr> fr_isValid = (errors = []), fr_errors = errors \<rparr>)"

definition nonblank :: "string list \<Rightarrow> string list" where
  "nonblank xs = filter (\<lambda>r. r \<noteq> [] \<and> trim r \<noteq> []) xs"

definition sanitizeQuestData :: "QuestFormData \<Rightarrow> QuestFormData" where
  "sanitizeQuestData d =
     d\<lparr>qf_title := trim (qf_title d), qf_description := trim (qf_description d), qf_shortDescription := trim (qf_shortDescription d),
       qf_requirements := map trim (nonblank (qf_requirements d)), qf_tags := map (\<lambda>t. lower (trim t)) (nonblank (qf_tags d))\<rparr>"

subsection \<open>The form\<close>

record create_form =
  cf_data :: QuestFormData
  cf_errors :: "form_error list"
  cf_tagInput :: string

definition defaultFormData :: QuestFormData where
  "defaultFormData =
     \<lparr> qf_title = [], qf_description = [], qf_shortDescription = [], qf_category = ''Development'', qf_difficulty = ''beginner'',
       qf_reward = Amount 100, qf_xpReward = Amount 50, qf_deadline = [], qf_maxParticipants = Amount 10, qf_requirements = [[]], qf_tags = [] \<rparr>"

definition handleChange :: "string \<Rightarrow> (QuestFormData \<Rightarrow> QuestFormData) \<Rightarrow> create_form \<Rightarrow> create_form" where
  "handleChange name f s = s\<lparr>cf_data := f (cf_data s), cf_errors := filter (\<lambda>e. fst e \<noteq> name) (cf_errors s)\<rparr>"

definition with_requirements :: "(string list \<Rightarrow> string list) \<Rightarrow> create_form \<Rightarrow> create_form" where
  "with_requirements f s = s\<lparr>cf_data := (cf_data s)\<lparr>qf_requirements := f (qf_requirements (cf_data s))\<rparr>\<rparr>"

definition handleRequirementChange :: "nat \<Rightarrow> string \<Rightarrow> create_form \<Rightarrow> create_form" where
  "handleRequirementChange i v = with_requirements (\<lambda>rs. map (\<lambda>(j, r). if j = i then v else r) (enumerate 0 rs))"

definition addRequirement :: "create_form \<Rightarrow> create_form" where
  "addRequirement = with_requirements (\<lambda>rs. rs @ [[]])"

definition removeRequirement :: "nat \<Rightarrow> create_form \<Rightarrow> create_form" where
  "removeRequirement i = with_requirements (\<lambda>rs. map snd (filter (\<lambda>(j, r). j \<noteq> i) (enumerate 0 rs)))"

definition handleAddTag :: "string \<Rightarrow> create_form \<Rightarrow> create_form" where
  "handleAddTag key s =
     (if key = ''Enter'' \<and> trim (cf_tagInput s) \<noteq> []
      then (let newTag = lower (trim (cf_tagInput s)); d = cf_data s
            in (if newTag \<in> set (qf_tags d) then s else s\<lparr>cf_data := d\<lparr>qf_tags := qf_tags d @ [newTag]\<rparr>\<rparr>)\<lparr>cf_tagInput := []\<rparr>)
      else s)"

definition removeTag :: "string \<Rightarrow> create_form \<Rightarrow> create_form" where
  "removeTag tag s = s\<lparr>cf_data := (cf_data s)\<lparr>qf_tags := filter (\<lambda>t. t \<noteq> tag) (qf_tags (cf_data s))\<rparr>\<rparr>"

text \<open>A submission hands the trimmed data on, or shows the errors; the answer may show one more.\<close>

definition handleSubmit :: "(string \<Rightarrow> int option) \<Rightarrow> int \<Rightarrow> create_form \<Rightarrow> create_form + QuestFormData" where
  "handleSubmit parse now s =
     (let v = validateQuestForm parse now (whole (cf_data s))
      in if \<not> fr_isValid v then Inl (s\<lparr>cf_errors := fr_errors v\<rparr>) else Inr (sanitizeQuestData (cf_data s)))"

definition submit_answered :: "bool \<Rightarrow> string option \<Rightarrow> create_form \<Rightarrow> create_form" where
  "submit_answered success err s = (if \<not> success \<and> truthy err then s\<lparr>cf_errors := [(''submit'', the err)]\<rparr> else s)"

subsection \<open>The store\<close>

definition createQuest :: "string \<Rightarrow> string \<Rightarrow> QuestFormData \<Rightarrow> AdminQuest list \<Rightarrow> AdminQuest \<times> AdminQuest list" where
  "createQuest stamp now d qs =
     (let q = QuestFormData.extend d
            \<lparr> qu_id = stamp, qu_status = SDraft, qu_currentParticipants = 0, qu_createdAt = now, qu_updatedAt = now, qu_createdBy = ''admin'' \<rparr>
      in (q, qs @ [q]))"

definition fetchQuestById :: "string \<Rightarrow> AdminQuest list \<Rightarrow> AdminQuest option" where
  "fetchQuestById i qs = find (\<lambda>q. qu_id q = i) qs"

text \<open>\<open>findIndex\<close>, and the update of the quest it finds.\<close>

fun index_of :: "string \<Rightarrow> AdminQuest list \<Rightarrow> nat option" where
  "index_of i [] = None"
| "index_of i (q # qs) = (if qu_id q = i then Some 0 else map_option Suc (index_of i qs))"

definition or_old :: "'a option \<Rightarrow> 'a \<Rightarrow> 'a" where
  "or_old x old = (case x of None \<Rightarrow> old | Some v \<Rightarrow> v)"

definition patched :: "quest_patch \<Rightarrow> AdminQuest \<Rightarrow> AdminQuest" where
  "patched p q =
     q\<lparr>qf_title := or_old (pt_title p) (qf_title q), qf_description := or_old (pt_description p) (qf_description q),
       qf_shortDescription := or_old (pt_shortDescription p) (qf_shortDescription q), qf_category := or_old (pt_category p) (qf_category q),
       qf_difficulty := or_old (pt_difficulty p) (qf_difficulty q), qf_reward := or_old (pt_reward p) (qf_reward q),
       qf_xpReward := or_old (pt_xpReward p) (qf_xpReward q), qf_deadline := or_old (pt_deadline p) (qf_deadline q),
       qf_maxParticipants := or_old (pt_maxParticipants p) (qf_maxParticipants q),
       qf_requirements := or_old (pt_requirements p) (qf_requirements q), qf_tags := or_old (pt_tags p) (qf_tags q)\<rparr>"

definition updateQuest :: "string \<Rightarrow> string \<Rightarrow> quest_patch \<Rightarrow> AdminQuest list \<Rightarrow> string + AdminQuest \<times> AdminQuest list" where
  "updateQuest now i p qs =
     (case index_of i qs of
        None \<Rightarrow> Inl ''Quest not found''
      | Some k \<Rightarrow> (let q = (patched p (qs ! k))\<lparr>qu_updatedAt := now\<rparr> in Inr (q, qs[k := q])))"

definition updateQuestStatus :: "string \<Rightarrow> string \<Rightarrow> admin_status \<Rightarrow> AdminQuest list \<Rightarrow> string + AdminQuest \<times> AdminQuest list" where
  "updateQuestStatus now i status qs =
     (case index_of i qs of
        None \<Rightarrow> Inl ''Quest not found''
      | Some k \<Rightarrow> (let q = (qs ! k)\<lparr>qu_status := status, qu_updatedAt := now\<rparr> in Inr (q, qs[k := q])))"

definition splice :: "nat \<Rightarrow> 'a list \<Rightarrow> 'a list" where
  "splice k xs = take k xs @ drop (Suc k) xs"

definition deleteQuest :: "string \<Rightarrow> AdminQuest list \<Rightarrow> string + AdminQuest list" where
  "deleteQuest i qs = (case index_of i qs of None \<Rightarrow> Inl ''Quest not found'' | Some k \<Rightarrow> Inr (splice k qs))"

datatype bulk_action = Activate | Pause | Complete | Cancel | Delete

definition act :: "bulk_action \<Rightarrow> nat \<Rightarrow> AdminQuest list \<Rightarrow> AdminQuest list" where
  "act a k qs =
     (case a of
        Activate \<Rightarrow> qs[k := (qs ! k)\<lparr>qu_status := SActive\<rparr>]
      | Pause \<Rightarrow> qs[k := (qs ! k)\<lparr>qu_status := SPaused\<rparr>]
      | Complete \<Rightarrow> qs[k := (qs ! k)\<lparr>qu_status := SCompleted\<rparr>]
      | Cancel \<Rightarrow> qs[k := (qs ! k)\<lparr>qu_status := SCancelled\<rparr>]
      | Delete \<Rightarrow> splice k qs)"

text \<open>After the action the quest that now stands at the index, if any, gets the time.\<close>

definition touch :: "string \<Rightarrow> nat \<Rightarrow> AdminQuest list \<Rightarrow> AdminQuest list" where
  "touch now k qs = (if k < length qs then qs[k := (qs ! k)\<lparr>qu_updatedAt := now\<rparr>] else qs)"

fun executeBulkOperation :: "string \<Rightarrow> bulk_action \<Rightarrow> string list \<Rightarrow> nat \<Rightarrow> nat \<Rightarrow> AdminQuest list \<Rightarrow> (nat \<times> nat) \<times> AdminQuest list" where
  "executeBulkOperation now a [] success failed qs = ((success, failed), qs)"
| "executeBulkOperation now a (i # ids) success failed qs =
     (case index_of i qs of
        None \<Rightarrow> executeBulkOperation now a ids success (Suc failed) qs
      | Some k \<Rightarrow> executeBulkOperation now a ids (Suc success) failed (touch now k (act a k qs)))"

subsection \<open>The list of quests\<close>

text \<open>The store and the state of the hook of the list.\<close>

record quest_admin =
  qa_store :: "AdminQuest list"
  qa_quests :: "AdminQuest list"
  qa_isLoading :: bool
  qa_error :: "string option"
  qa_selected :: "string set"

datatype admin_answer = Done | BulkDone "nat \<times> nat" | Failure_answer string

definition loadQuests_start :: "quest_admin \<Rightarrow> quest_admin" where
  "loadQuests_start s = s\<lparr>qa_isLoading := True\<rparr>"

definition loadQuests_done :: "quest_admin \<Rightarrow> quest_admin" where
  "loadQuests_done s = s\<lparr>qa_quests := qa_store s, qa_error := None, qa_isLoading := False\<rparr>"

definition toggleQuestSelection :: "string \<Rightarrow> quest_admin \<Rightarrow> quest_admin" where
  "toggleQuestSelection i s = s\<lparr>qa_selected := (if i \<in> qa_selected s then qa_selected s - {i} else insert i (qa_selected s))\<rparr>"

definition selectAll :: "quest_admin \<Rightarrow> quest_admin" where
  "selectAll s = s\<lparr>qa_selected := set (map qu_id (qa_quests s))\<rparr>"

definition clearSelection :: "quest_admin \<Rightarrow> quest_admin" where
  "clearSelection s = s\<lparr>qa_selected := {}\<rparr>"

definition handleStatusChange :: "string \<Rightarrow> string \<Rightarrow> admin_status \<Rightarrow> quest_admin \<Rightarrow> admin_answer \<times> quest_admin" where
  "handleStatusChange now i status s =
     (case updateQuestStatus now i status (qa_store s) of
        Inl m \<Rightarrow> (Failure_answer m, s)
      | Inr (updated, qs) \<Rightarrow>
          (Done, s\<lparr>qa_store := qs, qa_quests := map (\<lambda>q. if qu_id q = i then updated else q) (qa_quests s)\<rparr>))"

definition handleDelete :: "string \<Rightarrow> quest_admin \<Rightarrow> admin_answer \<times> quest_admin" where
  "handleDelete i s =
     (case deleteQuest i (qa_store s) of
        Inl m \<Rightarrow> (Failure_answer m, s)
      | Inr qs \<Rightarrow>
          (Done, s\<lparr>qa_store := qs, qa_quests := filter (\<lambda>q. qu_id q \<noteq> i) (qa_quests s), qa_selected := qa_selected s - {i}\<rparr>))"

text \<open>The selected quests come in the order of the set, here an argument; the list is loaded anew afterwards.\<close>

definition handleBulkOperation :: "string \<Rightarrow> bulk_action \<Rightarrow> string list \<Rightarrow> quest_admin \<Rightarrow> admin_answer \<times> quest_admin" where
  "handleBulkOperation now a ids s =
     (if ids = [] then (Failure_answer ''No quests selected'', s)
      else (case executeBulkOperation now a ids 0 0 (qa_store s) of
              (r, qs) \<Rightarrow> (BulkDone r, loadQuests_start (s\<lparr>qa_store := qs\<rparr>))))"

definition bulk_loaded :: "quest_admin \<Rightarrow> quest_admin" where
  "bulk_loaded s = clearSelection (loadQuests_done s)"

text \<open>
  What the pages do: the list is loaded, or loaded anew after a bulk operation; its rows are selected, changed and
  deleted; and the pages that make and edit a quest (\<open>useCreateQuest\<close>, \<open>useQuest\<close>) work on the same store, of which
  the list hears nothing.
\<close>

datatype admin_event =
    Loaded | Toggled string | AllSelected | Cleared | StatusChanged string string admin_status | Deleted string
  | BulkRun string bulk_action "string list" | BulkLoaded | Created string string QuestFormData | Saved string string quest_patch

definition create_quest_page :: "string \<Rightarrow> string \<Rightarrow> QuestFormData \<Rightarrow> quest_admin \<Rightarrow> quest_admin" where
  "create_quest_page stamp now d s = s\<lparr>qa_store := snd (createQuest stamp now d (qa_store s))\<rparr>"

definition save_quest_page :: "string \<Rightarrow> string \<Rightarrow> quest_patch \<Rightarrow> quest_admin \<Rightarrow> quest_admin" where
  "save_quest_page now i p s =
     (case updateQuest now i p (qa_store s) of Inl m \<Rightarrow> s | Inr (q, qs) \<Rightarrow> s\<lparr>qa_store := qs\<rparr>)"

fun admin_run :: "admin_event \<Rightarrow> quest_admin \<Rightarrow> quest_admin" where
  "admin_run Loaded s = loadQuests_done s"
| "admin_run (Toggled i) s = toggleQuestSelection i s"
| "admin_run AllSelected s = selectAll s"
| "admin_run Cleared s = clearSelection s"
| "admin_run (StatusChanged now i st) s = snd (handleStatusChange now i st s)"
| "admin_run (Deleted i) s = snd (handleDelete i s)"
| "admin_run (BulkRun now a ids) s = snd (handleBulkOperation now a ids s)"
| "admin_run BulkLoaded s = bulk_loaded s"
| "admin_run (Created stamp now d) s = create_quest_page stamp now d s"
| "admin_run (Saved now i p) s = save_quest_page now i p s"

definition useQuestManagement :: "AdminQuest list \<Rightarrow> quest_admin" where
  "useQuestManagement qs =
     \<lparr> qa_store = qs, qa_quests = [], qa_isLoading = True, qa_error = None, qa_selected = {} \<rparr>"

end
