(* ===== verification/QuestAdminProps.thy ===== *)
theory QuestAdminProps
  imports QuestAdmin
begin

text \<open>
  Properties of the administration of quests: what trimming does to a valid form, what a bulk operation does to the
  store and what it reports, and when the list of the page is the store.
\<close>

subsection \<open>The form\<close>

lemma range_ok: "range_errors f m l h low high a = [] \<longleftrightarrow> (\<exists>x. a = Some x \<and> \<not> below x low \<and> \<not> above x high)"
  by (auto simp: range_errors_def split: option.splits)

lemma requirement_ok: "requirement_errors (Some xs) = [] \<longleftrightarrow> (\<forall>r \<in> set xs. trim r \<noteq> [])"
proof -
  have "trim [] = []" by (simp add: trim_def)
  then show ?thesis by (auto simp: requirement_errors_def filter_empty_conv)
qed

lemma requirements_sanitised: "requirement_errors (Some (map trim (nonblank xs))) = []"
  unfolding requirement_ok by (auto simp: nonblank_def trim_twice)

text \<open>The requirements that are left out on the way to the store have been refused before, so none is left out of a valid form.\<close>

lemma valid_requirements_kept: "requirement_errors (Some xs) = [] \<Longrightarrow> map trim (nonblank xs) = map trim xs"
proof -
  have t: "trim [] = []" by (simp add: trim_def)
  assume "requirement_errors (Some xs) = []"
  then have "\<forall>r \<in> set xs. r \<noteq> [] \<and> trim r \<noteq> []" using t unfolding requirement_ok by auto
  then have "nonblank xs = xs" by (simp add: nonblank_def filter_id_conv)
  then show ?thesis by simp
qed

lemma trim_short: "n < length (trim s) \<Longrightarrow> n < length s"
  using length_trim [of s] by simp

lemma long_trimmed: "length s \<le> n \<Longrightarrow> length (trim s) \<le> n"
  using length_trim [of s] by simp

text \<open>
  The form of a quest is validated before it is trimmed, and its lower bounds count the white space: a valid
  form is still valid when it is stored exactly if its title has five characters and its description twenty
  without the white space around them.
\<close>
theorem trimmed_quest_valid_iff:
  assumes "fr_isValid (validateQuestForm parse now (whole d))"
  shows "fr_isValid (validateQuestForm parse now (whole (sanitizeQuestData d)))
    \<longleftrightarrow> 5 \<le> length (trim (qf_title d)) \<and> 20 \<le> length (trim (qf_description d))"
proof -
  have t: "title_errors (Some (qf_title d)) = []" "short_errors (Some (qf_shortDescription d)) = []"
    "description_errors (Some (qf_description d)) = []"
    using assms by (simp_all add: validateQuestForm_def whole_def)
  have n: "trim (qf_title d) \<noteq> []" "trim (qf_shortDescription d) \<noteq> []" "trim (qf_description d) \<noteq> []"
    and b: "length (qf_title d) \<le> 100" "length (qf_shortDescription d) \<le> 200"
    using t by (auto simp: title_errors_def short_errors_def description_errors_def blank_field_def split: if_splits)
  have "title_errors (Some (trim (qf_title d))) = [] \<longleftrightarrow> 5 \<le> length (trim (qf_title d))"
    using n b long_trimmed [OF b(1)] by (auto simp: title_errors_def blank_field_def trim_twice)
  moreover have "short_errors (Some (trim (qf_shortDescription d))) = []"
    using n long_trimmed [OF b(2)] by (auto simp: short_errors_def blank_field_def trim_twice)
  moreover have "description_errors (Some (trim (qf_description d))) = [] \<longleftrightarrow> 20 \<le> length (trim (qf_description d))"
    using n by (auto simp: description_errors_def blank_field_def trim_twice)
  ultimately show ?thesis using assms
    by (simp add: validateQuestForm_def whole_def sanitizeQuestData_def requirements_sanitised)
qed

definition padded_quest :: QuestFormData where
  "padded_quest = \<lparr> qf_title = ''    a'', qf_description = ''twenty characters long'', qf_shortDescription = ''b'', qf_category = ''Design'',
     qf_difficulty = ''expert'', qf_reward = Amount 10, qf_xpReward = Amount 5, qf_deadline = ''2030-01-01'', qf_maxParticipants = Amount 3,
     qf_requirements = [], qf_tags = [] \<rparr>"

lemma padded_valid: "fr_isValid (validateQuestForm (\<lambda>t. Some 10) 5 (whole padded_quest))"
  by code_simp

theorem trimmed_quest_valid_iff_witness: "\<not> fr_isValid (validateQuestForm (\<lambda>t. Some 10) 5 (whole (sanitizeQuestData padded_quest)))"
proof -
  have "\<not> 5 \<le> length (trim (qf_title padded_quest))" by code_simp
  with trimmed_quest_valid_iff [OF padded_valid] show ?thesis by simp
qed

text \<open>The form starts with one empty requirement, which is refused until it is filled in or removed, although requirements are optional.\<close>

lemma default_requirement_refused: "requirement_errors (pt_requirements (whole defaultFormData)) \<noteq> []"
  by (simp add: whole_def defaultFormData_def requirement_errors_def)

lemma not_a_number_accepted: "range_errors f m l h low high (Some NaN) = []"
  by (simp add: range_errors_def below_def above_def)

lemma tags_distinct: "distinct (qf_tags (cf_data s)) \<Longrightarrow> distinct (qf_tags (cf_data (handleAddTag key s)))"
  by (simp add: handleAddTag_def Let_def)

lemma requirements_changed:
  "length (qf_requirements (cf_data (handleRequirementChange i v s))) = length (qf_requirements (cf_data s))"
  "i < length (qf_requirements (cf_data s)) \<Longrightarrow> qf_requirements (cf_data (handleRequirementChange i v s)) ! i = v"
  by (simp_all add: handleRequirementChange_def with_requirements_def nth_enumerate_eq)

subsection \<open>The store\<close>

abbreviation ids :: "AdminQuest list \<Rightarrow> string list" where
  "ids qs \<equiv> map qu_id qs"

lemma index_of_None: "index_of i qs = None \<longleftrightarrow> i \<notin> set (ids qs)"
  by (induction qs) auto

lemma index_of_Some: "index_of i qs = Some k \<Longrightarrow> k < length qs \<and> qu_id (qs ! k) = i"
  by (induction qs arbitrary: k) (auto split: if_splits)

lemma no_id: "i \<notin> set (ids qs) \<Longrightarrow> \<forall>r \<in> set qs. qu_id r \<noteq> i"
  by auto

text \<open>With identifiers that differ, an update at the index is one of every quest with the identifier, and so is a removal.\<close>

lemma update_as_map:
  "distinct (ids qs) \<Longrightarrow> index_of i qs = Some k \<Longrightarrow> qs[k := f (qs ! k)] = map (\<lambda>q. if qu_id q = i then f q else q) qs"
proof (induction qs arbitrary: k)
  case (Cons q qs)
  show ?case
  proof (cases "qu_id q = i")
    case True
    with Cons.prems have "k = 0" "i \<notin> set (ids qs)" by auto
    note this(1) no_id [OF this(2)]
    with True show ?thesis by (simp add: map_idI no_id)
  next
    case False
    with Cons.prems obtain j where "k = Suc j" "index_of i qs = Some j" by auto
    with Cons.IH Cons.prems(1) False show ?thesis by simp
  qed
qed simp

lemma splice_as_filter:
  "distinct (ids qs) \<Longrightarrow> index_of i qs = Some k \<Longrightarrow> splice k qs = filter (\<lambda>q. qu_id q \<noteq> i) qs"
proof (induction qs arbitrary: k)
  case (Cons q qs)
  show ?case
  proof (cases "qu_id q = i")
    case True
    with Cons.prems have "k = 0" "i \<notin> set (ids qs)" by auto
    note this(1) no_id [OF this(2)]
    with True show ?thesis by (simp add: splice_def filter_id_conv)
  next
    case False
    with Cons.prems obtain j where "k = Suc j" "index_of i qs = Some j" by auto
    with Cons.IH Cons.prems(1) False show ?thesis by (simp add: splice_def)
  qed
qed simp

lemma touch_ids [simp]: "ids (touch now k qs) = ids qs"
  by (auto simp: touch_def map_update list_update_id list_update_same_conv)

definition status_after :: "bulk_action \<Rightarrow> admin_status option" where
  "status_after a = (case a of Activate \<Rightarrow> Some SActive | Pause \<Rightarrow> Some SPaused | Complete \<Rightarrow> Some SCompleted | Cancel \<Rightarrow> Some SCancelled | Delete \<Rightarrow> None)"

lemma act_status: "status_after a = Some st \<Longrightarrow> act a k qs = qs[k := (qs ! k)\<lparr>qu_status := st\<rparr>]"
  by (cases a) (auto simp: act_def status_after_def)

text \<open>
  What is left of a list when the quests of a set are taken out of it: the others in their order, and one that came
  directly behind one that is taken out has the time of the deletion.  The flag says whether the quest before
  the list is taken out.
\<close>

fun left_over :: "string \<Rightarrow> string set \<Rightarrow> bool \<Rightarrow> AdminQuest list \<Rightarrow> AdminQuest list" where
  "left_over now I gone [] = []"
| "left_over now I gone (q # qs) =
     (if qu_id q \<in> I then left_over now I True qs
      else (if gone then q\<lparr>qu_updatedAt := now\<rparr> else q) # left_over now I False qs)"

definition bulk_effect :: "string \<Rightarrow> bulk_action \<Rightarrow> string set \<Rightarrow> AdminQuest list \<Rightarrow> AdminQuest list" where
  "bulk_effect now a I qs =
     (case status_after a of
        None \<Rightarrow> left_over now I False qs
      | Some st \<Rightarrow> map (\<lambda>q. if qu_id q \<in> I then q\<lparr>qu_status := st, qu_updatedAt := now\<rparr> else q) qs)"

lemma left_over_ids: "ids (left_over now I b qs) = filter (\<lambda>i. i \<notin> I) (ids qs)"
  by (induction qs arbitrary: b) auto

lemma left_over_join: "left_over now I b (left_over now J c qs) = left_over now (I \<union> J) (b \<or> c) qs"
  by (induction qs arbitrary: b c) auto

lemma left_over_none: "I \<inter> set (ids qs) = {} \<Longrightarrow> left_over now I False qs = qs"
  by (induction qs) auto

lemma bulk_effect_none: "I \<inter> set (ids qs) = {} \<Longrightarrow> bulk_effect now a I qs = qs"
proof -
  assume n: "I \<inter> set (ids qs) = {}"
  then have "\<forall>q \<in> set qs. qu_id q \<notin> I" by auto
  then show ?thesis using left_over_none [OF n] by (auto simp: bulk_effect_def split: option.split intro!: map_idI)
qed

lemma bulk_effect_join: "bulk_effect now a I (bulk_effect now a J qs) = bulk_effect now a (I \<union> J) qs"
  by (auto simp: bulk_effect_def left_over_join split: option.split)

text \<open>With identifiers that differ, a removal and the time given to the quest that moves up leave what is left over.\<close>

lemma at_Suc [simp]: "splice (Suc k) (q # qs) = q # splice k qs" "touch now (Suc k) (q # qs) = q # touch now k qs"
  by (simp_all add: splice_def touch_def)

lemma removal_left_over:
  "distinct (ids qs) \<Longrightarrow> index_of i qs = Some k \<Longrightarrow> touch now k (splice k qs) = left_over now {i} False qs"
proof (induction qs arbitrary: k)
  case (Cons q qs)
  show ?case
  proof (cases "qu_id q = i")
    case True
    with Cons.prems have k: "k = 0" and i: "{i} \<inter> set (ids qs) = {}" by auto
    have "touch now 0 qs = left_over now {i} True qs"
    proof (cases qs)
      case (Cons r rs)
      with i have "{i} \<inter> set (ids rs) = {}" "qu_id r \<noteq> i" by auto
      with left_over_none [OF this(1), of now] Cons show ?thesis by (simp add: touch_def)
    qed (simp add: touch_def)
    with k True show ?thesis by (simp add: splice_def)
  next
    case False
    with Cons.prems obtain j where "k = Suc j" "index_of i qs = Some j" by auto
    with Cons.IH Cons.prems(1) False show ?thesis by simp
  qed
qed simp

lemma act_effect: "distinct (ids qs) \<Longrightarrow> index_of i qs = Some k \<Longrightarrow> touch now k (act a k qs) = bulk_effect now a {i} qs"
proof -
  assume d: "distinct (ids qs)" and k: "index_of i qs = Some k"
  show ?thesis
  proof (cases "status_after a")
    case None
    then have "a = Delete" by (cases a) (auto simp: status_after_def)
    with removal_left_over [OF d k] None show ?thesis by (simp add: act_def bulk_effect_def)
  next
    case (Some st)
    have "touch now k (act a k qs) = qs[k := (qs ! k)\<lparr>qu_status := st, qu_updatedAt := now\<rparr>]"
      using index_of_Some [OF k] by (simp add: act_status [OF Some] touch_def)
    with Some update_as_map [OF d k, of "\<lambda>q. q\<lparr>qu_status := st, qu_updatedAt := now\<rparr>"] show ?thesis by (simp add: bulk_effect_def)
  qed
qed

lemma bulk_effect_ids: "ids (bulk_effect now a I qs) = (if status_after a = None then filter (\<lambda>i. i \<notin> I) (ids qs) else ids qs)"
  by (auto simp: bulk_effect_def left_over_ids split: option.split)

lemma bulk_effect_distinct: "distinct (ids qs) \<Longrightarrow> distinct (ids (bulk_effect now a I qs))"
  by (simp add: bulk_effect_ids del: map_map)

lemma bulk_result:
  "distinct (ids qs) \<Longrightarrow> distinct is \<Longrightarrow> executeBulkOperation now a is s f qs = ((s', f'), qs') \<Longrightarrow>
    s' = s + length (filter (\<lambda>i. i \<in> set (ids qs)) is) \<and> s' + f' = s + f + length is \<and> qs' = bulk_effect now a (set is) qs"
proof (induction "is" arbitrary: s f qs)
  case Nil
  then show ?case by (simp add: bulk_effect_none)
next
  case (Cons i "is")
  show ?case
  proof (cases "index_of i qs")
    case None
    then have i: "i \<notin> set (ids qs)" by (simp add: index_of_None)
    with Cons.IH [OF Cons.prems(1), of s "Suc f"] Cons.prems None
    have "s' = s + length (filter (\<lambda>i. i \<in> set (ids qs)) is)" "s' + f' = s + Suc f + length is"
      "qs' = bulk_effect now a (set is) qs" by simp_all
    moreover have "bulk_effect now a (set (i # is)) qs = bulk_effect now a (set is) qs"
      using bulk_effect_join [of now a "set is" "{i}" qs] bulk_effect_none [of "{i}" qs now a] i by simp
    ultimately show ?thesis using i by simp
  next
    case (Some k)
    let ?qs = "bulk_effect now a {i} qs"
    have i: "i \<in> set (ids qs)" using Some index_of_None [of i qs] by auto
    note act = act_effect [OF Cons.prems(1) Some]
    have ids: "ids ?qs = (if status_after a = None then filter (\<lambda>j. j \<noteq> i) (ids qs) else ids qs)" by (simp add: bulk_effect_ids)
    have ni: "i \<notin> set is" "distinct is" using Cons.prems(2) by simp_all
    have run: "executeBulkOperation now a is (Suc s) f ?qs = ((s', f'), qs')" using Cons.prems(3) Some by (simp add: act)
    have "filter (\<lambda>j. j \<in> set (ids ?qs)) is = filter (\<lambda>j. j \<in> set (ids qs)) is"
      unfolding ids using ni(1) by (auto intro: filter_cong)
    moreover have "bulk_effect now a (set is) ?qs = bulk_effect now a (set (i # is)) qs" by (simp add: bulk_effect_join)
    ultimately show ?thesis using Cons.IH [OF bulk_effect_distinct [OF Cons.prems(1)] ni(2) run] i by simp
  qed
qed

text \<open>
  Claim C38.  A bulk operation on a store whose quests have identifiers that differ, with a selection that names none
  twice, does to the selected quests that exist what it is asked for.  An action on the status gives exactly
  these the status and the time of the operation, and leaves every other quest as it is.  A deletion removes exactly
  these and keeps the others in their order; but it also gives the time of the operation, as the time of the last
  update, to every quest that is not selected and comes directly behind a selected one, and to no other.  The
  operation counts a success for each selected quest that exists and a failure for each that does not.
\<close>
theorem bulk_exact:
  assumes "distinct (ids qs)" and "distinct is" and "executeBulkOperation now a is 0 0 qs = ((success, failed), qs')"
  shows "success = length (filter (\<lambda>i. i \<in> set (ids qs)) is) \<and> success + failed = length is
    \<and> qs' =
        (case status_after a of
           None \<Rightarrow> left_over now (set is) False qs
         | Some st \<Rightarrow> map (\<lambda>q. if qu_id q \<in> set is then q\<lparr>qu_status := st, qu_updatedAt := now\<rparr> else q) qs)"
  using bulk_result [OF assms] by (auto simp: bulk_effect_def)

definition mock_quest :: "string \<Rightarrow> AdminQuest" where
  "mock_quest i = QuestFormData.extend padded_quest
     \<lparr> qu_id = i, qu_status = SDraft, qu_currentParticipants = 0, qu_createdAt = ''c'', qu_updatedAt = ''u'', qu_createdBy = ''admin'' \<rparr>"

lemma mock_id [simp]: "qu_id (mock_quest i) = i"
  by (simp add: mock_quest_def QuestFormData.defs)

theorem bulk_exact_witness:
  "snd (executeBulkOperation ''now'' Delete [''2'', ''7''] 0 0 [mock_quest ''3'', mock_quest ''2'', mock_quest ''5'', mock_quest ''6''])
     = [mock_quest ''3'', (mock_quest ''5'')\<lparr>qu_updatedAt := ''now''\<rparr>, mock_quest ''6'']"
proof -
  let ?qs = "[mock_quest ''3'', mock_quest ''2'', mock_quest ''5'', mock_quest ''6'']"
  obtain s f qs where r: "executeBulkOperation ''now'' Delete [''2'', ''7''] 0 0 ?qs = ((s, f), qs)"
    by (metis prod.exhaust)
  have "qs = [mock_quest ''3'', (mock_quest ''5'')\<lparr>qu_updatedAt := ''now''\<rparr>, mock_quest ''6'']"
    using bulk_exact [OF _ _ r] by (simp add: status_after_def)
  with r show ?thesis by simp
qed

text \<open>A bulk deletion gives the quest behind the deleted one the time of the deletion as its last update.\<close>

lemma deletion_touches_next:
  "qu_id q = i \<Longrightarrow> snd (executeBulkOperation now Delete [i] 0 0 (q # r # qs)) = r\<lparr>qu_updatedAt := now\<rparr> # qs"
  by (simp add: act_def splice_def touch_def)

text \<open>Two quests made in the same millisecond have the same identifier.\<close>

lemma same_stamp_same_id: "ids (snd (createQuest stamp now d (snd (createQuest stamp now' d' qs)))) = ids qs @ [stamp, stamp]"
  by (simp add: createQuest_def QuestFormData.defs Let_def)

subsection \<open>The list\<close>

lemma bulk_ids:
  "distinct (ids qs) \<Longrightarrow> distinct (ids (snd (executeBulkOperation now a is s f qs)))
    \<and> set (ids (snd (executeBulkOperation now a is s f qs))) \<subseteq> set (ids qs)"
proof (induction "is" arbitrary: s f qs)
  case (Cons i "is")
  show ?case
  proof (cases "index_of i qs")
    case (Some k)
    have "set (ids (bulk_effect now a {i} qs)) \<subseteq> set (ids qs)" by (auto simp: bulk_effect_ids simp del: set_map)
    with Cons.IH [of "bulk_effect now a {i} qs" "Suc s" f, OF bulk_effect_distinct [OF Cons.prems]] Some show ?thesis
      by (auto simp: act_effect [OF Cons.prems Some] simp del: set_map)
  qed (use Cons in simp)
qed simp

lemma status_change_list:
  assumes "distinct (ids qs)" and "updateQuestStatus now i st qs = Inr (q, qs')"
  shows "qs' = map (\<lambda>r. if qu_id r = i then q else r) qs" and "ids qs' = ids qs"
proof -
  obtain k where k: "index_of i qs = Some k" "q = (qs ! k)\<lparr>qu_status := st, qu_updatedAt := now\<rparr>" "qs' = qs[k := q]"
    using assms(2) by (auto simp: updateQuestStatus_def Let_def split: option.splits)
  then have "qu_id q = i" using index_of_Some [OF k(1)] by simp
  moreover show e: "qs' = map (\<lambda>r. if qu_id r = i then q else r) qs"
    unfolding k(3) by (rule update_as_map [OF assms(1) k(1), of "\<lambda>r. q"])
  ultimately show "ids qs' = ids qs" by simp
qed

lemma deletion_list: "distinct (ids qs) \<Longrightarrow> deleteQuest i qs = Inr qs' \<Longrightarrow> qs' = filter (\<lambda>q. qu_id q \<noteq> i) qs"
  by (auto simp: deleteQuest_def splice_as_filter split: option.splits)

lemma saving_ids: "updateQuest now i p qs = Inr (q, qs') \<Longrightarrow> ids qs' = ids qs"
proof -
  assume "updateQuest now i p qs = Inr (q, qs')"
  then obtain k where k: "index_of i qs = Some k" "qs' = qs[k := (patched p (qs ! k))\<lparr>qu_updatedAt := now\<rparr>]"
    by (auto simp: updateQuest_def Let_def split: option.splits)
  have "qu_id ((patched p (qs ! k))\<lparr>qu_updatedAt := now\<rparr>) = ids qs ! k" using index_of_Some [OF k(1)] by (simp add: patched_def)
  then show ?thesis unfolding k(2) map_update by (metis list_update_id)
qed

text \<open>The identifiers of the quests made by the events, the events that load the list, and those the list hears nothing of.\<close>

fun stamps :: "admin_event list \<Rightarrow> string list" where
  "stamps [] = []"
| "stamps (e # es) = (case e of Created stamp now d \<Rightarrow> [stamp] | _ \<Rightarrow> []) @ stamps es"

fun loads :: "admin_event \<Rightarrow> bool" where
  "loads Loaded = True"
| "loads BulkLoaded = True"
| "loads _ = False"

fun elsewhere :: "admin_event \<Rightarrow> bool" where
  "elsewhere (BulkRun now a chosen) = True"
| "elsewhere (Created stamp now d) = True"
| "elsewhere (Saved now i p) = True"
| "elsewhere _ = False"

lemma stamps_append [simp]: "stamps (es @ es') = stamps es @ stamps es'"
  by (induction es) simp_all

lemma run_ids:
  "distinct (ids (qa_store s)) \<Longrightarrow> set (stamps [e]) \<inter> set (ids (qa_store s)) = {} \<Longrightarrow>
    distinct (ids (qa_store (admin_run e s))) \<and> set (ids (qa_store (admin_run e s))) \<subseteq> set (ids (qa_store s)) \<union> set (stamps [e])"
proof (cases e)
  case (BulkRun now a chosen)
  assume "distinct (ids (qa_store s))"
  from bulk_ids [OF this, of now a chosen 0 0] \<open>distinct (ids (qa_store s))\<close> BulkRun show ?thesis
    by (auto simp: handleBulkOperation_def loadQuests_start_def split: prod.splits)
next
  case (StatusChanged now i st)
  assume d: "distinct (ids (qa_store s))"
  with StatusChanged show ?thesis
    by (auto simp: handleStatusChange_def dest!: status_change_list(2) [OF d] split: sum.splits simp del: set_map)
next
  case (Deleted i)
  assume d: "distinct (ids (qa_store s))"
  with Deleted show ?thesis
    by (auto simp: handleDelete_def distinct_map_filter dest!: deletion_list [OF d] split: sum.splits)
next
  case (Saved now i p)
  assume d: "distinct (ids (qa_store s))"
  with Saved show ?thesis by (auto simp: save_quest_page_def dest!: saving_ids split: sum.splits simp del: set_map)
qed (auto simp: loadQuests_done_def toggleQuestSelection_def selectAll_def clearSelection_def bulk_loaded_def create_quest_page_def
       createQuest_def Let_def QuestFormData.defs)

lemma runs_ids:
  "distinct (ids (qa_store s) @ stamps es) \<Longrightarrow>
    distinct (ids (qa_store (fold admin_run es s))) \<and> set (ids (qa_store (fold admin_run es s))) \<subseteq> set (ids (qa_store s)) \<union> set (stamps es)"
proof (induction es arbitrary: s)
  case (Cons e es)
  then have d: "distinct (ids (qa_store s))" "set (stamps [e]) \<inter> set (ids (qa_store s)) = {}" "distinct (stamps [e] @ stamps es)"
    "set (stamps es) \<inter> set (ids (qa_store s)) = {}" by (auto split: admin_event.splits)
  note one = run_ids [OF d(1,2)]
  have "distinct (ids (qa_store (admin_run e s)) @ stamps es)" using one d(3,4) by (auto simp del: set_map)
  from Cons.IH [OF this] one show ?case by (auto simp del: set_map)
qed simp

text \<open>An event of the page itself keeps a list that is the store the store.\<close>

lemma list_kept:
  assumes "distinct (ids (qa_store s))" and "qa_quests s = qa_store s" and "\<not> elsewhere e"
  shows "qa_quests (admin_run e s) = qa_store (admin_run e s)"
proof (cases e)
  case (StatusChanged now i st)
  with assms(2) status_change_list(1) [OF assms(1)] show ?thesis by (auto simp: handleStatusChange_def split: sum.splits)
next
  case (Deleted i)
  with assms(2) deletion_list [OF assms(1)] show ?thesis by (auto simp: handleDelete_def split: sum.splits)
qed (use assms in \<open>simp_all add: loadQuests_done_def toggleQuestSelection_def selectAll_def clearSelection_def bulk_loaded_def\<close>)

lemma list_kept_run:
  "distinct (ids (qa_store s) @ stamps es) \<Longrightarrow> qa_quests s = qa_store s \<Longrightarrow> list_all (\<lambda>e. \<not> elsewhere e) es \<Longrightarrow>
    qa_quests (fold admin_run es s) = qa_store (fold admin_run es s)"
proof (induction es arbitrary: s)
  case (Cons e es)
  then have d: "distinct (ids (qa_store s))" and e: "\<not> elsewhere e" "set (stamps [e]) \<inter> set (ids (qa_store s)) = {}" by auto
  have "distinct (ids (qa_store (admin_run e s)) @ stamps es)"
    using run_ids [OF d e(2)] Cons.prems(1) by (auto split: admin_event.splits simp del: set_map)
  from Cons.IH [OF this list_kept [OF d Cons.prems(2) e(1)]] Cons.prems(3) show ?case by simp
qed simp

text \<open>
  Claim C39.  The list of the administration is the store once it has been loaded: after any sequence of loads,
  selections, changes of status, deletions, bulk operations, and of quests made and edited on the other pages, the list
  shows exactly the quests of the store as they are, in its order, if since a load no bulk operation has run and no
  quest has been made or edited elsewhere.  And the identifiers of the quests stay different from each other.  This
  is for identifiers that differ at the start and from those of the quests made, which are times of the clock.
\<close>
theorem admin_list_is_store:
  assumes "distinct (ids qs @ stamps (before @ l # after))" and "loads l" and "list_all (\<lambda>e. \<not> elsewhere e) after"
  shows "let s = fold admin_run (before @ l # after) (useQuestManagement qs)
    in qa_quests s = qa_store s \<and> distinct (ids (qa_store s))"
proof -
  let ?s = "fold admin_run before (useQuestManagement qs)"
  have start: "qa_store (useQuestManagement qs) = qs" by (simp add: useQuestManagement_def)
  have l: "stamps [l] = []" "qa_store (admin_run l s) = qa_store s" "qa_quests (admin_run l s) = qa_store s" for s
    using assms(2) by (cases l; simp add: loadQuests_done_def bulk_loaded_def clearSelection_def)+
  have "distinct (ids (qa_store (useQuestManagement qs)) @ stamps before)" using assms(1) by (auto simp: start simp del: set_map)
  from runs_ids [OF this] have "distinct (ids (qa_store ?s)) \<and> set (ids (qa_store ?s)) \<subseteq> set (ids qs) \<union> set (stamps before)"
    by (simp only: start)
  then have "distinct (ids (qa_store (admin_run l ?s)) @ stamps after)" using assms(1) by (auto simp: l simp del: set_map)
  from list_kept_run [OF this] assms(3) have "qa_quests (fold admin_run (before @ l # after) (useQuestManagement qs))
      = qa_store (fold admin_run (before @ l # after) (useQuestManagement qs))" by (simp add: l)
  moreover have "distinct (ids (qa_store (fold admin_run (before @ l # after) (useQuestManagement qs))))"
    using runs_ids [of "useQuestManagement qs" "before @ l # after"] assms(1) by (simp add: start del: fold_append fold.simps)
  ultimately show ?thesis unfolding Let_def by blast
qed

theorem admin_list_is_store_witness:
  "qa_quests (fold admin_run [Created ''7'' ''now'' padded_quest, Loaded, Deleted ''2''] (useQuestManagement [mock_quest ''2'', mock_quest ''3'']))
     = [mock_quest ''3'', fst (createQuest ''7'' ''now'' padded_quest [])]"
proof -
  let ?s = "fold admin_run ([Created ''7'' ''now'' padded_quest] @ Loaded # [Deleted ''2'']) (useQuestManagement [mock_quest ''2'', mock_quest ''3''])"
  have s: "qa_store ?s = [mock_quest ''3'', fst (createQuest ''7'' ''now'' padded_quest [])]"
    by (simp add: useQuestManagement_def loadQuests_done_def handleDelete_def deleteQuest_def splice_def create_quest_page_def createQuest_def
        Let_def QuestFormData.defs)
  have "qa_quests ?s = qa_store ?s"
    using admin_list_is_store [of "[mock_quest ''2'', mock_quest ''3'']" "[Created ''7'' ''now'' padded_quest]" Loaded "[Deleted ''2'']", unfolded Let_def]
    by simp
  with s show ?thesis by simp
qed

end
