(* ===== verification/ClientState.thy ===== *)
theory ClientState
  imports ContentFilters
begin

text \<open>
  State the web application keeps in the browser (\<open>src/FrontEnd/my-app\<close>): consent and the tracking it allows
  (\<open>lib/utils/tracking.ts\<close>, \<open>app/providers/AnalyticsProvider.tsx\<close>, \<open>lib/hooks/useAnalytics.ts\<close>), the guided tour
  (\<open>lib/utils/onboarding.ts\<close>, \<open>lib/hooks/useOnboarding.ts\<close>), and the window of page numbers
  (\<open>components/ui/Pagination.tsx\<close>).  The parser of JSON is an argument.
\<close>

subsection \<open>Consent\<close>

definition CONSENT_KEY :: string where
  "CONSENT_KEY = ''stellar_earn_analytics_consent''"

definition CONSENT_VERSION :: string where
  "CONSENT_VERSION = ''1''"

definition json_property :: "string \<Rightarrow> json \<Rightarrow> json option" where
  "json_property k v = (case v of JObj ps \<Rightarrow> map_of ps k | _ \<Rightarrow> None)"

text \<open>A status that is stored is passed on whatever it is; \<open>None\<close> stands for \<open>undefined\<close>.\<close>

definition getConsent :: "(string \<Rightarrow> json option) \<Rightarrow> bool \<Rightarrow> (string \<rightharpoonup> string) \<Rightarrow> json option" where
  "getConsent parse window storage =
     (if \<not> window then Some (JStr ''pending'')
      else if \<not> truthy (storage CONSENT_KEY) then Some (JStr ''pending'')
      else (case parse (the (storage CONSENT_KEY)) of
              None \<Rightarrow> Some (JStr ''pending'')
            | Some JNull \<Rightarrow> Some (JStr ''pending'')
            | Some v \<Rightarrow> if json_property ''version'' v \<noteq> Some (JStr CONSENT_VERSION) then Some (JStr ''pending'') else json_property ''status'' v))"

definition consent_record :: "string \<Rightarrow> json" where
  "consent_record status = JObj [(''status'', JStr status), (''version'', JStr CONSENT_VERSION)]"

definition setConsent :: "bool \<Rightarrow> string \<Rightarrow> (string \<rightharpoonup> string) \<Rightarrow> (string \<rightharpoonup> string)" where
  "setConsent window status storage =
     (if \<not> window then storage else storage(CONSENT_KEY \<mapsto> json_stringify (consent_record status)))"

definition PII_KEYS :: "string list" where
  "PII_KEYS = [''email'', ''userId'', ''address'', ''wallet'', ''name'', ''ip'']"

definition sanitizePayload :: "(string \<times> json option) list option \<Rightarrow> (string \<times> json) list option" where
  "sanitizePayload payload =
     (case payload of
        None \<Rightarrow> None
      | Some kvs \<Rightarrow>
          (let out = [(k, the v). (k, v) \<leftarrow> kvs, lower k \<notin> set PII_KEYS, v \<noteq> None \<and> v \<noteq> Some JNull]
           in if out = [] then None else Some out))"

datatype provider_call = PageView string "string option" | Event string "(string \<times> json) list option"

record tracking =
  tr_consent :: "json option"
  tr_storage :: "string \<rightharpoonup> string"
  tr_pageViews :: "string \<Rightarrow> nat"
  tr_events :: "string \<Rightarrow> nat"
  tr_provider :: "provider_call list"

definition granted :: "tracking \<Rightarrow> bool" where
  "granted s \<longleftrightarrow> tr_consent s = Some (JStr ''granted'')"

definition recordPageViewForAdmin :: "string \<Rightarrow> tracking \<Rightarrow> tracking" where
  "recordPageViewForAdmin path s = s\<lparr>tr_pageViews := (tr_pageViews s)(path := tr_pageViews s path + 1)\<rparr>"

definition recordEventForAdmin :: "string \<Rightarrow> tracking \<Rightarrow> tracking" where
  "recordEventForAdmin name s = s\<lparr>tr_events := (tr_events s)(name := tr_events s name + 1)\<rparr>"

text \<open>The provider's operations, and the hook's, which checks the consent again and hands on what is left of the payload.\<close>

definition provider_trackEvent :: "string \<Rightarrow> (string \<times> json) list option \<Rightarrow> tracking \<Rightarrow> tracking" where
  "provider_trackEvent name payload s =
     (if granted s then recordEventForAdmin name (s\<lparr>tr_provider := tr_provider s @ [Event name payload]\<rparr>) else s)"

definition provider_trackPageView :: "string \<Rightarrow> string option \<Rightarrow> tracking \<Rightarrow> tracking" where
  "provider_trackPageView path title s =
     (if granted s then recordPageViewForAdmin path (s\<lparr>tr_provider := tr_provider s @ [PageView path title]\<rparr>) else s)"

definition trackEvent :: "string \<Rightarrow> (string \<times> json option) list option \<Rightarrow> tracking \<Rightarrow> tracking" where
  "trackEvent name payload s = (if \<not> granted s then s else provider_trackEvent name (sanitizePayload payload) s)"

definition trackPageView :: "string \<Rightarrow> string option \<Rightarrow> tracking \<Rightarrow> tracking" where
  "trackPageView path title s = (if \<not> granted s then s else provider_trackPageView path title s)"

definition provider_setConsent :: "string \<Rightarrow> tracking \<Rightarrow> tracking" where
  "provider_setConsent status s = s\<lparr>tr_storage := setConsent True status (tr_storage s), tr_consent := Some (JStr status)\<rparr>"

subsection \<open>The guided tour\<close>

record OnboardingState =
  on_completed :: bool
  on_skipped :: bool
  on_hasStarted :: bool
  on_currentStepIndex :: nat
  on_completedStepIds :: "string list"
  on_tutorialMode :: bool

definition defaultOnboardingState :: OnboardingState where
  "defaultOnboardingState =
     \<lparr> on_completed = False, on_skipped = False, on_hasStarted = False, on_currentStepIndex = 0, on_completedStepIds = [], on_tutorialMode = True \<rparr>"

definition onboardingSteps :: "string list" where
  "onboardingSteps =
     [''dashboard'', ''stats'', ''dashboard-active-quests'', ''quests-header'', ''quests-filters'', ''quests-list'',
      ''submissions-header'', ''submissions-summary'', ''submissions-filters'', ''submissions-table'', ''settings-overview'',
      ''notifications-header'', ''wallet'']"

definition step_at :: "nat \<Rightarrow> string option" where
  "step_at i = (if i < length onboardingSteps then Some (onboardingSteps ! i) else None)"

definition rounded_percent :: "nat \<Rightarrow> nat \<Rightarrow> nat" where
  "rounded_percent n m = (200 * n + m) div (2 * m)"

definition tour_progress :: "OnboardingState \<Rightarrow> nat" where
  "tour_progress s = rounded_percent (length (on_completedStepIds s)) (length onboardingSteps)"

definition tour_start :: "OnboardingState \<Rightarrow> OnboardingState" where
  "tour_start s = s\<lparr>on_hasStarted := True, on_skipped := False, on_completed := False, on_currentStepIndex := 0\<rparr>"

definition setTutorialMode :: "bool \<Rightarrow> OnboardingState \<Rightarrow> OnboardingState" where
  "setTutorialMode b s = s\<lparr>on_tutorialMode := b\<rparr>"

definition with_step :: "OnboardingState \<Rightarrow> string list" where
  "with_step s =
     (case step_at (on_currentStepIndex s) of
        None \<Rightarrow> on_completedStepIds s
      | Some i \<Rightarrow> if i \<in> set (on_completedStepIds s) then on_completedStepIds s else on_completedStepIds s @ [i])"

definition markCurrentStepComplete :: "OnboardingState \<Rightarrow> OnboardingState" where
  "markCurrentStepComplete s = s\<lparr>on_completedStepIds := with_step s\<rparr>"

definition nextStep :: "OnboardingState \<Rightarrow> OnboardingState" where
  "nextStep s =
     (let n = on_currentStepIndex s + 1
      in if length onboardingSteps \<le> n
         then s\<lparr>on_completed := True, on_hasStarted := False, on_currentStepIndex := length onboardingSteps - 1, on_completedStepIds := with_step s\<rparr>
         else s\<lparr>on_currentStepIndex := n, on_completedStepIds := with_step s\<rparr>)"

definition previousStep :: "OnboardingState \<Rightarrow> OnboardingState" where
  "previousStep s = s\<lparr>on_currentStepIndex := on_currentStepIndex s - 1\<rparr>"

definition tour_skip :: "OnboardingState \<Rightarrow> OnboardingState" where
  "tour_skip s = s\<lparr>on_skipped := True, on_hasStarted := False\<rparr>"

definition tour_complete :: "OnboardingState \<Rightarrow> OnboardingState" where
  "tour_complete s =
     s\<lparr>on_completed := True, on_skipped := False, on_hasStarted := False, on_completedStepIds := onboardingSteps,
       on_currentStepIndex := length onboardingSteps - 1\<rparr>"

definition tour_restart :: "OnboardingState \<Rightarrow> OnboardingState" where
  "tour_restart s = defaultOnboardingState\<lparr>on_tutorialMode := on_tutorialMode s, on_hasStarted := True\<rparr>"

datatype tour_event = TStart | TMode bool | TMark | TNext | TBack | TSkip | TComplete | TRestart

fun tour_run :: "tour_event \<Rightarrow> OnboardingState \<Rightarrow> OnboardingState" where
  "tour_run TStart s = tour_start s"
| "tour_run (TMode b) s = setTutorialMode b s"
| "tour_run TMark s = markCurrentStepComplete s"
| "tour_run TNext s = nextStep s"
| "tour_run TBack s = previousStep s"
| "tour_run TSkip s = tour_skip s"
| "tour_run TComplete s = tour_complete s"
| "tour_run TRestart s = tour_restart s"

subsection \<open>Page numbers\<close>

definition startPage :: "int \<Rightarrow> int \<Rightarrow> int" where
  "startPage currentPage totalPages =
     (let start = max 1 (currentPage - 3); stop = min totalPages (start + 6)
      in if stop - start < 6 then max 1 (stop - 6) else start)"

definition endPage :: "int \<Rightarrow> int \<Rightarrow> int" where
  "endPage currentPage totalPages = min totalPages (max 1 (currentPage - 3) + 6)"

definition page_window :: "int \<Rightarrow> int \<Rightarrow> int list" where
  "page_window currentPage totalPages = [startPage currentPage totalPages..endPage currentPage totalPages]"

end
