(* ===== verification/ClientStateProps.thy ===== *)
theory ClientStateProps
  imports ClientState
begin

text \<open>
  Properties of the state in the browser: what is tracked with and without consent, where the guided tour can stand, and
  which page numbers are shown.
\<close>

subsection \<open>Consent\<close>

text \<open>A consent that has been set is found again, whatever the parser, as long as it reads back what the application wrote.\<close>

lemma consent_roundtrip:
  assumes "parse (json_stringify (consent_record status)) = Some (consent_record status)" and "json_stringify (consent_record status) \<noteq> []"
  shows "getConsent parse True (setConsent True status storage) = Some (JStr status)"
  using assms by (simp add: getConsent_def setConsent_def) (simp add: consent_record_def json_property_def)

text \<open>The names that are removed, spelled out: five names, in any mix of letter cases.\<close>

definition personal_name :: "string \<Rightarrow> bool" where
  "personal_name k \<longleftrightarrow> spelled k ''email'' \<or> spelled k ''address'' \<or> spelled k ''wallet'' \<or> spelled k ''name'' \<or> spelled k ''ip''"

text \<open>A name in the list that is written with a capital letter is never met by a name folded to lower case.\<close>

lemma lower_no_capital: "c \<in> set (lower k) \<Longrightarrow> c \<noteq> CHR ''I''"
  by (auto simp: lower_def lower_char_def Let_def of_char_of dest: arg_cong [of _ _ "of_char :: char \<Rightarrow> nat"])

lemma pii_keys: "lower k \<in> set PII_KEYS \<longleftrightarrow> personal_name k"
proof -
  have "lower k \<noteq> ''userId''" using lower_no_capital [of "CHR ''I''" k] by auto
  moreover have "lower k = ''email'' \<longleftrightarrow> spelled k ''email''" "lower k = ''address'' \<longleftrightarrow> spelled k ''address''"
    "lower k = ''wallet'' \<longleftrightarrow> spelled k ''wallet''" "lower k = ''name'' \<longleftrightarrow> spelled k ''name''" "lower k = ''ip'' \<longleftrightarrow> spelled k ''ip''"
    by (rule lower_spelled; simp)+
  ultimately show ?thesis by (simp add: PII_KEYS_def personal_name_def)
qed

lemma userId_not_removed: "\<not> personal_name ''userId''"
  unfolding pii_keys [symmetric] by code_simp

definition handed_on :: "(string \<times> json) list option \<Rightarrow> (string \<times> json) set" where
  "handed_on payload = (case payload of None \<Rightarrow> {} | Some kvs \<Rightarrow> set kvs)"

lemma payload_entries:
  "handed_on (sanitizePayload (Some kvs)) = {(k, v). (k, Some v) \<in> set kvs \<and> v \<noteq> JNull \<and> \<not> personal_name k}"
proof -
  have "handed_on (sanitizePayload (Some kvs)) = set [(k, the v). (k, v) \<leftarrow> kvs, lower k \<notin> set PII_KEYS, v \<noteq> None \<and> v \<noteq> Some JNull]"
    by (simp add: sanitizePayload_def handed_on_def Let_def del: set_concat)
  then show ?thesis by (auto simp: pii_keys split: if_splits)
qed

text \<open>
  Claim C40.  What is tracked.  Unless consent is given, neither an event nor a view of a page is handed to the
  provider or counted.  With consent a view of a page is handed on and counted; and an event is counted and handed on with
  exactly those entries of its payload that have a value and whose name is not \<open>email\<close>, \<open>address\<close>, \<open>wallet\<close>,
  \<open>name\<close> or \<open>ip\<close>, in any spelling.  The sixth name of the list of personal data, \<open>userId\<close>, removes nothing, since the
  names are folded to lower case before they are looked up and it has a capital letter: contrary to the comment
  on the list, the identifier of the user is handed on.
\<close>
theorem tracking_exact:
  "(\<not> granted s \<longrightarrow> trackEvent name (Some kvs) s = s \<and> trackPageView path title s = s)
   \<and> (granted s \<longrightarrow>
        tr_provider (trackPageView path title s) = tr_provider s @ [PageView path title]
        \<and> tr_pageViews (trackPageView path title s) path = tr_pageViews s path + 1
        \<and> tr_events (trackEvent name (Some kvs) s) name = tr_events s name + 1
        \<and> (\<exists>out. tr_provider (trackEvent name (Some kvs) s) = tr_provider s @ [Event name out]
             \<and> handed_on out = {(k, v). (k, Some v) \<in> set kvs \<and> v \<noteq> JNull \<and> \<not> personal_name k}
             \<and> (\<forall>v. (''userId'', Some v) \<in> set kvs \<and> v \<noteq> JNull \<longrightarrow> (''userId'', v) \<in> handed_on out)))
   \<and> ''userId'' \<in> set PII_KEYS"
proof -
  have "''userId'' \<in> set PII_KEYS" by (simp add: PII_KEYS_def)
  moreover have "tr_provider (trackEvent name (Some kvs) s) = tr_provider s @ [Event name (sanitizePayload (Some kvs))]" if "granted s"
    using that by (simp add: trackEvent_def provider_trackEvent_def recordEventForAdmin_def)
  ultimately show ?thesis using userId_not_removed
    by (auto simp: payload_entries trackEvent_def trackPageView_def provider_trackEvent_def recordEventForAdmin_def provider_trackPageView_def
        recordPageViewForAdmin_def)
qed

definition consenting :: tracking where
  "consenting = \<lparr> tr_consent = Some (JStr ''granted''), tr_storage = Map.empty, tr_pageViews = (\<lambda>p. 0), tr_events = (\<lambda>n. 0), tr_provider = [] \<rparr>"

theorem tracking_exact_witness:
  "\<exists>out. tr_provider (trackEvent ''quest_view'' (Some [(''userId'', Some (JStr ''u1'')), (''Email'', Some (JStr ''a@b''))]) consenting) = [Event ''quest_view'' out]
    \<and> handed_on out = {(''userId'', JStr ''u1'')}"
proof -
  have c: "granted consenting" "tr_provider consenting = []" by (simp_all add: granted_def consenting_def)
  have p: "personal_name ''Email''" unfolding pii_keys [symmetric] by code_simp
  obtain out where "tr_provider (trackEvent ''quest_view'' (Some [(''userId'', Some (JStr ''u1'')), (''Email'', Some (JStr ''a@b''))]) consenting) = [Event ''quest_view'' out]"
    "handed_on out = {(k, v). (k, Some v) \<in> set [(''userId'', Some (JStr ''u1'')), (''Email'', Some (JStr ''a@b''))] \<and> v \<noteq> JNull \<and> \<not> personal_name k}"
    using tracking_exact [of consenting "''quest_view''" "[(''userId'', Some (JStr ''u1'')), (''Email'', Some (JStr ''a@b''))]"] c
    by (simp only: append_Nil) blast
  then show ?thesis using p userId_not_removed by (intro exI [of _ out]) auto
qed

subsection \<open>The guided tour\<close>

definition tour_ok :: "OnboardingState \<Rightarrow> bool" where
  "tour_ok s \<longleftrightarrow> on_currentStepIndex s < length onboardingSteps \<and> distinct (on_completedStepIds s)
     \<and> set (on_completedStepIds s) \<subseteq> set onboardingSteps \<and> (on_completed s \<longrightarrow> \<not> on_hasStarted s)"

lemma steps_distinct: "distinct onboardingSteps" "length onboardingSteps = 13"
  by code_simp+

lemma with_step_ok: "tour_ok s \<Longrightarrow> distinct (with_step s) \<and> set (with_step s) \<subseteq> set onboardingSteps"
  by (auto simp: tour_ok_def with_step_def step_at_def)

lemma tour_ok_run: "tour_ok s \<Longrightarrow> tour_ok (tour_run e s)"
proof (cases e)
  case TNext
  assume "tour_ok s"
  with with_step_ok [of s] TNext steps_distinct show ?thesis by (auto simp: tour_ok_def nextStep_def Let_def)
next
  case TMark
  assume "tour_ok s"
  with with_step_ok [of s] TMark show ?thesis by (auto simp: tour_ok_def markCurrentStepComplete_def)
qed (auto simp: tour_ok_def tour_start_def setTutorialMode_def previousStep_def tour_skip_def tour_complete_def tour_restart_def
    defaultOnboardingState_def steps_distinct)

lemma tour_progress_bound: "tour_ok s \<Longrightarrow> tour_progress s \<le> 100"
proof -
  assume "tour_ok s"
  then have "card (set (on_completedStepIds s)) \<le> card (set onboardingSteps)" "distinct (on_completedStepIds s)"
    by (auto simp: tour_ok_def intro: card_mono)
  then have "length (on_completedStepIds s) \<le> 13" using steps_distinct by (simp add: distinct_card)
  then show ?thesis by (simp add: tour_progress_def rounded_percent_def steps_distinct)
qed

text \<open>
  Wherever its operations lead from the state it starts in, the guided tour points to one of its thirteen steps, has
  completed each step at most once and no others, reports a progress of at most a hundred percent, and is never both
  completed and under way.
\<close>
theorem tour_invariant:
  "let s = fold tour_run es defaultOnboardingState
   in on_currentStepIndex s < 13 \<and> distinct (on_completedStepIds s) \<and> set (on_completedStepIds s) \<subseteq> set onboardingSteps
      \<and> tour_progress s \<le> 100 \<and> \<not> (on_completed s \<and> on_hasStarted s)"
proof -
  have "tour_ok s \<Longrightarrow> tour_ok (fold tour_run es s)" for s by (induction es arbitrary: s) (simp_all add: tour_ok_run)
  moreover have "tour_ok defaultOnboardingState" by (simp add: tour_ok_def defaultOnboardingState_def steps_distinct)
  ultimately have "tour_ok (fold tour_run es defaultOnboardingState)" by blast
  with tour_progress_bound [OF this] show ?thesis by (auto simp: tour_ok_def Let_def steps_distinct)
qed

text \<open>A tour that has been skipped and is then walked to its end is both skipped and completed.\<close>

lemma skipped_and_completed:
  "on_currentStepIndex s = 12 \<Longrightarrow> on_skipped (nextStep (tour_skip s)) \<and> on_completed (nextStep (tour_skip s))"
  by (simp add: nextStep_def tour_skip_def Let_def steps_distinct)

subsection \<open>Page numbers\<close>

text \<open>
  For a page that exists the window of page numbers consists of as many successive numbers as there are pages, up to
  seven, all of them pages that exist and the page among them.
\<close>
theorem page_window_exact:
  assumes "1 \<le> currentPage" and "currentPage \<le> totalPages"
  shows "int (length (page_window currentPage totalPages)) = min 7 totalPages
    \<and> currentPage \<in> set (page_window currentPage totalPages) \<and> (\<forall>p \<in> set (page_window currentPage totalPages). 1 \<le> p \<and> p \<le> totalPages)"
  using assms by (auto simp: page_window_def startPage_def endPage_def Let_def min_def max_def)

theorem page_window_exact_witness: "5 \<in> set (page_window 5 20)"
  using page_window_exact [of 5 20] by simp

end
