(* ===== verification/Spec2Isabelle.thy ===== *)
theory Spec2Isabelle
  imports PayoutsProps MultiSigProps SubmissionsProps ModerationProps QuestsProps UsersProps
    MultiSigPayoutProps AuthProps WebsocketProps WebhooksProps SecurityProps JobsProps EmailRun
    ObservabilityProps EventLogProps LogSanitizerProps AggregationProps AnalyticsProps ReportsProps
    ValidationProps ApiClientProps ApiHooksProps SubmissionFormProps QuestAdminProps ClientStateProps
begin

text \<open>
  StellarEarn: the services of the back end, and the logic of the web application.

  The program under \<open>BackEnd/src\<close> is a NestJS server of a platform where users solve quests, verifiers
  decide about their submissions, and rewards are paid on the Stellar network.  Each module has entities
  (the rows of its tables), one or two services with the operations, and controllers that mostly forward to
  them.  The services meet in five places: the tables, the event emitter, the queues of the job service, the
  cache manager, and the middleware every request passes.  This development models the services that carry
  the platform's own logic and proves what makes them correct, and, where the code does not do what it means
  to, what it does instead.  The program under \<open>FrontEnd/my-app\<close> is the Next.js application that calls these
  services; of it the parts with state and decisions of their own are modelled: the HTTP client, the hooks,
  two forms, the administration of quests, and what it keeps in the browser.

  Conventions (theories \<open>Prelude\<close> and \<open>Repository\<close>).
  \<^item> A method is a function from its arguments and the state it touches to a result and a new state; a
    thrown exception is the result \<open>Inl e\<close>, with the state as the writes before the throw left it.
  \<^item> A table is the list of its rows in an order nothing is assumed of; \<open>findOne\<close> is the first row that
    satisfies a condition, \<open>save\<close> replaces the row of the same key or appends, a conditional update changes
    exactly the rows that satisfy it and counts them.  The locale \<open>repository\<close>, and \<open>conditional_repository\<close>
    above it, state what the services rely on; every component interprets them at its own tables.
  \<^item> What a call takes from its surroundings - the clock, fresh ids, randomness, the outcome of a provider,
    whether the database rejects a save - is an argument, usually a record \<open>..._env\<close>.
  \<^item> Times are milliseconds, amounts of payouts whole numbers of the seventh decimal; numbers of JavaScript
    are unbounded integers or rationals, with the range of the \<open>int\<close> columns written out where a sum can
    leave it (\<open>int4\<close> in \<open>Users\<close>), and 32-bit words where the code works on bits (\<open>Security\<close>).
  \<^item> What the services use of the language and its library is modelled once: \<open>TextCodec\<close> (hexadecimal and
    base 64, number texts), \<open>Json\<close> (JSON values), \<open>Regex\<close> (regular expressions, matched by backtracking, and
    replacement of all matches).

  Components and their theories.
  \<^item> \<open>Payouts\<close>, \<open>PayoutsRun\<close>, \<open>PayoutsProps\<close>: \<open>modules/payouts\<close>.  \<open>claimPayout\<close>, \<open>processPayout\<close> and
    \<open>retryPayout\<close> are split where they await the database, so that \<open>payout_step\<close> interleaves them, while
    \<open>serial_reachable\<close> runs them one after the other and names the payouts that have lost a save.  Proved: one
    payment of each other payout when calls are serial, two when two claims interleave; no retry is ever
    scheduled; what completed and failed rows hold; claims, histories (the order of rows created at the same time is
    an argument, the database's choice for each query) and statistics.
  \<^item> \<open>MultiSig\<close>, \<open>MultiSigRun\<close>, \<open>MultiSigProps\<close>: \<open>modules/stellar/multisig\<close>, the wallet service.  Proved
    over the reachable states: the quorum behind an approval, one vote per signer, finality, and the ways a
    transaction gets stuck, is signed late or by a removed signer.  A step is a whole call: overlapping calls are
    left out.
  \<^item> \<open>MultiSigPayout\<close>, \<open>MultiSigPayoutProps\<close>: the service that puts payouts behind a wallet, over the two
    components above: an escrow leaves the payout claimable, a rejection event reopens a paid payout.
  \<^item> \<open>Entities\<close>: the user, quest and submission rows, and the level and rate of a user.
  \<^item> \<open>Notifications\<close>, \<open>NotificationsProps\<close>: \<open>modules/notifications\<close>, from the preference to the delivery
    job and its log.
  \<^item> \<open>Submissions\<close>, \<open>SubmissionsProps\<close>: \<open>modules/submissions\<close>.  A decision is a load with its checks and a
    conditional update; \<open>sub_step\<close> interleaves them.  Proved: decisions are taken once and exclude each
    other, no caller that has an identifier is ever authorised, and what a failing route leaves behind.
  \<^item> \<open>ContentFilters\<close>, \<open>Moderation\<close>, \<open>ModerationProps\<close>: \<open>modules/moderation\<close>: keyword, pattern, image and
    external scores, the verdict, the cases and their appeals.
  \<^item> \<open>Cache\<close>, \<open>CacheProps\<close>: \<open>modules/cache\<close>.  The cache manager is third-party code: a record of its three
    calls, any of which may reject.  The locale \<open>lossy_backend\<close> is the contract of a manager that may evict
    entries and reject reads and writes (\<open>small_backend\<close> is an instance), \<open>cache_backend\<close> that of one that does
    neither (\<open>memory_backend\<close>).  The locales \<open>answering_cache\<close> and \<open>cache_service\<close> are what clients rely on; each
    \<open>sublocale\<close> shows that the service keeps it on every such manager.
  \<^item> \<open>Quests\<close>, \<open>QuestsProps\<close>: \<open>modules/quests\<close> on its table, the cache and the moderation service; the
    locale \<open>quest_cache\<close> carries the coherence of the cached quests over all runs and restarts on a lossy
    manager, and \<open>reliable_quest_cache\<close> that of the cached pages.
  \<^item> \<open>Users\<close>, \<open>UsersProps\<close>: \<open>modules/users\<close>, which talks to the cache manager directly: levels follow
    experience, the streak is the maximal run of days, completed quests are never counted, the leaderboard
    never answers.
  \<^item> \<open>Auth\<close>, \<open>AuthProps\<close>: \<open>modules/auth\<close>: challenge texts, login, access and refresh tokens.  Proved: a
    refresh token works once when refreshes are serial and twice when two interleave; a signed challenge can
    be replayed while it is fresh; the time of a challenge is read back.
  \<^item> \<open>Websocket\<close>, \<open>WebsocketGateway\<close>, \<open>WebsocketProps\<close>: \<open>modules/websocket\<close>.  The locale
    \<open>connection_registry\<close> is the relation of sockets and users the two maps of the service implement
    (\<open>registry_refines\<close>); messages reach exactly the registered sockets; the exact rate limit per minute.
  \<^item> \<open>Webhooks\<close>, \<open>WebhooksProps\<close>: \<open>modules/webhooks\<close>: signatures, event handlers and the log.
  \<^item> \<open>Security\<close>, \<open>SecurityMiddleware\<close>, \<open>SecurityProps\<close>: \<open>common/utils/security.utils.ts\<close> and the middleware
    and guard built on it: address rules, request signatures with nonces, CSRF tokens, sanitising, bots,
    suspicious input and the block list.
  \<^item> \<open>JobLog\<close>, \<open>JobScheduler\<close>, \<open>JobsController\<close>, \<open>JobsProps\<close>: \<open>modules/jobs\<close>: the job log, the cron
    schedules, the queues and the routes over the three.
  \<^item> \<open>EmailTemplates\<close>, \<open>Email\<close>, \<open>EmailProps\<close>, \<open>EmailRun\<close>: \<open>modules/email\<close>: the template engine, the
    service with its delivery log and unsubscribe list, its worker on the queue, and the routes.
  \<^item> \<open>Observability\<close>, \<open>ObservabilityProps\<close>: the metrics and the alerts of \<open>common/services\<close> and what the
    logging interceptor reports to them.
  \<^item> \<open>EventLog\<close>, \<open>EventLogProps\<close>: \<open>events\<close>: the event store, the listener that fills it, replay, the dead
    letter queue, and the retry decorator.
  \<^item> \<open>LogSanitizer\<close>, \<open>LogSanitizerProps\<close>: \<open>common/logger/sanitize.util.ts\<close> on a store of objects with
    sharing and cycles.
  \<^item> \<open>Calendar\<close>, \<open>AnalyticsTools\<close>, \<open>AnalyticsToolsProps\<close>: the calendar of \<open>Date\<close> in UTC, and the utilities of
    \<open>modules/analytics\<close>: rates, ranges of dates, series and the exporter.  The loop over the periods of a
    range is a \<open>partial_function\<close> (\<open>walk_dates\<close>): \<open>None\<close> is a loop that never ends, and
    \<open>date_ranges_terminate\<close> says when that is; tables can be read back (\<open>csv_roundtrip\<close>).
  \<^item> \<open>Aggregation\<close>, \<open>AggregationProps\<close>: the aggregators and the service that stores their snapshots, as they are
    wired, and the loop of their base class with the repository none of them passes to it.
  \<^item> \<open>AnalyticsServices\<close>, \<open>UserAnalytics\<close>, \<open>AnalyticsProps\<close>: the answers about quests, the platform and users, and
    the cache in front of them: the figures add up and the series are complete.
  \<^item> \<open>Reports\<close>, \<open>ReportsProps\<close>: the life cycle of the reports of the analytics module.
  \<^item> \<open>Validation\<close>, \<open>ValidationProps\<close>: the validators of \<open>common\<close>, the pipe, and the filters that answer failed
    requests: flattening of error trees, what the sanitiser of texts lets through, what an answer discloses.
  \<^item> \<open>ApiClient\<close>, \<open>ApiClientProps\<close>: \<open>lib/api/client.ts\<close> and \<open>lib/utils\<close> of the web application.  \<open>api_step\<close> is the
    machine of calls, answers and refreshes of the token; \<open>client_ok\<close> its invariant: one refresh at a time, no
    request lost in the queue.
  \<^item> \<open>ApiHooks\<close>, \<open>ApiHooksProps\<close>: \<open>lib/hooks/useApi.ts\<close> and \<open>useErrorHandler.ts\<close>.  \<open>page_step\<close> runs a list with
    pages against a server; the items refine the pages of the server in order.
  \<^item> \<open>SubmissionForm\<close>, \<open>SubmissionFormProps\<close>: the form of a submission, from its fields to the request.
    \<open>wizard_step\<close> has a flag for a page that keeps to what the hook tells it; only such a page sends valid
    proofs one at a time, and a large file not even then.
  \<^item> \<open>QuestAdmin\<close>, \<open>QuestAdminProps\<close>: form, store and list of the administration of quests: bulk operations are
    exact, down to the quest whose time of update they touch by mistake, and a list that has been loaded is the store
    until something changes the store elsewhere.
  \<^item> \<open>ClientState\<close>, \<open>ClientStateProps\<close>: consent and tracking, the guided tour, page numbers.

  How the proofs are organised.  The first part of each \<open>...Props\<close> (or \<open>...Run\<close>) theory gives the step
  relation of the component, the frame lemmas of its operations (\<open>frame_simps\<close>), and one preservation lemma
  per operation for the invariant; the properties follow by rule induction.  Bundles such as
  \<open>payout_eval\<close>, \<open>ms_eval\<close> or \<open>users_eval\<close> evaluate the definitions at the concrete states of the witnesses.

  Bounds and termination.  Every definition is total but \<open>walk_dates\<close>, where not ending is a value.  Loops are recursions over lists (the longest, the retry
  job, over at most ten rows); the retry decorator recurses on the attempts that remain (\<open>retry_from\<close>, a
  measure), and so does the repetition of the HTTP client (\<open>retry_loop\<close>); the integer root counts up to its
  argument.  Two recursions count a depth down as the code counts
  it up: the deep sanitiser of \<open>Security\<close> by its configured depth, and the log sanitiser by eleven levels,
  which is one more than its maximal depth, so that it ends also on cyclic objects.

  Parameters.  The Stellar transfer, the push, mail and webhook providers, the external moderation service,
  the checks of key pairs and signatures, the keyed hash and the token library, \<open>JSON.stringify\<close> and the text
  of a number that is no integer, the cron library, whether a queue accepts a job, URL parsing of the
  platform's library, and the cache manager are arguments; a hypothesis about them is stated where one is
  needed, and each such theorem has an instance at a concrete provider.

  For the analytics also the parser of dates, the answers of the library to conditions on columns the entities
  lack or written as plain objects, and of the web application the parser of dates and of JSON are arguments.
  React is reduced to this: the setters update the state, an operation sees the state of the last rendering,
  and the effect runs after the update that asks for it; axios and the server are the steps of \<open>api_step\<close>.

  Not modelled: the processors of the jobs (they simulate their work), configuration, migrations and health
  checks, the Stellar client (network), Nest modules and the routes that only forward, guards and interceptors
  that only call the framework, the markup, mock data and type declarations of the web application and its
  hooks that fetch one thing and keep it, and the Rust contract (another language).  Of the modelled parts:
  \<open>searchUsers\<close>, the notification analytics besides the success rate, the Redis path of the cache locks,
  \<open>sanitizeUrl\<close>, the builder of time series queries, the role distribution of the analytics (a column the
  entity lacks), \<open>formatFileSize\<close> and the levels of the front end (logarithms and powers of floating-point
  numbers).
\<close>

end
